(* ===== verification/VP_Prelude.thy ===== *)
theory VP_Prelude
  imports Main "HOL-Library.Word"
begin

text \<open>
  Shared vocabulary of the development: the machine integer types of the simulator, the
  collections of rewrite rules the component theories add to, the bit-field macros of
  \<^verbatim>\<open>core/common/instr.h\<close> and the bit-level lemmas every component uses.

  A C++ \<^verbatim>\<open>int32_t\<close> and a \<^verbatim>\<open>uint32_t\<close> are both a \<open>32 word\<close>: the type only decides
  which shift, comparison or conversion the source uses, so each use is written out
  (\<open>signed_drop_bit\<close> for \<^verbatim>\<open>>>\<close> on a signed operand, \<open>drop_bit\<close> on an unsigned one,
  \<open><s\<close> for a signed comparison, \<open>scast\<close> and \<open>ucast\<close> for conversions).
\<close>

unbundle bit_operations_syntax

type_synonym u8 = "8 word"
type_synonym u16 = "16 word"
type_synonym u32 = "32 word"
type_synonym u64 = "64 word"

text \<open>
  What a step of the simulator can raise: a \<^verbatim>\<open>SimulationTrap\<close> (\<^verbatim>\<open>core/common/trap.h\<close>: reason,
  \<^verbatim>\<open>mtval\<close>, \<^verbatim>\<open>mtval2_htval\<close>), which the instruction set simulator catches and turns into a
  trap of the simulated hart; a \<^verbatim>\<open>std::runtime_error\<close>, which nothing catches and which ends
  the simulation; a failed \<^verbatim>\<open>assert\<close>, which aborts it; or undefined behaviour of C++
  (an access outside an array, a shift by a negative amount or by the operand's width or more), which the
  source must avoid. \<open>Blocked\<close> is no exception of the source: it says that the thread has
  been suspended by \<^verbatim>\<open>sc_core::wait\<close>, at the point where the operation stopped. A fallible
  operation returns \<open>'a res\<close>, with what stopped it on the left.
\<close>

datatype sim_exn =
    SimulationTrap u32 u64 u64
  | RuntimeError string
  | AssertFailed
  | UndefinedBehaviour
  | Blocked

type_synonym 'a res = "sim_exn + 'a"

definition raise_trap :: "u32 \<Rightarrow> u64 \<Rightarrow> u64 \<Rightarrow> 'a res" where
  "raise_trap exc mtval mtval2_htval = Inl (SimulationTrap exc mtval mtval2_htval)"

definition bind_res :: "'a res \<Rightarrow> ('a \<Rightarrow> 'b res) \<Rightarrow> 'b res" where
  "bind_res r f = (case r of Inl e \<Rightarrow> Inl e | Inr a \<Rightarrow> f a)"

lemma bind_res_simps [simp]:
  "bind_res (Inl e) f = Inl e" "bind_res (Inr a) f = f a"
  by (simp_all add: bind_res_def)

lemma bind_res_eq_Inr [simp]:
  "bind_res r f = Inr b \<longleftrightarrow> (\<exists>a. r = Inr a \<and> f a = Inr b)"
  by (cases r) simp_all

lemma bind_res_eq_Inl:
  "bind_res r f = Inl e \<longleftrightarrow> r = Inl e \<or> (\<exists>a. r = Inr a \<and> f a = Inl e)"
  by (cases r) auto

definition assert_that :: "bool \<Rightarrow> 'a res \<Rightarrow> 'a res" where
  "assert_that b r = (if b then r else Inl AssertFailed)"

lemma assert_that_simps [simp]:
  "assert_that True r = r" "assert_that False r = Inl AssertFailed"
  by (simp_all add: assert_that_def)

lemma assert_that_eq_Inr [simp]: "assert_that b r = Inr a \<longleftrightarrow> b \<and> r = Inr a"
  by (simp add: assert_that_def)

lemma assert_that_eq_Inl:
  "assert_that b r = Inl e \<longleftrightarrow> (b \<and> r = Inl e) \<or> (\<not> b \<and> e = AssertFailed)"
  by (auto simp: assert_that_def)

text \<open>
  An operation on a state \<open>'s\<close> that may stop: unlike with \<open>'a res\<close> the changes made before an
  exception was thrown stay, as they do in the source.
\<close>

type_synonym ('s, 'a) op = "'s \<Rightarrow> 'a res \<times> 's"

definition ret_op :: "'a \<Rightarrow> ('s, 'a) op" where
  "ret_op a = (\<lambda>s. (Inr a, s))"

definition fail_op :: "sim_exn \<Rightarrow> ('s, 'a) op" where
  "fail_op e = (\<lambda>s. (Inl e, s))"

definition lift_op :: "'a res \<Rightarrow> ('s, 'a) op" where
  "lift_op r = (\<lambda>s. (r, s))"

definition bind_op :: "('s, 'a) op \<Rightarrow> ('a \<Rightarrow> ('s, 'b) op) \<Rightarrow> ('s, 'b) op" where
  "bind_op f g = (\<lambda>s. case f s of (Inl e, s') \<Rightarrow> (Inl e, s') | (Inr a, s') \<Rightarrow> g a s')"

definition modify_op :: "('s \<Rightarrow> 's) \<Rightarrow> ('s, unit) op" where
  "modify_op f = (\<lambda>s. (Inr (), f s))"

definition read_op :: "('s \<Rightarrow> ('s, 'a) op) \<Rightarrow> ('s, 'a) op" where
  "read_op f = (\<lambda>s. f s s)"

lemmas op_defs = ret_op_def fail_op_def lift_op_def bind_op_def modify_op_def read_op_def

named_theorems c_imm_defs \<open>immediates of the compressed formats\<close>
named_theorems factory_defs \<open>the instruction factory\<close>
named_theorems instr_consts \<open>numeric values of the opcode, mask and encoding constants\<close>
named_theorems field_defs \<open>definitions of the bit-field accessors\<close>
named_theorems field_bits \<open>bits of the bit-field accessors\<close>
named_theorems decode_defs \<open>the per-opcode parts of the decoder\<close>

section \<open>Bit-field macros of instr.h\<close>

definition BIT_RANGE :: "u32 \<Rightarrow> nat \<Rightarrow> nat \<Rightarrow> u32" where
  "BIT_RANGE instr upper lower =
     instr AND push_bit lower (push_bit (upper - lower + 1) 1 - 1)"

definition BIT_SLICE :: "u32 \<Rightarrow> nat \<Rightarrow> nat \<Rightarrow> u32" where
  "BIT_SLICE instr upper lower = signed_drop_bit lower (BIT_RANGE instr upper lower)"

definition BIT_SINGLE :: "u32 \<Rightarrow> nat \<Rightarrow> u32" where
  "BIT_SINGLE instr pos = instr AND push_bit pos 1"

definition BIT_SINGLE_P1 :: "u32 \<Rightarrow> nat \<Rightarrow> u32" where
  "BIT_SINGLE_P1 instr pos = signed_drop_bit pos (BIT_SINGLE instr pos)"

definition BIT_SINGLE_PN :: "u32 \<Rightarrow> nat \<Rightarrow> nat \<Rightarrow> u32" where
  "BIT_SINGLE_PN instr pos new_pos = push_bit new_pos (signed_drop_bit pos (BIT_SINGLE instr pos))"

definition EXTRACT_SIGN_BIT :: "u32 \<Rightarrow> nat \<Rightarrow> nat \<Rightarrow> u32" where
  "EXTRACT_SIGN_BIT instr pos new_pos =
     signed_drop_bit (31 - new_pos) (push_bit 31 (BIT_SINGLE_P1 instr pos))"

text \<open>
  The macros \<^verbatim>\<open>BIT_SLICE\<close>, \<^verbatim>\<open>BIT_SINGLE_P1\<close> and \<^verbatim>\<open>BIT_SINGLE_PN\<close> applied to an operand
  declared \<^verbatim>\<open>uint32_t\<close> shift logically; the variants ending in \<open>u\<close> are those uses.
\<close>

definition BIT_SLICE_u :: "u32 \<Rightarrow> nat \<Rightarrow> nat \<Rightarrow> u32" where
  "BIT_SLICE_u instr upper lower = drop_bit lower (BIT_RANGE instr upper lower)"

definition BIT_SINGLE_P1_u :: "u32 \<Rightarrow> nat \<Rightarrow> u32" where
  "BIT_SINGLE_P1_u instr pos = drop_bit pos (BIT_SINGLE instr pos)"

definition BIT_SINGLE_PN_u :: "u32 \<Rightarrow> nat \<Rightarrow> nat \<Rightarrow> u32" where
  "BIT_SINGLE_PN_u instr pos new_pos = push_bit new_pos (drop_bit pos (BIT_SINGLE instr pos))"

section \<open>Bits of the macros\<close>

lemma push_bit_one_minus_one: "push_bit n 1 - 1 = (mask n :: 'a::len word)"
  by (simp add: mask_eq_exp_minus_1)

lemma bit_BIT_RANGE [field_bits]:
  "lower \<le> upper \<Longrightarrow> bit (BIT_RANGE w upper lower) n \<longleftrightarrow> lower \<le> n \<and> n \<le> upper \<and> bit w n"
  unfolding BIT_RANGE_def push_bit_one_minus_one
  by (auto simp: bit_simps dest: bit_imp_le_length)

lemma bit_BIT_SINGLE [field_bits]: "bit (BIT_SINGLE w pos) n \<longleftrightarrow> n = pos \<and> bit w n"
  by (auto simp: BIT_SINGLE_def bit_simps dest: bit_imp_le_length)

lemma bit_signed_drop_bit_u32 [field_bits]:
  "bit (signed_drop_bit k (w :: u32)) n \<longleftrightarrow> n < 32 \<and> bit w (if 31 \<le> n + k then 31 else n + k)"
proof (cases "n < 32")
  case True
  then have "bit (signed_drop_bit k w) n = bit w (if 32 - k \<le> n \<and> n < 32 then 31 else k + n)"
    by (simp add: bit_signed_drop_bit_iff)
  moreover have "k + n = 31" if "31 \<le> n + k" "\<not> 32 - k \<le> n"
    using that by linarith
  ultimately show ?thesis
    using True by (auto simp: add.commute)
next
  case False
  then show ?thesis using bit_imp_le_length [of "signed_drop_bit k w" n] by auto
qed

lemma bit_times_2_u32 [field_bits]: "bit ((w :: u32) * 2) n \<longleftrightarrow> 0 < n \<and> n < 32 \<and> bit w (n - 1)"
  by (auto simp: bit_double_iff mult.commute [of w] dest: bit_imp_le_length)

lemma bit_BIT_SLICE_u [field_bits]:
  "lower \<le> upper \<Longrightarrow>
     bit (BIT_SLICE_u w upper lower) n \<longleftrightarrow> n \<le> upper - lower \<and> bit w (lower + n)"
  by (auto simp: BIT_SLICE_u_def bit_simps bit_BIT_RANGE)

lemma bit_BIT_SLICE [field_bits]:
  "lower \<le> upper \<Longrightarrow> upper < 31 \<Longrightarrow>
     bit (BIT_SLICE w upper lower) n \<longleftrightarrow> n \<le> upper - lower \<and> bit w (lower + n)"
  by (auto simp: BIT_SLICE_def bit_signed_drop_bit_u32 bit_BIT_RANGE add.commute)

lemma bit_BIT_SINGLE_P1 [field_bits]:
  "pos < 31 \<Longrightarrow> bit (BIT_SINGLE_P1 w pos) n \<longleftrightarrow> n = 0 \<and> bit w pos"
  by (auto simp: BIT_SINGLE_P1_def bit_signed_drop_bit_u32 bit_BIT_SINGLE)

lemma bit_BIT_SINGLE_P1_u [field_bits]:
  "bit (BIT_SINGLE_P1_u w pos) n \<longleftrightarrow> n = 0 \<and> bit w pos"
  by (auto simp: BIT_SINGLE_P1_u_def bit_simps bit_BIT_SINGLE)

lemma bit_BIT_SINGLE_PN [field_bits]:
  "pos < 31 \<Longrightarrow> bit (BIT_SINGLE_PN w pos np) n \<longleftrightarrow> n = np \<and> n < 32 \<and> bit w pos"
  by (auto simp: BIT_SINGLE_PN_def bit_push_bit_iff bit_signed_drop_bit_u32 bit_BIT_SINGLE)

lemma bit_BIT_SINGLE_PN_u [field_bits]:
  "bit (BIT_SINGLE_PN_u w pos np) n \<longleftrightarrow> n = np \<and> n < 32 \<and> bit w pos"
  by (auto simp: BIT_SINGLE_PN_u_def bit_simps bit_BIT_SINGLE)

lemma bit_EXTRACT_SIGN_BIT [field_bits]:
  "pos < 31 \<Longrightarrow> np \<le> 31 \<Longrightarrow>
     bit (EXTRACT_SIGN_BIT w pos np) n \<longleftrightarrow> np \<le> n \<and> n < 32 \<and> bit w pos"
  by (auto simp: EXTRACT_SIGN_BIT_def bit_push_bit_iff bit_signed_drop_bit_u32 bit_BIT_SINGLE_P1)

section \<open>Evaluating lists at numeral indices\<close>

lemma replicate_numeral: "replicate (numeral k) x = x # replicate (pred_numeral k) x"
  by (simp add: numeral_eq_Suc)

lemma list_update_numeral:
  "(x # xs)[numeral k := v] = x # xs[pred_numeral k := v]"
  by (simp add: numeral_eq_Suc)

section \<open>Comparing 32-bit words bit by bit\<close>

text \<open>
  Two 32-bit words agree when their 32 bits agree: the enumerated form lets the
  simplifier evaluate every bit position of a ground mask.
\<close>

lemma all_less_32_iff:
  "(\<forall>n<32. P n) \<longleftrightarrow>
     P 0 \<and> P 1 \<and> P 2 \<and> P 3 \<and> P 4 \<and> P 5 \<and> P 6 \<and> P 7 \<and> P 8 \<and> P 9 \<and> P 10 \<and> P 11 \<and>
     P 12 \<and> P 13 \<and> P 14 \<and> P 15 \<and> P 16 \<and> P 17 \<and> P 18 \<and> P 19 \<and> P 20 \<and> P 21 \<and>
     P 22 \<and> P 23 \<and> P 24 \<and> P 25 \<and> P 26 \<and> P 27 \<and> P 28 \<and> P 29 \<and> P 30 \<and> P (31::nat)"
proof -
  have "(\<forall>n<32. P n) \<longleftrightarrow> (\<forall>n\<in>{..<32}. P n)"
    by auto
  then show ?thesis
    by (simp add: lessThan_nat_numeral lessThan_Suc ball_Un conj_ac)
qed

lemma u32_eq_iff_bits:
  "(v :: u32) = w \<longleftrightarrow> (\<forall>n<32. bit v n = bit w n)"
  by (auto intro: bit_word_eqI)

end
