(* ===== verification/VP_Memory.thy ===== *)
theory VP_Memory
  imports VP_Prelude
begin

text \<open>
  The memory device of the platform (\<^verbatim>\<open>platform/common/memory.h\<close>), the direct memory
  interface a core uses to bypass the bus (\<^verbatim>\<open>core/common/dmi.h\<close>) and the transactions the
  bus carries (the generic payload of TLM, as far as the sources use it).

  A C++ array is a list of bytes; \<^verbatim>\<open>memcpy\<close> outside it is \<open>UndefinedBehaviour\<close>. Integers are
  stored as the host stores them, in little-endian order.
\<close>

section \<open>Integers as bytes\<close>

primrec le_bytes :: "nat \<Rightarrow> u64 \<Rightarrow> u8 list" where
  "le_bytes 0 v = []"
| "le_bytes (Suc n) v = ucast v # le_bytes n (drop_bit 8 v)"

primrec of_le_bytes :: "u8 list \<Rightarrow> u64" where
  "of_le_bytes [] = 0"
| "of_le_bytes (b # bs) = ucast b OR push_bit 8 (of_le_bytes bs)"

lemma length_le_bytes [simp]: "length (le_bytes n v) = n"
  by (induction n arbitrary: v) simp_all

lemma le_bytes_numeral [simp]:
  "le_bytes (numeral k) v = ucast v # le_bytes (pred_numeral k) (drop_bit 8 v)"
  by (simp add: numeral_eq_Suc)

lemma ucast_or_push_bit_8:
  "ucast (ucast (v :: u64) :: u8) OR push_bit 8 (take_bit k (drop_bit 8 v)) = take_bit (8 + k) v"
  by (rule bit_word_eqI) (auto simp: bit_simps)

lemma of_le_bytes_le_bytes: "of_le_bytes (le_bytes n v) = take_bit (8 * n) v"
  by (induction n arbitrary: v) (simp_all add: ucast_or_push_bit_8)

lemma of_le_bytes_bound: "bit (of_le_bytes bs) k \<Longrightarrow> k < 8 * length bs"
proof (induction bs arbitrary: k)
  case (Cons b bs)
  then have "k < 8 \<or> 8 \<le> k \<and> bit (of_le_bytes bs) (k - 8)"
    by (auto simp: bit_simps dest: bit_imp_le_length)
  with Cons.IH [of "k - 8"] show ?case by auto
qed simp

lemma le_bytes_of_le_bytes: "length bs \<le> 8 \<Longrightarrow> le_bytes (length bs) (of_le_bytes bs) = bs"
proof (induction bs)
  case (Cons b bs)
  have "ucast (ucast b OR push_bit 8 (of_le_bytes bs)) = b"
    by (rule bit_word_eqI) (auto simp: bit_simps)
  moreover have "drop_bit 8 (ucast b OR push_bit 8 (of_le_bytes bs)) = of_le_bytes bs"
    using of_le_bytes_bound [of bs] Cons.prems
    by (intro bit_word_eqI) (fastforce simp: bit_simps dest: bit_imp_le_length)
  ultimately show ?case using Cons by simp
qed simp

section \<open>Copying bytes\<close>

definition memcpy_from :: "u8 list \<Rightarrow> nat \<Rightarrow> nat \<Rightarrow> u8 list res" where
  "memcpy_from a off n =
     (if off + n \<le> length a then Inr (take n (drop off a)) else Inl UndefinedBehaviour)"

definition memcpy_to :: "u8 list \<Rightarrow> nat \<Rightarrow> u8 list \<Rightarrow> u8 list res" where
  "memcpy_to a off src =
     (if off + length src \<le> length a
      then Inr (take off a @ src @ drop (off + length src) a) else Inl UndefinedBehaviour)"

lemma memcpy_to_length: "memcpy_to a off src = Inr a' \<Longrightarrow> length a' = length a"
  by (auto simp: memcpy_to_def split: if_splits)

lemma memcpy_from_length: "memcpy_from a off n = Inr bs \<Longrightarrow> length bs = n"
  by (auto simp: memcpy_from_def split: if_splits)

lemma memcpy_from_to_same:
  "memcpy_to a off src = Inr a' \<Longrightarrow> memcpy_from a' off (length src) = Inr src"
  by (auto simp: memcpy_to_def memcpy_from_def split: if_splits)

lemma memcpy_from_to_disjoint:
  assumes "memcpy_to a off src = Inr a'" and "off' + n \<le> off \<or> off + length src \<le> off'"
  shows "memcpy_from a' off' n = memcpy_from a off' n"
proof -
  have a': "a' = take off a @ src @ drop (off + length src) a" and l: "off + length src \<le> length a"
    using assms(1) by (auto simp: memcpy_to_def split: if_splits)
  have "a' ! j = a ! j" if "j < off \<or> off + length src \<le> j" "j < length a" for j
    using that l by (auto simp: a' nth_append)
  then have "take n (drop off' a') = take n (drop off' a)"
    using assms(2) l by (intro nth_equalityI) (auto simp: a')
  then show ?thesis
    using l by (simp add: memcpy_from_def a')
qed

section \<open>Transactions\<close>

datatype tlm_command = TLM_READ_COMMAND | TLM_WRITE_COMMAND | TLM_IGNORE_COMMAND

datatype tlm_response = TLM_OK_RESPONSE | TLM_ADDRESS_ERROR_RESPONSE

text \<open>The data pointer and the data length of a payload are the list of its bytes.\<close>

record payload =
  tp_command :: tlm_command
  tp_address :: u64
  tp_data :: "u8 list"
  tp_response :: tlm_response

section \<open>SimpleMemory\<close>

record SimpleMemory =
  sm_data :: "u8 list"
  sm_size :: u32
  sm_read_only :: bool

definition make_SimpleMemory :: "u32 \<Rightarrow> bool \<Rightarrow> SimpleMemory" where
  "make_SimpleMemory sz read_only =
     \<lparr>sm_data = replicate (unat sz) 0, sm_size = sz, sm_read_only = read_only\<rparr>"

definition sm_load_data :: "SimpleMemory \<Rightarrow> u8 list \<Rightarrow> u64 \<Rightarrow> SimpleMemory res" where
  "sm_load_data m src dst_addr =
     assert_that (dst_addr + of_nat (length src) \<le> ucast (sm_size m))
       (bind_res (memcpy_to (sm_data m) (unat dst_addr) src) (\<lambda>d. Inr (m\<lparr>sm_data := d\<rparr>)))"

definition sm_load_zero :: "SimpleMemory \<Rightarrow> u64 \<Rightarrow> nat \<Rightarrow> SimpleMemory res" where
  "sm_load_zero m dst_addr n =
     assert_that (dst_addr + of_nat n \<le> ucast (sm_size m))
       (bind_res (memcpy_to (sm_data m) (unat dst_addr) (replicate n 0))
          (\<lambda>d. Inr (m\<lparr>sm_data := d\<rparr>)))"

definition write_data :: "SimpleMemory \<Rightarrow> u32 \<Rightarrow> u8 list \<Rightarrow> SimpleMemory res" where
  "write_data m addr src =
     assert_that (addr + of_nat (length src) \<le> sm_size m)
       (bind_res (memcpy_to (sm_data m) (unat addr) src) (\<lambda>d. Inr (m\<lparr>sm_data := d\<rparr>)))"

definition read_data :: "SimpleMemory \<Rightarrow> u32 \<Rightarrow> nat \<Rightarrow> u8 list res" where
  "read_data m addr num_bytes =
     assert_that (addr + of_nat num_bytes \<le> sm_size m)
       (memcpy_from (sm_data m) (unat addr) num_bytes)"

definition sm_transport_dbg :: "SimpleMemory \<Rightarrow> payload \<Rightarrow> (SimpleMemory \<times> payload) res" where
  "sm_transport_dbg m tr =
     (let addr = (ucast (tp_address tr) :: u32) in
      assert_that (addr < sm_size m)
       (case tp_command tr of
          TLM_WRITE_COMMAND \<Rightarrow>
            bind_res (write_data m addr (tp_data tr)) (\<lambda>m'. Inr (m', tr))
        | TLM_READ_COMMAND \<Rightarrow>
            bind_res (read_data m addr (length (tp_data tr)))
              (\<lambda>bs. Inr (m, tr\<lparr>tp_data := bs\<rparr>))
        | _ \<Rightarrow> Inl AssertFailed))"

definition sm_transport :: "SimpleMemory \<Rightarrow> payload \<Rightarrow> (SimpleMemory \<times> payload) res" where
  "sm_transport m tr = sm_transport_dbg m tr"

section \<open>The contract of a transaction target\<close>

text \<open>
  What a bus relies on in the targets bound to its sockets: a transaction keeps the
  target's invariant, the command and the number of bytes. A memory target moreover does not
  change on a read, and a read of the bytes just written returns them.
\<close>

locale tlm_target =
  fixes transport :: "'d \<Rightarrow> payload \<Rightarrow> ('d \<times> payload) res"
    and valid :: "'d \<Rightarrow> bool"
  assumes keeps_inv: "valid d \<Longrightarrow> transport d t = Inr (d', t') \<Longrightarrow> valid d'"
    and keeps_shape: "transport d t = Inr (d', t') \<Longrightarrow>
      tp_command t' = tp_command t \<and> length (tp_data t') = length (tp_data t)"

locale tlm_memory = tlm_target +
  assumes read_pure: "tp_command t = TLM_READ_COMMAND \<Longrightarrow> transport d t = Inr (d', t') \<Longrightarrow> d' = d"
    and read_after_write:
      "tp_command t = TLM_WRITE_COMMAND \<Longrightarrow> transport d t = Inr (d', t') \<Longrightarrow>
       tp_response t' = TLM_OK_RESPONSE \<Longrightarrow> length bs = length (tp_data t) \<Longrightarrow>
       transport d' (t\<lparr>tp_command := TLM_READ_COMMAND, tp_data := bs\<rparr>)
         = Inr (d', t'\<lparr>tp_command := TLM_READ_COMMAND, tp_data := tp_data t\<rparr>)"
begin

lemma read_twice:
  assumes "tp_command t = TLM_READ_COMMAND" and "transport d t = Inr (d', t')"
  shows "transport d' t = Inr (d', t')"
  using read_pure [OF assms] assms by simp

end

definition sm_inv :: "SimpleMemory \<Rightarrow> bool" where
  "sm_inv m \<longleftrightarrow> length (sm_data m) = unat (sm_size m)"

lemma write_data_cases:
  "write_data m addr src = Inr m' \<longleftrightarrow>
     addr + of_nat (length src) \<le> sm_size m \<and>
     (\<exists>d. memcpy_to (sm_data m) (unat addr) src = Inr d \<and> m' = m\<lparr>sm_data := d\<rparr>)"
  by (auto simp: write_data_def)

lemma read_data_cases:
  "read_data m addr n = Inr bs \<longleftrightarrow>
     addr + of_nat n \<le> sm_size m \<and> memcpy_from (sm_data m) (unat addr) n = Inr bs"
  by (auto simp: read_data_def)

lemma sm_transport_cases:
  "sm_transport m t = Inr (m', t') \<longleftrightarrow>
     (ucast (tp_address t) :: u32) < sm_size m \<and>
     (tp_command t = TLM_WRITE_COMMAND \<and> write_data m (ucast (tp_address t)) (tp_data t) = Inr m' \<and> t' = t \<or>
      tp_command t = TLM_READ_COMMAND \<and> m' = m \<and>
        (\<exists>bs. read_data m (ucast (tp_address t)) (length (tp_data t)) = Inr bs \<and> t' = t\<lparr>tp_data := bs\<rparr>))"
  by (auto simp: sm_transport_def sm_transport_dbg_def Let_def split: tlm_command.splits)

interpretation sm: tlm_memory sm_transport sm_inv
proof
  fix d t d' t'
  assume "sm_inv d" "sm_transport d t = Inr (d', t')"
  then show "sm_inv d'"
    by (auto simp: sm_transport_cases write_data_cases sm_inv_def memcpy_to_length)
next
  fix d t d' t'
  assume "sm_transport d t = Inr (d', t')"
  then show "tp_command t' = tp_command t \<and> length (tp_data t') = length (tp_data t)"
    by (auto simp: sm_transport_cases read_data_cases dest: memcpy_from_length)
next
  fix t d d' t'
  assume "tp_command t = TLM_READ_COMMAND" "sm_transport d t = Inr (d', t')"
  then show "d' = d" by (simp add: sm_transport_cases)
next
  fix t d d' t' and bs :: "u8 list"
  assume "tp_command t = TLM_WRITE_COMMAND" "sm_transport d t = Inr (d', t')"
    "length bs = length (tp_data t)"
  then show "sm_transport d' (t\<lparr>tp_command := TLM_READ_COMMAND, tp_data := bs\<rparr>)
      = Inr (d', t'\<lparr>tp_command := TLM_READ_COMMAND, tp_data := tp_data t\<rparr>)"
    by (auto simp: sm_transport_cases write_data_cases read_data_cases dest: memcpy_from_to_same)
qed

section \<open>Properties of the memory device\<close>

lemma of_nat_add_le_bounds:
  fixes a s :: "'a::len word"
  assumes "a + of_nat n \<le> s" and "unat a + n < 2 ^ LENGTH('a)"
  shows "unat a + n \<le> unat s"
proof -
  have "unat (a + of_nat n) = unat a + n"
    using assms(2) by (simp add: unat_word_ariths unat_of_nat)
  then show ?thesis using assms(1) by (simp add: word_le_nat_alt)
qed

lemma sm_transport_not_UB:
  assumes "sm_inv m" and "unat (sm_size m) + length (tp_data t) \<le> 2 ^ 32"
  shows "sm_transport m t \<noteq> Inl UndefinedBehaviour"
proof
  assume ub: "sm_transport m t = Inl UndefinedBehaviour"
  define a where "a = (ucast (tp_address t) :: u32)"
  have "a < sm_size m" and "a + of_nat (length (tp_data t)) \<le> sm_size m"
    and out: "\<not> unat a + length (tp_data t) \<le> length (sm_data m)"
    using ub by (auto simp: sm_transport_def sm_transport_dbg_def Let_def write_data_def read_data_def
        memcpy_to_def memcpy_from_def assert_that_eq_Inl a_def bind_res_eq_Inl
        split: tlm_command.splits if_splits)
  moreover have "unat a + length (tp_data t) < 2 ^ 32"
    using assms(2) \<open>a < sm_size m\<close> by (simp add: word_less_nat_alt)
  ultimately have "unat a + length (tp_data t) \<le> unat (sm_size m)"
    by (intro of_nat_add_le_bounds) simp_all
  with out assms(1) show False by (simp add: sm_inv_def)
qed

text \<open>
  C22: the memory device stays inside its array: a transaction of any length that together
  with the size of the memory fits 32 bits never copies outside the \<^verbatim>\<open>data\<close> array, whatever
  its address, and keeps the array's size. (A memory of almost 4 GiB has no such guarantee:
  the bounds check of \<^verbatim>\<open>write_data\<close> and \<^verbatim>\<open>read_data\<close> is computed in 32 bits and may wrap.)
\<close>

theorem memory_stays_in_bounds:
  assumes "sm_inv m" and "unat (sm_size m) + length (tp_data t) \<le> 2 ^ 32"
  shows "sm_transport m t \<noteq> Inl UndefinedBehaviour \<and>
    (\<forall>m' t'. sm_transport m t = Inr (m', t') \<longrightarrow> sm_inv m')"
  using assms sm_transport_not_UB sm.keeps_inv by blast

theorem memory_stays_in_bounds_witness:
  "sm_transport (make_SimpleMemory 16 False)
     \<lparr>tp_command = TLM_WRITE_COMMAND, tp_address = 14, tp_data = [1, 2, 3, 4],
      tp_response = TLM_OK_RESPONSE\<rparr> \<noteq> Inl UndefinedBehaviour"
  using memory_stays_in_bounds [of "make_SimpleMemory 16 False"
      "\<lparr>tp_command = TLM_WRITE_COMMAND, tp_address = 14, tp_data = [1, 2, 3, 4],
        tp_response = TLM_OK_RESPONSE\<rparr>"]
  by (simp add: sm_inv_def make_SimpleMemory_def)

section \<open>Direct memory access\<close>

text \<open>
  A \<^verbatim>\<open>MemoryDMI\<close> holds a pointer to the byte array of a memory; the operations take that
  array as an argument and return it updated, so that the caller decides which device it is.
  \<^verbatim>\<open>get_mem_ptr_to_global_addr\<close> returns the offset of the pointer from the array's start.
\<close>

record MemoryDMI =
  dmi_start :: u64
  dmi_size :: u64
  dmi_end :: u64

definition create_start_size_mapping :: "u64 \<Rightarrow> u64 \<Rightarrow> MemoryDMI res" where
  "create_start_size_mapping start sz =
     assert_that (start + sz > start)
       (Inr \<lparr>dmi_start = start, dmi_size = sz, dmi_end = start + sz\<rparr>)"

definition create_start_end_mapping :: "u64 \<Rightarrow> u64 \<Rightarrow> MemoryDMI res" where
  "create_start_end_mapping start fin =
     assert_that (fin > start) (create_start_size_mapping start (fin - start))"

definition dmi_contains :: "MemoryDMI \<Rightarrow> u64 \<Rightarrow> bool" where
  "dmi_contains d addr \<longleftrightarrow> addr \<ge> dmi_start d \<and> addr < dmi_end d"

definition get_mem_ptr_to_global_addr :: "MemoryDMI \<Rightarrow> u64 \<Rightarrow> nat \<Rightarrow> nat res" where
  "get_mem_ptr_to_global_addr d addr sizeof_T =
     assert_that (dmi_contains d addr)
       (assert_that (addr + of_nat sizeof_T \<le> dmi_end d) (Inr (unat (addr - dmi_start d))))"

definition dmi_load :: "MemoryDMI \<Rightarrow> u8 list \<Rightarrow> u64 \<Rightarrow> nat \<Rightarrow> u64 res" where
  "dmi_load d mem addr sizeof_T =
     bind_res (get_mem_ptr_to_global_addr d addr sizeof_T)
       (\<lambda>src. bind_res (memcpy_from mem src sizeof_T) (\<lambda>bs. Inr (of_le_bytes bs)))"

definition dmi_store :: "MemoryDMI \<Rightarrow> u8 list \<Rightarrow> u64 \<Rightarrow> nat \<Rightarrow> u64 \<Rightarrow> u8 list res" where
  "dmi_store d mem addr sizeof_T v =
     bind_res (get_mem_ptr_to_global_addr d addr sizeof_T)
       (\<lambda>dst. memcpy_to mem dst (le_bytes sizeof_T v))"

lemma create_mapping_eq:
  assumes "create_start_end_mapping s e = Inr d" shows "create_start_size_mapping s (e - s) = Inr d \<and> dmi_end d = e"
  using assms by (auto simp: create_start_end_mapping_def create_start_size_mapping_def)

text \<open>
  A value stored through the direct memory interface is read back through it, truncated
  to the access size, and bytes outside the access keep their values.
\<close>

theorem dmi_store_load:
  assumes "dmi_store d mem addr n v = Inr mem'"
  shows "dmi_load d mem' addr n = Inr (take_bit (8 * n) v) \<and> length mem' = length mem \<and>
    (\<forall>j. j < unat (addr - dmi_start d) \<or> unat (addr - dmi_start d) + n \<le> j \<longrightarrow>
       memcpy_from mem' j 1 = memcpy_from mem j 1)"
proof -
  from assms obtain dst where p: "get_mem_ptr_to_global_addr d addr n = Inr dst"
    and s: "memcpy_to mem dst (le_bytes n v) = Inr mem'"
    by (auto simp: dmi_store_def)
  then have "dst = unat (addr - dmi_start d)"
    by (simp add: get_mem_ptr_to_global_addr_def)
  then show ?thesis
    using p memcpy_from_to_same [OF s] memcpy_from_to_disjoint [OF s] memcpy_to_length [OF s]
    by (simp add: dmi_load_def of_le_bytes_le_bytes)
qed

theorem dmi_store_load_witness:
  "dmi_load \<lparr>dmi_start = 0x100, dmi_size = 4, dmi_end = 0x104\<rparr> [0, 0xef, 0xbe, 0] 0x101 2 = Inr 0xbeef"
proof -
  have "dmi_store \<lparr>dmi_start = 0x100, dmi_size = 4, dmi_end = 0x104\<rparr> [0, 0, 0, 0] 0x101 2 0xdeadbeef
      = Inr [0, 0xef, 0xbe, 0]"
    by (simp add: dmi_store_def get_mem_ptr_to_global_addr_def dmi_contains_def memcpy_to_def)
  from dmi_store_load [OF this] show ?thesis by simp
qed

end
