(* ===== verification/VP_Bus.thy ===== *)
theory VP_Bus
  imports VP_Memory
begin

text \<open>
  The interconnect of the platform (\<^verbatim>\<open>platform/common/bus.h\<close>): address decoding, the routing of
  a transaction to the target its address selects, the lock that makes load-reserved /
  store-conditional and atomic sequences indivisible (\<^verbatim>\<open>core/common/bus_lock_if.h\<close>), and the
  adapter through which peripherals write.

  The initiator socket of port \<open>i\<close> is bound to one target; the targets are a list beside the
  list of ports, and what the bound target does with a transaction is the argument
  \<open>transport\<close> of the operations, as the binding of the socket is in the source.
\<close>

section \<open>Port mappings\<close>

record PortMapping =
  pm_start :: u64
  pm_end :: u64

definition make_PortMapping :: "u64 \<Rightarrow> u64 \<Rightarrow> PortMapping res" where
  "make_PortMapping s e = assert_that (e \<ge> s) (Inr \<lparr>pm_start = s, pm_end = e\<rparr>)"

definition pm_contains :: "PortMapping \<Rightarrow> u64 \<Rightarrow> bool" where
  "pm_contains p addr \<longleftrightarrow> addr \<ge> pm_start p \<and> addr \<le> pm_end p"

definition global_to_local :: "PortMapping \<Rightarrow> u64 \<Rightarrow> u64" where
  "global_to_local p addr = addr - pm_start p"

section \<open>SimpleBus\<close>

record 'd SimpleBus =
  bus_ports :: "PortMapping list"
  bus_targets :: "'d list"

fun bus_decode_from :: "PortMapping list \<Rightarrow> int \<Rightarrow> u64 \<Rightarrow> int" where
  "bus_decode_from [] i addr = - 1"
| "bus_decode_from (p # ps) i addr =
     (if pm_contains p addr then i else bus_decode_from ps (i + 1) addr)"

definition bus_decode :: "'d SimpleBus \<Rightarrow> u64 \<Rightarrow> int" where
  "bus_decode b addr = bus_decode_from (bus_ports b) 0 addr"

definition bus_transport ::
  "('d \<Rightarrow> payload \<Rightarrow> ('d \<times> payload) res) \<Rightarrow> 'd SimpleBus \<Rightarrow> payload \<Rightarrow> ('d SimpleBus \<times> payload) res" where
  "bus_transport transport b tr =
     (let addr = tp_address tr; i = bus_decode b addr in
      if i < 0 then Inr (b, tr\<lparr>tp_response := TLM_ADDRESS_ERROR_RESPONSE\<rparr>)
      else bind_res
             (transport (bus_targets b ! nat i)
                (tr\<lparr>tp_address := global_to_local (bus_ports b ! nat i) addr\<rparr>))
             (\<lambda>(d, tr'). Inr (b\<lparr>bus_targets := (bus_targets b)[nat i := d]\<rparr>, tr')))"

section \<open>BusLock\<close>

record BusLock =
  bl_locked :: bool
  bl_owner :: u32

definition initial_BusLock :: BusLock where
  "initial_BusLock = \<lparr>bl_locked = False, bl_owner = 0\<rparr>"

text \<open>\<open>Blocked\<close> where the source waits for the lock event.\<close>

definition wait_until_unlocked :: "BusLock \<Rightarrow> unit res" where
  "wait_until_unlocked l = (if bl_locked l then Inl Blocked else Inr ())"

definition bl_lock :: "BusLock \<Rightarrow> u32 \<Rightarrow> BusLock res" where
  "bl_lock l hart_id =
     bind_res (if bl_locked l \<and> hart_id \<noteq> bl_owner l then wait_until_unlocked l else Inr ())
       (\<lambda>_. assert_that (\<not> bl_locked l \<or> hart_id = bl_owner l)
              (Inr (l\<lparr>bl_locked := True, bl_owner := hart_id\<rparr>)))"

definition bl_unlock :: "BusLock \<Rightarrow> u32 \<Rightarrow> BusLock" where
  "bl_unlock l hart_id =
     (if bl_locked l \<and> bl_owner l = hart_id then l\<lparr>bl_locked := False\<rparr> else l)"

definition is_locked :: "BusLock \<Rightarrow> bool" where
  "is_locked l = bl_locked l"

definition is_locked_by :: "BusLock \<Rightarrow> u32 \<Rightarrow> bool" where
  "is_locked_by l hart_id \<longleftrightarrow> bl_locked l \<and> bl_owner l = hart_id"

definition wait_for_access_rights :: "BusLock \<Rightarrow> u32 \<Rightarrow> unit res" where
  "wait_for_access_rights l hart_id =
     (if is_locked l \<and> \<not> is_locked_by l hart_id then wait_until_unlocked l else Inr ())"

lemmas bus_lock_defs = wait_until_unlocked_def bl_lock_def bl_unlock_def is_locked_def
  is_locked_by_def wait_for_access_rights_def

definition peripheral_write_transport ::
  "('b \<Rightarrow> payload \<Rightarrow> ('b \<times> payload) res) \<Rightarrow> BusLock \<Rightarrow> 'b \<Rightarrow> payload \<Rightarrow> ('b \<times> payload) res" where
  "peripheral_write_transport transport l b tr =
     bind_res (wait_until_unlocked l)
       (\<lambda>_. bind_res (transport b tr)
          (\<lambda>(b', tr').
             if tp_response tr' = TLM_ADDRESS_ERROR_RESPONSE
             then Inl (RuntimeError ''unable to find target port for address'')
             else Inr (b', tr')))"

section \<open>Decoding selects the first port that contains the address\<close>

lemma bus_decode_from_iff:
  "bus_decode_from ps i addr =
     (case List.find (\<lambda>k. pm_contains (ps ! k) addr) [0..<length ps] of
        None \<Rightarrow> - 1 | Some k \<Rightarrow> i + int k)"
proof (induction ps arbitrary: i)
  case (Cons p ps)
  have "[0..<length (p # ps)] = 0 # map Suc [0..<length ps]"
    by (simp add: upt_conv_Cons map_Suc_upt del: upt_Suc)
  moreover have "List.find P (map Suc xs) = map_option Suc (List.find (P \<circ> Suc) xs)" for P xs
    by (induction xs) simp_all
  ultimately show ?case
    using Cons.IH [of "i + 1"] by (auto simp: comp_def split: option.splits)
qed simp

lemma bus_decode_cases:
  obtains (none) "bus_decode b addr = - 1" "\<And>k. k < length (bus_ports b) \<Longrightarrow> \<not> pm_contains (bus_ports b ! k) addr"
  | (port) k where "bus_decode b addr = int k" "k < length (bus_ports b)"
      "pm_contains (bus_ports b ! k) addr" "\<And>j. j < k \<Longrightarrow> \<not> pm_contains (bus_ports b ! j) addr"
proof (cases "List.find (\<lambda>k. pm_contains (bus_ports b ! k) addr) [0..<length (bus_ports b)]")
  case None
  then have "bus_decode b addr = - 1"
    by (simp add: bus_decode_def bus_decode_from_iff)
  moreover have "\<forall>k<length (bus_ports b). \<not> pm_contains (bus_ports b ! k) addr"
    using None by (simp add: find_None_iff)
  ultimately show ?thesis using none by simp
next
  case (Some k)
  then obtain i where "i < length (bus_ports b)" "k = i" "pm_contains (bus_ports b ! i) addr"
    "\<forall>j<i. \<not> pm_contains (bus_ports b ! j) addr"
    by (auto simp: find_Some_iff)
  with Some port [of k] show ?thesis
    by (simp add: bus_decode_def bus_decode_from_iff)
qed

section \<open>A bus of targets is a target\<close>

definition bus_wf :: "'d SimpleBus \<Rightarrow> bool" where
  "bus_wf b \<longleftrightarrow> length (bus_targets b) = length (bus_ports b)"

definition bus_inv :: "('d \<Rightarrow> bool) \<Rightarrow> 'd SimpleBus \<Rightarrow> bool" where
  "bus_inv valid b \<longleftrightarrow> bus_wf b \<and> list_all valid (bus_targets b)"

lemma bus_transport_cases:
  assumes "bus_transport transport b t = Inr (b', t')"
  obtains (none) "bus_decode b (tp_address t) = - 1" "b' = b"
      "t' = t\<lparr>tp_response := TLM_ADDRESS_ERROR_RESPONSE\<rparr>"
  | (port) k d where "bus_decode b (tp_address t) = int k" "k < length (bus_ports b)"
      "pm_contains (bus_ports b ! k) (tp_address t)"
      "transport (bus_targets b ! k) (t\<lparr>tp_address := tp_address t - pm_start (bus_ports b ! k)\<rparr>)
         = Inr (d, t')"
      "b' = b\<lparr>bus_targets := (bus_targets b)[k := d]\<rparr>"
proof (cases rule: bus_decode_cases [of b "tp_address t"])
  case none
  with assms have "b' = b" "t' = t\<lparr>tp_response := TLM_ADDRESS_ERROR_RESPONSE\<rparr>"
    by (auto simp: bus_transport_def Let_def)
  with none that(1) show ?thesis by blast
next
  case (port k)
  with assms obtain d where
    "transport (bus_targets b ! k) (t\<lparr>tp_address := tp_address t - pm_start (bus_ports b ! k)\<rparr>)
       = Inr (d, t')" "b' = b\<lparr>bus_targets := (bus_targets b)[k := d]\<rparr>"
    by (auto simp: bus_transport_def Let_def global_to_local_def)
  with port that(2) [of k d] show ?thesis by blast
qed

lemma bus_decode_targets [simp]: "bus_decode (b\<lparr>bus_targets := ts\<rparr>) addr = bus_decode b addr"
  by (simp add: bus_decode_def)

context tlm_target
begin

lemma bus_keeps_shape:
  "bus_transport transport b t = Inr (b', t') \<Longrightarrow>
     tp_command t' = tp_command t \<and> length (tp_data t') = length (tp_data t)"
  by (erule bus_transport_cases) (auto dest: keeps_shape)

lemma bus_keeps_inv:
  assumes "bus_inv valid b" and "bus_transport transport b t = Inr (b', t')"
  shows "bus_inv valid b'"
  using assms(2)
proof (cases rule: bus_transport_cases)
  case (port k d)
  then have "valid (bus_targets b ! k)"
    using assms(1) by (simp add: bus_inv_def bus_wf_def list_all_length)
  with port assms(1) keeps_inv show ?thesis
    by (auto simp: bus_inv_def bus_wf_def list_all_length nth_list_update)
qed (use assms(1) in simp)

end

context tlm_memory
begin

lemma bus_read_pure:
  assumes "tp_command t = TLM_READ_COMMAND" and "bus_transport transport b t = Inr (b', t')"
  shows "b' = b"
  using assms(2)
proof (cases rule: bus_transport_cases)
  case (port k d)
  then have "d = bus_targets b ! k"
    using read_pure [of "t\<lparr>tp_address := tp_address t - pm_start (bus_ports b ! k)\<rparr>"] assms(1) by simp
  with port show ?thesis by simp
qed simp

lemma bus_read_after_write:
  assumes "tp_command t = TLM_WRITE_COMMAND" and "bus_transport transport b t = Inr (b', t')"
    and "tp_response t' = TLM_OK_RESPONSE" and "length bs = length (tp_data t)"
    and "bus_wf b"
  shows "bus_transport transport b' (t\<lparr>tp_command := TLM_READ_COMMAND, tp_data := bs\<rparr>)
    = Inr (b', t'\<lparr>tp_command := TLM_READ_COMMAND, tp_data := tp_data t\<rparr>)"
  using assms(2)
proof (cases rule: bus_transport_cases)
  case (port k d)
  define t0 where "t0 = t\<lparr>tp_address := tp_address t - pm_start (bus_ports b ! k)\<rparr>"
  have swap: "t0\<lparr>tp_command := TLM_READ_COMMAND, tp_data := bs\<rparr> = t\<lparr>tp_command := TLM_READ_COMMAND,
      tp_data := bs, tp_address := tp_address t - pm_start (bus_ports b ! k)\<rparr>"
    by (simp add: t0_def)
  have "transport d (t0\<lparr>tp_command := TLM_READ_COMMAND, tp_data := bs\<rparr>)
      = Inr (d, t'\<lparr>tp_command := TLM_READ_COMMAND, tp_data := tp_data t0\<rparr>)"
    using read_after_write [of t0 "bus_targets b ! k" d t' bs] assms port(4) by (simp add: t0_def)
  then show ?thesis
    unfolding swap using port assms(5)
    by (simp add: bus_transport_def Let_def global_to_local_def bus_wf_def t0_def)
qed (use assms(3) in simp)

end

text \<open>
  The bus of the platform with memories bound to its sockets meets the contract of a target.
\<close>

interpretation smbus: tlm_target "bus_transport sm_transport" "bus_inv sm_inv"
  by unfold_locales (rule sm.bus_keeps_inv, assumption, assumption, rule sm.bus_keeps_shape)

section \<open>Properties of the bus\<close>

text \<open>
  C20: the bus routes a transaction to the first port whose address range contains the
  address, hands the target the offset into that range, which lies inside the range, and
  changes no other target; an address that no port contains is answered with an address error and
  changes nothing.
\<close>

theorem bus_routing:
  assumes "bus_transport transport b t = Inr (b', t')"
  shows "(bus_decode b (tp_address t) = - 1 \<and> b' = b \<and> tp_response t' = TLM_ADDRESS_ERROR_RESPONSE \<and>
          (\<forall>p\<in>set (bus_ports b). \<not> pm_contains p (tp_address t))) \<or>
    (\<exists>k p d. bus_decode b (tp_address t) = int k \<and> k < length (bus_ports b) \<and>
       p = bus_ports b ! k \<and> pm_contains p (tp_address t) \<and>
       (\<forall>j<k. \<not> pm_contains (bus_ports b ! j) (tp_address t)) \<and>
       tp_address t - pm_start p \<le> pm_end p - pm_start p \<and>
       transport (bus_targets b ! k) (t\<lparr>tp_address := tp_address t - pm_start p\<rparr>) = Inr (d, t') \<and>
       bus_targets b' = (bus_targets b)[k := d] \<and> bus_ports b' = bus_ports b)"
proof (cases rule: bus_decode_cases [of b "tp_address t"])
  case none
  then show ?thesis
    using assms by (auto simp: in_set_conv_nth bus_transport_def Let_def)
next
  case (port k)
  moreover have "tp_address t - pm_start p \<le> pm_end p - pm_start p" if "pm_contains p (tp_address t)" for p
    using that by (auto simp: pm_contains_def word_le_minus_mono_left)
  ultimately show ?thesis
    using assms by (auto simp: bus_transport_def Let_def global_to_local_def)
qed

text \<open>A platform with two memories, for the witnesses.\<close>

definition example_bus :: "SimpleMemory SimpleBus" where
  "example_bus = \<lparr>bus_ports = [\<lparr>pm_start = 0x1000, pm_end = 0x1003\<rparr>, \<lparr>pm_start = 0x8000, pm_end = 0x8007\<rparr>],
     bus_targets = [make_SimpleMemory 4 False, make_SimpleMemory 8 False]\<rparr>"

definition example_write :: payload where
  "example_write = \<lparr>tp_command = TLM_WRITE_COMMAND, tp_address = 0x8002, tp_data = [5, 6],
     tp_response = TLM_OK_RESPONSE\<rparr>"

lemma example_bus_write:
  "bus_transport sm_transport example_bus example_write =
     Inr (example_bus\<lparr>bus_targets := [make_SimpleMemory 4 False,
            \<lparr>sm_data = [0, 0, 5, 6, 0, 0, 0, 0], sm_size = 8, sm_read_only = False\<rparr>]\<rparr>,
          example_write\<lparr>tp_address := 2\<rparr>)"
  by (simp add: bus_transport_def bus_decode_def example_bus_def example_write_def pm_contains_def
      global_to_local_def sm_transport_def sm_transport_dbg_def write_data_def memcpy_to_def
      make_SimpleMemory_def Let_def replicate_numeral)

theorem bus_routing_witness:
  "bus_decode example_bus 0x8002 = 1 \<and>
   (\<exists>d. sm_transport (make_SimpleMemory 8 False) (example_write\<lparr>tp_address := 2\<rparr>)
      = Inr (d, example_write\<lparr>tp_address := 2\<rparr>))"
  using bus_routing [OF example_bus_write]
  by (auto simp: example_bus_def example_write_def bus_decode_def pm_contains_def)

text \<open>
  What is written over the bus is read back over the bus: after a successful write a read
  of the same length at the same global address returns the bytes written and changes
  nothing, for a bus with any number of memories at any addresses.
\<close>

theorem bus_memory_read_back:
  assumes "bus_inv sm_inv b" and "tp_command t = TLM_WRITE_COMMAND"
    and "bus_transport sm_transport b t = Inr (b', t')" and "tp_response t' = TLM_OK_RESPONSE"
    and "length bs = length (tp_data t)"
  shows "bus_inv sm_inv b' \<and>
    (\<exists>r'. bus_transport sm_transport b' (t\<lparr>tp_command := TLM_READ_COMMAND, tp_data := bs\<rparr>) = Inr (b', r') \<and>
      tp_data r' = tp_data t)"
proof -
  have "bus_wf b" using assms(1) by (simp add: bus_inv_def)
  from sm.bus_read_after_write [OF assms(2-5) this] smbus.keeps_inv [OF assms(1,3)]
  show ?thesis by auto
qed

theorem bus_memory_read_back_witness:
  "\<exists>b' r'. bus_transport sm_transport b'
      (example_write\<lparr>tp_command := TLM_READ_COMMAND, tp_data := [0, 0]\<rparr>) = Inr (b', r') \<and> tp_data r' = [5, 6]"
  using bus_memory_read_back [OF _ _ example_bus_write, of "[0, 0]"]
  by (auto simp: example_bus_def example_write_def bus_inv_def bus_wf_def sm_inv_def make_SimpleMemory_def)

section \<open>The bus lock\<close>

text \<open>
  C21: the bus lock is a mutual exclusion between harts: a hart obtains the lock exactly when
  no other hart holds it and holds it from then on; while it is held any access of another
  hart and any peripheral write waits, and only the owner's \<^verbatim>\<open>unlock\<close> releases it.
\<close>

theorem bus_lock_exclusion:
  "((\<exists>l'. bl_lock l h = Inr l') \<longleftrightarrow> \<not> (\<exists>g. g \<noteq> h \<and> is_locked_by l g)) \<and>
   (bl_lock l h = Inl Blocked \<longleftrightarrow> (\<exists>g. g \<noteq> h \<and> is_locked_by l g)) \<and>
   (\<forall>l'. bl_lock l h = Inr l' \<longrightarrow> is_locked_by l' h \<and>
      (\<forall>g. (wait_for_access_rights l' g = Inr () \<longleftrightarrow> g = h) \<and>
           (is_locked_by (bl_unlock l' g) h \<longleftrightarrow> g \<noteq> h) \<and>
           peripheral_write_transport tr l' b p = Inl Blocked) \<and>
      \<not> is_locked (bl_unlock l' h))"
  by (auto simp: bus_lock_defs peripheral_write_transport_def)

theorem bus_lock_exclusion_witness:
  "bl_lock initial_BusLock 3 = Inr \<lparr>bl_locked = True, bl_owner = 3\<rparr> \<and>
   wait_for_access_rights \<lparr>bl_locked = True, bl_owner = 3\<rparr> 4 \<noteq> Inr ()"
proof -
  have "bl_lock initial_BusLock 3 = Inr \<lparr>bl_locked = True, bl_owner = 3\<rparr>"
    by (simp add: bus_lock_defs initial_BusLock_def)
  moreover have "(4 :: u32) \<noteq> 3" by simp
  ultimately show ?thesis
    using bus_lock_exclusion [of initial_BusLock 3 sm_transport "make_SimpleMemory 0 False" example_write]
    by blast
qed

end
