(* ===== verification/VP_Core_Defs.thy ===== *)
theory VP_Core_Defs
  imports VP_Prelude
begin

text \<open>
  Vocabulary of the cores: the privilege levels and their encodings
  (\<^verbatim>\<open>core/common/irq_if.h\<close>), the exception and interrupt codes
  (\<^verbatim>\<open>core/rv32/trap-codes.h\<close>), the kinds of memory access
  (\<^verbatim>\<open>core/common/protected_access.h\<close>), the address-translation modes
  (\<^verbatim>\<open>core/common/core_defs.h\<close>) and the sizes of the configuration (\<^verbatim>\<open>core/rv32/config.h\<close>).
\<close>

named_theorems core_consts \<open>numeric values of the core's constants\<close>

section \<open>Privilege levels\<close>

type_synonym PrivilegeLevel = u32

definition MachineMode :: PrivilegeLevel where [core_consts]: "MachineMode = 0b011"
definition SupervisorMode :: PrivilegeLevel where [core_consts]: "SupervisorMode = 0b001"
definition UserMode :: PrivilegeLevel where [core_consts]: "UserMode = 0b00"
definition VirtualSupervisorMode :: PrivilegeLevel where [core_consts]: "VirtualSupervisorMode = 0b101"
definition VirtualUserMode :: PrivilegeLevel where [core_consts]: "VirtualUserMode = 0b100"
definition NoneMode :: PrivilegeLevel where [core_consts]: "NoneMode = - 1"

definition PrivilegeLevelToPP :: "PrivilegeLevel \<Rightarrow> u32" where
  "PrivilegeLevelToPP priv = priv AND 0b011"

definition PrivilegeLevelToV :: "PrivilegeLevel \<Rightarrow> u32" where
  "PrivilegeLevelToV priv = drop_bit 2 (priv AND 0b100)"

definition VPPToPrivilegeLevel :: "u32 \<Rightarrow> u32 \<Rightarrow> PrivilegeLevel" where
  "VPPToPrivilegeLevel V PP = (if PP = MachineMode then PP else push_bit 2 V OR PP)"

definition is_irq_capable_level :: "PrivilegeLevel \<Rightarrow> bool" where
  "is_irq_capable_level level \<longleftrightarrow>
     level = MachineMode \<or> level = SupervisorMode \<or> level = VirtualSupervisorMode"

definition quoted :: "string \<Rightarrow> string" where
  "quoted s = CHR 0x27 # s @ [CHR 0x27]"

definition PrivilegeLevelToStr :: "PrivilegeLevel \<Rightarrow> string" where
  "PrivilegeLevelToStr priv =
     (if priv = MachineMode then quoted ''mode: MM''
      else if priv = VirtualSupervisorMode then quoted ''mode: VS''
      else if priv = SupervisorMode then quoted ''mode: HS''
      else if priv = VirtualUserMode then quoted ''mode: VU''
      else if priv = UserMode then quoted ''mode: UU''
      else if priv = NoneMode then quoted ''mode: --''
      else quoted ''mode: ?!'')"

text \<open>The five levels a hart can be in.\<close>

definition is_hart_level :: "PrivilegeLevel \<Rightarrow> bool" where
  "is_hart_level p \<longleftrightarrow>
     p \<in> {MachineMode, SupervisorMode, UserMode, VirtualSupervisorMode, VirtualUserMode}"

section \<open>Kinds of memory access\<close>

text \<open>The last constructor is the sentinel that ends the enumeration.\<close>

datatype MemoryAccessType = FETCH | LOAD | STORE | MAX_MEM_ACCESS_TYPES

section \<open>Address-translation modes\<close>

definition SATP_MODE_BARE :: u32 where [core_consts]: "SATP_MODE_BARE = 0"
definition SATP_MODE_SV32 :: u32 where [core_consts]: "SATP_MODE_SV32 = 1"
definition SATP_MODE_SV39 :: u32 where [core_consts]: "SATP_MODE_SV39 = 8"
definition SATP_MODE_SV48 :: u32 where [core_consts]: "SATP_MODE_SV48 = 9"
definition SATP_MODE_SV57 :: u32 where [core_consts]: "SATP_MODE_SV57 = 10"
definition SATP_MODE_SV64 :: u32 where [core_consts]: "SATP_MODE_SV64 = 11"

section \<open>Configuration\<close>

definition MAX_GUEST :: u32 where [core_consts]: "MAX_GUEST = 8"
definition IMSIC_MAX_IRQS :: u32 where [core_consts]: "IMSIC_MAX_IRQS = 2048"
definition NV_MODE_MAX_VECTOR :: u32 where [core_consts]: "NV_MODE_MAX_VECTOR = 255"

section \<open>Exception and interrupt codes\<close>

definition EXC_S_SOFTWARE_INTERRUPT :: u32 where [core_consts]: "EXC_S_SOFTWARE_INTERRUPT = 1"
definition EXC_VS_SOFTWARE_INTERRUPT :: u32 where [core_consts]: "EXC_VS_SOFTWARE_INTERRUPT = 2"
definition EXC_M_SOFTWARE_INTERRUPT :: u32 where [core_consts]: "EXC_M_SOFTWARE_INTERRUPT = 3"
definition EXC_S_TIMER_INTERRUPT :: u32 where [core_consts]: "EXC_S_TIMER_INTERRUPT = 5"
definition EXC_VS_TIMER_INTERRUPT :: u32 where [core_consts]: "EXC_VS_TIMER_INTERRUPT = 6"
definition EXC_M_TIMER_INTERRUPT :: u32 where [core_consts]: "EXC_M_TIMER_INTERRUPT = 7"
definition EXC_S_EXTERNAL_INTERRUPT :: u32 where [core_consts]: "EXC_S_EXTERNAL_INTERRUPT = 9"
definition EXC_VS_EXTERNAL_INTERRUPT :: u32 where [core_consts]: "EXC_VS_EXTERNAL_INTERRUPT = 10"
definition EXC_M_EXTERNAL_INTERRUPT :: u32 where [core_consts]: "EXC_M_EXTERNAL_INTERRUPT = 11"
definition EXC_S_GUEST_EXTERNAL_INTERRUPT :: u32 where [core_consts]: "EXC_S_GUEST_EXTERNAL_INTERRUPT = 12"
definition EXC_COUNTER_OVREFLOW_INTERRUPT :: u32 where [core_consts]: "EXC_COUNTER_OVREFLOW_INTERRUPT = 13"
definition EXC_DEBUG_TRACE_INTERRUPT :: u32 where [core_consts]: "EXC_DEBUG_TRACE_INTERRUPT = 17"
definition EXC_BUS_SYSTEM_ERROR_INTERRUPT :: u32 where [core_consts]: "EXC_BUS_SYSTEM_ERROR_INTERRUPT = 23"
definition EXC_LOW_PRIO_RAS_INTERRUPT :: u32 where [core_consts]: "EXC_LOW_PRIO_RAS_INTERRUPT = 35"
definition EXC_HIGH_PRIO_RAS_INTERRUPT :: u32 where [core_consts]: "EXC_HIGH_PRIO_RAS_INTERRUPT = 43"
definition EXC_HP_OT_EVENT_INTERRUPT :: u32 where [core_consts]: "EXC_HP_OT_EVENT_INTERRUPT = 45"
definition EXC_WDT_INTERRUPT :: u32 where [core_consts]: "EXC_WDT_INTERRUPT = 48"
definition EXC_INSTR_ADDR_MISALIGNED :: u32 where [core_consts]: "EXC_INSTR_ADDR_MISALIGNED = 0"
definition EXC_INSTR_ACCESS_FAULT :: u32 where [core_consts]: "EXC_INSTR_ACCESS_FAULT = 1"
definition EXC_ILLEGAL_INSTR :: u32 where [core_consts]: "EXC_ILLEGAL_INSTR = 2"
definition EXC_BREAKPOINT :: u32 where [core_consts]: "EXC_BREAKPOINT = 3"
definition EXC_LOAD_ADDR_MISALIGNED :: u32 where [core_consts]: "EXC_LOAD_ADDR_MISALIGNED = 4"
definition EXC_LOAD_ACCESS_FAULT :: u32 where [core_consts]: "EXC_LOAD_ACCESS_FAULT = 5"
definition EXC_STORE_AMO_ADDR_MISALIGNED :: u32 where [core_consts]: "EXC_STORE_AMO_ADDR_MISALIGNED = 6"
definition EXC_STORE_AMO_ACCESS_FAULT :: u32 where [core_consts]: "EXC_STORE_AMO_ACCESS_FAULT = 7"
definition EXC_ECALL_U_MODE :: u32 where [core_consts]: "EXC_ECALL_U_MODE = 8"
definition EXC_ECALL_S_MODE :: u32 where [core_consts]: "EXC_ECALL_S_MODE = 9"
definition EXC_ECALL_VS_MODE :: u32 where [core_consts]: "EXC_ECALL_VS_MODE = 10"
definition EXC_ECALL_M_MODE :: u32 where [core_consts]: "EXC_ECALL_M_MODE = 11"
definition EXC_INSTR_PAGE_FAULT :: u32 where [core_consts]: "EXC_INSTR_PAGE_FAULT = 12"
definition EXC_LOAD_PAGE_FAULT :: u32 where [core_consts]: "EXC_LOAD_PAGE_FAULT = 13"
definition EXC_SMPU_MULTIPLE_TRANSLATIONS :: u32 where [core_consts]: "EXC_SMPU_MULTIPLE_TRANSLATIONS = 14"
definition EXC_STORE_AMO_PAGE_FAULT :: u32 where [core_consts]: "EXC_STORE_AMO_PAGE_FAULT = 15"
definition EXC_SMPU_GUEST_MULTIPLE_TRANSLATIONS :: u32 where [core_consts]: "EXC_SMPU_GUEST_MULTIPLE_TRANSLATIONS = 16"
definition EXC_INSTR_GUEST_PAGE_FAULT :: u32 where [core_consts]: "EXC_INSTR_GUEST_PAGE_FAULT = 20"
definition EXC_LOAD_GUEST_PAGE_FAULT :: u32 where [core_consts]: "EXC_LOAD_GUEST_PAGE_FAULT = 21"
definition EXC_VIRTUAL_INSTRUCTION :: u32 where [core_consts]: "EXC_VIRTUAL_INSTRUCTION = 22"
definition EXC_STORE_AMO_GUEST_PAGE_FAULT :: u32 where [core_consts]: "EXC_STORE_AMO_GUEST_PAGE_FAULT = 23"

section \<open>Properties of the privilege encoding\<close>

text \<open>
  The split of a privilege level into its virtualisation bit and its previous-privilege
  field, as a trap saves it in \<^verbatim>\<open>MPV\<close>/\<^verbatim>\<open>MPP\<close> or \<^verbatim>\<open>SPV\<close>/\<^verbatim>\<open>SPP\<close>, loses nothing: putting the two
  together gives the level back, for every level a hart can be in; and whatever is in the
  two fields, machine mode is never entered with the virtualisation bit set.
\<close>

theorem privilege_encoding_roundtrip:
  "(is_hart_level p \<longrightarrow> VPPToPrivilegeLevel (PrivilegeLevelToV p) (PrivilegeLevelToPP p) = p \<and>
      PrivilegeLevelToPP p \<noteq> 2 \<and> PrivilegeLevelToV p \<le> 1) \<and>
   (pp = MachineMode \<longrightarrow> VPPToPrivilegeLevel v pp = MachineMode)"
  by (auto simp: is_hart_level_def VPPToPrivilegeLevel_def PrivilegeLevelToV_def PrivilegeLevelToPP_def
      core_consts)

theorem privilege_encoding_roundtrip_witness:
  "VPPToPrivilegeLevel (PrivilegeLevelToV VirtualUserMode) (PrivilegeLevelToPP VirtualUserMode) = VirtualUserMode \<and>
   VPPToPrivilegeLevel 1 MachineMode = MachineMode"
  using privilege_encoding_roundtrip [of VirtualUserMode MachineMode 1] by (simp add: is_hart_level_def)

end
