(* ===== verification/VP_MMU.thy ===== *)
theory VP_MMU
  imports VP_Core_Defs
begin

text \<open>
  The memory management unit (\<^verbatim>\<open>GenericMMU\<close> of \<^verbatim>\<open>core/common/mmu.h\<close>): page-table entries, the
  page-table walk, and the translation lookaside buffer in front of it.

  The unit reads the core's state: those parts of it are the record \<open>mmu_core\<close>. The memory it
  walks is behind the C++ interface \<^verbatim>\<open>mmu_memory_if\<close>, a record of functions here; what the
  walk needs of them is the locale \<open>pte_memory\<close>.
\<close>

section \<open>Page-table entries\<close>

definition PTE_PPN_SHIFT :: nat where [core_consts]: "PTE_PPN_SHIFT = 10"
definition PGSHIFT :: nat where [core_consts]: "PGSHIFT = 12"
definition PGSIZE :: u32 where [core_consts]: "PGSIZE = push_bit PGSHIFT 1"
definition PGMASK :: u32 where [core_consts]: "PGMASK = PGSIZE - 1"

definition PTE_V :: u32 where [core_consts]: "PTE_V = 1"
definition PTE_R :: u32 where [core_consts]: "PTE_R = push_bit 1 1"
definition PTE_W :: u32 where [core_consts]: "PTE_W = push_bit 2 1"
definition PTE_X :: u32 where [core_consts]: "PTE_X = push_bit 3 1"
definition PTE_U :: u32 where [core_consts]: "PTE_U = push_bit 4 1"
definition PTE_G :: u32 where [core_consts]: "PTE_G = push_bit 5 1"
definition PTE_A :: u32 where [core_consts]: "PTE_A = push_bit 6 1"
definition PTE_D :: u32 where [core_consts]: "PTE_D = push_bit 7 1"

type_synonym pte_t = u64

definition pte_V :: "pte_t \<Rightarrow> bool" where "pte_V p \<longleftrightarrow> p AND ucast PTE_V \<noteq> 0"
definition pte_R :: "pte_t \<Rightarrow> bool" where "pte_R p \<longleftrightarrow> p AND ucast PTE_R \<noteq> 0"
definition pte_W :: "pte_t \<Rightarrow> bool" where "pte_W p \<longleftrightarrow> p AND ucast PTE_W \<noteq> 0"
definition pte_X :: "pte_t \<Rightarrow> bool" where "pte_X p \<longleftrightarrow> p AND ucast PTE_X \<noteq> 0"
definition pte_U :: "pte_t \<Rightarrow> bool" where "pte_U p \<longleftrightarrow> p AND ucast PTE_U \<noteq> 0"
definition pte_G :: "pte_t \<Rightarrow> bool" where "pte_G p \<longleftrightarrow> p AND ucast PTE_G \<noteq> 0"
definition pte_A :: "pte_t \<Rightarrow> bool" where "pte_A p \<longleftrightarrow> p AND ucast PTE_A \<noteq> 0"
definition pte_D :: "pte_t \<Rightarrow> bool" where "pte_D p \<longleftrightarrow> p AND ucast PTE_D \<noteq> 0"

lemmas pte_flag_defs = pte_V_def pte_R_def pte_W_def pte_X_def pte_U_def pte_G_def pte_A_def pte_D_def

section \<open>What the unit reads of the core, and the memory behind it\<close>

record mmu_core =
  mc_satp_mode :: u32
  mc_satp_ppn :: u64
  mc_prv :: PrivilegeLevel
  mc_mprv :: bool
  mc_mpp :: u32
  mc_sum :: bool
  mc_mxr :: bool
  mc_xlen :: nat

record 'm mmu_memory_if =
  mmu_load_pte64 :: "'m \<Rightarrow> u64 \<Rightarrow> (u64 \<times> 'm) res"
  mmu_load_pte32 :: "'m \<Rightarrow> u64 \<Rightarrow> (u64 \<times> 'm) res"
  mmu_store_pte32 :: "'m \<Rightarrow> u64 \<Rightarrow> u32 \<Rightarrow> 'm res"

record vm_info =
  vm_levels :: nat
  vm_idxbits :: nat
  vm_ptesize :: nat
  vm_ptbase :: u64

section \<open>The page-table walk\<close>

definition decode_vm_info :: "mmu_core \<Rightarrow> PrivilegeLevel \<Rightarrow> vm_info res" where
  "decode_vm_info core prv =
    assert_that (prv \<noteq> MachineMode)
     (let ptbase = push_bit PGSHIFT (mc_satp_ppn core); mode = mc_satp_mode core in
      if mode = SATP_MODE_SV32
      then Inr \<lparr>vm_levels = 2, vm_idxbits = 10, vm_ptesize = 4, vm_ptbase = ptbase\<rparr>
      else if mode = SATP_MODE_SV39
      then Inr \<lparr>vm_levels = 3, vm_idxbits = 9, vm_ptesize = 8, vm_ptbase = ptbase\<rparr>
      else if mode = SATP_MODE_SV48
      then Inr \<lparr>vm_levels = 4, vm_idxbits = 9, vm_ptesize = 8, vm_ptbase = ptbase\<rparr>
      else if mode = SATP_MODE_SV57
      then Inr \<lparr>vm_levels = 5, vm_idxbits = 9, vm_ptesize = 8, vm_ptbase = ptbase\<rparr>
      else if mode = SATP_MODE_SV64
      then Inr \<lparr>vm_levels = 6, vm_idxbits = 9, vm_ptesize = 8, vm_ptbase = ptbase\<rparr>
      else Inl (RuntimeError ''unknown Sv (satp) mode''))"

text \<open>A shift by the operand's width or more is undefined in C++.\<close>

definition check_vaddr_extension :: "mmu_core \<Rightarrow> u64 \<Rightarrow> vm_info \<Rightarrow> bool res" where
  "check_vaddr_extension core vaddr vm =
    (let highbit = vm_idxbits vm * vm_levels vm + PGSHIFT - 1 in
     assert_that (highbit > 0)
      (if highbit \<ge> 64 \<or> mc_xlen core < highbit \<or> mc_xlen core - highbit \<ge> 64
       then Inl UndefinedBehaviour
       else let ext_mask = push_bit (mc_xlen core - highbit) 1 - 1;
                bits = drop_bit highbit vaddr AND ext_mask
            in Inr (bits = 0 \<or> bits = ext_mask)))"

text \<open>
  The permission and alignment checks on a leaf entry, in the source's order; \<open>False\<close> is a
  \<^verbatim>\<open>break\<close> out of the loop, to the page fault.
\<close>

definition leaf_permitted :: "MemoryAccessType \<Rightarrow> bool \<Rightarrow> bool \<Rightarrow> bool \<Rightarrow> pte_t \<Rightarrow> bool" where
  "leaf_permitted type s_mode sm mxr pte =
    (if type = FETCH \<and> \<not> pte_X pte then False
     else if type = LOAD \<and> \<not> pte_R pte \<and> \<not> (mxr \<and> pte_X pte) then False
     else if type = STORE \<and> \<not> (pte_R pte \<and> pte_W pte) then False
     else if pte_U pte then \<not> (s_mode \<and> (type = FETCH \<or> \<not> sm))
     else s_mode)"

definition ad_bits :: "MemoryAccessType \<Rightarrow> u64" where
  "ad_bits type = ucast (PTE_A OR (if type = STORE then PTE_D else 0))"

definition leaf_address :: "u64 \<Rightarrow> nat \<Rightarrow> u64 \<Rightarrow> u64" where
  "leaf_address ppn ptshift vaddr =
    (let mask = push_bit ptshift 1 - 1;
         vpn = drop_bit PGSHIFT vaddr;
         pgoff = vaddr AND ucast (PGSIZE - 1)
     in push_bit PGSHIFT ((ppn AND NOT mask) OR (vpn AND mask)) OR pgoff)"

definition page_fault :: "u64 \<Rightarrow> MemoryAccessType \<Rightarrow> 'a res" where
  "page_fault vaddr type =
    (case type of
       FETCH \<Rightarrow> raise_trap EXC_INSTR_PAGE_FAULT vaddr 0
     | LOAD \<Rightarrow> raise_trap EXC_LOAD_PAGE_FAULT vaddr 0
     | STORE \<Rightarrow> raise_trap EXC_STORE_AMO_PAGE_FAULT vaddr 0
     | _ \<Rightarrow> Inl (RuntimeError ''[mmu] unknown access type''))"

definition pte_address :: "vm_info \<Rightarrow> u64 \<Rightarrow> u64 \<Rightarrow> nat \<Rightarrow> u64" where
  "pte_address vm base vaddr i =
    (let ptshift = i * vm_idxbits vm;
         vpn_field = (ucast (drop_bit (PGSHIFT + ptshift) vaddr) :: u32)
                     AND (push_bit (vm_idxbits vm) 1 - 1)
     in base + ucast (vpn_field * of_nat (vm_ptesize vm)))"

definition load_pte :: "'m mmu_memory_if \<Rightarrow> vm_info \<Rightarrow> 'm \<Rightarrow> u64 \<Rightarrow> (pte_t \<times> 'm) res" where
  "load_pte mem vm m pte_paddr =
    assert_that (vm_ptesize vm = 4 \<or> vm_ptesize vm = 8)
     (if vm_ptesize vm = 4 then mmu_load_pte32 mem m pte_paddr else mmu_load_pte64 mem m pte_paddr)"

text \<open>
  One iteration of the loop per level: \<open>walk_loop (Suc i)\<close> is the iteration with the source's
  loop variable \<^verbatim>\<open>i\<close>, \<open>walk_loop 0\<close> the code after the loop.
\<close>

primrec walk_loop :: "'m mmu_memory_if \<Rightarrow> bool \<Rightarrow> vm_info \<Rightarrow> bool \<Rightarrow> bool \<Rightarrow> bool \<Rightarrow> MemoryAccessType \<Rightarrow>
    u64 \<Rightarrow> nat \<Rightarrow> u64 \<Rightarrow> 'm \<Rightarrow> (u64 \<times> 'm) res" where
  "walk_loop mem fault_AD vm s_mode sm mxr type vaddr 0 base m = page_fault vaddr type"
| "walk_loop mem fault_AD vm s_mode sm mxr type vaddr (Suc i) base m =
    (let ptshift = i * vm_idxbits vm; pte_paddr = pte_address vm base vaddr i in
     bind_res (load_pte mem vm m pte_paddr) (\<lambda>(pte, m1).
      let ppn = drop_bit PTE_PPN_SHIFT pte in
      if \<not> pte_V pte \<or> (\<not> pte_R pte \<and> pte_W pte) then page_fault vaddr type
      else if \<not> pte_R pte \<and> \<not> pte_X pte
      then walk_loop mem fault_AD vm s_mode sm mxr type vaddr i (push_bit PGSHIFT ppn) m1
      else assert_that (type = FETCH \<or> type = LOAD \<or> type = STORE)
       (if \<not> leaf_permitted type s_mode sm mxr pte then page_fault vaddr type
        else if ppn AND (push_bit ptshift 1 - 1) \<noteq> 0 then page_fault vaddr type
        else let ad = ad_bits type in
          if pte AND ad \<noteq> ad
          then (if fault_AD then page_fault vaddr type
                else bind_res (mmu_store_pte32 mem m1 pte_paddr (ucast (pte OR ad)))
                       (\<lambda>m2. Inr (leaf_address ppn ptshift vaddr, m2)))
          else Inr (leaf_address ppn ptshift vaddr, m1))))"

definition walk :: "'m mmu_memory_if \<Rightarrow> bool \<Rightarrow> mmu_core \<Rightarrow> 'm \<Rightarrow> u64 \<Rightarrow> MemoryAccessType \<Rightarrow>
    PrivilegeLevel \<Rightarrow> (u64 \<times> 'm) res" where
  "walk mem fault_AD core m vaddr type mode =
    (let s_mode = (mode = SupervisorMode); sm = mc_sum core; mxr = mc_mxr core in
     bind_res (decode_vm_info core mode) (\<lambda>vm.
     bind_res (check_vaddr_extension core vaddr vm) (\<lambda>ok.
       walk_loop mem fault_AD vm s_mode sm mxr type vaddr (if ok then vm_levels vm else 0)
         (vm_ptbase vm) m)))"

section \<open>The translation lookaside buffer\<close>

record tlb_entry_t =
  te_ppn :: u64
  te_vpn :: u64

type_synonym tlb = "nat \<Rightarrow> nat \<Rightarrow> nat \<Rightarrow> tlb_entry_t"

definition TLB_ENTRIES :: u64 where [core_consts]: "TLB_ENTRIES = 256"

record MMU =
  mmu_page_fault_on_AD :: bool
  mmu_tlb :: tlb

definition flush_tlb :: "MMU \<Rightarrow> MMU" where
  "flush_tlb u = u\<lparr>mmu_tlb := (\<lambda>_ _ _. \<lparr>te_ppn = - 1, te_vpn = - 1\<rparr>)\<rparr>"

definition make_MMU :: MMU where
  "make_MMU = flush_tlb \<lparr>mmu_page_fault_on_AD = False, mmu_tlb = (\<lambda>_ _ _. \<lparr>te_ppn = - 1, te_vpn = - 1\<rparr>)\<rparr>"

primrec access_index :: "MemoryAccessType \<Rightarrow> nat" where
  "access_index FETCH = 0" | "access_index LOAD = 1" | "access_index STORE = 2"
| "access_index MAX_MEM_ACCESS_TYPES = 3"

definition tlb_update :: "tlb \<Rightarrow> nat \<Rightarrow> nat \<Rightarrow> nat \<Rightarrow> tlb_entry_t \<Rightarrow> tlb" where
  "tlb_update tb i j k e = (\<lambda>i' j' k'. if i' = i \<and> j' = j \<and> k' = k then e else tb i' j' k')"

text \<open>
  \<^verbatim>\<open>~PGMASK\<close> is the complement of a 32-bit unsigned number: converted to 64 bits it has
  zeros in the upper half.
\<close>

definition effective_mode :: "mmu_core \<Rightarrow> MemoryAccessType \<Rightarrow> PrivilegeLevel" where
  "effective_mode core type =
    (if type \<noteq> FETCH \<and> mc_mprv core then mc_mpp core else mc_prv core)"

definition translate_virtual_to_physical_addr ::
  "'m mmu_memory_if \<Rightarrow> mmu_core \<Rightarrow> MMU \<Rightarrow> 'm \<Rightarrow> u64 \<Rightarrow> MemoryAccessType \<Rightarrow> (u64 \<times> MMU \<times> 'm) res" where
  "translate_virtual_to_physical_addr mem core u m vaddr type =
    (if mc_satp_mode core = SATP_MODE_BARE then Inr (vaddr, u, m)
     else let mode = effective_mode core type in
       if mode = MachineMode then Inr (vaddr, u, m)
       else assert_that (mode = 0 \<or> mode = 1)
        (assert_that (type = FETCH \<or> type = LOAD \<or> type = STORE)
         (let vpn = drop_bit PGSHIFT vaddr;
              idx = unat (vpn mod TLB_ENTRIES);
              x = mmu_tlb u (unat mode) (access_index type) idx in
          if te_vpn x = vpn then Inr (te_ppn x OR (vaddr AND ucast PGMASK), u, m)
          else bind_res (walk mem (mmu_page_fault_on_AD u) core m vaddr type mode)
            (\<lambda>(paddr, m'). Inr (paddr,
               u\<lparr>mmu_tlb := tlb_update (mmu_tlb u) (unat mode) (access_index type) idx
                   \<lparr>te_ppn = paddr AND ucast (NOT PGMASK), te_vpn = vpn\<rparr>\<rparr>, m')))))"

section \<open>The memory a walk needs\<close>

text \<open>
  What the walk relies on in the memory behind \<^verbatim>\<open>mmu_memory_if\<close>: loads change nothing, an
  entry that can be loaded can be stored, and a store changes the word it writes and no
  other aligned one.
\<close>

locale pte_memory =
  fixes mem :: "'m mmu_memory_if"
    and valid :: "'m \<Rightarrow> bool"
  assumes load32_pure: "valid m \<Longrightarrow> mmu_load_pte32 mem m a = Inr (v, m') \<Longrightarrow> m' = m"
    and load64_pure: "valid m \<Longrightarrow> mmu_load_pte64 mem m a = Inr (v, m') \<Longrightarrow> m' = m"
    and load32_range: "valid m \<Longrightarrow> mmu_load_pte32 mem m a = Inr (v, m') \<Longrightarrow> take_bit 32 v = v"
    and store_valid: "valid m \<Longrightarrow> mmu_store_pte32 mem m a w = Inr m' \<Longrightarrow> valid m'"
    and store_total32: "valid m \<Longrightarrow> mmu_load_pte32 mem m a = Inr r \<Longrightarrow> \<exists>m'. mmu_store_pte32 mem m a w = Inr m'"
    and store_total64: "valid m \<Longrightarrow> mmu_load_pte64 mem m a = Inr r \<Longrightarrow> \<exists>m'. mmu_store_pte32 mem m a w = Inr m'"
    and store_load32: "valid m \<Longrightarrow> mmu_store_pte32 mem m a w = Inr m' \<Longrightarrow> take_bit 2 a = 0 \<Longrightarrow> take_bit 2 b = 0 \<Longrightarrow>
      mmu_load_pte32 mem m b = Inr (v, m) \<Longrightarrow>
      mmu_load_pte32 mem m' b = Inr (if b = a then ucast w else v, m')"
    and store_load64: "valid m \<Longrightarrow> mmu_store_pte32 mem m a w = Inr m' \<Longrightarrow> take_bit 3 a = 0 \<Longrightarrow> take_bit 3 b = 0 \<Longrightarrow>
      mmu_load_pte64 mem m b = Inr (v, m) \<Longrightarrow>
      mmu_load_pte64 mem m' b = Inr (if b = a then (v AND 0xffffffff00000000) OR ucast w else v, m')"

text \<open>
  The state \<open>m'\<close> has the entries of \<open>m\<close> except that accessed and dirty bits may be set.
\<close>

definition pte_aligned :: "vm_info \<Rightarrow> u64 \<Rightarrow> bool" where
  "pte_aligned vm a \<longleftrightarrow> (if vm_ptesize vm = 4 then take_bit 2 a = 0 else take_bit 3 a = 0)"

definition ad_le :: "'m mmu_memory_if \<Rightarrow> vm_info \<Rightarrow> 'm \<Rightarrow> 'm \<Rightarrow> bool" where
  "ad_le mem vm m m' \<longleftrightarrow>
    (\<forall>a v. pte_aligned vm a \<longrightarrow> load_pte mem vm m a = Inr (v, m) \<longrightarrow>
       (\<exists>d. load_pte mem vm m' a = Inr (v OR (d AND 0xc0), m')))"

lemma pte_flags_ad:
  "pte_V (v OR (d AND 0xc0)) = pte_V v" "pte_R (v OR (d AND 0xc0)) = pte_R v"
  "pte_W (v OR (d AND 0xc0)) = pte_W v" "pte_X (v OR (d AND 0xc0)) = pte_X v"
  "pte_U (v OR (d AND 0xc0)) = pte_U v"
  "drop_bit PTE_PPN_SHIFT (v OR (d AND 0xc0)) = drop_bit PTE_PPN_SHIFT v"
  by (auto simp: pte_flag_defs core_consts bit.conj_disj_distrib2 and.assoc drop_bit_or drop_bit_and)

lemma leaf_permitted_ad: "leaf_permitted type s sm mxr (v OR (d AND 0xc0)) = leaf_permitted type s sm mxr v"
  unfolding leaf_permitted_def pte_flags_ad ..

lemma ad_bits_sub: "ad_bits type = ad_bits type AND 0xc0"
  by (simp add: ad_bits_def core_consts)

lemma vm_info_sizes:
  assumes "decode_vm_info core prv = Inr vm"
  shows "vm_ptesize vm = 4 \<or> vm_ptesize vm = 8" "take_bit 12 (vm_ptbase vm) = 0"
  using assms by (auto simp: decode_vm_info_def Let_def PGSHIFT_def take_bit_push_bit split: if_splits)

lemma take_bit_add_0:
  fixes a b :: "'a::len word"
  assumes "take_bit n a = 0" and "take_bit n b = 0"
  shows "take_bit n (a + b) = 0"
  using assms by (simp add: take_bit_eq_0_iff dvd_add)

lemma take_bit_le_0: "take_bit n a = 0 \<Longrightarrow> k \<le> n \<Longrightarrow> take_bit k (a :: 'a::len word) = 0"
  using take_bit_take_bit [of k n a] by (simp add: min_def)

lemma pte_address_aligned:
  assumes "vm_ptesize vm = 4 \<or> vm_ptesize vm = 8" and "take_bit 12 base = 0"
  shows "pte_aligned vm (pte_address vm base vaddr i)"
proof -
  have t: "take_bit n (ucast (push_bit n (w :: u32)) :: u64) = 0" for n w
    by (rule bit_word_eqI) (auto simp: bit_simps)
  have m: "(w :: u32) * 4 = push_bit 2 w" "w * 8 = push_bit 3 w" for w
    by (simp_all add: push_bit_eq_mult)
  obtain w :: u32 where "pte_address vm base vaddr i = base + ucast (w * of_nat (vm_ptesize vm))"
    unfolding pte_address_def Let_def by blast
  then show ?thesis
    using assms(1) take_bit_le_0 [OF assms(2), of 2] take_bit_le_0 [OF assms(2), of 3]
    by (auto simp: pte_aligned_def m t intro!: take_bit_add_0)
qed

lemma or_ad_low: "(v AND 0xffffffff00000000) OR ucast (ucast (v OR (d AND 0xc0)) :: u32) = v OR (d AND 0xc0 :: u64)"
proof -
  have c: "(0xffffffff00000000 :: u64) = push_bit 32 (mask 32)" "(0xc0 :: u64) = push_bit 6 (mask 2)"
    by (simp_all add: mask_numeral)
  show ?thesis
    unfolding c by (rule bit_word_eqI) (auto simp: bit_simps)
qed

lemma or_ad_take_32: "take_bit 32 v = v \<Longrightarrow> ucast (ucast (v OR (d AND 0xc0)) :: u32) = v OR (d AND 0xc0 :: u64)"
proof -
  have c: "(0xc0 :: u64) = push_bit 6 (mask 2)"
    by (simp add: mask_numeral)
  assume "take_bit 32 v = v"
  then have "bit v n \<Longrightarrow> n < 32" for n
    by (metis bit_take_bit_iff)
  then show ?thesis
    unfolding c by (intro bit_word_eqI) (auto simp: bit_simps)
qed

lemma page_fault_neq [simp]: "page_fault vaddr type \<noteq> Inr x"
  by (simp add: page_fault_def raise_trap_def split: MemoryAccessType.split)

lemma and_or_absorb: "x AND a = a \<Longrightarrow> (x OR y) AND a = (a :: u64)"
  by (auto simp: bit_eq_iff bit_simps)

lemma table_base_aligned: "take_bit 12 (push_bit PGSHIFT (x :: u64)) = 0"
  by (simp add: PGSHIFT_def take_bit_push_bit)

lemma walk_loop_descend:
  assumes "load_pte mem vm m (pte_address vm base vaddr i) = Inr (pte, m)"
    and "pte_V pte" "\<not> pte_R pte" "\<not> pte_W pte" "\<not> pte_X pte"
  shows "walk_loop mem fa vm s sm mxr type vaddr (Suc i) base m =
    walk_loop mem fa vm s sm mxr type vaddr i (push_bit PGSHIFT (drop_bit PTE_PPN_SHIFT pte)) m"
  using assms by (simp add: Let_def)

context pte_memory
begin

lemma load_pure: "valid m \<Longrightarrow> load_pte mem vm m a = Inr (v, m') \<Longrightarrow> m' = m"
  by (auto simp: load_pte_def split: if_splits dest: load32_pure load64_pure)

lemma store_total: "valid m \<Longrightarrow> load_pte mem vm m a = Inr r \<Longrightarrow> \<exists>m'. mmu_store_pte32 mem m a w = Inr m'"
  by (auto simp: load_pte_def split: if_splits dest: store_total32 store_total64)


lemma store_load:
  assumes "valid m" and "load_pte mem vm m a = Inr (v, m)" and "pte_aligned vm a"
    and "mmu_store_pte32 mem m a (ucast (v OR (d AND 0xc0))) = Inr m'"
    and "load_pte mem vm m b = Inr (u, m)" and "pte_aligned vm b"
  shows "load_pte mem vm m' b = Inr (if b = a then u OR (d AND 0xc0) else u, m')"
proof (cases "vm_ptesize vm = 4")
  case True
  then have "mmu_load_pte32 mem m' b = Inr (if b = a then ucast (ucast (v OR (d AND 0xc0)) :: u32) else u, m')"
    using assms by (intro store_load32) (auto simp: load_pte_def pte_aligned_def)
  then show ?thesis
    using True assms(1,2,5) or_ad_take_32 load32_range by (auto simp: load_pte_def)
next
  case False
  then have "mmu_load_pte64 mem m' b =
      Inr (if b = a then (u AND 0xffffffff00000000) OR ucast (ucast (v OR (d AND 0xc0)) :: u32) else u, m')"
    using assms by (intro store_load64) (auto simp: load_pte_def pte_aligned_def)
  then show ?thesis
    using False assms(2,5) or_ad_low by (auto simp: load_pte_def assert_that_def split: if_splits)
qed

lemma store_ad_le:
  assumes "valid m" and "load_pte mem vm m a = Inr (v, m)" and "pte_aligned vm a"
    and "mmu_store_pte32 mem m a (ucast (v OR (d AND 0xc0))) = Inr m'"
  shows "ad_le mem vm m m'"
  unfolding ad_le_def
proof (intro allI impI)
  fix b u assume "pte_aligned vm b" "load_pte mem vm m b = Inr (u, m)"
  from store_load [OF assms this(2,1)]
  show "\<exists>d. load_pte mem vm m' b = Inr (u OR (d AND 0xc0), m')"
    by (cases "b = a") (auto intro: exI [of _ 0])
qed

lemma ad_le_refl: "ad_le mem vm m m"
  unfolding ad_le_def by (metis and_zero_eq bit.conj_zero_left bit.disj_zero_right)

text \<open>One iteration that does not fault: descend to the next level, or a leaf.\<close>

lemma walk_loop_SucE:
  assumes "valid m" and "walk_loop mem fa vm s sm mxr type vaddr (Suc i) base m = Inr (pa, m')"
  obtains (descend) pte where "load_pte mem vm m (pte_address vm base vaddr i) = Inr (pte, m)"
      "pte_V pte" "\<not> pte_R pte" "\<not> pte_W pte" "\<not> pte_X pte"
      "walk_loop mem fa vm s sm mxr type vaddr i (push_bit PGSHIFT (drop_bit PTE_PPN_SHIFT pte)) m = Inr (pa, m')"
  | (leaf) pte where "load_pte mem vm m (pte_address vm base vaddr i) = Inr (pte, m)"
      "pte_V pte" "pte_R pte \<or> \<not> pte_W pte" "pte_R pte \<or> pte_X pte"
      "type = FETCH \<or> type = LOAD \<or> type = STORE" "leaf_permitted type s sm mxr pte"
      "drop_bit PTE_PPN_SHIFT pte AND (push_bit (i * vm_idxbits vm) 1 - 1) = 0"
      "pa = leaf_address (drop_bit PTE_PPN_SHIFT pte) (i * vm_idxbits vm) vaddr"
      "if pte AND ad_bits type = ad_bits type then m' = m
       else \<not> fa \<and> mmu_store_pte32 mem m (pte_address vm base vaddr i) (ucast (pte OR ad_bits type)) = Inr m'"
proof -
  from assms obtain pte m1 where l: "load_pte mem vm m (pte_address vm base vaddr i) = Inr (pte, m1)"
    by (auto simp: Let_def)
  with assms(1) have "m1 = m" by (rule load_pure)
  with l assms(2) that show ?thesis
    by (auto simp: Let_def split: if_splits)
qed

lemma walk_loop_leafI:
  assumes "load_pte mem vm m (pte_address vm base vaddr i) = Inr (pte, m)"
    "pte_V pte" "pte_R pte \<or> \<not> pte_W pte" "pte_R pte \<or> pte_X pte"
    "type = FETCH \<or> type = LOAD \<or> type = STORE" "leaf_permitted type s sm mxr pte"
    "drop_bit PTE_PPN_SHIFT pte AND (push_bit (i * vm_idxbits vm) 1 - 1) = 0"
    and "valid m" "pte AND ad_bits type = ad_bits type \<or> \<not> fa"
  shows "\<exists>m'. walk_loop mem fa vm s sm mxr type vaddr (Suc i) base m
    = Inr (leaf_address (drop_bit PTE_PPN_SHIFT pte) (i * vm_idxbits vm) vaddr, m')"
proof -
  obtain m2 where "mmu_store_pte32 mem m (pte_address vm base vaddr i) (ucast (pte OR ad_bits type)) = Inr m2"
    using store_total [OF assms(8,1)] by blast
  with assms show ?thesis
    by (cases "pte AND ad_bits type = ad_bits type") (auto simp: Let_def)
qed

lemma walk_loop_ad_le:
  assumes "valid m" and "vm_ptesize vm = 4 \<or> vm_ptesize vm = 8" and "take_bit 12 base = 0"
    and "walk_loop mem fa vm s sm mxr type vaddr i base m = Inr (pa, m')"
  shows "valid m' \<and> ad_le mem vm m m'"
  using assms
proof (induction i arbitrary: base)
  case (Suc i)
  from Suc.prems(1,4) show ?case
  proof (cases rule: walk_loop_SucE)
    case (descend pte)
    from Suc.IH [OF Suc.prems(1,2) table_base_aligned descend(6)] show ?thesis .
  next
    case (leaf pte)
    then show ?thesis
      using store_ad_le [OF Suc.prems(1) leaf(1) pte_address_aligned [OF Suc.prems(2,3)], of "ad_bits type" m']
        Suc.prems(1) ad_le_refl store_valid ad_bits_sub [of type]
      by (auto split: if_splits)
  qed
qed simp

text \<open>Setting accessed and dirty bits elsewhere does not change what a walk returns.\<close>

lemma walk_loop_mono:
  assumes "valid m" and "valid n" and "ad_le mem vm m n"
    and "vm_ptesize vm = 4 \<or> vm_ptesize vm = 8" and "take_bit 12 base = 0"
    and "walk_loop mem fa vm s sm mxr type vaddr i base m = Inr (pa, m')"
  shows "\<exists>n'. walk_loop mem fa vm s sm mxr type vaddr i base n = Inr (pa, n')"
  using assms
proof (induction i arbitrary: base)
  case (Suc i)
  define a where "a = pte_address vm base vaddr i"
  have al: "pte_aligned vm a"
    unfolding a_def by (rule pte_address_aligned [OF Suc.prems(4,5)])
  from Suc.prems(1,6) show ?case
  proof (cases rule: walk_loop_SucE)
    case (descend pte)
    then obtain d where l: "load_pte mem vm n a = Inr (pte OR (d AND 0xc0), n)"
      using Suc.prems(3) al unfolding ad_le_def a_def by blast
    have "walk_loop mem fa vm s sm mxr type vaddr (Suc i) base n =
        walk_loop mem fa vm s sm mxr type vaddr i (push_bit PGSHIFT (drop_bit PTE_PPN_SHIFT pte)) n"
      using walk_loop_descend [OF l [unfolded a_def]] descend unfolding pte_flags_ad by blast
    with Suc.IH [OF Suc.prems(1-4) table_base_aligned descend(6)] show ?thesis by simp
  next
    case (leaf pte)
    then obtain d where l: "load_pte mem vm n a = Inr (pte OR (d AND 0xc0), n)"
      using Suc.prems(3) al unfolding ad_le_def a_def by blast
    have "(pte OR (d AND 0xc0)) AND ad_bits type = ad_bits type \<or> \<not> fa"
      using leaf(9) and_or_absorb by (auto split: if_splits)
    then show ?thesis
      using walk_loop_leafI [OF l [unfolded a_def], unfolded pte_flags_ad leaf_permitted_ad,
          OF leaf(2-7) Suc.prems(2)] leaf(8) by blast
  qed
qed simp

lemma walk_mono:
  assumes "valid m" and "valid n" and "decode_vm_info core mode = Inr vm" and "ad_le mem vm m n"
    and "walk mem fa core m vaddr type mode = Inr (pa, m')"
  shows "\<exists>n'. walk mem fa core n vaddr type mode = Inr (pa, n')"
proof -
  from assms(3,5) obtain ok where ok: "check_vaddr_extension core vaddr vm = Inr ok"
    and w: "walk_loop mem fa vm (mode = SupervisorMode) (mc_sum core) (mc_mxr core) type vaddr
      (if ok then vm_levels vm else 0) (vm_ptbase vm) m = Inr (pa, m')"
    by (auto simp: walk_def Let_def)
  from walk_loop_mono [OF assms(1,2,4) vm_info_sizes [OF assms(3)] w] assms(3) ok
  show ?thesis unfolding walk_def Let_def by force
qed

lemma walk_ad_le:
  assumes "valid m" and "walk mem fa core m vaddr type mode = Inr (pa, m')"
  shows "valid m' \<and> (\<exists>vm. decode_vm_info core mode = Inr vm \<and> ad_le mem vm m m')"
  using assms(2) walk_loop_ad_le [OF assms(1) vm_info_sizes] by (fastforce simp: walk_def Let_def)

end

section \<open>Translations of one page\<close>

lemma drop_bit_page:
  assumes "drop_bit PGSHIFT v = drop_bit PGSHIFT (w :: u64)"
  shows "drop_bit (PGSHIFT + k) v = drop_bit (PGSHIFT + k) w"
proof -
  have "drop_bit (PGSHIFT + k) x = drop_bit k (drop_bit PGSHIFT x)" for x :: u64
    by (simp add: add.commute)
  then show ?thesis by (simp only: assms)
qed

lemma leaf_address_page:
  assumes "drop_bit PGSHIFT v = drop_bit PGSHIFT w"
  shows "leaf_address ppn sh w = (leaf_address ppn sh v AND - 0x1000) OR (w AND 0xfff)"
proof -
  have c: "(0xfff :: u64) = mask 12" "- (0x1000 :: u64) = NOT (mask 12)"
    by (simp_all add: mask_numeral)
  have "leaf_address ppn sh v = push_bit 12 X OR (v AND 0xfff)"
    and "leaf_address ppn sh w = push_bit 12 X OR (w AND 0xfff)"
    if "X = (ppn AND NOT (push_bit sh 1 - 1)) OR (drop_bit PGSHIFT w AND (push_bit sh 1 - 1))" for X
    using assms that by (simp_all add: leaf_address_def Let_def core_consts)
  then show ?thesis
    unfolding c by (auto intro!: bit_word_eqI simp: bit_simps)
qed

lemma walk_loop_same_page:
  assumes "drop_bit PGSHIFT v = drop_bit PGSHIFT w"
    and "walk_loop mem fa vm s sm mxr type v i base m = Inr (pa, m')"
  shows "walk_loop mem fa vm s sm mxr type w i base m = Inr ((pa AND - 0x1000) OR (w AND 0xfff), m')"
  using assms(2)
proof (induction i arbitrary: base m)
  case (Suc i)
  have "pte_address vm base w i = pte_address vm base v i"
    using drop_bit_page [OF assms(1)] by (simp add: pte_address_def)
  moreover from Suc.prems obtain pte m1 where "load_pte mem vm m (pte_address vm base v i) = Inr (pte, m1)"
    by (auto simp: Let_def)
  ultimately show ?case
    using Suc by (auto simp: Let_def leaf_address_page [OF assms(1)] split: if_splits)
qed simp

lemma walk_same_page:
  assumes "drop_bit PGSHIFT v = drop_bit PGSHIFT w" and "walk mem fa core m v type mode = Inr (pa, m')"
  shows "walk mem fa core m w type mode = Inr ((pa AND - 0x1000) OR (w AND 0xfff), m')"
proof -
  from assms(2) obtain vm ok where vm: "decode_vm_info core mode = Inr vm"
    and ok: "check_vaddr_extension core v vm = Inr ok"
    and wl: "walk_loop mem fa vm (mode = SupervisorMode) (mc_sum core) (mc_mxr core) type v
      (if ok then vm_levels vm else 0) (vm_ptbase vm) m = Inr (pa, m')"
    by (auto simp: walk_def Let_def)
  define h where "h = vm_idxbits vm * vm_levels vm - 1"
  have "vm_idxbits vm * vm_levels vm > 0"
    using vm by (auto simp: decode_vm_info_def Let_def split: if_splits)
  then have h: "vm_idxbits vm * vm_levels vm + PGSHIFT - 1 = PGSHIFT + h"
    by (simp add: h_def)
  have "check_vaddr_extension core w vm = check_vaddr_extension core v vm"
    unfolding check_vaddr_extension_def Let_def h drop_bit_page [OF assms(1)] ..
  with vm ok walk_loop_same_page [OF assms(1) wl] show ?thesis
    unfolding walk_def Let_def by simp
qed

section \<open>Coherence of the translation lookaside buffer\<close>

text \<open>
  Every entry in use answers what the walk would answer, for the translation settings of the
  core and the page tables as they are now.
\<close>

definition real_access :: "MemoryAccessType \<Rightarrow> bool" where
  "real_access type \<longleftrightarrow> type = FETCH \<or> type = LOAD \<or> type = STORE"

definition tlb_coherent :: "'m mmu_memory_if \<Rightarrow> mmu_core \<Rightarrow> MMU \<Rightarrow> 'm \<Rightarrow> bool" where
  "tlb_coherent mem core u m \<longleftrightarrow>
    (\<forall>mode type idx vaddr.
       mode \<in> {0, 1} \<longrightarrow> real_access type \<longrightarrow>
       drop_bit PGSHIFT vaddr = te_vpn (mmu_tlb u (unat mode) (access_index type) idx) \<longrightarrow>
       (\<exists>m'. walk mem (mmu_page_fault_on_AD u) core m vaddr type mode
          = Inr (te_ppn (mmu_tlb u (unat mode) (access_index type) idx) OR (vaddr AND 0xfff), m')))"

lemma vpn_not_empty: "drop_bit PGSHIFT (vaddr :: u64) \<noteq> - 1"
proof
  assume "drop_bit PGSHIFT vaddr = - 1"
  then have "bit (drop_bit PGSHIFT vaddr) 63" by simp
  then show False by (auto simp: bit_simps PGSHIFT_def dest: bit_imp_le_length)
qed

lemma flush_tlb_coherent: "tlb_coherent mem core (flush_tlb u) m"
  using vpn_not_empty by (simp add: tlb_coherent_def flush_tlb_def)

lemma access_index_inj: "access_index t1 = access_index t2 \<longleftrightarrow> t1 = t2"
  by (cases t1; cases t2) simp_all

lemma page_bits: "ucast PGMASK = (0xfff :: u64)" "ucast (NOT PGMASK) = (0xfffff000 :: u64)"
  by (simp_all add: core_consts)

lemma low_page: "drop_bit 32 pa = 0 \<Longrightarrow> pa AND 0xfffff000 = pa AND - (0x1000 :: u64)"
proof -
  have c: "- (0x1000 :: u64) = NOT (mask 12)" "(0xfffff000 :: u64) = mask 32 AND NOT (mask 12)"
    by (simp_all add: mask_numeral)
  assume "drop_bit 32 pa = 0"
  then have "\<not> bit pa (32 + k)" for k
    using bit_drop_bit_eq [of 32 pa] by (auto simp: fun_eq_iff)
  then have "bit pa n \<Longrightarrow> n < 32" for n
    by (metis le_add_diff_inverse not_less)
  then show ?thesis
    unfolding c by (intro bit_word_eqI) (auto simp: bit_simps)
qed

context pte_memory
begin

lemma coherent_mono:
  assumes "tlb_coherent mem core u m" and "valid m" and "valid n"
    and "\<And>vm. decode_vm_info core mode = Inr vm \<Longrightarrow> ad_le mem vm m n" and "mode \<in> {0, 1}"
  shows "tlb_coherent mem core u n"
proof -
  have same: "decode_vm_info core 0 = decode_vm_info core 1"
    by (simp add: decode_vm_info_def core_consts)
  show ?thesis
    unfolding tlb_coherent_def
  proof (intro allI impI)
    fix md :: u32 and type idx vaddr
    let ?e = "mmu_tlb u (unat md) (access_index type) idx"
    assume md: "md \<in> {0, 1}" "real_access type" "drop_bit PGSHIFT vaddr = te_vpn ?e"
    then obtain m' where w: "walk mem (mmu_page_fault_on_AD u) core m vaddr type md
        = Inr (te_ppn ?e OR (vaddr AND 0xfff), m')"
      using assms(1) unfolding tlb_coherent_def by blast
    then obtain vm where vm: "decode_vm_info core md = Inr vm"
      by (auto simp: walk_def Let_def)
    then have "decode_vm_info core mode = Inr vm"
      using md(1) assms(5) same by auto
    from walk_mono [OF assms(2,3) vm assms(4) [OF this] w]
    show "\<exists>m'. walk mem (mmu_page_fault_on_AD u) core n vaddr type md
        = Inr (te_ppn ?e OR (vaddr AND 0xfff), m')" .
  qed
qed

lemma coherent_insert:
  assumes "tlb_coherent mem core u m" and "walk mem (mmu_page_fault_on_AD u) core m v type mode = Inr (pa, m')"
    and "drop_bit 32 pa = 0" and "mode \<in> {0, 1}"
  shows "tlb_coherent mem core
    (u\<lparr>mmu_tlb := tlb_update (mmu_tlb u) (unat mode) (access_index type) idx
        \<lparr>te_ppn = pa AND ucast (NOT PGMASK), te_vpn = drop_bit PGSHIFT v\<rparr>\<rparr>) m"
  unfolding tlb_coherent_def
proof (intro allI impI)
  fix md :: u32 and ty j w
  let ?u = "u\<lparr>mmu_tlb := tlb_update (mmu_tlb u) (unat mode) (access_index type) idx
        \<lparr>te_ppn = pa AND ucast (NOT PGMASK), te_vpn = drop_bit PGSHIFT v\<rparr>\<rparr>"
  assume md: "md \<in> {0, 1}" "real_access ty"
    "drop_bit PGSHIFT w = te_vpn (mmu_tlb ?u (unat md) (access_index ty) j)"
  show "\<exists>m'. walk mem (mmu_page_fault_on_AD ?u) core m w ty md
      = Inr (te_ppn (mmu_tlb ?u (unat md) (access_index ty) j) OR (w AND 0xfff), m')"
  proof (cases "md = mode \<and> ty = type \<and> j = idx")
    case True
    then have "drop_bit PGSHIFT v = drop_bit PGSHIFT w"
      using md(3) by (simp add: tlb_update_def)
    from walk_same_page [OF this assms(2)] True show ?thesis
      by (simp add: tlb_update_def page_bits low_page [OF assms(3)])
  next
    case False
    then have e: "mmu_tlb ?u (unat md) (access_index ty) j = mmu_tlb u (unat md) (access_index ty) j"
      using md(1) assms(4) by (auto simp: tlb_update_def access_index_inj)
    show ?thesis
      using assms(1) md unfolding tlb_coherent_def e by auto
  qed
qed

lemma translate_keeps_coherent:
  assumes "valid m" and "tlb_coherent mem core u m"
    and "translate_virtual_to_physical_addr mem core u m vaddr type = Inr (pa, u', m')"
    and "drop_bit 32 pa = 0"
  shows "valid m' \<and> tlb_coherent mem core u' m'"
proof (cases "u' = u \<and> m' = m")
  case False
  define mode where "mode = effective_mode core type"
  define idx where "idx = unat (drop_bit PGSHIFT vaddr mod TLB_ENTRIES)"
  have mode: "mode \<in> {0, 1}"
    and w: "walk mem (mmu_page_fault_on_AD u) core m vaddr type mode = Inr (pa, m')"
    and u': "u' = u\<lparr>mmu_tlb := tlb_update (mmu_tlb u) (unat mode) (access_index type) idx
        \<lparr>te_ppn = pa AND ucast (NOT PGMASK), te_vpn = drop_bit PGSHIFT vaddr\<rparr>\<rparr>"
    using assms(3) False
    by (auto simp: translate_virtual_to_physical_addr_def Let_def mode_def idx_def split: if_splits)
  note c = coherent_insert [OF assms(2) w assms(4) mode, of idx, folded u']
  from walk_ad_le [OF assms(1) w] coherent_mono [OF c assms(1) _ _ mode] show ?thesis by fastforce
qed (use assms in simp)

lemma translate_transparent:
  assumes "tlb_coherent mem core u m"
  shows "map_sum id fst (translate_virtual_to_physical_addr mem core u m vaddr type) =
    map_sum id fst (translate_virtual_to_physical_addr mem core (flush_tlb u) m vaddr type)"
proof -
  define mode where "mode = effective_mode core type"
  define x where "x = mmu_tlb u (unat mode) (access_index type) (unat (drop_bit PGSHIFT vaddr mod TLB_ENTRIES))"
  have pf: "mmu_page_fault_on_AD (flush_tlb u) = mmu_page_fault_on_AD u"
    by (simp add: flush_tlb_def)
  have miss: "te_vpn (mmu_tlb (flush_tlb u) i j k) \<noteq> drop_bit PGSHIFT vaddr" for i j k
    using vpn_not_empty [of vaddr] by (simp add: flush_tlb_def)
  show ?thesis
  proof (cases "te_vpn x = drop_bit PGSHIFT vaddr \<and> mode \<in> {0, 1} \<and> real_access type")
    case True
    then obtain m' where "walk mem (mmu_page_fault_on_AD u) core m vaddr type mode
        = Inr (te_ppn x OR (vaddr AND 0xfff), m')"
      using assms unfolding tlb_coherent_def x_def by metis
    with True miss show ?thesis
      by (auto simp: translate_virtual_to_physical_addr_def Let_def mode_def [symmetric] x_def [symmetric]
          page_bits pf real_access_def)
  next
    case False
    then show ?thesis
      using miss by (cases "walk mem (mmu_page_fault_on_AD u) core m vaddr type mode")
        (auto simp: translate_virtual_to_physical_addr_def Let_def mode_def [symmetric] x_def [symmetric]
          pf real_access_def assert_that_def)
  qed
qed

end

section \<open>The walk against the page tables\<close>

text \<open>
  The page tables as the privileged architecture describes them: \<open>pt\<close> gives the entry at an
  address, and \<open>pt_leaf pt vm vaddr n base l a pte\<close> says that the walk for \<open>vaddr\<close> that has \<open>n\<close>
  levels to go at the table \<open>base\<close> ends in the leaf entry \<open>pte\<close> of level \<open>l\<close>, stored at \<open>a\<close>.
\<close>

inductive pt_leaf :: "(u64 \<Rightarrow> pte_t option) \<Rightarrow> vm_info \<Rightarrow> u64 \<Rightarrow> nat \<Rightarrow> u64 \<Rightarrow> nat \<Rightarrow> u64 \<Rightarrow> pte_t \<Rightarrow> bool"
  for pt vm vaddr where
  leaf: "\<lbrakk>pt (pte_address vm base vaddr i) = Some pte; pte_V pte; pte_W pte \<Longrightarrow> pte_R pte;
    pte_R pte \<or> pte_X pte\<rbrakk> \<Longrightarrow> pt_leaf pt vm vaddr (Suc i) base i (pte_address vm base vaddr i) pte"
| table: "\<lbrakk>pt (pte_address vm base vaddr i) = Some p; pte_V p; \<not> pte_R p; \<not> pte_W p; \<not> pte_X p;
    pt_leaf pt vm vaddr i (push_bit PGSHIFT (drop_bit PTE_PPN_SHIFT p)) l a pte\<rbrakk>
    \<Longrightarrow> pt_leaf pt vm vaddr (Suc i) base l a pte"

inductive_cases pt_leaf_SucE: "pt_leaf pt vm vaddr (Suc i) base l a pte"
inductive_cases pt_leaf_0E: "pt_leaf pt vm vaddr 0 base l a pte"

definition access_allowed :: "MemoryAccessType \<Rightarrow> bool \<Rightarrow> bool \<Rightarrow> bool \<Rightarrow> pte_t \<Rightarrow> bool" where
  "access_allowed type s_mode sm mxr pte \<longleftrightarrow>
     (case type of FETCH \<Rightarrow> pte_X pte | LOAD \<Rightarrow> pte_R pte \<or> mxr \<and> pte_X pte | STORE \<Rightarrow> pte_W pte | _ \<Rightarrow> False) \<and>
     (if s_mode then pte_U pte \<longrightarrow> sm \<and> type \<noteq> FETCH else pte_U pte)"

definition pte_at :: "'m mmu_memory_if \<Rightarrow> vm_info \<Rightarrow> 'm \<Rightarrow> u64 \<Rightarrow> pte_t option" where
  "pte_at mem vm m a = (case load_pte mem vm m a of Inl _ \<Rightarrow> None | Inr (v, _) \<Rightarrow> Some v)"

definition walk_grants :: "'m mmu_memory_if \<Rightarrow> bool \<Rightarrow> vm_info \<Rightarrow> bool \<Rightarrow> bool \<Rightarrow> bool \<Rightarrow> MemoryAccessType \<Rightarrow>
    u64 \<Rightarrow> nat \<Rightarrow> u64 \<Rightarrow> 'm \<Rightarrow> u64 \<Rightarrow> 'm \<Rightarrow> bool" where
  "walk_grants mem fa vm s sm mxr type vaddr n base m pa m' \<longleftrightarrow>
    (\<exists>l a pte. pt_leaf (pte_at mem vm m) vm vaddr n base l a pte \<and> access_allowed type s sm mxr pte \<and>
       take_bit (l * vm_idxbits vm) (drop_bit PTE_PPN_SHIFT pte) = 0 \<and>
       pa = leaf_address (drop_bit PTE_PPN_SHIFT pte) (l * vm_idxbits vm) vaddr \<and>
       (if pte AND ad_bits type = ad_bits type then m' = m
        else \<not> fa \<and> mmu_store_pte32 mem m a (ucast (pte OR ad_bits type)) = Inr m'))"

lemma permitted_iff_allowed:
  assumes "pte_R pte \<or> \<not> pte_W pte"
  shows "(type = FETCH \<or> type = LOAD \<or> type = STORE) \<and> leaf_permitted type s sm mxr pte
    \<longleftrightarrow> access_allowed type s sm mxr pte"
  using assms by (cases type) (auto simp: leaf_permitted_def access_allowed_def)

lemma aligned_superpage_iff: "ppn AND (2 ^ k - 1) = take_bit k (ppn :: u64)"
  by (simp add: take_bit_eq_mask mask_eq_exp_minus_1)

context pte_memory
begin

lemma walk_loop_grants:
  assumes "valid m"
  shows "walk_loop mem fa vm s sm mxr type vaddr n base m = Inr (pa, m') \<longleftrightarrow>
    walk_grants mem fa vm s sm mxr type vaddr n base m pa m'"
proof (induction n arbitrary: base)
  case 0
  then show ?case by (auto simp: walk_grants_def elim: pt_leaf_0E)
next
  case (Suc i)
  let ?a = "pte_address vm base vaddr i"
  show ?case
  proof (cases "load_pte mem vm m ?a")
    case (Inl e)
    then show ?thesis
      by (auto simp: Let_def walk_grants_def pte_at_def elim: pt_leaf_SucE)
  next
    case (Inr r)
    then obtain pte where l: "load_pte mem vm m ?a = Inr (pte, m)"
      using load_pure [OF assms] by (cases r) auto
    then have at: "pte_at mem vm m ?a = Some pte" by (simp add: pte_at_def)
    consider (bad) "\<not> pte_V pte \<or> (\<not> pte_R pte \<and> pte_W pte)"
      | (table) "pte_V pte" "\<not> pte_R pte" "\<not> pte_W pte" "\<not> pte_X pte"
      | (leaf) "pte_V pte" "pte_R pte \<or> \<not> pte_W pte" "pte_R pte \<or> pte_X pte"
      by auto
    then show ?thesis
    proof cases
      case bad
      then show ?thesis using l at by (auto simp: Let_def walk_grants_def elim: pt_leaf_SucE)
    next
      case table
      then have "pt_leaf (pte_at mem vm m) vm vaddr (Suc i) base lv a p \<longleftrightarrow>
          pt_leaf (pte_at mem vm m) vm vaddr i (push_bit PGSHIFT (drop_bit PTE_PPN_SHIFT pte)) lv a p" for lv a p
        using at by (auto elim: pt_leaf_SucE intro: pt_leaf.table)
      then have "walk_grants mem fa vm s sm mxr type vaddr (Suc i) base m pa m' \<longleftrightarrow>
          walk_grants mem fa vm s sm mxr type vaddr i (push_bit PGSHIFT (drop_bit PTE_PPN_SHIFT pte)) m pa m'"
        by (simp add: walk_grants_def)
      with Suc walk_loop_descend [OF l table] show ?thesis by simp
    next
      case leaf
      then have "pt_leaf (pte_at mem vm m) vm vaddr (Suc i) base lv a p \<longleftrightarrow> lv = i \<and> a = ?a \<and> p = pte" for lv a p
        using at by (auto elim: pt_leaf_SucE intro: pt_leaf.leaf)
      moreover have "load_pte mem vm m ?a = Inr (pte, m)" by (rule l)
      ultimately show ?thesis
        using leaf permitted_iff_allowed [OF leaf(2), of type s sm mxr]
        by (auto simp: Let_def walk_grants_def aligned_superpage_iff)
    qed
  qed
qed

end

end
