(* ===== verification/VP_SPMP.thy ===== *)
theory VP_SPMP
  imports VP_Core_Defs
begin

text \<open>
  The S-mode physical memory protection unit (\<^verbatim>\<open>GenericSPMP\<close> of \<^verbatim>\<open>core/common/spmp.h\<close>): 64
  entries of address register and configuration byte, the search for the matching entry, the
  permission table and the one-entry cache per mode and access type. What the unit reads of
  the core is the record \<open>spmp_core\<close>.
\<close>

section \<open>Configuration\<close>

record spmp_core =
  sc_spmpaddr :: "u32 list"
  sc_spmpcfg :: "u32 list"
  sc_spmpswitch :: "u32 list"
  sc_satp_mode :: u32
  sc_prv :: PrivilegeLevel
  sc_sum :: bool

definition SPMP_ENTRIES :: nat where [core_consts]: "SPMP_ENTRIES = 64"

text \<open>The fields of the union \<^verbatim>\<open>spmpcfg\<close>.\<close>

definition cfg_R0 :: "u32 \<Rightarrow> bool" where "cfg_R0 c = bit c 0"
definition cfg_W0 :: "u32 \<Rightarrow> bool" where "cfg_W0 c = bit c 1"
definition cfg_X0 :: "u32 \<Rightarrow> bool" where "cfg_X0 c = bit c 2"
definition cfg_A0 :: "u32 \<Rightarrow> u32" where "cfg_A0 c = drop_bit 3 c AND 3"
definition cfg_S0 :: "u32 \<Rightarrow> bool" where "cfg_S0 c = bit c 7"

definition ADDRMATCH_OFF :: u32 where [core_consts]: "ADDRMATCH_OFF = 0"
definition ADDRMATCH_TOR :: u32 where [core_consts]: "ADDRMATCH_TOR = 1"
definition ADDRMATCH_NA4 :: u32 where [core_consts]: "ADDRMATCH_NA4 = 2"
definition ADDRMATCH_NAPOT :: u32 where [core_consts]: "ADDRMATCH_NAPOT = 3"

section \<open>Matching\<close>

datatype spmp_matching = SPMP_MATCHING_YES | SPMP_MATCHING_NO | SPMP_MATCHING_PARTIAL

definition check_matching :: "u64 \<Rightarrow> u64 \<Rightarrow> u64 \<Rightarrow> u64 \<Rightarrow> spmp_matching" where
  "check_matching addr fin start_addr end_addr =
    (if addr \<ge> start_addr \<and> fin < end_addr then SPMP_MATCHING_YES
     else if (addr \<ge> start_addr \<and> addr < end_addr) \<or> (fin \<ge> start_addr \<and> fin < end_addr)
     then SPMP_MATCHING_PARTIAL else SPMP_MATCHING_NO)"

text \<open>
  The least significant zero bit of the address register, 32 if there is none: the inner loop
  of the NAPOT case.
\<close>

definition napot_zero_bit :: "u64 \<Rightarrow> nat" where
  "napot_zero_bit v =
    (case List.find (\<lambda>jj. drop_bit jj v AND 1 = 0) [0..<32] of None \<Rightarrow> 32 | Some jj \<Rightarrow> jj)"

text \<open>
  The range of entry \<open>ii\<close>: \<open>None\<close> where the source skips the entry. The size of a NAPOT range is
  computed by shifting the \<^verbatim>\<open>int\<close> 1, which is undefined from 32 positions on and which is
  sign-extended by the conversion to 64 bits.
\<close>

definition entry_cfg :: "spmp_core \<Rightarrow> nat \<Rightarrow> u32" where
  "entry_cfg core ii = drop_bit ((ii mod 4) * 8) (sc_spmpcfg core ! (ii div 4))"

definition entry_enabled :: "spmp_core \<Rightarrow> nat \<Rightarrow> bool" where
  "entry_enabled core ii \<longleftrightarrow>
    (let val = ucast (sc_spmpswitch core ! 0) OR push_bit 32 (ucast (sc_spmpswitch core ! 1)) in
     (val :: u64) AND push_bit ii 1 \<noteq> 0)"

definition entry_range :: "spmp_core \<Rightarrow> nat \<Rightarrow> (u64 \<times> u64) option res" where
  "entry_range core ii =
    (let A0 = cfg_A0 (entry_cfg core ii) in
     if A0 = ADDRMATCH_OFF then Inr None
     else if \<not> entry_enabled core ii then Inr None
     else if A0 = ADDRMATCH_TOR then
       (let start_addr = (if ii \<noteq> 0 then ucast (push_bit 2 (sc_spmpaddr core ! (ii - 1))) else 0);
            end_addr = ucast (push_bit 2 (sc_spmpaddr core ! ii)) in
        if start_addr \<ge> end_addr then Inr None else Inr (Some (start_addr, end_addr)))
     else if A0 = ADDRMATCH_NAPOT then
       (let val = (ucast (sc_spmpaddr core ! ii) :: u64); jj = napot_zero_bit val in
        if jj + 1 \<ge> 32 then Inl UndefinedBehaviour
        else let mask = (scast (push_bit (jj + 1) (1 :: u32)) :: u64);
                 start_addr = push_bit 2 (val AND NOT (mask - 1))
             in Inr (Some (start_addr, push_bit 2 mask + start_addr)))
     else
       (let start_addr = ucast (push_bit 2 (sc_spmpaddr core ! ii)) in
        Inr (Some (start_addr, start_addr + 4))))"

text \<open>
  What \<^verbatim>\<open>find_matching_entry\<close> returns: the entry with its configuration and range, -1 for a
  partial match, \<^verbatim>\<open>SPMP_ENTRIES\<close> when no entry matches.
\<close>

datatype spmp_found = Matching_entry nat u32 u64 u64 | Partial_match | No_matching_entry

fun find_entry_from :: "spmp_core \<Rightarrow> u64 \<Rightarrow> u64 \<Rightarrow> nat list \<Rightarrow> spmp_found res" where
  "find_entry_from core addr fin [] = Inr No_matching_entry"
| "find_entry_from core addr fin (ii # rest) =
    bind_res (entry_range core ii)
      (\<lambda>r. case r of None \<Rightarrow> find_entry_from core addr fin rest
         | Some (start_addr, end_addr) \<Rightarrow>
            (case check_matching addr fin start_addr end_addr of
               SPMP_MATCHING_YES \<Rightarrow> Inr (Matching_entry ii (entry_cfg core ii) start_addr end_addr)
             | SPMP_MATCHING_PARTIAL \<Rightarrow> Inr Partial_match
             | SPMP_MATCHING_NO \<Rightarrow> find_entry_from core addr fin rest))"

definition find_matching_entry :: "spmp_core \<Rightarrow> u64 \<Rightarrow> u32 \<Rightarrow> spmp_found res" where
  "find_matching_entry core addr sz =
    (let fin = addr + ucast sz - 1 in
     find_entry_from core (addr AND - 4) (fin AND - 4) [0..<SPMP_ENTRIES])"

section \<open>Permissions\<close>

definition check_rwx_permission :: "u32 \<Rightarrow> MemoryAccessType \<Rightarrow> bool res" where
  "check_rwx_permission cfg type =
    (case type of FETCH \<Rightarrow> Inr (cfg_X0 cfg) | LOAD \<Rightarrow> Inr (cfg_R0 cfg) | STORE \<Rightarrow> Inr (cfg_W0 cfg)
     | _ \<Rightarrow> Inl AssertFailed)"

definition is_access_allowed :: "spmp_core \<Rightarrow> u32 \<Rightarrow> MemoryAccessType \<Rightarrow> bool res" where
  "is_access_allowed core cfg type =
    (let mode = sc_prv core in
     if \<not> cfg_S0 cfg then
       if \<not> cfg_R0 cfg \<and> cfg_W0 cfg \<and> cfg_X0 cfg then Inr (type \<noteq> FETCH)
       else if \<not> cfg_R0 cfg \<and> cfg_W0 cfg \<and> \<not> cfg_X0 cfg then
         (if mode = SupervisorMode then Inr (type \<noteq> FETCH) else Inr (type = LOAD))
       else if mode = SupervisorMode then
         (if sc_sum core
          then (if type \<noteq> FETCH then check_rwx_permission cfg type else Inr False)
          else Inr False)
       else check_rwx_permission cfg type
     else
       if cfg_R0 cfg \<and> cfg_W0 cfg \<and> cfg_X0 cfg then Inr (type = LOAD)
       else if \<not> cfg_R0 cfg \<and> cfg_W0 cfg \<and> cfg_X0 cfg then
         (if mode = UserMode then Inr (type = FETCH) else Inr (type \<noteq> STORE))
       else if \<not> cfg_R0 cfg \<and> cfg_W0 cfg \<and> \<not> cfg_X0 cfg then Inr (type = FETCH)
       else if \<not> cfg_R0 cfg \<and> \<not> cfg_W0 cfg \<and> \<not> cfg_X0 cfg then Inr False
       else if mode = UserMode then Inr False
       else check_rwx_permission cfg type)"

definition spmp_raise_exception :: "MemoryAccessType \<Rightarrow> u64 \<Rightarrow> 'a res" where
  "spmp_raise_exception type addr =
    (case type of
       FETCH \<Rightarrow> raise_trap EXC_INSTR_PAGE_FAULT addr 0
     | LOAD \<Rightarrow> raise_trap EXC_LOAD_PAGE_FAULT addr 0
     | STORE \<Rightarrow> raise_trap EXC_STORE_AMO_PAGE_FAULT addr 0
     | _ \<Rightarrow> Inl (RuntimeError ''[spmp] unknown access type''))"

section \<open>The check and its cache\<close>

record spmp_cache_entry =
  ce_rgn_start_addr :: u64
  ce_rgn_end_addr :: u64
  ce_entry_valid :: bool

type_synonym spmp_cache = "PrivilegeLevel \<Rightarrow> MemoryAccessType \<Rightarrow> spmp_cache_entry"

definition clear_spmp_cache :: spmp_cache where
  "clear_spmp_cache = (\<lambda>_ _. \<lparr>ce_rgn_start_addr = 0, ce_rgn_end_addr = 0, ce_entry_valid = False\<rparr>)"

definition cache_update :: "spmp_cache \<Rightarrow> PrivilegeLevel \<Rightarrow> MemoryAccessType \<Rightarrow> spmp_cache_entry \<Rightarrow> spmp_cache" where
  "cache_update c mode type e = (\<lambda>m t. if m = mode \<and> t = type then e else c m t)"

definition cache_hit :: "spmp_cache_entry \<Rightarrow> u64 \<Rightarrow> u32 \<Rightarrow> bool" where
  "cache_hit e paddr sz \<longleftrightarrow> ce_entry_valid e \<and>
     paddr AND - 4 \<ge> ce_rgn_start_addr e \<and> (paddr + ucast sz - 1) AND - 4 < ce_rgn_end_addr e"

text \<open>
  The cache has four modes and three access types; an index beyond them is undefined, as is the
  use of the entry's configuration when the search found none (which the code after the two
  tests on the mode would do in a mode that is neither supervisor nor user).
\<close>

definition spmp_do_phy_address_check ::
  "spmp_core \<Rightarrow> spmp_cache \<Rightarrow> PrivilegeLevel \<Rightarrow> u64 \<Rightarrow> u32 \<Rightarrow> MemoryAccessType \<Rightarrow> (bool \<times> spmp_cache) res" where
  "spmp_do_phy_address_check core cache mode paddr sz type =
    (if sc_satp_mode core \<noteq> 0 then Inr (False, cache)
     else if mode = VirtualSupervisorMode \<or> mode = VirtualUserMode then Inr (True, cache)
     else if mode = MachineMode then Inr (True, cache)
     else if mode \<ge> 4 \<or> type = MAX_MEM_ACCESS_TYPES then Inl UndefinedBehaviour
     else if cache_hit (cache mode type) paddr sz then Inr (True, cache)
     else bind_res (find_matching_entry core paddr sz)
      (\<lambda>nentry. case nentry of
         Partial_match \<Rightarrow> spmp_raise_exception type paddr
       | No_matching_entry \<Rightarrow>
           (if mode = SupervisorMode then Inr (True, cache)
            else if mode = UserMode then spmp_raise_exception type paddr
            else Inl UndefinedBehaviour)
       | Matching_entry ii cfg rgn_start_addr rgn_end_addr \<Rightarrow>
           bind_res (is_access_allowed core cfg type)
            (\<lambda>ok. if ok
                  then Inr (True, cache_update cache mode type
                         \<lparr>ce_rgn_start_addr = rgn_start_addr, ce_rgn_end_addr = rgn_end_addr,
                          ce_entry_valid = True\<rparr>)
                  else spmp_raise_exception type paddr)))"

section \<open>What the unit promises\<close>

text \<open>
  The address range of an entry as a predicate on words, and the words an access touches: the
  first and the last, rounded down to the granularity of four bytes.
\<close>

definition in_entry :: "spmp_core \<Rightarrow> nat \<Rightarrow> u64 \<Rightarrow> bool" where
  "in_entry core ii a =
    (case entry_range core ii of Inr (Some (s, e)) \<Rightarrow> s \<le> a \<and> a < e | _ \<Rightarrow> False)"

definition access_words :: "u64 \<Rightarrow> u32 \<Rightarrow> u64 set" where
  "access_words addr sz = {addr AND - 4, (addr + ucast sz - 1) AND - 4}"

definition touches :: "spmp_core \<Rightarrow> u64 \<Rightarrow> u32 \<Rightarrow> nat \<Rightarrow> bool" where
  "touches core addr sz ii \<longleftrightarrow> (\<exists>w\<in>access_words addr sz. in_entry core ii w)"

definition covers :: "spmp_core \<Rightarrow> u64 \<Rightarrow> u32 \<Rightarrow> nat \<Rightarrow> bool" where
  "covers core addr sz ii \<longleftrightarrow> (\<forall>w\<in>access_words addr sz. in_entry core ii w)"

text \<open>
  The permission table of the SPMP proposal: the accesses that the rule \<open>S R W X\<close> grants in a
  mode.
\<close>

definition spmp_permissions :: "u32 \<Rightarrow> PrivilegeLevel \<Rightarrow> bool \<Rightarrow> MemoryAccessType set" where
  "spmp_permissions cfg mode sm =
    (let rwx = (if cfg_R0 cfg then {LOAD} else {}) \<union> (if cfg_W0 cfg then {STORE} else {}) \<union>
               (if cfg_X0 cfg then {FETCH} else {})
     in case (cfg_S0 cfg, cfg_R0 cfg, cfg_W0 cfg, cfg_X0 cfg) of
       (False, False, True, True) \<Rightarrow> {LOAD, STORE}
     | (False, False, True, False) \<Rightarrow> if mode = SupervisorMode then {LOAD, STORE} else {LOAD}
     | (True, True, True, True) \<Rightarrow> {LOAD}
     | (True, False, True, True) \<Rightarrow> if mode = UserMode then {FETCH} else {FETCH, LOAD}
     | (True, False, True, False) \<Rightarrow> {FETCH}
     | (True, _) \<Rightarrow> if mode = UserMode then {} else rwx
     | (False, _) \<Rightarrow> if mode = SupervisorMode then (if sm then rwx - {FETCH} else {}) else rwx)"

definition spmp_grants :: "spmp_core \<Rightarrow> PrivilegeLevel \<Rightarrow> u64 \<Rightarrow> u32 \<Rightarrow> MemoryAccessType \<Rightarrow> bool" where
  "spmp_grants core mode addr sz type =
    (case List.find (touches core addr sz) [0..<SPMP_ENTRIES] of
       None \<Rightarrow> mode = SupervisorMode
     | Some ii \<Rightarrow> covers core addr sz ii \<and> type \<in> spmp_permissions (entry_cfg core ii) mode (sc_sum core))"

lemma is_access_allowed_table:
  assumes "type \<noteq> MAX_MEM_ACCESS_TYPES" and "sc_prv core = mode" and "mode = SupervisorMode \<or> mode = UserMode"
  shows "is_access_allowed core cfg type = Inr (type \<in> spmp_permissions cfg mode (sc_sum core))"
  using assms
  by (cases type; cases "cfg_S0 cfg"; cases "cfg_R0 cfg"; cases "cfg_W0 cfg"; cases "cfg_X0 cfg")
    (auto simp: is_access_allowed_def spmp_permissions_def check_rwx_permission_def Let_def core_consts)

lemma check_matching_iff:
  assumes "a \<le> f"
  shows "check_matching a f s e = SPMP_MATCHING_YES \<longleftrightarrow> (s \<le> a \<and> a < e) \<and> (s \<le> f \<and> f < e)"
    and "check_matching a f s e = SPMP_MATCHING_NO \<longleftrightarrow> \<not> (s \<le> a \<and> a < e) \<and> \<not> (s \<le> f \<and> f < e)"
  using assms by (auto simp: check_matching_def)

lemma find_entry_from_spec:
  assumes "a \<le> f" and "\<forall>ii\<in>set xs. \<exists>r. entry_range core ii = Inr r"
  shows "find_entry_from core a f xs =
    Inr (case List.find (\<lambda>ii. in_entry core ii a \<or> in_entry core ii f) xs of
           None \<Rightarrow> No_matching_entry
         | Some ii \<Rightarrow> if in_entry core ii a \<and> in_entry core ii f
              then Matching_entry ii (entry_cfg core ii) (fst (the (projr (entry_range core ii))))
                     (snd (the (projr (entry_range core ii))))
              else Partial_match)"
  using assms(2)
proof (induction xs)
  case (Cons ii xs)
  then obtain r where r: "entry_range core ii = Inr r" by auto
  show ?case
  proof (cases r)
    case None
    with r Cons show ?thesis by (simp add: in_entry_def)
  next
    case (Some se)
    then obtain s e where se: "r = Some (s, e)" by (cases se) auto
    with r have ie: "in_entry core ii w \<longleftrightarrow> s \<le> w \<and> w < e" for w
      by (simp add: in_entry_def)
    show ?thesis
      using r se Cons check_matching_iff [OF assms(1), of s e]
      by (cases "check_matching a f s e") (auto simp: ie)
  qed
qed simp

lemma word_round_mono: "a \<le> b \<Longrightarrow> a AND - 4 \<le> b AND (- 4 :: u64)"
proof -
  have c: "(- 4 :: u64) = NOT (mask 2)" by (simp add: mask_numeral)
  have "x AND NOT (mask n) = push_bit n (drop_bit n x)" for x :: u64 and n
    by (rule bit_word_eqI) (auto simp: bit_simps)
  then have r4: "x AND - 4 = push_bit 2 (drop_bit 2 x)" for x :: u64
    unfolding c by blast
  have four: "0 \<le> k \<Longrightarrow> k < 2 ^ 64 \<Longrightarrow> take_bit 64 (4 * (k div 4)) = 4 * (k div 4)" for k :: int
    by (simp add: take_bit_int_eq_self_iff)
  have "uint (push_bit 2 (drop_bit 2 x)) = 4 * (uint x div 4)" for x :: u64
  proof -
    have "take_bit 64 (uint x) = uint x"
      using uint_lt2p [of x] by (simp add: take_bit_int_eq_self_iff)
    then have "uint (push_bit 2 (drop_bit 2 x)) = take_bit 64 (4 * (uint x div 4))"
      by (subst unsigned_push_bit_eq, subst unsigned_drop_bit_eq)
        (simp add: mult.commute drop_bit_eq_div push_bit_eq_mult)
    moreover have "take_bit 64 (4 * (uint x div 4)) = 4 * (uint x div 4)"
      using four [of "uint x"] uint_lt2p [of x] by simp
    ultimately show ?thesis by simp
  qed
  moreover assume "a \<le> b"
  ultimately show ?thesis
    using r4 by (simp add: word_le_def zdiv_mono1)
qed

lemma find_matching_entry_spec:
  assumes "addr \<le> addr + ucast sz - 1" and "\<forall>ii<SPMP_ENTRIES. \<exists>r. entry_range core ii = Inr r"
  shows "find_matching_entry core addr sz =
    Inr (case List.find (touches core addr sz) [0..<SPMP_ENTRIES] of
           None \<Rightarrow> No_matching_entry
         | Some ii \<Rightarrow> if covers core addr sz ii
              then Matching_entry ii (entry_cfg core ii) (fst (the (projr (entry_range core ii))))
                     (snd (the (projr (entry_range core ii))))
              else Partial_match)"
proof -
  have "touches core addr sz = (\<lambda>ii. in_entry core ii (addr AND - 4) \<or>
      in_entry core ii ((addr + ucast sz - 1) AND - 4))"
    by (auto simp: touches_def access_words_def)
  moreover have "covers core addr sz ii \<longleftrightarrow>
      in_entry core ii (addr AND - 4) \<and> in_entry core ii ((addr + ucast sz - 1) AND - 4)" for ii
    by (simp add: covers_def access_words_def)
  ultimately show ?thesis
    using find_entry_from_spec [OF word_round_mono [OF assms(1)], of "[0..<SPMP_ENTRIES]" core] assms(2)
    by (auto simp: find_matching_entry_def split: option.splits)
qed

lemma spmp_check_hit_free:
  assumes "sc_satp_mode core = 0" and "mode = SupervisorMode \<or> mode = UserMode" and "sc_prv core = mode"
    and "type \<noteq> MAX_MEM_ACCESS_TYPES" and "addr \<le> addr + ucast sz - 1"
    and "\<forall>ii<SPMP_ENTRIES. \<exists>r. entry_range core ii = Inr r"
  shows "if spmp_grants core mode addr sz type
    then \<exists>c. spmp_do_phy_address_check core clear_spmp_cache mode addr sz type = Inr (True, c)
    else spmp_do_phy_address_check core clear_spmp_cache mode addr sz type = spmp_raise_exception type addr"
proof -
  have "\<not> 4 \<le> mode"
    using assms(2) by (auto simp: core_consts word_le_nat_alt)
  moreover have "mode \<noteq> MachineMode" "mode \<noteq> VirtualSupervisorMode" "mode \<noteq> VirtualUserMode"
    "\<not> cache_hit (clear_spmp_cache mode type) addr sz"
    using assms(2) by (auto simp: core_consts cache_hit_def clear_spmp_cache_def)
  moreover have "SupervisorMode \<noteq> UserMode" by (simp add: core_consts)
  ultimately show ?thesis
    using assms(1,2,4) is_access_allowed_table [OF assms(4,3,2)]
    by (auto simp: spmp_do_phy_address_check_def spmp_grants_def find_matching_entry_spec [OF assms(5,6)]
        split: option.splits)
qed

text \<open>
  C15: a memory access in supervisor or user mode is decided by the protection rules alone: with the
  cache empty and translation off the check succeeds exactly when the lowest-numbered enabled
  entry that contains the first or last word of the access contains both and grants the
  access (an access that no entry touches is granted in supervisor mode and denied in user mode);
  otherwise it raises the page fault of the access type with the address.
\<close>

theorem spmp_check_decides:
  assumes "sc_satp_mode core = 0" and "mode = SupervisorMode \<or> mode = UserMode" and "sc_prv core = mode"
    and "type \<noteq> MAX_MEM_ACCESS_TYPES" and "addr \<le> addr + ucast sz - 1"
    and "\<forall>ii<SPMP_ENTRIES. \<exists>r. entry_range core ii = Inr r"
  shows "if spmp_grants core mode addr sz type
    then \<exists>c. spmp_do_phy_address_check core clear_spmp_cache mode addr sz type = Inr (True, c)
    else spmp_do_phy_address_check core clear_spmp_cache mode addr sz type = spmp_raise_exception type addr"
  using assms by (rule spmp_check_hit_free)

text \<open>One entry that gives user mode the kilobyte at 0x1000 for reading, for the witnesses.\<close>

definition example_spmp :: spmp_core where
  "example_spmp = \<lparr>sc_spmpaddr = [0x400, 0x500] @ replicate 62 0,
     sc_spmpcfg = [0x0908] @ replicate 15 0, sc_spmpswitch = [3, 0],
     sc_satp_mode = 0, sc_prv = UserMode, sc_sum = False\<rparr>"

lemma example_spmp_cfg:
  "ii < 64 \<Longrightarrow> entry_cfg example_spmp ii = (if ii = 0 then 0x0908 else if ii = 1 then 9 else 0)"
proof -
  assume "ii < 64"
  then have "sc_spmpcfg example_spmp ! (ii div 4) = (if ii < 4 then 0x0908 else 0)"
    by (auto simp: example_spmp_def nth_append nth_Cons' div_eq_0_iff)
  moreover have "ii < 4 \<Longrightarrow> ii = 0 \<or> ii = 1 \<or> ii = 2 \<or> ii = 3"
    by linarith
  ultimately show ?thesis
    by (auto simp: entry_cfg_def)
qed

lemma example_spmp_range:
  "ii < 64 \<Longrightarrow> entry_range example_spmp ii =
     Inr (if ii = 0 then Some (0, 0x1000) else if ii = 1 then Some (0x1000, 0x1400) else None)"
  by (auto simp: entry_range_def example_spmp_cfg cfg_A0_def core_consts Let_def entry_enabled_def)
    (simp_all add: example_spmp_def)

lemma example_spmp_grants: "spmp_grants example_spmp UserMode 0x1010 4 type \<longleftrightarrow> type = LOAD"
proof -
  have "[0..<SPMP_ENTRIES] = 0 # 1 # [2..<64]"
    by (simp add: SPMP_ENTRIES_def upt_rec)
  then show ?thesis
    by (auto simp: spmp_grants_def touches_def covers_def access_words_def in_entry_def example_spmp_range
        spmp_permissions_def example_spmp_cfg cfg_S0_def cfg_R0_def cfg_W0_def cfg_X0_def core_consts)
qed

lemma example_spmp_check:
  "\<exists>c. spmp_do_phy_address_check example_spmp clear_spmp_cache UserMode 0x1010 4 LOAD = Inr (True, c)"
proof -
  have p: "sc_satp_mode example_spmp = 0" "UserMode = SupervisorMode \<or> UserMode = UserMode"
    "sc_prv example_spmp = UserMode" "(0x1010 :: u64) \<le> 0x1010 + ucast (4 :: u32) - 1"
    by (simp_all add: example_spmp_def)
  have r: "\<forall>ii<SPMP_ENTRIES. \<exists>r. entry_range example_spmp ii = Inr r"
    by (simp add: SPMP_ENTRIES_def example_spmp_range)
  have "spmp_grants example_spmp UserMode 0x1010 4 LOAD"
    using example_spmp_grants by simp
  with spmp_check_hit_free [OF p(1-3) _ p(4) r, of LOAD] show ?thesis by simp
qed

theorem spmp_check_decides_witness:
  "(\<exists>c. spmp_do_phy_address_check example_spmp clear_spmp_cache UserMode 0x1010 4 LOAD = Inr (True, c)) \<and>
   spmp_do_phy_address_check example_spmp clear_spmp_cache UserMode 0x1010 4 STORE
     = raise_trap EXC_STORE_AMO_PAGE_FAULT 0x1010 0"
proof -
  have p: "sc_satp_mode example_spmp = 0" "UserMode = SupervisorMode \<or> UserMode = UserMode"
    "sc_prv example_spmp = UserMode" "(0x1010 :: u64) \<le> 0x1010 + ucast (4 :: u32) - 1"
    by (simp_all add: example_spmp_def)
  have r: "\<forall>ii<SPMP_ENTRIES. \<exists>r. entry_range example_spmp ii = Inr r"
    by (simp add: SPMP_ENTRIES_def example_spmp_range)
  show ?thesis
    using spmp_check_decides [OF p(1-3) _ p(4) r, of LOAD] spmp_check_decides [OF p(1-3) _ p(4) r, of STORE]
    by (simp add: example_spmp_grants spmp_raise_exception_def)
qed

section \<open>The cache\<close>

text \<open>
  The cache remembers the whole range of the entry that granted the last access. It answers as
  the rules do when the ranges of the entries are pairwise disjoint.
\<close>

definition ranges_disjoint :: "spmp_core \<Rightarrow> bool" where
  "ranges_disjoint core \<longleftrightarrow>
    (\<forall>i<SPMP_ENTRIES. \<forall>j<SPMP_ENTRIES. \<forall>a. in_entry core i a \<longrightarrow> in_entry core j a \<longrightarrow> i = j)"

definition spmp_cache_ok :: "spmp_core \<Rightarrow> spmp_cache \<Rightarrow> bool" where
  "spmp_cache_ok core cache \<longleftrightarrow>
    (\<forall>mode type. ce_entry_valid (cache mode type) \<longrightarrow>
      (\<exists>ii<SPMP_ENTRIES.
         entry_range core ii = Inr (Some (ce_rgn_start_addr (cache mode type), ce_rgn_end_addr (cache mode type))) \<and>
         type \<in> spmp_permissions (entry_cfg core ii) mode (sc_sum core)))"

lemma clear_spmp_cache_ok: "spmp_cache_ok core clear_spmp_cache"
  by (simp add: spmp_cache_ok_def clear_spmp_cache_def)

lemma cache_hit_grants:
  assumes "spmp_cache_ok core cache" and "ranges_disjoint core" and "cache_hit (cache mode type) addr sz"
    and "addr \<le> addr + ucast sz - 1"
  shows "spmp_grants core mode addr sz type"
proof -
  from assms(1,3) obtain ii where ii: "ii < SPMP_ENTRIES"
    and r: "entry_range core ii = Inr (Some (ce_rgn_start_addr (cache mode type), ce_rgn_end_addr (cache mode type)))"
    and p: "type \<in> spmp_permissions (entry_cfg core ii) mode (sc_sum core)"
    by (auto simp: spmp_cache_ok_def cache_hit_def)
  have c: "covers core addr sz ii"
    using assms(3) word_round_mono [OF assms(4)] r
    by (auto simp: covers_def access_words_def in_entry_def cache_hit_def)
  then have "touches core addr sz j \<longleftrightarrow> j = ii" if "j < SPMP_ENTRIES" for j
    using assms(2) ii that by (auto simp: touches_def covers_def access_words_def ranges_disjoint_def)
  then have "List.find (touches core addr sz) [0..<SPMP_ENTRIES] = Some ii"
    using ii by (auto simp: find_Some_iff intro!: exI [of _ ii])
  with c p show ?thesis by (simp add: spmp_grants_def)
qed

lemma spmp_check_keeps_cache:
  assumes "spmp_cache_ok core cache" and "mode = SupervisorMode \<or> mode = UserMode" and "sc_prv core = mode"
    and "type \<noteq> MAX_MEM_ACCESS_TYPES" and "addr \<le> addr + ucast sz - 1"
    and "\<forall>ii<SPMP_ENTRIES. \<exists>r. entry_range core ii = Inr r"
    and "spmp_do_phy_address_check core cache mode addr sz type = Inr (b, cache')"
  shows "spmp_cache_ok core cache'"
proof -
  consider "cache' = cache" | ii s e where "ii < SPMP_ENTRIES" "covers core addr sz ii"
      "entry_range core ii = Inr (Some (s, e))" "type \<in> spmp_permissions (entry_cfg core ii) mode (sc_sum core)"
      "cache' = cache_update cache mode type \<lparr>ce_rgn_start_addr = s, ce_rgn_end_addr = e, ce_entry_valid = True\<rparr>"
  proof -
    have "\<exists>s e. entry_range core ii = Inr (Some (s, e))" if "covers core addr sz ii" for ii
      using that by (auto simp: covers_def access_words_def in_entry_def split: sum.splits option.splits)
    with assms(7) is_access_allowed_table [OF assms(4,3,2)] that show ?thesis
      by (fastforce simp: spmp_do_phy_address_check_def find_matching_entry_spec [OF assms(5,6)] find_Some_iff
          spmp_raise_exception_def raise_trap_def
          split: if_splits option.splits MemoryAccessType.splits)
  qed
  then show ?thesis
    using assms(1) by cases (auto simp: spmp_cache_ok_def cache_update_def)
qed

text \<open>
  C16: with pairwise disjoint ranges the cache never changes an answer: a check that finds the
  access in the cache succeeds exactly when the check without the cache does, every other
  check behaves alike, and each check leaves a cache of which the same is true. It starts out so,
  because \<^verbatim>\<open>clear_spmp_cache\<close> empties it.
\<close>

theorem spmp_cache_transparent:
  assumes "spmp_cache_ok core cache" and "ranges_disjoint core" and "sc_satp_mode core = 0"
    and "mode = SupervisorMode \<or> mode = UserMode" and "sc_prv core = mode"
    and "type \<noteq> MAX_MEM_ACCESS_TYPES" and "addr \<le> addr + ucast sz - 1"
    and "\<forall>ii<SPMP_ENTRIES. \<exists>r. entry_range core ii = Inr r"
  shows "map_sum id fst (spmp_do_phy_address_check core cache mode addr sz type) =
      map_sum id fst (spmp_do_phy_address_check core clear_spmp_cache mode addr sz type) \<and>
    (\<forall>b cache'. spmp_do_phy_address_check core cache mode addr sz type = Inr (b, cache') \<longrightarrow>
       spmp_cache_ok core cache') \<and> spmp_cache_ok core clear_spmp_cache"
proof (intro conjI allI impI)
  have m: "\<not> 4 \<le> mode" "mode \<noteq> MachineMode" "mode \<noteq> VirtualSupervisorMode" "mode \<noteq> VirtualUserMode"
    using assms(4) by (auto simp: core_consts word_le_nat_alt)
  show "map_sum id fst (spmp_do_phy_address_check core cache mode addr sz type) =
      map_sum id fst (spmp_do_phy_address_check core clear_spmp_cache mode addr sz type)"
  proof (cases "cache_hit (cache mode type) addr sz")
    case True
    have "\<exists>c. spmp_do_phy_address_check core clear_spmp_cache mode addr sz type = Inr (True, c)"
      using spmp_check_hit_free [OF assms(3-8)] cache_hit_grants [OF assms(1,2) True assms(7)] by simp
    with True m assms(3,6) show ?thesis by (auto simp: spmp_do_phy_address_check_def)
  next
    case False
    with m assms(3,6) show ?thesis
      by (cases "find_matching_entry core addr sz")
        (auto simp: spmp_do_phy_address_check_def cache_hit_def clear_spmp_cache_def bind_res_def
          spmp_raise_exception_def raise_trap_def split: spmp_found.splits sum.splits MemoryAccessType.splits)
  qed
next
  fix b cache'
  assume "spmp_do_phy_address_check core cache mode addr sz type = Inr (b, cache')"
  from spmp_check_keeps_cache [OF assms(1,4-8) this] show "spmp_cache_ok core cache'" .
qed (rule clear_spmp_cache_ok)

theorem spmp_cache_transparent_witness:
  "\<exists>b cache'. spmp_do_phy_address_check example_spmp clear_spmp_cache UserMode 0x1010 4 LOAD = Inr (b, cache') \<and>
     spmp_cache_ok example_spmp cache'"
proof -
  have r: "\<forall>ii<SPMP_ENTRIES. \<exists>r. entry_range example_spmp ii = Inr r"
    by (simp add: SPMP_ENTRIES_def example_spmp_range)
  have "ranges_disjoint example_spmp"
    by (auto simp: ranges_disjoint_def in_entry_def SPMP_ENTRIES_def example_spmp_range split: if_splits)
  then have "map_sum id fst (spmp_do_phy_address_check example_spmp clear_spmp_cache UserMode 0x1010 4 LOAD)
      = map_sum id fst (spmp_do_phy_address_check example_spmp clear_spmp_cache UserMode 0x1010 4 LOAD) \<and>
    (\<forall>b cache'. spmp_do_phy_address_check example_spmp clear_spmp_cache UserMode 0x1010 4 LOAD = Inr (b, cache')
       \<longrightarrow> spmp_cache_ok example_spmp cache') \<and> spmp_cache_ok example_spmp clear_spmp_cache"
    by (intro spmp_cache_transparent clear_spmp_cache_ok r) (simp_all add: example_spmp_def)
  with example_spmp_check show ?thesis by blast
qed

text \<open>
  Without disjointness the cache is not transparent: entry 0 denies the word at 0x1000 to user
  mode and has priority over entry 1, which grants the page; after an access to the
  neighbouring word the cache grants the denied one.
\<close>

definition overlap_spmp :: spmp_core where
  "overlap_spmp = \<lparr>sc_spmpaddr = [0x400, 0x500] @ replicate 62 0,
     sc_spmpcfg = [0x0990] @ replicate 15 0, sc_spmpswitch = [3, 0],
     sc_satp_mode = 0, sc_prv = UserMode, sc_sum = False\<rparr>"

lemma spmp_cache_bypasses_priority:
  "\<exists>c. spmp_do_phy_address_check overlap_spmp clear_spmp_cache UserMode 0x1004 4 LOAD = Inr (True, c) \<and>
     spmp_do_phy_address_check overlap_spmp c UserMode 0x1000 4 LOAD = Inr (True, c) \<and>
     spmp_do_phy_address_check overlap_spmp clear_spmp_cache UserMode 0x1000 4 LOAD
       = raise_trap EXC_LOAD_PAGE_FAULT 0x1000 0"
proof -
  obtain xs where u: "[0..<SPMP_ENTRIES] = 0 # 1 # xs"
    by (simp add: SPMP_ENTRIES_def upt_rec)
  have r: "entry_range overlap_spmp 0 = Inr (Some (0x1000, 0x1004))"
    "entry_range overlap_spmp (Suc 0) = Inr (Some (0x1000, 0x1400))"
    by (simp_all add: entry_range_def entry_cfg_def cfg_A0_def core_consts Let_def entry_enabled_def overlap_spmp_def)
  have f: "find_matching_entry overlap_spmp 0x1004 4 = Inr (Matching_entry 1 9 0x1000 0x1400)"
    "find_matching_entry overlap_spmp 0x1000 4 = Inr (Matching_entry 0 0x0990 0x1000 0x1004)"
    by (simp_all add: find_matching_entry_def u r check_matching_def)
      (simp_all add: entry_cfg_def overlap_spmp_def)
  have a: "is_access_allowed overlap_spmp 9 LOAD = Inr True" "is_access_allowed overlap_spmp 0x0990 LOAD = Inr False"
    by (simp_all add: is_access_allowed_def check_rwx_permission_def cfg_S0_def cfg_R0_def cfg_W0_def cfg_X0_def
        overlap_spmp_def core_consts)
  define c where "c = cache_update clear_spmp_cache UserMode LOAD
      \<lparr>ce_rgn_start_addr = 0x1000, ce_rgn_end_addr = 0x1400, ce_entry_valid = True\<rparr>"
  have m: "sc_satp_mode overlap_spmp = 0" "\<not> (4 :: u32) \<le> UserMode" "UserMode \<noteq> MachineMode"
    "UserMode \<noteq> VirtualSupervisorMode" "UserMode \<noteq> VirtualUserMode"
    by (simp_all add: overlap_spmp_def core_consts)
  have "\<not> cache_hit (clear_spmp_cache UserMode LOAD) p s" "cache_hit (c UserMode LOAD) 0x1000 4" for p s
    by (simp_all add: cache_hit_def clear_spmp_cache_def c_def cache_update_def)
  then show ?thesis
    by (intro exI [of _ c]) (simp add: spmp_do_phy_address_check_def m f a spmp_raise_exception_def c_def)
qed

end
