(* ===== verification/VP_SMPU.thy ===== *)
theory VP_SMPU
  imports VP_Core_Defs
begin

text \<open>
  The S-mode memory protection unit with address translation (\<^verbatim>\<open>GenericSMPU\<close> of
  \<^verbatim>\<open>core/common/smpu.h\<close>) and its region registers (\<^verbatim>\<open>icsr_smpuaddr\<close> and \<^verbatim>\<open>icsr_smpuconf\<close> of
  \<^verbatim>\<open>core/rv32/csr.h\<close>): up to 32 regions per level, protected regions with a size and
  translated regions that also replace the upper address bits, checked on level 1 for every
  mode below machine mode and on level 2 for the virtual modes.
\<close>

section \<open>Region registers\<close>

definition SMPU_NREGIONS :: nat where [core_consts]: "SMPU_NREGIONS = 32"

text \<open>The register \<^verbatim>\<open>smpuaddr\<close>: bits 4..0 are the size exponent of a translated region.\<close>

definition smpuaddr_size :: "u32 \<Rightarrow> nat" where
  "smpuaddr_size reg = unat (reg AND 0x1f)"

definition smpuaddr_checked_write :: "u32 \<Rightarrow> u32" where
  "smpuaddr_checked_write val =
    (let size0 = smpuaddr_size val in
     if size0 \<noteq> 0
     then let size1 = (if size0 < 8 then 8 else size0);
              size2 = (if size1 > 31 then 31 else size1)
          in (push_bit size2 (drop_bit size2 val) AND - 0x20) OR of_nat size2
     else val AND - 0x20)"

definition smpuaddr_get_addr :: "u32 \<Rightarrow> u32" where
  "smpuaddr_get_addr reg = push_bit 5 (drop_bit 5 reg)"

definition is_translated_region :: "u32 \<Rightarrow> bool" where
  "is_translated_region reg \<longleftrightarrow> smpuaddr_size reg \<noteq> 0"

datatype smpu_match = SMPU_ACCES_DENIED | SMPU_ACCES_GRANTED | SMPU_ACCES_GRANTED_FOR_FIRST_HALF
  | SMPU_ACCES_GRANTED_FOR_SECOND_HALF

definition check_translated_is_matched :: "u32 \<Rightarrow> u32 \<Rightarrow> u32 \<Rightarrow> smpu_match" where
  "check_translated_is_matched reg addr_start addr_end =
    (let n = smpuaddr_size reg; s = drop_bit n addr_start; e = drop_bit n addr_end; val = drop_bit n reg in
     if s = val \<and> e = val then SMPU_ACCES_GRANTED
     else if s = val then SMPU_ACCES_GRANTED_FOR_FIRST_HALF
     else if e = val then SMPU_ACCES_GRANTED_FOR_SECOND_HALF
     else SMPU_ACCES_DENIED)"

text \<open>The register \<^verbatim>\<open>smpuconf\<close>.\<close>

definition smpuconf_get_size :: "u32 \<Rightarrow> u32" where
  "smpuconf_get_size reg = push_bit 5 (drop_bit 5 reg) OR 0x1f"

definition smpuconf_get_attr :: "u32 \<Rightarrow> u32" where
  "smpuconf_get_attr reg =
    push_bit 3 (drop_bit 3 reg AND 1) OR push_bit 2 (drop_bit 2 reg AND 1) OR
    push_bit 1 (drop_bit 1 reg AND 1) OR (reg AND 1)"

definition smpuconf_get_paddr :: "u32 \<Rightarrow> u32" where
  "smpuconf_get_paddr reg = push_bit 8 (drop_bit 8 reg)"

definition smpuconf_get_pax :: "u32 \<Rightarrow> u32" where
  "smpuconf_get_pax reg = drop_bit 6 reg AND 3"

record smpu_region =
  sr_addr :: u32
  sr_conf :: u32

section \<open>What the unit reads of the core\<close>

datatype SmpuLevel = SMPU_LEVEL_1 | SMPU_LEVEL_2

record smpu_core =
  su_sum :: bool
  su_mxr :: bool
  su_vs_sum :: bool
  su_vs_mxr :: bool
  su_hs_vsum :: bool
  su_satp_mode :: u32
  su_vsatp_mode :: u32
  su_hgatp_mode :: u32
  su_vgein :: u32
  su_smpumask :: u32
  su_vsmpumask :: u32
  su_hmpumask :: u32
  su_regions :: "smpu_region list"
  su_vs_regions :: "nat \<Rightarrow> smpu_region list"
  su_h_regions :: "smpu_region list"

definition vgein_to_id :: "u32 \<Rightarrow> u32" where
  "vgein_to_id vgein = (let i = vgein - 1 in if i > MAX_GUEST - 1 then MAX_GUEST - 1 else i)"

section \<open>Attributes\<close>

definition SMPU_X_FLAG :: u32 where [core_consts]: "SMPU_X_FLAG = push_bit 0 1"
definition SMPU_W_FLAG :: u32 where [core_consts]: "SMPU_W_FLAG = push_bit 1 1"
definition SMPU_R_FLAG :: u32 where [core_consts]: "SMPU_R_FLAG = push_bit 2 1"
definition SMPU_U_FLAG :: u32 where [core_consts]: "SMPU_U_FLAG = push_bit 3 1"
definition RET_ATTRIBUTES_ZERO :: u32 where [core_consts]: "RET_ATTRIBUTES_ZERO = 0"
definition RET_ATTRIBUTES_ERROR :: u32 where [core_consts]: "RET_ATTRIBUTES_ERROR = - 1"

definition has :: "u32 \<Rightarrow> u32 \<Rightarrow> bool" where "has attr flag \<longleftrightarrow> attr AND flag \<noteq> 0"

definition SMPU_RWX :: u32 where [core_consts]: "SMPU_RWX = SMPU_R_FLAG OR SMPU_W_FLAG OR SMPU_X_FLAG"

definition convert_attr :: "smpu_core \<Rightarrow> u32 \<Rightarrow> PrivilegeLevel \<Rightarrow> u32" where
  "convert_attr core attr mode =
    (let sum_bit = (if mode = VirtualSupervisorMode \<or> mode = VirtualUserMode then su_vs_sum core else su_sum core) in
     if \<not> has attr SMPU_R_FLAG \<and> has attr SMPU_W_FLAG \<and> \<not> has attr SMPU_X_FLAG then
       (if attr AND SMPU_U_FLAG = 0 then push_bit 3 SMPU_R_FLAG OR SMPU_R_FLAG
        else let a = SMPU_R_FLAG OR SMPU_W_FLAG in push_bit 3 a OR a)
     else if \<not> has attr SMPU_R_FLAG \<and> has attr SMPU_W_FLAG \<and> has attr SMPU_X_FLAG then
       (if attr AND SMPU_U_FLAG = 0 then (push_bit 3 SMPU_X_FLAG OR SMPU_X_FLAG) OR push_bit 3 SMPU_R_FLAG
        else (push_bit 3 SMPU_R_FLAG OR SMPU_R_FLAG) OR SMPU_X_FLAG)
     else if attr AND SMPU_U_FLAG = 0 then push_bit 3 (attr AND SMPU_RWX)
     else let a = attr AND SMPU_RWX in
       if sum_bit then a OR push_bit 3 (a AND (SMPU_R_FLAG OR SMPU_W_FLAG)) else a)"

definition convert_attr_hs :: "smpu_core \<Rightarrow> u32 \<Rightarrow> u32" where
  "convert_attr_hs core attr0 =
    (let sum_bit = su_hs_vsum core; uflag = has attr0 SMPU_U_FLAG; attr = attr0 AND SMPU_RWX in
     if sum_bit then
       if \<not> has attr SMPU_R_FLAG \<and> has attr SMPU_W_FLAG \<and> \<not> has attr SMPU_X_FLAG then
         (if \<not> uflag then push_bit 3 SMPU_R_FLAG OR SMPU_R_FLAG
          else let a = SMPU_R_FLAG OR SMPU_W_FLAG in push_bit 3 a OR a)
       else if \<not> has attr SMPU_R_FLAG \<and> has attr SMPU_W_FLAG \<and> has attr SMPU_X_FLAG then
         (if \<not> uflag then (push_bit 3 SMPU_X_FLAG OR SMPU_X_FLAG) OR push_bit 3 SMPU_R_FLAG
          else (push_bit 3 SMPU_R_FLAG OR SMPU_R_FLAG) OR SMPU_X_FLAG)
       else if uflag then attr else push_bit 3 attr
     else if uflag then push_bit 3 attr OR attr else push_bit 3 attr)"

section \<open>The search\<close>

definition raise_unaligned_exception :: "u64 \<Rightarrow> MemoryAccessType \<Rightarrow> 'a res" where
  "raise_unaligned_exception addr type =
    (case type of
       LOAD \<Rightarrow> raise_trap EXC_LOAD_ADDR_MISALIGNED addr 0
     | STORE \<Rightarrow> raise_trap EXC_STORE_AMO_ADDR_MISALIGNED addr 0
     | _ \<Rightarrow> Inl (RuntimeError ''[SMPU] unexpected misalligned access type''))"

definition level_attr :: "smpu_core \<Rightarrow> SmpuLevel \<Rightarrow> u32 \<Rightarrow> PrivilegeLevel \<Rightarrow> u32" where
  "level_attr core level attr mode =
    (if level = SMPU_LEVEL_1 then convert_attr core attr mode else convert_attr_hs core attr)"

text \<open>
  The physical address a translated region gives: the offset from the access, the upper bits
  from the region. The mask is computed as \<^verbatim>\<open>(1 << n) - 1\<close> in \<^verbatim>\<open>int\<close>, which overflows for the
  largest region (n = 31).
\<close>

definition smpu_translate :: "smpu_region \<Rightarrow> u64 \<Rightarrow> u64 res" where
  "smpu_translate r addr =
    (let n = smpuaddr_size (sr_addr r) in
     if n \<ge> 31 then Inl UndefinedBehaviour
     else let mask = push_bit n 1 - (1 :: u32) in
       Inr ((addr AND ucast mask) OR ucast (smpuconf_get_paddr (sr_conf r) AND NOT mask) OR
            push_bit 32 (ucast (smpuconf_get_pax (sr_conf r)))))"

text \<open>
  The loop over the regions: \<open>start_op\<close> and \<open>end_op\<close> are fixed before it; the address and the
  attributes found so far change in it. A region whose mask bit is clear is skipped.
\<close>

fun smpu_find :: "smpu_core \<Rightarrow> SmpuLevel \<Rightarrow> PrivilegeLevel \<Rightarrow> MemoryAccessType \<Rightarrow> u32 \<Rightarrow> u32 \<Rightarrow> u32 \<Rightarrow>
    (nat \<times> smpu_region) list \<Rightarrow> u64 \<Rightarrow> u32 \<Rightarrow> (u32 \<times> u64) res" where
  "smpu_find core level mode type smpumask start_op end_op [] addr ret_attr = Inr (ret_attr, addr)"
| "smpu_find core level mode type smpumask start_op end_op ((ii, r) # rest) addr ret_attr =
    (let next = smpu_find core level mode type smpumask start_op end_op rest;
         attr = smpuconf_get_attr (sr_conf r) in
     if smpumask AND push_bit ii 1 = 0 then next addr ret_attr
     else if is_translated_region (sr_addr r) then
       (let rv = check_translated_is_matched (sr_addr r) start_op end_op in
        if rv = SMPU_ACCES_DENIED then next addr ret_attr
        else if attr AND SMPU_RWX = 0 then next addr ret_attr
        else if ret_attr \<noteq> 0 then Inr (RET_ATTRIBUTES_ERROR, addr)
        else if rv = SMPU_ACCES_GRANTED_FOR_FIRST_HALF \<or> rv = SMPU_ACCES_GRANTED_FOR_SECOND_HALF
        then Inl (RuntimeError ''[SMPU] unaligned access not supported yet'')
        else bind_res (smpu_translate r addr)
               (\<lambda>phy_addr. next phy_addr (level_attr core level attr mode)))
     else
       (let start_addr = smpuaddr_get_addr (sr_addr r);
            end_addr = start_addr + smpuconf_get_size (sr_conf r) in
        if start_op \<ge> start_addr \<and> end_op \<le> end_addr then
          (if attr AND SMPU_RWX = 0 then next addr ret_attr
           else if ret_attr \<noteq> 0 then Inr (RET_ATTRIBUTES_ERROR, addr)
           else next addr (level_attr core level attr mode))
        else if end_op \<ge> start_addr \<and> end_op \<le> end_addr
        then raise_unaligned_exception (ucast end_op) type
        else if start_op \<ge> start_addr \<and> start_op \<le> end_addr
        then raise_unaligned_exception (ucast start_op) type
        else next addr ret_attr))"

definition smpu_find_matching_entry :: "smpu_core \<Rightarrow> u64 \<Rightarrow> u32 \<Rightarrow> MemoryAccessType \<Rightarrow> smpu_region list \<Rightarrow>
    u32 \<Rightarrow> SmpuLevel \<Rightarrow> PrivilegeLevel \<Rightarrow> (u32 \<times> u64) res" where
  "smpu_find_matching_entry core addr sz type regions smpumask level mode =
    smpu_find core level mode type smpumask (ucast addr) (ucast (addr + ucast sz - 1))
      (enumerate 0 (take SMPU_NREGIONS regions)) addr RET_ATTRIBUTES_ZERO"

section \<open>The check\<close>

definition is_access_allowed_for_su :: "smpu_core \<Rightarrow> u32 \<Rightarrow> MemoryAccessType \<Rightarrow> PrivilegeLevel \<Rightarrow> bool \<Rightarrow>
    SmpuLevel \<Rightarrow> bool res" where
  "is_access_allowed_for_su core attr0 type mode is_hlvx_access level =
    (let attr = (if mode = SupervisorMode \<or> mode = VirtualSupervisorMode then drop_bit 3 attr0 else attr0) in
     case type of
       FETCH \<Rightarrow> Inr (has attr SMPU_X_FLAG)
     | LOAD \<Rightarrow>
         if is_hlvx_access then Inr (has attr SMPU_X_FLAG)
         else let mxr = (if level = SMPU_LEVEL_1 \<and> (mode = VirtualUserMode \<or> mode = VirtualSupervisorMode)
                         then su_vs_mxr core else su_mxr core) in
           if mxr then Inr (has attr (SMPU_R_FLAG OR SMPU_X_FLAG)) else Inr (has attr SMPU_R_FLAG)
     | STORE \<Rightarrow> Inr (has attr SMPU_W_FLAG)
     | _ \<Rightarrow> Inl AssertFailed)"

definition smpu_raise_exception :: "SmpuLevel \<Rightarrow> MemoryAccessType \<Rightarrow> u64 \<Rightarrow> u64 \<Rightarrow> 'a res" where
  "smpu_raise_exception level type addr mtval2_htval =
    (if level = SMPU_LEVEL_2 then
       (case type of
          FETCH \<Rightarrow> raise_trap EXC_INSTR_GUEST_PAGE_FAULT addr mtval2_htval
        | LOAD \<Rightarrow> raise_trap EXC_LOAD_GUEST_PAGE_FAULT addr mtval2_htval
        | STORE \<Rightarrow> raise_trap EXC_STORE_AMO_GUEST_PAGE_FAULT addr mtval2_htval
        | _ \<Rightarrow> Inl (RuntimeError ''[smpu] unknown access type''))
     else
       (case type of
          FETCH \<Rightarrow> raise_trap EXC_INSTR_PAGE_FAULT addr mtval2_htval
        | LOAD \<Rightarrow> raise_trap EXC_LOAD_PAGE_FAULT addr mtval2_htval
        | STORE \<Rightarrow> raise_trap EXC_STORE_AMO_PAGE_FAULT addr mtval2_htval
        | _ \<Rightarrow> Inl (RuntimeError ''[smpu] unknown access type'')))"

text \<open>The code after the search, with the attributes and the address it left.\<close>

definition smpu_finish :: "smpu_core \<Rightarrow> PrivilegeLevel \<Rightarrow> MemoryAccessType \<Rightarrow> SmpuLevel \<Rightarrow> bool \<Rightarrow> u64 \<Rightarrow>
    u32 \<times> u64 \<Rightarrow> (bool \<times> u64) res" where
  "smpu_finish core mode type level is_hlvx_access virt_addr r =
    (let attr = fst r; addr = snd r in
     if attr = RET_ATTRIBUTES_ZERO then smpu_raise_exception level type virt_addr 0
     else if attr = RET_ATTRIBUTES_ERROR then
       raise_trap (if level = SMPU_LEVEL_2 then EXC_SMPU_GUEST_MULTIPLE_TRANSLATIONS
                   else EXC_SMPU_MULTIPLE_TRANSLATIONS) virt_addr 0
     else bind_res (is_access_allowed_for_su core attr type mode is_hlvx_access level)
       (\<lambda>ok. if ok then Inr (True, addr)
             else smpu_raise_exception level type virt_addr (drop_bit 2 addr)))"

definition smpu_do_phy_address_check :: "smpu_core \<Rightarrow> PrivilegeLevel \<Rightarrow> u64 \<Rightarrow> u32 \<Rightarrow> MemoryAccessType \<Rightarrow>
    SmpuLevel \<Rightarrow> bool \<Rightarrow> (bool \<times> u64) res" where
  "smpu_do_phy_address_check core mode virt_addr sz type level is_hlvx_access =
    (if mode = MachineMode then Inr (True, virt_addr)
     else if level = SMPU_LEVEL_1 \<and> (mode = VirtualSupervisorMode \<or> mode = VirtualUserMode) then
       (if su_vsatp_mode core \<noteq> 0 then Inr (False, virt_addr)
        else if su_vgein core = 0 then Inr (True, virt_addr)
        else if su_vsmpumask core = 0 then
          (if mode = VirtualSupervisorMode then Inr (True, virt_addr)
           else smpu_raise_exception level type virt_addr 0)
        else bind_res (smpu_find_matching_entry core virt_addr sz type (su_vs_regions core (unat (vgein_to_id (su_vgein core))))
               (su_vsmpumask core) level mode)
             (smpu_finish core mode type level is_hlvx_access virt_addr))
     else if level = SMPU_LEVEL_2 \<and> (mode = SupervisorMode \<or> mode = UserMode) then Inr (True, virt_addr)
     else if level = SMPU_LEVEL_2 \<and> (mode = VirtualSupervisorMode \<or> mode = VirtualUserMode) then
       (if su_hgatp_mode core \<noteq> 0 then Inr (False, virt_addr)
        else if su_hmpumask core = 0 then
          (if mode = VirtualSupervisorMode then Inr (True, virt_addr)
           else smpu_raise_exception level type virt_addr 0)
        else bind_res (smpu_find_matching_entry core virt_addr sz type (su_h_regions core)
               (su_hmpumask core) level mode)
             (smpu_finish core mode type level is_hlvx_access virt_addr))
     else if level = SMPU_LEVEL_1 then
       (if su_satp_mode core \<noteq> 0 then Inr (False, virt_addr)
        else if su_smpumask core = 0 then
          (if mode = SupervisorMode then Inr (True, virt_addr)
           else smpu_raise_exception level type virt_addr 0)
        else bind_res (smpu_find_matching_entry core virt_addr sz type (su_regions core)
               (su_smpumask core) level mode)
             (smpu_finish core mode type level is_hlvx_access virt_addr))
     else Inl (RuntimeError ''[smpu] unexpected level/mode pair''))"

section \<open>What the regions decide\<close>

text \<open>
  A region hits when it contains the access; it is split when it contains one end of the
  access only (the source raises a misalignment exception or gives up); a region without
  read, write and execute permission never counts.
\<close>

definition region_hits :: "smpu_region \<Rightarrow> u32 \<Rightarrow> u32 \<Rightarrow> bool" where
  "region_hits r s e \<longleftrightarrow>
    (if is_translated_region (sr_addr r) then check_translated_is_matched (sr_addr r) s e = SMPU_ACCES_GRANTED
     else smpuaddr_get_addr (sr_addr r) \<le> s \<and> e \<le> smpuaddr_get_addr (sr_addr r) + smpuconf_get_size (sr_conf r))"

definition region_split :: "smpu_region \<Rightarrow> u32 \<Rightarrow> u32 \<Rightarrow> bool" where
  "region_split r s e \<longleftrightarrow>
    (if is_translated_region (sr_addr r)
     then check_translated_is_matched (sr_addr r) s e \<notin> {SMPU_ACCES_GRANTED, SMPU_ACCES_DENIED}
     else \<not> region_hits r s e \<and>
       (let a = smpuaddr_get_addr (sr_addr r); b = a + smpuconf_get_size (sr_conf r) in
        (a \<le> e \<and> e \<le> b) \<or> (a \<le> s \<and> s \<le> b)))"

definition region_counts :: "u32 \<Rightarrow> u32 \<Rightarrow> u32 \<Rightarrow> nat \<times> smpu_region \<Rightarrow> bool" where
  "region_counts smpumask s e ir \<longleftrightarrow>
    bit smpumask (fst ir) \<and> region_hits (snd ir) s e \<and> smpuconf_get_attr (sr_conf (snd ir)) AND SMPU_RWX \<noteq> 0"

definition region_address :: "smpu_region \<Rightarrow> u64 \<Rightarrow> u64" where
  "region_address r addr =
    (if is_translated_region (sr_addr r) then projr (smpu_translate r addr) else addr)"

definition regions_clean :: "u32 \<Rightarrow> u32 \<Rightarrow> u32 \<Rightarrow> (nat \<times> smpu_region) list \<Rightarrow> bool" where
  "regions_clean smpumask s e rs \<longleftrightarrow>
    list_all (\<lambda>(ii, r). bit smpumask ii \<longrightarrow> \<not> region_split r s e \<and> smpuaddr_size (sr_addr r) < 31) rs"

lemma mask_bit_iff: "ii < 32 \<Longrightarrow> smpumask AND 2 ^ ii = (0 :: u32) \<longleftrightarrow> \<not> bit smpumask ii"
  by (simp add: and_exp_eq_0_iff_not_bit)

lemma get_attr_bits:
  "smpuconf_get_attr reg = push_bit 3 (of_bool (bit reg 3)) OR push_bit 2 (of_bool (bit reg 2)) OR
     push_bit 1 (of_bool (bit reg 1)) OR of_bool (bit reg 0)"
proof -
  have "x AND 1 = of_bool (odd x)" for x :: u32
    by (simp add: and_one_eq mod_2_eq_odd)
  then show ?thesis
    unfolding smpuconf_get_attr_def bit_iff_odd_drop_bit by simp
qed

lemma level_attr_nonzero:
  assumes "smpuconf_get_attr reg AND SMPU_RWX \<noteq> 0"
  shows "level_attr core level (smpuconf_get_attr reg) mode \<noteq> 0"
    and "level_attr core level (smpuconf_get_attr reg) mode \<noteq> RET_ATTRIBUTES_ERROR"
  using assms unfolding get_attr_bits
  by (cases "bit reg 3"; cases "bit reg 2"; cases "bit reg 1"; cases "bit reg 0";
      simp add: level_attr_def convert_attr_def convert_attr_hs_def has_def core_consts Let_def)+

lemma translate_ok: "smpuaddr_size (sr_addr r) < 31 \<Longrightarrow> \<exists>pa. smpu_translate r addr = Inr pa"
  by (simp add: smpu_translate_def Let_def)

lemma smpu_find_counts:
  assumes "region_counts smpumask s e (ii, r)" and "ii < 32" and "smpuaddr_size (sr_addr r) < 31"
  shows "smpu_find core level mode type smpumask s e ((ii, r) # rest) addr ret =
    (if ret \<noteq> 0 then Inr (RET_ATTRIBUTES_ERROR, addr)
     else smpu_find core level mode type smpumask s e rest (region_address r addr)
            (level_attr core level (smpuconf_get_attr (sr_conf r)) mode))"
proof -
  obtain pa where "smpu_translate r addr = Inr pa"
    using translate_ok [OF assms(3)] by blast
  then show ?thesis
    using assms by (simp add: region_counts_def region_hits_def region_address_def mask_bit_iff Let_def
        split: if_splits)
qed

lemma smpu_find_skip:
  assumes "\<not> region_counts smpumask s e (ii, r)" and "ii < 32" and "bit smpumask ii \<Longrightarrow> \<not> region_split r s e"
  shows "smpu_find core level mode type smpumask s e ((ii, r) # rest) addr ret =
    smpu_find core level mode type smpumask s e rest addr ret"
proof (cases "bit smpumask ii")
  case True
  then have "\<not> region_split r s e" by (rule assms(3))
  with True assms(1,2) show ?thesis
    by (cases "is_translated_region (sr_addr r)")
      (auto simp: region_counts_def region_hits_def region_split_def mask_bit_iff Let_def)
qed (use assms(2) in \<open>simp add: mask_bit_iff\<close>)

lemma smpu_find_found:
  assumes "regions_clean smpumask s e rs" and "\<forall>(ii, r)\<in>set rs. ii < 32" and "ret \<noteq> 0"
  shows "smpu_find core level mode type smpumask s e rs addr ret =
    Inr (if filter (region_counts smpumask s e) rs = [] then ret else RET_ATTRIBUTES_ERROR, addr)"
  using assms(1,2)
proof (induction rs)
  case (Cons ir rs)
  obtain ii r where ir: "ir = (ii, r)" by (cases ir)
  show ?case
  proof (cases "region_counts smpumask s e (ii, r)")
    case True
    then have "bit smpumask ii" by (simp add: region_counts_def)
    with True Cons.prems assms(3) show ?thesis
      by (simp add: ir smpu_find_counts regions_clean_def del: smpu_find.simps)
  next
    case False
    with Cons show ?thesis
      by (simp add: ir smpu_find_skip regions_clean_def del: smpu_find.simps)
  qed
qed simp

lemma smpu_find_spec:
  assumes "regions_clean smpumask s e rs" and "\<forall>(ii, r)\<in>set rs. ii < 32"
  shows "smpu_find core level mode type smpumask s e rs addr 0 =
    Inr (case filter (region_counts smpumask s e) rs of
       [] \<Rightarrow> (0, addr)
     | ir # irs \<Rightarrow> (if irs = [] then level_attr core level (smpuconf_get_attr (sr_conf (snd ir))) mode
                   else RET_ATTRIBUTES_ERROR, region_address (snd ir) addr))"
  using assms
proof (induction rs)
  case (Cons ir rs)
  obtain ii r where ir: "ir = (ii, r)" by (cases ir)
  show ?case
  proof (cases "region_counts smpumask s e (ii, r)")
    case True
    then have "bit smpumask ii" "smpuconf_get_attr (sr_conf r) AND SMPU_RWX \<noteq> 0"
      by (simp_all add: region_counts_def)
    with True Cons.prems level_attr_nonzero(1) [of "sr_conf r"] show ?thesis
      by (simp add: ir smpu_find_counts smpu_find_found regions_clean_def del: smpu_find.simps)
  next
    case False
    with Cons show ?thesis
      by (simp add: ir smpu_find_skip regions_clean_def del: smpu_find.simps)
  qed
qed simp

section \<open>Properties of the unit\<close>

definition counting_regions :: "u32 \<Rightarrow> u64 \<Rightarrow> u32 \<Rightarrow> smpu_region list \<Rightarrow> smpu_region list" where
  "counting_regions smpumask addr sz regions =
    map snd (filter (region_counts smpumask (ucast addr) (ucast (addr + ucast sz - 1)))
      (enumerate 0 (take SMPU_NREGIONS regions)))"

definition access_clean :: "u32 \<Rightarrow> u64 \<Rightarrow> u32 \<Rightarrow> smpu_region list \<Rightarrow> bool" where
  "access_clean smpumask addr sz regions \<longleftrightarrow>
    regions_clean smpumask (ucast addr) (ucast (addr + ucast sz - 1)) (enumerate 0 (take SMPU_NREGIONS regions))"

lemma find_matching_entry_regions:
  assumes "access_clean smpumask addr sz regions"
  shows "smpu_find_matching_entry core addr sz type regions smpumask level mode =
    Inr (case counting_regions smpumask addr sz regions of
       [] \<Rightarrow> (0, addr)
     | r # rs \<Rightarrow> (if rs = [] then level_attr core level (smpuconf_get_attr (sr_conf r)) mode
                 else RET_ATTRIBUTES_ERROR, region_address r addr))"
proof -
  have "\<forall>(ii, r)\<in>set (enumerate 0 (take SMPU_NREGIONS regions)). ii < 32"
    by (auto simp: in_set_enumerate_eq SMPU_NREGIONS_def)
  from smpu_find_spec [OF assms [unfolded access_clean_def] this] show ?thesis
    by (simp add: smpu_find_matching_entry_def counting_regions_def RET_ATTRIBUTES_ZERO_def split: list.splits)
qed

text \<open>
  C17: in supervisor and user mode with translation off and some region enabled, the region
  registers alone decide an access that no enabled region splits: no counting region is a
  page fault; exactly one grants the access exactly when its attributes allow it, at the
  address that region gives, and otherwise raises the page fault; more than one raises the
  multiple-translation exception.
\<close>

theorem smpu_regions_decide:
  assumes "mode = SupervisorMode \<or> mode = UserMode" and "su_satp_mode core = 0" and "su_smpumask core \<noteq> 0"
    and "access_clean (su_smpumask core) addr sz (su_regions core)" and "type \<noteq> MAX_MEM_ACCESS_TYPES"
  shows "smpu_do_phy_address_check core mode addr sz type SMPU_LEVEL_1 hlvx =
    (case counting_regions (su_smpumask core) addr sz (su_regions core) of
       [] \<Rightarrow> smpu_raise_exception SMPU_LEVEL_1 type addr 0
     | [r] \<Rightarrow>
        if is_access_allowed_for_su core (convert_attr core (smpuconf_get_attr (sr_conf r)) mode) type mode hlvx
             SMPU_LEVEL_1 = Inr True
        then Inr (True, region_address r addr)
        else smpu_raise_exception SMPU_LEVEL_1 type addr (drop_bit 2 (region_address r addr))
     | _ \<Rightarrow> raise_trap EXC_SMPU_MULTIPLE_TRANSLATIONS addr 0)"
proof -
  have m: "mode \<noteq> MachineMode" "mode \<noteq> VirtualSupervisorMode" "mode \<noteq> VirtualUserMode"
    using assms(1) by (auto simp: core_consts)
  define cr where "cr = counting_regions (su_smpumask core) addr sz (su_regions core)"
  have nz: "smpuconf_get_attr (sr_conf r) AND SMPU_RWX \<noteq> 0" if "r \<in> set cr" for r
    using that by (auto simp: cr_def counting_regions_def region_counts_def)
  have "\<exists>b. is_access_allowed_for_su core a type mode hlvx SMPU_LEVEL_1 = Inr b" for a
    using assms(5) by (cases type) (auto simp: is_access_allowed_for_su_def Let_def)
  then obtain ok where ok: "is_access_allowed_for_su core a type mode hlvx SMPU_LEVEL_1 = Inr (ok a)" for a
    by metis
  have "smpu_do_phy_address_check core mode addr sz type SMPU_LEVEL_1 hlvx =
      bind_res (smpu_find_matching_entry core addr sz type (su_regions core) (su_smpumask core) SMPU_LEVEL_1 mode)
        (smpu_finish core mode type SMPU_LEVEL_1 hlvx addr)"
    using assms(2,3) m by (simp add: smpu_do_phy_address_check_def)
  also have "\<dots> = (case cr of
       [] \<Rightarrow> smpu_raise_exception SMPU_LEVEL_1 type addr 0
     | [r] \<Rightarrow>
        if is_access_allowed_for_su core (convert_attr core (smpuconf_get_attr (sr_conf r)) mode) type mode hlvx
             SMPU_LEVEL_1 = Inr True
        then Inr (True, region_address r addr)
        else smpu_raise_exception SMPU_LEVEL_1 type addr (drop_bit 2 (region_address r addr))
     | _ \<Rightarrow> raise_trap EXC_SMPU_MULTIPLE_TRANSLATIONS addr 0)"
    unfolding find_matching_entry_regions [OF assms(4), folded cr_def]
    using nz level_attr_nonzero [of _ core SMPU_LEVEL_1 mode]
    by (auto simp: smpu_finish_def Let_def ok level_attr_def RET_ATTRIBUTES_ZERO_def RET_ATTRIBUTES_ERROR_def
        split: list.splits)
  finally show ?thesis by (simp add: cr_def)
qed

lemma translate_keeps_offset:
  assumes "smpu_translate r addr = Inr pa" and "n = smpuaddr_size (sr_addr r)"
  shows "take_bit n pa = take_bit n addr"
proof -
  have n: "n < 31" and pa: "pa = (addr AND ucast (mask n :: u32)) OR
      ucast (smpuconf_get_paddr (sr_conf r) AND NOT (mask n)) OR push_bit 32 (ucast (smpuconf_get_pax (sr_conf r)))"
    using assms by (auto simp: smpu_translate_def Let_def mask_eq_exp_minus_1 split: if_splits)
  show ?thesis
    unfolding pa using n by (intro bit_word_eqI) (auto simp: bit_simps)
qed

text \<open>
  One protected region of 64 bytes for supervisor data and one translated region of 256 bytes
  that user mode may read, for the witnesses.
\<close>

definition example_smpu :: smpu_core where
  "example_smpu = \<lparr>su_sum = False, su_mxr = False, su_vs_sum = False, su_vs_mxr = False, su_hs_vsum = False,
     su_satp_mode = 0, su_vsatp_mode = 0, su_hgatp_mode = 0, su_vgein = 0,
     su_smpumask = 3, su_vsmpumask = 0, su_hmpumask = 0,
     su_regions = [\<lparr>sr_addr = 0x1000, sr_conf = 0x26\<rparr>, \<lparr>sr_addr = 0x4008, sr_conf = 0x8000000c\<rparr>],
     su_vs_regions = (\<lambda>_. []), su_h_regions = []\<rparr>"

lemma example_smpu_regions:
  "counting_regions 3 0x4010 4 (su_regions example_smpu) = [\<lparr>sr_addr = 0x4008, sr_conf = 0x8000000c\<rparr>] \<and>
   access_clean 3 0x4010 4 (su_regions example_smpu)"
  by (simp add: counting_regions_def access_clean_def regions_clean_def example_smpu_def SMPU_NREGIONS_def
      region_counts_def region_hits_def region_split_def is_translated_region_def smpuaddr_size_def
      check_translated_is_matched_def smpuaddr_get_addr_def smpuconf_get_size_def smpuconf_get_attr_def
      core_consts Let_def)

theorem smpu_regions_decide_witness:
  "smpu_do_phy_address_check example_smpu UserMode 0x4010 4 LOAD SMPU_LEVEL_1 False = Inr (True, 0x80000010) \<and>
   smpu_do_phy_address_check example_smpu UserMode 0x4010 4 STORE SMPU_LEVEL_1 False
     = raise_trap EXC_STORE_AMO_PAGE_FAULT 0x4010 0x20000004"
proof -
  have p: "UserMode = SupervisorMode \<or> UserMode = UserMode" "su_satp_mode example_smpu = 0"
    "su_smpumask example_smpu \<noteq> 0" "su_smpumask example_smpu = 3"
    by (simp_all add: example_smpu_def)
  have c: "access_clean (su_smpumask example_smpu) 0x4010 4 (su_regions example_smpu)"
    "counting_regions 3 0x4010 4 (su_regions example_smpu) = [\<lparr>sr_addr = 0x4008, sr_conf = 0x8000000c\<rparr>]"
    using example_smpu_regions p(4) by simp_all
  have a: "region_address \<lparr>sr_addr = 0x4008, sr_conf = 0x8000000c\<rparr> 0x4010 = 0x80000010"
    "is_access_allowed_for_su example_smpu (convert_attr example_smpu (smpuconf_get_attr 0x8000000c) UserMode)
       LOAD UserMode False SMPU_LEVEL_1 = Inr True"
    "is_access_allowed_for_su example_smpu (convert_attr example_smpu (smpuconf_get_attr 0x8000000c) UserMode)
       STORE UserMode False SMPU_LEVEL_1 = Inr False"
    by (simp_all add: region_address_def is_translated_region_def smpuaddr_size_def smpu_translate_def
        smpuconf_get_paddr_def smpuconf_get_pax_def is_access_allowed_for_su_def convert_attr_def
        smpuconf_get_attr_def has_def core_consts example_smpu_def Let_def)
  show ?thesis
    using smpu_regions_decide [OF p(1-3) c(1), of LOAD False] smpu_regions_decide [OF p(1-3) c(1), of STORE False]
    by (simp add: p(4) c(2) a smpu_raise_exception_def)
qed

end
