(* ===== verification/VP_Core_Mem.thy ===== *)
theory VP_Core_Mem
  imports VP_Bus VP_MMU VP_SPMP VP_SMPU
begin

text \<open>
  The memory interface of an RV32 core (\<^verbatim>\<open>CombinedMemoryInterface\<close> of \<^verbatim>\<open>core/rv32/mem.h\<close>): every
  access of the instruction set simulator goes through it, to the protection units or the
  memory management unit, and then over a direct memory range or the bus. Load-reserved,
  store-conditional and the atomic operations hold the bus lock.

  The targets of the bus are memories and peripherals; what a peripheral does with a
  transaction is the argument \<open>pt\<close>. A \<^verbatim>\<open>MemoryDMI\<close> is paired with the number of the bus
  target whose byte array its pointer points to. The timing annotations (quantum keeper) are not modelled.
\<close>

section \<open>State\<close>

datatype 'p target = MemTarget SimpleMemory | Peripheral 'p

type_synonym 'p ptransport = "'p \<Rightarrow> payload \<Rightarrow> ('p \<times> payload) res"

definition target_transport :: "'p ptransport \<Rightarrow> 'p target \<Rightarrow> payload \<Rightarrow> ('p target \<times> payload) res" where
  "target_transport pt t tr =
    (case t of
       MemTarget m \<Rightarrow> bind_res (sm_transport m tr) (\<lambda>(m', tr'). Inr (MemTarget m', tr'))
     | Peripheral p \<Rightarrow> bind_res (pt p tr) (\<lambda>(p', tr'). Inr (Peripheral p', tr')))"

record 'p cmi =
  cmi_bus :: "'p target SimpleBus"
  cmi_lock :: BusLock
  cmi_lr_addr :: u64
  cmi_dmi_ranges :: "(MemoryDMI \<times> nat) list"
  cmi_mmu :: "MMU option"
  cmi_spmp :: "spmp_cache option"
  cmi_smpu :: bool

record mem_core =
  co_hart :: u32
  co_use_smpu :: bool
  co_use_spmp :: bool
  co_mmu :: mmu_core
  co_spmp :: spmp_core
  co_smpu :: smpu_core

section \<open>Raw accesses\<close>

definition do_transaction :: "'p ptransport \<Rightarrow> tlm_command \<Rightarrow> u64 \<Rightarrow> u8 list \<Rightarrow> ('p cmi, u8 list) op" where
  "do_transaction pt cmd addr data = (\<lambda>c.
     case bus_transport (target_transport pt) (cmi_bus c)
            \<lparr>tp_command = cmd, tp_address = addr, tp_data = data, tp_response = TLM_OK_RESPONSE\<rparr> of
       Inl e \<Rightarrow> (Inl e, c)
     | Inr (b', tr') \<Rightarrow>
         (if tp_response tr' \<noteq> TLM_OK_RESPONSE
          then (if cmd = TLM_READ_COMMAND then raise_trap EXC_LOAD_PAGE_FAULT addr 0
                else if cmd = TLM_WRITE_COMMAND then raise_trap EXC_STORE_AMO_PAGE_FAULT addr 0
                else Inl (RuntimeError ''TLM command must be read or write''))
          else Inr (tp_data tr'),
          c\<lparr>cmi_bus := b'\<rparr>))"

text \<open>The array a direct memory range points to.\<close>

definition dmi_array :: "'p cmi \<Rightarrow> nat \<Rightarrow> u8 list" where
  "dmi_array c k = (case bus_targets (cmi_bus c) ! k of MemTarget m \<Rightarrow> sm_data m | Peripheral _ \<Rightarrow> [])"

definition set_dmi_array :: "nat \<Rightarrow> u8 list \<Rightarrow> 'p cmi \<Rightarrow> 'p cmi" where
  "set_dmi_array k a c =
    (case bus_targets (cmi_bus c) ! k of
       MemTarget m \<Rightarrow> c\<lparr>cmi_bus := (cmi_bus c)\<lparr>bus_targets := (bus_targets (cmi_bus c))[k := MemTarget (m\<lparr>sm_data := a\<rparr>)]\<rparr>\<rparr>
     | Peripheral _ \<Rightarrow> c)"

definition raw_load_data :: "'p ptransport \<Rightarrow> u32 \<Rightarrow> nat \<Rightarrow> u64 \<Rightarrow> ('p cmi, u64) op" where
  "raw_load_data pt hart sizeof_T addr = read_op (\<lambda>c.
     bind_op (lift_op (wait_for_access_rights (cmi_lock c) hart)) (\<lambda>_.
       case List.find (\<lambda>(d, k). dmi_contains d addr) (cmi_dmi_ranges c) of
         Some (d, k) \<Rightarrow> lift_op (dmi_load d (dmi_array c k) addr sizeof_T)
       | None \<Rightarrow> bind_op (do_transaction pt TLM_READ_COMMAND addr (replicate sizeof_T 0))
                   (\<lambda>bs. ret_op (of_le_bytes bs))))"

primrec dmi_store_all :: "(MemoryDMI \<times> nat) list \<Rightarrow> nat \<Rightarrow> u64 \<Rightarrow> u64 \<Rightarrow> bool \<Rightarrow> ('p cmi, bool) op" where
  "dmi_store_all [] sizeof_T addr v done = ret_op done"
| "dmi_store_all (e # es) sizeof_T addr v done =
    (if dmi_contains (fst e) addr
     then read_op (\<lambda>c. bind_op (lift_op (dmi_store (fst e) (dmi_array c (snd e)) addr sizeof_T v))
            (\<lambda>a. bind_op (modify_op (set_dmi_array (snd e) a)) (\<lambda>_. dmi_store_all es sizeof_T addr v True)))
     else dmi_store_all es sizeof_T addr v done)"

definition atomic_unlock :: "u32 \<Rightarrow> ('p cmi, unit) op" where
  "atomic_unlock hart = modify_op (\<lambda>c. c\<lparr>cmi_lock := bl_unlock (cmi_lock c) hart\<rparr>)"

definition raw_store_data :: "'p ptransport \<Rightarrow> u32 \<Rightarrow> nat \<Rightarrow> u64 \<Rightarrow> u64 \<Rightarrow> ('p cmi, unit) op" where
  "raw_store_data pt hart sizeof_T addr v = read_op (\<lambda>c.
     bind_op (lift_op (wait_for_access_rights (cmi_lock c) hart)) (\<lambda>_.
     bind_op (dmi_store_all (cmi_dmi_ranges c) sizeof_T addr v False) (\<lambda>done.
     bind_op (if \<not> done
              then bind_op (do_transaction pt TLM_WRITE_COMMAND addr (le_bytes sizeof_T v)) (\<lambda>_. ret_op ())
              else ret_op ())
       (\<lambda>_. atomic_unlock hart))))"

section \<open>The memory management unit on top of the raw accesses\<close>

definition cmi_mmu_if :: "'p ptransport \<Rightarrow> u32 \<Rightarrow> 'p cmi mmu_memory_if" where
  "cmi_mmu_if pt hart = \<lparr>
     mmu_load_pte64 = (\<lambda>c a. case raw_load_data pt hart 8 a c of (Inl e, _) \<Rightarrow> Inl e | (Inr v, c') \<Rightarrow> Inr (v, c')),
     mmu_load_pte32 = (\<lambda>c a. case raw_load_data pt hart 4 a c of (Inl e, _) \<Rightarrow> Inl e | (Inr v, c') \<Rightarrow> Inr (v, c')),
     mmu_store_pte32 = (\<lambda>c a v. case raw_store_data pt hart 4 a (ucast v) c of (Inl e, _) \<Rightarrow> Inl e | (Inr _, c') \<Rightarrow> Inr c')\<rparr>"

definition v2p :: "'p ptransport \<Rightarrow> mem_core \<Rightarrow> u64 \<Rightarrow> MemoryAccessType \<Rightarrow> ('p cmi, u64) op" where
  "v2p pt core vaddr type = (\<lambda>c.
     case cmi_mmu c of
       None \<Rightarrow> (Inr vaddr, c)
     | Some u \<Rightarrow>
         (case translate_virtual_to_physical_addr (cmi_mmu_if pt (co_hart core)) (co_mmu core) u c vaddr type of
            Inl e \<Rightarrow> (Inl e, c)
          | Inr (paddr, u', c') \<Rightarrow> (Inr paddr, c'\<lparr>cmi_mmu := Some u'\<rparr>)))"

definition cmi_flush_tlb :: "('p cmi, unit) op" where
  "cmi_flush_tlb = (\<lambda>c. case cmi_mmu c of
     None \<Rightarrow> (Inl UndefinedBehaviour, c)
   | Some u \<Rightarrow> (Inr (), c\<lparr>cmi_mmu := Some (flush_tlb u)\<rparr>))"

definition cmi_clear_spmp_cache :: "('p cmi, unit) op" where
  "cmi_clear_spmp_cache = (\<lambda>c. case cmi_spmp c of
     None \<Rightarrow> (Inl UndefinedBehaviour, c)
   | Some _ \<Rightarrow> (Inr (), c\<lparr>cmi_spmp := Some clear_spmp_cache\<rparr>))"

section \<open>Protected accesses\<close>

definition get_mem_mode :: "mem_core \<Rightarrow> MemoryAccessType \<Rightarrow> PrivilegeLevel \<Rightarrow> PrivilegeLevel" where
  "get_mem_mode core type privilege_override =
    (let mode0 = mc_prv (co_mmu core);
         mode1 = (if type \<noteq> FETCH \<and> mc_mprv (co_mmu core) then mc_mpp (co_mmu core) else mode0)
     in if privilege_override \<noteq> NoneMode then privilege_override else mode1)"

definition phya_spmp_check :: "mem_core \<Rightarrow> PrivilegeLevel \<Rightarrow> u64 \<Rightarrow> u32 \<Rightarrow> MemoryAccessType \<Rightarrow> ('p cmi, bool) op" where
  "phya_spmp_check core mode paddr sz type = (\<lambda>c.
     case cmi_spmp c of
       None \<Rightarrow> (Inr False, c)
     | Some cache \<Rightarrow>
         (case spmp_do_phy_address_check (co_spmp core) cache mode paddr sz type of
            Inl e \<Rightarrow> (Inl e, c)
          | Inr (b, cache') \<Rightarrow> (Inr b, c\<lparr>cmi_spmp := Some cache'\<rparr>)))"

definition phya_smpu_check :: "mem_core \<Rightarrow> PrivilegeLevel \<Rightarrow> u64 \<Rightarrow> u32 \<Rightarrow> MemoryAccessType \<Rightarrow> SmpuLevel \<Rightarrow> bool \<Rightarrow>
    ('p cmi, bool \<times> u64) op" where
  "phya_smpu_check core mode addr sz type level is_hlvx_access = (\<lambda>c.
     if \<not> cmi_smpu c then (Inr (False, addr), c)
     else (smpu_do_phy_address_check (co_smpu core) mode addr sz type level is_hlvx_access, c))"

definition phya_smpu_check_both :: "mem_core \<Rightarrow> PrivilegeLevel \<Rightarrow> u64 \<Rightarrow> u32 \<Rightarrow> MemoryAccessType \<Rightarrow> bool \<Rightarrow>
    ('p cmi, bool \<times> u64) op" where
  "phya_smpu_check_both core mode addr sz type is_hlvx_access =
    bind_op (phya_smpu_check core mode addr sz type SMPU_LEVEL_1 is_hlvx_access) (\<lambda>(d1, addr1).
    bind_op (phya_smpu_check core mode addr1 sz type SMPU_LEVEL_2 is_hlvx_access) (\<lambda>(d2, addr2).
      ret_op (d1 \<and> d2, addr2)))"

text \<open>
  The common part of a load, a store and a fetch: where the access goes, with the address the
  protection unit left.
\<close>

definition physical_address :: "'p ptransport \<Rightarrow> mem_core \<Rightarrow> PrivilegeLevel \<Rightarrow> u64 \<Rightarrow> u32 \<Rightarrow> MemoryAccessType \<Rightarrow>
    bool \<Rightarrow> ('p cmi, u64) op" where
  "physical_address pt core mode addr sz type is_hlvx_access =
    (if co_use_smpu core then
       bind_op (phya_smpu_check_both core mode addr sz type is_hlvx_access)
         (\<lambda>(done, addr'). if done then ret_op addr' else v2p pt core addr' type)
     else if co_use_spmp core then
       bind_op (phya_spmp_check core mode addr sz type)
         (\<lambda>done. if done then ret_op addr else v2p pt core addr type)
     else v2p pt core addr type)"

definition load_data :: "'p ptransport \<Rightarrow> mem_core \<Rightarrow> nat \<Rightarrow> u64 \<Rightarrow> PrivilegeLevel \<Rightarrow> bool \<Rightarrow> ('p cmi, u64) op" where
  "load_data pt core sizeof_T addr privilege_override is_hlvx_access =
    bind_op (physical_address pt core (get_mem_mode core LOAD privilege_override) addr (of_nat sizeof_T) LOAD is_hlvx_access)
      (raw_load_data pt (co_hart core) sizeof_T)"

definition store_data :: "'p ptransport \<Rightarrow> mem_core \<Rightarrow> nat \<Rightarrow> u64 \<Rightarrow> u64 \<Rightarrow> PrivilegeLevel \<Rightarrow> ('p cmi, unit) op" where
  "store_data pt core sizeof_T addr v privilege_override =
    bind_op (physical_address pt core (get_mem_mode core STORE privilege_override) addr (of_nat sizeof_T) STORE False)
      (\<lambda>paddr. raw_store_data pt (co_hart core) sizeof_T paddr v)"

definition load_instr :: "'p ptransport \<Rightarrow> mem_core \<Rightarrow> u64 \<Rightarrow> ('p cmi, u32) op" where
  "load_instr pt core addr =
    bind_op (physical_address pt core (get_mem_mode core FETCH NoneMode) addr 4 FETCH False)
      (\<lambda>paddr. bind_op (raw_load_data pt (co_hart core) 4 paddr) (\<lambda>v. ret_op (ucast v)))"

section \<open>The data memory interface\<close>

definition load_double :: "'p ptransport \<Rightarrow> mem_core \<Rightarrow> u64 \<Rightarrow> ('p cmi, u64) op" where
  "load_double pt core addr = load_data pt core 8 addr NoneMode False"

definition load_word :: "'p ptransport \<Rightarrow> mem_core \<Rightarrow> u64 \<Rightarrow> PrivilegeLevel \<Rightarrow> bool \<Rightarrow> ('p cmi, u32) op" where
  "load_word pt core addr ov hlvx = bind_op (load_data pt core 4 addr ov hlvx) (\<lambda>v. ret_op (ucast v))"

definition load_half :: "'p ptransport \<Rightarrow> mem_core \<Rightarrow> u64 \<Rightarrow> PrivilegeLevel \<Rightarrow> ('p cmi, u32) op" where
  "load_half pt core addr ov = bind_op (load_data pt core 2 addr ov False) (\<lambda>v. ret_op (scast (ucast v :: u16)))"

definition load_byte :: "'p ptransport \<Rightarrow> mem_core \<Rightarrow> u64 \<Rightarrow> PrivilegeLevel \<Rightarrow> ('p cmi, u32) op" where
  "load_byte pt core addr ov = bind_op (load_data pt core 1 addr ov False) (\<lambda>v. ret_op (scast (ucast v :: u8)))"

definition load_ubyte :: "'p ptransport \<Rightarrow> mem_core \<Rightarrow> u64 \<Rightarrow> PrivilegeLevel \<Rightarrow> ('p cmi, u32) op" where
  "load_ubyte pt core addr ov = bind_op (load_data pt core 1 addr ov False) (\<lambda>v. ret_op (ucast v))"

definition load_uhalf :: "'p ptransport \<Rightarrow> mem_core \<Rightarrow> u64 \<Rightarrow> PrivilegeLevel \<Rightarrow> bool \<Rightarrow> ('p cmi, u32) op" where
  "load_uhalf pt core addr ov hlvx = bind_op (load_data pt core 2 addr ov hlvx) (\<lambda>v. ret_op (ucast v))"

definition store_double :: "'p ptransport \<Rightarrow> mem_core \<Rightarrow> u64 \<Rightarrow> u64 \<Rightarrow> ('p cmi, unit) op" where
  "store_double pt core addr v = store_data pt core 8 addr v NoneMode"

definition store_word :: "'p ptransport \<Rightarrow> mem_core \<Rightarrow> u64 \<Rightarrow> u32 \<Rightarrow> PrivilegeLevel \<Rightarrow> ('p cmi, unit) op" where
  "store_word pt core addr v ov = store_data pt core 4 addr (ucast v) ov"

definition store_half :: "'p ptransport \<Rightarrow> mem_core \<Rightarrow> u64 \<Rightarrow> u16 \<Rightarrow> PrivilegeLevel \<Rightarrow> ('p cmi, unit) op" where
  "store_half pt core addr v ov = store_data pt core 2 addr (ucast v) ov"

definition store_byte :: "'p ptransport \<Rightarrow> mem_core \<Rightarrow> u64 \<Rightarrow> u8 \<Rightarrow> PrivilegeLevel \<Rightarrow> ('p cmi, unit) op" where
  "store_byte pt core addr v ov = store_data pt core 1 addr (ucast v) ov"

section \<open>Atomic accesses\<close>

definition lock_bus :: "u32 \<Rightarrow> ('p cmi, unit) op" where
  "lock_bus hart = (\<lambda>c. case bl_lock (cmi_lock c) hart of
     Inl e \<Rightarrow> (Inl e, c) | Inr l \<Rightarrow> (Inr (), c\<lparr>cmi_lock := l\<rparr>))"

definition atomic_load_word :: "'p ptransport \<Rightarrow> mem_core \<Rightarrow> u64 \<Rightarrow> ('p cmi, u32) op" where
  "atomic_load_word pt core addr =
    bind_op (lock_bus (co_hart core)) (\<lambda>_. load_word pt core addr NoneMode False)"

definition atomic_store_word :: "'p ptransport \<Rightarrow> mem_core \<Rightarrow> u64 \<Rightarrow> u32 \<Rightarrow> ('p cmi, unit) op" where
  "atomic_store_word pt core addr v = read_op (\<lambda>c.
     bind_op (lift_op (assert_that (is_locked_by (cmi_lock c) (co_hart core)) (Inr ())))
       (\<lambda>_. store_word pt core addr v NoneMode))"

definition atomic_load_reserved_word :: "'p ptransport \<Rightarrow> mem_core \<Rightarrow> u64 \<Rightarrow> ('p cmi, u32) op" where
  "atomic_load_reserved_word pt core addr =
    bind_op (lock_bus (co_hart core)) (\<lambda>_.
    bind_op (modify_op (\<lambda>c. c\<lparr>cmi_lr_addr := addr\<rparr>)) (\<lambda>_. load_word pt core addr NoneMode False))"

definition atomic_store_conditional_word :: "'p ptransport \<Rightarrow> mem_core \<Rightarrow> u64 \<Rightarrow> u32 \<Rightarrow> ('p cmi, bool) op" where
  "atomic_store_conditional_word pt core addr v = read_op (\<lambda>c.
     if is_locked_by (cmi_lock c) (co_hart core) then
       (if addr = cmi_lr_addr c
        then bind_op (store_word pt core addr v NoneMode) (\<lambda>_. ret_op True)
        else bind_op (atomic_unlock (co_hart core)) (\<lambda>_. ret_op False))
     else ret_op False)"

end
