(* ===== verification/VP_Core_Mem_Props.thy ===== *)
theory VP_Core_Mem_Props
  imports VP_Core_Mem
begin

text \<open>
  Correctness of the memory interface of a core on a platform of memories: the direct memory
  ranges and the bus give the same result, what is stored is loaded, page-table walks find the
  memory they need (the interpretation of \<open>pte_memory\<close>), and load-reserved /
  store-conditional pairs are atomic among harts.
\<close>

section \<open>Platforms of memories\<close>

text \<open>
  A memory behind each port, not smaller than the port's address range and small enough that
  its bounds checks do not wrap.
\<close>

definition port_ok :: "PortMapping \<Rightarrow> SimpleMemory \<Rightarrow> bool" where
  "port_ok p m \<longleftrightarrow> pm_start p \<le> pm_end p \<and> pm_end p - pm_start p < ucast (sm_size m) \<and> sm_inv m \<and>
     unat (sm_size m) + 8 \<le> 2 ^ 32"

definition mem_platform :: "'p target SimpleBus \<Rightarrow> bool" where
  "mem_platform b \<longleftrightarrow> bus_wf b \<and>
    (\<forall>k<length (bus_ports b). \<exists>m. bus_targets b ! k = MemTarget m \<and> port_ok (bus_ports b ! k) m)"

text \<open>A direct memory range is the whole memory behind a port, at the port's address.\<close>

definition dmi_ok :: "'p target SimpleBus \<Rightarrow> MemoryDMI \<times> nat \<Rightarrow> bool" where
  "dmi_ok b dk \<longleftrightarrow>
    (case dk of (d, k) \<Rightarrow> k < length (bus_ports b) \<and> dmi_start d = pm_start (bus_ports b ! k) \<and>
      (\<exists>m. bus_targets b ! k = MemTarget m \<and> unat (dmi_start d) + unat (sm_size m) + 8 \<le> 2 ^ 64 \<and>
         dmi_end d = dmi_start d + ucast (sm_size m)) \<and>
      (\<forall>addr. dmi_contains d addr \<longrightarrow> bus_decode b addr = int k))"

text \<open>The memory and the offset an address selects.\<close>

definition mem_at :: "'p target SimpleBus \<Rightarrow> u64 \<Rightarrow> (nat \<times> SimpleMemory \<times> nat) option" where
  "mem_at b addr =
    (if bus_decode b addr < 0 then None
     else let k = nat (bus_decode b addr) in
       case bus_targets b ! k of
         MemTarget m \<Rightarrow> Some (k, m, unat (addr - pm_start (bus_ports b ! k)))
       | Peripheral _ \<Rightarrow> None)"

definition phys_load :: "'p target SimpleBus \<Rightarrow> nat \<Rightarrow> u64 \<Rightarrow> u64 res" where
  "phys_load b n addr =
    (case mem_at b addr of
       None \<Rightarrow> raise_trap EXC_LOAD_PAGE_FAULT addr 0
     | Some (k, m, off) \<Rightarrow>
         if off + n \<le> unat (sm_size m) then Inr (of_le_bytes (take n (drop off (sm_data m)))) else Inl AssertFailed)"

definition patch :: "u8 list \<Rightarrow> nat \<Rightarrow> u8 list \<Rightarrow> u8 list" where
  "patch a off s = take off a @ s @ drop (off + length s) a"

definition phys_store :: "'p target SimpleBus \<Rightarrow> nat \<Rightarrow> u64 \<Rightarrow> u64 \<Rightarrow> 'p target SimpleBus res" where
  "phys_store b n addr v =
    (case mem_at b addr of
       None \<Rightarrow> raise_trap EXC_STORE_AMO_PAGE_FAULT addr 0
     | Some (k, m, off) \<Rightarrow>
         if off + n \<le> unat (sm_size m)
         then Inr (b\<lparr>bus_targets := (bus_targets b)[k := MemTarget (m\<lparr>sm_data := patch (sm_data m) off (le_bytes n v)\<rparr>)]\<rparr>)
         else Inl AssertFailed)"

lemma unat_ucast_u32_u64 [simp]: "unat (ucast (x :: u32) :: u64) = unat x"
proof -
  have "unat x < 2 ^ 64"
    by (rule less_trans [OF unsigned_less]) simp
  then show ?thesis by (simp add: unsigned_ucast_eq take_bit_nat_eq_self)
qed

lemma ucast_u64_u32: "ucast (x :: u64) = (of_nat (unat x) :: u32)"
  by (rule bit_word_eqI) (simp add: bit_simps)

lemma mem_at_cases:
  assumes "mem_platform b"
  obtains (none) "mem_at b addr = None" "bus_decode b addr = - 1"
  | (mem) k m off where "mem_at b addr = Some (k, m, off)" "bus_decode b addr = int k" "k < length (bus_ports b)"
      "bus_targets b ! k = MemTarget m" "off = unat (addr - pm_start (bus_ports b ! k))"
      "off < unat (sm_size m)" "length (sm_data m) = unat (sm_size m)" "unat (sm_size m) + 8 \<le> 2 ^ 32"
      "ucast (addr - pm_start (bus_ports b ! k)) = (of_nat off :: u32)"
      "unat addr = unat (pm_start (bus_ports b ! k)) + off" "k < length (bus_targets b)"
proof (cases rule: bus_decode_cases [of b addr])
  case none
  then show ?thesis using that(1) by (simp add: mem_at_def)
next
  case (port k)
  then obtain m where m: "bus_targets b ! k = MemTarget m" "port_ok (bus_ports b ! k) m"
    using assms by (auto simp: mem_platform_def)
  define s where "s = pm_start (bus_ports b ! k)"
  have le: "s \<le> addr" "addr \<le> pm_end (bus_ports b ! k)"
    using port(3) by (simp_all add: pm_contains_def s_def)
  then have "addr - s \<le> pm_end (bus_ports b ! k) - s"
    by (simp add: word_le_minus_mono_left)
  then have "addr - s < ucast (sm_size m)"
    using m(2) by (auto simp: port_ok_def s_def)
  then have off: "unat (addr - s) < unat (sm_size m)"
    by (simp add: word_less_nat_alt)
  have "unat addr = unat s + unat (addr - s)"
    using le(1) by (simp add: unat_sub word_le_nat_alt)
  moreover have "ucast (addr - s) = (of_nat (unat (addr - s)) :: u32)"
    by (rule ucast_u64_u32)
  ultimately show ?thesis
    using that(2) [of k m "unat (addr - s)"] port(1,2) m off assms
    by (simp add: mem_at_def port_ok_def sm_inv_def s_def mem_platform_def bus_wf_def)
qed

lemma in_range_iff:
  assumes "off < unat (sz :: u32)" and "unat sz + 8 \<le> 2 ^ 32" and "n \<le> 8"
  shows "(of_nat off + of_nat n :: u32) \<le> sz \<longleftrightarrow> off + n \<le> unat sz"
    and "(of_nat off :: u32) < sz" and "unat (of_nat off :: u32) = off"
proof -
  show u: "unat (of_nat off :: u32) = off"
    using assms(1,2) by (simp add: unat_of_nat)
  have "unat (of_nat off + of_nat n :: u32) = off + n"
    using assms by (simp add: unat_of_nat flip: of_nat_add)
  then show "(of_nat off + of_nat n :: u32) \<le> sz \<longleftrightarrow> off + n \<le> unat sz"
    by (simp add: word_le_nat_alt)
  show "(of_nat off :: u32) < sz"
    using u assms(1) by (simp add: word_less_nat_alt)
qed

lemma set_targets_id: "bus_targets b ! k = t \<Longrightarrow> b\<lparr>bus_targets := (bus_targets b)[k := t]\<rparr> = b"
  by (metis SimpleBus.surjective SimpleBus.update_convs(2) list_update_id)

lemma transaction_read:
  assumes "mem_platform (cmi_bus c)" and "length bs = n" and "n \<le> 8"
  shows "do_transaction pt TLM_READ_COMMAND addr bs c =
    (case mem_at (cmi_bus c) addr of
       None \<Rightarrow> raise_trap EXC_LOAD_PAGE_FAULT addr 0
     | Some (k, m, off) \<Rightarrow> if off + n \<le> unat (sm_size m) then Inr (take n (drop off (sm_data m))) else Inl AssertFailed, c)"
  using assms(1)
proof (cases rule: mem_at_cases [where addr = addr])
  case none
  then show ?thesis by (simp add: do_transaction_def bus_transport_def Let_def)
next
  case (mem k m off)
  note r = in_range_iff [OF mem(6,8) assms(3)]
  show ?thesis
    using mem(1-5,7,9) assms(2) r
    by (simp add: do_transaction_def bus_transport_def Let_def global_to_local_def target_transport_def
        sm_transport_def sm_transport_dbg_def read_data_def memcpy_from_def assert_that_def set_targets_id)
qed

lemma transaction_write:
  assumes "mem_platform (cmi_bus c)" and "length bs = n" and "n \<le> 8"
  shows "do_transaction pt TLM_WRITE_COMMAND addr bs c =
    (case mem_at (cmi_bus c) addr of
       None \<Rightarrow> (raise_trap EXC_STORE_AMO_PAGE_FAULT addr 0, c)
     | Some (k, m, off) \<Rightarrow>
         if off + n \<le> unat (sm_size m)
         then (Inr bs, c\<lparr>cmi_bus := (cmi_bus c)\<lparr>bus_targets :=
                (bus_targets (cmi_bus c))[k := MemTarget (m\<lparr>sm_data := patch (sm_data m) off bs\<rparr>)]\<rparr>\<rparr>)
         else (Inl AssertFailed, c))"
  using assms(1)
proof (cases rule: mem_at_cases [where addr = addr])
  case none
  then show ?thesis by (simp add: do_transaction_def bus_transport_def Let_def)
next
  case (mem k m off)
  note r = in_range_iff [OF mem(6,8) assms(3)]
  show ?thesis
    using mem(1-5,7,9) assms(2) r
    by (simp add: do_transaction_def bus_transport_def Let_def global_to_local_def target_transport_def
        sm_transport_def sm_transport_dbg_def write_data_def memcpy_to_def assert_that_def patch_def)
qed

section \<open>Direct memory ranges agree with the bus\<close>

lemma dmi_pointer:
  assumes "mem_platform b" and "dmi_ok b (d, k)" and "dmi_contains d addr" and "n \<le> 8"
  obtains m off where "mem_at b addr = Some (k, m, off)" "bus_targets b ! k = MemTarget m"
    "get_mem_ptr_to_global_addr d addr n = (if off + n \<le> unat (sm_size m) then Inr off else Inl AssertFailed)"
    "off < unat (sm_size m)" "length (sm_data m) = unat (sm_size m)" "k < length (bus_targets b)"
proof -
  have d: "bus_decode b addr = int k" "dmi_start d = pm_start (bus_ports b ! k)" "dmi_start d \<le> addr"
    using assms(2,3) by (auto simp: dmi_ok_def dmi_contains_def)
  from assms(1) show ?thesis
  proof (cases rule: mem_at_cases [where addr = addr])
    case none
    with d show ?thesis by simp
  next
    case (mem k' m off)
    then have k: "k' = k" using d by simp
    have e: "unat (dmi_start d) + unat (sm_size m) + 8 \<le> 2 ^ 64" "dmi_end d = dmi_start d + ucast (sm_size m)"
      using assms(2) mem(4) k by (auto simp: dmi_ok_def)
    then have ue: "unat (dmi_end d) = unat (dmi_start d) + unat (sm_size m)"
      by (simp add: unat_word_ariths)
    have ua: "unat addr = unat (dmi_start d) + off" using mem(10) k d by simp
    then have "unat (addr + of_nat n) = unat addr + n"
      using e(1) mem(6) assms(4)
      by (simp add: unat_word_ariths unat_of_nat)
    then have "addr + of_nat n \<le> dmi_end d \<longleftrightarrow> off + n \<le> unat (sm_size m)"
      using ua ue by (simp add: word_le_nat_alt)
    then have "get_mem_ptr_to_global_addr d addr n = (if off + n \<le> unat (sm_size m) then Inr off else Inl AssertFailed)"
      using assms(3) mem(5) d(2) k by (simp add: get_mem_ptr_to_global_addr_def)
    with mem k that show ?thesis by blast
  qed
qed

lemma dmi_load_phys:
  assumes "mem_platform (cmi_bus c)" and "dmi_ok (cmi_bus c) (d, k)" and "dmi_contains d addr" and "n \<le> 8"
  shows "dmi_load d (dmi_array c k) addr n = phys_load (cmi_bus c) n addr"
  using assms
  by (rule dmi_pointer) (auto simp: dmi_load_def phys_load_def dmi_array_def memcpy_from_def)

lemma dmi_store_phys:
  assumes "mem_platform (cmi_bus c)" and "dmi_ok (cmi_bus c) (d, k)" and "dmi_contains d addr" and "n \<le> 8"
  shows "bind_op (lift_op (dmi_store d (dmi_array c k) addr n v)) (\<lambda>a. modify_op (set_dmi_array k a)) c =
    (case phys_store (cmi_bus c) n addr v of Inl e \<Rightarrow> (Inl e, c) | Inr b \<Rightarrow> (Inr (), c\<lparr>cmi_bus := b\<rparr>))"
  using assms
  by (rule dmi_pointer)
    (auto simp: dmi_store_def phys_store_def dmi_array_def memcpy_to_def op_defs set_dmi_array_def patch_def)

lemma patch_length: "off + length s \<le> length a \<Longrightarrow> length (patch a off s) = length a"
  by (simp add: patch_def)

lemma patch_idem: "off + length s \<le> length a \<Longrightarrow> patch (patch a off s) off s = patch a off s"
  by (simp add: patch_def)

lemma mem_at_store:
  assumes "mem_platform b" and "phys_store b n addr v = Inr b'"
  shows "mem_at b' x =
    (case mem_at b x of None \<Rightarrow> None
     | Some (k, m, off) \<Rightarrow>
        (case mem_at b addr of None \<Rightarrow> None
         | Some (k', m', off') \<Rightarrow>
             Some (k, if k = k' then m\<lparr>sm_data := patch (sm_data m) off' (le_bytes n v)\<rparr> else m, off)))"
  using assms(1)
proof (cases rule: mem_at_cases [where addr = addr])
  case none
  then show ?thesis using assms(2) by (simp add: phys_store_def raise_trap_def)
next
  case (mem k' m' off')
  then have b': "b' = b\<lparr>bus_targets := (bus_targets b)[k' := MemTarget (m'\<lparr>sm_data := patch (sm_data m') off' (le_bytes n v)\<rparr>)]\<rparr>"
    using assms(2) by (simp add: phys_store_def split: if_splits)
  from assms(1) show ?thesis
  proof (cases rule: mem_at_cases [where addr = x])
    case none
    then show ?thesis by (simp add: b' mem_at_def)
  next
    case (mem k m off)
    note mem' = \<open>mem_at b addr = Some (k', m', off')\<close> \<open>bus_targets b ! k' = MemTarget m'\<close> \<open>k' < length (bus_targets b)\<close>
    show ?thesis
      using mem mem' by (cases "k = k'") (simp_all add: b' mem_at_def)
  qed
qed

lemma platform_store:
  assumes "mem_platform b" and "phys_store b n addr v = Inr b'"
  shows "mem_platform b'" and "bus_ports b' = bus_ports b" and "\<And>dk. dmi_ok b dk \<Longrightarrow> dmi_ok b' dk"
proof -
  obtain k m off where mem: "bus_targets b ! k = MemTarget m" "k < length (bus_ports b)"
      "length (sm_data m) = unat (sm_size m)" "off + n \<le> unat (sm_size m)"
    and b': "b' = b\<lparr>bus_targets := (bus_targets b)[k := MemTarget (m\<lparr>sm_data := patch (sm_data m) off (le_bytes n v)\<rparr>)]\<rparr>"
    using assms by (cases rule: mem_at_cases [OF assms(1), where addr = addr])
      (auto simp: phys_store_def raise_trap_def split: if_splits)
  show ports: "bus_ports b' = bus_ports b" by (simp add: b')
  have l: "length (bus_targets b) = length (bus_ports b)"
    using assms(1) by (simp add: mem_platform_def bus_wf_def)
  have p: "port_ok p (m\<lparr>sm_data := patch (sm_data m) off (le_bytes n v)\<rparr>) = port_ok p m" for p
    using mem(3,4) by (simp add: port_ok_def sm_inv_def patch_length)
  show "mem_platform b'"
    using assms(1) mem(1,2) l by (auto simp: mem_platform_def bus_wf_def b' nth_list_update p)
  show "dmi_ok b' dk" if "dmi_ok b dk" for dk
    using that mem(1,2) l by (auto simp: dmi_ok_def b' nth_list_update)
qed

lemma phys_store_idem:
  assumes "mem_platform b" and "phys_store b n addr v = Inr b'"
  shows "phys_store b' n addr v = Inr b'"
  using assms(1)
proof (cases rule: mem_at_cases [where addr = addr])
  case none
  then show ?thesis using assms(2) by (simp add: phys_store_def raise_trap_def)
next
  case (mem k m off)
  then have "off + n \<le> unat (sm_size m)"
    and b': "b' = b\<lparr>bus_targets := (bus_targets b)[k := MemTarget (m\<lparr>sm_data := patch (sm_data m) off (le_bytes n v)\<rparr>)]\<rparr>"
    using assms(2) by (auto simp: phys_store_def split: if_splits)
  with mem mem_at_store [OF assms, of addr] show ?thesis
    by (simp add: phys_store_def patch_idem)
qed

lemma dmi_store_all_phys:
  assumes "mem_platform (cmi_bus c)" and "\<forall>dk\<in>set es. dmi_ok (cmi_bus c) dk" and "n \<le> 8"
  shows "dmi_store_all es n addr v dn c =
    (if \<exists>dk\<in>set es. dmi_contains (fst dk) addr
     then (case phys_store (cmi_bus c) n addr v of Inl e \<Rightarrow> (Inl e, c) | Inr b \<Rightarrow> (Inr True, c\<lparr>cmi_bus := b\<rparr>))
     else (Inr dn, c))"
  using assms
proof (induction es arbitrary: dn c)
  case (Cons dk es)
  obtain d k where dk: "dk = (d, k)" by (cases dk)
  show ?case
  proof (cases "dmi_contains d addr")
    case True
    have ok: "dmi_ok (cmi_bus c) (d, k)" using Cons.prems(2) dk by simp
    have "dmi_store_all (dk # es) n addr v dn c =
        bind_op (bind_op (lift_op (dmi_store d (dmi_array c k) addr n v)) (\<lambda>a. modify_op (set_dmi_array k a)))
          (\<lambda>_. dmi_store_all es n addr v True) c"
      using True by (simp add: dk op_defs split: sum.splits)
    also have "\<dots> = (case phys_store (cmi_bus c) n addr v of Inl e \<Rightarrow> (Inl e, c)
        | Inr b \<Rightarrow> dmi_store_all es n addr v True (c\<lparr>cmi_bus := b\<rparr>))"
      unfolding bind_op_def [of "bind_op _ _"] dmi_store_phys [OF Cons.prems(1) ok True Cons.prems(3)]
      by (auto split: sum.splits)
    also have "\<dots> = (case phys_store (cmi_bus c) n addr v of Inl e \<Rightarrow> (Inl e, c) | Inr b \<Rightarrow> (Inr True, c\<lparr>cmi_bus := b\<rparr>))"
    proof (cases "phys_store (cmi_bus c) n addr v")
      case (Inr b)
      then show ?thesis
        using Cons.IH [of "c\<lparr>cmi_bus := b\<rparr>" True] platform_store [OF Cons.prems(1) Inr]
          phys_store_idem [OF Cons.prems(1) Inr] Cons.prems(2,3) by simp
    qed simp
    finally show ?thesis using True dk by simp
  next
    case False
    with Cons show ?thesis by (simp add: dk)
  qed
qed (simp add: op_defs)

text \<open>
  A memory interface in order: memories on the bus, direct ranges that belong to them, and the
  bus not locked by another hart.
\<close>

definition cmi_ok :: "u32 \<Rightarrow> 'p cmi \<Rightarrow> bool" where
  "cmi_ok hart c \<longleftrightarrow> mem_platform (cmi_bus c) \<and> (\<forall>dk\<in>set (cmi_dmi_ranges c). dmi_ok (cmi_bus c) dk) \<and>
     wait_for_access_rights (cmi_lock c) hart = Inr ()"

lemma find_SomeD: "List.find P xs = Some x \<Longrightarrow> x \<in> set xs \<and> P x"
  by (induction xs) (auto split: if_splits)

lemma raw_load_phys:
  assumes "cmi_ok hart c" and "n \<le> 8"
  shows "raw_load_data pt hart n addr c = (phys_load (cmi_bus c) n addr, c)"
proof (cases "List.find (\<lambda>(d, k). dmi_contains d addr) (cmi_dmi_ranges c)")
  case None
  then show ?thesis
    using assms transaction_read [of c "replicate n 0" n pt addr]
    by (simp add: raw_load_data_def cmi_ok_def op_defs phys_load_def raise_trap_def split: option.splits prod.splits)
next
  case (Some dk)
  then obtain d k where dk: "dk = (d, k)" "(d, k) \<in> set (cmi_dmi_ranges c)" "dmi_contains d addr"
    by (cases dk) (auto dest: find_SomeD)
  then have "dmi_load d (dmi_array c k) addr n = phys_load (cmi_bus c) n addr"
    using assms by (intro dmi_load_phys) (auto simp: cmi_ok_def)
  with Some dk(1) assms(1) show ?thesis
    by (simp add: raw_load_data_def cmi_ok_def op_defs)
qed

lemma raw_store_phys:
  assumes "cmi_ok hart c" and "n \<le> 8"
  shows "raw_store_data pt hart n addr v c =
    (case phys_store (cmi_bus c) n addr v of
       Inl e \<Rightarrow> (Inl e, c)
     | Inr b \<Rightarrow> (Inr (), c\<lparr>cmi_bus := b, cmi_lock := bl_unlock (cmi_lock c) hart\<rparr>))"
proof -
  have m: "mem_platform (cmi_bus c)" and d: "\<forall>dk\<in>set (cmi_dmi_ranges c). dmi_ok (cmi_bus c) dk"
    and w: "wait_for_access_rights (cmi_lock c) hart = Inr ()"
    using assms(1) by (auto simp: cmi_ok_def)
  note s = dmi_store_all_phys [OF m d assms(2), of addr v False]
  show ?thesis
  proof (cases "\<exists>dk\<in>set (cmi_dmi_ranges c). dmi_contains (fst dk) addr")
    case True
    with s w show ?thesis
      by (simp add: raw_store_data_def atomic_unlock_def op_defs split: sum.splits)
  next
    case False
    with s w transaction_write [OF m, of "le_bytes n v" n pt addr] assms(2) show ?thesis
      by (auto simp: raw_store_data_def atomic_unlock_def op_defs phys_store_def raise_trap_def
          split: option.splits)
  qed
qed

text \<open>
  C18: the direct memory interface is only an optimisation: on a platform of memories whose direct
  ranges cover the memories behind their ports, a load and a store of any size up to eight
  bytes give the same result, the same exception and the same memory as they do with no direct
  ranges, over the bus.
\<close>

theorem dmi_is_transparent:
  assumes "cmi_ok hart c" and "n \<le> 8"
  shows "fst (raw_load_data pt hart n addr c) = fst (raw_load_data pt hart n addr (c\<lparr>cmi_dmi_ranges := []\<rparr>)) \<and>
    fst (raw_store_data pt hart n addr v c) = fst (raw_store_data pt hart n addr v (c\<lparr>cmi_dmi_ranges := []\<rparr>)) \<and>
    cmi_bus (snd (raw_store_data pt hart n addr v c)) =
      cmi_bus (snd (raw_store_data pt hart n addr v (c\<lparr>cmi_dmi_ranges := []\<rparr>)))"
proof -
  have "cmi_ok hart (c\<lparr>cmi_dmi_ranges := []\<rparr>)"
    using assms(1) by (simp add: cmi_ok_def)
  with assms show ?thesis
    by (simp add: raw_load_phys raw_store_phys split: sum.splits)
qed

section \<open>Reading back what was written\<close>

lemma drop_patch:
  "off + length s \<le> length a \<Longrightarrow> take (length s) (drop off (patch a off s)) = s"
  by (simp add: patch_def)

lemma patch_disjoint:
  assumes "off + length s \<le> length a" and "off' + n \<le> off \<or> off + length s \<le> off'"
  shows "take n (drop off' (patch a off s)) = take n (drop off' a)"
proof -
  have "patch a off s ! j = a ! j" if "j < off \<or> off + length s \<le> j" "j < length a" for j
    using that assms(1) by (auto simp: patch_def nth_append)
  then show ?thesis
    using assms by (intro nth_equalityI) (auto simp: patch_length)
qed

lemma phys_load_store_same:
  assumes "mem_platform b" and "phys_store b n addr v = Inr b'" and "n \<le> 8"
  shows "phys_load b' n addr = Inr (take_bit (8 * n) v)"
  using assms(1)
proof (cases rule: mem_at_cases [where addr = addr])
  case none
  then show ?thesis using assms(2) by (simp add: phys_store_def raise_trap_def)
next
  case (mem k m off)
  moreover have "off + n \<le> unat (sm_size m)"
    using mem(1) assms(2) by (simp add: phys_store_def split: if_splits)
  ultimately show ?thesis
    using mem_at_store [OF assms(1,2), of addr] drop_patch [of off "le_bytes n v" "sm_data m"]
    by (simp add: phys_load_def of_le_bytes_le_bytes)
qed

lemma phys_load_store_disjoint:
  assumes "mem_platform b" and "phys_store b n addr v = Inr b'"
    and "unat x + l \<le> unat addr \<or> unat addr + n \<le> unat x"
  shows "phys_load b' l x = phys_load b l x"
  using assms(1)
proof (cases rule: mem_at_cases [where addr = addr])
  case none
  then show ?thesis using assms(2) by (simp add: phys_store_def raise_trap_def)
next
  case (mem k m off)
  have r: "off + n \<le> unat (sm_size m)"
    using mem(1) assms(2) by (simp add: phys_store_def split: if_splits)
  note a = mem
  from assms(1) show ?thesis
  proof (cases rule: mem_at_cases [where addr = x])
    case none
    then show ?thesis using mem_at_store [OF assms(1,2), of x] by (simp add: phys_load_def)
  next
    case (mem k' m' off')
    show ?thesis
    proof (cases "k' = k")
      case True
      then have "m' = m" "off' + l \<le> off \<or> off + n \<le> off'"
        using mem(4,10) a(4,10) assms(3) by auto
      then have "take l (drop off' (patch (sm_data m) off (le_bytes n v))) = take l (drop off' (sm_data m))"
        using patch_disjoint [of off "le_bytes n v" "sm_data m" off' l] r a(7) by simp
      then show ?thesis
        using True mem(1) a(1) \<open>m' = m\<close> mem_at_store [OF assms(1,2), of x] by (simp add: phys_load_def)
    next
      case False
      then show ?thesis
        using mem(1) a(1) mem_at_store [OF assms(1,2), of x] by (simp add: phys_load_def)
    qed
  qed
qed

section \<open>Page-table walks over the memory interface\<close>

lemma of_le_bytes_append:
  "of_le_bytes (xs @ ys) = of_le_bytes xs OR push_bit (8 * length xs) (of_le_bytes ys)"
  by (induction xs) (simp_all add: or.assoc push_bit_or push_bit_push_bit add.commute)

lemma of_le_bytes_range: "length bs = n \<Longrightarrow> take_bit (8 * n) (of_le_bytes bs) = of_le_bytes bs"
  by (rule bit_word_eqI) (auto simp: bit_simps dest: of_le_bytes_bound)

lemma aligned_disjoint:
  fixes a b :: u64
  assumes "take_bit k a = 0" and "take_bit k b = 0" and "a \<noteq> b"
  shows "unat b + 2 ^ k \<le> unat a \<or> unat a + 2 ^ k \<le> unat b"
proof -
  have u: "take_bit k (unat x) = unat (take_bit k x)" for x :: u64
    by (simp add: unsigned_take_bit_eq)
  have "2 ^ k dvd unat a" "2 ^ k dvd unat b"
    unfolding take_bit_eq_0_iff [symmetric] u by (simp_all only: assms(1,2)) simp_all
  moreover have "unat a \<noteq> unat b" using assms(3) by (simp add: word_unat_eq_iff)
  ultimately show ?thesis
    by (metis dvd_diff_nat dvd_imp_le le_add_diff_inverse2 less_or_eq_imp_le add_le_cancel_right linorder_neqE_nat
        zero_less_diff le_diff_conv2 add.commute)
qed

lemma access_rights_unlock:
  "wait_for_access_rights l hart = Inr () \<Longrightarrow> wait_for_access_rights (bl_unlock l hart) hart = Inr ()"
  by (auto simp: bus_lock_defs split: if_splits)

lemma phys_load_wide:
  assumes "mem_platform b" and "phys_store b 4 a (ucast (w :: u32)) = Inr b'" and "phys_load b 8 a = Inr v"
  shows "phys_load b' 8 a = Inr ((v AND 0xffffffff00000000) OR ucast w)"
  using assms(1)
proof (cases rule: mem_at_cases [where addr = a])
  case none
  then show ?thesis using assms(2) by (simp add: phys_store_def raise_trap_def)
next
  case (mem k m off)
  define hi where "hi = take 4 (drop (off + 4) (sm_data m))"
  have r: "off + 8 \<le> unat (sm_size m)" and v: "v = of_le_bytes (take 8 (drop off (sm_data m)))"
    using mem(1) assms(3) by (auto simp: phys_load_def split: if_splits)
  define s where "s = le_bytes 4 (ucast w :: u64)"
  have s: "length s = 4" "of_le_bytes s = ucast w"
    unfolding s_def of_le_bytes_le_bytes length_le_bytes
    by (simp, rule bit_word_eqI) (auto simp: bit_simps dest: bit_imp_le_length)
  have "take 8 (drop off (patch (sm_data m) off s)) = s @ hi"
    using r mem(7) s(1) by (simp add: patch_def hi_def)
  then have new: "phys_load b' 8 a = Inr (ucast w OR push_bit 32 (of_le_bytes hi))"
    using mem(1) r mem_at_store [OF assms(1,2), of a, folded s_def] s
    by (simp add: phys_load_def of_le_bytes_append)
  define lo where "lo = take 4 (drop off (sm_data m))"
  have lo: "length lo = 4" using r mem(7) by (simp add: lo_def)
  have "take 8 (drop off (sm_data m)) = lo @ hi"
    using take_add [of 4 4 "drop off (sm_data m)"] by (simp add: hi_def lo_def add.commute)
  then have "v = of_le_bytes lo OR push_bit 32 (of_le_bytes hi)"
    using v lo by (simp add: of_le_bytes_append)
  moreover have "(x OR push_bit 32 h) AND 0xffffffff00000000 = push_bit 32 h" if "take_bit 32 x = x" for x h :: u64
  proof -
    have c: "(0xffffffff00000000 :: u64) = push_bit 32 (mask 32)" by (simp add: mask_numeral)
    from that have "32 \<le> n \<Longrightarrow> \<not> bit x n" for n by (metis bit_take_bit_iff not_less)
    then show ?thesis unfolding c by (intro bit_word_eqI) (auto simp: bit_simps)
  qed
  ultimately have "v AND 0xffffffff00000000 = push_bit 32 (of_le_bytes hi)"
    using of_le_bytes_range [OF lo] by simp
  with new show ?thesis by (simp add: or.commute)
qed

lemma cmi_mmu_if_phys:
  assumes "cmi_ok hart c"
  shows "mmu_load_pte32 (cmi_mmu_if pt hart) c a = (case phys_load (cmi_bus c) 4 a of Inl e \<Rightarrow> Inl e | Inr v \<Rightarrow> Inr (v, c))"
    and "mmu_load_pte64 (cmi_mmu_if pt hart) c a = (case phys_load (cmi_bus c) 8 a of Inl e \<Rightarrow> Inl e | Inr v \<Rightarrow> Inr (v, c))"
    and "mmu_store_pte32 (cmi_mmu_if pt hart) c a w = (case phys_store (cmi_bus c) 4 a (ucast w) of Inl e \<Rightarrow> Inl e
      | Inr b \<Rightarrow> Inr (c\<lparr>cmi_bus := b, cmi_lock := bl_unlock (cmi_lock c) hart\<rparr>))"
  by (simp_all add: cmi_mmu_if_def raw_load_phys [OF assms] raw_store_phys [OF assms] split: sum.splits)

lemma cmi_ok_store:
  assumes "cmi_ok hart c" and "phys_store (cmi_bus c) n a w = Inr b"
  shows "cmi_ok hart (c\<lparr>cmi_bus := b, cmi_lock := bl_unlock (cmi_lock c) hart\<rparr>)"
  using assms platform_store [of "cmi_bus c" n a w b] access_rights_unlock by (auto simp: cmi_ok_def)

lemma phys_store_total:
  assumes "mem_platform b" and "phys_load b l a = Inr v" and "n \<le> l"
  shows "\<exists>b'. phys_store b n a w = Inr b'"
  using assms(2,3) by (cases rule: mem_at_cases [OF assms(1), where addr = a])
    (auto simp: phys_load_def phys_store_def raise_trap_def split: if_splits)

lemma phys_load_range: "phys_load b n a = Inr v \<Longrightarrow> mem_platform b \<Longrightarrow> take_bit (8 * n) v = v"
  by (cases rule: mem_at_cases [where addr = a and b = b])
    (auto simp: phys_load_def raise_trap_def split: if_splits intro!: of_le_bytes_range)

interpretation cmi_pte: pte_memory "cmi_mmu_if (pt :: 'p ptransport) hart" "cmi_ok hart"
proof
  fix m :: "'p cmi" and a v m'
  assume v: "cmi_ok hart m"
  then show "mmu_load_pte32 (cmi_mmu_if pt hart) m a = Inr (v, m') \<Longrightarrow> m' = m"
    "mmu_load_pte64 (cmi_mmu_if pt hart) m a = Inr (v, m') \<Longrightarrow> m' = m"
    by (auto simp: cmi_mmu_if_phys split: sum.splits)
  assume "mmu_load_pte32 (cmi_mmu_if pt hart) m a = Inr (v, m')"
  then show "take_bit 32 v = v"
    using v phys_load_range [of "cmi_bus m" 4 a v] by (auto simp: cmi_mmu_if_phys cmi_ok_def split: sum.splits)
next
  fix m :: "'p cmi" and a w m' r
  assume v: "cmi_ok hart m"
  then show "mmu_store_pte32 (cmi_mmu_if pt hart) m a w = Inr m' \<Longrightarrow> cmi_ok hart m'"
    by (auto simp: cmi_mmu_if_phys cmi_ok_store split: sum.splits)
  have p: "mem_platform (cmi_bus m)" using v by (simp add: cmi_ok_def)
  show "mmu_load_pte32 (cmi_mmu_if pt hart) m a = Inr r \<Longrightarrow> \<exists>m'. mmu_store_pte32 (cmi_mmu_if pt hart) m a w = Inr m'"
    using v phys_store_total [OF p, of 4 a _ 4 "ucast w"] by (fastforce simp: cmi_mmu_if_phys split: sum.splits)
  show "mmu_load_pte64 (cmi_mmu_if pt hart) m a = Inr r \<Longrightarrow> \<exists>m'. mmu_store_pte32 (cmi_mmu_if pt hart) m a w = Inr m'"
    using v phys_store_total [OF p, of 8 a _ 4 "ucast w"] by (fastforce simp: cmi_mmu_if_phys split: sum.splits)
next
  fix m :: "'p cmi" and a and w :: u32 and m' b v
  assume v: "cmi_ok hart m" and s: "mmu_store_pte32 (cmi_mmu_if pt hart) m a w = Inr m'"
    and a: "take_bit 2 a = 0" "take_bit 2 b = 0" and l: "mmu_load_pte32 (cmi_mmu_if pt hart) m b = Inr (v, m)"
  have p: "mem_platform (cmi_bus m)" using v by (simp add: cmi_ok_def)
  obtain b' where b': "phys_store (cmi_bus m) 4 a (ucast w) = Inr b'"
    and m': "m' = m\<lparr>cmi_bus := b', cmi_lock := bl_unlock (cmi_lock m) hart\<rparr>"
    using v s by (auto simp: cmi_mmu_if_phys split: sum.splits)
  have w: "take_bit 32 (ucast w :: u64) = ucast w"
    by (rule bit_word_eqI) (auto simp: bit_simps dest: bit_imp_le_length)
  have "phys_load b' 4 b = (if b = a then Inr (ucast w) else phys_load (cmi_bus m) 4 b)"
    using phys_load_store_same [OF p b'] w phys_load_store_disjoint [OF p b', of b 4]
      aligned_disjoint [OF a] by auto
  then show "mmu_load_pte32 (cmi_mmu_if pt hart) m' b = Inr (if b = a then ucast w else v, m')"
    using l v cmi_ok_store [OF v b'] by (auto simp: cmi_mmu_if_phys m' split: sum.splits)
next
  fix m :: "'p cmi" and a and w :: u32 and m' b v
  assume v: "cmi_ok hart m" and s: "mmu_store_pte32 (cmi_mmu_if pt hart) m a w = Inr m'"
    and a: "take_bit 3 a = 0" "take_bit 3 b = 0" and l: "mmu_load_pte64 (cmi_mmu_if pt hart) m b = Inr (v, m)"
  have p: "mem_platform (cmi_bus m)" using v by (simp add: cmi_ok_def)
  obtain b' where b': "phys_store (cmi_bus m) 4 a (ucast w) = Inr b'"
    and m': "m' = m\<lparr>cmi_bus := b', cmi_lock := bl_unlock (cmi_lock m) hart\<rparr>"
    using v s by (auto simp: cmi_mmu_if_phys split: sum.splits)
  have old: "phys_load (cmi_bus m) 8 b = Inr v"
    using l v by (auto simp: cmi_mmu_if_phys split: sum.splits)
  have "phys_load b' 8 b = Inr (if b = a then (v AND 0xffffffff00000000) OR ucast w else v)"
  proof (cases "b = a")
    case True
    then show ?thesis using phys_load_wide [OF p b'] old by simp
  next
    case False
    then have "unat b + 8 \<le> unat a \<or> unat a + 4 \<le> unat b"
      using aligned_disjoint [OF a] by auto
    then show ?thesis using phys_load_store_disjoint [OF p b', of b 8] old False by simp
  qed
  then show "mmu_load_pte64 (cmi_mmu_if pt hart) m' b = Inr (if b = a then (v AND 0xffffffff00000000) OR ucast w else v, m')"
    using cmi_ok_store [OF v b'] by (simp add: cmi_mmu_if_phys m')
qed

section \<open>Properties of translation and of the memory interface\<close>

text \<open>
  C4: the page-table walk grants exactly what the page tables in memory grant: it returns the
  physical address of the leaf entry that the tables lead to, exactly when that entry is a
  valid leaf that allows the access in the mode with the \<^verbatim>\<open>SUM\<close> and \<^verbatim>\<open>MXR\<close> settings and is
  aligned for its level; the only change to memory is that the accessed bit (and the dirty
  bit, for a store) of that entry is set.
\<close>

theorem walk_refines_page_tables:
  assumes "cmi_ok hart c" and "decode_vm_info core mode = Inr vm" and "check_vaddr_extension core vaddr vm = Inr ok"
  shows "walk (cmi_mmu_if pt hart) fa core c vaddr type mode = Inr (pa, c') \<longleftrightarrow>
    walk_grants (cmi_mmu_if pt hart) fa vm (mode = SupervisorMode) (mc_sum core) (mc_mxr core) type vaddr
      (if ok then vm_levels vm else 0) (vm_ptbase vm) c pa c'"
  using assms cmi_pte.walk_loop_grants [OF assms(1)] by (simp add: walk_def Let_def)

text \<open>
  C3: the translation lookaside buffer is only an optimisation: as long as its entries agree with
  the page tables, a translation gives the same address or the same exception as it does with
  the buffer flushed, and a successful translation to an address below 4 GiB leaves the
  buffer in agreement, also with the accessed and dirty bits its own walk has set; flushing always restores
  agreement.
\<close>

theorem tlb_is_transparent:
  assumes "cmi_ok hart c" and "tlb_coherent (cmi_mmu_if pt hart) core u c"
  shows "map_sum id fst (translate_virtual_to_physical_addr (cmi_mmu_if pt hart) core u c vaddr type) =
      map_sum id fst (translate_virtual_to_physical_addr (cmi_mmu_if pt hart) core (flush_tlb u) c vaddr type) \<and>
    (\<forall>pa u' c'. translate_virtual_to_physical_addr (cmi_mmu_if pt hart) core u c vaddr type = Inr (pa, u', c') \<longrightarrow>
       drop_bit 32 pa = 0 \<longrightarrow> cmi_ok hart c' \<and> tlb_coherent (cmi_mmu_if pt hart) core u' c') \<and>
    tlb_coherent (cmi_mmu_if pt hart) core (flush_tlb u) c"
proof (intro conjI allI impI)
  show "map_sum id fst (translate_virtual_to_physical_addr (cmi_mmu_if pt hart) core u c vaddr type) =
      map_sum id fst (translate_virtual_to_physical_addr (cmi_mmu_if pt hart) core (flush_tlb u) c vaddr type)"
    by (rule cmi_pte.translate_transparent [OF assms(2)])
qed (use cmi_pte.translate_keeps_coherent [OF assms] in blast, use cmi_pte.translate_keeps_coherent [OF assms] in blast,
  rule flush_tlb_coherent)

lemma machine_physical_address:
  assumes "\<not> co_use_smpu core" and "\<not> co_use_spmp core" and "mc_prv (co_mmu core) = MachineMode" and "\<not> mc_mprv (co_mmu core)"
  shows "physical_address pt core mode addr sz type hlvx c = (Inr addr, c)"
  using assms by (cases c) (simp add: physical_address_def v2p_def translate_virtual_to_physical_addr_def effective_mode_def
      Let_def split: option.split)

definition bare_machine :: "mem_core \<Rightarrow> bool" where
  "bare_machine core \<longleftrightarrow> \<not> co_use_smpu core \<and> \<not> co_use_spmp core \<and> mc_prv (co_mmu core) = MachineMode \<and>
     \<not> mc_mprv (co_mmu core)"

lemma bare_load_data:
  assumes "bare_machine core" and "cmi_ok (co_hart core) c" and "n \<le> 8"
  shows "load_data pt core n addr ov hlvx c = (phys_load (cmi_bus c) n addr, c)"
  using assms(1)
  by (simp add: load_data_def bare_machine_def bind_op_def machine_physical_address raw_load_phys [OF assms(2,3)])

lemma bare_store_data:
  assumes "bare_machine core" and "cmi_ok (co_hart core) c" and "n \<le> 8"
  shows "store_data pt core n addr v ov c =
    (case phys_store (cmi_bus c) n addr v of
       Inl e \<Rightarrow> (Inl e, c)
     | Inr b \<Rightarrow> (Inr (), c\<lparr>cmi_bus := b, cmi_lock := bl_unlock (cmi_lock c) (co_hart core)\<rparr>))"
  using assms(1)
  by (simp add: store_data_def bare_machine_def bind_op_def machine_physical_address raw_store_phys [OF assms(2,3)])

lemma store_word_load_word:
  assumes "bare_machine core" and "cmi_ok (co_hart core) c" and "store_word pt core addr v NoneMode c = (Inr (), c')"
  shows "load_word pt core addr NoneMode False c' = (Inr v, c') \<and> cmi_ok (co_hart core) c' \<and>
    \<not> is_locked (cmi_lock c') \<and>
    (\<forall>x n. n \<le> 8 \<longrightarrow> unat x + n \<le> unat addr \<or> unat addr + 4 \<le> unat x \<longrightarrow>
       fst (load_data pt core n x NoneMode False c') = fst (load_data pt core n x NoneMode False c))"
proof -
  from assms obtain b where b: "phys_store (cmi_bus c) 4 addr (ucast v) = Inr b"
    and c': "c' = c\<lparr>cmi_bus := b, cmi_lock := bl_unlock (cmi_lock c) (co_hart core)\<rparr>"
    by (auto simp: store_word_def bare_store_data split: sum.splits)
  have ok: "cmi_ok (co_hart core) c'"
    unfolding c' by (rule cmi_ok_store [OF assms(2) b])
  have p: "mem_platform (cmi_bus c)" using assms(2) by (simp add: cmi_ok_def)
  have "take_bit 32 (ucast v :: u64) = ucast v"
    by (rule bit_word_eqI) (auto simp: bit_simps dest: bit_imp_le_length)
  moreover have "ucast (ucast v :: u64) = v"
    by (rule bit_word_eqI) (auto simp: bit_simps)
  ultimately have "load_word pt core addr NoneMode False c' = (Inr v, c')"
    using phys_load_store_same [OF p b] assms(1) ok
    by (simp add: load_word_def bare_load_data bind_op_def ret_op_def c')
  moreover have "\<not> is_locked (cmi_lock c')"
    using assms(2) by (auto simp: cmi_ok_def c' bus_lock_defs split: if_splits)
  ultimately show ?thesis
    using ok assms(1,2) phys_load_store_disjoint [OF p b]
    by (simp add: bare_load_data c')
qed

text \<open>
  C19: in a mode without protection or translation (machine mode with neither \<^verbatim>\<open>SMPU\<close> nor
  \<^verbatim>\<open>SPMP\<close> in use) a word that is stored is loaded back, every access of up to eight bytes
  that does not overlap it keeps its value, and the store releases the bus lock.
\<close>

theorem store_then_load:
  assumes "bare_machine core" and "cmi_ok (co_hart core) c" and "store_word pt core addr v NoneMode c = (Inr (), c')"
  shows "load_word pt core addr NoneMode False c' = (Inr v, c') \<and> cmi_ok (co_hart core) c' \<and>
    \<not> is_locked (cmi_lock c') \<and>
    (\<forall>x n. n \<le> 8 \<longrightarrow> unat x + n \<le> unat addr \<or> unat addr + 4 \<le> unat x \<longrightarrow>
       fst (load_data pt core n x NoneMode False c') = fst (load_data pt core n x NoneMode False c))"
  using assms by (rule store_word_load_word)

section \<open>A concrete platform\<close>

text \<open>
  One memory of 4 KiB at 0x80000000 that the core also reaches directly, and a core in machine
  mode, for the witnesses.
\<close>

definition example_mem_core :: "u32 \<Rightarrow> PrivilegeLevel \<Rightarrow> u32 \<Rightarrow> mem_core" where
  "example_mem_core hart prv satp = \<lparr>co_hart = hart, co_use_smpu = False, co_use_spmp = False,
     co_mmu = \<lparr>mc_satp_mode = satp, mc_satp_ppn = 0x80000, mc_prv = prv, mc_mprv = False, mc_mpp = 0,
       mc_sum = False, mc_mxr = False, mc_xlen = 32\<rparr>,
     co_spmp = \<lparr>sc_spmpaddr = [], sc_spmpcfg = [], sc_spmpswitch = [], sc_satp_mode = satp, sc_prv = prv, sc_sum = False\<rparr>,
     co_smpu = \<lparr>su_sum = False, su_mxr = False, su_vs_sum = False, su_vs_mxr = False, su_hs_vsum = False,
       su_satp_mode = satp, su_vsatp_mode = 0, su_hgatp_mode = 0, su_vgein = 0, su_smpumask = 0,
       su_vsmpumask = 0, su_hmpumask = 0, su_regions = [], su_vs_regions = (\<lambda>_. []), su_h_regions = []\<rparr>\<rparr>"

definition example_cmi :: "unit cmi" where
  "example_cmi = \<lparr>cmi_bus = \<lparr>bus_ports = [\<lparr>pm_start = 0x80000000, pm_end = 0x80000fff\<rparr>],
       bus_targets = [MemTarget (make_SimpleMemory 0x1000 False)]\<rparr>,
     cmi_lock = initial_BusLock, cmi_lr_addr = 0,
     cmi_dmi_ranges = [(\<lparr>dmi_start = 0x80000000, dmi_size = 0x1000, dmi_end = 0x80001000\<rparr>, 0)],
     cmi_mmu = Some make_MMU, cmi_spmp = None, cmi_smpu = False\<rparr>"

definition no_peripherals :: "unit ptransport" where
  "no_peripherals p tr = Inr (p, tr)"

lemma example_cmi_ok: "cmi_ok hart example_cmi"
proof -
  have "dmi_contains \<lparr>dmi_start = 0x80000000, dmi_size = 0x1000, dmi_end = 0x80001000\<rparr> a \<Longrightarrow>
      pm_contains \<lparr>pm_start = 0x80000000, pm_end = 0x80000fff\<rparr> a" for a
  proof -
    assume "dmi_contains \<lparr>dmi_start = 0x80000000, dmi_size = 0x1000, dmi_end = 0x80001000\<rparr> a"
    then have "0x80000000 \<le> a" "a < 0x80000fff + 1" by (simp_all add: dmi_contains_def)
    then have "a \<le> 0x80000fff" by unat_arith
    with \<open>0x80000000 \<le> a\<close> show ?thesis by (simp add: pm_contains_def)
  qed
  then show ?thesis
    by (simp add: cmi_ok_def example_cmi_def mem_platform_def bus_wf_def port_ok_def make_SimpleMemory_def sm_inv_def
        dmi_ok_def bus_decode_def bus_lock_defs initial_BusLock_def)
qed

lemma example_bare: "bare_machine (example_mem_core hart MachineMode satp)"
  by (simp add: bare_machine_def example_mem_core_def)

lemma example_mem_at:
  "mem_at (cmi_bus example_cmi) 0x80000010 = Some (0, make_SimpleMemory 0x1000 False, 0x10)"
  by (simp add: mem_at_def example_cmi_def bus_decode_def pm_contains_def)

lemma example_store:
  "\<exists>c'. store_word no_peripherals (example_mem_core 0 MachineMode 0) 0x80000010 0xdeadbeef NoneMode example_cmi = (Inr (), c')"
proof -
  have "phys_store (cmi_bus example_cmi) 4 0x80000010 v \<noteq> Inl e" for v e
    by (simp add: phys_store_def example_mem_at make_SimpleMemory_def)
  then show ?thesis
    unfolding store_word_def bare_store_data [OF example_bare example_cmi_ok, of 4, simplified]
    by (auto split: sum.splits)
qed

theorem store_then_load_witness:
  "\<exists>c'. load_word no_peripherals (example_mem_core 0 MachineMode 0) 0x80000010 NoneMode False c' = (Inr 0xdeadbeef, c')"
  using example_store store_then_load [OF example_bare example_cmi_ok] by blast

theorem dmi_is_transparent_witness:
  "fst (raw_load_data no_peripherals 0 4 0x80000010 example_cmi) =
   fst (raw_load_data no_peripherals 0 4 0x80000010 (example_cmi\<lparr>cmi_dmi_ranges := []\<rparr>))"
  using dmi_is_transparent [OF example_cmi_ok, of 4] by simp

theorem walk_refines_page_tables_witness:
  "\<exists>vm. \<forall>pa c'. walk (cmi_mmu_if no_peripherals 0) False (co_mmu (example_mem_core 0 UserMode 1)) example_cmi 0x1000 LOAD UserMode
      = Inr (pa, c') \<longleftrightarrow>
    walk_grants (cmi_mmu_if no_peripherals 0) False vm False False False LOAD 0x1000 2 0x80000000 example_cmi pa c'"
proof -
  let ?core = "co_mmu (example_mem_core 0 UserMode 1)"
  let ?vm = "\<lparr>vm_levels = 2, vm_idxbits = 10, vm_ptesize = 4, vm_ptbase = 0x80000000\<rparr>"
  have d: "decode_vm_info ?core UserMode = Inr ?vm"
    by (simp add: decode_vm_info_def example_mem_core_def core_consts)
  have c: "check_vaddr_extension ?core 0x1000 ?vm = Inr True"
    by (simp add: check_vaddr_extension_def example_mem_core_def core_consts)
  have m: "UserMode \<noteq> SupervisorMode" by (simp add: core_consts)
  show ?thesis
    using walk_refines_page_tables [OF example_cmi_ok d c, of no_peripherals 0 False LOAD] m
    by (intro exI [of _ ?vm]) (simp add: example_mem_core_def)
qed

theorem tlb_is_transparent_witness:
  "map_sum id fst (translate_virtual_to_physical_addr (cmi_mmu_if no_peripherals 0) (co_mmu (example_mem_core 0 UserMode 1))
      make_MMU example_cmi 0x1000 LOAD) =
   map_sum id fst (translate_virtual_to_physical_addr (cmi_mmu_if no_peripherals 0) (co_mmu (example_mem_core 0 UserMode 1))
      (flush_tlb make_MMU) example_cmi 0x1000 LOAD)"
proof -
  have "tlb_coherent (cmi_mmu_if no_peripherals 0) (co_mmu (example_mem_core 0 UserMode 1)) make_MMU example_cmi"
    unfolding make_MMU_def by (rule flush_tlb_coherent)
  from tlb_is_transparent [OF example_cmi_ok this] show ?thesis by blast
qed

end
