(* ===== verification/VP_Harts.thy ===== *)
theory VP_Harts
  imports VP_Core_Mem_Props
begin

text \<open>
  Several harts on one bus: each has its own memory interface, the bus and its lock are
  shared. A step is one access of one hart or one write of a peripheral; SystemC threads
  switch only between such steps. The atomicity of load-reserved / store-conditional is
  proved over every interleaving.
\<close>

section \<open>The system\<close>

record 'p harts =
  hs_bus :: "'p target SimpleBus"
  hs_lock :: BusLock
  hs_cmi :: "u32 \<Rightarrow> 'p cmi"

text \<open>The memory interface of hart \<open>h\<close>, with the shared bus and lock in place.\<close>

definition cmi_of :: "'p harts \<Rightarrow> u32 \<Rightarrow> 'p cmi" where
  "cmi_of s h = (hs_cmi s h)\<lparr>cmi_bus := hs_bus s, cmi_lock := hs_lock s\<rparr>"

definition put_cmi :: "'p harts \<Rightarrow> u32 \<Rightarrow> 'p cmi \<Rightarrow> 'p harts" where
  "put_cmi s h c = s\<lparr>hs_bus := cmi_bus c, hs_lock := cmi_lock c, hs_cmi := (hs_cmi s)(h := c)\<rparr>"

datatype mem_access =
    Access_fetch u64
  | Access_load nat u64 PrivilegeLevel bool
  | Access_store nat u64 u64 PrivilegeLevel
  | Access_amo_load u64
  | Access_amo_store u64 u32
  | Access_lr u64
  | Access_sc u64 u32
  | Access_unlock
  | Access_flush_tlb
  | Access_clear_spmp_cache

definition run_access :: "'p ptransport \<Rightarrow> mem_core \<Rightarrow> mem_access \<Rightarrow> ('p cmi, unit) op" where
  "run_access pt core a =
    (case a of
       Access_fetch addr \<Rightarrow> bind_op (load_instr pt core addr) (\<lambda>_. ret_op ())
     | Access_load n addr ov hlvx \<Rightarrow> bind_op (load_data pt core n addr ov hlvx) (\<lambda>_. ret_op ())
     | Access_store n addr v ov \<Rightarrow> store_data pt core n addr v ov
     | Access_amo_load addr \<Rightarrow> bind_op (atomic_load_word pt core addr) (\<lambda>_. ret_op ())
     | Access_amo_store addr v \<Rightarrow> atomic_store_word pt core addr v
     | Access_lr addr \<Rightarrow> bind_op (atomic_load_reserved_word pt core addr) (\<lambda>_. ret_op ())
     | Access_sc addr v \<Rightarrow> bind_op (atomic_store_conditional_word pt core addr v) (\<lambda>_. ret_op ())
     | Access_unlock \<Rightarrow> atomic_unlock (co_hart core)
     | Access_flush_tlb \<Rightarrow> cmi_flush_tlb
     | Access_clear_spmp_cache \<Rightarrow> cmi_clear_spmp_cache)"

inductive other_step :: "'p ptransport \<Rightarrow> u32 \<Rightarrow> 'p harts \<Rightarrow> 'p harts \<Rightarrow> bool" for pt h where
  access: "\<lbrakk>co_hart core \<noteq> h; run_access pt core a (cmi_of s (co_hart core)) = (r, c)\<rbrakk>
    \<Longrightarrow> other_step pt h s (put_cmi s (co_hart core) c)"
| peripheral: "peripheral_write_transport (bus_transport (target_transport pt)) (hs_lock s) (hs_bus s) tr = Inr (b, tr')
    \<Longrightarrow> other_step pt h s (s\<lparr>hs_bus := b\<rparr>)"

inductive others_reach :: "'p ptransport \<Rightarrow> u32 \<Rightarrow> 'p harts \<Rightarrow> 'p harts \<Rightarrow> bool" for pt h where
  refl: "others_reach pt h s s"
| step: "\<lbrakk>others_reach pt h s s'; other_step pt h s' s''\<rbrakk> \<Longrightarrow> others_reach pt h s s''"

section \<open>An access while another hart holds the lock\<close>

definition keeps_shared :: "('p cmi, 'a) op \<Rightarrow> 'p cmi \<Rightarrow> bool" where
  "keeps_shared f c \<longleftrightarrow> cmi_bus (snd (f c)) = cmi_bus c \<and> cmi_lock (snd (f c)) = cmi_lock c"

lemma keeps_shared_simps:
  "keeps_shared (ret_op a) c" "keeps_shared (lift_op r) c" "keeps_shared (fail_op e) c"
  by (simp_all add: keeps_shared_def op_defs)

lemma keeps_shared_bind:
  assumes "keeps_shared f c"
    and "\<And>a c'. f c = (Inr a, c') \<Longrightarrow> cmi_bus c' = cmi_bus c \<Longrightarrow> cmi_lock c' = cmi_lock c \<Longrightarrow> keeps_shared (g a) c'"
  shows "keeps_shared (bind_op f g) c"
proof (cases "f c")
  case (Pair r c')
  then show ?thesis
    using assms by (cases r) (auto simp: keeps_shared_def bind_op_def)
qed

lemma raw_blocked:
  assumes "is_locked_by (cmi_lock c) h" and "g \<noteq> h"
  shows "raw_load_data pt g n addr c = (Inl Blocked, c)" "raw_store_data pt g n addr v c = (Inl Blocked, c)"
    "lock_bus g c = (Inl Blocked, c)"
  using assms by (auto simp: raw_load_data_def raw_store_data_def lock_bus_def op_defs bus_lock_defs)

lemma walk_blocked:
  assumes "is_locked_by (cmi_lock c) h" and "g \<noteq> h"
  shows "walk (cmi_mmu_if pt g) fa core c vaddr type mode \<noteq> Inr (pa, c')"
proof -
  have l: "load_pte (cmi_mmu_if pt g) vm c a \<noteq> Inr r" for vm a r
    using raw_blocked [OF assms] by (simp add: load_pte_def cmi_mmu_if_def)
  have "walk_loop (cmi_mmu_if pt g) fa vm s sm mxr type vaddr i base c \<noteq> Inr (pa, c')" for vm s sm mxr i base
    by (cases i) (auto simp: Let_def l)
  then show ?thesis by (auto simp: walk_def Let_def)
qed

lemma v2p_shared:
  assumes "is_locked_by (cmi_lock c) h" and "co_hart core \<noteq> h"
  shows "keeps_shared (v2p pt core vaddr type) c"
proof (cases "cmi_mmu c")
  case (Some u)
  have "c' = c" if "translate_virtual_to_physical_addr (cmi_mmu_if pt (co_hart core)) (co_mmu core) u c vaddr type
      = Inr (pa, u', c')" for pa u' c'
    using that walk_blocked [OF assms]
    by (auto simp: translate_virtual_to_physical_addr_def Let_def split: if_splits)
  with Some show ?thesis
    by (auto simp: keeps_shared_def v2p_def split: sum.splits)
qed (simp add: keeps_shared_def v2p_def)

lemma physical_address_shared:
  assumes "is_locked_by (cmi_lock c) h" and "co_hart core \<noteq> h"
  shows "keeps_shared (physical_address pt core mode addr sz type hlvx) c"
proof -
  have v: "keeps_shared (v2p pt core a type) c'" if "cmi_lock c' = cmi_lock c" for a c'
    using that v2p_shared assms by metis
  have sp: "keeps_shared (phya_spmp_check core mode addr sz type) c"
    by (auto simp: keeps_shared_def phya_spmp_check_def split: option.splits sum.splits)
  have sm: "keeps_shared (phya_smpu_check core mode a sz type level hlvx) c'" for a level c'
    by (simp add: keeps_shared_def phya_smpu_check_def)
  show ?thesis
    unfolding physical_address_def phya_smpu_check_both_def
    by (auto intro!: keeps_shared_bind v sp sm keeps_shared_simps split: prod.splits if_splits)
qed

lemma raw_shared:
  assumes "is_locked_by (cmi_lock c) h" and "g \<noteq> h" and "cmi_lock c' = cmi_lock c"
  shows "keeps_shared (raw_load_data pt g n x) c'" "keeps_shared (raw_store_data pt g n x v) c'"
  using raw_blocked [of c' h g] assms by (simp_all add: keeps_shared_def)

lemma lock_bus_blocked:
  assumes "is_locked_by (cmi_lock c) h" and "g \<noteq> h"
  shows "bind_op (lock_bus g) f c = (Inl Blocked, c)"
  using raw_blocked(3) [OF assms] by (simp add: bind_op_def)

lemma data_shared:
  assumes "is_locked_by (cmi_lock c) h" and "co_hart core \<noteq> h"
  shows "keeps_shared (load_data pt core n addr ov hlvx) c" "keeps_shared (store_data pt core n addr v ov) c"
    "keeps_shared (load_instr pt core addr) c"
  unfolding load_data_def store_data_def load_instr_def
  by (intro keeps_shared_bind physical_address_shared [OF assms] raw_shared [OF assms] keeps_shared_simps; simp)+

text \<open>While a hart holds the lock no access of another hart changes the bus or the lock.\<close>

lemma access_shared:
  assumes "is_locked_by (cmi_lock c) h" and "co_hart core \<noteq> h"
  shows "keeps_shared (run_access pt core a) c"
proof (cases a)
  case (Access_amo_load addr)
  then show ?thesis
    by (simp add: run_access_def atomic_load_word_def keeps_shared_def lock_bus_blocked [OF assms] bind_op_def [of "bind_op _ _"])
next
  case (Access_lr addr)
  then show ?thesis
    by (simp add: run_access_def atomic_load_reserved_word_def keeps_shared_def lock_bus_blocked [OF assms]
        bind_op_def [of "bind_op _ _"])
next
  case (Access_amo_store addr v)
  have "\<not> is_locked_by (cmi_lock c) (co_hart core)"
    using assms by (auto simp: is_locked_by_def)
  then show ?thesis
    by (simp add: Access_amo_store run_access_def atomic_store_word_def keeps_shared_def op_defs)
next
  case (Access_sc addr v)
  have "\<not> is_locked_by (cmi_lock c) (co_hart core)"
    using assms by (auto simp: is_locked_by_def)
  then show ?thesis
    by (simp add: Access_sc run_access_def atomic_store_conditional_word_def keeps_shared_def op_defs)
next
  case Access_unlock
  then show ?thesis
    using assms by (auto simp: run_access_def atomic_unlock_def keeps_shared_def op_defs bus_lock_defs)
next
  case Access_flush_tlb
  then show ?thesis
    by (auto simp: run_access_def keeps_shared_def cmi_flush_tlb_def split: option.splits)
next
  case Access_clear_spmp_cache
  then show ?thesis
    by (auto simp: run_access_def keeps_shared_def cmi_clear_spmp_cache_def split: option.splits)
qed (use data_shared [OF assms] in \<open>auto simp: run_access_def intro!: keeps_shared_bind keeps_shared_simps\<close>)

lemma ucast_ucast_mask32: "ucast (ucast (x :: u64) :: u32) = take_bit 32 x"
  by (rule bit_word_eqI) (auto simp: bit_simps)

section \<open>Atomicity of load-reserved and store-conditional\<close>

lemma other_step_locked:
  assumes "other_step pt h s s'" and "is_locked_by (hs_lock s) h"
  shows "hs_bus s' = hs_bus s \<and> hs_lock s' = hs_lock s \<and> hs_cmi s' h = hs_cmi s h"
  using assms
proof (induction rule: other_step.induct)
  case (access core a s r c)
  from access_shared [of "cmi_of s (co_hart core)" h core pt a] access show ?case
    by (auto simp: cmi_of_def put_cmi_def keeps_shared_def)
next
  case (peripheral s tr b tr')
  then show ?case
    by (auto simp: peripheral_write_transport_def bus_lock_defs)
qed

lemma others_locked:
  assumes "others_reach pt h s s'" and "is_locked_by (hs_lock s) h"
  shows "hs_bus s' = hs_bus s \<and> hs_lock s' = hs_lock s \<and> hs_cmi s' h = hs_cmi s h"
  using assms by (induction rule: others_reach.induct) (auto dest: other_step_locked)

lemma ucast_ucast_u32: "ucast (ucast (v :: u32) :: u64) = v"
  by (rule bit_word_eqI) (auto simp: bit_simps)

lemma load_reserved_eq:
  assumes "bare_machine core" and "cmi_ok (co_hart core) c"
  shows "atomic_load_reserved_word pt core addr c = (map_sum id ucast (phys_load (cmi_bus c) 4 addr),
    c\<lparr>cmi_lock := \<lparr>bl_locked = True, bl_owner = co_hart core\<rparr>, cmi_lr_addr := addr\<rparr>)"
proof -
  let ?c = "c\<lparr>cmi_lock := \<lparr>bl_locked = True, bl_owner = co_hart core\<rparr>, cmi_lr_addr := addr\<rparr>"
  have l: "bl_lock (cmi_lock c) (co_hart core) = Inr \<lparr>bl_locked = True, bl_owner = co_hart core\<rparr>"
    using assms(2) by (auto simp: cmi_ok_def bus_lock_defs split: if_splits)
  have ok: "cmi_ok (co_hart core) ?c"
    using assms(2) by (simp add: cmi_ok_def bus_lock_defs)
  show ?thesis
    by (simp add: atomic_load_reserved_word_def lock_bus_def l bind_op_def modify_op_def load_word_def
        bare_load_data [OF assms(1) ok] ret_op_def split: sum.splits)
qed

lemma load_reserved_bare:
  assumes "bare_machine core" and "cmi_ok (co_hart core) c"
    and "atomic_load_reserved_word pt core addr c = (Inr v, c1)"
  shows "c1 = c\<lparr>cmi_lock := \<lparr>bl_locked = True, bl_owner = co_hart core\<rparr>, cmi_lr_addr := addr\<rparr>"
    and "phys_load (cmi_bus c) 4 addr = Inr (ucast v)" and "cmi_ok (co_hart core) c1"
proof -
  let ?c = "c\<lparr>cmi_lock := \<lparr>bl_locked = True, bl_owner = co_hart core\<rparr>, cmi_lr_addr := addr\<rparr>"
  have ok: "cmi_ok (co_hart core) ?c"
    using assms(2) by (simp add: cmi_ok_def bus_lock_defs)
  from load_reserved_eq [OF assms(1,2)] assms(3) have c1: "c1 = ?c" and "map_sum id ucast (phys_load (cmi_bus c) 4 addr) = Inr v"
    by auto
  then obtain x where x: "phys_load (cmi_bus c) 4 addr = Inr x" "v = ucast x"
    by (auto simp: map_sum_def split: sum.splits)
  have "take_bit 32 x = x"
    using phys_load_range [OF x(1)] assms(2) by (simp add: cmi_ok_def)
  then have "ucast (ucast x :: u32) = x"
    by (metis ucast_ucast_mask32)
  with x c1 ok show "c1 = ?c" "phys_load (cmi_bus c) 4 addr = Inr (ucast v)" "cmi_ok (co_hart core) c1" by simp_all
qed

text \<open>
  C5: load-reserved and store-conditional are atomic over every interleaving: once a hart in
  machine mode has executed a load-reserved of a word, no sequence of accesses of other harts
  (loads, stores, atomics, store-conditionals, fetches, page-table walks) and of peripheral writes
  changes the memory; the word still has the value that was loaded, and the
  store-conditional to it then succeeds, writes its value and releases the bus.
\<close>

theorem lr_sc_atomic:
  assumes "bare_machine core" and "co_hart core = h" and "cmi_ok h (cmi_of s h)"
    and "atomic_load_reserved_word pt core addr (cmi_of s h) = (Inr v, c1)"
    and "others_reach pt h (put_cmi s h c1) s2"
  shows "hs_bus s2 = hs_bus s \<and> load_word pt core addr NoneMode False (cmi_of s2 h) = (Inr v, cmi_of s2 h) \<and>
    (\<exists>c2. atomic_store_conditional_word pt core addr w (cmi_of s2 h) = (Inr True, c2) \<and>
      load_word pt core addr NoneMode False c2 = (Inr w, c2) \<and> \<not> is_locked (cmi_lock c2))"
proof -
  note lr = load_reserved_bare [of core "cmi_of s h" pt addr v c1, unfolded assms(2), OF assms(1,3,4)]
  have locked: "is_locked_by (hs_lock (put_cmi s h c1)) h"
    by (simp add: put_cmi_def lr(1) is_locked_by_def)
  note same = others_locked [OF assms(5) locked]
  then have view: "cmi_of s2 h = c1"
    by (simp add: cmi_of_def put_cmi_def lr(1))
  have bus: "hs_bus s2 = hs_bus s" and l: "phys_load (cmi_bus c1) 4 addr = Inr (ucast v)"
    using same lr(1,2) by (simp_all add: put_cmi_def cmi_of_def)
  have p: "mem_platform (cmi_bus c1)" using lr(3) by (simp add: cmi_ok_def)
  obtain b where b: "phys_store (cmi_bus c1) 4 addr (ucast w) = Inr b"
    using phys_store_total [OF p l, of 4] by auto
  define c2 where "c2 = c1\<lparr>cmi_bus := b, cmi_lock := bl_unlock (cmi_lock c1) (co_hart core)\<rparr>"
  have st: "store_word pt core addr w NoneMode c1 = (Inr (), c2)"
    using bare_store_data [of core c1 4 pt addr "ucast w" NoneMode] assms(1,2) lr(3) b
    by (simp add: store_word_def c2_def)
  have "load_word pt core addr NoneMode False c1 = (Inr v, c1)"
    using bare_load_data [of core c1 4 pt addr NoneMode False] assms(1,2) lr(3) l
    by (simp add: load_word_def bind_op_def ret_op_def ucast_ucast_u32)
  moreover have "atomic_store_conditional_word pt core addr w c1 = (Inr True, c2)"
    using st assms(2) lr(1) by (simp add: atomic_store_conditional_word_def read_op_def is_locked_by_def bind_op_def ret_op_def)
  moreover have "load_word pt core addr NoneMode False c2 = (Inr w, c2) \<and> \<not> is_locked (cmi_lock c2)"
    using store_word_load_word [OF assms(1) _ st] lr(3) assms(2) by simp
  ultimately show ?thesis using bus view by blast
qed

definition example_harts :: "unit harts" where
  "example_harts = \<lparr>hs_bus = cmi_bus example_cmi, hs_lock = initial_BusLock, hs_cmi = (\<lambda>_. example_cmi)\<rparr>"

theorem lr_sc_atomic_witness:
  "\<exists>s2 c2. other_step no_peripherals 0 (put_cmi example_harts 0 (example_cmi\<lparr>cmi_lock := \<lparr>bl_locked = True, bl_owner = 0\<rparr>,
        cmi_lr_addr := 0x80000010\<rparr>)) s2 \<and>
     atomic_store_conditional_word no_peripherals (example_mem_core 0 MachineMode 0) 0x80000010 7 (cmi_of s2 0) = (Inr True, c2)"
proof -
  let ?core = "example_mem_core 0 MachineMode 0"
  let ?c1 = "example_cmi\<lparr>cmi_lock := \<lparr>bl_locked = True, bl_owner = 0\<rparr>, cmi_lr_addr := 0x80000010\<rparr>"
  let ?s1 = "put_cmi example_harts 0 ?c1"
  have v: "cmi_of example_harts 0 = example_cmi"
    by (simp add: cmi_of_def example_harts_def example_cmi_def)
  have ok: "cmi_ok 0 (cmi_of example_harts 0)"
    unfolding v by (rule example_cmi_ok)
  have h: "co_hart ?core = 0" by (simp add: example_mem_core_def)
  have "phys_load (cmi_bus example_cmi) 4 0x80000010 \<noteq> Inl e" for e
    by (simp add: phys_load_def example_mem_at make_SimpleMemory_def)
  then obtain x where x: "phys_load (cmi_bus example_cmi) 4 0x80000010 = Inr x"
    by (cases "phys_load (cmi_bus example_cmi) 4 0x80000010") auto
  have lr: "atomic_load_reserved_word no_peripherals ?core 0x80000010 (cmi_of example_harts 0) = (Inr (ucast x), ?c1)"
    using load_reserved_eq [OF example_bare, of 0 0 example_cmi no_peripherals "0x80000010"] example_cmi_ok [of 0] x
    by (simp add: v h)
  define c where "c = snd (run_access no_peripherals (example_mem_core 1 MachineMode 0) Access_unlock (cmi_of ?s1 1))"
  have "other_step no_peripherals 0 ?s1 (put_cmi ?s1 (co_hart (example_mem_core 1 MachineMode 0)) c)"
    by (rule other_step.access [where a = Access_unlock and r = "fst (run_access no_peripherals
          (example_mem_core 1 MachineMode 0) Access_unlock (cmi_of ?s1 1))"]) (simp_all add: example_mem_core_def c_def)
  moreover from this have "others_reach no_peripherals 0 ?s1 (put_cmi ?s1 (co_hart (example_mem_core 1 MachineMode 0)) c)"
    by (blast intro: others_reach.intros)
  ultimately show ?thesis
    using lr_sc_atomic [OF example_bare h ok lr] by blast
qed

end
