(* ===== verification/VP_Bitfield.thy ===== *)
theory VP_Bitfield
  imports VP_Prelude
begin

text \<open>
  Bit-fields of the register unions (\<^verbatim>\<open>union { uint32_t reg; struct { unsigned f : n; ... } fields; }\<close>).
  A register is the machine word \<^verbatim>\<open>reg\<close>; a field is the slice of that word the compiler gives it,
  the first field at bit 0. \<open>get_field lo len\<close> reads the field of \<open>len\<close> bits at bit \<open>lo\<close> and
  \<open>set_field lo len\<close> assigns it, keeping the low \<open>len\<close> bits of the assigned value as C++ does. The
  macros \<^verbatim>\<open>BIT\<close> and \<^verbatim>\<open>GENMASK\<close> of \<^verbatim>\<open>core/rv32/csr.h\<close> and the masked write every WARL register uses
  are here too, with the laws of these operations.
\<close>

definition get_field :: "nat \<Rightarrow> nat \<Rightarrow> 'a::len word \<Rightarrow> 'a word" where
  "get_field lo len w = take_bit len (drop_bit lo w)"

definition set_field :: "nat \<Rightarrow> nat \<Rightarrow> 'a::len word \<Rightarrow> 'a word \<Rightarrow> 'a word" where
  "set_field lo len v w = (w AND NOT (push_bit lo (mask len))) OR push_bit lo (take_bit len v)"

definition BIT :: "nat \<Rightarrow> u64" where
  "BIT n = push_bit n 1"

definition GENMASK :: "nat \<Rightarrow> nat \<Rightarrow> u64" where
  "GENMASK h l = (NOT 0 - push_bit l 1 + 1) AND drop_bit (64 - 1 - h) (NOT 0)"

definition masked_write :: "'a::len word \<Rightarrow> 'a word \<Rightarrow> 'a word \<Rightarrow> 'a word" where
  "masked_write m v reg = (reg AND NOT m) OR (v AND m)"

section \<open>Laws\<close>

lemma bit_get_field: "bit (get_field lo len w) n \<longleftrightarrow> n < len \<and> bit w (lo + n)"
  by (auto simp: get_field_def bit_simps)

lemma bit_set_field:
  "bit (set_field lo len v (w :: 'a::len word)) n \<longleftrightarrow>
     n < LENGTH('a) \<and> (if lo \<le> n \<and> n < lo + len then bit v (n - lo) else bit w n)"
  by (auto simp: set_field_def bit_simps dest: bit_imp_le_length)

lemma get_field_set_field_same:
  "lo + len \<le> LENGTH('a) \<Longrightarrow> get_field lo len (set_field lo len v w) = take_bit len (v :: 'a::len word)"
  by (rule bit_word_eqI) (auto simp: bit_get_field bit_set_field bit_simps)

lemma get_field_set_field_other:
  "lo + len \<le> lo' \<or> lo' + len' \<le> lo \<Longrightarrow>
     get_field lo' len' (set_field lo len v w) = get_field lo' len' (w :: 'a::len word)"
  by (rule bit_word_eqI) (auto simp: bit_get_field bit_set_field dest: bit_imp_le_length)

lemma set_field_get_field: "set_field lo len (get_field lo len w) w = w"
  by (rule bit_word_eqI) (auto simp: bit_get_field bit_set_field)

lemma set_field_set_field_same: "set_field lo len v (set_field lo len v' w) = set_field lo len v w"
  by (rule bit_word_eqI) (auto simp: bit_set_field)

lemma set_field_commute:
  "lo + len \<le> lo' \<or> lo' + len' \<le> lo \<Longrightarrow>
     set_field lo len v (set_field lo' len' v' w) = set_field lo' len' v' (set_field lo len v w)"
  by (rule bit_word_eqI) (auto simp: bit_set_field)

lemma get_field_1: "get_field lo (Suc 0) (w :: 'a::len word) = of_bool (bit w lo)"
  by (rule bit_word_eqI) (auto simp: bit_get_field bit_1_iff)

lemma get_field_idem [simp]: "take_bit len (get_field lo len (w :: 'a::len word)) = get_field lo len w"
  by (simp add: get_field_def)

lemma take_bit_1_of_bool: "take_bit (Suc 0) (of_bool b :: 'a::len word) = of_bool b"
  by (cases b) simp_all

lemma bit_BIT [simp]: "bit (BIT k) n \<longleftrightarrow> n = k \<and> n < 64"
  by (auto simp: BIT_def bit_simps dest: bit_imp_le_length)

lemma BIT_nonzero: "k < 64 \<Longrightarrow> BIT k \<noteq> 0"
  by (metis bit_0_eq bit_BIT bot_apply bot_bool_def)

lemma and_BIT: "k < 64 \<Longrightarrow> w AND BIT k = (if bit w k then BIT k else 0)"
  by (intro bit_word_eqI) (auto simp: bit_simps)

lemma and_BIT_eq_0: "k < 64 \<Longrightarrow> w AND BIT k = 0 \<longleftrightarrow> \<not> bit w k"
  by (simp add: and_BIT BIT_nonzero)

lemma and_BIT_eq_BIT: "k < 64 \<Longrightarrow> w AND BIT k = BIT k \<longleftrightarrow> bit w k"
  using BIT_nonzero [of k] by (simp add: and_BIT)

lemma bit_masked_write:
  "bit (masked_write m v w) n \<longleftrightarrow> (if bit m n then bit v n else bit (w :: 'a::len word) n)"
  by (auto simp: masked_write_def bit_simps dest: bit_imp_le_length)

lemma masked_write_idem: "masked_write m v (masked_write m v' w) = masked_write m v w"
  by (rule bit_word_eqI) (auto simp: bit_masked_write)

lemma masked_write_read: "masked_write m v w AND m = v AND m"
  by (rule bit_word_eqI) (auto simp: bit_masked_write bit_simps)

lemma masked_write_keeps: "masked_write m v w AND NOT m = w AND NOT m"
  by (rule bit_word_eqI) (auto simp: bit_masked_write bit_simps)

lemma masked_write_subset: "w AND NOT m = 0 \<Longrightarrow> masked_write m v w AND NOT m = 0"
  by (simp add: masked_write_keeps)

lemma GENMASK_eq: "GENMASK 11 0 = 0xFFF" "GENMASK 8 1 = 0x1FE"
  by (simp_all add: GENMASK_def mask_numeral)

lemma bit_u8_bound: "bit (x :: u8) n \<Longrightarrow> n < 8"
  using bit_imp_le_length [of x n] by simp

lemma ucast_u8_u32 [simp]: "ucast (ucast (x :: u8) :: u32) = x"
  by (rule bit_word_eqI) (auto simp: bit_simps)

lemma take_bit_ucast_u8 [simp]:
  "take_bit 8 (ucast (x :: u8) :: u32) = ucast x" "take_bit 16 (ucast (x :: u8) :: u32) = ucast x"
  by (rule bit_word_eqI; auto simp: bit_simps dest: bit_u8_bound)+

lemma ucast_u8_u32_eq_0 [simp]: "(ucast (x :: u8) :: u32) = 0 \<longleftrightarrow> x = 0"
  by (metis ucast_u8_u32 unsigned_0)

lemma unat_ucast_u8 [simp]: "unat (ucast (x :: u8) :: u32) = unat x"
proof -
  have "unat x < 2 ^ 32"
    using unsigned_less [of x, where ?'a = nat] by simp
  then show ?thesis
    by (simp add: unsigned_ucast_eq take_bit_nat_eq_self)
qed

lemma ucast_u8_u32_less [simp]: "(ucast (x :: u8) :: u32) < ucast y \<longleftrightarrow> x < (y :: u8)"
  by (simp add: word_less_nat_alt)

lemma take_bit_less_self: "unat w < 2 ^ n \<Longrightarrow> take_bit n (w :: 'a::len word) = w"
  by (simp add: word_unat_eq_iff unsigned_take_bit_eq take_bit_nat_eq_self)

end
