(* ===== verification/VP_CSR_Fields.thy ===== *)
theory VP_CSR_Fields
  imports VP_Bitfield VP_Core_Defs
begin

text \<open>
  Addresses, masks and bit-fields of the control and status registers (\<^verbatim>\<open>core/rv32/csr.h\<close>): the
  constants of namespace \<^verbatim>\<open>csr\<close> and of the register classes, and for each register union the
  accessors of its fields; a setter is given for the fields the simulator assigns. A register
  of class \<^verbatim>\<open>csr_x\<close> is its \<^verbatim>\<open>reg\<close> word; \<open>x_f\<close> reads its field \<^verbatim>\<open>f\<close> and \<open>set_x_f\<close> assigns it.
\<close>

named_theorems csr_addrs \<open>numeric values of CSR addresses and masks\<close>
named_theorems csr_fields \<open>definitions of the CSR fields\<close>

section \<open>Addresses and masks\<close>

definition FS_OFF :: u32 where [csr_addrs]: "FS_OFF = 0b00"
definition FS_INITIAL :: u32 where [csr_addrs]: "FS_INITIAL = 0b01"
definition FS_CLEAN :: u32 where [csr_addrs]: "FS_CLEAN = 0b10"
definition FS_DIRTY :: u32 where [csr_addrs]: "FS_DIRTY = 0b11"
definition CSR_TYPE_U :: u32 where [csr_addrs]: "CSR_TYPE_U = 0b00"
definition CSR_TYPE_S :: u32 where [csr_addrs]: "CSR_TYPE_S = 0b01"
definition CSR_TYPE_HS_VS :: u32 where [csr_addrs]: "CSR_TYPE_HS_VS = 0b10"
definition CSR_TYPE_M :: u32 where [csr_addrs]: "CSR_TYPE_M = 0b11"
definition CSR_TYPE_MASK :: u32 where [csr_addrs]: "CSR_TYPE_MASK = 0x300"
definition CSR_TYPE_SHIFT :: u32 where [csr_addrs]: "CSR_TYPE_SHIFT = 8"
definition MEDELEG_MASK :: u32 where [csr_addrs]: "MEDELEG_MASK = 0b1011111111111111"
definition MCOUNTEREN_MASK :: u32 where [csr_addrs]: "MCOUNTEREN_MASK = 0b111"
definition MCOUNTINHIBIT_MASK :: u32 where [csr_addrs]: "MCOUNTINHIBIT_MASK = 0b101"
definition MSTATUS_MASK :: u32 where [csr_addrs]: "MSTATUS_MASK = 0b10000000011111111111111111101010"
definition SSTATUS_MASK :: u32 where [csr_addrs]: "SSTATUS_MASK = 0b10000000000011011110011101100010"
definition MSTATUSH_MASK :: u32 where [csr_addrs]: "MSTATUSH_MASK = 0b00000000000000000000000011110000"
definition SATP_MASK :: u32 where [csr_addrs]: "SATP_MASK = 0b10000000001111111111111111111111"
definition FCSR_MASK :: u32 where [csr_addrs]: "FCSR_MASK = 0b11111111"
definition CYCLE_ADDR :: u32 where [csr_addrs]: "CYCLE_ADDR = 0xC00"
definition CYCLEH_ADDR :: u32 where [csr_addrs]: "CYCLEH_ADDR = 0xC80"
definition TIME_ADDR :: u32 where [csr_addrs]: "TIME_ADDR = 0xC01"
definition TIMEH_ADDR :: u32 where [csr_addrs]: "TIMEH_ADDR = 0xC81"
definition INSTRET_ADDR :: u32 where [csr_addrs]: "INSTRET_ADDR = 0xC02"
definition INSTRETH_ADDR :: u32 where [csr_addrs]: "INSTRETH_ADDR = 0xC82"
definition MCYCLE_ADDR :: u32 where [csr_addrs]: "MCYCLE_ADDR = 0xB00"
definition MCYCLEH_ADDR :: u32 where [csr_addrs]: "MCYCLEH_ADDR = 0xB80"
definition MINSTRET_ADDR :: u32 where [csr_addrs]: "MINSTRET_ADDR = 0xB02"
definition MINSTRETH_ADDR :: u32 where [csr_addrs]: "MINSTRETH_ADDR = 0xB82"
definition TSELECT_ADDR :: u32 where [csr_addrs]: "TSELECT_ADDR = 0x7A0"
definition TDATA1_ADDR :: u32 where [csr_addrs]: "TDATA1_ADDR = 0x7A1"
definition TDATA2_ADDR :: u32 where [csr_addrs]: "TDATA2_ADDR = 0x7A2"
definition TDATA3_ADDR :: u32 where [csr_addrs]: "TDATA3_ADDR = 0x7A3"
definition DCSR_ADDR :: u32 where [csr_addrs]: "DCSR_ADDR = 0x7B0"
definition DPC_ADDR :: u32 where [csr_addrs]: "DPC_ADDR = 0x7B1"
definition DSCRATCH0_ADDR :: u32 where [csr_addrs]: "DSCRATCH0_ADDR = 0x7B2"
definition DSCRATCH1_ADDR :: u32 where [csr_addrs]: "DSCRATCH1_ADDR = 0x7B3"
definition MVENDORID_ADDR :: u32 where [csr_addrs]: "MVENDORID_ADDR = 0xF11"
definition MARCHID_ADDR :: u32 where [csr_addrs]: "MARCHID_ADDR = 0xF12"
definition MIMPID_ADDR :: u32 where [csr_addrs]: "MIMPID_ADDR = 0xF13"
definition MHARTID_ADDR :: u32 where [csr_addrs]: "MHARTID_ADDR = 0xF14"
definition MSTATUS_ADDR :: u32 where [csr_addrs]: "MSTATUS_ADDR = 0x300"
definition MSTATUSH_ADDR :: u32 where [csr_addrs]: "MSTATUSH_ADDR = 0x310"
definition MISA_ADDR :: u32 where [csr_addrs]: "MISA_ADDR = 0x301"
definition MEDELEG_ADDR :: u32 where [csr_addrs]: "MEDELEG_ADDR = 0x302"
definition MTVEC_ADDR :: u32 where [csr_addrs]: "MTVEC_ADDR = 0x305"
definition MCOUNTEREN_ADDR :: u32 where [csr_addrs]: "MCOUNTEREN_ADDR = 0x306"
definition MCOUNTINHIBIT_ADDR :: u32 where [csr_addrs]: "MCOUNTINHIBIT_ADDR = 0x320"
definition MSCRATCH_ADDR :: u32 where [csr_addrs]: "MSCRATCH_ADDR = 0x340"
definition MEPC_ADDR :: u32 where [csr_addrs]: "MEPC_ADDR = 0x341"
definition MCAUSE_ADDR :: u32 where [csr_addrs]: "MCAUSE_ADDR = 0x342"
definition MTVAL_ADDR :: u32 where [csr_addrs]: "MTVAL_ADDR = 0x343"
definition MISELECT_ADDR :: u32 where [csr_addrs]: "MISELECT_ADDR = 0x350"
definition MIREG_ADDR :: u32 where [csr_addrs]: "MIREG_ADDR = 0x351"
definition MIREG2_ADDR :: u32 where [csr_addrs]: "MIREG2_ADDR = 0x352"
definition MIREG3_ADDR :: u32 where [csr_addrs]: "MIREG3_ADDR = 0x353"
definition MIREG4_ADDR :: u32 where [csr_addrs]: "MIREG4_ADDR = 0x355"
definition MIREG5_ADDR :: u32 where [csr_addrs]: "MIREG5_ADDR = 0x356"
definition MIREG6_ADDR :: u32 where [csr_addrs]: "MIREG6_ADDR = 0x357"
definition MTOPI_ADDR :: u32 where [csr_addrs]: "MTOPI_ADDR = 0xFB0"
definition MTOPEI_ADDR :: u32 where [csr_addrs]: "MTOPEI_ADDR = 0x35C"
definition MTSP_ADDR :: u32 where [csr_addrs]: "MTSP_ADDR = 0x7FF"
definition MTINST_ADDR :: u32 where [csr_addrs]: "MTINST_ADDR = 0x34A"
definition MTVAL2_ADDR :: u32 where [csr_addrs]: "MTVAL2_ADDR = 0x34B"
definition SSTATUS_ADDR :: u32 where [csr_addrs]: "SSTATUS_ADDR = 0x100"
definition STVEC_ADDR :: u32 where [csr_addrs]: "STVEC_ADDR = 0x105"
definition SCOUNTEREN_ADDR :: u32 where [csr_addrs]: "SCOUNTEREN_ADDR = 0x106"
definition SSCRATCH_ADDR :: u32 where [csr_addrs]: "SSCRATCH_ADDR = 0x140"
definition SEPC_ADDR :: u32 where [csr_addrs]: "SEPC_ADDR = 0x141"
definition SCAUSE_ADDR :: u32 where [csr_addrs]: "SCAUSE_ADDR = 0x142"
definition STVAL_ADDR :: u32 where [csr_addrs]: "STVAL_ADDR = 0x143"
definition SATP_ADDR :: u32 where [csr_addrs]: "SATP_ADDR = 0x180"
definition SISELECT_ADDR :: u32 where [csr_addrs]: "SISELECT_ADDR = 0x150"
definition SISELECT_MASK :: u32 where [csr_addrs]: "SISELECT_MASK = 0xFFF"
definition SIREG_ADDR :: u32 where [csr_addrs]: "SIREG_ADDR = 0x151"
definition SIREG2_ADDR :: u32 where [csr_addrs]: "SIREG2_ADDR = 0x152"
definition SIREG3_ADDR :: u32 where [csr_addrs]: "SIREG3_ADDR = 0x153"
definition SIREG4_ADDR :: u32 where [csr_addrs]: "SIREG4_ADDR = 0x155"
definition SIREG5_ADDR :: u32 where [csr_addrs]: "SIREG5_ADDR = 0x156"
definition SIREG6_ADDR :: u32 where [csr_addrs]: "SIREG6_ADDR = 0x157"
definition STOPI_ADDR :: u32 where [csr_addrs]: "STOPI_ADDR = 0xDB0"
definition STOPEI_ADDR :: u32 where [csr_addrs]: "STOPEI_ADDR = 0x15C"
definition STSP_ADDR :: u32 where [csr_addrs]: "STSP_ADDR = 0x5FF"
definition HSTATUS_MASK :: u32 where [csr_addrs]: "HSTATUS_MASK = 0b00000000011101111111001111100000"
definition HSTATUS_ADDR :: u32 where [csr_addrs]: "HSTATUS_ADDR = 0x600"
definition HEDELEG_MASK :: u32 where [csr_addrs]: "HEDELEG_MASK = 0b111000111111111"
definition HEDELEG_ADDR :: u32 where [csr_addrs]: "HEDELEG_ADDR = 0x602"
definition HCONTEXT_ADDR :: u32 where [csr_addrs]: "HCONTEXT_ADDR = 0x6A8"
definition HVIP_ADDR :: u32 where [csr_addrs]: "HVIP_ADDR = 0x645"
definition HTSP_ADDR :: u32 where [csr_addrs]: "HTSP_ADDR = 0xAFF"
definition HGATP_ADDR :: u32 where [csr_addrs]: "HGATP_ADDR = 0x680"
definition HMPUMASK_ADDR :: u32 where [csr_addrs]: "HMPUMASK_ADDR = 0x620"
definition HTVAL_ADDR :: u32 where [csr_addrs]: "HTVAL_ADDR = 0x643"
definition HTINST_ADDR :: u32 where [csr_addrs]: "HTINST_ADDR = 0x64A"
definition VSSTATUS_ADDR :: u32 where [csr_addrs]: "VSSTATUS_ADDR = 0x200"
definition VSTVEC_ADDR :: u32 where [csr_addrs]: "VSTVEC_ADDR = 0x205"
definition VSSCRATCH_ADDR :: u32 where [csr_addrs]: "VSSCRATCH_ADDR = 0x240"
definition VSEPC_ADDR :: u32 where [csr_addrs]: "VSEPC_ADDR = 0x241"
definition VSCAUSE_ADDR :: u32 where [csr_addrs]: "VSCAUSE_ADDR = 0x242"
definition VSTVAL_ADDR :: u32 where [csr_addrs]: "VSTVAL_ADDR = 0x243"
definition VSTSP_ADDR :: u32 where [csr_addrs]: "VSTSP_ADDR = 0x6FF"
definition VSISELECT_ADDR :: u32 where [csr_addrs]: "VSISELECT_ADDR = 0x250"
definition VSISELECT_MASK :: u32 where [csr_addrs]: "VSISELECT_MASK = 0xFFF"
definition VSIREG_ADDR :: u32 where [csr_addrs]: "VSIREG_ADDR = 0x251"
definition VSIREG2_ADDR :: u32 where [csr_addrs]: "VSIREG2_ADDR = 0x252"
definition VSIREG3_ADDR :: u32 where [csr_addrs]: "VSIREG3_ADDR = 0x253"
definition VSIREG4_ADDR :: u32 where [csr_addrs]: "VSIREG4_ADDR = 0x255"
definition VSIREG5_ADDR :: u32 where [csr_addrs]: "VSIREG5_ADDR = 0x256"
definition VSIREG6_ADDR :: u32 where [csr_addrs]: "VSIREG6_ADDR = 0x257"
definition VSTOPI_ADDR :: u32 where [csr_addrs]: "VSTOPI_ADDR = 0xEB0"
definition VSTOPEI_ADDR :: u32 where [csr_addrs]: "VSTOPEI_ADDR = 0x25C"
definition VSMPUMASK_ADDR :: u32 where [csr_addrs]: "VSMPUMASK_ADDR = 0x228"
definition VSATP_ADDR :: u32 where [csr_addrs]: "VSATP_ADDR = 0x280"
definition FFLAGS_ADDR :: u32 where [csr_addrs]: "FFLAGS_ADDR = 0x001"
definition FRM_ADDR :: u32 where [csr_addrs]: "FRM_ADDR = 0x002"
definition FCSR_ADDR :: u32 where [csr_addrs]: "FCSR_ADDR = 0x003"
definition SMPUMASK_ADDR :: u32 where [csr_addrs]: "SMPUMASK_ADDR = 0x128"
definition MIE_ADDR :: u32 where [csr_addrs]: "MIE_ADDR = 0x304"
definition MIEH_ADDR :: u32 where [csr_addrs]: "MIEH_ADDR = 0x314"
definition SIE_ADDR :: u32 where [csr_addrs]: "SIE_ADDR = 0x104"
definition SIEH_ADDR :: u32 where [csr_addrs]: "SIEH_ADDR = 0x114"
definition HIE_ADDR :: u32 where [csr_addrs]: "HIE_ADDR = 0x604"
definition VSIE_ADDR :: u32 where [csr_addrs]: "VSIE_ADDR = 0x204"
definition VSIEH_ADDR :: u32 where [csr_addrs]: "VSIEH_ADDR = 0x214"
definition MIP_ADDR :: u32 where [csr_addrs]: "MIP_ADDR = 0x344"
definition MIPH_ADDR :: u32 where [csr_addrs]: "MIPH_ADDR = 0x354"
definition SIP_ADDR :: u32 where [csr_addrs]: "SIP_ADDR = 0x144"
definition SIPH_ADDR :: u32 where [csr_addrs]: "SIPH_ADDR = 0x154"
definition HIP_ADDR :: u32 where [csr_addrs]: "HIP_ADDR = 0x644"
definition VSIP_ADDR :: u32 where [csr_addrs]: "VSIP_ADDR = 0x244"
definition VSIPH_ADDR :: u32 where [csr_addrs]: "VSIPH_ADDR = 0x254"
definition MVIP_ADDR :: u32 where [csr_addrs]: "MVIP_ADDR = 0x309"
definition MVIPH_ADDR :: u32 where [csr_addrs]: "MVIPH_ADDR = 0x319"
definition MVIEN_ADDR :: u32 where [csr_addrs]: "MVIEN_ADDR = 0x308"
definition MVIENH_ADDR :: u32 where [csr_addrs]: "MVIENH_ADDR = 0x318"
definition HVIPH_ADDR :: u32 where [csr_addrs]: "HVIPH_ADDR = 0x655"
definition HVIEN_ADDR :: u32 where [csr_addrs]: "HVIEN_ADDR = 0x608"
definition HVIENH_ADDR :: u32 where [csr_addrs]: "HVIENH_ADDR = 0x618"
definition MIDELEG_ADDR :: u32 where [csr_addrs]: "MIDELEG_ADDR = 0x303"
definition MIDELEGH_ADDR :: u32 where [csr_addrs]: "MIDELEGH_ADDR = 0x313"
definition HIDELEG_ADDR :: u32 where [csr_addrs]: "HIDELEG_ADDR = 0x603"
definition HIDELEGH_ADDR :: u32 where [csr_addrs]: "HIDELEGH_ADDR = 0x613"
definition HGEIP_ADDR :: u32 where [csr_addrs]: "HGEIP_ADDR = 0xE12"
definition HGEIE_ADDR :: u32 where [csr_addrs]: "HGEIE_ADDR = 0x607"
definition HVICTL_ADDR :: u32 where [csr_addrs]: "HVICTL_ADDR = 0x609"
definition HVICTL_MASK :: u32 where [csr_addrs]: "HVICTL_MASK = 0b1000000111111110000001111111111"
definition MENVCFG_ADDR :: u32 where [csr_addrs]: "MENVCFG_ADDR = 0x30A"
definition MENVCFG_MASK :: u32 where [csr_addrs]: "MENVCFG_MASK = 0b1111110001"
definition SENVCFG_ADDR :: u32 where [csr_addrs]: "SENVCFG_ADDR = 0x10A"
definition SENVCFG_MASK :: u32 where [csr_addrs]: "SENVCFG_MASK = 0b111110001"
definition HENVCFG_ADDR :: u32 where [csr_addrs]: "HENVCFG_ADDR = 0x60A"
definition HENVCFG_MASK :: u32 where [csr_addrs]: "HENVCFG_MASK = 0b1111110001"
definition MENVCFGH_ADDR :: u32 where [csr_addrs]: "MENVCFGH_ADDR = 0x31A"
definition HENVCFGH_ADDR :: u32 where [csr_addrs]: "HENVCFGH_ADDR = 0x61A"
definition xENVCFGH_MASK_W_STSE :: u32 where [csr_addrs]: "xENVCFGH_MASK_W_STSE = 0xC0000000"
definition xENVCFGH_MASK_WO_STSE :: u32 where [csr_addrs]: "xENVCFGH_MASK_WO_STSE = 0x40000000"
definition HTIMEDELTA_ADDR :: u32 where [csr_addrs]: "HTIMEDELTA_ADDR = 0x605"
definition HTIMEDELTAH_ADDR :: u32 where [csr_addrs]: "HTIMEDELTAH_ADDR = 0x615"
definition STIMECMP_ADDR :: u32 where [csr_addrs]: "STIMECMP_ADDR = 0x14D"
definition STIMECMPH_ADDR :: u32 where [csr_addrs]: "STIMECMPH_ADDR = 0x15D"
definition VSTIMECMP_ADDR :: u32 where [csr_addrs]: "VSTIMECMP_ADDR = 0x24D"
definition VSTIMECMPH_ADDR :: u32 where [csr_addrs]: "VSTIMECMPH_ADDR = 0x25D"
definition icsr_addr_iprio0 :: u32 where [csr_addrs]: "icsr_addr_iprio0 = 0x30"
definition HVIPRIO1_ADDR :: u32 where [csr_addrs]: "HVIPRIO1_ADDR = 0x646"
definition HVIPRIO1H_ADDR :: u32 where [csr_addrs]: "HVIPRIO1H_ADDR = 0x656"
definition HVIPRIO2_ADDR :: u32 where [csr_addrs]: "HVIPRIO2_ADDR = 0x647"
definition HVIPRIO2H_ADDR :: u32 where [csr_addrs]: "HVIPRIO2H_ADDR = 0x657"
definition icsr_addr_eidelivery :: u32 where [csr_addrs]: "icsr_addr_eidelivery = 0x70"
definition icsr_addr_eithreshold :: u32 where [csr_addrs]: "icsr_addr_eithreshold = 0x72"
definition icsr_addr_eip0 :: u32 where [csr_addrs]: "icsr_addr_eip0 = 0x80"
definition icsr_addr_eie0 :: u32 where [csr_addrs]: "icsr_addr_eie0 = 0xC0"

text \<open>Numbered constants: the constant of number \<open>n\<close> of a contiguous group.\<close>

definition HPMCOUNTER_ADDR :: "nat \<Rightarrow> u32" where [csr_addrs]: "HPMCOUNTER_ADDR n = 0xC00 + of_nat n"
definition HPMCOUNTERH_ADDR :: "nat \<Rightarrow> u32" where [csr_addrs]: "HPMCOUNTERH_ADDR n = 0xC80 + of_nat n"
definition MHPMCOUNTER_ADDR :: "nat \<Rightarrow> u32" where [csr_addrs]: "MHPMCOUNTER_ADDR n = 0xB00 + of_nat n"
definition MHPMCOUNTERH_ADDR :: "nat \<Rightarrow> u32" where [csr_addrs]: "MHPMCOUNTERH_ADDR n = 0xB80 + of_nat n"
definition MHPMEVENT_ADDR :: "nat \<Rightarrow> u32" where [csr_addrs]: "MHPMEVENT_ADDR n = 0x320 + of_nat n"
definition PMPCFG_ADDR :: "nat \<Rightarrow> u32" where [csr_addrs]: "PMPCFG_ADDR n = 0x3A0 + of_nat n"
definition PMPADDR_ADDR :: "nat \<Rightarrow> u32" where [csr_addrs]: "PMPADDR_ADDR n = 0x3B0 + of_nat n"
definition SPMPCFG_ADDR :: "nat \<Rightarrow> u32" where [csr_addrs]: "SPMPCFG_ADDR n = 0x1A0 + of_nat n"
definition SPMPADDR_ADDR :: "nat \<Rightarrow> u32" where [csr_addrs]: "SPMPADDR_ADDR n = 0x1B0 + of_nat n"
definition SPMPSWITCH_ADDR :: "nat \<Rightarrow> u32" where [csr_addrs]: "SPMPSWITCH_ADDR n = 0x170 + of_nat n"
definition icsr_addr_smpuaddr :: "nat \<Rightarrow> u32" where [csr_addrs]: "icsr_addr_smpuaddr n = 0x100 + 2 * of_nat n"
definition icsr_addr_smpuconf :: "nat \<Rightarrow> u32" where [csr_addrs]: "icsr_addr_smpuconf n = 0x101 + 2 * of_nat n"
definition icsr_addr_hmpuaddr :: "nat \<Rightarrow> u32" where [csr_addrs]: "icsr_addr_hmpuaddr n = 0x180 + 2 * of_nat n"
definition icsr_addr_hmpuconf :: "nat \<Rightarrow> u32" where [csr_addrs]: "icsr_addr_hmpuconf n = 0x181 + 2 * of_nat n"

section \<open>Fields\<close>

definition misa_extensions :: "u32 \<Rightarrow> u32" where [csr_fields]: "misa_extensions = get_field 0 26"
definition set_misa_extensions :: "u32 \<Rightarrow> u32 \<Rightarrow> u32" where [csr_fields]: "set_misa_extensions = set_field 0 26"
definition misa_mxl :: "u32 \<Rightarrow> u32" where [csr_fields]: "misa_mxl = get_field 30 2"
definition set_misa_mxl :: "u32 \<Rightarrow> u32 \<Rightarrow> u32" where [csr_fields]: "set_misa_mxl = set_field 30 2"
definition mstatus_sie :: "u32 \<Rightarrow> u32" where [csr_fields]: "mstatus_sie = get_field 1 1"
definition set_mstatus_sie :: "u32 \<Rightarrow> u32 \<Rightarrow> u32" where [csr_fields]: "set_mstatus_sie = set_field 1 1"
definition mstatus_mie :: "u32 \<Rightarrow> u32" where [csr_fields]: "mstatus_mie = get_field 3 1"
definition set_mstatus_mie :: "u32 \<Rightarrow> u32 \<Rightarrow> u32" where [csr_fields]: "set_mstatus_mie = set_field 3 1"
definition mstatus_spie :: "u32 \<Rightarrow> u32" where [csr_fields]: "mstatus_spie = get_field 5 1"
definition set_mstatus_spie :: "u32 \<Rightarrow> u32 \<Rightarrow> u32" where [csr_fields]: "set_mstatus_spie = set_field 5 1"
definition mstatus_ube :: "u32 \<Rightarrow> u32" where [csr_fields]: "mstatus_ube = get_field 6 1"
definition mstatus_mpie :: "u32 \<Rightarrow> u32" where [csr_fields]: "mstatus_mpie = get_field 7 1"
definition set_mstatus_mpie :: "u32 \<Rightarrow> u32 \<Rightarrow> u32" where [csr_fields]: "set_mstatus_mpie = set_field 7 1"
definition mstatus_spp :: "u32 \<Rightarrow> u32" where [csr_fields]: "mstatus_spp = get_field 8 1"
definition set_mstatus_spp :: "u32 \<Rightarrow> u32 \<Rightarrow> u32" where [csr_fields]: "set_mstatus_spp = set_field 8 1"
definition mstatus_vs :: "u32 \<Rightarrow> u32" where [csr_fields]: "mstatus_vs = get_field 9 2"
definition mstatus_mpp :: "u32 \<Rightarrow> u32" where [csr_fields]: "mstatus_mpp = get_field 11 2"
definition set_mstatus_mpp :: "u32 \<Rightarrow> u32 \<Rightarrow> u32" where [csr_fields]: "set_mstatus_mpp = set_field 11 2"
definition mstatus_fs :: "u32 \<Rightarrow> u32" where [csr_fields]: "mstatus_fs = get_field 13 2"
definition set_mstatus_fs :: "u32 \<Rightarrow> u32 \<Rightarrow> u32" where [csr_fields]: "set_mstatus_fs = set_field 13 2"
definition mstatus_xs :: "u32 \<Rightarrow> u32" where [csr_fields]: "mstatus_xs = get_field 15 2"
definition mstatus_mprv :: "u32 \<Rightarrow> u32" where [csr_fields]: "mstatus_mprv = get_field 17 1"
definition set_mstatus_mprv :: "u32 \<Rightarrow> u32 \<Rightarrow> u32" where [csr_fields]: "set_mstatus_mprv = set_field 17 1"
definition mstatus_sum :: "u32 \<Rightarrow> u32" where [csr_fields]: "mstatus_sum = get_field 18 1"
definition mstatus_mxr :: "u32 \<Rightarrow> u32" where [csr_fields]: "mstatus_mxr = get_field 19 1"
definition mstatus_tvm :: "u32 \<Rightarrow> u32" where [csr_fields]: "mstatus_tvm = get_field 20 1"
definition mstatus_tw :: "u32 \<Rightarrow> u32" where [csr_fields]: "mstatus_tw = get_field 21 1"
definition mstatus_tsr :: "u32 \<Rightarrow> u32" where [csr_fields]: "mstatus_tsr = get_field 22 1"
definition mstatus_sd :: "u32 \<Rightarrow> u32" where [csr_fields]: "mstatus_sd = get_field 31 1"
definition set_mstatus_sd :: "u32 \<Rightarrow> u32 \<Rightarrow> u32" where [csr_fields]: "set_mstatus_sd = set_field 31 1"
definition vsstatus_sie :: "u32 \<Rightarrow> u32" where [csr_fields]: "vsstatus_sie = get_field 1 1"
definition set_vsstatus_sie :: "u32 \<Rightarrow> u32 \<Rightarrow> u32" where [csr_fields]: "set_vsstatus_sie = set_field 1 1"
definition vsstatus_spie :: "u32 \<Rightarrow> u32" where [csr_fields]: "vsstatus_spie = get_field 5 1"
definition set_vsstatus_spie :: "u32 \<Rightarrow> u32 \<Rightarrow> u32" where [csr_fields]: "set_vsstatus_spie = set_field 5 1"
definition vsstatus_ube :: "u32 \<Rightarrow> u32" where [csr_fields]: "vsstatus_ube = get_field 6 1"
definition vsstatus_spp :: "u32 \<Rightarrow> u32" where [csr_fields]: "vsstatus_spp = get_field 8 1"
definition set_vsstatus_spp :: "u32 \<Rightarrow> u32 \<Rightarrow> u32" where [csr_fields]: "set_vsstatus_spp = set_field 8 1"
definition vsstatus_vs :: "u32 \<Rightarrow> u32" where [csr_fields]: "vsstatus_vs = get_field 9 2"
definition vsstatus_fs :: "u32 \<Rightarrow> u32" where [csr_fields]: "vsstatus_fs = get_field 13 2"
definition vsstatus_xs :: "u32 \<Rightarrow> u32" where [csr_fields]: "vsstatus_xs = get_field 15 2"
definition vsstatus_sum :: "u32 \<Rightarrow> u32" where [csr_fields]: "vsstatus_sum = get_field 18 1"
definition vsstatus_mxr :: "u32 \<Rightarrow> u32" where [csr_fields]: "vsstatus_mxr = get_field 19 1"
definition vsstatus_sd :: "u32 \<Rightarrow> u32" where [csr_fields]: "vsstatus_sd = get_field 31 1"
definition mstatush_sbe :: "u32 \<Rightarrow> u32" where [csr_fields]: "mstatush_sbe = get_field 4 1"
definition mstatush_mbe :: "u32 \<Rightarrow> u32" where [csr_fields]: "mstatush_mbe = get_field 5 1"
definition mstatush_gva :: "u32 \<Rightarrow> u32" where [csr_fields]: "mstatush_gva = get_field 6 1"
definition mstatush_mpv :: "u32 \<Rightarrow> u32" where [csr_fields]: "mstatush_mpv = get_field 7 1"
definition set_mstatush_mpv :: "u32 \<Rightarrow> u32 \<Rightarrow> u32" where [csr_fields]: "set_mstatush_mpv = set_field 7 1"
definition hstatus_vsbe :: "u32 \<Rightarrow> u32" where [csr_fields]: "hstatus_vsbe = get_field 5 1"
definition hstatus_gva :: "u32 \<Rightarrow> u32" where [csr_fields]: "hstatus_gva = get_field 6 1"
definition hstatus_spv :: "u32 \<Rightarrow> u32" where [csr_fields]: "hstatus_spv = get_field 7 1"
definition set_hstatus_spv :: "u32 \<Rightarrow> u32 \<Rightarrow> u32" where [csr_fields]: "set_hstatus_spv = set_field 7 1"
definition hstatus_spvp :: "u32 \<Rightarrow> u32" where [csr_fields]: "hstatus_spvp = get_field 8 1"
definition set_hstatus_spvp :: "u32 \<Rightarrow> u32 \<Rightarrow> u32" where [csr_fields]: "set_hstatus_spvp = set_field 8 1"
definition hstatus_hu :: "u32 \<Rightarrow> u32" where [csr_fields]: "hstatus_hu = get_field 9 1"
definition hstatus_vgein :: "u32 \<Rightarrow> u32" where [csr_fields]: "hstatus_vgein = get_field 12 6"
definition set_hstatus_vgein :: "u32 \<Rightarrow> u32 \<Rightarrow> u32" where [csr_fields]: "set_hstatus_vgein = set_field 12 6"
definition hstatus_vsum :: "u32 \<Rightarrow> u32" where [csr_fields]: "hstatus_vsum = get_field 18 1"
definition hstatus_vtvm :: "u32 \<Rightarrow> u32" where [csr_fields]: "hstatus_vtvm = get_field 20 1"
definition hstatus_vtw :: "u32 \<Rightarrow> u32" where [csr_fields]: "hstatus_vtw = get_field 21 1"
definition hstatus_vtsr :: "u32 \<Rightarrow> u32" where [csr_fields]: "hstatus_vtsr = get_field 22 1"
definition mtvec_mode :: "u32 \<Rightarrow> u32" where [csr_fields]: "mtvec_mode = get_field 0 2"
definition set_mtvec_mode :: "u32 \<Rightarrow> u32 \<Rightarrow> u32" where [csr_fields]: "set_mtvec_mode = set_field 0 2"
definition mtvec_base :: "u32 \<Rightarrow> u32" where [csr_fields]: "mtvec_base = get_field 2 30"
definition mcause_exception_code :: "u32 \<Rightarrow> u32" where [csr_fields]: "mcause_exception_code = get_field 0 31"
definition set_mcause_exception_code :: "u32 \<Rightarrow> u32 \<Rightarrow> u32" where [csr_fields]: "set_mcause_exception_code = set_field 0 31"
definition mcause_interrupt :: "u32 \<Rightarrow> u32" where [csr_fields]: "mcause_interrupt = get_field 31 1"
definition set_mcause_interrupt :: "u32 \<Rightarrow> u32 \<Rightarrow> u32" where [csr_fields]: "set_mcause_interrupt = set_field 31 1"
definition mcounteren_CY :: "u32 \<Rightarrow> u32" where [csr_fields]: "mcounteren_CY = get_field 0 1"
definition mcounteren_TM :: "u32 \<Rightarrow> u32" where [csr_fields]: "mcounteren_TM = get_field 1 1"
definition mcounteren_IR :: "u32 \<Rightarrow> u32" where [csr_fields]: "mcounteren_IR = get_field 2 1"
definition mcountinhibit_CY :: "u32 \<Rightarrow> u32" where [csr_fields]: "mcountinhibit_CY = get_field 0 1"
definition mcountinhibit_IR :: "u32 \<Rightarrow> u32" where [csr_fields]: "mcountinhibit_IR = get_field 2 1"
definition satp_ppn :: "u32 \<Rightarrow> u32" where [csr_fields]: "satp_ppn = get_field 0 22"
definition satp_asid :: "u32 \<Rightarrow> u32" where [csr_fields]: "satp_asid = get_field 22 9"
definition satp_mode :: "u32 \<Rightarrow> u32" where [csr_fields]: "satp_mode = get_field 31 1"
definition hgatp_ppn :: "u32 \<Rightarrow> u32" where [csr_fields]: "hgatp_ppn = get_field 0 22"
definition hgatp_vmid :: "u32 \<Rightarrow> u32" where [csr_fields]: "hgatp_vmid = get_field 22 7"
definition hgatp_mode :: "u32 \<Rightarrow> u32" where [csr_fields]: "hgatp_mode = get_field 31 1"
definition fcsr_fflags :: "u32 \<Rightarrow> u32" where [csr_fields]: "fcsr_fflags = get_field 0 5"
definition set_fcsr_fflags :: "u32 \<Rightarrow> u32 \<Rightarrow> u32" where [csr_fields]: "set_fcsr_fflags = set_field 0 5"
definition fcsr_frm :: "u32 \<Rightarrow> u32" where [csr_fields]: "fcsr_frm = get_field 5 3"
definition set_fcsr_frm :: "u32 \<Rightarrow> u32 \<Rightarrow> u32" where [csr_fields]: "set_fcsr_frm = set_field 5 3"
definition fcsr_NX :: "u32 \<Rightarrow> u32" where [csr_fields]: "fcsr_NX = get_field 0 1"
definition fcsr_UF :: "u32 \<Rightarrow> u32" where [csr_fields]: "fcsr_UF = get_field 1 1"
definition fcsr_OF :: "u32 \<Rightarrow> u32" where [csr_fields]: "fcsr_OF = get_field 2 1"
definition fcsr_DZ :: "u32 \<Rightarrow> u32" where [csr_fields]: "fcsr_DZ = get_field 3 1"
definition fcsr_NV :: "u32 \<Rightarrow> u32" where [csr_fields]: "fcsr_NV = get_field 4 1"
definition topi_iprio :: "u32 \<Rightarrow> u32" where [csr_fields]: "topi_iprio = get_field 0 8"
definition set_topi_iprio :: "u32 \<Rightarrow> u32 \<Rightarrow> u32" where [csr_fields]: "set_topi_iprio = set_field 0 8"
definition topi_iid :: "u32 \<Rightarrow> u32" where [csr_fields]: "topi_iid = get_field 16 6"
definition set_topi_iid :: "u32 \<Rightarrow> u32 \<Rightarrow> u32" where [csr_fields]: "set_topi_iid = set_field 16 6"
definition topei_iprio :: "u32 \<Rightarrow> u32" where [csr_fields]: "topei_iprio = get_field 0 8"
definition set_topei_iprio :: "u32 \<Rightarrow> u32 \<Rightarrow> u32" where [csr_fields]: "set_topei_iprio = set_field 0 8"
definition topei_iid :: "u32 \<Rightarrow> u32" where [csr_fields]: "topei_iid = get_field 16 12"
definition set_topei_iid :: "u32 \<Rightarrow> u32 \<Rightarrow> u32" where [csr_fields]: "set_topei_iid = set_field 16 12"
definition hvictl_iprio :: "u32 \<Rightarrow> u32" where [csr_fields]: "hvictl_iprio = get_field 0 8"
definition hvictl_ipriom :: "u32 \<Rightarrow> u32" where [csr_fields]: "hvictl_ipriom = get_field 8 1"
definition hvictl_dpr :: "u32 \<Rightarrow> u32" where [csr_fields]: "hvictl_dpr = get_field 9 1"
definition hvictl_iid :: "u32 \<Rightarrow> u32" where [csr_fields]: "hvictl_iid = get_field 16 12"
definition hvictl_vti :: "u32 \<Rightarrow> u32" where [csr_fields]: "hvictl_vti = get_field 30 1"
definition menvcfg_fiom :: "u32 \<Rightarrow> u32" where [csr_fields]: "menvcfg_fiom = get_field 0 1"
definition menvcfg_cbie :: "u32 \<Rightarrow> u32" where [csr_fields]: "menvcfg_cbie = get_field 4 2"
definition menvcfg_cbcfe :: "u32 \<Rightarrow> u32" where [csr_fields]: "menvcfg_cbcfe = get_field 6 1"
definition menvcfg_cbze :: "u32 \<Rightarrow> u32" where [csr_fields]: "menvcfg_cbze = get_field 7 1"
definition menvcfg_mtsp :: "u32 \<Rightarrow> u32" where [csr_fields]: "menvcfg_mtsp = get_field 8 1"
definition senvcfg_fiom :: "u32 \<Rightarrow> u32" where [csr_fields]: "senvcfg_fiom = get_field 0 1"
definition senvcfg_cbie :: "u32 \<Rightarrow> u32" where [csr_fields]: "senvcfg_cbie = get_field 4 2"
definition senvcfg_cbcfe :: "u32 \<Rightarrow> u32" where [csr_fields]: "senvcfg_cbcfe = get_field 6 1"
definition senvcfg_cbze :: "u32 \<Rightarrow> u32" where [csr_fields]: "senvcfg_cbze = get_field 7 1"
definition senvcfg_stsp :: "u32 \<Rightarrow> u32" where [csr_fields]: "senvcfg_stsp = get_field 8 1"
definition henvcfg_fiom :: "u32 \<Rightarrow> u32" where [csr_fields]: "henvcfg_fiom = get_field 0 1"
definition henvcfg_cbie :: "u32 \<Rightarrow> u32" where [csr_fields]: "henvcfg_cbie = get_field 4 2"
definition henvcfg_cbcfe :: "u32 \<Rightarrow> u32" where [csr_fields]: "henvcfg_cbcfe = get_field 6 1"
definition henvcfg_cbze :: "u32 \<Rightarrow> u32" where [csr_fields]: "henvcfg_cbze = get_field 7 1"
definition henvcfg_htsp :: "u32 \<Rightarrow> u32" where [csr_fields]: "henvcfg_htsp = get_field 8 1"
definition henvcfg_vgtsp :: "u32 \<Rightarrow> u32" where [csr_fields]: "henvcfg_vgtsp = get_field 9 1"
definition xenvcfgh_pbmte :: "u32 \<Rightarrow> u32" where [csr_fields]: "xenvcfgh_pbmte = get_field 30 1"
definition xenvcfgh_stce :: "u32 \<Rightarrow> u32" where [csr_fields]: "xenvcfgh_stce = get_field 31 1"
definition set_xenvcfgh_stce :: "u32 \<Rightarrow> u32 \<Rightarrow> u32" where [csr_fields]: "set_xenvcfgh_stce = set_field 31 1"
definition eidelivery_delivery :: "u32 \<Rightarrow> u32" where [csr_fields]: "eidelivery_delivery = get_field 0 1"
definition set_misa_wiri :: "u32 \<Rightarrow> u32 \<Rightarrow> u32" where [csr_fields]: "set_misa_wiri = set_field 26 4"

end
