(* ===== verification/VP_Irq_Prio.thy ===== *)
theory VP_Irq_Prio
  imports VP_Core_Defs VP_Bitfield
begin

text \<open>
  Priorities of major interrupts (\<^verbatim>\<open>core/rv32/irq-prio.h\<close>, \<^verbatim>\<open>core/rv32/irq-helpers.h\<close>): the default order
  of the 64 major interrupt numbers, the translation between the VS-level and S-level
  numbers, and the comparable priority \<^verbatim>\<open>irq_cprio\<close>, a 32-bit union whose numeric order is the
  order of interrupts. The lemmas show that the order table is a permutation, that the two
  translations are mutually inverse, and that the numeric order of priorities is the
  lexicographic one; \<open>select_loop\<close> is the loop of \<^verbatim>\<open>ISS::major_irq_prepare_iid_prio\<close> over any
  priority function, and returns the unique pending interrupt of the least priority.
\<close>

section \<open>Minor interrupt identities (irq-helpers.h)\<close>

definition is_upper_bound_valid_minor_iid :: "u32 \<Rightarrow> bool" where
  "is_upper_bound_valid_minor_iid minor_iid = (if minor_iid \<ge> IMSIC_MAX_IRQS then False else True)"

definition is_valid_minor_iid :: "u32 \<Rightarrow> bool" where
  "is_valid_minor_iid minor_iid =
     (if minor_iid \<ge> IMSIC_MAX_IRQS then False
      else if minor_iid = 0 then False
      else True)"

definition minor_iid_correct_top :: "u32 \<Rightarrow> u32" where
  "minor_iid_correct_top minor_iid =
     (if minor_iid \<ge> IMSIC_MAX_IRQS then IMSIC_MAX_IRQS - 1 else minor_iid)"

section \<open>Default order of major interrupts\<close>

definition MAX_INTERRUPTS_NUM :: u32 where [core_consts]: "MAX_INTERRUPTS_NUM = 64"
definition ORDER_MIN :: u8 where [core_consts]: "ORDER_MIN = 63"
definition ORDER_MAX :: u8 where [core_consts]: "ORDER_MAX = 0"

text \<open>The assignments of \<^verbatim>\<open>create_order\<close> in their order: index, value.\<close>

definition order_assignments :: "(u32 \<times> u8) list" where
  "order_assignments =
    [(47, 0), (EXC_BUS_SYSTEM_ERROR_INTERRUPT, 1), (46, 2), (EXC_HP_OT_EVENT_INTERRUPT, 3),
     (22, 4), (44, 5), (EXC_HIGH_PRIO_RAS_INTERRUPT, 6), (21, 7), (42, 8), (41, 9), (20, 10),
     (40, 11), (EXC_M_EXTERNAL_INTERRUPT, 12), (EXC_M_SOFTWARE_INTERRUPT, 13),
     (EXC_M_TIMER_INTERRUPT, 14), (EXC_S_EXTERNAL_INTERRUPT, 15),
     (EXC_S_SOFTWARE_INTERRUPT, 16), (EXC_S_TIMER_INTERRUPT, 17),
     (EXC_S_GUEST_EXTERNAL_INTERRUPT, 18), (EXC_VS_EXTERNAL_INTERRUPT, 19),
     (EXC_VS_SOFTWARE_INTERRUPT, 20), (EXC_VS_TIMER_INTERRUPT, 21),
     (EXC_COUNTER_OVREFLOW_INTERRUPT, 22), (39, 23), (19, 24), (38, 25), (37, 26), (18, 27),
     (36, 28), (EXC_LOW_PRIO_RAS_INTERRUPT, 29), (EXC_DEBUG_TRACE_INTERRUPT, 30), (34, 31),
     (33, 32), (16, 33), (32, 34), (24, 35), (25, 36), (26, 37), (27, 38), (28, 39), (29, 40),
     (30, 41), (31, 42), (EXC_WDT_INTERRUPT, 43), (49, 44), (50, 45), (51, 46), (52, 47),
     (53, 48), (54, 49), (55, 50), (56, 51), (57, 52), (58, 53), (59, 54), (60, 55), (61, 56),
     (62, 57), (63, 58), (0, 59), (4, 60), (8, 61), (14, 62), (15, 63)]"

definition create_order :: "u8 list" where
  "create_order =
     fold (\<lambda>(i, v) ord. ord[unat i := v]) order_assignments (replicate (unat MAX_INTERRUPTS_NUM) 0)"

datatype dpo = DPO_0_HIGHER_THAN_EXT | DPO_1_LOWER_THAN_EXT

definition dpo_value :: "dpo \<Rightarrow> u32" where
  "dpo_value d = (case d of DPO_0_HIGHER_THAN_EXT \<Rightarrow> 0 | DPO_1_LOWER_THAN_EXT \<Rightarrow> 1)"

definition major_is_valid :: "u32 \<Rightarrow> bool" where
  "major_is_valid iid \<longleftrightarrow> iid < MAX_INTERRUPTS_NUM"

definition is_upper_bound_valid :: "u32 \<Rightarrow> bool" where
  "is_upper_bound_valid iid \<longleftrightarrow> iid < MAX_INTERRUPTS_NUM"

definition to_order :: "u32 \<Rightarrow> u8 res" where
  "to_order iid = assert_that (iid < MAX_INTERRUPTS_NUM) (Inr (create_order ! unat iid))"

definition is_external_iid :: "u32 \<Rightarrow> bool" where
  "is_external_iid iid \<longleftrightarrow>
     iid = EXC_M_EXTERNAL_INTERRUPT \<or> iid = EXC_S_EXTERNAL_INTERRUPT \<or> iid = EXC_VS_EXTERNAL_INTERRUPT"

definition get_external_iid :: "PrivilegeLevel \<Rightarrow> u32 res" where
  "get_external_iid target_level =
     (if target_level = MachineMode then Inr EXC_M_EXTERNAL_INTERRUPT
      else if target_level = SupervisorMode then Inr EXC_S_EXTERNAL_INTERRUPT
      else if target_level = VirtualSupervisorMode then Inr EXC_VS_EXTERNAL_INTERRUPT
      else Inl AssertFailed)"

definition get_dpo :: "PrivilegeLevel \<Rightarrow> u32 \<Rightarrow> dpo res" where
  "get_dpo target_level iid =
     assert_that (major_is_valid iid)
      (bind_res (get_external_iid target_level) (\<lambda>target_level_external_irq.
       bind_res (to_order target_level_external_irq) (\<lambda>external_irq_order.
       bind_res (to_order iid) (\<lambda>lookup_irq_order.
         if lookup_irq_order < external_irq_order then Inr DPO_0_HIGHER_THAN_EXT
         else if lookup_irq_order = external_irq_order then Inl AssertFailed
         else Inr DPO_1_LOWER_THAN_EXT))))"

definition transform_vs_to_s :: "u32 \<Rightarrow> u32 res" where
  "transform_vs_to_s vs_iid =
     assert_that (major_is_valid vs_iid)
      (if vs_iid = EXC_VS_EXTERNAL_INTERRUPT then Inr EXC_S_EXTERNAL_INTERRUPT
       else if vs_iid = EXC_VS_TIMER_INTERRUPT then Inr EXC_S_TIMER_INTERRUPT
       else if vs_iid = EXC_VS_SOFTWARE_INTERRUPT then Inr EXC_S_SOFTWARE_INTERRUPT
       else if vs_iid > EXC_M_EXTERNAL_INTERRUPT then Inr vs_iid
       else Inl AssertFailed)"

definition transform_s_to_vs :: "u32 \<Rightarrow> (bool \<times> u32) res" where
  "transform_s_to_vs s_iid =
     assert_that (major_is_valid s_iid)
      (if s_iid = EXC_S_EXTERNAL_INTERRUPT then Inr (True, EXC_VS_EXTERNAL_INTERRUPT)
       else if s_iid = EXC_S_TIMER_INTERRUPT then Inr (True, EXC_VS_TIMER_INTERRUPT)
       else if s_iid = EXC_S_SOFTWARE_INTERRUPT then Inr (True, EXC_VS_SOFTWARE_INTERRUPT)
       else if s_iid > EXC_M_EXTERNAL_INTERRUPT then Inr (True, s_iid)
       else Inr (False, 0))"

section \<open>Comparable priorities\<close>

type_synonym irq_cprio = u32

definition cprio_order :: "irq_cprio \<Rightarrow> u32" where "cprio_order = get_field 0 8"
definition cprio_iprio :: "irq_cprio \<Rightarrow> u32" where "cprio_iprio = get_field 8 16"
definition cprio_dpr_0 :: "irq_cprio \<Rightarrow> u32" where "cprio_dpr_0 = get_field 24 1"
definition cprio_lowest_nonexisting :: "irq_cprio \<Rightarrow> u32" where
  "cprio_lowest_nonexisting = get_field 25 1"

definition set_cprio_order :: "u32 \<Rightarrow> irq_cprio \<Rightarrow> irq_cprio" where "set_cprio_order = set_field 0 8"
definition set_cprio_iprio :: "u32 \<Rightarrow> irq_cprio \<Rightarrow> irq_cprio" where "set_cprio_iprio = set_field 8 16"
definition set_cprio_dpr_0 :: "u32 \<Rightarrow> irq_cprio \<Rightarrow> irq_cprio" where "set_cprio_dpr_0 = set_field 24 1"
definition set_cprio_lowest_nonexisting :: "u32 \<Rightarrow> irq_cprio \<Rightarrow> irq_cprio" where
  "set_cprio_lowest_nonexisting = set_field 25 1"

definition irq_cprio_nonexisting :: irq_cprio where
  "irq_cprio_nonexisting = set_cprio_lowest_nonexisting 1 0"

definition irq_cprio_external :: "PrivilegeLevel \<Rightarrow> u32 \<Rightarrow> irq_cprio res" where
  "irq_cprio_external level eiid =
     assert_that (is_irq_capable_level level)
      (assert_that (is_upper_bound_valid_minor_iid eiid)
        (bind_res (get_external_iid level) (\<lambda>iid.
         bind_res (to_order iid) (\<lambda>ord.
           Inr (set_cprio_order (ucast ord) (set_cprio_iprio eiid 0))))))"

definition irq_cprio_local :: "PrivilegeLevel \<Rightarrow> u32 \<Rightarrow> u8 \<Rightarrow> irq_cprio res" where
  "irq_cprio_local level iid iprio =
     assert_that (is_irq_capable_level level)
      (bind_res (to_order iid) (\<lambda>ord.
        let c = set_cprio_order (ucast ord) (set_cprio_iprio (ucast iprio) 0) in
        if cprio_iprio c = 0
        then bind_res (get_dpo level iid) (\<lambda>d. Inr (set_cprio_dpr_0 (dpo_value d) c))
        else Inr c))"

definition irq_cprio_injected :: "PrivilegeLevel \<Rightarrow> u32 \<Rightarrow> u8 \<Rightarrow> bool \<Rightarrow> irq_cprio res" where
  "irq_cprio_injected level iid iprio dpr =
     assert_that (is_irq_capable_level level)
      (Inr (set_cprio_order (ucast (if dpr then ORDER_MIN else ORDER_MAX)) (set_cprio_iprio (ucast iprio) 0)))"

definition is_non_existing :: "irq_cprio \<Rightarrow> bool" where
  "is_non_existing c \<longleftrightarrow> cprio_lowest_nonexisting c \<noteq> 0"

definition to_iprio :: "irq_cprio \<Rightarrow> u8 res" where
  "to_iprio c =
     assert_that (\<not> is_non_existing c)
      (if cprio_iprio c \<ge> 1 \<and> cprio_iprio c \<le> 255 then Inr (ucast (cprio_iprio c))
       else if cprio_iprio c > 255 then Inr 255
       else if cprio_iprio c = 0 then
         (if cprio_dpr_0 c = dpo_value DPO_0_HIGHER_THAN_EXT then Inr 0 else Inr 255)
       else Inl AssertFailed)"

definition cprio_less :: "irq_cprio \<Rightarrow> irq_cprio \<Rightarrow> bool" where
  "cprio_less c other \<longleftrightarrow> c < other"

definition cprio_equal :: "irq_cprio \<Rightarrow> irq_cprio \<Rightarrow> bool" where
  "cprio_equal c other \<longleftrightarrow> c = other"

text \<open>
  The loop of \<^verbatim>\<open>major_irq_prepare_iid_prio\<close> over the interrupt numbers that are left, for a
  priority function \<open>prio\<close> (\<^verbatim>\<open>major_irq_to_prio\<close> of the level): the best priority so far and its
  interrupt number.
\<close>

fun select_loop :: "(u32 \<Rightarrow> irq_cprio res) \<Rightarrow> u64 \<Rightarrow> nat list \<Rightarrow> irq_cprio \<times> u32 \<Rightarrow> (irq_cprio \<times> u32) res" where
  "select_loop prio pending [] best = Inr best"
| "select_loop prio pending (i # is) (cprio, iid) =
     (if pending AND BIT i \<noteq> 0
      then bind_res (prio (of_nat i)) (\<lambda>new_cprio.
        select_loop prio pending is
          (if cprio_less new_cprio cprio then (new_cprio, of_nat i) else (cprio, iid)))
      else select_loop prio pending is (cprio, iid))"

definition prepare_iid_prio :: "(u32 \<Rightarrow> irq_cprio res) \<Rightarrow> u64 \<Rightarrow> (u32 \<times> u8) res" where
  "prepare_iid_prio prio pending =
     bind_res (select_loop prio pending [0..<unat MAX_INTERRUPTS_NUM] (irq_cprio_nonexisting, 0))
      (\<lambda>(cprio, iid).
        if is_non_existing cprio then Inl (RuntimeError ''some pending interrupt must be available here'')
        else bind_res (to_iprio cprio) (\<lambda>p. Inr (iid, p)))"

section \<open>The order table\<close>

lemma create_order_values:
  "create_order =
    [59, 16, 20, 13, 60, 17, 21, 14, 61, 15, 19, 12, 18, 22, 62, 63, 33, 30, 27, 24, 10, 7, 4, 1,
     35, 36, 37, 38, 39, 40, 41, 42, 34, 32, 31, 29, 28, 26, 25, 23, 11, 9, 8, 6, 5, 3, 2, 0,
     43, 44, 45, 46, 47, 48, 49, 50, 51, 52, 53, 54, 55, 56, 57, 58]"
  by (simp add: create_order_def order_assignments_def core_consts replicate_numeral list_update_numeral)

lemma length_create_order [simp]: "length create_order = 64"
  by (simp add: create_order_values)

lemma distinct_create_order: "distinct create_order"
  by (simp add: create_order_values)

lemma set_create_order: "set create_order = {0..63}"
proof (rule card_subset_eq)
  show "set create_order \<subseteq> {0..63}"
    by (simp add: create_order_values)
  have "card (set create_order) = 64"
    using distinct_card [OF distinct_create_order] by simp
  moreover have "card {0..63 :: u8} = 64"
  proof -
    have "{0..63 :: u8} = of_nat ` {0..<64}"
    proof (intro equalityI subsetI)
      fix x :: u8
      assume "x \<in> {0..63}"
      then have "unat x \<in> {0..<64}"
        by (simp add: word_le_nat_alt)
      then show "x \<in> of_nat ` {0..<64}"
        by (intro image_eqI [where x = "unat x"]) simp_all
    qed (auto simp: word_le_nat_alt unat_of_nat)
    moreover have "inj_on (of_nat :: nat \<Rightarrow> u8) {0..<64}"
      by (rule inj_onI) (auto dest!: arg_cong [where f = unat] simp: unat_of_nat)
    ultimately show ?thesis by (simp add: card_image)
  qed
  ultimately show "card (set create_order) = card {0..63 :: u8}" by simp
qed simp

lemma to_order_valid: "major_is_valid iid \<Longrightarrow> to_order iid = Inr (create_order ! unat iid)"
  by (simp add: to_order_def major_is_valid_def)

lemma unat_major: "major_is_valid iid \<longleftrightarrow> unat iid < 64"
  by (simp add: major_is_valid_def core_consts word_less_nat_alt)

lemma order_bound: "i < 64 \<Longrightarrow> create_order ! i \<le> 63"
  using set_create_order nth_mem [of i create_order] by auto

text \<open>
  The default order of major interrupts is total: every order value from 0 to 63 is given
  to exactly one of the 64 interrupt numbers, so that two interrupts never have the same rank
  (a missing or repeated assignment in the table would leave two interrupts at rank 0).
\<close>

theorem major_order_is_permutation:
  "(\<forall>ord \<le> 63. \<exists>!iid. to_order iid = Inr ord) \<and>
   (\<forall>iid. to_order iid = Inl AssertFailed \<longleftrightarrow> \<not> major_is_valid iid)"
proof (intro conjI allI impI)
  fix ord :: u8
  assume "ord \<le> 63"
  then obtain i where i: "i < 64" "create_order ! i = ord"
    using set_create_order in_set_conv_nth [of ord create_order] by auto
  show "\<exists>!iid. to_order iid = Inr ord"
  proof
    show "to_order (of_nat i) = Inr ord"
      using i by (simp add: to_order_valid unat_major unat_of_nat)
  next
    fix iid assume "to_order iid = Inr ord"
    then have "unat iid < 64" "create_order ! unat iid = ord"
      by (auto simp: to_order_def core_consts word_less_nat_alt)
    with i have "unat iid = i"
      using nth_eq_iff_index_eq [OF distinct_create_order, of "unat iid" i] by simp
    then show "iid = of_nat i" by auto
  qed
next
  fix iid
  show "to_order iid = Inl AssertFailed \<longleftrightarrow> \<not> major_is_valid iid"
    by (simp add: to_order_def major_is_valid_def assert_that_def)
qed

theorem major_order_is_permutation_witness:
  "(\<exists>!iid. to_order iid = Inr 12) \<and> to_order 64 = Inl AssertFailed"
  using major_order_is_permutation by (simp add: unat_major)

section \<open>VS-level and S-level numbers\<close>

text \<open>
  The two translations between VS-level interrupt numbers and the S-level numbers a guest
  sees are inverse to each other: a guest-visible number that can be translated comes back
  unchanged, and a VS-level number that has a guest-visible number is found from it; the
  translation to guest-visible numbers aborts exactly on the numbers no guest can see.
\<close>

theorem vs_s_translation_roundtrip:
  "(transform_s_to_vs s = Inr (True, v) \<longleftrightarrow> transform_vs_to_s v = Inr s) \<and>
   (transform_vs_to_s v = Inl AssertFailed \<longleftrightarrow>
      v \<ge> MAX_INTERRUPTS_NUM \<or> v \<le> EXC_M_EXTERNAL_INTERRUPT \<and>
      v \<notin> {EXC_VS_SOFTWARE_INTERRUPT, EXC_VS_TIMER_INTERRUPT, EXC_VS_EXTERNAL_INTERRUPT})"
  by (auto simp: transform_s_to_vs_def transform_vs_to_s_def major_is_valid_def assert_that_def core_consts)

theorem vs_s_translation_roundtrip_witness:
  "transform_s_to_vs 5 = Inr (True, 6) \<and> transform_vs_to_s 7 = Inl AssertFailed"
  using vs_s_translation_roundtrip [of 5 6] vs_s_translation_roundtrip [of 5 7]
  by (simp add: transform_vs_to_s_def major_is_valid_def core_consts)

section \<open>The order of priorities\<close>

lemma unat_get_field: "unat (get_field lo len (w :: 'a::len word)) = unat w div 2 ^ lo mod 2 ^ len"
proof -
  have "unat (get_field lo len w) = take_bit len (drop_bit lo (unat w))"
    by (simp add: get_field_def unsigned_take_bit_eq unat_drop_bit_eq)
  then show ?thesis by (simp add: take_bit_eq_mod drop_bit_eq_div)
qed

text \<open>The numeric value of a priority, from its fields.\<close>

lemma unat_cprio:
  assumes "c < 0x4000000"
  shows "unat c = unat (cprio_order c) + 2 ^ 8 * (unat (cprio_iprio c)
                  + 2 ^ 16 * (unat (cprio_dpr_0 c) + 2 * unat (cprio_lowest_nonexisting c)))"
proof -
  define n where "n = unat c"
  have top: "n div 2 ^ 25 mod 2 = n div 2 ^ 25"
    using assms by (simp add: n_def word_less_nat_alt)
  have "n = n mod 2 ^ 8 + 2 ^ 8 * (n div 2 ^ 8)"
    by simp
  moreover have "n div 2 ^ 8 = n div 2 ^ 8 mod 2 ^ 16 + 2 ^ 16 * (n div 2 ^ 24)"
    using div_mult_mod_eq [of "n div 2 ^ 8" "2 ^ 16"] by (simp add: div_mult2_eq [symmetric])
  moreover have "n div 2 ^ 24 = n div 2 ^ 24 mod 2 + 2 * (n div 2 ^ 25)"
    using div_mult_mod_eq [of "n div 2 ^ 24" 2] by (simp add: div_mult2_eq [symmetric])
  ultimately have "n = n mod 2 ^ 8 + 2 ^ 8 * (n div 2 ^ 8 mod 2 ^ 16
      + 2 ^ 16 * (n div 2 ^ 24 mod 2 + 2 * (n div 2 ^ 25)))"
    by presburger
  with top show ?thesis
    by (simp add: n_def cprio_order_def cprio_iprio_def cprio_dpr_0_def
        cprio_lowest_nonexisting_def unat_get_field)
qed

lemma cprio_field_bounds:
  "unat (cprio_order c) < 2 ^ 8" "unat (cprio_iprio c) < 2 ^ 16"
  "unat (cprio_dpr_0 c) < 2" "unat (cprio_lowest_nonexisting c) < 2"
  by (simp_all add: cprio_order_def cprio_iprio_def cprio_dpr_0_def cprio_lowest_nonexisting_def unat_get_field)

lemma lex_arith:
  fixes a b a' b' m :: nat
  assumes "a < m" "a' < m"
  shows "a + m * b < a' + m * b' \<longleftrightarrow> b < b' \<or> b = b' \<and> a < a'"
proof -
  have "a + m * b < a' + m * b'" if "b < b'"
  proof -
    have "m * Suc b \<le> m * b'" using that by (intro mult_le_mono2) simp
    then show ?thesis using assms by simp
  qed
  moreover have "\<not> a + m * b < a' + m * b'" if "b' < b"
  proof -
    have "m * Suc b' \<le> m * b" using that by (intro mult_le_mono2) simp
    then show ?thesis using assms by simp
  qed
  ultimately show ?thesis
    by (cases b b' rule: linorder_cases) auto
qed

lemma lex_arith_eq:
  fixes a b a' b' m :: nat
  assumes "a < m" "a' < m"
  shows "a + m * b = a' + m * b' \<longleftrightarrow> b = b' \<and> a = a'"
  using lex_arith [OF assms, of b b'] lex_arith [OF assms(2) assms(1), of b' b]
  by (metis linorder_neq_iff)

lemma cprio_less_lex:
  assumes "c < 0x4000000" "c' < 0x4000000"
  shows "cprio_less c c' \<longleftrightarrow>
    cprio_lowest_nonexisting c < cprio_lowest_nonexisting c' \<or>
    cprio_lowest_nonexisting c = cprio_lowest_nonexisting c' \<and>
      (cprio_dpr_0 c < cprio_dpr_0 c' \<or> cprio_dpr_0 c = cprio_dpr_0 c' \<and>
        (cprio_iprio c < cprio_iprio c' \<or> cprio_iprio c = cprio_iprio c' \<and> cprio_order c < cprio_order c'))"
  using cprio_field_bounds [of c] cprio_field_bounds [of c']
  unfolding cprio_less_def word_less_nat_alt unat_cprio [OF assms(1)] unat_cprio [OF assms(2)]
  by (simp only: lex_arith lex_arith_eq word_unat_eq_iff) blast

lemmas cprio_get_set_defs =
  cprio_order_def cprio_iprio_def cprio_dpr_0_def cprio_lowest_nonexisting_def
  set_cprio_order_def set_cprio_iprio_def set_cprio_dpr_0_def set_cprio_lowest_nonexisting_def

lemma cprio_get_set [simp]:
  "cprio_order (set_cprio_order v c) = take_bit 8 v"
  "cprio_iprio (set_cprio_order v c) = cprio_iprio c"
  "cprio_dpr_0 (set_cprio_order v c) = cprio_dpr_0 c"
  "cprio_lowest_nonexisting (set_cprio_order v c) = cprio_lowest_nonexisting c"
  "cprio_order (set_cprio_iprio v c) = cprio_order c"
  "cprio_iprio (set_cprio_iprio v c) = take_bit 16 v"
  "cprio_dpr_0 (set_cprio_iprio v c) = cprio_dpr_0 c"
  "cprio_lowest_nonexisting (set_cprio_iprio v c) = cprio_lowest_nonexisting c"
  "cprio_order (set_cprio_dpr_0 v c) = cprio_order c"
  "cprio_iprio (set_cprio_dpr_0 v c) = cprio_iprio c"
  "cprio_dpr_0 (set_cprio_dpr_0 v c) = take_bit 1 v"
  "cprio_lowest_nonexisting (set_cprio_dpr_0 v c) = cprio_lowest_nonexisting c"
  by (simp_all add: cprio_get_set_defs get_field_set_field_same get_field_set_field_other)

lemma cprio_0 [simp]:
  "cprio_order 0 = 0" "cprio_iprio 0 = 0" "cprio_dpr_0 0 = 0" "cprio_lowest_nonexisting 0 = 0"
  by (simp_all add: cprio_get_set_defs get_field_def)

lemma cprio_wpri_set:
  assumes "drop_bit 26 c = 0"
  shows "drop_bit 26 (set_cprio_order v c) = 0" "drop_bit 26 (set_cprio_iprio v c) = 0"
    "drop_bit 26 (set_cprio_dpr_0 v c) = 0"
  using assms
  by (auto simp: cprio_get_set_defs bit_eq_iff bit_drop_bit_eq bit_set_field)

lemma cprio_wpri_0: "c < 0x4000000 \<longleftrightarrow> drop_bit 26 (c :: u32) = 0"
proof -
  have "drop_bit 26 c = 0 \<longleftrightarrow> drop_bit 26 (unat c) = 0"
    by (simp only: word_unat_eq_iff unat_drop_bit_eq unat_0)
  then show ?thesis
    by (simp add: word_less_nat_alt drop_bit_eq_div div_eq_0_iff)
qed

lemma irq_cprio_external_fields:
  assumes "irq_cprio_external level eiid = Inr c" "get_external_iid level = Inr iid"
  shows "c < 0x4000000 \<and> cprio_lowest_nonexisting c = 0 \<and> cprio_dpr_0 c = 0 \<and> cprio_iprio c = eiid \<and>
     to_order iid = Inr (ucast (cprio_order c))"
proof -
  obtain ord where "to_order iid = Inr ord" and c: "c = set_cprio_order (ucast ord) (set_cprio_iprio eiid 0)"
    and e: "eiid < 2048"
    using assms by (auto simp: irq_cprio_external_def is_upper_bound_valid_minor_iid_def core_consts split: if_splits)
  moreover have "take_bit 16 eiid = eiid"
    using e by (intro take_bit_less_self) (simp add: word_less_nat_alt)
  ultimately show ?thesis
    by (simp add: cprio_wpri_0 cprio_wpri_set)
qed

lemma irq_cprio_local_fields:
  assumes "irq_cprio_local level iid iprio = Inr c"
  shows "c < 0x4000000 \<and> cprio_lowest_nonexisting c = 0 \<and> cprio_iprio c = ucast iprio \<and>
     to_order iid = Inr (ucast (cprio_order c)) \<and>
     (if iprio = 0 then \<exists>d. get_dpo level iid = Inr d \<and> cprio_dpr_0 c = dpo_value d else cprio_dpr_0 c = 0)"
proof -
  have d: "dpo_value x mod 2 = dpo_value x" for x
    by (cases x) (simp_all add: dpo_value_def)
  show ?thesis
  proof (cases "iprio = 0")
    case True
    with assms show ?thesis
      by (auto simp: irq_cprio_local_def Let_def d cprio_wpri_0 cprio_wpri_set)
  next
    case False
    with assms show ?thesis
      by (auto simp: irq_cprio_local_def Let_def cprio_wpri_0 cprio_wpri_set)
  qed
qed

text \<open>What the default priority of a local interrupt is: 0 before the external one of the level.\<close>

lemma get_dpo_order:
  assumes "get_dpo level iid = Inr d" "get_external_iid level = Inr ext" "to_order ext = Inr e" "to_order iid = Inr r"
  shows "dpo_value d = of_bool (e < r) \<and> r \<noteq> e"
  using assms by (auto simp: get_dpo_def dpo_value_def split: if_splits)

lemma order_le_63: "to_order iid = Inr r \<Longrightarrow> r \<le> 63"
  using order_bound [of "unat iid"] by (auto simp: to_order_def core_consts word_less_nat_alt)

lemma ucast_order: "to_order iid = Inr (ucast (cprio_order c)) \<Longrightarrow> cprio_order c = ucast (ucast (cprio_order c) :: u8)"
proof -
  have "ucast (ucast (cprio_order c) :: u8) = take_bit 8 (cprio_order c)"
    by (rule bit_word_eqI) (auto simp: bit_simps)
  then show ?thesis by (simp add: cprio_order_def)
qed

text \<open>
  C25: comparing the 32-bit values implements the priority rules of the interrupt architecture.
  Let \<open>a\<close> and \<open>b\<close> be the default orders of two local interrupts at a level and \<open>e\<close> that of
  its external interrupt. A local interrupt with priority number \<open>p \<noteq> 0\<close> is ranked by its
  number, and by the default order among equal numbers; with \<open>p = 0\<close> it precedes every
  interrupt with a number if its default order is before the external interrupt's, and follows
  all of them otherwise. An external interrupt is ranked by its identity \<open>eiid \<noteq> 0\<close>.
\<close>

theorem priority_rules:
  assumes "irq_cprio_local level i p = Inr c" "irq_cprio_local level j q = Inr d"
    and "irq_cprio_external level eiid = Inr x" "eiid \<noteq> 0"
    and "get_external_iid level = Inr ext" "to_order ext = Inr e" "to_order i = Inr a" "to_order j = Inr b"
  shows "(cprio_less c d \<longleftrightarrow>
            (if p = 0 \<and> q = 0 then a < b
             else if p = 0 then a < e
             else if q = 0 then e < b
             else p < q \<or> p = q \<and> a < b)) \<and>
         (cprio_less c x \<longleftrightarrow>
            (if p = 0 then a < e else ucast p < eiid \<or> ucast p = eiid \<and> a < e))"
proof -
  note C = irq_cprio_local_fields [OF assms(1)] and D = irq_cprio_local_fields [OF assms(2)]
    and X = irq_cprio_external_fields [OF assms(3) assms(5)]
  have o: "cprio_order c = ucast a" "cprio_order d = ucast b" "cprio_order x = ucast e"
    using C D X ucast_order [of i c] ucast_order [of j d] ucast_order [of ext x] assms(6-8) by auto
  have dc: "p = 0 \<Longrightarrow> cprio_dpr_0 c = of_bool (e < a) \<and> a \<noteq> e"
    and dd: "q = 0 \<Longrightarrow> cprio_dpr_0 d = of_bool (e < b) \<and> b \<noteq> e"
    using C D get_dpo_order [OF _ assms(5,6,7)] get_dpo_order [OF _ assms(5,6,8)] by auto
  have pos: "0 < r \<longleftrightarrow> r \<noteq> 0" for r :: u8 by (simp add: word_neq_0_conv)
  have less: "cprio_less c d \<longleftrightarrow> cprio_dpr_0 c < cprio_dpr_0 d \<or> cprio_dpr_0 c = cprio_dpr_0 d \<and>
      (p < q \<or> p = q \<and> a < b)"
    using C D o by (simp add: cprio_less_lex word_less_nat_alt) (metis ucast_u8_u32)
  have less': "cprio_less c x \<longleftrightarrow> cprio_dpr_0 c = 0 \<and> (ucast p < eiid \<or> ucast p = eiid \<and> a < e)"
    using C X o by (simp add: cprio_less_lex)
  show ?thesis
  proof
    show "cprio_less c d \<longleftrightarrow>
            (if p = 0 \<and> q = 0 then a < b else if p = 0 then a < e else if q = 0 then e < b
             else p < q \<or> p = q \<and> a < b)"
      unfolding less using C D dc dd pos by (auto simp: word_neq_0_conv split: if_splits)
    show "cprio_less c x \<longleftrightarrow> (if p = 0 then a < e else ucast p < eiid \<or> ucast p = eiid \<and> a < e)"
      unfolding less' using C dc assms(4) by (auto simp: word_neq_0_conv split: if_splits)
  qed
qed

lemmas cprio_eval = irq_cprio_local_def irq_cprio_external_def to_order_def get_dpo_def get_external_iid_def
  is_irq_capable_level_def major_is_valid_def is_upper_bound_valid_minor_iid_def dpo_value_def create_order_values
  set_cprio_order_def set_cprio_iprio_def set_cprio_dpr_0_def set_field_def
  cprio_iprio_def get_field_def core_consts Let_def

theorem priority_rules_witness:
  "\<exists>c d x. irq_cprio_local MachineMode 7 0 = Inr c \<and> irq_cprio_local MachineMode 3 5 = Inr d \<and>
     irq_cprio_external MachineMode 9 = Inr x \<and> cprio_less d c \<and> \<not> cprio_less c d \<and> cprio_less d x \<and> \<not> cprio_less c x"
proof -
  have c: "irq_cprio_local MachineMode 7 0 = Inr 0x100000E"
    and d: "irq_cprio_local MachineMode 3 5 = Inr 0x50D"
    and x: "irq_cprio_external MachineMode 9 = Inr 0x90C"
    by (simp_all add: cprio_eval mask_numeral)
  have o: "get_external_iid MachineMode = Inr 11" "to_order 11 = Inr 12" "to_order 7 = Inr 14" "to_order 3 = Inr 13"
    by (simp_all add: cprio_eval)
  have "cprio_less 0x50D 0x100000E \<and> \<not> cprio_less 0x100000E 0x50D \<and> cprio_less 0x50D 0x90C \<and>
      \<not> cprio_less 0x100000E 0x90C"
    using priority_rules [OF c d x _ o(1) o(2) o(3) o(4)] priority_rules [OF d c x _ o(1) o(2) o(4) o(3)] by simp
  then show ?thesis using c d x by blast
qed

section \<open>Choosing among pending interrupts\<close>

lemma select_loop_min:
  assumes "\<And>i. i \<in> set is \<Longrightarrow> bit pending i \<Longrightarrow> \<exists>c. prio (of_nat i) = Inr c"
    and "sorted is" "distinct is" "\<And>i. i \<in> set is \<Longrightarrow> i < 64"
  shows "\<exists>c iid. select_loop prio pending is best = Inr (c, iid) \<and>
     (\<forall>i\<in>set is. \<forall>ci. bit pending i \<longrightarrow> prio (of_nat i) = Inr ci \<longrightarrow> c \<le> ci) \<and> c \<le> fst best \<and>
     ((c, iid) = best \<or>
       (\<exists>i\<in>set is. bit pending i \<and> iid = of_nat i \<and> prio (of_nat i) = Inr c \<and> c < fst best \<and>
          (\<forall>j\<in>set is. \<forall>cj. j < i \<longrightarrow> bit pending j \<longrightarrow> prio (of_nat j) = Inr cj \<longrightarrow> c < cj)))"
  using assms
proof (induction "is" arbitrary: best)
  case Nil
  then show ?case by (cases best) simp
next
  case (Cons i "is")
  obtain c0 iid0 where best: "best = (c0, iid0)" by fastforce
  have i: "i < 64" "pending AND BIT i \<noteq> 0 \<longleftrightarrow> bit pending i"
    using Cons.prems(4) [of i] by (simp_all add: and_BIT_eq_0)
  show ?case
  proof (cases "bit pending i")
    case False
    then have "select_loop prio pending (i # is) best = select_loop prio pending is best"
      using i best by simp
    then show ?thesis
      using Cons.IH [of best] Cons.prems False by simp
  next
    case True
    then obtain ci where ci: "prio (of_nat i) = Inr ci" using Cons.prems(1) [of i] by auto
    define best' where "best' = (if ci < c0 then (ci, of_nat i) else (c0, iid0))"
    have step: "select_loop prio pending (i # is) best = select_loop prio pending is best'"
      using True i ci best by (simp add: cprio_less_def best'_def)
    obtain c iid where IH: "select_loop prio pending is best' = Inr (c, iid)"
      "\<forall>j\<in>set is. \<forall>cj. bit pending j \<longrightarrow> prio (of_nat j) = Inr cj \<longrightarrow> c \<le> cj" "c \<le> fst best'"
      "(c, iid) = best' \<or> (\<exists>j\<in>set is. bit pending j \<and> iid = of_nat j \<and> prio (of_nat j) = Inr c \<and> c < fst best' \<and>
          (\<forall>k\<in>set is. \<forall>ck. k < j \<longrightarrow> bit pending k \<longrightarrow> prio (of_nat k) = Inr ck \<longrightarrow> c < ck))"
      using Cons.IH [of best'] Cons.prems by auto
    have before: "\<And>k. k \<in> set is \<Longrightarrow> i < k"
      using Cons.prems(2,3) by (metis distinct.simps(2) le_neq_implies_less sorted_simps(2))
    have le: "fst best' \<le> ci" "fst best' \<le> c0"
      by (auto simp: best'_def)
    have all: "\<forall>j\<in>set (i # is). \<forall>cj. bit pending j \<longrightarrow> prio (of_nat j) = Inr cj \<longrightarrow> c \<le> cj" "c \<le> fst best"
      using IH(2,3) le ci best by auto
    have "(c, iid) = best \<or> (\<exists>j\<in>set (i # is). bit pending j \<and> iid = of_nat j \<and> prio (of_nat j) = Inr c \<and>
          c < fst best \<and>
          (\<forall>k\<in>set (i # is). \<forall>ck. k < j \<longrightarrow> bit pending k \<longrightarrow> prio (of_nat k) = Inr ck \<longrightarrow> c < ck))"
      using IH(4)
    proof
      assume "(c, iid) = best'"
      then have "(c, iid) = best \<or> iid = of_nat i \<and> c = ci \<and> c < c0"
        by (auto simp: best'_def best split: if_splits)
      then show ?thesis using True ci before best by fastforce
    next
      assume "\<exists>j\<in>set is. bit pending j \<and> iid = of_nat j \<and> prio (of_nat j) = Inr c \<and> c < fst best' \<and>
          (\<forall>k\<in>set is. \<forall>ck. k < j \<longrightarrow> bit pending k \<longrightarrow> prio (of_nat k) = Inr ck \<longrightarrow> c < ck)"
      then obtain j where j: "j \<in> set is" "bit pending j" "iid = of_nat j" "prio (of_nat j) = Inr c" "c < fst best'"
        "\<forall>k\<in>set is. \<forall>ck. k < j \<longrightarrow> bit pending k \<longrightarrow> prio (of_nat k) = Inr ck \<longrightarrow> c < ck"
        by blast
      have "c < ci" "c < c0" using j(5) le by simp_all
      then show ?thesis using j ci best by (intro disjI2 bexI [of _ j]) auto
    qed
    with all show ?thesis
      unfolding step IH(1) by blast
  qed
qed

lemma irq_cprio_nonexisting_eq: "irq_cprio_nonexisting = 0x2000000"
  by (simp add: irq_cprio_nonexisting_def set_cprio_lowest_nonexisting_def set_field_def)

lemma is_non_existing_iff: "c < 0x2000000 \<Longrightarrow> \<not> is_non_existing c"
proof -
  assume c: "c < 0x2000000"
  then have "unat c div 2 ^ 25 mod 2 ^ 1 = 0"
    by (simp add: word_less_nat_alt)
  then have "cprio_lowest_nonexisting c = 0"
    by (simp only: cprio_lowest_nonexisting_def word_unat_eq_iff unat_get_field unat_0)
  then show ?thesis by (simp add: is_non_existing_def)
qed

lemma to_iprio_total: "\<not> is_non_existing c \<Longrightarrow> \<exists>p. to_iprio c = Inr p"
proof -
  assume "\<not> is_non_existing c"
  moreover have "1 \<le> cprio_iprio c" if "cprio_iprio c \<noteq> 0"
    using that by (simp add: word_le_nat_alt unat_gt_0 Suc_leI)
  ultimately show ?thesis
    by (cases "cprio_iprio c = 0"; cases "cprio_iprio c \<le> 255") (simp_all add: to_iprio_def not_le)
qed

text \<open>
  C24: the scan over the pending interrupts of a level returns one of them, and no other
  pending interrupt of the level has a better priority; among interrupts of equal priority the
  lowest number is chosen. The priority number returned is the one of the chosen interrupt. In
  particular the scan ends with a result whenever something is pending: the
  \<^verbatim>\<open>runtime_error\<close> and the assertion of \<^verbatim>\<open>to_iprio\<close> are not reached.
\<close>

theorem selects_highest_priority:
  assumes "pending \<noteq> 0"
    and "\<And>i. i < 64 \<Longrightarrow> bit pending i \<Longrightarrow> \<exists>c. prio (of_nat i) = Inr c \<and> c < 0x2000000"
  shows "\<exists>iid p c. prepare_iid_prio prio pending = Inr (iid, p) \<and>
     major_is_valid iid \<and> bit pending (unat iid) \<and> prio iid = Inr c \<and> to_iprio c = Inr p \<and>
     (\<forall>i<64. \<forall>ci. bit pending i \<longrightarrow> prio (of_nat i) = Inr ci \<longrightarrow>
        \<not> cprio_less ci c \<and> (i < unat iid \<longrightarrow> cprio_less c ci))"
proof -
  obtain k where k: "bit pending k" using assms(1) bit_eq_iff [of pending 0] by auto
  then have k64: "k < 64" using bit_imp_le_length [of pending k] by simp
  obtain ck where ck: "prio (of_nat k) = Inr ck" "ck < 0x2000000" using assms(2) [OF k64 k] by blast
  have "\<And>i. i \<in> set [0..<64] \<Longrightarrow> bit pending i \<Longrightarrow> \<exists>c. prio (of_nat i) = Inr c"
    using assms(2) by fastforce
  then obtain c iid where sel: "select_loop prio pending [0..<64] (irq_cprio_nonexisting, 0) = Inr (c, iid)"
    and least: "\<forall>i\<in>set [0..<64]. \<forall>ci. bit pending i \<longrightarrow> prio (of_nat i) = Inr ci \<longrightarrow> c \<le> ci"
    and which: "(c, iid) = (irq_cprio_nonexisting, 0) \<or>
       (\<exists>i\<in>set [0..<64]. bit pending i \<and> iid = of_nat i \<and> prio (of_nat i) = Inr c \<and> c < irq_cprio_nonexisting \<and>
          (\<forall>j\<in>set [0..<64]. \<forall>cj. j < i \<longrightarrow> bit pending j \<longrightarrow> prio (of_nat j) = Inr cj \<longrightarrow> c < cj))"
    using select_loop_min [of "[0..<64]" pending prio "(irq_cprio_nonexisting, 0)"] by auto
  have "c \<le> ck" using least k k64 ck by simp
  then have c: "c < 0x2000000" using ck by simp
  then obtain i where i: "i < 64" "bit pending i" "iid = of_nat i" "prio (of_nat i) = Inr c"
      "\<forall>j<64. \<forall>cj. j < i \<longrightarrow> bit pending j \<longrightarrow> prio (of_nat j) = Inr cj \<longrightarrow> c < cj"
    using which by (auto simp: irq_cprio_nonexisting_eq)
  obtain p where p: "to_iprio c = Inr p" using to_iprio_total is_non_existing_iff [OF c] by blast
  have "unat (of_nat i :: u32) = i" using i(1) by (simp add: unat_of_nat)
  moreover have "prepare_iid_prio prio pending = Inr (iid, p)"
    using sel p is_non_existing_iff [OF c] by (simp add: prepare_iid_prio_def core_consts)
  ultimately show ?thesis
    using i p least by (auto simp: cprio_less_def unat_major not_less)
qed

theorem selects_highest_priority_witness:
  "\<exists>iid p c. prepare_iid_prio (\<lambda>i. irq_cprio_local MachineMode i 0) 0x88 = Inr (iid, p) \<and>
     bit (0x88 :: u64) (unat iid) \<and> irq_cprio_local MachineMode iid 0 = Inr c"
proof -
  have "\<exists>c. irq_cprio_local MachineMode (of_nat i) 0 = Inr c \<and> c < 0x2000000"
    if "i < 64" "bit (0x88 :: u64) i" for i
  proof -
    have "i = 3 \<or> i = 7"
      using that by (auto simp: bit_numeral_rec(1) bit_numeral_rec(2) bit_1_iff split: nat.splits)
    then show ?thesis by (auto simp: cprio_eval mask_numeral)
  qed
  then show ?thesis
    using selects_highest_priority [where pending = "0x88" and prio = "\<lambda>i. irq_cprio_local MachineMode i 0"] by auto
qed

end
