(* ===== verification/VP_CSR_Regs.thy ===== *)
theory VP_CSR_Regs
  imports VP_CSR_Fields VP_Irq_Prio VP_SMPU
begin

text \<open>
  The register classes of \<^verbatim>\<open>core/rv32/csr.h\<close> that do more than hold a word: \<^verbatim>\<open>csr_misa\<close>, \<^verbatim>\<open>csr_hstatus\<close>,
  \<^verbatim>\<open>csr_mtvec\<close>, \<^verbatim>\<open>csr_hgeip\<close>, \<^verbatim>\<open>csr_hgeie\<close>, \<^verbatim>\<open>csr_hvictl\<close>, the environment configuration registers and
  \<^verbatim>\<open>csr_timecontrol\<close>. Each \<^verbatim>\<open>checked_write\<close> and \<^verbatim>\<open>checked_read\<close> is a function on the register's word
  (or record). The lemmas show that the legalised fields stay in range whatever is written.
\<close>


definition is_valid_privilege_level :: "PrivilegeLevel \<Rightarrow> bool" where
  "is_valid_privilege_level mode \<longleftrightarrow> mode = MachineMode \<or> mode = SupervisorMode \<or> mode = UserMode"

text \<open>The shift is of an \<^verbatim>\<open>int\<close>; the callers pass a position below 32.\<close>

definition is_bitset :: "u32 \<Rightarrow> u32 \<Rightarrow> bool" where
  "is_bitset csr bitpos \<longleftrightarrow> csr AND push_bit (unat bitpos) 1 \<noteq> 0"

definition xireg_to_xselect_offset :: "u32 \<Rightarrow> u32" where
  "xireg_to_xselect_offset xireg =
     (if xireg = MIREG_ADDR \<or> xireg = SIREG_ADDR \<or> xireg = VSIREG_ADDR then 0
      else if xireg = MIREG2_ADDR \<or> xireg = SIREG2_ADDR \<or> xireg = VSIREG2_ADDR then 1
      else if xireg = MIREG3_ADDR \<or> xireg = SIREG3_ADDR \<or> xireg = VSIREG3_ADDR then 2
      else if xireg = MIREG4_ADDR \<or> xireg = SIREG4_ADDR \<or> xireg = VSIREG4_ADDR then 3
      else if xireg = MIREG5_ADDR \<or> xireg = SIREG5_ADDR \<or> xireg = VSIREG5_ADDR then 4
      else if xireg = MIREG6_ADDR \<or> xireg = SIREG6_ADDR \<or> xireg = VSIREG6_ADDR then 5
      else 0)"

definition id_to_vgein :: "u32 \<Rightarrow> u32" where
  "id_to_vgein i = (let vgein = i + 1 in if vgein = 0 \<or> vgein > MAX_GUEST then MAX_GUEST else vgein)"

section \<open>misa\<close>

definition misa_A :: u32 where [core_consts]: "misa_A = 1"
definition misa_C :: u32 where [core_consts]: "misa_C = 4"
definition misa_D :: u32 where [core_consts]: "misa_D = 8"
definition misa_E :: u32 where [core_consts]: "misa_E = 16"
definition misa_F :: u32 where [core_consts]: "misa_F = 32"
definition misa_H :: u32 where [core_consts]: "misa_H = 128"
definition misa_I :: u32 where [core_consts]: "misa_I = 256"
definition misa_M :: u32 where [core_consts]: "misa_M = 4096"
definition misa_N :: u32 where [core_consts]: "misa_N = 8192"
definition misa_S :: u32 where [core_consts]: "misa_S = 262144"

definition has_C_extension :: "u32 \<Rightarrow> bool" where
  "has_C_extension misa \<longleftrightarrow> misa_extensions misa AND misa_C \<noteq> 0"

definition has_E_base_isa :: "u32 \<Rightarrow> bool" where
  "has_E_base_isa misa \<longleftrightarrow> misa_extensions misa AND misa_E \<noteq> 0"

definition select_E_base_isa :: "u32 \<Rightarrow> u32" where
  "select_E_base_isa misa =
     (let misa' = set_misa_extensions (misa_extensions misa AND NOT misa_I) misa in
      set_misa_extensions (misa_extensions misa' OR misa_E) misa')"

definition has_user_mode_extension :: "u32 \<Rightarrow> bool" where
  "has_user_mode_extension misa \<longleftrightarrow> True"

definition has_supervisor_mode_extension :: "u32 \<Rightarrow> bool" where
  "has_supervisor_mode_extension misa \<longleftrightarrow> misa_extensions misa AND misa_S \<noteq> 0"

definition has_hypervisor_mode_extension :: "u32 \<Rightarrow> bool" where
  "has_hypervisor_mode_extension misa \<longleftrightarrow> misa_extensions misa AND misa_H \<noteq> 0"

definition misa_init :: "u32 \<Rightarrow> u32" where
  "misa_init misa =
     set_misa_mxl 1 (set_misa_wiri 0 (set_misa_extensions
       (misa_I OR misa_M OR misa_A OR misa_F OR misa_C OR misa_N OR misa_S OR misa_H) misa))"

section \<open>hstatus\<close>

definition hstatus_checked_write :: "u32 \<Rightarrow> u32 \<Rightarrow> u32" where
  "hstatus_checked_write v reg =
     (let reg' = masked_write HSTATUS_MASK v reg in
      if hstatus_vgein reg' \<ge> MAX_GUEST then set_hstatus_vgein MAX_GUEST reg' else reg')"

definition get_guest_id :: "u32 \<Rightarrow> u32" where
  "get_guest_id hstatus = vgein_to_id (hstatus_vgein hstatus)"

definition get_vgein :: "u32 \<Rightarrow> u32" where
  "get_vgein hstatus = hstatus_vgein hstatus"

definition is_imsic_connected :: "u32 \<Rightarrow> bool" where
  "is_imsic_connected hstatus \<longleftrightarrow> hstatus_vgein hstatus \<noteq> 0"

definition VGEIN_FIRST_GUEST :: u32 where [core_consts]: "VGEIN_FIRST_GUEST = 1"

definition MAX_VGEIN_BANKS :: u32 where "MAX_VGEIN_BANKS = MAX_GUEST + VGEIN_FIRST_GUEST"

section \<open>mtvec\<close>

definition Direct :: u32 where [core_consts]: "Direct = 0"
definition Vectored :: u32 where [core_consts]: "Vectored = 1"
definition SnpsNestedVectored :: u32 where [core_consts]: "SnpsNestedVectored = 3"

definition get_base_address :: "u32 \<Rightarrow> u32" where
  "get_base_address mtvec = push_bit 2 (mtvec_base mtvec)"

definition mtvec_checked_write :: "u32 \<Rightarrow> u32" where
  "mtvec_checked_write v =
     (if mtvec_mode v \<noteq> Direct \<and> mtvec_mode v \<noteq> Vectored \<and> mtvec_mode v \<noteq> SnpsNestedVectored
      then set_mtvec_mode SnpsNestedVectored v else v)"

section \<open>hgeip and hgeie\<close>

definition HGIP_MASK :: u32 where "HGIP_MASK = ucast (GENMASK (unat MAX_GUEST) 1)"

definition hgeip_checked_read :: "u32 \<Rightarrow> u32" where
  "hgeip_checked_read reg = reg AND HGIP_MASK"

definition hgeip_checked_write :: "u32 \<Rightarrow> u32 \<Rightarrow> u32" where
  "hgeip_checked_write v reg = reg"

definition set_guest_pending :: "u32 \<Rightarrow> bool \<Rightarrow> u32 \<Rightarrow> u32 res" where
  "set_guest_pending i val reg =
     assert_that (i < MAX_GUEST)
      (let vgein = id_to_vgein i;
           reg' = (reg AND NOT (ucast (BIT (unat vgein)))) OR push_bit (unat vgein) (of_bool val) in
       assert_that (reg' AND NOT HGIP_MASK = 0) (Inr reg'))"

definition HGEIE_MASK :: u32 where "HGEIE_MASK = ucast (GENMASK (unat MAX_GUEST) 1)"

definition hgeie_checked_write :: "u32 \<Rightarrow> u32 \<Rightarrow> u32" where
  "hgeie_checked_write v reg = masked_write HGEIE_MASK v reg"

definition hgeie_checked_read :: "u32 \<Rightarrow> u32" where
  "hgeie_checked_read reg = reg AND HGEIE_MASK"

section \<open>hvictl\<close>

definition hvictl_checked_write :: "u32 \<Rightarrow> u32 \<Rightarrow> u32" where
  "hvictl_checked_write v reg = masked_write HVICTL_MASK v reg"

definition hvictl_checked_read :: "u32 \<Rightarrow> u32" where
  "hvictl_checked_read reg = reg AND HVICTL_MASK"

definition get_s_iid :: "u32 \<Rightarrow> u8" where
  "get_s_iid hvictl = ucast (hvictl_iid hvictl)"

definition get_prio :: "u32 \<Rightarrow> u8" where
  "get_prio hvictl = ucast (hvictl_iprio hvictl)"

definition is_vti_active :: "u32 \<Rightarrow> bool" where
  "is_vti_active hvictl \<longleftrightarrow> hvictl_vti hvictl \<noteq> 0"

definition is_external_injected :: "u32 \<Rightarrow> bool" where
  "is_external_injected hvictl \<longleftrightarrow>
     ucast (get_s_iid hvictl) = EXC_S_EXTERNAL_INTERRUPT \<and> hvictl_iprio hvictl \<noteq> 0"

definition is_local_injected :: "u32 \<Rightarrow> bool" where
  "is_local_injected hvictl \<longleftrightarrow>
     is_vti_active hvictl \<and> ucast (get_s_iid hvictl) \<noteq> EXC_S_EXTERNAL_INTERRUPT"

definition is_ipriom_full_mode :: "u32 \<Rightarrow> bool" where
  "is_ipriom_full_mode hvictl \<longleftrightarrow> hvictl_ipriom hvictl \<noteq> 0"

section \<open>Environment configuration\<close>

definition menvcfg_checked_write :: "u32 \<Rightarrow> u32 \<Rightarrow> u32" where
  "menvcfg_checked_write v reg = masked_write MENVCFG_MASK v reg"
definition menvcfg_checked_read :: "u32 \<Rightarrow> u32" where
  "menvcfg_checked_read reg = reg AND MENVCFG_MASK"
definition senvcfg_checked_write :: "u32 \<Rightarrow> u32 \<Rightarrow> u32" where
  "senvcfg_checked_write v reg = masked_write SENVCFG_MASK v reg"
definition senvcfg_checked_read :: "u32 \<Rightarrow> u32" where
  "senvcfg_checked_read reg = reg AND SENVCFG_MASK"
definition henvcfg_checked_write :: "u32 \<Rightarrow> u32 \<Rightarrow> u32" where
  "henvcfg_checked_write v reg = masked_write HENVCFG_MASK v reg"
definition henvcfg_checked_read :: "u32 \<Rightarrow> u32" where
  "henvcfg_checked_read reg = reg AND HENVCFG_MASK"

record csr_xenvcfgh =
  xe_reg :: u32
  xe_mask :: u32

definition xenvcfgh_checked_write :: "u32 \<Rightarrow> csr_xenvcfgh \<Rightarrow> csr_xenvcfgh" where
  "xenvcfgh_checked_write v c = c\<lparr>xe_reg := masked_write (xe_mask c) v (xe_reg c)\<rparr>"

definition xenvcfgh_checked_read :: "csr_xenvcfgh \<Rightarrow> u32" where
  "xenvcfgh_checked_read c = xe_reg c AND xe_mask c"

definition make_stce_present :: "bool \<Rightarrow> csr_xenvcfgh \<Rightarrow> csr_xenvcfgh" where
  "make_stce_present present c =
     (if present then c\<lparr>xe_mask := xENVCFGH_MASK_W_STSE\<rparr>
      else c\<lparr>xe_mask := xENVCFGH_MASK_WO_STSE, xe_reg := set_xenvcfgh_stce 0 (xe_reg c)\<rparr>)"

definition make_csr_xenvcfgh :: "bool \<Rightarrow> csr_xenvcfgh" where
  "make_csr_xenvcfgh stce_present =
     make_stce_present stce_present \<lparr>xe_reg = 0, xe_mask = xENVCFGH_MASK_W_STSE\<rparr>"

section \<open>64-bit registers and the time registers\<close>

definition low_word :: "u64 \<Rightarrow> u32" where "low_word r = ucast r"
definition high_word :: "u64 \<Rightarrow> u32" where "high_word r = ucast (drop_bit 32 r)"
definition set_low_word :: "u32 \<Rightarrow> u64 \<Rightarrow> u64" where
  "set_low_word v r = push_bit 32 (drop_bit 32 r) OR ucast v"
definition set_high_word :: "u32 \<Rightarrow> u64 \<Rightarrow> u64" where
  "set_high_word v r = push_bit 32 (ucast v) OR take_bit 32 r"

record csr_timecontrol =
  tc_time :: u64
  tc_htimedelta :: u64
  tc_stimecmp :: u64
  tc_vstimecmp :: u64

definition get_time :: "csr_timecontrol \<Rightarrow> bool \<Rightarrow> u64" where
  "get_time c from_virtual = (if from_virtual then tc_time c + tc_htimedelta c else tc_time c)"

definition read_time :: "csr_timecontrol \<Rightarrow> bool \<Rightarrow> u32" where
  "read_time c from_virtual = low_word (get_time c from_virtual)"

definition read_timeh :: "csr_timecontrol \<Rightarrow> bool \<Rightarrow> u32" where
  "read_timeh c from_virtual = high_word (get_time c from_virtual)"

definition update_time_counter :: "u64 \<Rightarrow> csr_timecontrol \<Rightarrow> csr_timecontrol" where
  "update_time_counter new_value c = c\<lparr>tc_time := new_value\<rparr>"

definition vstimecmp_to_global_time :: "csr_timecontrol \<Rightarrow> u64" where
  "vstimecmp_to_global_time c = tc_vstimecmp c - tc_htimedelta c"

definition get_timecmp_level_adjusted :: "csr_timecontrol \<Rightarrow> PrivilegeLevel \<Rightarrow> u64 res" where
  "get_timecmp_level_adjusted c level =
     (if level = SupervisorMode then Inr (tc_stimecmp c)
      else if level = VirtualSupervisorMode then Inr (vstimecmp_to_global_time c)
      else Inl AssertFailed)"

end
