(* ===== verification/VP_Clint_Pend.thy ===== *)
theory VP_Clint_Pend
  imports VP_CSR_Regs
begin

text \<open>
  The interrupt-pending, interrupt-enable and delegation registers (\<^verbatim>\<open>csrs_clint_pend\<close> of
  \<^verbatim>\<open>core/rv32/csr.h\<close>): \<^verbatim>\<open>mip\<close>, \<^verbatim>\<open>mie\<close>, \<^verbatim>\<open>mideleg\<close>, \<^verbatim>\<open>hideleg\<close>, the machine-level (\<^verbatim>\<open>mvien\<close>, \<^verbatim>\<open>mvip\<close>) and
  hypervisor-level (\<^verbatim>\<open>hvien\<close>, \<^verbatim>\<open>hvip\<close>) interrupt virtualisation, and the views \<^verbatim>\<open>sip\<close>, \<^verbatim>\<open>sie\<close>, \<^verbatim>\<open>hip\<close>,
  \<^verbatim>\<open>hie\<close>, \<^verbatim>\<open>vsip\<close>, \<^verbatim>\<open>vsie\<close> that lower levels have of them. The nested structs refer to one another
  through the enclosing object, so the model is one record with the functions of all of them.
  The \<^verbatim>\<open>assert\<close> of \<^verbatim>\<open>s_route_masks\<close> and \<^verbatim>\<open>vs_route_masks\<close> that the two masks are disjoint holds for
  every state (lemma \<open>route_masks_disjoint\<close>), so these functions return the masks outright.

  The lemmas give the routing of each interrupt bit, the invariant of the registers, the round
  trip of the guest's enable register, and that a guest's write reaches only the bits that are
  delegated to or injected into it.
\<close>

section \<open>csr64_bit_ops\<close>

definition lo_to_reg :: "u32 \<Rightarrow> u64" where "lo_to_reg v = ucast v"
definition hi_to_reg :: "u32 \<Rightarrow> u64" where "hi_to_reg v = push_bit 32 (ucast v)"
definition reg_to_lo :: "u64 \<Rightarrow> u32" where "reg_to_lo v = ucast v"
definition reg_to_hi :: "u64 \<Rightarrow> u32" where "reg_to_hi v = ucast (drop_bit 32 v)"

definition WRITE_HI_MASK :: u64 where "WRITE_HI_MASK = push_bit 32 0xFFFFFFFF"
definition WRITE_LO_MASK :: u64 where "WRITE_LO_MASK = 0xFFFFFFFF"

definition write_64 :: "u64 \<Rightarrow> u64 \<Rightarrow> u64 \<Rightarrow> u64" where
  "write_64 reg m v = (reg AND NOT m) OR (v AND m)"
definition read_64 :: "u64 \<Rightarrow> u64 \<Rightarrow> u64" where "read_64 reg m = reg AND m"
definition write_lo :: "u64 \<Rightarrow> u64 \<Rightarrow> u32 \<Rightarrow> u64" where
  "write_lo reg m v = write_64 reg (m AND WRITE_LO_MASK) (lo_to_reg v)"
definition write_hi :: "u64 \<Rightarrow> u64 \<Rightarrow> u32 \<Rightarrow> u64" where
  "write_hi reg m v = write_64 reg (m AND WRITE_HI_MASK) (hi_to_reg v)"
definition read_lo :: "u64 \<Rightarrow> u64 \<Rightarrow> u32" where "read_lo reg m = reg_to_lo (read_64 reg m)"
definition read_hi :: "u64 \<Rightarrow> u64 \<Rightarrow> u32" where "read_hi reg m = reg_to_hi (read_64 reg m)"

section \<open>Masks\<close>

definition irq_bit :: "u32 \<Rightarrow> u64" where "irq_bit iid = BIT (unat iid)"

definition SIE_MASK :: u64 where
  "SIE_MASK = irq_bit EXC_S_SOFTWARE_INTERRUPT OR irq_bit EXC_S_TIMER_INTERRUPT OR irq_bit EXC_S_EXTERNAL_INTERRUPT"
definition HIE_MASK :: u64 where
  "HIE_MASK = irq_bit EXC_S_GUEST_EXTERNAL_INTERRUPT OR irq_bit EXC_VS_SOFTWARE_INTERRUPT OR
     irq_bit EXC_VS_TIMER_INTERRUPT OR irq_bit EXC_VS_EXTERNAL_INTERRUPT"
definition MIE_MASK :: u64 where
  "MIE_MASK = irq_bit EXC_M_SOFTWARE_INTERRUPT OR irq_bit EXC_M_TIMER_INTERRUPT OR
     irq_bit EXC_M_EXTERNAL_INTERRUPT OR SIE_MASK OR HIE_MASK"
definition VSIE_MASK :: u64 where
  "VSIE_MASK = irq_bit EXC_VS_SOFTWARE_INTERRUPT OR irq_bit EXC_VS_TIMER_INTERRUPT OR irq_bit EXC_VS_EXTERNAL_INTERRUPT"
definition MIx_VS_MASK :: u64 where
  "MIx_VS_MASK = irq_bit EXC_VS_SOFTWARE_INTERRUPT OR irq_bit EXC_VS_TIMER_INTERRUPT OR irq_bit EXC_VS_EXTERNAL_INTERRUPT"
definition VSIx_VS_MASK :: u64 where
  "VSIx_VS_MASK = irq_bit EXC_S_SOFTWARE_INTERRUPT OR irq_bit EXC_S_TIMER_INTERRUPT OR irq_bit EXC_S_EXTERNAL_INTERRUPT"
definition MIx_LEVELED_MASK :: u64 where
  "MIx_LEVELED_MASK = GENMASK (unat EXC_M_EXTERNAL_INTERRUPT) 0"
definition MIx_NON_LEVELED_MASK :: u64 where
  "MIx_NON_LEVELED_MASK = irq_bit EXC_COUNTER_OVREFLOW_INTERRUPT OR irq_bit EXC_DEBUG_TRACE_INTERRUPT OR
     irq_bit EXC_LOW_PRIO_RAS_INTERRUPT OR irq_bit EXC_HIGH_PRIO_RAS_INTERRUPT OR irq_bit EXC_WDT_INTERRUPT"
definition MIx_IRQ_TYPE_EDGE_MASK :: u64 where "MIx_IRQ_TYPE_EDGE_MASK = MIx_NON_LEVELED_MASK"
definition MIP_TO_VSIP_SHIFT :: nat where "MIP_TO_VSIP_SHIFT = 1"

definition MIE_WRITE_MASK :: u64 where "MIE_WRITE_MASK = MIx_NON_LEVELED_MASK OR MIE_MASK"
definition MIE_READ_MASK :: u64 where "MIE_READ_MASK = MIx_NON_LEVELED_MASK OR MIE_MASK"
definition SIE_WRITE_MASK :: u64 where "SIE_WRITE_MASK = MIx_NON_LEVELED_MASK OR SIE_MASK"
definition SIE_READ_MASK :: u64 where "SIE_READ_MASK = MIx_NON_LEVELED_MASK OR SIE_MASK"
definition HIE_WRITE_MASK :: u64 where "HIE_WRITE_MASK = HIE_MASK"
definition HIE_READ_MASK :: u64 where "HIE_READ_MASK = HIE_MASK"
definition VSIE_WRITE_MASK :: u64 where "VSIE_WRITE_MASK = MIx_NON_LEVELED_MASK OR VSIE_MASK"
definition VSIE_READ_MASK :: u64 where "VSIE_READ_MASK = MIx_NON_LEVELED_MASK OR VSIE_MASK"

definition MIP_WRITE_MASK :: u64 where "MIP_WRITE_MASK = 0"
definition MIP_READ_MASK :: u64 where "MIP_READ_MASK = MIE_MASK"
definition SIP_WRITE_DELEGATED_MASK :: u64 where "SIP_WRITE_DELEGATED_MASK = 0"
definition SIP_WRITE_INJECTED_MASK :: u64 where
  "SIP_WRITE_INJECTED_MASK = (MIx_NON_LEVELED_MASK OR SIE_MASK) AND MIx_IRQ_TYPE_EDGE_MASK"
definition SIP_READ_MASK :: u64 where "SIP_READ_MASK = MIx_NON_LEVELED_MASK OR SIE_MASK"
definition HIP_WRITE_MASK :: u64 where "HIP_WRITE_MASK = 0"
definition HIP_READ_MASK :: u64 where "HIP_READ_MASK = HIE_MASK"
definition VSIP_WRITE_DELEGATED_MASK :: u64 where "VSIP_WRITE_DELEGATED_MASK = 0"
definition VSIP_WRITE_INJECTED_MASK :: u64 where
  "VSIP_WRITE_INJECTED_MASK = (MIx_NON_LEVELED_MASK OR VSIE_MASK) AND MIx_IRQ_TYPE_EDGE_MASK"
definition VSIP_READ_MASK :: u64 where "VSIP_READ_MASK = MIx_NON_LEVELED_MASK OR VSIE_MASK"

definition MVIEN_MASK :: u64 where "MVIEN_MASK = MIx_NON_LEVELED_MASK OR SIE_MASK"
definition MVIP_MASK :: u64 where "MVIP_MASK = MVIEN_MASK"
definition HVIEN_MASK :: u64 where "HVIEN_MASK = MIx_NON_LEVELED_MASK"
definition HVIP_MASK :: u64 where "HVIP_MASK = MIx_NON_LEVELED_MASK OR MIx_VS_MASK"
definition HVIP_OR_MASK :: u64 where "HVIP_OR_MASK = VSIE_MASK"
definition MIDELEG_READ_MASK :: u64 where "MIDELEG_READ_MASK = SIE_MASK OR HIE_MASK"
definition MIDELEG_WRITE_MASK :: u64 where "MIDELEG_WRITE_MASK = SIE_MASK"
definition HIDELEG_MASK :: u64 where "HIDELEG_MASK = MIx_VS_MASK"

section \<open>State\<close>

record clint_pend =
  mie_reg :: u64
  mip_reg :: u64
  mvien :: u64
  mvip :: u64
  m_shadow_enables :: u64
  hvien :: u64
  hvip :: u64
  h_shadow_enables :: u64
  mideleg_reg :: u64
  hideleg_reg :: u64

definition clint_pend_init :: clint_pend where
  "clint_pend_init = \<lparr>mie_reg = 0, mip_reg = 0, mvien = 0, mvip = 0, m_shadow_enables = 0,
     hvien = 0, hvip = 0, h_shadow_enables = 0, mideleg_reg = HIE_MASK, hideleg_reg = 0\<rparr>"

section \<open>Routing\<close>

definition s_route_masks :: "clint_pend \<Rightarrow> u64 \<times> u64" where
  "s_route_masks c = (mideleg_reg c, NOT (mideleg_reg c) AND mvien c)"

definition hideleg_m_extra_mask :: "clint_pend \<Rightarrow> u64" where
  "hideleg_m_extra_mask c = (let (delegated, injected) = s_route_masks c in delegated OR injected)"

definition checked_read_hideleg_64 :: "clint_pend \<Rightarrow> u64" where
  "checked_read_hideleg_64 c = read_64 (hideleg_reg c) (HIDELEG_MASK AND hideleg_m_extra_mask c)"

definition vs_route_masks :: "clint_pend \<Rightarrow> u64 \<times> u64" where
  "vs_route_masks c =
     (let delegated_mask = checked_read_hideleg_64 c in
      (delegated_mask, NOT delegated_mask AND hvien c))"

lemma route_masks_disjoint:
  "fst (s_route_masks c) AND snd (s_route_masks c) = 0" "fst (vs_route_masks c) AND snd (vs_route_masks c) = 0"
  by (auto simp: s_route_masks_def vs_route_masks_def Let_def bit_eq_iff bit_simps)

definition m_to_vs_bits :: "u64 \<Rightarrow> u64" where
  "m_to_vs_bits mix =
     (mix AND NOT MIx_LEVELED_MASK) OR drop_bit MIP_TO_VSIP_SHIFT (mix AND MIx_VS_MASK)"

definition vs_to_m_bits :: "u64 \<Rightarrow> u64" where
  "vs_to_m_bits vsix =
     (vsix AND NOT MIx_LEVELED_MASK) OR push_bit MIP_TO_VSIP_SHIFT (vsix AND VSIx_VS_MASK)"

definition s_irqs_present :: "clint_pend \<Rightarrow> u64" where
  "s_irqs_present c = (let (delegated, injected) = s_route_masks c in delegated OR injected)"

definition vs_irqs_present :: "clint_pend \<Rightarrow> u64" where
  "vs_irqs_present c = (let (delegated, injected) = vs_route_masks c in m_to_vs_bits (delegated OR injected))"

definition is_iid_injected :: "clint_pend \<Rightarrow> PrivilegeLevel \<Rightarrow> u32 \<Rightarrow> bool res" where
  "is_iid_injected c level iid =
     (if level = MachineMode then Inr False
      else if level = SupervisorMode then
        assert_that (is_upper_bound_valid iid)
         (let (delegated, injected) = s_route_masks c in Inr (injected AND BIT (unat iid) \<noteq> 0))
      else if level = VirtualSupervisorMode then Inr False
      else Inl (RuntimeError ''unexpected privilege level''))"

definition pendings_edge_detected :: "u64 \<Rightarrow> u64 \<Rightarrow> u32 \<Rightarrow> bool" where
  "pendings_edge_detected pend_old pend_new iid \<longleftrightarrow>
     pend_old AND BIT (unat iid) = 0 \<and> pend_new AND BIT (unat iid) = BIT (unat iid)"

section \<open>Enable registers (struct xie)\<close>

definition checked_write_mie :: "u32 \<Rightarrow> clint_pend \<Rightarrow> clint_pend" where
  "checked_write_mie v c = c\<lparr>mie_reg := write_lo (mie_reg c) MIE_WRITE_MASK v\<rparr>"
definition checked_write_mieh :: "u32 \<Rightarrow> clint_pend \<Rightarrow> clint_pend" where
  "checked_write_mieh v c = c\<lparr>mie_reg := write_hi (mie_reg c) MIE_WRITE_MASK v\<rparr>"
definition checked_read_mie :: "clint_pend \<Rightarrow> u32" where
  "checked_read_mie c = read_lo (mie_reg c) MIE_READ_MASK"
definition checked_read_mieh :: "clint_pend \<Rightarrow> u32" where
  "checked_read_mieh c = read_hi (mie_reg c) MIE_READ_MASK"

definition hie_routed_write_32 :: "u64 \<Rightarrow> u32 \<Rightarrow> clint_pend \<Rightarrow> clint_pend" where
  "hie_routed_write_32 write_mask v c = c\<lparr>mie_reg := write_lo (mie_reg c) (write_mask AND HIE_WRITE_MASK) v\<rparr>"
definition checked_write_hie :: "u32 \<Rightarrow> clint_pend \<Rightarrow> clint_pend" where
  "checked_write_hie v = hie_routed_write_32 WRITE_LO_MASK v"
definition checked_read_hie :: "clint_pend \<Rightarrow> u32" where
  "checked_read_hie c = read_lo (mie_reg c) HIE_READ_MASK"

definition sie_routed_read_64 :: "clint_pend \<Rightarrow> u64" where
  "sie_routed_read_64 c =
     (let (delegated, injected) = s_route_masks c in
      read_64 ((delegated AND mie_reg c) OR (injected AND m_shadow_enables c)) SIE_READ_MASK)"

definition sie_routed_write_64 :: "u64 \<Rightarrow> u64 \<Rightarrow> clint_pend \<Rightarrow> clint_pend" where
  "sie_routed_write_64 write_mask v c =
     (let (delegated, injected) = s_route_masks c in
      c\<lparr>mie_reg := write_64 (mie_reg c) (write_mask AND SIE_WRITE_MASK AND delegated) v,
        m_shadow_enables := write_64 (m_shadow_enables c) (write_mask AND SIE_WRITE_MASK AND injected) v\<rparr>)"

definition checked_write_sie :: "u32 \<Rightarrow> clint_pend \<Rightarrow> clint_pend" where
  "checked_write_sie v = sie_routed_write_64 WRITE_LO_MASK (lo_to_reg v)"
definition checked_write_sieh :: "u32 \<Rightarrow> clint_pend \<Rightarrow> clint_pend" where
  "checked_write_sieh v = sie_routed_write_64 WRITE_HI_MASK (hi_to_reg v)"
definition checked_read_sie :: "clint_pend \<Rightarrow> u32" where
  "checked_read_sie c = reg_to_lo (sie_routed_read_64 c)"
definition checked_read_sieh :: "clint_pend \<Rightarrow> u32" where
  "checked_read_sieh c = reg_to_hi (sie_routed_read_64 c)"

definition vsie_routed_read_64 :: "clint_pend \<Rightarrow> u64" where
  "vsie_routed_read_64 c =
     (let (delegated, injected) = vs_route_masks c;
          sie = NOT MIx_LEVELED_MASK AND sie_routed_read_64 c;
          hie = MIx_LEVELED_MASK AND ucast (checked_read_hie c) in
      read_64 ((delegated AND (sie OR hie)) OR (injected AND h_shadow_enables c)) VSIE_READ_MASK)"

definition vsie_routed_write_64 :: "u64 \<Rightarrow> u64 \<Rightarrow> clint_pend \<Rightarrow> clint_pend" where
  "vsie_routed_write_64 write_mask v c =
     (let v' = vs_to_m_bits v;
          (delegated, injected) = vs_route_masks c;
          delegated_mask = write_mask AND VSIE_WRITE_MASK AND delegated;
          c1 = sie_routed_write_64 delegated_mask v' c;
          c2 = hie_routed_write_32 delegated_mask (ucast v') c1 in
      c2\<lparr>h_shadow_enables := write_64 (h_shadow_enables c2) (write_mask AND VSIE_WRITE_MASK AND injected) v'\<rparr>)"

definition checked_write_vsie :: "u32 \<Rightarrow> clint_pend \<Rightarrow> clint_pend" where
  "checked_write_vsie v = vsie_routed_write_64 WRITE_LO_MASK (lo_to_reg v)"
definition checked_write_vsieh :: "u32 \<Rightarrow> clint_pend \<Rightarrow> clint_pend" where
  "checked_write_vsieh v = vsie_routed_write_64 WRITE_HI_MASK (hi_to_reg v)"
definition checked_read_vsie :: "clint_pend \<Rightarrow> u32" where
  "checked_read_vsie c = reg_to_lo (m_to_vs_bits (vsie_routed_read_64 c))"
definition checked_read_vsieh :: "clint_pend \<Rightarrow> u32" where
  "checked_read_vsieh c = reg_to_hi (m_to_vs_bits (vsie_routed_read_64 c))"

section \<open>Pending registers (struct xip)\<close>

definition mip_routed_read_64 :: "clint_pend \<Rightarrow> u64" where
  "mip_routed_read_64 c = read_64 (mip_reg c OR (hvip c AND HVIP_OR_MASK)) MIP_READ_MASK"

definition checked_write_mip :: "u32 \<Rightarrow> clint_pend \<Rightarrow> clint_pend" where
  "checked_write_mip v c = c\<lparr>mip_reg := write_lo (mip_reg c) MIP_WRITE_MASK v\<rparr>"
definition checked_write_miph :: "u32 \<Rightarrow> clint_pend \<Rightarrow> clint_pend" where
  "checked_write_miph v c = c\<lparr>mip_reg := write_hi (mip_reg c) MIP_WRITE_MASK v\<rparr>"
definition checked_read_mip :: "clint_pend \<Rightarrow> u32" where
  "checked_read_mip c = reg_to_lo (mip_routed_read_64 c)"
definition checked_read_miph :: "clint_pend \<Rightarrow> u32" where
  "checked_read_miph c = reg_to_hi (mip_routed_read_64 c)"

definition hip_routed_write_32 :: "u64 \<Rightarrow> u32 \<Rightarrow> clint_pend \<Rightarrow> clint_pend" where
  "hip_routed_write_32 write_mask v c = c\<lparr>mip_reg := write_lo (mip_reg c) (write_mask AND HIP_WRITE_MASK) v\<rparr>"
definition checked_write_hip :: "u32 \<Rightarrow> clint_pend \<Rightarrow> clint_pend" where
  "checked_write_hip v = hip_routed_write_32 WRITE_LO_MASK v"
definition checked_read_hip :: "clint_pend \<Rightarrow> u32" where
  "checked_read_hip c = reg_to_lo (mip_routed_read_64 c AND HIP_READ_MASK)"

definition sip_routed_read_64 :: "clint_pend \<Rightarrow> u64" where
  "sip_routed_read_64 c =
     (let (delegated, injected) = s_route_masks c in
      read_64 ((delegated AND mip_routed_read_64 c) OR (injected AND mvip c)) SIP_READ_MASK)"

definition sip_routed_write_64 :: "u64 \<Rightarrow> u64 \<Rightarrow> clint_pend \<Rightarrow> clint_pend" where
  "sip_routed_write_64 write_mask v c =
     (let (delegated, injected) = s_route_masks c in
      c\<lparr>mip_reg := write_64 (mip_reg c) (write_mask AND SIP_WRITE_DELEGATED_MASK AND delegated) v,
        mvip := write_64 (mvip c) (write_mask AND SIP_WRITE_INJECTED_MASK AND injected) v\<rparr>)"

definition checked_write_sip :: "u32 \<Rightarrow> clint_pend \<Rightarrow> clint_pend" where
  "checked_write_sip v = sip_routed_write_64 WRITE_LO_MASK (lo_to_reg v)"
definition checked_write_siph :: "u32 \<Rightarrow> clint_pend \<Rightarrow> clint_pend" where
  "checked_write_siph v = sip_routed_write_64 WRITE_HI_MASK (hi_to_reg v)"
definition checked_read_sip :: "clint_pend \<Rightarrow> u32" where
  "checked_read_sip c = reg_to_lo (sip_routed_read_64 c)"
definition checked_read_siph :: "clint_pend \<Rightarrow> u32" where
  "checked_read_siph c = reg_to_hi (sip_routed_read_64 c)"

definition vsip_routed_read_64 :: "clint_pend \<Rightarrow> u64" where
  "vsip_routed_read_64 c =
     (let (delegated, injected) = vs_route_masks c;
          sip = NOT MIx_LEVELED_MASK AND sip_routed_read_64 c;
          hip = MIx_LEVELED_MASK AND ucast (checked_read_hip c) in
      read_64 ((delegated AND (sip OR hip)) OR (injected AND hvip c)) VSIP_READ_MASK)"

definition vsip_routed_write_64 :: "u64 \<Rightarrow> u64 \<Rightarrow> clint_pend \<Rightarrow> clint_pend" where
  "vsip_routed_write_64 write_mask v c =
     (let v' = vs_to_m_bits v;
          (delegated, injected) = vs_route_masks c;
          delegated_mask = write_mask AND VSIP_WRITE_DELEGATED_MASK AND delegated;
          c1 = sip_routed_write_64 delegated_mask v' c;
          c2 = hip_routed_write_32 delegated_mask (ucast v') c1 in
      c2\<lparr>hvip := write_64 (hvip c2) (write_mask AND VSIP_WRITE_INJECTED_MASK AND injected) v'\<rparr>)"

definition checked_write_vsip :: "u32 \<Rightarrow> clint_pend \<Rightarrow> clint_pend" where
  "checked_write_vsip v = vsip_routed_write_64 WRITE_LO_MASK (lo_to_reg v)"
definition checked_write_vsiph :: "u32 \<Rightarrow> clint_pend \<Rightarrow> clint_pend" where
  "checked_write_vsiph v = vsip_routed_write_64 WRITE_HI_MASK (hi_to_reg v)"
definition checked_read_vsip :: "clint_pend \<Rightarrow> u32" where
  "checked_read_vsip c = reg_to_lo (m_to_vs_bits (vsip_routed_read_64 c))"
definition checked_read_vsiph :: "clint_pend \<Rightarrow> u32" where
  "checked_read_vsiph c = reg_to_hi (m_to_vs_bits (vsip_routed_read_64 c))"

text \<open>
  The hardware side: \<^verbatim>\<open>set << iid\<close> shifts an \<^verbatim>\<open>int\<close>, so that numbers of 32 and more are undefined
  behaviour; the simulator calls it with the standard interrupts, all below 13.
\<close>

definition hw_write_mip :: "u32 \<Rightarrow> bool \<Rightarrow> clint_pend \<Rightarrow> (bool \<times> clint_pend) res" where
  "hw_write_mip iid st c =
     (if iid \<ge> 32 then Inl UndefinedBehaviour
      else let reg_before = mip_reg c;
               reg_after = write_64 reg_before (MIP_READ_MASK AND BIT (unat iid)) (scast (push_bit (unat iid) (of_bool st) :: u32)) in
        Inr (reg_before AND BIT (unat iid) = 0 \<and> reg_after AND BIT (unat iid) = BIT (unat iid),
             c\<lparr>mip_reg := reg_after\<rparr>))"

section \<open>Virtualisation and delegation registers\<close>

definition checked_write_mvien :: "u32 \<Rightarrow> clint_pend \<Rightarrow> clint_pend" where
  "checked_write_mvien v c = c\<lparr>mvien := write_lo (mvien c) MVIEN_MASK v\<rparr>"
definition checked_read_mvien :: "clint_pend \<Rightarrow> u32" where
  "checked_read_mvien c = read_lo (mvien c) MVIEN_MASK"
definition checked_write_mvip :: "u32 \<Rightarrow> clint_pend \<Rightarrow> clint_pend" where
  "checked_write_mvip v c = c\<lparr>mvip := write_lo (mvip c) MVIP_MASK v\<rparr>"
definition checked_read_mvip :: "clint_pend \<Rightarrow> u32" where
  "checked_read_mvip c = read_lo (mvip c) MVIP_MASK"
definition checked_write_mvienh :: "u32 \<Rightarrow> clint_pend \<Rightarrow> clint_pend" where
  "checked_write_mvienh v c = c\<lparr>mvien := write_hi (mvien c) MVIEN_MASK v\<rparr>"
definition checked_read_mvienh :: "clint_pend \<Rightarrow> u32" where
  "checked_read_mvienh c = read_hi (mvien c) MVIEN_MASK"
definition checked_write_mviph :: "u32 \<Rightarrow> clint_pend \<Rightarrow> clint_pend" where
  "checked_write_mviph v c = c\<lparr>mvip := write_hi (mvip c) MVIP_MASK v\<rparr>"
definition checked_read_mviph :: "clint_pend \<Rightarrow> u32" where
  "checked_read_mviph c = read_hi (mvip c) MVIP_MASK"

definition checked_write_hvien :: "u32 \<Rightarrow> clint_pend \<Rightarrow> clint_pend" where
  "checked_write_hvien v c = c\<lparr>hvien := write_lo (hvien c) HVIEN_MASK v\<rparr>"
definition checked_read_hvien :: "clint_pend \<Rightarrow> u32" where
  "checked_read_hvien c = read_lo (hvien c) HVIEN_MASK"
definition checked_write_hvip :: "u32 \<Rightarrow> clint_pend \<Rightarrow> clint_pend" where
  "checked_write_hvip v c = c\<lparr>hvip := write_lo (hvip c) HVIP_MASK v\<rparr>"
definition checked_read_hvip :: "clint_pend \<Rightarrow> u32" where
  "checked_read_hvip c = read_lo (hvip c) HVIP_MASK"
definition checked_write_hvienh :: "u32 \<Rightarrow> clint_pend \<Rightarrow> clint_pend" where
  "checked_write_hvienh v c = c\<lparr>hvien := write_hi (hvien c) HVIEN_MASK v\<rparr>"
definition checked_read_hvienh :: "clint_pend \<Rightarrow> u32" where
  "checked_read_hvienh c = read_hi (hvien c) HVIEN_MASK"
definition checked_write_hviph :: "u32 \<Rightarrow> clint_pend \<Rightarrow> clint_pend" where
  "checked_write_hviph v c = c\<lparr>hvip := write_hi (hvip c) HVIP_MASK v\<rparr>"
definition checked_read_hviph :: "clint_pend \<Rightarrow> u32" where
  "checked_read_hviph c = read_hi (hvip c) HVIP_MASK"

definition checked_read_mideleg_64 :: "clint_pend \<Rightarrow> u64" where
  "checked_read_mideleg_64 c = read_64 (mideleg_reg c) MIDELEG_READ_MASK"
definition checked_write_mideleg :: "u32 \<Rightarrow> clint_pend \<Rightarrow> clint_pend" where
  "checked_write_mideleg v c = c\<lparr>mideleg_reg := write_lo (mideleg_reg c) MIDELEG_WRITE_MASK v\<rparr>"
definition checked_read_mideleg :: "clint_pend \<Rightarrow> u32" where
  "checked_read_mideleg c = read_lo (mideleg_reg c) MIDELEG_READ_MASK"
definition checked_write_midelegh :: "u32 \<Rightarrow> clint_pend \<Rightarrow> clint_pend" where
  "checked_write_midelegh v c = c\<lparr>mideleg_reg := write_hi (mideleg_reg c) MIDELEG_WRITE_MASK v\<rparr>"
definition checked_read_midelegh :: "clint_pend \<Rightarrow> u32" where
  "checked_read_midelegh c = read_hi (mideleg_reg c) MIDELEG_READ_MASK"

definition checked_write_hideleg :: "u32 \<Rightarrow> clint_pend \<Rightarrow> clint_pend" where
  "checked_write_hideleg v c = c\<lparr>hideleg_reg := write_lo (hideleg_reg c) (HIDELEG_MASK AND hideleg_m_extra_mask c) v\<rparr>"
definition checked_read_hideleg :: "clint_pend \<Rightarrow> u32" where
  "checked_read_hideleg c = read_lo (hideleg_reg c) (HIDELEG_MASK AND hideleg_m_extra_mask c)"
definition checked_write_hidelegh :: "u32 \<Rightarrow> clint_pend \<Rightarrow> clint_pend" where
  "checked_write_hidelegh v c = c\<lparr>hideleg_reg := write_hi (hideleg_reg c) (HIDELEG_MASK AND hideleg_m_extra_mask c) v\<rparr>"
definition checked_read_hidelegh :: "clint_pend \<Rightarrow> u32" where
  "checked_read_hidelegh c = read_hi (hideleg_reg c) (HIDELEG_MASK AND hideleg_m_extra_mask c)"

section \<open>Writes by CSR address\<close>

text \<open>The \<^verbatim>\<open>switch\<close> of \<^verbatim>\<open>ISS::on_clint_csr_write\<close>.\<close>

definition clint_csr_write :: "u32 \<Rightarrow> u32 \<Rightarrow> clint_pend \<Rightarrow> clint_pend res" where
  "clint_csr_write addr v c =
     (if addr = MIP_ADDR then Inr (checked_write_mip v c)
      else if addr = SIP_ADDR then Inr (checked_write_sip v c)
      else if addr = HIP_ADDR then Inr (checked_write_hip v c)
      else if addr = VSIP_ADDR then Inr (checked_write_vsip v c)
      else if addr = MIPH_ADDR then Inr (checked_write_miph v c)
      else if addr = SIPH_ADDR then Inr (checked_write_siph v c)
      else if addr = VSIPH_ADDR then Inr (checked_write_vsiph v c)
      else if addr = MIE_ADDR then Inr (checked_write_mie v c)
      else if addr = SIE_ADDR then Inr (checked_write_sie v c)
      else if addr = HIE_ADDR then Inr (checked_write_hie v c)
      else if addr = VSIE_ADDR then Inr (checked_write_vsie v c)
      else if addr = MIEH_ADDR then Inr (checked_write_mieh v c)
      else if addr = SIEH_ADDR then Inr (checked_write_sieh v c)
      else if addr = VSIEH_ADDR then Inr (checked_write_vsieh v c)
      else if addr = MVIP_ADDR then Inr (checked_write_mvip v c)
      else if addr = MVIPH_ADDR then Inr (checked_write_mviph v c)
      else if addr = MVIEN_ADDR then Inr (checked_write_mvien v c)
      else if addr = MVIENH_ADDR then Inr (checked_write_mvienh v c)
      else if addr = HVIP_ADDR then Inr (checked_write_hvip v c)
      else if addr = HVIPH_ADDR then Inr (checked_write_hviph v c)
      else if addr = HVIEN_ADDR then Inr (checked_write_hvien v c)
      else if addr = HVIENH_ADDR then Inr (checked_write_hvienh v c)
      else if addr = MIDELEG_ADDR then Inr (checked_write_mideleg v c)
      else if addr = MIDELEGH_ADDR then Inr (checked_write_midelegh v c)
      else if addr = HIDELEG_ADDR then Inr (checked_write_hideleg v c)
      else if addr = HIDELEGH_ADDR then Inr (checked_write_hidelegh v c)
      else Inl AssertFailed)"

section \<open>Bits\<close>

named_theorems clint_bits \<open>bits of the interrupt masks and of the 64-bit register operations\<close>

lemma bit_irq_bit: "unat iid < 64 \<Longrightarrow> bit (irq_bit iid) n \<longleftrightarrow> n = unat iid"
  by (auto simp: irq_bit_def)

lemmas irq_mask_defs = SIE_MASK_def HIE_MASK_def MIE_MASK_def VSIE_MASK_def MIx_VS_MASK_def VSIx_VS_MASK_def
  MIx_NON_LEVELED_MASK_def

lemma bit_masks [clint_bits]:
  "bit SIE_MASK n \<longleftrightarrow> n \<in> {1, 5, 9}"
  "bit HIE_MASK n \<longleftrightarrow> n \<in> {12, 2, 6, 10}"
  "bit MIE_MASK n \<longleftrightarrow> n \<in> {3, 7, 11, 1, 5, 9, 12, 2, 6, 10}"
  "bit VSIE_MASK n \<longleftrightarrow> n \<in> {2, 6, 10}"
  "bit MIx_VS_MASK n \<longleftrightarrow> n \<in> {2, 6, 10}"
  "bit VSIx_VS_MASK n \<longleftrightarrow> n \<in> {1, 5, 9}"
  "bit MIx_NON_LEVELED_MASK n \<longleftrightarrow> n \<in> {13, 17, 35, 43, 48}"
  by (simp_all add: irq_mask_defs bit_or_iff bit_irq_bit core_consts disj_assoc)

lemma bit_leveled [clint_bits]: "bit MIx_LEVELED_MASK n \<longleftrightarrow> n < 12"
proof -
  have e: "MIx_LEVELED_MASK = mask 12"
    by (simp add: MIx_LEVELED_MASK_def core_consts GENMASK_eq mask_numeral)
  show ?thesis unfolding e by (auto simp: bit_mask_iff)
qed

lemmas clint_mask_defs =
  MIx_IRQ_TYPE_EDGE_MASK_def MIE_WRITE_MASK_def MIE_READ_MASK_def SIE_WRITE_MASK_def SIE_READ_MASK_def
  HIE_WRITE_MASK_def HIE_READ_MASK_def VSIE_WRITE_MASK_def VSIE_READ_MASK_def MIP_WRITE_MASK_def
  MIP_READ_MASK_def SIP_WRITE_DELEGATED_MASK_def SIP_WRITE_INJECTED_MASK_def SIP_READ_MASK_def
  HIP_WRITE_MASK_def HIP_READ_MASK_def VSIP_WRITE_DELEGATED_MASK_def VSIP_WRITE_INJECTED_MASK_def
  VSIP_READ_MASK_def MVIEN_MASK_def MVIP_MASK_def HVIEN_MASK_def HVIP_MASK_def HVIP_OR_MASK_def
  MIDELEG_READ_MASK_def MIDELEG_WRITE_MASK_def HIDELEG_MASK_def

lemma bit_u32_bound: "bit (x :: u32) n \<Longrightarrow> n < 32"
  using bit_imp_le_length [of x n] by simp

lemma bit_u64_bound: "bit (x :: u64) n \<Longrightarrow> n < 64"
  using bit_imp_le_length [of x n] by simp

lemma bit_64_ops [clint_bits]:
  "bit (write_64 r m v) n \<longleftrightarrow> (if bit m n then bit v n else bit r n)"
  "bit (read_64 r m) n \<longleftrightarrow> bit r n \<and> bit m n"
  "bit (lo_to_reg w) n \<longleftrightarrow> bit w n"
  "bit (hi_to_reg w) n \<longleftrightarrow> 32 \<le> n \<and> bit w (n - 32)"
  "bit (reg_to_lo r) n \<longleftrightarrow> n < 32 \<and> bit r n"
  "bit (reg_to_hi r) n \<longleftrightarrow> n < 32 \<and> bit r (32 + n)"
  by (auto simp: write_64_def read_64_def lo_to_reg_def hi_to_reg_def reg_to_lo_def reg_to_hi_def bit_simps
      dest: bit_u32_bound bit_u64_bound)

lemma bit_write_masks [clint_bits]:
  "bit WRITE_LO_MASK n \<longleftrightarrow> n < 32" "bit WRITE_HI_MASK n \<longleftrightarrow> 32 \<le> n \<and> n < 64"
proof -
  have lo: "WRITE_LO_MASK = mask 32" and hi: "WRITE_HI_MASK = push_bit 32 (mask 32)"
    by (simp_all add: WRITE_LO_MASK_def WRITE_HI_MASK_def mask_numeral)
  show "bit WRITE_LO_MASK n \<longleftrightarrow> n < 32" unfolding lo by (auto simp: bit_mask_iff)
  show "bit WRITE_HI_MASK n \<longleftrightarrow> 32 \<le> n \<and> n < 64" unfolding hi by (auto simp: bit_simps)
qed

lemma bit_write_lo_hi [clint_bits]:
  "bit (write_lo r m w) n \<longleftrightarrow> (if n < 32 \<and> bit m n then bit w n else bit r n)"
  "bit (write_hi r m w) n \<longleftrightarrow> (if 32 \<le> n \<and> n < 64 \<and> bit m n then bit w (n - 32) else bit r n)"
  by (auto simp: write_lo_def write_hi_def clint_bits bit_and_iff)

lemma bit_read_lo_hi [clint_bits]:
  "bit (read_lo r m) n \<longleftrightarrow> n < 32 \<and> bit r n \<and> bit m n"
  "bit (read_hi r m) n \<longleftrightarrow> n < 32 \<and> bit r (32 + n) \<and> bit m (32 + n)"
  by (auto simp: read_lo_def read_hi_def clint_bits)

lemma bit_m_to_vs [clint_bits]:
  "bit (m_to_vs_bits x) n \<longleftrightarrow> (if n < 12 then n \<in> {1, 5, 9} \<and> bit x (Suc n) else bit x n)"
proof -
  have "bit (m_to_vs_bits x) n \<longleftrightarrow> \<not> n < 12 \<and> bit x n \<or>
      bit x (MIP_TO_VSIP_SHIFT + n) \<and> MIP_TO_VSIP_SHIFT + n \<in> {2, 6, 10}"
    by (auto simp: m_to_vs_bits_def bit_or_iff bit_and_iff bit_not_iff bit_drop_bit_eq clint_bits dest: bit_u64_bound)
  then show ?thesis by (auto simp: MIP_TO_VSIP_SHIFT_def)
qed

lemma bit_vs_to_m [clint_bits]:
  "bit (vs_to_m_bits x) n \<longleftrightarrow> (if n < 12 then n \<in> {2, 6, 10} \<and> bit x (n - 1) else bit x n)"
proof -
  have "bit (vs_to_m_bits x) n \<longleftrightarrow> \<not> n < 12 \<and> bit x n \<or>
      MIP_TO_VSIP_SHIFT \<le> n \<and> n < 64 \<and> bit x (n - MIP_TO_VSIP_SHIFT) \<and> n - MIP_TO_VSIP_SHIFT \<in> {1, 5, 9}"
    by (auto simp: vs_to_m_bits_def bit_or_iff bit_and_iff bit_not_iff bit_push_bit_iff clint_bits dest: bit_u64_bound)
  then show ?thesis by (auto simp: MIP_TO_VSIP_SHIFT_def)
qed

section \<open>Invariant of the registers\<close>

definition sub_mask :: "u64 \<Rightarrow> u64 \<Rightarrow> bool" where
  "sub_mask x m \<longleftrightarrow> x AND NOT m = 0"

lemma sub_mask_bits: "sub_mask x m \<longleftrightarrow> (\<forall>n. bit x n \<longrightarrow> bit m n)"
  by (auto simp: sub_mask_def bit_eq_iff bit_simps dest: bit_u64_bound)

lemma sub_mask_write:
  assumes "sub_mask r M" "sub_mask m M"
  shows "sub_mask (write_64 r m v) M" "sub_mask (write_lo r m w) M" "sub_mask (write_hi r m w) M"
  using assms by (auto simp: sub_mask_bits clint_bits)

lemma sub_mask_and:
  "sub_mask a M \<Longrightarrow> sub_mask (a AND b) M" "sub_mask b M \<Longrightarrow> sub_mask (a AND b) M"
  by (auto simp: sub_mask_bits bit_and_iff)

text \<open>
  What the registers hold at any time: only implemented bits, and the VS-level and guest
  external interrupts are always delegated past M-mode.
\<close>

definition clint_inv :: "clint_pend \<Rightarrow> bool" where
  "clint_inv c \<longleftrightarrow>
     sub_mask HIE_MASK (mideleg_reg c) \<and> sub_mask (mideleg_reg c) MIDELEG_READ_MASK \<and>
     sub_mask (mip_reg c) MIP_READ_MASK \<and> sub_mask (mie_reg c) MIE_WRITE_MASK \<and>
     sub_mask (mvien c) MVIEN_MASK \<and> sub_mask (mvip c) MVIP_MASK \<and> sub_mask (m_shadow_enables c) SIE_WRITE_MASK \<and>
     sub_mask (hvien c) HVIEN_MASK \<and> sub_mask (hvip c) HVIP_MASK \<and> sub_mask (h_shadow_enables c) VSIE_WRITE_MASK \<and>
     sub_mask (hideleg_reg c) HIDELEG_MASK"

lemma sub_mask_constants:
  "sub_mask SIE_WRITE_MASK MIE_WRITE_MASK" "sub_mask HIE_WRITE_MASK MIE_WRITE_MASK"
  "sub_mask SIP_WRITE_INJECTED_MASK MVIP_MASK" "sub_mask VSIP_WRITE_INJECTED_MASK HVIP_MASK"
  "sub_mask MIDELEG_WRITE_MASK MIDELEG_READ_MASK" "sub_mask MIP_WRITE_MASK m" "sub_mask SIP_WRITE_DELEGATED_MASK m"
  "sub_mask HIP_WRITE_MASK m" "sub_mask HIE_MASK MIDELEG_READ_MASK" "sub_mask m m" "sub_mask 0 m"
  by (auto simp: sub_mask_bits clint_bits clint_mask_defs bit_or_iff bit_and_iff)

lemma sub_mask_write_mideleg:
  "sub_mask HIE_MASK r \<Longrightarrow> sub_mask HIE_MASK (write_lo r MIDELEG_WRITE_MASK w)"
  "sub_mask HIE_MASK r \<Longrightarrow> sub_mask HIE_MASK (write_hi r MIDELEG_WRITE_MASK w)"
  by (auto simp: sub_mask_bits clint_bits clint_mask_defs)

lemmas sub_mask_intros = sub_mask_write sub_mask_write_mideleg sub_mask_constants

lemma clint_inv_init: "clint_inv clint_pend_init"
  by (simp add: clint_inv_def clint_pend_init_def sub_mask_constants)

lemma sie_write_inv: "clint_inv c \<Longrightarrow> clint_inv (sie_routed_write_64 m v c)"
  by (auto simp: clint_inv_def sie_routed_write_64_def s_route_masks_def
      intro!: sub_mask_write intro: sub_mask_and sub_mask_constants)

lemma sip_write_inv: "clint_inv c \<Longrightarrow> clint_inv (sip_routed_write_64 m v c)"
  by (auto simp: clint_inv_def sip_routed_write_64_def s_route_masks_def
      intro!: sub_mask_write intro: sub_mask_and sub_mask_constants)

lemma hie_write_inv: "clint_inv c \<Longrightarrow> clint_inv (hie_routed_write_32 m v c)"
  by (auto simp: clint_inv_def hie_routed_write_32_def intro!: sub_mask_write intro: sub_mask_and sub_mask_constants)

lemma hip_write_inv: "clint_inv c \<Longrightarrow> clint_inv (hip_routed_write_32 m v c)"
  by (auto simp: clint_inv_def hip_routed_write_32_def intro!: sub_mask_write intro: sub_mask_and sub_mask_constants)

lemma vsie_write_inv: "clint_inv c \<Longrightarrow> clint_inv (vsie_routed_write_64 m v c)"
proof -
  assume "clint_inv c"
  then have "clint_inv (hie_routed_write_32 n (ucast w) (sie_routed_write_64 n w c))" for n w
    by (intro hie_write_inv sie_write_inv)
  then show ?thesis
    by (auto simp: vsie_routed_write_64_def vs_route_masks_def Let_def clint_inv_def
        intro!: sub_mask_write intro: sub_mask_and sub_mask_constants)
qed

lemma vsip_write_inv: "clint_inv c \<Longrightarrow> clint_inv (vsip_routed_write_64 m v c)"
proof -
  assume "clint_inv c"
  then have "clint_inv (hip_routed_write_32 n (ucast w) (sip_routed_write_64 n w c))" for n w
    by (intro hip_write_inv sip_write_inv)
  then show ?thesis
    by (auto simp: vsip_routed_write_64_def vs_route_masks_def Let_def clint_inv_def
        intro!: sub_mask_write intro: sub_mask_and sub_mask_constants)
qed

lemmas clint_plain_write_defs =
  checked_write_mip_def checked_write_miph_def checked_write_mie_def checked_write_mieh_def
  checked_write_mvip_def checked_write_mviph_def checked_write_mvien_def checked_write_mvienh_def
  checked_write_hvip_def checked_write_hviph_def checked_write_hvien_def checked_write_hvienh_def
  checked_write_mideleg_def checked_write_midelegh_def checked_write_hideleg_def checked_write_hidelegh_def

lemmas clint_routed_write_defs =
  checked_write_sip_def checked_write_siph_def checked_write_hip_def checked_write_vsip_def checked_write_vsiph_def
  checked_write_sie_def checked_write_sieh_def checked_write_hie_def checked_write_vsie_def checked_write_vsieh_def

lemma plain_writes_inv:
  assumes "clint_inv c"
  shows "clint_inv (checked_write_mip v c)" "clint_inv (checked_write_miph v c)"
    "clint_inv (checked_write_mie v c)" "clint_inv (checked_write_mieh v c)"
    "clint_inv (checked_write_mvip v c)" "clint_inv (checked_write_mviph v c)"
    "clint_inv (checked_write_mvien v c)" "clint_inv (checked_write_mvienh v c)"
    "clint_inv (checked_write_hvip v c)" "clint_inv (checked_write_hviph v c)"
    "clint_inv (checked_write_hvien v c)" "clint_inv (checked_write_hvienh v c)"
    "clint_inv (checked_write_mideleg v c)" "clint_inv (checked_write_midelegh v c)"
    "clint_inv (checked_write_hideleg v c)" "clint_inv (checked_write_hidelegh v c)"
  using assms
  by (auto simp: clint_inv_def clint_plain_write_defs intro!: sub_mask_write sub_mask_write_mideleg
      intro: sub_mask_and sub_mask_constants)

lemma clint_csr_write_inv: "clint_csr_write addr v c = Inr c' \<Longrightarrow> clint_inv c \<Longrightarrow> clint_inv c'"
  unfolding clint_csr_write_def
  by (auto simp: clint_routed_write_defs plain_writes_inv sie_write_inv sip_write_inv hie_write_inv hip_write_inv
      vsie_write_inv vsip_write_inv split: if_splits)

lemma hw_write_mip_effect:
  assumes "hw_write_mip iid st c = Inr (e, c')"
  shows "c' = c\<lparr>mip_reg := mip_reg c'\<rparr>"
    and "bit (mip_reg c') n \<longleftrightarrow> (if n = unat iid \<and> bit MIP_READ_MASK n then st else bit (mip_reg c) n)"
    and "e \<longleftrightarrow> \<not> bit (mip_reg c) (unat iid) \<and> bit (mip_reg c') (unat iid)"
proof -
  have iid: "unat iid < 32"
    and c': "c' = c\<lparr>mip_reg := write_64 (mip_reg c) (MIP_READ_MASK AND BIT (unat iid))
        (scast (push_bit (unat iid) (of_bool st) :: u32))\<rparr>"
    and e: "e \<longleftrightarrow> mip_reg c AND BIT (unat iid) = 0 \<and> mip_reg c' AND BIT (unat iid) = BIT (unat iid)"
    using assms by (auto simp: hw_write_mip_def Let_def not_le word_less_nat_alt split: if_splits)
  show "c' = c\<lparr>mip_reg := mip_reg c'\<rparr>" by (simp add: c')
  have sc: "bit (scast (push_bit (unat iid) (of_bool st) :: u32) :: u64) (unat iid) \<longleftrightarrow> st"
    using iid by (simp only: bit_signed_iff bit_push_bit_iff) (cases st; simp)
  show bits: "bit (mip_reg c') n \<longleftrightarrow> (if n = unat iid \<and> bit MIP_READ_MASK n then st else bit (mip_reg c) n)" for n
    using iid sc by (cases "n = unat iid") (simp_all add: c' clint_bits bit_and_iff del: push_bit_of_1)
  show "e \<longleftrightarrow> \<not> bit (mip_reg c) (unat iid) \<and> bit (mip_reg c') (unat iid)"
    using iid by (simp add: e and_BIT_eq_0 and_BIT_eq_BIT)
qed

lemma hw_write_mip_inv: "hw_write_mip iid st c = Inr (e, c') \<Longrightarrow> clint_inv c \<Longrightarrow> clint_inv c'"
  using hw_write_mip_effect(1) [of iid st c e c'] hw_write_mip_effect(2) [of iid st c e c']
  by (cases c; cases c') (auto simp: clint_inv_def sub_mask_bits)

text \<open>
  A step of these registers: a CSR write to one of their addresses, or a change of an interrupt
  line by the hardware.
\<close>

inductive clint_step :: "clint_pend \<Rightarrow> clint_pend \<Rightarrow> bool" where
  csr_write: "clint_csr_write addr v c = Inr c' \<Longrightarrow> clint_step c c'"
| hw_line: "hw_write_mip iid st c = Inr (e, c') \<Longrightarrow> clint_step c c'"

text \<open>
  C27: from reset, whatever is written to the interrupt registers and however the interrupt
  lines change, the registers hold only implemented bits, and the VS-level and guest external
  interrupts stay delegated past M-mode: none of them is ever pending for M-mode.
\<close>

theorem clint_registers_invariant:
  assumes "clint_step\<^sup>*\<^sup>* clint_pend_init c"
  shows "clint_inv c \<and> mie_reg c AND mip_reg c AND NOT (checked_read_mideleg_64 c) AND HIE_MASK = 0"
proof -
  have inv: "clint_inv c"
    using assms by (induction rule: rtranclp_induct)
      (auto simp: clint_inv_init elim!: clint_step.cases intro: clint_csr_write_inv hw_write_mip_inv)
  then have "bit (checked_read_mideleg_64 c) n" if "bit HIE_MASK n" for n
    using that by (auto simp: clint_inv_def sub_mask_bits checked_read_mideleg_64_def clint_bits)
  then show ?thesis
    using inv by (auto simp: bit_eq_iff bit_and_iff bit_not_iff)
qed

theorem clint_registers_invariant_witness:
  "clint_inv (checked_write_mie 0xAAA clint_pend_init)"
proof -
  have "clint_step clint_pend_init (checked_write_mie 0xAAA clint_pend_init)"
    by (rule csr_write [where addr = MIE_ADDR and v = "0xAAA"]) (simp add: clint_csr_write_def csr_addrs)
  then show ?thesis
    using clint_registers_invariant [OF r_into_rtranclp] by blast
qed

section \<open>What each level sees of an interrupt\<close>

lemma bit_sip_routed:
  "bit (sip_routed_read_64 c) n \<longleftrightarrow> n \<in> {1, 5, 9, 13, 17, 35, 43, 48} \<and>
     (if bit (mideleg_reg c) n then bit (mip_routed_read_64 c) n else bit (mvien c) n \<and> bit (mvip c) n)"
  by (auto simp: sip_routed_read_64_def s_route_masks_def clint_bits clint_mask_defs bit_simps dest: bit_u64_bound)

lemma bit_sie_routed:
  "bit (sie_routed_read_64 c) n \<longleftrightarrow> n \<in> {1, 5, 9, 13, 17, 35, 43, 48} \<and>
     (if bit (mideleg_reg c) n then bit (mie_reg c) n else bit (mvien c) n \<and> bit (m_shadow_enables c) n)"
  by (auto simp: sie_routed_read_64_def s_route_masks_def clint_bits clint_mask_defs bit_simps dest: bit_u64_bound)

lemma bit_hideleg: "bit (checked_read_hideleg_64 c) n \<longleftrightarrow>
    n \<in> {2, 6, 10} \<and> bit (hideleg_reg c) n \<and> (bit (mideleg_reg c) n \<or> bit (mvien c) n)"
  by (auto simp: checked_read_hideleg_64_def hideleg_m_extra_mask_def s_route_masks_def clint_bits clint_mask_defs
      bit_simps dest: bit_u64_bound)

lemma bit_hie: "bit (checked_read_hie c) n \<longleftrightarrow> n \<in> {12, 2, 6, 10} \<and> bit (mie_reg c) n"
  by (auto simp: checked_read_hie_def clint_bits clint_mask_defs)

lemma bit_hip: "bit (checked_read_hip c) n \<longleftrightarrow> n \<in> {12, 2, 6, 10} \<and> bit (mip_routed_read_64 c) n"
  by (auto simp: checked_read_hip_def clint_bits clint_mask_defs bit_and_iff)

lemma bit_vsie_routed:
  "bit (vsie_routed_read_64 c) n \<longleftrightarrow> n \<in> {13, 17, 35, 43, 48, 2, 6, 10} \<and>
     (if bit (checked_read_hideleg_64 c) n then bit (mie_reg c) n else bit (hvien c) n \<and> bit (h_shadow_enables c) n)"
  by (auto simp: vsie_routed_read_64_def vs_route_masks_def Let_def clint_bits clint_mask_defs bit_simps bit_hie
      bit_hideleg dest: bit_u64_bound)

lemma bit_vsip_routed:
  "bit (vsip_routed_read_64 c) n \<longleftrightarrow> n \<in> {13, 17, 35, 43, 48, 2, 6, 10} \<and>
     (if bit (checked_read_hideleg_64 c) n then bit (mip_routed_read_64 c) n else bit (hvien c) n \<and> bit (hvip c) n)"
  by (auto simp: vsip_routed_read_64_def vs_route_masks_def Let_def clint_bits clint_mask_defs bit_simps bit_hip
      bit_hideleg dest: bit_u64_bound)

lemma bit_vs_irqs_present:
  "bit (vs_irqs_present c) n \<longleftrightarrow>
     (if n < 12 then n \<in> {1, 5, 9} \<and> (bit (checked_read_hideleg_64 c) (Suc n) \<or> bit (hvien c) (Suc n))
      else bit (checked_read_hideleg_64 c) n \<or> bit (hvien c) n)"
  by (auto simp: vs_irqs_present_def vs_route_masks_def Let_def clint_bits bit_simps dest: bit_u64_bound)

lemma vsie_write_fields:
  shows "bit (mie_reg (vsie_routed_write_64 m v c)) n \<longleftrightarrow>
      (if bit m n \<and> bit (checked_read_hideleg_64 c) n then bit (vs_to_m_bits v) n else bit (mie_reg c) n)"
    and "bit (h_shadow_enables (vsie_routed_write_64 m v c)) n \<longleftrightarrow>
      (if bit m n \<and> n \<in> {13, 17, 35, 43, 48, 2, 6, 10} \<and> \<not> bit (checked_read_hideleg_64 c) n \<and> bit (hvien c) n
       then bit (vs_to_m_bits v) n else bit (h_shadow_enables c) n)"
    and "m_shadow_enables (vsie_routed_write_64 m v c) = m_shadow_enables c"
    and "vsie_routed_write_64 m v c = c\<lparr>mie_reg := mie_reg (vsie_routed_write_64 m v c),
      h_shadow_enables := h_shadow_enables (vsie_routed_write_64 m v c)\<rparr>"
proof -
  have hd: "bit (checked_read_hideleg_64 c) k \<Longrightarrow> k \<in> {2, 6, 10}" for k
    by (simp add: bit_hideleg)
  show sh: "m_shadow_enables (vsie_routed_write_64 m v c) = m_shadow_enables c"
    by (intro bit_word_eqI)
      (auto simp: bit_hideleg vsie_routed_write_64_def vs_route_masks_def hie_routed_write_32_def sie_routed_write_64_def
        s_route_masks_def Let_def clint_bits clint_mask_defs bit_simps)
  show "bit (mie_reg (vsie_routed_write_64 m v c)) n \<longleftrightarrow>
      (if bit m n \<and> bit (checked_read_hideleg_64 c) n then bit (vs_to_m_bits v) n else bit (mie_reg c) n)"
    using hd [of n]
    by (auto simp: vsie_routed_write_64_def vs_route_masks_def hie_routed_write_32_def sie_routed_write_64_def
        s_route_masks_def Let_def clint_bits clint_mask_defs bit_simps)
  show "bit (h_shadow_enables (vsie_routed_write_64 m v c)) n \<longleftrightarrow>
      (if bit m n \<and> n \<in> {13, 17, 35, 43, 48, 2, 6, 10} \<and> \<not> bit (checked_read_hideleg_64 c) n \<and> bit (hvien c) n
       then bit (vs_to_m_bits v) n else bit (h_shadow_enables c) n)"
    by (auto simp: vsie_routed_write_64_def vs_route_masks_def hie_routed_write_32_def sie_routed_write_64_def
        s_route_masks_def Let_def clint_bits clint_mask_defs bit_simps dest: bit_u64_bound)
  show "vsie_routed_write_64 m v c = c\<lparr>mie_reg := mie_reg (vsie_routed_write_64 m v c),
      h_shadow_enables := h_shadow_enables (vsie_routed_write_64 m v c)\<rparr>"
    using sh by (cases c)
      (simp add: vsie_routed_write_64_def hie_routed_write_32_def sie_routed_write_64_def Let_def split_def)
qed

text \<open>
  A guest reads back from \<^verbatim>\<open>vsie\<close> (or \<^verbatim>\<open>vsieh\<close>) what it wrote, on exactly the interrupts that are
  delegated to or injected into it, at the S-level positions it knows; every other bit reads
  as zero.
\<close>

theorem vsie_roundtrip:
  assumes "clint_inv c"
  shows "checked_read_vsie (checked_write_vsie v c) = v AND reg_to_lo (vs_irqs_present c) \<and>
         checked_read_vsieh (checked_write_vsieh v c) = v AND reg_to_hi (vs_irqs_present c)"
proof -
  have hv: "bit (hvien c) n \<Longrightarrow> n \<in> {13, 17, 35, 43, 48}" for n
    using assms by (auto simp: clint_inv_def sub_mask_bits clint_mask_defs clint_bits)
  have hd: "bit (checked_read_hideleg_64 c) n \<Longrightarrow> n \<in> {2, 6, 10}" for n
    by (simp add: bit_hideleg)
  have same: "checked_read_hideleg_64 (vsie_routed_write_64 m w c) = checked_read_hideleg_64 c"
    "hvien (vsie_routed_write_64 m w c) = hvien c" for m w
    by (subst vsie_write_fields(4), simp add: checked_read_hideleg_64_def hideleg_m_extra_mask_def s_route_masks_def)+
  have rd: "bit (vsie_routed_read_64 (vsie_routed_write_64 m w c)) n \<longleftrightarrow>
      (bit (checked_read_hideleg_64 c) n \<or> bit (hvien c) n) \<and>
      (if bit m n then bit (vs_to_m_bits w) n
       else if bit (checked_read_hideleg_64 c) n then bit (mie_reg c) n else bit (h_shadow_enables c) n)" for m w n
    using hv [of n] hd [of n] by (auto simp: bit_vsie_routed same vsie_write_fields(1,2))
  show ?thesis
  proof (intro conjI bit_word_eqI)
    fix n assume "n < LENGTH(32)"
    then show "bit (checked_read_vsie (checked_write_vsie v c)) n = bit (v AND reg_to_lo (vs_irqs_present c)) n"
      using hv hd by (auto simp: checked_read_vsie_def checked_write_vsie_def rd bit_vs_irqs_present clint_bits bit_and_iff)
  next
    fix n assume "n < LENGTH(32)"
    then show "bit (checked_read_vsieh (checked_write_vsieh v c)) n = bit (v AND reg_to_hi (vs_irqs_present c)) n"
      using hv hd by (auto simp: checked_read_vsieh_def checked_write_vsieh_def rd bit_vs_irqs_present clint_bits bit_and_iff)
  qed
qed

text \<open>A guest with the VS software and timer interrupts delegated to it.\<close>

definition example_guest_clint :: clint_pend where
  "example_guest_clint = checked_write_hideleg 0x44 clint_pend_init"

theorem vsie_roundtrip_witness:
  "checked_read_vsie (checked_write_vsie 0xFFFFFFFF example_guest_clint) = 0x22"
proof -
  have "clint_inv example_guest_clint"
    by (simp add: example_guest_clint_def plain_writes_inv clint_inv_init)
  moreover have "reg_to_lo (vs_irqs_present example_guest_clint) = 0x22"
    by code_simp
  ultimately show ?thesis
    using vsie_roundtrip [of example_guest_clint "0xFFFFFFFF"] by simp
qed

text \<open>
  C26: a guest that writes its interrupt registers (\<^verbatim>\<open>vsip\<close>, \<^verbatim>\<open>vsiph\<close>, \<^verbatim>\<open>vsie\<close>, \<^verbatim>\<open>vsieh\<close>) changes nothing for
  an interrupt that is not its own: the machine-level pending and delegation registers and
  \<^verbatim>\<open>mvip\<close> stay as they are, and in \<^verbatim>\<open>mie\<close>, \<^verbatim>\<open>hvip\<close> and the shadow enables only the bits of
  interrupts delegated to or injected into the guest can change.
\<close>

theorem guest_writes_are_confined:
  assumes "addr \<in> {VSIP_ADDR, VSIPH_ADDR, VSIE_ADDR, VSIEH_ADDR}" "clint_csr_write addr v c = Inr c'"
  shows "mip_reg c' = mip_reg c \<and> mvip c' = mvip c \<and> mvien c' = mvien c \<and> hvien c' = hvien c \<and>
     mideleg_reg c' = mideleg_reg c \<and> hideleg_reg c' = hideleg_reg c \<and> m_shadow_enables c' = m_shadow_enables c \<and>
     (\<forall>n. \<not> bit (fst (vs_route_masks c) OR snd (vs_route_masks c)) n \<longrightarrow>
        bit (mie_reg c') n = bit (mie_reg c) n \<and> bit (hvip c') n = bit (hvip c) n \<and>
        bit (h_shadow_enables c') n = bit (h_shadow_enables c) n)"
proof -
  have vsip: "\<exists>h. vsip_routed_write_64 m w c = c\<lparr>hvip := h\<rparr> \<and>
     (\<forall>n. \<not> bit (snd (vs_route_masks c)) n \<longrightarrow> bit h n = bit (hvip c) n)" for m w
    by (intro exI [of _ "hvip (vsip_routed_write_64 m w c)"])
      (auto simp: vsip_routed_write_64_def sip_routed_write_64_def hip_routed_write_32_def Let_def split_def
        VSIP_WRITE_DELEGATED_MASK_def SIP_WRITE_DELEGATED_MASK_def HIP_WRITE_MASK_def write_lo_def write_64_def
        bit_simps dest: bit_u64_bound)
  have vsie: "\<exists>a b. vsie_routed_write_64 m w c = c\<lparr>mie_reg := a, h_shadow_enables := b\<rparr> \<and>
     (\<forall>n. \<not> bit (fst (vs_route_masks c) OR snd (vs_route_masks c)) n \<longrightarrow>
        bit a n = bit (mie_reg c) n \<and> bit b n = bit (h_shadow_enables c) n)" for m w
    using vsie_write_fields(1,2,4) [of m w c]
    by (intro exI [of _ "mie_reg (vsie_routed_write_64 m w c)"] exI [of _ "h_shadow_enables (vsie_routed_write_64 m w c)"])
      (auto simp: vs_route_masks_def Let_def bit_simps dest: bit_u64_bound)
  from assms consider m w where "c' = vsip_routed_write_64 m w c" | m w where "c' = vsie_routed_write_64 m w c"
    by (auto simp: clint_csr_write_def clint_routed_write_defs csr_addrs)
  then show ?thesis
  proof cases
    case 1
    then show ?thesis using vsip [of m w] by (auto simp: bit_or_iff)
  next
    case 2
    then show ?thesis using vsie [of m w] by auto
  qed
qed

theorem guest_writes_are_confined_witness:
  "\<exists>c'. clint_csr_write VSIE_ADDR 0xFFFFFFFF example_guest_clint = Inr c' \<and>
     mideleg_reg c' = mideleg_reg example_guest_clint \<and> bit (mie_reg c') 10 = bit (mie_reg example_guest_clint) 10"
proof -
  have "\<exists>c'. clint_csr_write VSIE_ADDR 0xFFFFFFFF example_guest_clint = Inr c'"
    by (simp add: clint_csr_write_def csr_addrs)
  moreover have "\<not> bit (fst (vs_route_masks example_guest_clint) OR snd (vs_route_masks example_guest_clint)) 10"
    by code_simp
  ultimately show ?thesis
    using guest_writes_are_confined [of VSIE_ADDR "0xFFFFFFFF" example_guest_clint] by auto
qed

end
