(* ===== verification/VP_Icsr.thy ===== *)
theory VP_Icsr
  imports VP_CSR_Regs
begin

text \<open>
  The indirect registers (\<^verbatim>\<open>core/rv32/csr.h\<close>, extension Smcsrind): the interrupt-file registers
  \<^verbatim>\<open>eidelivery\<close>, \<^verbatim>\<open>eithreshold\<close>, \<^verbatim>\<open>eip\<close>, \<^verbatim>\<open>eie\<close>, the priority arrays \<^verbatim>\<open>iprio\<close> with the hypervisor's view
  \<^verbatim>\<open>hviprio\<close>, and the tables \<^verbatim>\<open>icsr_ms_table\<close> and \<^verbatim>\<open>icsr_vs_table\<close> that map an indirect address to a
  register. The tables' \<^verbatim>\<open>unordered_map\<close> of pointers is a function from addresses to a reference
  naming the register.

  The lemmas show that \<^verbatim>\<open>eithreshold\<close> in nested-vectored mode is a stack of preemption levels:
  the interrupts of a nest return to the thresholds they preempted.
\<close>

section \<open>icsr_32 and eidelivery\<close>

record icsr_32 =
  i32_reg :: u32
  i32_mask :: u32

definition BITS_PER_CSR :: u32 where [core_consts]: "BITS_PER_CSR = 32"

definition icsr_32_init :: icsr_32 where
  "icsr_32_init = \<lparr>i32_reg = 0, i32_mask = 0xFFFFFFFF\<rparr>"

definition icsr_32_checked_write :: "u32 \<Rightarrow> icsr_32 \<Rightarrow> icsr_32" where
  "icsr_32_checked_write v r = r\<lparr>i32_reg := masked_write (i32_mask r) v (i32_reg r)\<rparr>"

definition icsr_32_checked_read :: "icsr_32 \<Rightarrow> u32" where
  "icsr_32_checked_read r = i32_reg r AND i32_mask r"

definition eidelivery_checked_write :: "u32 \<Rightarrow> u32" where
  "eidelivery_checked_write v = v AND 1"

definition eidelivery_checked_read :: "u32 \<Rightarrow> u32" where
  "eidelivery_checked_read reg = reg AND 1"

definition delivery_on :: "u32 \<Rightarrow> bool" where
  "delivery_on reg \<longleftrightarrow> eidelivery_delivery reg \<noteq> 0"

section \<open>eithreshold\<close>

record icsr_eithreshold =
  et_reg :: u32
  et_mode_snps_vectored :: bool
  et_thresholds :: "bool list"
  et_threshold_tail :: u32

definition icsr_eithreshold_init :: icsr_eithreshold where
  "icsr_eithreshold_init = \<lparr>et_reg = 0, et_mode_snps_vectored = False,
     et_thresholds = replicate (unat NV_MODE_MAX_VECTOR + 1) False, et_threshold_tail = 0\<rparr>"

definition is_tailed_iid :: "u32 \<Rightarrow> bool" where
  "is_tailed_iid minor_iid \<longleftrightarrow> minor_iid > NV_MODE_MAX_VECTOR"

definition is_reg_unstackable :: "icsr_eithreshold \<Rightarrow> bool" where
  "is_reg_unstackable t \<longleftrightarrow> et_reg t = 0 \<or> is_tailed_iid (et_reg t)"

definition tstack_insert :: "u32 \<Rightarrow> icsr_eithreshold \<Rightarrow> icsr_eithreshold res" where
  "tstack_insert minor_iid t =
     assert_that (is_valid_minor_iid minor_iid)
      (assert_that (is_upper_bound_valid_minor_iid (et_reg t))
        (if is_reg_unstackable t then Inr (t\<lparr>et_reg := minor_iid\<rparr>)
         else let t' = t\<lparr>et_thresholds := (et_thresholds t)[unat (et_reg t) := True]\<rparr> in
           if et_reg t' > minor_iid then Inr (t'\<lparr>et_reg := minor_iid\<rparr>) else Inr t'))"

definition tstack_put_tail :: "u32 \<Rightarrow> icsr_eithreshold \<Rightarrow> icsr_eithreshold" where
  "tstack_put_tail minor_iid t =
     (let t' = t\<lparr>et_threshold_tail := minor_iid\<rparr> in
      if is_reg_unstackable t' then t'\<lparr>et_reg := minor_iid\<rparr> else t')"

definition tstack_pop :: "icsr_eithreshold \<Rightarrow> icsr_eithreshold" where
  "tstack_pop t =
     (case find (\<lambda>i. et_thresholds t ! i) [1..<unat NV_MODE_MAX_VECTOR + 1] of
        Some i \<Rightarrow> t\<lparr>et_thresholds := (et_thresholds t)[i := False], et_reg := of_nat i\<rparr>
      | None \<Rightarrow> t\<lparr>et_reg := et_threshold_tail t\<rparr>)"

definition write_snps_vectored :: "u32 \<Rightarrow> icsr_eithreshold \<Rightarrow> icsr_eithreshold res" where
  "write_snps_vectored v t =
     (if v = 0 then Inr (tstack_pop t)
      else if is_tailed_iid v then Inr (tstack_put_tail v t)
      else tstack_insert v t)"

definition update_with_new_irq_snps_vectored :: "u32 \<Rightarrow> icsr_eithreshold \<Rightarrow> icsr_eithreshold res" where
  "update_with_new_irq_snps_vectored minor_iid t =
     (if is_tailed_iid minor_iid then tstack_insert NV_MODE_MAX_VECTOR t else tstack_insert minor_iid t)"

definition eithreshold_checked_write :: "u32 \<Rightarrow> icsr_eithreshold \<Rightarrow> icsr_eithreshold res" where
  "eithreshold_checked_write v t =
     (if is_upper_bound_valid_minor_iid v then
        (if et_mode_snps_vectored t then write_snps_vectored v t else Inr (t\<lparr>et_reg := v\<rparr>))
      else Inr t)"

definition eithreshold_checked_read :: "icsr_eithreshold \<Rightarrow> u32" where
  "eithreshold_checked_read t = (if et_mode_snps_vectored t then et_reg t else et_reg t)"

definition set_mode_snps_vectored :: "u32 \<Rightarrow> icsr_eithreshold \<Rightarrow> icsr_eithreshold" where
  "set_mode_snps_vectored mode t = t\<lparr>et_mode_snps_vectored := (mode = SnpsNestedVectored)\<rparr>"

definition update_with_new_irq :: "u32 \<Rightarrow> icsr_eithreshold \<Rightarrow> icsr_eithreshold res" where
  "update_with_new_irq minor_iid t =
     (if et_mode_snps_vectored t then update_with_new_irq_snps_vectored minor_iid t else Inr t)"

definition mark_irq_as_handled :: "icsr_eithreshold \<Rightarrow> icsr_eithreshold" where
  "mark_irq_as_handled t = tstack_pop t"

section \<open>Priority arrays\<close>

record icsr_iprio_arr =
  ip_static_mask :: u64
  ip_dynamic_mask :: u64
  ip_iprio :: "u8 list"

definition PRIO_PER_IPRIO_CSR :: nat where "PRIO_PER_IPRIO_CSR = 4"
definition iprio_csr_arr_size :: nat where "iprio_csr_arr_size = unat MAX_INTERRUPTS_NUM div PRIO_PER_IPRIO_CSR"

definition icsr_iprio_arr_init :: icsr_iprio_arr where
  "icsr_iprio_arr_init = \<lparr>ip_static_mask = 0, ip_dynamic_mask = - 1, ip_iprio = replicate (unat MAX_INTERRUPTS_NUM) 0\<rparr>"

definition is_iprio_present :: "icsr_iprio_arr \<Rightarrow> u32 \<Rightarrow> bool res" where
  "is_iprio_present a iid =
     assert_that (major_is_valid iid) (Inr (ip_static_mask a AND ip_dynamic_mask a AND BIT (unat iid) \<noteq> 0))"

definition arr_get_iprio :: "icsr_iprio_arr \<Rightarrow> u32 \<Rightarrow> u8 res" where
  "arr_get_iprio a iid =
     bind_res (is_iprio_present a iid) (\<lambda>present. Inr (if present then ip_iprio a ! unat iid else 0))"

definition set_iprio :: "u32 \<Rightarrow> u8 \<Rightarrow> icsr_iprio_arr \<Rightarrow> icsr_iprio_arr res" where
  "set_iprio iid v a =
     bind_res (is_iprio_present a iid)
      (\<lambda>present. Inr (if present then a\<lparr>ip_iprio := (ip_iprio a)[unat iid := v]\<rparr> else a))"

definition update_dynamic_presence :: "u64 \<Rightarrow> icsr_iprio_arr \<Rightarrow> icsr_iprio_arr" where
  "update_dynamic_presence new_mask a = a\<lparr>ip_dynamic_mask := new_mask\<rparr>"

text \<open>
  Four priorities packed into a word, byte \<open>i\<close> the priority of the \<open>i\<close>-th interrupt of the group
  (\<^verbatim>\<open>union iprio_arr\<close>): the groups are four consecutive interrupts for \<^verbatim>\<open>icsr_iprio\<close> and four given
  ones for \<^verbatim>\<open>hviprio\<close>.
\<close>

definition iprio_byte :: "u32 \<Rightarrow> nat \<Rightarrow> u8" where
  "iprio_byte v i = ucast (drop_bit (8 * i) v)"

fun iprio_group_write :: "u32 \<Rightarrow> nat \<Rightarrow> u32 list \<Rightarrow> icsr_iprio_arr \<Rightarrow> icsr_iprio_arr res" where
  "iprio_group_write v i [] a = Inr a"
| "iprio_group_write v i (iid # iids) a =
     bind_res (set_iprio iid (iprio_byte v i) a) (\<lambda>a'. iprio_group_write v (Suc i) iids a')"

fun iprio_group_read :: "icsr_iprio_arr \<Rightarrow> nat \<Rightarrow> u32 list \<Rightarrow> u32 res" where
  "iprio_group_read a i [] = Inr 0"
| "iprio_group_read a i (iid # iids) =
     bind_res (arr_get_iprio a iid) (\<lambda>p.
     bind_res (iprio_group_read a (Suc i) iids) (\<lambda>r. Inr (push_bit (8 * i) (ucast p) OR r)))"

definition icsr_iprio_iids :: "nat \<Rightarrow> u32 list" where
  "icsr_iprio_iids index = map (\<lambda>i. of_nat (index * PRIO_PER_IPRIO_CSR + i)) [0..<PRIO_PER_IPRIO_CSR]"

definition icsr_iprio_checked_write :: "nat \<Rightarrow> u32 \<Rightarrow> icsr_iprio_arr \<Rightarrow> icsr_iprio_arr res" where
  "icsr_iprio_checked_write index v a = iprio_group_write v 0 (icsr_iprio_iids index) a"

definition icsr_iprio_checked_read :: "nat \<Rightarrow> icsr_iprio_arr \<Rightarrow> u32 res" where
  "icsr_iprio_checked_read index a = iprio_group_read a 0 (icsr_iprio_iids index)"

definition hviprio1 :: "u32 list" where "hviprio1 = [0, EXC_S_SOFTWARE_INTERRUPT, 4, EXC_S_TIMER_INTERRUPT]"
definition hviprio1h :: "u32 list" where "hviprio1h = [8, EXC_COUNTER_OVREFLOW_INTERRUPT, 14, 15]"
definition hviprio2 :: "u32 list" where "hviprio2 = [16, EXC_DEBUG_TRACE_INTERRUPT, 18, 19]"
definition hviprio2h :: "u32 list" where "hviprio2h = [20, 21, 22, 23]"

definition hviprio_checked_write :: "u32 list \<Rightarrow> u32 \<Rightarrow> icsr_iprio_arr \<Rightarrow> icsr_iprio_arr res" where
  "hviprio_checked_write iids v a = iprio_group_write v 0 iids a"

definition hviprio_checked_read :: "u32 list \<Rightarrow> icsr_iprio_arr \<Rightarrow> u32 res" where
  "hviprio_checked_read iids a = iprio_group_read a 0 iids"

text \<open>The interrupts the constructors mark as present, by level.\<close>

definition hw_present :: "u32 list \<Rightarrow> icsr_iprio_arr" where
  "hw_present iids = icsr_iprio_arr_init\<lparr>ip_static_mask := fold (\<lambda>iid m. m OR BIT (unat iid)) iids 0\<rparr>"

definition non_leveled_iids :: "u32 list" where
  "non_leveled_iids = [EXC_COUNTER_OVREFLOW_INTERRUPT, EXC_DEBUG_TRACE_INTERRUPT, EXC_LOW_PRIO_RAS_INTERRUPT,
     EXC_HIGH_PRIO_RAS_INTERRUPT, EXC_WDT_INTERRUPT]"

definition m_iprio_init :: icsr_iprio_arr where
  "m_iprio_init = hw_present ([EXC_S_SOFTWARE_INTERRUPT, EXC_M_SOFTWARE_INTERRUPT, EXC_S_TIMER_INTERRUPT,
     EXC_M_TIMER_INTERRUPT, EXC_S_EXTERNAL_INTERRUPT] @ non_leveled_iids)"

definition s_iprio_init :: icsr_iprio_arr where
  "s_iprio_init = hw_present ([EXC_S_SOFTWARE_INTERRUPT, EXC_VS_SOFTWARE_INTERRUPT, EXC_S_TIMER_INTERRUPT,
     EXC_VS_TIMER_INTERRUPT, EXC_VS_EXTERNAL_INTERRUPT, EXC_S_GUEST_EXTERNAL_INTERRUPT] @ non_leveled_iids)"

definition vs_iprio_init :: icsr_iprio_arr where
  "vs_iprio_init = hw_present ([EXC_S_SOFTWARE_INTERRUPT, EXC_S_TIMER_INTERRUPT] @ non_leveled_iids)"

section \<open>The tables\<close>

datatype icsr_ref =
    Ref_iprio nat | Ref_eidelivery | Ref_eithreshold | Ref_eip nat | Ref_eie nat
  | Ref_smpuaddr nat | Ref_smpuconf nat | Ref_hmpuaddr nat | Ref_hmpuconf nat

definition eip_eie_arr_size :: nat where
  "eip_eie_arr_size = unat IMSIC_MAX_IRQS div unat BITS_PER_CSR"

definition eix_init :: "icsr_32 list" where
  "eix_init = icsr_32_init\<lparr>i32_mask := 0xFFFFFFFE\<rparr> # replicate (eip_eie_arr_size - 1) icsr_32_init"

record imsic_file =
  imf_eidelivery :: u32
  imf_eithreshold :: icsr_eithreshold
  imf_eip :: "icsr_32 list"
  imf_eie :: "icsr_32 list"

definition imsic_file_init :: imsic_file where
  "imsic_file_init = \<lparr>imf_eidelivery = 0, imf_eithreshold = icsr_eithreshold_init, imf_eip = eix_init, imf_eie = eix_init\<rparr>"

record icsr_ms_table =
  ms_iprio :: icsr_iprio_arr
  ms_file :: imsic_file
  ms_smpu :: "smpu_region list"
  ms_hmpu :: "smpu_region list"

record icsr_vs_bank =
  vb_file :: imsic_file
  vb_smpu :: "smpu_region list"

record icsr_vs_table =
  vs_iprio :: "icsr_iprio_arr list"
  vs_bank :: "icsr_vs_bank list"

definition smpu_regions_init :: "smpu_region list" where
  "smpu_regions_init = replicate SMPU_NREGIONS \<lparr>sr_addr = 0, sr_conf = 0\<rparr>"

definition icsr_ms_table_init :: "PrivilegeLevel \<Rightarrow> icsr_ms_table" where
  "icsr_ms_table_init level =
     \<lparr>ms_iprio = (if level = MachineMode then m_iprio_init else s_iprio_init), ms_file = imsic_file_init,
      ms_smpu = smpu_regions_init, ms_hmpu = smpu_regions_init\<rparr>"

definition icsr_vs_table_init :: icsr_vs_table where
  "icsr_vs_table_init =
     \<lparr>vs_iprio = replicate (unat MAX_VGEIN_BANKS) vs_iprio_init,
      vs_bank = replicate (unat MAX_GUEST) \<lparr>vb_file = imsic_file_init, vb_smpu = smpu_regions_init\<rparr>\<rparr>"

text \<open>The addresses of the interrupt-file registers and of the priority array, common to all tables.\<close>

definition in_block :: "u32 \<Rightarrow> nat \<Rightarrow> u32 \<Rightarrow> bool" where
  "in_block base n addr \<longleftrightarrow> base \<le> addr \<and> addr < base + of_nat n"

definition iprio_mapping :: "u32 \<Rightarrow> icsr_ref option" where
  "iprio_mapping addr =
     (if in_block icsr_addr_iprio0 iprio_csr_arr_size addr then Some (Ref_iprio (unat (addr - icsr_addr_iprio0)))
      else None)"

definition imsic_mapping :: "u32 \<Rightarrow> icsr_ref option" where
  "imsic_mapping addr =
     (if addr = icsr_addr_eidelivery then Some Ref_eidelivery
      else if addr = icsr_addr_eithreshold then Some Ref_eithreshold
      else if in_block icsr_addr_eip0 eip_eie_arr_size addr then Some (Ref_eip (unat (addr - icsr_addr_eip0)))
      else if in_block icsr_addr_eie0 eip_eie_arr_size addr then Some (Ref_eie (unat (addr - icsr_addr_eie0)))
      else None)"

definition smpu_mapping :: "u32 \<Rightarrow> icsr_ref option" where
  "smpu_mapping addr =
     (if in_block (icsr_addr_smpuaddr 0) (2 * SMPU_NREGIONS) addr then
        let d = unat (addr - icsr_addr_smpuaddr 0) in
        Some (if even d then Ref_smpuaddr (d div 2) else Ref_smpuconf (d div 2))
      else None)"

definition hmpu_mapping :: "u32 \<Rightarrow> icsr_ref option" where
  "hmpu_mapping addr =
     (if in_block (icsr_addr_hmpuaddr 0) (2 * SMPU_NREGIONS) addr then
        let d = unat (addr - icsr_addr_hmpuaddr 0) in
        Some (if even d then Ref_hmpuaddr (d div 2) else Ref_hmpuconf (d div 2))
      else None)"

definition orelse :: "'a option \<Rightarrow> 'a option \<Rightarrow> 'a option" where
  "orelse a b = (case a of Some x \<Rightarrow> Some x | None \<Rightarrow> b)"

definition ms_register_mapping :: "PrivilegeLevel \<Rightarrow> u32 \<Rightarrow> icsr_ref option" where
  "ms_register_mapping level addr =
     orelse (iprio_mapping addr) (orelse (imsic_mapping addr)
       (if level = SupervisorMode then orelse (smpu_mapping addr) (hmpu_mapping addr) else None))"

definition vs_register_mapping :: "u32 \<Rightarrow> u32 \<Rightarrow> icsr_ref option" where
  "vs_register_mapping vgein addr =
     orelse (iprio_mapping addr)
       (if vgein \<ge> VGEIN_FIRST_GUEST then orelse (imsic_mapping addr) (smpu_mapping addr) else None)"

definition ms_is_valid_addr :: "PrivilegeLevel \<Rightarrow> u32 \<Rightarrow> bool" where
  "ms_is_valid_addr level addr \<longleftrightarrow> ms_register_mapping level addr \<noteq> None"

definition vs_is_valid_addr :: "u32 \<Rightarrow> u32 \<Rightarrow> bool res" where
  "vs_is_valid_addr addr vgein = assert_that (vgein \<le> MAX_GUEST) (Inr (vs_register_mapping vgein addr \<noteq> None))"

definition file_write :: "icsr_ref \<Rightarrow> u32 \<Rightarrow> imsic_file \<Rightarrow> imsic_file res" where
  "file_write ref v f =
     (case ref of
        Ref_eidelivery \<Rightarrow> Inr (f\<lparr>imf_eidelivery := eidelivery_checked_write v\<rparr>)
      | Ref_eithreshold \<Rightarrow>
          bind_res (eithreshold_checked_write v (imf_eithreshold f)) (\<lambda>t. Inr (f\<lparr>imf_eithreshold := t\<rparr>))
      | Ref_eip i \<Rightarrow> Inr (f\<lparr>imf_eip := (imf_eip f)[i := icsr_32_checked_write v (imf_eip f ! i)]\<rparr>)
      | Ref_eie i \<Rightarrow> Inr (f\<lparr>imf_eie := (imf_eie f)[i := icsr_32_checked_write v (imf_eie f ! i)]\<rparr>)
      | _ \<Rightarrow> Inr f)"

definition file_read :: "icsr_ref \<Rightarrow> imsic_file \<Rightarrow> u32" where
  "file_read ref f =
     (case ref of
        Ref_eidelivery \<Rightarrow> eidelivery_checked_read (imf_eidelivery f)
      | Ref_eithreshold \<Rightarrow> eithreshold_checked_read (imf_eithreshold f)
      | Ref_eip i \<Rightarrow> icsr_32_checked_read (imf_eip f ! i)
      | Ref_eie i \<Rightarrow> icsr_32_checked_read (imf_eie f ! i)
      | _ \<Rightarrow> 0)"

definition region_addr_write :: "nat \<Rightarrow> u32 \<Rightarrow> smpu_region list \<Rightarrow> smpu_region list" where
  "region_addr_write i v rs = rs[i := (rs ! i)\<lparr>sr_addr := smpuaddr_checked_write v\<rparr>]"

definition region_conf_write :: "nat \<Rightarrow> u32 \<Rightarrow> smpu_region list \<Rightarrow> smpu_region list" where
  "region_conf_write i v rs = rs[i := (rs ! i)\<lparr>sr_conf := v\<rparr>]"

definition ensure_failed :: sim_exn where
  "ensure_failed = RuntimeError ''runtime assertion failed''"

definition ms_default_write32 :: "PrivilegeLevel \<Rightarrow> u32 \<Rightarrow> u32 \<Rightarrow> icsr_ms_table \<Rightarrow> icsr_ms_table res" where
  "ms_default_write32 level addr v t =
     (case ms_register_mapping level addr of
        None \<Rightarrow> Inl ensure_failed
      | Some (Ref_iprio i) \<Rightarrow> bind_res (icsr_iprio_checked_write i v (ms_iprio t)) (\<lambda>a. Inr (t\<lparr>ms_iprio := a\<rparr>))
      | Some (Ref_smpuaddr i) \<Rightarrow> Inr (t\<lparr>ms_smpu := region_addr_write i v (ms_smpu t)\<rparr>)
      | Some (Ref_smpuconf i) \<Rightarrow> Inr (t\<lparr>ms_smpu := region_conf_write i v (ms_smpu t)\<rparr>)
      | Some (Ref_hmpuaddr i) \<Rightarrow> Inr (t\<lparr>ms_hmpu := region_addr_write i v (ms_hmpu t)\<rparr>)
      | Some (Ref_hmpuconf i) \<Rightarrow> Inr (t\<lparr>ms_hmpu := region_conf_write i v (ms_hmpu t)\<rparr>)
      | Some ref \<Rightarrow> bind_res (file_write ref v (ms_file t)) (\<lambda>f. Inr (t\<lparr>ms_file := f\<rparr>)))"

definition ms_default_read32 :: "PrivilegeLevel \<Rightarrow> u32 \<Rightarrow> icsr_ms_table \<Rightarrow> u32 res" where
  "ms_default_read32 level addr t =
     (case ms_register_mapping level addr of
        None \<Rightarrow> Inl ensure_failed
      | Some (Ref_iprio i) \<Rightarrow> icsr_iprio_checked_read i (ms_iprio t)
      | Some (Ref_smpuaddr i) \<Rightarrow> Inr (sr_addr (ms_smpu t ! i))
      | Some (Ref_smpuconf i) \<Rightarrow> Inr (sr_conf (ms_smpu t ! i))
      | Some (Ref_hmpuaddr i) \<Rightarrow> Inr (sr_addr (ms_hmpu t ! i))
      | Some (Ref_hmpuconf i) \<Rightarrow> Inr (sr_conf (ms_hmpu t ! i))
      | Some ref \<Rightarrow> Inr (file_read ref (ms_file t)))"

definition get_guest_bank :: "u32 \<Rightarrow> nat res" where
  "get_guest_bank vgein = assert_that (vgein > 0 \<and> vgein \<le> MAX_GUEST) (Inr (unat (vgein_to_id vgein)))"

definition bank_write :: "icsr_ref \<Rightarrow> u32 \<Rightarrow> icsr_vs_bank \<Rightarrow> icsr_vs_bank res" where
  "bank_write ref v b =
     (case ref of
        Ref_smpuaddr i \<Rightarrow> Inr (b\<lparr>vb_smpu := region_addr_write i v (vb_smpu b)\<rparr>)
      | Ref_smpuconf i \<Rightarrow> Inr (b\<lparr>vb_smpu := region_conf_write i v (vb_smpu b)\<rparr>)
      | _ \<Rightarrow> bind_res (file_write ref v (vb_file b)) (\<lambda>f. Inr (b\<lparr>vb_file := f\<rparr>)))"

definition bank_read :: "icsr_ref \<Rightarrow> icsr_vs_bank \<Rightarrow> u32" where
  "bank_read ref b =
     (case ref of
        Ref_smpuaddr i \<Rightarrow> sr_addr (vb_smpu b ! i)
      | Ref_smpuconf i \<Rightarrow> sr_conf (vb_smpu b ! i)
      | _ \<Rightarrow> file_read ref (vb_file b))"

definition vs_default_write32 :: "u32 \<Rightarrow> u32 \<Rightarrow> u32 \<Rightarrow> icsr_vs_table \<Rightarrow> icsr_vs_table res" where
  "vs_default_write32 addr vgein v t =
     assert_that (vgein \<le> MAX_GUEST)
      (case vs_register_mapping vgein addr of
         None \<Rightarrow> Inl ensure_failed
       | Some (Ref_iprio i) \<Rightarrow>
           bind_res (icsr_iprio_checked_write i v (vs_iprio t ! unat vgein))
             (\<lambda>a. Inr (t\<lparr>vs_iprio := (vs_iprio t)[unat vgein := a]\<rparr>))
       | Some ref \<Rightarrow>
           bind_res (get_guest_bank vgein) (\<lambda>g.
           bind_res (bank_write ref v (vs_bank t ! g)) (\<lambda>b. Inr (t\<lparr>vs_bank := (vs_bank t)[g := b]\<rparr>))))"

definition vs_default_read32 :: "u32 \<Rightarrow> u32 \<Rightarrow> icsr_vs_table \<Rightarrow> u32 res" where
  "vs_default_read32 addr vgein t =
     assert_that (vgein \<le> MAX_GUEST)
      (case vs_register_mapping vgein addr of
         None \<Rightarrow> Inl ensure_failed
       | Some (Ref_iprio i) \<Rightarrow> icsr_iprio_checked_read i (vs_iprio t ! unat vgein)
       | Some ref \<Rightarrow> bind_res (get_guest_bank vgein) (\<lambda>g. Inr (bank_read ref (vs_bank t ! g))))"

definition vs_update_dynamic_presence :: "u64 \<Rightarrow> icsr_vs_table \<Rightarrow> icsr_vs_table" where
  "vs_update_dynamic_presence new_mask t = t\<lparr>vs_iprio := map (update_dynamic_presence new_mask) (vs_iprio t)\<rparr>"

definition is_smpuaddr :: "u32 \<Rightarrow> bool" where
  "is_smpuaddr addr \<longleftrightarrow> addr \<ge> icsr_addr_smpuaddr 0 \<and> addr \<le> icsr_addr_smpuconf 31"

text \<open>\<^verbatim>\<open>1 << nbit\<close> is a shift of an \<^verbatim>\<open>int\<close>; the callers pass an address of the block, so \<^verbatim>\<open>nbit\<close> is below 32.\<close>

definition is_set_for_addr :: "u32 \<Rightarrow> u32 \<Rightarrow> bool" where
  "is_set_for_addr smpumask icsr_addr \<longleftrightarrow>
     (let nbit = drop_bit 1 (icsr_addr - icsr_addr_smpuaddr 0) in smpumask AND push_bit (unat nbit) 1 \<noteq> 0)"

section \<open>The threshold as a stack of preemption levels\<close>

text \<open>
  In nested-vectored mode \<open>et_reg\<close> is the level that is active now and \<open>et_thresholds\<close> marks the
  levels it preempted; the level under all of them is \<open>et_threshold_tail\<close>.
\<close>

definition et_inv :: "icsr_eithreshold \<Rightarrow> bool" where
  "et_inv t \<longleftrightarrow>
     length (et_thresholds t) = 256 \<and> is_upper_bound_valid_minor_iid (et_reg t) \<and>
     (if is_reg_unstackable t then et_reg t = et_threshold_tail t \<and> (\<forall>i<256. \<not> et_thresholds t ! i)
      else \<forall>i<256. et_thresholds t ! i \<longrightarrow> unat (et_reg t) < i)"

lemma find_upt_Some:
  "find P [a..<b] = Some i \<longleftrightarrow> a \<le> i \<and> i < b \<and> P i \<and> (\<forall>j. a \<le> j \<and> j < i \<longrightarrow> \<not> P j)"
proof
  assume "find P [a..<b] = Some i"
  then obtain k where k: "k < b - a" "P (a + k)" "i = a + k" "\<forall>j<k. \<not> P (a + j)"
    by (auto simp: find_Some_iff)
  have "\<not> P j" if "a \<le> j" "j < i" for j
    using k(3,4) that by (metis less_diff_conv2 add.commute le_add_diff_inverse)
  then show "a \<le> i \<and> i < b \<and> P i \<and> (\<forall>j. a \<le> j \<and> j < i \<longrightarrow> \<not> P j)" using k by auto
next
  assume "a \<le> i \<and> i < b \<and> P i \<and> (\<forall>j. a \<le> j \<and> j < i \<longrightarrow> \<not> P j)"
  then show "find P [a..<b] = Some i"
    by (auto simp: find_Some_iff intro!: exI [of _ "i - a"])
qed

lemma find_upt_None: "find P [a..<b] = None \<longleftrightarrow> (\<forall>i. a \<le> i \<and> i < b \<longrightarrow> \<not> P i)"
  by (auto simp: find_None_iff)

lemma level_bounds: "0 < m \<Longrightarrow> m \<le> NV_MODE_MAX_VECTOR \<Longrightarrow> is_valid_minor_iid m \<and> \<not> is_tailed_iid m \<and> m \<noteq> 0 \<and> unat m < 256"
  by (auto simp: is_valid_minor_iid_def is_tailed_iid_def core_consts word_le_nat_alt word_less_nat_alt)

lemma find_marked:
  assumes "et_inv t" "\<not> is_reg_unstackable t"
  shows "unat (et_reg t) < 256" "\<not> et_thresholds t ! unat (et_reg t)"
    "find (\<lambda>i. (et_thresholds t)[unat (et_reg t) := True] ! i) [1..<256] = Some (unat (et_reg t))"
proof -
  show r: "unat (et_reg t) < 256"
    using assms(2) by (auto simp: is_reg_unstackable_def is_tailed_iid_def core_consts word_less_nat_alt)
  have "0 < unat (et_reg t)"
    using assms(2) by (auto simp: is_reg_unstackable_def unat_gt_0)
  moreover have above: "\<And>i. i < 256 \<Longrightarrow> et_thresholds t ! i \<Longrightarrow> unat (et_reg t) < i" and "length (et_thresholds t) = 256"
    using assms by (auto simp: et_inv_def)
  moreover have "\<not> et_thresholds t ! j" if "j < unat (et_reg t)" for j
    using above [of j] that r by auto
  ultimately show "find (\<lambda>i. (et_thresholds t)[unat (et_reg t) := True] ! i) [1..<256] = Some (unat (et_reg t))"
    unfolding find_upt_Some using r by simp
  show "\<not> et_thresholds t ! unat (et_reg t)" using above [OF r] by auto
qed

lemma insert_pop:
  assumes "et_inv t" "0 < m" "m \<le> NV_MODE_MAX_VECTOR" "is_reg_unstackable t \<or> m < et_reg t"
  shows "\<exists>t'. tstack_insert m t = Inr t' \<and> et_inv t' \<and> et_reg t' = m \<and> \<not> is_reg_unstackable t' \<and> tstack_pop t' = t \<and>
     et_mode_snps_vectored t' = et_mode_snps_vectored t"
proof (cases "is_reg_unstackable t")
  case True
  let ?t' = "t\<lparr>et_reg := m\<rparr>"
  have none: "find (\<lambda>i. et_thresholds ?t' ! i) [1..<256] = None"
    using assms(1) True by (auto simp: et_inv_def find_upt_None)
  show ?thesis
    using assms True level_bounds [OF assms(2,3)] none
    by (auto simp: tstack_insert_def et_inv_def tstack_pop_def is_reg_unstackable_def
        is_valid_minor_iid_def is_upper_bound_valid_minor_iid_def core_consts split: if_splits)
next
  case False
  let ?r = "unat (et_reg t)"
  let ?t' = "t\<lparr>et_thresholds := (et_thresholds t)[?r := True], et_reg := m\<rparr>"
  note r = find_marked [OF assms(1) False]
  have above: "\<And>i. i < 256 \<Longrightarrow> et_thresholds t ! i \<Longrightarrow> ?r < i" and len: "length (et_thresholds t) = 256"
    using assms(1) False by (auto simp: et_inv_def)
  have mr: "unat m < ?r" "m < et_reg t" using assms(4) False by (auto simp: word_less_nat_alt)
  have "tstack_insert m t = Inr ?t'"
    using assms(1) False level_bounds [OF assms(2,3)] mr by (simp add: tstack_insert_def et_inv_def Let_def)
  moreover have unst: "\<not> is_reg_unstackable ?t'"
    using level_bounds [OF assms(2,3)] by (simp add: is_reg_unstackable_def)
  moreover have "et_inv ?t'"
  proof -
    have "unat m < i" if "i < 256" "(et_thresholds t)[?r := True] ! i" for i
      using that above [of i] mr len by (cases "i = ?r") (auto simp: nth_list_update)
    then show ?thesis
      using unst len level_bounds [OF assms(2,3)]
      by (simp add: et_inv_def is_valid_minor_iid_def is_upper_bound_valid_minor_iid_def split: if_splits)
  qed
  moreover have "tstack_pop ?t' = t"
  proof -
    have "(et_thresholds t)[?r := False] = et_thresholds t"
      using r(2) by (metis (full_types) list_update_id)
    then show ?thesis using r(3) by (simp add: tstack_pop_def core_consts)
  qed
  ultimately show ?thesis by auto
qed

fun take_irqs :: "u32 list \<Rightarrow> icsr_eithreshold \<Rightarrow> icsr_eithreshold res" where
  "take_irqs [] t = Inr t"
| "take_irqs (m # ms) t = bind_res (update_with_new_irq m t) (take_irqs ms)"

text \<open>
  C28: in nested-vectored mode interrupts nest. If each interrupt of a sequence preempts the one
  before (its identity is below the current threshold and within the vector table), then taking
  them all never fails, the threshold is the identity of the last one, and marking them handled
  one after the other gives back every earlier threshold, down to the state before the first.
\<close>

theorem thresholds_nest:
  assumes "et_inv t" "et_mode_snps_vectored t" "ms \<noteq> []"
    and "sorted_wrt (>) ms" "\<forall>m \<in> set ms. 0 < m \<and> m \<le> NV_MODE_MAX_VECTOR"
    and "is_reg_unstackable t \<or> hd ms < et_reg t"
  shows "\<exists>t'. take_irqs ms t = Inr t' \<and> et_reg t' = last ms \<and> (mark_irq_as_handled ^^ length ms) t' = t"
  using assms
proof (induction ms arbitrary: t)
  case (Cons m ms)
  have "\<not> is_tailed_iid m" using level_bounds [of m] Cons.prems(5) by simp
  then have upd: "update_with_new_irq m t = tstack_insert m t"
    using Cons.prems(2) by (simp add: update_with_new_irq_def update_with_new_irq_snps_vectored_def)
  obtain t1 where t1: "tstack_insert m t = Inr t1" "et_inv t1" "et_reg t1 = m" "tstack_pop t1 = t"
    "et_mode_snps_vectored t1"
    using insert_pop [of t m] Cons.prems by auto
  show ?case
  proof (cases "ms = []")
    case True
    then show ?thesis using t1 upd by (simp add: mark_irq_as_handled_def)
  next
    case False
    then obtain t' where t': "take_irqs ms t1 = Inr t'" "et_reg t' = last ms"
      "(mark_irq_as_handled ^^ length ms) t' = t1"
      using Cons.IH [of t1] Cons.prems t1 by (cases ms) auto
    moreover have "mark_irq_as_handled t1 = t" using t1 by (simp add: mark_irq_as_handled_def)
    ultimately show ?thesis
      using t1 upd False by simp
  qed
qed simp

theorem thresholds_nest_witness:
  "\<exists>t'. take_irqs [200, 30, 7] (icsr_eithreshold_init\<lparr>et_mode_snps_vectored := True\<rparr>) = Inr t' \<and> et_reg t' = 7 \<and>
     (mark_irq_as_handled ^^ 3) t' = icsr_eithreshold_init\<lparr>et_mode_snps_vectored := True\<rparr>"
proof -
  let ?t = "icsr_eithreshold_init\<lparr>et_mode_snps_vectored := True\<rparr>"
  have "et_inv ?t" "is_reg_unstackable ?t"
    by (auto simp: et_inv_def icsr_eithreshold_init_def is_reg_unstackable_def is_upper_bound_valid_minor_iid_def core_consts)
  then show ?thesis
    using thresholds_nest [of ?t "[200, 30, 7]"] by (simp add: core_consts numeral_3_eq_3)
qed

text \<open>
  A value above the current threshold that software writes to \<^verbatim>\<open>eithreshold\<close> is not kept: the array
  marks the current threshold instead of the written one, so that handling it returns to the
  current threshold and not to the written value.
\<close>

lemma threshold_insert_above_is_lost:
  assumes "et_inv t" "\<not> is_reg_unstackable t" "et_reg t < m" "m \<le> NV_MODE_MAX_VECTOR"
  shows "\<exists>t'. tstack_insert m t = Inr t' \<and> et_reg t' = et_reg t \<and> et_thresholds t' ! unat m = et_thresholds t ! unat m \<and>
     et_reg (tstack_pop t') = et_reg t"
proof -
  let ?r = "unat (et_reg t)"
  let ?t' = "t\<lparr>et_thresholds := (et_thresholds t)[?r := True]\<rparr>"
  have "find (\<lambda>i. et_thresholds ?t' ! i) [1..<256] = Some ?r"
    using find_marked(3) [OF assms(1,2)] by simp
  moreover have "0 < m" "?r \<noteq> unat m" using assms(3) by (auto simp: word_less_nat_alt)
  ultimately show ?thesis
    using assms level_bounds [of m]
    by (auto simp: tstack_insert_def et_inv_def Let_def tstack_pop_def core_consts)
qed

end
