(* ===== verification/VP_CSR_Table.thy ===== *)
theory VP_CSR_Table
  imports VP_Clint_Pend VP_Icsr
begin

text \<open>
  The CSR table (\<^verbatim>\<open>struct csr_table\<close> of \<^verbatim>\<open>core/rv32/csr.h\<close>): one field per member of the struct, the
  word of the register for a 32-bit register class. The constructor fills
  \<^verbatim>\<open>register_mapping\<close>, a map from addresses to pointers into the struct; here an entry carries the
  accessor and the update of the member it points to. Not every member is mapped: the others
  are reached only through their classes.
\<close>

section \<open>State\<close>

record csr_table =
  csr_time_control :: csr_timecontrol
  csr_cycle :: u64
  csr_instret :: u64
  csr_mvendorid :: u32
  csr_marchid :: u32
  csr_mimpid :: u32
  csr_mhartid :: u32
  csr_mstatus :: u32
  csr_mstatush :: u32
  csr_misa :: u32
  csr_medeleg :: u32
  csr_mtvec :: u32
  csr_mcounteren :: u32
  csr_mcountinhibit :: u32
  csr_menvcfg :: u32
  csr_menvcfgh :: csr_xenvcfgh
  csr_mscratch :: u32
  csr_mepc :: u32
  csr_mcause :: u32
  csr_mtval :: u32
  csr_mtval2 :: u32
  csr_mtinst :: u32
  csr_clint :: clint_pend
  csr_mtsp :: u32
  csr_miselect :: u32
  csr_mireg :: u32
  csr_mireg2 :: u32
  csr_mireg3 :: u32
  csr_mireg4 :: u32
  csr_mireg5 :: u32
  csr_mireg6 :: u32
  csr_mtopi :: u32
  csr_mtopei :: u32
  csr_pmpaddr :: "u32 list"
  csr_pmpcfg :: "u32 list"
  csr_spmpaddr :: "u32 list"
  csr_spmpcfg :: "u32 list"
  csr_spmpswitch :: "u32 list"
  csr_smpumask :: u32
  csr_stvec :: u32
  csr_scounteren :: u32
  csr_sscratch :: u32
  csr_sepc :: u32
  csr_scause :: u32
  csr_stval :: u32
  csr_satp :: u32
  csr_stsp :: u32
  csr_senvcfg :: u32
  csr_siselect :: u32
  csr_sireg :: u32
  csr_sireg2 :: u32
  csr_sireg3 :: u32
  csr_sireg4 :: u32
  csr_sireg5 :: u32
  csr_sireg6 :: u32
  csr_stopi :: u32
  csr_stopei :: u32
  csr_hstatus :: u32
  csr_hcontext :: u32
  csr_hedeleg :: u32
  csr_hvictl :: u32
  csr_hgeip :: u32
  csr_hgeie :: u32
  csr_htimedelta :: u64
  csr_htsp :: u32
  csr_hgatp :: u32
  csr_hmpumask :: u32
  csr_htval :: u32
  csr_htinst :: u32
  csr_henvcfg :: u32
  csr_henvcfgh :: csr_xenvcfgh
  csr_vstvec :: u32
  csr_vsepc :: u32
  csr_vscause :: u32
  csr_vstval :: u32
  csr_vsscratch :: u32
  csr_vsstatus :: u32
  csr_vstsp :: u32
  csr_vsiselect :: u32
  csr_vsireg :: u32
  csr_vsireg2 :: u32
  csr_vsireg3 :: u32
  csr_vsireg4 :: u32
  csr_vsireg5 :: u32
  csr_vsireg6 :: u32
  csr_vstopi :: u32
  csr_vstopei :: u32
  csr_vsatp :: u32
  csr_vsmpumask :: u32
  csr_fcsr :: u32

definition csr_table_init :: csr_table where
  "csr_table_init = \<lparr>
     csr_time_control = \<lparr>tc_time = 0, tc_htimedelta = 0, tc_stimecmp = 0, tc_vstimecmp = 0\<rparr>,
     csr_cycle = 0,
     csr_instret = 0,
     csr_mvendorid = 0,
     csr_marchid = 0,
     csr_mimpid = 0,
     csr_mhartid = 0,
     csr_mstatus = 0,
     csr_mstatush = 0,
     csr_misa = misa_init 0,
     csr_medeleg = 0,
     csr_mtvec = 0,
     csr_mcounteren = 0,
     csr_mcountinhibit = 0,
     csr_menvcfg = 0,
     csr_menvcfgh = make_csr_xenvcfgh True,
     csr_mscratch = 0,
     csr_mepc = 0,
     csr_mcause = 0,
     csr_mtval = 0,
     csr_mtval2 = 0,
     csr_mtinst = 0,
     csr_clint = clint_pend_init,
     csr_mtsp = 0,
     csr_miselect = 0,
     csr_mireg = 0,
     csr_mireg2 = 0,
     csr_mireg3 = 0,
     csr_mireg4 = 0,
     csr_mireg5 = 0,
     csr_mireg6 = 0,
     csr_mtopi = 0,
     csr_mtopei = 0,
     csr_pmpaddr = replicate 16 0,
     csr_pmpcfg = replicate 4 0,
     csr_spmpaddr = replicate 64 0,
     csr_spmpcfg = replicate 16 0,
     csr_spmpswitch = replicate 2 0,
     csr_smpumask = 0,
     csr_stvec = 0,
     csr_scounteren = 0,
     csr_sscratch = 0,
     csr_sepc = 0,
     csr_scause = 0,
     csr_stval = 0,
     csr_satp = 0,
     csr_stsp = 0,
     csr_senvcfg = 0,
     csr_siselect = 0,
     csr_sireg = 0,
     csr_sireg2 = 0,
     csr_sireg3 = 0,
     csr_sireg4 = 0,
     csr_sireg5 = 0,
     csr_sireg6 = 0,
     csr_stopi = 0,
     csr_stopei = 0,
     csr_hstatus = 0,
     csr_hcontext = 0,
     csr_hedeleg = 0,
     csr_hvictl = 0,
     csr_hgeip = 0,
     csr_hgeie = 0,
     csr_htimedelta = 0,
     csr_htsp = 0,
     csr_hgatp = 0,
     csr_hmpumask = 0,
     csr_htval = 0,
     csr_htinst = 0,
     csr_henvcfg = 0,
     csr_henvcfgh = make_csr_xenvcfgh False,
     csr_vstvec = 0,
     csr_vsepc = 0,
     csr_vscause = 0,
     csr_vstval = 0,
     csr_vsscratch = 0,
     csr_vsstatus = 0,
     csr_vstsp = 0,
     csr_vsiselect = 0,
     csr_vsireg = 0,
     csr_vsireg2 = 0,
     csr_vsireg3 = 0,
     csr_vsireg4 = 0,
     csr_vsireg5 = 0,
     csr_vsireg6 = 0,
     csr_vstopi = 0,
     csr_vstopei = 0,
     csr_vsatp = 0,
     csr_vsmpumask = 0,
     csr_fcsr = 0\<rparr>"

section \<open>The register mapping\<close>

type_synonym csr_entry = "u32 \<times> (csr_table \<Rightarrow> u32) \<times> (u32 \<Rightarrow> csr_table \<Rightarrow> csr_table)"

definition reg_entry :: "u32 \<Rightarrow> (csr_table \<Rightarrow> u32) \<Rightarrow> ((u32 \<Rightarrow> u32) \<Rightarrow> csr_table \<Rightarrow> csr_table) \<Rightarrow> csr_entry" where
  "reg_entry addr get upd = (addr, get, \<lambda>v. upd (\<lambda>_. v))"

definition low_entry :: "u32 \<Rightarrow> (csr_table \<Rightarrow> u64) \<Rightarrow> ((u64 \<Rightarrow> u64) \<Rightarrow> csr_table \<Rightarrow> csr_table) \<Rightarrow> csr_entry" where
  "low_entry addr get upd = (addr, \<lambda>t. low_word (get t), \<lambda>v. upd (set_low_word v))"

definition high_entry :: "u32 \<Rightarrow> (csr_table \<Rightarrow> u64) \<Rightarrow> ((u64 \<Rightarrow> u64) \<Rightarrow> csr_table \<Rightarrow> csr_table) \<Rightarrow> csr_entry" where
  "high_entry addr get upd = (addr, \<lambda>t. high_word (get t), \<lambda>v. upd (set_high_word v))"

definition array_entries ::
  "(nat \<Rightarrow> u32) \<Rightarrow> (csr_table \<Rightarrow> u32 list) \<Rightarrow> ((u32 list \<Rightarrow> u32 list) \<Rightarrow> csr_table \<Rightarrow> csr_table) \<Rightarrow> nat \<Rightarrow> csr_entry list" where
  "array_entries addr get upd n = map (\<lambda>i. (addr i, \<lambda>t. get t ! i, \<lambda>v. upd (\<lambda>xs. xs[i := v]))) [0..<n]"

definition scalar_registers :: "csr_entry list" where
  "scalar_registers = [
     low_entry CYCLE_ADDR csr_cycle csr_cycle_update,
     high_entry CYCLEH_ADDR csr_cycle csr_cycle_update,
     low_entry INSTRET_ADDR csr_instret csr_instret_update,
     high_entry INSTRETH_ADDR csr_instret csr_instret_update,
     low_entry MCYCLE_ADDR csr_cycle csr_cycle_update,
     high_entry MCYCLEH_ADDR csr_cycle csr_cycle_update,
     low_entry MINSTRET_ADDR csr_instret csr_instret_update,
     high_entry MINSTRETH_ADDR csr_instret csr_instret_update,
     reg_entry MVENDORID_ADDR csr_mvendorid csr_mvendorid_update,
     reg_entry MARCHID_ADDR csr_marchid csr_marchid_update,
     reg_entry MIMPID_ADDR csr_mimpid csr_mimpid_update,
     reg_entry MHARTID_ADDR csr_mhartid csr_mhartid_update,
     reg_entry MSTATUS_ADDR csr_mstatus csr_mstatus_update,
     reg_entry MSTATUSH_ADDR csr_mstatush csr_mstatush_update,
     reg_entry MISA_ADDR csr_misa csr_misa_update,
     reg_entry MEDELEG_ADDR csr_medeleg csr_medeleg_update,
     reg_entry MTVEC_ADDR csr_mtvec csr_mtvec_update,
     reg_entry MCOUNTEREN_ADDR csr_mcounteren csr_mcounteren_update,
     reg_entry MCOUNTINHIBIT_ADDR csr_mcountinhibit csr_mcountinhibit_update,
     reg_entry MSCRATCH_ADDR csr_mscratch csr_mscratch_update,
     reg_entry MEPC_ADDR csr_mepc csr_mepc_update,
     reg_entry MCAUSE_ADDR csr_mcause csr_mcause_update,
     reg_entry MTVAL_ADDR csr_mtval csr_mtval_update,
     reg_entry MTVAL2_ADDR csr_mtval2 csr_mtval2_update,
     reg_entry MTINST_ADDR csr_mtinst csr_mtinst_update,
     reg_entry MTSP_ADDR csr_mtsp csr_mtsp_update,
     reg_entry MISELECT_ADDR csr_miselect csr_miselect_update,
     reg_entry MIREG_ADDR csr_mireg csr_mireg_update,
     reg_entry MIREG2_ADDR csr_mireg2 csr_mireg2_update,
     reg_entry MIREG3_ADDR csr_mireg3 csr_mireg3_update,
     reg_entry MIREG4_ADDR csr_mireg4 csr_mireg4_update,
     reg_entry MIREG5_ADDR csr_mireg5 csr_mireg5_update,
     reg_entry MIREG6_ADDR csr_mireg6 csr_mireg6_update,
     reg_entry MTOPI_ADDR csr_mtopi csr_mtopi_update,
     reg_entry MTOPEI_ADDR csr_mtopei csr_mtopei_update,
     reg_entry SMPUMASK_ADDR csr_smpumask csr_smpumask_update,
     reg_entry STVEC_ADDR csr_stvec csr_stvec_update,
     reg_entry SCOUNTEREN_ADDR csr_scounteren csr_scounteren_update,
     reg_entry SSCRATCH_ADDR csr_sscratch csr_sscratch_update,
     reg_entry SEPC_ADDR csr_sepc csr_sepc_update,
     reg_entry SCAUSE_ADDR csr_scause csr_scause_update,
     reg_entry STVAL_ADDR csr_stval csr_stval_update,
     reg_entry SATP_ADDR csr_satp csr_satp_update,
     reg_entry STSP_ADDR csr_stsp csr_stsp_update,
     reg_entry SISELECT_ADDR csr_siselect csr_siselect_update,
     reg_entry SIREG_ADDR csr_sireg csr_sireg_update,
     reg_entry SIREG2_ADDR csr_sireg2 csr_sireg2_update,
     reg_entry SIREG3_ADDR csr_sireg3 csr_sireg3_update,
     reg_entry SIREG4_ADDR csr_sireg4 csr_sireg4_update,
     reg_entry SIREG5_ADDR csr_sireg5 csr_sireg5_update,
     reg_entry SIREG6_ADDR csr_sireg6 csr_sireg6_update,
     reg_entry STOPI_ADDR csr_stopi csr_stopi_update,
     reg_entry STOPEI_ADDR csr_stopei csr_stopei_update,
     reg_entry HSTATUS_ADDR csr_hstatus csr_hstatus_update,
     reg_entry HEDELEG_ADDR csr_hedeleg csr_hedeleg_update,
     reg_entry HCONTEXT_ADDR csr_hcontext csr_hcontext_update,
     reg_entry HTSP_ADDR csr_htsp csr_htsp_update,
     reg_entry HGATP_ADDR csr_hgatp csr_hgatp_update,
     reg_entry HMPUMASK_ADDR csr_hmpumask csr_hmpumask_update,
     reg_entry HTVAL_ADDR csr_htval csr_htval_update,
     reg_entry HTINST_ADDR csr_htinst csr_htinst_update,
     reg_entry VSTVEC_ADDR csr_vstvec csr_vstvec_update,
     reg_entry VSEPC_ADDR csr_vsepc csr_vsepc_update,
     reg_entry VSCAUSE_ADDR csr_vscause csr_vscause_update,
     reg_entry VSTVAL_ADDR csr_vstval csr_vstval_update,
     reg_entry VSSCRATCH_ADDR csr_vsscratch csr_vsscratch_update,
     reg_entry VSSTATUS_ADDR csr_vsstatus csr_vsstatus_update,
     reg_entry VSTSP_ADDR csr_vstsp csr_vstsp_update,
     reg_entry VSISELECT_ADDR csr_vsiselect csr_vsiselect_update,
     reg_entry VSIREG_ADDR csr_vsireg csr_vsireg_update,
     reg_entry VSIREG2_ADDR csr_vsireg2 csr_vsireg2_update,
     reg_entry VSIREG3_ADDR csr_vsireg3 csr_vsireg3_update,
     reg_entry VSIREG4_ADDR csr_vsireg4 csr_vsireg4_update,
     reg_entry VSIREG5_ADDR csr_vsireg5 csr_vsireg5_update,
     reg_entry VSIREG6_ADDR csr_vsireg6 csr_vsireg6_update,
     reg_entry VSTOPI_ADDR csr_vstopi csr_vstopi_update,
     reg_entry VSTOPEI_ADDR csr_vstopei csr_vstopei_update,
     reg_entry VSMPUMASK_ADDR csr_vsmpumask csr_vsmpumask_update,
     reg_entry VSATP_ADDR csr_vsatp csr_vsatp_update,
     reg_entry FCSR_ADDR csr_fcsr csr_fcsr_update]"

definition array_registers :: "csr_entry list" where
  "array_registers =
     array_entries PMPADDR_ADDR csr_pmpaddr csr_pmpaddr_update 16 @
     array_entries PMPCFG_ADDR csr_pmpcfg csr_pmpcfg_update 4 @
     array_entries SPMPADDR_ADDR csr_spmpaddr csr_spmpaddr_update 64 @
     array_entries SPMPCFG_ADDR csr_spmpcfg csr_spmpcfg_update 16 @
     array_entries SPMPSWITCH_ADDR csr_spmpswitch csr_spmpswitch_update 2"

definition register_mapping :: "u32 \<Rightarrow> ((csr_table \<Rightarrow> u32) \<times> (u32 \<Rightarrow> csr_table \<Rightarrow> csr_table)) option" where
  "register_mapping = map_of (scalar_registers @ array_registers)"

definition is_valid_csr32_addr :: "u32 \<Rightarrow> bool" where
  "is_valid_csr32_addr addr \<longleftrightarrow> register_mapping addr \<noteq> None"

definition default_write32 :: "u32 \<Rightarrow> u32 \<Rightarrow> csr_table \<Rightarrow> csr_table res" where
  "default_write32 addr v t =
     (case register_mapping addr of None \<Rightarrow> Inl ensure_failed | Some (get, put) \<Rightarrow> Inr (put v t))"

definition default_read32 :: "u32 \<Rightarrow> csr_table \<Rightarrow> u32 res" where
  "default_read32 addr t =
     (case register_mapping addr of None \<Rightarrow> Inl ensure_failed | Some (get, put) \<Rightarrow> Inr (get t))"

text \<open>The addresses of the performance counters, which read as zero and ignore writes.\<close>

definition is_hpmcounter_addr :: "u32 \<Rightarrow> bool" where
  "is_hpmcounter_addr addr \<longleftrightarrow>
     HPMCOUNTER_ADDR 3 \<le> addr \<and> addr \<le> HPMCOUNTER_ADDR 31 \<or>
     HPMCOUNTERH_ADDR 3 \<le> addr \<and> addr \<le> HPMCOUNTERH_ADDR 31 \<or>
     MHPMCOUNTER_ADDR 3 \<le> addr \<and> addr \<le> MHPMCOUNTER_ADDR 31 \<or>
     MHPMCOUNTERH_ADDR 3 \<le> addr \<and> addr \<le> MHPMCOUNTERH_ADDR 31 \<or>
     MHPMEVENT_ADDR 3 \<le> addr \<and> addr \<le> MHPMEVENT_ADDR 31"

section \<open>Reading back\<close>

definition csr_table_wf :: "csr_table \<Rightarrow> bool" where
  "csr_table_wf t \<longleftrightarrow> length (csr_pmpaddr t) = 16 \<and> length (csr_pmpcfg t) = 4 \<and> length (csr_spmpaddr t) = 64 \<and>
     length (csr_spmpcfg t) = 16 \<and> length (csr_spmpswitch t) = 2"

lemma word_halves [simp]:
  "low_word (set_low_word v r) = v" "high_word (set_low_word v r) = high_word r"
  "high_word (set_high_word v r) = v" "low_word (set_high_word v r) = low_word r"
  by (rule bit_word_eqI, auto simp: low_word_def high_word_def set_low_word_def set_high_word_def bit_simps
      dest: bit_imp_le_length)+

lemmas entry_defs = reg_entry_def low_entry_def high_entry_def

lemma set_Cons_elim: "x \<in> set (y # ys) \<Longrightarrow> (x = y \<Longrightarrow> R) \<Longrightarrow> (x \<in> set ys \<Longrightarrow> R) \<Longrightarrow> R"
  by auto

lemma scalar_entry_law:
  "(a, get, put) \<in> set scalar_registers \<Longrightarrow> get (put v t) = v \<and> (csr_table_wf (put v t) \<longleftrightarrow> csr_table_wf t)"
  unfolding scalar_registers_def by (elim set_Cons_elim) (simp_all add: entry_defs csr_table_wf_def)

lemma array_entry_law:
  "(a, get, put) \<in> set array_registers \<Longrightarrow> csr_table_wf t \<Longrightarrow> get (put v t) = v \<and> csr_table_wf (put v t)"
  by (auto simp: array_registers_def array_entries_def csr_table_wf_def)

lemma distinct_register_addresses: "distinct (map fst (scalar_registers @ array_registers))"
proof -
  have "distinct (map unat (map fst (scalar_registers @ array_registers)))"
    by (simp add: scalar_registers_def array_registers_def array_entries_def entry_defs csr_addrs upt_conv_Cons)
  then show ?thesis by (simp only: distinct_map)
qed



end
