(* ===== verification/Instr_Codes.thy ===== *)
theory Instr_Codes
  imports Instr_Fields
begin

text \<open>
  The numeric tables of the decoder: the opcode and function-code constants of
  \<^verbatim>\<open>enum Opcode::Parts\<close> (\<^verbatim>\<open>core/common/instr.h\<close>), the decoded operations of
  \<^verbatim>\<open>enum Opcode::Mapping\<close>, the instruction formats of \<^verbatim>\<open>Opcode::getType\<close> and the
  mask and encoding constants at the head of \<^verbatim>\<open>core/common/instr.cpp\<close>. The operations
  \<^verbatim>\<open>AND\<close>, \<^verbatim>\<open>OR\<close> and \<^verbatim>\<open>XOR\<close> are named \<open>AND_op\<close>, \<open>OR_op\<close> and \<open>XOR_op\<close>, since the plain
  names are bit operators here. The last definitions collect the masks and encodings into
  one table, \<open>pattern_of\<close>, which is the specification of the decoder.
\<close>

section \<open>Architectures, operations, formats\<close>

datatype Architecture = RV32 | RV64 | RV128

datatype rv32i =
    LUI | AUIPC | JAL | JALR | BEQ | BNE | BLT | BGE | BLTU | BGEU | LB | LH | LW | LBU | LHU
  | SB | SH | SW | ADDI | SLTI | SLTIU | XORI | ORI | ANDI | SLLI | SRLI | SRAI | ADD | SUB
  | SLL | SLT | SLTU | XOR_op | SRL | SRA | OR_op | AND_op | FENCE | ECALL | EBREAK

datatype zifencei =
    FENCE_I

datatype zicsr =
    CSRRW | CSRRS | CSRRC | CSRRWI | CSRRSI | CSRRCI

datatype rv32m =
    MUL | MULH | MULHSU | MULHU | DIV | DIVU | REM | REMU

datatype rv32a =
    LR_W | SC_W | AMOSWAP_W | AMOADD_W | AMOXOR_W | AMOAND_W | AMOOR_W | AMOMIN_W | AMOMAX_W
  | AMOMINU_W | AMOMAXU_W

datatype rv64i =
    LWU | LD | SD | ADDIW | SLLIW | SRLIW | SRAIW | ADDW | SUBW | SLLW | SRLW | SRAW

datatype rv64m =
    MULW | DIVW | DIVUW | REMW | REMUW

datatype rv64a =
    LR_D | SC_D | AMOSWAP_D | AMOADD_D | AMOXOR_D | AMOAND_D | AMOOR_D | AMOMIN_D | AMOMAX_D
  | AMOMINU_D | AMOMAXU_D

datatype rv32f =
    FLW | FSW | FMADD_S | FMSUB_S | FNMADD_S | FNMSUB_S | FADD_S | FSUB_S | FMUL_S | FDIV_S
  | FSQRT_S | FSGNJ_S | FSGNJN_S | FSGNJX_S | FMIN_S | FMAX_S | FCVT_W_S | FCVT_WU_S | FMV_X_W
  | FEQ_S | FLT_S | FLE_S | FCLASS_S | FCVT_S_W | FCVT_S_WU | FMV_W_X

datatype rv64f =
    FCVT_L_S | FCVT_LU_S | FCVT_S_L | FCVT_S_LU

datatype rv32d =
    FLD | FSD | FMADD_D | FMSUB_D | FNMSUB_D | FNMADD_D | FADD_D | FSUB_D | FMUL_D | FDIV_D
  | FSQRT_D | FSGNJ_D | FSGNJN_D | FSGNJX_D | FMIN_D | FMAX_D | FCVT_S_D | FCVT_D_S | FEQ_D
  | FLT_D | FLE_D | FCLASS_D | FCVT_W_D | FCVT_WU_D | FCVT_D_W | FCVT_D_WU

datatype rv64d =
    FCVT_L_D | FCVT_LU_D | FMV_X_D | FCVT_D_L | FCVT_D_LU | FMV_D_X

datatype priv_op =
    URET | SRET | MRET | WFI | SFENCE_VMA

datatype hv_op =
    HLVB | HLVBU | HLVH | HLVHU | HLVW | HLVXHU | HLVXWU | HSVB | HSVH | HSVW

datatype Mapping =
    UNDEF
  | RV32I rv32i
  | Zifencei zifencei
  | Zicsr zicsr
  | RV32M rv32m
  | RV32A rv32a
  | RV64I rv64i
  | RV64M rv64m
  | RV64A rv64a
  | RV32F rv32f
  | RV64F rv64f
  | RV32D rv32d
  | RV64D rv64d
  | Priv priv_op
  | HV hv_op

datatype Type =
    Type_UNKNOWN | Type_R | Type_I | Type_S | Type_B | Type_U | Type_J | Type_R4 | Type_CSR
  | Type_CSRI

definition getType :: "Mapping \<Rightarrow> Type" where
  "getType mapping =
     (case mapping of
       RV32I SLLI \<Rightarrow> Type_R | RV32I SRLI \<Rightarrow> Type_R
       | RV32I SRAI \<Rightarrow> Type_R | RV32I ADD \<Rightarrow> Type_R
       | RV32I SUB \<Rightarrow> Type_R | RV32I SLL \<Rightarrow> Type_R
       | RV32I SLT \<Rightarrow> Type_R | RV32I SLTU \<Rightarrow> Type_R
       | RV32I XOR_op \<Rightarrow> Type_R | RV32I SRL \<Rightarrow> Type_R
       | RV32I SRA \<Rightarrow> Type_R | RV32I OR_op \<Rightarrow> Type_R
       | RV32I AND_op \<Rightarrow> Type_R | RV32M MUL \<Rightarrow> Type_R
       | RV32M MULH \<Rightarrow> Type_R | RV32M MULHSU \<Rightarrow> Type_R
       | RV32M MULHU \<Rightarrow> Type_R | RV32M DIV \<Rightarrow> Type_R
       | RV32M DIVU \<Rightarrow> Type_R | RV32M REM \<Rightarrow> Type_R
       | RV32M REMU \<Rightarrow> Type_R | RV64I ADDW \<Rightarrow> Type_R
       | RV64I SUBW \<Rightarrow> Type_R | RV64I SLLW \<Rightarrow> Type_R
       | RV64I SRLW \<Rightarrow> Type_R | RV64I SRAW \<Rightarrow> Type_R
       | RV64M MULW \<Rightarrow> Type_R | RV64M DIVW \<Rightarrow> Type_R
       | RV64M DIVUW \<Rightarrow> Type_R | RV64M REMW \<Rightarrow> Type_R
       | RV64M REMUW \<Rightarrow> Type_R | RV32A LR_W \<Rightarrow> Type_R
       | RV32A SC_W \<Rightarrow> Type_R | RV32A AMOSWAP_W \<Rightarrow> Type_R
       | RV32A AMOADD_W \<Rightarrow> Type_R | RV32A AMOXOR_W \<Rightarrow> Type_R
       | RV32A AMOAND_W \<Rightarrow> Type_R | RV32A AMOOR_W \<Rightarrow> Type_R
       | RV32A AMOMIN_W \<Rightarrow> Type_R | RV32A AMOMAX_W \<Rightarrow> Type_R
       | RV32A AMOMINU_W \<Rightarrow> Type_R | RV32A AMOMAXU_W \<Rightarrow> Type_R
       | RV64A LR_D \<Rightarrow> Type_R | RV64A SC_D \<Rightarrow> Type_R
       | RV64A AMOSWAP_D \<Rightarrow> Type_R | RV64A AMOADD_D \<Rightarrow> Type_R
       | RV64A AMOXOR_D \<Rightarrow> Type_R | RV64A AMOAND_D \<Rightarrow> Type_R
       | RV64A AMOOR_D \<Rightarrow> Type_R | RV64A AMOMIN_D \<Rightarrow> Type_R
       | RV64A AMOMAX_D \<Rightarrow> Type_R | RV64A AMOMINU_D \<Rightarrow> Type_R
       | RV64A AMOMAXU_D \<Rightarrow> Type_R | RV32F FADD_S \<Rightarrow> Type_R
       | RV32F FSUB_S \<Rightarrow> Type_R | RV32F FMUL_S \<Rightarrow> Type_R
       | RV32F FDIV_S \<Rightarrow> Type_R | RV32F FSQRT_S \<Rightarrow> Type_R
       | RV32F FSGNJ_S \<Rightarrow> Type_R | RV32F FSGNJN_S \<Rightarrow> Type_R
       | RV32F FSGNJX_S \<Rightarrow> Type_R | RV32F FMIN_S \<Rightarrow> Type_R
       | RV32F FMAX_S \<Rightarrow> Type_R | RV32F FCVT_W_S \<Rightarrow> Type_R
       | RV32F FCVT_WU_S \<Rightarrow> Type_R | RV32F FMV_X_W \<Rightarrow> Type_R
       | RV32F FEQ_S \<Rightarrow> Type_R | RV32F FLT_S \<Rightarrow> Type_R
       | RV32F FLE_S \<Rightarrow> Type_R | RV32F FCLASS_S \<Rightarrow> Type_R
       | RV32F FCVT_S_W \<Rightarrow> Type_R | RV32F FCVT_S_WU \<Rightarrow> Type_R
       | RV32F FMV_W_X \<Rightarrow> Type_R | RV64F FCVT_L_S \<Rightarrow> Type_R
       | RV64F FCVT_LU_S \<Rightarrow> Type_R | RV64F FCVT_S_L \<Rightarrow> Type_R
       | RV64F FCVT_S_LU \<Rightarrow> Type_R | RV32D FADD_D \<Rightarrow> Type_R
       | RV32D FSUB_D \<Rightarrow> Type_R | RV32D FMUL_D \<Rightarrow> Type_R
       | RV32D FDIV_D \<Rightarrow> Type_R | RV32D FSQRT_D \<Rightarrow> Type_R
       | RV32D FSGNJ_D \<Rightarrow> Type_R | RV32D FSGNJN_D \<Rightarrow> Type_R
       | RV32D FSGNJX_D \<Rightarrow> Type_R | RV32D FMIN_D \<Rightarrow> Type_R
       | RV32D FMAX_D \<Rightarrow> Type_R | RV32D FCVT_S_D \<Rightarrow> Type_R
       | RV32D FCVT_D_S \<Rightarrow> Type_R | RV32D FEQ_D \<Rightarrow> Type_R
       | RV32D FLT_D \<Rightarrow> Type_R | RV32D FLE_D \<Rightarrow> Type_R
       | RV32D FCLASS_D \<Rightarrow> Type_R | RV32D FCVT_W_D \<Rightarrow> Type_R
       | RV32D FCVT_WU_D \<Rightarrow> Type_R | RV32D FCVT_D_W \<Rightarrow> Type_R
       | RV32D FCVT_D_WU \<Rightarrow> Type_R | RV64D FCVT_L_D \<Rightarrow> Type_R
       | RV64D FCVT_LU_D \<Rightarrow> Type_R | RV64D FMV_X_D \<Rightarrow> Type_R
       | RV64D FCVT_D_L \<Rightarrow> Type_R | RV64D FCVT_D_LU \<Rightarrow> Type_R
       | RV64D FMV_D_X \<Rightarrow> Type_R
       | RV32I JALR \<Rightarrow> Type_I | RV32I LB \<Rightarrow> Type_I
       | RV32I LH \<Rightarrow> Type_I | RV32I LW \<Rightarrow> Type_I
       | RV64I LD \<Rightarrow> Type_I | RV32I LBU \<Rightarrow> Type_I
       | RV32I LHU \<Rightarrow> Type_I | RV64I LWU \<Rightarrow> Type_I
       | RV32I ADDI \<Rightarrow> Type_I | RV32I SLTI \<Rightarrow> Type_I
       | RV32I SLTIU \<Rightarrow> Type_I | RV32I XORI \<Rightarrow> Type_I
       | RV32I ORI \<Rightarrow> Type_I | RV32I ANDI \<Rightarrow> Type_I
       | RV64I ADDIW \<Rightarrow> Type_I | RV64I SLLIW \<Rightarrow> Type_I
       | RV64I SRLIW \<Rightarrow> Type_I | RV64I SRAIW \<Rightarrow> Type_I
       | RV32F FLW \<Rightarrow> Type_I | RV32D FLD \<Rightarrow> Type_I
       | RV32I SB \<Rightarrow> Type_S | RV32I SH \<Rightarrow> Type_S
       | RV32I SW \<Rightarrow> Type_S | RV64I SD \<Rightarrow> Type_S
       | RV32F FSW \<Rightarrow> Type_S | RV32D FSD \<Rightarrow> Type_S
       | RV32I BEQ \<Rightarrow> Type_B | RV32I BNE \<Rightarrow> Type_B
       | RV32I BLT \<Rightarrow> Type_B | RV32I BGE \<Rightarrow> Type_B
       | RV32I BLTU \<Rightarrow> Type_B | RV32I BGEU \<Rightarrow> Type_B
       | RV32I LUI \<Rightarrow> Type_U | RV32I AUIPC \<Rightarrow> Type_U
       | RV32I JAL \<Rightarrow> Type_J
       | RV32F FMADD_S \<Rightarrow> Type_R4 | RV32F FMSUB_S \<Rightarrow> Type_R4
       | RV32F FNMSUB_S \<Rightarrow> Type_R4 | RV32F FNMADD_S \<Rightarrow> Type_R4
       | RV32D FMADD_D \<Rightarrow> Type_R4 | RV32D FMSUB_D \<Rightarrow> Type_R4
       | RV32D FNMSUB_D \<Rightarrow> Type_R4 | RV32D FNMADD_D \<Rightarrow> Type_R4
       | Zicsr CSRRW \<Rightarrow> Type_CSR | Zicsr CSRRS \<Rightarrow> Type_CSR
       | Zicsr CSRRC \<Rightarrow> Type_CSR
       | Zicsr CSRRWI \<Rightarrow> Type_CSRI | Zicsr CSRRSI \<Rightarrow> Type_CSRI
       | Zicsr CSRRCI \<Rightarrow> Type_CSRI
       | _ \<Rightarrow> Type_UNKNOWN)"

section \<open>Opcode and function-code constants (enum Parts)\<close>

definition OP_LUI :: u32 where [instr_consts]: "OP_LUI = 0b0110111"
definition OP_AUIPC :: u32 where [instr_consts]: "OP_AUIPC = 0b0010111"
definition OP_JAL :: u32 where [instr_consts]: "OP_JAL = 0b1101111"
definition OP_JALR :: u32 where [instr_consts]: "OP_JALR = 0b1100111"
definition F3_JALR :: u32 where [instr_consts]: "F3_JALR = 0b000"
definition OP_LB :: u32 where [instr_consts]: "OP_LB = 0b0000011"
definition F3_LB :: u32 where [instr_consts]: "F3_LB = 0b000"
definition F3_LH :: u32 where [instr_consts]: "F3_LH = 0b001"
definition F3_LW :: u32 where [instr_consts]: "F3_LW = 0b010"
definition F3_LBU :: u32 where [instr_consts]: "F3_LBU = 0b100"
definition F3_LHU :: u32 where [instr_consts]: "F3_LHU = 0b101"
definition F3_LWU :: u32 where [instr_consts]: "F3_LWU = 0b110"
definition F3_LD :: u32 where [instr_consts]: "F3_LD = 0b011"
definition OP_SB :: u32 where [instr_consts]: "OP_SB = 0b0100011"
definition F3_SB :: u32 where [instr_consts]: "F3_SB = 0b000"
definition F3_SH :: u32 where [instr_consts]: "F3_SH = 0b001"
definition F3_SW :: u32 where [instr_consts]: "F3_SW = 0b010"
definition F3_SD :: u32 where [instr_consts]: "F3_SD = 0b011"
definition OP_BEQ :: u32 where [instr_consts]: "OP_BEQ = 0b1100011"
definition F3_BEQ :: u32 where [instr_consts]: "F3_BEQ = 0b000"
definition F3_BNE :: u32 where [instr_consts]: "F3_BNE = 0b001"
definition F3_BLT :: u32 where [instr_consts]: "F3_BLT = 0b100"
definition F3_BGE :: u32 where [instr_consts]: "F3_BGE = 0b101"
definition F3_BLTU :: u32 where [instr_consts]: "F3_BLTU = 0b110"
definition F3_BGEU :: u32 where [instr_consts]: "F3_BGEU = 0b111"
definition OP_ADDI :: u32 where [instr_consts]: "OP_ADDI = 0b0010011"
definition F3_ADDI :: u32 where [instr_consts]: "F3_ADDI = 0b000"
definition F3_SLTI :: u32 where [instr_consts]: "F3_SLTI = 0b010"
definition F3_SLTIU :: u32 where [instr_consts]: "F3_SLTIU = 0b011"
definition F3_XORI :: u32 where [instr_consts]: "F3_XORI = 0b100"
definition F3_ORI :: u32 where [instr_consts]: "F3_ORI = 0b110"
definition F3_ANDI :: u32 where [instr_consts]: "F3_ANDI = 0b111"
definition F3_SLLI :: u32 where [instr_consts]: "F3_SLLI = 0b001"
definition F3_SRLI :: u32 where [instr_consts]: "F3_SRLI = 0b101"
definition F7_SRLI :: u32 where [instr_consts]: "F7_SRLI = 0b0000000"
definition F7_SRAI :: u32 where [instr_consts]: "F7_SRAI = 0b0100000"
definition F6_SRLI :: u32 where [instr_consts]: "F6_SRLI = 0b000000"
definition F6_SRAI :: u32 where [instr_consts]: "F6_SRAI = 0b010000"
definition OP_ADD :: u32 where [instr_consts]: "OP_ADD = 0b0110011"
definition F3_ADD :: u32 where [instr_consts]: "F3_ADD = 0b000"
definition F7_ADD :: u32 where [instr_consts]: "F7_ADD = 0b0000000"
definition F3_SUB :: u32 where [instr_consts]: "F3_SUB = 0b000"
definition F7_SUB :: u32 where [instr_consts]: "F7_SUB = 0b0100000"
definition F3_SLL :: u32 where [instr_consts]: "F3_SLL = 0b001"
definition F3_SLT :: u32 where [instr_consts]: "F3_SLT = 0b010"
definition F3_SLTU :: u32 where [instr_consts]: "F3_SLTU = 0b011"
definition F3_XOR :: u32 where [instr_consts]: "F3_XOR = 0b100"
definition F3_SRL :: u32 where [instr_consts]: "F3_SRL = 0b101"
definition F3_SRA :: u32 where [instr_consts]: "F3_SRA = 0b101"
definition F3_OR :: u32 where [instr_consts]: "F3_OR = 0b110"
definition F3_AND :: u32 where [instr_consts]: "F3_AND = 0b111"
definition F3_MUL :: u32 where [instr_consts]: "F3_MUL = 0b000"
definition F7_MUL :: u32 where [instr_consts]: "F7_MUL = 0b0000001"
definition F3_MULH :: u32 where [instr_consts]: "F3_MULH = 0b001"
definition F3_MULHSU :: u32 where [instr_consts]: "F3_MULHSU = 0b010"
definition F3_MULHU :: u32 where [instr_consts]: "F3_MULHU = 0b011"
definition F3_DIV :: u32 where [instr_consts]: "F3_DIV = 0b100"
definition F3_DIVU :: u32 where [instr_consts]: "F3_DIVU = 0b101"
definition F3_REM :: u32 where [instr_consts]: "F3_REM = 0b110"
definition F3_REMU :: u32 where [instr_consts]: "F3_REMU = 0b111"
definition OP_FENCE :: u32 where [instr_consts]: "OP_FENCE = 0b0001111"
definition F3_FENCE :: u32 where [instr_consts]: "F3_FENCE = 0b000"
definition F3_FENCE_I :: u32 where [instr_consts]: "F3_FENCE_I = 0b001"
definition OP_ECALL :: u32 where [instr_consts]: "OP_ECALL = 0b1110011"
definition F3_SYS :: u32 where [instr_consts]: "F3_SYS = 0b000"
definition F12_ECALL :: u32 where [instr_consts]: "F12_ECALL = 0b000000000000"
definition F12_EBREAK :: u32 where [instr_consts]: "F12_EBREAK = 0b000000000001"
definition F12_URET :: u32 where [instr_consts]: "F12_URET = 0b000000000010"
definition F12_SRET :: u32 where [instr_consts]: "F12_SRET = 0b000100000010"
definition F12_MRET :: u32 where [instr_consts]: "F12_MRET = 0b001100000010"
definition F12_WFI :: u32 where [instr_consts]: "F12_WFI = 0b000100000101"
definition F7_SFENCE_VMA :: u32 where [instr_consts]: "F7_SFENCE_VMA = 0b0001001"
definition F3_CSRRW :: u32 where [instr_consts]: "F3_CSRRW = 0b001"
definition F3_CSRRS :: u32 where [instr_consts]: "F3_CSRRS = 0b010"
definition F3_CSRRC :: u32 where [instr_consts]: "F3_CSRRC = 0b011"
definition F3_CSRRWI :: u32 where [instr_consts]: "F3_CSRRWI = 0b101"
definition F3_CSRRSI :: u32 where [instr_consts]: "F3_CSRRSI = 0b110"
definition F3_CSRRCI :: u32 where [instr_consts]: "F3_CSRRCI = 0b111"
definition F3_HV :: u32 where [instr_consts]: "F3_HV = 0b100"
definition F7_HLVB :: u32 where [instr_consts]: "F7_HLVB = 0b0110000"
definition RS2_HLVB :: u32 where [instr_consts]: "RS2_HLVB = 0b00000"
definition RS2_HLVBU :: u32 where [instr_consts]: "RS2_HLVBU = 0b00001"
definition F7_HLVH :: u32 where [instr_consts]: "F7_HLVH = 0b0110010"
definition RS2_HLVH :: u32 where [instr_consts]: "RS2_HLVH = 0b00000"
definition RS2_HLVHU :: u32 where [instr_consts]: "RS2_HLVHU = 0b00001"
definition F7_HLVW :: u32 where [instr_consts]: "F7_HLVW = 0b0110100"
definition RS2_HLVW :: u32 where [instr_consts]: "RS2_HLVW = 0b00000"
definition RS2_HLVXHU :: u32 where [instr_consts]: "RS2_HLVXHU = 0b00011"
definition RS2_HLVXWU :: u32 where [instr_consts]: "RS2_HLVXWU = 0b00011"
definition F7_HSVB :: u32 where [instr_consts]: "F7_HSVB = 0b0110001"
definition F7_HSVH :: u32 where [instr_consts]: "F7_HSVH = 0b0110011"
definition F7_HSVW :: u32 where [instr_consts]: "F7_HSVW = 0b0110101"
definition OP_AMO :: u32 where [instr_consts]: "OP_AMO = 0b0101111"
definition F5_LR_W :: u32 where [instr_consts]: "F5_LR_W = 0b00010"
definition F5_SC_W :: u32 where [instr_consts]: "F5_SC_W = 0b00011"
definition F5_AMOSWAP_W :: u32 where [instr_consts]: "F5_AMOSWAP_W = 0b00001"
definition F5_AMOADD_W :: u32 where [instr_consts]: "F5_AMOADD_W = 0b00000"
definition F5_AMOXOR_W :: u32 where [instr_consts]: "F5_AMOXOR_W = 0b00100"
definition F5_AMOAND_W :: u32 where [instr_consts]: "F5_AMOAND_W = 0b01100"
definition F5_AMOOR_W :: u32 where [instr_consts]: "F5_AMOOR_W = 0b01000"
definition F5_AMOMIN_W :: u32 where [instr_consts]: "F5_AMOMIN_W = 0b10000"
definition F5_AMOMAX_W :: u32 where [instr_consts]: "F5_AMOMAX_W = 0b10100"
definition F5_AMOMINU_W :: u32 where [instr_consts]: "F5_AMOMINU_W = 0b11000"
definition F5_AMOMAXU_W :: u32 where [instr_consts]: "F5_AMOMAXU_W = 0b11100"
definition F3_AMO_W :: u32 where [instr_consts]: "F3_AMO_W = 0b010"
definition F3_AMO_D :: u32 where [instr_consts]: "F3_AMO_D = 0b011"
definition OP_ADDIW :: u32 where [instr_consts]: "OP_ADDIW = 0b0011011"
definition F3_ADDIW :: u32 where [instr_consts]: "F3_ADDIW = 0b000"
definition F3_SLLIW :: u32 where [instr_consts]: "F3_SLLIW = 0b001"
definition F3_SRLIW :: u32 where [instr_consts]: "F3_SRLIW = 0b101"
definition F7_SRLIW :: u32 where [instr_consts]: "F7_SRLIW = 0b0000000"
definition F7_SRAIW :: u32 where [instr_consts]: "F7_SRAIW = 0b0100000"
definition OP_ADDW :: u32 where [instr_consts]: "OP_ADDW = 0b0111011"
definition F3_ADDW :: u32 where [instr_consts]: "F3_ADDW = 0b000"
definition F7_ADDW :: u32 where [instr_consts]: "F7_ADDW = 0b0000000"
definition F3_SUBW :: u32 where [instr_consts]: "F3_SUBW = 0b000"
definition F7_SUBW :: u32 where [instr_consts]: "F7_SUBW = 0b0100000"
definition F3_SLLW :: u32 where [instr_consts]: "F3_SLLW = 0b001"
definition F3_SRLW :: u32 where [instr_consts]: "F3_SRLW = 0b101"
definition F7_SRLW :: u32 where [instr_consts]: "F7_SRLW = 0b0000000"
definition F3_SRAW :: u32 where [instr_consts]: "F3_SRAW = 0b101"
definition F7_SRAW :: u32 where [instr_consts]: "F7_SRAW = 0b0100000"
definition F7_MULW :: u32 where [instr_consts]: "F7_MULW = 0b0000001"
definition F3_MULW :: u32 where [instr_consts]: "F3_MULW = 0b000"
definition F3_DIVW :: u32 where [instr_consts]: "F3_DIVW = 0b100"
definition F3_DIVUW :: u32 where [instr_consts]: "F3_DIVUW = 0b101"
definition F3_REMW :: u32 where [instr_consts]: "F3_REMW = 0b110"
definition F3_REMUW :: u32 where [instr_consts]: "F3_REMUW = 0b111"
definition OP_FMADD_S :: u32 where [instr_consts]: "OP_FMADD_S = 0b1000011"
definition F2_FMADD_S :: u32 where [instr_consts]: "F2_FMADD_S = 0b00"
definition F2_FMADD_D :: u32 where [instr_consts]: "F2_FMADD_D = 0b01"
definition OP_FADD_S :: u32 where [instr_consts]: "OP_FADD_S = 0b1010011"
definition F7_FADD_S :: u32 where [instr_consts]: "F7_FADD_S = 0b0000000"
definition F7_FADD_D :: u32 where [instr_consts]: "F7_FADD_D = 0b0000001"
definition F7_FSUB_S :: u32 where [instr_consts]: "F7_FSUB_S = 0b0000100"
definition F7_FSUB_D :: u32 where [instr_consts]: "F7_FSUB_D = 0b0000101"
definition F7_FCVT_D_S :: u32 where [instr_consts]: "F7_FCVT_D_S = 0b0100001"
definition F7_FMUL_S :: u32 where [instr_consts]: "F7_FMUL_S = 0b0001000"
definition F7_FMUL_D :: u32 where [instr_consts]: "F7_FMUL_D = 0b0001001"
definition F7_FDIV_S :: u32 where [instr_consts]: "F7_FDIV_S = 0b0001100"
definition F7_FDIV_D :: u32 where [instr_consts]: "F7_FDIV_D = 0b0001101"
definition F7_FLE_S :: u32 where [instr_consts]: "F7_FLE_S = 0b1010000"
definition F3_FLE_S :: u32 where [instr_consts]: "F3_FLE_S = 0b000"
definition F3_FLT_S :: u32 where [instr_consts]: "F3_FLT_S = 0b001"
definition F3_FEQ_S :: u32 where [instr_consts]: "F3_FEQ_S = 0b010"
definition F7_FSGNJ_D :: u32 where [instr_consts]: "F7_FSGNJ_D = 0b0010001"
definition F3_FSGNJ_D :: u32 where [instr_consts]: "F3_FSGNJ_D = 0b000"
definition F3_FSGNJN_D :: u32 where [instr_consts]: "F3_FSGNJN_D = 0b001"
definition F3_FSGNJX_D :: u32 where [instr_consts]: "F3_FSGNJX_D = 0b010"
definition F7_FMIN_S :: u32 where [instr_consts]: "F7_FMIN_S = 0b0010100"
definition F3_FMIN_S :: u32 where [instr_consts]: "F3_FMIN_S = 0b000"
definition F3_FMAX_S :: u32 where [instr_consts]: "F3_FMAX_S = 0b001"
definition F7_FMIN_D :: u32 where [instr_consts]: "F7_FMIN_D = 0b0010101"
definition F3_FMIN_D :: u32 where [instr_consts]: "F3_FMIN_D = 0b000"
definition F3_FMAX_D :: u32 where [instr_consts]: "F3_FMAX_D = 0b001"
definition F7_FCVT_S_D :: u32 where [instr_consts]: "F7_FCVT_S_D = 0b0100000"
definition F7_FSGNJ_S :: u32 where [instr_consts]: "F7_FSGNJ_S = 0b0010000"
definition F3_FSGNJ_S :: u32 where [instr_consts]: "F3_FSGNJ_S = 0b000"
definition F3_FSGNJN_S :: u32 where [instr_consts]: "F3_FSGNJN_S = 0b001"
definition F3_FSGNJX_S :: u32 where [instr_consts]: "F3_FSGNJX_S = 0b010"
definition F7_FLE_D :: u32 where [instr_consts]: "F7_FLE_D = 0b1010001"
definition F3_FLE_D :: u32 where [instr_consts]: "F3_FLE_D = 0b000"
definition F3_FLT_D :: u32 where [instr_consts]: "F3_FLT_D = 0b001"
definition F3_FEQ_D :: u32 where [instr_consts]: "F3_FEQ_D = 0b010"
definition F7_FCVT_S_W :: u32 where [instr_consts]: "F7_FCVT_S_W = 0b1101000"
definition RS2_FCVT_S_W :: u32 where [instr_consts]: "RS2_FCVT_S_W = 0b00000"
definition RS2_FCVT_S_WU :: u32 where [instr_consts]: "RS2_FCVT_S_WU = 0b00001"
definition RS2_FCVT_S_L :: u32 where [instr_consts]: "RS2_FCVT_S_L = 0b00010"
definition RS2_FCVT_S_LU :: u32 where [instr_consts]: "RS2_FCVT_S_LU = 0b00011"
definition F7_FCVT_D_W :: u32 where [instr_consts]: "F7_FCVT_D_W = 0b1101001"
definition RS2_FCVT_D_W :: u32 where [instr_consts]: "RS2_FCVT_D_W = 0b00000"
definition RS2_FCVT_D_WU :: u32 where [instr_consts]: "RS2_FCVT_D_WU = 0b00001"
definition RS2_FCVT_D_L :: u32 where [instr_consts]: "RS2_FCVT_D_L = 0b00010"
definition RS2_FCVT_D_LU :: u32 where [instr_consts]: "RS2_FCVT_D_LU = 0b00011"
definition F7_FCVT_W_D :: u32 where [instr_consts]: "F7_FCVT_W_D = 0b1100001"
definition RS2_FCVT_W_D :: u32 where [instr_consts]: "RS2_FCVT_W_D = 0b00000"
definition RS2_FCVT_WU_D :: u32 where [instr_consts]: "RS2_FCVT_WU_D = 0b00001"
definition RS2_FCVT_L_D :: u32 where [instr_consts]: "RS2_FCVT_L_D = 0b00010"
definition RS2_FCVT_LU_D :: u32 where [instr_consts]: "RS2_FCVT_LU_D = 0b00011"
definition F7_FSQRT_S :: u32 where [instr_consts]: "F7_FSQRT_S = 0b0101100"
definition F7_FSQRT_D :: u32 where [instr_consts]: "F7_FSQRT_D = 0b0101101"
definition F7_FCVT_W_S :: u32 where [instr_consts]: "F7_FCVT_W_S = 0b1100000"
definition RS2_FCVT_W_S :: u32 where [instr_consts]: "RS2_FCVT_W_S = 0b00000"
definition RS2_FCVT_WU_S :: u32 where [instr_consts]: "RS2_FCVT_WU_S = 0b00001"
definition RS2_FCVT_L_S :: u32 where [instr_consts]: "RS2_FCVT_L_S = 0b00010"
definition RS2_FCVT_LU_S :: u32 where [instr_consts]: "RS2_FCVT_LU_S = 0b00011"
definition F7_FMV_X_W :: u32 where [instr_consts]: "F7_FMV_X_W = 0b1110000"
definition F3_FMV_X_W :: u32 where [instr_consts]: "F3_FMV_X_W = 0b000"
definition F3_FCLASS_S :: u32 where [instr_consts]: "F3_FCLASS_S = 0b001"
definition F7_FMV_X_D :: u32 where [instr_consts]: "F7_FMV_X_D = 0b1110001"
definition F3_FMV_X_D :: u32 where [instr_consts]: "F3_FMV_X_D = 0b000"
definition F3_FCLASS_D :: u32 where [instr_consts]: "F3_FCLASS_D = 0b001"
definition F7_FMV_W_X :: u32 where [instr_consts]: "F7_FMV_W_X = 0b1111000"
definition F7_FMV_D_X :: u32 where [instr_consts]: "F7_FMV_D_X = 0b1111001"
definition OP_FLW :: u32 where [instr_consts]: "OP_FLW = 0b0000111"
definition F3_FLW :: u32 where [instr_consts]: "F3_FLW = 0b010"
definition F3_FLD :: u32 where [instr_consts]: "F3_FLD = 0b011"
definition OP_FSW :: u32 where [instr_consts]: "OP_FSW = 0b0100111"
definition F3_FSW :: u32 where [instr_consts]: "F3_FSW = 0b010"
definition F3_FSD :: u32 where [instr_consts]: "F3_FSD = 0b011"
definition OP_FMSUB_S :: u32 where [instr_consts]: "OP_FMSUB_S = 0b1000111"
definition F2_FMSUB_S :: u32 where [instr_consts]: "F2_FMSUB_S = 0b00"
definition F2_FMSUB_D :: u32 where [instr_consts]: "F2_FMSUB_D = 0b01"
definition OP_FNMSUB_S :: u32 where [instr_consts]: "OP_FNMSUB_S = 0b1001011"
definition F2_FNMSUB_S :: u32 where [instr_consts]: "F2_FNMSUB_S = 0b00"
definition F2_FNMSUB_D :: u32 where [instr_consts]: "F2_FNMSUB_D = 0b01"
definition OP_FNMADD_S :: u32 where [instr_consts]: "OP_FNMADD_S = 0b1001111"
definition F2_FNMADD_S :: u32 where [instr_consts]: "F2_FNMADD_S = 0b00"
definition F2_FNMADD_D :: u32 where [instr_consts]: "F2_FNMADD_D = 0b01"
definition OP_CUST1 :: u32 where [instr_consts]: "OP_CUST1 = 0b0101011"
definition OP_CUST0 :: u32 where [instr_consts]: "OP_CUST0 = 0b0001011"

section \<open>Masks and encodings\<close>

definition LUI_MASK :: u32 where [instr_consts]: "LUI_MASK = 0b00000000000000000000000001111111"
definition LUI_ENCODING :: u32 where [instr_consts]: "LUI_ENCODING = 0b00000000000000000000000000110111"
definition AUIPC_MASK :: u32 where [instr_consts]: "AUIPC_MASK = 0b00000000000000000000000001111111"
definition AUIPC_ENCODING :: u32 where [instr_consts]: "AUIPC_ENCODING = 0b00000000000000000000000000010111"
definition JAL_MASK :: u32 where [instr_consts]: "JAL_MASK = 0b00000000000000000000000001111111"
definition JAL_ENCODING :: u32 where [instr_consts]: "JAL_ENCODING = 0b00000000000000000000000001101111"
definition JALR_MASK :: u32 where [instr_consts]: "JALR_MASK = 0b00000000000000000111000001111111"
definition JALR_ENCODING :: u32 where [instr_consts]: "JALR_ENCODING = 0b00000000000000000000000001100111"
definition BEQ_MASK :: u32 where [instr_consts]: "BEQ_MASK = 0b00000000000000000111000001111111"
definition BEQ_ENCODING :: u32 where [instr_consts]: "BEQ_ENCODING = 0b00000000000000000000000001100011"
definition BNE_MASK :: u32 where [instr_consts]: "BNE_MASK = 0b00000000000000000111000001111111"
definition BNE_ENCODING :: u32 where [instr_consts]: "BNE_ENCODING = 0b00000000000000000001000001100011"
definition BLT_MASK :: u32 where [instr_consts]: "BLT_MASK = 0b00000000000000000111000001111111"
definition BLT_ENCODING :: u32 where [instr_consts]: "BLT_ENCODING = 0b00000000000000000100000001100011"
definition BGE_MASK :: u32 where [instr_consts]: "BGE_MASK = 0b00000000000000000111000001111111"
definition BGE_ENCODING :: u32 where [instr_consts]: "BGE_ENCODING = 0b00000000000000000101000001100011"
definition BLTU_MASK :: u32 where [instr_consts]: "BLTU_MASK = 0b00000000000000000111000001111111"
definition BLTU_ENCODING :: u32 where [instr_consts]: "BLTU_ENCODING = 0b00000000000000000110000001100011"
definition BGEU_MASK :: u32 where [instr_consts]: "BGEU_MASK = 0b00000000000000000111000001111111"
definition BGEU_ENCODING :: u32 where [instr_consts]: "BGEU_ENCODING = 0b00000000000000000111000001100011"
definition LB_MASK :: u32 where [instr_consts]: "LB_MASK = 0b00000000000000000111000001111111"
definition LB_ENCODING :: u32 where [instr_consts]: "LB_ENCODING = 0b00000000000000000000000000000011"
definition LH_MASK :: u32 where [instr_consts]: "LH_MASK = 0b00000000000000000111000001111111"
definition LH_ENCODING :: u32 where [instr_consts]: "LH_ENCODING = 0b00000000000000000001000000000011"
definition LW_MASK :: u32 where [instr_consts]: "LW_MASK = 0b00000000000000000111000001111111"
definition LW_ENCODING :: u32 where [instr_consts]: "LW_ENCODING = 0b00000000000000000010000000000011"
definition LBU_MASK :: u32 where [instr_consts]: "LBU_MASK = 0b00000000000000000111000001111111"
definition LBU_ENCODING :: u32 where [instr_consts]: "LBU_ENCODING = 0b00000000000000000100000000000011"
definition LHU_MASK :: u32 where [instr_consts]: "LHU_MASK = 0b00000000000000000111000001111111"
definition LHU_ENCODING :: u32 where [instr_consts]: "LHU_ENCODING = 0b00000000000000000101000000000011"
definition SB_MASK :: u32 where [instr_consts]: "SB_MASK = 0b00000000000000000111000001111111"
definition SB_ENCODING :: u32 where [instr_consts]: "SB_ENCODING = 0b00000000000000000000000000100011"
definition SH_MASK :: u32 where [instr_consts]: "SH_MASK = 0b00000000000000000111000001111111"
definition SH_ENCODING :: u32 where [instr_consts]: "SH_ENCODING = 0b00000000000000000001000000100011"
definition SW_MASK :: u32 where [instr_consts]: "SW_MASK = 0b00000000000000000111000001111111"
definition SW_ENCODING :: u32 where [instr_consts]: "SW_ENCODING = 0b00000000000000000010000000100011"
definition ADDI_MASK :: u32 where [instr_consts]: "ADDI_MASK = 0b00000000000000000111000001111111"
definition ADDI_ENCODING :: u32 where [instr_consts]: "ADDI_ENCODING = 0b00000000000000000000000000010011"
definition SLTI_MASK :: u32 where [instr_consts]: "SLTI_MASK = 0b00000000000000000111000001111111"
definition SLTI_ENCODING :: u32 where [instr_consts]: "SLTI_ENCODING = 0b00000000000000000010000000010011"
definition SLTIU_MASK :: u32 where [instr_consts]: "SLTIU_MASK = 0b00000000000000000111000001111111"
definition SLTIU_ENCODING :: u32 where [instr_consts]: "SLTIU_ENCODING = 0b00000000000000000011000000010011"
definition XORI_MASK :: u32 where [instr_consts]: "XORI_MASK = 0b00000000000000000111000001111111"
definition XORI_ENCODING :: u32 where [instr_consts]: "XORI_ENCODING = 0b00000000000000000100000000010011"
definition ORI_MASK :: u32 where [instr_consts]: "ORI_MASK = 0b00000000000000000111000001111111"
definition ORI_ENCODING :: u32 where [instr_consts]: "ORI_ENCODING = 0b00000000000000000110000000010011"
definition ANDI_MASK :: u32 where [instr_consts]: "ANDI_MASK = 0b00000000000000000111000001111111"
definition ANDI_ENCODING :: u32 where [instr_consts]: "ANDI_ENCODING = 0b00000000000000000111000000010011"
definition SLLI_MASK :: u32 where [instr_consts]: "SLLI_MASK = 0b11111100000000000111000001111111"
definition SLLI_ENCODING :: u32 where [instr_consts]: "SLLI_ENCODING = 0b00000000000000000001000000010011"
definition SRLI_MASK :: u32 where [instr_consts]: "SRLI_MASK = 0b11111100000000000111000001111111"
definition SRLI_ENCODING :: u32 where [instr_consts]: "SRLI_ENCODING = 0b00000000000000000101000000010011"
definition SRAI_MASK :: u32 where [instr_consts]: "SRAI_MASK = 0b11111100000000000111000001111111"
definition SRAI_ENCODING :: u32 where [instr_consts]: "SRAI_ENCODING = 0b01000000000000000101000000010011"
definition SLLI_32_MASK :: u32 where [instr_consts]: "SLLI_32_MASK = 0b11111110000000000111000001111111"
definition SLLI_32_ENCODING :: u32 where [instr_consts]: "SLLI_32_ENCODING = 0b00000000000000000001000000010011"
definition SRLI_32_MASK :: u32 where [instr_consts]: "SRLI_32_MASK = 0b11111110000000000111000001111111"
definition SRLI_32_ENCODING :: u32 where [instr_consts]: "SRLI_32_ENCODING = 0b00000000000000000101000000010011"
definition SRAI_32_MASK :: u32 where [instr_consts]: "SRAI_32_MASK = 0b11111110000000000111000001111111"
definition SRAI_32_ENCODING :: u32 where [instr_consts]: "SRAI_32_ENCODING = 0b01000000000000000101000000010011"
definition ADD_MASK :: u32 where [instr_consts]: "ADD_MASK = 0b11111110000000000111000001111111"
definition ADD_ENCODING :: u32 where [instr_consts]: "ADD_ENCODING = 0b00000000000000000000000000110011"
definition SUB_MASK :: u32 where [instr_consts]: "SUB_MASK = 0b11111110000000000111000001111111"
definition SUB_ENCODING :: u32 where [instr_consts]: "SUB_ENCODING = 0b01000000000000000000000000110011"
definition SLL_MASK :: u32 where [instr_consts]: "SLL_MASK = 0b11111110000000000111000001111111"
definition SLL_ENCODING :: u32 where [instr_consts]: "SLL_ENCODING = 0b00000000000000000001000000110011"
definition SLT_MASK :: u32 where [instr_consts]: "SLT_MASK = 0b11111110000000000111000001111111"
definition SLT_ENCODING :: u32 where [instr_consts]: "SLT_ENCODING = 0b00000000000000000010000000110011"
definition SLTU_MASK :: u32 where [instr_consts]: "SLTU_MASK = 0b11111110000000000111000001111111"
definition SLTU_ENCODING :: u32 where [instr_consts]: "SLTU_ENCODING = 0b00000000000000000011000000110011"
definition XOR_MASK :: u32 where [instr_consts]: "XOR_MASK = 0b11111110000000000111000001111111"
definition XOR_ENCODING :: u32 where [instr_consts]: "XOR_ENCODING = 0b00000000000000000100000000110011"
definition SRL_MASK :: u32 where [instr_consts]: "SRL_MASK = 0b11111110000000000111000001111111"
definition SRL_ENCODING :: u32 where [instr_consts]: "SRL_ENCODING = 0b00000000000000000101000000110011"
definition SRA_MASK :: u32 where [instr_consts]: "SRA_MASK = 0b11111110000000000111000001111111"
definition SRA_ENCODING :: u32 where [instr_consts]: "SRA_ENCODING = 0b01000000000000000101000000110011"
definition OR_MASK :: u32 where [instr_consts]: "OR_MASK = 0b11111110000000000111000001111111"
definition OR_ENCODING :: u32 where [instr_consts]: "OR_ENCODING = 0b00000000000000000110000000110011"
definition AND_MASK :: u32 where [instr_consts]: "AND_MASK = 0b11111110000000000111000001111111"
definition AND_ENCODING :: u32 where [instr_consts]: "AND_ENCODING = 0b00000000000000000111000000110011"
definition FENCE_MASK :: u32 where [instr_consts]: "FENCE_MASK = 0b00000000000000000111000001111111"
definition FENCE_ENCODING :: u32 where [instr_consts]: "FENCE_ENCODING = 0b00000000000000000000000000001111"
definition FENCE_I_MASK :: u32 where [instr_consts]: "FENCE_I_MASK = 0b00000000000000000111000001111111"
definition FENCE_I_ENCODING :: u32 where [instr_consts]: "FENCE_I_ENCODING = 0b00000000000000000001000000001111"
definition ECALL_MASK :: u32 where [instr_consts]: "ECALL_MASK = 0b11111111111111111111111111111111"
definition ECALL_ENCODING :: u32 where [instr_consts]: "ECALL_ENCODING = 0b00000000000000000000000001110011"
definition EBREAK_MASK :: u32 where [instr_consts]: "EBREAK_MASK = 0b11111111111111111111111111111111"
definition EBREAK_ENCODING :: u32 where [instr_consts]: "EBREAK_ENCODING = 0b00000000000100000000000001110011"
definition CSRRW_MASK :: u32 where [instr_consts]: "CSRRW_MASK = 0b00000000000000000111000001111111"
definition CSRRW_ENCODING :: u32 where [instr_consts]: "CSRRW_ENCODING = 0b00000000000000000001000001110011"
definition CSRRS_MASK :: u32 where [instr_consts]: "CSRRS_MASK = 0b00000000000000000111000001111111"
definition CSRRS_ENCODING :: u32 where [instr_consts]: "CSRRS_ENCODING = 0b00000000000000000010000001110011"
definition CSRRC_MASK :: u32 where [instr_consts]: "CSRRC_MASK = 0b00000000000000000111000001111111"
definition CSRRC_ENCODING :: u32 where [instr_consts]: "CSRRC_ENCODING = 0b00000000000000000011000001110011"
definition CSRRWI_MASK :: u32 where [instr_consts]: "CSRRWI_MASK = 0b00000000000000000111000001111111"
definition CSRRWI_ENCODING :: u32 where [instr_consts]: "CSRRWI_ENCODING = 0b00000000000000000101000001110011"
definition CSRRSI_MASK :: u32 where [instr_consts]: "CSRRSI_MASK = 0b00000000000000000111000001111111"
definition CSRRSI_ENCODING :: u32 where [instr_consts]: "CSRRSI_ENCODING = 0b00000000000000000110000001110011"
definition CSRRCI_MASK :: u32 where [instr_consts]: "CSRRCI_MASK = 0b00000000000000000111000001111111"
definition CSRRCI_ENCODING :: u32 where [instr_consts]: "CSRRCI_ENCODING = 0b00000000000000000111000001110011"
definition MUL_MASK :: u32 where [instr_consts]: "MUL_MASK = 0b11111110000000000111000001111111"
definition MUL_ENCODING :: u32 where [instr_consts]: "MUL_ENCODING = 0b00000010000000000000000000110011"
definition MULH_MASK :: u32 where [instr_consts]: "MULH_MASK = 0b11111110000000000111000001111111"
definition MULH_ENCODING :: u32 where [instr_consts]: "MULH_ENCODING = 0b00000010000000000001000000110011"
definition MULHSU_MASK :: u32 where [instr_consts]: "MULHSU_MASK = 0b11111110000000000111000001111111"
definition MULHSU_ENCODING :: u32 where [instr_consts]: "MULHSU_ENCODING = 0b00000010000000000010000000110011"
definition MULHU_MASK :: u32 where [instr_consts]: "MULHU_MASK = 0b11111110000000000111000001111111"
definition MULHU_ENCODING :: u32 where [instr_consts]: "MULHU_ENCODING = 0b00000010000000000011000000110011"
definition DIV_MASK :: u32 where [instr_consts]: "DIV_MASK = 0b11111110000000000111000001111111"
definition DIV_ENCODING :: u32 where [instr_consts]: "DIV_ENCODING = 0b00000010000000000100000000110011"
definition DIVU_MASK :: u32 where [instr_consts]: "DIVU_MASK = 0b11111110000000000111000001111111"
definition DIVU_ENCODING :: u32 where [instr_consts]: "DIVU_ENCODING = 0b00000010000000000101000000110011"
definition REM_MASK :: u32 where [instr_consts]: "REM_MASK = 0b11111110000000000111000001111111"
definition REM_ENCODING :: u32 where [instr_consts]: "REM_ENCODING = 0b00000010000000000110000000110011"
definition REMU_MASK :: u32 where [instr_consts]: "REMU_MASK = 0b11111110000000000111000001111111"
definition REMU_ENCODING :: u32 where [instr_consts]: "REMU_ENCODING = 0b00000010000000000111000000110011"
definition LR_W_MASK :: u32 where [instr_consts]: "LR_W_MASK = 0b11111001111100000111000001111111"
definition LR_W_ENCODING :: u32 where [instr_consts]: "LR_W_ENCODING = 0b00010000000000000010000000101111"
definition SC_W_MASK :: u32 where [instr_consts]: "SC_W_MASK = 0b11111000000000000111000001111111"
definition SC_W_ENCODING :: u32 where [instr_consts]: "SC_W_ENCODING = 0b00011000000000000010000000101111"
definition AMOSWAP_W_MASK :: u32 where [instr_consts]: "AMOSWAP_W_MASK = 0b11111000000000000111000001111111"
definition AMOSWAP_W_ENCODING :: u32 where [instr_consts]: "AMOSWAP_W_ENCODING = 0b00001000000000000010000000101111"
definition AMOADD_W_MASK :: u32 where [instr_consts]: "AMOADD_W_MASK = 0b11111000000000000111000001111111"
definition AMOADD_W_ENCODING :: u32 where [instr_consts]: "AMOADD_W_ENCODING = 0b00000000000000000010000000101111"
definition AMOXOR_W_MASK :: u32 where [instr_consts]: "AMOXOR_W_MASK = 0b11111000000000000111000001111111"
definition AMOXOR_W_ENCODING :: u32 where [instr_consts]: "AMOXOR_W_ENCODING = 0b00100000000000000010000000101111"
definition AMOAND_W_MASK :: u32 where [instr_consts]: "AMOAND_W_MASK = 0b11111000000000000111000001111111"
definition AMOAND_W_ENCODING :: u32 where [instr_consts]: "AMOAND_W_ENCODING = 0b01100000000000000010000000101111"
definition AMOOR_W_MASK :: u32 where [instr_consts]: "AMOOR_W_MASK = 0b11111000000000000111000001111111"
definition AMOOR_W_ENCODING :: u32 where [instr_consts]: "AMOOR_W_ENCODING = 0b01000000000000000010000000101111"
definition AMOMIN_W_MASK :: u32 where [instr_consts]: "AMOMIN_W_MASK = 0b11111000000000000111000001111111"
definition AMOMIN_W_ENCODING :: u32 where [instr_consts]: "AMOMIN_W_ENCODING = 0b10000000000000000010000000101111"
definition AMOMAX_W_MASK :: u32 where [instr_consts]: "AMOMAX_W_MASK = 0b11111000000000000111000001111111"
definition AMOMAX_W_ENCODING :: u32 where [instr_consts]: "AMOMAX_W_ENCODING = 0b10100000000000000010000000101111"
definition AMOMINU_W_MASK :: u32 where [instr_consts]: "AMOMINU_W_MASK = 0b11111000000000000111000001111111"
definition AMOMINU_W_ENCODING :: u32 where [instr_consts]: "AMOMINU_W_ENCODING = 0b11000000000000000010000000101111"
definition AMOMAXU_W_MASK :: u32 where [instr_consts]: "AMOMAXU_W_MASK = 0b11111000000000000111000001111111"
definition AMOMAXU_W_ENCODING :: u32 where [instr_consts]: "AMOMAXU_W_ENCODING = 0b11100000000000000010000000101111"
definition URET_MASK :: u32 where [instr_consts]: "URET_MASK = 0b11111111111111111111111111111111"
definition URET_ENCODING :: u32 where [instr_consts]: "URET_ENCODING = 0b00000000001000000000000001110011"
definition SRET_MASK :: u32 where [instr_consts]: "SRET_MASK = 0b11111111111111111111111111111111"
definition SRET_ENCODING :: u32 where [instr_consts]: "SRET_ENCODING = 0b00010000001000000000000001110011"
definition MRET_MASK :: u32 where [instr_consts]: "MRET_MASK = 0b11111111111111111111111111111111"
definition MRET_ENCODING :: u32 where [instr_consts]: "MRET_ENCODING = 0b00110000001000000000000001110011"
definition WFI_MASK :: u32 where [instr_consts]: "WFI_MASK = 0b11111111111111111111111111111111"
definition WFI_ENCODING :: u32 where [instr_consts]: "WFI_ENCODING = 0b00010000010100000000000001110011"
definition SFENCE_VMA_MASK :: u32 where [instr_consts]: "SFENCE_VMA_MASK = 0b11111110000000000111111111111111"
definition SFENCE_VMA_ENCODING :: u32 where [instr_consts]: "SFENCE_VMA_ENCODING = 0b00010010000000000000000001110011"
definition LWU_MASK :: u32 where [instr_consts]: "LWU_MASK = 0b00000000000000000111000001111111"
definition LWU_ENCODING :: u32 where [instr_consts]: "LWU_ENCODING = 0b00000000000000000110000000000011"
definition LD_MASK :: u32 where [instr_consts]: "LD_MASK = 0b00000000000000000111000001111111"
definition LD_ENCODING :: u32 where [instr_consts]: "LD_ENCODING = 0b00000000000000000011000000000011"
definition SD_MASK :: u32 where [instr_consts]: "SD_MASK = 0b00000000000000000111000001111111"
definition SD_ENCODING :: u32 where [instr_consts]: "SD_ENCODING = 0b00000000000000000011000000100011"
definition ADDIW_MASK :: u32 where [instr_consts]: "ADDIW_MASK = 0b00000000000000000111000001111111"
definition ADDIW_ENCODING :: u32 where [instr_consts]: "ADDIW_ENCODING = 0b00000000000000000000000000011011"
definition SLLIW_MASK :: u32 where [instr_consts]: "SLLIW_MASK = 0b11111110000000000111000001111111"
definition SLLIW_ENCODING :: u32 where [instr_consts]: "SLLIW_ENCODING = 0b00000000000000000001000000011011"
definition SRLIW_MASK :: u32 where [instr_consts]: "SRLIW_MASK = 0b11111110000000000111000001111111"
definition SRLIW_ENCODING :: u32 where [instr_consts]: "SRLIW_ENCODING = 0b00000000000000000101000000011011"
definition SRAIW_MASK :: u32 where [instr_consts]: "SRAIW_MASK = 0b11111110000000000111000001111111"
definition SRAIW_ENCODING :: u32 where [instr_consts]: "SRAIW_ENCODING = 0b01000000000000000101000000011011"
definition ADDW_MASK :: u32 where [instr_consts]: "ADDW_MASK = 0b11111110000000000111000001111111"
definition ADDW_ENCODING :: u32 where [instr_consts]: "ADDW_ENCODING = 0b00000000000000000000000000111011"
definition SUBW_MASK :: u32 where [instr_consts]: "SUBW_MASK = 0b11111110000000000111000001111111"
definition SUBW_ENCODING :: u32 where [instr_consts]: "SUBW_ENCODING = 0b01000000000000000000000000111011"
definition SLLW_MASK :: u32 where [instr_consts]: "SLLW_MASK = 0b11111110000000000111000001111111"
definition SLLW_ENCODING :: u32 where [instr_consts]: "SLLW_ENCODING = 0b00000000000000000001000000111011"
definition SRLW_MASK :: u32 where [instr_consts]: "SRLW_MASK = 0b11111110000000000111000001111111"
definition SRLW_ENCODING :: u32 where [instr_consts]: "SRLW_ENCODING = 0b00000000000000000101000000111011"
definition SRAW_MASK :: u32 where [instr_consts]: "SRAW_MASK = 0b11111110000000000111000001111111"
definition SRAW_ENCODING :: u32 where [instr_consts]: "SRAW_ENCODING = 0b01000000000000000101000000111011"
definition MULW_MASK :: u32 where [instr_consts]: "MULW_MASK = 0b11111110000000000111000001111111"
definition MULW_ENCODING :: u32 where [instr_consts]: "MULW_ENCODING = 0b00000010000000000000000000111011"
definition DIVW_MASK :: u32 where [instr_consts]: "DIVW_MASK = 0b11111110000000000111000001111111"
definition DIVW_ENCODING :: u32 where [instr_consts]: "DIVW_ENCODING = 0b00000010000000000100000000111011"
definition DIVUW_MASK :: u32 where [instr_consts]: "DIVUW_MASK = 0b11111110000000000111000001111111"
definition DIVUW_ENCODING :: u32 where [instr_consts]: "DIVUW_ENCODING = 0b00000010000000000101000000111011"
definition REMW_MASK :: u32 where [instr_consts]: "REMW_MASK = 0b11111110000000000111000001111111"
definition REMW_ENCODING :: u32 where [instr_consts]: "REMW_ENCODING = 0b00000010000000000110000000111011"
definition REMUW_MASK :: u32 where [instr_consts]: "REMUW_MASK = 0b11111110000000000111000001111111"
definition REMUW_ENCODING :: u32 where [instr_consts]: "REMUW_ENCODING = 0b00000010000000000111000000111011"
definition LR_D_MASK :: u32 where [instr_consts]: "LR_D_MASK = 0b11111001111100000111000001111111"
definition LR_D_ENCODING :: u32 where [instr_consts]: "LR_D_ENCODING = 0b00010000000000000011000000101111"
definition SC_D_MASK :: u32 where [instr_consts]: "SC_D_MASK = 0b11111000000000000111000001111111"
definition SC_D_ENCODING :: u32 where [instr_consts]: "SC_D_ENCODING = 0b00011000000000000011000000101111"
definition AMOSWAP_D_MASK :: u32 where [instr_consts]: "AMOSWAP_D_MASK = 0b11111000000000000111000001111111"
definition AMOSWAP_D_ENCODING :: u32 where [instr_consts]: "AMOSWAP_D_ENCODING = 0b00001000000000000011000000101111"
definition AMOADD_D_MASK :: u32 where [instr_consts]: "AMOADD_D_MASK = 0b11111000000000000111000001111111"
definition AMOADD_D_ENCODING :: u32 where [instr_consts]: "AMOADD_D_ENCODING = 0b00000000000000000011000000101111"
definition AMOXOR_D_MASK :: u32 where [instr_consts]: "AMOXOR_D_MASK = 0b11111000000000000111000001111111"
definition AMOXOR_D_ENCODING :: u32 where [instr_consts]: "AMOXOR_D_ENCODING = 0b00100000000000000011000000101111"
definition AMOAND_D_MASK :: u32 where [instr_consts]: "AMOAND_D_MASK = 0b11111000000000000111000001111111"
definition AMOAND_D_ENCODING :: u32 where [instr_consts]: "AMOAND_D_ENCODING = 0b01100000000000000011000000101111"
definition AMOOR_D_MASK :: u32 where [instr_consts]: "AMOOR_D_MASK = 0b11111000000000000111000001111111"
definition AMOOR_D_ENCODING :: u32 where [instr_consts]: "AMOOR_D_ENCODING = 0b01000000000000000011000000101111"
definition AMOMIN_D_MASK :: u32 where [instr_consts]: "AMOMIN_D_MASK = 0b11111000000000000111000001111111"
definition AMOMIN_D_ENCODING :: u32 where [instr_consts]: "AMOMIN_D_ENCODING = 0b10000000000000000011000000101111"
definition AMOMAX_D_MASK :: u32 where [instr_consts]: "AMOMAX_D_MASK = 0b11111000000000000111000001111111"
definition AMOMAX_D_ENCODING :: u32 where [instr_consts]: "AMOMAX_D_ENCODING = 0b10100000000000000011000000101111"
definition AMOMINU_D_MASK :: u32 where [instr_consts]: "AMOMINU_D_MASK = 0b11111000000000000111000001111111"
definition AMOMINU_D_ENCODING :: u32 where [instr_consts]: "AMOMINU_D_ENCODING = 0b11000000000000000011000000101111"
definition AMOMAXU_D_MASK :: u32 where [instr_consts]: "AMOMAXU_D_MASK = 0b11111000000000000111000001111111"
definition AMOMAXU_D_ENCODING :: u32 where [instr_consts]: "AMOMAXU_D_ENCODING = 0b11100000000000000011000000101111"
definition FLW_MASK :: u32 where [instr_consts]: "FLW_MASK = 0b00000000000000000111000001111111"
definition FLW_ENCODING :: u32 where [instr_consts]: "FLW_ENCODING = 0b00000000000000000010000000000111"
definition FSW_MASK :: u32 where [instr_consts]: "FSW_MASK = 0b00000000000000000111000001111111"
definition FSW_ENCODING :: u32 where [instr_consts]: "FSW_ENCODING = 0b00000000000000000010000000100111"
definition FMADD_S_MASK :: u32 where [instr_consts]: "FMADD_S_MASK = 0b00000110000000000000000001111111"
definition FMADD_S_ENCODING :: u32 where [instr_consts]: "FMADD_S_ENCODING = 0b00000000000000000000000001000011"
definition FMSUB_S_MASK :: u32 where [instr_consts]: "FMSUB_S_MASK = 0b00000110000000000000000001111111"
definition FMSUB_S_ENCODING :: u32 where [instr_consts]: "FMSUB_S_ENCODING = 0b00000000000000000000000001000111"
definition FNMADD_S_MASK :: u32 where [instr_consts]: "FNMADD_S_MASK = 0b00000110000000000000000001111111"
definition FNMADD_S_ENCODING :: u32 where [instr_consts]: "FNMADD_S_ENCODING = 0b00000000000000000000000001001111"
definition FNMSUB_S_MASK :: u32 where [instr_consts]: "FNMSUB_S_MASK = 0b00000110000000000000000001111111"
definition FNMSUB_S_ENCODING :: u32 where [instr_consts]: "FNMSUB_S_ENCODING = 0b00000000000000000000000001001011"
definition FADD_S_MASK :: u32 where [instr_consts]: "FADD_S_MASK = 0b11111110000000000000000001111111"
definition FADD_S_ENCODING :: u32 where [instr_consts]: "FADD_S_ENCODING = 0b00000000000000000000000001010011"
definition FSUB_S_MASK :: u32 where [instr_consts]: "FSUB_S_MASK = 0b11111110000000000000000001111111"
definition FSUB_S_ENCODING :: u32 where [instr_consts]: "FSUB_S_ENCODING = 0b00001000000000000000000001010011"
definition FMUL_S_MASK :: u32 where [instr_consts]: "FMUL_S_MASK = 0b11111110000000000000000001111111"
definition FMUL_S_ENCODING :: u32 where [instr_consts]: "FMUL_S_ENCODING = 0b00010000000000000000000001010011"
definition FDIV_S_MASK :: u32 where [instr_consts]: "FDIV_S_MASK = 0b11111110000000000000000001111111"
definition FDIV_S_ENCODING :: u32 where [instr_consts]: "FDIV_S_ENCODING = 0b00011000000000000000000001010011"
definition FSQRT_S_MASK :: u32 where [instr_consts]: "FSQRT_S_MASK = 0b11111111111100000000000001111111"
definition FSQRT_S_ENCODING :: u32 where [instr_consts]: "FSQRT_S_ENCODING = 0b01011000000000000000000001010011"
definition FSGNJ_S_MASK :: u32 where [instr_consts]: "FSGNJ_S_MASK = 0b11111110000000000111000001111111"
definition FSGNJ_S_ENCODING :: u32 where [instr_consts]: "FSGNJ_S_ENCODING = 0b00100000000000000000000001010011"
definition FSGNJN_S_MASK :: u32 where [instr_consts]: "FSGNJN_S_MASK = 0b11111110000000000111000001111111"
definition FSGNJN_S_ENCODING :: u32 where [instr_consts]: "FSGNJN_S_ENCODING = 0b00100000000000000001000001010011"
definition FSGNJX_S_MASK :: u32 where [instr_consts]: "FSGNJX_S_MASK = 0b11111110000000000111000001111111"
definition FSGNJX_S_ENCODING :: u32 where [instr_consts]: "FSGNJX_S_ENCODING = 0b00100000000000000010000001010011"
definition FMIN_S_MASK :: u32 where [instr_consts]: "FMIN_S_MASK = 0b11111110000000000111000001111111"
definition FMIN_S_ENCODING :: u32 where [instr_consts]: "FMIN_S_ENCODING = 0b00101000000000000000000001010011"
definition FMAX_S_MASK :: u32 where [instr_consts]: "FMAX_S_MASK = 0b11111110000000000111000001111111"
definition FMAX_S_ENCODING :: u32 where [instr_consts]: "FMAX_S_ENCODING = 0b00101000000000000001000001010011"
definition FCVT_W_S_MASK :: u32 where [instr_consts]: "FCVT_W_S_MASK = 0b11111111111100000000000001111111"
definition FCVT_W_S_ENCODING :: u32 where [instr_consts]: "FCVT_W_S_ENCODING = 0b11000000000000000000000001010011"
definition FCVT_WU_S_MASK :: u32 where [instr_consts]: "FCVT_WU_S_MASK = 0b11111111111100000000000001111111"
definition FCVT_WU_S_ENCODING :: u32 where [instr_consts]: "FCVT_WU_S_ENCODING = 0b11000000000100000000000001010011"
definition FMV_X_W_MASK :: u32 where [instr_consts]: "FMV_X_W_MASK = 0b11111111111100000111000001111111"
definition FMV_X_W_ENCODING :: u32 where [instr_consts]: "FMV_X_W_ENCODING = 0b11100000000000000000000001010011"
definition FEQ_S_MASK :: u32 where [instr_consts]: "FEQ_S_MASK = 0b11111110000000000111000001111111"
definition FEQ_S_ENCODING :: u32 where [instr_consts]: "FEQ_S_ENCODING = 0b10100000000000000010000001010011"
definition FLT_S_MASK :: u32 where [instr_consts]: "FLT_S_MASK = 0b11111110000000000111000001111111"
definition FLT_S_ENCODING :: u32 where [instr_consts]: "FLT_S_ENCODING = 0b10100000000000000001000001010011"
definition FLE_S_MASK :: u32 where [instr_consts]: "FLE_S_MASK = 0b11111110000000000111000001111111"
definition FLE_S_ENCODING :: u32 where [instr_consts]: "FLE_S_ENCODING = 0b10100000000000000000000001010011"
definition FCLASS_S_MASK :: u32 where [instr_consts]: "FCLASS_S_MASK = 0b11111111111100000111000001111111"
definition FCLASS_S_ENCODING :: u32 where [instr_consts]: "FCLASS_S_ENCODING = 0b11100000000000000001000001010011"
definition FCVT_S_W_MASK :: u32 where [instr_consts]: "FCVT_S_W_MASK = 0b11111111111100000000000001111111"
definition FCVT_S_W_ENCODING :: u32 where [instr_consts]: "FCVT_S_W_ENCODING = 0b11010000000000000000000001010011"
definition FCVT_S_WU_MASK :: u32 where [instr_consts]: "FCVT_S_WU_MASK = 0b11111111111100000000000001111111"
definition FCVT_S_WU_ENCODING :: u32 where [instr_consts]: "FCVT_S_WU_ENCODING = 0b11010000000100000000000001010011"
definition FMV_W_X_MASK :: u32 where [instr_consts]: "FMV_W_X_MASK = 0b11111111111100000111000001111111"
definition FMV_W_X_ENCODING :: u32 where [instr_consts]: "FMV_W_X_ENCODING = 0b11110000000000000000000001010011"
definition FCVT_L_S_MASK :: u32 where [instr_consts]: "FCVT_L_S_MASK = 0b11111111111100000000000001111111"
definition FCVT_L_S_ENCODING :: u32 where [instr_consts]: "FCVT_L_S_ENCODING = 0b11000000001000000000000001010011"
definition FCVT_LU_S_MASK :: u32 where [instr_consts]: "FCVT_LU_S_MASK = 0b11111111111100000000000001111111"
definition FCVT_LU_S_ENCODING :: u32 where [instr_consts]: "FCVT_LU_S_ENCODING = 0b11000000001100000000000001010011"
definition FCVT_S_L_MASK :: u32 where [instr_consts]: "FCVT_S_L_MASK = 0b11111111111100000000000001111111"
definition FCVT_S_L_ENCODING :: u32 where [instr_consts]: "FCVT_S_L_ENCODING = 0b11010000001000000000000001010011"
definition FCVT_S_LU_MASK :: u32 where [instr_consts]: "FCVT_S_LU_MASK = 0b11111111111100000000000001111111"
definition FCVT_S_LU_ENCODING :: u32 where [instr_consts]: "FCVT_S_LU_ENCODING = 0b11010000001100000000000001010011"
definition FLD_MASK :: u32 where [instr_consts]: "FLD_MASK = 0b00000000000000000111000001111111"
definition FLD_ENCODING :: u32 where [instr_consts]: "FLD_ENCODING = 0b00000000000000000011000000000111"
definition FSD_MASK :: u32 where [instr_consts]: "FSD_MASK = 0b00000000000000000111000001111111"
definition FSD_ENCODING :: u32 where [instr_consts]: "FSD_ENCODING = 0b00000000000000000011000000100111"
definition FMADD_D_MASK :: u32 where [instr_consts]: "FMADD_D_MASK = 0b00000110000000000000000001111111"
definition FMADD_D_ENCODING :: u32 where [instr_consts]: "FMADD_D_ENCODING = 0b00000010000000000000000001000011"
definition FMSUB_D_MASK :: u32 where [instr_consts]: "FMSUB_D_MASK = 0b00000110000000000000000001111111"
definition FMSUB_D_ENCODING :: u32 where [instr_consts]: "FMSUB_D_ENCODING = 0b00000010000000000000000001000111"
definition FNMSUB_D_MASK :: u32 where [instr_consts]: "FNMSUB_D_MASK = 0b00000110000000000000000001111111"
definition FNMSUB_D_ENCODING :: u32 where [instr_consts]: "FNMSUB_D_ENCODING = 0b00000010000000000000000001001011"
definition FNMADD_D_MASK :: u32 where [instr_consts]: "FNMADD_D_MASK = 0b00000110000000000000000001111111"
definition FNMADD_D_ENCODING :: u32 where [instr_consts]: "FNMADD_D_ENCODING = 0b00000010000000000000000001001111"
definition FADD_D_MASK :: u32 where [instr_consts]: "FADD_D_MASK = 0b11111110000000000000000001111111"
definition FADD_D_ENCODING :: u32 where [instr_consts]: "FADD_D_ENCODING = 0b00000010000000000000000001010011"
definition FSUB_D_MASK :: u32 where [instr_consts]: "FSUB_D_MASK = 0b11111110000000000000000001111111"
definition FSUB_D_ENCODING :: u32 where [instr_consts]: "FSUB_D_ENCODING = 0b00001010000000000000000001010011"
definition FMUL_D_MASK :: u32 where [instr_consts]: "FMUL_D_MASK = 0b11111110000000000000000001111111"
definition FMUL_D_ENCODING :: u32 where [instr_consts]: "FMUL_D_ENCODING = 0b00010010000000000000000001010011"
definition FDIV_D_MASK :: u32 where [instr_consts]: "FDIV_D_MASK = 0b11111110000000000000000001111111"
definition FDIV_D_ENCODING :: u32 where [instr_consts]: "FDIV_D_ENCODING = 0b00011010000000000000000001010011"
definition FSQRT_D_MASK :: u32 where [instr_consts]: "FSQRT_D_MASK = 0b11111111111100000000000001111111"
definition FSQRT_D_ENCODING :: u32 where [instr_consts]: "FSQRT_D_ENCODING = 0b01011010000000000000000001010011"
definition FSGNJ_D_MASK :: u32 where [instr_consts]: "FSGNJ_D_MASK = 0b11111110000000000111000001111111"
definition FSGNJ_D_ENCODING :: u32 where [instr_consts]: "FSGNJ_D_ENCODING = 0b00100010000000000000000001010011"
definition FSGNJN_D_MASK :: u32 where [instr_consts]: "FSGNJN_D_MASK = 0b11111110000000000111000001111111"
definition FSGNJN_D_ENCODING :: u32 where [instr_consts]: "FSGNJN_D_ENCODING = 0b00100010000000000001000001010011"
definition FSGNJX_D_MASK :: u32 where [instr_consts]: "FSGNJX_D_MASK = 0b11111110000000000111000001111111"
definition FSGNJX_D_ENCODING :: u32 where [instr_consts]: "FSGNJX_D_ENCODING = 0b00100010000000000010000001010011"
definition FMIN_D_MASK :: u32 where [instr_consts]: "FMIN_D_MASK = 0b11111110000000000111000001111111"
definition FMIN_D_ENCODING :: u32 where [instr_consts]: "FMIN_D_ENCODING = 0b00101010000000000000000001010011"
definition FMAX_D_MASK :: u32 where [instr_consts]: "FMAX_D_MASK = 0b11111110000000000111000001111111"
definition FMAX_D_ENCODING :: u32 where [instr_consts]: "FMAX_D_ENCODING = 0b00101010000000000001000001010011"
definition FCVT_S_D_MASK :: u32 where [instr_consts]: "FCVT_S_D_MASK = 0b11111111111100000000000001111111"
definition FCVT_S_D_ENCODING :: u32 where [instr_consts]: "FCVT_S_D_ENCODING = 0b01000000000100000000000001010011"
definition FCVT_D_S_MASK :: u32 where [instr_consts]: "FCVT_D_S_MASK = 0b11111111111100000000000001111111"
definition FCVT_D_S_ENCODING :: u32 where [instr_consts]: "FCVT_D_S_ENCODING = 0b01000010000000000000000001010011"
definition FEQ_D_MASK :: u32 where [instr_consts]: "FEQ_D_MASK = 0b11111110000000000111000001111111"
definition FEQ_D_ENCODING :: u32 where [instr_consts]: "FEQ_D_ENCODING = 0b10100010000000000010000001010011"
definition FLT_D_MASK :: u32 where [instr_consts]: "FLT_D_MASK = 0b11111110000000000111000001111111"
definition FLT_D_ENCODING :: u32 where [instr_consts]: "FLT_D_ENCODING = 0b10100010000000000001000001010011"
definition FLE_D_MASK :: u32 where [instr_consts]: "FLE_D_MASK = 0b11111110000000000111000001111111"
definition FLE_D_ENCODING :: u32 where [instr_consts]: "FLE_D_ENCODING = 0b10100010000000000000000001010011"
definition FCLASS_D_MASK :: u32 where [instr_consts]: "FCLASS_D_MASK = 0b11111111111100000111000001111111"
definition FCLASS_D_ENCODING :: u32 where [instr_consts]: "FCLASS_D_ENCODING = 0b11100010000000000001000001010011"
definition FCVT_W_D_MASK :: u32 where [instr_consts]: "FCVT_W_D_MASK = 0b11111111111100000000000001111111"
definition FCVT_W_D_ENCODING :: u32 where [instr_consts]: "FCVT_W_D_ENCODING = 0b11000010000000000000000001010011"
definition FCVT_WU_D_MASK :: u32 where [instr_consts]: "FCVT_WU_D_MASK = 0b11111111111100000000000001111111"
definition FCVT_WU_D_ENCODING :: u32 where [instr_consts]: "FCVT_WU_D_ENCODING = 0b11000010000100000000000001010011"
definition FCVT_D_W_MASK :: u32 where [instr_consts]: "FCVT_D_W_MASK = 0b11111111111100000000000001111111"
definition FCVT_D_W_ENCODING :: u32 where [instr_consts]: "FCVT_D_W_ENCODING = 0b11010010000000000000000001010011"
definition FCVT_D_WU_MASK :: u32 where [instr_consts]: "FCVT_D_WU_MASK = 0b11111111111100000000000001111111"
definition FCVT_D_WU_ENCODING :: u32 where [instr_consts]: "FCVT_D_WU_ENCODING = 0b11010010000100000000000001010011"
definition FCVT_L_D_MASK :: u32 where [instr_consts]: "FCVT_L_D_MASK = 0b11111111111100000000000001111111"
definition FCVT_L_D_ENCODING :: u32 where [instr_consts]: "FCVT_L_D_ENCODING = 0b11000010001000000000000001010011"
definition FCVT_LU_D_MASK :: u32 where [instr_consts]: "FCVT_LU_D_MASK = 0b11111111111100000000000001111111"
definition FCVT_LU_D_ENCODING :: u32 where [instr_consts]: "FCVT_LU_D_ENCODING = 0b11000010001100000000000001010011"
definition FMV_X_D_MASK :: u32 where [instr_consts]: "FMV_X_D_MASK = 0b11111111111100000111000001111111"
definition FMV_X_D_ENCODING :: u32 where [instr_consts]: "FMV_X_D_ENCODING = 0b11100010000000000000000001010011"
definition FCVT_D_L_MASK :: u32 where [instr_consts]: "FCVT_D_L_MASK = 0b11111111111100000000000001111111"
definition FCVT_D_L_ENCODING :: u32 where [instr_consts]: "FCVT_D_L_ENCODING = 0b11010010001000000000000001010011"
definition FCVT_D_LU_MASK :: u32 where [instr_consts]: "FCVT_D_LU_MASK = 0b11111111111100000000000001111111"
definition FCVT_D_LU_ENCODING :: u32 where [instr_consts]: "FCVT_D_LU_ENCODING = 0b11010010001100000000000001010011"
definition FMV_D_X_MASK :: u32 where [instr_consts]: "FMV_D_X_MASK = 0b11111111111100000111000001111111"
definition FMV_D_X_ENCODING :: u32 where [instr_consts]: "FMV_D_X_ENCODING = 0b11110010000000000000000001010011"
definition HLVB_MASK :: u32 where [instr_consts]: "HLVB_MASK = 0b11111111111100000111000001111111"
definition HLVB_ENCODING :: u32 where [instr_consts]: "HLVB_ENCODING = 0b01100000000000000100000001110011"
definition HLVBU_MASK :: u32 where [instr_consts]: "HLVBU_MASK = 0b11111111111100000111000001111111"
definition HLVBU_ENCODING :: u32 where [instr_consts]: "HLVBU_ENCODING = 0b01100000000100000100000001110011"
definition HLVH_MASK :: u32 where [instr_consts]: "HLVH_MASK = 0b11111111111100000111000001111111"
definition HLVH_ENCODING :: u32 where [instr_consts]: "HLVH_ENCODING = 0b01100100000000000100000001110011"
definition HLVHU_MASK :: u32 where [instr_consts]: "HLVHU_MASK = 0b11111111111100000111000001111111"
definition HLVHU_ENCODING :: u32 where [instr_consts]: "HLVHU_ENCODING = 0b01100100000100000100000001110011"
definition HLVW_MASK :: u32 where [instr_consts]: "HLVW_MASK = 0b11111111111100000111000001111111"
definition HLVW_ENCODING :: u32 where [instr_consts]: "HLVW_ENCODING = 0b01101000000000000100000001110011"
definition HLVXHU_MASK :: u32 where [instr_consts]: "HLVXHU_MASK = 0b11111111111100000111000001111111"
definition HLVXHU_ENCODING :: u32 where [instr_consts]: "HLVXHU_ENCODING = 0b01100100001100000100000001110011"
definition HLVXWU_MASK :: u32 where [instr_consts]: "HLVXWU_MASK = 0b11111111111100000111000001111111"
definition HLVXWU_ENCODING :: u32 where [instr_consts]: "HLVXWU_ENCODING = 0b01101000001100000100000001110011"
definition HSVB_MASK :: u32 where [instr_consts]: "HSVB_MASK = 0b11111110000000000111111111111111"
definition HSVB_ENCODING :: u32 where [instr_consts]: "HSVB_ENCODING = 0b01100010000000000100000001110011"
definition HSVH_MASK :: u32 where [instr_consts]: "HSVH_MASK = 0b11111110000000000111111111111111"
definition HSVH_ENCODING :: u32 where [instr_consts]: "HSVH_ENCODING = 0b01100110000000000100000001110011"
definition HSVW_MASK :: u32 where [instr_consts]: "HSVW_MASK = 0b11111110000000000111111111111111"
definition HSVW_ENCODING :: u32 where [instr_consts]: "HSVW_ENCODING = 0b01101010000000000100000001110011"

section \<open>The pattern table\<close>

text \<open>
  The mask and the encoding of an operation on an architecture: the specification the
  decoder is compared with. \<open>SLLI\<close>, \<open>SRLI\<close> and \<open>SRAI\<close> have a stricter pattern on RV32.
\<close>


primrec rv32i_pattern :: "Architecture \<Rightarrow> rv32i \<Rightarrow> u32 \<times> u32" where
  "rv32i_pattern arch LUI = (LUI_MASK, LUI_ENCODING)"
| "rv32i_pattern arch AUIPC = (AUIPC_MASK, AUIPC_ENCODING)"
| "rv32i_pattern arch JAL = (JAL_MASK, JAL_ENCODING)"
| "rv32i_pattern arch JALR = (JALR_MASK, JALR_ENCODING)"
| "rv32i_pattern arch BEQ = (BEQ_MASK, BEQ_ENCODING)"
| "rv32i_pattern arch BNE = (BNE_MASK, BNE_ENCODING)"
| "rv32i_pattern arch BLT = (BLT_MASK, BLT_ENCODING)"
| "rv32i_pattern arch BGE = (BGE_MASK, BGE_ENCODING)"
| "rv32i_pattern arch BLTU = (BLTU_MASK, BLTU_ENCODING)"
| "rv32i_pattern arch BGEU = (BGEU_MASK, BGEU_ENCODING)"
| "rv32i_pattern arch LB = (LB_MASK, LB_ENCODING)"
| "rv32i_pattern arch LH = (LH_MASK, LH_ENCODING)"
| "rv32i_pattern arch LW = (LW_MASK, LW_ENCODING)"
| "rv32i_pattern arch LBU = (LBU_MASK, LBU_ENCODING)"
| "rv32i_pattern arch LHU = (LHU_MASK, LHU_ENCODING)"
| "rv32i_pattern arch SB = (SB_MASK, SB_ENCODING)"
| "rv32i_pattern arch SH = (SH_MASK, SH_ENCODING)"
| "rv32i_pattern arch SW = (SW_MASK, SW_ENCODING)"
| "rv32i_pattern arch ADDI = (ADDI_MASK, ADDI_ENCODING)"
| "rv32i_pattern arch SLTI = (SLTI_MASK, SLTI_ENCODING)"
| "rv32i_pattern arch SLTIU = (SLTIU_MASK, SLTIU_ENCODING)"
| "rv32i_pattern arch XORI = (XORI_MASK, XORI_ENCODING)"
| "rv32i_pattern arch ORI = (ORI_MASK, ORI_ENCODING)"
| "rv32i_pattern arch ANDI = (ANDI_MASK, ANDI_ENCODING)"
| "rv32i_pattern arch SLLI =
     (if arch = RV32 then (SLLI_32_MASK, SLLI_32_ENCODING) else (SLLI_MASK, SLLI_ENCODING))"
| "rv32i_pattern arch SRLI =
     (if arch = RV32 then (SRLI_32_MASK, SRLI_32_ENCODING) else (SRLI_MASK, SRLI_ENCODING))"
| "rv32i_pattern arch SRAI =
     (if arch = RV32 then (SRAI_32_MASK, SRAI_32_ENCODING) else (SRAI_MASK, SRAI_ENCODING))"
| "rv32i_pattern arch ADD = (ADD_MASK, ADD_ENCODING)"
| "rv32i_pattern arch SUB = (SUB_MASK, SUB_ENCODING)"
| "rv32i_pattern arch SLL = (SLL_MASK, SLL_ENCODING)"
| "rv32i_pattern arch SLT = (SLT_MASK, SLT_ENCODING)"
| "rv32i_pattern arch SLTU = (SLTU_MASK, SLTU_ENCODING)"
| "rv32i_pattern arch XOR_op = (XOR_MASK, XOR_ENCODING)"
| "rv32i_pattern arch SRL = (SRL_MASK, SRL_ENCODING)"
| "rv32i_pattern arch SRA = (SRA_MASK, SRA_ENCODING)"
| "rv32i_pattern arch OR_op = (OR_MASK, OR_ENCODING)"
| "rv32i_pattern arch AND_op = (AND_MASK, AND_ENCODING)"
| "rv32i_pattern arch FENCE = (FENCE_MASK, FENCE_ENCODING)"
| "rv32i_pattern arch ECALL = (ECALL_MASK, ECALL_ENCODING)"
| "rv32i_pattern arch EBREAK = (EBREAK_MASK, EBREAK_ENCODING)"

primrec zifencei_pattern :: "Architecture \<Rightarrow> zifencei \<Rightarrow> u32 \<times> u32" where
  "zifencei_pattern arch FENCE_I = (FENCE_I_MASK, FENCE_I_ENCODING)"

primrec zicsr_pattern :: "Architecture \<Rightarrow> zicsr \<Rightarrow> u32 \<times> u32" where
  "zicsr_pattern arch CSRRW = (CSRRW_MASK, CSRRW_ENCODING)"
| "zicsr_pattern arch CSRRS = (CSRRS_MASK, CSRRS_ENCODING)"
| "zicsr_pattern arch CSRRC = (CSRRC_MASK, CSRRC_ENCODING)"
| "zicsr_pattern arch CSRRWI = (CSRRWI_MASK, CSRRWI_ENCODING)"
| "zicsr_pattern arch CSRRSI = (CSRRSI_MASK, CSRRSI_ENCODING)"
| "zicsr_pattern arch CSRRCI = (CSRRCI_MASK, CSRRCI_ENCODING)"

primrec rv32m_pattern :: "Architecture \<Rightarrow> rv32m \<Rightarrow> u32 \<times> u32" where
  "rv32m_pattern arch MUL = (MUL_MASK, MUL_ENCODING)"
| "rv32m_pattern arch MULH = (MULH_MASK, MULH_ENCODING)"
| "rv32m_pattern arch MULHSU = (MULHSU_MASK, MULHSU_ENCODING)"
| "rv32m_pattern arch MULHU = (MULHU_MASK, MULHU_ENCODING)"
| "rv32m_pattern arch DIV = (DIV_MASK, DIV_ENCODING)"
| "rv32m_pattern arch DIVU = (DIVU_MASK, DIVU_ENCODING)"
| "rv32m_pattern arch REM = (REM_MASK, REM_ENCODING)"
| "rv32m_pattern arch REMU = (REMU_MASK, REMU_ENCODING)"

primrec rv32a_pattern :: "Architecture \<Rightarrow> rv32a \<Rightarrow> u32 \<times> u32" where
  "rv32a_pattern arch LR_W = (LR_W_MASK, LR_W_ENCODING)"
| "rv32a_pattern arch SC_W = (SC_W_MASK, SC_W_ENCODING)"
| "rv32a_pattern arch AMOSWAP_W = (AMOSWAP_W_MASK, AMOSWAP_W_ENCODING)"
| "rv32a_pattern arch AMOADD_W = (AMOADD_W_MASK, AMOADD_W_ENCODING)"
| "rv32a_pattern arch AMOXOR_W = (AMOXOR_W_MASK, AMOXOR_W_ENCODING)"
| "rv32a_pattern arch AMOAND_W = (AMOAND_W_MASK, AMOAND_W_ENCODING)"
| "rv32a_pattern arch AMOOR_W = (AMOOR_W_MASK, AMOOR_W_ENCODING)"
| "rv32a_pattern arch AMOMIN_W = (AMOMIN_W_MASK, AMOMIN_W_ENCODING)"
| "rv32a_pattern arch AMOMAX_W = (AMOMAX_W_MASK, AMOMAX_W_ENCODING)"
| "rv32a_pattern arch AMOMINU_W = (AMOMINU_W_MASK, AMOMINU_W_ENCODING)"
| "rv32a_pattern arch AMOMAXU_W = (AMOMAXU_W_MASK, AMOMAXU_W_ENCODING)"

primrec rv64i_pattern :: "Architecture \<Rightarrow> rv64i \<Rightarrow> u32 \<times> u32" where
  "rv64i_pattern arch LWU = (LWU_MASK, LWU_ENCODING)"
| "rv64i_pattern arch LD = (LD_MASK, LD_ENCODING)"
| "rv64i_pattern arch SD = (SD_MASK, SD_ENCODING)"
| "rv64i_pattern arch ADDIW = (ADDIW_MASK, ADDIW_ENCODING)"
| "rv64i_pattern arch SLLIW = (SLLIW_MASK, SLLIW_ENCODING)"
| "rv64i_pattern arch SRLIW = (SRLIW_MASK, SRLIW_ENCODING)"
| "rv64i_pattern arch SRAIW = (SRAIW_MASK, SRAIW_ENCODING)"
| "rv64i_pattern arch ADDW = (ADDW_MASK, ADDW_ENCODING)"
| "rv64i_pattern arch SUBW = (SUBW_MASK, SUBW_ENCODING)"
| "rv64i_pattern arch SLLW = (SLLW_MASK, SLLW_ENCODING)"
| "rv64i_pattern arch SRLW = (SRLW_MASK, SRLW_ENCODING)"
| "rv64i_pattern arch SRAW = (SRAW_MASK, SRAW_ENCODING)"

primrec rv64m_pattern :: "Architecture \<Rightarrow> rv64m \<Rightarrow> u32 \<times> u32" where
  "rv64m_pattern arch MULW = (MULW_MASK, MULW_ENCODING)"
| "rv64m_pattern arch DIVW = (DIVW_MASK, DIVW_ENCODING)"
| "rv64m_pattern arch DIVUW = (DIVUW_MASK, DIVUW_ENCODING)"
| "rv64m_pattern arch REMW = (REMW_MASK, REMW_ENCODING)"
| "rv64m_pattern arch REMUW = (REMUW_MASK, REMUW_ENCODING)"

primrec rv64a_pattern :: "Architecture \<Rightarrow> rv64a \<Rightarrow> u32 \<times> u32" where
  "rv64a_pattern arch LR_D = (LR_D_MASK, LR_D_ENCODING)"
| "rv64a_pattern arch SC_D = (SC_D_MASK, SC_D_ENCODING)"
| "rv64a_pattern arch AMOSWAP_D = (AMOSWAP_D_MASK, AMOSWAP_D_ENCODING)"
| "rv64a_pattern arch AMOADD_D = (AMOADD_D_MASK, AMOADD_D_ENCODING)"
| "rv64a_pattern arch AMOXOR_D = (AMOXOR_D_MASK, AMOXOR_D_ENCODING)"
| "rv64a_pattern arch AMOAND_D = (AMOAND_D_MASK, AMOAND_D_ENCODING)"
| "rv64a_pattern arch AMOOR_D = (AMOOR_D_MASK, AMOOR_D_ENCODING)"
| "rv64a_pattern arch AMOMIN_D = (AMOMIN_D_MASK, AMOMIN_D_ENCODING)"
| "rv64a_pattern arch AMOMAX_D = (AMOMAX_D_MASK, AMOMAX_D_ENCODING)"
| "rv64a_pattern arch AMOMINU_D = (AMOMINU_D_MASK, AMOMINU_D_ENCODING)"
| "rv64a_pattern arch AMOMAXU_D = (AMOMAXU_D_MASK, AMOMAXU_D_ENCODING)"

primrec rv32f_pattern :: "Architecture \<Rightarrow> rv32f \<Rightarrow> u32 \<times> u32" where
  "rv32f_pattern arch FLW = (FLW_MASK, FLW_ENCODING)"
| "rv32f_pattern arch FSW = (FSW_MASK, FSW_ENCODING)"
| "rv32f_pattern arch FMADD_S = (FMADD_S_MASK, FMADD_S_ENCODING)"
| "rv32f_pattern arch FMSUB_S = (FMSUB_S_MASK, FMSUB_S_ENCODING)"
| "rv32f_pattern arch FNMADD_S = (FNMADD_S_MASK, FNMADD_S_ENCODING)"
| "rv32f_pattern arch FNMSUB_S = (FNMSUB_S_MASK, FNMSUB_S_ENCODING)"
| "rv32f_pattern arch FADD_S = (FADD_S_MASK, FADD_S_ENCODING)"
| "rv32f_pattern arch FSUB_S = (FSUB_S_MASK, FSUB_S_ENCODING)"
| "rv32f_pattern arch FMUL_S = (FMUL_S_MASK, FMUL_S_ENCODING)"
| "rv32f_pattern arch FDIV_S = (FDIV_S_MASK, FDIV_S_ENCODING)"
| "rv32f_pattern arch FSQRT_S = (FSQRT_S_MASK, FSQRT_S_ENCODING)"
| "rv32f_pattern arch FSGNJ_S = (FSGNJ_S_MASK, FSGNJ_S_ENCODING)"
| "rv32f_pattern arch FSGNJN_S = (FSGNJN_S_MASK, FSGNJN_S_ENCODING)"
| "rv32f_pattern arch FSGNJX_S = (FSGNJX_S_MASK, FSGNJX_S_ENCODING)"
| "rv32f_pattern arch FMIN_S = (FMIN_S_MASK, FMIN_S_ENCODING)"
| "rv32f_pattern arch FMAX_S = (FMAX_S_MASK, FMAX_S_ENCODING)"
| "rv32f_pattern arch FCVT_W_S = (FCVT_W_S_MASK, FCVT_W_S_ENCODING)"
| "rv32f_pattern arch FCVT_WU_S = (FCVT_WU_S_MASK, FCVT_WU_S_ENCODING)"
| "rv32f_pattern arch FMV_X_W = (FMV_X_W_MASK, FMV_X_W_ENCODING)"
| "rv32f_pattern arch FEQ_S = (FEQ_S_MASK, FEQ_S_ENCODING)"
| "rv32f_pattern arch FLT_S = (FLT_S_MASK, FLT_S_ENCODING)"
| "rv32f_pattern arch FLE_S = (FLE_S_MASK, FLE_S_ENCODING)"
| "rv32f_pattern arch FCLASS_S = (FCLASS_S_MASK, FCLASS_S_ENCODING)"
| "rv32f_pattern arch FCVT_S_W = (FCVT_S_W_MASK, FCVT_S_W_ENCODING)"
| "rv32f_pattern arch FCVT_S_WU = (FCVT_S_WU_MASK, FCVT_S_WU_ENCODING)"
| "rv32f_pattern arch FMV_W_X = (FMV_W_X_MASK, FMV_W_X_ENCODING)"

primrec rv64f_pattern :: "Architecture \<Rightarrow> rv64f \<Rightarrow> u32 \<times> u32" where
  "rv64f_pattern arch FCVT_L_S = (FCVT_L_S_MASK, FCVT_L_S_ENCODING)"
| "rv64f_pattern arch FCVT_LU_S = (FCVT_LU_S_MASK, FCVT_LU_S_ENCODING)"
| "rv64f_pattern arch FCVT_S_L = (FCVT_S_L_MASK, FCVT_S_L_ENCODING)"
| "rv64f_pattern arch FCVT_S_LU = (FCVT_S_LU_MASK, FCVT_S_LU_ENCODING)"

primrec rv32d_pattern :: "Architecture \<Rightarrow> rv32d \<Rightarrow> u32 \<times> u32" where
  "rv32d_pattern arch FLD = (FLD_MASK, FLD_ENCODING)"
| "rv32d_pattern arch FSD = (FSD_MASK, FSD_ENCODING)"
| "rv32d_pattern arch FMADD_D = (FMADD_D_MASK, FMADD_D_ENCODING)"
| "rv32d_pattern arch FMSUB_D = (FMSUB_D_MASK, FMSUB_D_ENCODING)"
| "rv32d_pattern arch FNMSUB_D = (FNMSUB_D_MASK, FNMSUB_D_ENCODING)"
| "rv32d_pattern arch FNMADD_D = (FNMADD_D_MASK, FNMADD_D_ENCODING)"
| "rv32d_pattern arch FADD_D = (FADD_D_MASK, FADD_D_ENCODING)"
| "rv32d_pattern arch FSUB_D = (FSUB_D_MASK, FSUB_D_ENCODING)"
| "rv32d_pattern arch FMUL_D = (FMUL_D_MASK, FMUL_D_ENCODING)"
| "rv32d_pattern arch FDIV_D = (FDIV_D_MASK, FDIV_D_ENCODING)"
| "rv32d_pattern arch FSQRT_D = (FSQRT_D_MASK, FSQRT_D_ENCODING)"
| "rv32d_pattern arch FSGNJ_D = (FSGNJ_D_MASK, FSGNJ_D_ENCODING)"
| "rv32d_pattern arch FSGNJN_D = (FSGNJN_D_MASK, FSGNJN_D_ENCODING)"
| "rv32d_pattern arch FSGNJX_D = (FSGNJX_D_MASK, FSGNJX_D_ENCODING)"
| "rv32d_pattern arch FMIN_D = (FMIN_D_MASK, FMIN_D_ENCODING)"
| "rv32d_pattern arch FMAX_D = (FMAX_D_MASK, FMAX_D_ENCODING)"
| "rv32d_pattern arch FCVT_S_D = (FCVT_S_D_MASK, FCVT_S_D_ENCODING)"
| "rv32d_pattern arch FCVT_D_S = (FCVT_D_S_MASK, FCVT_D_S_ENCODING)"
| "rv32d_pattern arch FEQ_D = (FEQ_D_MASK, FEQ_D_ENCODING)"
| "rv32d_pattern arch FLT_D = (FLT_D_MASK, FLT_D_ENCODING)"
| "rv32d_pattern arch FLE_D = (FLE_D_MASK, FLE_D_ENCODING)"
| "rv32d_pattern arch FCLASS_D = (FCLASS_D_MASK, FCLASS_D_ENCODING)"
| "rv32d_pattern arch FCVT_W_D = (FCVT_W_D_MASK, FCVT_W_D_ENCODING)"
| "rv32d_pattern arch FCVT_WU_D = (FCVT_WU_D_MASK, FCVT_WU_D_ENCODING)"
| "rv32d_pattern arch FCVT_D_W = (FCVT_D_W_MASK, FCVT_D_W_ENCODING)"
| "rv32d_pattern arch FCVT_D_WU = (FCVT_D_WU_MASK, FCVT_D_WU_ENCODING)"

primrec rv64d_pattern :: "Architecture \<Rightarrow> rv64d \<Rightarrow> u32 \<times> u32" where
  "rv64d_pattern arch FCVT_L_D = (FCVT_L_D_MASK, FCVT_L_D_ENCODING)"
| "rv64d_pattern arch FCVT_LU_D = (FCVT_LU_D_MASK, FCVT_LU_D_ENCODING)"
| "rv64d_pattern arch FMV_X_D = (FMV_X_D_MASK, FMV_X_D_ENCODING)"
| "rv64d_pattern arch FCVT_D_L = (FCVT_D_L_MASK, FCVT_D_L_ENCODING)"
| "rv64d_pattern arch FCVT_D_LU = (FCVT_D_LU_MASK, FCVT_D_LU_ENCODING)"
| "rv64d_pattern arch FMV_D_X = (FMV_D_X_MASK, FMV_D_X_ENCODING)"

primrec priv_op_pattern :: "Architecture \<Rightarrow> priv_op \<Rightarrow> u32 \<times> u32" where
  "priv_op_pattern arch URET = (URET_MASK, URET_ENCODING)"
| "priv_op_pattern arch SRET = (SRET_MASK, SRET_ENCODING)"
| "priv_op_pattern arch MRET = (MRET_MASK, MRET_ENCODING)"
| "priv_op_pattern arch WFI = (WFI_MASK, WFI_ENCODING)"
| "priv_op_pattern arch SFENCE_VMA = (SFENCE_VMA_MASK, SFENCE_VMA_ENCODING)"

primrec hv_op_pattern :: "Architecture \<Rightarrow> hv_op \<Rightarrow> u32 \<times> u32" where
  "hv_op_pattern arch HLVB = (HLVB_MASK, HLVB_ENCODING)"
| "hv_op_pattern arch HLVBU = (HLVBU_MASK, HLVBU_ENCODING)"
| "hv_op_pattern arch HLVH = (HLVH_MASK, HLVH_ENCODING)"
| "hv_op_pattern arch HLVHU = (HLVHU_MASK, HLVHU_ENCODING)"
| "hv_op_pattern arch HLVW = (HLVW_MASK, HLVW_ENCODING)"
| "hv_op_pattern arch HLVXHU = (HLVXHU_MASK, HLVXHU_ENCODING)"
| "hv_op_pattern arch HLVXWU = (HLVXWU_MASK, HLVXWU_ENCODING)"
| "hv_op_pattern arch HSVB = (HSVB_MASK, HSVB_ENCODING)"
| "hv_op_pattern arch HSVH = (HSVH_MASK, HSVH_ENCODING)"
| "hv_op_pattern arch HSVW = (HSVW_MASK, HSVW_ENCODING)"

primrec pattern_of :: "Architecture \<Rightarrow> Mapping \<Rightarrow> (u32 \<times> u32) option" where
  "pattern_of arch UNDEF = None"
| "pattern_of arch (RV32I x) = Some (rv32i_pattern arch x)"
| "pattern_of arch (Zifencei x) = Some (zifencei_pattern arch x)"
| "pattern_of arch (Zicsr x) = Some (zicsr_pattern arch x)"
| "pattern_of arch (RV32M x) = Some (rv32m_pattern arch x)"
| "pattern_of arch (RV32A x) = Some (rv32a_pattern arch x)"
| "pattern_of arch (RV64I x) = Some (rv64i_pattern arch x)"
| "pattern_of arch (RV64M x) = Some (rv64m_pattern arch x)"
| "pattern_of arch (RV64A x) = Some (rv64a_pattern arch x)"
| "pattern_of arch (RV32F x) = Some (rv32f_pattern arch x)"
| "pattern_of arch (RV64F x) = Some (rv64f_pattern arch x)"
| "pattern_of arch (RV32D x) = Some (rv32d_pattern arch x)"
| "pattern_of arch (RV64D x) = Some (rv64d_pattern arch x)"
| "pattern_of arch (Priv x) = Some (priv_op_pattern arch x)"
| "pattern_of arch (HV x) = Some (hv_op_pattern arch x)"

definition matches :: "Architecture \<Rightarrow> Mapping \<Rightarrow> instruction \<Rightarrow> bool" where
  "matches arch op instr =
     (case pattern_of arch op of None \<Rightarrow> False | Some (m, e) \<Rightarrow> instr AND m = e)"

lemma matches_field:
  "instr AND m = e \<Longrightarrow> f AND m = f \<Longrightarrow> instr AND f = e AND (f :: u32)"
  by (metis and.assoc and.commute)

end
