(* ===== verification/Instr_Decode.thy ===== *)
theory Instr_Decode
  imports Instr_Codes
begin

text \<open>
  The decoder of 32-bit instructions, \<^verbatim>\<open>Instruction::decode_normal\<close> of
  \<^verbatim>\<open>core/common/instr.cpp\<close>: one definition per case of the outer switch on the opcode, with
  the inner switches as chains of tests in the order of the source. A \<^verbatim>\<open>break\<close> leads to the
  final \<^verbatim>\<open>return UNDEF\<close>. The lemmas show that the decoder computes exactly the pattern
  table \<open>pattern_of\<close>: a word decodes to an operation if and only if it matches that
  operation's mask and encoding.
\<close>

section \<open>The decoder\<close>

definition MATCH_AND_RETURN_INSTR2 :: "instruction \<Rightarrow> u32 \<Rightarrow> u32 \<Rightarrow> Mapping \<Rightarrow> Mapping" where
  "MATCH_AND_RETURN_INSTR2 instr msk encoding result =
     (if instr AND msk \<noteq> encoding then UNDEF else result)"

definition decode_OP_BEQ :: "instruction \<Rightarrow> Mapping" where
  [decode_defs]: "decode_OP_BEQ instr =
    (if funct3 instr = F3_BEQ then
      MATCH_AND_RETURN_INSTR2 instr BEQ_MASK BEQ_ENCODING (RV32I BEQ)
    else if funct3 instr = F3_BNE then
      MATCH_AND_RETURN_INSTR2 instr BNE_MASK BNE_ENCODING (RV32I BNE)
    else if funct3 instr = F3_BLT then
      MATCH_AND_RETURN_INSTR2 instr BLT_MASK BLT_ENCODING (RV32I BLT)
    else if funct3 instr = F3_BGE then
      MATCH_AND_RETURN_INSTR2 instr BGE_MASK BGE_ENCODING (RV32I BGE)
    else if funct3 instr = F3_BLTU then
      MATCH_AND_RETURN_INSTR2 instr BLTU_MASK BLTU_ENCODING (RV32I BLTU)
    else if funct3 instr = F3_BGEU then
      MATCH_AND_RETURN_INSTR2 instr BGEU_MASK BGEU_ENCODING (RV32I BGEU)
    else UNDEF)"

definition decode_OP_LB :: "instruction \<Rightarrow> Mapping" where
  [decode_defs]: "decode_OP_LB instr =
    (if funct3 instr = F3_LB then
      MATCH_AND_RETURN_INSTR2 instr LB_MASK LB_ENCODING (RV32I LB)
    else if funct3 instr = F3_LH then
      MATCH_AND_RETURN_INSTR2 instr LH_MASK LH_ENCODING (RV32I LH)
    else if funct3 instr = F3_LW then
      MATCH_AND_RETURN_INSTR2 instr LW_MASK LW_ENCODING (RV32I LW)
    else if funct3 instr = F3_LBU then
      MATCH_AND_RETURN_INSTR2 instr LBU_MASK LBU_ENCODING (RV32I LBU)
    else if funct3 instr = F3_LHU then
      MATCH_AND_RETURN_INSTR2 instr LHU_MASK LHU_ENCODING (RV32I LHU)
    else if funct3 instr = F3_LWU then
      MATCH_AND_RETURN_INSTR2 instr LWU_MASK LWU_ENCODING (RV64I LWU)
    else if funct3 instr = F3_LD then
      MATCH_AND_RETURN_INSTR2 instr LD_MASK LD_ENCODING (RV64I LD)
    else UNDEF)"

definition decode_OP_SB :: "instruction \<Rightarrow> Mapping" where
  [decode_defs]: "decode_OP_SB instr =
    (if funct3 instr = F3_SB then
      MATCH_AND_RETURN_INSTR2 instr SB_MASK SB_ENCODING (RV32I SB)
    else if funct3 instr = F3_SH then
      MATCH_AND_RETURN_INSTR2 instr SH_MASK SH_ENCODING (RV32I SH)
    else if funct3 instr = F3_SW then
      MATCH_AND_RETURN_INSTR2 instr SW_MASK SW_ENCODING (RV32I SW)
    else if funct3 instr = F3_SD then
      MATCH_AND_RETURN_INSTR2 instr SD_MASK SD_ENCODING (RV64I SD)
    else UNDEF)"

definition decode_OP_ADDI :: "Architecture \<Rightarrow> instruction \<Rightarrow> Mapping" where
  [decode_defs]: "decode_OP_ADDI arch instr =
    (if funct3 instr = F3_ADDI then
      MATCH_AND_RETURN_INSTR2 instr ADDI_MASK ADDI_ENCODING (RV32I ADDI)
    else if funct3 instr = F3_SLTI then
      MATCH_AND_RETURN_INSTR2 instr SLTI_MASK SLTI_ENCODING (RV32I SLTI)
    else if funct3 instr = F3_SLTIU then
      MATCH_AND_RETURN_INSTR2 instr SLTIU_MASK SLTIU_ENCODING (RV32I SLTIU)
    else if funct3 instr = F3_XORI then
      MATCH_AND_RETURN_INSTR2 instr XORI_MASK XORI_ENCODING (RV32I XORI)
    else if funct3 instr = F3_ORI then
      MATCH_AND_RETURN_INSTR2 instr ORI_MASK ORI_ENCODING (RV32I ORI)
    else if funct3 instr = F3_ANDI then
      MATCH_AND_RETURN_INSTR2 instr ANDI_MASK ANDI_ENCODING (RV32I ANDI)
    else if funct3 instr = F3_SLLI then
      (if arch = RV32 then
        MATCH_AND_RETURN_INSTR2 instr SLLI_32_MASK SLLI_32_ENCODING (RV32I SLLI)
      else
        MATCH_AND_RETURN_INSTR2 instr SLLI_MASK SLLI_ENCODING (RV32I SLLI))
    else if funct3 instr = F3_SRLI then
      (if funct6 instr = F6_SRLI then
        (if arch = RV32 then
          MATCH_AND_RETURN_INSTR2 instr SRLI_32_MASK SRLI_32_ENCODING (RV32I SRLI)
        else
          MATCH_AND_RETURN_INSTR2 instr SRLI_MASK SRLI_ENCODING (RV32I SRLI))
      else if funct6 instr = F6_SRAI then
        (if arch = RV32 then
          MATCH_AND_RETURN_INSTR2 instr SRAI_32_MASK SRAI_32_ENCODING (RV32I SRAI)
        else
          MATCH_AND_RETURN_INSTR2 instr SRAI_MASK SRAI_ENCODING (RV32I SRAI))
      else UNDEF)
    else UNDEF)"

definition decode_OP_ADDIW :: "instruction \<Rightarrow> Mapping" where
  [decode_defs]: "decode_OP_ADDIW instr =
    (if funct3 instr = F3_ADDIW then
      MATCH_AND_RETURN_INSTR2 instr ADDIW_MASK ADDIW_ENCODING (RV64I ADDIW)
    else if funct3 instr = F3_SLLIW then
      MATCH_AND_RETURN_INSTR2 instr SLLIW_MASK SLLIW_ENCODING (RV64I SLLIW)
    else if funct3 instr = F3_SRLIW then
      (if funct7 instr = F7_SRLIW then
        MATCH_AND_RETURN_INSTR2 instr SRLIW_MASK SRLIW_ENCODING (RV64I SRLIW)
      else if funct7 instr = F7_SRAIW then
        MATCH_AND_RETURN_INSTR2 instr SRAIW_MASK SRAIW_ENCODING (RV64I SRAIW)
      else UNDEF)
    else UNDEF)"

definition decode_OP_ADD :: "instruction \<Rightarrow> Mapping" where
  [decode_defs]: "decode_OP_ADD instr =
    (if funct7 instr = F7_ADD then
      (if funct3 instr = F3_ADD then
        MATCH_AND_RETURN_INSTR2 instr ADD_MASK ADD_ENCODING (RV32I ADD)
      else if funct3 instr = F3_SLL then
        MATCH_AND_RETURN_INSTR2 instr SLL_MASK SLL_ENCODING (RV32I SLL)
      else if funct3 instr = F3_SLT then
        MATCH_AND_RETURN_INSTR2 instr SLT_MASK SLT_ENCODING (RV32I SLT)
      else if funct3 instr = F3_SLTU then
        MATCH_AND_RETURN_INSTR2 instr SLTU_MASK SLTU_ENCODING (RV32I SLTU)
      else if funct3 instr = F3_XOR then
        MATCH_AND_RETURN_INSTR2 instr XOR_MASK XOR_ENCODING (RV32I XOR_op)
      else if funct3 instr = F3_SRL then
        MATCH_AND_RETURN_INSTR2 instr SRL_MASK SRL_ENCODING (RV32I SRL)
      else if funct3 instr = F3_OR then
        MATCH_AND_RETURN_INSTR2 instr OR_MASK OR_ENCODING (RV32I OR_op)
      else if funct3 instr = F3_AND then
        MATCH_AND_RETURN_INSTR2 instr AND_MASK AND_ENCODING (RV32I AND_op)
      else UNDEF)
    else if funct7 instr = F7_SUB then
      (if funct3 instr = F3_SUB then
        MATCH_AND_RETURN_INSTR2 instr SUB_MASK SUB_ENCODING (RV32I SUB)
      else if funct3 instr = F3_SRA then
        MATCH_AND_RETURN_INSTR2 instr SRA_MASK SRA_ENCODING (RV32I SRA)
      else UNDEF)
    else if funct7 instr = F7_MUL then
      (if funct3 instr = F3_MUL then
        MATCH_AND_RETURN_INSTR2 instr MUL_MASK MUL_ENCODING (RV32M MUL)
      else if funct3 instr = F3_MULH then
        MATCH_AND_RETURN_INSTR2 instr MULH_MASK MULH_ENCODING (RV32M MULH)
      else if funct3 instr = F3_MULHSU then
        MATCH_AND_RETURN_INSTR2 instr MULHSU_MASK MULHSU_ENCODING (RV32M MULHSU)
      else if funct3 instr = F3_MULHU then
        MATCH_AND_RETURN_INSTR2 instr MULHU_MASK MULHU_ENCODING (RV32M MULHU)
      else if funct3 instr = F3_DIV then
        MATCH_AND_RETURN_INSTR2 instr DIV_MASK DIV_ENCODING (RV32M DIV)
      else if funct3 instr = F3_DIVU then
        MATCH_AND_RETURN_INSTR2 instr DIVU_MASK DIVU_ENCODING (RV32M DIVU)
      else if funct3 instr = F3_REM then
        MATCH_AND_RETURN_INSTR2 instr REM_MASK REM_ENCODING (RV32M REM)
      else if funct3 instr = F3_REMU then
        MATCH_AND_RETURN_INSTR2 instr REMU_MASK REMU_ENCODING (RV32M REMU)
      else UNDEF)
    else UNDEF)"

definition decode_OP_ADDW :: "instruction \<Rightarrow> Mapping" where
  [decode_defs]: "decode_OP_ADDW instr =
    (if funct7 instr = F7_ADDW then
      (if funct3 instr = F3_ADDW then
        MATCH_AND_RETURN_INSTR2 instr ADDW_MASK ADDW_ENCODING (RV64I ADDW)
      else if funct3 instr = F3_SLLW then
        MATCH_AND_RETURN_INSTR2 instr SLLW_MASK SLLW_ENCODING (RV64I SLLW)
      else if funct3 instr = F3_SRLW then
        MATCH_AND_RETURN_INSTR2 instr SRLW_MASK SRLW_ENCODING (RV64I SRLW)
      else UNDEF)
    else if funct7 instr = F7_SUBW then
      (if funct3 instr = F3_SUBW then
        MATCH_AND_RETURN_INSTR2 instr SUBW_MASK SUBW_ENCODING (RV64I SUBW)
      else if funct3 instr = F3_SRAW then
        MATCH_AND_RETURN_INSTR2 instr SRAW_MASK SRAW_ENCODING (RV64I SRAW)
      else UNDEF)
    else if funct7 instr = F7_MULW then
      (if funct3 instr = F3_MULW then
        MATCH_AND_RETURN_INSTR2 instr MULW_MASK MULW_ENCODING (RV64M MULW)
      else if funct3 instr = F3_DIVW then
        MATCH_AND_RETURN_INSTR2 instr DIVW_MASK DIVW_ENCODING (RV64M DIVW)
      else if funct3 instr = F3_DIVUW then
        MATCH_AND_RETURN_INSTR2 instr DIVUW_MASK DIVUW_ENCODING (RV64M DIVUW)
      else if funct3 instr = F3_REMW then
        MATCH_AND_RETURN_INSTR2 instr REMW_MASK REMW_ENCODING (RV64M REMW)
      else if funct3 instr = F3_REMUW then
        MATCH_AND_RETURN_INSTR2 instr REMUW_MASK REMUW_ENCODING (RV64M REMUW)
      else UNDEF)
    else UNDEF)"

definition decode_OP_FENCE :: "instruction \<Rightarrow> Mapping" where
  [decode_defs]: "decode_OP_FENCE instr =
    (if funct3 instr = F3_FENCE then
      MATCH_AND_RETURN_INSTR2 instr FENCE_MASK FENCE_ENCODING (RV32I FENCE)
    else if funct3 instr = F3_FENCE_I then
      MATCH_AND_RETURN_INSTR2 instr FENCE_I_MASK FENCE_I_ENCODING (Zifencei FENCE_I)
    else UNDEF)"

definition decode_OP_ECALL :: "instruction \<Rightarrow> Mapping" where
  [decode_defs]: "decode_OP_ECALL instr =
    (if funct3 instr = F3_SYS then
      (if funct12 instr = F12_ECALL then
        MATCH_AND_RETURN_INSTR2 instr ECALL_MASK ECALL_ENCODING (RV32I ECALL)
      else if funct12 instr = F12_EBREAK then
        MATCH_AND_RETURN_INSTR2 instr EBREAK_MASK EBREAK_ENCODING (RV32I EBREAK)
      else if funct12 instr = F12_URET then
        MATCH_AND_RETURN_INSTR2 instr URET_MASK URET_ENCODING (Priv URET)
      else if funct12 instr = F12_SRET then
        MATCH_AND_RETURN_INSTR2 instr SRET_MASK SRET_ENCODING (Priv SRET)
      else if funct12 instr = F12_MRET then
        MATCH_AND_RETURN_INSTR2 instr MRET_MASK MRET_ENCODING (Priv MRET)
      else if funct12 instr = F12_WFI then
        MATCH_AND_RETURN_INSTR2 instr WFI_MASK WFI_ENCODING (Priv WFI)
      else MATCH_AND_RETURN_INSTR2 instr SFENCE_VMA_MASK SFENCE_VMA_ENCODING (Priv SFENCE_VMA))
    else if funct3 instr = F3_CSRRW then
      MATCH_AND_RETURN_INSTR2 instr CSRRW_MASK CSRRW_ENCODING (Zicsr CSRRW)
    else if funct3 instr = F3_CSRRS then
      MATCH_AND_RETURN_INSTR2 instr CSRRS_MASK CSRRS_ENCODING (Zicsr CSRRS)
    else if funct3 instr = F3_CSRRC then
      MATCH_AND_RETURN_INSTR2 instr CSRRC_MASK CSRRC_ENCODING (Zicsr CSRRC)
    else if funct3 instr = F3_CSRRWI then
      MATCH_AND_RETURN_INSTR2 instr CSRRWI_MASK CSRRWI_ENCODING (Zicsr CSRRWI)
    else if funct3 instr = F3_CSRRSI then
      MATCH_AND_RETURN_INSTR2 instr CSRRSI_MASK CSRRSI_ENCODING (Zicsr CSRRSI)
    else if funct3 instr = F3_CSRRCI then
      MATCH_AND_RETURN_INSTR2 instr CSRRCI_MASK CSRRCI_ENCODING (Zicsr CSRRCI)
    else if funct3 instr = F3_HV then
      (if funct7 instr = F7_HLVB then
        (if instr_rs2 instr = RS2_HLVB then
          MATCH_AND_RETURN_INSTR2 instr HLVB_MASK HLVB_ENCODING (HV HLVB)
        else if instr_rs2 instr = RS2_HLVBU then
          MATCH_AND_RETURN_INSTR2 instr HLVBU_MASK HLVBU_ENCODING (HV HLVBU)
        else UNDEF)
      else if funct7 instr = F7_HLVH then
        (if instr_rs2 instr = RS2_HLVH then
          MATCH_AND_RETURN_INSTR2 instr HLVH_MASK HLVH_ENCODING (HV HLVH)
        else if instr_rs2 instr = RS2_HLVHU then
          MATCH_AND_RETURN_INSTR2 instr HLVHU_MASK HLVHU_ENCODING (HV HLVHU)
        else if instr_rs2 instr = RS2_HLVXHU then
          MATCH_AND_RETURN_INSTR2 instr HLVXHU_MASK HLVXHU_ENCODING (HV HLVXHU)
        else UNDEF)
      else if funct7 instr = F7_HLVW then
        (if instr_rs2 instr = RS2_HLVW then
          MATCH_AND_RETURN_INSTR2 instr HLVW_MASK HLVW_ENCODING (HV HLVW)
        else if instr_rs2 instr = RS2_HLVXWU then
          MATCH_AND_RETURN_INSTR2 instr HLVXWU_MASK HLVXWU_ENCODING (HV HLVXWU)
        else UNDEF)
      else if funct7 instr = F7_HSVB then
        MATCH_AND_RETURN_INSTR2 instr HSVB_MASK HSVB_ENCODING (HV HSVB)
      else if funct7 instr = F7_HSVH then
        MATCH_AND_RETURN_INSTR2 instr HSVH_MASK HSVH_ENCODING (HV HSVH)
      else if funct7 instr = F7_HSVW then
        MATCH_AND_RETURN_INSTR2 instr HSVW_MASK HSVW_ENCODING (HV HSVW)
      else UNDEF)
    else UNDEF)"

definition decode_OP_AMO :: "instruction \<Rightarrow> Mapping" where
  [decode_defs]: "decode_OP_AMO instr =
    (if funct5 instr = F5_LR_W then
      (if funct3 instr = F3_AMO_D then
        MATCH_AND_RETURN_INSTR2 instr LR_D_MASK LR_D_ENCODING (RV64A LR_D)
      else
        MATCH_AND_RETURN_INSTR2 instr LR_W_MASK LR_W_ENCODING (RV32A LR_W))
    else if funct5 instr = F5_SC_W then
      (if funct3 instr = F3_AMO_D then
        MATCH_AND_RETURN_INSTR2 instr SC_D_MASK SC_D_ENCODING (RV64A SC_D)
      else
        MATCH_AND_RETURN_INSTR2 instr SC_W_MASK SC_W_ENCODING (RV32A SC_W))
    else if funct5 instr = F5_AMOSWAP_W then
      (if funct3 instr = F3_AMO_D then
        MATCH_AND_RETURN_INSTR2 instr AMOSWAP_D_MASK AMOSWAP_D_ENCODING (RV64A AMOSWAP_D)
      else
        MATCH_AND_RETURN_INSTR2 instr AMOSWAP_W_MASK AMOSWAP_W_ENCODING (RV32A AMOSWAP_W))
    else if funct5 instr = F5_AMOADD_W then
      (if funct3 instr = F3_AMO_D then
        MATCH_AND_RETURN_INSTR2 instr AMOADD_D_MASK AMOADD_D_ENCODING (RV64A AMOADD_D)
      else
        MATCH_AND_RETURN_INSTR2 instr AMOADD_W_MASK AMOADD_W_ENCODING (RV32A AMOADD_W))
    else if funct5 instr = F5_AMOXOR_W then
      (if funct3 instr = F3_AMO_D then
        MATCH_AND_RETURN_INSTR2 instr AMOXOR_D_MASK AMOXOR_D_ENCODING (RV64A AMOXOR_D)
      else
        MATCH_AND_RETURN_INSTR2 instr AMOXOR_W_MASK AMOXOR_W_ENCODING (RV32A AMOXOR_W))
    else if funct5 instr = F5_AMOAND_W then
      (if funct3 instr = F3_AMO_D then
        MATCH_AND_RETURN_INSTR2 instr AMOAND_D_MASK AMOAND_D_ENCODING (RV64A AMOAND_D)
      else
        MATCH_AND_RETURN_INSTR2 instr AMOAND_W_MASK AMOAND_W_ENCODING (RV32A AMOAND_W))
    else if funct5 instr = F5_AMOOR_W then
      (if funct3 instr = F3_AMO_D then
        MATCH_AND_RETURN_INSTR2 instr AMOOR_D_MASK AMOOR_D_ENCODING (RV64A AMOOR_D)
      else
        MATCH_AND_RETURN_INSTR2 instr AMOOR_W_MASK AMOOR_W_ENCODING (RV32A AMOOR_W))
    else if funct5 instr = F5_AMOMIN_W then
      (if funct3 instr = F3_AMO_D then
        MATCH_AND_RETURN_INSTR2 instr AMOMIN_D_MASK AMOMIN_D_ENCODING (RV64A AMOMIN_D)
      else
        MATCH_AND_RETURN_INSTR2 instr AMOMIN_W_MASK AMOMIN_W_ENCODING (RV32A AMOMIN_W))
    else if funct5 instr = F5_AMOMAX_W then
      (if funct3 instr = F3_AMO_D then
        MATCH_AND_RETURN_INSTR2 instr AMOMAX_D_MASK AMOMAX_D_ENCODING (RV64A AMOMAX_D)
      else
        MATCH_AND_RETURN_INSTR2 instr AMOMAX_W_MASK AMOMAX_W_ENCODING (RV32A AMOMAX_W))
    else if funct5 instr = F5_AMOMINU_W then
      (if funct3 instr = F3_AMO_D then
        MATCH_AND_RETURN_INSTR2 instr AMOMINU_D_MASK AMOMINU_D_ENCODING (RV64A AMOMINU_D)
      else
        MATCH_AND_RETURN_INSTR2 instr AMOMINU_W_MASK AMOMINU_W_ENCODING (RV32A AMOMINU_W))
    else if funct5 instr = F5_AMOMAXU_W then
      (if funct3 instr = F3_AMO_D then
        MATCH_AND_RETURN_INSTR2 instr AMOMAXU_D_MASK AMOMAXU_D_ENCODING (RV64A AMOMAXU_D)
      else
        MATCH_AND_RETURN_INSTR2 instr AMOMAXU_W_MASK AMOMAXU_W_ENCODING (RV32A AMOMAXU_W))
    else UNDEF)"

definition decode_OP_FMADD_S :: "instruction \<Rightarrow> Mapping" where
  [decode_defs]: "decode_OP_FMADD_S instr =
    (if funct2 instr = F2_FMADD_S then
      MATCH_AND_RETURN_INSTR2 instr FMADD_S_MASK FMADD_S_ENCODING (RV32F FMADD_S)
    else if funct2 instr = F2_FMADD_D then
      MATCH_AND_RETURN_INSTR2 instr FMADD_D_MASK FMADD_D_ENCODING (RV32D FMADD_D)
    else UNDEF)"

definition decode_OP_FADD_S :: "instruction \<Rightarrow> Mapping" where
  [decode_defs]: "decode_OP_FADD_S instr =
    (if funct7 instr = F7_FADD_S then
      MATCH_AND_RETURN_INSTR2 instr FADD_S_MASK FADD_S_ENCODING (RV32F FADD_S)
    else if funct7 instr = F7_FADD_D then
      MATCH_AND_RETURN_INSTR2 instr FADD_D_MASK FADD_D_ENCODING (RV32D FADD_D)
    else if funct7 instr = F7_FSUB_S then
      MATCH_AND_RETURN_INSTR2 instr FSUB_S_MASK FSUB_S_ENCODING (RV32F FSUB_S)
    else if funct7 instr = F7_FSUB_D then
      MATCH_AND_RETURN_INSTR2 instr FSUB_D_MASK FSUB_D_ENCODING (RV32D FSUB_D)
    else if funct7 instr = F7_FCVT_D_S then
      MATCH_AND_RETURN_INSTR2 instr FCVT_D_S_MASK FCVT_D_S_ENCODING (RV32D FCVT_D_S)
    else if funct7 instr = F7_FMUL_S then
      MATCH_AND_RETURN_INSTR2 instr FMUL_S_MASK FMUL_S_ENCODING (RV32F FMUL_S)
    else if funct7 instr = F7_FMUL_D then
      MATCH_AND_RETURN_INSTR2 instr FMUL_D_MASK FMUL_D_ENCODING (RV32D FMUL_D)
    else if funct7 instr = F7_FDIV_S then
      MATCH_AND_RETURN_INSTR2 instr FDIV_S_MASK FDIV_S_ENCODING (RV32F FDIV_S)
    else if funct7 instr = F7_FDIV_D then
      MATCH_AND_RETURN_INSTR2 instr FDIV_D_MASK FDIV_D_ENCODING (RV32D FDIV_D)
    else if funct7 instr = F7_FLE_S then
      (if funct3 instr = F3_FLE_S then
        MATCH_AND_RETURN_INSTR2 instr FLE_S_MASK FLE_S_ENCODING (RV32F FLE_S)
      else if funct3 instr = F3_FLT_S then
        MATCH_AND_RETURN_INSTR2 instr FLT_S_MASK FLT_S_ENCODING (RV32F FLT_S)
      else if funct3 instr = F3_FEQ_S then
        MATCH_AND_RETURN_INSTR2 instr FEQ_S_MASK FEQ_S_ENCODING (RV32F FEQ_S)
      else UNDEF)
    else if funct7 instr = F7_FSGNJ_D then
      (if funct3 instr = F3_FSGNJ_D then
        MATCH_AND_RETURN_INSTR2 instr FSGNJ_D_MASK FSGNJ_D_ENCODING (RV32D FSGNJ_D)
      else if funct3 instr = F3_FSGNJN_D then
        MATCH_AND_RETURN_INSTR2 instr FSGNJN_D_MASK FSGNJN_D_ENCODING (RV32D FSGNJN_D)
      else if funct3 instr = F3_FSGNJX_D then
        MATCH_AND_RETURN_INSTR2 instr FSGNJX_D_MASK FSGNJX_D_ENCODING (RV32D FSGNJX_D)
      else UNDEF)
    else if funct7 instr = F7_FMIN_S then
      (if funct3 instr = F3_FMIN_S then
        MATCH_AND_RETURN_INSTR2 instr FMIN_S_MASK FMIN_S_ENCODING (RV32F FMIN_S)
      else if funct3 instr = F3_FMAX_S then
        MATCH_AND_RETURN_INSTR2 instr FMAX_S_MASK FMAX_S_ENCODING (RV32F FMAX_S)
      else UNDEF)
    else if funct7 instr = F7_FMIN_D then
      (if funct3 instr = F3_FMIN_D then
        MATCH_AND_RETURN_INSTR2 instr FMIN_D_MASK FMIN_D_ENCODING (RV32D FMIN_D)
      else if funct3 instr = F3_FMAX_D then
        MATCH_AND_RETURN_INSTR2 instr FMAX_D_MASK FMAX_D_ENCODING (RV32D FMAX_D)
      else UNDEF)
    else if funct7 instr = F7_FCVT_S_D then
      MATCH_AND_RETURN_INSTR2 instr FCVT_S_D_MASK FCVT_S_D_ENCODING (RV32D FCVT_S_D)
    else if funct7 instr = F7_FSGNJ_S then
      (if funct3 instr = F3_FSGNJ_S then
        MATCH_AND_RETURN_INSTR2 instr FSGNJ_S_MASK FSGNJ_S_ENCODING (RV32F FSGNJ_S)
      else if funct3 instr = F3_FSGNJN_S then
        MATCH_AND_RETURN_INSTR2 instr FSGNJN_S_MASK FSGNJN_S_ENCODING (RV32F FSGNJN_S)
      else if funct3 instr = F3_FSGNJX_S then
        MATCH_AND_RETURN_INSTR2 instr FSGNJX_S_MASK FSGNJX_S_ENCODING (RV32F FSGNJX_S)
      else UNDEF)
    else if funct7 instr = F7_FLE_D then
      (if funct3 instr = F3_FLE_D then
        MATCH_AND_RETURN_INSTR2 instr FLE_D_MASK FLE_D_ENCODING (RV32D FLE_D)
      else if funct3 instr = F3_FLT_D then
        MATCH_AND_RETURN_INSTR2 instr FLT_D_MASK FLT_D_ENCODING (RV32D FLT_D)
      else if funct3 instr = F3_FEQ_D then
        MATCH_AND_RETURN_INSTR2 instr FEQ_D_MASK FEQ_D_ENCODING (RV32D FEQ_D)
      else UNDEF)
    else if funct7 instr = F7_FCVT_S_W then
      (if instr_rs2 instr = RS2_FCVT_S_W then
        MATCH_AND_RETURN_INSTR2 instr FCVT_S_W_MASK FCVT_S_W_ENCODING (RV32F FCVT_S_W)
      else if instr_rs2 instr = RS2_FCVT_S_WU then
        MATCH_AND_RETURN_INSTR2 instr FCVT_S_WU_MASK FCVT_S_WU_ENCODING (RV32F FCVT_S_WU)
      else if instr_rs2 instr = RS2_FCVT_S_L then
        MATCH_AND_RETURN_INSTR2 instr FCVT_S_L_MASK FCVT_S_L_ENCODING (RV64F FCVT_S_L)
      else if instr_rs2 instr = RS2_FCVT_S_LU then
        MATCH_AND_RETURN_INSTR2 instr FCVT_S_LU_MASK FCVT_S_LU_ENCODING (RV64F FCVT_S_LU)
      else UNDEF)
    else if funct7 instr = F7_FCVT_D_W then
      (if instr_rs2 instr = RS2_FCVT_D_W then
        MATCH_AND_RETURN_INSTR2 instr FCVT_D_W_MASK FCVT_D_W_ENCODING (RV32D FCVT_D_W)
      else if instr_rs2 instr = RS2_FCVT_D_WU then
        MATCH_AND_RETURN_INSTR2 instr FCVT_D_WU_MASK FCVT_D_WU_ENCODING (RV32D FCVT_D_WU)
      else if instr_rs2 instr = RS2_FCVT_D_L then
        MATCH_AND_RETURN_INSTR2 instr FCVT_D_L_MASK FCVT_D_L_ENCODING (RV64D FCVT_D_L)
      else if instr_rs2 instr = RS2_FCVT_D_LU then
        MATCH_AND_RETURN_INSTR2 instr FCVT_D_LU_MASK FCVT_D_LU_ENCODING (RV64D FCVT_D_LU)
      else UNDEF)
    else if funct7 instr = F7_FCVT_W_D then
      (if instr_rs2 instr = RS2_FCVT_W_D then
        MATCH_AND_RETURN_INSTR2 instr FCVT_W_D_MASK FCVT_W_D_ENCODING (RV32D FCVT_W_D)
      else if instr_rs2 instr = RS2_FCVT_WU_D then
        MATCH_AND_RETURN_INSTR2 instr FCVT_WU_D_MASK FCVT_WU_D_ENCODING (RV32D FCVT_WU_D)
      else if instr_rs2 instr = RS2_FCVT_L_D then
        MATCH_AND_RETURN_INSTR2 instr FCVT_L_D_MASK FCVT_L_D_ENCODING (RV64D FCVT_L_D)
      else if instr_rs2 instr = RS2_FCVT_LU_D then
        MATCH_AND_RETURN_INSTR2 instr FCVT_LU_D_MASK FCVT_LU_D_ENCODING (RV64D FCVT_LU_D)
      else UNDEF)
    else if funct7 instr = F7_FSQRT_S then
      MATCH_AND_RETURN_INSTR2 instr FSQRT_S_MASK FSQRT_S_ENCODING (RV32F FSQRT_S)
    else if funct7 instr = F7_FSQRT_D then
      MATCH_AND_RETURN_INSTR2 instr FSQRT_D_MASK FSQRT_D_ENCODING (RV32D FSQRT_D)
    else if funct7 instr = F7_FCVT_W_S then
      (if instr_rs2 instr = RS2_FCVT_W_S then
        MATCH_AND_RETURN_INSTR2 instr FCVT_W_S_MASK FCVT_W_S_ENCODING (RV32F FCVT_W_S)
      else if instr_rs2 instr = RS2_FCVT_WU_S then
        MATCH_AND_RETURN_INSTR2 instr FCVT_WU_S_MASK FCVT_WU_S_ENCODING (RV32F FCVT_WU_S)
      else if instr_rs2 instr = RS2_FCVT_L_S then
        MATCH_AND_RETURN_INSTR2 instr FCVT_L_S_MASK FCVT_L_S_ENCODING (RV64F FCVT_L_S)
      else if instr_rs2 instr = RS2_FCVT_LU_S then
        MATCH_AND_RETURN_INSTR2 instr FCVT_LU_S_MASK FCVT_LU_S_ENCODING (RV64F FCVT_LU_S)
      else UNDEF)
    else if funct7 instr = F7_FMV_X_W then
      (if funct3 instr = F3_FMV_X_W then
        MATCH_AND_RETURN_INSTR2 instr FMV_X_W_MASK FMV_X_W_ENCODING (RV32F FMV_X_W)
      else if funct3 instr = F3_FCLASS_S then
        MATCH_AND_RETURN_INSTR2 instr FCLASS_S_MASK FCLASS_S_ENCODING (RV32F FCLASS_S)
      else UNDEF)
    else if funct7 instr = F7_FMV_X_D then
      (if funct3 instr = F3_FMV_X_D then
        MATCH_AND_RETURN_INSTR2 instr FMV_X_D_MASK FMV_X_D_ENCODING (RV64D FMV_X_D)
      else if funct3 instr = F3_FCLASS_D then
        MATCH_AND_RETURN_INSTR2 instr FCLASS_D_MASK FCLASS_D_ENCODING (RV32D FCLASS_D)
      else UNDEF)
    else if funct7 instr = F7_FMV_W_X then
      MATCH_AND_RETURN_INSTR2 instr FMV_W_X_MASK FMV_W_X_ENCODING (RV32F FMV_W_X)
    else if funct7 instr = F7_FMV_D_X then
      MATCH_AND_RETURN_INSTR2 instr FMV_D_X_MASK FMV_D_X_ENCODING (RV64D FMV_D_X)
    else UNDEF)"

definition decode_OP_FLW :: "instruction \<Rightarrow> Mapping" where
  [decode_defs]: "decode_OP_FLW instr =
    (if funct3 instr = F3_FLW then
      MATCH_AND_RETURN_INSTR2 instr FLW_MASK FLW_ENCODING (RV32F FLW)
    else if funct3 instr = F3_FLD then
      MATCH_AND_RETURN_INSTR2 instr FLD_MASK FLD_ENCODING (RV32D FLD)
    else UNDEF)"

definition decode_OP_FSW :: "instruction \<Rightarrow> Mapping" where
  [decode_defs]: "decode_OP_FSW instr =
    (if funct3 instr = F3_FSW then
      MATCH_AND_RETURN_INSTR2 instr FSW_MASK FSW_ENCODING (RV32F FSW)
    else if funct3 instr = F3_FSD then
      MATCH_AND_RETURN_INSTR2 instr FSD_MASK FSD_ENCODING (RV32D FSD)
    else UNDEF)"

definition decode_OP_FMSUB_S :: "instruction \<Rightarrow> Mapping" where
  [decode_defs]: "decode_OP_FMSUB_S instr =
    (if funct2 instr = F2_FMSUB_S then
      MATCH_AND_RETURN_INSTR2 instr FMSUB_S_MASK FMSUB_S_ENCODING (RV32F FMSUB_S)
    else if funct2 instr = F2_FMSUB_D then
      MATCH_AND_RETURN_INSTR2 instr FMSUB_D_MASK FMSUB_D_ENCODING (RV32D FMSUB_D)
    else UNDEF)"

definition decode_OP_FNMSUB_S :: "instruction \<Rightarrow> Mapping" where
  [decode_defs]: "decode_OP_FNMSUB_S instr =
    (if funct2 instr = F2_FNMSUB_S then
      MATCH_AND_RETURN_INSTR2 instr FNMSUB_S_MASK FNMSUB_S_ENCODING (RV32F FNMSUB_S)
    else if funct2 instr = F2_FNMSUB_D then
      MATCH_AND_RETURN_INSTR2 instr FNMSUB_D_MASK FNMSUB_D_ENCODING (RV32D FNMSUB_D)
    else UNDEF)"

definition decode_OP_FNMADD_S :: "instruction \<Rightarrow> Mapping" where
  [decode_defs]: "decode_OP_FNMADD_S instr =
    (if funct2 instr = F2_FNMADD_S then
      MATCH_AND_RETURN_INSTR2 instr FNMADD_S_MASK FNMADD_S_ENCODING (RV32F FNMADD_S)
    else if funct2 instr = F2_FNMADD_D then
      MATCH_AND_RETURN_INSTR2 instr FNMADD_D_MASK FNMADD_D_ENCODING (RV32D FNMADD_D)
    else UNDEF)"

definition decode_normal :: "Architecture \<Rightarrow> instruction \<Rightarrow> Mapping" where
  "decode_normal arch instr =
    (if opcode instr = OP_LUI then MATCH_AND_RETURN_INSTR2 instr LUI_MASK LUI_ENCODING (RV32I LUI)
    else if opcode instr = OP_AUIPC then MATCH_AND_RETURN_INSTR2 instr AUIPC_MASK AUIPC_ENCODING (RV32I AUIPC)
    else if opcode instr = OP_JAL then MATCH_AND_RETURN_INSTR2 instr JAL_MASK JAL_ENCODING (RV32I JAL)
    else if opcode instr = OP_JALR then MATCH_AND_RETURN_INSTR2 instr JALR_MASK JALR_ENCODING (RV32I JALR)
    else if opcode instr = OP_BEQ then decode_OP_BEQ instr
    else if opcode instr = OP_LB then decode_OP_LB instr
    else if opcode instr = OP_SB then decode_OP_SB instr
    else if opcode instr = OP_ADDI then decode_OP_ADDI arch instr
    else if opcode instr = OP_ADDIW then decode_OP_ADDIW instr
    else if opcode instr = OP_ADD then decode_OP_ADD instr
    else if opcode instr = OP_ADDW then decode_OP_ADDW instr
    else if opcode instr = OP_FENCE then decode_OP_FENCE instr
    else if opcode instr = OP_ECALL then decode_OP_ECALL instr
    else if opcode instr = OP_AMO then decode_OP_AMO instr
    else if opcode instr = OP_FMADD_S then decode_OP_FMADD_S instr
    else if opcode instr = OP_FADD_S then decode_OP_FADD_S instr
    else if opcode instr = OP_FLW then decode_OP_FLW instr
    else if opcode instr = OP_FSW then decode_OP_FSW instr
    else if opcode instr = OP_FMSUB_S then decode_OP_FMSUB_S instr
    else if opcode instr = OP_FNMSUB_S then decode_OP_FNMSUB_S instr
    else if opcode instr = OP_FNMADD_S then decode_OP_FNMADD_S instr
    else UNDEF)"

section \<open>Every decoded word matches its pattern\<close>

definition sound_result :: "Architecture \<Rightarrow> instruction \<Rightarrow> Mapping \<Rightarrow> bool" where
  "sound_result arch instr op \<longleftrightarrow> op = UNDEF \<or> matches arch op instr"

lemma sound_result_UNDEF [simp]: "sound_result arch instr UNDEF"
  by (simp add: sound_result_def)

lemma sound_result_if:
  "sound_result arch instr x \<Longrightarrow> sound_result arch instr y \<Longrightarrow> sound_result arch instr (if b then x else y)"
  by simp

lemma sound_result_MATCH:
  "pattern_of arch op = Some (m, e) \<Longrightarrow>
     sound_result arch instr (MATCH_AND_RETURN_INSTR2 instr m e op)"
  by (simp add: sound_result_def MATCH_AND_RETURN_INSTR2_def matches_def)

lemmas sound_result_intros = sound_result_UNDEF sound_result_if sound_result_MATCH

lemma decode_OP_ADDI_sound: "sound_result arch instr (decode_OP_ADDI arch instr)"
  unfolding decode_OP_ADDI_def
  by (cases "arch = RV32"; simp only: if_True if_False simp_thms; intro sound_result_intros; simp)

lemma decode_parts_sound:
  "sound_result arch instr (decode_OP_BEQ instr)" "sound_result arch instr (decode_OP_LB instr)"
  "sound_result arch instr (decode_OP_SB instr)"
  "sound_result arch instr (decode_OP_ADDIW instr)" "sound_result arch instr (decode_OP_ADD instr)"
  "sound_result arch instr (decode_OP_ADDW instr)" "sound_result arch instr (decode_OP_FENCE instr)"
  "sound_result arch instr (decode_OP_ECALL instr)" "sound_result arch instr (decode_OP_AMO instr)"
  "sound_result arch instr (decode_OP_FMADD_S instr)" "sound_result arch instr (decode_OP_FADD_S instr)"
  "sound_result arch instr (decode_OP_FLW instr)" "sound_result arch instr (decode_OP_FSW instr)"
  "sound_result arch instr (decode_OP_FMSUB_S instr)" "sound_result arch instr (decode_OP_FNMSUB_S instr)"
  "sound_result arch instr (decode_OP_FNMADD_S instr)"
  unfolding decode_defs by (intro sound_result_intros; simp)+

lemma decode_normal_sound: "sound_result arch instr (decode_normal arch instr)"
  unfolding decode_normal_def
  by (intro sound_result_intros decode_parts_sound decode_OP_ADDI_sound; simp)

section \<open>Every word that matches a pattern is decoded to it\<close>

text \<open>
  A match of a mask that covers a field fixes the field: the accessor can then be evaluated
  on the encoding.
\<close>

lemma fields_of_encoding:
  assumes "instr AND m = e"
  shows "0x7f AND m = 0x7f \<Longrightarrow> opcode instr = e AND 0x7f"
    and "0x7000 AND m = 0x7000 \<Longrightarrow> funct3 instr = drop_bit 12 (e AND 0x7000)"
    and "0xfe000000 AND m = 0xfe000000 \<Longrightarrow> funct7 instr = drop_bit 25 (e AND 0xfe000000)"
    and "0xfc000000 AND m = 0xfc000000 \<Longrightarrow> funct6 instr = drop_bit 26 (e AND 0xfc000000)"
    and "0xf8000000 AND m = 0xf8000000 \<Longrightarrow> funct5 instr = drop_bit 27 (e AND 0xf8000000)"
    and "0xfff00000 AND m = 0xfff00000 \<Longrightarrow> funct12 instr = drop_bit 20 (e AND 0xfff00000)"
    and "0x6000000 AND m = 0x6000000 \<Longrightarrow> funct2 instr = drop_bit 25 (e AND 0x6000000)"
    and "0x1f00000 AND m = 0x1f00000 \<Longrightarrow> instr_rs2 instr = drop_bit 20 (e AND 0x1f00000)"
proof -
  have *: "f AND m = f \<Longrightarrow> e AND f = instr AND f" for f
    using matches_field [OF assms] by metis
  have d: "drop_bit l (BIT_RANGE w u l) = drop_bit l (w AND push_bit l (mask (u - l + 1)))" for w u l
    by (simp add: BIT_RANGE_def push_bit_one_minus_one flip: push_bit_one_minus_one)
  have s: "signed_drop_bit l (BIT_RANGE w u l) = drop_bit l (w AND push_bit l (mask (u - l + 1)))"
    if "l \<le> u" "u < 31" for w u l
    using that d drop_bit_BIT_RANGE signed_drop_bit_BIT_RANGE by metis
  show "0x7f AND m = 0x7f \<Longrightarrow> opcode instr = e AND 0x7f"
    by (simp add: field_defs BIT_RANGE_def *)
  show "0x7000 AND m = 0x7000 \<Longrightarrow> funct3 instr = drop_bit 12 (e AND 0x7000)"
    by (simp add: field_defs s * mask_eq_exp_minus_1)
  show "0xfe000000 AND m = 0xfe000000 \<Longrightarrow> funct7 instr = drop_bit 25 (e AND 0xfe000000)"
    by (simp add: field_defs d * mask_eq_exp_minus_1)
  show "0xfc000000 AND m = 0xfc000000 \<Longrightarrow> funct6 instr = drop_bit 26 (e AND 0xfc000000)"
    by (simp add: field_defs d * mask_eq_exp_minus_1)
  show "0xf8000000 AND m = 0xf8000000 \<Longrightarrow> funct5 instr = drop_bit 27 (e AND 0xf8000000)"
    by (simp add: field_defs d * mask_eq_exp_minus_1)
  show "0xfff00000 AND m = 0xfff00000 \<Longrightarrow> funct12 instr = drop_bit 20 (e AND 0xfff00000)"
    by (simp add: field_defs d * mask_eq_exp_minus_1)
  show "0x6000000 AND m = 0x6000000 \<Longrightarrow> funct2 instr = drop_bit 25 (e AND 0x6000000)"
    by (simp add: field_defs s * mask_eq_exp_minus_1)
  show "0x1f00000 AND m = 0x1f00000 \<Longrightarrow> instr_rs2 instr = drop_bit 20 (e AND 0x1f00000)"
    by (simp add: field_defs s * mask_eq_exp_minus_1)
qed

lemmas decode_eval =
  matches_def decode_normal_def MATCH_AND_RETURN_INSTR2_def fields_of_encoding
  decode_defs instr_consts

lemma decode_complete_rv32i: "matches arch (RV32I x) instr \<Longrightarrow> decode_normal arch instr = RV32I x"
  by (cases x; cases "arch = RV32"; simp add: decode_eval)

lemma decode_complete_zifencei: "matches arch (Zifencei x) instr \<Longrightarrow> decode_normal arch instr = Zifencei x"
  by (cases x) (simp_all add: decode_eval)

lemma decode_complete_zicsr: "matches arch (Zicsr x) instr \<Longrightarrow> decode_normal arch instr = Zicsr x"
  by (cases x) (simp_all add: decode_eval)

lemma decode_complete_rv32m: "matches arch (RV32M x) instr \<Longrightarrow> decode_normal arch instr = RV32M x"
  by (cases x) (simp_all add: decode_eval)

lemma decode_complete_rv32a: "matches arch (RV32A x) instr \<Longrightarrow> decode_normal arch instr = RV32A x"
  by (cases x) (simp_all add: decode_eval)

lemma decode_complete_rv64i: "matches arch (RV64I x) instr \<Longrightarrow> decode_normal arch instr = RV64I x"
  by (cases x) (simp_all add: decode_eval)

lemma decode_complete_rv64m: "matches arch (RV64M x) instr \<Longrightarrow> decode_normal arch instr = RV64M x"
  by (cases x) (simp_all add: decode_eval)

lemma decode_complete_rv64a: "matches arch (RV64A x) instr \<Longrightarrow> decode_normal arch instr = RV64A x"
  by (cases x) (simp_all add: decode_eval)

lemma decode_complete_rv32f: "matches arch (RV32F x) instr \<Longrightarrow> decode_normal arch instr = RV32F x"
  by (cases x) (simp_all add: decode_eval)

lemma decode_complete_rv64f: "matches arch (RV64F x) instr \<Longrightarrow> decode_normal arch instr = RV64F x"
  by (cases x) (simp_all add: decode_eval)

lemma decode_complete_rv32d: "matches arch (RV32D x) instr \<Longrightarrow> decode_normal arch instr = RV32D x"
  by (cases x) (simp_all add: decode_eval)

lemma decode_complete_rv64d: "matches arch (RV64D x) instr \<Longrightarrow> decode_normal arch instr = RV64D x"
  by (cases x) (simp_all add: decode_eval)

lemma funct7_of_funct12: "funct7 instr = drop_bit 5 (funct12 instr)"
  by (intro bit_word_eqI) (auto simp: field_defs bit_BIT_RANGE bit_simps)

lemma funct12_of_SFENCE_VMA:
  assumes "funct7 instr = 9"
  shows "funct12 instr \<noteq> 0" "funct12 instr \<noteq> 1" "funct12 instr \<noteq> 2"
    "funct12 instr \<noteq> 258" "funct12 instr \<noteq> 770" "funct12 instr \<noteq> 261"
  using assms funct7_of_funct12 [of instr] by auto

lemma decode_complete_priv_op: "matches arch (Priv x) instr \<Longrightarrow> decode_normal arch instr = Priv x"
  by (cases x) (simp_all add: decode_eval funct12_of_SFENCE_VMA)

lemma decode_complete_hv_op: "matches arch (HV x) instr \<Longrightarrow> decode_normal arch instr = HV x"
  by (cases x) (simp_all add: decode_eval)

lemmas decode_complete_parts =
  decode_complete_rv32i
  decode_complete_zifencei
  decode_complete_zicsr
  decode_complete_rv32m
  decode_complete_rv32a
  decode_complete_rv64i
  decode_complete_rv64m
  decode_complete_rv64a
  decode_complete_rv32f
  decode_complete_rv64f
  decode_complete_rv32d
  decode_complete_rv64d
  decode_complete_priv_op
  decode_complete_hv_op

lemma decode_normal_complete: "matches arch op instr \<Longrightarrow> decode_normal arch instr = op"
  by (cases op) (simp_all add: decode_complete_parts, simp add: matches_def)

text \<open>
  C6: the decoder computes the pattern table: on every architecture a 32-bit word is decoded
  to an operation exactly when it matches that operation's mask and encoding, and to
  \<open>UNDEF\<close> exactly when it matches no pattern.
\<close>

theorem decode_normal_iff_matches:
  "(op \<noteq> UNDEF \<and> decode_normal arch instr = op \<longleftrightarrow> matches arch op instr) \<and>
   (decode_normal arch instr = UNDEF \<longleftrightarrow> (\<nexists>op'. matches arch op' instr))"
proof -
  have sound: "matches arch (decode_normal arch instr) instr" if "decode_normal arch instr \<noteq> UNDEF"
    using decode_normal_sound [of arch instr] that by (simp add: sound_result_def)
  have undef: "\<not> matches arch UNDEF instr"
    by (simp add: matches_def)
  show ?thesis
    using sound undef decode_normal_complete by metis
qed

text \<open>
  No two operations share an instruction word: the patterns of the table are pairwise
  disjoint on every architecture, so the order of the tests in the decoder is immaterial.
\<close>

theorem matches_unique:
  "matches arch op1 instr \<Longrightarrow> matches arch op2 instr \<Longrightarrow> op1 = op2"
  using decode_normal_complete by metis

theorem matches_unique_witness:
  "matches RV32 (RV32M MUL) 0x02b50533 \<and> (matches RV32 (RV32I ADD) 0x02b50533 \<longrightarrow> RV32M MUL = RV32I ADD)"
  using matches_unique [of RV32 "RV32M MUL" "0x02b50533" "RV32I ADD"]
  by (simp add: matches_def instr_consts)

end
