(* ===== verification/Instr_Compressed.thy ===== *)
theory Instr_Compressed
  imports Instr_Decode
begin

text \<open>
  The compressed (16-bit) instructions of \<^verbatim>\<open>core/common/instr.cpp\<close>: their immediates, the
  \<^verbatim>\<open>InstructionFactory\<close> that builds 32-bit words, \<^verbatim>\<open>decode_compressed\<close>,
  \<^verbatim>\<open>expand_compressed\<close> and \<^verbatim>\<open>Instruction::decode_and_expand_compressed\<close>. The expansion
  overwrites the instruction it is called on, so it returns the new word with the operation.
  The lemmas show that the expanded word is the 32-bit instruction of the operation that is
  returned, with the registers and immediates of the compressed one.
\<close>

section \<open>Immediates of the compressed formats\<close>

definition C_ADDI4SPN_NZUIMM :: "u32 \<Rightarrow> u32" where
  [c_imm_defs]: "C_ADDI4SPN_NZUIMM n =
     push_bit 4 (BIT_SLICE_u n 12 11) OR push_bit 6 (BIT_SLICE_u n 10 7) OR
     push_bit 2 (BIT_SINGLE_P1_u n 6) OR push_bit 3 (BIT_SINGLE_P1_u n 5)"

definition C_LW_UIMM :: "u32 \<Rightarrow> u32" where
  [c_imm_defs]: "C_LW_UIMM n =
     push_bit 3 (BIT_SLICE_u n 12 10) OR push_bit 2 (BIT_SINGLE_P1_u n 6) OR
     push_bit 6 (BIT_SINGLE_P1_u n 5)"

definition C_LD_UIMM :: "u32 \<Rightarrow> u32" where
  [c_imm_defs]: "C_LD_UIMM n =
     push_bit 3 (BIT_SLICE_u n 12 10) OR push_bit 6 (BIT_SLICE_u n 6 5)"

definition C_SW_UIMM :: "u32 \<Rightarrow> u32" where
  [c_imm_defs]: "C_SW_UIMM n =
     C_LW_UIMM n"

definition C_SD_UIMM :: "u32 \<Rightarrow> u32" where
  [c_imm_defs]: "C_SD_UIMM n =
     C_LD_UIMM n"

definition C_JAL_IMM :: "u32 \<Rightarrow> u32" where
  [c_imm_defs]: "C_JAL_IMM n =
     EXTRACT_SIGN_BIT n 12 11 OR BIT_SINGLE_PN n 11 4 OR push_bit 8 (BIT_SLICE n 10 9) OR
     BIT_SINGLE_PN n 8 10 OR BIT_SINGLE_PN n 7 6 OR BIT_SINGLE_PN n 6 7 OR
     push_bit 1 (BIT_SLICE n 5 3) OR BIT_SINGLE_PN n 2 5"

definition C_ADDI16SP_NZIMM :: "u32 \<Rightarrow> u32" where
  [c_imm_defs]: "C_ADDI16SP_NZIMM n =
     EXTRACT_SIGN_BIT n 12 9 OR BIT_SINGLE_PN n 6 4 OR BIT_SINGLE_PN n 5 6 OR
     push_bit 7 (BIT_SLICE n 4 3) OR BIT_SINGLE_PN n 2 5"

definition C_LUI_NZIMM :: "u32 \<Rightarrow> u32" where
  [c_imm_defs]: "C_LUI_NZIMM n =
     EXTRACT_SIGN_BIT n 12 17 OR push_bit 12 (BIT_SLICE n 6 2)"

definition C_J_IMM :: "u32 \<Rightarrow> u32" where
  [c_imm_defs]: "C_J_IMM n =
     C_JAL_IMM n"

definition C_BRANCH_IMM :: "u32 \<Rightarrow> u32" where
  [c_imm_defs]: "C_BRANCH_IMM n =
     EXTRACT_SIGN_BIT n 12 8 OR push_bit 3 (BIT_SLICE n 11 10) OR
     push_bit 6 (BIT_SLICE n 6 5) OR push_bit 1 (BIT_SLICE n 4 3) OR BIT_SINGLE_PN n 2 5"

definition C_LWSP_UIMM :: "u32 \<Rightarrow> u32" where
  [c_imm_defs]: "C_LWSP_UIMM n =
     BIT_SINGLE_PN_u n 12 5 OR push_bit 2 (BIT_SLICE_u n 6 4) OR
     push_bit 6 (BIT_SLICE_u n 3 2)"

definition C_SWSP_UIMM :: "u32 \<Rightarrow> u32" where
  [c_imm_defs]: "C_SWSP_UIMM n =
     push_bit 2 (BIT_SLICE_u n 12 9) OR push_bit 6 (BIT_SLICE_u n 8 7)"

definition C_LDSP_UIMM :: "u32 \<Rightarrow> u32" where
  [c_imm_defs]: "C_LDSP_UIMM n =
     BIT_SINGLE_PN_u n 12 5 OR push_bit 3 (BIT_SLICE_u n 6 5) OR
     push_bit 6 (BIT_SLICE_u n 4 2)"

definition C_SDSP_UIMM :: "u32 \<Rightarrow> u32" where
  [c_imm_defs]: "C_SDSP_UIMM n =
     push_bit 3 (BIT_SLICE_u n 12 10) OR push_bit 6 (BIT_SLICE_u n 9 7)"

section \<open>The instruction factory\<close>

definition Factory_ADD :: "u32 \<Rightarrow> u32 \<Rightarrow> u32 \<Rightarrow> instruction" where
  [factory_defs]: "Factory_ADD rd rs1 rs2 =
     push_bit 7 (rd AND 0x1f) OR push_bit 15 (rs1 AND 0x1f) OR push_bit 20 (rs2 AND 0x1f) OR
     51 OR push_bit 12 0 OR push_bit 25 0"

definition Factory_AND :: "u32 \<Rightarrow> u32 \<Rightarrow> u32 \<Rightarrow> instruction" where
  [factory_defs]: "Factory_AND rd rs1 rs2 =
     push_bit 7 (rd AND 0x1f) OR push_bit 15 (rs1 AND 0x1f) OR push_bit 20 (rs2 AND 0x1f) OR
     51 OR push_bit 12 7 OR push_bit 25 0"

definition Factory_OR :: "u32 \<Rightarrow> u32 \<Rightarrow> u32 \<Rightarrow> instruction" where
  [factory_defs]: "Factory_OR rd rs1 rs2 =
     push_bit 7 (rd AND 0x1f) OR push_bit 15 (rs1 AND 0x1f) OR push_bit 20 (rs2 AND 0x1f) OR
     51 OR push_bit 12 6 OR push_bit 25 0"

definition Factory_XOR :: "u32 \<Rightarrow> u32 \<Rightarrow> u32 \<Rightarrow> instruction" where
  [factory_defs]: "Factory_XOR rd rs1 rs2 =
     push_bit 7 (rd AND 0x1f) OR push_bit 15 (rs1 AND 0x1f) OR push_bit 20 (rs2 AND 0x1f) OR
     51 OR push_bit 12 4 OR push_bit 25 0"

definition Factory_SUB :: "u32 \<Rightarrow> u32 \<Rightarrow> u32 \<Rightarrow> instruction" where
  [factory_defs]: "Factory_SUB rd rs1 rs2 =
     push_bit 7 (rd AND 0x1f) OR push_bit 15 (rs1 AND 0x1f) OR push_bit 20 (rs2 AND 0x1f) OR
     51 OR push_bit 12 0 OR push_bit 25 32"

definition Factory_LW :: "u32 \<Rightarrow> u32 \<Rightarrow> u32 \<Rightarrow> instruction" where
  [factory_defs]: "Factory_LW rd rs1 imm =
     push_bit 20 (imm AND 4095) OR push_bit 7 (rd AND 0x1f) OR push_bit 15 (rs1 AND 0x1f) OR
     3 OR push_bit 12 2"

definition Factory_LD :: "u32 \<Rightarrow> u32 \<Rightarrow> u32 \<Rightarrow> instruction" where
  [factory_defs]: "Factory_LD rd rs1 imm =
     push_bit 20 (imm AND 4095) OR push_bit 7 (rd AND 0x1f) OR push_bit 15 (rs1 AND 0x1f) OR
     3 OR push_bit 12 3"

definition Factory_FLW :: "u32 \<Rightarrow> u32 \<Rightarrow> u32 \<Rightarrow> instruction" where
  [factory_defs]: "Factory_FLW rd rs1 imm =
     push_bit 20 (imm AND 4095) OR push_bit 7 (rd AND 0x1f) OR push_bit 15 (rs1 AND 0x1f) OR
     7 OR push_bit 12 2"

definition Factory_FLD :: "u32 \<Rightarrow> u32 \<Rightarrow> u32 \<Rightarrow> instruction" where
  [factory_defs]: "Factory_FLD rd rs1 imm =
     push_bit 20 (imm AND 4095) OR push_bit 7 (rd AND 0x1f) OR push_bit 15 (rs1 AND 0x1f) OR
     7 OR push_bit 12 3"

definition Factory_SW :: "u32 \<Rightarrow> u32 \<Rightarrow> u32 \<Rightarrow> instruction" where
  [factory_defs]: "Factory_SW rs1 rs2 imm =
     push_bit 7 (imm AND 0b11111) OR push_bit 20 (imm AND push_bit 5 0b1111111) OR
     push_bit 15 (rs1 AND 0x1f) OR push_bit 20 (rs2 AND 0x1f) OR 35 OR push_bit 12 2"

definition Factory_SD :: "u32 \<Rightarrow> u32 \<Rightarrow> u32 \<Rightarrow> instruction" where
  [factory_defs]: "Factory_SD rs1 rs2 imm =
     push_bit 7 (imm AND 0b11111) OR push_bit 20 (imm AND push_bit 5 0b1111111) OR
     push_bit 15 (rs1 AND 0x1f) OR push_bit 20 (rs2 AND 0x1f) OR 35 OR push_bit 12 3"

definition Factory_FSW :: "u32 \<Rightarrow> u32 \<Rightarrow> u32 \<Rightarrow> instruction" where
  [factory_defs]: "Factory_FSW rs1 rs2 imm =
     push_bit 7 (imm AND 0b11111) OR push_bit 20 (imm AND push_bit 5 0b1111111) OR
     push_bit 15 (rs1 AND 0x1f) OR push_bit 20 (rs2 AND 0x1f) OR 39 OR push_bit 12 2"

definition Factory_FSD :: "u32 \<Rightarrow> u32 \<Rightarrow> u32 \<Rightarrow> instruction" where
  [factory_defs]: "Factory_FSD rs1 rs2 imm =
     push_bit 7 (imm AND 0b11111) OR push_bit 20 (imm AND push_bit 5 0b1111111) OR
     push_bit 15 (rs1 AND 0x1f) OR push_bit 20 (rs2 AND 0x1f) OR 39 OR push_bit 12 3"

definition Factory_LUI :: "u32 \<Rightarrow> u32 \<Rightarrow> instruction" where
  [factory_defs]: "Factory_LUI rd imm =
     (imm AND push_bit 12 1048575) OR push_bit 7 (rd AND 0x1f) OR 55"

definition Factory_ADDI :: "u32 \<Rightarrow> u32 \<Rightarrow> u32 \<Rightarrow> instruction" where
  [factory_defs]: "Factory_ADDI rd rs1 imm =
     push_bit 20 (imm AND 4095) OR push_bit 7 (rd AND 0x1f) OR push_bit 15 (rs1 AND 0x1f) OR
     19 OR push_bit 12 0"

definition Factory_ANDI :: "u32 \<Rightarrow> u32 \<Rightarrow> u32 \<Rightarrow> instruction" where
  [factory_defs]: "Factory_ANDI rd rs1 imm =
     push_bit 20 (imm AND 4095) OR push_bit 7 (rd AND 0x1f) OR push_bit 15 (rs1 AND 0x1f) OR
     19 OR push_bit 12 7"

definition Factory_SRLI :: "u32 \<Rightarrow> u32 \<Rightarrow> u32 \<Rightarrow> instruction" where
  [factory_defs]: "Factory_SRLI rd rs1 shamt =
     push_bit 7 (rd AND 0x1f) OR push_bit 15 (rs1 AND 0x1f) OR push_bit 20 (shamt AND 63) OR
     19 OR push_bit 12 5 OR push_bit 25 0"

definition Factory_SRAI :: "u32 \<Rightarrow> u32 \<Rightarrow> u32 \<Rightarrow> instruction" where
  [factory_defs]: "Factory_SRAI rd rs1 shamt =
     push_bit 7 (rd AND 0x1f) OR push_bit 15 (rs1 AND 0x1f) OR push_bit 20 (shamt AND 63) OR
     19 OR push_bit 12 5 OR push_bit 25 32"

definition Factory_SLLI :: "u32 \<Rightarrow> u32 \<Rightarrow> u32 \<Rightarrow> instruction" where
  [factory_defs]: "Factory_SLLI rd rs1 shamt =
     push_bit 7 (rd AND 0x1f) OR push_bit 15 (rs1 AND 0x1f) OR push_bit 20 (shamt AND 63) OR
     19 OR push_bit 12 1 OR push_bit 25 0"

definition Factory_JAL :: "u32 \<Rightarrow> u32 \<Rightarrow> instruction" where
  [factory_defs]: "Factory_JAL rd imm =
     111 OR push_bit 7 (rd AND 0x1f) OR (imm AND push_bit 12 0b11111111) OR
     push_bit 9 (imm AND push_bit 11 1) OR push_bit 20 (imm AND 0b11111111110) OR
     push_bit 11 (imm AND push_bit 20 1)"

definition Factory_JALR :: "u32 \<Rightarrow> u32 \<Rightarrow> u32 \<Rightarrow> instruction" where
  [factory_defs]: "Factory_JALR rd rs1 imm =
     push_bit 20 (imm AND 4095) OR push_bit 7 (rd AND 0x1f) OR push_bit 15 (rs1 AND 0x1f) OR
     103 OR push_bit 12 0"

definition Factory_BEQ :: "u32 \<Rightarrow> u32 \<Rightarrow> u32 \<Rightarrow> instruction" where
  [factory_defs]: "Factory_BEQ rs1 rs2 imm =
     push_bit 7 (imm AND 0b11110) OR signed_drop_bit 4 (imm AND push_bit 11 1) OR
     push_bit 20 (imm AND push_bit 5 0b111111) OR push_bit 19 (imm AND push_bit 12 1) OR
     push_bit 15 (rs1 AND 0x1f) OR push_bit 20 (rs2 AND 0x1f) OR 99 OR push_bit 12 0"

definition Factory_BNE :: "u32 \<Rightarrow> u32 \<Rightarrow> u32 \<Rightarrow> instruction" where
  [factory_defs]: "Factory_BNE rs1 rs2 imm =
     push_bit 7 (imm AND 0b11110) OR signed_drop_bit 4 (imm AND push_bit 11 1) OR
     push_bit 20 (imm AND push_bit 5 0b111111) OR push_bit 19 (imm AND push_bit 12 1) OR
     push_bit 15 (rs1 AND 0x1f) OR push_bit 20 (rs2 AND 0x1f) OR 99 OR push_bit 12 1"

definition Factory_EBREAK :: "instruction" where
  [factory_defs]: "Factory_EBREAK =
     1048691"

definition Factory_ADDIW :: "u32 \<Rightarrow> u32 \<Rightarrow> u32 \<Rightarrow> instruction" where
  [factory_defs]: "Factory_ADDIW rd rs1 imm =
     push_bit 20 (imm AND 4095) OR push_bit 7 (rd AND 0x1f) OR push_bit 15 (rs1 AND 0x1f) OR
     0x1b"

definition Factory_ADDW :: "u32 \<Rightarrow> u32 \<Rightarrow> u32 \<Rightarrow> instruction" where
  [factory_defs]: "Factory_ADDW rd rs1 rs2 =
     push_bit 7 (rd AND 0x1f) OR push_bit 15 (rs1 AND 0x1f) OR push_bit 20 (rs2 AND 0x1f) OR
     0x3b"

definition Factory_SUBW :: "u32 \<Rightarrow> u32 \<Rightarrow> u32 \<Rightarrow> instruction" where
  [factory_defs]: "Factory_SUBW rd rs1 rs2 =
     push_bit 7 (rd AND 0x1f) OR push_bit 15 (rs1 AND 0x1f) OR push_bit 20 (rs2 AND 0x1f) OR
     0x3b OR 0x40000000"


section \<open>Decoding and expanding\<close>

datatype Compressed_Opcode =
    C_Illegal | C_Reserved | C_ADDI4SPN | C_FLD | C_LQ | C_LW | C_FLW | C_LD | C_FSD | C_SQ | C_SW
  | C_FSW | C_SD | C_NOP | C_ADDI | C_JAL | C_ADDIW | C_LI | C_ADDI16SP | C_LUI | C_SRLI | C_SRAI
  | C_ANDI | C_SUB | C_XOR | C_OR | C_AND | C_SUBW | C_ADDW | C_J | C_BEQZ | C_BNEZ | C_SLLI
  | C_FLDSP | C_LQSP | C_LWSP | C_FLWSP | C_LDSP | C_JR | C_MV | C_EBREAK | C_JALR | C_ADD
  | C_FSDSP | C_SQSP | C_SWSP | C_FSWSP | C_SDSP

definition decode_quadrant_0 :: "Architecture \<Rightarrow> instruction \<Rightarrow> Compressed_Opcode" where
  "decode_quadrant_0 arch instr =
     (if c_opcode instr = 0b000 then (if c_format instr = 0 then C_Illegal else C_ADDI4SPN)
      else if c_opcode instr = 0b001 then C_FLD
      else if c_opcode instr = 0b010 then C_LW
      else if c_opcode instr = 0b011 then (if arch = RV32 then C_FLW else C_LD)
      else if c_opcode instr = 0b100 then C_Reserved
      else if c_opcode instr = 0b101 then C_FSD
      else if c_opcode instr = 0b110 then C_SW
      else if c_opcode instr = 0b111 then (if arch = RV32 then C_FSW else C_SD)
      else C_Illegal)"

definition decode_quadrant_1 :: "Architecture \<Rightarrow> instruction \<Rightarrow> Compressed_Opcode" where
  "decode_quadrant_1 arch instr =
     (if c_opcode instr = 0b000 then (if c_format instr = 1 then C_NOP else C_ADDI)
      else if c_opcode instr = 0b001 then (if arch = RV32 then C_JAL else C_ADDIW)
      else if c_opcode instr = 0b010 then C_LI
      else if c_opcode instr = 0b011 then (if c_rd instr = 2 then C_ADDI16SP else C_LUI)
      else if c_opcode instr = 0b100 then
        (if c_f2_high instr = 0b00 then C_SRLI
         else if c_f2_high instr = 0b01 then C_SRAI
         else if c_f2_high instr = 0b10 then C_ANDI
         else if c_f2_high instr = 0b11 then
           (if c_b12 instr \<noteq> 0 then
              (if c_f2_low instr = 0b00 then C_SUBW
               else if c_f2_low instr = 0b01 then C_ADDW
               else C_Reserved)
            else
              (if c_f2_low instr = 0b00 then C_SUB
               else if c_f2_low instr = 0b01 then C_XOR
               else if c_f2_low instr = 0b10 then C_OR
               else if c_f2_low instr = 0b11 then C_AND
               else C_Illegal))
         else C_Illegal)
      else if c_opcode instr = 0b101 then C_J
      else if c_opcode instr = 0b110 then C_BEQZ
      else if c_opcode instr = 0b111 then C_BNEZ
      else C_Illegal)"

definition decode_quadrant_2 :: "Architecture \<Rightarrow> instruction \<Rightarrow> Compressed_Opcode" where
  "decode_quadrant_2 arch instr =
     (if c_opcode instr = 0b000 then C_SLLI
      else if c_opcode instr = 0b001 then C_FLDSP
      else if c_opcode instr = 0b010 then C_LWSP
      else if c_opcode instr = 0b011 then (if arch = RV32 then C_FLWSP else C_LDSP)
      else if c_opcode instr = 0b100 then
        (if c_b12 instr \<noteq> 0 then
           (if c_rd instr \<noteq> 0 then
              (if c_rs2 instr \<noteq> 0 then C_ADD else C_JALR)
            else C_EBREAK)
         else
           (if c_rs2 instr \<noteq> 0 then C_MV else C_JR))
      else if c_opcode instr = 0b101 then C_FSDSP
      else if c_opcode instr = 0b110 then C_SWSP
      else if c_opcode instr = 0b111 then (if arch = RV32 then C_FSWSP else C_SDSP)
      else C_Illegal)"

definition decode_compressed :: "instruction \<Rightarrow> Architecture \<Rightarrow> Compressed_Opcode res" where
  "decode_compressed instr arch =
     (if quadrant instr = 0 then Inr (decode_quadrant_0 arch instr)
      else if quadrant instr = 1 then Inr (decode_quadrant_1 arch instr)
      else if quadrant instr = 2 then Inr (decode_quadrant_2 arch instr)
      else if quadrant instr = 3 then
        Inl (RuntimeError ''compressed instruction expected, but uncompressed found'')
      else Inr C_Illegal)"

text \<open>
  The expansion returns the operation and the instruction word afterwards; where the source
  returns \<^verbatim>\<open>UNDEF\<close> the word is left as it was. All constructors of \<^verbatim>\<open>Compressed::Opcode\<close> are
  handled, so the final \<^verbatim>\<open>throw\<close> of the source is unreachable.
\<close>

definition expand_compressed ::
  "instruction \<Rightarrow> Compressed_Opcode \<Rightarrow> Architecture \<Rightarrow> Mapping \<times> instruction" where
  "expand_compressed instr op arch =
     (case op of
        C_Illegal \<Rightarrow> (UNDEF, instr)
      | C_LQ \<Rightarrow> (UNDEF, instr) | C_LQSP \<Rightarrow> (UNDEF, instr)
      | C_SQ \<Rightarrow> (UNDEF, instr) | C_SQSP \<Rightarrow> (UNDEF, instr)
      | C_Reserved \<Rightarrow> (UNDEF, instr)
      | C_NOP \<Rightarrow> (RV32I ADD, Factory_ADD 0 0 0)
      | C_ADD \<Rightarrow> (RV32I ADD, Factory_ADD (c_rd instr) (c_rd instr) (c_rs2 instr))
      | C_MV \<Rightarrow> (RV32I ADD, Factory_ADD (c_rd instr) 0 (c_rs2 instr))
      | C_AND \<Rightarrow> (RV32I AND_op, Factory_AND (c_rd_small instr) (c_rd_small instr) (c_rs2_small instr))
      | C_OR \<Rightarrow> (RV32I OR_op, Factory_OR (c_rd_small instr) (c_rd_small instr) (c_rs2_small instr))
      | C_XOR \<Rightarrow> (RV32I XOR_op, Factory_XOR (c_rd_small instr) (c_rd_small instr) (c_rs2_small instr))
      | C_SUB \<Rightarrow> (RV32I SUB, Factory_SUB (c_rd_small instr) (c_rd_small instr) (c_rs2_small instr))
      | C_ADDW \<Rightarrow> (RV64I ADDW, Factory_ADDW (c_rd_small instr) (c_rd_small instr) (c_rs2_small instr))
      | C_SUBW \<Rightarrow> (RV64I SUBW, Factory_SUBW (c_rd_small instr) (c_rd_small instr) (c_rs2_small instr))
      | C_LW \<Rightarrow> (RV32I LW, Factory_LW (c_rs2_small instr) (c_rd_small instr) (C_LW_UIMM instr))
      | C_LD \<Rightarrow> (RV64I LD, Factory_LD (c_rs2_small instr) (c_rd_small instr) (C_LD_UIMM instr))
      | C_FLW \<Rightarrow> (RV32F FLW, Factory_FLW (c_rs2_small instr) (c_rd_small instr) (C_LW_UIMM instr))
      | C_FLD \<Rightarrow> (RV32D FLD, Factory_FLD (c_rs2_small instr) (c_rd_small instr) (C_LD_UIMM instr))
      | C_SW \<Rightarrow> (RV32I SW, Factory_SW (c_rd_small instr) (c_rs2_small instr) (C_SW_UIMM instr))
      | C_SD \<Rightarrow> (RV64I SD, Factory_SD (c_rd_small instr) (c_rs2_small instr) (C_SD_UIMM instr))
      | C_FSW \<Rightarrow> (RV32F FSW, Factory_FSW (c_rd_small instr) (c_rs2_small instr) (C_SW_UIMM instr))
      | C_FSD \<Rightarrow> (RV32D FSD, Factory_FSD (c_rd_small instr) (c_rs2_small instr) (C_SD_UIMM instr))
      | C_ADDI4SPN \<Rightarrow>
          (let n = C_ADDI4SPN_NZUIMM instr
           in if n = 0 then (UNDEF, instr) else (RV32I ADDI, Factory_ADDI (c_rs2_small instr) 2 n))
      | C_ADDI \<Rightarrow> (RV32I ADDI, Factory_ADDI (c_rd instr) (c_rd instr) (c_imm instr))
      | C_JAL \<Rightarrow> (RV32I JAL, Factory_JAL 1 (C_JAL_IMM instr))
      | C_ADDIW \<Rightarrow>
          (if c_rd instr = 0 then (UNDEF, instr)
           else (RV64I ADDIW, Factory_ADDI (c_rd instr) (c_rd instr) (c_imm instr)))
      | C_LI \<Rightarrow> (RV32I ADDI, Factory_ADDI (c_rd instr) 0 (c_imm instr))
      | C_ADDI16SP \<Rightarrow>
          (let n = C_ADDI16SP_NZIMM instr
           in if n = 0 then (UNDEF, instr) else (RV32I ADDI, Factory_ADDI 2 2 n))
      | C_LUI \<Rightarrow>
          (let n = C_LUI_NZIMM instr
           in if n = 0 then (UNDEF, instr) else (RV32I LUI, Factory_LUI (c_rd instr) n))
      | C_SLLI \<Rightarrow>
          (let n = c_uimm instr
           in if arch = RV32 \<and> 31 < n then (UNDEF, instr)
              else (RV32I SLLI, Factory_SLLI (c_rd instr) (c_rd instr) n))
      | C_SRLI \<Rightarrow>
          (let n = c_uimm instr
           in if arch = RV32 \<and> 31 < n then (UNDEF, instr)
              else (RV32I SRLI, Factory_SRLI (c_rd_small instr) (c_rd_small instr) n))
      | C_SRAI \<Rightarrow>
          (let n = c_uimm instr
           in if arch = RV32 \<and> 31 < n then (UNDEF, instr)
              else (RV32I SRAI, Factory_SRAI (c_rd_small instr) (c_rd_small instr) n))
      | C_ANDI \<Rightarrow> (RV32I ANDI, Factory_ANDI (c_rd_small instr) (c_rd_small instr) (c_imm instr))
      | C_J \<Rightarrow> (RV32I JAL, Factory_JAL 0 (C_J_IMM instr))
      | C_BEQZ \<Rightarrow> (RV32I BEQ, Factory_BEQ (c_rd_small instr) 0 (C_BRANCH_IMM instr))
      | C_BNEZ \<Rightarrow> (RV32I BNE, Factory_BNE (c_rd_small instr) 0 (C_BRANCH_IMM instr))
      | C_LWSP \<Rightarrow>
          (if c_rd instr = 0 then (UNDEF, instr)
           else (RV32I LW, Factory_LW (c_rd instr) 2 (C_LWSP_UIMM instr)))
      | C_LDSP \<Rightarrow>
          (if c_rd instr = 0 then (UNDEF, instr)
           else (RV64I LD, Factory_LD (c_rd instr) 2 (C_LDSP_UIMM instr)))
      | C_FLWSP \<Rightarrow> (RV32F FLW, Factory_FLW (c_rd instr) 2 (C_LWSP_UIMM instr))
      | C_FLDSP \<Rightarrow> (RV32D FLD, Factory_FLD (c_rd instr) 2 (C_LDSP_UIMM instr))
      | C_SWSP \<Rightarrow> (RV32I SW, Factory_SW 2 (c_rs2 instr) (C_SWSP_UIMM instr))
      | C_SDSP \<Rightarrow> (RV64I SD, Factory_SD 2 (c_rs2 instr) (C_SDSP_UIMM instr))
      | C_FSWSP \<Rightarrow> (RV32F FSW, Factory_FSW 2 (c_rs2 instr) (C_SWSP_UIMM instr))
      | C_FSDSP \<Rightarrow> (RV32D FSD, Factory_FSD 2 (c_rs2 instr) (C_SDSP_UIMM instr))
      | C_EBREAK \<Rightarrow> (RV32I EBREAK, Factory_EBREAK)
      | C_JR \<Rightarrow>
          (if c_rd instr = 0 then (UNDEF, instr) else (RV32I JALR, Factory_JALR 0 (c_rd instr) 0))
      | C_JALR \<Rightarrow> (RV32I JALR, Factory_JALR 1 (c_rd instr) 0))"

definition decode_and_expand_compressed ::
  "Architecture \<Rightarrow> instruction \<Rightarrow> (Mapping \<times> instruction) res" where
  "decode_and_expand_compressed arch instr =
     bind_res (decode_compressed instr arch) (\<lambda>c_op. Inr (expand_compressed instr c_op arch))"

section \<open>The factory builds the operation it is named after\<close>

lemmas bit_blast = u32_eq_iff_bits all_less_32_iff field_bits bit_simps

lemma factory_matches_R:
  "matches arch (RV32I ADD) (Factory_ADD rd rs1 rs2)"
  "matches arch (RV32I AND_op) (Factory_AND rd rs1 rs2)"
  "matches arch (RV32I OR_op) (Factory_OR rd rs1 rs2)"
  "matches arch (RV32I XOR_op) (Factory_XOR rd rs1 rs2)"
  "matches arch (RV32I SUB) (Factory_SUB rd rs1 rs2)"
  "matches arch (RV64I ADDW) (Factory_ADDW rd rs1 rs2)"
  "matches arch (RV64I SUBW) (Factory_SUBW rd rs1 rs2)"
  by (simp_all add: matches_def factory_defs instr_consts bit_blast)

lemma factory_matches_I:
  "matches arch (RV32I LW) (Factory_LW rd rs1 imm)"
  "matches arch (RV64I LD) (Factory_LD rd rs1 imm)"
  "matches arch (RV32F FLW) (Factory_FLW rd rs1 imm)"
  "matches arch (RV32D FLD) (Factory_FLD rd rs1 imm)"
  "matches arch (RV32I ADDI) (Factory_ADDI rd rs1 imm)"
  "matches arch (RV32I ANDI) (Factory_ANDI rd rs1 imm)"
  "matches arch (RV32I JALR) (Factory_JALR rd rs1 imm)"
  "matches arch (RV64I ADDIW) (Factory_ADDIW rd rs1 imm)"
  by (simp_all add: matches_def factory_defs instr_consts bit_blast)

lemma factory_matches_S_B:
  "matches arch (RV32I SW) (Factory_SW rs1 rs2 imm)"
  "matches arch (RV64I SD) (Factory_SD rs1 rs2 imm)"
  "matches arch (RV32F FSW) (Factory_FSW rs1 rs2 imm)"
  "matches arch (RV32D FSD) (Factory_FSD rs1 rs2 imm)"
  "matches arch (RV32I BEQ) (Factory_BEQ rs1 rs2 imm)"
  "matches arch (RV32I BNE) (Factory_BNE rs1 rs2 imm)"
  by (simp_all add: matches_def factory_defs instr_consts bit_blast)

lemma factory_matches_U_J:
  "matches arch (RV32I LUI) (Factory_LUI rd imm)" "matches arch (RV32I JAL) (Factory_JAL rd imm)"
  "matches arch (RV32I EBREAK) Factory_EBREAK"
  by (simp_all add: matches_def factory_defs instr_consts bit_blast)

lemma not_bit_5_of_le_31: "\<not> 31 < n \<Longrightarrow> \<not> bit (n :: u32) 5"
proof -
  assume "\<not> 31 < n"
  then have "uint n < 32"
    by (simp add: word_less_def not_less word_le_def)
  then show ?thesis
    using bit_uint_iff [of n 5] by (simp add: bit_iff_odd [of "uint n"])
qed

lemma factory_matches_shift:
  assumes "\<not> (arch = RV32 \<and> 31 < shamt)"
  shows
    "matches arch (RV32I SRLI) (Factory_SRLI rd rs1 shamt)"
    "matches arch (RV32I SRAI) (Factory_SRAI rd rs1 shamt)"
    "matches arch (RV32I SLLI) (Factory_SLLI rd rs1 shamt)"
  using assms
  by (auto simp add: matches_def factory_defs instr_consts bit_blast not_bit_5_of_le_31)

lemma is_compressed_iff: "is_compressed i \<longleftrightarrow> \<not> (bit i 0 \<and> bit i 1)"
proof -
  have "quadrant i = of_bool (bit i 0) + 2 * of_bool (bit i 1)"
    by (auto simp add: quadrant_def bit_blast)
  then show ?thesis by (auto simp: is_compressed_def)
qed

lemma decode_normal_opcode:
  assumes "decode_normal arch i \<noteq> UNDEF"
  shows "opcode i \<in> {OP_LUI, OP_AUIPC, OP_JAL, OP_JALR, OP_BEQ, OP_LB, OP_SB, OP_ADDI, OP_ADDIW,
     OP_ADD, OP_ADDW, OP_FENCE, OP_ECALL, OP_AMO, OP_FMADD_S, OP_FADD_S, OP_FLW, OP_FSW,
     OP_FMSUB_S, OP_FNMSUB_S, OP_FNMADD_S}"
  using assms unfolding decode_normal_def by (rule contrapos_np) simp

lemma decode_normal_not_compressed: "decode_normal arch i \<noteq> UNDEF \<Longrightarrow> \<not> is_compressed i"
proof -
  assume "decode_normal arch i \<noteq> UNDEF"
  from decode_normal_opcode [OF this] have "bit (opcode i) 0 \<and> bit (opcode i) 1"
    by (auto simp: instr_consts)
  then show ?thesis
    by (simp add: is_compressed_iff opcode_def bit_BIT_RANGE)
qed

section \<open>Operands of the expanded instruction\<close>

text \<open>
  The operands (destination, first source, second source, immediate) that the simulator reads
  from a 32-bit word of a given operation, by the format of the operation; shifts by an
  immediate read the shift amount.
\<close>

definition operands_of ::
  "Mapping \<Rightarrow> instruction \<Rightarrow> u32 option \<times> u32 option \<times> u32 option \<times> u32 option" where
  "operands_of op i =
     (if op \<in> {RV32I SLLI, RV32I SRLI, RV32I SRAI} then
        (Some (instr_rd i), Some (instr_rs1 i), None, Some (instr_shamt i))
      else case getType op of
        Type_R \<Rightarrow> (Some (instr_rd i), Some (instr_rs1 i), Some (instr_rs2 i), None)
      | Type_I \<Rightarrow> (Some (instr_rd i), Some (instr_rs1 i), None, Some (I_imm i))
      | Type_S \<Rightarrow> (None, Some (instr_rs1 i), Some (instr_rs2 i), Some (S_imm i))
      | Type_B \<Rightarrow> (None, Some (instr_rs1 i), Some (instr_rs2 i), Some (B_imm i))
      | Type_U \<Rightarrow> (Some (instr_rd i), None, None, Some (U_imm i))
      | Type_J \<Rightarrow> (Some (instr_rd i), None, None, Some (J_imm i))
      | _ \<Rightarrow> (None, None, None, None))"

text \<open>
  The operands of a compressed instruction as the C extension defines them, read from the
  fields of the 16-bit word.
\<close>

fun c_operands ::
  "Compressed_Opcode \<Rightarrow> instruction \<Rightarrow> u32 option \<times> u32 option \<times> u32 option \<times> u32 option" where
  "c_operands C_NOP i = (Some 0, Some 0, Some 0, None)"
| "c_operands C_ADD i = (Some (c_rd i), Some (c_rd i), Some (c_rs2 i), None)"
| "c_operands C_MV i = (Some (c_rd i), Some 0, Some (c_rs2 i), None)"
| "c_operands C_AND i = (Some (c_rd_small i), Some (c_rd_small i), Some (c_rs2_small i), None)"
| "c_operands C_OR i = (Some (c_rd_small i), Some (c_rd_small i), Some (c_rs2_small i), None)"
| "c_operands C_XOR i = (Some (c_rd_small i), Some (c_rd_small i), Some (c_rs2_small i), None)"
| "c_operands C_SUB i = (Some (c_rd_small i), Some (c_rd_small i), Some (c_rs2_small i), None)"
| "c_operands C_ADDW i = (Some (c_rd_small i), Some (c_rd_small i), Some (c_rs2_small i), None)"
| "c_operands C_SUBW i = (Some (c_rd_small i), Some (c_rd_small i), Some (c_rs2_small i), None)"
| "c_operands C_LW i = (Some (c_rs2_small i), Some (c_rd_small i), None, Some (C_LW_UIMM i))"
| "c_operands C_LD i = (Some (c_rs2_small i), Some (c_rd_small i), None, Some (C_LD_UIMM i))"
| "c_operands C_FLW i = (Some (c_rs2_small i), Some (c_rd_small i), None, Some (C_LW_UIMM i))"
| "c_operands C_FLD i = (Some (c_rs2_small i), Some (c_rd_small i), None, Some (C_LD_UIMM i))"
| "c_operands C_SW i = (None, Some (c_rd_small i), Some (c_rs2_small i), Some (C_LW_UIMM i))"
| "c_operands C_SD i = (None, Some (c_rd_small i), Some (c_rs2_small i), Some (C_LD_UIMM i))"
| "c_operands C_FSW i = (None, Some (c_rd_small i), Some (c_rs2_small i), Some (C_LW_UIMM i))"
| "c_operands C_FSD i = (None, Some (c_rd_small i), Some (c_rs2_small i), Some (C_LD_UIMM i))"
| "c_operands C_ADDI4SPN i = (Some (c_rs2_small i), Some 2, None, Some (C_ADDI4SPN_NZUIMM i))"
| "c_operands C_ADDI i = (Some (c_rd i), Some (c_rd i), None, Some (c_imm i))"
| "c_operands C_ADDIW i = (Some (c_rd i), Some (c_rd i), None, Some (c_imm i))"
| "c_operands C_LI i = (Some (c_rd i), Some 0, None, Some (c_imm i))"
| "c_operands C_ADDI16SP i = (Some 2, Some 2, None, Some (C_ADDI16SP_NZIMM i))"
| "c_operands C_LUI i = (Some (c_rd i), None, None, Some (C_LUI_NZIMM i))"
| "c_operands C_SLLI i = (Some (c_rd i), Some (c_rd i), None, Some (c_uimm i))"
| "c_operands C_SRLI i = (Some (c_rd_small i), Some (c_rd_small i), None, Some (c_uimm i))"
| "c_operands C_SRAI i = (Some (c_rd_small i), Some (c_rd_small i), None, Some (c_uimm i))"
| "c_operands C_ANDI i = (Some (c_rd_small i), Some (c_rd_small i), None, Some (c_imm i))"
| "c_operands C_JAL i = (Some 1, None, None, Some (C_JAL_IMM i))"
| "c_operands C_J i = (Some 0, None, None, Some (C_JAL_IMM i))"
| "c_operands C_BEQZ i = (None, Some (c_rd_small i), Some 0, Some (C_BRANCH_IMM i))"
| "c_operands C_BNEZ i = (None, Some (c_rd_small i), Some 0, Some (C_BRANCH_IMM i))"
| "c_operands C_LWSP i = (Some (c_rd i), Some 2, None, Some (C_LWSP_UIMM i))"
| "c_operands C_LDSP i = (Some (c_rd i), Some 2, None, Some (C_LDSP_UIMM i))"
| "c_operands C_FLWSP i = (Some (c_rd i), Some 2, None, Some (C_LWSP_UIMM i))"
| "c_operands C_FLDSP i = (Some (c_rd i), Some 2, None, Some (C_LDSP_UIMM i))"
| "c_operands C_SWSP i = (None, Some 2, Some (c_rs2 i), Some (C_SWSP_UIMM i))"
| "c_operands C_SDSP i = (None, Some 2, Some (c_rs2 i), Some (C_SDSP_UIMM i))"
| "c_operands C_FSWSP i = (None, Some 2, Some (c_rs2 i), Some (C_SWSP_UIMM i))"
| "c_operands C_FSDSP i = (None, Some 2, Some (c_rs2 i), Some (C_SDSP_UIMM i))"
| "c_operands C_JR i = (Some 0, Some (c_rd i), None, Some 0)"
| "c_operands C_JALR i = (Some 1, Some (c_rd i), None, Some 0)"
| "c_operands _ i = (None, None, None, None)"

lemma factory_operands_R:
  "instr_rd (Factory_ADD rd rs1 rs2) = rd AND 0x1f \<and> instr_rs1 (Factory_ADD rd rs1 rs2) = rs1 AND 0x1f \<and>
   instr_rs2 (Factory_ADD rd rs1 rs2) = rs2 AND 0x1f"
  "instr_rd (Factory_AND rd rs1 rs2) = rd AND 0x1f \<and> instr_rs1 (Factory_AND rd rs1 rs2) = rs1 AND 0x1f \<and>
   instr_rs2 (Factory_AND rd rs1 rs2) = rs2 AND 0x1f"
  "instr_rd (Factory_OR rd rs1 rs2) = rd AND 0x1f \<and> instr_rs1 (Factory_OR rd rs1 rs2) = rs1 AND 0x1f \<and>
   instr_rs2 (Factory_OR rd rs1 rs2) = rs2 AND 0x1f"
  "instr_rd (Factory_XOR rd rs1 rs2) = rd AND 0x1f \<and> instr_rs1 (Factory_XOR rd rs1 rs2) = rs1 AND 0x1f \<and>
   instr_rs2 (Factory_XOR rd rs1 rs2) = rs2 AND 0x1f"
  "instr_rd (Factory_SUB rd rs1 rs2) = rd AND 0x1f \<and> instr_rs1 (Factory_SUB rd rs1 rs2) = rs1 AND 0x1f \<and>
   instr_rs2 (Factory_SUB rd rs1 rs2) = rs2 AND 0x1f"
  "instr_rd (Factory_ADDW rd rs1 rs2) = rd AND 0x1f \<and> instr_rs1 (Factory_ADDW rd rs1 rs2) = rs1 AND 0x1f \<and>
   instr_rs2 (Factory_ADDW rd rs1 rs2) = rs2 AND 0x1f"
  "instr_rd (Factory_SUBW rd rs1 rs2) = rd AND 0x1f \<and> instr_rs1 (Factory_SUBW rd rs1 rs2) = rs1 AND 0x1f \<and>
   instr_rs2 (Factory_SUBW rd rs1 rs2) = rs2 AND 0x1f"
  by (simp_all add: factory_defs field_defs bit_blast)

lemma factory_operands_I:
  "instr_rd (Factory_LW rd rs1 imm) = rd AND 0x1f \<and> instr_rs1 (Factory_LW rd rs1 imm) = rs1 AND 0x1f \<and>
   I_imm (Factory_LW rd rs1 imm) = signed_take_bit 11 imm"
  "instr_rd (Factory_LD rd rs1 imm) = rd AND 0x1f \<and> instr_rs1 (Factory_LD rd rs1 imm) = rs1 AND 0x1f \<and>
   I_imm (Factory_LD rd rs1 imm) = signed_take_bit 11 imm"
  "instr_rd (Factory_FLW rd rs1 imm) = rd AND 0x1f \<and> instr_rs1 (Factory_FLW rd rs1 imm) = rs1 AND 0x1f \<and>
   I_imm (Factory_FLW rd rs1 imm) = signed_take_bit 11 imm"
  "instr_rd (Factory_FLD rd rs1 imm) = rd AND 0x1f \<and> instr_rs1 (Factory_FLD rd rs1 imm) = rs1 AND 0x1f \<and>
   I_imm (Factory_FLD rd rs1 imm) = signed_take_bit 11 imm"
  "instr_rd (Factory_ADDI rd rs1 imm) = rd AND 0x1f \<and> instr_rs1 (Factory_ADDI rd rs1 imm) = rs1 AND 0x1f \<and>
   I_imm (Factory_ADDI rd rs1 imm) = signed_take_bit 11 imm"
  "instr_rd (Factory_ANDI rd rs1 imm) = rd AND 0x1f \<and> instr_rs1 (Factory_ANDI rd rs1 imm) = rs1 AND 0x1f \<and>
   I_imm (Factory_ANDI rd rs1 imm) = signed_take_bit 11 imm"
  "instr_rd (Factory_JALR rd rs1 imm) = rd AND 0x1f \<and> instr_rs1 (Factory_JALR rd rs1 imm) = rs1 AND 0x1f \<and>
   I_imm (Factory_JALR rd rs1 imm) = signed_take_bit 11 imm"
  "instr_rd (Factory_ADDIW rd rs1 imm) = rd AND 0x1f \<and> instr_rs1 (Factory_ADDIW rd rs1 imm) = rs1 AND 0x1f \<and>
   I_imm (Factory_ADDIW rd rs1 imm) = signed_take_bit 11 imm"
  by (simp_all add: factory_defs field_defs bit_blast)

lemma factory_operands_S:
  "instr_rs1 (Factory_SW rs1 rs2 imm) = rs1 AND 0x1f \<and> instr_rs2 (Factory_SW rs1 rs2 imm) = rs2 AND 0x1f \<and>
   S_imm (Factory_SW rs1 rs2 imm) = signed_take_bit 11 imm"
  "instr_rs1 (Factory_SD rs1 rs2 imm) = rs1 AND 0x1f \<and> instr_rs2 (Factory_SD rs1 rs2 imm) = rs2 AND 0x1f \<and>
   S_imm (Factory_SD rs1 rs2 imm) = signed_take_bit 11 imm"
  "instr_rs1 (Factory_FSW rs1 rs2 imm) = rs1 AND 0x1f \<and> instr_rs2 (Factory_FSW rs1 rs2 imm) = rs2 AND 0x1f \<and>
   S_imm (Factory_FSW rs1 rs2 imm) = signed_take_bit 11 imm"
  "instr_rs1 (Factory_FSD rs1 rs2 imm) = rs1 AND 0x1f \<and> instr_rs2 (Factory_FSD rs1 rs2 imm) = rs2 AND 0x1f \<and>
   S_imm (Factory_FSD rs1 rs2 imm) = signed_take_bit 11 imm"
  by (simp_all add: factory_defs field_defs bit_blast)

lemma factory_operands_B:
  "instr_rs1 (Factory_BEQ rs1 rs2 imm) = rs1 AND 0x1f \<and> instr_rs2 (Factory_BEQ rs1 rs2 imm) = rs2 AND 0x1f \<and>
   B_imm (Factory_BEQ rs1 rs2 imm) = signed_take_bit 12 imm AND - 2"
  "instr_rs1 (Factory_BNE rs1 rs2 imm) = rs1 AND 0x1f \<and> instr_rs2 (Factory_BNE rs1 rs2 imm) = rs2 AND 0x1f \<and>
   B_imm (Factory_BNE rs1 rs2 imm) = signed_take_bit 12 imm AND - 2"
  by (simp_all add: factory_defs field_defs bit_blast)

lemma factory_operands_shift:
  "instr_rd (Factory_SRLI rd rs1 n) = rd AND 0x1f \<and> instr_rs1 (Factory_SRLI rd rs1 n) = rs1 AND 0x1f \<and>
   instr_shamt (Factory_SRLI rd rs1 n) = n AND 0x3f"
  "instr_rd (Factory_SRAI rd rs1 n) = rd AND 0x1f \<and> instr_rs1 (Factory_SRAI rd rs1 n) = rs1 AND 0x1f \<and>
   instr_shamt (Factory_SRAI rd rs1 n) = n AND 0x3f"
  "instr_rd (Factory_SLLI rd rs1 n) = rd AND 0x1f \<and> instr_rs1 (Factory_SLLI rd rs1 n) = rs1 AND 0x1f \<and>
   instr_shamt (Factory_SLLI rd rs1 n) = n AND 0x3f"
  by (simp_all add: factory_defs field_defs bit_blast)

lemma factory_operands_U_J:
  "instr_rd (Factory_LUI rd imm) = rd AND 0x1f \<and> U_imm (Factory_LUI rd imm) = imm AND - 0x1000"
  "instr_rd (Factory_JAL rd imm) = rd AND 0x1f \<and> J_imm (Factory_JAL rd imm) = signed_take_bit 20 imm AND - 2"
  by (simp_all add: factory_defs field_defs bit_blast)

lemmas factory_operands =
  factory_operands_R factory_operands_I factory_operands_S factory_operands_B
  factory_operands_shift factory_operands_U_J

lemma c_register_range [simp]:
  "c_rd i AND 0x1f = c_rd i" "c_rs2 i AND 0x1f = c_rs2 i"
  "c_rd_small i AND 0x1f = c_rd_small i" "c_rs2_small i AND 0x1f = c_rs2_small i"
  by (simp_all add: field_defs bit_blast)

lemma c_immediate_range_12 [simp]:
  "signed_take_bit 11 (C_LW_UIMM i) = C_LW_UIMM i" "signed_take_bit 11 (C_LD_UIMM i) = C_LD_UIMM i"
  "signed_take_bit 11 (C_SW_UIMM i) = C_LW_UIMM i" "signed_take_bit 11 (C_SD_UIMM i) = C_LD_UIMM i"
  "signed_take_bit 11 (C_LWSP_UIMM i) = C_LWSP_UIMM i" "signed_take_bit 11 (C_LDSP_UIMM i) = C_LDSP_UIMM i"
  "signed_take_bit 11 (C_SWSP_UIMM i) = C_SWSP_UIMM i" "signed_take_bit 11 (C_SDSP_UIMM i) = C_SDSP_UIMM i"
  "signed_take_bit 11 (C_ADDI4SPN_NZUIMM i) = C_ADDI4SPN_NZUIMM i"
  "signed_take_bit 11 (C_ADDI16SP_NZIMM i) = C_ADDI16SP_NZIMM i"
  "signed_take_bit 11 (c_imm i) = c_imm i"
  by (simp_all add: c_imm_defs field_defs bit_blast)

lemma c_immediate_range [simp]:
  "signed_take_bit 12 (C_BRANCH_IMM i) AND - 2 = C_BRANCH_IMM i"
  "signed_take_bit 20 (C_JAL_IMM i) AND - 2 = C_JAL_IMM i"
  "signed_take_bit 20 (C_J_IMM i) AND - 2 = C_JAL_IMM i"
  "C_LUI_NZIMM i AND - 0x1000 = C_LUI_NZIMM i"
  "c_uimm i AND 0x3f = c_uimm i"
  by (simp_all add: c_imm_defs field_defs bit_blast)

lemma expand_operands:
  assumes "expand_compressed i c_op arch = (op, i')" "op \<noteq> UNDEF"
  shows "operands_of op i' = c_operands c_op i"
  using assms
  by (cases c_op; simp add: expand_compressed_def operands_of_def getType_def factory_operands Let_def
      split: if_splits; clarsimp simp: factory_operands)

lemma expand_matches:
  assumes "expand_compressed i c_op arch = (op, i')" "op \<noteq> UNDEF" "c_op \<noteq> C_ADDIW"
  shows "matches arch op i'"
  using assms
  by (cases c_op; auto simp: expand_compressed_def Let_def factory_matches_R factory_matches_I
      factory_matches_S_B factory_matches_U_J factory_matches_shift split: if_splits)

section \<open>Properties of the expansion\<close>

text \<open>
  C10: a compressed instruction expands to a 32-bit word of the operation it is executed as:
  \<open>decode_normal\<close> decodes the expanded word to the same operation and the word is no longer
  compressed. The one exception is \<^verbatim>\<open>C.ADDIW\<close>, whose word is built with the factory's
  \<^verbatim>\<open>ADDI\<close> and decodes to \<open>ADDI\<close>.
\<close>

theorem expansion_decodes:
  assumes "decode_and_expand_compressed arch i = Inr (op, i')" and "op \<noteq> UNDEF"
  shows "decode_normal arch i' = (if op = RV64I ADDIW then RV32I ADDI else op) \<and> \<not> is_compressed i'"
proof -
  obtain c_op where "expand_compressed i c_op arch = (op, i')"
    using assms(1) by (auto simp: decode_and_expand_compressed_def)
  moreover have "c_op = C_ADDIW \<longleftrightarrow> op = RV64I ADDIW"
    using calculation assms(2)
    by (cases c_op) (auto simp: expand_compressed_def Let_def split: if_splits)
  moreover have "matches arch (RV32I ADDI) i'" if "c_op = C_ADDIW"
    using that calculation(1) assms(2)
    by (auto simp: expand_compressed_def factory_matches_I split: if_splits)
  ultimately have "decode_normal arch i' = (if op = RV64I ADDIW then RV32I ADDI else op)"
    using expand_matches assms(2) by (auto intro: decode_normal_complete)
  then show ?thesis
    using decode_normal_not_compressed [of arch i'] assms(2) by (auto split: if_splits)
qed

theorem expansion_decodes_witness:
  "decode_and_expand_compressed RV64 0x4505 = Inr (RV32I ADDI, 0x00100513) \<and>
   decode_normal RV64 0x00100513 = RV32I ADDI"
proof -
  have "decode_and_expand_compressed RV64 0x4505 = Inr (RV32I ADDI, 0x00100513)"
    by (simp add: decode_and_expand_compressed_def decode_compressed_def decode_quadrant_1_def
        field_defs BIT_RANGE_def BIT_SLICE_def expand_compressed_def factory_defs
        BIT_SINGLE_P1_def BIT_SINGLE_def EXTRACT_SIGN_BIT_def)
  with expansion_decodes [OF this] show ?thesis by simp
qed



text \<open>
  The expansion is total on compressed words and only on them: it throws (a
  \<^verbatim>\<open>runtime_error\<close>) exactly on the words whose two low bits are set, and an instruction that
  expands to \<open>UNDEF\<close> keeps its word, so that the illegal-instruction trap reports the
  original bits.
\<close>

theorem expansion_total:
  "(is_compressed i \<longleftrightarrow> (\<exists>r. decode_and_expand_compressed arch i = Inr r)) \<and>
   (decode_and_expand_compressed arch i = Inr (UNDEF, i') \<longrightarrow> i' = i)"
proof
  have "quadrant i \<noteq> 0 \<Longrightarrow> quadrant i \<noteq> 1 \<Longrightarrow> quadrant i \<noteq> 2 \<Longrightarrow> \<not> quadrant i < 3"
    by unat_arith
  moreover have "quadrant i \<le> 3"
    by (simp add: quadrant_def word_and_le1)
  ultimately show "is_compressed i \<longleftrightarrow> (\<exists>r. decode_and_expand_compressed arch i = Inr r)"
    by (auto simp: is_compressed_def decode_and_expand_compressed_def decode_compressed_def)
next
  have "fst (expand_compressed i c_op arch) = UNDEF \<Longrightarrow> snd (expand_compressed i c_op arch) = i" for c_op
    by (cases c_op) (auto simp: expand_compressed_def Let_def)
  then show "decode_and_expand_compressed arch i = Inr (UNDEF, i') \<longrightarrow> i' = i"
    by (auto simp: decode_and_expand_compressed_def) (metis fst_conv snd_conv)
qed

theorem expansion_total_witness:
  "is_compressed 0 \<and> decode_and_expand_compressed RV32 0 = Inr (UNDEF, 0) \<and> \<not> is_compressed 3 \<and>
   (\<nexists>r. decode_and_expand_compressed RV32 3 = Inr r)"
  using expansion_total [of 0 RV32 0] expansion_total [of 3 RV32 0]
  by (simp add: is_compressed_def field_defs decode_and_expand_compressed_def decode_compressed_def
      decode_quadrant_0_def expand_compressed_def BIT_RANGE_def BIT_SLICE_def)

end
