(* ===== verification/Instr_Xtinst.thy ===== *)
theory Instr_Xtinst
  imports Instr_Compressed
begin

text \<open>
  The transformed instruction word that a trap leaves in \<^verbatim>\<open>mtinst\<close> or \<^verbatim>\<open>htinst\<close>
  (\<^verbatim>\<open>Instruction::get_xtinst\<close> of \<^verbatim>\<open>core/common/instr.cpp\<close>), the ranges of the immediates,
  and what the transformed word says for every operation the decoder knows.
\<close>

definition get_xtinst :: "instruction \<Rightarrow> u32" where
  "get_xtinst i =
    (let op = opcode i; f3 = funct3 i; f7 = funct7 i in
     if op = OP_LB then
       (if f3 \<in> {F3_LB, F3_LH, F3_LW, F3_LBU, F3_LHU, F3_LWU, F3_LD}
        then set_xtinst_for_opld i else 0)
     else if op = OP_FLW then
       (if f3 \<in> {F3_FLW, F3_FLD} then set_xtinst_for_opld i else 0)
     else if op = OP_SB then
       (if f3 \<in> {F3_SB, F3_SH, F3_SW, F3_SD} then set_xtinst_for_opst i else 0)
     else if op = OP_FSW then
       (if f3 \<in> {F3_FSW, F3_FSD} then set_xtinst_for_opst i else 0)
     else if op = OP_AMO then
       (if funct5 i \<in> {F5_LR_W, F5_SC_W, F5_AMOSWAP_W, F5_AMOADD_W, F5_AMOXOR_W, F5_AMOAND_W,
           F5_AMOOR_W, F5_AMOMIN_W, F5_AMOMAX_W, F5_AMOMINU_W, F5_AMOMAXU_W}
        then inst_set_addr_offs_to_zero i else 0)
     else if op = OP_ECALL then
       (if f3 = F3_HV then
          (if f7 = F7_HLVB then
             (if instr_rs2 i \<in> {RS2_HLVB, RS2_HLVBU} then inst_set_addr_offs_to_zero i else 0)
           else if f7 = F7_HLVH then
             (if instr_rs2 i \<in> {RS2_HLVH, RS2_HLVHU, RS2_HLVXHU}
              then inst_set_addr_offs_to_zero i else 0)
           else if f7 = F7_HLVW then
             (if instr_rs2 i \<in> {RS2_HLVW, RS2_HLVXWU} then inst_set_addr_offs_to_zero i else 0)
           else if f7 \<in> {F7_HSVB, F7_HSVH, F7_HSVW} then inst_set_addr_offs_to_zero i
           else 0)
        else 0)
     else 0)"

section \<open>The bits a transformed word keeps\<close>

lemma xtinst_masks:
  "set_xtinst_for_opld i = i AND 0x00007fff"
  "set_xtinst_for_opst i = i AND 0x01f0707f"
  "inst_set_addr_offs_to_zero i = i AND 0xfff07fff"
  by (simp_all add: set_xtinst_for_opld_def set_xtinst_for_opst_def
      inst_set_addr_offs_to_zero_def Let_def bit_blast)

text \<open>
  The mask of the fields that the privileged architecture keeps in the transformed word of an
  operation: a load keeps \<^verbatim>\<open>rd\<close>, \<^verbatim>\<open>funct3\<close> and the opcode, a store \<^verbatim>\<open>rs2\<close>, \<^verbatim>\<open>funct3\<close> and the
  opcode, an atomic or a hypervisor access everything but \<^verbatim>\<open>rs1\<close>; any other operation has
  no transformed word.
\<close>

definition xtinst_mask :: "Mapping \<Rightarrow> u32" where
  "xtinst_mask op =
    (case op of
       RV32I x \<Rightarrow> if x \<in> {LB, LH, LW, LBU, LHU} then 0x00007fff
                  else if x \<in> {SB, SH, SW} then 0x01f0707f else 0
     | RV64I x \<Rightarrow> if x \<in> {LWU, LD} then 0x00007fff else if x = SD then 0x01f0707f else 0
     | RV32F x \<Rightarrow> if x = FLW then 0x00007fff else if x = FSW then 0x01f0707f else 0
     | RV32D x \<Rightarrow> if x = FLD then 0x00007fff else if x = FSD then 0x01f0707f else 0
     | RV32A _ \<Rightarrow> 0xfff07fff
     | RV64A _ \<Rightarrow> 0xfff07fff
     | HV _ \<Rightarrow> 0xfff07fff
     | _ \<Rightarrow> 0)"

lemmas xtinst_eval =
  matches_def get_xtinst_def xtinst_mask_def xtinst_masks fields_of_encoding instr_consts Let_def

lemma rs2_of_encoding:
  assumes "instr AND m = e" and "0x01f00000 AND m = 0x01f00000"
  shows "instr_rs2 instr = drop_bit 20 (e AND 0x01f00000)"
proof -
  have "instr_rs2 instr = drop_bit 20 (instr AND 0x01f00000)"
    by (simp add: field_defs bit_blast)
  also have "instr AND 0x01f00000 = (instr AND m) AND 0x01f00000"
    by (simp only: and.assoc and.commute [of m] assms(2))
  finally show ?thesis by (simp only: assms(1))
qed

lemma xtinst_rv32i: "matches arch (RV32I x) i \<Longrightarrow> get_xtinst i = i AND xtinst_mask (RV32I x)"
  by (cases x; cases "arch = RV32"; simp add: xtinst_eval)

lemma xtinst_zifencei: "matches arch (Zifencei x) i \<Longrightarrow> get_xtinst i = 0"
  by (cases x) (simp_all add: xtinst_eval)

lemma xtinst_zicsr: "matches arch (Zicsr x) i \<Longrightarrow> get_xtinst i = 0"
  by (cases x) (simp_all add: xtinst_eval)

lemma xtinst_rv32m: "matches arch (RV32M x) i \<Longrightarrow> get_xtinst i = 0"
  by (cases x) (simp_all add: xtinst_eval)

lemma xtinst_rv64m: "matches arch (RV64M x) i \<Longrightarrow> get_xtinst i = 0"
  by (cases x) (simp_all add: xtinst_eval)

lemma xtinst_rv64f: "matches arch (RV64F x) i \<Longrightarrow> get_xtinst i = 0"
  by (cases x) (simp_all add: xtinst_eval)

lemma xtinst_rv64d: "matches arch (RV64D x) i \<Longrightarrow> get_xtinst i = 0"
  by (cases x) (simp_all add: xtinst_eval)

lemma xtinst_priv: "matches arch (Priv x) i \<Longrightarrow> get_xtinst i = 0"
  by (cases x) (simp_all add: xtinst_eval)

lemmas xtinst_others = xtinst_zifencei xtinst_zicsr xtinst_rv32m xtinst_rv64m xtinst_rv64f
  xtinst_rv64d xtinst_priv

lemma xtinst_rv32a: "matches arch (RV32A x) i \<Longrightarrow> get_xtinst i = i AND 0xfff07fff"
  by (cases x) (simp_all add: xtinst_eval)

lemma xtinst_rv64a: "matches arch (RV64A x) i \<Longrightarrow> get_xtinst i = i AND 0xfff07fff"
  by (cases x) (simp_all add: xtinst_eval)

lemmas xtinst_atomic = xtinst_rv32a xtinst_rv64a

lemma xtinst_rv64i: "matches arch (RV64I x) i \<Longrightarrow> get_xtinst i = i AND xtinst_mask (RV64I x)"
  by (cases x) (simp_all add: xtinst_eval)

lemma xtinst_rv32f: "matches arch (RV32F x) i \<Longrightarrow> get_xtinst i = i AND xtinst_mask (RV32F x)"
  by (cases x) (simp_all add: xtinst_eval)

lemma xtinst_rv32d: "matches arch (RV32D x) i \<Longrightarrow> get_xtinst i = i AND xtinst_mask (RV32D x)"
  by (cases x) (simp_all add: xtinst_eval)

lemma xtinst_hv: "matches arch (HV x) i \<Longrightarrow> get_xtinst i = i AND 0xfff07fff"
  by (cases x) (simp_all add: xtinst_eval rs2_of_encoding)

text \<open>
  C23: for every operation the decoder knows the transformed instruction keeps exactly the
  fields the operation keeps and clears the address fields; an operation that accesses no
  memory has the transformed instruction zero.
\<close>

theorem get_xtinst_by_operation:
  assumes "decode_normal arch i = op" and "op \<noteq> UNDEF"
  shows "get_xtinst i = i AND xtinst_mask op"
proof -
  have "matches arch op i"
    using decode_normal_sound [of arch i] assms by (simp add: sound_result_def)
  then show ?thesis
    by (cases op) (simp_all add: xtinst_mask_def xtinst_others xtinst_atomic xtinst_hv assms(2)
        xtinst_rv32i [unfolded xtinst_mask_def] xtinst_rv64i [unfolded xtinst_mask_def]
        xtinst_rv32f [unfolded xtinst_mask_def] xtinst_rv32d [unfolded xtinst_mask_def])
qed

theorem get_xtinst_by_operation_witness:
  "decode_normal RV32 0x00452503 = RV32I LW \<and> get_xtinst 0x00452503 = 0x2503"
proof -
  have "decode_normal RV32 0x00452503 = RV32I LW"
    by (rule decode_normal_complete) (simp add: matches_def instr_consts)
  with get_xtinst_by_operation [OF this] show ?thesis by (simp add: xtinst_mask_def)
qed

section \<open>Ranges of the immediates\<close>

lemma imm_signed_take_bit:
  "I_imm i = signed_take_bit 11 (drop_bit 20 i)"
  "S_imm i = signed_take_bit 11 (drop_bit 20 i AND - 0x20 OR drop_bit 7 i AND 0x1f)"
  "B_imm i = signed_take_bit 12 (push_bit 1 (drop_bit 1 (B_imm i)))"
  "J_imm i = signed_take_bit 20 (push_bit 1 (drop_bit 1 (J_imm i)))"
  by (simp_all add: field_defs bit_blast)

lemma sint_signed_take_bit_bounds:
  assumes "n < 31"
  shows "- (2 ^ n) \<le> sint (signed_take_bit n (w :: u32))" "sint (signed_take_bit n w) < 2 ^ n"
proof -
  have "sint (signed_take_bit n w) = signed_take_bit n (sint w)"
    using assms by (intro bit_eqI) (auto simp: bit_sint_iff bit_signed_take_bit_iff min_def not_le)
  then show "- (2 ^ n) \<le> sint (signed_take_bit n w)" "sint (signed_take_bit n w) < 2 ^ n"
    by (simp_all add: signed_take_bit_int_greater_eq_minus_exp signed_take_bit_int_less_exp)
qed

text \<open>
  The immediates are the ranges of the base instruction formats, for every word: twelve
  signed bits for the I and S formats, an even offset of thirteen signed bits for branches
  and of twenty-one for jumps, and twenty upper bits with twelve zeros for the U format.
\<close>

theorem immediate_ranges:
  "- 2048 \<le> sint (I_imm i) \<and> sint (I_imm i) \<le> 2047 \<and>
   - 2048 \<le> sint (S_imm i) \<and> sint (S_imm i) \<le> 2047 \<and>
   - 4096 \<le> sint (B_imm i) \<and> sint (B_imm i) \<le> 4094 \<and> even (B_imm i) \<and>
   - 1048576 \<le> sint (J_imm i) \<and> sint (J_imm i) \<le> 1048574 \<and> even (J_imm i) \<and>
   U_imm i AND 0xfff = 0"
proof -
  have e: "even (B_imm i)" "even (J_imm i)"
    using bit_0 [of "B_imm i"] bit_0 [of "J_imm i"]
    by (simp_all only: field_defs field_bits bit_simps) simp_all
  then have s: "even (sint (B_imm i))" "even (sint (J_imm i))"
    using bit_0 [of "B_imm i"] bit_0 [of "J_imm i"] bit_0 [of "sint (B_imm i)"] bit_0 [of "sint (J_imm i)"]
    by (simp_all only: bit_sint_iff) simp_all
  have "U_imm i AND 0xfff = 0"
    by (simp add: field_defs bit_blast)
  moreover have "- 2048 \<le> sint (I_imm i)" "sint (I_imm i) \<le> 2047"
    "- 2048 \<le> sint (S_imm i)" "sint (S_imm i) \<le> 2047"
    using sint_signed_take_bit_bounds [of 11] by (simp_all add: imm_signed_take_bit(1,2) zle_diff1_eq [symmetric])
  moreover have "- 4096 \<le> sint (B_imm i)" "sint (B_imm i) < 4096"
    "- 1048576 \<le> sint (J_imm i)" "sint (J_imm i) < 1048576"
    using sint_signed_take_bit_bounds [of 12 "push_bit 1 (drop_bit 1 (B_imm i))"]
      sint_signed_take_bit_bounds [of 20 "push_bit 1 (drop_bit 1 (J_imm i))"]
    by (simp_all only: imm_signed_take_bit(3,4) [symmetric]) simp_all
  ultimately show ?thesis
    using e s by presburger
qed

end
