(* ===== verification/VP_Ops.thy ===== *)
theory VP_Ops
  imports VP_Prelude
begin

text \<open>
  Operations on a state that may stop with an exception, shared by the simulator and the
  peripherals, and their invariants. \<open>preserves P m\<close> says that the operation \<open>m\<close> leads from states
  with \<open>P\<close> to states with \<open>P\<close>, whether it ends normally or with an exception. The rules follow the
  combinators, so that the proof for an operation is \<open>intro preserves_rules\<close> and the
  primitive updates that remain.
\<close>

section \<open>Combinators\<close>

definition seq_op :: "('s, 'a) op \<Rightarrow> ('s, 'b) op \<Rightarrow> ('s, 'b) op" where
  "seq_op f g = bind_op f (\<lambda>_. g)"

definition get_op :: "('s \<Rightarrow> 'a) \<Rightarrow> ('a \<Rightarrow> ('s, 'b) op) \<Rightarrow> ('s, 'b) op" where
  "get_op f g = (\<lambda>s. g (f s) s)"

definition when_op :: "bool \<Rightarrow> ('s, unit) op \<Rightarrow> ('s, unit) op" where
  "when_op b f = (if b then f else ret_op ())"

definition assert_op :: "bool \<Rightarrow> ('s, unit) op" where
  "assert_op b = lift_op (assert_that b (Inr ()))"

definition trap_op :: "u32 \<Rightarrow> u32 \<Rightarrow> ('s, 'a) op" where
  "trap_op exc mtval = lift_op (raise_trap exc (ucast mtval) 0)"

definition update_res :: "('s \<Rightarrow> 's res) \<Rightarrow> ('s, unit) op" where
  "update_res f = (\<lambda>s. case f s of Inl e \<Rightarrow> (Inl e, s) | Inr s' \<Rightarrow> (Inr (), s'))"

lemmas comb_defs = op_defs seq_op_def get_op_def when_op_def assert_op_def trap_op_def update_res_def

text \<open>The runs of an operation that end normally.\<close>

lemma op_run:
  "bind_op f g s = (Inr b, s') \<longleftrightarrow> (\<exists>a t. f s = (Inr a, t) \<and> g a t = (Inr b, s'))"
  "seq_op h k s = (Inr c, s') \<longleftrightarrow> (\<exists>a t. h s = (Inr a, t) \<and> k t = (Inr c, s'))"
  "ret_op d s = (Inr d', s') \<longleftrightarrow> d' = d \<and> s' = s" "lift_op r s = (Inr d', s') \<longleftrightarrow> r = Inr d' \<and> s' = s"
  "fail_op e s = (Inr d', s') \<longleftrightarrow> False" "assert_op p s = (Inr u, s') \<longleftrightarrow> p \<and> s' = s"
  "modify_op m s = (Inr u, s') \<longleftrightarrow> s' = m s" "update_res q s = (Inr u, s') \<longleftrightarrow> q s = Inr s'"
  "get_op x y s = y (x s) s"
  "when_op p w s = (Inr u, s') \<longleftrightarrow> (if p then w s = (Inr u, s') else s' = s)"
  by (auto simp: comb_defs split: prod.splits sum.splits)

section \<open>Invariants\<close>

definition preserves :: "('s \<Rightarrow> bool) \<Rightarrow> ('s, 'a) op \<Rightarrow> bool" where
  "preserves P m \<longleftrightarrow> (\<forall>s. P s \<longrightarrow> P (snd (m s)))"

named_theorems preserves_rules \<open>rules of preserves for the combinators\<close>

lemma preserves_snd: "preserves P m \<Longrightarrow> P s \<Longrightarrow> P (snd (m s))"
  by (simp add: preserves_def)

lemma preservesD: "preserves P m \<Longrightarrow> P s \<Longrightarrow> m s = (r, s') \<Longrightarrow> P s'"
  using preserves_snd [of P m s] by simp

lemma preserves_pure [preserves_rules]: "preserves P (\<lambda>s. (f s, s))"
  by (simp add: preserves_def)

lemma preserves_basic [preserves_rules]:
  "preserves P (ret_op a)" "preserves P (fail_op e)" "preserves P (lift_op r)" "preserves P (assert_op b)"
  "preserves P (trap_op exc v)"
  by (simp_all add: preserves_def comb_defs)

lemma preserves_bind [preserves_rules]:
  "preserves P f \<Longrightarrow> (\<And>a. preserves P (g a)) \<Longrightarrow> preserves P (bind_op f g)"
  by (fastforce simp: preserves_def bind_op_def split: prod.splits sum.splits)

lemma preserves_seq [preserves_rules]: "preserves P f \<Longrightarrow> preserves P g \<Longrightarrow> preserves P (seq_op f g)"
  unfolding seq_op_def by (rule preserves_bind)

lemma preserves_get [preserves_rules]: "(\<And>a. preserves P (g a)) \<Longrightarrow> preserves P (get_op f g)"
  by (simp add: preserves_def get_op_def)

lemma preserves_when [preserves_rules]: "(b \<Longrightarrow> preserves P f) \<Longrightarrow> preserves P (when_op b f)"
  by (simp add: when_op_def preserves_basic)

lemma preserves_if [preserves_rules]:
  "(b \<Longrightarrow> preserves P f) \<Longrightarrow> (\<not> b \<Longrightarrow> preserves P g) \<Longrightarrow> preserves P (if b then f else g)"
  by simp

lemma preserves_prod [preserves_rules]: "(\<And>a b. preserves P (f a b)) \<Longrightarrow> preserves P (case_prod f x)"
  by (simp add: case_prod_beta)

lemma preserves_option [preserves_rules]:
  "preserves P f \<Longrightarrow> (\<And>a. preserves P (g a)) \<Longrightarrow> preserves P (case_option f g x)"
  by (cases x) simp_all

lemma preserves_let [preserves_rules]: "(\<And>a. preserves P (f a)) \<Longrightarrow> preserves P (Let v f)"
  by simp

lemma preserves_modify: "(\<And>s. P s \<Longrightarrow> P (f s)) \<Longrightarrow> preserves P (modify_op f)"
  by (simp add: preserves_def modify_op_def)

lemma preserves_update_res: "(\<And>s s'. P s \<Longrightarrow> f s = Inr s' \<Longrightarrow> P s') \<Longrightarrow> preserves P (update_res f)"
  by (auto simp: preserves_def update_res_def split: sum.splits)

end
