(* ===== verification/VP_ISS_State.thy ===== *)
theory VP_ISS_State
  imports VP_CSR_Table VP_Core_Mem Instr_Xtinst VP_Ops
begin

text \<open>
  State of the RV32 instruction set simulator (\<^verbatim>\<open>struct ISS\<close> and \<^verbatim>\<open>RegFile\<close> of \<^verbatim>\<open>core/rv32/iss.h\<close>): the
  registers, the CSR tables, the privilege level, the last instruction and the memory
  interface. An operation of the simulator is a state transformer that may stop with an
  exception (type \<open>('p iss, 'a) op\<close>, where \<open>'p\<close> is the state of the platform's peripherals).
  The simulator is used by one SystemC thread; trace output, the quantum keeper and the event
  \<^verbatim>\<open>wfi_event\<close> carry no state the simulated program can observe and are left out. The globals of the
  softfloat library are the last two fields: the flags are clear between two instructions and
  the rounding mode is set before it is used, so that it does not matter that the cores share them.

  \<open>iss_core\<close> is what the memory interface reads of the core when an access is made.
\<close>

section \<open>State\<close>

datatype CoreExecStatus = Runnable | HitBreakpoint | Terminated

record 'p iss =
  iss_mem :: "'p cmi"
  iss_sys :: bool
  iss_regs :: "u32 list"
  iss_fp_regs :: "u64 list"
  iss_pc :: u32
  iss_last_pc :: u32
  iss_ivt_pending :: bool
  iss_ivt_entry_address :: u32
  iss_shall_exit :: bool
  iss_ignore_wfi :: bool
  iss_error_on_zero_traphandler :: bool
  iss_csrs :: csr_table
  iss_icsrs_m :: icsr_ms_table
  iss_icsrs_s :: icsr_ms_table
  iss_icsrs_vs :: icsr_vs_table
  iss_prv :: PrivilegeLevel
  iss_lr_sc_counter :: int
  iss_total_num_instr :: u64
  iss_use_spmp :: bool
  iss_use_smpu :: bool
  iss_instr :: instruction
  iss_op :: Mapping
  iss_status :: CoreExecStatus
  iss_breakpoints :: "u32 set"
  iss_debug_mode :: bool
  iss_cycle_counter :: u64
  iss_exceptionFlags :: u32
  iss_roundingMode :: u32

text \<open>What the memory interface reads of the core: \<^verbatim>\<open>mem.h\<close>, \<^verbatim>\<open>mmu.h\<close>, \<^verbatim>\<open>spmp.h\<close> and \<^verbatim>\<open>smpu.h\<close>.\<close>

definition iss_core :: "'p iss \<Rightarrow> mem_core" where
  "iss_core s = (let c = iss_csrs s in \<lparr>
     co_hart = csr_mhartid c,
     co_use_smpu = iss_use_smpu s,
     co_use_spmp = iss_use_spmp s,
     co_mmu = \<lparr>mc_satp_mode = satp_mode (csr_satp c), mc_satp_ppn = ucast (satp_ppn (csr_satp c)),
       mc_prv = iss_prv s, mc_mprv = (mstatus_mprv (csr_mstatus c) \<noteq> 0), mc_mpp = mstatus_mpp (csr_mstatus c),
       mc_sum = (mstatus_sum (csr_mstatus c) \<noteq> 0), mc_mxr = (mstatus_mxr (csr_mstatus c) \<noteq> 0), mc_xlen = 32\<rparr>,
     co_spmp = \<lparr>sc_spmpaddr = csr_spmpaddr c, sc_spmpcfg = csr_spmpcfg c, sc_spmpswitch = csr_spmpswitch c,
       sc_satp_mode = satp_mode (csr_satp c), sc_prv = iss_prv s, sc_sum = (mstatus_sum (csr_mstatus c) \<noteq> 0)\<rparr>,
     co_smpu = \<lparr>su_sum = (mstatus_sum (csr_mstatus c) \<noteq> 0), su_mxr = (mstatus_mxr (csr_mstatus c) \<noteq> 0),
       su_vs_sum = (vsstatus_sum (csr_vsstatus c) \<noteq> 0), su_vs_mxr = (vsstatus_mxr (csr_vsstatus c) \<noteq> 0),
       su_hs_vsum = (hstatus_vsum (csr_hstatus c) \<noteq> 0), su_satp_mode = satp_mode (csr_satp c),
       su_vsatp_mode = satp_mode (csr_vsatp c), su_hgatp_mode = hgatp_mode (csr_hgatp c),
       su_vgein = hstatus_vgein (csr_hstatus c), su_smpumask = csr_smpumask c, su_vsmpumask = csr_vsmpumask c,
       su_hmpumask = csr_hmpumask c, su_regions = ms_smpu (iss_icsrs_s s),
       su_vs_regions = (\<lambda>g. vb_smpu (vs_bank (iss_icsrs_vs s) ! g)), su_h_regions = ms_hmpu (iss_icsrs_s s)\<rparr>\<rparr>)"

section \<open>Operations\<close>

definition csr_op :: "(csr_table \<Rightarrow> csr_table) \<Rightarrow> ('p iss, unit) op" where
  "csr_op f = modify_op (\<lambda>s. s\<lparr>iss_csrs := f (iss_csrs s)\<rparr>)"

definition csr_res :: "(csr_table \<Rightarrow> csr_table res) \<Rightarrow> ('p iss, unit) op" where
  "csr_res f = update_res (\<lambda>s. bind_res (f (iss_csrs s)) (\<lambda>t. Inr (s\<lparr>iss_csrs := t\<rparr>)))"

definition clint_op :: "(clint_pend \<Rightarrow> clint_pend) \<Rightarrow> ('p iss, unit) op" where
  "clint_op f = csr_op (\<lambda>t. t\<lparr>csr_clint := f (csr_clint t)\<rparr>)"

definition mem_op :: "(mem_core \<Rightarrow> ('p cmi, 'a) op) \<Rightarrow> ('p iss, 'a) op" where
  "mem_op f = (\<lambda>s. case f (iss_core s) (iss_mem s) of (r, m) \<Rightarrow> (r, s\<lparr>iss_mem := m\<rparr>))"

lemmas iss_op_defs = comb_defs csr_op_def csr_res_def clint_op_def mem_op_def

definition release_lr_sc_reservation :: "('p iss, unit) op" where
  "release_lr_sc_reservation =
     seq_op (modify_op (\<lambda>s. s\<lparr>iss_lr_sc_counter := 0\<rparr>)) (mem_op (\<lambda>core. atomic_unlock (co_hart core)))"

section \<open>Register file\<close>

definition reg_zero :: nat where "reg_zero = 0"
definition reg_sp :: nat where "reg_sp = 2"
definition reg_a5 :: nat where "reg_a5 = 15"
definition reg_a7 :: nat where "reg_a7 = 17"

text \<open>
  \<^verbatim>\<open>RegFile::write\<close>, \<^verbatim>\<open>RegFile::read\<close> and \<^verbatim>\<open>RegFile::shamt\<close>; \<^verbatim>\<open>operator[]\<close> does not check its index: the
  decoder's register numbers are below 32.
\<close>

definition RegFile_write :: "u32 \<Rightarrow> u32 \<Rightarrow> u32 list \<Rightarrow> u32 list res" where
  "RegFile_write index value regs =
     assert_that (index \<le> 31) (assert_that (index \<noteq> 0) (Inr (regs[unat index := value])))"

definition RegFile_read :: "u32 \<Rightarrow> u32 list \<Rightarrow> u32 res" where
  "RegFile_read index regs =
     (if index > 31 then Inl (RuntimeError ''out-of-range register access'') else Inr (regs ! unat index))"

definition RegFile_shamt :: "u32 \<Rightarrow> u32 list \<Rightarrow> u32 res" where
  "RegFile_shamt index regs = assert_that (index \<le> 31) (Inr (BIT_RANGE (regs ! unat index) 4 0))"

definition set_reg :: "u32 \<Rightarrow> u32 \<Rightarrow> ('p iss, unit) op" where
  "set_reg idx value = modify_op (\<lambda>s. s\<lparr>iss_regs := (iss_regs s)[unat idx := value]\<rparr>)"

definition xreg :: "'p iss \<Rightarrow> u32 \<Rightarrow> u32" where
  "xreg s idx = iss_regs s ! unat idx"

section \<open>Accessors by privilege level\<close>

definition get_xcause :: "PrivilegeLevel \<Rightarrow> csr_table \<Rightarrow> u32 res" where
  "get_xcause level t =
     assert_that (is_irq_capable_level level)
      (Inr (if level = MachineMode then csr_mcause t
            else if level = SupervisorMode then csr_scause t else csr_vscause t))"

definition get_xtvec :: "PrivilegeLevel \<Rightarrow> csr_table \<Rightarrow> u32 res" where
  "get_xtvec level t =
     assert_that (is_irq_capable_level level)
      (Inr (if level = MachineMode then csr_mtvec t
            else if level = SupervisorMode then csr_stvec t else csr_vstvec t))"

definition get_topei :: "PrivilegeLevel \<Rightarrow> csr_table \<Rightarrow> u32 res" where
  "get_topei level t =
     assert_that (is_irq_capable_level level)
      (Inr (if level = MachineMode then csr_mtopei t
            else if level = SupervisorMode then csr_stopei t else csr_vstopei t))"

definition set_topei_reg :: "PrivilegeLevel \<Rightarrow> (u32 \<Rightarrow> u32) \<Rightarrow> csr_table \<Rightarrow> csr_table res" where
  "set_topei_reg level f t =
     assert_that (is_irq_capable_level level)
      (Inr (if level = MachineMode then t\<lparr>csr_mtopei := f (csr_mtopei t)\<rparr>
            else if level = SupervisorMode then t\<lparr>csr_stopei := f (csr_stopei t)\<rparr>
            else t\<lparr>csr_vstopei := f (csr_vstopei t)\<rparr>))"

definition set_topei :: "PrivilegeLevel \<Rightarrow> u32 \<Rightarrow> csr_table \<Rightarrow> csr_table res" where
  "set_topei level eiid = set_topei_reg level (\<lambda>topei. set_topei_iprio eiid (set_topei_iid eiid topei))"

definition is_irq_mode_snps_nested_vectored :: "PrivilegeLevel \<Rightarrow> csr_table \<Rightarrow> bool res" where
  "is_irq_mode_snps_nested_vectored target_mode t =
     bind_res (get_xtvec target_mode t) (\<lambda>xtvec. Inr (mtvec_mode xtvec = SnpsNestedVectored))"

definition get_vstopi_ipriom_adjusted :: "csr_table \<Rightarrow> u32" where
  "get_vstopi_ipriom_adjusted t =
     (if is_ipriom_full_mode (csr_hvictl t) then csr_vstopi t
      else set_topi_iprio (if csr_vstopi t \<noteq> 0 then 1 else 0) (set_topi_iid (topi_iid (csr_vstopi t)) 0))"

section \<open>Small operations of the simulator\<close>

definition m_mode :: "'p iss \<Rightarrow> bool" where "m_mode s \<longleftrightarrow> iss_prv s = MachineMode"
definition s_mode :: "'p iss \<Rightarrow> bool" where "s_mode s \<longleftrightarrow> iss_prv s = SupervisorMode"
definition vs_mode :: "'p iss \<Rightarrow> bool" where "vs_mode s \<longleftrightarrow> iss_prv s = VirtualSupervisorMode"
definition u_mode :: "'p iss \<Rightarrow> bool" where "u_mode s \<longleftrightarrow> iss_prv s = UserMode"

definition pc_alignment_mask :: "'p iss \<Rightarrow> u32" where
  "pc_alignment_mask s = (if has_C_extension (csr_misa (iss_csrs s)) then NOT 1 else NOT 3)"

definition has_local_pending_enabled_interrupts :: "'p iss \<Rightarrow> bool" where
  "has_local_pending_enabled_interrupts s \<longleftrightarrow>
     mie_reg (csr_clint (iss_csrs s)) AND mip_reg (csr_clint (iss_csrs s)) \<noteq> 0"

definition RAISE_ILLEGAL_INSTRUCTION :: "('p iss, 'a) op" where
  "RAISE_ILLEGAL_INSTRUCTION = get_op iss_instr (\<lambda>i. trap_op EXC_ILLEGAL_INSTR i)"

definition REQUIRE_ISA :: "u32 \<Rightarrow> ('p iss, unit) op" where
  "REQUIRE_ISA X = get_op (\<lambda>s. csr_misa (iss_csrs s) AND X = 0) (\<lambda>b. if b then RAISE_ILLEGAL_INSTRUCTION else ret_op ())"

definition is_timer_compare_level_exists :: "PrivilegeLevel \<Rightarrow> csr_table \<Rightarrow> bool res" where
  "is_timer_compare_level_exists level t =
     assert_that (is_irq_capable_level level)
      (Inr (if level = MachineMode then True
            else if level = SupervisorMode then xenvcfgh_stce (xe_reg (csr_menvcfgh t)) \<noteq> 0
            else xenvcfgh_stce (xe_reg (csr_henvcfgh t)) \<noteq> 0))"

definition get_xtimecmp_level_csr :: "PrivilegeLevel \<Rightarrow> csr_table \<Rightarrow> u64 res" where
  "get_xtimecmp_level_csr level t =
     assert_that (level = SupervisorMode \<or> level = VirtualSupervisorMode)
      (get_timecmp_level_adjusted (csr_time_control t) level)"

definition iss_read_register :: "u32 \<Rightarrow> 'p iss \<Rightarrow> u64 res" where
  "iss_read_register idx s = bind_res (RegFile_read idx (iss_regs s)) (\<lambda>v. Inr (ucast v))"

definition iss_write_register :: "u32 \<Rightarrow> u64 \<Rightarrow> 'p iss \<Rightarrow> 'p iss res" where
  "iss_write_register idx v s =
     bind_res (RegFile_write idx (ucast v) (iss_regs s)) (\<lambda>rs. Inr (s\<lparr>iss_regs := rs\<rparr>))"

definition get_syscall_register_index :: "'p iss \<Rightarrow> nat" where
  "get_syscall_register_index s = (if has_E_base_isa (csr_misa (iss_csrs s)) then reg_a5 else reg_a7)"

definition iss_insert_breakpoint :: "u64 \<Rightarrow> 'p iss \<Rightarrow> 'p iss" where
  "iss_insert_breakpoint addr s = s\<lparr>iss_breakpoints := insert (ucast addr) (iss_breakpoints s)\<rparr>"

definition iss_remove_breakpoint :: "u64 \<Rightarrow> 'p iss \<Rightarrow> 'p iss" where
  "iss_remove_breakpoint addr s = s\<lparr>iss_breakpoints := iss_breakpoints s - {ucast addr}\<rparr>"

definition iss_get_registers :: "'p iss \<Rightarrow> u64 list" where
  "iss_get_registers s = map ucast (iss_regs s)"

definition iss_sys_exit :: "'p iss \<Rightarrow> 'p iss" where
  "iss_sys_exit s = s\<lparr>iss_shall_exit := True\<rparr>"

definition iss_block_on_wfi :: "bool \<Rightarrow> 'p iss \<Rightarrow> 'p iss" where
  "iss_block_on_wfi block s = s\<lparr>iss_ignore_wfi := \<not> block\<rparr>"

definition iss_enable_debug :: "'p iss \<Rightarrow> 'p iss" where
  "iss_enable_debug s = s\<lparr>iss_debug_mode := True\<rparr>"

definition iss_set_status :: "CoreExecStatus \<Rightarrow> 'p iss \<Rightarrow> 'p iss" where
  "iss_set_status st s = s\<lparr>iss_status := st\<rparr>"

section \<open>Construction\<close>

text \<open>The state the constructor leaves, for a core without a debugger and without system call emulation.\<close>

definition ISS_init :: "u32 \<Rightarrow> bool \<Rightarrow> 'p cmi \<Rightarrow> 'p iss" where
  "ISS_init hart_id use_E_base_isa m = \<lparr>iss_mem = m, iss_sys = False, iss_regs = replicate 32 0, iss_fp_regs = replicate 32 0,
     iss_pc = 0, iss_last_pc = 0, iss_ivt_pending = False, iss_ivt_entry_address = 0, iss_shall_exit = False,
     iss_ignore_wfi = False, iss_error_on_zero_traphandler = False,
     iss_csrs = csr_table_init\<lparr>csr_mhartid := hart_id,
       csr_misa := (if use_E_base_isa then select_E_base_isa (csr_misa csr_table_init) else csr_misa csr_table_init)\<rparr>,
     iss_icsrs_m = icsr_ms_table_init MachineMode, iss_icsrs_s = icsr_ms_table_init SupervisorMode,
     iss_icsrs_vs = icsr_vs_table_init, iss_prv = MachineMode, iss_lr_sc_counter = 0, iss_total_num_instr = 0,
     iss_use_spmp = False, iss_use_smpu = False, iss_instr = 0, iss_op = UNDEF, iss_status = Runnable,
     iss_breakpoints = {}, iss_debug_mode = False, iss_cycle_counter = 0, iss_exceptionFlags = 0, iss_roundingMode = 0\<rparr>"

end
