(* ===== verification/VP_ISS_Imsic.thy ===== *)
theory VP_ISS_Imsic
  imports VP_ISS_State
begin

text \<open>
  Interrupt files and interrupt routing of the RV32 simulator (\<^verbatim>\<open>core/rv32/iss.cpp\<close>): what is pending
  at each level, the computation of the top external interrupt of an interrupt file, message
  signalled interrupts (\<^verbatim>\<open>route_imsic_write\<close>), claims, and the delivery of changes of the pending
  registers to the interrupt files in nested-vectored mode.

  \<^verbatim>\<open>compute_imsic_pending_interrupts_vs\<close> updates the guest-external line, whose change is itself
  delivered to an interrupt file and may call \<^verbatim>\<open>compute_imsic_pending_interrupts_vs\<close> again. The
  functions of this cycle take the operation for the inner call as an argument \<open>cvs\<close>; the cycle is
  closed with a bound on the depth of the recursion, and a recursion beyond the bound is
  undefined behaviour (the C++ stack overflows). One level is enough (\<open>imsic_recursion_bounded\<close>).
\<close>

section \<open>Pending interrupts per level\<close>

record PendingInterrupts =
  m_pending :: u64
  s_hs_pending :: u64
  vs_pending :: u64

definition compute_clint_pending_irq_bits_per_level :: "csr_table \<Rightarrow> PendingInterrupts res" where
  "compute_clint_pending_irq_bits_per_level t =
     (let c = csr_clint t;
          m = mie_reg c AND mip_reg c AND NOT (checked_read_mideleg_64 c);
          s = sip_routed_read_64 c AND sie_routed_read_64 c;
          hs = checked_read_hip c AND checked_read_hie c;
          s_hs = (s OR ucast hs) AND NOT (checked_read_hideleg_64 c);
          vs = vsip_routed_read_64 c AND vsie_routed_read_64 c in
      if is_local_injected (csr_hvictl t) then
        bind_res (transform_s_to_vs (ucast (get_s_iid (csr_hvictl t)))) (\<lambda>(tranformable, iid).
          let vs' = vs AND irq_bit EXC_VS_EXTERNAL_INTERRUPT in
          Inr \<lparr>m_pending = m, s_hs_pending = s_hs,
               vs_pending = (if tranformable then vs' OR BIT (unat iid) else vs')\<rparr>)
      else Inr \<lparr>m_pending = m, s_hs_pending = s_hs, vs_pending = vs\<rparr>)"

section \<open>Interrupt files\<close>

text \<open>\<^verbatim>\<open>__builtin_ctz\<close>, whose value is undefined for 0; the code calls it on a nonzero word.\<close>

definition builtin_ctz :: "u32 \<Rightarrow> nat" where
  "builtin_ctz w = (case find (bit w) [0..<32] of Some n \<Rightarrow> n | None \<Rightarrow> 0)"

definition NO_IRQ_PENDING :: u32 where "NO_IRQ_PENDING = IMSIC_MAX_IRQS * 2"

fun active_iid :: "icsr_32 list \<Rightarrow> icsr_32 list \<Rightarrow> nat list \<Rightarrow> u32" where
  "active_iid eip eie [] = NO_IRQ_PENDING"
| "active_iid eip eie (i # is) =
     (let ext_pend = i32_reg (eip ! i) AND i32_reg (eie ! i) in
      if ext_pend \<noteq> 0 then of_nat i * BITS_PER_CSR + of_nat (builtin_ctz ext_pend)
      else active_iid eip eie is)"

definition compute_imsic_pending :: "imsic_file \<Rightarrow> bool \<Rightarrow> (bool \<times> u32) res" where
  "compute_imsic_pending f nested_vectored =
     (if \<not> delivery_on (imf_eidelivery f) then Inr (False, 0)
      else assert_that (et_reg (imf_eithreshold f) < IMSIC_MAX_IRQS)
       (let eithreshold_value = (if et_reg (imf_eithreshold f) = 0 then IMSIC_MAX_IRQS else et_reg (imf_eithreshold f));
            active_iid_num = active_iid (imf_eip f) (imf_eie f) [0..<eip_eie_arr_size];
            threshold_matched = active_iid_num < eithreshold_value in
        Inr (threshold_matched, if threshold_matched \<or> nested_vectored then active_iid_num else 0)))"

definition imsic_update_eip_bit :: "u32 \<Rightarrow> bool \<Rightarrow> imsic_file \<Rightarrow> imsic_file res" where
  "imsic_update_eip_bit value set_b f =
     assert_that (is_upper_bound_valid_minor_iid value)
      (if value = 0 then Inr f
       else let eip_arr_idx = unat (value div BITS_PER_CSR); eip_bit = unat (value mod BITS_PER_CSR);
                e = imf_eip f ! eip_arr_idx in
         Inr (f\<lparr>imf_eip := (imf_eip f)[eip_arr_idx := e\<lparr>i32_reg :=
           (if set_b then i32_reg e OR ucast (BIT eip_bit) else i32_reg e AND NOT (ucast (BIT eip_bit)))\<rparr>]\<rparr>))"

definition m_file_res :: "(imsic_file \<Rightarrow> imsic_file res) \<Rightarrow> ('p iss, unit) op" where
  "m_file_res f = update_res (\<lambda>s. bind_res (f (ms_file (iss_icsrs_m s)))
     (\<lambda>x. Inr (s\<lparr>iss_icsrs_m := (iss_icsrs_m s)\<lparr>ms_file := x\<rparr>\<rparr>)))"

definition s_file_res :: "(imsic_file \<Rightarrow> imsic_file res) \<Rightarrow> ('p iss, unit) op" where
  "s_file_res f = update_res (\<lambda>s. bind_res (f (ms_file (iss_icsrs_s s)))
     (\<lambda>x. Inr (s\<lparr>iss_icsrs_s := (iss_icsrs_s s)\<lparr>ms_file := x\<rparr>\<rparr>)))"

definition vs_file_res :: "nat \<Rightarrow> (imsic_file \<Rightarrow> imsic_file res) \<Rightarrow> ('p iss, unit) op" where
  "vs_file_res g f = update_res (\<lambda>s. let b = vs_bank (iss_icsrs_vs s) ! g in
     bind_res (f (vb_file b)) (\<lambda>x. Inr (s\<lparr>iss_icsrs_vs :=
       (iss_icsrs_vs s)\<lparr>vs_bank := (vs_bank (iss_icsrs_vs s))[g := b\<lparr>vb_file := x\<rparr>]\<rparr>\<rparr>)))"

definition hw_line :: "u32 \<Rightarrow> bool \<Rightarrow> ('p iss, unit) op" where
  "hw_line iid st = csr_res (\<lambda>t. bind_res (hw_write_mip iid st (csr_clint t)) (\<lambda>(edge, c). Inr (t\<lparr>csr_clint := c\<rparr>)))"

definition compute_imsic_pending_interrupts_m :: "('p iss, unit) op" where
  "compute_imsic_pending_interrupts_m =
     bind_op (get_op iss_csrs (\<lambda>t. lift_op (is_irq_mode_snps_nested_vectored MachineMode t))) (\<lambda>nv.
     bind_op (get_op (\<lambda>s. ms_file (iss_icsrs_m s)) (\<lambda>f. lift_op (compute_imsic_pending f nv))) (\<lambda>(irq_pending, topei_val).
     seq_op (hw_line EXC_M_EXTERNAL_INTERRUPT irq_pending)
       (csr_res (set_topei MachineMode topei_val))))"

definition compute_imsic_pending_interrupts_s :: "('p iss, unit) op" where
  "compute_imsic_pending_interrupts_s =
     bind_op (get_op iss_csrs (\<lambda>t. lift_op (is_irq_mode_snps_nested_vectored SupervisorMode t))) (\<lambda>nv.
     bind_op (get_op (\<lambda>s. ms_file (iss_icsrs_s s)) (\<lambda>f. lift_op (compute_imsic_pending f nv))) (\<lambda>(irq_pending, topei_val).
     seq_op (hw_line EXC_S_EXTERNAL_INTERRUPT irq_pending)
       (csr_res (set_topei SupervisorMode topei_val))))"

section \<open>Priority numbers\<close>

definition get_iprio :: "PrivilegeLevel \<Rightarrow> u32 \<Rightarrow> 'p iss \<Rightarrow> u8 res" where
  "get_iprio level iid s =
     assert_that (is_irq_capable_level level)
      (if level = MachineMode then arr_get_iprio (ms_iprio (iss_icsrs_m s)) iid
       else if level = SupervisorMode then arr_get_iprio (ms_iprio (iss_icsrs_s s)) iid
       else bind_res (transform_vs_to_s iid) (\<lambda>s_iid.
         arr_get_iprio (vs_iprio (iss_icsrs_vs s) ! unat (get_vgein (csr_hstatus (iss_csrs s)))) s_iid))"

section \<open>Routing\<close>

definition route_imsic_write_with :: "('p iss, unit) op \<Rightarrow> PrivilegeLevel \<Rightarrow> u32 \<Rightarrow> u32 \<Rightarrow> ('p iss, unit) op" where
  "route_imsic_write_with cvs target_imsic guest_index value =
     seq_op (assert_op (value < IMSIC_MAX_IRQS)) (
     seq_op (assert_op (guest_index < MAX_GUEST)) (
       if value = 0 then ret_op ()
       else if target_imsic = MachineMode then
         seq_op (m_file_res (imsic_update_eip_bit value True)) compute_imsic_pending_interrupts_m
       else if target_imsic = SupervisorMode then
         seq_op (s_file_res (imsic_update_eip_bit value True)) compute_imsic_pending_interrupts_s
       else if target_imsic = VirtualSupervisorMode then
         seq_op (vs_file_res (unat guest_index) (imsic_update_eip_bit value True)) cvs
       else fail_op AssertFailed))"

definition pending_target :: "PendingInterrupts \<Rightarrow> PendingInterrupts \<Rightarrow> u32 \<Rightarrow> (PrivilegeLevel \<times> bool) option" where
  "pending_target prev_pendings new_pendings iid =
     (if m_pending new_pendings AND BIT (unat iid) \<noteq> 0 then
        Some (MachineMode, pendings_edge_detected (m_pending prev_pendings) (m_pending new_pendings) iid)
      else if s_hs_pending new_pendings AND BIT (unat iid) \<noteq> 0 then
        Some (SupervisorMode, pendings_edge_detected (s_hs_pending prev_pendings) (s_hs_pending new_pendings) iid)
      else if vs_pending new_pendings AND BIT (unat iid) \<noteq> 0 then
        Some (VirtualSupervisorMode, pendings_edge_detected (vs_pending prev_pendings) (vs_pending new_pendings) iid)
      else None)"

definition deliver_pending_to_imsic_with ::
  "('p iss, unit) op \<Rightarrow> PendingInterrupts \<Rightarrow> PendingInterrupts \<Rightarrow> u32 \<Rightarrow> ('p iss, unit) op" where
  "deliver_pending_to_imsic_with cvs prev_pendings new_pendings iid =
     (case pending_target prev_pendings new_pendings iid of
        None \<Rightarrow> ret_op ()
      | Some (imsic_level, edge) \<Rightarrow>
          if \<not> edge then ret_op ()
          else bind_op (lift_op (get_external_iid imsic_level)) (\<lambda>ext.
            if iid = ext then ret_op ()
            else
            seq_op (assert_op (iid \<noteq> EXC_M_EXTERNAL_INTERRUPT)) (
            seq_op (assert_op (if iid = EXC_S_EXTERNAL_INTERRUPT then imsic_level = MachineMode else True)) (
            seq_op (assert_op (if iid = EXC_VS_EXTERNAL_INTERRUPT then imsic_level = SupervisorMode else True)) (
            bind_op (get_op iss_csrs (\<lambda>t. lift_op (is_irq_mode_snps_nested_vectored imsic_level t))) (\<lambda>nv.
              if \<not> nv then ret_op ()
              else get_op (\<lambda>s. csr_hstatus (iss_csrs s)) (\<lambda>hstatus.
                if imsic_level = VirtualSupervisorMode \<and> \<not> is_imsic_connected hstatus then ret_op ()
                else bind_op (\<lambda>s. (get_iprio imsic_level iid s, s)) (\<lambda>minor_iid.
                  route_imsic_write_with cvs imsic_level (get_guest_id hstatus) (ucast minor_iid)))))))))"

definition pendings_op :: "(PendingInterrupts \<Rightarrow> ('p iss, 'a) op) \<Rightarrow> ('p iss, 'a) op" where
  "pendings_op f = bind_op (get_op iss_csrs (\<lambda>t. lift_op (compute_clint_pending_irq_bits_per_level t))) f"

definition cascade_pendings_to_imsics_with :: "('p iss, unit) op \<Rightarrow> PendingInterrupts \<Rightarrow> ('p iss, unit) op" where
  "cascade_pendings_to_imsics_with cvs pendings_1 =
     pendings_op (\<lambda>pendings_2.
     seq_op (deliver_pending_to_imsic_with cvs pendings_1 pendings_2 EXC_VS_EXTERNAL_INTERRUPT) (
     pendings_op (\<lambda>pendings_3.
       deliver_pending_to_imsic_with cvs pendings_2 pendings_3 EXC_S_EXTERNAL_INTERRUPT)))"

definition deliver_clint_change_to_imsics_with ::
  "('p iss, unit) op \<Rightarrow> PendingInterrupts \<Rightarrow> u32 \<Rightarrow> ('p iss, unit) op" where
  "deliver_clint_change_to_imsics_with cvs old_pendings_0 iid =
     pendings_op (\<lambda>pendings_1.
     seq_op (deliver_pending_to_imsic_with cvs old_pendings_0 pendings_1 iid)
       (cascade_pendings_to_imsics_with cvs pendings_1))"

definition clint_hw_irq_route_with :: "('p iss, unit) op \<Rightarrow> u32 \<Rightarrow> bool \<Rightarrow> ('p iss, unit) op" where
  "clint_hw_irq_route_with cvs iid st =
     seq_op (assert_op (major_is_valid iid)) (
     pendings_op (\<lambda>old_pendings_0.
     seq_op (hw_line iid st) (deliver_clint_change_to_imsics_with cvs old_pendings_0 iid)))"

definition recalc_sgeip_with :: "('p iss, unit) op \<Rightarrow> ('p iss, unit) op" where
  "recalc_sgeip_with cvs =
     get_op (\<lambda>s. hgeip_checked_read (csr_hgeip (iss_csrs s)) AND hgeie_checked_read (csr_hgeie (iss_csrs s)))
      (\<lambda>pending. clint_hw_irq_route_with cvs EXC_S_GUEST_EXTERNAL_INTERRUPT (pending \<noteq> 0))"

text \<open>The loop over the guest files: pending state and top identity of each, with \<^verbatim>\<open>hgeip\<close> updated.\<close>

fun guest_files_pending :: "nat list \<Rightarrow> ('p iss, (bool \<times> u32) list) op" where
  "guest_files_pending [] = ret_op []"
| "guest_files_pending (i # is) =
     bind_op (get_op iss_csrs (\<lambda>t. lift_op (is_irq_mode_snps_nested_vectored VirtualSupervisorMode t))) (\<lambda>nv.
     bind_op (get_op (\<lambda>s. vb_file (vs_bank (iss_icsrs_vs s) ! i)) (\<lambda>f. lift_op (compute_imsic_pending f nv))) (\<lambda>(pend, eiid).
     seq_op (csr_res (\<lambda>t. bind_res (set_guest_pending (of_nat i) pend (csr_hgeip t)) (\<lambda>r. Inr (t\<lparr>csr_hgeip := r\<rparr>)))) (
     bind_op (guest_files_pending is) (\<lambda>rest. ret_op ((pend, eiid) # rest)))))"

fun compute_imsic_pending_interrupts_vs_depth :: "nat \<Rightarrow> ('p iss, unit) op" where
  "compute_imsic_pending_interrupts_vs_depth 0 = fail_op UndefinedBehaviour"
| "compute_imsic_pending_interrupts_vs_depth (Suc n) =
     bind_op (guest_files_pending [0..<unat MAX_GUEST]) (\<lambda>vs.
     seq_op (recalc_sgeip_with (compute_imsic_pending_interrupts_vs_depth n)) (
     get_op (\<lambda>s. csr_hstatus (iss_csrs s)) (\<lambda>hstatus.
       if is_imsic_connected hstatus then
         (let current_guest = unat (get_guest_id hstatus) in
          seq_op (hw_line EXC_VS_EXTERNAL_INTERRUPT (fst (vs ! current_guest)))
            (csr_res (set_topei VirtualSupervisorMode (snd (vs ! current_guest)))))
       else
         seq_op (csr_res (set_topei VirtualSupervisorMode 0)) (hw_line EXC_VS_EXTERNAL_INTERRUPT False))))"

definition compute_imsic_pending_interrupts_vs :: "('p iss, unit) op" where
  "compute_imsic_pending_interrupts_vs = compute_imsic_pending_interrupts_vs_depth 1"

definition route_imsic_write :: "PrivilegeLevel \<Rightarrow> u32 \<Rightarrow> u32 \<Rightarrow> ('p iss, unit) op" where
  "route_imsic_write = route_imsic_write_with compute_imsic_pending_interrupts_vs"

definition deliver_pending_to_imsic :: "PendingInterrupts \<Rightarrow> PendingInterrupts \<Rightarrow> u32 \<Rightarrow> ('p iss, unit) op" where
  "deliver_pending_to_imsic = deliver_pending_to_imsic_with compute_imsic_pending_interrupts_vs"

definition clint_hw_irq_route :: "u32 \<Rightarrow> bool \<Rightarrow> ('p iss, unit) op" where
  "clint_hw_irq_route = clint_hw_irq_route_with compute_imsic_pending_interrupts_vs"

definition recalc_sgeip :: "('p iss, unit) op" where
  "recalc_sgeip = recalc_sgeip_with compute_imsic_pending_interrupts_vs"

fun deliver_all :: "PendingInterrupts \<Rightarrow> PendingInterrupts \<Rightarrow> nat list \<Rightarrow> ('p iss, unit) op" where
  "deliver_all old_pendings_0 pendings_1 [] = ret_op ()"
| "deliver_all old_pendings_0 pendings_1 (iid # iids) =
     seq_op (deliver_pending_to_imsic old_pendings_0 pendings_1 (of_nat iid)) (deliver_all old_pendings_0 pendings_1 iids)"

definition deliver_clint_changes_to_imsics :: "PendingInterrupts \<Rightarrow> ('p iss, unit) op" where
  "deliver_clint_changes_to_imsics old_pendings_0 =
     pendings_op (\<lambda>pendings_1.
     seq_op (deliver_all old_pendings_0 pendings_1 [0..<unat MAX_INTERRUPTS_NUM])
       (cascade_pendings_to_imsics_with compute_imsic_pending_interrupts_vs pendings_1))"

definition iprio_icsr_access_adjust :: "('p iss, unit) op" where
  "iprio_icsr_access_adjust = modify_op (\<lambda>s. let c = csr_clint (iss_csrs s) in
     s\<lparr>iss_icsrs_s := (iss_icsrs_s s)\<lparr>ms_iprio := update_dynamic_presence (s_irqs_present c) (ms_iprio (iss_icsrs_s s))\<rparr>,
       iss_icsrs_vs := vs_update_dynamic_presence (vs_irqs_present c) (iss_icsrs_vs s)\<rparr>)"

text \<open>\<^verbatim>\<open>ISS::init\<close>: the platform's entry point and stack pointer.\<close>

definition iss_init :: "u32 \<Rightarrow> u32 \<Rightarrow> ('p iss, unit) op" where
  "iss_init entrypoint sp = seq_op
     (modify_op (\<lambda>s. s\<lparr>iss_regs := (iss_regs s)[reg_sp := sp], iss_pc := entrypoint\<rparr>)) iprio_icsr_access_adjust"

definition on_clint_csr_write :: "u32 \<Rightarrow> u32 \<Rightarrow> ('p iss, unit) op" where
  "on_clint_csr_write addr value =
     pendings_op (\<lambda>old_pendings_0.
     seq_op (csr_res (\<lambda>t. bind_res (clint_csr_write addr value (csr_clint t)) (\<lambda>c. Inr (t\<lparr>csr_clint := c\<rparr>)))) (
     seq_op iprio_icsr_access_adjust
       (deliver_clint_changes_to_imsics old_pendings_0)))"

section \<open>Claims, modes and interrupt lines\<close>

definition claim_topei_interrupt :: "PrivilegeLevel \<Rightarrow> bool \<Rightarrow> ('p iss, unit) op" where
  "claim_topei_interrupt target_level mark_irq_handled =
     seq_op (assert_op (is_irq_capable_level target_level)) (
     bind_op (get_op iss_csrs (\<lambda>t. lift_op (get_topei target_level t))) (\<lambda>topei.
       let update = (if mark_irq_handled
                     then (\<lambda>f. Inr (f\<lparr>imf_eithreshold := mark_irq_as_handled (imf_eithreshold f)\<rparr>))
                     else imsic_update_eip_bit (topei_iid topei) False) in
       if target_level = MachineMode then seq_op (m_file_res update) compute_imsic_pending_interrupts_m
       else if target_level = SupervisorMode then seq_op (s_file_res update) compute_imsic_pending_interrupts_s
       else get_op (\<lambda>s. csr_hstatus (iss_csrs s)) (\<lambda>hstatus.
         seq_op (when_op (is_imsic_connected hstatus) (vs_file_res (unat (get_guest_id hstatus)) update))
           compute_imsic_pending_interrupts_vs)))"

definition claim_topei_interrupt_on_xtopei :: "PrivilegeLevel \<Rightarrow> u32 \<Rightarrow> bool \<Rightarrow> ('p iss, unit) op" where
  "claim_topei_interrupt_on_xtopei target_level value access_write_only =
     bind_op (get_op iss_csrs (\<lambda>t. lift_op (is_irq_mode_snps_nested_vectored target_level t))) (\<lambda>nv.
       claim_topei_interrupt target_level (nv \<and> value = 0 \<and> access_write_only))"

definition claim_topei_interrupt_internal :: "PrivilegeLevel \<Rightarrow> ('p iss, unit) op" where
  "claim_topei_interrupt_internal target_level = claim_topei_interrupt target_level False"

definition set_threshold_mode :: "u32 \<Rightarrow> imsic_file \<Rightarrow> imsic_file res" where
  "set_threshold_mode mode f = Inr (f\<lparr>imf_eithreshold := set_mode_snps_vectored mode (imf_eithreshold f)\<rparr>)"

definition update_interrupt_mode :: "PrivilegeLevel \<Rightarrow> ('p iss, unit) op" where
  "update_interrupt_mode level = get_op iss_csrs (\<lambda>t.
     if level = MachineMode then m_file_res (set_threshold_mode (mtvec_mode (csr_mtvec t)))
     else if level = VirtualSupervisorMode then
       when_op (is_imsic_connected (csr_hstatus t))
         (vs_file_res (unat (get_guest_id (csr_hstatus t))) (set_threshold_mode (mtvec_mode (csr_vstvec t))))
     else if level = SupervisorMode then s_file_res (set_threshold_mode (mtvec_mode (csr_stvec t)))
     else fail_op AssertFailed)"

definition on_xtvec_write :: "PrivilegeLevel \<Rightarrow> ('p iss, unit) op" where
  "on_xtvec_write level = update_interrupt_mode level"

definition on_guest_switch :: "('p iss, unit) op" where
  "on_guest_switch = seq_op (update_interrupt_mode VirtualSupervisorMode) compute_imsic_pending_interrupts_vs"

definition on_xenvcfgh_write :: "('p iss, unit) op" where
  "on_xenvcfgh_write =
     seq_op (get_op (\<lambda>s. xenvcfgh_stce (xe_reg (csr_menvcfgh (iss_csrs s))) \<noteq> 0) (\<lambda>stce.
       if stce then csr_op (\<lambda>t. t\<lparr>csr_henvcfgh := make_stce_present True (csr_henvcfgh t)\<rparr>)
       else seq_op (csr_op (\<lambda>t. t\<lparr>csr_henvcfgh := make_stce_present False (csr_henvcfgh t)\<rparr>))
              (hw_line EXC_S_TIMER_INTERRUPT False))) (
     get_op (\<lambda>s. xenvcfgh_stce (xe_reg (csr_henvcfgh (iss_csrs s))) \<noteq> 0) (\<lambda>stce.
       when_op (\<not> stce) (hw_line EXC_VS_TIMER_INTERRUPT False)))"

definition trigger_external_interrupt :: "PrivilegeLevel \<Rightarrow> ('p iss, unit) op" where
  "trigger_external_interrupt level = fail_op AssertFailed"

definition trigger_timer_interrupt :: "bool \<Rightarrow> PrivilegeLevel \<Rightarrow> ('p iss, unit) op" where
  "trigger_timer_interrupt status timer =
     (if timer = MachineMode then clint_hw_irq_route EXC_M_TIMER_INTERRUPT status
      else if timer = SupervisorMode then clint_hw_irq_route EXC_S_TIMER_INTERRUPT status
      else if timer = VirtualSupervisorMode then clint_hw_irq_route EXC_VS_TIMER_INTERRUPT status
      else fail_op AssertFailed)"

definition trigger_software_interrupt :: "bool \<Rightarrow> PrivilegeLevel \<Rightarrow> ('p iss, unit) op" where
  "trigger_software_interrupt status sw_irq_type =
     seq_op (assert_op (is_valid_privilege_level sw_irq_type))
      (if sw_irq_type = MachineMode then clint_hw_irq_route EXC_M_SOFTWARE_INTERRUPT status
       else if sw_irq_type = SupervisorMode then clint_hw_irq_route EXC_S_SOFTWARE_INTERRUPT status
       else fail_op AssertFailed)"

end
