(* ===== verification/VP_ISS_Irq.thy ===== *)
theory VP_ISS_Irq
  imports VP_ISS_Imsic
begin

text \<open>
  Interrupt selection of the RV32 simulator (\<^verbatim>\<open>core/rv32/iss.cpp\<close>): the priority of a pending
  interrupt at a level, the \<^verbatim>\<open>xtopi\<close> registers, which level a pending interrupt is taken at, and the
  bookkeeping of the interrupt file when an interrupt is taken in nested-vectored mode. The loop
  that selects the interrupt of highest priority is \<open>prepare_iid_prio\<close> (theory \<^verbatim>\<open>VP_Irq_Prio\<close>), applied
  to the priority function of the level.
\<close>

section \<open>Priorities\<close>

definition get_external_cprio_generic :: "PrivilegeLevel \<Rightarrow> csr_table \<Rightarrow> irq_cprio res" where
  "get_external_cprio_generic level t =
     bind_res (get_topei level t) (\<lambda>topei. irq_cprio_external level (topei_iid topei))"

definition get_external_cprio_256 :: "PrivilegeLevel \<Rightarrow> irq_cprio res" where
  "get_external_cprio_256 level = irq_cprio_external level 256"

definition get_external_cprio :: "PrivilegeLevel \<Rightarrow> csr_table \<Rightarrow> irq_cprio res" where
  "get_external_cprio level t =
     assert_that (is_irq_capable_level level)
      (bind_res (if level = SupervisorMode
                 then is_iid_injected (csr_clint t) SupervisorMode EXC_S_EXTERNAL_INTERRUPT else Inr False)
        (\<lambda>injected.
          if injected then get_external_cprio_256 level
          else if level = VirtualSupervisorMode then
            (if is_imsic_connected (csr_hstatus t) then
               bind_res (get_topei level t) (\<lambda>topei.
                 if topei \<noteq> 0 then get_external_cprio_generic level t else get_external_cprio_256 level)
             else if is_external_injected (csr_hvictl t) then irq_cprio_external level (hvictl_iprio (csr_hvictl t))
             else get_external_cprio_256 level)
          else get_external_cprio_generic level t))"

definition get_local_cprio :: "PrivilegeLevel \<Rightarrow> u32 \<Rightarrow> 'p iss \<Rightarrow> irq_cprio res" where
  "get_local_cprio level iid s =
     (let hvictl = csr_hvictl (iss_csrs s) in
      assert_that (is_irq_capable_level level)
       (bind_res (if level = VirtualSupervisorMode \<and> is_local_injected hvictl
                  then bind_res (transform_vs_to_s iid) (\<lambda>s_iid. Inr (s_iid = ucast (get_s_iid hvictl)))
                  else Inr False)
         (\<lambda>injected.
           if injected then irq_cprio_injected level iid (get_prio hvictl) (hvictl_dpr hvictl \<noteq> 0)
           else bind_res (get_iprio level iid s) (\<lambda>iprio. irq_cprio_local level iid iprio))))"

definition major_irq_to_prio :: "PrivilegeLevel \<Rightarrow> 'p iss \<Rightarrow> u32 \<Rightarrow> irq_cprio res" where
  "major_irq_to_prio target_level s iid =
     assert_that (major_is_valid iid)
      (assert_that (is_irq_capable_level target_level)
        (if target_level = MachineMode \<and> iid = EXC_M_EXTERNAL_INTERRUPT then get_external_cprio MachineMode (iss_csrs s)
         else if target_level = SupervisorMode \<and> iid = EXC_S_EXTERNAL_INTERRUPT then get_external_cprio SupervisorMode (iss_csrs s)
         else if target_level = VirtualSupervisorMode \<and> iid = EXC_VS_EXTERNAL_INTERRUPT then get_external_cprio VirtualSupervisorMode (iss_csrs s)
         else get_local_cprio target_level iid s))"

definition major_irq_prepare_iid_prio :: "PrivilegeLevel \<Rightarrow> u64 \<Rightarrow> 'p iss \<Rightarrow> (u32 \<times> u8) res" where
  "major_irq_prepare_iid_prio level levels_pending s = prepare_iid_prio (major_irq_to_prio level s) levels_pending"

section \<open>Pending interrupts that can be taken\<close>

definition process_clint_pending_irq_bits_per_level :: "PendingInterrupts \<Rightarrow> csr_table \<Rightarrow> PendingInterrupts res" where
  "process_clint_pending_irq_bits_per_level pendings t =
     bind_res (is_irq_mode_snps_nested_vectored MachineMode t) (\<lambda>m_nv.
     bind_res (is_irq_mode_snps_nested_vectored SupervisorMode t) (\<lambda>s_nv.
     bind_res (is_irq_mode_snps_nested_vectored VirtualSupervisorMode t) (\<lambda>vs_nv.
       let p1 = (if m_nv then pendings\<lparr>m_pending := m_pending pendings AND irq_bit EXC_M_EXTERNAL_INTERRUPT\<rparr> else pendings);
           p2 = (if s_nv then p1\<lparr>s_hs_pending := s_hs_pending p1 AND irq_bit EXC_S_EXTERNAL_INTERRUPT\<rparr> else p1) in
       Inr (if vs_nv then p2\<lparr>vs_pending := vs_pending p2 AND irq_bit EXC_VS_EXTERNAL_INTERRUPT\<rparr> else p2))))"

definition non_ext_irqs :: u64 where
  "non_ext_irqs = NOT (irq_bit EXC_M_EXTERNAL_INTERRUPT OR irq_bit EXC_S_EXTERNAL_INTERRUPT OR irq_bit EXC_VS_EXTERNAL_INTERRUPT)"

definition sanitize_vs_external_pend :: "PendingInterrupts \<Rightarrow> csr_table \<Rightarrow> unit res" where
  "sanitize_vs_external_pend irqs_pend t =
     (let vs_ext_irq = irq_bit EXC_VS_EXTERNAL_INTERRUPT in
      assert_that (m_pending irqs_pend AND vs_ext_irq = 0)
       (bind_res (if \<not> is_imsic_connected (csr_hstatus t) \<and> hvip (csr_clint t) AND irq_bit EXC_VS_EXTERNAL_INTERRUPT = 0
                  then assert_that (s_hs_pending irqs_pend AND vs_ext_irq = 0)
                        (assert_that (vs_pending irqs_pend AND vs_ext_irq = 0) (Inr ()))
                  else Inr ()) (\<lambda>_.
        bind_res (is_irq_mode_snps_nested_vectored MachineMode t) (\<lambda>m_nv.
        assert_that (m_nv \<longrightarrow> m_pending irqs_pend AND non_ext_irqs = 0)
        (bind_res (is_irq_mode_snps_nested_vectored SupervisorMode t) (\<lambda>s_nv.
        assert_that (s_nv \<longrightarrow> s_hs_pending irqs_pend AND non_ext_irqs = 0)
        (bind_res (is_irq_mode_snps_nested_vectored VirtualSupervisorMode t) (\<lambda>vs_nv.
        assert_that (vs_nv \<longrightarrow> vs_pending irqs_pend AND non_ext_irqs = 0) (Inr ())))))))))"

definition set_topi :: "u32 \<Rightarrow> u8 \<Rightarrow> u32 \<Rightarrow> u32" where
  "set_topi exc iprio topi = set_topi_iprio (ucast iprio) (set_topi_iid exc topi)"

definition recalc_xtopi :: "PendingInterrupts \<Rightarrow> ('p iss, unit) op" where
  "recalc_xtopi irqs_pend =
     seq_op (get_op iss_csrs (\<lambda>t. lift_op (sanitize_vs_external_pend irqs_pend t))) (
     seq_op (if m_pending irqs_pend \<noteq> 0 then
         bind_op (\<lambda>s. (major_irq_prepare_iid_prio MachineMode (m_pending irqs_pend) s, s)) (\<lambda>(exc, iprio).
           csr_op (\<lambda>t. t\<lparr>csr_mtopi := set_topi exc iprio (csr_mtopi t)\<rparr>))
       else csr_op (\<lambda>t. t\<lparr>csr_mtopi := 0\<rparr>)) (
     seq_op (if s_hs_pending irqs_pend \<noteq> 0 then
         bind_op (\<lambda>s. (major_irq_prepare_iid_prio SupervisorMode (s_hs_pending irqs_pend) s, s)) (\<lambda>(exc, iprio).
           csr_op (\<lambda>t. t\<lparr>csr_stopi := set_topi exc iprio (csr_stopi t)\<rparr>))
       else csr_op (\<lambda>t. t\<lparr>csr_stopi := 0\<rparr>))
     (if vs_pending irqs_pend \<noteq> 0 then
         bind_op (\<lambda>s. (major_irq_prepare_iid_prio VirtualSupervisorMode (vs_pending irqs_pend) s, s)) (\<lambda>(exc, iprio).
         bind_op (lift_op (transform_vs_to_s exc)) (\<lambda>s_exc.
           csr_op (\<lambda>t. t\<lparr>csr_vstopi := set_topi s_exc iprio (csr_vstopi t)\<rparr>)))
       else csr_op (\<lambda>t. t\<lparr>csr_vstopi := 0\<rparr>))))"

definition is_irq_globaly_enable_per_level :: "PrivilegeLevel \<Rightarrow> 'p iss \<Rightarrow> bool res" where
  "is_irq_globaly_enable_per_level target_mode s =
     (let prv = iss_prv s; t = iss_csrs s in
      if target_mode = MachineMode then
        Inr (prv \<noteq> MachineMode \<or> prv = MachineMode \<and> mstatus_mie (csr_mstatus t) \<noteq> 0)
      else if target_mode = SupervisorMode then
        Inr (prv \<noteq> MachineMode \<and> prv \<noteq> SupervisorMode \<or> prv = SupervisorMode \<and> mstatus_sie (csr_mstatus t) \<noteq> 0)
      else if target_mode = VirtualSupervisorMode then
        Inr (prv = VirtualUserMode \<or> prv = VirtualSupervisorMode \<and> vsstatus_sie (csr_vsstatus t) \<noteq> 0)
      else Inl (RuntimeError ''unexpected privilege level''))"

definition compute_pending_interrupt :: "PendingInterrupts \<Rightarrow> 'p iss \<Rightarrow> PrivilegeLevel res" where
  "compute_pending_interrupt irqs_pend s =
     bind_res (is_irq_globaly_enable_per_level MachineMode s) (\<lambda>m_en.
     if m_pending irqs_pend \<noteq> 0 \<and> m_en then Inr MachineMode
     else bind_res (is_irq_globaly_enable_per_level SupervisorMode s) (\<lambda>s_en.
     if s_hs_pending irqs_pend \<noteq> 0 \<and> s_en then Inr SupervisorMode
     else bind_res (is_irq_globaly_enable_per_level VirtualSupervisorMode s) (\<lambda>vs_en.
     if vs_pending irqs_pend \<noteq> 0 \<and> vs_en then Inr VirtualSupervisorMode
     else Inr NoneMode)))"

definition set_interrupt_cause :: "u32 \<Rightarrow> u32 \<Rightarrow> u32" where
  "set_interrupt_cause iid xcause = set_mcause_interrupt 1 (set_mcause_exception_code iid xcause)"

definition prepare_interrupt :: "('p iss, PrivilegeLevel \<times> bool) op" where
  "prepare_interrupt =
     pendings_op (\<lambda>pendings.
     bind_op (get_op iss_csrs (\<lambda>t. lift_op (process_clint_pending_irq_bits_per_level pendings t))) (\<lambda>irqs_pend.
     seq_op (recalc_xtopi irqs_pend) (
     bind_op (\<lambda>s. (compute_pending_interrupt irqs_pend s, s)) (\<lambda>target_mode.
       if target_mode = NoneMode then ret_op (target_mode, False)
       else seq_op
         (if target_mode = MachineMode then
            csr_op (\<lambda>t. t\<lparr>csr_mcause := set_interrupt_cause (topi_iid (csr_mtopi t)) (csr_mcause t), csr_mtinst := 0\<rparr>)
          else if target_mode = SupervisorMode then
            csr_op (\<lambda>t. t\<lparr>csr_scause := set_interrupt_cause (topi_iid (csr_stopi t)) (csr_scause t), csr_htinst := 0\<rparr>)
          else if target_mode = VirtualSupervisorMode then
            csr_op (\<lambda>t. t\<lparr>csr_vscause := set_interrupt_cause (topi_iid (csr_vstopi t)) (csr_vscause t)\<rparr>)
          else fail_op AssertFailed)
         (ret_op (target_mode, True))))))"

section \<open>Taking an interrupt\<close>

definition threshold_irq :: "u32 \<Rightarrow> imsic_file \<Rightarrow> imsic_file res" where
  "threshold_irq iid f =
     bind_res (update_with_new_irq iid (imf_eithreshold f)) (\<lambda>e. Inr (f\<lparr>imf_eithreshold := e\<rparr>))"

definition notify_irq_taken :: "PrivilegeLevel \<Rightarrow> ('p iss, unit) op" where
  "notify_irq_taken target_mode =
     bind_op (get_op iss_csrs (\<lambda>t. lift_op (get_topei target_mode t))) (\<lambda>topei.
     let iid = topei_iid topei in
     if target_mode = MachineMode then
       bind_op (get_op iss_csrs (\<lambda>t. lift_op (is_irq_mode_snps_nested_vectored target_mode t))) (\<lambda>nv.
         when_op nv (seq_op (m_file_res (threshold_irq iid)) (claim_topei_interrupt_internal target_mode)))
     else if target_mode = SupervisorMode then
       bind_op (get_op iss_csrs (\<lambda>t. lift_op (is_irq_mode_snps_nested_vectored target_mode t))) (\<lambda>nv.
       bind_op (get_op iss_csrs (\<lambda>t. lift_op (if nv then is_iid_injected (csr_clint t) target_mode EXC_S_EXTERNAL_INTERRUPT else Inr True))) (\<lambda>injected.
         when_op (nv \<and> \<not> injected) (seq_op (s_file_res (threshold_irq iid)) (claim_topei_interrupt_internal target_mode))))
     else if target_mode = VirtualSupervisorMode then
       get_op (\<lambda>s. csr_hstatus (iss_csrs s)) (\<lambda>hstatus.
       bind_op (get_op iss_csrs (\<lambda>t. lift_op (is_irq_mode_snps_nested_vectored target_mode t))) (\<lambda>nv.
         when_op (is_imsic_connected hstatus \<and> nv)
           (seq_op (vs_file_res (unat (get_guest_id hstatus)) (threshold_irq iid)) (claim_topei_interrupt_internal target_mode))))
     else fail_op AssertFailed)"

end
