(* ===== verification/VP_ISS_Trap.thy ===== *)
theory VP_ISS_Trap
  imports VP_ISS_Irq
begin

text \<open>
  Traps of the RV32 simulator (\<^verbatim>\<open>core/rv32/iss.cpp\<close>): delegation of an exception to a level, entry
  into a trap handler, return from one with \<^verbatim>\<open>mret\<close> and \<^verbatim>\<open>sret\<close>, the swap of the stack pointer on a
  change of mode and the interrupt vector tables.
\<close>

section \<open>Stack pointers\<close>

definition swap_stack_pointer :: "(csr_table \<Rightarrow> u32) \<Rightarrow> (u32 \<Rightarrow> csr_table \<Rightarrow> csr_table) \<Rightarrow> ('p iss, unit) op" where
  "swap_stack_pointer get_sp put_sp = modify_op (\<lambda>s. s\<lparr>
     iss_csrs := put_sp (iss_regs s ! reg_sp) (iss_csrs s),
     iss_regs := (iss_regs s)[reg_sp := get_sp (iss_csrs s)]\<rparr>)"

definition stsp_swap_sp_on_mode_change :: "PrivilegeLevel \<Rightarrow> PrivilegeLevel \<Rightarrow> ('p iss, unit) op" where
  "stsp_swap_sp_on_mode_change base_mode desc_mode = get_op iss_csrs (\<lambda>t.
     if base_mode = MachineMode then
       when_op (menvcfg_mtsp (csr_menvcfg t) \<noteq> 0 \<and> desc_mode \<noteq> MachineMode)
         (swap_stack_pointer csr_mtsp (\<lambda>v t. t\<lparr>csr_mtsp := v\<rparr>))
     else if base_mode = VirtualSupervisorMode then
       when_op (henvcfg_vgtsp (csr_henvcfg t) \<noteq> 0 \<and> desc_mode \<noteq> VirtualSupervisorMode)
         (swap_stack_pointer csr_vstsp (\<lambda>v t. t\<lparr>csr_vstsp := v\<rparr>))
     else if base_mode = SupervisorMode then
       seq_op (when_op (henvcfg_htsp (csr_henvcfg t) \<noteq> 0 \<and> PrivilegeLevelToV desc_mode \<noteq> 0)
                (swap_stack_pointer csr_htsp (\<lambda>v t. t\<lparr>csr_htsp := v\<rparr>)))
              (when_op (senvcfg_stsp (csr_senvcfg t) \<noteq> 0 \<and> PrivilegeLevelToV desc_mode = 0 \<and> desc_mode \<noteq> SupervisorMode)
                (swap_stack_pointer csr_stsp (\<lambda>v t. t\<lparr>csr_stsp := v\<rparr>)))
     else fail_op AssertFailed)"

section \<open>Delegation of exceptions\<close>

definition iss_get_xtinst :: "u32 \<Rightarrow> 'p iss \<Rightarrow> u32" where
  "iss_get_xtinst reason s =
     (if is_compressed (iss_instr s) then 0
      else if reason \<in> {EXC_LOAD_PAGE_FAULT, EXC_STORE_AMO_PAGE_FAULT, EXC_LOAD_GUEST_PAGE_FAULT,
                         EXC_STORE_AMO_GUEST_PAGE_FAULT, EXC_LOAD_ACCESS_FAULT, EXC_STORE_AMO_ACCESS_FAULT}
      then get_xtinst (iss_instr s)
      else 0)"

text \<open>
  \<^verbatim>\<open>boost::lexical_cast<uint32_t>\<close> of a 64-bit value prints it and parses the text: it throws when
  the value does not fit. The exception reasons are below 32, so that \<^verbatim>\<open>1 << e.reason\<close> is defined.
\<close>

definition lexical_cast_uint32 :: "u64 \<Rightarrow> u32 res" where
  "lexical_cast_uint32 v = (if unat v < 2 ^ 32 then Inr (ucast v) else Inl (RuntimeError ''bad_lexical_cast''))"

definition set_exception_cause :: "u32 \<Rightarrow> u32 \<Rightarrow> u32" where
  "set_exception_cause reason xcause = set_mcause_exception_code reason (set_mcause_interrupt 0 xcause)"

definition prepare_trap :: "u32 \<Rightarrow> u64 \<Rightarrow> u64 \<Rightarrow> ('p iss, PrivilegeLevel) op" where
  "prepare_trap reason mtval mtval2_htval =
     seq_op (modify_op (\<lambda>s. s\<lparr>iss_pc := iss_last_pc s\<rparr>)) (
     get_op id (\<lambda>s.
     let exc_bit = push_bit (unat reason) 1 :: u32; prv = iss_prv s; t = iss_csrs s in
     if prv = MachineMode \<or> exc_bit AND csr_medeleg t = 0 then
       seq_op (csr_op (\<lambda>t. t\<lparr>csr_mcause := set_exception_cause reason (csr_mcause t)\<rparr>)) (
       seq_op (csr_res (\<lambda>t. bind_res (lexical_cast_uint32 mtval) (\<lambda>v. Inr (t\<lparr>csr_mtval := v\<rparr>)))) (
       seq_op (csr_res (\<lambda>t. bind_res (lexical_cast_uint32 mtval2_htval) (\<lambda>v. Inr (t\<lparr>csr_mtval2 := v\<rparr>)))) (
       seq_op (csr_op (\<lambda>t. t\<lparr>csr_mtinst := iss_get_xtinst reason s\<rparr>))
         (ret_op MachineMode))))
     else if prv = SupervisorMode \<or> prv = UserMode \<or> exc_bit AND csr_hedeleg t = 0 then
       seq_op (assert_op (prv = SupervisorMode \<or> prv = UserMode \<or> prv = VirtualSupervisorMode \<or> prv = VirtualUserMode)) (
       seq_op (csr_op (\<lambda>t. t\<lparr>csr_scause := set_exception_cause reason (csr_scause t)\<rparr>)) (
       seq_op (csr_res (\<lambda>t. bind_res (lexical_cast_uint32 mtval) (\<lambda>v. Inr (t\<lparr>csr_stval := v\<rparr>)))) (
       seq_op (csr_res (\<lambda>t. bind_res (lexical_cast_uint32 mtval2_htval) (\<lambda>v. Inr (t\<lparr>csr_htval := v\<rparr>)))) (
       seq_op (csr_op (\<lambda>t. t\<lparr>csr_htinst := iss_get_xtinst reason s\<rparr>))
         (ret_op SupervisorMode)))))
     else
       seq_op (assert_op (prv = VirtualSupervisorMode \<or> prv = VirtualUserMode)) (
       seq_op (assert_op (exc_bit AND csr_medeleg t \<noteq> 0)) (
       seq_op (assert_op (exc_bit AND csr_hedeleg t \<noteq> 0)) (
       seq_op (csr_op (\<lambda>t. t\<lparr>csr_vscause := set_exception_cause reason (csr_vscause t)\<rparr>)) (
       seq_op (csr_res (\<lambda>t. bind_res (lexical_cast_uint32 mtval) (\<lambda>v. Inr (t\<lparr>csr_vstval := v\<rparr>))))
         (ret_op VirtualSupervisorMode)))))))"

section \<open>Vectors\<close>

definition verify_m_trap_vector :: "u32 \<Rightarrow> ('p iss, unit) op" where
  "verify_m_trap_vector mtvec_base_addr = get_op iss_error_on_zero_traphandler (\<lambda>err.
     if mtvec_base_addr = 0 \<and> err then fail_op (RuntimeError ''[ISS] Took null trap handler in machine mode'')
     else ret_op ())"

definition set_pending_ivt :: "u32 \<Rightarrow> ('p iss, unit) op" where
  "set_pending_ivt address = modify_op (\<lambda>s. s\<lparr>iss_ivt_pending := True, iss_ivt_entry_address := address\<rparr>)"

definition nv_mode_get_ivt_line_num :: "PrivilegeLevel \<Rightarrow> csr_table \<Rightarrow> u32 res" where
  "nv_mode_get_ivt_line_num base_mode t =
     bind_res (get_topei base_mode t) (\<lambda>topei.
     bind_res (if base_mode = SupervisorMode then is_iid_injected (csr_clint t) SupervisorMode EXC_S_EXTERNAL_INTERRUPT
               else Inr False) (\<lambda>injected.
       let xtopei = (if injected then 256 else topei_iid topei) in
       assert_that (xtopei \<noteq> 0)
        (Inr (if xtopei \<ge> NV_MODE_MAX_VECTOR then NV_MODE_MAX_VECTOR else xtopei))))"

definition set_pc :: "u32 \<Rightarrow> ('p iss, unit) op" where
  "set_pc v = modify_op (\<lambda>s. s\<lparr>iss_pc := v\<rparr>)"

definition xtvec_ptr_size :: u32 where "xtvec_ptr_size = 4"

definition jump_to_trap_vector :: "PrivilegeLevel \<Rightarrow> ('p iss, unit) op" where
  "jump_to_trap_vector base_mode =
     bind_op (get_op iss_csrs (\<lambda>t. lift_op (get_xtvec base_mode t))) (\<lambda>xtvec.
     bind_op (get_op iss_csrs (\<lambda>t. lift_op (get_xcause base_mode t))) (\<lambda>xcause.
     let xtvec_base = get_base_address xtvec; is_interrupt = mcause_interrupt xcause \<noteq> 0; mode = mtvec_mode xtvec in
     seq_op (when_op (base_mode = MachineMode) (verify_m_trap_vector xtvec_base)) (
     seq_op (if is_interrupt \<and> mode = Vectored then
               set_pc (xtvec_base + xtvec_ptr_size * mcause_exception_code xcause)
             else if is_interrupt \<and> mode = SnpsNestedVectored then
               bind_op (get_op iss_csrs (\<lambda>t. lift_op (nv_mode_get_ivt_line_num base_mode t))) (\<lambda>line.
                 set_pending_ivt (xtvec_base + xtvec_ptr_size * line))
             else if \<not> is_interrupt \<and> mode = SnpsNestedVectored then set_pending_ivt xtvec_base
             else set_pc xtvec_base)
       (when_op is_interrupt (notify_irq_taken base_mode)))))"

section \<open>Trap entry and return\<close>

definition trap_entry_m :: "PrivilegeLevel \<Rightarrow> ('p iss, unit) op" where
  "trap_entry_m pp = get_op iss_pc (\<lambda>pc. csr_op (\<lambda>t. t\<lparr>
     csr_mepc := pc,
     csr_mstatus := set_mstatus_mpp (PrivilegeLevelToPP pp)
       (set_mstatus_mie 0 (set_mstatus_mpie (mstatus_mie (csr_mstatus t)) (csr_mstatus t))),
     csr_mstatush := set_mstatush_mpv (PrivilegeLevelToV pp) (csr_mstatush t)\<rparr>))"

definition trap_entry_vs :: "PrivilegeLevel \<Rightarrow> ('p iss, unit) op" where
  "trap_entry_vs pp = seq_op (get_op iss_pc (\<lambda>pc. csr_op (\<lambda>t. t\<lparr>
     csr_vsepc := pc,
     csr_vsstatus := set_vsstatus_spp (PrivilegeLevelToPP pp)
       (set_vsstatus_sie 0 (set_vsstatus_spie (vsstatus_sie (csr_vsstatus t)) (csr_vsstatus t)))\<rparr>)))
     (assert_op (pp = VirtualSupervisorMode \<or> pp = VirtualUserMode))"

definition trap_entry_s :: "PrivilegeLevel \<Rightarrow> ('p iss, unit) op" where
  "trap_entry_s pp = seq_op
     (assert_op (pp = SupervisorMode \<or> pp = VirtualSupervisorMode \<or> pp = UserMode \<or> pp = VirtualUserMode))
     (get_op iss_pc (\<lambda>pc. csr_op (\<lambda>t.
       let hstatus = set_hstatus_spv (PrivilegeLevelToV pp) (csr_hstatus t) in t\<lparr>
         csr_sepc := pc,
         csr_mstatus := set_mstatus_spp (PrivilegeLevelToPP pp)
           (set_mstatus_sie 0 (set_mstatus_spie (mstatus_sie (csr_mstatus t)) (csr_mstatus t))),
         csr_hstatus := (if PrivilegeLevelToV pp \<noteq> 0 then set_hstatus_spvp (PrivilegeLevelToPP pp) hstatus else hstatus)\<rparr>)))"

definition switch_to_trap_handler :: "PrivilegeLevel \<Rightarrow> ('p iss, unit) op" where
  "switch_to_trap_handler target_mode =
     seq_op release_lr_sc_reservation (
     get_op iss_prv (\<lambda>pp.
     seq_op (modify_op (\<lambda>s. s\<lparr>iss_prv := target_mode\<rparr>)) (
     seq_op (stsp_swap_sp_on_mode_change target_mode pp) (
     seq_op (if target_mode = MachineMode then trap_entry_m pp
             else if target_mode = VirtualSupervisorMode then trap_entry_vs pp
             else if target_mode = SupervisorMode then trap_entry_s pp
             else fail_op (RuntimeError (''unknown privilege level '' @ PrivilegeLevelToStr target_mode)))
       (jump_to_trap_vector target_mode)))))"

definition return_m :: "'p iss \<Rightarrow> 'p iss" where
  "return_m s =
     (let t = iss_csrs s; ms = csr_mstatus t;
          prv = VPPToPrivilegeLevel (mstatush_mpv (csr_mstatush t)) (mstatus_mpp ms);
          ms1 = set_mstatus_mpie 1 (set_mstatus_mie (mstatus_mpie ms) ms);
          ms2 = (if prv \<noteq> MachineMode then set_mstatus_mprv 0 ms1 else ms1);
          ms3 = set_mstatus_mpp (if has_user_mode_extension (csr_misa t) then UserMode else MachineMode) ms2 in
      s\<lparr>iss_prv := prv, iss_pc := csr_mepc t,
        iss_csrs := t\<lparr>csr_mstatus := ms3, csr_mstatush := set_mstatush_mpv 0 (csr_mstatush t)\<rparr>\<rparr>)"

definition return_vs :: "'p iss \<Rightarrow> 'p iss" where
  "return_vs s =
     (let t = iss_csrs s; vs = csr_vsstatus t in
      s\<lparr>iss_prv := VPPToPrivilegeLevel 1 (vsstatus_spp vs), iss_pc := csr_vsepc t,
        iss_csrs := t\<lparr>
          csr_vsstatus := set_vsstatus_spp UserMode (set_vsstatus_spie 1 (set_vsstatus_sie (vsstatus_spie vs) vs)),
          csr_mstatus := set_mstatus_mprv 0 (csr_mstatus t)\<rparr>\<rparr>)"

definition return_s :: "'p iss \<Rightarrow> 'p iss" where
  "return_s s =
     (let t = iss_csrs s; ms = csr_mstatus t;
          ms1 = set_mstatus_mprv 0 (set_mstatus_spie 1 (set_mstatus_sie (mstatus_spie ms) ms)) in
      s\<lparr>iss_prv := VPPToPrivilegeLevel (hstatus_spv (csr_hstatus t)) (mstatus_spp ms), iss_pc := csr_sepc t,
        iss_csrs := t\<lparr>
          csr_mstatus := set_mstatus_spp (if has_user_mode_extension (csr_misa t) then UserMode else SupervisorMode) ms1,
          csr_hstatus := set_hstatus_spv 0 (csr_hstatus t)\<rparr>\<rparr>)"

definition return_from_trap_handler :: "PrivilegeLevel \<Rightarrow> ('p iss, unit) op" where
  "return_from_trap_handler return_mode =
     seq_op (if return_mode = MachineMode then modify_op return_m
             else if return_mode = VirtualSupervisorMode then modify_op return_vs
             else if return_mode = SupervisorMode then modify_op return_s
             else fail_op (RuntimeError ''unknown privilege level''))
       (get_op iss_prv (\<lambda>prv. stsp_swap_sp_on_mode_change return_mode prv))"

end
