(* ===== verification/VP_FP.thy ===== *)
theory VP_FP
  imports VP_Prelude
begin

text \<open>
  Floating-point registers and helpers (\<^verbatim>\<open>core/common/fp.h\<close>). A \<^verbatim>\<open>float32_t\<close> or \<^verbatim>\<open>float64_t\<close> is the word
  that encodes it. Arithmetic is done by the softfloat library, which is not part of the program:
  the record \<open>softfloat\<close> has one field per library function the simulator calls. A library
  function gives its value and the exception flags it raises; those that round take the
  rounding mode, which the library keeps in the global \<^verbatim>\<open>softfloat_roundingMode\<close>.
\<close>

record softfloat =
  f32_add :: "u32 \<Rightarrow> u32 \<Rightarrow> u32 \<Rightarrow> u32 \<times> u32"
  f32_sub :: "u32 \<Rightarrow> u32 \<Rightarrow> u32 \<Rightarrow> u32 \<times> u32"
  f32_mul :: "u32 \<Rightarrow> u32 \<Rightarrow> u32 \<Rightarrow> u32 \<times> u32"
  f32_div :: "u32 \<Rightarrow> u32 \<Rightarrow> u32 \<Rightarrow> u32 \<times> u32"
  f32_sqrt :: "u32 \<Rightarrow> u32 \<Rightarrow> u32 \<times> u32"
  f32_mulAdd :: "u32 \<Rightarrow> u32 \<Rightarrow> u32 \<Rightarrow> u32 \<Rightarrow> u32 \<times> u32"
  f32_eq :: "u32 \<Rightarrow> u32 \<Rightarrow> bool \<times> u32"
  f32_lt :: "u32 \<Rightarrow> u32 \<Rightarrow> bool \<times> u32"
  f32_le :: "u32 \<Rightarrow> u32 \<Rightarrow> bool \<times> u32"
  f32_lt_quiet :: "u32 \<Rightarrow> u32 \<Rightarrow> bool \<times> u32"
  f32_classify :: "u32 \<Rightarrow> u32"
  f32_to_i32 :: "u32 \<Rightarrow> u32 \<Rightarrow> u32 \<times> u32"
  f32_to_ui32 :: "u32 \<Rightarrow> u32 \<Rightarrow> u32 \<times> u32"
  i32_to_f32 :: "u32 \<Rightarrow> u32 \<Rightarrow> u32 \<times> u32"
  ui32_to_f32 :: "u32 \<Rightarrow> u32 \<Rightarrow> u32 \<times> u32"
  f64_add :: "u32 \<Rightarrow> u64 \<Rightarrow> u64 \<Rightarrow> u64 \<times> u32"
  f64_sub :: "u32 \<Rightarrow> u64 \<Rightarrow> u64 \<Rightarrow> u64 \<times> u32"
  f64_mul :: "u32 \<Rightarrow> u64 \<Rightarrow> u64 \<Rightarrow> u64 \<times> u32"
  f64_div :: "u32 \<Rightarrow> u64 \<Rightarrow> u64 \<Rightarrow> u64 \<times> u32"
  f64_sqrt :: "u32 \<Rightarrow> u64 \<Rightarrow> u64 \<times> u32"
  f64_mulAdd :: "u32 \<Rightarrow> u64 \<Rightarrow> u64 \<Rightarrow> u64 \<Rightarrow> u64 \<times> u32"
  f64_eq :: "u64 \<Rightarrow> u64 \<Rightarrow> bool \<times> u32"
  f64_lt :: "u64 \<Rightarrow> u64 \<Rightarrow> bool \<times> u32"
  f64_le :: "u64 \<Rightarrow> u64 \<Rightarrow> bool \<times> u32"
  f64_lt_quiet :: "u64 \<Rightarrow> u64 \<Rightarrow> bool \<times> u32"
  f64_classify :: "u64 \<Rightarrow> u32"
  f64_to_i32 :: "u32 \<Rightarrow> u64 \<Rightarrow> u32 \<times> u32"
  f64_to_ui32 :: "u32 \<Rightarrow> u64 \<Rightarrow> u32 \<times> u32"
  i32_to_f64 :: "u32 \<Rightarrow> u32 \<Rightarrow> u64 \<times> u32"
  ui32_to_f64 :: "u32 \<Rightarrow> u32 \<Rightarrow> u64 \<times> u32"
  f64_to_f32 :: "u32 \<Rightarrow> u64 \<Rightarrow> u32 \<times> u32"
  f32_to_f64 :: "u32 \<Rightarrow> u32 \<Rightarrow> u64 \<times> u32"

section \<open>Constants\<close>

definition FRM_RMM :: u32 where "FRM_RMM = 0b100"
definition FRM_DYN :: u32 where "FRM_DYN = 0b111"
definition defaultNaNF32UI :: u32 where "defaultNaNF32UI = 0x7fc00000"
definition defaultNaNF64UI :: u64 where "defaultNaNF64UI = 0x7FF8000000000000"
definition f32_defaultNaN :: u32 where "f32_defaultNaN = defaultNaNF32UI"
definition f64_defaultNaN :: u64 where "f64_defaultNaN = defaultNaNF64UI"
definition F32_SIGN_BIT :: u32 where "F32_SIGN_BIT = 0x80000000"
definition F64_SIGN_BIT :: u64 where "F64_SIGN_BIT = 0x8000000000000000"

definition f32_isNegative :: "u32 \<Rightarrow> bool" where "f32_isNegative x \<longleftrightarrow> x AND F32_SIGN_BIT \<noteq> 0"
definition f64_isNegative :: "u64 \<Rightarrow> bool" where "f64_isNegative x \<longleftrightarrow> x AND F64_SIGN_BIT \<noteq> 0"
definition f32_neg :: "u32 \<Rightarrow> u32" where "f32_neg x = x XOR F32_SIGN_BIT"
definition f64_neg :: "u64 \<Rightarrow> u64" where "f64_neg x = x XOR F64_SIGN_BIT"

definition f32_isNaN :: "u32 \<Rightarrow> bool" where
  "f32_isNaN x \<longleftrightarrow> NOT x AND 0x7F800000 = 0 \<and> x AND 0x007FFFFF \<noteq> 0"
definition f64_isNaN :: "u64 \<Rightarrow> bool" where
  "f64_isNaN x \<longleftrightarrow> NOT x AND 0x7FF0000000000000 = 0 \<and> x AND 0x000FFFFFFFFFFFFF \<noteq> 0"

section \<open>Registers\<close>

text \<open>A single-precision value is kept in a 64-bit register, boxed in a NaN.\<close>

definition is_boxed_f32 :: "u64 \<Rightarrow> bool" where "is_boxed_f32 x \<longleftrightarrow> drop_bit 32 x = 0xFFFFFFFF"
definition unbox_f32 :: "u64 \<Rightarrow> u32" where "unbox_f32 x = ucast x"
definition box_f32 :: "u32 \<Rightarrow> u64" where "box_f32 x = ucast x OR 0xFFFFFFFF00000000"

definition fp_write_f64 :: "u32 \<Rightarrow> u64 \<Rightarrow> u64 list \<Rightarrow> u64 list" where
  "fp_write_f64 idx x regs = regs[unat idx := x]"
definition fp_write_f32 :: "u32 \<Rightarrow> u32 \<Rightarrow> u64 list \<Rightarrow> u64 list" where
  "fp_write_f32 idx x regs = fp_write_f64 idx (box_f32 x) regs"
definition fp_u32 :: "u32 \<Rightarrow> u64 list \<Rightarrow> u32" where
  "fp_u32 idx regs = ucast (regs ! unat idx)"
definition fp_f32 :: "u32 \<Rightarrow> u64 list \<Rightarrow> u32" where
  "fp_f32 idx regs = (if is_boxed_f32 (regs ! unat idx) then unbox_f32 (regs ! unat idx) else f32_defaultNaN)"
definition fp_f64 :: "u32 \<Rightarrow> u64 list \<Rightarrow> u64" where
  "fp_f64 idx regs = regs ! unat idx"

section \<open>NaN boxing\<close>

lemma box_f32_mask: "box_f32 x = ucast x OR push_bit 32 (mask 32)"
  by (simp add: box_f32_def mask_eq_exp_minus_1 push_bit_eq_mult)

lemma is_boxed_box_f32: "is_boxed_f32 (box_f32 x)"
proof -
  have "drop_bit 32 (box_f32 x) = mask 32"
    by (rule bit_word_eqI) (auto simp: box_f32_mask bit_simps dest: bit_imp_le_length)
  then show ?thesis by (simp add: is_boxed_f32_def mask_eq_exp_minus_1)
qed

lemma unbox_box_f32: "unbox_f32 (box_f32 x) = x"
  by (rule bit_word_eqI) (auto simp: unbox_f32_def box_f32_mask bit_simps dest: bit_imp_le_length)

lemma fp_f32_other: "j \<noteq> idx \<Longrightarrow> fp_f32 j (fp_write_f64 idx y regs) = fp_f32 j regs"
  by (simp add: fp_f32_def fp_write_f64_def word_unat_eq_iff)

text \<open>
  A single-precision value written to a floating-point register is read back unchanged,
  leaves the other registers alone, and a register that holds a double-precision value which
  is not a boxed single reads as the canonical NaN when it is used as a single.
\<close>

theorem fp_boxing_roundtrip:
  "unat idx < length regs \<Longrightarrow>
     fp_f32 idx (fp_write_f32 idx x regs) = x \<and> fp_u32 idx (fp_write_f32 idx x regs) = x \<and>
     (\<forall>j. j \<noteq> idx \<longrightarrow> fp_f32 j (fp_write_f32 idx x regs) = fp_f32 j regs) \<and>
     (drop_bit 32 y \<noteq> 0xFFFFFFFF \<longrightarrow> fp_f32 idx (fp_write_f64 idx y regs) = 0x7fc00000)"
  using unbox_box_f32 [of x]
  by (intro conjI)
    (simp_all add: fp_write_f32_def fp_f32_other,
     simp_all add: fp_f32_def fp_u32_def fp_write_f64_def is_boxed_box_f32 unbox_f32_def
       is_boxed_f32_def [of y] f32_defaultNaN_def defaultNaNF32UI_def)

theorem fp_boxing_roundtrip_witness:
  "fp_f32 1 (fp_write_f32 1 0x3F800000 [0, 0]) = 0x3F800000 \<and> fp_f32 1 (fp_write_f64 1 0x3FF0000000000000 [0, 0]) = 0x7fc00000"
  using fp_boxing_roundtrip [where idx = 1 and regs = "[0, 0]" and x = "0x3F800000" and y = "0x3FF0000000000000"] by simp

end
