(* ===== verification/VP_ISS_CSR.thy ===== *)
theory VP_ISS_CSR
  imports VP_ISS_Trap VP_FP
begin

text \<open>
  CSR instructions of the RV32 simulator (\<^verbatim>\<open>core/rv32/iss.cpp\<close>): the access checks,
  \<^verbatim>\<open>get_csr_value\<close> and \<^verbatim>\<open>set_csr_value\<close>. The switch of each of the two functions is divided by the
  components the registers belong to; a part that has no case for an address gives \<^verbatim>\<open>None\<close>.

  What the simulator uses of its surroundings is the record \<open>iss_env\<close>: the transport of the
  platform's bus targets, the CLINT (\<^verbatim>\<open>clint_if\<close>), the system call emulation, the wait for
  \<^verbatim>\<open>wfi_event\<close>, the SystemC quantum keeper and the softfloat library. A wait gives control to the other processes of the
  simulation, so that these operations may change the state.
\<close>

section \<open>The surroundings of the simulator\<close>

record 'p iss_env =
  env_pt :: "'p ptransport"
  env_update_and_get_mtime :: "('p iss, u64) op"
  env_post_write_xtimecmp :: "('p iss, unit) op"
  env_execute_syscall :: "('p iss, unit) op"
  env_wait_wfi :: "('p iss, unit) op"
  env_quantum_inc :: "u64 \<Rightarrow> ('p iss, bool) op"
  env_quantum_sync :: "('p iss, unit) op"
  env_softfloat :: softfloat

text \<open>
  \<^verbatim>\<open>cycle_time\<close> is 10 ns; a SystemC time is counted in units of the time resolution, 1 ps unless the
  platform changes it.
\<close>

definition cycle_time :: u64 where "cycle_time = 10000"

definition compute_and_get_current_cycles :: "('p iss, u64) op" where
  "compute_and_get_current_cycles = get_op iss_cycle_counter (\<lambda>n.
     seq_op (assert_op (n mod cycle_time = 0)) (ret_op (n div cycle_time)))"

section \<open>Access checks\<close>

definition csr_type :: "u32 \<Rightarrow> u32" where
  "csr_type addr = drop_bit (unat CSR_TYPE_SHIFT) (CSR_TYPE_MASK AND addr)"

definition priveledge_ok :: "PrivilegeLevel \<Rightarrow> u32 \<Rightarrow> bool" where
  "priveledge_ok prv csr_prv =
     (if csr_prv = CSR_TYPE_M then prv = MachineMode
      else if csr_prv = CSR_TYPE_S then prv = MachineMode \<or> prv = SupervisorMode \<or> prv = VirtualSupervisorMode
      else if csr_prv = CSR_TYPE_HS_VS then prv = MachineMode \<or> prv = SupervisorMode
      else csr_prv = CSR_TYPE_U)"

definition csr_access_denied :: "PrivilegeLevel \<Rightarrow> u32 \<Rightarrow> u32 \<Rightarrow> bool \<Rightarrow> bool" where
  "csr_access_denied prv misa csr_addr is_write =
     (let csr_prv = csr_type csr_addr;
          csr_readonly = drop_bit 10 (0xC00 AND csr_addr) = 3;
          s_invalid = csr_prv = SupervisorMode \<and> \<not> has_supervisor_mode_extension misa;
          u_invalid = csr_prv = UserMode \<and> \<not> has_user_mode_extension misa;
          vs_invalid = csr_prv = VirtualSupervisorMode \<and> \<not> has_hypervisor_mode_extension misa in
      is_write \<and> csr_readonly \<or> \<not> priveledge_ok prv csr_prv \<or> s_invalid \<or> u_invalid \<or> vs_invalid)"

definition is_invalid_csr_access :: "u32 \<Rightarrow> bool \<Rightarrow> ('p iss, bool) op" where
  "is_invalid_csr_access csr_addr is_write =
     seq_op (if csr_addr = FFLAGS_ADDR \<or> csr_addr = FRM_ADDR \<or> csr_addr = FCSR_ADDR then REQUIRE_ISA misa_F else ret_op ())
       (get_op id (\<lambda>s. ret_op (csr_access_denied (iss_prv s) (csr_misa (iss_csrs s)) csr_addr is_write)))"

definition check_op :: "('p iss \<Rightarrow> bool) \<Rightarrow> ('p iss, unit) op \<Rightarrow> ('p iss, unit) op" where
  "check_op cond exn = get_op cond (\<lambda>b. if b then exn else ret_op ())"

definition VIRTUAL_INSTRUCTION :: "('p iss, 'a) op" where
  "VIRTUAL_INSTRUCTION = get_op iss_instr (\<lambda>i. trap_op EXC_VIRTUAL_INSTRUCTION i)"

definition validate_csr_counter_read_access_rights :: "u32 \<Rightarrow> ('p iss, unit) op" where
  "validate_csr_counter_read_access_rights addr =
     when_op (addr \<ge> 0xC00 \<and> addr \<le> 0xC1F \<or> addr \<ge> 0xC80 \<and> addr \<le> 0xC9F)
      (let cnt = addr AND 0x1F in
       seq_op (check_op (\<lambda>s. s_mode s \<and> \<not> is_bitset (csr_mcounteren (iss_csrs s)) cnt) RAISE_ILLEGAL_INSTRUCTION)
         (check_op (\<lambda>s. u_mode s \<and> (\<not> is_bitset (csr_mcounteren (iss_csrs s)) cnt \<or> \<not> is_bitset (csr_scounteren (iss_csrs s)) cnt))
            RAISE_ILLEGAL_INSTRUCTION))"

definition csr_address_virt_transform :: "u32 \<Rightarrow> 'p iss \<Rightarrow> u32" where
  "csr_address_virt_transform addr s =
     (if vs_mode s \<and> csr_type addr = CSR_TYPE_S
      then (addr AND NOT CSR_TYPE_MASK) OR push_bit (unat CSR_TYPE_SHIFT) CSR_TYPE_HS_VS
      else addr)"

definition vs_csr_icsrs_access_exception :: "('p iss, unit) op" where
  "vs_csr_icsrs_access_exception = get_op iss_prv (\<lambda>prv.
     if prv = MachineMode \<or> prv = SupervisorMode then RAISE_ILLEGAL_INSTRUCTION
     else if prv = VirtualSupervisorMode then VIRTUAL_INSTRUCTION
     else fail_op AssertFailed)"

definition vstopei_access_check :: "('p iss, unit) op" where
  "vstopei_access_check = check_op (\<lambda>s. \<not> is_imsic_connected (csr_hstatus (iss_csrs s))) vs_csr_icsrs_access_exception"

definition vs_icsrs_access_check :: "u32 \<Rightarrow> ('p iss, unit) op" where
  "vs_icsrs_access_check icsr_addr =
     bind_op (get_op iss_csrs (\<lambda>t. lift_op (vs_is_valid_addr icsr_addr (get_vgein (csr_hstatus t))))) (\<lambda>valid_access.
       if valid_access then ret_op () else vs_csr_icsrs_access_exception)"

definition s_sei_injection_access_check :: "('p iss, unit) op" where
  "s_sei_injection_access_check =
     bind_op (get_op id (\<lambda>s. lift_op (if iss_prv s = SupervisorMode
       then is_iid_injected (csr_clint (iss_csrs s)) SupervisorMode EXC_S_EXTERNAL_INTERRUPT else Inr False)))
      (\<lambda>need_trap. if need_trap then RAISE_ILLEGAL_INSTRUCTION else ret_op ())"

definition s_icsr_imsic_access_check :: "u32 \<Rightarrow> ('p iss, unit) op" where
  "s_icsr_imsic_access_check icsr_addr =
     when_op (0x70 \<le> icsr_addr \<and> icsr_addr \<le> 0xFF) s_sei_injection_access_check"

definition stimecmp_access_check :: "('p iss, unit) op" where
  "stimecmp_access_check =
     check_op (\<lambda>s. xenvcfgh_stce (xe_reg (csr_menvcfgh (iss_csrs s))) = 0 \<and> \<not> m_mode s) RAISE_ILLEGAL_INSTRUCTION"

definition vs_clint_vti_access_check :: "('p iss, unit) op" where
  "vs_clint_vti_access_check =
     check_op (\<lambda>s. is_vti_active (csr_hvictl (iss_csrs s)) \<and> iss_prv s = VirtualSupervisorMode) VIRTUAL_INSTRUCTION"

definition vstimecmp_access_check :: "('p iss, unit) op" where
  "vstimecmp_access_check =
     seq_op (check_op (\<lambda>s. xenvcfgh_stce (xe_reg (csr_menvcfgh (iss_csrs s))) = 0 \<and> \<not> m_mode s) RAISE_ILLEGAL_INSTRUCTION) (
     seq_op (check_op (\<lambda>s. xenvcfgh_stce (xe_reg (csr_henvcfgh (iss_csrs s))) = 0 \<and> PrivilegeLevelToV (iss_prv s) \<noteq> 0) VIRTUAL_INSTRUCTION)
       vs_clint_vti_access_check)"

section \<open>Reading\<close>

definition read_csr :: "(csr_table \<Rightarrow> u32) \<Rightarrow> ('p iss, u32) op" where
  "read_csr f = get_op (\<lambda>s. f (iss_csrs s)) ret_op"

definition csr_orelse :: "'a option \<Rightarrow> 'a option \<Rightarrow> 'a option" where
  "csr_orelse x y = (case x of Some a \<Rightarrow> Some a | None \<Rightarrow> y)"

definition update_time :: "'p iss_env \<Rightarrow> ('p iss, unit) op" where
  "update_time env = bind_op (env_update_and_get_mtime env) (\<lambda>mtime.
     csr_op (\<lambda>t. t\<lparr>csr_time_control := update_time_counter mtime (csr_time_control t)\<rparr>))"

definition update_cycle :: "('p iss, unit) op" where
  "update_cycle = bind_op compute_and_get_current_cycles (\<lambda>n. csr_op (\<lambda>t. t\<lparr>csr_cycle := n\<rparr>))"

definition read_counter_csr :: "'p iss_env \<Rightarrow> u32 \<Rightarrow> ('p iss, u32) op option" where
  "read_counter_csr env addr =
     (if addr = TIME_ADDR then Some (seq_op (update_time env)
        (get_op id (\<lambda>s. ret_op (read_time (csr_time_control (iss_csrs s)) (PrivilegeLevelToV (iss_prv s) \<noteq> 0)))))
      else if addr = TIMEH_ADDR then Some (seq_op (update_time env)
        (get_op id (\<lambda>s. ret_op (read_timeh (csr_time_control (iss_csrs s)) (PrivilegeLevelToV (iss_prv s) \<noteq> 0)))))
      else if addr = CYCLE_ADDR then Some (seq_op update_cycle (read_csr (\<lambda>t. low_word (csr_cycle t))))
      else if addr = CYCLEH_ADDR then Some (read_csr (\<lambda>t. high_word (csr_cycle t)))
      else if addr = MCYCLE_ADDR then Some (seq_op update_cycle (read_csr (\<lambda>t. low_word (csr_cycle t))))
      else if addr = MCYCLEH_ADDR then Some (seq_op update_cycle (read_csr (\<lambda>t. high_word (csr_cycle t))))
      else if addr = MINSTRET_ADDR then Some (read_csr (\<lambda>t. low_word (csr_instret t)))
      else if addr = MINSTRETH_ADDR then Some (read_csr (\<lambda>t. high_word (csr_instret t)))
      else if is_hpmcounter_addr addr then Some (ret_op 0)
      else if addr = MSTATUS_ADDR then Some (read_csr (\<lambda>t. csr_mstatus t AND MSTATUS_MASK))
      else if addr = SSTATUS_ADDR then Some (read_csr (\<lambda>t. csr_mstatus t AND SSTATUS_MASK))
      else None)"

definition clint_csr_reader :: "u32 \<Rightarrow> (clint_pend \<Rightarrow> u32) option" where
  "clint_csr_reader addr =
     (if addr = MIP_ADDR then Some checked_read_mip
      else if addr = SIP_ADDR then Some checked_read_sip
      else if addr = HIP_ADDR then Some checked_read_hip
      else if addr = VSIP_ADDR then Some checked_read_vsip
      else if addr = MIPH_ADDR then Some checked_read_miph
      else if addr = SIPH_ADDR then Some checked_read_siph
      else if addr = VSIPH_ADDR then Some checked_read_vsiph
      else if addr = MIE_ADDR then Some checked_read_mie
      else if addr = SIE_ADDR then Some checked_read_sie
      else if addr = HIE_ADDR then Some checked_read_hie
      else if addr = VSIE_ADDR then Some checked_read_vsie
      else if addr = MIEH_ADDR then Some checked_read_mieh
      else if addr = SIEH_ADDR then Some checked_read_sieh
      else if addr = VSIEH_ADDR then Some checked_read_vsieh
      else if addr = MVIP_ADDR then Some checked_read_mvip
      else if addr = MVIPH_ADDR then Some checked_read_mviph
      else if addr = MVIEN_ADDR then Some checked_read_mvien
      else if addr = MVIENH_ADDR then Some checked_read_mvienh
      else if addr = HVIP_ADDR then Some checked_read_hvip
      else if addr = HVIPH_ADDR then Some checked_read_hviph
      else if addr = HVIEN_ADDR then Some checked_read_hvien
      else if addr = HVIENH_ADDR then Some checked_read_hvienh
      else if addr = MIDELEG_ADDR then Some checked_read_mideleg
      else if addr = MIDELEGH_ADDR then Some checked_read_midelegh
      else if addr = HIDELEG_ADDR then Some checked_read_hideleg
      else if addr = HIDELEGH_ADDR then Some checked_read_hidelegh
      else None)"

definition is_vti_checked_addr :: "u32 \<Rightarrow> bool" where
  "is_vti_checked_addr addr \<longleftrightarrow> addr = VSIP_ADDR \<or> addr = VSIPH_ADDR \<or> addr = VSIE_ADDR \<or> addr = VSIEH_ADDR"

definition read_clint_csr :: "u32 \<Rightarrow> ('p iss, u32) op option" where
  "read_clint_csr addr =
     (case clint_csr_reader addr of
        None \<Rightarrow> None
      | Some f \<Rightarrow> Some (seq_op (when_op (is_vti_checked_addr addr) vs_clint_vti_access_check) (read_csr (\<lambda>t. f (csr_clint t)))))"

definition read_hviprio :: "u32 list \<Rightarrow> ('p iss, u32) op" where
  "read_hviprio iids = get_op id (\<lambda>s.
     lift_op (hviprio_checked_read iids (vs_iprio (iss_icsrs_vs s) ! unat (get_vgein (csr_hstatus (iss_csrs s))))))"

definition read_default :: "u32 \<Rightarrow> ('p iss, u32) op" where
  "read_default addr = get_op iss_csrs (\<lambda>t. lift_op (default_read32 addr t))"

definition read_irq_csr :: "u32 \<Rightarrow> ('p iss, u32) op option" where
  "read_irq_csr addr =
     (if addr = HVIPRIO1_ADDR then Some (read_hviprio hviprio1)
      else if addr = HVIPRIO1H_ADDR then Some (read_hviprio hviprio1h)
      else if addr = HVIPRIO2_ADDR then Some (read_hviprio hviprio2)
      else if addr = HVIPRIO2H_ADDR then Some (read_hviprio hviprio2h)
      else if addr = HVICTL_ADDR then Some (read_csr (\<lambda>t. hvictl_checked_read (csr_hvictl t)))
      else if addr = HGEIE_ADDR then Some (read_csr (\<lambda>t. hgeie_checked_read (csr_hgeie t)))
      else if addr = HGEIP_ADDR then Some (read_csr (\<lambda>t. hgeip_checked_read (csr_hgeip t)))
      else if addr = VSTOPI_ADDR then Some (read_csr get_vstopi_ipriom_adjusted)
      else if addr = STOPEI_ADDR then Some (seq_op s_sei_injection_access_check (read_default addr))
      else if addr = VSTOPEI_ADDR then Some (seq_op vstopei_access_check (read_default addr))
      else None)"

definition is_debug_csr :: "u32 \<Rightarrow> bool" where
  "is_debug_csr addr \<longleftrightarrow> addr \<in> {TDATA1_ADDR, TDATA2_ADDR, TDATA3_ADDR, DCSR_ADDR, DPC_ADDR, DSCRATCH0_ADDR, DSCRATCH1_ADDR}"

definition read_config_csr :: "u32 \<Rightarrow> ('p iss, u32) op option" where
  "read_config_csr addr =
     (if addr = FCSR_ADDR then Some (read_csr (\<lambda>t. csr_fcsr t AND FCSR_MASK))
      else if addr = FFLAGS_ADDR then Some (read_csr (\<lambda>t. fcsr_fflags (csr_fcsr t)))
      else if addr = FRM_ADDR then Some (read_csr (\<lambda>t. fcsr_frm (csr_fcsr t)))
      else if addr = TSELECT_ADDR then Some (ret_op 1)
      else if is_debug_csr addr then Some (ret_op 0)
      else if addr = MENVCFG_ADDR then Some (read_csr (\<lambda>t. menvcfg_checked_read (csr_menvcfg t)))
      else if addr = MENVCFGH_ADDR then Some (read_csr (\<lambda>t. xenvcfgh_checked_read (csr_menvcfgh t)))
      else if addr = SENVCFG_ADDR then Some (read_csr (\<lambda>t. senvcfg_checked_read (csr_senvcfg t)))
      else if addr = HENVCFG_ADDR then Some (read_csr (\<lambda>t. henvcfg_checked_read (csr_henvcfg t)))
      else if addr = HENVCFGH_ADDR then Some (read_csr (\<lambda>t. xenvcfgh_checked_read (csr_henvcfgh t)))
      else if addr = STIMECMP_ADDR then
        Some (seq_op stimecmp_access_check (read_csr (\<lambda>t. low_word (tc_stimecmp (csr_time_control t)))))
      else if addr = STIMECMPH_ADDR then
        Some (seq_op stimecmp_access_check (read_csr (\<lambda>t. high_word (tc_stimecmp (csr_time_control t)))))
      else if addr = VSTIMECMP_ADDR then
        Some (seq_op vstimecmp_access_check (read_csr (\<lambda>t. low_word (tc_vstimecmp (csr_time_control t)))))
      else if addr = VSTIMECMPH_ADDR then
        Some (seq_op vstimecmp_access_check (read_csr (\<lambda>t. high_word (tc_vstimecmp (csr_time_control t)))))
      else None)"

definition is_mireg :: "u32 \<Rightarrow> bool" where
  "is_mireg addr \<longleftrightarrow> addr \<in> {MIREG_ADDR, MIREG2_ADDR, MIREG3_ADDR, MIREG4_ADDR, MIREG5_ADDR, MIREG6_ADDR}"
definition is_sireg :: "u32 \<Rightarrow> bool" where
  "is_sireg addr \<longleftrightarrow> addr \<in> {SIREG_ADDR, SIREG2_ADDR, SIREG3_ADDR, SIREG4_ADDR, SIREG5_ADDR, SIREG6_ADDR}"
definition is_vsireg :: "u32 \<Rightarrow> bool" where
  "is_vsireg addr \<longleftrightarrow> addr \<in> {VSIREG_ADDR, VSIREG2_ADDR, VSIREG3_ADDR, VSIREG4_ADDR, VSIREG5_ADDR, VSIREG6_ADDR}"

definition read_indirect_csr :: "u32 \<Rightarrow> ('p iss, u32) op option" where
  "read_indirect_csr addr =
     (if is_mireg addr then Some (get_op (\<lambda>s. csr_miselect (iss_csrs s) + xireg_to_xselect_offset addr) (\<lambda>icsr_addr.
        if \<not> ms_is_valid_addr MachineMode icsr_addr then RAISE_ILLEGAL_INSTRUCTION
        else get_op iss_icsrs_m (\<lambda>t. lift_op (ms_default_read32 MachineMode icsr_addr t))))
      else if addr = SISELECT_ADDR then Some (read_csr (\<lambda>t. csr_siselect t AND SISELECT_MASK))
      else if is_sireg addr then Some (get_op (\<lambda>s. csr_siselect (iss_csrs s) + xireg_to_xselect_offset addr) (\<lambda>icsr_addr.
        if \<not> ms_is_valid_addr SupervisorMode icsr_addr then RAISE_ILLEGAL_INSTRUCTION
        else seq_op (s_icsr_imsic_access_check icsr_addr)
               (get_op iss_icsrs_s (\<lambda>t. lift_op (ms_default_read32 SupervisorMode icsr_addr t)))))
      else if addr = VSISELECT_ADDR then Some (read_csr (\<lambda>t. csr_vsiselect t AND VSISELECT_MASK))
      else if is_vsireg addr then Some (get_op (\<lambda>s. csr_vsiselect (iss_csrs s) + xireg_to_xselect_offset addr) (\<lambda>icsr_addr.
        seq_op (vs_icsrs_access_check icsr_addr)
          (get_op id (\<lambda>s. lift_op (vs_default_read32 icsr_addr (get_vgein (csr_hstatus (iss_csrs s))) (iss_icsrs_vs s))))))
      else if addr = VSMPUMASK_ADDR then Some (seq_op
        (check_op (\<lambda>s. \<not> is_imsic_connected (csr_hstatus (iss_csrs s))) RAISE_ILLEGAL_INSTRUCTION) (read_default addr))
      else None)"

definition get_csr_value :: "'p iss_env \<Rightarrow> u32 \<Rightarrow> ('p iss, u32) op" where
  "get_csr_value env addr0 =
     seq_op (validate_csr_counter_read_access_rights addr0) (
     get_op (csr_address_virt_transform addr0) (\<lambda>addr.
       case csr_orelse (read_counter_csr env addr) (csr_orelse (read_clint_csr addr)
              (csr_orelse (read_irq_csr addr) (csr_orelse (read_config_csr addr) (read_indirect_csr addr)))) of
         Some f \<Rightarrow> f
       | None \<Rightarrow>
           seq_op (check_op (\<lambda>s. addr = SATP_ADDR \<and> mstatus_tvm (csr_mstatus (iss_csrs s)) \<noteq> 0) RAISE_ILLEGAL_INSTRUCTION)
             (if \<not> is_valid_csr32_addr addr then RAISE_ILLEGAL_INSTRUCTION else read_default addr)))"

section \<open>Writing\<close>

definition on_xtvec_csr :: "u32 \<Rightarrow> u32 \<Rightarrow> ('p iss, unit) op option" where
  "on_xtvec_csr addr v =
     (if addr = MTVEC_ADDR then
        Some (seq_op (csr_op (\<lambda>t. t\<lparr>csr_mtvec := mtvec_checked_write v\<rparr>)) (on_xtvec_write MachineMode))
      else if addr = STVEC_ADDR then
        Some (seq_op (csr_op (\<lambda>t. t\<lparr>csr_stvec := mtvec_checked_write v\<rparr>)) (on_xtvec_write SupervisorMode))
      else if addr = VSTVEC_ADDR then
        Some (seq_op (csr_op (\<lambda>t. t\<lparr>csr_vstvec := mtvec_checked_write v\<rparr>)) (on_xtvec_write VirtualSupervisorMode))
      else None)"

definition write_status_csr :: "u32 \<Rightarrow> u32 \<Rightarrow> ('p iss, unit) op option" where
  "write_status_csr addr v =
     (if addr = MISA_ADDR \<or> is_hpmcounter_addr addr then Some (ret_op ())
      else if addr = SATP_ADDR then Some (seq_op
        (check_op (\<lambda>s. mstatus_tvm (csr_mstatus (iss_csrs s)) \<noteq> 0) RAISE_ILLEGAL_INSTRUCTION)
        (csr_op (\<lambda>t. t\<lparr>csr_satp := masked_write SATP_MASK v (csr_satp t)\<rparr>)))
      else if addr = MTVEC_ADDR \<or> addr = STVEC_ADDR \<or> addr = VSTVEC_ADDR then on_xtvec_csr addr v
      else if addr = MEPC_ADDR then Some (get_op pc_alignment_mask (\<lambda>m.
        csr_op (\<lambda>t. t\<lparr>csr_mepc := masked_write m v (csr_mepc t)\<rparr>)))
      else if addr = SEPC_ADDR then Some (get_op pc_alignment_mask (\<lambda>m.
        csr_op (\<lambda>t. t\<lparr>csr_sepc := masked_write m v (csr_sepc t)\<rparr>)))
      else if addr = MSTATUS_ADDR then Some (csr_op (\<lambda>t. t\<lparr>csr_mstatus := masked_write MSTATUS_MASK v (csr_mstatus t)\<rparr>))
      else if addr = SSTATUS_ADDR then Some (csr_op (\<lambda>t. t\<lparr>csr_mstatus := masked_write SSTATUS_MASK v (csr_mstatus t)\<rparr>))
      else if addr = MSTATUSH_ADDR then Some (csr_op (\<lambda>t. t\<lparr>csr_mstatush := masked_write MSTATUSH_MASK v (csr_mstatush t)\<rparr>))
      else if addr = HSTATUS_ADDR then Some (seq_op
        (csr_op (\<lambda>t. t\<lparr>csr_hstatus := hstatus_checked_write v (csr_hstatus t)\<rparr>)) on_guest_switch)
      else None)"

definition write_clint_csr :: "u32 \<Rightarrow> u32 \<Rightarrow> ('p iss, unit) op option" where
  "write_clint_csr addr v =
     (if clint_csr_reader addr = None then None
      else Some (seq_op (when_op (is_vti_checked_addr addr) vs_clint_vti_access_check) (on_clint_csr_write addr v)))"

definition write_hviprio :: "u32 list \<Rightarrow> u32 \<Rightarrow> ('p iss, unit) op" where
  "write_hviprio iids v = update_res (\<lambda>s.
     let g = unat (get_vgein (csr_hstatus (iss_csrs s))); vs = iss_icsrs_vs s in
     bind_res (hviprio_checked_write iids v (vs_iprio vs ! g)) (\<lambda>a.
       Inr (s\<lparr>iss_icsrs_vs := vs\<lparr>vs_iprio := (vs_iprio vs)[g := a]\<rparr>\<rparr>)))"

definition write_irq_csr :: "u32 \<Rightarrow> u32 \<Rightarrow> bool \<Rightarrow> ('p iss, unit) op option" where
  "write_irq_csr addr v read_accessed =
     (if addr = HVIPRIO1_ADDR then Some (write_hviprio hviprio1 v)
      else if addr = HVIPRIO1H_ADDR then Some (write_hviprio hviprio1h v)
      else if addr = HVIPRIO2_ADDR then Some (write_hviprio hviprio2 v)
      else if addr = HVIPRIO2H_ADDR then Some (write_hviprio hviprio2h v)
      else if addr = HVICTL_ADDR then Some (csr_op (\<lambda>t. t\<lparr>csr_hvictl := hvictl_checked_write v (csr_hvictl t)\<rparr>))
      else if addr = HGEIE_ADDR then Some (seq_op
        (csr_op (\<lambda>t. t\<lparr>csr_hgeie := hgeie_checked_write v (csr_hgeie t)\<rparr>)) recalc_sgeip)
      else if addr = HGEIP_ADDR then Some (csr_op (\<lambda>t. t\<lparr>csr_hgeip := hgeip_checked_write v (csr_hgeip t)\<rparr>))
      else if addr = MTOPEI_ADDR then Some (claim_topei_interrupt_on_xtopei MachineMode v (\<not> read_accessed))
      else if addr = STOPEI_ADDR then Some (seq_op s_sei_injection_access_check
        (claim_topei_interrupt_on_xtopei SupervisorMode v (\<not> read_accessed)))
      else if addr = VSTOPEI_ADDR then Some (seq_op vstopei_access_check
        (claim_topei_interrupt_on_xtopei VirtualSupervisorMode v (\<not> read_accessed)))
      else if addr = HEDELEG_ADDR then Some (csr_op (\<lambda>t. t\<lparr>csr_hedeleg := masked_write HEDELEG_MASK v (csr_hedeleg t)\<rparr>))
      else None)"

definition write_counter_csr :: "u32 \<Rightarrow> u32 \<Rightarrow> ('p iss, unit) op option" where
  "write_counter_csr addr v =
     (if addr = MCOUNTEREN_ADDR then Some (csr_op (\<lambda>t. t\<lparr>csr_mcounteren := masked_write MCOUNTEREN_MASK v (csr_mcounteren t)\<rparr>))
      else if addr = SCOUNTEREN_ADDR then Some (csr_op (\<lambda>t. t\<lparr>csr_scounteren := masked_write MCOUNTEREN_MASK v (csr_scounteren t)\<rparr>))
      else if addr = MCOUNTINHIBIT_ADDR then
        Some (csr_op (\<lambda>t. t\<lparr>csr_mcountinhibit := masked_write MCOUNTINHIBIT_MASK v (csr_mcountinhibit t)\<rparr>))
      else if addr = FCSR_ADDR then Some (csr_op (\<lambda>t. t\<lparr>csr_fcsr := masked_write FCSR_MASK v (csr_fcsr t)\<rparr>))
      else if addr = FFLAGS_ADDR then Some (csr_op (\<lambda>t. t\<lparr>csr_fcsr := set_fcsr_fflags v (csr_fcsr t)\<rparr>))
      else if addr = FRM_ADDR then Some (csr_op (\<lambda>t. t\<lparr>csr_fcsr := set_fcsr_frm v (csr_fcsr t)\<rparr>))
      else if addr = TSELECT_ADDR \<or> is_debug_csr addr then Some (ret_op ())
      else None)"

definition write_timecmp :: "'p iss_env \<Rightarrow> (csr_timecontrol \<Rightarrow> csr_timecontrol) \<Rightarrow> ('p iss, unit) op" where
  "write_timecmp env f = seq_op (csr_op (\<lambda>t. t\<lparr>csr_time_control := f (csr_time_control t)\<rparr>)) (env_post_write_xtimecmp env)"

definition write_config_csr :: "'p iss_env \<Rightarrow> u32 \<Rightarrow> u32 \<Rightarrow> ('p iss, unit) op option" where
  "write_config_csr env addr v =
     (if addr = MENVCFG_ADDR then Some (csr_op (\<lambda>t. t\<lparr>csr_menvcfg := menvcfg_checked_write v (csr_menvcfg t)\<rparr>))
      else if addr = MENVCFGH_ADDR then Some (seq_op
        (csr_op (\<lambda>t. t\<lparr>csr_menvcfgh := xenvcfgh_checked_write v (csr_menvcfgh t)\<rparr>)) on_xenvcfgh_write)
      else if addr = SENVCFG_ADDR then Some (csr_op (\<lambda>t. t\<lparr>csr_senvcfg := senvcfg_checked_write v (csr_senvcfg t)\<rparr>))
      else if addr = HENVCFG_ADDR then Some (csr_op (\<lambda>t. t\<lparr>csr_henvcfg := henvcfg_checked_write v (csr_henvcfg t)\<rparr>))
      else if addr = HENVCFGH_ADDR then Some (seq_op
        (csr_op (\<lambda>t. t\<lparr>csr_henvcfgh := xenvcfgh_checked_write v (csr_henvcfgh t)\<rparr>)) on_xenvcfgh_write)
      else if addr = STIMECMP_ADDR then Some (seq_op stimecmp_access_check
        (write_timecmp env (\<lambda>c. c\<lparr>tc_stimecmp := set_low_word v (tc_stimecmp c)\<rparr>)))
      else if addr = STIMECMPH_ADDR then Some (seq_op stimecmp_access_check
        (write_timecmp env (\<lambda>c. c\<lparr>tc_stimecmp := set_high_word v (tc_stimecmp c)\<rparr>)))
      else if addr = VSTIMECMP_ADDR then Some (seq_op vstimecmp_access_check
        (write_timecmp env (\<lambda>c. c\<lparr>tc_vstimecmp := set_low_word v (tc_vstimecmp c)\<rparr>)))
      else if addr = VSTIMECMPH_ADDR then Some (seq_op vstimecmp_access_check
        (write_timecmp env (\<lambda>c. c\<lparr>tc_vstimecmp := set_high_word v (tc_vstimecmp c)\<rparr>)))
      else None)"

definition write_default :: "u32 \<Rightarrow> u32 \<Rightarrow> ('p iss, unit) op" where
  "write_default addr v = csr_res (default_write32 addr v)"

definition write_indirect_csr :: "u32 \<Rightarrow> u32 \<Rightarrow> ('p iss, unit) op option" where
  "write_indirect_csr addr v =
     (if is_mireg addr then Some (get_op (\<lambda>s. csr_miselect (iss_csrs s) + xireg_to_xselect_offset addr) (\<lambda>icsr_addr.
        if \<not> ms_is_valid_addr MachineMode icsr_addr then RAISE_ILLEGAL_INSTRUCTION
        else seq_op (update_res (\<lambda>s. bind_res (ms_default_write32 MachineMode icsr_addr v (iss_icsrs_m s)) (\<lambda>t. Inr (s\<lparr>iss_icsrs_m := t\<rparr>))))
               compute_imsic_pending_interrupts_m))
      else if addr = SISELECT_ADDR then Some (csr_op (\<lambda>t. t\<lparr>csr_siselect := masked_write SISELECT_MASK v (csr_siselect t)\<rparr>))
      else if is_sireg addr then Some (get_op (\<lambda>s. csr_siselect (iss_csrs s) + xireg_to_xselect_offset addr) (\<lambda>icsr_addr.
        if \<not> ms_is_valid_addr SupervisorMode icsr_addr then RAISE_ILLEGAL_INSTRUCTION
        else seq_op (s_icsr_imsic_access_check icsr_addr) (
             seq_op (check_op (\<lambda>s. is_smpuaddr icsr_addr \<and> is_set_for_addr (csr_smpumask (iss_csrs s)) icsr_addr) RAISE_ILLEGAL_INSTRUCTION) (
             seq_op (update_res (\<lambda>s. bind_res (ms_default_write32 SupervisorMode icsr_addr v (iss_icsrs_s s)) (\<lambda>t. Inr (s\<lparr>iss_icsrs_s := t\<rparr>))))
               compute_imsic_pending_interrupts_s))))
      else if addr = VSISELECT_ADDR then Some (csr_op (\<lambda>t. t\<lparr>csr_vsiselect := masked_write VSISELECT_MASK v (csr_vsiselect t)\<rparr>))
      else if is_vsireg addr then Some (get_op (\<lambda>s. csr_vsiselect (iss_csrs s) + xireg_to_xselect_offset addr) (\<lambda>icsr_addr.
        seq_op (vs_icsrs_access_check icsr_addr) (
        seq_op (check_op (\<lambda>s. is_smpuaddr icsr_addr \<and> is_set_for_addr (csr_vsmpumask (iss_csrs s)) icsr_addr) RAISE_ILLEGAL_INSTRUCTION) (
        seq_op (update_res (\<lambda>s. bind_res
            (vs_default_write32 icsr_addr (get_vgein (csr_hstatus (iss_csrs s))) v (iss_icsrs_vs s)) (\<lambda>t. Inr (s\<lparr>iss_icsrs_vs := t\<rparr>))))
          compute_imsic_pending_interrupts_vs))))
      else if addr = VSMPUMASK_ADDR then Some (seq_op
        (check_op (\<lambda>s. \<not> is_imsic_connected (csr_hstatus (iss_csrs s))) RAISE_ILLEGAL_INSTRUCTION) (write_default addr v))
      else None)"

definition is_spmp_csr :: "u32 \<Rightarrow> bool" where
  "is_spmp_csr addr \<longleftrightarrow>
     SPMPCFG_ADDR 0 \<le> addr \<and> addr \<le> SPMPCFG_ADDR 15 \<or>
     SPMPADDR_ADDR 0 \<le> addr \<and> addr \<le> SPMPADDR_ADDR 63 \<or>
     SPMPSWITCH_ADDR 0 \<le> addr \<and> addr \<le> SPMPSWITCH_ADDR 1"

definition set_csr_value :: "'p iss_env \<Rightarrow> u32 \<Rightarrow> u32 \<Rightarrow> bool \<Rightarrow> ('p iss, unit) op" where
  "set_csr_value env addr0 v read_accessed =
     get_op (csr_address_virt_transform addr0) (\<lambda>addr.
       case csr_orelse (write_status_csr addr v) (csr_orelse (write_clint_csr addr v)
              (csr_orelse (write_irq_csr addr v read_accessed) (csr_orelse (write_counter_csr addr v)
                (csr_orelse (write_config_csr env addr v) (write_indirect_csr addr v))))) of
         Some f \<Rightarrow> f
       | None \<Rightarrow>
           if is_spmp_csr addr then seq_op (mem_op (\<lambda>core. cmi_clear_spmp_cache)) (write_default addr v)
           else if \<not> is_valid_csr32_addr addr then RAISE_ILLEGAL_INSTRUCTION
           else write_default addr v)"

section \<open>The CSR instructions\<close>

definition execute_csr_write :: "'p iss_env \<Rightarrow> u32 \<Rightarrow> u32 \<Rightarrow> u32 \<Rightarrow> ('p iss, unit) op" where
  "execute_csr_write env addr rd v =
     bind_op (is_invalid_csr_access addr True) (\<lambda>bad.
       if bad then RAISE_ILLEGAL_INSTRUCTION
       else let read = rd \<noteq> 0 in
         seq_op (when_op read (bind_op (get_csr_value env addr) (set_reg rd))) (set_csr_value env addr v read))"

definition execute_csr_modify :: "'p iss_env \<Rightarrow> (u32 \<Rightarrow> u32) \<Rightarrow> u32 \<Rightarrow> u32 \<Rightarrow> bool \<Rightarrow> ('p iss, unit) op" where
  "execute_csr_modify env f addr rd write =
     bind_op (is_invalid_csr_access addr write) (\<lambda>bad.
       if bad then RAISE_ILLEGAL_INSTRUCTION
       else let read = rd \<noteq> 0 in
         bind_op (get_csr_value env addr) (\<lambda>csr_val.
         seq_op (when_op read (set_reg rd csr_val)) (when_op write (set_csr_value env addr (f csr_val) read))))"

end
