(* ===== verification/VP_ISS_FP.thy ===== *)
theory VP_ISS_FP
  imports VP_ISS_CSR
begin

text \<open>
  Floating-point instructions of the RV32 simulator (\<^verbatim>\<open>core/rv32/iss.cpp\<close>, cases \<^verbatim>\<open>FLW\<close> to \<^verbatim>\<open>FCVT_D_WU\<close>
  of \<^verbatim>\<open>exec_step\<close>, and the \<^verbatim>\<open>fp_*\<close> functions): the extension and status checks, the rounding mode, the
  registers each instruction reads and writes and the exception flags, over the functions of
  the softfloat library.
\<close>

section \<open>Status and rounding mode\<close>

definition fp_require_not_off :: "('p iss, unit) op" where
  "fp_require_not_off = check_op (\<lambda>s. mstatus_fs (csr_mstatus (iss_csrs s)) = FS_OFF) RAISE_ILLEGAL_INSTRUCTION"

definition fp_prepare_instr :: "('p iss, unit) op" where
  "fp_prepare_instr = seq_op (get_op (\<lambda>s. iss_exceptionFlags s = 0) assert_op) fp_require_not_off"

definition fp_set_dirty :: "('p iss, unit) op" where
  "fp_set_dirty = csr_op (\<lambda>t. t\<lparr>csr_mstatus := set_mstatus_fs FS_DIRTY (set_mstatus_sd 1 (csr_mstatus t))\<rparr>)"

definition fp_update_exception_flags :: "('p iss, unit) op" where
  "fp_update_exception_flags = get_op iss_exceptionFlags (\<lambda>flags.
     when_op (flags \<noteq> 0) (seq_op fp_set_dirty (seq_op
       (csr_op (\<lambda>t. t\<lparr>csr_fcsr := set_fcsr_fflags (fcsr_fflags (csr_fcsr t) OR flags) (csr_fcsr t)\<rparr>))
       (modify_op (\<lambda>s. s\<lparr>iss_exceptionFlags := 0\<rparr>)))))"

definition fp_finish_instr :: "('p iss, unit) op" where
  "fp_finish_instr = seq_op fp_set_dirty fp_update_exception_flags"

definition fp_setup_rm :: "('p iss, unit) op" where
  "fp_setup_rm = get_op (\<lambda>s. let rm = instr_frm (iss_instr s) in
       if rm = FRM_DYN then fcsr_frm (csr_fcsr (iss_csrs s)) else rm) (\<lambda>rm.
     if rm \<ge> FRM_RMM then RAISE_ILLEGAL_INSTRUCTION else modify_op (\<lambda>s. s\<lparr>iss_roundingMode := rm\<rparr>))"

section \<open>Shapes of the instructions\<close>

text \<open>A call of a library function adds the flags it raises to \<^verbatim>\<open>softfloat_exceptionFlags\<close>.\<close>

definition sf_call :: "('p iss \<Rightarrow> 'a \<times> u32) \<Rightarrow> ('a \<Rightarrow> ('p iss, unit) op) \<Rightarrow> ('p iss, unit) op" where
  "sf_call f k = get_op f (\<lambda>(v, flags).
     seq_op (modify_op (\<lambda>s. s\<lparr>iss_exceptionFlags := iss_exceptionFlags s OR flags\<rparr>)) (k v))"

definition put_f32 :: "u32 \<Rightarrow> ('p iss, unit) op" where
  "put_f32 v = modify_op (\<lambda>s. s\<lparr>iss_fp_regs := fp_write_f32 (instr_rd (iss_instr s)) v (iss_fp_regs s)\<rparr>)"
definition put_f64 :: "u64 \<Rightarrow> ('p iss, unit) op" where
  "put_f64 v = modify_op (\<lambda>s. s\<lparr>iss_fp_regs := fp_write_f64 (instr_rd (iss_instr s)) v (iss_fp_regs s)\<rparr>)"
definition put_rd :: "u32 \<Rightarrow> ('p iss, unit) op" where
  "put_rd v = get_op (\<lambda>s. instr_rd (iss_instr s)) (\<lambda>rd. set_reg rd v)"

definition f32_1 :: "'p iss \<Rightarrow> u32" where "f32_1 s = fp_f32 (instr_rs1 (iss_instr s)) (iss_fp_regs s)"
definition f32_2 :: "'p iss \<Rightarrow> u32" where "f32_2 s = fp_f32 (instr_rs2 (iss_instr s)) (iss_fp_regs s)"
definition f32_3 :: "'p iss \<Rightarrow> u32" where "f32_3 s = fp_f32 (instr_rs3 (iss_instr s)) (iss_fp_regs s)"
definition f64_1 :: "'p iss \<Rightarrow> u64" where "f64_1 s = fp_f64 (instr_rs1 (iss_instr s)) (iss_fp_regs s)"
definition f64_2 :: "'p iss \<Rightarrow> u64" where "f64_2 s = fp_f64 (instr_rs2 (iss_instr s)) (iss_fp_regs s)"
definition f64_3 :: "'p iss \<Rightarrow> u64" where "f64_3 s = fp_f64 (instr_rs3 (iss_instr s)) (iss_fp_regs s)"
definition x_1 :: "'p iss \<Rightarrow> u32" where "x_1 s = xreg s (instr_rs1 (iss_instr s))"

text \<open>An instruction that rounds, and one that compares and writes an integer register.\<close>

definition fp_rounding :: "('p iss \<Rightarrow> 'a \<times> u32) \<Rightarrow> ('a \<Rightarrow> ('p iss, unit) op) \<Rightarrow> ('p iss, unit) op" where
  "fp_rounding f put = seq_op fp_prepare_instr (seq_op fp_setup_rm (seq_op (sf_call f put) fp_finish_instr))"

definition fp_compare :: "('p iss \<Rightarrow> bool \<times> u32) \<Rightarrow> ('p iss, unit) op" where
  "fp_compare f = seq_op fp_prepare_instr (seq_op (sf_call f (\<lambda>b. put_rd (of_bool b))) fp_update_exception_flags)"

definition fp_move :: "('p iss \<Rightarrow> 'a) \<Rightarrow> ('a \<Rightarrow> ('p iss, unit) op) \<Rightarrow> ('p iss, unit) op" where
  "fp_move f put = seq_op fp_prepare_instr (seq_op (get_op f put) fp_set_dirty)"

text \<open>\<^verbatim>\<open>x || (y && z)\<close> with calls of the library: the second call is made only if the first is false.\<close>

definition f32_smaller :: "'z softfloat_scheme \<Rightarrow> u32 \<Rightarrow> u32 \<Rightarrow> u32 \<Rightarrow> bool \<times> u32" where
  "f32_smaller sf a b negative =
     (let (lt, flags1) = f32_lt_quiet sf a b in
      if lt then (True, flags1)
      else let (e, flags2) = f32_eq sf a b in (e \<and> f32_isNegative negative, flags1 OR flags2))"
definition f64_smaller :: "'z softfloat_scheme \<Rightarrow> u64 \<Rightarrow> u64 \<Rightarrow> u64 \<Rightarrow> bool \<times> u32" where
  "f64_smaller sf a b negative =
     (let (lt, flags1) = f64_lt_quiet sf a b in
      if lt then (True, flags1)
      else let (e, flags2) = f64_eq sf a b in (e \<and> f64_isNegative negative, flags1 OR flags2))"

section \<open>RV32F\<close>

definition trap_check_addr_alignment :: "u32 \<Rightarrow> bool \<Rightarrow> u32 \<Rightarrow> ('p iss, unit) op" where
  "trap_check_addr_alignment alignment isLoad addr =
     (if addr mod alignment \<noteq> 0
      then trap_op (if isLoad then EXC_LOAD_ADDR_MISALIGNED else EXC_STORE_AMO_ADDR_MISALIGNED) addr
      else ret_op ())"

definition exec_flw :: "'p iss_env \<Rightarrow> ('p iss, unit) op" where
  "exec_flw env = get_op (\<lambda>s. x_1 s + I_imm (iss_instr s)) (\<lambda>addr.
     seq_op (trap_check_addr_alignment 4 True addr)
       (bind_op (mem_op (\<lambda>core. load_word (env_pt env) core (ucast addr) NoneMode False)) put_f32))"

definition exec_fsw :: "'p iss_env \<Rightarrow> ('p iss, unit) op" where
  "exec_fsw env = get_op id (\<lambda>s. let addr = x_1 s + S_imm (iss_instr s) in
     seq_op (trap_check_addr_alignment 4 False addr)
       (mem_op (\<lambda>core. store_word (env_pt env) core (ucast addr) (fp_u32 (instr_rs2 (iss_instr s)) (iss_fp_regs s)) NoneMode)))"

definition exec_fminmax_s :: "('p iss \<Rightarrow> bool \<times> u32) \<Rightarrow> ('p iss, unit) op" where
  "exec_fminmax_s choose_rs1 = seq_op fp_prepare_instr (seq_op (sf_call choose_rs1 (\<lambda>b. get_op id (\<lambda>s.
     if f32_isNaN (f32_1 s) \<and> f32_isNaN (f32_2 s) then put_f32 f32_defaultNaN
     else if b then put_f32 (f32_1 s) else put_f32 (f32_2 s)))) fp_finish_instr)"

definition exec_rv32f :: "'p iss_env \<Rightarrow> rv32f \<Rightarrow> ('p iss, unit) op" where
  "exec_rv32f env op = seq_op (REQUIRE_ISA misa_F)
     (let sf = env_softfloat env; rm = iss_roundingMode in
      case op of
        FLW \<Rightarrow> exec_flw env
      | FSW \<Rightarrow> exec_fsw env
      | FADD_S \<Rightarrow> fp_rounding (\<lambda>s. f32_add sf (rm s) (f32_1 s) (f32_2 s)) put_f32
      | FSUB_S \<Rightarrow> fp_rounding (\<lambda>s. f32_sub sf (rm s) (f32_1 s) (f32_2 s)) put_f32
      | FMUL_S \<Rightarrow> fp_rounding (\<lambda>s. f32_mul sf (rm s) (f32_1 s) (f32_2 s)) put_f32
      | FDIV_S \<Rightarrow> fp_rounding (\<lambda>s. f32_div sf (rm s) (f32_1 s) (f32_2 s)) put_f32
      | FSQRT_S \<Rightarrow> fp_rounding (\<lambda>s. f32_sqrt sf (rm s) (f32_1 s)) put_f32
      | FMIN_S \<Rightarrow> exec_fminmax_s (\<lambda>s. f32_smaller sf (f32_1 s) (f32_2 s) (f32_1 s))
      | FMAX_S \<Rightarrow> exec_fminmax_s (\<lambda>s. f32_smaller sf (f32_2 s) (f32_1 s) (f32_2 s))
      | FMADD_S \<Rightarrow> fp_rounding (\<lambda>s. f32_mulAdd sf (rm s) (f32_1 s) (f32_2 s) (f32_3 s)) put_f32
      | FMSUB_S \<Rightarrow> fp_rounding (\<lambda>s. f32_mulAdd sf (rm s) (f32_1 s) (f32_2 s) (f32_neg (f32_3 s))) put_f32
      | FNMADD_S \<Rightarrow> fp_rounding (\<lambda>s. f32_mulAdd sf (rm s) (f32_neg (f32_1 s)) (f32_2 s) (f32_neg (f32_3 s))) put_f32
      | FNMSUB_S \<Rightarrow> fp_rounding (\<lambda>s. f32_mulAdd sf (rm s) (f32_neg (f32_1 s)) (f32_2 s) (f32_3 s)) put_f32
      | FCVT_W_S \<Rightarrow> fp_rounding (\<lambda>s. f32_to_i32 sf (rm s) (f32_1 s)) put_rd
      | FCVT_WU_S \<Rightarrow> fp_rounding (\<lambda>s. f32_to_ui32 sf (rm s) (f32_1 s)) put_rd
      | FCVT_S_W \<Rightarrow> fp_rounding (\<lambda>s. i32_to_f32 sf (rm s) (x_1 s)) put_f32
      | FCVT_S_WU \<Rightarrow> fp_rounding (\<lambda>s. ui32_to_f32 sf (rm s) (x_1 s)) put_f32
      | FSGNJ_S \<Rightarrow> fp_move (\<lambda>s. (f32_1 s AND NOT F32_SIGN_BIT) OR (f32_2 s AND F32_SIGN_BIT)) put_f32
      | FSGNJN_S \<Rightarrow> fp_move (\<lambda>s. (f32_1 s AND NOT F32_SIGN_BIT) OR (NOT (f32_2 s) AND F32_SIGN_BIT)) put_f32
      | FSGNJX_S \<Rightarrow> fp_move (\<lambda>s. f32_1 s XOR (f32_2 s AND F32_SIGN_BIT)) put_f32
      | FMV_W_X \<Rightarrow> fp_move x_1 put_f32
      | FMV_X_W \<Rightarrow> seq_op fp_prepare_instr (get_op (\<lambda>s. fp_u32 (instr_rs1 (iss_instr s)) (iss_fp_regs s)) put_rd)
      | FEQ_S \<Rightarrow> fp_compare (\<lambda>s. f32_eq sf (f32_1 s) (f32_2 s))
      | FLT_S \<Rightarrow> fp_compare (\<lambda>s. f32_lt sf (f32_1 s) (f32_2 s))
      | FLE_S \<Rightarrow> fp_compare (\<lambda>s. f32_le sf (f32_1 s) (f32_2 s))
      | FCLASS_S \<Rightarrow> seq_op fp_prepare_instr (get_op (\<lambda>s. f32_classify sf (f32_1 s)) put_rd))"

section \<open>RV32D\<close>

definition exec_fld :: "'p iss_env \<Rightarrow> ('p iss, unit) op" where
  "exec_fld env = get_op (\<lambda>s. x_1 s + I_imm (iss_instr s)) (\<lambda>addr.
     seq_op (trap_check_addr_alignment 8 True addr)
       (bind_op (mem_op (\<lambda>core. load_double (env_pt env) core (ucast addr))) put_f64))"

definition exec_fsd :: "'p iss_env \<Rightarrow> ('p iss, unit) op" where
  "exec_fsd env = get_op id (\<lambda>s. let addr = x_1 s + S_imm (iss_instr s) in
     seq_op (trap_check_addr_alignment 8 False addr)
       (mem_op (\<lambda>core. store_double (env_pt env) core (ucast addr) (f64_2 s))))"

definition exec_fminmax_d :: "('p iss \<Rightarrow> bool \<times> u32) \<Rightarrow> ('p iss, unit) op" where
  "exec_fminmax_d choose_rs1 = seq_op fp_prepare_instr (seq_op (sf_call choose_rs1 (\<lambda>b. get_op id (\<lambda>s.
     if f64_isNaN (f64_1 s) \<and> f64_isNaN (f64_2 s) then put_f64 f64_defaultNaN
     else if b then put_f64 (f64_1 s) else put_f64 (f64_2 s)))) fp_finish_instr)"

definition exec_rv32d :: "'p iss_env \<Rightarrow> rv32d \<Rightarrow> ('p iss, unit) op" where
  "exec_rv32d env op = seq_op (REQUIRE_ISA misa_D)
     (let sf = env_softfloat env; rm = iss_roundingMode in
      case op of
        FLD \<Rightarrow> exec_fld env
      | FSD \<Rightarrow> exec_fsd env
      | FADD_D \<Rightarrow> fp_rounding (\<lambda>s. f64_add sf (rm s) (f64_1 s) (f64_2 s)) put_f64
      | FSUB_D \<Rightarrow> fp_rounding (\<lambda>s. f64_sub sf (rm s) (f64_1 s) (f64_2 s)) put_f64
      | FMUL_D \<Rightarrow> fp_rounding (\<lambda>s. f64_mul sf (rm s) (f64_1 s) (f64_2 s)) put_f64
      | FDIV_D \<Rightarrow> fp_rounding (\<lambda>s. f64_div sf (rm s) (f64_1 s) (f64_2 s)) put_f64
      | FSQRT_D \<Rightarrow> fp_rounding (\<lambda>s. f64_sqrt sf (rm s) (f64_1 s)) put_f64
      | FMIN_D \<Rightarrow> exec_fminmax_d (\<lambda>s. f64_smaller sf (f64_1 s) (f64_2 s) (f64_1 s))
      | FMAX_D \<Rightarrow> exec_fminmax_d (\<lambda>s. f64_smaller sf (f64_2 s) (f64_1 s) (f64_2 s))
      | FMADD_D \<Rightarrow> fp_rounding (\<lambda>s. f64_mulAdd sf (rm s) (f64_1 s) (f64_2 s) (f64_3 s)) put_f64
      | FMSUB_D \<Rightarrow> fp_rounding (\<lambda>s. f64_mulAdd sf (rm s) (f64_1 s) (f64_2 s) (f64_neg (f64_3 s))) put_f64
      | FNMADD_D \<Rightarrow> fp_rounding (\<lambda>s. f64_mulAdd sf (rm s) (f64_neg (f64_1 s)) (f64_2 s) (f64_neg (f64_3 s))) put_f64
      | FNMSUB_D \<Rightarrow> fp_rounding (\<lambda>s. f64_mulAdd sf (rm s) (f64_neg (f64_1 s)) (f64_2 s) (f64_3 s)) put_f64
      | FSGNJ_D \<Rightarrow> fp_move (\<lambda>s. (f64_1 s AND NOT F64_SIGN_BIT) OR (f64_2 s AND F64_SIGN_BIT)) put_f64
      | FSGNJN_D \<Rightarrow> fp_move (\<lambda>s. (f64_1 s AND NOT F64_SIGN_BIT) OR (NOT (f64_2 s) AND F64_SIGN_BIT)) put_f64
      | FSGNJX_D \<Rightarrow> fp_move (\<lambda>s. f64_1 s XOR (f64_2 s AND F64_SIGN_BIT)) put_f64
      | FCVT_S_D \<Rightarrow> fp_rounding (\<lambda>s. f64_to_f32 sf (rm s) (f64_1 s)) put_f32
      | FCVT_D_S \<Rightarrow> fp_rounding (\<lambda>s. f32_to_f64 sf (rm s) (f32_1 s)) put_f64
      | FEQ_D \<Rightarrow> fp_compare (\<lambda>s. f64_eq sf (f64_1 s) (f64_2 s))
      | FLT_D \<Rightarrow> fp_compare (\<lambda>s. f64_lt sf (f64_1 s) (f64_2 s))
      | FLE_D \<Rightarrow> fp_compare (\<lambda>s. f64_le sf (f64_1 s) (f64_2 s))
      | FCLASS_D \<Rightarrow> seq_op fp_prepare_instr (get_op (\<lambda>s. f64_classify sf (f64_1 s)) put_rd)
      | FCVT_W_D \<Rightarrow> fp_rounding (\<lambda>s. f64_to_i32 sf (rm s) (f64_1 s)) put_rd
      | FCVT_WU_D \<Rightarrow> fp_rounding (\<lambda>s. f64_to_ui32 sf (rm s) (f64_1 s)) put_rd
      | FCVT_D_W \<Rightarrow> fp_rounding (\<lambda>s. i32_to_f64 sf (rm s) (x_1 s)) put_f64
      | FCVT_D_WU \<Rightarrow> fp_rounding (\<lambda>s. ui32_to_f64 sf (rm s) (x_1 s)) put_f64)"

end
