(* ===== verification/VP_ISS_Exec.thy ===== *)
theory VP_ISS_Exec
  imports VP_ISS_FP "HOL-Library.Signed_Division"
begin

text \<open>
  Execution of instructions by the RV32 simulator (\<^verbatim>\<open>core/rv32/iss.cpp\<close>): \<^verbatim>\<open>exec_step\<close>, with one
  definition per group of opcodes, the accounting after an instruction, \<^verbatim>\<open>run_step\<close> and \<^verbatim>\<open>run\<close>.
  The signed arithmetic of the source (\<^verbatim>\<open>ADDI\<close>, \<^verbatim>\<open>ADD\<close>, \<^verbatim>\<open>SUB\<close>, the address computations) wraps around.
  The trace output is left out. \<^verbatim>\<open>run\<close> does not return while the core is runnable: its loop is a
  partial function.
\<close>

section \<open>Integer instructions\<close>

definition rs1_val :: "'p iss \<Rightarrow> u32" where "rs1_val s = xreg s (instr_rs1 (iss_instr s))"
definition rs2_val :: "'p iss \<Rightarrow> u32" where "rs2_val s = xreg s (instr_rs2 (iss_instr s))"

definition write_rd :: "('p iss \<Rightarrow> u32) \<Rightarrow> ('p iss, unit) op" where
  "write_rd f = get_op id (\<lambda>s. set_reg (instr_rd (iss_instr s)) (f s))"

definition trap_check_pc_alignment :: "('p iss, unit) op" where
  "trap_check_pc_alignment = seq_op (get_op (\<lambda>s. iss_pc s AND 1 = 0) assert_op)
     (get_op id (\<lambda>s. if iss_pc s AND 3 \<noteq> 0 \<and> \<not> has_C_extension (csr_misa (iss_csrs s))
                     then trap_op EXC_INSTR_ADDR_MISALIGNED (iss_pc s) else ret_op ()))"

definition shift_amount :: "'p iss \<Rightarrow> nat" where
  "shift_amount s = unat (BIT_RANGE (rs2_val s) 4 0)"

definition branch :: "('p iss \<Rightarrow> bool) \<Rightarrow> ('p iss, unit) op" where
  "branch cond = get_op id (\<lambda>s. when_op (cond s)
     (seq_op (set_pc (iss_last_pc s + B_imm (iss_instr s))) trap_check_pc_alignment))"

definition jump_and_link :: "('p iss \<Rightarrow> u32) \<Rightarrow> ('p iss, unit) op" where
  "jump_and_link target = get_op id (\<lambda>s. let link = iss_pc s in
     seq_op (set_pc (target s)) (seq_op trap_check_pc_alignment (write_rd (\<lambda>_. link))))"

definition load_rd :: "u32 \<Rightarrow> (u64 \<Rightarrow> mem_core \<Rightarrow> ('p cmi, u32) op) \<Rightarrow> ('p iss, unit) op" where
  "load_rd alignment f = get_op (\<lambda>s. rs1_val s + I_imm (iss_instr s)) (\<lambda>addr.
     seq_op (trap_check_addr_alignment alignment True addr)
       (bind_op (mem_op (f (ucast addr))) (\<lambda>v. write_rd (\<lambda>_. v))))"

definition store_rs2 :: "u32 \<Rightarrow> (u64 \<Rightarrow> u32 \<Rightarrow> mem_core \<Rightarrow> ('p cmi, unit) op) \<Rightarrow> ('p iss, unit) op" where
  "store_rs2 alignment f = get_op id (\<lambda>s. let addr = rs1_val s + S_imm (iss_instr s) in
     seq_op (trap_check_addr_alignment alignment False addr) (mem_op (f (ucast addr) (rs2_val s))))"

definition exec_ecall :: "'p iss_env \<Rightarrow> ('p iss, unit) op" where
  "exec_ecall env = get_op id (\<lambda>s.
     if iss_sys s then env_execute_syscall env
     else if iss_prv s = MachineMode then trap_op EXC_ECALL_M_MODE (iss_last_pc s)
     else if iss_prv s = VirtualSupervisorMode then trap_op EXC_ECALL_VS_MODE (iss_last_pc s)
     else if iss_prv s = SupervisorMode then trap_op EXC_ECALL_S_MODE (iss_last_pc s)
     else if iss_prv s = VirtualUserMode \<or> iss_prv s = UserMode then trap_op EXC_ECALL_U_MODE (iss_last_pc s)
     else fail_op (RuntimeError ''unknown privilege level''))"

definition exec_rv32i :: "'p iss_env \<Rightarrow> rv32i \<Rightarrow> ('p iss, unit) op" where
  "exec_rv32i env op = (let imm = (\<lambda>s. I_imm (iss_instr s)); pt = env_pt env in
     case op of
       ADDI \<Rightarrow> write_rd (\<lambda>s. rs1_val s + imm s)
     | SLTI \<Rightarrow> write_rd (\<lambda>s. of_bool (sint (rs1_val s) < sint (imm s)))
     | SLTIU \<Rightarrow> write_rd (\<lambda>s. of_bool (rs1_val s < imm s))
     | XORI \<Rightarrow> write_rd (\<lambda>s. rs1_val s XOR imm s)
     | ORI \<Rightarrow> write_rd (\<lambda>s. rs1_val s OR imm s)
     | ANDI \<Rightarrow> write_rd (\<lambda>s. rs1_val s AND imm s)
     | ADD \<Rightarrow> write_rd (\<lambda>s. rs1_val s + rs2_val s)
     | SUB \<Rightarrow> write_rd (\<lambda>s. rs1_val s - rs2_val s)
     | SLL \<Rightarrow> write_rd (\<lambda>s. push_bit (shift_amount s) (rs1_val s))
     | SLT \<Rightarrow> write_rd (\<lambda>s. of_bool (sint (rs1_val s) < sint (rs2_val s)))
     | SLTU \<Rightarrow> write_rd (\<lambda>s. of_bool (rs1_val s < rs2_val s))
     | SRL \<Rightarrow> write_rd (\<lambda>s. drop_bit (shift_amount s) (rs1_val s))
     | SRA \<Rightarrow> write_rd (\<lambda>s. signed_drop_bit (shift_amount s) (rs1_val s))
     | XOR_op \<Rightarrow> write_rd (\<lambda>s. rs1_val s XOR rs2_val s)
     | OR_op \<Rightarrow> write_rd (\<lambda>s. rs1_val s OR rs2_val s)
     | AND_op \<Rightarrow> write_rd (\<lambda>s. rs1_val s AND rs2_val s)
     | SLLI \<Rightarrow> write_rd (\<lambda>s. push_bit (unat (instr_shamt (iss_instr s))) (rs1_val s))
     | SRLI \<Rightarrow> write_rd (\<lambda>s. drop_bit (unat (instr_shamt (iss_instr s))) (rs1_val s))
     | SRAI \<Rightarrow> write_rd (\<lambda>s. signed_drop_bit (unat (instr_shamt (iss_instr s))) (rs1_val s))
     | LUI \<Rightarrow> write_rd (\<lambda>s. U_imm (iss_instr s))
     | AUIPC \<Rightarrow> write_rd (\<lambda>s. iss_last_pc s + U_imm (iss_instr s))
     | JAL \<Rightarrow> jump_and_link (\<lambda>s. iss_last_pc s + J_imm (iss_instr s))
     | JALR \<Rightarrow> jump_and_link (\<lambda>s. (rs1_val s + imm s) AND NOT 1)
     | SB \<Rightarrow> store_rs2 1 (\<lambda>addr v core. store_byte pt core addr (ucast v) NoneMode)
     | SH \<Rightarrow> store_rs2 2 (\<lambda>addr v core. store_half pt core addr (ucast v) NoneMode)
     | SW \<Rightarrow> store_rs2 4 (\<lambda>addr v core. store_word pt core addr v NoneMode)
     | LB \<Rightarrow> load_rd 1 (\<lambda>addr core. load_byte pt core addr NoneMode)
     | LH \<Rightarrow> load_rd 2 (\<lambda>addr core. load_half pt core addr NoneMode)
     | LW \<Rightarrow> load_rd 4 (\<lambda>addr core. load_word pt core addr NoneMode False)
     | LBU \<Rightarrow> load_rd 1 (\<lambda>addr core. load_ubyte pt core addr NoneMode)
     | LHU \<Rightarrow> load_rd 2 (\<lambda>addr core. load_uhalf pt core addr NoneMode False)
     | BEQ \<Rightarrow> branch (\<lambda>s. rs1_val s = rs2_val s)
     | BNE \<Rightarrow> branch (\<lambda>s. rs1_val s \<noteq> rs2_val s)
     | BLT \<Rightarrow> branch (\<lambda>s. sint (rs1_val s) < sint (rs2_val s))
     | BGE \<Rightarrow> branch (\<lambda>s. sint (rs1_val s) \<ge> sint (rs2_val s))
     | BLTU \<Rightarrow> branch (\<lambda>s. rs1_val s < rs2_val s)
     | BGEU \<Rightarrow> branch (\<lambda>s. rs1_val s \<ge> rs2_val s)
     | FENCE \<Rightarrow> ret_op ()
     | ECALL \<Rightarrow> exec_ecall env
     | EBREAK \<Rightarrow> modify_op (\<lambda>s. s\<lparr>iss_status := HitBreakpoint\<rparr>))"

section \<open>CSR instructions\<close>

definition exec_zicsr :: "'p iss_env \<Rightarrow> zicsr \<Rightarrow> ('p iss, unit) op" where
  "exec_zicsr env op = get_op id (\<lambda>s.
     let i = iss_instr s; addr = instr_csr i; rd = instr_rd i; rs1 = instr_rs1 i; v = rs1_val s; zimm = instr_zimm i in
     case op of
       CSRRW \<Rightarrow> execute_csr_write env addr rd v
     | CSRRS \<Rightarrow> execute_csr_modify env (\<lambda>c. c OR v) addr rd (rs1 \<noteq> 0)
     | CSRRC \<Rightarrow> execute_csr_modify env (\<lambda>c. c AND NOT v) addr rd (rs1 \<noteq> 0)
     | CSRRWI \<Rightarrow> execute_csr_write env addr rd zimm
     | CSRRSI \<Rightarrow> execute_csr_modify env (\<lambda>c. c OR zimm) addr rd (zimm \<noteq> 0)
     | CSRRCI \<Rightarrow> execute_csr_modify env (\<lambda>c. c AND NOT zimm) addr rd (zimm \<noteq> 0))"

section \<open>Multiplication and division\<close>

definition REG_MIN :: u32 where "REG_MIN = 0x80000000"

definition mul_low :: "u32 \<Rightarrow> u32 \<Rightarrow> u32" where
  "mul_low a b = (let ans = scast a * scast b :: u64 in ucast (ans AND 0xFFFFFFFF))"
definition mulh_result :: "u32 \<Rightarrow> u32 \<Rightarrow> u32" where
  "mulh_result a b = (let ans = scast a * scast b :: u64 in ucast (drop_bit 32 (ans AND 0xFFFFFFFF00000000)))"
definition mulhu_result :: "u32 \<Rightarrow> u32 \<Rightarrow> u32" where
  "mulhu_result a b = (let ans = ucast a * ucast b :: u64 in ucast (drop_bit 32 (ans AND 0xFFFFFFFF00000000)))"
definition mulhsu_result :: "u32 \<Rightarrow> u32 \<Rightarrow> u32" where
  "mulhsu_result a b = (let ans = scast a * ucast b :: u64 in ucast (drop_bit 32 (ans AND 0xFFFFFFFF00000000)))"

definition div_result :: "u32 \<Rightarrow> u32 \<Rightarrow> u32" where
  "div_result a b = (if b = 0 then -1 else if a = REG_MIN \<and> b = -1 then a else word_of_int (sint a sdiv sint b))"
definition divu_result :: "u32 \<Rightarrow> u32 \<Rightarrow> u32" where
  "divu_result a b = (if b = 0 then -1 else a div b)"
definition rem_result :: "u32 \<Rightarrow> u32 \<Rightarrow> u32" where
  "rem_result a b = (if b = 0 then a else if a = REG_MIN \<and> b = -1 then 0 else word_of_int (sint a smod sint b))"
definition remu_result :: "u32 \<Rightarrow> u32 \<Rightarrow> u32" where
  "remu_result a b = (if b = 0 then a else a mod b)"

definition rv32m_result :: "rv32m \<Rightarrow> u32 \<Rightarrow> u32 \<Rightarrow> u32" where
  "rv32m_result op = (case op of
       MUL \<Rightarrow> mul_low | MULH \<Rightarrow> mulh_result | MULHU \<Rightarrow> mulhu_result | MULHSU \<Rightarrow> mulhsu_result
     | DIV \<Rightarrow> div_result | DIVU \<Rightarrow> divu_result | REM \<Rightarrow> rem_result | REMU \<Rightarrow> remu_result)"

definition exec_rv32m :: "rv32m \<Rightarrow> ('p iss, unit) op" where
  "exec_rv32m op = seq_op (REQUIRE_ISA misa_M) (write_rd (\<lambda>s. rv32m_result op (rs1_val s) (rs2_val s)))"

section \<open>Atomic instructions\<close>

definition catch_trap :: "(u32 \<Rightarrow> u32) \<Rightarrow> ('s, 'a) op \<Rightarrow> ('s, 'a) op" where
  "catch_trap f g = (\<lambda>s. case g s of
     (Inl (SimulationTrap reason mtval mtval2_htval), s') \<Rightarrow> (Inl (SimulationTrap (f reason) mtval mtval2_htval), s')
   | r \<Rightarrow> r)"

definition execute_amo :: "'p iss_env \<Rightarrow> (u32 \<Rightarrow> u32 \<Rightarrow> u32) \<Rightarrow> ('p iss, unit) op" where
  "execute_amo env operation = get_op rs1_val (\<lambda>addr.
     seq_op (trap_check_addr_alignment 4 False addr) (
     bind_op (catch_trap (\<lambda>reason. if reason = EXC_LOAD_ACCESS_FAULT then EXC_STORE_AMO_ACCESS_FAULT else reason)
         (mem_op (\<lambda>core. atomic_load_word (env_pt env) core (ucast addr)))) (\<lambda>data.
     get_op (\<lambda>s. operation data (rs2_val s)) (\<lambda>val.
     seq_op (mem_op (\<lambda>core. atomic_store_word (env_pt env) core (ucast addr) val)) (write_rd (\<lambda>_. data))))))"

text \<open>The operation an AMO passes to \<^verbatim>\<open>execute_amo\<close>; \<^verbatim>\<open>LR_W\<close> and \<^verbatim>\<open>SC_W\<close> are not AMOs and have none.\<close>

definition amo_result :: "rv32a \<Rightarrow> u32 \<Rightarrow> u32 \<Rightarrow> u32" where
  "amo_result op a b = (case op of
       AMOSWAP_W \<Rightarrow> b
     | AMOADD_W \<Rightarrow> a + b
     | AMOXOR_W \<Rightarrow> a XOR b
     | AMOAND_W \<Rightarrow> a AND b
     | AMOOR_W \<Rightarrow> a OR b
     | AMOMIN_W \<Rightarrow> if sint b < sint a then b else a
     | AMOMINU_W \<Rightarrow> if b < a then b else a
     | AMOMAX_W \<Rightarrow> if sint a < sint b then b else a
     | AMOMAXU_W \<Rightarrow> if a < b then b else a
     | LR_W \<Rightarrow> a
     | SC_W \<Rightarrow> a)"

definition exec_lr_w :: "'p iss_env \<Rightarrow> ('p iss, unit) op" where
  "exec_lr_w env = get_op rs1_val (\<lambda>addr.
     seq_op (trap_check_addr_alignment 4 True addr) (
     bind_op (mem_op (\<lambda>core. atomic_load_reserved_word (env_pt env) core (ucast addr))) (\<lambda>v.
     seq_op (write_rd (\<lambda>_. v))
       (modify_op (\<lambda>s. if iss_lr_sc_counter s = 0 then s\<lparr>iss_lr_sc_counter := 17\<rparr> else s)))))"

definition exec_sc_w :: "'p iss_env \<Rightarrow> ('p iss, unit) op" where
  "exec_sc_w env = get_op rs1_val (\<lambda>addr.
     seq_op (trap_check_addr_alignment 4 False addr) (
     get_op rs2_val (\<lambda>val.
     seq_op (write_rd (\<lambda>_. 1)) (
     bind_op (mem_op (\<lambda>core. atomic_store_conditional_word (env_pt env) core (ucast addr) val)) (\<lambda>ok.
     seq_op (write_rd (\<lambda>_. if ok then 0 else 1)) (modify_op (\<lambda>s. s\<lparr>iss_lr_sc_counter := 0\<rparr>)))))))"

definition exec_rv32a :: "'p iss_env \<Rightarrow> rv32a \<Rightarrow> ('p iss, unit) op" where
  "exec_rv32a env op = seq_op (REQUIRE_ISA misa_A)
     (if op = LR_W then exec_lr_w env else if op = SC_W then exec_sc_w env else execute_amo env (amo_result op))"

section \<open>Privileged instructions\<close>

definition ILLEGAL_IF :: "('p iss \<Rightarrow> bool) \<Rightarrow> ('p iss, unit) op" where
  "ILLEGAL_IF cond = check_op cond RAISE_ILLEGAL_INSTRUCTION"
definition VIRTUAL_IF :: "('p iss \<Rightarrow> bool) \<Rightarrow> ('p iss, unit) op" where
  "VIRTUAL_IF cond = check_op cond VIRTUAL_INSTRUCTION"

definition exec_wfi :: "'p iss_env \<Rightarrow> ('p iss, unit) op" where
  "exec_wfi env = seq_op release_lr_sc_reservation (
     seq_op (ILLEGAL_IF (\<lambda>s. s_mode s \<and> mstatus_tw (csr_mstatus (iss_csrs s)) \<noteq> 0)) (
     seq_op (VIRTUAL_IF (\<lambda>s. vs_mode s \<and> hstatus_vtw (csr_hstatus (iss_csrs s)) \<noteq> 0)) (
     seq_op (ILLEGAL_IF (\<lambda>s. u_mode s \<and> has_supervisor_mode_extension (csr_misa (iss_csrs s))))
       (get_op (\<lambda>s. \<not> iss_ignore_wfi s \<and> \<not> has_local_pending_enabled_interrupts s) (\<lambda>b. when_op b (env_wait_wfi env))))))"

definition exec_sret :: "('p iss, unit) op" where
  "exec_sret =
     seq_op (ILLEGAL_IF (\<lambda>s. \<not> has_supervisor_mode_extension (csr_misa (iss_csrs s)))) (
     seq_op (ILLEGAL_IF (\<lambda>s. s_mode s \<and> mstatus_tsr (csr_mstatus (iss_csrs s)) \<noteq> 0)) (
     seq_op (VIRTUAL_IF (\<lambda>s. vs_mode s \<and> hstatus_vtsr (csr_hstatus (iss_csrs s)) \<noteq> 0))
       (get_op iss_prv (\<lambda>prv.
          if prv = VirtualSupervisorMode then return_from_trap_handler VirtualSupervisorMode
          else if prv = SupervisorMode then return_from_trap_handler SupervisorMode
          else if prv = MachineMode then return_from_trap_handler SupervisorMode
          else fail_op (RuntimeError ''SRET: unsupported privilege level'')))))"

definition exec_priv :: "'p iss_env \<Rightarrow> priv_op \<Rightarrow> ('p iss, unit) op" where
  "exec_priv env op = (case op of
       WFI \<Rightarrow> exec_wfi env
     | SFENCE_VMA \<Rightarrow>
         seq_op (ILLEGAL_IF (\<lambda>s. s_mode s \<and> mstatus_tvm (csr_mstatus (iss_csrs s)) \<noteq> 0)) (
         seq_op (VIRTUAL_IF (\<lambda>s. vs_mode s \<and> hstatus_vtvm (csr_hstatus (iss_csrs s)) \<noteq> 0))
           (mem_op (\<lambda>core. cmi_flush_tlb)))
     | SRET \<Rightarrow> exec_sret
     | MRET \<Rightarrow> seq_op (ILLEGAL_IF (\<lambda>s. iss_prv s \<noteq> MachineMode)) (return_from_trap_handler MachineMode)
     | URET \<Rightarrow> fail_op (RuntimeError ''unknown opcode''))"

section \<open>Hypervisor loads and stores\<close>

definition hs_inst_check_access :: "('p iss, unit) op" where
  "hs_inst_check_access =
     seq_op (REQUIRE_ISA misa_H) (
     seq_op (VIRTUAL_IF (\<lambda>s. iss_prv s = VirtualSupervisorMode \<or> iss_prv s = VirtualUserMode)) (
     seq_op (ILLEGAL_IF (\<lambda>s. iss_prv s = UserMode \<and> hstatus_hu (csr_hstatus (iss_csrs s)) = 0))
       (get_op (\<lambda>s. satp_mode (csr_satp (iss_csrs s)) \<noteq> SATP_MODE_BARE \<or> hgatp_mode (csr_hgatp (iss_csrs s)) \<noteq> SATP_MODE_BARE)
          assert_op)))"

definition hs_inst_lvsv_mode :: "'p iss \<Rightarrow> PrivilegeLevel" where
  "hs_inst_lvsv_mode s = (if hstatus_spvp (csr_hstatus (iss_csrs s)) \<noteq> 0 then VirtualSupervisorMode else VirtualUserMode)"

definition hv_load :: "u32 \<Rightarrow> (u64 \<Rightarrow> PrivilegeLevel \<Rightarrow> mem_core \<Rightarrow> ('p cmi, u32) op) \<Rightarrow> ('p iss, unit) op" where
  "hv_load alignment f = seq_op hs_inst_check_access (get_op id (\<lambda>s. let addr = rs1_val s in
     seq_op (trap_check_addr_alignment alignment True addr)
       (bind_op (mem_op (f (ucast addr) (hs_inst_lvsv_mode s))) (\<lambda>v. write_rd (\<lambda>_. v)))))"

definition hv_store :: "u32 \<Rightarrow> (u64 \<Rightarrow> PrivilegeLevel \<Rightarrow> u32 \<Rightarrow> mem_core \<Rightarrow> ('p cmi, unit) op) \<Rightarrow> ('p iss, unit) op" where
  "hv_store alignment f = seq_op hs_inst_check_access (get_op id (\<lambda>s. let addr = rs1_val s in
     seq_op (trap_check_addr_alignment alignment False addr)
       (mem_op (f (ucast addr) (hs_inst_lvsv_mode s) (rs2_val s)))))"

definition exec_hv :: "'p iss_env \<Rightarrow> hv_op \<Rightarrow> ('p iss, unit) op" where
  "exec_hv env op = (let pt = env_pt env in case op of
       HLVB \<Rightarrow> hv_load 1 (\<lambda>addr mode core. load_byte pt core addr mode)
     | HLVBU \<Rightarrow> hv_load 1 (\<lambda>addr mode core. load_ubyte pt core addr mode)
     | HLVH \<Rightarrow> hv_load 2 (\<lambda>addr mode core. load_half pt core addr mode)
     | HLVHU \<Rightarrow> hv_load 2 (\<lambda>addr mode core. load_uhalf pt core addr mode False)
     | HLVW \<Rightarrow> hv_load 4 (\<lambda>addr mode core. load_word pt core addr mode False)
     | HLVXHU \<Rightarrow> hv_load 2 (\<lambda>addr mode core. load_uhalf pt core addr mode True)
     | HLVXWU \<Rightarrow> hv_load 4 (\<lambda>addr mode core. load_word pt core addr mode True)
     | HSVB \<Rightarrow> hv_store 1 (\<lambda>addr mode v core. store_byte pt core addr (ucast v) mode)
     | HSVH \<Rightarrow> hv_store 2 (\<lambda>addr mode v core. store_half pt core addr (ucast v) mode)
     | HSVW \<Rightarrow> hv_store 4 (\<lambda>addr mode v core. store_word pt core addr v mode))"

section \<open>One instruction\<close>

definition exec_opcode :: "'p iss_env \<Rightarrow> Mapping \<Rightarrow> ('p iss, unit) op" where
  "exec_opcode env op = (case op of
       UNDEF \<Rightarrow> RAISE_ILLEGAL_INSTRUCTION
     | RV32I x \<Rightarrow> exec_rv32i env x
     | Zifencei x \<Rightarrow> ret_op ()
     | Zicsr x \<Rightarrow> exec_zicsr env x
     | RV32M x \<Rightarrow> exec_rv32m x
     | RV32A x \<Rightarrow> exec_rv32a env x
     | RV32F x \<Rightarrow> exec_rv32f env x
     | RV32D x \<Rightarrow> exec_rv32d env x
     | Priv x \<Rightarrow> exec_priv env x
     | HV x \<Rightarrow> exec_hv env x
     | _ \<Rightarrow> RAISE_ILLEGAL_INSTRUCTION)"

definition fetch_instr :: "'p iss_env \<Rightarrow> ('p iss, unit) op" where
  "fetch_instr env = (\<lambda>s.
     case mem_op (\<lambda>core. load_instr (env_pt env) core (ucast (iss_pc s))) s of
       (Inl (SimulationTrap r v h), s') \<Rightarrow> (Inl (SimulationTrap r v h), s'\<lparr>iss_op := UNDEF, iss_instr := 0\<rparr>)
     | (Inl e, s') \<Rightarrow> (Inl e, s')
     | (Inr w, s') \<Rightarrow> (Inr (), s'\<lparr>iss_instr := w\<rparr>))"

definition decode_step :: "('p iss, unit) op" where
  "decode_step = get_op iss_instr (\<lambda>i.
     if is_compressed i then
       bind_op (lift_op (decode_and_expand_compressed RV32 i)) (\<lambda>(op, i').
       seq_op (modify_op (\<lambda>s. s\<lparr>iss_op := op, iss_instr := i', iss_pc := iss_pc s + 2\<rparr>))
         (if op \<noteq> UNDEF then REQUIRE_ISA misa_C else ret_op ()))
     else modify_op (\<lambda>s. s\<lparr>iss_op := decode_normal RV32 i, iss_pc := iss_pc s + 4\<rparr>))"

definition exec_step :: "'p iss_env \<Rightarrow> ('p iss, unit) op" where
  "exec_step env =
     seq_op (get_op (\<lambda>s. iss_pc s AND NOT (pc_alignment_mask s) = 0) assert_op) (
     seq_op (fetch_instr env) (
     seq_op decode_step (get_op iss_op (exec_opcode env))))"

section \<open>Accounting\<close>

definition instr_cycles :: "Mapping \<Rightarrow> u64" where
  "instr_cycles op =
     (if op \<in> {RV32I LB, RV32I LBU, RV32I LH, RV32I LHU, RV32I LW, RV32I SB, RV32I SH, RV32I SW} then 4 * cycle_time
      else if op \<in> {RV32M MUL, RV32M MULH, RV32M MULHU, RV32M MULHSU, RV32M DIV, RV32M DIVU, RV32M REM, RV32M REMU}
      then 8 * cycle_time else cycle_time)"

definition count_reservation :: "('p iss, unit) op" where
  "count_reservation = get_op iss_lr_sc_counter (\<lambda>c. when_op (c \<noteq> 0) (
     seq_op (modify_op (\<lambda>s. s\<lparr>iss_lr_sc_counter := c - 1\<rparr>)) (
     seq_op (assert_op (c - 1 \<ge> 0)) (when_op (c - 1 = 0) release_lr_sc_reservation))))"

definition performance_and_sync_update :: "'p iss_env \<Rightarrow> Mapping \<Rightarrow> ('p iss, unit) op" where
  "performance_and_sync_update env executed_op =
     seq_op (modify_op (\<lambda>s. s\<lparr>iss_total_num_instr := iss_total_num_instr s + 1\<rparr>)) (
     seq_op (csr_op (\<lambda>t. if mcountinhibit_IR (csr_mcountinhibit t) = 0 then t\<lparr>csr_instret := csr_instret t + 1\<rparr> else t)) (
     seq_op count_reservation (
     let new_cycles = instr_cycles executed_op in
     seq_op (modify_op (\<lambda>s. if mcountinhibit_CY (csr_mcountinhibit (iss_csrs s)) = 0
                            then s\<lparr>iss_cycle_counter := iss_cycle_counter s + new_cycles\<rparr> else s)) (
     bind_op (env_quantum_inc env new_cycles) (\<lambda>need_sync.
       get_op iss_lr_sc_counter (\<lambda>c. when_op (need_sync \<and> c = 0) (env_quantum_sync env)))))))"

section \<open>Running\<close>

definition process_pending_ivt :: "'p iss_env \<Rightarrow> ('p iss, unit) op" where
  "process_pending_ivt env = get_op iss_ivt_pending (\<lambda>pending. when_op pending (
     seq_op (modify_op (\<lambda>s. s\<lparr>iss_ivt_pending := False\<rparr>))
       (get_op iss_ivt_entry_address (\<lambda>addr.
          bind_op (mem_op (\<lambda>core. load_word (env_pt env) core (ucast addr) NoneMode False)) set_pc))))"

text \<open>The body of the \<^verbatim>\<open>try\<close> block; the result tells whether it returned at a breakpoint.\<close>

definition run_step_body :: "'p iss_env \<Rightarrow> ('p iss, bool) op" where
  "run_step_body env =
     seq_op (get_op (\<lambda>s. xreg s 0 = 0) assert_op) (
     seq_op (process_pending_ivt env) (
     get_op (\<lambda>s. iss_debug_mode s \<and> iss_pc s \<in> iss_breakpoints s) (\<lambda>hit.
       if hit then seq_op (modify_op (\<lambda>s. s\<lparr>iss_status := HitBreakpoint\<rparr>)) (ret_op True)
       else
         seq_op (modify_op (\<lambda>s. s\<lparr>iss_last_pc := iss_pc s\<rparr>)) (
         seq_op (exec_step env) (
         bind_op prepare_interrupt (\<lambda>(target_mode, need_switch_to_trap).
         seq_op (when_op need_switch_to_trap (switch_to_trap_handler target_mode)) (ret_op False)))))))"

definition run_step_end :: "'p iss_env \<Rightarrow> ('p iss, unit) op" where
  "run_step_end env =
     seq_op (modify_op (\<lambda>s. s\<lparr>iss_regs := (iss_regs s)[reg_zero := 0]\<rparr>)) (
     seq_op (modify_op (\<lambda>s. if iss_shall_exit s then s\<lparr>iss_status := Terminated\<rparr> else s))
       (get_op iss_op (performance_and_sync_update env)))"

definition take_trap :: "u32 \<Rightarrow> u64 \<Rightarrow> u64 \<Rightarrow> ('p iss, unit) op" where
  "take_trap reason mtval mtval2_htval = bind_op (prepare_trap reason mtval mtval2_htval) switch_to_trap_handler"

definition run_step :: "'p iss_env \<Rightarrow> ('p iss, unit) op" where
  "run_step env s = (case run_step_body env s of
       (Inr True, s') \<Rightarrow> (Inr (), s')
     | (Inr False, s') \<Rightarrow> run_step_end env s'
     | (Inl (SimulationTrap reason mtval mtval2_htval), s') \<Rightarrow>
         seq_op (take_trap reason mtval mtval2_htval) (run_step_end env) s'
     | (Inl e, s') \<Rightarrow> (Inl e, s'))"

partial_function (option) run_loop :: "'p iss_env \<Rightarrow> 'p iss \<Rightarrow> (unit res \<times> 'p iss) option" where
  "run_loop env s = (case run_step env s of
       (Inl e, s') \<Rightarrow> Some (Inl e, s')
     | (Inr _, s') \<Rightarrow> if iss_status s' = Runnable then run_loop env s' else Some (env_quantum_sync env s'))"

definition iss_run :: "'p iss_env \<Rightarrow> 'p iss \<Rightarrow> (unit res \<times> 'p iss) option" where
  "iss_run env s = run_loop env s"

end
