(* ===== verification/VP_Op_Logic.thy ===== *)
theory VP_Op_Logic
  imports VP_ISS_Irq
begin

text \<open>
  Invariants of the operations of the simulator: the rules of \<open>preserves\<close> for the primitive updates of
  its state.

  The locale \<open>imsic_frame\<close> is the interface between the interrupt-file operations and everything
  else: it lists the updates of the state they are made of, and gives for every property that
  survives these updates that the operations preserve it. It is used for the well-formedness of
  the simulator and for the registers a trap saves.
\<close>

section \<open>Rules\<close>

lemma preserves_csr_op: "(\<And>s. P s \<Longrightarrow> P (s\<lparr>iss_csrs := f (iss_csrs s)\<rparr>)) \<Longrightarrow> preserves P (csr_op f)"
  unfolding csr_op_def by (rule preserves_modify)

lemma preserves_csr_res:
  "(\<And>s t. P s \<Longrightarrow> f (iss_csrs s) = Inr t \<Longrightarrow> P (s\<lparr>iss_csrs := t\<rparr>)) \<Longrightarrow> preserves P (csr_res f)"
  unfolding csr_res_def by (rule preserves_update_res) (auto split: sum.splits)

lemma preserves_mem_op: "(\<And>s m. P s \<Longrightarrow> P (s\<lparr>iss_mem := m\<rparr>)) \<Longrightarrow> preserves P (mem_op f)"
  by (auto simp: preserves_def mem_op_def split: prod.splits)

section \<open>Well-formed interrupt files\<close>

text \<open>
  The thresholds are identities, and identity 0 is never pending: its bit is read-only.
\<close>

definition et_ok :: "icsr_eithreshold \<Rightarrow> bool" where
  "et_ok e \<longleftrightarrow> et_reg e < IMSIC_MAX_IRQS \<and> et_threshold_tail e < IMSIC_MAX_IRQS \<and> length (et_thresholds e) = 256"

definition file_ok :: "imsic_file \<Rightarrow> bool" where
  "file_ok f \<longleftrightarrow> et_ok (imf_eithreshold f) \<and> length (imf_eip f) = eip_eie_arr_size \<and>
     length (imf_eie f) = eip_eie_arr_size \<and> i32_mask (imf_eip f ! 0) = 0xFFFFFFFE \<and> \<not> bit (i32_reg (imf_eip f ! 0)) 0"

lemma eip_eie_arr_size_value [simp]: "eip_eie_arr_size = 64"
  by (simp add: eip_eie_arr_size_def core_consts)

lemma file_ok_init: "file_ok imsic_file_init"
  by (simp add: file_ok_def imsic_file_init_def et_ok_def icsr_eithreshold_init_def core_consts eix_init_def icsr_32_init_def)

lemma tstack_pop_ok: "et_ok e \<Longrightarrow> et_ok (tstack_pop e)"
  by (auto simp: et_ok_def tstack_pop_def core_consts find_upt_Some word_less_nat_alt unat_of_nat split: option.splits)

lemma tstack_insert_ok: "et_ok e \<Longrightarrow> tstack_insert m e = Inr e' \<Longrightarrow> et_ok e'"
  by (auto simp: et_ok_def tstack_insert_def is_valid_minor_iid_def is_upper_bound_valid_minor_iid_def core_consts Let_def
      split: if_splits)

lemma update_with_new_irq_ok: "et_ok e \<Longrightarrow> update_with_new_irq m e = Inr e' \<Longrightarrow> et_ok e'"
  by (auto simp: update_with_new_irq_def update_with_new_irq_snps_vectored_def split: if_splits intro: tstack_insert_ok)

lemma eithreshold_checked_write_ok: "et_ok e \<Longrightarrow> eithreshold_checked_write v e = Inr e' \<Longrightarrow> et_ok e'"
  by (auto simp: eithreshold_checked_write_def write_snps_vectored_def split: if_splits intro: tstack_insert_ok tstack_pop_ok)
    (auto simp: et_ok_def tstack_put_tail_def is_upper_bound_valid_minor_iid_def Let_def core_consts not_le split: if_splits)

lemma set_mode_ok: "et_ok (set_mode_snps_vectored mode e) \<longleftrightarrow> et_ok e"
  by (simp add: et_ok_def set_mode_snps_vectored_def)

lemma eip_update_ok:
  assumes "file_ok f" "i = 0 \<Longrightarrow> i32_mask r = 0xFFFFFFFE \<and> \<not> bit (i32_reg r) 0"
  shows "file_ok (f\<lparr>imf_eip := (imf_eip f)[i := r]\<rparr>)"
  using assms by (cases "i = 0") (simp_all add: file_ok_def)

lemma imsic_update_eip_bit_ok:
  assumes "file_ok f" "imsic_update_eip_bit v b f = Inr f'"
  shows "file_ok f'"
proof (cases "v = 0")
  case False
  have nz: "unat (v mod 32) \<noteq> 0" if "unat (v div 32) = 0"
    using False that by (metis add_0 div_mult_mod_eq mult_zero_left unat_eq_zero)
  have eq: "f' = f\<lparr>imf_eip := (imf_eip f)[unat (v div 32) := (imf_eip f ! unat (v div 32))\<lparr>i32_reg :=
      if b then i32_reg (imf_eip f ! unat (v div 32)) OR ucast (BIT (unat (v mod 32)))
      else i32_reg (imf_eip f ! unat (v div 32)) AND NOT (ucast (BIT (unat (v mod 32))))\<rparr>]\<rparr>"
    using assms(2) False by (simp add: imsic_update_eip_bit_def Let_def core_consts)
  have z: "i32_mask (imf_eip f ! 0) = 0xFFFFFFFE" "\<not> bit (i32_reg (imf_eip f ! 0)) 0"
    using assms(1) by (simp_all add: file_ok_def)
  show ?thesis
    unfolding eq by (rule eip_update_ok [OF assms(1)]) (use nz z in \<open>simp add: bit_simps BIT_def\<close>)
qed (use assms in \<open>auto simp: imsic_update_eip_bit_def\<close>)

lemma file_write_ok:
  assumes "file_ok f" "file_write ref v f = Inr f'"
  shows "file_ok f'"
proof (cases ref)
  case (Ref_eip i)
  then have eq: "f' = f\<lparr>imf_eip := (imf_eip f)[i := icsr_32_checked_write v (imf_eip f ! i)]\<rparr>"
    using assms(2) by (simp add: file_write_def)
  have z: "i32_mask (imf_eip f ! 0) = 0xFFFFFFFE" "\<not> bit (i32_reg (imf_eip f ! 0)) 0"
    using assms(1) by (simp_all add: file_ok_def)
  show ?thesis
    unfolding eq by (rule eip_update_ok [OF assms(1)])
      (use z in \<open>simp add: icsr_32_checked_write_def masked_write_def bit_simps\<close>)
qed (use assms in \<open>auto simp: file_write_def file_ok_def intro: eithreshold_checked_write_ok\<close>)

lemma file_ok_threshold: "file_ok f \<Longrightarrow> et_ok e \<Longrightarrow> file_ok (f\<lparr>imf_eithreshold := e\<rparr>)"
  by (simp add: file_ok_def)

lemma file_ok_et: "file_ok f \<Longrightarrow> et_ok (imf_eithreshold f)"
  by (simp add: file_ok_def)

lemma claim_update_ok:
  assumes "file_ok f" "(if b then (\<lambda>f. Inr (f\<lparr>imf_eithreshold := mark_irq_as_handled (imf_eithreshold f)\<rparr>))
    else imsic_update_eip_bit v False) f = Inr f'"
  shows "file_ok f'"
proof (cases b)
  case True
  with assms show ?thesis
    by (auto simp: mark_irq_as_handled_def intro: file_ok_threshold tstack_pop_ok file_ok_et)
next
  case False
  then have "imsic_update_eip_bit v False f = Inr f'" using assms(2) by simp
  then show ?thesis by (rule imsic_update_eip_bit_ok [OF assms(1)])
qed

lemma threshold_irq_ok: "file_ok f \<Longrightarrow> threshold_irq v f = Inr f' \<Longrightarrow> file_ok f'"
  by (auto simp: threshold_irq_def intro: file_ok_threshold update_with_new_irq_ok file_ok_et)

lemma set_threshold_mode_ok: "file_ok f \<Longrightarrow> set_threshold_mode v f = Inr f' \<Longrightarrow> file_ok f'"
  by (auto simp: set_threshold_mode_def set_mode_ok intro!: file_ok_threshold file_ok_et)

section \<open>The interrupt-file operations\<close>

text \<open>
  \<open>imsic_lines\<close> is the contract for a property that only some interrupt lines keep, the external ones
  among them; \<open>imsic_frame\<close> is the contract for one that every line keeps.
\<close>

definition external_lines :: "u32 set" where
  "external_lines = {EXC_M_EXTERNAL_INTERRUPT, EXC_S_EXTERNAL_INTERRUPT, EXC_VS_EXTERNAL_INTERRUPT, EXC_S_GUEST_EXTERNAL_INTERRUPT}"

locale imsic_lines =
  fixes P :: "'p iss \<Rightarrow> bool" and lines :: "u32 set"
  assumes external_subset: "external_lines \<subseteq> lines"
    and keep_line: "iid \<in> lines \<Longrightarrow> P s \<Longrightarrow> hw_write_mip iid st (csr_clint (iss_csrs s)) = Inr (e, c) \<Longrightarrow>
      P (s\<lparr>iss_csrs := (iss_csrs s)\<lparr>csr_clint := c\<rparr>\<rparr>)"
    and keep_mtopei: "P s \<Longrightarrow> P (s\<lparr>iss_csrs := (iss_csrs s)\<lparr>csr_mtopei := v\<rparr>\<rparr>)"
    and keep_stopei: "P s \<Longrightarrow> P (s\<lparr>iss_csrs := (iss_csrs s)\<lparr>csr_stopei := v\<rparr>\<rparr>)"
    and keep_vstopei: "P s \<Longrightarrow> P (s\<lparr>iss_csrs := (iss_csrs s)\<lparr>csr_vstopei := v\<rparr>\<rparr>)"
    and keep_hgeip: "P s \<Longrightarrow> P (s\<lparr>iss_csrs := (iss_csrs s)\<lparr>csr_hgeip := v\<rparr>\<rparr>)"
    and keep_m_file: "P s \<Longrightarrow> (file_ok (ms_file (iss_icsrs_m s)) \<Longrightarrow> file_ok f) \<Longrightarrow>
      P (s\<lparr>iss_icsrs_m := (iss_icsrs_m s)\<lparr>ms_file := f\<rparr>\<rparr>)"
    and keep_s_file: "P s \<Longrightarrow> (file_ok (ms_file (iss_icsrs_s s)) \<Longrightarrow> file_ok f) \<Longrightarrow>
      P (s\<lparr>iss_icsrs_s := (iss_icsrs_s s)\<lparr>ms_file := f\<rparr>\<rparr>)"
    and keep_vs_file: "P s \<Longrightarrow> (file_ok (vb_file (vs_bank (iss_icsrs_vs s) ! g)) \<Longrightarrow> file_ok f) \<Longrightarrow>
      P (s\<lparr>iss_icsrs_vs := (iss_icsrs_vs s)\<lparr>vs_bank := (vs_bank (iss_icsrs_vs s))[g := (vs_bank (iss_icsrs_vs s) ! g)\<lparr>vb_file := f\<rparr>]\<rparr>\<rparr>)"
begin

lemma hw_line: "iid \<in> lines \<Longrightarrow> preserves P (hw_line iid st)"
  unfolding hw_line_def by (rule preserves_csr_res) (auto intro: keep_line)

lemma external_line:
  "EXC_M_EXTERNAL_INTERRUPT \<in> lines" "EXC_S_EXTERNAL_INTERRUPT \<in> lines" "EXC_VS_EXTERNAL_INTERRUPT \<in> lines"
  "EXC_S_GUEST_EXTERNAL_INTERRUPT \<in> lines"
  using external_subset by (auto simp: external_lines_def)

lemma set_topei: "preserves P (csr_res (set_topei level v))"
  by (rule preserves_csr_res)
    (auto simp: set_topei_def set_topei_reg_def intro: keep_mtopei keep_stopei keep_vstopei)

lemma m_file_res:
  "(\<And>f f'. file_ok f \<Longrightarrow> g f = Inr f' \<Longrightarrow> file_ok f') \<Longrightarrow> preserves P (m_file_res g)"
  unfolding m_file_res_def by (rule preserves_update_res) (auto intro!: keep_m_file)

lemma s_file_res:
  "(\<And>f f'. file_ok f \<Longrightarrow> g f = Inr f' \<Longrightarrow> file_ok f') \<Longrightarrow> preserves P (s_file_res g)"
  unfolding s_file_res_def by (rule preserves_update_res) (auto intro!: keep_s_file)

lemma vs_file_res:
  "(\<And>f f'. file_ok f \<Longrightarrow> g f = Inr f' \<Longrightarrow> file_ok f') \<Longrightarrow> preserves P (vs_file_res i g)"
  unfolding vs_file_res_def by (rule preserves_update_res) (auto simp: Let_def intro!: keep_vs_file)

lemmas file_rules = m_file_res s_file_res vs_file_res

lemma set_hgeip: "preserves P (csr_res (\<lambda>t. bind_res (f t) (\<lambda>r. Inr (t\<lparr>csr_hgeip := r\<rparr>))))"
  by (rule preserves_csr_res) (auto intro: keep_hgeip)

lemma compute_m: "preserves P compute_imsic_pending_interrupts_m"
  unfolding compute_imsic_pending_interrupts_m_def by (intro preserves_rules hw_line set_topei external_line)

lemma compute_s: "preserves P compute_imsic_pending_interrupts_s"
  unfolding compute_imsic_pending_interrupts_s_def by (intro preserves_rules hw_line set_topei external_line)

lemma guest_files: "preserves P (guest_files_pending is)"
  by (induction "is") (auto intro!: preserves_rules set_hgeip)

lemma route: "preserves P cvs \<Longrightarrow> preserves P (route_imsic_write_with cvs level g v)"
  unfolding route_imsic_write_with_def
  by (intro preserves_rules compute_m compute_s file_rules) (assumption | erule imsic_update_eip_bit_ok)+

lemma deliver: "preserves P cvs \<Longrightarrow> preserves P (deliver_pending_to_imsic_with cvs p1 p2 iid)"
  unfolding deliver_pending_to_imsic_with_def
  by (intro preserves_rules route; (assumption | simp)?)

lemma cascade: "preserves P cvs \<Longrightarrow> preserves P (cascade_pendings_to_imsics_with cvs p)"
  unfolding cascade_pendings_to_imsics_with_def pendings_op_def by (intro preserves_rules deliver)

lemma hw_irq: "iid \<in> lines \<Longrightarrow> preserves P cvs \<Longrightarrow> preserves P (clint_hw_irq_route_with cvs iid st)"
  unfolding clint_hw_irq_route_with_def deliver_clint_change_to_imsics_with_def pendings_op_def
  by (intro preserves_rules deliver cascade hw_line)

lemma compute_vs_depth: "preserves P (compute_imsic_pending_interrupts_vs_depth n)"
proof (induction n)
  case (Suc n)
  show ?case
    unfolding compute_imsic_pending_interrupts_vs_depth.simps recalc_sgeip_with_def Let_def
    by (intro preserves_rules guest_files hw_irq hw_line set_topei external_line Suc)
qed (simp add: preserves_rules)

lemma compute_vs: "preserves P compute_imsic_pending_interrupts_vs"
  unfolding compute_imsic_pending_interrupts_vs_def by (rule compute_vs_depth)

lemmas compute_rules = compute_m compute_s compute_vs

lemma route_imsic_write: "preserves P (route_imsic_write level g v)"
  unfolding route_imsic_write_def by (rule route [OF compute_vs])

lemma clint_hw_irq_route: "iid \<in> lines \<Longrightarrow> preserves P (clint_hw_irq_route iid st)"
  unfolding clint_hw_irq_route_def by (rule hw_irq [OF _ compute_vs])

lemma recalc_sgeip: "preserves P recalc_sgeip"
  unfolding recalc_sgeip_def recalc_sgeip_with_def by (intro preserves_rules hw_irq compute_vs external_line)

lemma deliver_all: "preserves P (deliver_all p1 p2 iids)"
  by (induction iids) (auto simp: deliver_pending_to_imsic_def intro!: preserves_rules deliver compute_vs)

lemma deliver_changes: "preserves P (deliver_clint_changes_to_imsics p)"
  unfolding deliver_clint_changes_to_imsics_def pendings_op_def
  by (intro preserves_rules deliver_all cascade compute_vs)

lemma claim: "preserves P (claim_topei_interrupt level handled)"
  unfolding claim_topei_interrupt_def Let_def
  by (intro preserves_rules compute_rules file_rules) (erule (1) claim_update_ok)+

lemma update_interrupt_mode: "preserves P (update_interrupt_mode level)"
  unfolding update_interrupt_mode_def
  by (intro preserves_rules file_rules) (erule (1) set_threshold_mode_ok)+

lemma on_guest_switch: "preserves P on_guest_switch"
  unfolding on_guest_switch_def by (intro preserves_rules update_interrupt_mode compute_vs)

lemma notify_irq_taken: "preserves P (notify_irq_taken level)"
  unfolding notify_irq_taken_def Let_def claim_topei_interrupt_internal_def
  by (intro preserves_rules claim file_rules) (erule (1) threshold_irq_ok)+

end

locale imsic_frame =
  fixes P :: "'p iss \<Rightarrow> bool"
  assumes frame_clint: "P s \<Longrightarrow> (clint_inv (csr_clint (iss_csrs s)) \<Longrightarrow> clint_inv c) \<Longrightarrow>
      P (s\<lparr>iss_csrs := (iss_csrs s)\<lparr>csr_clint := c\<rparr>\<rparr>)"
    and frame_mtopei: "P s \<Longrightarrow> P (s\<lparr>iss_csrs := (iss_csrs s)\<lparr>csr_mtopei := v\<rparr>\<rparr>)"
    and frame_stopei: "P s \<Longrightarrow> P (s\<lparr>iss_csrs := (iss_csrs s)\<lparr>csr_stopei := v\<rparr>\<rparr>)"
    and frame_vstopei: "P s \<Longrightarrow> P (s\<lparr>iss_csrs := (iss_csrs s)\<lparr>csr_vstopei := v\<rparr>\<rparr>)"
    and frame_hgeip: "P s \<Longrightarrow> P (s\<lparr>iss_csrs := (iss_csrs s)\<lparr>csr_hgeip := v\<rparr>\<rparr>)"
    and frame_m_file: "P s \<Longrightarrow> (file_ok (ms_file (iss_icsrs_m s)) \<Longrightarrow> file_ok f) \<Longrightarrow>
      P (s\<lparr>iss_icsrs_m := (iss_icsrs_m s)\<lparr>ms_file := f\<rparr>\<rparr>)"
    and frame_s_file: "P s \<Longrightarrow> (file_ok (ms_file (iss_icsrs_s s)) \<Longrightarrow> file_ok f) \<Longrightarrow>
      P (s\<lparr>iss_icsrs_s := (iss_icsrs_s s)\<lparr>ms_file := f\<rparr>\<rparr>)"
    and frame_vs_file: "P s \<Longrightarrow> (file_ok (vb_file (vs_bank (iss_icsrs_vs s) ! g)) \<Longrightarrow> file_ok f) \<Longrightarrow>
      P (s\<lparr>iss_icsrs_vs := (iss_icsrs_vs s)\<lparr>vs_bank := (vs_bank (iss_icsrs_vs s))[g := (vs_bank (iss_icsrs_vs s) ! g)\<lparr>vb_file := f\<rparr>]\<rparr>\<rparr>)"
begin

lemma line_frame:
  "P s \<Longrightarrow> hw_write_mip iid st (csr_clint (iss_csrs s)) = Inr (e, c) \<Longrightarrow> P (s\<lparr>iss_csrs := (iss_csrs s)\<lparr>csr_clint := c\<rparr>\<rparr>)"
  by (auto intro!: frame_clint intro: hw_write_mip_inv)

end

sublocale imsic_frame \<subseteq> imsic_lines P UNIV
  using frame_mtopei frame_stopei frame_vstopei frame_hgeip frame_m_file frame_s_file frame_vs_file line_frame
  by unfold_locales simp_all

context imsic_frame
begin

lemma every_line: "preserves P (hw_line iid st)"
  by (rule hw_line) simp

lemma every_route: "preserves P (clint_hw_irq_route iid st)"
  by (rule clint_hw_irq_route) simp

end

end
