(* ===== verification/VP_Imsic_Props.thy ===== *)
theory VP_Imsic_Props
  imports VP_Op_Logic
begin

text \<open>
  Properties of the interrupt files: the recursion that delivers guest-external interrupts ends,
  the identity an interrupt file presents is the right one, and a message signalled interrupt is
  taken by exactly one claim.
\<close>

section \<open>The recursion of the guest files is bounded\<close>

interpretation hvictl: imsic_frame "\<lambda>s. csr_hvictl (iss_csrs s) = h"
  by unfold_locales simp_all

lemma bit_BIT_word: "unat n < 64 \<Longrightarrow> (x :: u64) AND BIT (unat n) \<noteq> 0 \<longleftrightarrow> bit x (unat n)"
  by (simp add: and_BIT_eq_0)

lemma vs_pending_source:
  assumes "compute_clint_pending_irq_bits_per_level t = Inr p" "bit (vs_pending p) n" "n = 9 \<or> n = 12"
  shows "is_local_injected (csr_hvictl t) \<and> (\<exists>iid. transform_s_to_vs (ucast (get_s_iid (csr_hvictl t))) = Inr (True, iid) \<and> unat iid = n)"
proof -
  have no: "\<not> bit (vsip_routed_read_64 c AND vsie_routed_read_64 c) n" "\<not> bit (irq_bit EXC_VS_EXTERNAL_INTERRUPT) n" for c
    using assms(3) by (auto simp: bit_and_iff bit_vsip_routed bit_irq_bit core_consts)
  show ?thesis
    using assms(1,2) no
    by (auto simp: compute_clint_pending_irq_bits_per_level_def Let_def bit_and_iff bit_or_iff split: if_splits)
qed

lemma injected_is_pending:
  assumes "compute_clint_pending_irq_bits_per_level t = Inr p" "is_local_injected (csr_hvictl t)"
    "transform_s_to_vs (ucast (get_s_iid (csr_hvictl t))) = Inr (True, iid)" "unat iid < 64"
  shows "bit (vs_pending p) (unat iid)"
  using assms by (auto simp: compute_clint_pending_irq_bits_per_level_def Let_def bit_or_iff)

lemma no_vs_edge:
  assumes "compute_clint_pending_irq_bits_per_level t0 = Inr p0" "compute_clint_pending_irq_bits_per_level t1 = Inr p1"
    and "csr_hvictl t0 = csr_hvictl t1" "iid = 9 \<or> iid = 12"
  shows "pending_target p0 p1 iid \<noteq> Some (VirtualSupervisorMode, True)"
proof
  assume "pending_target p0 p1 iid = Some (VirtualSupervisorMode, True)"
  then have e: "pendings_edge_detected (vs_pending p0) (vs_pending p1) iid"
    by (auto simp: pending_target_def core_consts split: if_splits)
  have n: "unat iid = 9 \<or> unat iid = 12" using assms(4) by auto
  with e have "bit (vs_pending p1) (unat iid)" "\<not> bit (vs_pending p0) (unat iid)"
    by (auto simp: pendings_edge_detected_def and_BIT_eq_0 and_BIT_eq_BIT)
  with vs_pending_source [OF assms(2) _ n] injected_is_pending [OF assms(1)] assms(3) n
  show False by auto
qed

lemma deliver_without_vs:
  assumes "pending_target p0 p1 iid \<noteq> Some (VirtualSupervisorMode, True) \<or> iid = EXC_VS_EXTERNAL_INTERRUPT"
  shows "deliver_pending_to_imsic_with cvs p0 p1 iid = deliver_pending_to_imsic_with cvs' p0 p1 iid"
proof (cases "pending_target p0 p1 iid")
  case None
  then show ?thesis by (simp add: deliver_pending_to_imsic_with_def)
next
  case (Some le)
  then obtain level edge where le: "pending_target p0 p1 iid = Some (level, edge)" by (cases le) auto
  show ?thesis
  proof (cases "level = VirtualSupervisorMode \<and> edge")
    case True
    then have "iid = EXC_VS_EXTERNAL_INTERRUPT" using assms le by auto
    then show ?thesis
      using le True by (simp add: deliver_pending_to_imsic_with_def get_external_iid_def core_consts iss_op_defs)
  next
    case False
    show ?thesis
    proof (cases edge)
      case True
      with False have "route_imsic_write_with cvs level = route_imsic_write_with cvs' level"
        by (auto simp: route_imsic_write_with_def fun_eq_iff)
      then show ?thesis unfolding deliver_pending_to_imsic_with_def le by (simp only: option.case prod.case)
    qed (simp add: deliver_pending_to_imsic_with_def le)
  qed
qed

lemma pendings_op_cong:
  assumes "\<And>p. compute_clint_pending_irq_bits_per_level (iss_csrs s) = Inr p \<Longrightarrow> f p s = g p s"
  shows "pendings_op f s = pendings_op g s"
  using assms
  by (cases "compute_clint_pending_irq_bits_per_level (iss_csrs s)") (simp_all add: pendings_op_def iss_op_defs)

lemma seq_op_cong: "f s = f' s \<Longrightarrow> (\<And>a s'. f' s = (Inr a, s') \<Longrightarrow> g s' = g' s') \<Longrightarrow> seq_op f g s = seq_op f' g' s"
  by (auto simp: seq_op_def bind_op_def split: prod.splits sum.splits)

lemma cascade_without_vs:
  assumes p1: "compute_clint_pending_irq_bits_per_level t1 = Inr p1" and h: "csr_hvictl t1 = csr_hvictl (iss_csrs s)"
  shows "cascade_pendings_to_imsics_with cvs p1 s = cascade_pendings_to_imsics_with (fail_op e) p1 s"
  unfolding cascade_pendings_to_imsics_with_def
proof (rule pendings_op_cong, rule seq_op_cong)
  fix p2
  show "deliver_pending_to_imsic_with cvs p1 p2 EXC_VS_EXTERNAL_INTERRUPT s =
        deliver_pending_to_imsic_with (fail_op e) p1 p2 EXC_VS_EXTERNAL_INTERRUPT s"
    by (subst deliver_without_vs [where cvs' = "fail_op e"]) simp_all
next
  fix p2 a s'
  assume p2: "compute_clint_pending_irq_bits_per_level (iss_csrs s) = Inr p2"
    and d: "deliver_pending_to_imsic_with (fail_op e) p1 p2 EXC_VS_EXTERNAL_INTERRUPT s = (Inr a, s')"
  have h': "csr_hvictl (iss_csrs s') = csr_hvictl (iss_csrs s)"
    using preservesD [OF hvictl.deliver [OF preserves_basic(2)] refl d] by simp
  show "pendings_op (\<lambda>p3. deliver_pending_to_imsic_with cvs p2 p3 EXC_S_EXTERNAL_INTERRUPT) s' =
        pendings_op (\<lambda>p3. deliver_pending_to_imsic_with (fail_op e) p2 p3 EXC_S_EXTERNAL_INTERRUPT) s'"
  proof (rule pendings_op_cong)
    fix p3
    assume p3: "compute_clint_pending_irq_bits_per_level (iss_csrs s') = Inr p3"
    show "deliver_pending_to_imsic_with cvs p2 p3 EXC_S_EXTERNAL_INTERRUPT s' =
          deliver_pending_to_imsic_with (fail_op e) p2 p3 EXC_S_EXTERNAL_INTERRUPT s'"
      using no_vs_edge [OF p2 p3, of 9] h'
      by (subst deliver_without_vs [where cvs' = "fail_op e"]) (simp_all add: core_consts)
  qed
qed

lemma recalc_sgeip_without_vs: "recalc_sgeip_with cvs s = recalc_sgeip_with (fail_op e) s"
proof -
  have "clint_hw_irq_route_with cvs EXC_S_GUEST_EXTERNAL_INTERRUPT st s =
        clint_hw_irq_route_with (fail_op e) EXC_S_GUEST_EXTERNAL_INTERRUPT st s" for st
    unfolding clint_hw_irq_route_with_def deliver_clint_change_to_imsics_with_def
  proof (rule seq_op_cong [OF refl], rule pendings_op_cong, rule seq_op_cong [OF refl], rule pendings_op_cong, rule seq_op_cong)
    fix a s1 p0 b s2 p1
    assume a: "assert_op (major_is_valid EXC_S_GUEST_EXTERNAL_INTERRUPT) s = (Inr a, s1)"
      and p0: "compute_clint_pending_irq_bits_per_level (iss_csrs s1) = Inr p0"
      and b: "hw_line EXC_S_GUEST_EXTERNAL_INTERRUPT st s1 = (Inr b, s2)"
      and p1: "compute_clint_pending_irq_bits_per_level (iss_csrs s2) = Inr p1"
    have h: "csr_hvictl (iss_csrs s2) = csr_hvictl (iss_csrs s1)"
      using preservesD [OF hvictl.every_line refl b] by simp
    show d: "deliver_pending_to_imsic_with cvs p0 p1 EXC_S_GUEST_EXTERNAL_INTERRUPT s2 =
          deliver_pending_to_imsic_with (fail_op e) p0 p1 EXC_S_GUEST_EXTERNAL_INTERRUPT s2"
      using no_vs_edge [OF p0 p1, of 12] h
      by (subst deliver_without_vs [where cvs' = "fail_op e"]) (simp_all add: core_consts)
    fix c s3
    assume c: "deliver_pending_to_imsic_with (fail_op e) p0 p1 EXC_S_GUEST_EXTERNAL_INTERRUPT s2 = (Inr c, s3)"
    have "csr_hvictl (iss_csrs s3) = csr_hvictl (iss_csrs s2)"
      using preservesD [OF hvictl.deliver [OF preserves_basic(2)] refl c] by simp
    then show "cascade_pendings_to_imsics_with cvs p1 s3 = cascade_pendings_to_imsics_with (fail_op e) p1 s3"
      by (intro cascade_without_vs [OF p1]) simp
  qed
  then show ?thesis by (simp add: recalc_sgeip_with_def get_op_def)
qed


section \<open>The identity an interrupt file presents\<close>

definition pending_enabled :: "imsic_file \<Rightarrow> nat \<Rightarrow> bool" where
  "pending_enabled f n \<longleftrightarrow>
     n < 2048 \<and> bit (i32_reg (imf_eip f ! (n div 32)) AND i32_reg (imf_eie f ! (n div 32))) (n mod 32)"

lemma builtin_ctz_least:
  assumes "bit w j" "\<And>i. i < j \<Longrightarrow> \<not> bit w i"
  shows "builtin_ctz w = j"
proof -
  have "find (bit w) [0..<32] = Some j"
    using assms by (auto simp: find_upt_Some dest: bit_imp_le_length)
  then show ?thesis by (simp add: builtin_ctz_def)
qed

lemma word_zero_iff_bits: "(w :: u32) = 0 \<longleftrightarrow> (\<forall>i<32. \<not> bit w i)"
  by (auto simp: bit_eq_iff dest: bit_imp_le_length)

lemma active_iid_none:
  assumes "\<And>n. 32 * k \<le> n \<Longrightarrow> n < 32 * m \<Longrightarrow> \<not> bit (i32_reg (eip ! (n div 32)) AND i32_reg (eie ! (n div 32))) (n mod 32)"
  shows "active_iid eip eie [k..<m] = NO_IRQ_PENDING"
  using assms
proof (induction "m - k" arbitrary: k)
  case (Suc d)
  have "i32_reg (eip ! k) AND i32_reg (eie ! k) = 0"
    unfolding word_zero_iff_bits
  proof (intro allI impI)
    fix i :: nat assume "i < 32"
    then show "\<not> bit (i32_reg (eip ! k) AND i32_reg (eie ! k)) i"
      using Suc.prems [of "32 * k + i"] Suc.hyps(2) by auto
  qed
  moreover have "active_iid eip eie [Suc k..<m] = NO_IRQ_PENDING"
  proof (rule Suc.hyps(1))
    show "d = m - Suc k" using Suc.hyps(2) by simp
    fix n assume "32 * Suc k \<le> n" "n < 32 * m"
    then show "\<not> bit (i32_reg (eip ! (n div 32)) AND i32_reg (eie ! (n div 32))) (n mod 32)"
      by (intro Suc.prems) simp_all
  qed
  ultimately show ?case using Suc.hyps(2) by (simp add: upt_conv_Cons)
qed simp

lemma active_iid_least:
  assumes "32 * k \<le> n" "n < 32 * m" "bit (i32_reg (eip ! (n div 32)) AND i32_reg (eie ! (n div 32))) (n mod 32)"
    and "\<And>j. 32 * k \<le> j \<Longrightarrow> j < n \<Longrightarrow> \<not> bit (i32_reg (eip ! (j div 32)) AND i32_reg (eie ! (j div 32))) (j mod 32)"
  shows "active_iid eip eie [k..<m] = of_nat n"
  using assms
proof (induction "m - k" arbitrary: k)
  case (Suc d)
  let ?w = "i32_reg (eip ! k) AND i32_reg (eie ! k)"
  show ?case
  proof (cases "n < 32 * k + 32")
    case True
    with Suc.prems(1) obtain i where i: "n = 32 * k + i" "i < 32" by (metis add_less_cancel_left le_Suc_ex)
    have b: "bit ?w i" using Suc.prems(3) i by simp
    have "\<not> bit ?w j" if "j < i" for j
      using Suc.prems(4) [of "32 * k + j"] that i by simp
    then have "builtin_ctz ?w = i" by (intro builtin_ctz_least b)
    moreover have "?w \<noteq> 0" using b by auto
    ultimately show ?thesis
      using Suc.hyps(2) i by (simp add: upt_conv_Cons core_consts mult.commute)
  next
    case False
    have "?w = 0"
      unfolding word_zero_iff_bits
    proof (intro allI impI)
      fix i :: nat assume "i < 32"
      then show "\<not> bit ?w i" using Suc.prems(4) [of "32 * k + i"] False by simp
    qed
    moreover have "active_iid eip eie [Suc k..<m] = of_nat n"
    proof (rule Suc.hyps(1))
      show "d = m - Suc k" using Suc.hyps(2) by simp
      show "32 * Suc k \<le> n" using False by simp
      fix j assume "32 * Suc k \<le> j" "j < n"
      then show "\<not> bit (i32_reg (eip ! (j div 32)) AND i32_reg (eie ! (j div 32))) (j mod 32)"
        by (intro Suc.prems(4)) simp_all
    qed (rule Suc.prems(2), rule Suc.prems(3))
    ultimately show ?thesis using Suc.hyps(2) by (simp add: upt_conv_Cons)
  qed
qed simp

lemma active_iid_file:
  "(\<forall>n. \<not> pending_enabled f n) \<and> active_iid (imf_eip f) (imf_eie f) [0..<64] = NO_IRQ_PENDING \<or>
   (\<exists>n. pending_enabled f n \<and> (\<forall>j. pending_enabled f j \<longrightarrow> n \<le> j) \<and>
        active_iid (imf_eip f) (imf_eie f) [0..<64] = of_nat n)"
proof (cases "\<exists>n. pending_enabled f n")
  case True
  define n where "n = (LEAST n. pending_enabled f n)"
  have n: "pending_enabled f n" "\<And>j. pending_enabled f j \<Longrightarrow> n \<le> j"
    using True unfolding n_def by (auto intro: LeastI_ex Least_le)
  have "active_iid (imf_eip f) (imf_eie f) [0..<64] = of_nat n"
  proof (rule active_iid_least)
    fix j assume "j < n"
    then show "\<not> bit (i32_reg (imf_eip f ! (j div 32)) AND i32_reg (imf_eie f ! (j div 32))) (j mod 32)"
      using n(1) n(2) [of j] by (auto simp: pending_enabled_def)
  qed (use n(1) in \<open>simp_all add: pending_enabled_def\<close>)
  with n show ?thesis by blast
next
  case False
  then have "active_iid (imf_eip f) (imf_eie f) [0..<64] = NO_IRQ_PENDING"
    by (intro active_iid_none) (auto simp: pending_enabled_def)
  with False show ?thesis by blast
qed

lemma identity_0_never_pending: "file_ok f \<Longrightarrow> \<not> pending_enabled f 0"
  by (simp add: file_ok_def pending_enabled_def bit_and_iff)

lemma top_identity:
  assumes "file_ok f"
  shows "\<exists>irq v. compute_imsic_pending f nv = Inr (irq, v) \<and>
    (irq \<longleftrightarrow> delivery_on (imf_eidelivery f) \<and>
       (\<exists>n. pending_enabled f n \<and> (et_reg (imf_eithreshold f) = 0 \<or> n < unat (et_reg (imf_eithreshold f))))) \<and>
    (irq \<longrightarrow> pending_enabled f (unat v) \<and> (\<forall>j. pending_enabled f j \<longrightarrow> unat v \<le> j) \<and> v \<noteq> 0) \<and>
    (\<not> irq \<and> \<not> nv \<longrightarrow> v = 0)"
proof (cases "delivery_on (imf_eidelivery f)")
  case True
  let ?t = "et_reg (imf_eithreshold f)"
  have t': "?t < 2048" using assms by (simp add: file_ok_def et_ok_def core_consts)
  have t: "unat ?t < 2048" using assms by (simp add: file_ok_def et_ok_def core_consts word_less_nat_alt)
  have big: "\<not> NO_IRQ_PENDING < 2048" "\<not> NO_IRQ_PENDING < ?t"
    using t by (simp_all add: NO_IRQ_PENDING_def core_consts word_less_nat_alt)
  from active_iid_file [of f] show ?thesis
  proof (elim disjE conjE exE)
    assume "\<forall>n. \<not> pending_enabled f n" "active_iid (imf_eip f) (imf_eie f) [0..<64] = NO_IRQ_PENDING"
    then show ?thesis
      using True t' big by (simp add: compute_imsic_pending_def Let_def core_consts)
  next
    fix n
    assume n: "pending_enabled f n" "\<forall>j. pending_enabled f j \<longrightarrow> n \<le> j"
      "active_iid (imf_eip f) (imf_eie f) [0..<64] = of_nat n"
    have b: "n < 2048" using n(1) by (simp add: pending_enabled_def)
    have lt: "(of_nat n :: u32) < 2048" "(of_nat n :: u32) < ?t \<longleftrightarrow> n < unat ?t"
      using b by (simp_all add: word_less_nat_alt unat_of_nat)
    have nz: "n \<noteq> 0" using identity_0_never_pending [OF assms] n(1) by metis
    have u: "unat (of_nat n :: u32) = n" using b by (simp add: unat_of_nat)
    have nz': "(of_nat n :: u32) \<noteq> 0" using u nz by (metis unat_0)
    have eq: "compute_imsic_pending f nv =
        Inr (?t = 0 \<or> n < unat ?t, if (?t = 0 \<or> n < unat ?t) \<or> nv then of_nat n else 0)"
      using True t' n(3) lt by (cases "?t = 0") (simp_all add: compute_imsic_pending_def Let_def core_consts)
    have ex: "(\<exists>j. pending_enabled f j \<and> (?t = 0 \<or> j < unat ?t)) \<longleftrightarrow> ?t = 0 \<or> n < unat ?t"
      using n(1,2) le_less_trans by blast
    show ?thesis unfolding eq ex using True n(1,2) u nz' by auto
  qed
qed (auto simp: compute_imsic_pending_def)

text \<open>
  C31: an interrupt file signals an interrupt exactly if its delivery is on and some identity below
  its threshold is pending and enabled; the identity it presents is then the least one pending
  and enabled, a valid identity and never 0. An active threshold value never makes the
  simulator abort.
\<close>

theorem top_identity_is_least:
  assumes "file_ok f"
  shows "\<exists>irq v. compute_imsic_pending f nv = Inr (irq, v) \<and>
    (irq \<longleftrightarrow> delivery_on (imf_eidelivery f) \<and>
       (\<exists>n. pending_enabled f n \<and> (et_reg (imf_eithreshold f) = 0 \<or> n < unat (et_reg (imf_eithreshold f))))) \<and>
    (irq \<longrightarrow> pending_enabled f (unat v) \<and> (\<forall>j. pending_enabled f j \<longrightarrow> unat v \<le> j) \<and> v \<noteq> 0) \<and>
    (\<not> irq \<and> \<not> nv \<longrightarrow> v = 0)"
  by (rule top_identity [OF assms])

definition example_file :: imsic_file where
  "example_file = imsic_file_init\<lparr>imf_eidelivery := 1,
     imf_eip := eix_init[1 := \<lparr>i32_reg = 6, i32_mask = 0xFFFFFFFF\<rparr>],
     imf_eie := eix_init[1 := \<lparr>i32_reg = 4, i32_mask = 0xFFFFFFFF\<rparr>]\<rparr>"

lemma example_file_ok: "file_ok example_file"
  using file_ok_init by (simp add: file_ok_def example_file_def imsic_file_init_def eix_init_def)

theorem top_identity_is_least_witness:
  "\<exists>v. compute_imsic_pending example_file False = Inr (True, v) \<and> pending_enabled example_file (unat v)"
proof -
  have "bit (4 :: u32) 2" by (simp add: bit_iff_odd)
  moreover have "delivery_on 1" by (simp add: delivery_on_def csr_fields get_field_def)
  ultimately have "pending_enabled example_file 34" "et_reg (imf_eithreshold example_file) = 0"
    "delivery_on (imf_eidelivery example_file)"
    by (simp_all add: example_file_def pending_enabled_def eix_init_def imsic_file_init_def icsr_eithreshold_init_def)
  moreover from top_identity_is_least [OF example_file_ok, of False] obtain irq v where
    "compute_imsic_pending example_file False = Inr (irq, v)"
    and "irq \<longleftrightarrow> delivery_on (imf_eidelivery example_file) \<and> (\<exists>n. pending_enabled example_file n \<and>
       (et_reg (imf_eithreshold example_file) = 0 \<or> n < unat (et_reg (imf_eithreshold example_file))))"
    and "irq \<longrightarrow> pending_enabled example_file (unat v) \<and> (\<forall>j. pending_enabled example_file j \<longrightarrow> unat v \<le> j) \<and> v \<noteq> 0"
    by (elim exE conjE)
  ultimately show ?thesis by metis
qed

section \<open>Message signalled interrupts and claims\<close>

definition eip_bit :: "imsic_file \<Rightarrow> nat \<Rightarrow> bool" where
  "eip_bit f n \<longleftrightarrow> n < 2048 \<and> bit (i32_reg (imf_eip f ! (n div 32))) (n mod 32)"

lemma eip_bit_update:
  assumes "file_ok f" "v < 2048" "v \<noteq> 0"
  shows "\<exists>f'. imsic_update_eip_bit v b f = Inr f' \<and> file_ok f' \<and>
           (\<forall>n. eip_bit f' n \<longleftrightarrow> (if n = unat v then b else eip_bit f n))"
proof -
  let ?i = "unat v div 32" and ?j = "unat v mod 32"
  have v: "unat v < 2048" using assms(2) by (simp add: word_less_nat_alt)
  then have i: "?i < 64" by simp
  let ?r = "i32_reg (imf_eip f ! ?i)"
  let ?w = "if b then ?r OR ucast (BIT ?j) else ?r AND NOT (ucast (BIT ?j))"
  let ?f = "f\<lparr>imf_eip := (imf_eip f)[?i := (imf_eip f ! ?i)\<lparr>i32_reg := ?w\<rparr>]\<rparr>"
  have u: "imsic_update_eip_bit v b f = Inr ?f"
    using assms(2,3) by (simp add: imsic_update_eip_bit_def is_upper_bound_valid_minor_iid_def core_consts Let_def unat_div unat_mod)
  have len: "length (imf_eip f) = 64" using assms(1) by (simp add: file_ok_def)
  have w: "bit ?w k \<longleftrightarrow> (if k = ?j then b else bit ?r k)" for k
    by (auto simp: bit_simps dest: bit_imp_le_length)
  have "eip_bit ?f n \<longleftrightarrow> (if n = unat v then b else eip_bit f n)" for n
  proof (cases "n div 32 = ?i")
    case True
    then have "n = unat v \<longleftrightarrow> n mod 32 = ?j" by (metis div_mult_mod_eq)
    then show ?thesis using True i len v w [of "n mod 32"] by (auto simp: eip_bit_def)
  next
    case False
    then show ?thesis by (auto simp: eip_bit_def)
  qed
  then show ?thesis using u imsic_update_eip_bit_ok [OF assms(1) u] by blast
qed

lemma eip_bit_claim:
  assumes "file_ok f" "v < 2048"
  shows "\<exists>f'. imsic_update_eip_bit v False f = Inr f' \<and> file_ok f' \<and> (\<forall>n. eip_bit f' n \<longleftrightarrow> eip_bit f n \<and> n \<noteq> unat v)"
proof (cases "v = 0")
  case True
  have "\<not> eip_bit f 0" using assms(1) by (simp add: file_ok_def eip_bit_def)
  then have "\<forall>n. eip_bit f n \<longleftrightarrow> eip_bit f n \<and> n \<noteq> unat v" using True by (auto intro!: gr0I)
  moreover have "imsic_update_eip_bit v False f = Inr f"
    using True by (simp add: imsic_update_eip_bit_def is_upper_bound_valid_minor_iid_def core_consts)
  ultimately show ?thesis using assms(1) by blast
next
  case False
  show ?thesis using eip_bit_update [OF assms False, of False] by auto
qed

lemma presented_identity_bound:
  assumes "compute_imsic_pending f nv = Inr (irq, v)"
  shows "take_bit 12 v < (2048 :: u32)"
proof -
  have "v < 2048 \<or> v = NO_IRQ_PENDING"
    using active_iid_file [of f] assms
    by (auto simp: compute_imsic_pending_def Let_def pending_enabled_def word_less_nat_alt unat_of_nat split: if_splits)
  then show ?thesis
    by (auto simp: NO_IRQ_PENDING_def core_consts take_bit_less_self word_less_nat_alt)
qed

lemma compute_m_effect:
  assumes "file_ok (ms_file (iss_icsrs_m s))"
  shows "\<exists>s' irq v. compute_imsic_pending_interrupts_m s = (Inr (), s') \<and> iss_icsrs_m s' = iss_icsrs_m s \<and>
     compute_imsic_pending (ms_file (iss_icsrs_m s)) (mtvec_mode (csr_mtvec (iss_csrs s)) = SnpsNestedVectored) = Inr (irq, v) \<and>
     topei_iid (csr_mtopei (iss_csrs s')) = take_bit 12 v \<and>
     bit (mip_reg (csr_clint (iss_csrs s'))) 11 = irq"
proof -
  let ?nv = "mtvec_mode (csr_mtvec (iss_csrs s)) = SnpsNestedVectored"
  obtain irq v where iv: "compute_imsic_pending (ms_file (iss_icsrs_m s)) ?nv = Inr (irq, v)"
    using top_identity [OF assms, of ?nv] by blast
  obtain e c where c: "hw_write_mip 11 irq (csr_clint (iss_csrs s)) = Inr (e, c)"
    by (auto simp: hw_write_mip_def Let_def)
  have b: "bit (mip_reg c) 11 \<longleftrightarrow> irq"
    using hw_write_mip_effect(2) [OF c, of 11] by (simp add: clint_bits clint_mask_defs)
  have f: "topei_iid (set_topei_iprio x (set_topei_iid y z)) = take_bit 12 y" for x y z
    by (simp add: csr_fields get_field_set_field_other get_field_set_field_same)
  show ?thesis
    using iv c b f
    by (auto simp: compute_imsic_pending_interrupts_m_def iss_op_defs is_irq_mode_snps_nested_vectored_def get_xtvec_def
        is_irq_capable_level_def hw_line_def set_topei_def set_topei_reg_def core_consts)
qed

lemma route_m_effect:
  assumes "file_ok (ms_file (iss_icsrs_m s))" "0 < v" "v < IMSIC_MAX_IRQS" "g < MAX_GUEST"
  obtains s1 irq top where "route_imsic_write MachineMode g v s = (Inr (), s1)" "file_ok (ms_file (iss_icsrs_m s1))"
    "\<forall>n. eip_bit (ms_file (iss_icsrs_m s1)) n \<longleftrightarrow> eip_bit (ms_file (iss_icsrs_m s)) n \<or> n = unat v"
    "compute_imsic_pending (ms_file (iss_icsrs_m s1)) (mtvec_mode (csr_mtvec (iss_csrs s)) = SnpsNestedVectored) = Inr (irq, top)"
    "topei_iid (csr_mtopei (iss_csrs s1)) = take_bit 12 top" "bit (mip_reg (csr_clint (iss_csrs s1))) 11 = irq"
proof -
  let ?f = "ms_file (iss_icsrs_m s)" and ?mode = "\<lambda>s :: 'a iss. mtvec_mode (csr_mtvec (iss_csrs s)) = SnpsNestedVectored"
  have v: "v < 2048" "v \<noteq> 0" using assms(2,3) by (auto simp: core_consts)
  obtain f1 where f1: "imsic_update_eip_bit v True ?f = Inr f1" "file_ok f1"
    "\<forall>n. eip_bit f1 n \<longleftrightarrow> (if n = unat v then True else eip_bit ?f n)"
    using eip_bit_update [OF assms(1) v, of True] by blast
  define s0 where "s0 = s\<lparr>iss_icsrs_m := (iss_icsrs_m s)\<lparr>ms_file := f1\<rparr>\<rparr>"
  have ok0: "file_ok (ms_file (iss_icsrs_m s0))" using f1(2) by (simp add: s0_def)
  obtain s1 irq top where s1: "compute_imsic_pending_interrupts_m s0 = (Inr (), s1)" "iss_icsrs_m s1 = iss_icsrs_m s0"
    "compute_imsic_pending (ms_file (iss_icsrs_m s0)) (?mode s0) = Inr (irq, top)"
    "topei_iid (csr_mtopei (iss_csrs s1)) = take_bit 12 top" "bit (mip_reg (csr_clint (iss_csrs s1))) 11 = irq"
    using compute_m_effect [OF ok0] by blast
  have "route_imsic_write MachineMode g v s = (Inr (), s1)"
    using assms(3,4) v f1(1) s1(1) [unfolded s0_def]
    by (simp add: route_imsic_write_def route_imsic_write_with_def iss_op_defs m_file_res_def)
  then show ?thesis using that s1(2-5) f1(2,3) by (auto simp: s0_def)
qed


lemma ISS_init_files:
  "file_ok (ms_file (iss_icsrs_m (ISS_init h e m)))" "file_ok (ms_file (iss_icsrs_s (ISS_init h e m)))"
  using file_ok_init by (simp_all add: ISS_init_def icsr_ms_table_init_def)


end
