(* ===== verification/VP_Trap_Props.thy ===== *)
theory VP_Trap_Props
  imports VP_Op_Logic VP_ISS_Trap
begin

text \<open>
  Properties of traps: the return from a handler undoes the entry into it, and a trap or an
  interrupt is never taken at a level below the one that is interrupted.

  \<open>trap_frame level s\<close> is what the return from a handler of a level reads: the registers in which
  the entry has saved the interrupted context, and the stack pointer. A handler may change everything
  else; what it changes of the frame it has to put back, as handlers do that allow nested traps.
\<close>

section \<open>What a trap saves\<close>

definition trap_frame :: "PrivilegeLevel \<Rightarrow> 'p iss \<Rightarrow> u32 list" where
  "trap_frame level s = (let t = iss_csrs s in
     iss_prv s # iss_regs s ! reg_sp #
     (if level = MachineMode then [csr_mepc t, csr_mstatus t, csr_mstatush t, csr_menvcfg t, csr_mtsp t]
      else if level = SupervisorMode then
        [csr_sepc t, csr_mstatus t, csr_hstatus t, csr_henvcfg t, csr_htsp t, csr_senvcfg t, csr_stsp t]
      else [csr_vsepc t, csr_vsstatus t, csr_henvcfg t, csr_vstsp t]))"

text \<open>The interrupt enable bit of a level and the stack pointers that are swapped at it.\<close>

definition level_ie :: "PrivilegeLevel \<Rightarrow> 'p iss \<Rightarrow> u32" where
  "level_ie level s =
     (if level = MachineMode then mstatus_mie (csr_mstatus (iss_csrs s))
      else if level = SupervisorMode then mstatus_sie (csr_mstatus (iss_csrs s))
      else vsstatus_sie (csr_vsstatus (iss_csrs s)))"

definition level_tsps :: "PrivilegeLevel \<Rightarrow> 'p iss \<Rightarrow> u32 list" where
  "level_tsps level s = (let t = iss_csrs s in
     if level = MachineMode then [csr_mtsp t]
     else if level = SupervisorMode then [csr_htsp t, csr_stsp t] else [csr_vstsp t])"

interpretation frame: imsic_frame "\<lambda>s. trap_frame level s = k" for level k
  by unfold_locales (auto simp: trap_frame_def Let_def split: if_splits)

lemma set_pc_frame: "preserves (\<lambda>s. trap_frame level s = k) (set_pc v)"
  unfolding set_pc_def by (rule preserves_modify) (simp add: trap_frame_def Let_def)

lemma set_pending_ivt_frame: "preserves (\<lambda>s. trap_frame level s = k) (set_pending_ivt v)"
  unfolding set_pending_ivt_def by (rule preserves_modify) (simp add: trap_frame_def Let_def)

lemma jump_to_trap_vector_frame: "preserves (\<lambda>s. trap_frame level s = k) (jump_to_trap_vector l)"
  unfolding jump_to_trap_vector_def verify_m_trap_vector_def Let_def
  by (intro preserves_rules set_pc_frame set_pending_ivt_frame frame.notify_irq_taken)

section \<open>Entry and return\<close>

lemma bind_op_Inr: "bind_op f g s = (Inr b, s') \<longleftrightarrow> (\<exists>a s0. f s = (Inr a, s0) \<and> g a s0 = (Inr b, s'))"
  by (auto simp: bind_op_def split: prod.splits sum.splits)

lemma seq_op_Inr: "seq_op f g s = (Inr b, s') \<longleftrightarrow> (\<exists>a s0. f s = (Inr a, s0) \<and> g s0 = (Inr b, s'))"
  by (simp add: seq_op_def bind_op_Inr)

definition trap_entry :: "PrivilegeLevel \<Rightarrow> PrivilegeLevel \<Rightarrow> ('p iss, unit) op" where
  "trap_entry level pp =
     (if level = MachineMode then trap_entry_m pp
      else if level = VirtualSupervisorMode then trap_entry_vs pp
      else if level = SupervisorMode then trap_entry_s pp
      else fail_op (RuntimeError (''unknown privilege level '' @ PrivilegeLevelToStr level)))"

lemma switch_to_trap_handler_frame:
  assumes "switch_to_trap_handler level s = (Inr (), s1)"
  obtains m s2 s3 where
    "stsp_swap_sp_on_mode_change level (iss_prv s)
       (s\<lparr>iss_lr_sc_counter := 0, iss_mem := m, iss_prv := level\<rparr>) = (Inr (), s2)"
    "trap_entry level (iss_prv s) s2 = (Inr (), s3)" "trap_frame level s1 = trap_frame level s3"
proof -
  obtain s0 s2 s3 where s0: "release_lr_sc_reservation s = (Inr (), s0)"
    and s2: "stsp_swap_sp_on_mode_change level (iss_prv s0) (s0\<lparr>iss_prv := level\<rparr>) = (Inr (), s2)"
    and s3: "trap_entry level (iss_prv s0) s2 = (Inr (), s3)"
    and s1: "jump_to_trap_vector level s3 = (Inr (), s1)"
    using assms unfolding switch_to_trap_handler_def trap_entry_def [symmetric] seq_op_Inr
    by (auto simp: get_op_def seq_op_Inr modify_op_def)
  obtain m where "s0 = s\<lparr>iss_lr_sc_counter := 0, iss_mem := m\<rparr>"
    using s0 by (auto simp: release_lr_sc_reservation_def iss_op_defs split: prod.splits sum.splits)
  moreover have "trap_frame level s1 = trap_frame level s3"
    by (rule preservesD [OF jump_to_trap_vector_frame refl s1])
  ultimately show ?thesis
    using that s2 s3 by simp
qed

lemmas trap_return_defs = return_from_trap_handler_def stsp_swap_sp_on_mode_change_def swap_stack_pointer_def
  iss_op_defs trap_frame_def Let_def level_ie_def level_tsps_def

lemma status_fields:
  "mstatus_mpp (set_mstatus_mpp v w) = take_bit 2 v" "mstatus_mpie (set_mstatus_mpp v w) = mstatus_mpie w"
  "mstatus_mpie (set_mstatus_mie v w) = mstatus_mpie w" "mstatus_mpie (set_mstatus_mpie v w) = v mod 2"
  "mstatus_mie (set_mstatus_mie v w) = v mod 2" "mstatus_mie (set_mstatus_mpie v w) = mstatus_mie w"
  "mstatus_mie (set_mstatus_mpp v w) = mstatus_mie w" "mstatus_mie (set_mstatus_mprv v w) = mstatus_mie w"
  "mstatus_spp (set_mstatus_spp v w) = v mod 2" "mstatus_spie (set_mstatus_spp v w) = mstatus_spie w"
  "mstatus_spie (set_mstatus_sie v w) = mstatus_spie w" "mstatus_spie (set_mstatus_spie v w) = v mod 2"
  "mstatus_sie (set_mstatus_sie v w) = v mod 2" "mstatus_sie (set_mstatus_spie v w) = mstatus_sie w"
  "mstatus_sie (set_mstatus_spp v w) = mstatus_sie w" "mstatus_sie (set_mstatus_mprv v w) = mstatus_sie w"
  "vsstatus_spp (set_vsstatus_spp v w) = v mod 2" "vsstatus_spie (set_vsstatus_spp v w) = vsstatus_spie w"
  "vsstatus_spie (set_vsstatus_sie v w) = vsstatus_spie w" "vsstatus_spie (set_vsstatus_spie v w) = v mod 2"
  "vsstatus_sie (set_vsstatus_sie v w) = v mod 2" "vsstatus_sie (set_vsstatus_spie v w) = vsstatus_sie w"
  "vsstatus_sie (set_vsstatus_spp v w) = vsstatus_sie w"
  "mstatush_mpv (set_mstatush_mpv v h) = v mod 2"
  "hstatus_spv (set_hstatus_spv v h) = v mod 2" "hstatus_spv (set_hstatus_spvp v h) = hstatus_spv h"
  by (simp_all add: csr_fields get_field_set_field_same get_field_set_field_other)

lemma take_bit_ie:
  "(mstatus_mie w) mod 2 = mstatus_mie w" "(mstatus_sie w) mod 2 = mstatus_sie w"
  "(vsstatus_sie w) mod 2 = vsstatus_sie w"
  by (simp_all add: csr_fields get_field_1)

lemma list_update_self: "xs ! i = v \<Longrightarrow> xs = xs[i := v]"
  by (metis list_update_id)

lemma level_codes:
  "is_hart_level p \<Longrightarrow> VPPToPrivilegeLevel ((PrivilegeLevelToV p) mod 2) (take_bit 2 (PrivilegeLevelToPP p)) = p"
  "p \<in> {SupervisorMode, VirtualSupervisorMode, UserMode, VirtualUserMode} \<Longrightarrow>
     VPPToPrivilegeLevel ((PrivilegeLevelToV p) mod 2) ((PrivilegeLevelToPP p) mod 2) = p"
  "p \<in> {VirtualSupervisorMode, VirtualUserMode} \<Longrightarrow>
     VPPToPrivilegeLevel 1 ((PrivilegeLevelToPP p) mod 2) = p"
  by (auto simp: is_hart_level_def core_consts VPPToPrivilegeLevel_def PrivilegeLevelToV_def PrivilegeLevelToPP_def
      take_bit_eq_mask mask_numeral)

lemma trap_return_m:
  assumes "switch_to_trap_handler MachineMode s = (Inr (), s1)" "is_hart_level (iss_prv s)"
    "length (iss_regs s) = 32" "length (iss_regs s2) = 32" "trap_frame MachineMode s2 = trap_frame MachineMode s1"
  shows "level_ie MachineMode s1 = 0 \<and> (\<exists>s3. return_from_trap_handler MachineMode s2 = (Inr (), s3) \<and>
     iss_prv s3 = iss_prv s \<and> iss_pc s3 = iss_pc s \<and> iss_regs s3 = (iss_regs s2)[reg_sp := iss_regs s ! reg_sp] \<and>
     level_ie MachineMode s3 = level_ie MachineMode s \<and> level_tsps MachineMode s3 = level_tsps MachineMode s)"
proof -
  obtain m a b where a: "stsp_swap_sp_on_mode_change MachineMode (iss_prv s)
      (s\<lparr>iss_lr_sc_counter := 0, iss_mem := m, iss_prv := MachineMode\<rparr>) = (Inr (), a)"
    and b: "trap_entry MachineMode (iss_prv s) a = (Inr (), b)"
    and f: "trap_frame MachineMode s1 = trap_frame MachineMode b"
    by (rule switch_to_trap_handler_frame [OF assms(1)])
  let ?sw = "menvcfg_mtsp (csr_menvcfg (iss_csrs s)) \<noteq> 0 \<and> iss_prv s \<noteq> MachineMode"
  let ?t = "iss_csrs s"
  let ?sp = "iss_regs s ! reg_sp"
  have fa: "trap_frame MachineMode a = [MachineMode, if ?sw then csr_mtsp ?t else ?sp, csr_mepc ?t, csr_mstatus ?t,
      csr_mstatush ?t, csr_menvcfg ?t, if ?sw then ?sp else csr_mtsp ?t]" and pca: "iss_pc a = iss_pc s"
    using a assms(3) by (cases ?sw; auto simp: trap_return_defs reg_sp_def)+
  have fb: "trap_frame MachineMode b = [MachineMode, if ?sw then csr_mtsp ?t else ?sp, iss_pc s,
      set_mstatus_mpp (PrivilegeLevelToPP (iss_prv s))
        (set_mstatus_mie 0 (set_mstatus_mpie (mstatus_mie (csr_mstatus ?t)) (csr_mstatus ?t))),
      set_mstatush_mpv (PrivilegeLevelToV (iss_prv s)) (csr_mstatush ?t), csr_menvcfg ?t, if ?sw then ?sp else csr_mtsp ?t]"
    using b fa pca by (auto simp: trap_entry_def trap_entry_m_def iss_op_defs trap_frame_def Let_def)
  have "trap_frame MachineMode s1 = trap_frame MachineMode b" "trap_frame MachineMode s2 = trap_frame MachineMode b"
    using f assms(5) by simp_all
  then have ie: "level_ie MachineMode s1 = 0"
    and e: "iss_regs s2 ! reg_sp = (if ?sw then csr_mtsp ?t else ?sp)" "csr_mepc (iss_csrs s2) = iss_pc s"
    "csr_mstatus (iss_csrs s2) = set_mstatus_mpp (PrivilegeLevelToPP (iss_prv s))
        (set_mstatus_mie 0 (set_mstatus_mpie (mstatus_mie (csr_mstatus ?t)) (csr_mstatus ?t)))"
    "csr_mstatush (iss_csrs s2) = set_mstatush_mpv (PrivilegeLevelToV (iss_prv s)) (csr_mstatush ?t)"
    "csr_menvcfg (iss_csrs s2) = csr_menvcfg ?t" "csr_mtsp (iss_csrs s2) = (if ?sw then ?sp else csr_mtsp ?t)"
    unfolding fb by (simp_all add: trap_frame_def Let_def level_ie_def status_fields)
  have prv: "VPPToPrivilegeLevel (mstatush_mpv (csr_mstatush (iss_csrs s2))) (mstatus_mpp (csr_mstatus (iss_csrs s2))) = iss_prv s"
    using assms(2) by (simp add: e status_fields level_codes)
  show ?thesis
    using assms(4) ie e prv
    by (cases ?sw) (auto simp: return_from_trap_handler_def stsp_swap_sp_on_mode_change_def
      swap_stack_pointer_def iss_op_defs return_m_def level_ie_def level_tsps_def Let_def status_fields take_bit_ie list_update_self)
qed

lemma trap_return_s:
  assumes "switch_to_trap_handler SupervisorMode s = (Inr (), s1)" "is_hart_level (iss_prv s)"
    "length (iss_regs s) = 32" "length (iss_regs s2) = 32" "trap_frame SupervisorMode s2 = trap_frame SupervisorMode s1"
  shows "level_ie SupervisorMode s1 = 0 \<and> (\<exists>s3. return_from_trap_handler SupervisorMode s2 = (Inr (), s3) \<and>
     iss_prv s3 = iss_prv s \<and> iss_pc s3 = iss_pc s \<and> iss_regs s3 = (iss_regs s2)[reg_sp := iss_regs s ! reg_sp] \<and>
     level_ie SupervisorMode s3 = level_ie SupervisorMode s \<and> level_tsps SupervisorMode s3 = level_tsps SupervisorMode s)"
proof -
  obtain m a b where a: "stsp_swap_sp_on_mode_change SupervisorMode (iss_prv s)
      (s\<lparr>iss_lr_sc_counter := 0, iss_mem := m, iss_prv := SupervisorMode\<rparr>) = (Inr (), a)"
    and b: "trap_entry SupervisorMode (iss_prv s) a = (Inr (), b)"
    and f: "trap_frame SupervisorMode s1 = trap_frame SupervisorMode b"
    by (rule switch_to_trap_handler_frame [OF assms(1)])
  let ?t = "iss_csrs s"
  let ?h = "henvcfg_htsp (csr_henvcfg ?t) \<noteq> 0 \<and> PrivilegeLevelToV (iss_prv s) \<noteq> 0"
  let ?s = "senvcfg_stsp (csr_senvcfg ?t) \<noteq> 0 \<and> PrivilegeLevelToV (iss_prv s) = 0 \<and> iss_prv s \<noteq> SupervisorMode"
  let ?sp = "iss_regs s ! reg_sp"
  have sm: "SupervisorMode \<noteq> MachineMode" "SupervisorMode \<noteq> VirtualSupervisorMode"
    by (simp_all add: core_consts)
  have fa: "trap_frame SupervisorMode a = [SupervisorMode, if ?h then csr_htsp ?t else if ?s then csr_stsp ?t else ?sp,
      csr_sepc ?t, csr_mstatus ?t, csr_hstatus ?t, csr_henvcfg ?t, if ?h then ?sp else csr_htsp ?t,
      csr_senvcfg ?t, if ?s then ?sp else csr_stsp ?t]" and pca: "iss_pc a = iss_pc s"
    using a assms(3) sm by (cases ?h; cases ?s; auto simp: trap_return_defs reg_sp_def)+
  have b': "iss_prv s \<in> {SupervisorMode, VirtualSupervisorMode, UserMode, VirtualUserMode}"
    using b sm by (auto simp: trap_entry_def trap_entry_s_def iss_op_defs assert_that_def split: if_splits)
  obtain h where h: "hstatus_spv h = PrivilegeLevelToV (iss_prv s) mod 2"
    and fb: "trap_frame SupervisorMode b = [SupervisorMode, if ?h then csr_htsp ?t else if ?s then csr_stsp ?t else ?sp,
      iss_pc s, set_mstatus_spp (PrivilegeLevelToPP (iss_prv s))
        (set_mstatus_sie 0 (set_mstatus_spie (mstatus_sie (csr_mstatus ?t)) (csr_mstatus ?t))),
      h, csr_henvcfg ?t, if ?h then ?sp else csr_htsp ?t, csr_senvcfg ?t, if ?s then ?sp else csr_stsp ?t]"
    using b fa pca b' sm
    by (auto simp: trap_entry_def trap_entry_s_def iss_op_defs trap_frame_def Let_def status_fields split: if_splits)
  have "trap_frame SupervisorMode s1 = trap_frame SupervisorMode b" "trap_frame SupervisorMode s2 = trap_frame SupervisorMode b"
    using f assms(5) by simp_all
  then have ie: "level_ie SupervisorMode s1 = 0"
    and e: "iss_regs s2 ! reg_sp = (if ?h then csr_htsp ?t else if ?s then csr_stsp ?t else ?sp)"
    "csr_sepc (iss_csrs s2) = iss_pc s" "csr_hstatus (iss_csrs s2) = h"
    "csr_mstatus (iss_csrs s2) = set_mstatus_spp (PrivilegeLevelToPP (iss_prv s))
        (set_mstatus_sie 0 (set_mstatus_spie (mstatus_sie (csr_mstatus ?t)) (csr_mstatus ?t)))"
    "csr_henvcfg (iss_csrs s2) = csr_henvcfg ?t" "csr_htsp (iss_csrs s2) = (if ?h then ?sp else csr_htsp ?t)"
    "csr_senvcfg (iss_csrs s2) = csr_senvcfg ?t" "csr_stsp (iss_csrs s2) = (if ?s then ?sp else csr_stsp ?t)"
    using sm unfolding fb by (simp_all add: trap_frame_def Let_def level_ie_def status_fields)
  have prv: "VPPToPrivilegeLevel (hstatus_spv h) (mstatus_spp (csr_mstatus (iss_csrs s2))) = iss_prv s"
    using b' by (simp add: e h status_fields level_codes)
  have sp: "(iss_regs s2)[reg_sp := iss_regs s2 ! reg_sp] = iss_regs s2"
    by simp
  have "?h \<and> \<not> ?s \<or> \<not> ?h \<and> ?s \<or> \<not> ?h \<and> \<not> ?s" by blast
  then show ?thesis
    using sm assms(4) ie e prv
    by (elim disjE conjE) (auto simp: return_from_trap_handler_def stsp_swap_sp_on_mode_change_def
      swap_stack_pointer_def iss_op_defs return_s_def level_ie_def level_tsps_def Let_def status_fields take_bit_ie list_update_self)
qed

lemma trap_return_vs:
  assumes "switch_to_trap_handler VirtualSupervisorMode s = (Inr (), s1)" "is_hart_level (iss_prv s)"
    "length (iss_regs s) = 32" "length (iss_regs s2) = 32"
    "trap_frame VirtualSupervisorMode s2 = trap_frame VirtualSupervisorMode s1"
  shows "level_ie VirtualSupervisorMode s1 = 0 \<and> (\<exists>s3. return_from_trap_handler VirtualSupervisorMode s2 = (Inr (), s3) \<and>
     iss_prv s3 = iss_prv s \<and> iss_pc s3 = iss_pc s \<and> iss_regs s3 = (iss_regs s2)[reg_sp := iss_regs s ! reg_sp] \<and>
     level_ie VirtualSupervisorMode s3 = level_ie VirtualSupervisorMode s \<and>
     level_tsps VirtualSupervisorMode s3 = level_tsps VirtualSupervisorMode s)"
proof -
  obtain m a b where a: "stsp_swap_sp_on_mode_change VirtualSupervisorMode (iss_prv s)
      (s\<lparr>iss_lr_sc_counter := 0, iss_mem := m, iss_prv := VirtualSupervisorMode\<rparr>) = (Inr (), a)"
    and b: "trap_entry VirtualSupervisorMode (iss_prv s) a = (Inr (), b)"
    and f: "trap_frame VirtualSupervisorMode s1 = trap_frame VirtualSupervisorMode b"
    by (rule switch_to_trap_handler_frame [OF assms(1)])
  let ?t = "iss_csrs s"
  let ?sw = "henvcfg_vgtsp (csr_henvcfg ?t) \<noteq> 0 \<and> iss_prv s \<noteq> VirtualSupervisorMode"
  let ?sp = "iss_regs s ! reg_sp"
  have vm: "VirtualSupervisorMode \<noteq> MachineMode" "VirtualSupervisorMode \<noteq> SupervisorMode"
    by (simp_all add: core_consts)
  have fa: "trap_frame VirtualSupervisorMode a = [VirtualSupervisorMode, if ?sw then csr_vstsp ?t else ?sp, csr_vsepc ?t,
      csr_vsstatus ?t, csr_henvcfg ?t, if ?sw then ?sp else csr_vstsp ?t]" and pca: "iss_pc a = iss_pc s"
    using a assms(3) vm by (cases ?sw; auto simp: trap_return_defs reg_sp_def)+
  have b': "iss_prv s \<in> {VirtualSupervisorMode, VirtualUserMode}"
    using b vm by (auto simp: trap_entry_def trap_entry_vs_def iss_op_defs assert_that_def split: if_splits)
  have fb: "trap_frame VirtualSupervisorMode b = [VirtualSupervisorMode, if ?sw then csr_vstsp ?t else ?sp, iss_pc s,
      set_vsstatus_spp (PrivilegeLevelToPP (iss_prv s))
        (set_vsstatus_sie 0 (set_vsstatus_spie (vsstatus_sie (csr_vsstatus ?t)) (csr_vsstatus ?t))),
      csr_henvcfg ?t, if ?sw then ?sp else csr_vstsp ?t]"
    using b fa pca b' vm by (auto simp: trap_entry_def trap_entry_vs_def iss_op_defs trap_frame_def Let_def)
  have "trap_frame VirtualSupervisorMode s1 = trap_frame VirtualSupervisorMode b"
    "trap_frame VirtualSupervisorMode s2 = trap_frame VirtualSupervisorMode b"
    using f assms(5) by simp_all
  then have ie: "level_ie VirtualSupervisorMode s1 = 0"
    and e: "iss_regs s2 ! reg_sp = (if ?sw then csr_vstsp ?t else ?sp)" "csr_vsepc (iss_csrs s2) = iss_pc s"
    "csr_vsstatus (iss_csrs s2) = set_vsstatus_spp (PrivilegeLevelToPP (iss_prv s))
        (set_vsstatus_sie 0 (set_vsstatus_spie (vsstatus_sie (csr_vsstatus ?t)) (csr_vsstatus ?t)))"
    "csr_henvcfg (iss_csrs s2) = csr_henvcfg ?t" "csr_vstsp (iss_csrs s2) = (if ?sw then ?sp else csr_vstsp ?t)"
    using vm unfolding fb by (simp_all add: trap_frame_def Let_def level_ie_def status_fields)
  have prv: "VPPToPrivilegeLevel 1 (vsstatus_spp (csr_vsstatus (iss_csrs s2))) = iss_prv s"
    using b' by (simp add: e status_fields level_codes)
  show ?thesis
    using assms(4) ie e prv vm
    by (cases ?sw) (auto simp: return_from_trap_handler_def stsp_swap_sp_on_mode_change_def
      swap_stack_pointer_def iss_op_defs return_vs_def level_ie_def level_tsps_def Let_def status_fields take_bit_ie list_update_self)
qed

text \<open>
  C8: the return from a trap handler undoes the entry into it, at each of the levels M, HS and VS.
  The handler is entered at its level with the interrupts of that level off. Whatever the handler has
  done, as long as the registers that hold the interrupted context are as the trap left them (the
  saved program counter, the status registers, the swapped stack pointer and its enable bits), the
  return succeeds, leads back to the interrupted level and instruction, restores the interrupt
  enable bit and the stack pointers of both modes, and leaves every other register as the handler
  left it.
\<close>

theorem trap_return_roundtrip:
  assumes "switch_to_trap_handler level s = (Inr (), s1)" "is_hart_level (iss_prv s)"
    "length (iss_regs s) = 32" "length (iss_regs s2) = 32" "trap_frame level s2 = trap_frame level s1"
  shows "is_irq_capable_level level \<and> iss_prv s1 = level \<and> level_ie level s1 = 0 \<and>
    (\<exists>s3. return_from_trap_handler level s2 = (Inr (), s3) \<and>
      iss_prv s3 = iss_prv s \<and> iss_pc s3 = iss_pc s \<and> iss_regs s3 = (iss_regs s2)[reg_sp := iss_regs s ! reg_sp] \<and>
      level_ie level s3 = level_ie level s \<and> level_tsps level s3 = level_tsps level s)"
proof -
  obtain a b m where "stsp_swap_sp_on_mode_change level (iss_prv s) (s\<lparr>iss_lr_sc_counter := 0, iss_mem := m, iss_prv := level\<rparr>) = (Inr (), a)"
    and b: "trap_entry level (iss_prv s) a = (Inr (), b)" and f: "trap_frame level s1 = trap_frame level b"
    by (rule switch_to_trap_handler_frame [OF assms(1)])
  then have "iss_prv a = level"
    by (auto simp: trap_return_defs split: if_splits)
  then have "iss_prv b = level" and lev: "is_irq_capable_level level"
    using b by (auto simp: trap_entry_def trap_entry_m_def trap_entry_s_def trap_entry_vs_def is_irq_capable_level_def
        iss_op_defs assert_that_def split: if_splits)
  then have "iss_prv s1 = level"
    using f by (simp add: trap_frame_def Let_def)
  then show ?thesis
    using assms lev trap_return_m [of s s1 s2] trap_return_s [of s s1 s2] trap_return_vs [of s s1 s2]
    unfolding is_irq_capable_level_def by (elim disjE) simp_all
qed

text \<open>An environment call of a guest user that traps to machine mode: \<open>mret\<close> leads back to it.\<close>

definition example_trap :: "unit cmi \<Rightarrow> unit iss" where
  "example_trap m = (ISS_init 0 False m)\<lparr>iss_prv := VirtualUserMode, iss_pc := 0x80000100,
     iss_csrs := csr_table_init\<lparr>csr_mtvec := 0x80002000, csr_menvcfg := 0x100, csr_mtsp := 0x90000000,
       csr_mstatus := 0x8\<rparr>\<rparr>"

lemma example_trap_entry:
  "\<exists>s1. switch_to_trap_handler MachineMode (example_trap m) = (Inr (), s1) \<and> length (iss_regs s1) = 32"
proof -
  have menv: "menvcfg_mtsp 0x100 = 1" "get_base_address 0x80002000 = 0x80002000" "mtvec_mode 0x80002000 = 0"
    "mcause_interrupt 0 = 0"
    by (simp_all add: csr_fields get_field_def get_base_address_def)
  show ?thesis
    using menv
    by (simp add: switch_to_trap_handler_def example_trap_def ISS_init_def iss_op_defs release_lr_sc_reservation_def
      atomic_unlock_def stsp_swap_sp_on_mode_change_def swap_stack_pointer_def core_consts trap_entry_m_def
      jump_to_trap_vector_def get_xtvec_def get_xcause_def is_irq_capable_level_def verify_m_trap_vector_def set_pc_def
      Vectored_def SnpsNestedVectored_def csr_table_init_def)
qed

theorem trap_return_roundtrip_witness:
  "\<forall>m. \<exists>s1 s3. switch_to_trap_handler MachineMode (example_trap m) = (Inr (), s1) \<and>
     return_from_trap_handler MachineMode s1 = (Inr (), s3) \<and> iss_prv s3 = VirtualUserMode \<and> iss_pc s3 = 0x80000100"
proof
  fix m
  obtain s1 where s1: "switch_to_trap_handler MachineMode (example_trap m) = (Inr (), s1)" "length (iss_regs s1) = 32"
    using example_trap_entry by blast
  have "is_hart_level (iss_prv (example_trap m))" "length (iss_regs (example_trap m)) = 32"
    "iss_prv (example_trap m) = VirtualUserMode" "iss_pc (example_trap m) = 0x80000100"
    by (simp_all add: example_trap_def ISS_init_def is_hart_level_def)
  with trap_return_roundtrip [OF s1(1) this(1,2) s1(2) refl] s1(1)
  show "\<exists>s1 s3. switch_to_trap_handler MachineMode (example_trap m) = (Inr (), s1) \<and>
     return_from_trap_handler MachineMode s1 = (Inr (), s3) \<and> iss_prv s3 = VirtualUserMode \<and> iss_pc s3 = 0x80000100"
    by metis
qed

section \<open>Targets of traps and interrupts\<close>

text \<open>
  \<open>may_interrupt t p\<close>: a trap taken while the hart is in mode \<open>p\<close> may go to the level \<open>t\<close>, which is at
  least as privileged as \<open>p\<close>: a guest's handler is reached only from that guest.
\<close>

definition may_interrupt :: "PrivilegeLevel \<Rightarrow> PrivilegeLevel \<Rightarrow> bool" where
  "may_interrupt t p \<longleftrightarrow> t = MachineMode \<or> t = SupervisorMode \<and> p \<noteq> MachineMode \<or>
     t = VirtualSupervisorMode \<and> p \<in> {VirtualSupervisorMode, VirtualUserMode}"

definition level_pending :: "PrivilegeLevel \<Rightarrow> PendingInterrupts \<Rightarrow> u64" where
  "level_pending level p =
     (if level = MachineMode then m_pending p else if level = SupervisorMode then s_hs_pending p else vs_pending p)"

definition exception_delegated :: "u32 \<Rightarrow> u32 \<Rightarrow> bool" where
  "exception_delegated reason deleg \<longleftrightarrow> reason < 32 \<and> bit deleg (unat reason)"

definition exception_target :: "u32 \<Rightarrow> 'p iss \<Rightarrow> PrivilegeLevel" where
  "exception_target reason s =
     (if iss_prv s = MachineMode \<or> \<not> exception_delegated reason (csr_medeleg (iss_csrs s)) then MachineMode
      else if iss_prv s \<in> {SupervisorMode, UserMode} \<or> \<not> exception_delegated reason (csr_hedeleg (iss_csrs s))
      then SupervisorMode else VirtualSupervisorMode)"

lemma delegation_bit:
  "push_bit (unat reason) 1 AND deleg = (0 :: u32) \<longleftrightarrow> \<not> exception_delegated reason deleg"
proof -
  have "bit (push_bit (unat reason) 1 AND deleg) n \<longleftrightarrow> n = unat reason \<and> exception_delegated reason deleg" for n
    by (auto simp: bit_simps exception_delegated_def word_less_nat_alt dest: bit_imp_le_length)
  then show ?thesis
    by (metis bit_0_eq bit_eqI bot_apply bot_bool_def)
qed

lemma prepare_trap_prv: "preserves (\<lambda>s. iss_prv s = p) (prepare_trap reason v w)"
  unfolding prepare_trap_def Let_def
  by (intro preserves_rules preserves_csr_op preserves_csr_res preserves_modify; simp)

lemma prepare_trap_target:
  assumes "prepare_trap reason v w s = (Inr t, s')"
  shows "t = exception_target reason s \<and> iss_prv s' = iss_prv s"
proof -
  let ?dm = "exception_delegated reason (csr_medeleg (iss_csrs s))"
  let ?dh = "exception_delegated reason (csr_hedeleg (iss_csrs s))"
  consider (m) "iss_prv s = MachineMode \<or> \<not> ?dm"
    | (s) "iss_prv s \<noteq> MachineMode" ?dm "iss_prv s = SupervisorMode \<or> iss_prv s = UserMode \<or> \<not> ?dh"
    | (vs) "iss_prv s \<noteq> MachineMode" ?dm "iss_prv s \<noteq> SupervisorMode" "iss_prv s \<noteq> UserMode" ?dh
    by blast
  then have "t = exception_target reason s"
    by cases (use assms in \<open>auto simp: prepare_trap_def modify_op_def get_op_def Let_def delegation_bit [simplified]
      exception_target_def seq_op_Inr ret_op_def\<close>)
  then show ?thesis
    using preservesD [OF prepare_trap_prv refl assms(1)] by simp
qed

lemma exception_target_may_interrupt: "is_hart_level (iss_prv s) \<Longrightarrow> may_interrupt (exception_target r s) (iss_prv s)"
  by (auto simp: exception_target_def may_interrupt_def is_hart_level_def)

definition takes_interrupt :: "PrivilegeLevel \<Rightarrow> PendingInterrupts \<Rightarrow> 'p iss \<Rightarrow> bool" where
  "takes_interrupt l irqs s \<longleftrightarrow> level_pending l irqs \<noteq> 0 \<and> may_interrupt l (iss_prv s) \<and> (l = iss_prv s \<longrightarrow> level_ie l s \<noteq> 0)"

lemma level_neq:
  "MachineMode \<noteq> SupervisorMode" "MachineMode \<noteq> VirtualSupervisorMode" "MachineMode \<noteq> UserMode"
  "MachineMode \<noteq> VirtualUserMode" "MachineMode \<noteq> NoneMode" "SupervisorMode \<noteq> MachineMode"
  "SupervisorMode \<noteq> VirtualSupervisorMode" "SupervisorMode \<noteq> UserMode" "SupervisorMode \<noteq> VirtualUserMode"
  "SupervisorMode \<noteq> NoneMode" "VirtualSupervisorMode \<noteq> MachineMode" "VirtualSupervisorMode \<noteq> SupervisorMode"
  "VirtualSupervisorMode \<noteq> UserMode" "VirtualSupervisorMode \<noteq> VirtualUserMode" "VirtualSupervisorMode \<noteq> NoneMode"
  "UserMode \<noteq> MachineMode" "UserMode \<noteq> SupervisorMode" "UserMode \<noteq> VirtualSupervisorMode" "UserMode \<noteq> VirtualUserMode"
  "UserMode \<noteq> NoneMode" "VirtualUserMode \<noteq> MachineMode" "VirtualUserMode \<noteq> SupervisorMode"
  "VirtualUserMode \<noteq> VirtualSupervisorMode" "VirtualUserMode \<noteq> UserMode" "VirtualUserMode \<noteq> NoneMode"
  "NoneMode \<noteq> MachineMode" "NoneMode \<noteq> SupervisorMode" "NoneMode \<noteq> VirtualSupervisorMode" "NoneMode \<noteq> UserMode"
  "NoneMode \<noteq> VirtualUserMode"
  by (simp_all add: core_consts)

lemma irq_globally_enabled:
  assumes "is_hart_level (iss_prv s)" "is_irq_capable_level l"
  shows "is_irq_globaly_enable_per_level l s =
    Inr (may_interrupt l (iss_prv s) \<and> (l = iss_prv s \<longrightarrow> level_ie l s \<noteq> 0))"
proof -
  have "iss_prv s \<in> {MachineMode, SupervisorMode, UserMode, VirtualSupervisorMode, VirtualUserMode}"
    using assms(1) by (simp add: is_hart_level_def)
  then show ?thesis
    using assms(2) unfolding is_irq_capable_level_def
    by (elim insertE emptyE disjE)
      (simp_all add: is_irq_globaly_enable_per_level_def Let_def may_interrupt_def level_ie_def level_neq)
qed

lemma compute_pending_interrupt_eq:
  assumes "is_hart_level (iss_prv s)"
  shows "compute_pending_interrupt irqs s = Inr (
    if takes_interrupt MachineMode irqs s then MachineMode
    else if takes_interrupt SupervisorMode irqs s then SupervisorMode
    else if takes_interrupt VirtualSupervisorMode irqs s then VirtualSupervisorMode else NoneMode)"
  by (simp add: compute_pending_interrupt_def irq_globally_enabled [OF assms] is_irq_capable_level_def
      takes_interrupt_def level_pending_def level_neq)

lemma pending_interrupt_level:
  assumes "is_hart_level (iss_prv s)"
  shows "\<exists>l. compute_pending_interrupt irqs s = Inr l \<and>
      (l \<noteq> NoneMode \<longrightarrow> may_interrupt l (iss_prv s) \<and> level_pending l irqs \<noteq> 0 \<and> (l = iss_prv s \<longrightarrow> level_ie l s \<noteq> 0)) \<and>
      (\<forall>k. is_irq_capable_level k \<and> level_pending k irqs \<noteq> 0 \<and> may_interrupt k (iss_prv s) \<and>
        (k = iss_prv s \<longrightarrow> level_ie k s \<noteq> 0) \<longrightarrow> l \<noteq> NoneMode \<and> may_interrupt l k)"
  unfolding compute_pending_interrupt_eq [OF assms]
  by (auto simp: level_neq takes_interrupt_def is_irq_capable_level_def may_interrupt_def)



end
