(* ===== verification/VP_Muldiv_Props.thy ===== *)
theory VP_Muldiv_Props
  imports VP_ISS_Exec
begin

text \<open>
  Correctness of the multiplication and division instructions of the RV32 simulator
  (\<^verbatim>\<open>core/rv32/iss.cpp\<close>), which compute on 64-bit intermediate values and treat division by zero and
  signed overflow apart: the two halves of a product are the exact product, and quotient and
  remainder obey the division law on every input.
\<close>

section \<open>Products\<close>

lemma high_half:
  "(ucast (drop_bit 32 ((word_of_int p :: u64) AND 0xFFFFFFFF00000000)) :: u32) = word_of_int (p div 2 ^ 32)"
proof (rule bit_word_eqI)
  have m: "(0xFFFFFFFF00000000 :: u64) = push_bit 32 (mask 32)"
    by (simp add: mask_numeral)
  fix n assume "n < LENGTH(32)"
  then show "bit (ucast (drop_bit 32 ((word_of_int p :: u64) AND 0xFFFFFFFF00000000)) :: u32) n =
      bit (word_of_int (p div 2 ^ 32) :: u32) n"
    unfolding m drop_bit_eq_div [symmetric, of p 32] by (auto simp: bit_simps)
qed

lemma low_half: "(ucast ((word_of_int p :: u64) AND 0xFFFFFFFF) :: u32) = word_of_int p"
proof (rule bit_word_eqI)
  have m: "(0xFFFFFFFF :: u64) = mask 32"
    by (simp add: mask_numeral)
  fix n assume "n < LENGTH(32)"
  then show "bit (ucast ((word_of_int p :: u64) AND 0xFFFFFFFF) :: u32) n = bit (word_of_int p :: u32) n"
    unfolding m by (auto simp: bit_simps)
qed

lemma product_words:
  "mul_low a b = word_of_int (sint a * sint b)"
  "mulh_result a b = word_of_int (sint a * sint b div 2 ^ 32)"
  "mulhu_result a b = word_of_int (uint a * uint b div 2 ^ 32)"
  "mulhsu_result a b = word_of_int (sint a * uint b div 2 ^ 32)"
proof -
  have p: "scast a * scast b = (word_of_int (sint a * sint b) :: u64)"
    "ucast a * ucast b = (word_of_int (uint a * uint b) :: u64)"
    "scast a * ucast b = (word_of_int (sint a * uint b) :: u64)"
    by (simp_all only: scast_eq ucast_eq of_int_mult)
  show "mul_low a b = word_of_int (sint a * sint b)"
    "mulh_result a b = word_of_int (sint a * sint b div 2 ^ 32)"
    "mulhu_result a b = word_of_int (uint a * uint b div 2 ^ 32)"
    "mulhsu_result a b = word_of_int (sint a * uint b div 2 ^ 32)"
    by (simp_all only: mul_low_def mulh_result_def mulhu_result_def mulhsu_result_def Let_def p high_half low_half)
qed

lemma mul_low_words: "mul_low a b = a * b" "mul_low a b = word_of_int (uint a * uint b)" "mul_low a b = word_of_int (sint a * uint b)"
  by (simp_all add: product_words)

text \<open>The ranges and the two halves of a product, for words of any length.\<close>

lemma word_ranges:
  fixes x :: "'a::len word"
  shows "- (2 ^ (LENGTH('a) - 1)) \<le> sint x" "sint x < 2 ^ (LENGTH('a) - 1)" "0 \<le> uint x" "uint x < 2 ^ LENGTH('a)"
  using sint_greater_eq [of x] sint_less [of x] uint_lt2p [of x] by simp_all

lemma two_power_len: "(2 :: int) ^ LENGTH('a::len) = 2 * 2 ^ (LENGTH('a) - 1)"
  by (cases "LENGTH('a)") simp_all

lemma abs_ranges:
  fixes x :: "'a::len word"
  shows "\<bar>sint x\<bar> \<le> 2 ^ (LENGTH('a) - 1)" "\<bar>uint x\<bar> < 2 ^ LENGTH('a)" "\<bar>sint x\<bar> < 2 ^ LENGTH('a)"
proof -
  have "(0 :: int) < 2 ^ (LENGTH('a) - 1)" by simp
  then show "\<bar>sint x\<bar> \<le> 2 ^ (LENGTH('a) - 1)" "\<bar>uint x\<bar> < 2 ^ LENGTH('a)" "\<bar>sint x\<bar> < 2 ^ LENGTH('a)"
    using word_ranges [of x] two_power_len [where 'a = 'a] by linarith+
qed

lemma sint_word_of_int_range:
  "- (2 ^ (LENGTH('a) - 1)) \<le> k \<Longrightarrow> k < 2 ^ (LENGTH('a) - 1) \<Longrightarrow> sint (word_of_int k :: 'a::len word) = k"
  by (simp add: signed_of_int signed_take_bit_int_eq_self)

lemma uint_word_of_int_range: "0 \<le> k \<Longrightarrow> k < 2 ^ LENGTH('a) \<Longrightarrow> uint (word_of_int k :: 'a::len word) = k"
  by (simp add: uint_word_of_int)

lemma split_product: "p div 2 ^ LENGTH('a) * 2 ^ LENGTH('a) + uint (word_of_int p :: 'a::len word) = p"
  using div_mult_mod_eq [of p "2 ^ LENGTH('a)"] by (simp add: uint_word_of_int)

lemma div_lower: "0 < d \<Longrightarrow> l * d \<le> p \<Longrightarrow> l \<le> p div (d :: int)"
  using zdiv_mono1 [of "l * d" p d] by simp

lemma div_upper:
  assumes "0 < d" "p < u * (d :: int)"
  shows "p div d < u"
proof -
  have "p div d * d \<le> p"
    using div_mult_mod_eq [of p d] assms(1) pos_mod_sign [of d p] by linarith
  then have "p div d * d < u * d" using assms(2) by linarith
  then show ?thesis using assms(1) by simp
qed

lemma product_range:
  assumes "\<bar>x\<bar> \<le> M" "\<bar>y\<bar> < 2 * M"
  shows "- M \<le> x * y div (2 * M)" "x * y div (2 * M) < (M :: int)"
proof -
  have M: "0 < M" using assms by simp
  have "\<bar>x * y\<bar> \<le> M * (2 * M - 1)"
    unfolding abs_mult using assms M by (intro mult_mono) simp_all
  then have "(- M) * (2 * M) \<le> x * y" "x * y < M * (2 * M)"
    using M by (auto simp: algebra_simps)
  then show "- M \<le> x * y div (2 * M)" "x * y div (2 * M) < M"
    using M by (auto intro: div_lower div_upper)
qed

lemma unsigned_product_range:
  assumes "0 \<le> x" "x < N" "0 \<le> y" "y < (N :: int)"
  shows "0 \<le> x * y div N" "x * y div N < N"
proof -
  have "x * y \<le> (N - 1) * (N - 1)"
    using assms by (intro mult_mono) simp_all
  then have "x * y < N * N"
    using assms by (simp add: algebra_simps)
  then show "0 \<le> x * y div N" "x * y div N < N"
    using assms by (auto simp: pos_imp_zdiv_nonneg_iff intro: div_lower div_upper)
qed

lemma high_words_exact:
  fixes a b :: "'a::len word"
  shows "sint (word_of_int (sint a * sint b div 2 ^ LENGTH('a)) :: 'a word) * 2 ^ LENGTH('a) + uint (a * b) = sint a * sint b"
    "uint (word_of_int (uint a * uint b div 2 ^ LENGTH('a)) :: 'a word) * 2 ^ LENGTH('a) + uint (a * b) = uint a * uint b"
    "sint (word_of_int (sint a * uint b div 2 ^ LENGTH('a)) :: 'a word) * 2 ^ LENGTH('a) + uint (a * b) = sint a * uint b"
proof -
  note p = product_range [where M = "2 ^ (LENGTH('a) - 1)", folded two_power_len [where 'a = 'a]]
  have w: "a * b = word_of_int (sint a * sint b)" "a * b = word_of_int (uint a * uint b)" "a * b = word_of_int (sint a * uint b)"
    by simp_all
  show "sint (word_of_int (sint a * sint b div 2 ^ LENGTH('a)) :: 'a word) * 2 ^ LENGTH('a) + uint (a * b) = sint a * sint b"
    unfolding sint_word_of_int_range [OF p [OF abs_ranges(1) abs_ranges(3)]] w(1) by (rule split_product)
  show "uint (word_of_int (uint a * uint b div 2 ^ LENGTH('a)) :: 'a word) * 2 ^ LENGTH('a) + uint (a * b) = uint a * uint b"
    unfolding uint_word_of_int_range [OF unsigned_product_range [OF word_ranges(3,4) word_ranges(3,4)]] w(2) by (rule split_product)
  show "sint (word_of_int (sint a * uint b div 2 ^ LENGTH('a)) :: 'a word) * 2 ^ LENGTH('a) + uint (a * b) = sint a * uint b"
    unfolding sint_word_of_int_range [OF p [OF abs_ranges(1) abs_ranges(2)]] w(3) by (rule split_product)
qed

section \<open>Quotients and remainders\<close>

lemma sdiv_range:
  assumes "- M \<le> x" "x < M" "y \<noteq> 0" "\<not> (x = - M \<and> y = - 1)" "2 \<le> M"
  shows "- M \<le> x sdiv y" "x sdiv y < (M :: int)"
proof -
  have q: "\<bar>x sdiv y\<bar> = \<bar>x\<bar> div \<bar>y\<bar>"
    by (auto simp: signed_divide_int_def abs_mult abs_sgn_eq pos_imp_zdiv_nonneg_iff)
  have "- M \<le> x sdiv y \<and> x sdiv y < M"
  proof (cases "\<bar>y\<bar> = 1")
    case True
    then have "y = 1 \<or> y = - 1" by auto
    then show ?thesis using assms by auto
  next
    case False
    then have "2 \<le> \<bar>y\<bar>" using assms(3) by auto
    then have "\<bar>x\<bar> div \<bar>y\<bar> \<le> \<bar>x\<bar> div 2" by (intro zdiv_mono2) auto
    moreover have "\<bar>x\<bar> \<le> M" using assms(1,2) by auto
    ultimately have "\<bar>x sdiv y\<bar> \<le> M div 2" using zdiv_mono1 [of "\<bar>x\<bar>" M 2] q by simp
    then show ?thesis using assms(5) by auto
  qed
  then show "- M \<le> x sdiv y" "x sdiv y < M" by blast+
qed

lemma signed_division_words:
  fixes a b :: "'a::len word"
  assumes "b \<noteq> 0" "\<not> (sint a = - (2 ^ (LENGTH('a) - 1)) \<and> sint b = - 1)" "2 \<le> LENGTH('a)"
  shows "sint (word_of_int (sint a sdiv sint b) :: 'a word) = sint a sdiv sint b"
    "sint (word_of_int (sint a smod sint b) :: 'a word) = sint a smod sint b"
proof -
  let ?M = "2 ^ (LENGTH('a) - 1) :: int"
  have nz: "sint b \<noteq> 0" using assms(1) by (simp add: signed_eq_0_iff)
  have "(2 :: int) ^ 1 \<le> ?M" using assms(3) by (intro power_increasing) auto
  then have M: "2 \<le> ?M" by simp
  have "sint a smod sint b \<in> {- \<bar>sint b\<bar> + 1..\<bar>sint b\<bar> - 1}"
    by (rule smod_int_range [OF nz])
  then have m: "- ?M \<le> sint a smod sint b" "sint a smod sint b < ?M"
    using abs_ranges(1) [of b] by auto
  show "sint (word_of_int (sint a sdiv sint b) :: 'a word) = sint a sdiv sint b"
    using sdiv_range [of ?M "sint a" "sint b"] word_ranges(1,2) [of a] nz assms(2) M by (intro sint_word_of_int_range) auto
  show "sint (word_of_int (sint a smod sint b) :: 'a word) = sint a smod sint b"
    using m by (rule sint_word_of_int_range)
qed

lemma smod_sign: "sgn ((x :: int) smod y) = sgn x \<or> x smod y = 0"
proof (cases "x smod y = 0")
  case False
  then have "y \<noteq> 0 \<Longrightarrow> \<bar>x\<bar> mod \<bar>y\<bar> > 0"
    by (auto simp: signed_modulo_int_def intro!: order_le_neq_trans)
  with False show ?thesis
    by (cases "y = 0") (auto simp: signed_modulo_int_def sgn_mult)
qed simp

text \<open>
  What the manual of the architecture asks of the result \<open>r\<close> of each instruction on the operands \<open>a\<close>
  and \<open>b\<close>. The quotient is rounded towards zero; division by zero gives all bits set and leaves the
  dividend as the remainder; signed overflow gives the dividend and the remainder zero.
\<close>

definition truncated_division :: "int \<Rightarrow> int \<Rightarrow> int \<Rightarrow> int \<Rightarrow> bool" where
  "truncated_division a b q r \<longleftrightarrow> a = q * b + r \<and> \<bar>r\<bar> < \<bar>b\<bar> \<and> (r = 0 \<or> sgn r = sgn a)"

definition muldiv_spec :: "rv32m \<Rightarrow> 'a::len word \<Rightarrow> 'a word \<Rightarrow> 'a word \<Rightarrow> bool" where
  "muldiv_spec op a b r = (let N = 2 ^ LENGTH('a); overflow = (sint a = - (2 ^ (LENGTH('a) - 1)) \<and> sint b = - 1) in case op of
     MUL \<Rightarrow> r = a * b
   | MULH \<Rightarrow> sint r * N + uint (a * b) = sint a * sint b
   | MULHU \<Rightarrow> uint r * N + uint (a * b) = uint a * uint b
   | MULHSU \<Rightarrow> sint r * N + uint (a * b) = sint a * uint b
   | DIV \<Rightarrow> if b = 0 then r = - 1 else if overflow then r = a else \<exists>m. truncated_division (sint a) (sint b) (sint r) m
   | DIVU \<Rightarrow> if b = 0 then r = - 1 else \<exists>m. truncated_division (uint a) (uint b) (uint r) m
   | REM \<Rightarrow> if b = 0 then r = a else if overflow then r = 0 else \<exists>q. truncated_division (sint a) (sint b) q (sint r)
   | REMU \<Rightarrow> if b = 0 then r = a else \<exists>q. truncated_division (uint a) (uint b) q (uint r))"

lemma overflow_iff: "sint a = - 2147483648 \<longleftrightarrow> a = REG_MIN" "sint b = - 1 \<longleftrightarrow> b = (- 1 :: u32)"
  by (auto simp: REG_MIN_def intro: signed_word_eqI)

lemma signed_truncated:
  fixes a b :: "'a::len word"
  assumes "b \<noteq> 0" "\<not> (sint a = - (2 ^ (LENGTH('a) - 1)) \<and> sint b = - 1)" "2 \<le> LENGTH('a)"
  shows "truncated_division (sint a) (sint b) (sint (word_of_int (sint a sdiv sint b) :: 'a word))
    (sint (word_of_int (sint a smod sint b) :: 'a word))"
proof -
  have "sint b \<noteq> 0" using assms(1) by (simp add: signed_eq_0_iff)
  then have "\<bar>sint a smod sint b\<bar> < \<bar>sint b\<bar>"
    using smod_int_range [of "sint b" "sint a"] by auto
  then show ?thesis
    using smod_sign [of "sint a" "sint b"]
    by (auto simp: truncated_division_def signed_division_words [OF assms] sdiv_mult_smod_eq)
qed

lemma unsigned_truncated:
  fixes a b :: "'a::len word"
  assumes "b \<noteq> 0"
  shows "truncated_division (uint a) (uint b) (uint (a div b)) (uint (a mod b))"
proof -
  have "0 < uint b" using assms uint_ge_0 [of b] by (simp add: order_less_le uint_0_iff)
  then have "0 \<le> uint a mod uint b" "uint a mod uint b < uint b" "0 \<le> uint a" by simp_all
  then have "uint a mod uint b = 0 \<or> 0 < uint a mod uint b \<and> 0 < uint a" using uint_ge_0 [of a] by (cases "uint a = 0") (auto simp: order_less_le)
  then show ?thesis
    using assms \<open>0 < uint b\<close> by (auto simp: truncated_division_def uint_div uint_mod sgn_if)
qed

lemma division_law_words: "(a :: 'a::len word) = word_of_int (sint a sdiv sint b) * b + word_of_int (sint a smod sint b)"
proof -
  have "word_of_int (sint a) = (word_of_int (sint a sdiv sint b * sint b + sint a smod sint b) :: 'a word)"
    by (simp add: sdiv_mult_smod_eq)
  then show ?thesis by simp
qed

lemma division_law: "a = div_result a b * b + rem_result a b"
  using division_law_words [of a b] by (auto simp: div_result_def rem_result_def REG_MIN_def)

text \<open>
  C12: the multiplication and division instructions compute what the architecture manual asks, on
  every pair of operands: the high and the low word of a product together are the exact signed,
  unsigned or mixed product; quotient and remainder are the truncated division with the fixed results
  for division by zero and for signed overflow; and in all cases, these two included, the dividend is
  the quotient times the divisor plus the remainder. The instruction writes the result to \<^verbatim>\<open>rd\<close> and
  changes nothing else.
\<close>

theorem muldiv_correct:
  assumes "csr_misa (iss_csrs s) AND misa_M \<noteq> 0"
  shows "(\<exists>r. exec_rv32m op s = (Inr (), s\<lparr>iss_regs := (iss_regs s)[unat (instr_rd (iss_instr s)) := r]\<rparr>) \<and>
      muldiv_spec op (rs1_val s) (rs2_val s) r) \<and>
    a = div_result a b * b + rem_result a b \<and> a = divu_result a b * b + remu_result a b"
proof -
  have e: "exec_rv32m op s = (Inr (), s\<lparr>iss_regs := (iss_regs s)[unat (instr_rd (iss_instr s)) :=
      rv32m_result op (rs1_val s) (rs2_val s)]\<rparr>)"
    using assms by (simp add: exec_rv32m_def REQUIRE_ISA_def write_rd_def set_reg_def iss_op_defs)
  have r: "muldiv_spec op a b (rv32m_result op a b)" for a b
    using high_words_exact [of a b] mul_low_words(1) [of a b] signed_truncated [of b a] unsigned_truncated [of b a]
    by (cases op) (auto simp: muldiv_spec_def rv32m_result_def overflow_iff Let_def product_words(2-4)
        div_result_def rem_result_def divu_result_def remu_result_def)
  have s: "a = div_result a b * b + rem_result a b"
    by (rule division_law)
  have u: "a = divu_result a b * b + remu_result a b"
    using div_mult_mod_eq [of a b] by (simp add: divu_result_def remu_result_def)
  show ?thesis
    using e r s u by blast
qed

text \<open>The division of \<open>- 7\<close> by \<open>2\<close>: the quotient is \<open>- 3\<close>, the remainder \<open>- 1\<close>.\<close>

definition example_div :: "unit cmi \<Rightarrow> unit iss" where
  "example_div m = (ISS_init 0 False m)\<lparr>iss_instr := 0x025545B3, iss_regs := (replicate 32 0)[10 := - 7, 5 := 2]\<rparr>"

lemma truncated_division_example: "truncated_division (- 7) 2 q r \<Longrightarrow> q = - 3"
  by (auto simp: truncated_division_def sgn_if split: if_splits)

theorem muldiv_correct_witness:
  "\<forall>m. \<exists>r. exec_rv32m DIV (example_div m) = (Inr (), (example_div m)\<lparr>iss_regs := (iss_regs (example_div m))[11 := r]\<rparr>) \<and>
     sint r = - 3"
proof
  fix m
  have m: "csr_misa (iss_csrs (example_div m)) AND misa_M \<noteq> 0"
    by (simp add: example_div_def ISS_init_def csr_table_init_def misa_init_def core_consts csr_fields set_field_def mask_numeral)
  have v: "rs1_val (example_div m) = - 7" "rs2_val (example_div m) = 2" "instr_rd (iss_instr (example_div m)) = 11"
    by (simp_all add: example_div_def rs1_val_def rs2_val_def xreg_def instr_rs1_def instr_rs2_def instr_rd_def BIT_RANGE_def)
  from muldiv_correct [OF m, of DIV 0 0] obtain r where
    r: "exec_rv32m DIV (example_div m) = (Inr (), (example_div m)\<lparr>iss_regs := (iss_regs (example_div m))[11 := r]\<rparr>)"
    "muldiv_spec DIV (- 7) 2 r"
    unfolding v by auto
  then have "\<exists>k. truncated_division (- 7) 2 (sint r) k"
    by (simp add: muldiv_spec_def)
  then show "\<exists>r. exec_rv32m DIV (example_div m) = (Inr (), (example_div m)\<lparr>iss_regs := (iss_regs (example_div m))[11 := r]\<rparr>) \<and>
     sint r = - 3"
    using r(1) truncated_division_example by blast
qed

end
