(* ===== verification/VP_Exec_Props.thy ===== *)
theory VP_Exec_Props
  imports VP_ISS_Exec VP_Harts
begin

text \<open>
  Properties of the instruction execution of the RV32 simulator: a reservation made by a
  load-reserved instruction is given up after a bounded number of instructions, and the access
  rights of the CSR instructions.
\<close>

section \<open>Reservations\<close>

definition holds_lock :: "'p iss \<Rightarrow> bool" where
  "holds_lock s \<longleftrightarrow> is_locked_by (cmi_lock (iss_mem s)) (csr_mhartid (iss_csrs s))"

text \<open>
  Instructions after the load-reserved one: each executes, which is any change of the state that
  keeps the counter of the reservation, and is then accounted for.
\<close>

fun account_run :: "'p iss_env \<Rightarrow> (('p iss \<Rightarrow> 'p iss) \<times> Mapping) list \<Rightarrow> 'p iss \<Rightarrow> 'p iss" where
  "account_run env [] s = s"
| "account_run env ((f, op) # ops) s = account_run env ops (snd (performance_and_sync_update env op (f s)))"

lemma count_reservation_effect:
  "iss_lr_sc_counter s > 1 \<Longrightarrow> count_reservation s = (Inr (), s\<lparr>iss_lr_sc_counter := iss_lr_sc_counter s - 1\<rparr>)"
  "iss_lr_sc_counter s = 1 \<Longrightarrow> \<exists>t. count_reservation s = (Inr (), t) \<and> iss_lr_sc_counter t = 0 \<and> \<not> holds_lock t"
  by (auto simp: count_reservation_def release_lr_sc_reservation_def iss_op_defs atomic_unlock_def bl_unlock_def
      holds_lock_def is_locked_by_def iss_core_def Let_def)

definition counted :: "'p iss \<Rightarrow> 'p iss" where
  "counted s = s\<lparr>iss_total_num_instr := iss_total_num_instr s + 1,
     iss_csrs := (if mcountinhibit_IR (csr_mcountinhibit (iss_csrs s)) = 0
       then (iss_csrs s)\<lparr>csr_instret := csr_instret (iss_csrs s) + 1\<rparr> else iss_csrs s)\<rparr>"

definition cycled :: "Mapping \<Rightarrow> 'p iss \<Rightarrow> 'p iss" where
  "cycled op t = (if mcountinhibit_CY (csr_mcountinhibit (iss_csrs t)) = 0
     then t\<lparr>iss_cycle_counter := iss_cycle_counter t + instr_cycles op\<rparr> else t)"

lemma counted_simps [simp]: "iss_lr_sc_counter (counted s) = iss_lr_sc_counter s" "iss_mem (counted s) = iss_mem s"
  by (simp_all add: counted_def)

lemma cycled_simps [simp]: "iss_lr_sc_counter (cycled op t) = iss_lr_sc_counter t" "iss_mem (cycled op t) = iss_mem t"
  "holds_lock (cycled op t) = holds_lock t"
  by (simp_all add: cycled_def holds_lock_def)

lemma performance_and_sync_update_eq:
  assumes "count_reservation (counted s) = (Inr (), t)" "env_quantum_inc env (instr_cycles op) (cycled op t) = (Inr b, cycled op t)"
  shows "performance_and_sync_update env op s =
    (if b \<and> iss_lr_sc_counter t = 0 then env_quantum_sync env (cycled op t) else (Inr (), cycled op t))"
proof -
  have e: "performance_and_sync_update env op s = seq_op count_reservation (\<lambda>t.
      bind_op (env_quantum_inc env (instr_cycles op)) (\<lambda>need_sync.
        get_op iss_lr_sc_counter (\<lambda>c. when_op (need_sync \<and> c = 0) (env_quantum_sync env))) (cycled op t)) (counted s)"
    by (simp add: performance_and_sync_update_def seq_op_def bind_op_def modify_op_def csr_op_def cycled_def [abs_def] counted_def Let_def)
  show ?thesis
    unfolding e using assms by (simp add: seq_op_def bind_op_def get_op_def when_op_def ret_op_def)
qed

lemma account_running:
  assumes q: "\<And>k t. \<exists>b. env_quantum_inc env k t = (Inr b, t)" and c: "iss_lr_sc_counter s > 1"
  shows "\<exists>t. performance_and_sync_update env op s = (Inr (), t) \<and> iss_lr_sc_counter t = iss_lr_sc_counter s - 1 \<and>
    iss_mem t = iss_mem s"
proof -
  let ?t = "(counted s)\<lparr>iss_lr_sc_counter := iss_lr_sc_counter s - 1\<rparr>"
  have r: "count_reservation (counted s) = (Inr (), ?t)"
    using count_reservation_effect(1) [of "counted s"] c by simp
  obtain b where "env_quantum_inc env (instr_cycles op) (cycled op ?t) = (Inr b, cycled op ?t)" using q by blast
  from performance_and_sync_update_eq [OF r this] c show ?thesis by simp
qed

lemma account_last:
  assumes q: "\<And>k t. \<exists>b. env_quantum_inc env k t = (Inr b, t)" and c: "iss_lr_sc_counter s = 1"
  shows "\<exists>t. iss_lr_sc_counter t = 0 \<and> \<not> holds_lock t \<and>
    performance_and_sync_update env op s \<in> {(Inr (), t), env_quantum_sync env t}"
proof -
  obtain t where r: "count_reservation (counted s) = (Inr (), t)" "iss_lr_sc_counter t = 0" "\<not> holds_lock t"
    using count_reservation_effect(2) [of "counted s"] c by auto
  obtain b where "env_quantum_inc env (instr_cycles op) (cycled op t) = (Inr b, cycled op t)" using q by blast
  from performance_and_sync_update_eq [OF r(1) this] r show ?thesis
    by (intro exI [of _ "cycled op t"]) simp
qed

lemma account_run_append:
  "account_run env (xs @ ys) s = account_run env ys (account_run env xs s)"
  by (induction xs arbitrary: s) auto

lemma account_run_counter:
  assumes q: "\<And>k t. \<exists>b. env_quantum_inc env k t = (Inr b, t)"
    and "\<forall>(f, op) \<in> set ops. \<forall>t. iss_lr_sc_counter (f t) = iss_lr_sc_counter t"
    and "int (length ops) < iss_lr_sc_counter s"
  shows "iss_lr_sc_counter (account_run env ops s) = iss_lr_sc_counter s - int (length ops)"
  using assms(2,3)
proof (induction ops arbitrary: s)
  case (Cons x ops)
  obtain f op where x: "x = (f, op)" by (cases x)
  have f: "iss_lr_sc_counter (f s) = iss_lr_sc_counter s" using Cons.prems(1) x by auto
  then obtain t where t: "performance_and_sync_update env op (f s) = (Inr (), t)" "iss_lr_sc_counter t = iss_lr_sc_counter s - 1"
    using account_running [OF q, of "f s" op] Cons.prems(2) by auto
  have "iss_lr_sc_counter (account_run env ops t) = iss_lr_sc_counter t - int (length ops)"
    using Cons.prems t(2) by (intro Cons.IH) auto
  then show ?case using x t by simp
qed simp

lemma lr_sets_counter:
  assumes "exec_lr_w env s = (Inr (), s')" "iss_lr_sc_counter s = 0"
  shows "iss_lr_sc_counter s' = 17"
  using assms
  by (auto simp: exec_lr_w_def trap_check_addr_alignment_def write_rd_def set_reg_def iss_op_defs split: prod.splits sum.splits if_splits)

text \<open>
  C32: a load-reserved instruction blocks the other harts for at most 17 instructions. As long as
  fewer instructions have been accounted for, the reservation counter runs down by one for each and
  the simulator does not give up control; the 17th releases the bus lock, whatever the
  instructions in between do, before the simulator may give control to the other harts. (The
  quantum keeper of SystemC counts time and leaves the simulator's state alone.)
\<close>

theorem lr_reservation_expires:
  assumes "exec_lr_w env s0 = (Inr (), s)" "iss_lr_sc_counter s0 = 0"
    and q: "\<And>k t. \<exists>b. env_quantum_inc env k t = (Inr b, t)"
    and f: "\<forall>(f, op) \<in> set ops. \<forall>t. iss_lr_sc_counter (f t) = iss_lr_sc_counter t"
  shows "(length ops < 17 \<longrightarrow> iss_lr_sc_counter (account_run env ops s) = 17 - int (length ops)) \<and>
    (length ops = 17 \<longrightarrow> (\<exists>t. iss_lr_sc_counter t = 0 \<and> \<not> holds_lock t \<and>
       account_run env ops s \<in> {t, snd (env_quantum_sync env t)}))"
proof (intro conjI impI)
  have c: "iss_lr_sc_counter s = 17" by (rule lr_sets_counter [OF assms(1,2)])
  show "iss_lr_sc_counter (account_run env ops s) = 17 - int (length ops)" if "length ops < 17"
    using account_run_counter [OF q f] c that by simp
  assume "length ops = 17"
  then obtain xs g op where ops: "ops = xs @ [(g, op)]" "length xs = 16"
    by (cases ops rule: rev_cases) auto
  let ?u = "account_run env xs s"
  have u: "iss_lr_sc_counter ?u = 1"
    using account_run_counter [OF q, of xs s] f c ops by simp
  have "iss_lr_sc_counter (g ?u) = 1" using u f ops by auto
  from account_last [OF q this, of op] obtain t where "iss_lr_sc_counter t = 0" "\<not> holds_lock t"
    "performance_and_sync_update env op (g ?u) \<in> {(Inr (), t), env_quantum_sync env t}" by blast
  then show "\<exists>t. iss_lr_sc_counter t = 0 \<and> \<not> holds_lock t \<and>
      account_run env ops s \<in> {t, snd (env_quantum_sync env t)}"
    unfolding ops(1) account_run_append by auto
qed

text \<open>A load-reserved of a word of memory in machine mode, followed by 17 instructions without memory access.\<close>

definition example_env :: "softfloat \<Rightarrow> unit iss_env" where
  "example_env sf = \<lparr>env_pt = no_peripherals, env_update_and_get_mtime = ret_op 0, env_post_write_xtimecmp = ret_op (),
     env_execute_syscall = ret_op (), env_wait_wfi = ret_op (), env_quantum_inc = (\<lambda>_. ret_op True),
     env_quantum_sync = ret_op (), env_softfloat = sf\<rparr>"

definition example_lr :: "unit iss" where
  "example_lr = (ISS_init 0 False example_cmi)\<lparr>iss_instr := 0x100525AF, iss_regs := (replicate 32 0)[10 := 0x80000010]\<rparr>"

lemma example_lr_returns: "\<exists>s. exec_lr_w (example_env sf) example_lr = (Inr (), s)"
proof -
  have core: "bare_machine (iss_core example_lr)" "co_hart (iss_core example_lr) = 0"
    by (simp_all add: bare_machine_def iss_core_def Let_def example_lr_def ISS_init_def csr_table_init_def csr_fields get_field_def)
  have "phys_load (cmi_bus example_cmi) 4 0x80000010 \<noteq> Inl e" for e
    by (simp add: phys_load_def example_mem_at make_SimpleMemory_def)
  then obtain x where x: "phys_load (cmi_bus example_cmi) 4 0x80000010 = Inr x"
    by (cases "phys_load (cmi_bus example_cmi) 4 0x80000010") auto
  obtain c where "atomic_load_reserved_word no_peripherals (iss_core example_lr) 0x80000010 example_cmi = (Inr (ucast x), c)"
    using load_reserved_eq [OF core(1), unfolded core(2), OF example_cmi_ok, of no_peripherals "0x80000010"] x by auto
  moreover have "rs1_val example_lr = 0x80000010" "iss_mem example_lr = example_cmi"
    by (simp_all add: rs1_val_def xreg_def example_lr_def instr_rs1_def BIT_RANGE_def ISS_init_def)
  ultimately show ?thesis
    by (simp add: exec_lr_w_def trap_check_addr_alignment_def write_rd_def set_reg_def iss_op_defs example_env_def)
qed

theorem lr_reservation_expires_witness:
  "\<forall>sf op. \<exists>s t. exec_lr_w (example_env sf) example_lr = (Inr (), s) \<and> iss_lr_sc_counter t = 0 \<and> \<not> holds_lock t \<and>
     account_run (example_env sf) (replicate 17 (id, op)) s = t"
proof (intro allI)
  fix sf :: softfloat and op :: Mapping
  obtain s where s: "exec_lr_w (example_env sf) example_lr = (Inr (), s)"
    using example_lr_returns by blast
  have c: "iss_lr_sc_counter example_lr = 0" by (simp add: example_lr_def ISS_init_def)
  have q: "\<exists>b. env_quantum_inc (example_env sf) k t = (Inr b, t)" for k t
    by (auto simp: example_env_def ret_op_def)
  have f: "\<forall>(f, op) \<in> set (replicate 17 (id, op)). \<forall>t. iss_lr_sc_counter (f t) = iss_lr_sc_counter (t :: unit iss)"
    by simp
  from lr_reservation_expires [OF s c q f]
  obtain t where "iss_lr_sc_counter t = 0" "\<not> holds_lock t"
    "account_run (example_env sf) (replicate 17 (id, op)) s \<in> {t, snd (env_quantum_sync (example_env sf) t)}" by auto
  then show "\<exists>s t. exec_lr_w (example_env sf) example_lr = (Inr (), s) \<and> iss_lr_sc_counter t = 0 \<and> \<not> holds_lock t \<and>
     account_run (example_env sf) (replicate 17 (id, op)) s = t"
    using s by (auto simp: example_env_def ret_op_def)
qed

section \<open>Access to control and status registers\<close>

text \<open>
  The rule of the architecture: bits 8 and 9 of the address are the lowest level that may access the
  register, bits 10 and 11 are both set if it is read-only.
\<close>

definition csr_permitted :: "PrivilegeLevel \<Rightarrow> u32 \<Rightarrow> u32 \<Rightarrow> bool \<Rightarrow> bool" where
  "csr_permitted prv misa addr is_write \<longleftrightarrow>
     (is_write \<longrightarrow> get_field 10 2 addr \<noteq> 3) \<and>
     (let level = get_field 8 2 addr in
       level = 0 \<and> has_user_mode_extension misa \<or>
       level = 1 \<and> has_supervisor_mode_extension misa \<and> prv \<in> {MachineMode, SupervisorMode, VirtualSupervisorMode} \<or>
       level = 2 \<and> prv \<in> {MachineMode, SupervisorMode} \<or>
       level = 3 \<and> prv = MachineMode)"

definition is_fp_csr :: "u32 \<Rightarrow> bool" where
  "is_fp_csr addr \<longleftrightarrow> addr = FFLAGS_ADDR \<or> addr = FRM_ADDR \<or> addr = FCSR_ADDR"

definition csr_accessible :: "u32 \<Rightarrow> bool \<Rightarrow> 'p iss \<Rightarrow> bool" where
  "csr_accessible addr is_write s \<longleftrightarrow> csr_permitted (iss_prv s) (csr_misa (iss_csrs s)) addr is_write \<and>
     (is_fp_csr addr \<longrightarrow> csr_misa (iss_csrs s) AND misa_F \<noteq> 0)"

lemma csr_address_fields:
  "csr_type addr = get_field 8 2 addr" "drop_bit 10 (0xC00 AND addr) = get_field 10 2 (addr :: u32)"
proof -
  have m: "(0x300 :: u32) = push_bit 8 (mask 2)" "(0xC00 :: u32) = push_bit 10 (mask 2)"
    by (simp_all add: mask_numeral)
  show "csr_type addr = get_field 8 2 addr"
    by (rule bit_word_eqI) (auto simp: csr_type_def csr_addrs m bit_get_field bit_simps)
  show "drop_bit 10 (0xC00 AND addr) = get_field 10 2 (addr :: u32)"
    by (rule bit_word_eqI) (auto simp: m bit_get_field bit_simps)
qed

lemma field_2_cases: "get_field lo 2 (w :: u32) \<in> {0, 1, 2, 3}"
proof -
  have "unat (get_field lo 2 w) < 4"
    by (simp add: unat_get_field)
  then have "unat (get_field lo 2 w) \<in> {unat (0 :: u32), unat (1 :: u32), unat (2 :: u32), unat (3 :: u32)}" by auto
  then show ?thesis by (simp add: word_unat_eq_iff)
qed

lemma csr_access_denied_iff: "csr_access_denied prv misa addr w \<longleftrightarrow> \<not> csr_permitted prv misa addr w"
  using field_2_cases [of 8 addr] unfolding csr_access_denied_def csr_permitted_def csr_address_fields Let_def
  by (auto simp: priveledge_ok_def csr_addrs core_consts)

lemma counter_address_field:
  assumes "0xC00 \<le> a \<and> a \<le> 0xC1F \<or> 0xC80 \<le> a \<and> a \<le> (0xC9F :: u32)"
  shows "get_field 8 2 a = 0"
proof -
  have "unat a div 256 = 12"
    using assms by (auto simp: word_le_nat_alt)
  then have "unat (get_field 8 2 a) = 0" by (simp add: unat_get_field)
  then show ?thesis by (simp only: unat_eq_zero)
qed

lemma is_invalid_csr_access_eq:
  "is_invalid_csr_access addr w s =
    (if is_fp_csr addr \<and> csr_misa (iss_csrs s) AND misa_F = 0
     then (Inl (SimulationTrap EXC_ILLEGAL_INSTR (ucast (iss_instr s)) 0), s)
     else (Inr (\<not> csr_permitted (iss_prv s) (csr_misa (iss_csrs s)) addr w), s))"
  by (auto simp: is_invalid_csr_access_def is_fp_csr_def REQUIRE_ISA_def RAISE_ILLEGAL_INSTRUCTION_def iss_op_defs
      raise_trap_def csr_access_denied_iff)

text \<open>
  C11: CSR instructions respect the privilege levels. An instruction that writes a read-only
  register, or accesses one above the current level or of an extension that is absent, raises an
  illegal instruction exception and changes nothing, whatever \<^verbatim>\<open>rd\<close> is. An accessible one is not
  stopped by this check. In VS-mode an access to a supervisor register is an access to the VS copy
  of that register, at the address with the level field 2, for reading and for writing.
\<close>

theorem csr_access_rights:
  fixes s :: "'p iss"
  shows "(\<not> csr_accessible addr True s \<longrightarrow>
      execute_csr_write env addr rd v s = (Inl (SimulationTrap EXC_ILLEGAL_INSTR (ucast (iss_instr s)) 0), s)) \<and>
   (\<not> csr_accessible addr w s \<longrightarrow>
      execute_csr_modify env f addr rd w s = (Inl (SimulationTrap EXC_ILLEGAL_INSTR (ucast (iss_instr s)) 0), s)) \<and>
   (csr_accessible addr w s \<longrightarrow> is_invalid_csr_access addr w s = (Inr False, s)) \<and>
   (vs_mode s \<and> get_field 8 2 addr = 1 \<longrightarrow>
      get_csr_value env addr s = get_csr_value env (set_field 8 2 2 addr) s \<and>
      set_csr_value env addr v r s = set_csr_value env (set_field 8 2 2 addr) v r s)"
proof (intro conjI impI)
  show "execute_csr_write env addr rd v s = (Inl (SimulationTrap EXC_ILLEGAL_INSTR (ucast (iss_instr s)) 0), s)"
    if "\<not> csr_accessible addr True s"
    using that by (auto simp: execute_csr_write_def csr_accessible_def bind_op_def is_invalid_csr_access_eq
        RAISE_ILLEGAL_INSTRUCTION_def iss_op_defs raise_trap_def)
  show "execute_csr_modify env f addr rd w s = (Inl (SimulationTrap EXC_ILLEGAL_INSTR (ucast (iss_instr s)) 0), s)"
    if "\<not> csr_accessible addr w s"
    using that by (auto simp: execute_csr_modify_def csr_accessible_def bind_op_def is_invalid_csr_access_eq
        RAISE_ILLEGAL_INSTRUCTION_def iss_op_defs raise_trap_def)
  show "is_invalid_csr_access addr w s = (Inr False, s)" if "csr_accessible addr w s"
    using that by (auto simp: csr_accessible_def is_invalid_csr_access_eq)
  assume vs: "vs_mode s \<and> get_field 8 2 addr = 1"
  have "csr_address_virt_transform addr s = set_field 8 2 2 addr"
    using vs by (simp add: csr_address_virt_transform_def csr_address_fields csr_addrs set_field_def mask_numeral)
  moreover have "csr_address_virt_transform (set_field 8 2 2 addr) s = set_field 8 2 2 addr"
    by (simp add: csr_address_virt_transform_def csr_address_fields get_field_set_field_same csr_addrs)
  moreover have "validate_csr_counter_read_access_rights a = (ret_op () :: ('p iss, unit) op)" if "get_field 8 2 a \<noteq> 0" for a
    using counter_address_field [of a] that by (auto simp: validate_csr_counter_read_access_rights_def when_op_def)
  ultimately have tr: "csr_address_virt_transform addr s = set_field 8 2 2 addr"
      "csr_address_virt_transform (set_field 8 2 2 addr) s = set_field 8 2 2 addr"
    and v: "validate_csr_counter_read_access_rights addr = (ret_op () :: ('p iss, unit) op)"
      "validate_csr_counter_read_access_rights (set_field 8 2 2 addr) = (ret_op () :: ('p iss, unit) op)"
    using vs by (simp_all add: get_field_set_field_same)
  show "get_csr_value env addr s = get_csr_value env (set_field 8 2 2 addr) s"
    unfolding get_csr_value_def v seq_op_def bind_op_def ret_op_def get_op_def prod.case sum.case tr ..
  show "set_csr_value env addr v r s = set_csr_value env (set_field 8 2 2 addr) v r s"
    unfolding set_csr_value_def get_op_def tr ..
qed

text \<open>A user program writes \<open>mstatus\<close>: it is stopped and nothing changes.\<close>

theorem csr_access_rights_witness:
  "\<forall>m sf. execute_csr_write (example_env sf) MSTATUS_ADDR 1 0x1800 ((ISS_init 0 False m)\<lparr>iss_prv := UserMode, iss_instr := 0x300110F3\<rparr>) =
     (Inl (SimulationTrap EXC_ILLEGAL_INSTR 0x300110F3 0), (ISS_init 0 False m)\<lparr>iss_prv := UserMode, iss_instr := 0x300110F3\<rparr>)"
proof (intro allI)
  fix m :: "unit cmi" and sf
  let ?s = "(ISS_init 0 False m)\<lparr>iss_prv := UserMode, iss_instr := 0x300110F3\<rparr>"
  have "\<not> csr_accessible MSTATUS_ADDR True ?s"
    by (simp add: csr_accessible_def csr_permitted_def csr_addrs get_field_def core_consts)
  from this csr_access_rights [of MSTATUS_ADDR ?s "example_env sf" 1 "0x1800"]
  show "execute_csr_write (example_env sf) MSTATUS_ADDR 1 0x1800 ?s = (Inl (SimulationTrap EXC_ILLEGAL_INSTR 0x300110F3 0), ?s)"
    by simp
qed

end
