(* ===== verification/VP_ISS_Inv.thy ===== *)
theory VP_ISS_Inv
  imports VP_Exec_Props VP_Op_Logic
begin

text \<open>
  The well-formedness of the RV32 simulator, preserved by every operation: the register files and
  register arrays keep their lengths, so that no access by a decoded register number or by an entry
  number is out of bounds, the interrupt registers keep their invariant and every interrupt file
  stays well-formed.
\<close>

definition iss_wf :: "'p iss \<Rightarrow> bool" where
  "iss_wf s \<longleftrightarrow> length (iss_regs s) = 32 \<and> length (iss_fp_regs s) = 32 \<and> csr_table_wf (iss_csrs s) \<and>
     clint_inv (csr_clint (iss_csrs s)) \<and> file_ok (ms_file (iss_icsrs_m s)) \<and> file_ok (ms_file (iss_icsrs_s s)) \<and>
     length (vs_bank (iss_icsrs_vs s)) = 8 \<and> (\<forall>b \<in> set (vs_bank (iss_icsrs_vs s)). file_ok (vb_file b))"

definition x0_zero :: "'p iss \<Rightarrow> bool" where
  "x0_zero s \<longleftrightarrow> iss_regs s ! reg_zero = 0"

text \<open>
  What the simulator relies on in its surroundings: they keep its state well-formed, and the
  quantum keeper does not touch the register that reads as zero.
\<close>

definition env_ok :: "'p iss_env \<Rightarrow> bool" where
  "env_ok env \<longleftrightarrow> preserves iss_wf (env_update_and_get_mtime env) \<and> preserves iss_wf (env_post_write_xtimecmp env) \<and>
     preserves iss_wf (env_execute_syscall env) \<and> preserves iss_wf (env_wait_wfi env) \<and>
     (\<forall>n. preserves iss_wf (env_quantum_inc env n)) \<and> preserves iss_wf (env_quantum_sync env) \<and>
     (\<forall>n. preserves x0_zero (env_quantum_inc env n)) \<and> preserves x0_zero (env_quantum_sync env)"

section \<open>Primitive updates\<close>

named_theorems wf_rules \<open>operations that preserve well-formedness\<close>

lemma bank_set:
  "(\<forall>b \<in> set bs. file_ok (vb_file b)) \<Longrightarrow> (g < length bs \<Longrightarrow> file_ok (vb_file b')) \<Longrightarrow>
     \<forall>b \<in> set (bs[g := b']). file_ok (vb_file b)"
  by (cases "g < length bs") (auto simp: list_update_beyond dest: subsetD [OF set_update_subset_insert])

interpretation wf: imsic_frame "iss_wf :: 'p iss \<Rightarrow> bool"
proof unfold_locales
  fix s :: "'p iss" and f g
  assume wf: "iss_wf s" and f: "file_ok (vb_file (vs_bank (iss_icsrs_vs s) ! g)) \<Longrightarrow> file_ok f"
  let ?bs = "vs_bank (iss_icsrs_vs s)"
  have "\<forall>b \<in> set (?bs[g := (?bs ! g)\<lparr>vb_file := f\<rparr>]). file_ok (vb_file b)"
    by (rule bank_set) (use wf f in \<open>auto simp: iss_wf_def\<close>)
  then show "iss_wf (s\<lparr>iss_icsrs_vs := (iss_icsrs_vs s)\<lparr>vs_bank := (vs_bank (iss_icsrs_vs s))[g := (vs_bank (iss_icsrs_vs s) ! g)\<lparr>vb_file := f\<rparr>]\<rparr>\<rparr>)"
    using wf by (simp add: iss_wf_def)
qed (auto simp: iss_wf_def csr_table_wf_def)

lemma wf_csr_op:
  "(\<And>t. csr_clint (f t) = csr_clint t) \<Longrightarrow> (\<And>t. csr_table_wf (f t) = csr_table_wf t) \<Longrightarrow> preserves iss_wf (csr_op f)"
  by (rule preserves_csr_op) (simp add: iss_wf_def)

lemma wf_modify:
  "(\<And>s. iss_regs (f s) = iss_regs s) \<Longrightarrow> (\<And>s. iss_fp_regs (f s) = iss_fp_regs s) \<Longrightarrow> (\<And>s. iss_csrs (f s) = iss_csrs s) \<Longrightarrow>
   (\<And>s. iss_icsrs_m (f s) = iss_icsrs_m s) \<Longrightarrow> (\<And>s. iss_icsrs_s (f s) = iss_icsrs_s s) \<Longrightarrow>
   (\<And>s. iss_icsrs_vs (f s) = iss_icsrs_vs s) \<Longrightarrow> preserves iss_wf (modify_op f)"
  by (rule preserves_modify) (simp add: iss_wf_def)

lemma wf_mem_op [wf_rules]: "preserves iss_wf (mem_op f)"
  by (rule preserves_mem_op) (simp add: iss_wf_def)

lemma wf_set_reg [wf_rules]: "preserves iss_wf (set_reg rd v)"
  unfolding set_reg_def by (rule preserves_modify) (simp add: iss_wf_def)

lemma wf_set_pc [wf_rules]: "preserves iss_wf (set_pc v)"
  unfolding set_pc_def by (rule wf_modify) simp_all

lemma wf_write_rd [wf_rules]: "preserves iss_wf (write_rd f)"
  unfolding write_rd_def by (intro preserves_rules wf_rules)

lemma wf_checks [wf_rules]:
  "preserves P RAISE_ILLEGAL_INSTRUCTION" "preserves P (REQUIRE_ISA X)" "preserves P VIRTUAL_INSTRUCTION"
  "preserves P exn \<Longrightarrow> preserves P (check_op c exn)" "preserves P (read_csr f)" "preserves P (ILLEGAL_IF c)"
  "preserves P (VIRTUAL_IF c)" "preserves P (VP_ISS_FP.trap_check_addr_alignment al b addr)"
  "preserves P vs_csr_icsrs_access_exception" "preserves P (validate_csr_counter_read_access_rights addr)"
  unfolding RAISE_ILLEGAL_INSTRUCTION_def REQUIRE_ISA_def VIRTUAL_INSTRUCTION_def check_op_def read_csr_def
    ILLEGAL_IF_def VIRTUAL_IF_def VP_ISS_FP.trap_check_addr_alignment_def vs_csr_icsrs_access_exception_def
    validate_csr_counter_read_access_rights_def Let_def
  by (intro preserves_rules; assumption?)+

lemma wf_access_checks [wf_rules]:
  "preserves P vstopei_access_check" "preserves P (vs_icsrs_access_check a)" "preserves P s_sei_injection_access_check"
  "preserves P (s_icsr_imsic_access_check a)" "preserves P stimecmp_access_check" "preserves P vs_clint_vti_access_check"
  "preserves P vstimecmp_access_check" "preserves P (is_invalid_csr_access a w)"
  unfolding vstopei_access_check_def vs_icsrs_access_check_def s_sei_injection_access_check_def
    s_icsr_imsic_access_check_def stimecmp_access_check_def vs_clint_vti_access_check_def vstimecmp_access_check_def
    is_invalid_csr_access_def
  by (intro preserves_rules wf_checks)+

lemmas wf_imsic [wf_rules] = wf.compute_rules wf.on_guest_switch wf.recalc_sgeip wf.update_interrupt_mode wf.claim
  wf.deliver_changes wf.notify_irq_taken wf.every_line

lemma wf_release [wf_rules]: "preserves iss_wf release_lr_sc_reservation"
  unfolding release_lr_sc_reservation_def by (intro preserves_rules wf_rules wf_modify) simp_all

section \<open>Control and status registers\<close>

lemma array_entry_clint: "(a, get, put) \<in> set (array_entries addr g upd n) \<Longrightarrow>
    (\<And>h t. csr_clint (upd h t) = csr_clint t) \<Longrightarrow> csr_clint (put v t) = csr_clint t"
  by (auto simp: array_entries_def)

lemma register_put_clint:
  "(a, get, put) \<in> set (scalar_registers @ array_registers) \<Longrightarrow> csr_clint (put v t) = csr_clint t"
proof (cases "(a, get, put) \<in> set scalar_registers")
  case True
  then show ?thesis unfolding scalar_registers_def by (elim set_Cons_elim) (simp_all add: entry_defs)
next
  case False
  assume "(a, get, put) \<in> set (scalar_registers @ array_registers)"
  with False show ?thesis
    unfolding array_registers_def by (auto elim!: array_entry_clint)
qed

lemma default_write32_wf:
  assumes "default_write32 addr v t = Inr t'" "csr_table_wf t"
  shows "csr_clint t' = csr_clint t \<and> csr_table_wf t'"
proof -
  obtain get put where p: "register_mapping addr = Some (get, put)" "t' = put v t"
    using assms(1) by (auto simp: default_write32_def split: option.splits)
  then have m: "(addr, get, put) \<in> set (scalar_registers @ array_registers)"
    by (auto simp: register_mapping_def dest: map_of_SomeD)
  then show ?thesis
    using register_put_clint [OF m] scalar_entry_law array_entry_law assms(2) p(2) by fastforce
qed

lemma wf_write_default [wf_rules]: "preserves iss_wf (write_default addr v)"
  unfolding write_default_def
  by (rule preserves_csr_res) (auto simp: iss_wf_def dest: default_write32_wf)

lemma wf_clint_write:
  "preserves iss_wf (csr_res (\<lambda>t. bind_res (clint_csr_write addr v (csr_clint t)) (\<lambda>c. Inr (t\<lparr>csr_clint := c\<rparr>))))"
  by (rule preserves_csr_res) (auto simp: iss_wf_def csr_table_wf_def intro: clint_csr_write_inv)

lemma wf_iprio_adjust [wf_rules]: "preserves iss_wf iprio_icsr_access_adjust"
  unfolding iprio_icsr_access_adjust_def
  by (rule preserves_modify) (simp add: iss_wf_def vs_update_dynamic_presence_def Let_def)

lemma wf_on_clint_csr_write [wf_rules]: "preserves iss_wf (on_clint_csr_write addr v)"
  unfolding on_clint_csr_write_def pendings_op_def by (intro preserves_rules wf_rules wf_clint_write)

lemma wf_on_xenvcfgh_write [wf_rules]: "preserves iss_wf on_xenvcfgh_write"
  unfolding on_xenvcfgh_write_def
  by (intro preserves_rules wf_rules wf_csr_op) (simp_all add: csr_table_wf_def)

lemma wf_claim_on_xtopei [wf_rules]: "preserves iss_wf (claim_topei_interrupt_on_xtopei l v b)"
  unfolding claim_topei_interrupt_on_xtopei_def by (intro preserves_rules wf_rules)

lemma wf_write_hviprio [wf_rules]: "preserves iss_wf (write_hviprio iids v)"
  unfolding write_hviprio_def
  by (rule preserves_update_res) (auto simp: iss_wf_def Let_def)

lemma ms_default_write32_ok:
  "file_ok (ms_file t) \<Longrightarrow> ms_default_write32 level addr v t = Inr t' \<Longrightarrow> file_ok (ms_file t')"
  by (auto simp: ms_default_write32_def split: option.splits icsr_ref.splits intro: file_write_ok)

lemma bank_write_ok: "file_ok (vb_file b) \<Longrightarrow> bank_write ref v b = Inr b' \<Longrightarrow> file_ok (vb_file b')"
  by (cases ref) (auto simp: bank_write_def intro: file_write_ok)

lemma vs_default_write32_cases:
  assumes "vs_default_write32 addr g v t = Inr t'"
  shows "vs_bank t' = vs_bank t \<or> (\<exists>ref n b. bank_write ref v (vs_bank t ! n) = Inr b \<and> vs_bank t' = (vs_bank t)[n := b])"
proof (cases "vs_register_mapping g addr")
  case (Some ref)
  show ?thesis
    using assms Some by (cases ref; fastforce simp: vs_default_write32_def)
qed (use assms in \<open>simp add: vs_default_write32_def\<close>)

lemma vs_default_write32_ok:
  assumes "\<forall>b \<in> set (vs_bank t). file_ok (vb_file b)" "vs_default_write32 addr g v t = Inr t'"
  shows "length (vs_bank t') = length (vs_bank t) \<and> (\<forall>b \<in> set (vs_bank t'). file_ok (vb_file b))"
  using vs_default_write32_cases [OF assms(2)]
proof (elim disjE exE conjE)
  fix ref n b
  assume b: "bank_write ref v (vs_bank t ! n) = Inr b" "vs_bank t' = (vs_bank t)[n := b]"
  have "\<forall>b \<in> set ((vs_bank t)[n := b]). file_ok (vb_file b)"
    using assms(1) b(1) by (intro bank_set) (auto intro: bank_write_ok)
  then show ?thesis using b(2) by simp
qed (use assms(1) in simp)

lemma wf_table_writes [wf_rules]:
  "preserves iss_wf (update_res (\<lambda>s. bind_res (ms_default_write32 l a v (iss_icsrs_m s)) (\<lambda>t. Inr (s\<lparr>iss_icsrs_m := t\<rparr>))))"
  "preserves iss_wf (update_res (\<lambda>s. bind_res (ms_default_write32 l a v (iss_icsrs_s s)) (\<lambda>t. Inr (s\<lparr>iss_icsrs_s := t\<rparr>))))"
  "preserves iss_wf (update_res (\<lambda>s. bind_res (vs_default_write32 a (g s) v (iss_icsrs_vs s)) (\<lambda>t. Inr (s\<lparr>iss_icsrs_vs := t\<rparr>))))"
  by (rule preserves_update_res; auto simp: iss_wf_def intro: ms_default_write32_ok dest: vs_default_write32_ok)+

lemma wf_write_parts:
  assumes "env_ok env"
  shows "write_status_csr a v = Some f \<Longrightarrow> preserves iss_wf f"
    "write_clint_csr a v = Some f \<Longrightarrow> preserves iss_wf f"
    "write_irq_csr a v r = Some f \<Longrightarrow> preserves iss_wf f"
    "write_counter_csr a v = Some f \<Longrightarrow> preserves iss_wf f"
    "write_config_csr env a v = Some f \<Longrightarrow> preserves iss_wf f"
    "write_indirect_csr a v = Some f \<Longrightarrow> preserves iss_wf f"
proof -
  show "write_status_csr a v = Some f \<Longrightarrow> preserves iss_wf f"
    by (auto simp: write_status_csr_def on_xtvec_csr_def on_xtvec_write_def split: if_splits
        intro!: preserves_rules wf_rules wf_csr_op simp: csr_table_wf_def)
  show "write_clint_csr a v = Some f \<Longrightarrow> preserves iss_wf f"
    by (auto simp: write_clint_csr_def split: if_splits intro!: preserves_rules wf_rules)
  show "write_irq_csr a v r = Some f \<Longrightarrow> preserves iss_wf f"
    by (auto simp: write_irq_csr_def split: if_splits intro!: preserves_rules wf_rules wf_csr_op simp: csr_table_wf_def)
  show "write_counter_csr a v = Some f \<Longrightarrow> preserves iss_wf f"
    by (auto simp: write_counter_csr_def split: if_splits intro!: preserves_rules wf_csr_op simp: csr_table_wf_def)
  show "write_config_csr env a v = Some f \<Longrightarrow> preserves iss_wf f"
    using assms
    by (auto simp: write_config_csr_def write_timecmp_def env_ok_def split: if_splits
        intro!: preserves_rules wf_rules wf_csr_op simp: csr_table_wf_def)
  show "write_indirect_csr a v = Some f \<Longrightarrow> preserves iss_wf f"
    by (auto simp: write_indirect_csr_def split: if_splits intro!: preserves_rules wf_rules wf_csr_op simp: csr_table_wf_def)
qed

lemma csr_orelse_Some: "csr_orelse x y = Some f \<longleftrightarrow> x = Some f \<or> x = None \<and> y = Some f"
  by (auto simp: csr_orelse_def split: option.splits)

lemma preserves_option_case:
  "(\<And>f. x = Some f \<Longrightarrow> preserves P f) \<Longrightarrow> preserves P g \<Longrightarrow> preserves P (case x of Some f \<Rightarrow> f | None \<Rightarrow> g)"
  by (simp split: option.split)

lemma wf_set_csr_value [wf_rules]: "env_ok env \<Longrightarrow> preserves iss_wf (set_csr_value env addr v r)"
  unfolding set_csr_value_def
  by (intro preserves_get preserves_option_case preserves_if preserves_seq wf_rules)
     (auto simp: csr_orelse_Some intro: wf_write_parts)

lemma wf_read_default: "preserves P (read_default addr)"
  unfolding read_default_def by (intro preserves_rules)

lemma wf_read_parts:
  assumes "env_ok env"
  shows "read_counter_csr env a = Some f \<Longrightarrow> preserves iss_wf f"
    "read_clint_csr a = Some g \<Longrightarrow> preserves iss_wf g"
    "read_irq_csr a = Some g \<Longrightarrow> preserves iss_wf g"
    "read_config_csr a = Some g \<Longrightarrow> preserves iss_wf g"
    "read_indirect_csr a = Some g \<Longrightarrow> preserves iss_wf g"
proof -
  show "read_counter_csr env a = Some f \<Longrightarrow> preserves iss_wf f"
    using assms
    by (auto simp: read_counter_csr_def update_time_def update_cycle_def compute_and_get_current_cycles_def env_ok_def
        split: if_splits intro!: preserves_rules wf_rules wf_csr_op simp: csr_table_wf_def)
  show "read_clint_csr a = Some g \<Longrightarrow> preserves iss_wf g"
    by (auto simp: read_clint_csr_def split: option.splits intro!: preserves_rules wf_rules)
  show "read_irq_csr a = Some g \<Longrightarrow> preserves iss_wf g"
    by (auto simp: read_irq_csr_def read_hviprio_def read_default_def split: if_splits intro!: preserves_rules wf_rules)
  show "read_config_csr a = Some g \<Longrightarrow> preserves iss_wf g"
    by (auto simp: read_config_csr_def split: if_splits intro!: preserves_rules wf_rules)
  show "read_indirect_csr a = Some g \<Longrightarrow> preserves iss_wf g"
    by (auto simp: read_indirect_csr_def read_default_def split: if_splits intro!: preserves_rules wf_rules)
qed

lemma wf_get_csr_value [wf_rules]: "env_ok env \<Longrightarrow> preserves iss_wf (get_csr_value env addr)"
  unfolding get_csr_value_def
  by (intro preserves_get preserves_option_case preserves_if preserves_seq wf_rules wf_read_default)
     (auto simp: csr_orelse_Some intro: wf_read_parts)

lemma wf_csr_instr [wf_rules]:
  "env_ok env \<Longrightarrow> preserves iss_wf (execute_csr_write env a rd v)"
  "env_ok env \<Longrightarrow> preserves iss_wf (execute_csr_modify env f a rd w)"
  unfolding execute_csr_write_def execute_csr_modify_def by (intro preserves_rules wf_rules; assumption)+

section \<open>Instructions\<close>

lemma wf_fp_helpers [wf_rules]:
  "preserves iss_wf fp_require_not_off" "preserves iss_wf fp_prepare_instr" "preserves iss_wf fp_set_dirty"
  "preserves iss_wf fp_update_exception_flags" "preserves iss_wf fp_finish_instr" "preserves iss_wf fp_setup_rm"
  unfolding fp_require_not_off_def fp_prepare_instr_def fp_finish_instr_def fp_setup_rm_def
    fp_update_exception_flags_def fp_set_dirty_def Let_def
  by (intro preserves_rules wf_rules wf_csr_op wf_modify; simp add: csr_table_wf_def)+

lemma fp_write_length [simp]:
  "length (fp_write_f32 i v r) = length r" "length (fp_write_f64 i w r) = length r"
  by (simp_all add: fp_write_f32_def fp_write_f64_def)

lemma wf_put [wf_rules]: "preserves iss_wf (put_f32 v)" "preserves iss_wf (put_f64 w)" "preserves iss_wf (put_rd v)"
  unfolding put_f32_def put_f64_def put_rd_def
  by (rule preserves_modify, simp add: iss_wf_def)+ (intro preserves_rules wf_rules)

lemma wf_sf_call [wf_rules]: "(\<And>v. preserves iss_wf (k v)) \<Longrightarrow> preserves iss_wf (sf_call f k)"
  unfolding sf_call_def by (intro preserves_rules wf_modify) simp_all

lemma wf_fp_shapes [wf_rules]:
  "(\<And>v. preserves iss_wf (k v)) \<Longrightarrow> preserves iss_wf (fp_rounding f k)"
  "(\<And>v. preserves iss_wf (k v)) \<Longrightarrow> preserves iss_wf (fp_move g k)"
  "preserves iss_wf (fp_compare h)" "preserves iss_wf (exec_fminmax_s h)" "preserves iss_wf (exec_fminmax_d h)"
  unfolding fp_rounding_def fp_move_def fp_compare_def exec_fminmax_s_def exec_fminmax_d_def
  by (intro preserves_rules wf_rules; assumption?)+

lemma wf_fp_memory [wf_rules]:
  "preserves iss_wf (exec_flw env)" "preserves iss_wf (exec_fsw env)" "preserves iss_wf (exec_fld env)" "preserves iss_wf (exec_fsd env)"
  unfolding exec_flw_def exec_fsw_def exec_fld_def exec_fsd_def by (intro preserves_rules wf_rules)+

lemma wf_rv32f [wf_rules]: "preserves iss_wf (exec_rv32f env op)"
  unfolding exec_rv32f_def Let_def by (cases op; simp only: rv32f.case; intro preserves_rules wf_rules)

lemma wf_rv32d [wf_rules]: "preserves iss_wf (exec_rv32d env op)"
  unfolding exec_rv32d_def Let_def by (cases op; simp only: rv32d.case; intro preserves_rules wf_rules)

lemma wf_integer_shapes [wf_rules]:
  "preserves iss_wf (branch c)" "preserves iss_wf (jump_and_link g)" "preserves iss_wf (load_rd n f)" "preserves iss_wf (store_rs2 n h)"
  unfolding branch_def jump_and_link_def load_rd_def store_rs2_def trap_check_pc_alignment_def Let_def
  by (intro preserves_rules wf_rules)+

lemma wf_ecall [wf_rules]: "env_ok env \<Longrightarrow> preserves iss_wf (exec_ecall env)"
  unfolding exec_ecall_def by (intro preserves_rules wf_rules) (simp add: env_ok_def)

lemma wf_rv32i [wf_rules]: "env_ok env \<Longrightarrow> preserves iss_wf (exec_rv32i env op)"
  unfolding exec_rv32i_def Let_def
  by (cases op; simp only: rv32i.case; intro preserves_rules wf_rules wf_modify; simp)

lemma wf_zicsr [wf_rules]: "env_ok env \<Longrightarrow> preserves iss_wf (exec_zicsr env op)"
  unfolding exec_zicsr_def Let_def by (cases op; simp only: zicsr.case; intro preserves_rules wf_rules; simp)

lemma wf_rv32m [wf_rules]: "preserves iss_wf (exec_rv32m op)"
  unfolding exec_rv32m_def by (intro preserves_rules wf_rules)

lemma wf_catch_trap [wf_rules]: "preserves P g \<Longrightarrow> preserves P (catch_trap f g)"
  by (auto simp: preserves_def catch_trap_def split: prod.splits sum.splits sim_exn.splits)

lemma wf_rv32a [wf_rules]: "preserves iss_wf (exec_rv32a env op)"
  unfolding exec_rv32a_def exec_lr_w_def exec_sc_w_def execute_amo_def
  by (intro preserves_rules wf_rules wf_modify) simp_all

section \<open>Traps\<close>

lemma wf_swap [wf_rules]: "preserves iss_wf (stsp_swap_sp_on_mode_change b d)"
  unfolding stsp_swap_sp_on_mode_change_def swap_stack_pointer_def
  by (intro preserves_rules preserves_modify) (simp_all add: iss_wf_def csr_table_wf_def)

lemma wf_return [wf_rules]: "preserves iss_wf (return_from_trap_handler l)"
  unfolding return_from_trap_handler_def
  by (intro preserves_rules wf_rules preserves_modify)
     (simp_all add: return_m_def return_vs_def return_s_def Let_def iss_wf_def csr_table_wf_def)

lemma wf_jump_to_trap_vector [wf_rules]: "preserves iss_wf (jump_to_trap_vector l)"
  unfolding jump_to_trap_vector_def verify_m_trap_vector_def set_pending_ivt_def Let_def
  by (intro preserves_rules wf_rules wf_modify) simp_all

lemma wf_trap_entry [wf_rules]:
  "preserves iss_wf (trap_entry_m l)" "preserves iss_wf (trap_entry_s l)" "preserves iss_wf (trap_entry_vs l)"
  unfolding trap_entry_m_def trap_entry_s_def trap_entry_vs_def Let_def
  by (intro preserves_rules wf_csr_op; simp add: csr_table_wf_def)+

lemma wf_switch_to_trap_handler [wf_rules]: "preserves iss_wf (switch_to_trap_handler l)"
  unfolding switch_to_trap_handler_def by (intro preserves_rules wf_rules wf_modify) simp_all

lemma wf_csr_value: "(\<And>t v. csr_clint (f v t) = csr_clint t \<and> csr_table_wf (f v t) = csr_table_wf t) \<Longrightarrow>
    preserves iss_wf (csr_res (\<lambda>t. bind_res r (\<lambda>v. Inr (f v t))))"
  by (rule preserves_csr_res) (auto simp: iss_wf_def)

lemma wf_take_trap [wf_rules]: "preserves iss_wf (take_trap r v h)"
  unfolding take_trap_def prepare_trap_def Let_def
  by (intro preserves_rules wf_rules wf_csr_value wf_csr_op wf_modify) (simp_all add: csr_table_wf_def)

lemma wf_priv [wf_rules]: "env_ok env \<Longrightarrow> preserves iss_wf (exec_priv env op)"
  unfolding exec_priv_def exec_wfi_def exec_sret_def
  by (cases op; simp only: priv_op.case; intro preserves_rules wf_rules; simp add: env_ok_def)

lemma wf_hv [wf_rules]: "preserves iss_wf (exec_hv env op)"
proof -
  have "preserves iss_wf (hv_load n f)" "preserves iss_wf (hv_store n g)" for n f g
    unfolding hv_load_def hv_store_def hs_inst_check_access_def Let_def
    by (intro preserves_rules wf_rules)+
  then show ?thesis
    unfolding exec_hv_def Let_def by (cases op; simp)
qed

section \<open>Steps\<close>

lemma wf_exec_step [wf_rules]:
  assumes "env_ok env"
  shows "preserves iss_wf (exec_step env)"
proof -
  have "preserves iss_wf (fetch_instr env)"
  proof (unfold preserves_def, intro allI impI)
    fix s :: "'a iss"
    let ?m = "mem_op (\<lambda>core. load_instr (env_pt env) core (ucast (iss_pc s))) s"
    assume "iss_wf s"
    then have "iss_wf (snd ?m)" by (rule preserves_snd [OF wf_mem_op])
    then show "iss_wf (snd (fetch_instr env s))"
      by (auto simp: fetch_instr_def iss_wf_def split: prod.splits sum.splits sim_exn.splits)
  qed
  moreover have "preserves iss_wf decode_step"
    unfolding decode_step_def by (intro preserves_rules wf_rules wf_modify) simp_all
  moreover have "preserves iss_wf (exec_opcode env op)" for op
    unfolding exec_opcode_def using assms by (cases op) (simp_all add: wf_rules preserves_rules)
  ultimately show ?thesis
    unfolding exec_step_def by (intro preserves_rules) simp_all
qed

lemma wf_prepare_interrupt [wf_rules]: "preserves iss_wf prepare_interrupt"
  unfolding prepare_interrupt_def recalc_xtopi_def pendings_op_def
  by (intro preserves_rules wf_rules wf_csr_op) (simp_all add: csr_table_wf_def)

lemma wf_process_pending_ivt [wf_rules]: "preserves iss_wf (process_pending_ivt env)"
  unfolding process_pending_ivt_def by (intro preserves_rules wf_rules wf_modify) simp_all

lemma wf_run_step_body: "env_ok env \<Longrightarrow> preserves iss_wf (run_step_body env)"
  unfolding run_step_body_def by (intro preserves_rules wf_rules wf_modify) simp_all

lemma wf_performance [wf_rules]: "env_ok env \<Longrightarrow> preserves iss_wf (performance_and_sync_update env op)"
  unfolding performance_and_sync_update_def count_reservation_def Let_def
  by (intro preserves_rules wf_rules wf_modify wf_csr_op) (simp_all add: env_ok_def csr_table_wf_def)

lemma x0_performance: "env_ok env \<Longrightarrow> preserves x0_zero (performance_and_sync_update env op)"
  unfolding performance_and_sync_update_def count_reservation_def release_lr_sc_reservation_def Let_def
  by (intro preserves_rules preserves_modify preserves_csr_op preserves_mem_op) (simp_all add: env_ok_def x0_zero_def)

lemma wf_run_step_end:
  assumes "env_ok env" "iss_wf s" "run_step_end env s = (r, s')"
  shows "iss_wf s' \<and> x0_zero s'"
proof -
  let ?s = "s\<lparr>iss_regs := (iss_regs s)[reg_zero := 0]\<rparr>"
  let ?t = "if iss_shall_exit ?s then ?s\<lparr>iss_status := Terminated\<rparr> else ?s"
  have t: "iss_wf ?t" "x0_zero ?t" using assms(2) by (simp_all add: iss_wf_def x0_zero_def reg_zero_def)
  have "performance_and_sync_update env (iss_op ?t) ?t = (r, s')"
    using assms(3) by (simp add: run_step_end_def iss_op_defs)
  then show ?thesis
    using t preservesD [OF wf_performance [OF assms(1)]] preservesD [OF x0_performance [OF assms(1)]] by blast
qed

lemma breakpoint_x0:
  assumes "run_step_body env s = (Inr True, s')"
  shows "x0_zero s'"
proof -
  have p: "preserves x0_zero (process_pending_ivt env)"
    unfolding process_pending_ivt_def set_pc_def
    by (intro preserves_rules preserves_modify preserves_mem_op) (simp_all add: x0_zero_def)
  have "x0_zero s" "\<exists>t. process_pending_ivt env s = (Inr (), t) \<and> s' = t\<lparr>iss_status := HitBreakpoint\<rparr>"
    using assms
    by (auto simp: run_step_body_def iss_op_defs x0_zero_def xreg_def reg_zero_def split: prod.splits sum.splits if_splits)
  then show ?thesis
    using preservesD [OF p] by (auto simp: x0_zero_def)
qed

lemma run_step_wf:
  assumes "env_ok env" "iss_wf s"
  shows "iss_wf (snd (run_step env s)) \<and> (fst (run_step env s) = Inr () \<longrightarrow> x0_zero (snd (run_step env s)))"
proof -
  obtain r s' where b: "run_step_body env s = (r, s')" by force
  have wf: "iss_wf s'" using preservesD [OF wf_run_step_body] assms b by blast
  have e: "iss_wf (snd (run_step_end env t)) \<and> x0_zero (snd (run_step_end env t))" if "iss_wf t" for t
    using wf_run_step_end [OF assms(1) that] by (metis prod.collapse)
  have tr: "iss_wf (snd (seq_op (take_trap i v h) (run_step_end env) s')) \<and>
      (fst (seq_op (take_trap i v h) (run_step_end env) s') = Inr () \<longrightarrow> x0_zero (snd (seq_op (take_trap i v h) (run_step_end env) s')))"
    for i v h
    using preserves_snd [OF wf_take_trap wf, of i v h] e
    by (auto simp: seq_op_def bind_op_def split: prod.splits sum.splits)
  show ?thesis
    using b wf e [OF wf] tr breakpoint_x0 [of env s s']
    by (auto simp: run_step_def split: sum.splits sim_exn.splits bool.splits)
qed

lemma run_loop_wf:
  assumes "run_loop env s = Some y"
  shows "env_ok env \<longrightarrow> iss_wf s \<longrightarrow> iss_wf (snd y)"
proof (rule run_loop.raw_induct [OF _ assms])
  fix f :: "'a iss_env \<Rightarrow> 'a iss \<Rightarrow> (unit res \<times> 'a iss) option" and env s y
  assume IH: "\<And>env s y. f env s = Some y \<Longrightarrow> env_ok env \<longrightarrow> iss_wf s \<longrightarrow> iss_wf (snd y)"
    and y: "(case run_step env s of (Inl e, s') \<Rightarrow> Some (Inl e, s')
       | (Inr _, s') \<Rightarrow> if iss_status s' = Runnable then f env s' else Some (env_quantum_sync env s')) = Some y"
  show "env_ok env \<longrightarrow> iss_wf s \<longrightarrow> iss_wf (snd y)"
  proof (intro impI)
    assume env: "env_ok env" and s: "iss_wf s"
    obtain r s' where r: "run_step env s = (r, s')" by force
    have s': "iss_wf s'" using run_step_wf [OF env s] r by simp
    have "iss_wf (snd (env_quantum_sync env s'))" using env s' by (simp add: env_ok_def preserves_snd)
    then show "iss_wf (snd y)"
      using y s' env IH unfolding r by (cases r) (auto split: if_splits)
  qed
qed

text \<open>
  C1: every step of the simulator keeps its state well-formed, whatever the instruction, the
  trap or the interrupt it takes and whether or not it stops with an error: both register files have
  32 registers, every array of control and status registers has its declared length, the pending and
  delegation registers of the interrupt controller keep their invariant, and every interrupt file its
  pending and enable arrays and its threshold stack. After a step that succeeds register x0 is zero.
  The state in which the loop of \<^verbatim>\<open>run\<close> stops is well-formed too.
\<close>

theorem run_step_keeps_state_well_formed:
  assumes "env_ok env" "iss_wf s"
  shows "iss_wf (snd (run_step env s)) \<and> (fst (run_step env s) = Inr () \<longrightarrow> xreg (snd (run_step env s)) 0 = 0) \<and>
     (\<forall>r s'. iss_run env s = Some (r, s') \<longrightarrow> iss_wf s')"
  using run_step_wf [OF assms] assms
  by (auto simp: iss_run_def xreg_def x0_zero_def reg_zero_def dest: run_loop_wf)

lemma example_env_ok: "env_ok (example_env sf)"
  by (simp add: env_ok_def example_env_def preserves_rules)

lemma ISS_init_wf: "iss_wf (ISS_init hart wid m)"
proof -
  have "csr_table_wf (csr_table_init\<lparr>csr_mhartid := hart, csr_misa := v\<rparr>)" "clint_inv (csr_clint csr_table_init)" for v
    using clint_inv_init by (simp_all add: csr_table_wf_def csr_table_init_def)
  then show ?thesis
    using file_ok_init by (simp add: iss_wf_def ISS_init_def icsr_ms_table_init_def icsr_vs_table_init_def MAX_GUEST_def)
qed

theorem run_step_keeps_state_well_formed_witness:
  "\<forall>sf. iss_wf (snd (run_step (example_env sf) (ISS_init 0 False example_cmi)))"
proof
  fix sf
  show "iss_wf (snd (run_step (example_env sf) (ISS_init 0 False example_cmi)))"
    using run_step_keeps_state_well_formed [OF example_env_ok ISS_init_wf] by blast
qed

end
