(* ===== verification/VP_Regmap.thy ===== *)
theory VP_Regmap
  imports VP_Ops VP_Bus
begin

text \<open>
  Memory-mapped registers of the peripherals (\<^verbatim>\<open>util/memory_map.h\<close>): a \<^verbatim>\<open>RegisterRange\<close> is an array of
  bytes at an address with callbacks before and after an access, \<^verbatim>\<open>IntegerView\<close> and \<^verbatim>\<open>ArrayView\<close> read
  and write it as integers, and \<^verbatim>\<open>route\<close> gives a transaction to the first range that contains its
  address. The bytes of a range are a part of the state of the peripheral, which the range
  accesses with \<open>rr_get\<close> and \<open>rr_put\<close>; the callbacks are operations on this state. A callback gets the
  local address and the size of the access; the pointer \<^verbatim>\<open>var_addr\<close> of the source is the place of
  the local address in the bytes. A callback that is not set does nothing.

  The locale \<open>register_ranges\<close> is the contract of a peripheral built from ranges: when its callbacks
  keep an invariant, so does every transaction, and the peripheral is a target for the bus.
\<close>

section \<open>Integers in a range\<close>

definition load32 :: "u8 list \<Rightarrow> nat \<Rightarrow> u32 res" where
  "load32 m off = bind_res (memcpy_from m off 4) (\<lambda>bs. Inr (ucast (of_le_bytes bs)))"

definition store32 :: "nat \<Rightarrow> u32 \<Rightarrow> u8 list \<Rightarrow> u8 list res" where
  "store32 off v m = memcpy_to m off (le_bytes 4 (ucast v))"

definition load64 :: "u8 list \<Rightarrow> nat \<Rightarrow> u64 res" where
  "load64 m off = bind_res (memcpy_from m off 8) (\<lambda>bs. Inr (of_le_bytes bs))"

definition store64 :: "nat \<Rightarrow> u64 \<Rightarrow> u8 list \<Rightarrow> u8 list res" where
  "store64 off v m = memcpy_to m off (le_bytes 8 v)"

text \<open>\<^verbatim>\<open>operator[]\<close> and \<^verbatim>\<open>at\<close> of an \<^verbatim>\<open>ArrayView\<close>; an \<^verbatim>\<open>IntegerView\<close> is the element 0.\<close>

definition view32 :: "u8 list \<Rightarrow> nat \<Rightarrow> u32 res" where
  "view32 m idx = assert_that (idx < length m div 4) (load32 m (4 * idx))"

definition set_view32 :: "nat \<Rightarrow> u32 \<Rightarrow> u8 list \<Rightarrow> u8 list res" where
  "set_view32 idx v m = assert_that (idx < length m div 4) (store32 (4 * idx) v m)"

definition view64 :: "u8 list \<Rightarrow> nat \<Rightarrow> u64 res" where
  "view64 m idx = assert_that (idx < length m div 8) (load64 m (8 * idx))"

definition out_of_range :: sim_exn where
  "out_of_range = RuntimeError ''ArrayView index out-of-range''"

definition view_at32 :: "u8 list \<Rightarrow> nat \<Rightarrow> u32 res" where
  "view_at32 m idx = (if idx \<ge> length m div 4 then Inl out_of_range else load32 m (4 * idx))"

definition view_at64 :: "u8 list \<Rightarrow> nat \<Rightarrow> u64 res" where
  "view_at64 m idx = (if idx \<ge> length m div 8 then Inl out_of_range else load64 m (8 * idx))"

lemma load32_length: "load32 m off = Inr v \<Longrightarrow> off + 4 \<le> length m"
  by (auto simp: load32_def memcpy_from_def split: if_splits)

lemma store32_length: "store32 off v m = Inr m' \<Longrightarrow> length m' = length m"
  by (auto simp: store32_def intro: memcpy_to_length)

lemma store64_length: "store64 off v m = Inr m' \<Longrightarrow> length m' = length m"
  by (auto simp: store64_def intro: memcpy_to_length)

lemma set_view32_length: "set_view32 idx v m = Inr m' \<Longrightarrow> length m' = length m"
  by (auto simp: set_view32_def intro: store32_length)

lemma load32_total: "off + 4 \<le> length m \<Longrightarrow> \<exists>v. load32 m off = Inr v"
  by (simp add: load32_def memcpy_from_def)

lemma store32_total: "off + 4 \<le> length m \<Longrightarrow> \<exists>m'. store32 off v m = Inr m'"
  by (simp add: store32_def memcpy_to_def)

lemma view32_total: "4 * idx + 4 \<le> length m \<Longrightarrow> \<exists>v. view32 m idx = Inr v"
  by (simp add: view32_def load32_total less_eq_div_iff_mult_less_eq Suc_le_eq [symmetric])

lemma set_view32_total: "4 * idx + 4 \<le> length m \<Longrightarrow> \<exists>m'. set_view32 idx v m = Inr m'"
  using store32_total [of "4 * idx" m v]
  by (auto simp: set_view32_def less_eq_div_iff_mult_less_eq Suc_le_eq [symmetric])

lemma of_le_bytes_zeros [simp]: "of_le_bytes (replicate n 0) = 0"
  by (induction n) simp_all

lemma ucast_of_le_bytes_32: "ucast (of_le_bytes (le_bytes 4 (ucast (v :: u32)))) = v"
  unfolding of_le_bytes_le_bytes by (rule bit_word_eqI) (simp add: bit_simps)

lemma load32_store32: "store32 off v m = Inr m' \<Longrightarrow> load32 m' off = Inr v"
  using memcpy_from_to_same [of m off "le_bytes 4 (ucast v)" m'] ucast_of_le_bytes_32 [of v]
  by (simp add: store32_def load32_def del: le_bytes_numeral)

lemma load32_store32_disjoint:
  "store32 off v m = Inr m' \<Longrightarrow> off' + 4 \<le> off \<or> off + 4 \<le> off' \<Longrightarrow> load32 m' off' = load32 m off'"
  using memcpy_from_to_disjoint [of m off "le_bytes 4 (ucast v)" m' off' 4]
  by (simp add: store32_def load32_def del: le_bytes_numeral)

lemma view32_set_view32:
  "set_view32 i v m = Inr m' \<Longrightarrow> view32 m' j = (if j = i then Inr v else view32 m j)"
proof -
  assume a: "set_view32 i v m = Inr m'"
  then have s: "store32 (4 * i) v m = Inr m'" and i: "i < length m div 4" by (auto simp: set_view32_def)
  have l: "length m' = length m" using a by (rule set_view32_length)
  show ?thesis
  proof (cases "j = i")
    case True
    then show ?thesis using load32_store32 [OF s] i l by (simp add: view32_def)
  next
    case False
    then have "4 * j + 4 \<le> 4 * i \<or> 4 * i + 4 \<le> 4 * j" by arith
    from load32_store32_disjoint [OF s this] False show ?thesis by (simp add: view32_def l)
  qed
qed

section \<open>RegisterRange\<close>

record 's RegisterRange =
  rr_start :: u64
  rr_end :: u64
  rr_get :: "'s \<Rightarrow> u8 list"
  rr_put :: "u8 list \<Rightarrow> 's \<Rightarrow> 's"
  rr_readonly :: bool
  rr_alignment :: u64
  rr_pre_write :: "u64 \<Rightarrow> nat \<Rightarrow> ('s, bool) op"
  rr_post_write :: "u64 \<Rightarrow> nat \<Rightarrow> ('s, unit) op"
  rr_pre_read :: "u64 \<Rightarrow> nat \<Rightarrow> ('s, bool) op"
  rr_post_read :: "u64 \<Rightarrow> nat \<Rightarrow> ('s, unit) op"

text \<open>
  The constructor, with its two asserts; the bytes, all zero, are a part of the initial state of
  the peripheral.
\<close>

definition make_RegisterRange :: "u64 \<Rightarrow> u64 \<Rightarrow> ('s \<Rightarrow> u8 list) \<Rightarrow> (u8 list \<Rightarrow> 's \<Rightarrow> 's) \<Rightarrow> 's RegisterRange res" where
  "make_RegisterRange start sz get put =
     assert_that (sz > 0) (assert_that (start + sz - 1 \<ge> start) (Inr
       \<lparr>rr_start = start, rr_end = start + sz - 1, rr_get = get, rr_put = put, rr_readonly = False, rr_alignment = 1,
        rr_pre_write = \<lambda>_ _. ret_op True, rr_post_write = \<lambda>_ _. ret_op (),
        rr_pre_read = \<lambda>_ _. ret_op True, rr_post_read = \<lambda>_ _. ret_op ()\<rparr>))"

definition rr_contains :: "'s RegisterRange \<Rightarrow> u64 \<Rightarrow> bool" where
  "rr_contains r addr \<longleftrightarrow> addr \<ge> rr_start r \<and> addr \<le> rr_end r"

definition to_local :: "'s RegisterRange \<Rightarrow> u64 \<Rightarrow> u64" where
  "to_local r addr = addr - rr_start r"

definition rr_in_bounds :: "'s RegisterRange \<Rightarrow> u64 \<Rightarrow> nat \<Rightarrow> ('s, unit) op" where
  "rr_in_bounds r addr len = seq_op (assert_op (rr_contains r addr))
     (get_op (\<lambda>s. to_local r addr + of_nat len \<le> of_nat (length (rr_get r s))) assert_op)"

definition rr_write :: "'s RegisterRange \<Rightarrow> u64 \<Rightarrow> u8 list \<Rightarrow> ('s, unit) op" where
  "rr_write r addr src = (let local_addr = to_local r addr; len = length src in
     seq_op (rr_in_bounds r addr len) (
     bind_op (rr_pre_write r local_addr len) (\<lambda>go. when_op go (
       seq_op (update_res (\<lambda>s. bind_res (memcpy_to (rr_get r s) (unat local_addr) src) (\<lambda>m. Inr (rr_put r m s))))
         (rr_post_write r local_addr len)))))"

definition rr_read :: "'s RegisterRange \<Rightarrow> u64 \<Rightarrow> u8 list \<Rightarrow> ('s, u8 list) op" where
  "rr_read r addr dst = (let local_addr = to_local r addr; len = length dst in
     seq_op (rr_in_bounds r addr len) (
     bind_op (rr_pre_read r local_addr len) (\<lambda>go.
       if \<not> go then ret_op dst
       else bind_op (get_op (rr_get r) (\<lambda>m. lift_op (memcpy_from m (unat local_addr) len))) (\<lambda>bs.
         seq_op (rr_post_read r local_addr len) (ret_op bs)))))"

definition ensure_failed_exn :: sim_exn where
  "ensure_failed_exn = RuntimeError ''runtime assertion failed''"

definition ensure_op :: "bool \<Rightarrow> ('s, unit) op" where
  "ensure_op b = (if b then ret_op () else fail_op ensure_failed_exn)"

definition rr_process :: "'s RegisterRange \<Rightarrow> payload \<Rightarrow> ('s, payload) op" where
  "rr_process r t = (let addr = tp_address t; len = length (tp_data t) in
     seq_op (ensure_op (addr mod rr_alignment r = 0 \<and> (of_nat len :: u64) mod rr_alignment r = 0)) (
     case tp_command t of
       TLM_READ_COMMAND \<Rightarrow> bind_op (rr_read r addr (tp_data t)) (\<lambda>bs. ret_op (t\<lparr>tp_data := bs\<rparr>))
     | TLM_WRITE_COMMAND \<Rightarrow>
         seq_op (ensure_op (\<not> rr_readonly r)) (seq_op (rr_write r addr (tp_data t)) (ret_op t))
     | _ \<Rightarrow> fail_op (RuntimeError ''unsupported TLM command'')))"

fun route :: "string \<Rightarrow> 's RegisterRange list \<Rightarrow> payload \<Rightarrow> ('s, payload) op" where
  "route name [] t = fail_op (RuntimeError (name @ '' unable to route address''))"
| "route name (r # rs) t = (if rr_contains r (tp_address t) then rr_process r t else route name rs t)"

text \<open>A peripheral as a target of the bus; what remains of its state when it throws is not observed.\<close>

definition op_target :: "(payload \<Rightarrow> ('s, payload) op) \<Rightarrow> 's \<Rightarrow> payload \<Rightarrow> ('s \<times> payload) res" where
  "op_target f s t = (case f t s of (Inl e, s') \<Rightarrow> Inl e | (Inr t', s') \<Rightarrow> Inr (s', t'))"

section \<open>The contract of the callbacks\<close>

locale register_ranges =
  fixes name :: string and ranges :: "'s RegisterRange list" and inv :: "'s \<Rightarrow> bool"
  assumes pre_write_inv: "r \<in> set ranges \<Longrightarrow> inv s \<Longrightarrow> rr_pre_write r a n s = (Inr b, s') \<Longrightarrow> inv s'"
    and write_inv: "r \<in> set ranges \<Longrightarrow> inv s \<Longrightarrow> memcpy_to (rr_get r s) (unat a) src = Inr m \<Longrightarrow>
      rr_post_write r a (length src) (rr_put r m s) = (Inr (), s') \<Longrightarrow> inv s'"
    and pre_read_inv: "r \<in> set ranges \<Longrightarrow> inv s \<Longrightarrow> rr_pre_read r a n s = (Inr b, s') \<Longrightarrow> inv s'"
    and post_read_inv: "r \<in> set ranges \<Longrightarrow> inv s \<Longrightarrow> rr_post_read r a n s = (Inr (), s') \<Longrightarrow> inv s'"
begin

lemma rr_write_inv:
  assumes "r \<in> set ranges" "inv s" "rr_write r addr src s = (Inr (), s')"
  shows "inv s'"
  using assms(3) pre_write_inv [OF assms(1,2)] write_inv [OF assms(1)]
  by (auto simp: rr_write_def rr_in_bounds_def op_run Let_def split: if_splits) blast

lemma rr_read_inv:
  assumes "r \<in> set ranges" "inv s" "rr_read r addr dst s = (Inr bs, s')"
  shows "inv s'"
  using assms(3) pre_read_inv [OF assms(1,2)] post_read_inv [OF assms(1)]
  by (auto simp: rr_read_def rr_in_bounds_def op_run Let_def split: if_splits) blast

lemma rr_process_inv:
  assumes "r \<in> set ranges" "inv s" "rr_process r t s = (Inr t', s')"
  shows "inv s'"
  using assms(3) rr_write_inv [OF assms(1,2)] rr_read_inv [OF assms(1,2)]
  by (auto simp: rr_process_def ensure_op_def op_run Let_def split: tlm_command.splits if_splits)

lemma route_inv: "set rs \<subseteq> set ranges \<Longrightarrow> inv s \<Longrightarrow> route nm rs t s = (Inr t', s') \<Longrightarrow> inv s'"
  by (induction rs) (auto simp: op_run split: if_splits intro: rr_process_inv)

end

lemma rr_read_length: "rr_read r addr dst s = (Inr bs, s') \<Longrightarrow> length bs = length dst"
  by (auto simp: rr_read_def rr_in_bounds_def op_run Let_def split: if_splits dest: memcpy_from_length)

lemma rr_process_shape:
  "rr_process r t s = (Inr t', s') \<Longrightarrow> tp_command t' = tp_command t \<and> length (tp_data t') = length (tp_data t)"
  by (auto simp: rr_process_def ensure_op_def op_run Let_def split: tlm_command.splits if_splits dest: rr_read_length)

lemma route_shape:
  "route nm rs t s = (Inr t', s') \<Longrightarrow> tp_command t' = tp_command t \<and> length (tp_data t') = length (tp_data t)"
  by (induction rs) (auto simp: op_run split: if_splits dest: rr_process_shape)

sublocale register_ranges \<subseteq> target: tlm_target "op_target (route name ranges)" inv
  by unfold_locales (auto simp: op_target_def split: prod.splits sum.splits dest: route_inv [OF subset_refl] route_shape)

end
