(* ===== verification/VP_Aplic.thy ===== *)
theory VP_Aplic
  imports VP_Regmap
begin

text \<open>
  The advanced platform-level interrupt controller (\<^verbatim>\<open>platform/common/aplic.h\<close>): for each interrupt
  domain the registers the bus reaches, with the callbacks that give them their meaning, the pending
  and enable bits of the sources, the gateway through which the devices raise interrupts, the choice of the
  next interrupt and its message to a hart.

  A register range of domain \<open>d\<close> is its bytes \<open>ap_mem s d r\<close>, \<open>r\<close> the name of the member of \<^verbatim>\<open>APLIC\<close>.
  The event \<^verbatim>\<open>e_run\<close> is the flag \<open>ap_e_run\<close>, set by \<^verbatim>\<open>notify\<close>: several notifications before the
  thread \<^verbatim>\<open>run\<close> resumes are one, as documented for \<^verbatim>\<open>sc_event\<close>. What the initiator socket is bound to
  is the argument \<open>np_isock\<close> of the operations, with its state \<open>'e\<close> in \<open>ap_env\<close>; the template parameters
  are the other fields of \<open>aplic_params\<close>. The response status of a message is not read by anyone. The
  callbacks that are common to the domains act on the machine domain only, as in the source.
\<close>

section \<open>Registers\<close>

datatype aplic_reg =
    Reg_domaincfg | Reg_sourcecfg | Reg_mmsiaddrcfg | Reg_mmsiaddrcfgh | Reg_smsiaddrcfg | Reg_smsiaddrcfgh
  | Reg_setip | Reg_setipnum | Reg_in_clrip | Reg_clripnum | Reg_setie | Reg_setienum | Reg_clrie | Reg_clrienum
  | Reg_setipnum_le | Reg_setipnum_be | Reg_genmsi | Reg_target

definition IMSIC_HART0_BASE :: u32 where "IMSIC_HART0_BASE = 0x31000000"
definition IMSIC_HART0_M_IFILE :: u32 where "IMSIC_HART0_M_IFILE = IMSIC_HART0_BASE + 0"
definition IMSIC_HART0_S_IFILE :: u32 where "IMSIC_HART0_S_IFILE = IMSIC_HART0_BASE + 4096"

definition APLIC_DOMAIN_OFFSET :: u64 where "APLIC_DOMAIN_OFFSET = 0x10000"
definition APLIC_M_DOMAIN :: nat where "APLIC_M_DOMAIN = 0"
definition APLIC_S_DOMAIN :: nat where "APLIC_S_DOMAIN = 1"
definition APLIC_PAGE_BITS :: nat where "APLIC_PAGE_BITS = 12"

definition aplic_offset :: "aplic_reg \<Rightarrow> u64" where
  "aplic_offset r = (case r of
       Reg_domaincfg \<Rightarrow> 0x0000 | Reg_sourcecfg \<Rightarrow> 0x0004
     | Reg_mmsiaddrcfg \<Rightarrow> 0x1BC0 | Reg_mmsiaddrcfgh \<Rightarrow> 0x1BC4 | Reg_smsiaddrcfg \<Rightarrow> 0x1BC8 | Reg_smsiaddrcfgh \<Rightarrow> 0x1BCC
     | Reg_setip \<Rightarrow> 0x1C00 | Reg_setipnum \<Rightarrow> 0x1CDC | Reg_in_clrip \<Rightarrow> 0x1D00 | Reg_clripnum \<Rightarrow> 0x1DDC
     | Reg_setie \<Rightarrow> 0x1E00 | Reg_setienum \<Rightarrow> 0x1EDC | Reg_clrie \<Rightarrow> 0x1F00 | Reg_clrienum \<Rightarrow> 0x1FDC
     | Reg_setipnum_le \<Rightarrow> 0x2000 | Reg_setipnum_be \<Rightarrow> 0x2004 | Reg_genmsi \<Rightarrow> 0x3000 | Reg_target \<Rightarrow> 0x3004)"

text \<open>The fields of the registers, each with its \<^verbatim>\<open>_BIT\<close> and its \<^verbatim>\<open>_MASK\<close>.\<close>

definition DOMAINCFG_BE_BIT :: nat where "DOMAINCFG_BE_BIT = 0"
definition DOMAINCFG_DM_BIT :: nat where "DOMAINCFG_DM_BIT = 2"
definition DOMAINCFG_IE_BIT :: nat where "DOMAINCFG_IE_BIT = 8"
definition DOMAINCFG_RO80_BIT :: nat where "DOMAINCFG_RO80_BIT = 24"
definition SOURCECFG_D_BIT :: nat where "SOURCECFG_D_BIT = 10"
definition TARGETS_MSIDELIV_BIT :: nat where "TARGETS_MSIDELIV_BIT = 11"
definition GENMSI_BUSY_BIT :: nat where "GENMSI_BUSY_BIT = 12"

definition aplic_bit :: "nat \<Rightarrow> u32" where "aplic_bit n = push_bit n 1"

definition domaincfg_dm :: "u32 \<Rightarrow> u32" where "domaincfg_dm v = drop_bit DOMAINCFG_DM_BIT v AND 0x1"
definition domaincfg_ie :: "u32 \<Rightarrow> u32" where "domaincfg_ie v = drop_bit DOMAINCFG_IE_BIT v AND 0x1"
definition sourcecfg_childind :: "u32 \<Rightarrow> u32" where "sourcecfg_childind v = drop_bit 0 v AND 0x3FF"
definition sourcecfg_sm :: "u32 \<Rightarrow> u32" where "sourcecfg_sm v = drop_bit 0 v AND 0x7"
definition sourcecfg_d :: "u32 \<Rightarrow> u32" where "sourcecfg_d v = drop_bit SOURCECFG_D_BIT v AND 0x1"
definition mmsiaddrcfgh_hippn :: "u32 \<Rightarrow> u32" where "mmsiaddrcfgh_hippn v = drop_bit 0 v AND 0xFFF"
definition mmsiaddrcfgh_lhxw :: "u32 \<Rightarrow> u32" where "mmsiaddrcfgh_lhxw v = drop_bit 12 v AND 0xF"
definition mmsiaddrcfgh_hhxw :: "u32 \<Rightarrow> u32" where "mmsiaddrcfgh_hhxw v = drop_bit 16 v AND 0x7"
definition mmsiaddrcfgh_lhxs :: "u32 \<Rightarrow> u32" where "mmsiaddrcfgh_lhxs v = drop_bit 20 v AND 0x7"
definition mmsiaddrcfgh_hhxs :: "u32 \<Rightarrow> u32" where "mmsiaddrcfgh_hhxs v = drop_bit 24 v AND 0x1F"
definition smsiaddrcfgh_hippn :: "u32 \<Rightarrow> u32" where "smsiaddrcfgh_hippn v = drop_bit 0 v AND 0xFFF"
definition smsiaddrcfgh_lhxs :: "u32 \<Rightarrow> u32" where "smsiaddrcfgh_lhxs v = drop_bit 20 v AND 0x1FFF"
definition genmsi_eiid :: "u32 \<Rightarrow> u32" where "genmsi_eiid v = drop_bit 0 v AND 0x7FF"
definition genmsi_hartind :: "u32 \<Rightarrow> u32" where "genmsi_hartind v = drop_bit 18 v AND 0x3FFF"
definition targets_eiid :: "u32 \<Rightarrow> u32" where "targets_eiid v = drop_bit 0 v AND 0x7FF"
definition targets_hartind :: "u32 \<Rightarrow> u32" where "targets_hartind v = drop_bit 18 v AND 0x3FFF"

lemmas aplic_fields = domaincfg_dm_def domaincfg_ie_def sourcecfg_childind_def sourcecfg_sm_def sourcecfg_d_def
  mmsiaddrcfgh_hippn_def mmsiaddrcfgh_lhxw_def mmsiaddrcfgh_hhxw_def mmsiaddrcfgh_lhxs_def mmsiaddrcfgh_hhxs_def
  smsiaddrcfgh_hippn_def smsiaddrcfgh_lhxs_def genmsi_eiid_def genmsi_hartind_def targets_eiid_def targets_hartind_def
  DOMAINCFG_BE_BIT_def DOMAINCFG_DM_BIT_def DOMAINCFG_IE_BIT_def DOMAINCFG_RO80_BIT_def SOURCECFG_D_BIT_def
  TARGETS_MSIDELIV_BIT_def GENMSI_BUSY_BIT_def aplic_bit_def

text \<open>The constants of \<^verbatim>\<open>enum source_mode\<close>.\<close>

definition SM_INACTIVE :: u32 where "SM_INACTIVE = 0"
definition SM_DETACHED :: u32 where "SM_DETACHED = 1"
definition SM_RESERVED1 :: u32 where "SM_RESERVED1 = 2"
definition SM_RESERVED2 :: u32 where "SM_RESERVED2 = 3"
definition SM_EDGE1 :: u32 where "SM_EDGE1 = 4"
definition SM_EDGE0 :: u32 where "SM_EDGE0 = 5"
definition SM_LEVEL1 :: u32 where "SM_LEVEL1 = 6"
definition SM_LEVEL0 :: u32 where "SM_LEVEL0 = 7"

lemmas source_modes = SM_INACTIVE_def SM_DETACHED_def SM_RESERVED1_def SM_RESERVED2_def SM_EDGE1_def SM_EDGE0_def
  SM_LEVEL1_def SM_LEVEL0_def

section \<open>State\<close>

record 'e aplic_params =
  np_cores :: nat
  np_domains :: nat
  np_interrupts :: nat
  np_isock :: "payload \<Rightarrow> ('e, payload) op"

record 'e aplic =
  ap_mem :: "nat \<Rightarrow> aplic_reg \<Rightarrow> u8 list"
  ap_ie_reg :: "nat \<Rightarrow> u32 list"
  ap_ip_reg :: "nat \<Rightarrow> u32 list"
  ap_e_run :: bool
  ap_env :: 'e

text \<open>The number of elements of the ranges; the template requires at most 1024 sources.\<close>

definition aplic_elems :: "'e aplic_params \<Rightarrow> aplic_reg \<Rightarrow> nat" where
  "aplic_elems p r = (case r of
       Reg_sourcecfg \<Rightarrow> np_interrupts p
     | Reg_setip \<Rightarrow> 32 | Reg_in_clrip \<Rightarrow> 32 | Reg_setie \<Rightarrow> 32 | Reg_clrie \<Rightarrow> 32
     | Reg_target \<Rightarrow> 1023
     | _ \<Rightarrow> 1)"

definition aplic_bounds :: "'e aplic_params \<Rightarrow> bool" where
  "aplic_bounds p \<longleftrightarrow> np_interrupts p \<le> 1024 \<and> np_cores p \<le> 15360"

definition put_reg :: "nat \<Rightarrow> aplic_reg \<Rightarrow> u8 list \<Rightarrow> 'e aplic \<Rightarrow> 'e aplic" where
  "put_reg d r m s = s\<lparr>ap_mem := (ap_mem s)(d := (ap_mem s d)(r := m))\<rparr>"

text \<open>The place \<^verbatim>\<open>var_addr\<close> points to, and an element of a view.\<close>

definition var_load :: "nat \<Rightarrow> aplic_reg \<Rightarrow> u64 \<Rightarrow> ('e aplic, u32) op" where
  "var_load d r a = get_op (\<lambda>s. load32 (ap_mem s d r) (unat a)) lift_op"

definition var_store :: "nat \<Rightarrow> aplic_reg \<Rightarrow> u64 \<Rightarrow> u32 \<Rightarrow> ('e aplic, unit) op" where
  "var_store d r a v = update_res (\<lambda>s. bind_res (store32 (unat a) v (ap_mem s d r)) (\<lambda>m. Inr (put_reg d r m s)))"

definition view_load :: "nat \<Rightarrow> aplic_reg \<Rightarrow> nat \<Rightarrow> ('e aplic, u32) op" where
  "view_load d r i = get_op (\<lambda>s. view32 (ap_mem s d r) i) lift_op"

definition view_store :: "nat \<Rightarrow> aplic_reg \<Rightarrow> nat \<Rightarrow> u32 \<Rightarrow> ('e aplic, unit) op" where
  "view_store d r i v = update_res (\<lambda>s. bind_res (set_view32 i v (ap_mem s d r)) (\<lambda>m. Inr (put_reg d r m s)))"

definition set_ip :: "nat \<Rightarrow> nat \<Rightarrow> u32 \<Rightarrow> ('e aplic, unit) op" where
  "set_ip d idx v = modify_op (\<lambda>s. s\<lparr>ap_ip_reg := (ap_ip_reg s)(d := (ap_ip_reg s d)[idx := v])\<rparr>)"

definition set_ie :: "nat \<Rightarrow> nat \<Rightarrow> u32 \<Rightarrow> ('e aplic, unit) op" where
  "set_ie d idx v = modify_op (\<lambda>s. s\<lparr>ap_ie_reg := (ap_ie_reg s)(d := (ap_ie_reg s d)[idx := v])\<rparr>)"

definition notify_run :: "('e aplic, unit) op" where
  "notify_run = modify_op (\<lambda>s. s\<lparr>ap_e_run := True\<rparr>)"

section \<open>Sources\<close>

definition not_implemented :: "'e aplic_params \<Rightarrow> u32 \<Rightarrow> bool" where
  "not_implemented p irq_id \<longleftrightarrow> irq_id < 1 \<or> unat irq_id \<ge> np_interrupts p"

definition irq_idx :: "u32 \<Rightarrow> nat" where "irq_idx irq_id = unat (irq_id div 32)"
definition irq_off :: "u32 \<Rightarrow> nat" where "irq_off irq_id = unat (irq_id mod 32)"

definition source_is_inactive :: "'e aplic_params \<Rightarrow> nat \<Rightarrow> u32 \<Rightarrow> ('e aplic, bool) op" where
  "source_is_inactive p d irq_id =
     (if not_implemented p irq_id then ret_op True
      else bind_op (view_load d Reg_sourcecfg (unat (irq_id - 1))) (\<lambda>val.
        ret_op (sourcecfg_sm val < SM_EDGE1 \<or> sourcecfg_d val \<noteq> 0)))"

definition set_pending_bit :: "nat \<Rightarrow> u32 \<Rightarrow> ('e aplic, unit) op" where
  "set_pending_bit d irq_id = get_op (\<lambda>s. ap_ip_reg s d ! irq_idx irq_id OR aplic_bit (irq_off irq_id)) (\<lambda>v.
     seq_op (set_ip d (irq_idx irq_id) v) (view_store d Reg_setip (irq_idx irq_id) v))"

definition clear_pending_bit :: "nat \<Rightarrow> u32 \<Rightarrow> ('e aplic, unit) op" where
  "clear_pending_bit d irq_id = get_op (\<lambda>s. ap_ip_reg s d ! irq_idx irq_id AND NOT (aplic_bit (irq_off irq_id))) (\<lambda>v.
     seq_op (set_ip d (irq_idx irq_id) v) (view_store d Reg_setip (irq_idx irq_id) v))"

definition gateway_trigger_interrupt :: "'e aplic_params \<Rightarrow> u32 \<Rightarrow> ('e aplic, unit) op" where
  "gateway_trigger_interrupt p irq_id =
     (if not_implemented p irq_id then ret_op ()
      else bind_op (source_is_inactive p APLIC_M_DOMAIN irq_id) (\<lambda>inactive.
        when_op (\<not> inactive) (seq_op (set_pending_bit APLIC_M_DOMAIN irq_id) notify_run)))"

definition is_pending_interrupt :: "'e aplic_params \<Rightarrow> nat \<Rightarrow> u32 \<Rightarrow> 'e aplic \<Rightarrow> bool" where
  "is_pending_interrupt p d irq_id s \<longleftrightarrow>
     (if not_implemented p irq_id then False
      else if ap_ie_reg s d ! irq_idx irq_id AND aplic_bit (irq_off irq_id) = 0 then False
      else ap_ip_reg s d ! irq_idx irq_id AND aplic_bit (irq_off irq_id) \<noteq> 0)"

definition clear_pending_interrupt :: "'e aplic_params \<Rightarrow> nat \<Rightarrow> u32 \<Rightarrow> ('e aplic, unit) op" where
  "clear_pending_interrupt p d irq_id = (if not_implemented p irq_id then ret_op () else clear_pending_bit d irq_id)"

section \<open>Callbacks of the registers\<close>

definition post_write_domainconfig :: "nat \<Rightarrow> u64 \<Rightarrow> ('e aplic, unit) op" where
  "post_write_domainconfig d a = bind_op (var_load d Reg_domaincfg a) (\<lambda>tmp.
     var_store d Reg_domaincfg a
       (aplic_bit DOMAINCFG_DM_BIT OR (tmp AND push_bit DOMAINCFG_IE_BIT 0x1) OR push_bit DOMAINCFG_RO80_BIT 0x80))"

definition post_write_sourcecfg :: "'e aplic_params \<Rightarrow> nat \<Rightarrow> u64 \<Rightarrow> ('e aplic, unit) op" where
  "post_write_sourcecfg p d a = bind_op (var_load d Reg_sourcecfg a) (\<lambda>cfg.
     let eiid = ucast (drop_bit 2 a + 1) :: u32; sm = sourcecfg_sm cfg; m = APLIC_M_DOMAIN in
     seq_op (assert_op (sm \<le> SM_LEVEL0 \<and> sm \<noteq> SM_RESERVED1 \<and> sm \<noteq> SM_RESERVED2)) (
     seq_op (assert_op (eiid > 0 \<and> eiid < 1024)) (
     if sm = SM_INACTIVE then
       seq_op (var_store d Reg_sourcecfg a 0) (
       seq_op (view_store m Reg_target (unat (eiid - 1)) 0) (
       seq_op (get_op (\<lambda>s. ap_ie_reg s m ! irq_idx eiid AND NOT (aplic_bit (irq_off eiid))) (set_ie m (irq_idx eiid)))
         (get_op (\<lambda>s. ap_ip_reg s m ! irq_idx eiid AND NOT (aplic_bit (irq_off eiid))) (set_ip m (irq_idx eiid)))))
     else when_op (cfg AND aplic_bit SOURCECFG_D_BIT \<noteq> 0) (assert_op (unat (sourcecfg_childind cfg) < np_domains p)))))"

definition post_write_xmsiaddrcfg :: "nat \<Rightarrow> aplic_reg \<Rightarrow> u64 \<Rightarrow> ('e aplic, unit) op" where
  "post_write_xmsiaddrcfg d r a = var_store d r a 0"

text \<open>
  The loop over the bits of a value written to a register of the array \<^verbatim>\<open>setip\<close> or \<^verbatim>\<open>setie\<close>: it clears the bits
  of source 0, of the sources that do not exist and of the inactive ones.
\<close>

primrec mask_active :: "'e aplic_params \<Rightarrow> u32 \<Rightarrow> nat list \<Rightarrow> u32 \<Rightarrow> ('e aplic, u32) op" where
  "mask_active p idx [] v = ret_op v"
| "mask_active p idx (ii # is) v =
     (if v AND aplic_bit ii = 0 then mask_active p idx is v
      else let irq_id = of_nat ii + 32 * idx in
        if irq_id = 0 then mask_active p idx is (v AND NOT (aplic_bit 0))
        else if unat irq_id \<ge> np_interrupts p then ret_op (v AND (aplic_bit ii - 1))
        else bind_op (source_is_inactive p APLIC_M_DOMAIN irq_id) (\<lambda>inactive.
          mask_active p idx is (if inactive then v AND NOT (aplic_bit ii) else v)))"

definition post_write_setip :: "'e aplic_params \<Rightarrow> nat \<Rightarrow> u64 \<Rightarrow> ('e aplic, unit) op" where
  "post_write_setip p d a = bind_op (var_load d Reg_setip a) (\<lambda>v.
     let idx = ucast (drop_bit 2 a) :: u32; m = APLIC_M_DOMAIN in
     seq_op (assert_op (idx < 32)) (
     bind_op (mask_active p idx [0..<32] v) (\<lambda>v.
     when_op (v \<noteq> 0) (
       seq_op (get_op (\<lambda>s. ap_ip_reg s m ! unat idx OR v) (set_ip m (unat idx))) notify_run))))"

definition pre_read_setip :: "nat \<Rightarrow> u64 \<Rightarrow> ('e aplic, bool) op" where
  "pre_read_setip d a = (let idx = ucast (drop_bit 2 a) :: u32 in
     seq_op (assert_op (idx < 32)) (
     seq_op (get_op (\<lambda>s. ap_ip_reg s APLIC_M_DOMAIN ! unat idx) (var_store d Reg_setip a)) (ret_op True)))"

definition post_write_setipnum :: "'e aplic_params \<Rightarrow> nat \<Rightarrow> aplic_reg \<Rightarrow> u64 \<Rightarrow> ('e aplic, unit) op" where
  "post_write_setipnum p d r a = bind_op (var_load d r a) (\<lambda>irq_id.
     seq_op (var_store d r a 0) (
     if not_implemented p irq_id then ret_op ()
     else bind_op (source_is_inactive p APLIC_M_DOMAIN irq_id) (\<lambda>inactive.
       when_op (\<not> inactive) (seq_op (set_pending_bit APLIC_M_DOMAIN irq_id) notify_run))))"

definition post_write_in_clrip :: "nat \<Rightarrow> u64 \<Rightarrow> ('e aplic, unit) op" where
  "post_write_in_clrip d a = bind_op (var_load d Reg_in_clrip a) (\<lambda>v.
     let idx = ucast (drop_bit 2 a) :: u32; m = APLIC_M_DOMAIN in
     seq_op (assert_op (idx < 32)) (get_op (\<lambda>s. ap_ip_reg s m ! unat idx AND NOT v) (set_ip m (unat idx))))"

definition pre_read_in_clrip :: "nat \<Rightarrow> u64 \<Rightarrow> ('e aplic, bool) op" where
  "pre_read_in_clrip d a = (let idx = ucast (drop_bit 2 a) :: u32 in
     seq_op (assert_op (idx < 32)) (
     seq_op (get_op (\<lambda>s. ap_ip_reg s APLIC_M_DOMAIN ! unat idx) (var_store d Reg_in_clrip a)) (ret_op True)))"

definition post_write_clripnum :: "'e aplic_params \<Rightarrow> nat \<Rightarrow> u64 \<Rightarrow> ('e aplic, unit) op" where
  "post_write_clripnum p d a = bind_op (var_load d Reg_clripnum a) (\<lambda>irq_id.
     seq_op (var_store d Reg_clripnum a 0) (
     if not_implemented p irq_id then ret_op () else clear_pending_bit APLIC_M_DOMAIN irq_id))"

definition post_write_setie :: "'e aplic_params \<Rightarrow> nat \<Rightarrow> u64 \<Rightarrow> ('e aplic, unit) op" where
  "post_write_setie p d a = bind_op (var_load d Reg_setie a) (\<lambda>v.
     let idx = ucast (drop_bit 2 a) :: u32; m = APLIC_M_DOMAIN in
     seq_op (assert_op (idx < 32)) (
     bind_op (mask_active p idx [0..<32] v) (\<lambda>v.
     seq_op (get_op (\<lambda>s. ap_ie_reg s m ! unat idx OR v) (set_ie m (unat idx)))
       (get_op (\<lambda>s. ap_ie_reg s m ! unat idx \<noteq> 0) (\<lambda>b. when_op b notify_run)))))"

definition pre_read_setie :: "nat \<Rightarrow> u64 \<Rightarrow> ('e aplic, bool) op" where
  "pre_read_setie d a = (let idx = ucast (drop_bit 2 a) :: u32 in
     seq_op (assert_op (idx < 32)) (
     seq_op (get_op (\<lambda>s. ap_ie_reg s APLIC_M_DOMAIN ! unat idx) (var_store d Reg_setie a)) (ret_op True)))"

text \<open>An enable register that changes is copied to the register that shows it.\<close>

definition update_enable :: "nat \<Rightarrow> (u32 \<Rightarrow> u32) \<Rightarrow> ('e aplic, unit) op" where
  "update_enable idx f = (let m = APLIC_M_DOMAIN in
     get_op (\<lambda>s. f (ap_ie_reg s m ! idx)) (\<lambda>v. seq_op (set_ie m idx v) (view_store m Reg_setie idx v)))"

definition post_write_setienum :: "'e aplic_params \<Rightarrow> nat \<Rightarrow> u64 \<Rightarrow> ('e aplic, unit) op" where
  "post_write_setienum p d a = bind_op (var_load d Reg_setienum a) (\<lambda>irq_id.
     seq_op (var_store d Reg_setienum a 0) (
     if not_implemented p irq_id then ret_op ()
     else bind_op (source_is_inactive p APLIC_M_DOMAIN irq_id) (\<lambda>inactive. when_op (\<not> inactive) (
       seq_op (update_enable (irq_idx irq_id) (\<lambda>v. v OR aplic_bit (irq_off irq_id))) notify_run))))"

definition post_write_clrie :: "nat \<Rightarrow> u64 \<Rightarrow> ('e aplic, unit) op" where
  "post_write_clrie d a = bind_op (var_load d Reg_clrie a) (\<lambda>v.
     let idx = ucast (drop_bit 2 a) :: u32 in
     seq_op (var_store d Reg_clrie a 0) (
     seq_op (assert_op (idx < 32)) (update_enable (unat idx) (\<lambda>e. e AND NOT v))))"

definition post_write_clrienum :: "'e aplic_params \<Rightarrow> nat \<Rightarrow> u64 \<Rightarrow> ('e aplic, unit) op" where
  "post_write_clrienum p d a = bind_op (var_load d Reg_clrienum a) (\<lambda>irq_id.
     seq_op (var_store d Reg_clrienum a 0) (
     if not_implemented p irq_id then ret_op ()
     else bind_op (source_is_inactive p APLIC_M_DOMAIN irq_id) (\<lambda>inactive. when_op (\<not> inactive)
       (update_enable (irq_idx irq_id) (\<lambda>v. v AND NOT (aplic_bit (irq_off irq_id)))))))"

definition post_write_setipnum_le :: "'e aplic_params \<Rightarrow> nat \<Rightarrow> u64 \<Rightarrow> ('e aplic, unit) op" where
  "post_write_setipnum_le p d a = post_write_setipnum p d Reg_setipnum_le a"

definition post_write_setipnum_be :: "nat \<Rightarrow> u64 \<Rightarrow> ('e aplic, unit) op" where
  "post_write_setipnum_be d a = var_store d Reg_setipnum_be a 0"

definition post_write_target :: "'e aplic_params \<Rightarrow> nat \<Rightarrow> u64 \<Rightarrow> ('e aplic, unit) op" where
  "post_write_target p d a = (let irq_id = ucast (drop_bit 2 a) + 1 :: u32 in
     bind_op (source_is_inactive p APLIC_M_DOMAIN irq_id) (\<lambda>inactive.
       if inactive then var_store d Reg_target a 0
       else bind_op (var_load d Reg_target a) (\<lambda>v. var_store d Reg_target a (v OR aplic_bit TARGETS_MSIDELIV_BIT))))"

section \<open>Messages\<close>

text \<open>
  The address of the interrupt file of a hart. A shift by 32 or more of a 32-bit operand is undefined:
  the programmed \<^verbatim>\<open>hhxs\<close> (and \<^verbatim>\<open>lhxs\<close> of \<^verbatim>\<open>smsiaddrcfgh\<close>) can ask for one.
\<close>

definition shift_left32 :: "u32 \<Rightarrow> u32 \<Rightarrow> u32 res" where
  "shift_left32 v n = (if n < 32 then Inr (push_bit (unat n) v) else Inl UndefinedBehaviour)"

definition low_mask32 :: "u32 \<Rightarrow> u32" where
  "low_mask32 n = push_bit (unat n) 1 - 1"

definition get_m_target_address :: "'e aplic_params \<Rightarrow> u32 \<Rightarrow> ('e aplic, u32) op" where
  "get_m_target_address p hart_ind =
     seq_op (assert_op (unat hart_ind < np_cores p)) (
     bind_op (view_load APLIC_M_DOMAIN Reg_mmsiaddrcfg 0) (\<lambda>mmsiaddr.
     bind_op (view_load APLIC_M_DOMAIN Reg_mmsiaddrcfgh 0) (\<lambda>mmsiaddrh.
     let lhxw = mmsiaddrcfgh_lhxw mmsiaddrh; hhxw = mmsiaddrcfgh_hhxw mmsiaddrh;
         lhxs = mmsiaddrcfgh_lhxs mmsiaddrh; hhxs = mmsiaddrcfgh_hhxs mmsiaddrh;
         hippn = ucast (mmsiaddrcfgh_hippn mmsiaddrh) :: u64;
         g = drop_bit (unat lhxw) hart_ind AND low_mask32 hhxw;
         h = hart_ind AND low_mask32 lhxw;
         ppn = push_bit 32 hippn OR ucast mmsiaddr in
     lift_op (bind_res (shift_left32 g (hhxs + 12)) (\<lambda>group.
       bind_res (shift_left32 h lhxs) (\<lambda>hart.
         Inr (ucast (push_bit 12 (ppn OR ucast group OR ucast hart)))))))))"

definition get_s_target_address :: "'e aplic_params \<Rightarrow> u32 \<Rightarrow> u32 \<Rightarrow> ('e aplic, u32) op" where
  "get_s_target_address p machine_hart_ind guest_ind =
     seq_op (assert_op (unat machine_hart_ind < np_cores p)) (
     bind_op (view_load APLIC_M_DOMAIN Reg_mmsiaddrcfg 0) (\<lambda>mmsiaddr.
     bind_op (view_load APLIC_M_DOMAIN Reg_mmsiaddrcfgh 0) (\<lambda>mmsiaddrh.
     bind_op (view_load APLIC_M_DOMAIN Reg_smsiaddrcfg 0) (\<lambda>smsiaddr.
     bind_op (view_load APLIC_M_DOMAIN Reg_smsiaddrcfgh 0) (\<lambda>smsiaddrh.
     let lhxw = mmsiaddrcfgh_lhxw mmsiaddrh; hhxw = mmsiaddrcfgh_hhxw mmsiaddrh;
         lhxs = smsiaddrcfgh_lhxs smsiaddrh; hhxs = mmsiaddrcfgh_hhxs mmsiaddrh;
         hippn = ucast (smsiaddrcfgh_hippn smsiaddrh) :: u64;
         g = drop_bit (unat lhxw) machine_hart_ind AND low_mask32 hhxw;
         h = machine_hart_ind AND low_mask32 lhxw;
         ppn = push_bit 32 hippn OR ucast smsiaddr in
     lift_op (bind_res (shift_left32 g (hhxs + 12)) (\<lambda>group.
       bind_res (shift_left32 h lhxs) (\<lambda>hart.
         Inr (ucast (push_bit 12 (ppn OR ucast group OR ucast hart OR ucast guest_ind)))))))))))"

definition msi_payload :: "u32 \<Rightarrow> u32 \<Rightarrow> payload" where
  "msi_payload addr msi_data =
     \<lparr>tp_command = TLM_WRITE_COMMAND, tp_address = ucast addr, tp_data = le_bytes 4 (ucast msi_data),
      tp_response = TLM_OK_RESPONSE\<rparr>"

definition send_msi :: "'e aplic_params \<Rightarrow> u32 \<Rightarrow> u32 \<Rightarrow> ('e aplic, unit) op" where
  "send_msi p addr msi_data = (\<lambda>s. case np_isock p (msi_payload addr msi_data) (ap_env s) of
     (Inl e, env) \<Rightarrow> (Inl e, s\<lparr>ap_env := env\<rparr>)
   | (Inr _, env) \<Rightarrow> (Inr (), s\<lparr>ap_env := env\<rparr>))"

definition post_write_genmsi :: "'e aplic_params \<Rightarrow> nat \<Rightarrow> u64 \<Rightarrow> ('e aplic, unit) op" where
  "post_write_genmsi p d a = bind_op (var_load d Reg_genmsi a) (\<lambda>v0.
     let v = v0 AND NOT (aplic_bit GENMSI_BUSY_BIT) in
     seq_op (var_store d Reg_genmsi a v) (
     bind_op (get_m_target_address p (genmsi_hartind v)) (\<lambda>addr.
     send_msi p addr (genmsi_eiid v))))"

definition msi_clr_pending :: "'e aplic_params \<Rightarrow> nat \<Rightarrow> u32 \<Rightarrow> ('e aplic, unit) op" where
  "msi_clr_pending p d irq_id =
     (if not_implemented p irq_id then ret_op ()
      else bind_op (view_load d Reg_sourcecfg (unat (irq_id - 1))) (\<lambda>cfg. let sm = sourcecfg_sm cfg in
        if sm \<noteq> SM_EDGE0 \<and> sm \<noteq> SM_EDGE1 then ret_op () else clear_pending_bit d irq_id))"

definition msi_write :: "'e aplic_params \<Rightarrow> nat \<Rightarrow> u32 \<Rightarrow> ('e aplic, unit) op" where
  "msi_write p d irq_id =
     (if not_implemented p irq_id then ret_op ()
      else bind_op (source_is_inactive p d irq_id) (\<lambda>inactive. when_op (\<not> inactive) (
        bind_op (view_load d Reg_target (unat (irq_id - 1))) (\<lambda>tgt.
        bind_op (get_m_target_address p (targets_hartind tgt)) (\<lambda>addr.
        seq_op (send_msi p addr (targets_eiid tgt)) (msi_clr_pending p d irq_id))))))"

section \<open>The next interrupt\<close>

text \<open>The loop over the sources, as a search through the identities that remain.\<close>

primrec search_pending :: "'e aplic_params \<Rightarrow> nat \<Rightarrow> u32 list \<Rightarrow> ('e aplic, u32) op" where
  "search_pending p d [] = ret_op 0"
| "search_pending p d (irq_id # is) = bind_op (source_is_inactive p d irq_id) (\<lambda>inactive.
     get_op (is_pending_interrupt p d irq_id) (\<lambda>pending.
     if \<not> inactive \<and> pending then ret_op irq_id else search_pending p d is))"

definition source_ids :: "'e aplic_params \<Rightarrow> u32 list" where
  "source_ids p = map of_nat [1..<np_interrupts p]"

definition hart_get_next_pending_interrupt :: "'e aplic_params \<Rightarrow> nat \<Rightarrow> ('e aplic, u32) op" where
  "hart_get_next_pending_interrupt p d =
     bind_op (view_load d Reg_domaincfg 0) (\<lambda>cfg.
       if domaincfg_dm cfg = 0 then ret_op 0
       else if domaincfg_ie cfg = 0 then ret_op 0
       else search_pending p d (source_ids p))"

text \<open>One round of the thread \<^verbatim>\<open>run\<close>: it resumes when \<^verbatim>\<open>e_run\<close> has been notified.\<close>

definition aplic_run :: "'e aplic_params \<Rightarrow> ('e aplic, unit) op" where
  "aplic_run p = seq_op (modify_op (\<lambda>s. s\<lparr>ap_e_run := False\<rparr>)) (
     bind_op (hart_get_next_pending_interrupt p APLIC_M_DOMAIN) (\<lambda>int_id.
       when_op (int_id > 0) (msi_write p APLIC_M_DOMAIN int_id)))"

section \<open>Construction and bus interface\<close>

definition xmsiaddrcfg_callback :: "nat \<Rightarrow> aplic_reg \<Rightarrow> u64 \<Rightarrow> ('e aplic, unit) op" where
  "xmsiaddrcfg_callback d r a = (if d \<noteq> APLIC_M_DOMAIN then post_write_xmsiaddrcfg d r a else ret_op ())"

definition aplic_post_write :: "'e aplic_params \<Rightarrow> nat \<Rightarrow> aplic_reg \<Rightarrow> u64 \<Rightarrow> nat \<Rightarrow> ('e aplic, unit) op" where
  "aplic_post_write p d r a n = (case r of
       Reg_domaincfg \<Rightarrow> post_write_domainconfig d a
     | Reg_sourcecfg \<Rightarrow> post_write_sourcecfg p d a
     | Reg_mmsiaddrcfg \<Rightarrow> xmsiaddrcfg_callback d r a
     | Reg_mmsiaddrcfgh \<Rightarrow> xmsiaddrcfg_callback d r a
     | Reg_smsiaddrcfg \<Rightarrow> xmsiaddrcfg_callback d r a
     | Reg_smsiaddrcfgh \<Rightarrow> xmsiaddrcfg_callback d r a
     | Reg_setip \<Rightarrow> post_write_setip p d a
     | Reg_setipnum \<Rightarrow> post_write_setipnum p d Reg_setipnum a
     | Reg_in_clrip \<Rightarrow> post_write_in_clrip d a
     | Reg_clripnum \<Rightarrow> post_write_clripnum p d a
     | Reg_setie \<Rightarrow> post_write_setie p d a
     | Reg_setienum \<Rightarrow> post_write_setienum p d a
     | Reg_clrie \<Rightarrow> post_write_clrie d a
     | Reg_clrienum \<Rightarrow> post_write_clrienum p d a
     | Reg_setipnum_le \<Rightarrow> post_write_setipnum_le p d a
     | Reg_setipnum_be \<Rightarrow> post_write_setipnum_be d a
     | Reg_genmsi \<Rightarrow> post_write_genmsi p d a
     | Reg_target \<Rightarrow> post_write_target p d a)"

definition aplic_pre_read :: "nat \<Rightarrow> aplic_reg \<Rightarrow> u64 \<Rightarrow> nat \<Rightarrow> ('e aplic, bool) op" where
  "aplic_pre_read d r a n = (case r of
       Reg_setip \<Rightarrow> pre_read_setip d a | Reg_in_clrip \<Rightarrow> pre_read_in_clrip d a | Reg_setie \<Rightarrow> pre_read_setie d a
     | _ \<Rightarrow> ret_op True)"

definition aplic_range :: "'e aplic_params \<Rightarrow> nat \<Rightarrow> aplic_reg \<Rightarrow> 'e aplic RegisterRange" where
  "aplic_range p d r = (let start = APLIC_DOMAIN_OFFSET * of_nat d + aplic_offset r in
     \<lparr>rr_start = start, rr_end = start + of_nat (4 * aplic_elems p r) - 1,
      rr_get = \<lambda>s. ap_mem s d r, rr_put = put_reg d r, rr_readonly = False, rr_alignment = 1,
      rr_pre_write = \<lambda>_ _. ret_op True, rr_post_write = aplic_post_write p d r,
      rr_pre_read = aplic_pre_read d r, rr_post_read = \<lambda>_ _. ret_op ()\<rparr>)"

definition aplic_regs :: "aplic_reg list" where
  "aplic_regs = [Reg_domaincfg, Reg_sourcecfg, Reg_mmsiaddrcfg, Reg_mmsiaddrcfgh, Reg_smsiaddrcfg, Reg_smsiaddrcfgh,
     Reg_setip, Reg_setipnum, Reg_in_clrip, Reg_clripnum, Reg_setie, Reg_setienum, Reg_clrie, Reg_clrienum,
     Reg_setipnum_le, Reg_setipnum_be, Reg_genmsi, Reg_target]"

definition register_ranges_of :: "'e aplic_params \<Rightarrow> 'e aplic RegisterRange list" where
  "register_ranges_of p = concat (map (\<lambda>d. map (aplic_range p d) aplic_regs) [0..<np_domains p])"

definition aplic_transport :: "'e aplic_params \<Rightarrow> payload \<Rightarrow> ('e aplic, payload) op" where
  "aplic_transport p = route ''APLIC'' (register_ranges_of p)"

definition domaincfg_reset :: u32 where
  "domaincfg_reset = push_bit DOMAINCFG_RO80_BIT 0x80 OR aplic_bit DOMAINCFG_DM_BIT"

definition init_reg :: "'e aplic_params \<Rightarrow> nat \<Rightarrow> aplic_reg \<Rightarrow> u8 list" where
  "init_reg p d r = (case r of
       Reg_domaincfg \<Rightarrow> le_bytes 4 (ucast domaincfg_reset)
     | Reg_mmsiaddrcfg \<Rightarrow>
         if d = APLIC_M_DOMAIN then le_bytes 4 (ucast (drop_bit APLIC_PAGE_BITS IMSIC_HART0_M_IFILE)) else le_bytes 4 0
     | Reg_smsiaddrcfg \<Rightarrow>
         if d = APLIC_M_DOMAIN then le_bytes 4 (ucast (drop_bit APLIC_PAGE_BITS IMSIC_HART0_S_IFILE)) else le_bytes 4 0
     | _ \<Rightarrow> replicate (4 * aplic_elems p r) 0)"

definition aplic_init :: "'e aplic_params \<Rightarrow> 'e \<Rightarrow> 'e aplic" where
  "aplic_init p env = \<lparr>ap_mem = init_reg p, ap_ie_reg = \<lambda>_. replicate 32 0, ap_ip_reg = \<lambda>_. replicate 32 0,
     ap_e_run = False, ap_env = env\<rparr>"

end
