(* ===== verification/VP_Imsic_Mem.thy ===== *)
theory VP_Imsic_Mem
  imports VP_Regmap VP_Imsic_Props
begin

text \<open>
  The memory-mapped interrupt files of a hart (\<^verbatim>\<open>core/rv32/imsic-mem.h\<close>): one page per interrupt
  file, for machine mode, supervisor mode and each guest; a write to the first word of a page
  makes the identity that is written pending in its file. The hart \<^verbatim>\<open>target_hart\<close> points to is a
  part of the state.
\<close>

record 'p imsic_mem =
  im_mmio :: "u8 list"
  im_hart :: "'p iss"

definition im_page_size :: u64 where "im_page_size = 4096"
definition max_imsic_iid :: u32 where "max_imsic_iid = 32 * 64 - 1"
definition im_files :: u64 where "im_files = 1 + 1 + ucast MAX_GUEST"

definition on_hart :: "('p iss, unit) op \<Rightarrow> ('p imsic_mem, unit) op" where
  "on_hart f = (\<lambda>s. case f (im_hart s) of (r, h) \<Rightarrow> (r, s\<lparr>im_hart := h\<rparr>))"

definition pre_read_imsic_mmio :: "u64 \<Rightarrow> nat \<Rightarrow> ('p imsic_mem, bool) op" where
  "pre_read_imsic_mmio a n = seq_op (assert_op (a mod 4 = 0)) (
     seq_op (update_res (\<lambda>s. bind_res (set_view32 (unat (a div 4)) 0 (im_mmio s)) (\<lambda>m. Inr (s\<lparr>im_mmio := m\<rparr>))))
       (ret_op True))"

definition post_write_imsic_mmio :: "u64 \<Rightarrow> nat \<Rightarrow> ('p imsic_mem, unit) op" where
  "post_write_imsic_mmio a n = seq_op (assert_op (a mod 4 = 0)) (
     when_op (a mod im_page_size = 0) (
       let imsic_idx = ucast (a div im_page_size) :: u32; mem_idx = ucast (a div 4) :: u32 in
       seq_op (assert_op (ucast imsic_idx < im_files)) (
       bind_op (get_op (\<lambda>s. view32 (im_mmio s) (unat mem_idx)) lift_op) (\<lambda>v.
         let value = v AND max_imsic_iid in
         on_hart (if imsic_idx = 0 then route_imsic_write MachineMode 0 value
                  else if imsic_idx = 1 then route_imsic_write SupervisorMode 0 value
                  else route_imsic_write VirtualSupervisorMode (imsic_idx - 2) value)))))"

definition regs_imsic_mmio :: "'p imsic_mem RegisterRange" where
  "regs_imsic_mmio =
     \<lparr>rr_start = 0, rr_end = im_page_size * im_files - 1, rr_get = im_mmio, rr_put = (\<lambda>m s. s\<lparr>im_mmio := m\<rparr>),
      rr_readonly = False, rr_alignment = 4, rr_pre_write = \<lambda>_ _. ret_op True, rr_post_write = post_write_imsic_mmio,
      rr_pre_read = pre_read_imsic_mmio, rr_post_read = \<lambda>_ _. ret_op ()\<rparr>"

definition imsic_transport :: "payload \<Rightarrow> ('p imsic_mem, payload) op" where
  "imsic_transport = route ''ImsicMem'' [regs_imsic_mmio]"

definition imsic_mem_init :: "'p iss \<Rightarrow> 'p imsic_mem" where
  "imsic_mem_init h = \<lparr>im_mmio = replicate (unat (im_page_size * im_files)) 0, im_hart = h\<rparr>"

section \<open>A message for machine mode\<close>

definition imsic_mem_ok :: "'p imsic_mem \<Rightarrow> bool" where
  "imsic_mem_ok s \<longleftrightarrow> length (im_mmio s) = 40960"

lemma on_hart_mmio: "on_hart f s = (r, s') \<Longrightarrow> im_mmio s' = im_mmio s"
  by (auto simp: on_hart_def split: prod.splits)

text \<open>The page of interrupt files is a target of the bus, whatever the hart does with a message.\<close>

interpretation imsic: register_ranges "''ImsicMem''" "[regs_imsic_mmio :: 'p imsic_mem RegisterRange]" imsic_mem_ok
  by unfold_locales
    (auto simp: regs_imsic_mmio_def op_run pre_read_imsic_mmio_def post_write_imsic_mmio_def imsic_mem_ok_def Let_def
      dest!: on_hart_mmio dest: memcpy_to_length set_view32_length split: if_splits)

lemma im_size: "im_page_size * im_files = 40960" "ucast (im_files :: u64) = (10 :: u32)"
  by (simp_all add: im_page_size_def im_files_def core_consts)

lemma imsic_write_m:
  assumes "imsic_mem_ok s" "v AND max_imsic_iid = v" "route_imsic_write MachineMode 0 v (im_hart s) = (Inr (), h)"
  obtains t s' where "imsic_transport \<lparr>tp_command = TLM_WRITE_COMMAND, tp_address = 0, tp_data = le_bytes 4 (ucast v),
      tp_response = r\<rparr> s = (Inr t, s')" "im_hart s' = h" "imsic_mem_ok s'"
proof -
  have l: "length (im_mmio s) = 40960" using assms(1) by (simp add: imsic_mem_ok_def)
  obtain m where m: "store32 0 v (im_mmio s) = Inr m" using store32_total [of 0 "im_mmio s" v] l by auto
  have lm: "length m = 40960" using store32_length [OF m] l by simp
  have view: "view32 m 0 = Inr v" using load32_store32 [OF m] lm by (simp add: view32_def)
  let ?s' = "s\<lparr>im_mmio := m, im_hart := h\<rparr>"
  have wr: "memcpy_to (im_mmio s) 0 (le_bytes 4 (ucast v)) = Inr m" using m by (simp add: store32_def del: le_bytes_numeral)
  have "post_write_imsic_mmio 0 4 (s\<lparr>im_mmio := m\<rparr>) = (Inr (), ?s')"
    using view assms(2,3) by (simp add: post_write_imsic_mmio_def comb_defs on_hart_def Let_def im_files_def core_consts)
  then have "rr_write regs_imsic_mmio 0 (le_bytes 4 (ucast v)) s = (Inr (), ?s')"
    using wr l
    by (simp add: rr_write_def rr_in_bounds_def regs_imsic_mmio_def to_local_def rr_contains_def comb_defs im_size Let_def
        del: le_bytes_numeral)
  then have "imsic_transport \<lparr>tp_command = TLM_WRITE_COMMAND, tp_address = 0, tp_data = le_bytes 4 (ucast v),
      tp_response = r\<rparr> s = (Inr \<lparr>tp_command = TLM_WRITE_COMMAND, tp_address = 0, tp_data = le_bytes 4 (ucast v),
      tp_response = r\<rparr>, ?s')"
    by (simp add: imsic_transport_def rr_process_def rr_contains_def regs_imsic_mmio_def [abs_def] im_size comb_defs ensure_op_def
        del: le_bytes_numeral)
  then show ?thesis using that lm by (simp add: imsic_mem_ok_def)
qed

end
