(* ===== verification/VP_Aplic_Props.thy ===== *)
theory VP_Aplic_Props
  imports VP_Aplic VP_Imsic_Mem
begin

text \<open>
  What the platform interrupt controller guarantees: its registers keep their sizes and the pending and
  enable bits belong to sources that exist, whatever the bus writes; the next interrupt is the least
  source that is active, pending and enabled; and an interrupt a device raises reaches the interrupt
  file of the hart its \<^verbatim>\<open>target\<close> register selects.
\<close>

section \<open>Well-formed controllers\<close>

definition implemented :: "'e aplic_params \<Rightarrow> nat \<Rightarrow> bool" where
  "implemented p n \<longleftrightarrow> 1 \<le> n \<and> n < np_interrupts p"

definition word_ok :: "'e aplic_params \<Rightarrow> nat \<Rightarrow> u32 \<Rightarrow> bool" where
  "word_ok p idx v \<longleftrightarrow> (\<forall>k. bit v k \<longrightarrow> implemented p (32 * idx + k))"

definition words_ok :: "'e aplic_params \<Rightarrow> u32 list \<Rightarrow> bool" where
  "words_ok p ws \<longleftrightarrow> length ws = 32 \<and> (\<forall>idx < 32. word_ok p idx (ws ! idx))"

text \<open>Message delivery is the only mode, and the constant field of \<^verbatim>\<open>domaincfg\<close> is there.\<close>

definition domaincfg_ok :: "u8 list \<Rightarrow> bool" where
  "domaincfg_ok m \<longleftrightarrow> (\<exists>v. view32 m 0 = Inr v \<and> domaincfg_dm v = 1 \<and> drop_bit 24 v = 0x80 \<and> \<not> bit v 0)"

definition aplic_wf :: "'e aplic_params \<Rightarrow> 'e aplic \<Rightarrow> bool" where
  "aplic_wf p s \<longleftrightarrow> (\<forall>d r. length (ap_mem s d r) = 4 * aplic_elems p r) \<and>
     (\<forall>d. words_ok p (ap_ie_reg s d) \<and> words_ok p (ap_ip_reg s d)) \<and>
     (\<forall>d. domaincfg_ok (ap_mem s d Reg_domaincfg))"

lemma aplic_wf_mem: "aplic_wf p s \<Longrightarrow> length (ap_mem s d r) = 4 * aplic_elems p r"
  by (simp add: aplic_wf_def)

lemma words_ok_update:
  "words_ok p ws \<Longrightarrow> (idx < 32 \<Longrightarrow> word_ok p idx (ws ! idx) \<Longrightarrow> word_ok p idx v) \<Longrightarrow> words_ok p (ws[idx := v])"
  by (cases "idx < 32") (auto simp: words_ok_def nth_list_update)

lemma word_ok_and: "word_ok p idx v \<Longrightarrow> word_ok p idx (v AND w)"
  by (auto simp: word_ok_def bit_simps)

lemma word_ok_or: "word_ok p idx v \<Longrightarrow> word_ok p idx w \<Longrightarrow> word_ok p idx (v OR w)"
  by (auto simp: word_ok_def bit_simps)

lemma irq_split: "32 * irq_idx irq + irq_off irq = unat irq" "irq_off irq < 32"
  by (simp_all add: irq_idx_def irq_off_def unat_div unat_mod)

lemma word_ok_irq: "\<not> not_implemented p irq \<Longrightarrow> word_ok p (irq_idx irq) (aplic_bit (irq_off irq))"
  using irq_split [of irq]
  by (auto simp: word_ok_def implemented_def not_implemented_def aplic_bit_def bit_simps word_less_nat_alt Suc_le_eq)

section \<open>Operations keep controllers well-formed\<close>

named_theorems aplic_rules \<open>operations that keep a controller well-formed\<close>

lemma wf_put_reg:
  "aplic_wf p s \<Longrightarrow> length m = length (ap_mem s d r) \<Longrightarrow> r \<noteq> Reg_domaincfg \<Longrightarrow> aplic_wf p (put_reg d r m s)"
  by (auto simp: aplic_wf_def put_reg_def)

lemma wf_var [aplic_rules]:
  "preserves P (var_load d r a)" "preserves P (view_load d r i)"
  by (simp_all add: preserves_def var_load_def view_load_def comb_defs)

lemma wf_store [aplic_rules]:
  "r \<noteq> Reg_domaincfg \<Longrightarrow> preserves (aplic_wf p) (var_store d r a v)"
  "r \<noteq> Reg_domaincfg \<Longrightarrow> preserves (aplic_wf p) (view_store d r i v)"
  unfolding var_store_def view_store_def
  by (rule preserves_update_res, auto intro: wf_put_reg dest: store32_length set_view32_length)+

lemma wf_ip_update [aplic_rules]:
  "(\<And>s. aplic_wf p s \<Longrightarrow> idx < 32 \<Longrightarrow> word_ok p idx (ap_ip_reg s d ! idx) \<Longrightarrow> word_ok p idx (f s)) \<Longrightarrow> preserves (aplic_wf p) (get_op f (set_ip d idx))"
  by (auto simp: preserves_def comb_defs set_ip_def aplic_wf_def intro!: words_ok_update)

lemma wf_ie_update [aplic_rules]:
  "(\<And>s. aplic_wf p s \<Longrightarrow> idx < 32 \<Longrightarrow> word_ok p idx (ap_ie_reg s d ! idx) \<Longrightarrow> word_ok p idx (f s)) \<Longrightarrow> preserves (aplic_wf p) (get_op f (set_ie d idx))"
  by (auto simp: preserves_def comb_defs set_ie_def aplic_wf_def intro!: words_ok_update)

lemma wf_notify [aplic_rules]: "preserves (aplic_wf p) notify_run"
  unfolding notify_run_def by (rule preserves_modify) (simp add: aplic_wf_def)

lemma wf_set_and_show [aplic_rules]:
  assumes "r \<noteq> Reg_domaincfg"
  shows "(\<And>s. aplic_wf p s \<Longrightarrow> idx < 32 \<Longrightarrow> word_ok p idx (ap_ip_reg s d ! idx) \<Longrightarrow> word_ok p idx (f s)) \<Longrightarrow>
      preserves (aplic_wf p) (get_op f (\<lambda>v. seq_op (set_ip d idx v) (view_store d' r i v)))"
    "(\<And>s. aplic_wf p s \<Longrightarrow> idx < 32 \<Longrightarrow> word_ok p idx (ap_ie_reg s d ! idx) \<Longrightarrow> word_ok p idx (g s)) \<Longrightarrow>
      preserves (aplic_wf p) (get_op g (\<lambda>v. seq_op (set_ie d idx v) (view_store d' r i v)))"
proof -
  have after: "preserves (aplic_wf p) (get_op h (\<lambda>v. seq_op (k v) (view_store d' r i v)))"
    if "preserves (aplic_wf p) (get_op h k)" for h and k :: "u32 \<Rightarrow> ('a aplic, unit) op"
  proof (unfold preserves_def, intro allI impI)
    fix s assume "aplic_wf p s"
    then have "aplic_wf p (snd (k (h s) s))" using preserves_snd [OF that] by (simp add: get_op_def)
    then show "aplic_wf p (snd (get_op h (\<lambda>v. seq_op (k v) (view_store d' r i v)) s))"
      using preserves_snd [OF wf_store(2) [OF assms]]
      by (auto simp: get_op_def seq_op_def bind_op_def split: prod.splits sum.splits)
  qed
  show "preserves (aplic_wf p) (get_op f (\<lambda>v. seq_op (set_ip d idx v) (view_store d' r i v)))"
    if "\<And>s. aplic_wf p s \<Longrightarrow> idx < 32 \<Longrightarrow> word_ok p idx (ap_ip_reg s d ! idx) \<Longrightarrow> word_ok p idx (f s)"
    using after [OF wf_ip_update [OF that]] by simp
  show "preserves (aplic_wf p) (get_op g (\<lambda>v. seq_op (set_ie d idx v) (view_store d' r i v)))"
    if "\<And>s. aplic_wf p s \<Longrightarrow> idx < 32 \<Longrightarrow> word_ok p idx (ap_ie_reg s d ! idx) \<Longrightarrow> word_ok p idx (g s)"
    using after [OF wf_ie_update [OF that]] by simp
qed

lemma wf_source_is_inactive [aplic_rules]: "preserves P (source_is_inactive p d irq)"
  unfolding source_is_inactive_def by (intro preserves_rules aplic_rules)

lemma wf_pending_bits [aplic_rules]:
  "\<not> not_implemented p irq \<Longrightarrow> preserves (aplic_wf p) (set_pending_bit d irq)"
  "preserves (aplic_wf p) (clear_pending_bit d irq)"
  unfolding set_pending_bit_def clear_pending_bit_def
  by (intro aplic_rules word_ok_or word_ok_and word_ok_irq; simp)+

lemma wf_update_enable [aplic_rules]:
  "(\<And>v. word_ok p idx v \<Longrightarrow> word_ok p idx (f v)) \<Longrightarrow> preserves (aplic_wf p) (update_enable idx f)"
  unfolding update_enable_def Let_def by (intro aplic_rules) simp_all

lemma source_is_inactive_state: "source_is_inactive p d irq s = (r, s') \<Longrightarrow> s' = s"
  using preservesD [OF wf_source_is_inactive [of "\<lambda>t. t = s"] refl] by blast

lemma bit_aplic_bit [simp]: "bit (aplic_bit n) k \<longleftrightarrow> k = n \<and> n < 32"
  by (auto simp: aplic_bit_def bit_simps)

lemma bit_aplic_bit_minus [simp]: "n < 32 \<Longrightarrow> bit (aplic_bit n - 1) k \<longleftrightarrow> k < n"
proof -
  have "aplic_bit n - 1 = mask n" by (simp add: aplic_bit_def mask_eq_exp_minus_1 push_bit_eq_mult)
  then show "n < 32 \<Longrightarrow> bit (aplic_bit n - 1) k \<longleftrightarrow> k < n" by (auto simp: bit_simps)
qed

lemma aplic_bit_and: "n < 32 \<Longrightarrow> v AND aplic_bit n = 0 \<longleftrightarrow> \<not> bit v n"
  by (auto simp: bit_eq_iff [of "v AND aplic_bit n"] bit_simps)

lemma mask_active_result:
  "mask_active p idx ids v s = (Inr v', s') \<Longrightarrow> set ids \<subseteq> {..<32} \<Longrightarrow> sorted_wrt (<) ids \<Longrightarrow> idx < 32 \<Longrightarrow>
     s' = s \<and> (\<forall>k. bit v' k \<longrightarrow> bit v k \<and> (k \<in> set ids \<longrightarrow> implemented p (32 * unat idx + k)))"
proof (induction ids arbitrary: v)
  case (Cons ii ids)
  let ?irq = "of_nat ii + 32 * idx"
  have irq: "unat ?irq = 32 * unat idx + ii" "?irq = 0 \<longleftrightarrow> 32 * unat idx + ii = 0"
    using Cons.prems(2,4) by (auto simp: unat_eq_0 [symmetric] unat_word_ariths unat_of_nat word_less_nat_alt)
  have rest: "set ids \<subseteq> {..<32}" "sorted_wrt (<) ids" "ii < 32" "\<forall>k \<in> set ids. ii < k" using Cons.prems(2,3) by auto
  note step = Cons.prems(1) [unfolded mask_active.simps Let_def]
  note IH = Cons.IH [OF _ rest(1,2) Cons.prems(4)]
  consider "\<not> bit v ii" | "bit v ii" "?irq = 0" | "bit v ii" "?irq \<noteq> 0" "unat ?irq \<ge> np_interrupts p"
    | "bit v ii" "?irq \<noteq> 0" "unat ?irq < np_interrupts p" by linarith
  then show ?case
  proof cases
    case 1
    then show ?thesis using step IH [of v] rest(3) by (auto simp: aplic_bit_and)
  next
    case 2
    then show ?thesis
      using step IH [of "v AND NOT (aplic_bit 0)"] rest(3) irq(2) by (auto simp: aplic_bit_and bit_simps)
  next
    case 3
    then show ?thesis using step rest by (auto simp: aplic_bit_and bit_simps op_run)
  next
    case 4
    then obtain b where "mask_active p idx ids (if b then v AND NOT (aplic_bit ii) else v) s = (Inr v', s')"
      using step rest(3) by (auto simp: aplic_bit_and op_run dest!: source_is_inactive_state)
    from IH [OF this] 4 irq show ?thesis
      by (auto simp: implemented_def bit_simps split: if_splits)
  qed
qed (simp add: comb_defs)

lemma preserves_bind_result:
  assumes "preserves P f" "\<And>s a s'. f s = (Inr a, s') \<Longrightarrow> Q a" "\<And>a. Q a \<Longrightarrow> preserves P (g a)"
  shows "preserves P (bind_op f g)"
  using assms by (fastforce simp: preserves_def bind_op_def split: prod.splits sum.splits)

lemma wf_mask_active [aplic_rules]: "preserves P (mask_active p idx ids v)"
  by (induction ids arbitrary: v) (simp_all add: preserves_rules aplic_rules Let_def)

lemma wf_bind_mask_active:
  assumes "idx < 32" "\<And>v'. word_ok p (unat idx) v' \<Longrightarrow> preserves P (g v')"
  shows "preserves P (bind_op (mask_active p idx [0..<32] v) g)"
proof (rule preserves_bind_result [where Q = "word_ok p (unat idx)"])
  fix s v' s' assume "mask_active p idx [0..<32] v s = (Inr v', s')"
  from mask_active_result [OF this _ _ assms(1)] show "word_ok p (unat idx) v'"
    using bit_imp_le_length [of v'] by (fastforce simp: word_ok_def lessThan_atLeast0)
qed (auto intro: wf_mask_active assms(2))

lemma preserves_assert_seq: "(b \<Longrightarrow> preserves P f) \<Longrightarrow> preserves P (seq_op (assert_op b) f)"
  by (cases b) (simp_all add: preserves_def comb_defs)

lemma wf_send_msi [aplic_rules]: "preserves (aplic_wf p) (send_msi p' addr v)"
  by (auto simp: preserves_def send_msi_def aplic_wf_def split: prod.splits sum.splits)

lemma wf_target_address [aplic_rules]: "preserves P (get_m_target_address p' h)" "preserves P (get_s_target_address p' h g)"
  unfolding get_m_target_address_def get_s_target_address_def Let_def by (intro preserves_rules aplic_rules)+

lemma wf_msi [aplic_rules]:
  "preserves (aplic_wf p) (msi_clr_pending p d irq)" "preserves (aplic_wf p) (msi_write p d irq)"
proof -
  show c: "preserves (aplic_wf p) (msi_clr_pending p d irq)"
    unfolding msi_clr_pending_def Let_def by (intro preserves_rules aplic_rules)
  show "preserves (aplic_wf p) (msi_write p d irq)"
    unfolding msi_write_def by (intro preserves_rules aplic_rules c)
qed

lemma wf_search_pending [aplic_rules]: "preserves P (search_pending p d ids)"
  by (induction ids) (simp_all add: preserves_rules aplic_rules)

lemma wf_aplic_run: "preserves (aplic_wf p) (aplic_run p)"
  unfolding aplic_run_def hart_get_next_pending_interrupt_def
  by (intro preserves_rules aplic_rules preserves_modify) (simp add: aplic_wf_def)

lemma wf_gateway: "preserves (aplic_wf p) (gateway_trigger_interrupt p irq)"
  unfolding gateway_trigger_interrupt_def by (intro preserves_rules aplic_rules) 

lemma wf_post_write:
  assumes "r \<noteq> Reg_domaincfg"
  shows "preserves (aplic_wf p) (aplic_post_write p d r a n)"
proof (cases r)
  case Reg_sourcecfg
  then show ?thesis unfolding aplic_post_write_def post_write_sourcecfg_def Let_def
    by simp (intro preserves_rules aplic_rules word_ok_and; simp)
next
  case Reg_setip
  then show ?thesis unfolding aplic_post_write_def post_write_setip_def Let_def
    by simp (intro preserves_bind aplic_rules preserves_assert_seq wf_bind_mask_active preserves_when preserves_seq word_ok_or; simp)
next
  case Reg_setie
  then show ?thesis unfolding aplic_post_write_def post_write_setie_def Let_def
    by simp (intro preserves_bind aplic_rules preserves_assert_seq wf_bind_mask_active preserves_when preserves_seq preserves_get word_ok_or; simp)
next
  case Reg_in_clrip
  then show ?thesis unfolding aplic_post_write_def post_write_in_clrip_def Let_def
    by simp (intro preserves_rules aplic_rules word_ok_and; simp)
qed (use assms in \<open>simp_all add: aplic_post_write_def xmsiaddrcfg_callback_def post_write_xmsiaddrcfg_def post_write_setipnum_def
    post_write_clripnum_def post_write_setienum_def post_write_clrie_def post_write_clrienum_def post_write_setipnum_le_def
    post_write_setipnum_be_def post_write_genmsi_def post_write_target_def Let_def preserves_rules aplic_rules word_ok_or word_ok_and word_ok_irq\<close>)

lemma domaincfg_value:
  fixes tmp :: u32
  defines "v \<equiv> aplic_bit DOMAINCFG_DM_BIT OR (tmp AND push_bit DOMAINCFG_IE_BIT 0x1) OR push_bit DOMAINCFG_RO80_BIT 0x80"
  shows "domaincfg_dm v = 1" "drop_bit 24 v = 0x80" "\<not> bit v 0"
  by (simp_all add: v_def aplic_fields drop_bit_or drop_bit_and bit.conj_disj_distrib2 and.assoc bit_simps)

lemma domaincfg_written:
  assumes "aplic_wf p s" "memcpy_to (ap_mem s d Reg_domaincfg) (unat a) src = Inr m"
    and "post_write_domainconfig d a (put_reg d Reg_domaincfg m s) = (Inr (), s')"
  shows "aplic_wf p s'"
proof -
  have l: "length m = 4"
    using memcpy_to_length [OF assms(2)] aplic_wf_mem [OF assms(1), of d Reg_domaincfg] by (simp add: aplic_elems_def)
  obtain tmp m' where m': "store32 (unat a) (aplic_bit DOMAINCFG_DM_BIT OR (tmp AND push_bit DOMAINCFG_IE_BIT 0x1)
      OR push_bit DOMAINCFG_RO80_BIT 0x80) m = Inr m'" "s' = put_reg d Reg_domaincfg m' s"
    using assms(3) by (auto simp: post_write_domainconfig_def var_load_def var_store_def op_run put_reg_def)
  have a: "unat a = 0" using m'(1) l by (auto simp: store32_def memcpy_to_def split: if_splits)
  have "domaincfg_ok m'"
    using load32_store32 [OF m'(1)] store32_length [OF m'(1)] l unfolding a
    by (simp add: domaincfg_ok_def view32_def domaincfg_value [simplified])
  then show ?thesis
    using assms(1) store32_length [OF m'(1)] l m'(2) aplic_wf_mem [OF assms(1), of d Reg_domaincfg]
    by (simp add: aplic_wf_def put_reg_def aplic_elems_def)
qed

lemma wf_written:
  assumes "aplic_wf p s" "memcpy_to (ap_mem s d r) (unat a) src = Inr m"
    and "aplic_post_write p d r a n (put_reg d r m s) = (Inr (), s')"
  shows "aplic_wf p s'"
proof (cases "r = Reg_domaincfg")
  case True
  then show ?thesis using assms domaincfg_written [OF assms(1)] by (simp add: aplic_post_write_def)
next
  case False
  then show ?thesis
    using preservesD [OF wf_post_write [OF False] _ assms(3)] wf_put_reg [OF assms(1) _ False] memcpy_to_length [OF assms(2)]
    by blast
qed

lemma wf_pre_read: "preserves (aplic_wf p) (aplic_pre_read d r a n)"
  unfolding aplic_pre_read_def pre_read_setip_def pre_read_in_clrip_def pre_read_setie_def Let_def
  by (cases r) (simp_all, (intro preserves_rules aplic_rules; simp)+)

text \<open>
  The controller is a peripheral built from register ranges: its transactions keep it well-formed,
  and it meets the contract of a target of the bus.
\<close>

interpretation aplic: register_ranges "''APLIC''" "register_ranges_of p :: 'e aplic RegisterRange list" "aplic_wf p"
  for p :: "'e aplic_params"
  by unfold_locales
    (auto simp: register_ranges_of_def aplic_range_def Let_def op_run dest: wf_written preservesD [OF wf_pre_read])

lemma aplic_init_wf: "aplic_wf p (aplic_init p env)"
proof -
  have "domaincfg_ok (le_bytes 4 (ucast domaincfg_reset))"
    by (simp add: domaincfg_ok_def view32_def load32_def memcpy_from_def domaincfg_reset_def aplic_fields)
  moreover have "length (init_reg p d r) = 4 * aplic_elems p r" for d r
    by (cases r) (simp_all add: init_reg_def aplic_elems_def)
  ultimately show ?thesis
    by (simp add: aplic_wf_def aplic_init_def words_ok_def word_ok_def init_reg_def)
qed

section \<open>The next interrupt\<close>

text \<open>The value of an element of a register range.\<close>

definition reg32 :: "'e aplic \<Rightarrow> nat \<Rightarrow> aplic_reg \<Rightarrow> nat \<Rightarrow> u32" where
  "reg32 s d r i = (case view32 (ap_mem s d r) i of Inr v \<Rightarrow> v | Inl _ \<Rightarrow> 0)"

definition source_active :: "'e aplic \<Rightarrow> nat \<Rightarrow> nat \<Rightarrow> bool" where
  "source_active s d n \<longleftrightarrow> SM_EDGE1 \<le> sourcecfg_sm (reg32 s d Reg_sourcecfg (n - 1)) \<and> sourcecfg_d (reg32 s d Reg_sourcecfg (n - 1)) = 0"

definition source_bit :: "u32 list \<Rightarrow> nat \<Rightarrow> bool" where
  "source_bit ws n \<longleftrightarrow> bit (ws ! (n div 32)) (n mod 32)"

text \<open>What the specification calls pending and enabled, for an active source.\<close>

definition deliverable :: "'e aplic_params \<Rightarrow> 'e aplic \<Rightarrow> nat \<Rightarrow> bool" where
  "deliverable p s n \<longleftrightarrow> implemented p n \<and> source_active s APLIC_M_DOMAIN n \<and>
     source_bit (ap_ie_reg s APLIC_M_DOMAIN) n \<and> source_bit (ap_ip_reg s APLIC_M_DOMAIN) n"

lemma view_load_wf:
  assumes "aplic_wf p s" "i < aplic_elems p r"
  shows "view_load d r i s = (Inr (reg32 s d r i), s)"
proof -
  have "4 * i + 4 \<le> length (ap_mem s d r)" using assms(2) by (simp add: aplic_wf_mem [OF assms(1)])
  from view32_total [OF this] show ?thesis by (auto simp: view_load_def comb_defs reg32_def)
qed

lemma implemented_word:
  assumes "aplic_bounds p" "implemented p n"
  shows "unat (of_nat n :: u32) = n" "\<not> not_implemented p (of_nat n)" "irq_idx (of_nat n) = n div 32"
    "irq_off (of_nat n) = n mod 32" "unat (of_nat n - 1 :: u32) = n - 1" "(of_nat n :: u32) > 0"
proof -
  have n: "n < 1024" "1 \<le> n" using assms by (auto simp: aplic_bounds_def implemented_def)
  then show u: "unat (of_nat n :: u32) = n" by (simp add: unat_of_nat)
  show "\<not> not_implemented p (of_nat n)" "(of_nat n :: u32) > 0"
    using assms(2) n u by (auto simp: not_implemented_def implemented_def word_less_nat_alt)
  show "irq_idx (of_nat n) = n div 32" "irq_off (of_nat n) = n mod 32"
    by (simp_all add: irq_idx_def irq_off_def unat_div unat_mod u)
  show "unat (of_nat n - 1 :: u32) = n - 1" using n u by (simp add: unat_minus_one unat_gt_0 [symmetric])
qed

lemma source_is_inactive_wf:
  assumes "aplic_wf p s" "aplic_bounds p" "implemented p n"
  shows "source_is_inactive p d (of_nat n) s = (Inr (\<not> source_active s d n), s)"
proof -
  have "n - 1 < aplic_elems p Reg_sourcecfg" using assms(3) by (auto simp: aplic_elems_def implemented_def)
  then show ?thesis
    using implemented_word [OF assms(2,3)] view_load_wf [OF assms(1)]
    by (auto simp: source_is_inactive_def comb_defs source_active_def not_le)
qed

lemma is_pending_interrupt_wf:
  assumes "aplic_bounds p" "implemented p n"
  shows "is_pending_interrupt p d (of_nat n) s \<longleftrightarrow> source_bit (ap_ie_reg s d) n \<and> source_bit (ap_ip_reg s d) n"
  using implemented_word [OF assms] by (auto simp: is_pending_interrupt_def source_bit_def aplic_bit_and)

lemma search_pending_wf:
  assumes "aplic_wf p s" "aplic_bounds p" "\<forall>n \<in> set ns. implemented p n"
  shows "search_pending p APLIC_M_DOMAIN (map of_nat ns) s =
     (Inr (case find (deliverable p s) ns of Some n \<Rightarrow> of_nat n | None \<Rightarrow> 0), s)"
  using assms(3)
proof (induction ns)
  case (Cons n ns)
  then show ?case
    using source_is_inactive_wf [OF assms(1,2), of n APLIC_M_DOMAIN] is_pending_interrupt_wf [OF assms(2), of n APLIC_M_DOMAIN s]
    by (auto simp: comb_defs deliverable_def)
qed (simp add: comb_defs)

lemma domaincfg_dm_wf: "aplic_wf p s \<Longrightarrow> domaincfg_dm (reg32 s d Reg_domaincfg 0) = 1"
  using domaincfg_ok_def [of "ap_mem s d Reg_domaincfg"] by (auto simp: aplic_wf_def reg32_def)

definition interrupts_enabled :: "'e aplic \<Rightarrow> bool" where
  "interrupts_enabled s \<longleftrightarrow> domaincfg_ie (reg32 s APLIC_M_DOMAIN Reg_domaincfg 0) \<noteq> 0"

lemma next_pending_wf:
  assumes "aplic_wf p s" "aplic_bounds p"
  shows "hart_get_next_pending_interrupt p APLIC_M_DOMAIN s =
     (Inr (if interrupts_enabled s then (case find (deliverable p s) [1..<np_interrupts p] of Some n \<Rightarrow> of_nat n | None \<Rightarrow> 0) else 0), s)"
proof -
  have "\<forall>n \<in> set [1..<np_interrupts p]. implemented p n" by (simp add: implemented_def)
  from search_pending_wf [OF assms this] view_load_wf [OF assms(1), of 0 Reg_domaincfg APLIC_M_DOMAIN] domaincfg_dm_wf [OF assms(1)]
  show ?thesis
    by (simp add: hart_get_next_pending_interrupt_def source_ids_def interrupts_enabled_def comb_defs aplic_elems_def)
qed

section \<open>Delivery\<close>

lemma reg32_simps [simp]:
  "reg32 (s\<lparr>ap_e_run := b\<rparr>) d r i = reg32 s d r i" "reg32 (s\<lparr>ap_env := e\<rparr>) d r i = reg32 s d r i"
  "reg32 (s\<lparr>ap_ip_reg := ip\<rparr>) d r i = reg32 s d r i"
  "r' \<noteq> r \<Longrightarrow> reg32 (put_reg d' r' m s) d r i = reg32 s d r i"
  by (simp_all add: reg32_def put_reg_def)

lemma aplic_wf_updates [simp]:
  "aplic_wf p (s\<lparr>ap_e_run := b\<rparr>) = aplic_wf p s" "aplic_wf p (s\<lparr>ap_env := e\<rparr>) = aplic_wf p s"
  by (simp_all add: aplic_wf_def)

text \<open>A change of a word of pending bits, which is also shown in \<^verbatim>\<open>setip\<close>.\<close>

definition pending_frame :: "'e aplic \<Rightarrow> 'e aplic \<Rightarrow> bool" where
  "pending_frame s s' \<longleftrightarrow> ap_env s' = ap_env s \<and> ap_e_run s' = ap_e_run s \<and> ap_ie_reg s' = ap_ie_reg s \<and>
     (\<forall>d r i. r \<noteq> Reg_setip \<longrightarrow> reg32 s' d r i = reg32 s d r i)"

lemma update_pending_wf:
  assumes "aplic_wf p s" "idx < 32"
  obtains s' where "seq_op (set_ip d idx v) (view_store d Reg_setip idx v) s = (Inr (), s')" "pending_frame s s'"
    "\<forall>j < 1024. source_bit (ap_ip_reg s' d) j \<longleftrightarrow> (if j div 32 = idx then bit v (j mod 32) else source_bit (ap_ip_reg s d) j)"
proof -
  have "4 * idx + 4 \<le> length (ap_mem s d Reg_setip)"
    using assms(2) by (simp add: aplic_wf_mem [OF assms(1)] aplic_elems_def)
  from set_view32_total [OF this] obtain m where m: "set_view32 idx v (ap_mem s d Reg_setip) = Inr m" by blast
  let ?s' = "put_reg d Reg_setip m (s\<lparr>ap_ip_reg := (ap_ip_reg s)(d := (ap_ip_reg s d)[idx := v])\<rparr>)"
  have "length (ap_ip_reg s d) = 32" using assms(1) by (simp add: aplic_wf_def words_ok_def)
  then have "\<forall>j < 1024. source_bit (ap_ip_reg ?s' d) j \<longleftrightarrow> (if j div 32 = idx then bit v (j mod 32) else source_bit (ap_ip_reg s d) j)"
    using assms(2) by (simp add: source_bit_def put_reg_def nth_list_update)
  moreover have "pending_frame s ?s'" by (simp add: pending_frame_def) (simp add: put_reg_def)
  ultimately show ?thesis using that m by (simp add: comb_defs set_ip_def view_store_def)
qed

lemma implemented_idx: "aplic_bounds p \<Longrightarrow> implemented p n \<Longrightarrow> n div 32 < 32"
  by (auto simp: aplic_bounds_def implemented_def intro: less_mult_imp_div_less)

lemma same_source: "j div 32 = n div 32 \<Longrightarrow> j mod 32 = n mod 32 \<longleftrightarrow> j = (n :: nat)"
  by (metis div_mult_mod_eq)

lemma clear_pending_wf:
  assumes "aplic_wf p s" "aplic_bounds p" "implemented p n"
  obtains s' where "clear_pending_bit d (of_nat n) s = (Inr (), s')" "aplic_wf p s'" "pending_frame s s'"
    "\<forall>j < 1024. source_bit (ap_ip_reg s' d) j \<longleftrightarrow> source_bit (ap_ip_reg s d) j \<and> j \<noteq> n"
proof -
  have n: "n div 32 < 32" by (rule implemented_idx [OF assms(2,3)])
  note w = implemented_word [OF assms(2,3)]
  let ?v = "ap_ip_reg s d ! (n div 32) AND NOT (aplic_bit (n mod 32))"
  obtain s' where s': "seq_op (set_ip d (n div 32) ?v) (view_store d Reg_setip (n div 32) ?v) s = (Inr (), s')" "pending_frame s s'"
    "\<forall>j < 1024. source_bit (ap_ip_reg s' d) j \<longleftrightarrow> (if j div 32 = n div 32 then bit ?v (j mod 32) else source_bit (ap_ip_reg s d) j)"
    by (rule update_pending_wf [OF assms(1) n, of d ?v])
  have run: "clear_pending_bit d (of_nat n) s = (Inr (), s')"
    using s'(1) by (simp add: clear_pending_bit_def get_op_def w)
  have "\<forall>j < 1024. source_bit (ap_ip_reg s' d) j \<longleftrightarrow> source_bit (ap_ip_reg s d) j \<and> j \<noteq> n"
    using s'(3) same_source [of _ n] by (auto simp: bit_simps source_bit_def)
  with that run preservesD [OF wf_pending_bits(2) assms(1) run] s'(2) show ?thesis by blast
qed

lemma set_pending_wf:
  assumes "aplic_wf p s" "aplic_bounds p" "implemented p n"
  obtains s' where "set_pending_bit d (of_nat n) s = (Inr (), s')" "aplic_wf p s'" "pending_frame s s'"
    "\<forall>j < 1024. source_bit (ap_ip_reg s' d) j \<longleftrightarrow> source_bit (ap_ip_reg s d) j \<or> j = n"
proof -
  have n: "n div 32 < 32" by (rule implemented_idx [OF assms(2,3)])
  note w = implemented_word [OF assms(2,3)]
  let ?v = "ap_ip_reg s d ! (n div 32) OR aplic_bit (n mod 32)"
  obtain s' where s': "seq_op (set_ip d (n div 32) ?v) (view_store d Reg_setip (n div 32) ?v) s = (Inr (), s')" "pending_frame s s'"
    "\<forall>j < 1024. source_bit (ap_ip_reg s' d) j \<longleftrightarrow> (if j div 32 = n div 32 then bit ?v (j mod 32) else source_bit (ap_ip_reg s d) j)"
    by (rule update_pending_wf [OF assms(1) n, of d ?v])
  have run: "set_pending_bit d (of_nat n) s = (Inr (), s')"
    using s'(1) by (simp add: set_pending_bit_def get_op_def w)
  have "\<forall>j < 1024. source_bit (ap_ip_reg s' d) j \<longleftrightarrow> source_bit (ap_ip_reg s d) j \<or> j = n"
    using s'(3) same_source [of _ n] by (auto simp: bit_simps source_bit_def)
  with that run preservesD [OF wf_pending_bits(1) assms(1) run] w(2) s'(2) show ?thesis by blast
qed

lemma pending_frame_facts:
  assumes "pending_frame s s'"
  shows "source_active s' d n = source_active s d n" "interrupts_enabled s' = interrupts_enabled s"
    "ap_ie_reg s' = ap_ie_reg s" "ap_env s' = ap_env s" "ap_e_run s' = ap_e_run s"
    "reg32 s' d Reg_target i = reg32 s d Reg_target i" "reg32 s' d Reg_sourcecfg i = reg32 s d Reg_sourcecfg i"
    "reg32 s' d Reg_mmsiaddrcfg i = reg32 s d Reg_mmsiaddrcfg i" "reg32 s' d Reg_mmsiaddrcfgh i = reg32 s d Reg_mmsiaddrcfgh i"
  using assms by (auto simp: pending_frame_def source_active_def interrupts_enabled_def)

text \<open>The message of a source: the address of the interrupt file of its hart and its identity there.\<close>

definition source_target :: "'e aplic \<Rightarrow> nat \<Rightarrow> u32" where
  "source_target s n = reg32 s APLIC_M_DOMAIN Reg_target (n - 1)"

definition edge_sensitive :: "'e aplic \<Rightarrow> nat \<Rightarrow> bool" where
  "edge_sensitive s n \<longleftrightarrow> sourcecfg_sm (reg32 s APLIC_M_DOMAIN Reg_sourcecfg (n - 1)) \<in> {SM_EDGE0, SM_EDGE1}"

lemma msi_clr_pending_wf:
  assumes "aplic_wf p s" "aplic_bounds p" "implemented p n"
  obtains s' where "msi_clr_pending p APLIC_M_DOMAIN (of_nat n) s = (Inr (), s')" "aplic_wf p s'" "pending_frame s s'"
    "\<forall>j < 1024. source_bit (ap_ip_reg s' APLIC_M_DOMAIN) j \<longleftrightarrow> source_bit (ap_ip_reg s APLIC_M_DOMAIN) j \<and> (j = n \<longrightarrow> \<not> edge_sensitive s n)"
proof -
  have "n - 1 < aplic_elems p Reg_sourcecfg" using assms(3) by (auto simp: aplic_elems_def implemented_def)
  note run = view_load_wf [OF assms(1) this, of APLIC_M_DOMAIN] implemented_word [OF assms(2,3)]
  show ?thesis
  proof (cases "edge_sensitive s n")
    case True
    obtain s' where "clear_pending_bit APLIC_M_DOMAIN (of_nat n) s = (Inr (), s')" "aplic_wf p s'" "pending_frame s s'"
      "\<forall>j < 1024. source_bit (ap_ip_reg s' APLIC_M_DOMAIN) j \<longleftrightarrow> source_bit (ap_ip_reg s APLIC_M_DOMAIN) j \<and> j \<noteq> n"
      by (rule clear_pending_wf [OF assms, of APLIC_M_DOMAIN])
    then show ?thesis using that run True by (auto simp: msi_clr_pending_def edge_sensitive_def comb_defs Let_def)
  next
    case False
    then show ?thesis
      using that [of s] run assms(1) by (auto simp: msi_clr_pending_def edge_sensitive_def comb_defs Let_def pending_frame_def)
  qed
qed

lemma find_least:
  "P n \<Longrightarrow> a \<le> n \<Longrightarrow> n < b \<Longrightarrow> (\<And>m. a \<le> m \<Longrightarrow> m < n \<Longrightarrow> \<not> P m) \<Longrightarrow> find P [a..<b] = Some (n :: nat)"
  by (auto simp: find_upt_Some)

lemma aplic_run_delivers:
  assumes wf: "aplic_wf p s" "aplic_bounds p" and on: "interrupts_enabled s"
    and n: "deliverable p s n" "\<And>m. m < n \<Longrightarrow> \<not> deliverable p s m"
    and addr: "get_m_target_address p (targets_hartind (source_target s n)) (s\<lparr>ap_e_run := False\<rparr>) = (Inr addr, s\<lparr>ap_e_run := False\<rparr>)"
    and env: "np_isock p (msi_payload addr (targets_eiid (source_target s n))) (ap_env s) = (Inr t, env)"
  obtains s' where "aplic_run p s = (Inr (), s')" "aplic_wf p s'" "ap_env s' = env" "\<not> ap_e_run s'"
    "\<forall>j < 1024. source_bit (ap_ip_reg s' APLIC_M_DOMAIN) j \<longleftrightarrow>
       source_bit (ap_ip_reg s APLIC_M_DOMAIN) j \<and> (j = n \<longrightarrow> \<not> edge_sensitive s n)"
proof -
  have imp: "implemented p n" and act: "source_active s APLIC_M_DOMAIN n" using n(1) by (auto simp: deliverable_def)
  note w = implemented_word [OF wf(2) imp]
  let ?s0 = "s\<lparr>ap_e_run := False\<rparr>" and ?s1 = "s\<lparr>ap_e_run := False, ap_env := env\<rparr>"
  have wf0: "aplic_wf p ?s0" using wf(1) by simp
  have d: "deliverable p ?s0 = deliverable p s" by (auto simp: fun_eq_iff deliverable_def source_active_def)
  have "find (deliverable p s) [1..<np_interrupts p] = Some n"
    using n imp by (intro find_least) (auto simp: implemented_def)
  then have nxt: "hart_get_next_pending_interrupt p APLIC_M_DOMAIN ?s0 = (Inr (of_nat n), ?s0)"
    using next_pending_wf [OF wf0 wf(2)] on by (simp add: d interrupts_enabled_def)
  have inact: "source_is_inactive p APLIC_M_DOMAIN (of_nat n) ?s0 = (Inr False, ?s0)"
    using source_is_inactive_wf [OF wf0 wf(2) imp] act by (simp add: source_active_def)
  have "n - 1 < aplic_elems p Reg_target" using imp wf(2) by (auto simp: aplic_elems_def implemented_def aplic_bounds_def)
  from view_load_wf [OF wf0 this, of APLIC_M_DOMAIN]
  have tgt: "view_load APLIC_M_DOMAIN Reg_target (unat (of_nat n - 1 :: u32)) ?s0 = (Inr (source_target s n), ?s0)"
    by (simp add: w source_target_def)
  obtain s' where s': "msi_clr_pending p APLIC_M_DOMAIN (of_nat n) ?s1 = (Inr (), s')" "aplic_wf p s'" "pending_frame ?s1 s'"
    "\<forall>j < 1024. source_bit (ap_ip_reg s' APLIC_M_DOMAIN) j \<longleftrightarrow> source_bit (ap_ip_reg ?s1 APLIC_M_DOMAIN) j \<and> (j = n \<longrightarrow> \<not> edge_sensitive ?s1 n)"
    by (rule msi_clr_pending_wf [OF _ wf(2) imp, of ?s1]) (use wf(1) in simp)
  have "msi_write p APLIC_M_DOMAIN (of_nat n) ?s0 = (Inr (), s')"
    using inact tgt addr env s'(1) w(2) by (simp add: msi_write_def comb_defs send_msi_def)
  then have "aplic_run p s = (Inr (), s')"
    using nxt w(6) by (simp add: aplic_run_def comb_defs)
  then show ?thesis using that s'(2,4) pending_frame_facts [OF s'(3)] by (simp add: edge_sensitive_def)
qed

section \<open>From a device to a hart\<close>

text \<open>
  The platform's wiring: the initiator socket of the controller is bound to a bus, and the interrupt files
  of a hart are a target of this bus (\<^verbatim>\<open>platform/basic/main.cpp\<close>).
\<close>

definition bus_isock :: "payload \<Rightarrow> ('p imsic_mem SimpleBus, payload) op" where
  "bus_isock t b = (case bus_transport (op_target imsic_transport) b t of
     Inl e \<Rightarrow> (Inl e, b) | Inr (b', t') \<Rightarrow> (Inr t', b'))"

definition imsic_port :: "'p imsic_mem SimpleBus \<Rightarrow> nat \<Rightarrow> bool" where
  "imsic_port b k \<longleftrightarrow> k < length (bus_targets b) \<and> bus_decode b 0x31000000 = int k \<and>
     pm_start (bus_ports b ! k) = 0x31000000 \<and> imsic_mem_ok (bus_targets b ! k)"

definition port_hart :: "'p imsic_mem SimpleBus \<Rightarrow> nat \<Rightarrow> 'p iss" where
  "port_hart b k = im_hart (bus_targets b ! k)"

lemma bus_isock_m:
  assumes "imsic_port b k" "v AND max_imsic_iid = v" "route_imsic_write MachineMode 0 v (port_hart b k) = (Inr (), h)"
  obtains t b' where "bus_isock (msi_payload 0x31000000 v) b = (Inr t, b')" "port_hart b' k = h"
proof -
  have ok: "imsic_mem_ok (bus_targets b ! k)" using assms(1) by (simp add: imsic_port_def)
  obtain t d where "imsic_transport \<lparr>tp_command = TLM_WRITE_COMMAND, tp_address = 0, tp_data = le_bytes 4 (ucast v),
      tp_response = TLM_OK_RESPONSE\<rparr> (bus_targets b ! k) = (Inr t, d)" "im_hart d = h"
    by (rule imsic_write_m [OF ok assms(2) assms(3) [unfolded port_hart_def]])
  then show ?thesis
    using that assms(1)
    by (simp add: bus_isock_def bus_transport_def imsic_port_def msi_payload_def op_target_def global_to_local_def
        port_hart_def del: le_bytes_numeral)
qed

text \<open>The reset values of \<^verbatim>\<open>mmsiaddrcfg\<close> and \<^verbatim>\<open>mmsiaddrcfgh\<close> give the page of hart 0.\<close>

definition reset_msi_address :: "'e aplic \<Rightarrow> bool" where
  "reset_msi_address s \<longleftrightarrow> reg32 s APLIC_M_DOMAIN Reg_mmsiaddrcfg 0 = drop_bit APLIC_PAGE_BITS IMSIC_HART0_M_IFILE \<and>
     reg32 s APLIC_M_DOMAIN Reg_mmsiaddrcfgh 0 = 0"

lemma hart_0_address:
  assumes "aplic_wf p s" "reset_msi_address s" "0 < np_cores p"
  shows "get_m_target_address p 0 s = (Inr 0x31000000, s)"
  using assms(2,3) view_load_wf [OF assms(1), of 0 Reg_mmsiaddrcfg APLIC_M_DOMAIN] view_load_wf [OF assms(1), of 0 Reg_mmsiaddrcfgh APLIC_M_DOMAIN]
  by (simp add: get_m_target_address_def comb_defs aplic_elems_def reset_msi_address_def aplic_fields shift_left32_def
      IMSIC_HART0_M_IFILE_def IMSIC_HART0_BASE_def APLIC_PAGE_BITS_def)

lemma gateway_wf:
  assumes "aplic_wf p s" "aplic_bounds p" "implemented p n" "source_active s APLIC_M_DOMAIN n"
  obtains s' where "gateway_trigger_interrupt p (of_nat n) s = (Inr (), s')" "ap_e_run s'" "aplic_wf p s'"
    "ap_env s' = ap_env s" "ap_ie_reg s' = ap_ie_reg s" "\<And>d r i. r \<noteq> Reg_setip \<Longrightarrow> reg32 s' d r i = reg32 s d r i"
    "\<And>j. j < 1024 \<Longrightarrow> source_bit (ap_ip_reg s' APLIC_M_DOMAIN) j \<longleftrightarrow> source_bit (ap_ip_reg s APLIC_M_DOMAIN) j \<or> j = n"
proof -
  obtain s0 where s0: "set_pending_bit APLIC_M_DOMAIN (of_nat n) s = (Inr (), s0)" "aplic_wf p s0" "pending_frame s s0"
    "\<forall>j < 1024. source_bit (ap_ip_reg s0 APLIC_M_DOMAIN) j \<longleftrightarrow> source_bit (ap_ip_reg s APLIC_M_DOMAIN) j \<or> j = n"
    by (rule set_pending_wf [OF assms(1-3), of APLIC_M_DOMAIN])
  have "gateway_trigger_interrupt p (of_nat n) s = (Inr (), s0\<lparr>ap_e_run := True\<rparr>)"
    using s0(1) source_is_inactive_wf [OF assms(1-3), of APLIC_M_DOMAIN] assms(4) implemented_word(2) [OF assms(2,3)]
    by (simp add: gateway_trigger_interrupt_def comb_defs notify_run_def)
  from that [OF this] s0(2-4) show ?thesis by (simp add: pending_frame_def)
qed

text \<open>The identity in a \<^verbatim>\<open>target\<close> register is one of the interrupt file.\<close>

lemma eiid_identity:
  assumes "targets_eiid tgt = v" "v \<noteq> 0"
  shows "0 < v" "v < IMSIC_MAX_IRQS" "v AND max_imsic_iid = v"
proof -
  have m: "v = take_bit 11 tgt"
    using assms(1) by (simp add: targets_eiid_def take_bit_eq_mask mask_numeral)
  show "0 < v" using assms(2) word_gt_0 by blast
  show "v < IMSIC_MAX_IRQS" using take_bit_nat_less_exp [of 11 "unat tgt"] by (simp add: m core_consts word_less_nat_alt unsigned_take_bit_eq)
  show "v AND max_imsic_iid = v" by (simp add: m max_imsic_iid_def take_bit_eq_mask mask_numeral and.assoc)
qed

text \<open>
  C2: an interrupt a device raises reaches the hart. When the line of an active, enabled, edge-sensitive
  source rises and nothing else can be delivered, the gateway makes it pending and wakes the controller,
  whose next round writes the identity programmed in the source's \<^verbatim>\<open>target\<close> register over the bus to the
  page of the hart. The machine-mode interrupt file of the hart then has exactly this identity pending besides
  what it had, presents its top identity in \<^verbatim>\<open>mtopei\<close> and drives the external interrupt line with it,
  and the source is not pending any more.
\<close>

theorem device_interrupt_reaches_hart:
  assumes wf: "aplic_wf p s" "aplic_bounds p" "0 < np_cores p" and wired: "np_isock p = bus_isock"
    and hart: "imsic_port (ap_env s) k" "file_ok (ms_file (iss_icsrs_m (port_hart (ap_env s) k)))"
    and on: "interrupts_enabled s" "reset_msi_address s"
    and source: "implemented p n" "source_active s APLIC_M_DOMAIN n" "edge_sensitive s n" "source_bit (ap_ie_reg s APLIC_M_DOMAIN) n"
    and others: "\<And>m. m \<noteq> n \<Longrightarrow> \<not> deliverable p s m"
    and target: "targets_hartind (source_target s n) = 0" "targets_eiid (source_target s n) = v" "v \<noteq> 0"
  shows "\<exists>s1 s2 irq top. gateway_trigger_interrupt p (of_nat n) s = (Inr (), s1) \<and> ap_e_run s1 \<and>
     aplic_run p s1 = (Inr (), s2) \<and> \<not> source_bit (ap_ip_reg s2 APLIC_M_DOMAIN) n \<and>
     (\<forall>j. eip_bit (ms_file (iss_icsrs_m (port_hart (ap_env s2) k))) j \<longleftrightarrow>
       eip_bit (ms_file (iss_icsrs_m (port_hart (ap_env s) k))) j \<or> j = unat v) \<and>
     compute_imsic_pending (ms_file (iss_icsrs_m (port_hart (ap_env s2) k)))
       (mtvec_mode (csr_mtvec (iss_csrs (port_hart (ap_env s) k))) = SnpsNestedVectored) = Inr (irq, top) \<and>
     topei_iid (csr_mtopei (iss_csrs (port_hart (ap_env s2) k))) = take_bit 12 top \<and>
     bit (mip_reg (csr_clint (iss_csrs (port_hart (ap_env s2) k)))) 11 = irq"
proof -
  obtain s1 where s1: "gateway_trigger_interrupt p (of_nat n) s = (Inr (), s1)" "ap_e_run s1" "aplic_wf p s1"
    "ap_env s1 = ap_env s" "ap_ie_reg s1 = ap_ie_reg s" "\<And>d r i. r \<noteq> Reg_setip \<Longrightarrow> reg32 s1 d r i = reg32 s d r i"
    "\<And>j. j < 1024 \<Longrightarrow> source_bit (ap_ip_reg s1 APLIC_M_DOMAIN) j \<longleftrightarrow> source_bit (ap_ip_reg s APLIC_M_DOMAIN) j \<or> j = n"
    using gateway_wf [OF wf(1,2) source(1,2)] by blast
  have n: "n < 1024" using source(1) wf(2) by (simp add: implemented_def aplic_bounds_def)
  have same: "source_target s1 n = source_target s n" "edge_sensitive s1 n = edge_sensitive s n" "interrupts_enabled s1"
    "reset_msi_address (s1\<lparr>ap_e_run := False\<rparr>)" "aplic_wf p (s1\<lparr>ap_e_run := False\<rparr>)"
    using s1(3,6) on by (simp_all add: source_target_def edge_sensitive_def interrupts_enabled_def reset_msi_address_def)
  have del: "deliverable p s1 n" "\<And>m. m < n \<Longrightarrow> \<not> deliverable p s1 m"
    using others s1(5,6,7) source n by (auto simp: deliverable_def source_active_def)
  note v = eiid_identity [OF target(2,3)]
  let ?h = "port_hart (ap_env s) k"
  obtain h irq top where h: "route_imsic_write MachineMode 0 v ?h = (Inr (), h)"
    "\<forall>j. eip_bit (ms_file (iss_icsrs_m h)) j \<longleftrightarrow> eip_bit (ms_file (iss_icsrs_m ?h)) j \<or> j = unat v"
    "compute_imsic_pending (ms_file (iss_icsrs_m h)) (mtvec_mode (csr_mtvec (iss_csrs ?h)) = SnpsNestedVectored) = Inr (irq, top)"
    "topei_iid (csr_mtopei (iss_csrs h)) = take_bit 12 top" "bit (mip_reg (csr_clint (iss_csrs h))) 11 = irq"
    by (rule route_m_effect [OF hart(2) v(1,2), of 0]) (simp add: core_consts)
  obtain t b' where b: "bus_isock (msi_payload 0x31000000 v) (ap_env s) = (Inr t, b')" "port_hart b' k = h"
    by (rule bus_isock_m [OF hart(1) v(3) h(1)])
  obtain s2 where s2: "aplic_run p s1 = (Inr (), s2)" "ap_env s2 = b'"
    "\<forall>j < 1024. source_bit (ap_ip_reg s2 APLIC_M_DOMAIN) j \<longleftrightarrow>
       source_bit (ap_ip_reg s1 APLIC_M_DOMAIN) j \<and> (j = n \<longrightarrow> \<not> edge_sensitive s1 n)"
  proof (rule aplic_run_delivers [OF _ wf(2) same(3) del])
    show "aplic_wf p s1" by (rule s1(3))
    show "get_m_target_address p (targets_hartind (source_target s1 n)) (s1\<lparr>ap_e_run := False\<rparr>) = (Inr 0x31000000, s1\<lparr>ap_e_run := False\<rparr>)"
      using hart_0_address [OF same(5,4) wf(3)] target(1) same(1) by simp
    show "np_isock p (msi_payload 0x31000000 (targets_eiid (source_target s1 n))) (ap_env s1) = (Inr t, b')"
      using b(1) wired target(2) same(1) s1(4) by simp
  qed blast
  show ?thesis
    using s1(1,2) s2 n source(3) same(2) h(2-5) b(2) by auto
qed

text \<open>
  The controller of \<^verbatim>\<open>platform/basic/main.cpp\<close> (one core, two domains, 1023 sources) with interrupt
  delivery on and source 1 edge-sensitive, enabled and sent to hart 0 with identity 34.
\<close>

definition example_params :: "'p imsic_mem SimpleBus aplic_params" where
  "example_params = \<lparr>np_cores = 1, np_domains = 2, np_interrupts = 1023, np_isock = bus_isock\<rparr>"

definition example_imsic_bus :: "'p cmi \<Rightarrow> 'p imsic_mem SimpleBus" where
  "example_imsic_bus m = \<lparr>bus_ports = [\<lparr>pm_start = 0x31000000, pm_end = 0x310A0000\<rparr>],
     bus_targets = [imsic_mem_init (ISS_init 0 False m)]\<rparr>"

definition example_aplic :: "'p cmi \<Rightarrow> 'p imsic_mem SimpleBus aplic" where
  "example_aplic m =
     (let s = aplic_init example_params (example_imsic_bus m);
          s1 = put_reg 0 Reg_sourcecfg (le_bytes 4 4 @ replicate 4088 0) s;
          s2 = put_reg 0 Reg_target (le_bytes 4 34 @ replicate 4088 0) s1 in
      (put_reg 0 Reg_domaincfg (le_bytes 4 0x80000104) s2)\<lparr>ap_ie_reg := (\<lambda>_. (replicate 32 0)[0 := 2])\<rparr>)"

lemma example_aplic_wf: "aplic_wf example_params (example_aplic m)"
proof -
  have len: "length (init_reg (example_params :: 'a imsic_mem SimpleBus aplic_params) 0 Reg_sourcecfg) = 4092"
    "length (init_reg (example_params :: 'a imsic_mem SimpleBus aplic_params) 0 Reg_target) = 4092"
    by (simp_all add: init_reg_def aplic_elems_def example_params_def)
  have "domaincfg_ok (le_bytes 4 0x80000104)"
    by (simp add: domaincfg_ok_def view32_def load32_def memcpy_from_def aplic_fields)
  moreover have "words_ok (example_params :: 'a imsic_mem SimpleBus aplic_params) ((replicate 32 0)[0 := 2])"
    by (auto simp: words_ok_def word_ok_def implemented_def example_params_def nth_list_update bit_simps)
  ultimately show ?thesis
    using aplic_init_wf [of "example_params :: 'a imsic_mem SimpleBus aplic_params" "example_imsic_bus m"] len
    by (auto simp: aplic_wf_def example_aplic_def Let_def put_reg_def aplic_init_def aplic_elems_def)
qed

lemma example_aplic_regs:
  "reg32 (example_aplic m) 0 Reg_sourcecfg 0 = 4" "reg32 (example_aplic m) 0 Reg_target 0 = 34"
  "reg32 (example_aplic m) 0 Reg_domaincfg 0 = 0x80000104" "reg32 (example_aplic m) 0 Reg_mmsiaddrcfg 0 = 0x31000"
  "reg32 (example_aplic m) 0 Reg_mmsiaddrcfgh 0 = 0" "ap_env (example_aplic m) = example_imsic_bus m"
  "ap_ie_reg (example_aplic m) d = (replicate 32 0)[0 := 2]" "ap_ip_reg (example_aplic m) d = replicate 32 0"
  by (simp_all add: reg32_def example_aplic_def Let_def put_reg_def view32_def load32_def memcpy_from_def aplic_init_def
      init_reg_def aplic_elems_def APLIC_M_DOMAIN_def APLIC_PAGE_BITS_def IMSIC_HART0_M_IFILE_def IMSIC_HART0_BASE_def)

lemma example_aplic_sources:
  "implemented example_params 1" "source_active (example_aplic m) APLIC_M_DOMAIN 1" "edge_sensitive (example_aplic m) 1"
  "source_bit (ap_ie_reg (example_aplic m) APLIC_M_DOMAIN) 1" "j \<noteq> 1 \<Longrightarrow> \<not> deliverable example_params (example_aplic m) j"
proof -
  show "\<not> deliverable example_params (example_aplic m) j" if "j \<noteq> 1"
    by (auto simp: deliverable_def source_bit_def example_aplic_regs implemented_def example_params_def
        less_mult_imp_div_less [of j 32 32])
qed (simp_all add: implemented_def example_params_def source_active_def edge_sensitive_def source_bit_def APLIC_M_DOMAIN_def
    example_aplic_regs aplic_fields source_modes bit_simps)

lemma example_imsic_port:
  "imsic_port (ap_env (example_aplic m)) 0" "port_hart (ap_env (example_aplic m)) 0 = ISS_init 0 False m"
  by (simp_all add: example_aplic_regs imsic_port_def example_imsic_bus_def bus_decode_def pm_contains_def imsic_mem_ok_def
      imsic_mem_init_def im_size port_hart_def)

theorem device_interrupt_reaches_hart_witness:
  "\<forall>m. \<exists>s1 s2. gateway_trigger_interrupt example_params 1 (example_aplic m) = (Inr (), s1) \<and>
     aplic_run example_params s1 = (Inr (), s2) \<and> eip_bit (ms_file (iss_icsrs_m (port_hart (ap_env s2) 0))) 34"
proof
  fix m :: "'a cmi"
  have p: "aplic_bounds (example_params :: 'a imsic_mem SimpleBus aplic_params)" "0 < np_cores (example_params :: 'a imsic_mem SimpleBus aplic_params)"
    "np_isock example_params = (bus_isock :: payload \<Rightarrow> ('a imsic_mem SimpleBus, payload) op)"
    by (simp_all add: aplic_bounds_def example_params_def)
  have c: "interrupts_enabled (example_aplic m)" "reset_msi_address (example_aplic m)" "targets_hartind (source_target (example_aplic m) 1) = 0"
    "targets_eiid (source_target (example_aplic m) 1) = 34"
    by (simp_all add: interrupts_enabled_def reset_msi_address_def source_target_def APLIC_M_DOMAIN_def example_aplic_regs aplic_fields
        APLIC_PAGE_BITS_def IMSIC_HART0_M_IFILE_def IMSIC_HART0_BASE_def)
  have ok: "file_ok (ms_file (iss_icsrs_m (port_hart (ap_env (example_aplic m)) 0)))"
    by (simp add: example_imsic_port ISS_init_files)
  show "\<exists>s1 s2. gateway_trigger_interrupt example_params 1 (example_aplic m) = (Inr (), s1) \<and>
     aplic_run example_params s1 = (Inr (), s2) \<and> eip_bit (ms_file (iss_icsrs_m (port_hart (ap_env s2) 0))) 34"
    using device_interrupt_reaches_hart [OF example_aplic_wf p example_imsic_port(1) ok c(1,2) example_aplic_sources c(3,4)]
    by auto
qed

end
