(* ===== verification/VP_Plic.thy ===== *)
theory VP_Plic
  imports VP_Regmap VP_Core_Defs
begin

text \<open>
  The platform-level interrupt controllers: that of the FE310 (\<^verbatim>\<open>platform/common/fe310_plic.h\<close>) and that of
  the FU540 (\<^verbatim>\<open>platform/common/fu540_plic.cpp\<close>). The register ranges are the bytes of \<open>VP_Regmap\<close>; the harts
  are reached through \<^verbatim>\<open>external_interrupt_target\<close>, whose two functions are the argument \<open>hart_ops\<close> of
  the operations and act on the state \<open>'h\<close> of all harts. The event \<^verbatim>\<open>e_run\<close> is a flag, as in
  \<open>VP_Aplic\<close>. The trace output is left out.
\<close>

record 'h hart_ops =
  ho_trigger :: "nat \<Rightarrow> PrivilegeLevel \<Rightarrow> ('h, unit) op"
  ho_clear :: "nat \<Rightarrow> PrivilegeLevel \<Rightarrow> ('h, unit) op"

section \<open>The search for the best interrupt\<close>

text \<open>
  Both controllers scan the sources in the order of their identities and keep the first one with the greatest
  priority. \<open>cand i\<close> is the priority of source \<open>i\<close> if it takes part; reading the registers may stop.
\<close>

primrec prio_scan :: "(nat \<Rightarrow> u32 option res) \<Rightarrow> nat list \<Rightarrow> nat \<Rightarrow> u32 \<Rightarrow> nat res" where
  "prio_scan cand [] sel max_prio = Inr sel"
| "prio_scan cand (i # ids) sel max_prio = bind_res (cand i) (\<lambda>c. case c of
     None \<Rightarrow> prio_scan cand ids sel max_prio
   | Some prio \<Rightarrow> if prio > max_prio then prio_scan cand ids i prio else prio_scan cand ids sel max_prio)"

definition word_bit :: "nat \<Rightarrow> u32" where "word_bit n = push_bit n 1"

section \<open>FE310\<close>

record fe310_params =
  fp_cores :: nat
  fp_interrupts :: nat
  fp_entries :: nat
  fp_max_priority :: u32
  fp_level :: PrivilegeLevel

definition fe_words :: "fe310_params \<Rightarrow> nat" where
  "fe_words p = (fp_entries p + (32 - 1)) div 32"

record 'h fe310 =
  fe_priorities :: "u8 list"
  fe_pending :: "u8 list"
  fe_enabled :: "u8 list"
  fe_hart_config :: "u8 list"
  fe_hart_eip :: "bool list"
  fe_e_run :: bool
  fe_harts :: 'h

definition fe_init :: "fe310_params \<Rightarrow> 'h \<Rightarrow> 'h fe310" where
  "fe_init p h = \<lparr>fe_priorities = replicate (4 * (fp_interrupts p + 1)) 0, fe_pending = replicate (4 * fe_words p) 0,
     fe_enabled = replicate (4 * fe_words p * fp_cores p) 0, fe_hart_config = replicate (8 * fp_cores p) 0,
     fe_hart_eip = replicate (fp_cores p) False, fe_e_run = False, fe_harts = h\<rparr>"

text \<open>
  \<^verbatim>\<open>hart_enabled_interrupts(n, i)\<close> is \<^verbatim>\<open>operator()\<close> of an \<^verbatim>\<open>ArrayView\<close> whose \<^verbatim>\<open>RowSize\<close> has its default
  value 1, without a bounds check. An element of \<^verbatim>\<open>hart_config\<close> has the threshold and the claim register.
\<close>

definition fe_enabled_word :: "nat \<Rightarrow> nat \<Rightarrow> 'h fe310 \<Rightarrow> u32 res" where
  "fe_enabled_word n i s = load32 (fe_enabled s) (4 * (n * 1 + i))"

definition fe_threshold :: "nat \<Rightarrow> 'h fe310 \<Rightarrow> u32 res" where
  "fe_threshold n s = assert_that (n < length (fe_hart_config s) div 8) (load32 (fe_hart_config s) (8 * n))"

definition fe_set_claim_response :: "nat \<Rightarrow> u32 \<Rightarrow> ('h fe310, unit) op" where
  "fe_set_claim_response n v = update_res (\<lambda>s. assert_that (n < length (fe_hart_config s) div 8)
     (bind_res (store32 (8 * n + 4) v (fe_hart_config s)) (\<lambda>m. Inr (s\<lparr>fe_hart_config := m\<rparr>))))"

definition fe_update_pending :: "nat \<Rightarrow> (u32 \<Rightarrow> u32) \<Rightarrow> ('h fe310, unit) op" where
  "fe_update_pending idx f = update_res (\<lambda>s. bind_res (view32 (fe_pending s) idx) (\<lambda>v.
     bind_res (set_view32 idx (f v) (fe_pending s)) (\<lambda>m. Inr (s\<lparr>fe_pending := m\<rparr>))))"

definition fe_gateway_trigger_interrupt :: "fe310_params \<Rightarrow> u32 \<Rightarrow> ('h fe310, unit) op" where
  "fe_gateway_trigger_interrupt p irq_id =
     seq_op (assert_op (irq_id > 0 \<and> unat irq_id < fp_interrupts p)) (
     seq_op (fe_update_pending (unat irq_id div 32) (\<lambda>v. v OR word_bit (unat irq_id mod 32)))
       (modify_op (\<lambda>s. s\<lparr>fe_e_run := True\<rparr>)))"

definition fe_clear_pending_interrupt :: "fe310_params \<Rightarrow> nat \<Rightarrow> ('h fe310, unit) op" where
  "fe_clear_pending_interrupt p irq_id =
     seq_op (assert_op (irq_id < fp_interrupts p))
       (fe_update_pending (irq_id div 32) (\<lambda>v. v AND NOT (word_bit (irq_id mod 32))))"

definition fe_candidate :: "nat \<Rightarrow> bool \<Rightarrow> 'h fe310 \<Rightarrow> nat \<Rightarrow> u32 option res" where
  "fe_candidate hart_id consider_threshold s i =
     bind_res (fe_enabled_word hart_id (i div 32) s) (\<lambda>en.
     if en AND word_bit (i mod 32) = 0 then Inr None
     else bind_res (view32 (fe_pending s) (i div 32)) (\<lambda>pend.
       if pend AND word_bit (i mod 32) = 0 then Inr None
       else bind_res (view32 (fe_priorities s) i) (\<lambda>prio.
         if prio = 0 then Inr None
         else if \<not> consider_threshold then Inr (Some prio)
         else bind_res (fe_threshold hart_id s) (\<lambda>t. Inr (if prio > t then Some prio else None)))))"

definition fe_hart_get_next_pending_interrupt :: "fe310_params \<Rightarrow> nat \<Rightarrow> bool \<Rightarrow> 'h fe310 \<Rightarrow> nat res" where
  "fe_hart_get_next_pending_interrupt p hart_id consider_threshold s =
     prio_scan (fe_candidate hart_id consider_threshold s) [1..<fp_interrupts p] 0 0"

definition fe_hart_has_pending_enabled_interrupts :: "fe310_params \<Rightarrow> nat \<Rightarrow> 'h fe310 \<Rightarrow> bool res" where
  "fe_hart_has_pending_enabled_interrupts p hart_id s =
     bind_res (fe_hart_get_next_pending_interrupt p hart_id True s) (\<lambda>n. Inr (n > 0))"

text \<open>
  \<^verbatim>\<open>for (auto &x : interrupt_priorities)\<close>: \<^verbatim>\<open>ArrayView::end\<close> is the address of the last element, which the loop
  therefore does not reach.
\<close>

primrec fe_clamp_loop :: "fe310_params \<Rightarrow> nat list \<Rightarrow> u8 list \<Rightarrow> u8 list res" where
  "fe_clamp_loop p [] m = Inr m"
| "fe_clamp_loop p (i # ids) m = bind_res (load32 m (4 * i)) (\<lambda>x.
     bind_res (store32 (4 * i) (min x (fp_max_priority p)) m) (fe_clamp_loop p ids))"

definition fe_post_write_interrupt_priorities :: "fe310_params \<Rightarrow> u64 \<Rightarrow> nat \<Rightarrow> ('h fe310, unit) op" where
  "fe_post_write_interrupt_priorities p a n = update_res (\<lambda>s.
     bind_res (fe_clamp_loop p [0..<length (fe_priorities s) div 4 - 1] (fe_priorities s)) (\<lambda>m. Inr (s\<lparr>fe_priorities := m\<rparr>)))"

definition fe_on_harts :: "('h, unit) op \<Rightarrow> ('h fe310, unit) op" where
  "fe_on_harts f = (\<lambda>s. case f (fe_harts s) of (r, h) \<Rightarrow> (r, s\<lparr>fe_harts := h\<rparr>))"

text \<open>\<^verbatim>\<open>hart_eip\<close> is a \<^verbatim>\<open>std::array\<close>: an access outside it is undefined.\<close>

definition fe_get_eip :: "nat \<Rightarrow> 'h fe310 \<Rightarrow> bool res" where
  "fe_get_eip n s = (if n < length (fe_hart_eip s) then Inr (fe_hart_eip s ! n) else Inl UndefinedBehaviour)"

definition fe_set_eip :: "nat \<Rightarrow> bool \<Rightarrow> ('h fe310, unit) op" where
  "fe_set_eip n b = update_res (\<lambda>s. if n < length (fe_hart_eip s)
     then Inr (s\<lparr>fe_hart_eip := (fe_hart_eip s)[n := b]\<rparr>) else Inl UndefinedBehaviour)"

definition fe_pre_read_hart_config :: "fe310_params \<Rightarrow> u64 \<Rightarrow> nat \<Rightarrow> ('h fe310, bool) op" where
  "fe_pre_read_hart_config p a sz =
     seq_op (assert_op (a mod 4 = 0)) (
     let idx = unat (ucast (a div 4) :: u32) in
     if idx mod 2 = 1 then
       seq_op (assert_op (sz = 4)) (
       bind_op (get_op (fe_hart_get_next_pending_interrupt p 0 False) lift_op) (\<lambda>min_id.
       seq_op (fe_set_claim_response (idx - 1) (of_nat min_id)) (
       seq_op (fe_clear_pending_interrupt p min_id) (ret_op True))))
     else ret_op True)"

definition fe_post_write_hart_config :: "'h hart_ops \<Rightarrow> fe310_params \<Rightarrow> u64 \<Rightarrow> nat \<Rightarrow> ('h fe310, unit) op" where
  "fe_post_write_hart_config ho p a sz =
     seq_op (assert_op (a mod 4 = 0)) (
     let idx = unat (ucast (a div 4) :: u32); hart = idx - 1 in
     when_op (idx mod 2 = 1) (
       seq_op (assert_op (sz = 4)) (
       bind_op (get_op (fe_hart_has_pending_enabled_interrupts p hart) lift_op) (\<lambda>more.
         if more then
           seq_op (bind_op (get_op (fe_get_eip hart) lift_op) assert_op) (fe_on_harts (ho_trigger ho hart (fp_level p)))
         else seq_op (fe_set_eip hart False) (fe_on_harts (ho_clear ho hart (fp_level p)))))))"

primrec fe_run_harts :: "'h hart_ops \<Rightarrow> fe310_params \<Rightarrow> nat list \<Rightarrow> ('h fe310, unit) op" where
  "fe_run_harts ho p [] = ret_op ()"
| "fe_run_harts ho p (i # is) = seq_op
     (bind_op (get_op (fe_get_eip i) lift_op) (\<lambda>eip. when_op (\<not> eip) (
       bind_op (get_op (fe_hart_has_pending_enabled_interrupts p i) lift_op) (\<lambda>more. when_op more (
         seq_op (fe_set_eip i True) (fe_on_harts (ho_trigger ho i (fp_level p))))))))
     (fe_run_harts ho p is)"

definition fe_run :: "'h hart_ops \<Rightarrow> fe310_params \<Rightarrow> ('h fe310, unit) op" where
  "fe_run ho p = seq_op (modify_op (\<lambda>s. s\<lparr>fe_e_run := False\<rparr>)) (fe_run_harts ho p [0..<fp_cores p])"

definition plain_range :: "u64 \<Rightarrow> nat \<Rightarrow> ('s \<Rightarrow> u8 list) \<Rightarrow> (u8 list \<Rightarrow> 's \<Rightarrow> 's) \<Rightarrow> 's RegisterRange" where
  "plain_range start sz get put =
     \<lparr>rr_start = start, rr_end = start + of_nat sz - 1, rr_get = get, rr_put = put, rr_readonly = False, rr_alignment = 1,
      rr_pre_write = \<lambda>_ _. ret_op True, rr_post_write = \<lambda>_ _. ret_op (),
      rr_pre_read = \<lambda>_ _. ret_op True, rr_post_read = \<lambda>_ _. ret_op ()\<rparr>"

definition fe_register_ranges :: "'h hart_ops \<Rightarrow> fe310_params \<Rightarrow> 'h fe310 RegisterRange list" where
  "fe_register_ranges ho p =
     [(plain_range 0x0 (4 * (fp_interrupts p + 1)) fe_priorities (\<lambda>m s. s\<lparr>fe_priorities := m\<rparr>))
        \<lparr>rr_post_write := fe_post_write_interrupt_priorities p\<rparr>,
      (plain_range 0x1000 (4 * fe_words p) fe_pending (\<lambda>m s. s\<lparr>fe_pending := m\<rparr>))\<lparr>rr_readonly := True\<rparr>,
      plain_range 0x2000 (4 * fe_words p * fp_cores p) fe_enabled (\<lambda>m s. s\<lparr>fe_enabled := m\<rparr>),
      (plain_range 0x200000 (8 * fp_cores p) fe_hart_config (\<lambda>m s. s\<lparr>fe_hart_config := m\<rparr>))
        \<lparr>rr_alignment := 4, rr_post_write := fe_post_write_hart_config ho p, rr_pre_read := fe_pre_read_hart_config p\<rparr>]"

definition fe_transport :: "'h hart_ops \<Rightarrow> fe310_params \<Rightarrow> payload \<Rightarrow> ('h fe310, payload) op" where
  "fe_transport ho p = route ''FE310_PLIC'' (fe_register_ranges ho p)"

section \<open>FU540\<close>

definition NUMIRQ :: nat where "NUMIRQ = 53"
definition MAX_THR :: u32 where "MAX_THR = 7"
definition MAX_PRIO :: u32 where "MAX_PRIO = 7"
definition ENABLE_BASE :: u64 where "ENABLE_BASE = 0x2000"
definition ENABLE_PER_HART :: u64 where "ENABLE_PER_HART = 0x80"
definition CONTEXT_BASE :: u64 where "CONTEXT_BASE = 0x200000"
definition CONTEXT_PER_HART :: u64 where "CONTEXT_PER_HART = 0x1000"
definition HART_REG_SIZE :: nat where "HART_REG_SIZE = 2 * 4"

text \<open>
  \<^verbatim>\<open>enabled_irqs\<close> and \<^verbatim>\<open>hart_context\<close> give each hart a \<^verbatim>\<open>HartConfig\<close> with the registers of its two modes; hart 0 has
  only machine mode, and the views of its two modes are the same registers.
\<close>

record 'h fu540 =
  fu_priorities :: "u8 list"
  fu_pending :: "u8 list"
  fu_enabled :: "nat \<Rightarrow> PrivilegeLevel \<Rightarrow> u8 list"
  fu_context :: "nat \<Rightarrow> PrivilegeLevel \<Rightarrow> u8 list"
  fu_num_harts :: nat
  fu_e_run :: bool
  fu_harts :: 'h

definition fu_init :: "nat \<Rightarrow> 'h \<Rightarrow> 'h fu540" where
  "fu_init n h = \<lparr>fu_priorities = replicate (4 * NUMIRQ) 0, fu_pending = replicate (4 * 2) 0,
     fu_enabled = \<lambda>_ _. replicate HART_REG_SIZE 0, fu_context = \<lambda>_ _. replicate HART_REG_SIZE 0,
     fu_num_harts = n, fu_e_run = False, fu_harts = h\<rparr>"

definition mode_key :: "nat \<Rightarrow> PrivilegeLevel \<Rightarrow> PrivilegeLevel" where
  "mode_key hart level = (if hart = 0 then MachineMode else level)"

definition is_plic_level :: "PrivilegeLevel \<Rightarrow> bool" where
  "is_plic_level level \<longleftrightarrow> level = MachineMode \<or> level = SupervisorMode"

definition GET_IDX :: "nat \<Rightarrow> nat" where "GET_IDX irq = irq div 32"
definition GET_OFF :: "nat \<Rightarrow> u32" where "GET_OFF irq = push_bit (irq mod 32) 1"

definition fu_is_enabled :: "nat \<Rightarrow> nat \<Rightarrow> PrivilegeLevel \<Rightarrow> 'h fu540 \<Rightarrow> bool res" where
  "fu_is_enabled hart irq level s =
     assert_that (irq > 0 \<and> irq \<le> NUMIRQ)
      (assert_that (is_plic_level level)
        (bind_res (view32 (fu_enabled s hart (mode_key hart level)) (GET_IDX irq)) (\<lambda>w. Inr (w AND GET_OFF irq \<noteq> 0))))"

definition fu_is_pending :: "nat \<Rightarrow> 'h fu540 \<Rightarrow> bool res" where
  "fu_is_pending irq s =
     assert_that (irq > 0 \<and> irq \<le> NUMIRQ)
      (bind_res (view32 (fu_pending s) (GET_IDX irq)) (\<lambda>w. Inr (w AND GET_OFF irq \<noteq> 0)))"

definition fu_update_pending :: "nat \<Rightarrow> (u32 \<Rightarrow> u32) \<Rightarrow> ('h fu540, unit) op" where
  "fu_update_pending idx f = update_res (\<lambda>s. bind_res (view32 (fu_pending s) idx) (\<lambda>v.
     bind_res (set_view32 idx (f v) (fu_pending s)) (\<lambda>m. Inr (s\<lparr>fu_pending := m\<rparr>))))"

definition fu_clear_pending :: "nat \<Rightarrow> ('h fu540, unit) op" where
  "fu_clear_pending irq =
     seq_op (assert_op (irq > 0 \<and> irq \<le> NUMIRQ)) (fu_update_pending (GET_IDX irq) (\<lambda>v. v AND NOT (GET_OFF irq)))"

definition fu_gateway_trigger_interrupt :: "u32 \<Rightarrow> ('h fu540, unit) op" where
  "fu_gateway_trigger_interrupt irq =
     (if irq = 0 \<or> unat irq > NUMIRQ then fail_op (RuntimeError ''IRQ value is invalid'')
      else seq_op (fu_update_pending (GET_IDX (unat irq)) (\<lambda>v. v OR GET_OFF (unat irq)))
        (modify_op (\<lambda>s. s\<lparr>fu_e_run := True\<rparr>)))"

definition fu_get_threshold :: "nat \<Rightarrow> PrivilegeLevel \<Rightarrow> 'h fu540 \<Rightarrow> u32 res" where
  "fu_get_threshold hart level s =
     (if hart = 0 \<and> level = SupervisorMode then Inl (RuntimeError ''hart0 doesn't support SupervisorMode'')
      else if is_plic_level level then view32 (fu_context s hart (mode_key hart level)) 0
      else Inl (RuntimeError ''Invalid PrivilegeLevel''))"

definition fu_candidate :: "nat \<Rightarrow> PrivilegeLevel \<Rightarrow> bool \<Rightarrow> 'h fu540 \<Rightarrow> nat \<Rightarrow> u32 option res" where
  "fu_candidate hart lvl ignth s irq =
     bind_res (fu_is_enabled hart irq lvl s) (\<lambda>en.
     if \<not> en then Inr None
     else bind_res (fu_is_pending irq s) (\<lambda>pend.
       if \<not> pend then Inr None
       else bind_res (view32 (fu_priorities s) (irq - 1)) (\<lambda>prio.
         if ignth then Inr (Some prio)
         else bind_res (fu_get_threshold hart lvl s) (\<lambda>thr. Inr (if prio \<le> thr then None else Some prio)))))"

definition fu_next_pending_irq :: "nat \<Rightarrow> PrivilegeLevel \<Rightarrow> bool \<Rightarrow> 'h fu540 \<Rightarrow> nat res" where
  "fu_next_pending_irq hart lvl ignth s =
     assert_that (\<not> (hart = 0 \<and> lvl = SupervisorMode))
      (prio_scan (fu_candidate hart lvl ignth s) [1..<NUMIRQ + 1] 0 0)"

definition fu_has_pending_irq :: "nat \<Rightarrow> 'h fu540 \<Rightarrow> PrivilegeLevel option res" where
  "fu_has_pending_irq hart s =
     bind_res (if hart \<noteq> 0 then bind_res (fu_next_pending_irq hart SupervisorMode False s) (\<lambda>n. Inr (n > 0)) else Inr False) (\<lambda>sup.
     if sup then Inr (Some SupervisorMode)
     else bind_res (fu_next_pending_irq hart MachineMode False s) (\<lambda>n. Inr (if n > 0 then Some MachineMode else None)))"

definition is_claim_access :: "u64 \<Rightarrow> bool" where
  "is_claim_access addr \<longleftrightarrow> (ucast (addr div 4) :: u32) mod 2 = 1"

definition fu_set_context :: "nat \<Rightarrow> PrivilegeLevel \<Rightarrow> nat \<Rightarrow> u32 \<Rightarrow> ('h fu540, unit) op" where
  "fu_set_context hart level i v = update_res (\<lambda>s. let k = mode_key hart level in
     bind_res (set_view32 i v (fu_context s hart k)) (\<lambda>m.
       Inr (s\<lparr>fu_context := (fu_context s)(hart := (fu_context s hart)(k := m))\<rparr>)))"

definition read_hartctx :: "nat \<Rightarrow> PrivilegeLevel \<Rightarrow> u64 \<Rightarrow> nat \<Rightarrow> ('h fu540, bool) op" where
  "read_hartctx hart level a sz =
     seq_op (assert_op (a mod 4 = 0)) (
     seq_op (assert_op (sz = 4)) (
     seq_op (when_op (is_claim_access a) (
       bind_op (get_op (fu_next_pending_irq hart level True) lift_op) (\<lambda>irq.
       seq_op (assert_op (is_plic_level level)) (
       seq_op (fu_set_context hart level 1 (of_nat irq)) (when_op (irq \<noteq> 0) (fu_clear_pending irq))))))
     (ret_op True)))"

definition fu_on_harts :: "('h, unit) op \<Rightarrow> ('h fu540, unit) op" where
  "fu_on_harts f = (\<lambda>s. case f (fu_harts s) of (r, h) \<Rightarrow> (r, s\<lparr>fu_harts := h\<rparr>))"

definition write_hartctx :: "'h hart_ops \<Rightarrow> nat \<Rightarrow> PrivilegeLevel \<Rightarrow> u64 \<Rightarrow> nat \<Rightarrow> ('h fu540, unit) op" where
  "write_hartctx ho hart level a sz =
     seq_op (assert_op (a mod 4 = 0)) (
     seq_op (assert_op (sz = 4)) (
     if is_claim_access a then fu_on_harts (ho_clear ho hart level)
     else seq_op (assert_op (is_plic_level level))
       (bind_op (get_op (\<lambda>s. view32 (fu_context s hart (mode_key hart level)) 0) lift_op) (\<lambda>thr.
         fu_set_context hart level 0 (min thr MAX_THR)))))"

definition write_irq_prios :: "u64 \<Rightarrow> nat \<Rightarrow> ('h fu540, unit) op" where
  "write_irq_prios a sz = (let idx = unat (a div 4) in
     seq_op (assert_op (idx \<le> NUMIRQ)) (update_res (\<lambda>s.
       bind_res (view32 (fu_priorities s) idx) (\<lambda>v.
       bind_res (set_view32 idx (min v MAX_PRIO) (fu_priorities s)) (\<lambda>m. Inr (s\<lparr>fu_priorities := m\<rparr>))))))"

primrec fu_run_harts :: "'h hart_ops \<Rightarrow> nat list \<Rightarrow> ('h fu540, unit) op" where
  "fu_run_harts ho [] = ret_op ()"
| "fu_run_harts ho (i # is) = seq_op
     (bind_op (get_op (fu_has_pending_irq i) lift_op) (\<lambda>lvl. case lvl of
        None \<Rightarrow> ret_op () | Some l \<Rightarrow> fu_on_harts (ho_trigger ho i l)))
     (fu_run_harts ho is)"

definition fu_run :: "'h hart_ops \<Rightarrow> ('h fu540, unit) op" where
  "fu_run ho = seq_op (modify_op (\<lambda>s. s\<lparr>fu_e_run := False\<rparr>)) (get_op fu_num_harts (\<lambda>n. fu_run_harts ho [0..<n]))"

text \<open>
  The registers of the harts: those of hart 0 at the base address, those of hart \<open>i\<close> for its two modes at
  the places \<open>2 * i - 1\<close> and \<open>2 * i\<close> after it.
\<close>

definition hart_slots :: "nat \<Rightarrow> (nat \<times> PrivilegeLevel) list" where
  "hart_slots n = concat (map (\<lambda>i. if i = 0 then [(0, MachineMode)] else [(i, MachineMode), (i, SupervisorMode)]) [0..<n])"

definition enable_range :: "nat \<times> nat \<times> PrivilegeLevel \<Rightarrow> 'h fu540 RegisterRange" where
  "enable_range x = (case x of (k, h, l) \<Rightarrow>
     (plain_range (ENABLE_BASE + of_nat k * ENABLE_PER_HART) HART_REG_SIZE (\<lambda>s. fu_enabled s h l)
       (\<lambda>m s. s\<lparr>fu_enabled := (fu_enabled s)(h := (fu_enabled s h)(l := m))\<rparr>))\<lparr>rr_alignment := 4\<rparr>)"

definition context_range :: "'h hart_ops \<Rightarrow> nat \<times> nat \<times> PrivilegeLevel \<Rightarrow> 'h fu540 RegisterRange" where
  "context_range ho x = (case x of (k, h, l) \<Rightarrow>
     (plain_range (CONTEXT_BASE + of_nat k * CONTEXT_PER_HART) HART_REG_SIZE (\<lambda>s. fu_context s h l)
       (\<lambda>m s. s\<lparr>fu_context := (fu_context s)(h := (fu_context s h)(l := m))\<rparr>))
       \<lparr>rr_alignment := 4, rr_pre_read := read_hartctx h l, rr_post_write := write_hartctx ho h l\<rparr>)"

definition fu_register_ranges :: "'h hart_ops \<Rightarrow> nat \<Rightarrow> 'h fu540 RegisterRange list" where
  "fu_register_ranges ho n =
     [(plain_range 0x4 (4 * NUMIRQ) fu_priorities (\<lambda>m s. s\<lparr>fu_priorities := m\<rparr>))
        \<lparr>rr_alignment := 4, rr_post_write := write_irq_prios\<rparr>,
      (plain_range 0x1000 (4 * 2) fu_pending (\<lambda>m s. s\<lparr>fu_pending := m\<rparr>))
        \<lparr>rr_alignment := 4, rr_pre_write := \<lambda>_ _. ret_op False\<rparr>] @
     map enable_range (zip [0..<length (hart_slots n)] (hart_slots n)) @
     map (context_range ho) (zip [0..<length (hart_slots n)] (hart_slots n))"

definition fu_transport :: "'h hart_ops \<Rightarrow> nat \<Rightarrow> payload \<Rightarrow> ('h fu540, payload) op" where
  "fu_transport ho n = route ''FU540_PLIC'' (fu_register_ranges ho n)"

end
