(* ===== verification/VP_Plic_Props.thy ===== *)
theory VP_Plic_Props
  imports VP_Plic
begin

text \<open>
  What the platform-level interrupt controllers guarantee: their registers keep their sizes whatever the
  bus writes, a claim returns the pending and enabled source of the greatest priority and takes
  exactly this one, and the line of a hart is raised exactly for a source above its threshold.
\<close>

section \<open>The search\<close>

definition scan_result :: "(nat \<Rightarrow> u32 option) \<Rightarrow> nat list \<Rightarrow> nat \<Rightarrow> u32 \<Rightarrow> nat \<Rightarrow> bool" where
  "scan_result c ids sel mx r \<longleftrightarrow>
     r = sel \<and> (\<forall>i \<in> set ids. \<forall>q. c i = Some q \<longrightarrow> q \<le> mx) \<or>
     r \<in> set ids \<and> (\<exists>q. c r = Some q \<and> q > mx \<and> (\<forall>i \<in> set ids. \<forall>q'. c i = Some q' \<longrightarrow> (if i < r then q' < q else q' \<le> q)))"

lemma scan_result_skip:
  assumes "scan_result c ids sel mx r" "\<And>q. c i = Some q \<Longrightarrow> q \<le> mx" "\<forall>j \<in> set ids. i < j"
  shows "scan_result c (i # ids) sel mx r"
  using assms(1) unfolding scan_result_def
proof (rule disjE)
  assume "r = sel \<and> (\<forall>j \<in> set ids. \<forall>q. c j = Some q \<longrightarrow> q \<le> mx)"
  then show "r = sel \<and> (\<forall>j \<in> set (i # ids). \<forall>q'. c j = Some q' \<longrightarrow> q' \<le> mx) \<or> r \<in> set (i # ids) \<and>
      (\<exists>q. c r = Some q \<and> q > mx \<and> (\<forall>j \<in> set (i # ids). \<forall>q'. c j = Some q' \<longrightarrow> (if j < r then q' < q else q' \<le> q)))"
    using assms(2) by (intro disjI1) simp
next
  assume a: "r \<in> set ids \<and> (\<exists>q. c r = Some q \<and> q > mx \<and> (\<forall>j \<in> set ids. \<forall>q'. c j = Some q' \<longrightarrow> (if j < r then q' < q else q' \<le> q)))"
  then obtain q where q: "c r = Some q" "q > mx" "\<forall>j \<in> set ids. \<forall>q'. c j = Some q' \<longrightarrow> (if j < r then q' < q else q' \<le> q)" by blast
  have "q' < q" if "c i = Some q'" for q' using assms(2) [OF that] q(2) by (rule order.strict_trans1)
  with q a assms(3) show "r = sel \<and> (\<forall>j \<in> set (i # ids). \<forall>q'. c j = Some q' \<longrightarrow> q' \<le> mx) \<or> r \<in> set (i # ids) \<and>
      (\<exists>q. c r = Some q \<and> q > mx \<and> (\<forall>j \<in> set (i # ids). \<forall>q'. c j = Some q' \<longrightarrow> (if j < r then q' < q else q' \<le> q)))"
    by (intro disjI2 conjI exI [of _ q]) auto
qed

lemma scan_result_take:
  assumes "scan_result c ids i q r" "c i = Some q" "q > mx" "\<forall>j \<in> set ids. i < j"
  shows "scan_result c (i # ids) sel mx r"
  using assms(1) unfolding scan_result_def
proof (rule disjE)
  assume "r = i \<and> (\<forall>j \<in> set ids. \<forall>q'. c j = Some q' \<longrightarrow> q' \<le> q)"
  with assms(2-4) show "r = sel \<and> (\<forall>j \<in> set (i # ids). \<forall>q'. c j = Some q' \<longrightarrow> q' \<le> mx) \<or> r \<in> set (i # ids) \<and>
      (\<exists>q. c r = Some q \<and> q > mx \<and> (\<forall>j \<in> set (i # ids). \<forall>q'. c j = Some q' \<longrightarrow> (if j < r then q' < q else q' \<le> q)))"
    by (intro disjI2) (auto dest: less_asym)
next
  assume "r \<in> set ids \<and> (\<exists>q2. c r = Some q2 \<and> q2 > q \<and> (\<forall>j \<in> set ids. \<forall>q'. c j = Some q' \<longrightarrow> (if j < r then q' < q2 else q' \<le> q2)))"
  with assms(2-4) show "r = sel \<and> (\<forall>j \<in> set (i # ids). \<forall>q'. c j = Some q' \<longrightarrow> q' \<le> mx) \<or> r \<in> set (i # ids) \<and>
      (\<exists>q. c r = Some q \<and> q > mx \<and> (\<forall>j \<in> set (i # ids). \<forall>q'. c j = Some q' \<longrightarrow> (if j < r then q' < q else q' \<le> q)))"
    by (intro disjI2) auto
qed

lemma prio_scan_result:
  assumes "\<And>i. i \<in> set ids \<Longrightarrow> cand i = Inr (c i)" "sorted_wrt (<) ids"
  shows "\<exists>r. prio_scan cand ids sel mx = Inr r \<and> scan_result c ids sel mx r"
  using assms
proof (induction ids arbitrary: sel mx)
  case (Cons i ids)
  have IH: "\<exists>r. prio_scan cand ids sel mx = Inr r \<and> scan_result c ids sel mx r" for sel mx
    using Cons by simp
  have less: "\<forall>j \<in> set ids. i < j" using Cons.prems(2) by simp
  show ?case
  proof (cases "\<exists>q. c i = Some q \<and> q > mx")
    case True
    then obtain q where q: "c i = Some q" "q > mx" by blast
    obtain r where "prio_scan cand ids i q = Inr r" "scan_result c ids i q r" using IH by blast
    then show ?thesis using scan_result_take [of c ids i q _ mx] q less Cons.prems(1) by auto
  next
    case False
    obtain r where r: "prio_scan cand ids sel mx = Inr r" "scan_result c ids sel mx r" using IH by blast
    have "scan_result c (i # ids) sel mx r"
      by (rule scan_result_skip [OF r(2) _ less]) (use False in \<open>auto simp: not_less\<close>)
    then show ?thesis
      using False r(1) Cons.prems(1) by (auto split: option.splits)
  qed
qed (simp add: scan_result_def)

text \<open>The best of the sources that take part: none, or one of the greatest priority with the least identity.\<close>

definition best_source :: "(nat \<Rightarrow> bool) \<Rightarrow> (nat \<Rightarrow> u32) \<Rightarrow> nat \<Rightarrow> bool" where
  "best_source takes_part prio r \<longleftrightarrow>
     (if \<exists>i. takes_part i then takes_part r \<and> (\<forall>i. takes_part i \<longrightarrow> prio i < prio r \<or> prio i = prio r \<and> r \<le> i) else r = 0)"

lemma prio_scan_best:
  assumes cand: "\<And>i. i \<in> set ids \<Longrightarrow> cand i = Inr (if takes_part i then Some (prio i) else None)" and ids: "sorted_wrt (<) ids"
    and part: "\<And>i. takes_part i \<Longrightarrow> i \<in> set ids" "\<And>i. takes_part i \<Longrightarrow> prio i > 0"
  shows "\<exists>r. prio_scan cand ids 0 0 = Inr r \<and> best_source takes_part prio r"
proof -
  obtain r where r: "prio_scan cand ids 0 0 = Inr r"
    "scan_result (\<lambda>i. if takes_part i then Some (prio i) else None) ids 0 0 r"
    using prio_scan_result [where c = "\<lambda>i. if takes_part i then Some (prio i) else None", OF cand ids] by blast
  from r(2) have "best_source takes_part prio r"
    unfolding scan_result_def best_source_def
  proof
    assume "r = 0 \<and> (\<forall>i \<in> set ids. \<forall>q. (if takes_part i then Some (prio i) else None) = Some q \<longrightarrow> q \<le> 0)"
    then show "if \<exists>i. takes_part i then takes_part r \<and> (\<forall>i. takes_part i \<longrightarrow> prio i < prio r \<or> prio i = prio r \<and> r \<le> i) else r = 0"
      using part by (fastforce simp: not_less [symmetric])
  next
    assume a: "r \<in> set ids \<and> (\<exists>q. (if takes_part r then Some (prio r) else None) = Some q \<and> 0 < q \<and>
      (\<forall>i \<in> set ids. \<forall>q'. (if takes_part i then Some (prio i) else None) = Some q' \<longrightarrow> (if i < r then q' < q else q' \<le> q)))"
    then have t: "takes_part r" by (auto split: if_splits)
    have "prio i < prio r \<or> prio i = prio r \<and> r \<le> i" if "takes_part i" for i
      using a t that part(1) [OF that] by (cases "i < r") (auto split: if_splits)
    with t show "if \<exists>i. takes_part i then takes_part r \<and> (\<forall>i. takes_part i \<longrightarrow> prio i < prio r \<or> prio i = prio r \<and> r \<le> i) else r = 0"
      by auto
  qed
  with r(1) show ?thesis by blast
qed

section \<open>FU540\<close>

definition fu_wf :: "'h fu540 \<Rightarrow> bool" where
  "fu_wf s \<longleftrightarrow> length (fu_priorities s) = 4 * NUMIRQ \<and> length (fu_pending s) = 8 \<and>
     (\<forall>h l. length (fu_enabled s h l) = 8 \<and> length (fu_context s h l) = 8)"

text \<open>The modes that have registers: hart 0 has no supervisor mode.\<close>

definition plic_mode :: "nat \<Rightarrow> PrivilegeLevel \<Rightarrow> bool" where
  "plic_mode hart level \<longleftrightarrow> is_plic_level level \<and> \<not> (hart = 0 \<and> level = SupervisorMode)"

definition word_at :: "u8 list \<Rightarrow> nat \<Rightarrow> u32" where
  "word_at m i = (case view32 m i of Inr v \<Rightarrow> v | Inl _ \<Rightarrow> 0)"

definition plic_bit :: "u8 list \<Rightarrow> nat \<Rightarrow> bool" where
  "plic_bit m irq \<longleftrightarrow> bit (word_at m (irq div 32)) (irq mod 32)"

lemma view32_word_at: "4 * i + 4 \<le> length m \<Longrightarrow> view32 m i = Inr (word_at m i)"
  using view32_total [of i m] by (auto simp: word_at_def)

lemma word_at_set_view32: "set_view32 i v m = Inr m' \<Longrightarrow> word_at m' j = (if j = i then v else word_at m j)"
  by (simp add: word_at_def view32_set_view32)

lemma bit_word_bit [simp]: "bit (word_bit n) k \<longleftrightarrow> k = n \<and> n < 32"
  by (auto simp: word_bit_def bit_simps)

lemma and_word_bit: "n < 32 \<Longrightarrow> (w :: u32) AND word_bit n = 0 \<longleftrightarrow> \<not> bit w n"
  by (auto simp: bit_eq_iff [of "w AND word_bit n"] bit_simps)

lemma GET_OFF_word_bit: "GET_OFF irq = word_bit (irq mod 32)"
  by (simp add: GET_OFF_def word_bit_def)

definition fu_irq :: "nat \<Rightarrow> bool" where "fu_irq irq \<longleftrightarrow> 1 \<le> irq \<and> irq \<le> NUMIRQ"

definition fu_prio :: "'h fu540 \<Rightarrow> nat \<Rightarrow> u32" where
  "fu_prio s irq = word_at (fu_priorities s) (irq - 1)"

definition fu_claimable :: "'h fu540 \<Rightarrow> nat \<Rightarrow> PrivilegeLevel \<Rightarrow> nat \<Rightarrow> bool" where
  "fu_claimable s hart level irq \<longleftrightarrow> fu_irq irq \<and> plic_bit (fu_enabled s hart level) irq \<and> plic_bit (fu_pending s) irq \<and> fu_prio s irq > 0"

lemma plic_mode_key: "plic_mode hart level \<Longrightarrow> mode_key hart level = level"
  by (auto simp: plic_mode_def mode_key_def is_plic_level_def)

lemma fu_bits_wf:
  assumes "fu_wf s" "fu_irq irq" "plic_mode hart level"
  shows "fu_is_enabled hart irq level s = Inr (plic_bit (fu_enabled s hart level) irq)"
    "fu_is_pending irq s = Inr (plic_bit (fu_pending s) irq)" "view32 (fu_priorities s) (irq - 1) = Inr (fu_prio s irq)"
proof -
  have i: "irq div 32 < 2" "irq > 0" "irq \<le> NUMIRQ" "irq mod 32 < 32" using assms(2) by (auto simp: fu_irq_def NUMIRQ_def)
  show "fu_is_enabled hart irq level s = Inr (plic_bit (fu_enabled s hart level) irq)"
    using i assms(1,3) view32_word_at [of "irq div 32" "fu_enabled s hart level"]
    by (simp add: fu_is_enabled_def plic_mode_key plic_mode_def GET_IDX_def GET_OFF_word_bit and_word_bit plic_bit_def fu_wf_def)
  show "fu_is_pending irq s = Inr (plic_bit (fu_pending s) irq)"
    using i assms(1) view32_word_at [of "irq div 32" "fu_pending s"]
    by (simp add: fu_is_pending_def GET_IDX_def GET_OFF_word_bit and_word_bit plic_bit_def fu_wf_def)
  show "view32 (fu_priorities s) (irq - 1) = Inr (fu_prio s irq)"
    using i assms(1) view32_word_at [of "irq - 1" "fu_priorities s"] by (simp add: fu_prio_def fu_wf_def)
qed

lemma fu_threshold_wf:
  "fu_wf s \<Longrightarrow> plic_mode hart level \<Longrightarrow> fu_get_threshold hart level s = Inr (word_at (fu_context s hart level) 0)"
  using view32_word_at [of 0 "fu_context s hart level"]
  by (auto simp: fu_get_threshold_def plic_mode_key plic_mode_def fu_wf_def)

text \<open>The sources that take part in a claim, and in the decision to raise the line.\<close>

definition fu_above :: "'h fu540 \<Rightarrow> nat \<Rightarrow> PrivilegeLevel \<Rightarrow> nat \<Rightarrow> bool" where
  "fu_above s hart level irq \<longleftrightarrow> fu_claimable s hart level irq \<and> fu_prio s irq > word_at (fu_context s hart level) 0"

lemma prio_scan_zero:
  "(\<And>i. i \<in> set ids \<Longrightarrow> cand i = cand' i \<or> cand i = Inr (Some 0) \<and> cand' i = Inr None) \<Longrightarrow>
     prio_scan cand ids sel mx = prio_scan cand' ids sel mx"
proof (induction ids arbitrary: sel mx)
  case (Cons i ids)
  have "cand i = cand' i \<or> cand i = Inr (Some 0) \<and> cand' i = Inr None" using Cons.prems by simp
  then show ?case
  proof
    assume e: "cand i = cand' i"
    show ?thesis unfolding prio_scan.simps e using Cons by (auto intro!: arg_cong [where f = "bind_res (cand' i)"] ext split: option.splits)
  next
    assume "cand i = Inr (Some 0) \<and> cand' i = Inr None"
    then show ?thesis using Cons by simp
  qed
qed simp

lemma fu_next_pending_irq_wf:
  assumes "fu_wf s" "plic_mode hart level"
  shows "\<exists>r. fu_next_pending_irq hart level True s = Inr r \<and> best_source (fu_claimable s hart level) (fu_prio s) r"
    "\<exists>r. fu_next_pending_irq hart level False s = Inr r \<and> best_source (fu_above s hart level) (fu_prio s) r"
proof -
  have irq: "fu_irq i" if "i \<in> set [1..<NUMIRQ + 1]" for i using that by (auto simp: fu_irq_def)
  have set: "i \<in> set [1..<NUMIRQ + 1]" if "fu_claimable s hart level i" for i using that by (auto simp: fu_claimable_def fu_irq_def)
  have eq: "prio_scan (fu_candidate hart level ignth s) [1..<NUMIRQ + 1] 0 0 =
      prio_scan (\<lambda>i. Inr (if (if ignth then fu_claimable s hart level i else fu_above s hart level i) then Some (fu_prio s i) else None)) [1..<NUMIRQ + 1] 0 0"
    for ignth
    using fu_bits_wf [OF assms(1) irq assms(2)] fu_threshold_wf [OF assms] irq
    by (intro prio_scan_zero) (auto simp: fu_candidate_def fu_claimable_def fu_above_def not_le word_gt_0)
  have hart: "\<not> (hart = 0 \<and> level = SupervisorMode)" using assms(2) by (simp add: plic_mode_def)
  have best: "\<exists>r. prio_scan (\<lambda>i. Inr (if P i then Some (fu_prio s i) else None)) [1..<NUMIRQ + 1] 0 0 = Inr r \<and>
      best_source P (fu_prio s) r" if "\<And>i. P i \<Longrightarrow> fu_claimable s hart level i" for P
    by (rule prio_scan_best [OF refl sorted_wrt_upt]) (use that set in \<open>auto simp: fu_claimable_def simp del: upt_Suc\<close>)
  show "\<exists>r. fu_next_pending_irq hart level True s = Inr r \<and> best_source (fu_claimable s hart level) (fu_prio s) r"
    using hart eq [of True] best [of "fu_claimable s hart level"] by (simp add: fu_next_pending_irq_def del: upt_Suc)
  show "\<exists>r. fu_next_pending_irq hart level False s = Inr r \<and> best_source (fu_above s hart level) (fu_prio s) r"
    using hart eq [of False] best [of "fu_above s hart level"] by (simp add: fu_next_pending_irq_def fu_above_def del: upt_Suc)
qed

lemma fu_pending_update:
  assumes "fu_wf s" "idx < 2"
  obtains m where "fu_update_pending idx f s = (Inr (), s\<lparr>fu_pending := m\<rparr>)" "length m = 8"
    "\<And>j. word_at m j = (if j = idx then f (word_at (fu_pending s) idx) else word_at (fu_pending s) j)"
proof -
  have l: "4 * idx + 4 \<le> length (fu_pending s)" "length (fu_pending s) = 8" using assms by (auto simp: fu_wf_def)
  obtain m where m: "set_view32 idx (f (word_at (fu_pending s) idx)) (fu_pending s) = Inr m" using set_view32_total [OF l(1)] by blast
  show ?thesis
    using that [of m] m view32_word_at [OF l(1)] word_at_set_view32 [OF m] set_view32_length [OF m] l(2)
    by (simp add: fu_update_pending_def comb_defs)
qed

lemma plic_bit_clear:
  assumes "\<And>j. word_at m' j = (if j = r div 32 then word_at m (r div 32) AND NOT (word_bit (r mod 32)) else word_at m j)"
  shows "plic_bit m' i \<longleftrightarrow> plic_bit m i \<and> i \<noteq> r"
proof -
  have "i div 32 = r div 32 \<Longrightarrow> i mod 32 = r mod 32 \<longleftrightarrow> i = r" by (metis div_mult_mod_eq)
  then show ?thesis by (auto simp: plic_bit_def assms bit_simps dest: bit_imp_le_length)
qed

lemma fu_clear_pending_wf:
  assumes "fu_wf s" "fu_irq r"
  obtains m where "fu_clear_pending r s = (Inr (), s\<lparr>fu_pending := m\<rparr>)" "fu_wf (s\<lparr>fu_pending := m\<rparr>)"
    "\<And>i. plic_bit m i \<longleftrightarrow> plic_bit (fu_pending s) i \<and> i \<noteq> r"
proof -
  have r: "r div 32 < 2" "0 < r" "r \<le> NUMIRQ" using assms(2) by (auto simp: fu_irq_def NUMIRQ_def)
  obtain m where m: "fu_update_pending (r div 32) (\<lambda>v. v AND NOT (word_bit (r mod 32))) s = (Inr (), s\<lparr>fu_pending := m\<rparr>)" "length m = 8"
    "\<And>j. word_at m j = (if j = r div 32 then word_at (fu_pending s) (r div 32) AND NOT (word_bit (r mod 32)) else word_at (fu_pending s) j)"
    using fu_pending_update [OF assms(1) r(1), of "\<lambda>v. v AND NOT (word_bit (r mod 32))"] by blast
  show ?thesis
  proof (rule that)
    show "fu_clear_pending r s = (Inr (), s\<lparr>fu_pending := m\<rparr>)"
      using m(1) r by (simp add: fu_clear_pending_def comb_defs GET_IDX_def GET_OFF_word_bit)
    show "fu_wf (s\<lparr>fu_pending := m\<rparr>)" using assms(1) m(2) by (simp add: fu_wf_def)
    show "plic_bit m i \<longleftrightarrow> plic_bit (fu_pending s) i \<and> i \<noteq> r" for i by (rule plic_bit_clear [OF m(3)])
  qed
qed

lemma fu_set_context_wf:
  assumes "fu_wf s" "plic_mode hart level" "i < 2"
  obtains m where "fu_set_context hart level i v s =
      (Inr (), s\<lparr>fu_context := (fu_context s)(hart := (fu_context s hart)(level := m))\<rparr>)" "word_at m i = v" "length m = 8"
proof -
  have l: "4 * i + 4 \<le> length (fu_context s hart level)" "length (fu_context s hart level) = 8" using assms(1,3) by (auto simp: fu_wf_def)
  obtain m where m: "set_view32 i v (fu_context s hart level) = Inr m" using set_view32_total [OF l(1)] by blast
  show ?thesis
    using that [of m] m word_at_set_view32 [OF m] set_view32_length [OF m] l(2) plic_mode_key [OF assms(2)]
    by (simp add: fu_set_context_def comb_defs Let_def)
qed

lemma best_source_zero: "best_source P prio r \<Longrightarrow> \<not> P 0 \<Longrightarrow> r > 0 \<longleftrightarrow> (\<exists>i. P i)"
  unfolding best_source_def by (metis gr0I less_irrefl)

lemma fu_has_pending_wf:
  assumes "fu_wf s"
  shows "fu_has_pending_irq hart s = Inr
     (if hart \<noteq> 0 \<and> (\<exists>i. fu_above s hart SupervisorMode i) then Some SupervisorMode
      else if \<exists>i. fu_above s hart MachineMode i then Some MachineMode else None)"
proof -
  have z: "\<not> fu_above s hart l 0" for l by (simp add: fu_above_def fu_claimable_def fu_irq_def)
  have m: "plic_mode hart MachineMode" "hart \<noteq> 0 \<Longrightarrow> plic_mode hart SupervisorMode"
    by (simp_all add: plic_mode_def is_plic_level_def core_consts)
  have nxt: "\<exists>n. fu_next_pending_irq hart l False s = Inr n \<and> (n > 0 \<longleftrightarrow> (\<exists>i. fu_above s hart l i))" if "plic_mode hart l" for l
    using fu_next_pending_irq_wf(2) [OF assms that] best_source_zero [of "fu_above s hart l" "fu_prio s", OF _ z] by blast
  show ?thesis
    using nxt [OF m(1)] nxt [OF m(2)] by (cases "hart = 0") (auto simp: fu_has_pending_irq_def)
qed

text \<open>
  C13: the FU540's interrupt controller raises the line of a hart at a level exactly if a source that is enabled
  there and pending has a priority above the threshold of the level (the supervisor level first), and a
  read of the claim register returns the pending and enabled source of the greatest priority, the
  least one among equals and 0 if there is none, and takes exactly this source: every other source keeps
  its pending bit, and a source of priority 0 is never claimed.
\<close>

theorem plic_claims_best_source:
  assumes "fu_wf s" "plic_mode hart level"
  shows "fu_has_pending_irq hart s = Inr
       (if hart \<noteq> 0 \<and> (\<exists>i. fu_above s hart SupervisorMode i) then Some SupervisorMode
        else if \<exists>i. fu_above s hart MachineMode i then Some MachineMode else None) \<and>
     (\<exists>s' r. read_hartctx hart level 4 4 s = (Inr True, s') \<and> fu_wf s' \<and> word_at (fu_context s' hart level) 1 = of_nat r \<and>
       best_source (fu_claimable s hart level) (fu_prio s) r \<and>
       (\<forall>i. plic_bit (fu_pending s') i \<longleftrightarrow> plic_bit (fu_pending s) i \<and> (r = 0 \<or> i \<noteq> r)) \<and>
       fu_enabled s' = fu_enabled s \<and> fu_priorities s' = fu_priorities s)"
proof -
  obtain r where r: "fu_next_pending_irq hart level True s = Inr r" "best_source (fu_claimable s hart level) (fu_prio s) r"
    using fu_next_pending_irq_wf(1) [OF assms] by blast
  obtain c where c: "fu_set_context hart level 1 (of_nat r) s =
      (Inr (), s\<lparr>fu_context := (fu_context s)(hart := (fu_context s hart)(level := c))\<rparr>)" "word_at c 1 = of_nat r" "length c = 8"
    by (rule fu_set_context_wf [OF assms, of 1]) simp
  let ?s1 = "s\<lparr>fu_context := (fu_context s)(hart := (fu_context s hart)(level := c))\<rparr>"
  have wf1: "fu_wf ?s1" using assms(1) c(3) by (simp add: fu_wf_def)
  have lvl: "is_plic_level level" using assms(2) by (simp add: plic_mode_def)
  have run: "read_hartctx hart level 4 4 s = (case when_op (r \<noteq> 0) (fu_clear_pending r) ?s1 of (Inl e, t) \<Rightarrow> (Inl e, t) | (Inr _, t) \<Rightarrow> (Inr True, t))"
    using r(1) c(1) lvl by (simp add: read_hartctx_def is_claim_access_def comb_defs split: prod.splits sum.splits)
  have "\<exists>s'. read_hartctx hart level 4 4 s = (Inr True, s') \<and> fu_wf s' \<and> word_at (fu_context s' hart level) 1 = of_nat r \<and>
       (\<forall>i. plic_bit (fu_pending s') i \<longleftrightarrow> plic_bit (fu_pending s) i \<and> (r = 0 \<or> i \<noteq> r)) \<and>
       fu_enabled s' = fu_enabled s \<and> fu_priorities s' = fu_priorities s"
  proof (cases "r = 0")
    case True
    then show ?thesis using run wf1 c(2) by (simp add: when_op_def ret_op_def)
  next
    case False
    then have irq: "fu_irq r" using r(2) by (auto simp: best_source_def fu_claimable_def split: if_splits)
    obtain m where "fu_clear_pending r ?s1 = (Inr (), ?s1\<lparr>fu_pending := m\<rparr>)" "fu_wf (?s1\<lparr>fu_pending := m\<rparr>)"
      "\<And>i. plic_bit m i \<longleftrightarrow> plic_bit (fu_pending ?s1) i \<and> i \<noteq> r"
      using fu_clear_pending_wf [OF wf1 irq] by blast
    then show ?thesis using run c(2) False by (simp add: when_op_def)
  qed
  then show ?thesis using fu_has_pending_wf [OF assms(1)] r(2) by blast
qed


section \<open>The registers keep their sizes\<close>

named_theorems plic_rules \<open>operations that keep the registers of a controller\<close>

lemma fu_wf_context: "fu_wf s \<Longrightarrow> length m = 8 \<Longrightarrow> fu_wf (s\<lparr>fu_context := (fu_context s)(h := (fu_context s h)(l := m))\<rparr>)"
  by (simp add: fu_wf_def)

lemma fu_wf_ops [plic_rules]:
  "preserves fu_wf (fu_update_pending i f)" "preserves fu_wf (fu_set_context h l j v)" "preserves fu_wf (fu_on_harts g)"
  unfolding fu_update_pending_def fu_set_context_def fu_on_harts_def
  by (auto simp: preserves_def comb_defs Let_def fu_wf_def dest: set_view32_length split: sum.splits prod.splits)

lemma fu_wf_callbacks:
  "preserves fu_wf (read_hartctx h l a n)" "preserves fu_wf (write_hartctx ho h l a n)" "preserves fu_wf (write_irq_prios a n)"
proof -
  show "preserves fu_wf (read_hartctx h l a n)"
    unfolding read_hartctx_def fu_clear_pending_def by (intro preserves_rules plic_rules; simp)
  show "preserves fu_wf (write_hartctx ho h l a n)"
    unfolding write_hartctx_def by (intro preserves_rules plic_rules; simp)
  show "preserves fu_wf (write_irq_prios a n)"
    unfolding write_irq_prios_def Let_def
    by (auto simp: preserves_def comb_defs fu_wf_def dest: set_view32_length split: sum.splits)
qed

interpretation fu: register_ranges "''FU540_PLIC''" "fu_register_ranges ho n :: 'h fu540 RegisterRange list" fu_wf
  for ho :: "'h hart_ops" and n :: nat
  by unfold_locales
    (auto simp: fu_register_ranges_def plain_range_def enable_range_def context_range_def op_run fu_wf_def
      dest!: memcpy_to_length fu_wf_callbacks [THEN preservesD, rotated])

definition fe_wf :: "fe310_params \<Rightarrow> 'h fe310 \<Rightarrow> bool" where
  "fe_wf p s \<longleftrightarrow> length (fe_priorities s) = 4 * (fp_interrupts p + 1) \<and> length (fe_pending s) = 4 * fe_words p \<and>
     length (fe_enabled s) = 4 * fe_words p * fp_cores p \<and> length (fe_hart_config s) = 8 * fp_cores p \<and>
     length (fe_hart_eip s) = fp_cores p"

lemma fe_clamp_loop_length: "fe_clamp_loop p ids m = Inr m' \<Longrightarrow> length m' = length m"
  by (induction ids arbitrary: m) (auto split: sum.splits simp: bind_res_def dest!: store32_length)

lemma fe_wf_ops [plic_rules]:
  "preserves (fe_wf p) (fe_update_pending i f)" "preserves (fe_wf p) (fe_set_claim_response j v)"
  "preserves (fe_wf p) (fe_on_harts g)" "preserves (fe_wf p) (fe_set_eip k b)"
  "preserves (fe_wf p) (fe_post_write_interrupt_priorities q a n)"
  unfolding fe_update_pending_def fe_set_claim_response_def fe_on_harts_def fe_set_eip_def fe_post_write_interrupt_priorities_def
  by (auto simp: preserves_def comb_defs fe_wf_def bind_res_def assert_that_def
      dest: set_view32_length store32_length fe_clamp_loop_length split: sum.splits prod.splits if_splits)

lemma fe_wf_callbacks:
  "preserves (fe_wf p) (fe_pre_read_hart_config q a n)" "preserves (fe_wf p) (fe_post_write_hart_config ho q a n)"
  unfolding fe_pre_read_hart_config_def fe_post_write_hart_config_def fe_clear_pending_interrupt_def
  by (intro preserves_rules plic_rules; simp)+

interpretation fe: register_ranges "''FE310_PLIC''" "fe_register_ranges ho p :: 'h fe310 RegisterRange list" "fe_wf p"
  for ho :: "'h hart_ops" and p :: fe310_params
  by unfold_locales
    (auto simp: fe_register_ranges_def plain_range_def op_run fe_wf_def
      dest!: memcpy_to_length fe_wf_callbacks [THEN preservesD, rotated] fe_wf_ops(5) [THEN preservesD, rotated])

text \<open>Hart 1 in supervisor mode after reset, with sources 3 and 40 pending and enabled at priority 5.\<close>

definition example_fu540 :: "unit fu540" where
  "example_fu540 = (fu_init 2 ())
     \<lparr>fu_priorities := replicate 8 0 @ le_bytes 4 5 @ replicate 144 0 @ le_bytes 4 5 @ replicate 52 0,
      fu_pending := le_bytes 4 8 @ le_bytes 4 256,
      fu_enabled := \<lambda>_ _. le_bytes 4 8 @ le_bytes 4 256\<rparr>"

lemma plic_claims_best_source_witness:
  "fu_has_pending_irq 1 example_fu540 = Inr (Some SupervisorMode) \<and>
   (\<exists>s' r. read_hartctx 1 SupervisorMode 4 4 example_fu540 = (Inr True, s') \<and> fu_wf s' \<and>
      best_source (fu_claimable example_fu540 1 SupervisorMode) (fu_prio example_fu540) r)"
proof -
  have wf: "fu_wf example_fu540" by (simp add: fu_wf_def example_fu540_def fu_init_def NUMIRQ_def HART_REG_SIZE_def)
  have mode: "plic_mode 1 SupervisorMode" by (simp add: plic_mode_def is_plic_level_def)
  have "fu_above example_fu540 1 SupervisorMode 3"
    by (simp add: fu_above_def fu_claimable_def fu_irq_def NUMIRQ_def plic_bit_def word_at_def fu_prio_def view32_def load32_def
      memcpy_from_def example_fu540_def fu_init_def HART_REG_SIZE_def bit_simps)
  then show ?thesis using plic_claims_best_source [OF wf mode] by auto
qed

end
