(* ===== verification/RV64_CSR.thy ===== *)
theory RV64_CSR
  imports VP_Bitfield VP_Core_Defs
begin

text \<open>
  The control and status registers of the RV64 core (\<^verbatim>\<open>core/rv64/csr.h\<close>): addresses, write and read masks, the
  bit-fields the simulator uses, \<^verbatim>\<open>csr_table\<close> and its map from addresses to registers. Names that the
  RV32 core has too carry the suffix \<open>64\<close>.
\<close>

section \<open>Masks and addresses\<close>

named_theorems csr64_consts \<open>addresses and masks\<close>
named_theorems csr64_fields \<open>bit-fields\<close>

definition MIE_MASK64 :: u64 where [csr64_consts]: "MIE_MASK64 = 0xBBB"
definition SIE_MASK64 :: u64 where [csr64_consts]: "SIE_MASK64 = 0x333"
definition UIE_MASK64 :: u64 where [csr64_consts]: "UIE_MASK64 = 0x111"
definition MIP_WRITE_MASK64 :: u64 where [csr64_consts]: "MIP_WRITE_MASK64 = 0x333"
definition MIP_READ_MASK64 :: u64 where [csr64_consts]: "MIP_READ_MASK64 = MIE_MASK64"
definition SIP_MASK64 :: u64 where [csr64_consts]: "SIP_MASK64 = 0x3"
definition UIP_MASK64 :: u64 where [csr64_consts]: "UIP_MASK64 = 0x1"
definition MEDELEG_MASK64 :: u64 where [csr64_consts]: "MEDELEG_MASK64 = 0xBBFF"
definition MIDELEG_MASK64 :: u64 where [csr64_consts]: "MIDELEG_MASK64 = MIE_MASK64"
definition MTVEC_MASK64 :: u64 where [csr64_consts]: "MTVEC_MASK64 = NOT 2"
definition MCOUNTEREN_MASK64 :: u64 where [csr64_consts]: "MCOUNTEREN_MASK64 = 0x7"
definition MCOUNTINHIBIT_MASK64 :: u64 where [csr64_consts]: "MCOUNTINHIBIT_MASK64 = 0x5"
definition SEDELEG_MASK64 :: u64 where [csr64_consts]: "SEDELEG_MASK64 = 0xB1FF"
definition SIDELEG_MASK64 :: u64 where [csr64_consts]: "SIDELEG_MASK64 = MIDELEG_MASK64"
definition MSTATUS_WRITE_MASK64 :: u64 where [csr64_consts]: "MSTATUS_WRITE_MASK64 = 0x80000000007FF9BB"
definition MSTATUS_READ_MASK64 :: u64 where [csr64_consts]: "MSTATUS_READ_MASK64 = 0x8000000F007FF9BB"
definition SSTATUS_WRITE_MASK64 :: u64 where [csr64_consts]: "SSTATUS_WRITE_MASK64 = 0x80000000000DE133"
definition SSTATUS_READ_MASK64 :: u64 where [csr64_consts]: "SSTATUS_READ_MASK64 = 0x80000003000DE133"
definition USTATUS_MASK64 :: u64 where [csr64_consts]: "USTATUS_MASK64 = 0x11"
definition SATP_MASK64 :: u64 where [csr64_consts]: "SATP_MASK64 = 0xF0000FFFFFFFFFFF"
definition FCSR_MASK64 :: u64 where [csr64_consts]: "FCSR_MASK64 = 0xFF"
definition CYCLE_ADDR64 :: u32 where [csr64_consts]: "CYCLE_ADDR64 = 0xC00"
definition TIME_ADDR64 :: u32 where [csr64_consts]: "TIME_ADDR64 = 0xC01"
definition INSTRET_ADDR64 :: u32 where [csr64_consts]: "INSTRET_ADDR64 = 0xC02"
definition MCYCLE_ADDR64 :: u32 where [csr64_consts]: "MCYCLE_ADDR64 = 0xB00"
definition MTIME_ADDR64 :: u32 where [csr64_consts]: "MTIME_ADDR64 = 0xB01"
definition MINSTRET_ADDR64 :: u32 where [csr64_consts]: "MINSTRET_ADDR64 = 0xB02"
definition MVENDORID_ADDR64 :: u32 where [csr64_consts]: "MVENDORID_ADDR64 = 0xF11"
definition MARCHID_ADDR64 :: u32 where [csr64_consts]: "MARCHID_ADDR64 = 0xF12"
definition MIMPID_ADDR64 :: u32 where [csr64_consts]: "MIMPID_ADDR64 = 0xF13"
definition MHARTID_ADDR64 :: u32 where [csr64_consts]: "MHARTID_ADDR64 = 0xF14"
definition MSTATUS_ADDR64 :: u32 where [csr64_consts]: "MSTATUS_ADDR64 = 0x300"
definition MISA_ADDR64 :: u32 where [csr64_consts]: "MISA_ADDR64 = 0x301"
definition MEDELEG_ADDR64 :: u32 where [csr64_consts]: "MEDELEG_ADDR64 = 0x302"
definition MIDELEG_ADDR64 :: u32 where [csr64_consts]: "MIDELEG_ADDR64 = 0x303"
definition MIE_ADDR64 :: u32 where [csr64_consts]: "MIE_ADDR64 = 0x304"
definition MTVEC_ADDR64 :: u32 where [csr64_consts]: "MTVEC_ADDR64 = 0x305"
definition MCOUNTEREN_ADDR64 :: u32 where [csr64_consts]: "MCOUNTEREN_ADDR64 = 0x306"
definition MCOUNTINHIBIT_ADDR64 :: u32 where [csr64_consts]: "MCOUNTINHIBIT_ADDR64 = 0x320"
definition MSCRATCH_ADDR64 :: u32 where [csr64_consts]: "MSCRATCH_ADDR64 = 0x340"
definition MEPC_ADDR64 :: u32 where [csr64_consts]: "MEPC_ADDR64 = 0x341"
definition MCAUSE_ADDR64 :: u32 where [csr64_consts]: "MCAUSE_ADDR64 = 0x342"
definition MTVAL_ADDR64 :: u32 where [csr64_consts]: "MTVAL_ADDR64 = 0x343"
definition MIP_ADDR64 :: u32 where [csr64_consts]: "MIP_ADDR64 = 0x344"
definition SSTATUS_ADDR64 :: u32 where [csr64_consts]: "SSTATUS_ADDR64 = 0x100"
definition SEDELEG_ADDR64 :: u32 where [csr64_consts]: "SEDELEG_ADDR64 = 0x102"
definition SIDELEG_ADDR64 :: u32 where [csr64_consts]: "SIDELEG_ADDR64 = 0x103"
definition SIE_ADDR64 :: u32 where [csr64_consts]: "SIE_ADDR64 = 0x104"
definition STVEC_ADDR64 :: u32 where [csr64_consts]: "STVEC_ADDR64 = 0x105"
definition SCOUNTEREN_ADDR64 :: u32 where [csr64_consts]: "SCOUNTEREN_ADDR64 = 0x106"
definition SSCRATCH_ADDR64 :: u32 where [csr64_consts]: "SSCRATCH_ADDR64 = 0x140"
definition SEPC_ADDR64 :: u32 where [csr64_consts]: "SEPC_ADDR64 = 0x141"
definition SCAUSE_ADDR64 :: u32 where [csr64_consts]: "SCAUSE_ADDR64 = 0x142"
definition STVAL_ADDR64 :: u32 where [csr64_consts]: "STVAL_ADDR64 = 0x143"
definition SIP_ADDR64 :: u32 where [csr64_consts]: "SIP_ADDR64 = 0x144"
definition SATP_ADDR64 :: u32 where [csr64_consts]: "SATP_ADDR64 = 0x180"
definition USTATUS_ADDR64 :: u32 where [csr64_consts]: "USTATUS_ADDR64 = 0x000"
definition UIE_ADDR64 :: u32 where [csr64_consts]: "UIE_ADDR64 = 0x004"
definition UTVEC_ADDR64 :: u32 where [csr64_consts]: "UTVEC_ADDR64 = 0x005"
definition USCRATCH_ADDR64 :: u32 where [csr64_consts]: "USCRATCH_ADDR64 = 0x040"
definition UEPC_ADDR64 :: u32 where [csr64_consts]: "UEPC_ADDR64 = 0x041"
definition UCAUSE_ADDR64 :: u32 where [csr64_consts]: "UCAUSE_ADDR64 = 0x042"
definition UTVAL_ADDR64 :: u32 where [csr64_consts]: "UTVAL_ADDR64 = 0x043"
definition UIP_ADDR64 :: u32 where [csr64_consts]: "UIP_ADDR64 = 0x044"
definition FFLAGS_ADDR64 :: u32 where [csr64_consts]: "FFLAGS_ADDR64 = 0x001"
definition FRM_ADDR64 :: u32 where [csr64_consts]: "FRM_ADDR64 = 0x002"
definition FCSR_ADDR64 :: u32 where [csr64_consts]: "FCSR_ADDR64 = 0x003"

text \<open>Numbered constants: the constant of number \<open>n\<close> of a contiguous group.\<close>

definition PMPCFG_ADDR64 :: "nat \<Rightarrow> u32" where [csr64_consts]: "PMPCFG_ADDR64 n = 0x3A0 + of_nat n"
definition PMPADDR_ADDR64 :: "nat \<Rightarrow> u32" where [csr64_consts]: "PMPADDR_ADDR64 n = 0x3B0 + of_nat n"
definition HPMCOUNTER_ADDR64 :: "nat \<Rightarrow> u32" where [csr64_consts]: "HPMCOUNTER_ADDR64 n = 0xC00 + of_nat n"
definition HPMCOUNTERH_ADDR64 :: "nat \<Rightarrow> u32" where [csr64_consts]: "HPMCOUNTERH_ADDR64 n = 0xC80 + of_nat n"
definition MHPMCOUNTER_ADDR64 :: "nat \<Rightarrow> u32" where [csr64_consts]: "MHPMCOUNTER_ADDR64 n = 0xB00 + of_nat n"
definition MHPMCOUNTERH_ADDR64 :: "nat \<Rightarrow> u32" where [csr64_consts]: "MHPMCOUNTERH_ADDR64 n = 0xB80 + of_nat n"
definition MHPMEVENT_ADDR64 :: "nat \<Rightarrow> u32" where [csr64_consts]: "MHPMEVENT_ADDR64 n = 0x320 + of_nat n"

section \<open>Bit-fields\<close>

definition misa64_extensions :: "u64 \<Rightarrow> u64" where [csr64_fields]: "misa64_extensions = get_field 0 26"
definition set_misa64_extensions :: "u64 \<Rightarrow> u64 \<Rightarrow> u64" where [csr64_fields]: "set_misa64_extensions = set_field 0 26"
definition misa64_mxl :: "u64 \<Rightarrow> u64" where [csr64_fields]: "misa64_mxl = get_field 62 2"
definition set_misa64_mxl :: "u64 \<Rightarrow> u64 \<Rightarrow> u64" where [csr64_fields]: "set_misa64_mxl = set_field 62 2"
definition mstatus64_uie :: "u64 \<Rightarrow> u64" where [csr64_fields]: "mstatus64_uie = get_field 0 1"
definition set_mstatus64_uie :: "u64 \<Rightarrow> u64 \<Rightarrow> u64" where [csr64_fields]: "set_mstatus64_uie = set_field 0 1"
definition mstatus64_sie :: "u64 \<Rightarrow> u64" where [csr64_fields]: "mstatus64_sie = get_field 1 1"
definition set_mstatus64_sie :: "u64 \<Rightarrow> u64 \<Rightarrow> u64" where [csr64_fields]: "set_mstatus64_sie = set_field 1 1"
definition mstatus64_mie :: "u64 \<Rightarrow> u64" where [csr64_fields]: "mstatus64_mie = get_field 3 1"
definition set_mstatus64_mie :: "u64 \<Rightarrow> u64 \<Rightarrow> u64" where [csr64_fields]: "set_mstatus64_mie = set_field 3 1"
definition mstatus64_upie :: "u64 \<Rightarrow> u64" where [csr64_fields]: "mstatus64_upie = get_field 4 1"
definition set_mstatus64_upie :: "u64 \<Rightarrow> u64 \<Rightarrow> u64" where [csr64_fields]: "set_mstatus64_upie = set_field 4 1"
definition mstatus64_spie :: "u64 \<Rightarrow> u64" where [csr64_fields]: "mstatus64_spie = get_field 5 1"
definition set_mstatus64_spie :: "u64 \<Rightarrow> u64 \<Rightarrow> u64" where [csr64_fields]: "set_mstatus64_spie = set_field 5 1"
definition mstatus64_mpie :: "u64 \<Rightarrow> u64" where [csr64_fields]: "mstatus64_mpie = get_field 7 1"
definition set_mstatus64_mpie :: "u64 \<Rightarrow> u64 \<Rightarrow> u64" where [csr64_fields]: "set_mstatus64_mpie = set_field 7 1"
definition mstatus64_spp :: "u64 \<Rightarrow> u64" where [csr64_fields]: "mstatus64_spp = get_field 8 1"
definition set_mstatus64_spp :: "u64 \<Rightarrow> u64 \<Rightarrow> u64" where [csr64_fields]: "set_mstatus64_spp = set_field 8 1"
definition mstatus64_mpp :: "u64 \<Rightarrow> u64" where [csr64_fields]: "mstatus64_mpp = get_field 11 2"
definition set_mstatus64_mpp :: "u64 \<Rightarrow> u64 \<Rightarrow> u64" where [csr64_fields]: "set_mstatus64_mpp = set_field 11 2"
definition mstatus64_fs :: "u64 \<Rightarrow> u64" where [csr64_fields]: "mstatus64_fs = get_field 13 2"
definition set_mstatus64_fs :: "u64 \<Rightarrow> u64 \<Rightarrow> u64" where [csr64_fields]: "set_mstatus64_fs = set_field 13 2"
definition mstatus64_mprv :: "u64 \<Rightarrow> u64" where [csr64_fields]: "mstatus64_mprv = get_field 17 1"
definition mstatus64_sum :: "u64 \<Rightarrow> u64" where [csr64_fields]: "mstatus64_sum = get_field 18 1"
definition mstatus64_mxr :: "u64 \<Rightarrow> u64" where [csr64_fields]: "mstatus64_mxr = get_field 19 1"
definition mstatus64_tvm :: "u64 \<Rightarrow> u64" where [csr64_fields]: "mstatus64_tvm = get_field 20 1"
definition mstatus64_tw :: "u64 \<Rightarrow> u64" where [csr64_fields]: "mstatus64_tw = get_field 21 1"
definition mstatus64_tsr :: "u64 \<Rightarrow> u64" where [csr64_fields]: "mstatus64_tsr = get_field 22 1"
definition mstatus64_uxl :: "u64 \<Rightarrow> u64" where [csr64_fields]: "mstatus64_uxl = get_field 32 2"
definition set_mstatus64_uxl :: "u64 \<Rightarrow> u64 \<Rightarrow> u64" where [csr64_fields]: "set_mstatus64_uxl = set_field 32 2"
definition mstatus64_sxl :: "u64 \<Rightarrow> u64" where [csr64_fields]: "mstatus64_sxl = get_field 34 2"
definition set_mstatus64_sxl :: "u64 \<Rightarrow> u64 \<Rightarrow> u64" where [csr64_fields]: "set_mstatus64_sxl = set_field 34 2"
definition mstatus64_sd :: "u64 \<Rightarrow> u64" where [csr64_fields]: "mstatus64_sd = get_field 63 1"
definition set_mstatus64_sd :: "u64 \<Rightarrow> u64 \<Rightarrow> u64" where [csr64_fields]: "set_mstatus64_sd = set_field 63 1"
definition mtvec64_mode :: "u64 \<Rightarrow> u64" where [csr64_fields]: "mtvec64_mode = get_field 0 2"
definition set_mtvec64_mode :: "u64 \<Rightarrow> u64 \<Rightarrow> u64" where [csr64_fields]: "set_mtvec64_mode = set_field 0 2"
definition mtvec64_base :: "u64 \<Rightarrow> u64" where [csr64_fields]: "mtvec64_base = get_field 2 62"
definition mip64_usip :: "u64 \<Rightarrow> u64" where [csr64_fields]: "mip64_usip = get_field 0 1"
definition mip64_ssip :: "u64 \<Rightarrow> u64" where [csr64_fields]: "mip64_ssip = get_field 1 1"
definition mip64_msip :: "u64 \<Rightarrow> u64" where [csr64_fields]: "mip64_msip = get_field 3 1"
definition set_mip64_msip :: "u64 \<Rightarrow> u64 \<Rightarrow> u64" where [csr64_fields]: "set_mip64_msip = set_field 3 1"
definition mip64_utip :: "u64 \<Rightarrow> u64" where [csr64_fields]: "mip64_utip = get_field 4 1"
definition mip64_stip :: "u64 \<Rightarrow> u64" where [csr64_fields]: "mip64_stip = get_field 5 1"
definition mip64_mtip :: "u64 \<Rightarrow> u64" where [csr64_fields]: "mip64_mtip = get_field 7 1"
definition set_mip64_mtip :: "u64 \<Rightarrow> u64 \<Rightarrow> u64" where [csr64_fields]: "set_mip64_mtip = set_field 7 1"
definition mip64_ueip :: "u64 \<Rightarrow> u64" where [csr64_fields]: "mip64_ueip = get_field 8 1"
definition set_mip64_ueip :: "u64 \<Rightarrow> u64 \<Rightarrow> u64" where [csr64_fields]: "set_mip64_ueip = set_field 8 1"
definition mip64_seip :: "u64 \<Rightarrow> u64" where [csr64_fields]: "mip64_seip = get_field 9 1"
definition set_mip64_seip :: "u64 \<Rightarrow> u64 \<Rightarrow> u64" where [csr64_fields]: "set_mip64_seip = set_field 9 1"
definition mip64_meip :: "u64 \<Rightarrow> u64" where [csr64_fields]: "mip64_meip = get_field 11 1"
definition set_mip64_meip :: "u64 \<Rightarrow> u64 \<Rightarrow> u64" where [csr64_fields]: "set_mip64_meip = set_field 11 1"
definition mcause64_exception_code :: "u64 \<Rightarrow> u64" where [csr64_fields]: "mcause64_exception_code = get_field 0 63"
definition set_mcause64_exception_code :: "u64 \<Rightarrow> u64 \<Rightarrow> u64" where [csr64_fields]: "set_mcause64_exception_code = set_field 0 63"
definition mcause64_interrupt :: "u64 \<Rightarrow> u64" where [csr64_fields]: "mcause64_interrupt = get_field 63 1"
definition set_mcause64_interrupt :: "u64 \<Rightarrow> u64 \<Rightarrow> u64" where [csr64_fields]: "set_mcause64_interrupt = set_field 63 1"
definition mcountinhibit64_CY :: "u64 \<Rightarrow> u64" where [csr64_fields]: "mcountinhibit64_CY = get_field 0 1"
definition mcountinhibit64_IR :: "u64 \<Rightarrow> u64" where [csr64_fields]: "mcountinhibit64_IR = get_field 2 1"
definition satp64_ppn :: "u64 \<Rightarrow> u64" where [csr64_fields]: "satp64_ppn = get_field 0 44"
definition satp64_mode :: "u64 \<Rightarrow> u64" where [csr64_fields]: "satp64_mode = get_field 60 4"
definition set_satp64_mode :: "u64 \<Rightarrow> u64 \<Rightarrow> u64" where [csr64_fields]: "set_satp64_mode = set_field 60 4"
definition fcsr64_fflags :: "u64 \<Rightarrow> u64" where [csr64_fields]: "fcsr64_fflags = get_field 0 5"
definition set_fcsr64_fflags :: "u64 \<Rightarrow> u64 \<Rightarrow> u64" where [csr64_fields]: "set_fcsr64_fflags = set_field 0 5"
definition fcsr64_frm :: "u64 \<Rightarrow> u64" where [csr64_fields]: "fcsr64_frm = get_field 5 3"
definition set_fcsr64_frm :: "u64 \<Rightarrow> u64 \<Rightarrow> u64" where [csr64_fields]: "set_fcsr64_frm = set_field 5 3"

definition misa64_C :: u64 where [csr64_consts]: "misa64_C = push_bit 2 1"
definition misa64_U :: u64 where [csr64_consts]: "misa64_U = push_bit 20 1"
definition misa64_S :: u64 where [csr64_consts]: "misa64_S = push_bit 18 1"
definition has_C_extension64 :: "u64 \<Rightarrow> bool" where "has_C_extension64 misa \<longleftrightarrow> misa64_extensions misa AND misa64_C \<noteq> 0"
definition has_user_mode_extension64 :: "u64 \<Rightarrow> bool" where "has_user_mode_extension64 misa \<longleftrightarrow> misa64_extensions misa AND misa64_U \<noteq> 0"
definition has_supervisor_mode_extension64 :: "u64 \<Rightarrow> bool" where "has_supervisor_mode_extension64 misa \<longleftrightarrow> misa64_extensions misa AND misa64_S \<noteq> 0"

text \<open>The extensions of the constructor: IMAFDC, N, U and S.\<close>

definition misa64_init :: u64 where
  "misa64_init = set_misa64_mxl 2 (set_misa64_extensions
     (push_bit 8 1 OR push_bit 12 1 OR 1 OR push_bit 5 1 OR push_bit 3 1 OR misa64_C OR push_bit 13 1 OR misa64_U OR misa64_S) 0)"

definition mstatus64_init :: u64 where
  "mstatus64_init = set_mstatus64_uxl 2 (set_mstatus64_sxl 2 0)"

definition get_base_address64 :: "u64 \<Rightarrow> u64" where
  "get_base_address64 mtvec = push_bit 2 (mtvec64_base mtvec)"

definition mtvec64_checked_write :: "u64 \<Rightarrow> u64" where
  "mtvec64_checked_write val = (if mtvec64_mode val \<ge> 1 then set_mtvec64_mode 0 val else val)"

definition Vectored64 :: u64 where "Vectored64 = 1"

text \<open>\<^verbatim>\<open>1 << bitpos\<close> is an \<^verbatim>\<open>int\<close> and widened with its sign.\<close>

definition is_bitset64 :: "u64 \<Rightarrow> u32 \<Rightarrow> bool" where
  "is_bitset64 r bitpos \<longleftrightarrow> r AND scast (push_bit (unat bitpos) 1 :: u32) \<noteq> 0"

definition is_valid_privilege_level64 :: "PrivilegeLevel \<Rightarrow> bool" where
  "is_valid_privilege_level64 mode \<longleftrightarrow> mode = MachineMode \<or> mode = SupervisorMode \<or> mode = UserMode"

definition is_hpmcounter64 :: "u32 \<Rightarrow> bool" where
  "is_hpmcounter64 addr \<longleftrightarrow> HPMCOUNTER_ADDR64 3 \<le> addr \<and> addr \<le> HPMCOUNTER_ADDR64 31 \<or>
     MHPMCOUNTER_ADDR64 3 \<le> addr \<and> addr \<le> MHPMCOUNTER_ADDR64 31 \<or>
     MHPMEVENT_ADDR64 3 \<le> addr \<and> addr \<le> MHPMEVENT_ADDR64 31"

section \<open>The table\<close>

record csr64_table =
  c64_cycle :: u64
  c64_time :: u64
  c64_instret :: u64
  c64_mvendorid :: u64
  c64_marchid :: u64
  c64_mimpid :: u64
  c64_mhartid :: u64
  c64_mstatus :: u64
  c64_misa :: u64
  c64_medeleg :: u64
  c64_mideleg :: u64
  c64_mie :: u64
  c64_mtvec :: u64
  c64_mcounteren :: u64
  c64_mcountinhibit :: u64
  c64_mscratch :: u64
  c64_mepc :: u64
  c64_mcause :: u64
  c64_mtval :: u64
  c64_mip :: u64
  c64_sedeleg :: u64
  c64_sideleg :: u64
  c64_stvec :: u64
  c64_scounteren :: u64
  c64_sscratch :: u64
  c64_sepc :: u64
  c64_scause :: u64
  c64_stval :: u64
  c64_satp :: u64
  c64_utvec :: u64
  c64_uscratch :: u64
  c64_uepc :: u64
  c64_ucause :: u64
  c64_utval :: u64
  c64_fcsr :: u64
  c64_pmpaddr :: "u64 list"
  c64_pmpcfg :: "u64 list"

definition csr64_table_init :: csr64_table where
  "csr64_table_init = \<lparr>c64_cycle = 0, c64_time = 0, c64_instret = 0, c64_mvendorid = 0, c64_marchid = 0, c64_mimpid = 0, c64_mhartid = 0, c64_mstatus = mstatus64_init, c64_misa = misa64_init, c64_medeleg = 0, c64_mideleg = 0, c64_mie = 0, c64_mtvec = 0, c64_mcounteren = 0, c64_mcountinhibit = 0, c64_mscratch = 0, c64_mepc = 0, c64_mcause = 0, c64_mtval = 0, c64_mip = 0, c64_sedeleg = 0, c64_sideleg = 0, c64_stvec = 0, c64_scounteren = 0, c64_sscratch = 0, c64_sepc = 0, c64_scause = 0, c64_stval = 0, c64_satp = 0, c64_utvec = 0, c64_uscratch = 0, c64_uepc = 0, c64_ucause = 0, c64_utval = 0, c64_fcsr = 0, c64_pmpaddr = replicate 16 0, c64_pmpcfg = replicate 2 0\<rparr>"

text \<open>
  An entry of \<^verbatim>\<open>register_mapping\<close>: the address and how the register it points to is read and
  written. \<^verbatim>\<open>pmpcfg\<close> has two elements but four are entered: the last two point behind the array.
\<close>

type_synonym csr64_entry = "u32 \<times> (csr64_table \<Rightarrow> u64 res) \<times> (u64 \<Rightarrow> csr64_table \<Rightarrow> csr64_table res)"

definition entry64 :: "u32 \<Rightarrow> (csr64_table \<Rightarrow> u64) \<Rightarrow> ((u64 \<Rightarrow> u64) \<Rightarrow> csr64_table \<Rightarrow> csr64_table) \<Rightarrow> csr64_entry" where
  "entry64 addr get upd = (addr, (\<lambda>t. Inr (get t)), (\<lambda>v t. Inr (upd (\<lambda>_. v) t)))"

definition array_entry64 :: "u32 \<Rightarrow> (csr64_table \<Rightarrow> u64 list) \<Rightarrow> ((u64 list \<Rightarrow> u64 list) \<Rightarrow> csr64_table \<Rightarrow> csr64_table) \<Rightarrow> nat \<Rightarrow> csr64_entry" where
  "array_entry64 addr get upd i = (addr,
     (\<lambda>t. if i < length (get t) then Inr (get t ! i) else Inl UndefinedBehaviour),
     (\<lambda>v t. if i < length (get t) then Inr (upd (\<lambda>xs. xs[i := v]) t) else Inl UndefinedBehaviour))"

definition scalar_registers64 :: "csr64_entry list" where
  "scalar_registers64 =
    [entry64 CYCLE_ADDR64 c64_cycle c64_cycle_update,
     entry64 TIME_ADDR64 c64_time c64_time_update,
     entry64 INSTRET_ADDR64 c64_instret c64_instret_update,
     entry64 MCYCLE_ADDR64 c64_cycle c64_cycle_update,
     entry64 MTIME_ADDR64 c64_time c64_time_update,
     entry64 MINSTRET_ADDR64 c64_instret c64_instret_update,
     entry64 MVENDORID_ADDR64 c64_mvendorid c64_mvendorid_update,
     entry64 MARCHID_ADDR64 c64_marchid c64_marchid_update,
     entry64 MIMPID_ADDR64 c64_mimpid c64_mimpid_update,
     entry64 MHARTID_ADDR64 c64_mhartid c64_mhartid_update,
     entry64 MSTATUS_ADDR64 c64_mstatus c64_mstatus_update,
     entry64 MISA_ADDR64 c64_misa c64_misa_update,
     entry64 MEDELEG_ADDR64 c64_medeleg c64_medeleg_update,
     entry64 MIDELEG_ADDR64 c64_mideleg c64_mideleg_update,
     entry64 MIE_ADDR64 c64_mie c64_mie_update,
     entry64 MTVEC_ADDR64 c64_mtvec c64_mtvec_update,
     entry64 MCOUNTEREN_ADDR64 c64_mcounteren c64_mcounteren_update,
     entry64 MCOUNTINHIBIT_ADDR64 c64_mcountinhibit c64_mcountinhibit_update,
     entry64 MSCRATCH_ADDR64 c64_mscratch c64_mscratch_update,
     entry64 MEPC_ADDR64 c64_mepc c64_mepc_update,
     entry64 MCAUSE_ADDR64 c64_mcause c64_mcause_update,
     entry64 MTVAL_ADDR64 c64_mtval c64_mtval_update,
     entry64 MIP_ADDR64 c64_mip c64_mip_update,
     entry64 SEDELEG_ADDR64 c64_sedeleg c64_sedeleg_update,
     entry64 SIDELEG_ADDR64 c64_sideleg c64_sideleg_update,
     entry64 STVEC_ADDR64 c64_stvec c64_stvec_update,
     entry64 SCOUNTEREN_ADDR64 c64_scounteren c64_scounteren_update,
     entry64 SSCRATCH_ADDR64 c64_sscratch c64_sscratch_update,
     entry64 SEPC_ADDR64 c64_sepc c64_sepc_update,
     entry64 SCAUSE_ADDR64 c64_scause c64_scause_update,
     entry64 STVAL_ADDR64 c64_stval c64_stval_update,
     entry64 SATP_ADDR64 c64_satp c64_satp_update,
     entry64 UTVEC_ADDR64 c64_utvec c64_utvec_update,
     entry64 USCRATCH_ADDR64 c64_uscratch c64_uscratch_update,
     entry64 UEPC_ADDR64 c64_uepc c64_uepc_update,
     entry64 UCAUSE_ADDR64 c64_ucause c64_ucause_update,
     entry64 UTVAL_ADDR64 c64_utval c64_utval_update,
     entry64 FCSR_ADDR64 c64_fcsr c64_fcsr_update]"

definition array_registers64 :: "csr64_entry list" where
  "array_registers64 = map (\<lambda>i. array_entry64 (PMPADDR_ADDR64 i) c64_pmpaddr c64_pmpaddr_update i) [0..<16] @
     map (\<lambda>i. array_entry64 (PMPCFG_ADDR64 i) c64_pmpcfg c64_pmpcfg_update i) [0..<4]"

definition register_mapping64 :: "u32 \<Rightarrow> ((csr64_table \<Rightarrow> u64 res) \<times> (u64 \<Rightarrow> csr64_table \<Rightarrow> csr64_table res)) option" where
  "register_mapping64 = map_of (scalar_registers64 @ array_registers64)"

definition is_valid_csr64_addr :: "u32 \<Rightarrow> bool" where
  "is_valid_csr64_addr addr \<longleftrightarrow> register_mapping64 addr \<noteq> None"

definition ensure_failed64 :: sim_exn where
  "ensure_failed64 = RuntimeError ''runtime assertion failed''"

definition default_write64 :: "u32 \<Rightarrow> u64 \<Rightarrow> csr64_table \<Rightarrow> csr64_table res" where
  "default_write64 addr v t = (case register_mapping64 addr of None \<Rightarrow> Inl ensure_failed64 | Some (get, put) \<Rightarrow> put v t)"

definition default_read64 :: "u32 \<Rightarrow> csr64_table \<Rightarrow> u64 res" where
  "default_read64 addr t = (case register_mapping64 addr of None \<Rightarrow> Inl ensure_failed64 | Some (get, put) \<Rightarrow> get t)"

end
