(* ===== verification/RV64_State.thy ===== *)
theory RV64_State
  imports RV64_CSR VP_ISS_Exec
begin

text \<open>
  State of the RV64 simulator (\<^verbatim>\<open>struct ISS\<close> and \<^verbatim>\<open>RegFile\<close> of \<^verbatim>\<open>core/rv64/iss.h\<close>) and its memory interface
  (\<^verbatim>\<open>core/rv64/mem.h\<close>). The raw accesses of \<^verbatim>\<open>CombinedMemoryInterface\<close> (bus lock, direct memory ranges, bus)
  are the same code as in \<^verbatim>\<open>core/rv32/mem.h\<close> and so are \<open>raw_load_data\<close> and \<open>raw_store_data\<close> of \<open>VP_Core_Mem\<close>; the
  RV64 interface has no protection units, and its unit of translation is always there. As for the
  RV32 core, trace output, the quantum keeper and \<^verbatim>\<open>wfi_event\<close> are left out, and the globals of the
  softfloat library are the last two fields.
\<close>

section \<open>State\<close>

record 'p iss64 =
  i64_mem :: "'p cmi"
  i64_sys :: bool
  i64_regs :: "u64 list"
  i64_fp_regs :: "u64 list"
  i64_pc :: u64
  i64_last_pc :: u64
  i64_shall_exit :: bool
  i64_ignore_wfi :: bool
  i64_csrs :: csr64_table
  i64_prv :: PrivilegeLevel
  i64_lr_sc_counter :: int
  i64_instr :: instruction
  i64_op :: Mapping
  i64_status :: CoreExecStatus
  i64_breakpoints :: "u64 set"
  i64_debug_mode :: bool
  i64_cycle_counter :: u64
  i64_exceptionFlags :: u32
  i64_roundingMode :: u32

text \<open>The functions of the softfloat library that only the RV64 instructions use.\<close>

record softfloat64 = softfloat +
  f32_to_i64 :: "u32 \<Rightarrow> u32 \<Rightarrow> u64 \<times> u32"
  f32_to_ui64 :: "u32 \<Rightarrow> u32 \<Rightarrow> u64 \<times> u32"
  i64_to_f32 :: "u32 \<Rightarrow> u64 \<Rightarrow> u32 \<times> u32"
  ui64_to_f32 :: "u32 \<Rightarrow> u64 \<Rightarrow> u32 \<times> u32"
  f64_to_i64 :: "u32 \<Rightarrow> u64 \<Rightarrow> u64 \<times> u32"
  f64_to_ui64 :: "u32 \<Rightarrow> u64 \<Rightarrow> u64 \<times> u32"
  i64_to_f64 :: "u32 \<Rightarrow> u64 \<Rightarrow> u64 \<times> u32"
  ui64_to_f64 :: "u32 \<Rightarrow> u64 \<Rightarrow> u64 \<times> u32"

text \<open>The surroundings of the simulator, as \<open>iss_env\<close> for the RV32 core.\<close>

record 'p iss64_env =
  e64_pt :: "'p ptransport"
  e64_update_and_get_mtime :: "('p iss64, u64) op"
  e64_execute_syscall :: "('p iss64, unit) op"
  e64_wait_wfi :: "('p iss64, unit) op"
  e64_quantum_inc :: "u64 \<Rightarrow> ('p iss64, bool) op"
  e64_quantum_sync :: "('p iss64, unit) op"
  e64_softfloat :: softfloat64

definition trap64_op :: "u32 \<Rightarrow> u64 \<Rightarrow> ('s, 'a) op" where
  "trap64_op exc mtval = lift_op (raise_trap exc mtval 0)"

definition csr64_op :: "(csr64_table \<Rightarrow> csr64_table) \<Rightarrow> ('p iss64, unit) op" where
  "csr64_op f = modify_op (\<lambda>s. s\<lparr>i64_csrs := f (i64_csrs s)\<rparr>)"

section \<open>The memory interface\<close>

record mem64_core =
  m64_hart :: u32
  m64_mmu :: mmu_core

text \<open>What the memory interface reads of the core; the bus lock takes an \<^verbatim>\<open>unsigned\<close> hart identity.\<close>

definition iss64_core :: "'p iss64 \<Rightarrow> mem64_core" where
  "iss64_core s = (let c = i64_csrs s; ms = c64_mstatus c in \<lparr>m64_hart = ucast (c64_mhartid c),
     m64_mmu = \<lparr>mc_satp_mode = ucast (satp64_mode (c64_satp c)), mc_satp_ppn = satp64_ppn (c64_satp c),
       mc_prv = i64_prv s, mc_mprv = (mstatus64_mprv ms \<noteq> 0), mc_mpp = ucast (mstatus64_mpp ms),
       mc_sum = (mstatus64_sum ms \<noteq> 0), mc_mxr = (mstatus64_mxr ms \<noteq> 0), mc_xlen = 64\<rparr>\<rparr>)"

definition v2p64 :: "'p ptransport \<Rightarrow> mem64_core \<Rightarrow> u64 \<Rightarrow> MemoryAccessType \<Rightarrow> ('p cmi, u64) op" where
  "v2p64 pt core vaddr type = (\<lambda>c. case cmi_mmu c of
       None \<Rightarrow> (Inl UndefinedBehaviour, c)
     | Some u \<Rightarrow> (case translate_virtual_to_physical_addr (cmi_mmu_if pt (m64_hart core)) (m64_mmu core) u c vaddr type of
           Inl e \<Rightarrow> (Inl e, c)
         | Inr (paddr, u', c') \<Rightarrow> (Inr paddr, c'\<lparr>cmi_mmu := Some u'\<rparr>)))"

definition load_data64 :: "'p ptransport \<Rightarrow> mem64_core \<Rightarrow> nat \<Rightarrow> u64 \<Rightarrow> ('p cmi, u64) op" where
  "load_data64 pt core sizeof_T addr = bind_op (v2p64 pt core addr LOAD) (raw_load_data pt (m64_hart core) sizeof_T)"

definition store_data64 :: "'p ptransport \<Rightarrow> mem64_core \<Rightarrow> nat \<Rightarrow> u64 \<Rightarrow> u64 \<Rightarrow> ('p cmi, unit) op" where
  "store_data64 pt core sizeof_T addr v =
     bind_op (v2p64 pt core addr STORE) (\<lambda>paddr. raw_store_data pt (m64_hart core) sizeof_T paddr v)"

definition load_instr64 :: "'p ptransport \<Rightarrow> mem64_core \<Rightarrow> u64 \<Rightarrow> ('p cmi, u32) op" where
  "load_instr64 pt core addr =
     bind_op (v2p64 pt core addr FETCH) (\<lambda>paddr. bind_op (raw_load_data pt (m64_hart core) 4 paddr) (\<lambda>v. ret_op (ucast v)))"

definition atomic_load_data64 :: "'p ptransport \<Rightarrow> mem64_core \<Rightarrow> nat \<Rightarrow> u64 \<Rightarrow> ('p cmi, u64) op" where
  "atomic_load_data64 pt core sizeof_T addr = seq_op (lock_bus (m64_hart core)) (load_data64 pt core sizeof_T addr)"

definition atomic_store_data64 :: "'p ptransport \<Rightarrow> mem64_core \<Rightarrow> nat \<Rightarrow> u64 \<Rightarrow> u64 \<Rightarrow> ('p cmi, unit) op" where
  "atomic_store_data64 pt core sizeof_T addr v =
     seq_op (get_op (\<lambda>c. is_locked_by (cmi_lock c) (m64_hart core)) assert_op) (store_data64 pt core sizeof_T addr v)"

definition atomic_load_reserved_data64 :: "'p ptransport \<Rightarrow> mem64_core \<Rightarrow> nat \<Rightarrow> u64 \<Rightarrow> ('p cmi, u64) op" where
  "atomic_load_reserved_data64 pt core sizeof_T addr =
     seq_op (lock_bus (m64_hart core)) (
     seq_op (modify_op (\<lambda>c. c\<lparr>cmi_lr_addr := addr\<rparr>)) (load_data64 pt core sizeof_T addr))"

definition atomic_store_conditional_data64 :: "'p ptransport \<Rightarrow> mem64_core \<Rightarrow> nat \<Rightarrow> u64 \<Rightarrow> u64 \<Rightarrow> ('p cmi, bool) op" where
  "atomic_store_conditional_data64 pt core sizeof_T addr v = get_op id (\<lambda>c.
     if is_locked_by (cmi_lock c) (m64_hart core) then
       (if addr = cmi_lr_addr c then seq_op (store_data64 pt core sizeof_T addr v) (ret_op True)
        else seq_op (atomic_unlock (m64_hart core)) (ret_op False))
     else ret_op False)"

text \<open>A loaded value is widened with its sign, or with zeros.\<close>

definition signed_result :: "nat \<Rightarrow> u64 \<Rightarrow> u64" where
  "signed_result sizeof_T v = signed_take_bit (8 * sizeof_T - 1) v"
definition unsigned_result :: "nat \<Rightarrow> u64 \<Rightarrow> u64" where
  "unsigned_result sizeof_T v = take_bit (8 * sizeof_T) v"

definition mem64_op :: "(mem64_core \<Rightarrow> ('p cmi, 'a) op) \<Rightarrow> ('p iss64, 'a) op" where
  "mem64_op f = (\<lambda>s. case f (iss64_core s) (i64_mem s) of (r, m) \<Rightarrow> (r, s\<lparr>i64_mem := m\<rparr>))"

definition release_lr_sc_reservation64 :: "('p iss64, unit) op" where
  "release_lr_sc_reservation64 =
     seq_op (modify_op (\<lambda>s. s\<lparr>i64_lr_sc_counter := 0\<rparr>)) (mem64_op (\<lambda>core. atomic_unlock (m64_hart core)))"

section \<open>Register file\<close>

definition RegFile64_write :: "u64 \<Rightarrow> u64 \<Rightarrow> u64 list \<Rightarrow> u64 list res" where
  "RegFile64_write index value regs =
     assert_that (index \<le> 31) (assert_that (index \<noteq> 0) (Inr (regs[unat index := value])))"

definition RegFile64_read :: "u64 \<Rightarrow> u64 list \<Rightarrow> u64 res" where
  "RegFile64_read index regs =
     (if index > 31 then Inl (RuntimeError ''out-of-range register access'') else Inr (regs ! unat index))"

text \<open>\<^verbatim>\<open>operator[]\<close>, \<^verbatim>\<open>shamt\<close> and \<^verbatim>\<open>shamt_w\<close> at the register numbers of an instruction, which are below 32.\<close>

definition xreg64 :: "'p iss64 \<Rightarrow> u32 \<Rightarrow> u64" where
  "xreg64 s idx = i64_regs s ! unat idx"

definition set_reg64 :: "u32 \<Rightarrow> u64 \<Rightarrow> ('p iss64, unit) op" where
  "set_reg64 idx value = modify_op (\<lambda>s. s\<lparr>i64_regs := (i64_regs s)[unat idx := value]\<rparr>)"

definition rs1_64 :: "'p iss64 \<Rightarrow> u64" where "rs1_64 s = xreg64 s (instr_rs1 (i64_instr s))"
definition rs2_64 :: "'p iss64 \<Rightarrow> u64" where "rs2_64 s = xreg64 s (instr_rs2 (i64_instr s))"

definition write_rd64 :: "('p iss64 \<Rightarrow> u64) \<Rightarrow> ('p iss64, unit) op" where
  "write_rd64 f = get_op id (\<lambda>s. set_reg64 (instr_rd (i64_instr s)) (f s))"

definition shamt64 :: "u64 \<Rightarrow> nat" where "shamt64 v = unat (get_field 0 6 v)"
definition shamt_w64 :: "u64 \<Rightarrow> nat" where "shamt_w64 v = unat (get_field 0 5 v)"

section \<open>Small operations of the simulator\<close>

definition m_mode64 :: "'p iss64 \<Rightarrow> bool" where "m_mode64 s \<longleftrightarrow> i64_prv s = MachineMode"
definition s_mode64 :: "'p iss64 \<Rightarrow> bool" where "s_mode64 s \<longleftrightarrow> i64_prv s = SupervisorMode"
definition u_mode64 :: "'p iss64 \<Rightarrow> bool" where "u_mode64 s \<longleftrightarrow> i64_prv s = UserMode"

definition pc_alignment_mask64 :: "'p iss64 \<Rightarrow> u64" where
  "pc_alignment_mask64 s = (if has_C_extension64 (c64_misa (i64_csrs s)) then NOT 1 else NOT 3)"

definition has_local_pending_enabled_interrupts64 :: "'p iss64 \<Rightarrow> bool" where
  "has_local_pending_enabled_interrupts64 s \<longleftrightarrow> c64_mie (i64_csrs s) AND c64_mip (i64_csrs s) \<noteq> 0"

definition illegal64 :: "('p iss64, 'a) op" where
  "illegal64 = get_op i64_instr (\<lambda>i. trap64_op EXC_ILLEGAL_INSTR (ucast i))"

definition illegal64_if :: "('p iss64 \<Rightarrow> bool) \<Rightarrow> ('p iss64, unit) op" where
  "illegal64_if cond = get_op cond (\<lambda>b. when_op b illegal64)"

definition trap_check_pc_alignment64 :: "('p iss64, unit) op" where
  "trap_check_pc_alignment64 = seq_op (get_op (\<lambda>s. i64_pc s AND 1 = 0) assert_op)
     (get_op id (\<lambda>s. when_op (i64_pc s AND 3 \<noteq> 0 \<and> \<not> has_C_extension64 (c64_misa (i64_csrs s)))
        (trap64_op EXC_INSTR_ADDR_MISALIGNED (i64_pc s))))"

definition trap_check_addr_alignment64 :: "u64 \<Rightarrow> bool \<Rightarrow> u64 \<Rightarrow> ('p iss64, unit) op" where
  "trap_check_addr_alignment64 alignment isLoad addr = when_op (addr mod alignment \<noteq> 0)
     (trap64_op (if isLoad then EXC_LOAD_ADDR_MISALIGNED else EXC_STORE_AMO_ADDR_MISALIGNED) addr)"

definition iss64_read_register :: "u32 \<Rightarrow> 'p iss64 \<Rightarrow> u64 res" where
  "iss64_read_register idx s = RegFile64_read (ucast idx) (i64_regs s)"

definition iss64_write_register :: "u32 \<Rightarrow> u64 \<Rightarrow> 'p iss64 \<Rightarrow> 'p iss64 res" where
  "iss64_write_register idx v s =
     bind_res (RegFile64_write (ucast idx) v (i64_regs s)) (\<lambda>rs. Inr (s\<lparr>i64_regs := rs\<rparr>))"

definition iss64_sys_exit :: "'p iss64 \<Rightarrow> 'p iss64" where
  "iss64_sys_exit s = s\<lparr>i64_shall_exit := True\<rparr>"

definition iss64_block_on_wfi :: "bool \<Rightarrow> 'p iss64 \<Rightarrow> 'p iss64" where
  "iss64_block_on_wfi block s = s\<lparr>i64_ignore_wfi := \<not> block\<rparr>"

definition iss64_set_status :: "CoreExecStatus \<Rightarrow> 'p iss64 \<Rightarrow> 'p iss64" where
  "iss64_set_status st s = s\<lparr>i64_status := st\<rparr>"

definition iss64_enable_debug :: "'p iss64 \<Rightarrow> 'p iss64" where
  "iss64_enable_debug s = s\<lparr>i64_debug_mode := True\<rparr>"

definition iss64_insert_breakpoint :: "u64 \<Rightarrow> 'p iss64 \<Rightarrow> 'p iss64" where
  "iss64_insert_breakpoint addr s = s\<lparr>i64_breakpoints := insert addr (i64_breakpoints s)\<rparr>"

definition iss64_remove_breakpoint :: "u64 \<Rightarrow> 'p iss64 \<Rightarrow> 'p iss64" where
  "iss64_remove_breakpoint addr s = s\<lparr>i64_breakpoints := i64_breakpoints s - {addr}\<rparr>"

section \<open>Construction\<close>

definition ISS64_construct :: "u64 \<Rightarrow> 'p cmi \<Rightarrow> 'p iss64" where
  "ISS64_construct hart_id m = \<lparr>i64_mem = m, i64_sys = False, i64_regs = replicate 32 0, i64_fp_regs = replicate 32 0,
     i64_pc = 0, i64_last_pc = 0, i64_shall_exit = False, i64_ignore_wfi = False,
     i64_csrs = csr64_table_init\<lparr>c64_mhartid := hart_id\<rparr>, i64_prv = MachineMode, i64_lr_sc_counter = 0,
     i64_instr = 0, i64_op = UNDEF, i64_status = Runnable, i64_breakpoints = {}, i64_debug_mode = False,
     i64_cycle_counter = 0, i64_exceptionFlags = 0, i64_roundingMode = 0\<rparr>"

definition ISS64_init :: "u64 \<Rightarrow> u64 \<Rightarrow> 'p iss64 \<Rightarrow> 'p iss64" where
  "ISS64_init entrypoint sp s = s\<lparr>i64_regs := (i64_regs s)[reg_sp := sp], i64_pc := entrypoint\<rparr>"

end
