(* ===== verification/RV64_Trap.thy ===== *)
theory RV64_Trap
  imports RV64_State
begin

text \<open>
  CSR accesses, traps and interrupts of the RV64 simulator (\<^verbatim>\<open>core/rv64/iss.cpp\<close>): the access checks,
  \<^verbatim>\<open>get_csr_value\<close> and \<^verbatim>\<open>set_csr_value\<close>, the interrupt lines, the choice of the pending interrupt, entering
  a handler and returning from it.
\<close>

text \<open>The codes that \<^verbatim>\<open>core/rv64/trap-codes.h\<close> has beside those of the RV32 core.\<close>

definition EXC_U_SOFTWARE_INTERRUPT :: u32 where [core_consts]: "EXC_U_SOFTWARE_INTERRUPT = 0"
definition EXC_U_TIMER_INTERRUPT :: u32 where [core_consts]: "EXC_U_TIMER_INTERRUPT = 4"
definition EXC_U_EXTERNAL_INTERRUPT :: u32 where [core_consts]: "EXC_U_EXTERNAL_INTERRUPT = 8"

section \<open>Access checks\<close>

definition is_invalid_csr_access64 :: "u32 \<Rightarrow> bool \<Rightarrow> 'p iss64 \<Rightarrow> bool" where
  "is_invalid_csr_access64 csr_addr is_write s =
     (let csr_prv = drop_bit 8 (0x300 AND csr_addr); csr_readonly = (drop_bit 10 (0xC00 AND csr_addr) = 3)
      in is_write \<and> csr_readonly \<or> i64_prv s < csr_prv)"

definition compute_and_get_current_cycles64 :: "('p iss64, u64) op" where
  "compute_and_get_current_cycles64 = get_op i64_cycle_counter (\<lambda>n.
     seq_op (assert_op (n mod cycle_time = 0)) (ret_op (n div cycle_time)))"

definition validate_csr_counter_read_access_rights64 :: "u32 \<Rightarrow> ('p iss64, unit) op" where
  "validate_csr_counter_read_access_rights64 addr = when_op (0xC00 \<le> addr \<and> addr \<le> 0xC1F) (
     let cnt = addr AND 0x1F in
     seq_op (illegal64_if (\<lambda>s. s_mode64 s \<and> \<not> is_bitset64 (c64_mcounteren (i64_csrs s)) cnt))
       (illegal64_if (\<lambda>s. u_mode64 s \<and> (\<not> is_bitset64 (c64_mcounteren (i64_csrs s)) cnt \<or>
          \<not> is_bitset64 (c64_scounteren (i64_csrs s)) cnt))))"

section \<open>Reading a CSR\<close>

text \<open>The registers that are read through a mask or a bit-field.\<close>

definition csr64_masked_read :: "u32 \<Rightarrow> csr64_table \<Rightarrow> u64 option" where
  "csr64_masked_read addr t =
     (if addr = MSTATUS_ADDR64 then Some (c64_mstatus t AND MSTATUS_READ_MASK64)
      else if addr = SSTATUS_ADDR64 then Some (c64_mstatus t AND SSTATUS_READ_MASK64)
      else if addr = USTATUS_ADDR64 then Some (c64_mstatus t AND USTATUS_MASK64)
      else if addr = MIP_ADDR64 then Some (c64_mip t AND MIP_READ_MASK64)
      else if addr = SIP_ADDR64 then Some (c64_mip t AND SIP_MASK64)
      else if addr = UIP_ADDR64 then Some (c64_mip t AND UIP_MASK64)
      else if addr = MIE_ADDR64 then Some (c64_mie t AND MIE_MASK64)
      else if addr = SIE_ADDR64 then Some (c64_mie t AND SIE_MASK64)
      else if addr = UIE_ADDR64 then Some (c64_mie t AND UIE_MASK64)
      else if addr = FCSR_ADDR64 then Some (c64_fcsr t AND FCSR_MASK64)
      else if addr = FFLAGS_ADDR64 then Some (fcsr64_fflags (c64_fcsr t))
      else if addr = FRM_ADDR64 then Some (fcsr64_frm (c64_fcsr t))
      else None)"

definition get_csr_value64 :: "'p iss64_env \<Rightarrow> u32 \<Rightarrow> ('p iss64, u64) op" where
  "get_csr_value64 env addr =
     seq_op (validate_csr_counter_read_access_rights64 addr)
      (if addr = TIME_ADDR64 \<or> addr = MTIME_ADDR64 then
         bind_op (e64_update_and_get_mtime env) (\<lambda>mtime. seq_op (csr64_op (\<lambda>t. t\<lparr>c64_time := mtime\<rparr>)) (ret_op mtime))
       else if addr = MCYCLE_ADDR64 then
         bind_op compute_and_get_current_cycles64 (\<lambda>n. seq_op (csr64_op (\<lambda>t. t\<lparr>c64_cycle := n\<rparr>)) (ret_op n))
       else if addr = MINSTRET_ADDR64 then get_op (\<lambda>s. c64_instret (i64_csrs s)) ret_op
       else if is_hpmcounter64 addr then ret_op 0
       else get_op (\<lambda>s. csr64_masked_read addr (i64_csrs s)) (\<lambda>r. case r of
         Some v \<Rightarrow> ret_op v
       | None \<Rightarrow>
           seq_op (illegal64_if (\<lambda>s. addr = SATP_ADDR64 \<and> mstatus64_tvm (c64_mstatus (i64_csrs s)) \<noteq> 0)) (
           seq_op (illegal64_if (\<lambda>s. \<not> is_valid_csr64_addr addr))
             (get_op (\<lambda>s. default_read64 addr (i64_csrs s)) lift_op))))"

section \<open>Writing a CSR\<close>

definition write_satp64 :: "u64 \<Rightarrow> u64 \<Rightarrow> u64" where
  "write_satp64 value old = (let new = masked_write SATP_MASK64 value old; mode = ucast (satp64_mode new) in
     if mode \<noteq> SATP_MODE_BARE \<and> mode \<noteq> SATP_MODE_SV39 \<and> mode \<noteq> SATP_MODE_SV48
     then set_satp64_mode (satp64_mode old) new else new)"

text \<open>The cases of the \<^verbatim>\<open>switch\<close> that write one register; \<open>align\<close> is \<^verbatim>\<open>pc_alignment_mask\<close>.\<close>

definition csr64_masked_writes :: "u64 \<Rightarrow> u64 \<Rightarrow> (u32 \<times> (csr64_table \<Rightarrow> csr64_table)) list" where
  "csr64_masked_writes align v =
    [(MTVEC_ADDR64, c64_mtvec_update (masked_write MTVEC_MASK64 v)),
     (STVEC_ADDR64, c64_stvec_update (masked_write MTVEC_MASK64 v)),
     (UTVEC_ADDR64, c64_utvec_update (masked_write MTVEC_MASK64 v)),
     (MEPC_ADDR64, c64_mepc_update (masked_write align v)),
     (SEPC_ADDR64, c64_sepc_update (masked_write align v)),
     (UEPC_ADDR64, c64_uepc_update (masked_write align v)),
     (MSTATUS_ADDR64, c64_mstatus_update (masked_write MSTATUS_WRITE_MASK64 v)),
     (SSTATUS_ADDR64, c64_mstatus_update (masked_write SSTATUS_WRITE_MASK64 v)),
     (USTATUS_ADDR64, c64_mstatus_update (masked_write USTATUS_MASK64 v)),
     (MIP_ADDR64, c64_mip_update (masked_write MIP_WRITE_MASK64 v)),
     (SIP_ADDR64, c64_mip_update (masked_write SIP_MASK64 v)),
     (UIP_ADDR64, c64_mip_update (masked_write UIP_MASK64 v)),
     (MIE_ADDR64, c64_mie_update (masked_write MIE_MASK64 v)),
     (SIE_ADDR64, c64_mie_update (masked_write SIE_MASK64 v)),
     (UIE_ADDR64, c64_mie_update (masked_write UIE_MASK64 v)),
     (MIDELEG_ADDR64, c64_mideleg_update (masked_write MIDELEG_MASK64 v)),
     (MEDELEG_ADDR64, c64_medeleg_update (masked_write MEDELEG_MASK64 v)),
     (SIDELEG_ADDR64, c64_sideleg_update (masked_write SIDELEG_MASK64 v)),
     (SEDELEG_ADDR64, c64_sedeleg_update (masked_write SEDELEG_MASK64 v)),
     (MCOUNTEREN_ADDR64, c64_mcounteren_update (masked_write MCOUNTEREN_MASK64 v)),
     (SCOUNTEREN_ADDR64, c64_scounteren_update (masked_write MCOUNTEREN_MASK64 v)),
     (MCOUNTINHIBIT_ADDR64, c64_mcountinhibit_update (masked_write MCOUNTINHIBIT_MASK64 v)),
     (FCSR_ADDR64, c64_fcsr_update (masked_write FCSR_MASK64 v)),
     (FFLAGS_ADDR64, c64_fcsr_update (set_fcsr64_fflags v)),
     (FRM_ADDR64, c64_fcsr_update (set_fcsr64_frm v))]"

definition csr64_masked_write :: "u64 \<Rightarrow> u32 \<Rightarrow> u64 \<Rightarrow> (csr64_table \<Rightarrow> csr64_table) option" where
  "csr64_masked_write align addr v = map_of (csr64_masked_writes align v) addr"

definition set_csr_value64 :: "u32 \<Rightarrow> u64 \<Rightarrow> ('p iss64, unit) op" where
  "set_csr_value64 addr v =
     (if addr = MISA_ADDR64 \<or> is_hpmcounter64 addr then ret_op ()
      else if addr = SATP_ADDR64 then
        seq_op (illegal64_if (\<lambda>s. mstatus64_tvm (c64_mstatus (i64_csrs s)) \<noteq> 0)) (csr64_op (c64_satp_update (write_satp64 v)))
      else get_op (\<lambda>s. csr64_masked_write (pc_alignment_mask64 s) addr v) (\<lambda>w. case w of
        Some f \<Rightarrow> csr64_op f
      | None \<Rightarrow> seq_op (illegal64_if (\<lambda>s. \<not> is_valid_csr64_addr addr))
          (update_res (\<lambda>s. bind_res (default_write64 addr v (i64_csrs s)) (\<lambda>t. Inr (s\<lparr>i64_csrs := t\<rparr>))))))"

section \<open>Interrupt lines\<close>

definition set_mip64 :: "(u64 \<Rightarrow> u64) \<Rightarrow> ('p iss64, unit) op" where
  "set_mip64 f = csr64_op (c64_mip_update f)"

definition set_external64 :: "bool \<Rightarrow> PrivilegeLevel \<Rightarrow> ('p iss64, unit) op" where
  "set_external64 b level =
     (if level = UserMode then set_mip64 (set_mip64_ueip (of_bool b))
      else if level = SupervisorMode then set_mip64 (set_mip64_seip (of_bool b))
      else if level = MachineMode then set_mip64 (set_mip64_meip (of_bool b))
      else ret_op ())"

definition trigger_external_interrupt64 :: "PrivilegeLevel \<Rightarrow> ('p iss64, unit) op" where
  "trigger_external_interrupt64 level = set_external64 True level"

definition clear_external_interrupt64 :: "PrivilegeLevel \<Rightarrow> ('p iss64, unit) op" where
  "clear_external_interrupt64 level = set_external64 False level"

definition trigger_timer_interrupt64 :: "bool \<Rightarrow> PrivilegeLevel \<Rightarrow> ('p iss64, unit) op" where
  "trigger_timer_interrupt64 status sw_irq_type =
     seq_op (assert_op (sw_irq_type = MachineMode)) (set_mip64 (set_mip64_mtip (of_bool status)))"

definition trigger_software_interrupt64 :: "bool \<Rightarrow> PrivilegeLevel \<Rightarrow> ('p iss64, unit) op" where
  "trigger_software_interrupt64 status sw_irq_type =
     seq_op (assert_op (sw_irq_type = MachineMode)) (set_mip64 (set_mip64_msip (of_bool status)))"

section \<open>Taking a trap\<close>

text \<open>A shift by the width of the operand or more is undefined.\<close>

definition prepare_trap64 :: "u32 \<Rightarrow> u64 \<Rightarrow> ('p iss64, PrivilegeLevel) op" where
  "prepare_trap64 reason mtval =
     seq_op (modify_op (\<lambda>s. s\<lparr>i64_pc := i64_last_pc s\<rparr>)) (get_op id (\<lambda>s.
       let exc_bit = push_bit (unat reason) 1 :: u32; t = i64_csrs s; cause = set_mcause64_exception_code (ucast reason) \<circ> set_mcause64_interrupt 0 in
       if reason \<ge> 32 then fail_op UndefinedBehaviour
       else if i64_prv s = MachineMode \<or> ucast exc_bit AND c64_medeleg t = 0 then
         seq_op (csr64_op (\<lambda>t. t\<lparr>c64_mcause := cause (c64_mcause t), c64_mtval := mtval\<rparr>)) (ret_op MachineMode)
       else if i64_prv s = SupervisorMode \<or> ucast exc_bit AND c64_sedeleg t = 0 then
         seq_op (csr64_op (\<lambda>t. t\<lparr>c64_scause := cause (c64_scause t), c64_stval := mtval\<rparr>)) (ret_op SupervisorMode)
       else seq_op (assert_op (i64_prv s = UserMode \<and> ucast exc_bit AND c64_medeleg t \<noteq> 0 \<and> ucast exc_bit AND c64_sedeleg t \<noteq> 0)) (
         seq_op (csr64_op (\<lambda>t. t\<lparr>c64_ucause := cause (c64_ucause t), c64_utval := mtval\<rparr>)) (ret_op UserMode))))"

text \<open>\<^verbatim>\<open>PendingInterrupts\<close> is the pair of the target mode (\<open>NoneMode\<close> if there is none) and the pending bits.\<close>

type_synonym PendingInterrupts64 = "PrivilegeLevel \<times> u64"

definition compute_pending_interrupts64 :: "'p iss64 \<Rightarrow> PendingInterrupts64" where
  "compute_pending_interrupts64 s = (let t = i64_csrs s; prv = i64_prv s; ms = c64_mstatus t; pending = c64_mie t AND c64_mip t;
       m_pending = pending AND NOT (c64_mideleg t); delegated = pending AND c64_mideleg t;
       s_pending = delegated AND NOT (c64_sideleg t); u_pending = delegated AND c64_sideleg t in
     if pending = 0 then (NoneMode, 0)
     else if m_pending \<noteq> 0 \<and> (prv < MachineMode \<or> prv = MachineMode \<and> mstatus64_mie ms \<noteq> 0) then (MachineMode, m_pending)
     else if s_pending \<noteq> 0 \<and> (prv < SupervisorMode \<or> prv = SupervisorMode \<and> mstatus64_sie ms \<noteq> 0) then (SupervisorMode, s_pending)
     else if u_pending \<noteq> 0 \<and> prv = UserMode \<and> mstatus64_uie ms \<noteq> 0 then (UserMode, u_pending)
     else (NoneMode, 0))"

definition highest_interrupt64 :: "u64 \<Rightarrow> u32 res" where
  "highest_interrupt64 x =
     (if mip64_meip x \<noteq> 0 then Inr EXC_M_EXTERNAL_INTERRUPT
      else if mip64_msip x \<noteq> 0 then Inr EXC_M_SOFTWARE_INTERRUPT
      else if mip64_mtip x \<noteq> 0 then Inr EXC_M_TIMER_INTERRUPT
      else if mip64_seip x \<noteq> 0 then Inr EXC_S_EXTERNAL_INTERRUPT
      else if mip64_ssip x \<noteq> 0 then Inr EXC_S_SOFTWARE_INTERRUPT
      else if mip64_stip x \<noteq> 0 then Inr EXC_S_TIMER_INTERRUPT
      else if mip64_ueip x \<noteq> 0 then Inr EXC_U_EXTERNAL_INTERRUPT
      else if mip64_usip x \<noteq> 0 then Inr EXC_U_SOFTWARE_INTERRUPT
      else if mip64_utip x \<noteq> 0 then Inr EXC_U_TIMER_INTERRUPT
      else Inl (RuntimeError ''some pending interrupt must be available here''))"

definition prepare_interrupt64 :: "PendingInterrupts64 \<Rightarrow> ('p iss64, unit) op" where
  "prepare_interrupt64 e = bind_op (lift_op (highest_interrupt64 (snd e))) (\<lambda>exc.
     let cause = set_mcause64_interrupt 1 \<circ> set_mcause64_exception_code (ucast exc) in
     if fst e = MachineMode then csr64_op (c64_mcause_update cause)
     else if fst e = SupervisorMode then csr64_op (c64_scause_update cause)
     else if fst e = UserMode then csr64_op (c64_ucause_update cause)
     else fail_op (RuntimeError ''unknown privilege level''))"

section \<open>Entering a handler and returning\<close>

definition trap_vector64 :: "u64 \<Rightarrow> u64 \<Rightarrow> u64" where
  "trap_vector64 tvec cause = (let base = get_base_address64 tvec in
     if mcause64_interrupt cause \<noteq> 0 \<and> mtvec64_mode tvec = Vectored64 then base + 4 * mcause64_exception_code cause else base)"

definition enter_m64 :: "PrivilegeLevel \<Rightarrow> 'p iss64 \<Rightarrow> 'p iss64" where
  "enter_m64 pp s = (let t = i64_csrs s; ms = c64_mstatus t in
     s\<lparr>i64_csrs := t\<lparr>c64_mepc := i64_pc s,
         c64_mstatus := set_mstatus64_mpp (ucast pp) (set_mstatus64_mie 0 (set_mstatus64_mpie (mstatus64_mie ms) ms))\<rparr>,
       i64_pc := trap_vector64 (c64_mtvec t) (c64_mcause t)\<rparr>)"

definition enter_s64 :: "PrivilegeLevel \<Rightarrow> 'p iss64 \<Rightarrow> 'p iss64" where
  "enter_s64 pp s = (let t = i64_csrs s; ms = c64_mstatus t in
     s\<lparr>i64_csrs := t\<lparr>c64_sepc := i64_pc s,
         c64_mstatus := set_mstatus64_spp (ucast pp) (set_mstatus64_sie 0 (set_mstatus64_spie (mstatus64_sie ms) ms))\<rparr>,
       i64_pc := trap_vector64 (c64_stvec t) (c64_scause t)\<rparr>)"

definition enter_u64 :: "'p iss64 \<Rightarrow> 'p iss64" where
  "enter_u64 s = (let t = i64_csrs s; ms = c64_mstatus t in
     s\<lparr>i64_csrs := t\<lparr>c64_uepc := i64_pc s,
         c64_mstatus := set_mstatus64_uie 0 (set_mstatus64_upie (mstatus64_uie ms) ms)\<rparr>,
       i64_pc := trap_vector64 (c64_utvec t) (c64_ucause t)\<rparr>)"

text \<open>The asserts on \<^verbatim>\<open>prv\<close> come after its assignment.\<close>

definition switch_to_trap_handler64 :: "PrivilegeLevel \<Rightarrow> ('p iss64, unit) op" where
  "switch_to_trap_handler64 target_mode =
     seq_op release_lr_sc_reservation64 (get_op i64_prv (\<lambda>pp.
     seq_op (modify_op (\<lambda>s. s\<lparr>i64_prv := target_mode\<rparr>))
      (if target_mode = MachineMode then modify_op (enter_m64 pp)
       else if target_mode = SupervisorMode then
         seq_op (get_op i64_prv (\<lambda>prv. assert_op (prv = SupervisorMode \<or> prv = UserMode))) (modify_op (enter_s64 pp))
       else if target_mode = UserMode then
         seq_op (get_op i64_prv (\<lambda>prv. assert_op (prv = UserMode))) (modify_op enter_u64)
       else fail_op (RuntimeError ''unknown privilege level''))))"

definition return_m64 :: "'p iss64 \<Rightarrow> 'p iss64" where
  "return_m64 s = (let t = i64_csrs s; ms = c64_mstatus t in
     s\<lparr>i64_prv := ucast (mstatus64_mpp ms), i64_pc := c64_mepc t,
       i64_csrs := t\<lparr>c64_mstatus := set_mstatus64_mpp (if has_user_mode_extension64 (c64_misa t) then ucast UserMode else ucast MachineMode)
         (set_mstatus64_mpie 1 (set_mstatus64_mie (mstatus64_mpie ms) ms))\<rparr>\<rparr>)"

definition return_s64 :: "'p iss64 \<Rightarrow> 'p iss64" where
  "return_s64 s = (let t = i64_csrs s; ms = c64_mstatus t in
     s\<lparr>i64_prv := ucast (mstatus64_spp ms), i64_pc := c64_sepc t,
       i64_csrs := t\<lparr>c64_mstatus := set_mstatus64_spp (if has_user_mode_extension64 (c64_misa t) then ucast UserMode else ucast SupervisorMode)
         (set_mstatus64_spie 1 (set_mstatus64_sie (mstatus64_spie ms) ms))\<rparr>\<rparr>)"

definition return_u64 :: "'p iss64 \<Rightarrow> 'p iss64" where
  "return_u64 s = (let t = i64_csrs s; ms = c64_mstatus t in
     s\<lparr>i64_prv := UserMode, i64_pc := c64_uepc t,
       i64_csrs := t\<lparr>c64_mstatus := set_mstatus64_upie 1 (set_mstatus64_uie (mstatus64_upie ms) ms)\<rparr>\<rparr>)"

definition return_from_trap_handler64 :: "PrivilegeLevel \<Rightarrow> ('p iss64, unit) op" where
  "return_from_trap_handler64 return_mode =
     (if return_mode = MachineMode then modify_op return_m64
      else if return_mode = SupervisorMode then modify_op return_s64
      else if return_mode = UserMode then modify_op return_u64
      else fail_op (RuntimeError ''unknown privilege level''))"

end
