(* ===== verification/RV64_FP.thy ===== *)
theory RV64_FP
  imports RV64_Trap
begin

text \<open>
  Floating-point instructions of the RV64 simulator (\<^verbatim>\<open>core/rv64/iss.cpp\<close>, cases \<^verbatim>\<open>FLW\<close> to \<^verbatim>\<open>FCVT_D_LU\<close> of
  \<^verbatim>\<open>exec_step\<close> and the \<^verbatim>\<open>fp_*\<close> functions), over the functions of the softfloat library. A 32-bit result
  is written to an integer register with its sign.
\<close>

section \<open>Status and rounding mode\<close>

definition fp_require_not_off64 :: "('p iss64, unit) op" where
  "fp_require_not_off64 = illegal64_if (\<lambda>s. mstatus64_fs (c64_mstatus (i64_csrs s)) = ucast FS_OFF)"

definition fp_prepare_instr64 :: "('p iss64, unit) op" where
  "fp_prepare_instr64 = seq_op (get_op (\<lambda>s. i64_exceptionFlags s = 0) assert_op) fp_require_not_off64"

definition fp_set_dirty64 :: "('p iss64, unit) op" where
  "fp_set_dirty64 = csr64_op (c64_mstatus_update (\<lambda>ms. set_mstatus64_fs (ucast FS_DIRTY) (set_mstatus64_sd 1 ms)))"

definition fp_update_exception_flags64 :: "('p iss64, unit) op" where
  "fp_update_exception_flags64 = get_op i64_exceptionFlags (\<lambda>flags.
     when_op (flags \<noteq> 0) (seq_op fp_set_dirty64 (seq_op
       (csr64_op (c64_fcsr_update (\<lambda>f. set_fcsr64_fflags (fcsr64_fflags f OR ucast flags) f)))
       (modify_op (\<lambda>s. s\<lparr>i64_exceptionFlags := 0\<rparr>)))))"

definition fp_finish_instr64 :: "('p iss64, unit) op" where
  "fp_finish_instr64 = seq_op fp_set_dirty64 fp_update_exception_flags64"

definition fp_setup_rm64 :: "('p iss64, unit) op" where
  "fp_setup_rm64 = get_op (\<lambda>s. let rm = instr_frm (i64_instr s) in
       if rm = FRM_DYN then ucast (fcsr64_frm (c64_fcsr (i64_csrs s))) else rm) (\<lambda>rm.
     if rm \<ge> FRM_RMM then illegal64 else modify_op (\<lambda>s. s\<lparr>i64_roundingMode := rm\<rparr>))"

section \<open>Shapes of the instructions\<close>

definition sf_call64 :: "('p iss64 \<Rightarrow> 'a \<times> u32) \<Rightarrow> ('a \<Rightarrow> ('p iss64, unit) op) \<Rightarrow> ('p iss64, unit) op" where
  "sf_call64 f k = get_op f (\<lambda>(v, flags).
     seq_op (modify_op (\<lambda>s. s\<lparr>i64_exceptionFlags := i64_exceptionFlags s OR flags\<rparr>)) (k v))"

definition put64_f32 :: "u32 \<Rightarrow> ('p iss64, unit) op" where
  "put64_f32 v = modify_op (\<lambda>s. s\<lparr>i64_fp_regs := fp_write_f32 (instr_rd (i64_instr s)) v (i64_fp_regs s)\<rparr>)"
definition put64_f64 :: "u64 \<Rightarrow> ('p iss64, unit) op" where
  "put64_f64 v = modify_op (\<lambda>s. s\<lparr>i64_fp_regs := fp_write_f64 (instr_rd (i64_instr s)) v (i64_fp_regs s)\<rparr>)"
definition put64_w :: "u32 \<Rightarrow> ('p iss64, unit) op" where
  "put64_w v = write_rd64 (\<lambda>_. scast v)"
definition put64_l :: "u64 \<Rightarrow> ('p iss64, unit) op" where
  "put64_l v = write_rd64 (\<lambda>_. v)"

definition r64_f32_1 :: "'p iss64 \<Rightarrow> u32" where "r64_f32_1 s = fp_f32 (instr_rs1 (i64_instr s)) (i64_fp_regs s)"
definition r64_f32_2 :: "'p iss64 \<Rightarrow> u32" where "r64_f32_2 s = fp_f32 (instr_rs2 (i64_instr s)) (i64_fp_regs s)"
definition r64_f32_3 :: "'p iss64 \<Rightarrow> u32" where "r64_f32_3 s = fp_f32 (instr_rs3 (i64_instr s)) (i64_fp_regs s)"
definition r64_f64_1 :: "'p iss64 \<Rightarrow> u64" where "r64_f64_1 s = fp_f64 (instr_rs1 (i64_instr s)) (i64_fp_regs s)"
definition r64_f64_2 :: "'p iss64 \<Rightarrow> u64" where "r64_f64_2 s = fp_f64 (instr_rs2 (i64_instr s)) (i64_fp_regs s)"
definition r64_f64_3 :: "'p iss64 \<Rightarrow> u64" where "r64_f64_3 s = fp_f64 (instr_rs3 (i64_instr s)) (i64_fp_regs s)"
definition w_1 :: "'p iss64 \<Rightarrow> u32" where "w_1 s = ucast (rs1_64 s)"

definition fp_rounding64 :: "('p iss64 \<Rightarrow> 'a \<times> u32) \<Rightarrow> ('a \<Rightarrow> ('p iss64, unit) op) \<Rightarrow> ('p iss64, unit) op" where
  "fp_rounding64 f put = seq_op fp_prepare_instr64 (seq_op fp_setup_rm64 (seq_op (sf_call64 f put) fp_finish_instr64))"

definition fp_compare64 :: "('p iss64 \<Rightarrow> bool \<times> u32) \<Rightarrow> ('p iss64, unit) op" where
  "fp_compare64 f = seq_op fp_prepare_instr64 (seq_op (sf_call64 f (\<lambda>b. put64_l (of_bool b))) fp_update_exception_flags64)"

definition fp_move64 :: "('p iss64 \<Rightarrow> 'a) \<Rightarrow> ('a \<Rightarrow> ('p iss64, unit) op) \<Rightarrow> ('p iss64, unit) op" where
  "fp_move64 f put = seq_op fp_prepare_instr64 (seq_op (get_op f put) fp_set_dirty64)"

definition fp_read64 :: "('p iss64 \<Rightarrow> u64) \<Rightarrow> ('p iss64, unit) op" where
  "fp_read64 f = seq_op fp_prepare_instr64 (write_rd64 f)"

definition fp_load64 :: "'p iss64_env \<Rightarrow> nat \<Rightarrow> (u64 \<Rightarrow> ('p iss64, unit) op) \<Rightarrow> ('p iss64, unit) op" where
  "fp_load64 env sz put = get_op (\<lambda>s. rs1_64 s + scast (I_imm (i64_instr s))) (\<lambda>addr.
     seq_op (trap_check_addr_alignment64 (of_nat sz) True addr)
       (bind_op (mem64_op (\<lambda>core. load_data64 (e64_pt env) core sz addr)) put))"

definition fp_store64 :: "'p iss64_env \<Rightarrow> nat \<Rightarrow> ('p iss64 \<Rightarrow> u64) \<Rightarrow> ('p iss64, unit) op" where
  "fp_store64 env sz f = get_op id (\<lambda>s. let addr = rs1_64 s + scast (S_imm (i64_instr s)) in
     seq_op (trap_check_addr_alignment64 (of_nat sz) False addr)
       (mem64_op (\<lambda>core. store_data64 (e64_pt env) core sz addr (f s))))"

definition exec64_fminmax_s :: "('p iss64 \<Rightarrow> bool \<times> u32) \<Rightarrow> ('p iss64, unit) op" where
  "exec64_fminmax_s choose_rs1 = seq_op fp_prepare_instr64 (seq_op (sf_call64 choose_rs1 (\<lambda>b. get_op id (\<lambda>s.
     if f32_isNaN (r64_f32_1 s) \<and> f32_isNaN (r64_f32_2 s) then put64_f32 f32_defaultNaN
     else if b then put64_f32 (r64_f32_1 s) else put64_f32 (r64_f32_2 s)))) fp_finish_instr64)"

definition exec64_fminmax_d :: "('p iss64 \<Rightarrow> bool \<times> u32) \<Rightarrow> ('p iss64, unit) op" where
  "exec64_fminmax_d choose_rs1 = seq_op fp_prepare_instr64 (seq_op (sf_call64 choose_rs1 (\<lambda>b. get_op id (\<lambda>s.
     if f64_isNaN (r64_f64_1 s) \<and> f64_isNaN (r64_f64_2 s) then put64_f64 f64_defaultNaN
     else if b then put64_f64 (r64_f64_1 s) else put64_f64 (r64_f64_2 s)))) fp_finish_instr64)"

section \<open>The F extension\<close>

definition exec64_rv32f :: "'p iss64_env \<Rightarrow> rv32f \<Rightarrow> ('p iss64, unit) op" where
  "exec64_rv32f env op = (let sf = e64_softfloat env; rm = i64_roundingMode in
      case op of
        FLW \<Rightarrow> fp_load64 env 4 (\<lambda>v. put64_f32 (ucast v))
      | FSW \<Rightarrow> fp_store64 env 4 (\<lambda>s. ucast (fp_u32 (instr_rs2 (i64_instr s)) (i64_fp_regs s)))
      | FADD_S \<Rightarrow> fp_rounding64 (\<lambda>s. f32_add sf (rm s) (r64_f32_1 s) (r64_f32_2 s)) put64_f32
      | FSUB_S \<Rightarrow> fp_rounding64 (\<lambda>s. f32_sub sf (rm s) (r64_f32_1 s) (r64_f32_2 s)) put64_f32
      | FMUL_S \<Rightarrow> fp_rounding64 (\<lambda>s. f32_mul sf (rm s) (r64_f32_1 s) (r64_f32_2 s)) put64_f32
      | FDIV_S \<Rightarrow> fp_rounding64 (\<lambda>s. f32_div sf (rm s) (r64_f32_1 s) (r64_f32_2 s)) put64_f32
      | FSQRT_S \<Rightarrow> fp_rounding64 (\<lambda>s. f32_sqrt sf (rm s) (r64_f32_1 s)) put64_f32
      | FMIN_S \<Rightarrow> exec64_fminmax_s (\<lambda>s. f32_smaller sf (r64_f32_1 s) (r64_f32_2 s) (r64_f32_1 s))
      | FMAX_S \<Rightarrow> exec64_fminmax_s (\<lambda>s. f32_smaller sf (r64_f32_2 s) (r64_f32_1 s) (r64_f32_2 s))
      | FMADD_S \<Rightarrow> fp_rounding64 (\<lambda>s. f32_mulAdd sf (rm s) (r64_f32_1 s) (r64_f32_2 s) (r64_f32_3 s)) put64_f32
      | FMSUB_S \<Rightarrow> fp_rounding64 (\<lambda>s. f32_mulAdd sf (rm s) (r64_f32_1 s) (r64_f32_2 s) (f32_neg (r64_f32_3 s))) put64_f32
      | FNMADD_S \<Rightarrow> fp_rounding64 (\<lambda>s. f32_mulAdd sf (rm s) (f32_neg (r64_f32_1 s)) (r64_f32_2 s) (f32_neg (r64_f32_3 s))) put64_f32
      | FNMSUB_S \<Rightarrow> fp_rounding64 (\<lambda>s. f32_mulAdd sf (rm s) (f32_neg (r64_f32_1 s)) (r64_f32_2 s) (r64_f32_3 s)) put64_f32
      | FCVT_W_S \<Rightarrow> fp_rounding64 (\<lambda>s. f32_to_i32 sf (rm s) (r64_f32_1 s)) put64_w
      | FCVT_WU_S \<Rightarrow> fp_rounding64 (\<lambda>s. f32_to_ui32 sf (rm s) (r64_f32_1 s)) put64_w
      | FCVT_S_W \<Rightarrow> fp_rounding64 (\<lambda>s. i32_to_f32 sf (rm s) (w_1 s)) put64_f32
      | FCVT_S_WU \<Rightarrow> fp_rounding64 (\<lambda>s. ui32_to_f32 sf (rm s) (w_1 s)) put64_f32
      | FSGNJ_S \<Rightarrow> fp_move64 (\<lambda>s. (r64_f32_1 s AND NOT F32_SIGN_BIT) OR (r64_f32_2 s AND F32_SIGN_BIT)) put64_f32
      | FSGNJN_S \<Rightarrow> fp_move64 (\<lambda>s. (r64_f32_1 s AND NOT F32_SIGN_BIT) OR (NOT (r64_f32_2 s) AND F32_SIGN_BIT)) put64_f32
      | FSGNJX_S \<Rightarrow> fp_move64 (\<lambda>s. r64_f32_1 s XOR (r64_f32_2 s AND F32_SIGN_BIT)) put64_f32
      | FMV_W_X \<Rightarrow> fp_move64 w_1 put64_f32
      | FMV_X_W \<Rightarrow> fp_read64 (\<lambda>s. scast (fp_u32 (instr_rs1 (i64_instr s)) (i64_fp_regs s)))
      | FEQ_S \<Rightarrow> fp_compare64 (\<lambda>s. f32_eq sf (r64_f32_1 s) (r64_f32_2 s))
      | FLT_S \<Rightarrow> fp_compare64 (\<lambda>s. f32_lt sf (r64_f32_1 s) (r64_f32_2 s))
      | FLE_S \<Rightarrow> fp_compare64 (\<lambda>s. f32_le sf (r64_f32_1 s) (r64_f32_2 s))
      | FCLASS_S \<Rightarrow> fp_read64 (\<lambda>s. scast (f32_classify sf (r64_f32_1 s))))"

definition exec64_rv64f :: "'p iss64_env \<Rightarrow> rv64f \<Rightarrow> ('p iss64, unit) op" where
  "exec64_rv64f env op = (let sf = e64_softfloat env; rm = i64_roundingMode in
      case op of
        FCVT_L_S \<Rightarrow> fp_rounding64 (\<lambda>s. f32_to_i64 sf (rm s) (r64_f32_1 s)) put64_l
      | FCVT_LU_S \<Rightarrow> fp_rounding64 (\<lambda>s. f32_to_ui64 sf (rm s) (r64_f32_1 s)) put64_l
      | FCVT_S_L \<Rightarrow> fp_rounding64 (\<lambda>s. i64_to_f32 sf (rm s) (rs1_64 s)) put64_f32
      | FCVT_S_LU \<Rightarrow> fp_rounding64 (\<lambda>s. ui64_to_f32 sf (rm s) (rs1_64 s)) put64_f32)"

section \<open>The D extension\<close>

definition exec64_rv32d :: "'p iss64_env \<Rightarrow> rv32d \<Rightarrow> ('p iss64, unit) op" where
  "exec64_rv32d env op = (let sf = e64_softfloat env; rm = i64_roundingMode in
      case op of
        FLD \<Rightarrow> fp_load64 env 8 put64_f64
      | FSD \<Rightarrow> fp_store64 env 8 r64_f64_2
      | FADD_D \<Rightarrow> fp_rounding64 (\<lambda>s. f64_add sf (rm s) (r64_f64_1 s) (r64_f64_2 s)) put64_f64
      | FSUB_D \<Rightarrow> fp_rounding64 (\<lambda>s. f64_sub sf (rm s) (r64_f64_1 s) (r64_f64_2 s)) put64_f64
      | FMUL_D \<Rightarrow> fp_rounding64 (\<lambda>s. f64_mul sf (rm s) (r64_f64_1 s) (r64_f64_2 s)) put64_f64
      | FDIV_D \<Rightarrow> fp_rounding64 (\<lambda>s. f64_div sf (rm s) (r64_f64_1 s) (r64_f64_2 s)) put64_f64
      | FSQRT_D \<Rightarrow> fp_rounding64 (\<lambda>s. f64_sqrt sf (rm s) (r64_f64_1 s)) put64_f64
      | FMIN_D \<Rightarrow> exec64_fminmax_d (\<lambda>s. f64_smaller sf (r64_f64_1 s) (r64_f64_2 s) (r64_f64_1 s))
      | FMAX_D \<Rightarrow> exec64_fminmax_d (\<lambda>s. f64_smaller sf (r64_f64_2 s) (r64_f64_1 s) (r64_f64_2 s))
      | FMADD_D \<Rightarrow> fp_rounding64 (\<lambda>s. f64_mulAdd sf (rm s) (r64_f64_1 s) (r64_f64_2 s) (r64_f64_3 s)) put64_f64
      | FMSUB_D \<Rightarrow> fp_rounding64 (\<lambda>s. f64_mulAdd sf (rm s) (r64_f64_1 s) (r64_f64_2 s) (f64_neg (r64_f64_3 s))) put64_f64
      | FNMADD_D \<Rightarrow> fp_rounding64 (\<lambda>s. f64_mulAdd sf (rm s) (f64_neg (r64_f64_1 s)) (r64_f64_2 s) (f64_neg (r64_f64_3 s))) put64_f64
      | FNMSUB_D \<Rightarrow> fp_rounding64 (\<lambda>s. f64_mulAdd sf (rm s) (f64_neg (r64_f64_1 s)) (r64_f64_2 s) (r64_f64_3 s)) put64_f64
      | FSGNJ_D \<Rightarrow> fp_move64 (\<lambda>s. (r64_f64_1 s AND NOT F64_SIGN_BIT) OR (r64_f64_2 s AND F64_SIGN_BIT)) put64_f64
      | FSGNJN_D \<Rightarrow> fp_move64 (\<lambda>s. (r64_f64_1 s AND NOT F64_SIGN_BIT) OR (NOT (r64_f64_2 s) AND F64_SIGN_BIT)) put64_f64
      | FSGNJX_D \<Rightarrow> fp_move64 (\<lambda>s. r64_f64_1 s XOR (r64_f64_2 s AND F64_SIGN_BIT)) put64_f64
      | FCVT_S_D \<Rightarrow> fp_rounding64 (\<lambda>s. f64_to_f32 sf (rm s) (r64_f64_1 s)) put64_f32
      | FCVT_D_S \<Rightarrow> fp_rounding64 (\<lambda>s. f32_to_f64 sf (rm s) (r64_f32_1 s)) put64_f64
      | FEQ_D \<Rightarrow> fp_compare64 (\<lambda>s. f64_eq sf (r64_f64_1 s) (r64_f64_2 s))
      | FLT_D \<Rightarrow> fp_compare64 (\<lambda>s. f64_lt sf (r64_f64_1 s) (r64_f64_2 s))
      | FLE_D \<Rightarrow> fp_compare64 (\<lambda>s. f64_le sf (r64_f64_1 s) (r64_f64_2 s))
      | FCLASS_D \<Rightarrow> fp_read64 (\<lambda>s. ucast (f64_classify sf (r64_f64_1 s)))
      | FCVT_W_D \<Rightarrow> fp_rounding64 (\<lambda>s. f64_to_i32 sf (rm s) (r64_f64_1 s)) put64_w
      | FCVT_WU_D \<Rightarrow> fp_rounding64 (\<lambda>s. f64_to_ui32 sf (rm s) (r64_f64_1 s)) put64_w
      | FCVT_D_W \<Rightarrow> fp_rounding64 (\<lambda>s. i32_to_f64 sf (rm s) (w_1 s)) put64_f64
      | FCVT_D_WU \<Rightarrow> fp_rounding64 (\<lambda>s. ui32_to_f64 sf (rm s) (w_1 s)) put64_f64)"

definition exec64_rv64d :: "'p iss64_env \<Rightarrow> rv64d \<Rightarrow> ('p iss64, unit) op" where
  "exec64_rv64d env op = (let sf = e64_softfloat env; rm = i64_roundingMode in
      case op of
        FMV_D_X \<Rightarrow> fp_move64 rs1_64 put64_f64
      | FMV_X_D \<Rightarrow> fp_read64 r64_f64_1
      | FCVT_L_D \<Rightarrow> fp_rounding64 (\<lambda>s. f64_to_i64 sf (rm s) (r64_f64_1 s)) put64_l
      | FCVT_LU_D \<Rightarrow> fp_rounding64 (\<lambda>s. f64_to_ui64 sf (rm s) (r64_f64_1 s)) put64_l
      | FCVT_D_L \<Rightarrow> fp_rounding64 (\<lambda>s. i64_to_f64 sf (rm s) (rs1_64 s)) put64_f64
      | FCVT_D_LU \<Rightarrow> fp_rounding64 (\<lambda>s. ui64_to_f64 sf (rm s) (rs1_64 s)) put64_f64)"

end
