(* ===== verification/RV64_Exec.thy ===== *)
theory RV64_Exec
  imports RV64_FP
begin

text \<open>
  Execution of instructions by the RV64 simulator (\<^verbatim>\<open>core/rv64/iss.cpp\<close>): \<^verbatim>\<open>exec_step\<close> with one definition per group
  of opcodes, the accounting after an instruction, \<^verbatim>\<open>run_step\<close> and \<^verbatim>\<open>run\<close>. A 32-bit immediate and the
  result of a 32-bit operation are widened with their sign. Signed arithmetic wraps around.
\<close>

section \<open>Integer instructions\<close>

definition branch64 :: "('p iss64 \<Rightarrow> bool) \<Rightarrow> ('p iss64, unit) op" where
  "branch64 cond = get_op id (\<lambda>s. when_op (cond s)
     (seq_op (modify_op (\<lambda>s. s\<lparr>i64_pc := i64_last_pc s + scast (B_imm (i64_instr s))\<rparr>)) trap_check_pc_alignment64))"

definition jump_and_link64 :: "('p iss64 \<Rightarrow> u64) \<Rightarrow> ('p iss64, unit) op" where
  "jump_and_link64 target = get_op i64_pc (\<lambda>link.
     seq_op (modify_op (\<lambda>s. s\<lparr>i64_pc := target s\<rparr>)) (seq_op trap_check_pc_alignment64 (write_rd64 (\<lambda>_. link))))"

definition load_rd64 :: "'p iss64_env \<Rightarrow> nat \<Rightarrow> (nat \<Rightarrow> u64 \<Rightarrow> u64) \<Rightarrow> ('p iss64, unit) op" where
  "load_rd64 env sz widen = get_op (\<lambda>s. rs1_64 s + scast (I_imm (i64_instr s))) (\<lambda>addr.
     seq_op (trap_check_addr_alignment64 (of_nat sz) True addr)
       (bind_op (mem64_op (\<lambda>core. load_data64 (e64_pt env) core sz addr)) (\<lambda>v. write_rd64 (\<lambda>_. widen sz v))))"

definition store_rs2_64 :: "'p iss64_env \<Rightarrow> nat \<Rightarrow> ('p iss64, unit) op" where
  "store_rs2_64 env sz = get_op id (\<lambda>s. let addr = rs1_64 s + scast (S_imm (i64_instr s)) in
     seq_op (trap_check_addr_alignment64 (of_nat sz) False addr)
       (mem64_op (\<lambda>core. store_data64 (e64_pt env) core sz addr (rs2_64 s))))"

definition exec_ecall64 :: "'p iss64_env \<Rightarrow> ('p iss64, unit) op" where
  "exec_ecall64 env = get_op id (\<lambda>s.
     if i64_sys s then e64_execute_syscall env
     else if i64_prv s = MachineMode then trap64_op EXC_ECALL_M_MODE (i64_last_pc s)
     else if i64_prv s = SupervisorMode then trap64_op EXC_ECALL_S_MODE (i64_last_pc s)
     else if i64_prv s = UserMode then trap64_op EXC_ECALL_U_MODE (i64_last_pc s)
     else fail_op (RuntimeError ''unknown privilege level''))"

definition exec64_rv32i :: "'p iss64_env \<Rightarrow> rv32i \<Rightarrow> ('p iss64, unit) op" where
  "exec64_rv32i env op = (let imm = (\<lambda>s. scast (I_imm (i64_instr s)) :: u64); sh = (\<lambda>s. unat (instr_shamt (i64_instr s))) in
     case op of
       ADDI \<Rightarrow> write_rd64 (\<lambda>s. rs1_64 s + imm s)
     | SLTI \<Rightarrow> write_rd64 (\<lambda>s. of_bool (sint (rs1_64 s) < sint (imm s)))
     | SLTIU \<Rightarrow> write_rd64 (\<lambda>s. of_bool (rs1_64 s < imm s))
     | XORI \<Rightarrow> write_rd64 (\<lambda>s. rs1_64 s XOR imm s)
     | ORI \<Rightarrow> write_rd64 (\<lambda>s. rs1_64 s OR imm s)
     | ANDI \<Rightarrow> write_rd64 (\<lambda>s. rs1_64 s AND imm s)
     | ADD \<Rightarrow> write_rd64 (\<lambda>s. rs1_64 s + rs2_64 s)
     | SUB \<Rightarrow> write_rd64 (\<lambda>s. rs1_64 s - rs2_64 s)
     | SLL \<Rightarrow> write_rd64 (\<lambda>s. push_bit (shamt64 (rs2_64 s)) (rs1_64 s))
     | SLT \<Rightarrow> write_rd64 (\<lambda>s. of_bool (sint (rs1_64 s) < sint (rs2_64 s)))
     | SLTU \<Rightarrow> write_rd64 (\<lambda>s. of_bool (rs1_64 s < rs2_64 s))
     | SRL \<Rightarrow> write_rd64 (\<lambda>s. drop_bit (shamt64 (rs2_64 s)) (rs1_64 s))
     | SRA \<Rightarrow> write_rd64 (\<lambda>s. signed_drop_bit (shamt64 (rs2_64 s)) (rs1_64 s))
     | XOR_op \<Rightarrow> write_rd64 (\<lambda>s. rs1_64 s XOR rs2_64 s)
     | OR_op \<Rightarrow> write_rd64 (\<lambda>s. rs1_64 s OR rs2_64 s)
     | AND_op \<Rightarrow> write_rd64 (\<lambda>s. rs1_64 s AND rs2_64 s)
     | SLLI \<Rightarrow> write_rd64 (\<lambda>s. push_bit (sh s) (rs1_64 s))
     | SRLI \<Rightarrow> write_rd64 (\<lambda>s. drop_bit (sh s) (rs1_64 s))
     | SRAI \<Rightarrow> write_rd64 (\<lambda>s. signed_drop_bit (sh s) (rs1_64 s))
     | LUI \<Rightarrow> write_rd64 (\<lambda>s. scast (U_imm (i64_instr s)))
     | AUIPC \<Rightarrow> write_rd64 (\<lambda>s. i64_last_pc s + scast (U_imm (i64_instr s)))
     | JAL \<Rightarrow> jump_and_link64 (\<lambda>s. i64_last_pc s + scast (J_imm (i64_instr s)))
     | JALR \<Rightarrow> jump_and_link64 (\<lambda>s. (rs1_64 s + imm s) AND NOT 1)
     | SB \<Rightarrow> store_rs2_64 env 1
     | SH \<Rightarrow> store_rs2_64 env 2
     | SW \<Rightarrow> store_rs2_64 env 4
     | LB \<Rightarrow> load_rd64 env 1 signed_result
     | LH \<Rightarrow> load_rd64 env 2 signed_result
     | LW \<Rightarrow> load_rd64 env 4 signed_result
     | LBU \<Rightarrow> load_rd64 env 1 unsigned_result
     | LHU \<Rightarrow> load_rd64 env 2 unsigned_result
     | BEQ \<Rightarrow> branch64 (\<lambda>s. rs1_64 s = rs2_64 s)
     | BNE \<Rightarrow> branch64 (\<lambda>s. rs1_64 s \<noteq> rs2_64 s)
     | BLT \<Rightarrow> branch64 (\<lambda>s. sint (rs1_64 s) < sint (rs2_64 s))
     | BGE \<Rightarrow> branch64 (\<lambda>s. sint (rs1_64 s) \<ge> sint (rs2_64 s))
     | BLTU \<Rightarrow> branch64 (\<lambda>s. rs1_64 s < rs2_64 s)
     | BGEU \<Rightarrow> branch64 (\<lambda>s. rs1_64 s \<ge> rs2_64 s)
     | FENCE \<Rightarrow> ret_op ()
     | ECALL \<Rightarrow> exec_ecall64 env
     | EBREAK \<Rightarrow> modify_op (\<lambda>s. s\<lparr>i64_status := HitBreakpoint\<rparr>))"

text \<open>The operations on words: the operands are cut to 32 bits, the result is widened with its sign.\<close>

definition word_op64 :: "(u32 \<Rightarrow> u32 \<Rightarrow> u32) \<Rightarrow> u64 \<Rightarrow> u64 \<Rightarrow> u64" where
  "word_op64 f a b = scast (f (ucast a) (ucast b))"

definition rv64i_word :: "rv64i \<Rightarrow> nat \<Rightarrow> u32 \<Rightarrow> u32 \<Rightarrow> u32" where
  "rv64i_word op sh a b = (case op of
       ADDIW \<Rightarrow> a + b | ADDW \<Rightarrow> a + b | SUBW \<Rightarrow> a - b
     | SLLIW \<Rightarrow> push_bit sh a | SRLIW \<Rightarrow> drop_bit sh a | SRAIW \<Rightarrow> signed_drop_bit sh a
     | SLLW \<Rightarrow> push_bit sh a | SRLW \<Rightarrow> drop_bit sh a | SRAW \<Rightarrow> signed_drop_bit sh a
     | _ \<Rightarrow> a)"

definition exec64_rv64i :: "'p iss64_env \<Rightarrow> rv64i \<Rightarrow> ('p iss64, unit) op" where
  "exec64_rv64i env op =
     (if op = SD then store_rs2_64 env 8
      else if op = LD then load_rd64 env 8 signed_result
      else if op = LWU then load_rd64 env 4 unsigned_result
      else if op = ADDIW then write_rd64 (\<lambda>s. word_op64 (rv64i_word op 0) (rs1_64 s) (scast (I_imm (i64_instr s))))
      else if op \<in> {SLLIW, SRLIW, SRAIW} then
        write_rd64 (\<lambda>s. word_op64 (rv64i_word op (unat (instr_shamt_w (i64_instr s)))) (rs1_64 s) 0)
      else write_rd64 (\<lambda>s. word_op64 (rv64i_word op (shamt_w64 (rs2_64 s))) (rs1_64 s) (rs2_64 s)))"

section \<open>CSR instructions\<close>

definition csr_write64 :: "'p iss64_env \<Rightarrow> u32 \<Rightarrow> u32 \<Rightarrow> u64 \<Rightarrow> ('p iss64, unit) op" where
  "csr_write64 env addr rd v =
     seq_op (illegal64_if (is_invalid_csr_access64 addr True)) (
     seq_op (when_op (rd \<noteq> 0) (bind_op (get_csr_value64 env addr) (set_reg64 rd)))
       (set_csr_value64 addr v))"

definition csr_modify64 :: "'p iss64_env \<Rightarrow> (u64 \<Rightarrow> u64) \<Rightarrow> u32 \<Rightarrow> u32 \<Rightarrow> bool \<Rightarrow> ('p iss64, unit) op" where
  "csr_modify64 env f addr rd write =
     seq_op (illegal64_if (is_invalid_csr_access64 addr write)) (
     bind_op (get_csr_value64 env addr) (\<lambda>csr_val.
     seq_op (when_op (rd \<noteq> 0) (set_reg64 rd csr_val)) (when_op write (set_csr_value64 addr (f csr_val)))))"

text \<open>In \<^verbatim>\<open>CSRRCI\<close>, \<^verbatim>\<open>~zimm\<close> is computed in 32 bits and widened with zeros.\<close>

definition exec64_zicsr :: "'p iss64_env \<Rightarrow> zicsr \<Rightarrow> ('p iss64, unit) op" where
  "exec64_zicsr env op = get_op id (\<lambda>s.
     let i = i64_instr s; addr = instr_csr i; rd = instr_rd i; rs1 = instr_rs1 i; v = rs1_64 s; zimm = instr_zimm i in
     case op of
       CSRRW \<Rightarrow> csr_write64 env addr rd v
     | CSRRS \<Rightarrow> csr_modify64 env (\<lambda>c. c OR v) addr rd (rs1 \<noteq> 0)
     | CSRRC \<Rightarrow> csr_modify64 env (\<lambda>c. c AND NOT v) addr rd (rs1 \<noteq> 0)
     | CSRRWI \<Rightarrow> csr_write64 env addr rd (ucast zimm)
     | CSRRSI \<Rightarrow> csr_modify64 env (\<lambda>c. c OR ucast zimm) addr rd (zimm \<noteq> 0)
     | CSRRCI \<Rightarrow> csr_modify64 env (\<lambda>c. c AND ucast (NOT zimm)) addr rd (zimm \<noteq> 0))"

section \<open>Multiplication and division\<close>

type_synonym u128 = "128 word"

definition REG_MIN64 :: u64 where "REG_MIN64 = 0x8000000000000000"
definition REG32_MIN64 :: u32 where "REG32_MIN64 = 0x80000000"

definition mul64 :: "u64 \<Rightarrow> u64 \<Rightarrow> u64" where
  "mul64 a b = ucast (scast a * scast b :: u128)"
definition mulh64 :: "u64 \<Rightarrow> u64 \<Rightarrow> u64" where
  "mulh64 a b = ucast (signed_drop_bit 64 (scast a * scast b :: u128))"
definition mulhu64 :: "u64 \<Rightarrow> u64 \<Rightarrow> u64" where
  "mulhu64 a b = ucast (signed_drop_bit 64 (ucast a * ucast b :: u128))"
definition mulhsu64 :: "u64 \<Rightarrow> u64 \<Rightarrow> u64" where
  "mulhsu64 a b = ucast (signed_drop_bit 64 (scast a * ucast b :: u128))"
definition div64 :: "u64 \<Rightarrow> u64 \<Rightarrow> u64" where
  "div64 a b = (if b = 0 then -1 else if a = REG_MIN64 \<and> b = -1 then a else word_of_int (sint a sdiv sint b))"
definition divu64 :: "u64 \<Rightarrow> u64 \<Rightarrow> u64" where
  "divu64 a b = (if b = 0 then -1 else a div b)"
definition rem64 :: "u64 \<Rightarrow> u64 \<Rightarrow> u64" where
  "rem64 a b = (if b = 0 then a else if a = REG_MIN64 \<and> b = -1 then 0 else word_of_int (sint a smod sint b))"
definition remu64 :: "u64 \<Rightarrow> u64 \<Rightarrow> u64" where
  "remu64 a b = (if b = 0 then a else a mod b)"

definition rv32m_result64 :: "rv32m \<Rightarrow> u64 \<Rightarrow> u64 \<Rightarrow> u64" where
  "rv32m_result64 op = (case op of
       MUL \<Rightarrow> mul64 | MULH \<Rightarrow> mulh64 | MULHU \<Rightarrow> mulhu64 | MULHSU \<Rightarrow> mulhsu64
     | DIV \<Rightarrow> div64 | DIVU \<Rightarrow> divu64 | REM \<Rightarrow> rem64 | REMU \<Rightarrow> remu64)"

definition mulw :: "u64 \<Rightarrow> u64 \<Rightarrow> u64" where
  "mulw a b = scast (ucast (a * b) :: u32)"
definition divw :: "u32 \<Rightarrow> u32 \<Rightarrow> u32" where
  "divw a b = (if b = 0 then -1 else if a = REG32_MIN64 \<and> b = -1 then a else word_of_int (sint a sdiv sint b))"
definition divuw :: "u32 \<Rightarrow> u32 \<Rightarrow> u32" where
  "divuw a b = (if b = 0 then -1 else a div b)"
definition remw :: "u32 \<Rightarrow> u32 \<Rightarrow> u32" where
  "remw a b = (if b = 0 then a else if a = REG32_MIN64 \<and> b = -1 then 0 else word_of_int (sint a smod sint b))"
definition remuw :: "u32 \<Rightarrow> u32 \<Rightarrow> u32" where
  "remuw a b = (if b = 0 then a else a mod b)"

definition rv64m_result :: "rv64m \<Rightarrow> u64 \<Rightarrow> u64 \<Rightarrow> u64" where
  "rv64m_result op = (case op of
       MULW \<Rightarrow> mulw | DIVW \<Rightarrow> word_op64 divw | DIVUW \<Rightarrow> word_op64 divuw
     | REMW \<Rightarrow> word_op64 remw | REMUW \<Rightarrow> word_op64 remuw)"

section \<open>Atomic instructions\<close>

definition execute_amo64 :: "'p iss64_env \<Rightarrow> nat \<Rightarrow> (u64 \<Rightarrow> u64 \<Rightarrow> u64) \<Rightarrow> ('p iss64, unit) op" where
  "execute_amo64 env sz operation = get_op rs1_64 (\<lambda>addr.
     seq_op (trap_check_addr_alignment64 (of_nat sz) False addr) (
     bind_op (catch_trap (\<lambda>reason. if reason = EXC_LOAD_ACCESS_FAULT then EXC_STORE_AMO_ACCESS_FAULT else reason)
         (mem64_op (\<lambda>core. atomic_load_data64 (e64_pt env) core sz addr))) (\<lambda>data.
     get_op (\<lambda>s. operation data (rs2_64 s)) (\<lambda>val.
     seq_op (mem64_op (\<lambda>core. atomic_store_data64 (e64_pt env) core sz addr val)) (write_rd64 (\<lambda>_. signed_result sz data))))))"

definition amo_w_result :: "rv32a \<Rightarrow> u32 \<Rightarrow> u32 \<Rightarrow> u32" where
  "amo_w_result op a b = (case op of
       AMOSWAP_W \<Rightarrow> b
     | AMOADD_W \<Rightarrow> a + b
     | AMOXOR_W \<Rightarrow> a XOR b
     | AMOAND_W \<Rightarrow> a AND b
     | AMOOR_W \<Rightarrow> a OR b
     | AMOMIN_W \<Rightarrow> if sint b < sint a then b else a
     | AMOMINU_W \<Rightarrow> if b < a then b else a
     | AMOMAX_W \<Rightarrow> if sint a < sint b then b else a
     | AMOMAXU_W \<Rightarrow> if a < b then b else a
     | LR_W \<Rightarrow> a
     | SC_W \<Rightarrow> a)"

definition amo_d_result :: "rv64a \<Rightarrow> u64 \<Rightarrow> u64 \<Rightarrow> u64" where
  "amo_d_result op a b = (case op of
       AMOSWAP_D \<Rightarrow> b
     | AMOADD_D \<Rightarrow> a + b
     | AMOXOR_D \<Rightarrow> a XOR b
     | AMOAND_D \<Rightarrow> a AND b
     | AMOOR_D \<Rightarrow> a OR b
     | AMOMIN_D \<Rightarrow> if sint b < sint a then b else a
     | AMOMINU_D \<Rightarrow> if b < a then b else a
     | AMOMAX_D \<Rightarrow> if sint a < sint b then b else a
     | AMOMAXU_D \<Rightarrow> if a < b then b else a
     | LR_D \<Rightarrow> a
     | SC_D \<Rightarrow> a)"

definition exec_lr64 :: "'p iss64_env \<Rightarrow> nat \<Rightarrow> ('p iss64, unit) op" where
  "exec_lr64 env sz = get_op rs1_64 (\<lambda>addr.
     seq_op (trap_check_addr_alignment64 (of_nat sz) True addr) (
     bind_op (mem64_op (\<lambda>core. atomic_load_reserved_data64 (e64_pt env) core sz addr)) (\<lambda>v.
     seq_op (write_rd64 (\<lambda>_. signed_result sz v))
       (modify_op (\<lambda>s. if i64_lr_sc_counter s = 0 then s\<lparr>i64_lr_sc_counter := 17\<rparr> else s)))))"

definition exec_sc64 :: "'p iss64_env \<Rightarrow> nat \<Rightarrow> ('p iss64, unit) op" where
  "exec_sc64 env sz = get_op rs1_64 (\<lambda>addr.
     seq_op (trap_check_addr_alignment64 (of_nat sz) False addr) (
     get_op rs2_64 (\<lambda>val.
     seq_op (write_rd64 (\<lambda>_. 1)) (
     bind_op (mem64_op (\<lambda>core. atomic_store_conditional_data64 (e64_pt env) core sz addr val)) (\<lambda>ok.
     seq_op (write_rd64 (\<lambda>_. if ok then 0 else 1)) (modify_op (\<lambda>s. s\<lparr>i64_lr_sc_counter := 0\<rparr>)))))))"

definition exec64_rv32a :: "'p iss64_env \<Rightarrow> rv32a \<Rightarrow> ('p iss64, unit) op" where
  "exec64_rv32a env op = (if op = LR_W then exec_lr64 env 4 else if op = SC_W then exec_sc64 env 4
     else execute_amo64 env 4 (word_op64 (amo_w_result op)))"

definition exec64_rv64a :: "'p iss64_env \<Rightarrow> rv64a \<Rightarrow> ('p iss64, unit) op" where
  "exec64_rv64a env op = (if op = LR_D then exec_lr64 env 8 else if op = SC_D then exec_sc64 env 8
     else execute_amo64 env 8 (amo_d_result op))"

section \<open>Privileged instructions\<close>

definition exec_wfi64 :: "'p iss64_env \<Rightarrow> ('p iss64, unit) op" where
  "exec_wfi64 env = seq_op release_lr_sc_reservation64 (
     seq_op (illegal64_if (\<lambda>s. s_mode64 s \<and> mstatus64_tw (c64_mstatus (i64_csrs s)) \<noteq> 0)) (
     seq_op (illegal64_if (\<lambda>s. u_mode64 s \<and> has_supervisor_mode_extension64 (c64_misa (i64_csrs s))))
       (get_op (\<lambda>s. \<not> i64_ignore_wfi s \<and> \<not> has_local_pending_enabled_interrupts64 s) (\<lambda>b. when_op b (e64_wait_wfi env)))))"

definition exec64_priv :: "'p iss64_env \<Rightarrow> priv_op \<Rightarrow> ('p iss64, unit) op" where
  "exec64_priv env op = (case op of
       WFI \<Rightarrow> exec_wfi64 env
     | SFENCE_VMA \<Rightarrow> seq_op (illegal64_if (\<lambda>s. s_mode64 s \<and> mstatus64_tvm (c64_mstatus (i64_csrs s)) \<noteq> 0))
         (mem64_op (\<lambda>core. cmi_flush_tlb))
     | URET \<Rightarrow> seq_op (illegal64_if (\<lambda>s. \<not> has_user_mode_extension64 (c64_misa (i64_csrs s))))
         (return_from_trap_handler64 UserMode)
     | SRET \<Rightarrow> seq_op (illegal64_if (\<lambda>s. \<not> has_supervisor_mode_extension64 (c64_misa (i64_csrs s)) \<or>
           s_mode64 s \<and> mstatus64_tsr (c64_mstatus (i64_csrs s)) \<noteq> 0))
         (return_from_trap_handler64 SupervisorMode)
     | MRET \<Rightarrow> return_from_trap_handler64 MachineMode)"

section \<open>One instruction\<close>

text \<open>The hypervisor instructions the decoder knows have no case: they end in \<^verbatim>\<open>default\<close>.\<close>

definition exec64_opcode :: "'p iss64_env \<Rightarrow> Mapping \<Rightarrow> ('p iss64, unit) op" where
  "exec64_opcode env op = (case op of
       UNDEF \<Rightarrow> illegal64
     | RV32I x \<Rightarrow> exec64_rv32i env x
     | RV64I x \<Rightarrow> exec64_rv64i env x
     | Zifencei x \<Rightarrow> ret_op ()
     | Zicsr x \<Rightarrow> exec64_zicsr env x
     | RV32M x \<Rightarrow> write_rd64 (\<lambda>s. rv32m_result64 x (rs1_64 s) (rs2_64 s))
     | RV64M x \<Rightarrow> write_rd64 (\<lambda>s. rv64m_result x (rs1_64 s) (rs2_64 s))
     | RV32A x \<Rightarrow> exec64_rv32a env x
     | RV64A x \<Rightarrow> exec64_rv64a env x
     | RV32F x \<Rightarrow> exec64_rv32f env x
     | RV64F x \<Rightarrow> exec64_rv64f env x
     | RV32D x \<Rightarrow> exec64_rv32d env x
     | RV64D x \<Rightarrow> exec64_rv64d env x
     | Priv x \<Rightarrow> exec64_priv env x
     | HV x \<Rightarrow> fail_op (RuntimeError ''unknown opcode''))"

text \<open>The \<^verbatim>\<open>catch\<close> clause around the fetch clears the instruction and throws the trap again.\<close>

definition fetch_instr64 :: "'p iss64_env \<Rightarrow> ('p iss64, unit) op" where
  "fetch_instr64 env = (\<lambda>s. case mem64_op (\<lambda>core. load_instr64 (e64_pt env) core (i64_pc s)) s of
       (Inr mem_word, s') \<Rightarrow> (Inr (), s'\<lparr>i64_instr := mem_word\<rparr>)
     | (Inl (SimulationTrap reason mtval mtval2_htval), s') \<Rightarrow>
         (Inl (SimulationTrap reason mtval mtval2_htval), s'\<lparr>i64_op := UNDEF, i64_instr := 0\<rparr>)
     | (Inl e, s') \<Rightarrow> (Inl e, s'))"

definition decode_step64 :: "('p iss64, unit) op" where
  "decode_step64 = get_op i64_instr (\<lambda>i.
     if is_compressed i then
       bind_op (lift_op (decode_and_expand_compressed RV64 i)) (\<lambda>(op, i').
         modify_op (\<lambda>s. s\<lparr>i64_op := op, i64_instr := i', i64_pc := i64_pc s + 2\<rparr>))
     else modify_op (\<lambda>s. s\<lparr>i64_op := decode_normal RV64 i, i64_pc := i64_pc s + 4\<rparr>))"

definition exec_step64 :: "'p iss64_env \<Rightarrow> ('p iss64, unit) op" where
  "exec_step64 env =
     seq_op (get_op (\<lambda>s. i64_pc s AND NOT (pc_alignment_mask64 s) = 0) assert_op) (
     seq_op (fetch_instr64 env) (seq_op decode_step64 (get_op i64_op (exec64_opcode env))))"

section \<open>Accounting\<close>

definition instr_cycles64 :: "Mapping \<Rightarrow> u64" where
  "instr_cycles64 op =
     (if op \<in> {RV32I LB, RV32I LBU, RV32I LH, RV32I LHU, RV32I LW, RV32I SB, RV32I SH, RV32I SW} then 4 * cycle_time
      else if op \<in> {RV32M MUL, RV32M MULH, RV32M MULHU, RV32M MULHSU, RV32M DIV, RV32M DIVU, RV32M REM, RV32M REMU}
      then 8 * cycle_time else cycle_time)"

definition count_reservation64 :: "('p iss64, unit) op" where
  "count_reservation64 = get_op i64_lr_sc_counter (\<lambda>c. when_op (c \<noteq> 0) (
     seq_op (modify_op (\<lambda>s. s\<lparr>i64_lr_sc_counter := c - 1\<rparr>)) (
     seq_op (assert_op (c - 1 \<ge> 0)) (when_op (c - 1 = 0) release_lr_sc_reservation64))))"

definition performance_and_sync_update64 :: "'p iss64_env \<Rightarrow> Mapping \<Rightarrow> ('p iss64, unit) op" where
  "performance_and_sync_update64 env executed_op =
     seq_op (csr64_op (\<lambda>t. if mcountinhibit64_IR (c64_mcountinhibit t) = 0 then t\<lparr>c64_instret := c64_instret t + 1\<rparr> else t)) (
     seq_op count_reservation64 (
     let new_cycles = instr_cycles64 executed_op in
     seq_op (modify_op (\<lambda>s. if mcountinhibit64_CY (c64_mcountinhibit (i64_csrs s)) = 0
                            then s\<lparr>i64_cycle_counter := i64_cycle_counter s + new_cycles\<rparr> else s)) (
     bind_op (e64_quantum_inc env new_cycles) (\<lambda>need_sync.
       get_op i64_lr_sc_counter (\<lambda>c. when_op (need_sync \<and> c = 0) (e64_quantum_sync env))))))"

section \<open>Running\<close>

definition run_step_body64 :: "'p iss64_env \<Rightarrow> ('p iss64, unit) op" where
  "run_step_body64 env = seq_op (exec_step64 env) (get_op compute_pending_interrupts64 (\<lambda>x.
     when_op (fst x \<noteq> NoneMode) (seq_op (prepare_interrupt64 x) (switch_to_trap_handler64 (fst x)))))"

definition take_trap64 :: "u32 \<Rightarrow> u64 \<Rightarrow> ('p iss64, unit) op" where
  "take_trap64 reason mtval = bind_op (prepare_trap64 reason mtval) switch_to_trap_handler64"

definition run_try64 :: "'p iss64_env \<Rightarrow> ('p iss64, unit) op" where
  "run_try64 env = (\<lambda>s. case run_step_body64 env s of
       (Inl (SimulationTrap reason mtval mtval2_htval), s') \<Rightarrow> take_trap64 reason mtval s'
     | r \<Rightarrow> r)"

definition run_step_end64 :: "'p iss64_env \<Rightarrow> ('p iss64, unit) op" where
  "run_step_end64 env =
     seq_op (modify_op (\<lambda>s. s\<lparr>i64_regs := (i64_regs s)[reg_zero := 0]\<rparr>)) (
     seq_op (modify_op (\<lambda>s. if i64_shall_exit s then s\<lparr>i64_status := Terminated\<rparr> else s))
       (get_op i64_op (performance_and_sync_update64 env)))"

definition run_step64 :: "'p iss64_env \<Rightarrow> ('p iss64, unit) op" where
  "run_step64 env =
     seq_op (bind_op (get_op (\<lambda>s. RegFile64_read 0 (i64_regs s)) lift_op) (\<lambda>v. assert_op (v = 0))) (
     get_op (\<lambda>s. i64_debug_mode s \<and> i64_pc s \<in> i64_breakpoints s) (\<lambda>hit.
       if hit then modify_op (\<lambda>s. s\<lparr>i64_status := HitBreakpoint\<rparr>)
       else seq_op (modify_op (\<lambda>s. s\<lparr>i64_last_pc := i64_pc s\<rparr>)) (seq_op (run_try64 env) (run_step_end64 env))))"

partial_function (option) run_loop64 :: "'p iss64_env \<Rightarrow> 'p iss64 \<Rightarrow> (unit res \<times> 'p iss64) option" where
  "run_loop64 env s = (case run_step64 env s of
       (Inl e, s') \<Rightarrow> Some (Inl e, s')
     | (Inr _, s') \<Rightarrow> if i64_status s' = Runnable then run_loop64 env s' else Some (e64_quantum_sync env s'))"

definition iss64_run :: "'p iss64_env \<Rightarrow> 'p iss64 \<Rightarrow> (unit res \<times> 'p iss64) option" where
  "iss64_run env s = run_loop64 env s"

end
