(* ===== verification/RV64_Words.thy ===== *)
theory RV64_Words
  imports RV64_Exec VP_Muldiv_Props
begin

text \<open>
  The instructions on words of the RV64 simulator against the RV32 simulator. Clearing bit 3 of the word
  that encodes \<^verbatim>\<open>ADDIW\<close>, \<^verbatim>\<open>ADDW\<close>, \<^verbatim>\<open>MULW\<close> and their relatives gives the instruction of RV32 that does
  the same on 32-bit registers; \<open>twin_op\<close> names it.
\<close>

section \<open>The twin of a word instruction\<close>

definition word_twin :: "instruction \<Rightarrow> instruction" where
  "word_twin i = i AND NOT 8"

definition twin_op :: "Mapping \<Rightarrow> Mapping option" where
  "twin_op op = (case op of
       RV64I ADDIW \<Rightarrow> Some (RV32I ADDI) | RV64I SLLIW \<Rightarrow> Some (RV32I SLLI) | RV64I SRLIW \<Rightarrow> Some (RV32I SRLI)
     | RV64I SRAIW \<Rightarrow> Some (RV32I SRAI) | RV64I ADDW \<Rightarrow> Some (RV32I ADD) | RV64I SUBW \<Rightarrow> Some (RV32I SUB)
     | RV64I SLLW \<Rightarrow> Some (RV32I SLL) | RV64I SRLW \<Rightarrow> Some (RV32I SRL) | RV64I SRAW \<Rightarrow> Some (RV32I SRA)
     | RV64M MULW \<Rightarrow> Some (RV32M MUL) | RV64M DIVW \<Rightarrow> Some (RV32M DIV) | RV64M DIVUW \<Rightarrow> Some (RV32M DIVU)
     | RV64M REMW \<Rightarrow> Some (RV32M REM) | RV64M REMUW \<Rightarrow> Some (RV32M REMU)
     | _ \<Rightarrow> None)"

lemma twin_fields:
  "instr_rd (word_twin i) = instr_rd i" "instr_rs1 (word_twin i) = instr_rs1 i" "instr_rs2 (word_twin i) = instr_rs2 i"
  "I_imm (word_twin i) = I_imm i" "instr_shamt (word_twin i) = instr_shamt i"
  by (simp_all add: word_twin_def field_defs BIT_RANGE_def and.assoc)

lemma shamt_of_w: "\<not> bit i 25 \<Longrightarrow> instr_shamt i = instr_shamt_w i"
  by (rule bit_word_eqI) (auto simp: field_defs signed_drop_bit_BIT_RANGE bit_simps less_Suc_eq numeral_eq_Suc)

lemma twin_pattern:
  "twin_op op = Some op' \<Longrightarrow> pattern_of RV64 op = Some (m, e) \<Longrightarrow> pattern_of RV32 op' = Some (m, word_twin e)"
  by (auto simp: twin_op_def word_twin_def instr_consts split: Mapping.splits rv64i.splits rv64m.splits)

lemma twin_decode:
  assumes "decode_normal RV64 i = op" "twin_op op = Some op'"
  shows "matches RV64 op i" "decode_normal RV32 (word_twin i) = op'"
proof -
  have "op \<noteq> UNDEF" using assms(2) by (auto simp: twin_op_def)
  then show m: "matches RV64 op i"
    using decode_normal_sound [of RV64 i] assms(1) by (simp add: sound_result_def)
  then obtain k e where "pattern_of RV64 op = Some (k, e)" "i AND k = e"
    by (auto simp: matches_def split: option.splits)
  then have "matches RV32 op' (word_twin i)"
    using twin_pattern [OF assms(2)] by (auto simp: matches_def word_twin_def ac_simps)
  then show "decode_normal RV32 (word_twin i) = op'"
    by (rule decode_normal_complete)
qed

lemma shift_instr_bit_25:
  assumes "matches RV64 (RV64I x) i" "x \<in> {SLLIW, SRLIW, SRAIW}"
  shows "\<not> bit i 25"
proof -
  have "i AND 0xFE00707F \<in> {0x101B, 0x501B, 0x4000501B}"
    using assms by (auto simp: matches_def instr_consts)
  then have "\<not> bit (i AND 0xFE00707F) 25" by auto
  then show ?thesis by (simp add: bit_and_iff)
qed

section \<open>Simulation\<close>

text \<open>The registers of a RV32 simulator hold the low words of those of a RV64 simulator.\<close>

definition low_words :: "'p iss64 \<Rightarrow> 'q iss \<Rightarrow> bool" where
  "low_words s t \<longleftrightarrow> iss_regs t = map ucast (i64_regs s)"

lemma low_words_reg:
  "low_words s t \<Longrightarrow> length (i64_regs s) = 32 \<Longrightarrow> unat r < 32 \<Longrightarrow> xreg t r = ucast (xreg64 s r)"
  by (simp add: low_words_def xreg_def xreg64_def)

lemma ucast_scast_word: "(ucast (scast (w :: u32) :: u64) :: u32) = w"
  by (rule bit_word_eqI) (simp add: bit_simps)

lemma low_words_update: "low_words s t \<Longrightarrow>
    low_words (s\<lparr>i64_regs := (i64_regs s)[n := scast r]\<rparr>) (t\<lparr>iss_regs := (iss_regs t)[n := r]\<rparr>)"
  by (simp add: low_words_def map_update ucast_scast_word)

lemma shamt_low_word: "shamt_w64 v = unat (BIT_RANGE (ucast v) 4 0)"
proof -
  have "get_field 0 5 v = ucast (BIT_RANGE (ucast v) 4 0)"
    by (rule bit_word_eqI) (auto simp: get_field_def bit_BIT_RANGE bit_simps)
  moreover have "unat (ucast w :: u64) = unat w" for w :: u32
    using unsigned_less [of w, where ?'a = nat] by (simp add: unsigned_ucast_eq take_bit_nat_eq_self)
  ultimately show ?thesis by (simp add: shamt_w64_def)
qed

lemma ucast_mult_low: "(ucast (a * b :: u64) :: u32) = ucast a * ucast b"
proof -
  have "take_bit 32 (take_bit 64 x) = take_bit 32 x" for x :: int by simp
  then have "take_bit 32 (take_bit 64 x * take_bit 64 y) = take_bit 32 (x * y)" for x y :: int
    by (metis take_bit_mult)
  then show ?thesis by transfer simp
qed

lemma mulw_twin: "mulw a b = scast (mul_low (ucast a) (ucast b))"
  by (simp add: mulw_def mul_low_words(1) ucast_mult_low)

lemmas word_results = word_op64_def rv64m_result_def rv32m_result_def mulw_twin
  divw_def divuw_def remw_def remuw_def div_result_def divu_result_def rem_result_def remu_result_def REG32_MIN64_def REG_MIN_def

lemma twin_op_cases:
  assumes "twin_op op = Some op'"
  shows "(\<exists>x y. op = RV64I x \<and> op' = RV32I y \<and> (x, y) \<in> {(ADDIW, ADDI), (SLLIW, SLLI), (SRLIW, SRLI), (SRAIW, SRAI),
      (ADDW, ADD), (SUBW, SUB), (SLLW, SLL), (SRLW, SRL), (SRAW, SRA)}) \<or>
    (\<exists>x y. op = RV64M x \<and> op' = RV32M y \<and> (x, y) \<in> {(MULW, MUL), (DIVW, DIV), (DIVUW, DIVU), (REMW, REM), (REMUW, REMU)})"
  using assms by (auto simp: twin_op_def split: Mapping.splits rv64i.splits rv64m.splits)

definition twin_operands :: "'p iss64 \<Rightarrow> 'q iss \<Rightarrow> bool" where
  "twin_operands s t \<longleftrightarrow> rs1_val t = ucast (rs1_64 s) \<and> rs2_val t = ucast (rs2_64 s) \<and> I_imm (iss_instr t) = I_imm (i64_instr s) \<and>
     instr_rd (iss_instr t) = instr_rd (i64_instr s) \<and> shift_amount t = shamt_w64 (rs2_64 s)"

definition twin_writes :: "('p iss64, unit) op \<Rightarrow> ('q iss, unit) op \<Rightarrow> 'p iss64 \<Rightarrow> 'q iss \<Rightarrow> bool" where
  "twin_writes f g s t \<longleftrightarrow> (\<exists>r. let n = unat (instr_rd (i64_instr s)) in
     f s = (Inr (), s\<lparr>i64_regs := (i64_regs s)[n := scast r]\<rparr>) \<and> g t = (Inr (), t\<lparr>iss_regs := (iss_regs t)[n := r]\<rparr>))"

lemma twin_write_rd: "twin_operands s t \<Longrightarrow> f s = scast (g t) \<Longrightarrow> twin_writes (write_rd64 f) (write_rd g) s t"
  by (auto simp: twin_writes_def twin_operands_def write_rd64_def write_rd_def set_reg64_def set_reg_def iss_op_defs Let_def)

lemma twin_rv64i:
  assumes "twin_op (RV64I x) = Some (RV32I y)" "twin_operands s t"
    "x \<in> {SLLIW, SRLIW, SRAIW} \<Longrightarrow> instr_shamt (iss_instr t) = instr_shamt_w (i64_instr s)"
  shows "twin_writes (exec64_rv64i env x) (exec_rv32i env' y) s t"
  using assms
  by (cases x) (auto simp: twin_op_def exec64_rv64i_def exec_rv32i_def word_op64_def rv64i_word_def twin_operands_def ucast_scast_word intro!: twin_write_rd)

lemma twin_rv64m:
  assumes "twin_op (RV64M x) = Some (RV32M y)" "twin_operands s t" "csr_misa (iss_csrs t) AND misa_M \<noteq> 0"
  shows "twin_writes (exec64_opcode env (RV64M x)) (exec_rv32m y) s t"
proof -
  have "exec_rv32m y t = write_rd (\<lambda>s. rv32m_result y (rs1_val s) (rs2_val s)) t"
    using assms(3) by (simp add: exec_rv32m_def REQUIRE_ISA_def iss_op_defs)
  moreover have "rv64m_result x (rs1_64 s) (rs2_64 s) = scast (rv32m_result y (rs1_val t) (rs2_val t))"
    using assms(1,2) by (cases x) (auto simp: twin_op_def twin_operands_def word_results)
  ultimately show ?thesis
    using twin_write_rd [OF assms(2), of "\<lambda>s. rv64m_result x (rs1_64 s) (rs2_64 s)"] by (simp add: twin_writes_def exec64_opcode_def)
qed

text \<open>
  C34: the word instructions of the 64-bit simulator are the 32-bit simulator's instructions: when a
  word is decoded to one of \<^verbatim>\<open>ADDIW\<close>, \<^verbatim>\<open>SLLIW\<close>, \<^verbatim>\<open>SRLIW\<close>, \<^verbatim>\<open>SRAIW\<close>, \<^verbatim>\<open>ADDW\<close>, \<^verbatim>\<open>SUBW\<close>, \<^verbatim>\<open>SLLW\<close>, \<^verbatim>\<open>SRLW\<close>,
  \<^verbatim>\<open>SRAW\<close>, \<^verbatim>\<open>MULW\<close>, \<^verbatim>\<open>DIVW\<close>, \<^verbatim>\<open>DIVUW\<close>, \<^verbatim>\<open>REMW\<close>, \<^verbatim>\<open>REMUW\<close>, the word with bit 3 cleared is decoded on RV32 to
  the operation of the same name without the \<^verbatim>\<open>W\<close>; if the 32-bit registers hold the low words, both
  simulators execute without an error, change only the destination register, the 64-bit one gets the
  32-bit result widened with its sign, and the 32-bit registers still hold the low words.
\<close>

theorem word_instructions_simulate_rv32:
  assumes "low_words s t" "length (i64_regs s) = 32" "csr_misa (iss_csrs t) AND misa_M \<noteq> 0"
    "iss_instr t = word_twin (i64_instr s)"
    "twin_op (decode_normal RV64 (i64_instr s)) = Some op'"
  shows "decode_normal RV32 (iss_instr t) = op' \<and>
    (\<exists>r. let n = unat (instr_rd (i64_instr s)); s' = s\<lparr>i64_regs := (i64_regs s)[n := scast r]\<rparr>; t' = t\<lparr>iss_regs := (iss_regs t)[n := r]\<rparr> in
       exec64_opcode env (decode_normal RV64 (i64_instr s)) s = (Inr (), s') \<and> exec_opcode env' op' t = (Inr (), t') \<and> low_words s' t')"
proof -
  let ?op = "decode_normal RV64 (i64_instr s)" and ?i = "i64_instr s"
  note d = twin_decode [OF refl assms(5)]
  have v: "rs1_val t = ucast (rs1_64 s)" "rs2_val t = ucast (rs2_64 s)"
    using low_words_reg [OF assms(1,2)] by (simp_all add: rs1_val_def rs2_val_def rs1_64_def rs2_64_def assms(4) twin_fields register_fields_less_32)
  have o: "twin_operands s t"
    by (simp add: twin_operands_def assms(4) twin_fields shift_amount_def v shamt_low_word)
  have sh: "instr_shamt (iss_instr t) = instr_shamt_w ?i" if "?op = RV64I x" "x \<in> {SLLIW, SRLIW, SRAIW}" for x
    using shift_instr_bit_25 [of x ?i] d(1) that by (simp add: assms(4) twin_fields shamt_of_w)
  have "twin_writes (exec64_opcode env ?op) (exec_opcode env' op') s t"
    using twin_op_cases [OF assms(5)]
  proof (elim disjE exE conjE)
    fix x y assume x: "?op = RV64I x" "op' = RV32I y"
    then show ?thesis
      using twin_rv64i [of x y s t env env'] o sh assms(5) by (simp add: exec64_opcode_def exec_opcode_def)
  next
    fix x y assume x: "?op = RV64M x" "op' = RV32M y"
    then show ?thesis
      using twin_rv64m [of x y s t env] o assms(3,5) by (simp add: exec_opcode_def)
  qed
  then show ?thesis
    using d(2) low_words_update [OF assms(1)] by (auto simp: assms(4) Let_def twin_writes_def)
qed

text \<open>\<^verbatim>\<open>addw a0, a1, a2\<close> on 0x7FFFFFFF and 1, beside \<^verbatim>\<open>add\<close> on the RV32 simulator.\<close>

definition example_addw :: "unit cmi \<Rightarrow> unit iss64" where
  "example_addw m = (ISS64_construct 0 m)\<lparr>i64_instr := 0x00C5853B, i64_regs := (replicate 32 0)[11 := 0x7FFFFFFF, 12 := 1]\<rparr>"

definition example_add :: "unit cmi \<Rightarrow> unit iss" where
  "example_add m = (ISS_init 0 False m)\<lparr>iss_instr := 0x00C58533, iss_regs := (replicate 32 0)[11 := 0x7FFFFFFF, 12 := 1]\<rparr>"

theorem word_instructions_simulate_rv32_witness:
  "\<forall>m env env'. i64_regs (snd (exec64_opcode env (RV64I ADDW) (example_addw m))) ! 10 = 0xFFFFFFFF80000000 \<and>
     exec_opcode env' (RV32I ADD) (example_add m) = (Inr (), (example_add m)\<lparr>iss_regs := (iss_regs (example_add m))[10 := 0x80000000]\<rparr>)"
proof (intro allI)
  fix m env env'
  have d: "decode_normal RV64 0x00C5853B = RV64I ADDW"
    by (rule decode_normal_complete) (simp add: matches_def instr_consts)
  have h: "low_words (example_addw m) (example_add m)" "length (i64_regs (example_addw m)) = 32"
    "csr_misa (iss_csrs (example_add m)) AND misa_M \<noteq> 0" "iss_instr (example_add m) = word_twin (i64_instr (example_addw m))"
    "twin_op (decode_normal RV64 (i64_instr (example_addw m))) = Some (RV32I ADD)"
    by (simp_all add: low_words_def example_addw_def example_add_def map_update word_twin_def twin_op_def d ISS_init_def csr_table_init_def
        misa_init_def core_consts csr_fields set_field_def mask_numeral)
  have rd: "unat (instr_rd (i64_instr (example_addw m))) = 10" and op: "decode_normal RV64 (i64_instr (example_addw m)) = RV64I ADDW"
    and l: "length (i64_regs (example_addw m)) = 32"
    by (simp_all add: example_addw_def instr_rd_def BIT_RANGE_def d)
  from word_instructions_simulate_rv32 [OF h, of env env', unfolded rd op Let_def] obtain r where
    s: "exec64_opcode env (RV64I ADDW) (example_addw m) = (Inr (), (example_addw m)\<lparr>i64_regs := (i64_regs (example_addw m))[10 := scast r]\<rparr>)" and
    t: "exec_opcode env' (RV32I ADD) (example_add m) = (Inr (), (example_add m)\<lparr>iss_regs := (iss_regs (example_add m))[10 := r]\<rparr>)"
    by blast
  have "iss_regs (snd (exec_opcode env' (RV32I ADD) (example_add m))) ! 10 = 0x80000000"
    by (simp add: exec_opcode_def exec_rv32i_def write_rd_def set_reg_def iss_op_defs example_add_def rs1_val_def rs2_val_def xreg_def
        instr_rd_def instr_rs1_def instr_rs2_def BIT_RANGE_def)
  then have "r = 0x80000000" using t by (simp add: example_add_def)
  then show "i64_regs (snd (exec64_opcode env (RV64I ADDW) (example_addw m))) ! 10 = 0xFFFFFFFF80000000 \<and>
     exec_opcode env' (RV32I ADD) (example_add m) = (Inr (), (example_add m)\<lparr>iss_regs := (iss_regs (example_add m))[10 := 0x80000000]\<rparr>)"
    using s t l by simp
qed

end
