(* ===== verification/RV64_Muldiv.thy ===== *)
theory RV64_Muldiv
  imports RV64_Exec VP_Muldiv_Props
begin

text \<open>
  The multiplication and division instructions of the RV64 simulator, which compute products in 128
  bits, against the rules of the architecture manual (\<open>muldiv_spec\<close>, on words of 64 bits).
\<close>

lemma high_half64: "(ucast (signed_drop_bit 64 (word_of_int p :: u128)) :: u64) = word_of_int (p div 2 ^ 64)"
proof (rule bit_word_eqI)
  fix n assume "n < LENGTH(64)"
  then show "bit (ucast (signed_drop_bit 64 (word_of_int p :: u128)) :: u64) n = bit (word_of_int (p div 2 ^ 64) :: u64) n"
    unfolding drop_bit_eq_div [symmetric, of p 64] by (auto simp: bit_simps)
qed

lemma ucast_word_of_int64: "(ucast (word_of_int p :: u128) :: u64) = word_of_int p"
  by (rule bit_word_eqI) (auto simp: bit_simps)

lemma product_words64:
  "mul64 a b = a * b"
  "mulh64 a b = word_of_int (sint a * sint b div 2 ^ 64)"
  "mulhu64 a b = word_of_int (uint a * uint b div 2 ^ 64)"
  "mulhsu64 a b = word_of_int (sint a * uint b div 2 ^ 64)"
proof -
  have p: "scast a * scast b = (word_of_int (sint a * sint b) :: u128)"
    "ucast a * ucast b = (word_of_int (uint a * uint b) :: u128)"
    "scast a * ucast b = (word_of_int (sint a * uint b) :: u128)"
    by (simp_all only: scast_eq ucast_eq of_int_mult)
  have "mul64 a b = word_of_int (sint a * sint b)"
    by (simp only: mul64_def p ucast_word_of_int64)
  then show "mul64 a b = a * b" by simp
  show "mulh64 a b = word_of_int (sint a * sint b div 2 ^ 64)" "mulhu64 a b = word_of_int (uint a * uint b div 2 ^ 64)"
    "mulhsu64 a b = word_of_int (sint a * uint b div 2 ^ 64)"
    by (simp_all only: mulh64_def mulhu64_def mulhsu64_def p high_half64)
qed

lemma overflow64_iff: "sint a = - 9223372036854775808 \<longleftrightarrow> a = REG_MIN64" "sint b = - 1 \<longleftrightarrow> b = (- 1 :: u64)"
  by (auto simp: REG_MIN64_def intro: signed_word_eqI)

text \<open>
  The multiplication and division instructions of the 64-bit simulator compute what the
  architecture manual asks, on every pair of operands: the high and the low word of a product are the
  exact signed, unsigned or mixed product; quotient and remainder are the truncated division with the
  fixed results for division by zero and for signed overflow; and in all cases the dividend is the
  quotient times the divisor plus the remainder. The instruction writes the result to \<^verbatim>\<open>rd\<close> and
  changes nothing else.
\<close>

theorem muldiv64_correct:
  "(\<exists>r. exec64_opcode env (RV32M op) s = (Inr (), s\<lparr>i64_regs := (i64_regs s)[unat (instr_rd (i64_instr s)) := r]\<rparr>) \<and>
      muldiv_spec op (rs1_64 s) (rs2_64 s) r) \<and>
    a = div64 a b * b + rem64 a b \<and> a = divu64 a b * b + remu64 a b"
proof -
  have e: "exec64_opcode env (RV32M op) s = (Inr (), s\<lparr>i64_regs := (i64_regs s)[unat (instr_rd (i64_instr s)) :=
      rv32m_result64 op (rs1_64 s) (rs2_64 s)]\<rparr>)"
    by (simp add: exec64_opcode_def write_rd64_def set_reg64_def comb_defs)
  have r: "muldiv_spec op a b (rv32m_result64 op a b)" for a b
    using high_words_exact [of a b] signed_truncated [of b a] unsigned_truncated [of b a]
    by (cases op) (auto simp: muldiv_spec_def rv32m_result64_def overflow64_iff Let_def product_words64
        div64_def rem64_def divu64_def remu64_def)
  have s: "a = div64 a b * b + rem64 a b"
    using division_law_words [of a b] by (auto simp: div64_def rem64_def REG_MIN64_def)
  have u: "a = divu64 a b * b + remu64 a b"
    using div_mult_mod_eq [of a b] by (simp add: divu64_def remu64_def)
  show ?thesis
    using e r s u by blast
qed

end
