(* ===== verification/RV64_Inv.thy ===== *)
theory RV64_Inv
  imports RV64_Exec VP_Core_Mem_Props
begin

text \<open>
  The well-formedness of the RV64 simulator, preserved by every operation: the register files and arrays
  keep their lengths, \<^verbatim>\<open>misa\<close> and the register widths of \<^verbatim>\<open>mstatus\<close> stay as they were made, \<^verbatim>\<open>satp\<close> has one of
  the modes the translation knows, no reserved interrupt or delegation bit is ever set, and the program
  counter and the three exception program counters are even.
\<close>

section \<open>Registers within a mask\<close>

definition within :: "u64 \<Rightarrow> u64 \<Rightarrow> bool" where
  "within m w \<longleftrightarrow> w AND NOT m = 0"

lemma within_iff: "within m w \<longleftrightarrow> (\<forall>n. bit w n \<longrightarrow> bit m n)"
proof -
  have z: "x = 0 \<longleftrightarrow> (\<forall>n. \<not> bit x n)" for x :: u64
    using bit_word_eqI [of x 0] by auto
  show ?thesis
    unfolding within_def z using bit_imp_le_length [of w] by (auto simp: bit_simps)
qed

lemma within_zero [simp]: "within m 0"
  by (simp add: within_def)

lemma within_masked_write: "within m w \<Longrightarrow> within m k \<Longrightarrow> within m (masked_write k v w)"
  by (auto simp: within_iff bit_masked_write)

lemma within_set_field:
  assumes "within m w" "within m (push_bit lo (mask len))"
  shows "within m (set_field lo len v w)"
proof (unfold within_iff, intro allI impI)
  fix n assume n: "bit (set_field lo len v w) n"
  have "bit (push_bit lo (mask len) :: u64) n" if "lo \<le> n" "n < lo + len" "n < 64"
    using that by (simp add: bit_push_bit_iff bit_mask_iff less_diff_conv2 add.commute)
  then show "bit m n" using n assms by (auto simp: bit_set_field within_iff split: if_splits)
qed

lemma get_field_masked_write:
  "(\<And>n. n < len \<Longrightarrow> \<not> bit m (lo + n)) \<Longrightarrow> get_field lo len (masked_write m v w) = get_field lo len (w :: u64)"
  by (rule bit_word_eqI) (auto simp: bit_get_field bit_masked_write)

lemma get_field_le_3: "get_field lo 2 (w :: u64) \<le> 3"
proof -
  have "get_field lo 2 w \<le> mask 2"
    by (simp add: get_field_def take_bit_eq_mask word_and_le1)
  then show ?thesis by (simp add: mask_eq_exp_minus_1)
qed

lemma even_word_iff: "even (w :: u64) \<longleftrightarrow> \<not> bit w 0"
  by (simp add: bit_0)

lemma even_and_m2: "even ((w :: u64) AND - 2)"
  by (simp add: even_and_iff)

lemma even_masked_write: "even (w :: u64) \<Longrightarrow> even k \<Longrightarrow> even (masked_write k v w)"
  by (simp add: even_word_iff bit_masked_write)

lemma even_immediates: "even (scast (B_imm i) :: u64)" "even (scast (J_imm i) :: u64)"
  using immediate_ranges [of i] bit_0 [of "B_imm i"] bit_0 [of "J_imm i"] by (simp_all add: even_word_iff bit_simps)

lemma and_1_even: "(w :: u64) AND 1 = 0 \<longleftrightarrow> even w"
  by (simp add: and_one_eq even_iff_mod_2_eq_zero)

section \<open>Well-formed states\<close>

definition satp64_ok :: "u64 \<Rightarrow> bool" where
  "satp64_ok w \<longleftrightarrow> ucast (satp64_mode w) \<in> {SATP_MODE_BARE, SATP_MODE_SV39, SATP_MODE_SV48}"

definition csr64_wf :: "csr64_table \<Rightarrow> bool" where
  "csr64_wf t \<longleftrightarrow> length (c64_pmpaddr t) = 16 \<and> length (c64_pmpcfg t) = 2 \<and> c64_misa t = misa64_init \<and>
     mstatus64_uxl (c64_mstatus t) = 2 \<and> mstatus64_sxl (c64_mstatus t) = 2 \<and> satp64_ok (c64_satp t) \<and>
     within MIE_MASK64 (c64_mie t) \<and> within MIE_MASK64 (c64_mip t) \<and>
     within MIDELEG_MASK64 (c64_mideleg t) \<and> within SIDELEG_MASK64 (c64_sideleg t) \<and>
     within MEDELEG_MASK64 (c64_medeleg t) \<and> within SEDELEG_MASK64 (c64_sedeleg t) \<and>
     even (c64_mepc t) \<and> even (c64_sepc t) \<and> even (c64_uepc t)"

definition iss64_wf :: "'p iss64 \<Rightarrow> bool" where
  "iss64_wf s \<longleftrightarrow> length (i64_regs s) = 32 \<and> length (i64_fp_regs s) = 32 \<and> csr64_wf (i64_csrs s) \<and>
     even (i64_pc s) \<and> even (i64_last_pc s) \<and> i64_prv s \<le> 3 \<and> i64_lr_sc_counter s \<ge> 0"

definition x0_64 :: "'p iss64 \<Rightarrow> bool" where
  "x0_64 s \<longleftrightarrow> i64_regs s ! reg_zero = 0"

definition env64_ok :: "'p iss64_env \<Rightarrow> bool" where
  "env64_ok env \<longleftrightarrow> preserves iss64_wf (e64_update_and_get_mtime env) \<and> preserves iss64_wf (e64_execute_syscall env) \<and>
     preserves iss64_wf (e64_wait_wfi env) \<and> (\<forall>n. preserves iss64_wf (e64_quantum_inc env n)) \<and>
     preserves iss64_wf (e64_quantum_sync env) \<and> (\<forall>n. preserves x0_64 (e64_quantum_inc env n)) \<and>
     preserves x0_64 (e64_quantum_sync env)"

lemma misa64_extensions_init:
  "has_C_extension64 misa64_init" "has_user_mode_extension64 misa64_init" "has_supervisor_mode_extension64 misa64_init"
  by (simp_all add: has_C_extension64_def has_user_mode_extension64_def has_supervisor_mode_extension64_def misa64_init_def
      misa64_extensions_def set_misa64_extensions_def set_misa64_mxl_def get_field_def set_field_def csr64_consts mask_eq_exp_minus_1)

lemma mstatus64_widths:
  "mstatus64_uxl mstatus64_init = 2" "mstatus64_sxl mstatus64_init = 2"
  by (simp_all add: mstatus64_init_def csr64_fields get_field_def set_field_def mask_eq_exp_minus_1)

lemma csr64_table_init_wf: "csr64_wf (csr64_table_init\<lparr>c64_mhartid := h\<rparr>)"
  by (simp add: csr64_wf_def csr64_table_init_def mstatus64_widths satp64_ok_def satp64_mode_def get_field_def core_consts)

lemma pc64_aligned: "iss64_wf s \<Longrightarrow> i64_pc s AND NOT (pc_alignment_mask64 s) = 0"
  by (simp add: iss64_wf_def csr64_wf_def pc_alignment_mask64_def misa64_extensions_init and_1_even)

section \<open>Primitive updates\<close>

named_theorems wf64_rules \<open>operations that preserve well-formedness of the RV64 simulator\<close>
named_theorems csr64_laws \<open>fields and masked writes of well-formed registers\<close>

lemmas mstatus64_fields = mstatus64_uxl_def mstatus64_sxl_def set_mstatus64_uie_def set_mstatus64_sie_def set_mstatus64_mie_def
  set_mstatus64_upie_def set_mstatus64_spie_def set_mstatus64_mpie_def set_mstatus64_spp_def set_mstatus64_mpp_def
  set_mstatus64_fs_def set_mstatus64_sd_def

lemma widths_set_field [csr64_laws]:
  "mstatus64_uxl (set_mstatus64_uie v w) = mstatus64_uxl w" "mstatus64_sxl (set_mstatus64_uie v w) = mstatus64_sxl w"
  "mstatus64_uxl (set_mstatus64_sie v w) = mstatus64_uxl w" "mstatus64_sxl (set_mstatus64_sie v w) = mstatus64_sxl w"
  "mstatus64_uxl (set_mstatus64_mie v w) = mstatus64_uxl w" "mstatus64_sxl (set_mstatus64_mie v w) = mstatus64_sxl w"
  "mstatus64_uxl (set_mstatus64_upie v w) = mstatus64_uxl w" "mstatus64_sxl (set_mstatus64_upie v w) = mstatus64_sxl w"
  "mstatus64_uxl (set_mstatus64_spie v w) = mstatus64_uxl w" "mstatus64_sxl (set_mstatus64_spie v w) = mstatus64_sxl w"
  "mstatus64_uxl (set_mstatus64_mpie v w) = mstatus64_uxl w" "mstatus64_sxl (set_mstatus64_mpie v w) = mstatus64_sxl w"
  "mstatus64_uxl (set_mstatus64_spp v w) = mstatus64_uxl w" "mstatus64_sxl (set_mstatus64_spp v w) = mstatus64_sxl w"
  "mstatus64_uxl (set_mstatus64_mpp v w) = mstatus64_uxl w" "mstatus64_sxl (set_mstatus64_mpp v w) = mstatus64_sxl w"
  "mstatus64_uxl (set_mstatus64_fs v w) = mstatus64_uxl w" "mstatus64_sxl (set_mstatus64_fs v w) = mstatus64_sxl w"
  "mstatus64_uxl (set_mstatus64_sd v w) = mstatus64_uxl w" "mstatus64_sxl (set_mstatus64_sd v w) = mstatus64_sxl w"
  by (simp_all add: mstatus64_fields get_field_set_field_other)

lemma less_2: "(n :: nat) < 2 \<longleftrightarrow> n = 0 \<or> n = 1" by auto

lemma widths_masked_write [csr64_laws]:
  "mstatus64_uxl (masked_write MSTATUS_WRITE_MASK64 v w) = mstatus64_uxl w" "mstatus64_sxl (masked_write MSTATUS_WRITE_MASK64 v w) = mstatus64_sxl w"
  "mstatus64_uxl (masked_write SSTATUS_WRITE_MASK64 v w) = mstatus64_uxl w" "mstatus64_sxl (masked_write SSTATUS_WRITE_MASK64 v w) = mstatus64_sxl w"
  "mstatus64_uxl (masked_write USTATUS_MASK64 v w) = mstatus64_uxl w" "mstatus64_sxl (masked_write USTATUS_MASK64 v w) = mstatus64_sxl w"
  by (simp_all add: mstatus64_fields, rule get_field_masked_write; auto simp: less_2 csr64_consts)+

lemma within_masks [csr64_laws]:
  "within MIE_MASK64 MIP_WRITE_MASK64" "within MIE_MASK64 SIP_MASK64" "within MIE_MASK64 UIP_MASK64"
  "within MIE_MASK64 MIE_MASK64" "within MIE_MASK64 SIE_MASK64" "within MIE_MASK64 UIE_MASK64"
  "within MIDELEG_MASK64 MIDELEG_MASK64" "within SIDELEG_MASK64 SIDELEG_MASK64" "within MEDELEG_MASK64 MEDELEG_MASK64"
  "within SEDELEG_MASK64 SEDELEG_MASK64"
  by (simp_all add: within_def csr64_consts)

lemma mip_set_within [csr64_laws]:
  "within MIE_MASK64 w \<Longrightarrow> within MIE_MASK64 (set_mip64_ueip v w)" "within MIE_MASK64 w \<Longrightarrow> within MIE_MASK64 (set_mip64_seip v w)"
  "within MIE_MASK64 w \<Longrightarrow> within MIE_MASK64 (set_mip64_meip v w)" "within MIE_MASK64 w \<Longrightarrow> within MIE_MASK64 (set_mip64_mtip v w)"
  "within MIE_MASK64 w \<Longrightarrow> within MIE_MASK64 (set_mip64_msip v w)"
  unfolding set_mip64_ueip_def set_mip64_seip_def set_mip64_meip_def set_mip64_mtip_def set_mip64_msip_def
  by (erule within_set_field, simp add: within_def csr64_consts mask_eq_exp_minus_1)+

lemma satp64_write_ok: "satp64_ok w \<Longrightarrow> satp64_ok (write_satp64 v w)"
  by (auto simp: satp64_ok_def write_satp64_def Let_def satp64_mode_def set_satp64_mode_def get_field_set_field_same)

lemma wf64_modify:
  "(\<And>s. i64_regs (f s) = i64_regs s) \<Longrightarrow> (\<And>s. i64_fp_regs (f s) = i64_fp_regs s) \<Longrightarrow> (\<And>s. i64_csrs (f s) = i64_csrs s) \<Longrightarrow>
   (\<And>s. i64_pc (f s) = i64_pc s) \<Longrightarrow> (\<And>s. i64_last_pc (f s) = i64_last_pc s) \<Longrightarrow> (\<And>s. i64_prv (f s) = i64_prv s) \<Longrightarrow>
   (\<And>s. i64_lr_sc_counter (f s) = i64_lr_sc_counter s) \<Longrightarrow> preserves iss64_wf (modify_op f)"
  by (rule preserves_modify) (simp add: iss64_wf_def)

lemma wf64_csr: "(\<And>t. csr64_wf t \<Longrightarrow> csr64_wf (f t)) \<Longrightarrow> preserves iss64_wf (csr64_op f)"
  unfolding csr64_op_def by (rule preserves_modify) (simp add: iss64_wf_def)

lemma wf64_mem [wf64_rules]: "preserves iss64_wf (mem64_op f)"
  by (auto simp: preserves_def mem64_op_def iss64_wf_def split: prod.splits)

lemma wf64_set_reg [wf64_rules]: "preserves iss64_wf (set_reg64 rd v)" "preserves iss64_wf (write_rd64 f)"
  unfolding write_rd64_def set_reg64_def by (intro preserves_rules preserves_modify; simp add: iss64_wf_def)+

lemma wf64_checks [wf64_rules]:
  "preserves P (trap64_op e v)" "preserves P illegal64" "preserves P (illegal64_if c)" "preserves P trap_check_pc_alignment64"
  "preserves P (trap_check_addr_alignment64 al b addr)" "preserves P (validate_csr_counter_read_access_rights64 a)"
proof -
  show t [preserves_rules]: "preserves P (trap64_op e v)" for e v unfolding trap64_op_def by (intro preserves_rules)
  show i [preserves_rules]: "preserves P illegal64" unfolding illegal64_def by (intro preserves_rules)
  show c [preserves_rules]: "preserves P (illegal64_if c)" for c unfolding illegal64_if_def by (intro preserves_rules)
  show "preserves P trap_check_pc_alignment64" "preserves P (trap_check_addr_alignment64 al b addr)"
    "preserves P (validate_csr_counter_read_access_rights64 a)"
    unfolding trap_check_pc_alignment64_def trap_check_addr_alignment64_def validate_csr_counter_read_access_rights64_def Let_def
    by (intro preserves_rules t c)+
qed

lemma wf64_release [wf64_rules]: "preserves iss64_wf release_lr_sc_reservation64"
  unfolding release_lr_sc_reservation64_def by (intro preserves_rules wf64_rules preserves_modify) (simp add: iss64_wf_def)

section \<open>Control and status registers\<close>

lemma masked_write_wf64:
  assumes "csr64_masked_write align addr v = Some f" "even align" "csr64_wf t"
  shows "csr64_wf (f t)"
proof -
  have "(addr, f) \<in> set (csr64_masked_writes align v)" using assms(1) by (auto simp: csr64_masked_write_def dest: map_of_SomeD)
  then show ?thesis
    using assms(2,3) unfolding csr64_masked_writes_def
    by (elim set_Cons_elim) (simp_all add: csr64_wf_def csr64_laws within_masked_write even_masked_write)
qed

lemma scalar_put_wf64:
  "(a, get, put) \<in> set scalar_registers64 \<Longrightarrow> put v t = Inr t' \<Longrightarrow> csr64_masked_write align a v = None \<Longrightarrow>
     a \<noteq> MISA_ADDR64 \<Longrightarrow> a \<noteq> SATP_ADDR64 \<Longrightarrow> csr64_wf t \<Longrightarrow> csr64_wf t'"
  unfolding scalar_registers64_def
  by (elim set_Cons_elim) (auto simp: entry64_def csr64_wf_def csr64_masked_write_def csr64_masked_writes_def csr64_consts)

lemma array_put_wf64:
  "(a, get, put) \<in> set array_registers64 \<Longrightarrow> put v t = Inr t' \<Longrightarrow> csr64_wf t \<Longrightarrow> csr64_wf t'"
  by (auto simp: array_registers64_def array_entry64_def csr64_wf_def split: if_splits)

lemma default_write_wf64:
  assumes "default_write64 a v t = Inr t'" "csr64_masked_write align a v = None" "a \<noteq> MISA_ADDR64" "a \<noteq> SATP_ADDR64" "csr64_wf t"
  shows "csr64_wf t'"
proof -
  obtain get put where p: "register_mapping64 a = Some (get, put)" "put v t = Inr t'"
    using assms(1) by (auto simp: default_write64_def split: option.splits)
  then have "(a, get, put) \<in> set (scalar_registers64 @ array_registers64)"
    by (auto simp: register_mapping64_def dest: map_of_SomeD)
  then show ?thesis
    using scalar_put_wf64 [of a get put v t t' align] array_put_wf64 [of a get put v t t'] p(2) assms by auto
qed

lemma wf64_set_csr_value [wf64_rules]: "preserves iss64_wf (set_csr_value64 a v)"
proof (unfold preserves_def, intro allI impI)
  fix s :: "'p iss64"
  assume wf: "iss64_wf s"
  have al: "even (pc_alignment_mask64 s)"
    by (simp add: pc_alignment_mask64_def even_word_iff bit_simps)
  show "iss64_wf (snd (set_csr_value64 a v s))"
  proof (cases "a = MISA_ADDR64 \<or> is_hpmcounter64 a \<or> a = SATP_ADDR64")
    case True
    have "preserves iss64_wf (set_csr_value64 a v)"
      unfolding set_csr_value64_def using True
      by (auto intro!: preserves_rules wf64_rules wf64_csr simp: csr64_wf_def satp64_write_ok)
    then show ?thesis using wf by (rule preserves_snd)
  next
    case False
    show ?thesis
    proof (cases "csr64_masked_write (pc_alignment_mask64 s) a v")
      case None
      have "iss64_wf (snd (seq_op (illegal64_if (\<lambda>s. \<not> is_valid_csr64_addr a))
          (update_res (\<lambda>s. bind_res (default_write64 a v (i64_csrs s)) (\<lambda>t. Inr (s\<lparr>i64_csrs := t\<rparr>)))) s))"
        using wf default_write_wf64 [OF _ None] False
        by (auto simp: iss64_wf_def illegal64_if_def illegal64_def trap64_op_def raise_trap_def comb_defs split: sum.splits)
      then show ?thesis using None False by (simp add: set_csr_value64_def get_op_def)
    next
      case (Some f)
      then show ?thesis
        using wf False masked_write_wf64 [OF Some al] by (simp add: set_csr_value64_def iss64_wf_def csr64_op_def comb_defs)
    qed
  qed
qed

lemma wf64_get_csr_value [wf64_rules]: "env64_ok env \<Longrightarrow> preserves iss64_wf (get_csr_value64 env a)"
  unfolding get_csr_value64_def compute_and_get_current_cycles64_def
  by (intro preserves_rules wf64_rules wf64_csr) (simp_all add: env64_ok_def csr64_wf_def)

lemma wf64_zicsr [wf64_rules]: "env64_ok env \<Longrightarrow> preserves iss64_wf (exec64_zicsr env x)"
  unfolding exec64_zicsr_def csr_write64_def csr_modify64_def Let_def
  by (cases x; simp; intro preserves_rules wf64_rules; assumption?)

section \<open>Instructions\<close>

lemma wf64_fp_helpers [wf64_rules]:
  "preserves iss64_wf fp_prepare_instr64" "preserves iss64_wf fp_set_dirty64" "preserves iss64_wf fp_update_exception_flags64"
  "preserves iss64_wf fp_setup_rm64" "preserves iss64_wf fp_finish_instr64"
proof -
  show d [wf64_rules]: "preserves iss64_wf fp_set_dirty64"
    unfolding fp_set_dirty64_def by (rule wf64_csr) (simp add: csr64_wf_def csr64_laws)
  show u [wf64_rules]: "preserves iss64_wf fp_update_exception_flags64"
    unfolding fp_update_exception_flags64_def
    by (intro preserves_rules d wf64_csr wf64_modify) (simp_all add: csr64_wf_def)
  show "preserves iss64_wf fp_prepare_instr64" "preserves iss64_wf fp_setup_rm64" "preserves iss64_wf fp_finish_instr64"
    unfolding fp_prepare_instr64_def fp_require_not_off64_def fp_setup_rm64_def fp_finish_instr64_def
    by (intro preserves_rules wf64_rules d u wf64_modify; simp)+
qed

lemma wf64_put [wf64_rules]:
  "preserves iss64_wf (put64_f32 v)" "preserves iss64_wf (put64_f64 w)" "preserves iss64_wf (put64_w v)" "preserves iss64_wf (put64_l w)"
  unfolding put64_f32_def put64_f64_def put64_w_def put64_l_def
  by (intro wf64_rules preserves_modify; simp add: iss64_wf_def fp_write_f32_def fp_write_f64_def)+

lemma wf64_sf_call [wf64_rules]: "(\<And>v. preserves iss64_wf (k v)) \<Longrightarrow> preserves iss64_wf (sf_call64 g k)"
  unfolding sf_call64_def by (intro preserves_rules wf64_modify) simp_all

lemma wf64_fp_shapes [wf64_rules]:
  "(\<And>v. preserves iss64_wf (k v)) \<Longrightarrow> preserves iss64_wf (fp_rounding64 g k)"
  "preserves iss64_wf (fp_compare64 h)" "(\<And>v. preserves iss64_wf (p v)) \<Longrightarrow> preserves iss64_wf (fp_move64 f p)"
  "preserves iss64_wf (fp_read64 q)" "(\<And>v. preserves iss64_wf (l v)) \<Longrightarrow> preserves iss64_wf (fp_load64 env sz l)"
  "preserves iss64_wf (fp_store64 env sz q)" "preserves iss64_wf (exec64_fminmax_s h)" "preserves iss64_wf (exec64_fminmax_d h)"
proof -
  show "preserves iss64_wf (fp_rounding64 g k)" if "\<And>v. preserves iss64_wf (k v)"
    unfolding fp_rounding64_def by (intro preserves_rules wf64_rules that)
  show "preserves iss64_wf (fp_compare64 h)" "preserves iss64_wf (exec64_fminmax_s h)" "preserves iss64_wf (exec64_fminmax_d h)"
    unfolding fp_compare64_def exec64_fminmax_s_def exec64_fminmax_d_def by (intro preserves_rules wf64_rules)+
  show "preserves iss64_wf (fp_move64 f p)" if "\<And>v. preserves iss64_wf (p v)"
    unfolding fp_move64_def by (intro preserves_rules wf64_rules that)
  show "preserves iss64_wf (fp_load64 env sz l)" if "\<And>v. preserves iss64_wf (l v)"
    unfolding fp_load64_def by (intro preserves_rules wf64_rules that)
  show "preserves iss64_wf (fp_read64 q)" "preserves iss64_wf (fp_store64 env sz q)"
    unfolding fp_read64_def fp_store64_def Let_def by (intro preserves_rules wf64_rules)+
qed

lemma wf64_rv32f [wf64_rules]: "preserves iss64_wf (exec64_rv32f env x)"
  unfolding exec64_rv32f_def Let_def by (cases x; simp; intro wf64_rules)

lemma wf64_rv64f [wf64_rules]: "preserves iss64_wf (exec64_rv64f env x)"
  unfolding exec64_rv64f_def Let_def by (cases x; simp; intro wf64_rules)

lemma wf64_rv32d [wf64_rules]: "preserves iss64_wf (exec64_rv32d env x)"
  unfolding exec64_rv32d_def Let_def by (cases x; simp; intro wf64_rules)

lemma wf64_rv64d [wf64_rules]: "preserves iss64_wf (exec64_rv64d env x)"
  unfolding exec64_rv64d_def Let_def by (cases x; simp; intro wf64_rules)

lemma wf64_set_pc:
  "(\<And>s. iss64_wf s \<Longrightarrow> even (f s)) \<Longrightarrow> preserves iss64_wf (modify_op (\<lambda>s. s\<lparr>i64_pc := f s\<rparr>))"
  by (rule preserves_modify) (simp add: iss64_wf_def)

lemma wf64_branch [wf64_rules]: "preserves iss64_wf (branch64 c)"
  unfolding branch64_def
  by (intro preserves_rules wf64_rules wf64_set_pc) (simp add: iss64_wf_def even_immediates)

lemma wf64_jump [wf64_rules]: "(\<And>s. iss64_wf s \<Longrightarrow> even (f s)) \<Longrightarrow> preserves iss64_wf (jump_and_link64 f)"
  unfolding jump_and_link64_def by (intro preserves_rules wf64_rules wf64_set_pc)

lemma wf64_memory [wf64_rules]:
  "preserves iss64_wf (load_rd64 env sz widen)" "preserves iss64_wf (store_rs2_64 env sz)"
  unfolding load_rd64_def store_rs2_64_def Let_def by (intro preserves_rules wf64_rules)+

lemma wf64_ecall [wf64_rules]: "env64_ok env \<Longrightarrow> preserves iss64_wf (exec_ecall64 env)"
  unfolding exec_ecall64_def by (intro preserves_rules wf64_rules) (simp_all add: env64_ok_def)

lemma wf64_rv32i [wf64_rules]: "env64_ok env \<Longrightarrow> preserves iss64_wf (exec64_rv32i env x)"
  unfolding exec64_rv32i_def Let_def
  by (cases x; simp; intro preserves_rules wf64_rules wf64_modify; simp add: iss64_wf_def even_immediates even_and_m2)

lemma wf64_rv64i [wf64_rules]: "preserves iss64_wf (exec64_rv64i env x)"
  unfolding exec64_rv64i_def by (intro preserves_rules wf64_rules)

lemma wf64_catch_trap: "preserves P m \<Longrightarrow> preserves P (catch_trap f m)"
  by (fastforce simp: preserves_def catch_trap_def split: prod.splits sum.splits sim_exn.splits)

lemma wf64_atomic [wf64_rules]: "preserves iss64_wf (exec64_rv32a env x)" "preserves iss64_wf (exec64_rv64a env y)"
  unfolding exec64_rv32a_def exec64_rv64a_def exec_lr64_def exec_sc64_def execute_amo64_def
  by (intro preserves_rules wf64_rules wf64_catch_trap preserves_modify; simp add: iss64_wf_def)+

section \<open>Traps\<close>

lemma even_trap_vector64: "even (trap_vector64 tvec cause)"
  by (simp add: trap_vector64_def Let_def get_base_address64_def push_bit_eq_mult)

lemma ucast_le_3: "(w :: u64) \<le> 3 \<Longrightarrow> (ucast w :: u32) \<le> 3"
  by (simp add: word_le_nat_alt unsigned_ucast_eq take_bit_nat_eq_self)

lemma wf64_return [wf64_rules]: "preserves iss64_wf (return_from_trap_handler64 mode)"
proof -
  have "(ucast (mstatus64_mpp w) :: u32) \<le> 3" for w
    by (rule ucast_le_3) (simp add: mstatus64_mpp_def get_field_le_3)
  moreover have "(ucast (mstatus64_spp w) :: u32) \<le> 3" for w
    by (rule ucast_le_3) (simp add: mstatus64_spp_def get_field_1)
  ultimately show ?thesis
    unfolding return_from_trap_handler64_def
    by (intro preserves_rules preserves_modify)
      (simp_all add: iss64_wf_def csr64_wf_def return_m64_def return_s64_def return_u64_def Let_def csr64_laws core_consts)
qed

lemma wf64_switch: "mode \<le> 3 \<Longrightarrow> preserves iss64_wf (switch_to_trap_handler64 mode)"
  unfolding switch_to_trap_handler64_def
  by (intro preserves_rules wf64_rules preserves_modify)
    (simp_all add: iss64_wf_def csr64_wf_def enter_m64_def enter_s64_def enter_u64_def Let_def csr64_laws even_trap_vector64)

lemma wf64_priv [wf64_rules]: "env64_ok env \<Longrightarrow> preserves iss64_wf (exec64_priv env x)"
  unfolding exec64_priv_def exec_wfi64_def
  by (cases x; simp; intro preserves_rules wf64_rules; simp add: env64_ok_def)

lemma wf64_opcode [wf64_rules]: "env64_ok env \<Longrightarrow> preserves iss64_wf (exec64_opcode env x)"
  unfolding exec64_opcode_def by (cases x; simp; intro preserves_rules wf64_rules; assumption?)

lemma wf64_fetch [wf64_rules]: "preserves iss64_wf (fetch_instr64 env)"
proof (unfold preserves_def, intro allI impI)
  fix s :: "'a iss64"
  assume wf: "iss64_wf s"
  obtain r s' where m: "mem64_op (\<lambda>core. load_instr64 (e64_pt env) core (i64_pc s)) s = (r, s')" by force
  have "iss64_wf s'" using preservesD [OF wf64_mem wf m] .
  then show "iss64_wf (snd (fetch_instr64 env s))"
    by (simp add: fetch_instr64_def m iss64_wf_def split: sum.splits sim_exn.splits)
qed

lemma wf64_decode [wf64_rules]: "preserves iss64_wf decode_step64"
  unfolding decode_step64_def by (intro preserves_rules preserves_modify) (simp_all add: iss64_wf_def)

lemma wf64_exec_step [wf64_rules]: "env64_ok env \<Longrightarrow> preserves iss64_wf (exec_step64 env)"
  unfolding exec_step64_def by (intro preserves_rules wf64_rules)

lemma wf64_prepare_interrupt [wf64_rules]: "preserves iss64_wf (prepare_interrupt64 e)"
  unfolding prepare_interrupt64_def Let_def
  by (intro preserves_rules wf64_csr) (simp_all add: csr64_wf_def)

lemma compute_pending_target: "fst (compute_pending_interrupts64 s) \<noteq> NoneMode \<Longrightarrow> fst (compute_pending_interrupts64 s) \<le> 3"
  by (auto simp: compute_pending_interrupts64_def Let_def core_consts split: if_splits)

section \<open>Steps\<close>

lemma wf64_take_trap: "preserves iss64_wf (take_trap64 reason mtval)"
proof -
  have p: "preserves iss64_wf (prepare_trap64 reason mtval)"
    unfolding prepare_trap64_def Let_def
    by (intro preserves_rules wf64_rules wf64_csr preserves_modify) (simp_all add: iss64_wf_def csr64_wf_def)
  have target: "fst (prepare_trap64 reason mtval s) = Inr mode \<Longrightarrow> mode \<le> 3" for s :: "'a iss64" and mode
    by (auto simp: prepare_trap64_def Let_def comb_defs csr64_op_def assert_that_def core_consts split: if_splits)
  show ?thesis
  proof (unfold preserves_def, intro allI impI)
    fix s :: "'a iss64"
    assume wf: "iss64_wf s"
    obtain r s' where r: "prepare_trap64 reason mtval s = (r, s')" by force
    have s': "iss64_wf s'" using preservesD [OF p wf r] .
    show "iss64_wf (snd (take_trap64 reason mtval s))"
      using s' preserves_snd [OF wf64_switch s'] target [of s] by (cases r) (auto simp: take_trap64_def bind_op_def r)
  qed
qed

lemma wf64_run_try: "env64_ok env \<Longrightarrow> preserves iss64_wf (run_try64 env)"
proof -
  assume env: "env64_ok env"
  have "preserves iss64_wf (get_op compute_pending_interrupts64 (\<lambda>x. when_op (fst x \<noteq> NoneMode)
     (seq_op (prepare_interrupt64 x) (switch_to_trap_handler64 (fst x)))) :: ('a iss64, unit) op)"
  proof (unfold preserves_def, intro allI impI)
    fix s :: "'a iss64"
    assume wf: "iss64_wf s"
    let ?x = "compute_pending_interrupts64 s"
    have "preserves iss64_wf (when_op (fst ?x \<noteq> NoneMode) (seq_op (prepare_interrupt64 ?x) (switch_to_trap_handler64 (fst ?x))))"
      by (intro preserves_rules wf64_rules wf64_switch compute_pending_target)
    from preserves_snd [OF this wf]
    show "iss64_wf (snd (get_op compute_pending_interrupts64 (\<lambda>x. when_op (fst x \<noteq> NoneMode)
       (seq_op (prepare_interrupt64 x) (switch_to_trap_handler64 (fst x)))) s))" by (simp add: get_op_def)
  qed
  then have b: "preserves iss64_wf (run_step_body64 env)"
    unfolding run_step_body64_def by (intro preserves_seq wf64_exec_step env)
  show ?thesis
  proof (unfold preserves_def, intro allI impI)
    fix s :: "'a iss64"
    assume wf: "iss64_wf s"
    obtain r s' where r: "run_step_body64 env s = (r, s')" by force
    have s': "iss64_wf s'" using preservesD [OF b wf r] .
    then show "iss64_wf (snd (run_try64 env s))"
      using preserves_snd [OF wf64_take_trap s'] by (simp add: run_try64_def r split: sum.splits sim_exn.splits)
  qed
qed

lemma performance64:
  assumes "env64_ok env"
  shows "preserves iss64_wf (performance_and_sync_update64 env op)" "preserves x0_64 (performance_and_sync_update64 env op)"
proof -
  have c: "preserves iss64_wf count_reservation64"
    by (auto simp: preserves_def count_reservation64_def release_lr_sc_reservation64_def mem64_op_def comb_defs iss64_wf_def assert_that_def
        split: prod.splits)
  show "preserves iss64_wf (performance_and_sync_update64 env op)"
    unfolding performance_and_sync_update64_def Let_def
    by (intro preserves_rules wf64_rules wf64_csr wf64_modify c) (use assms in \<open>simp_all add: env64_ok_def csr64_wf_def\<close>)
  have m: "preserves x0_64 (mem64_op f)" for f :: "mem64_core \<Rightarrow> ('a cmi, 'c) op"
    by (auto simp: preserves_def mem64_op_def x0_64_def split: prod.splits)
  show "preserves x0_64 (performance_and_sync_update64 env op)"
    unfolding performance_and_sync_update64_def count_reservation64_def release_lr_sc_reservation64_def csr64_op_def Let_def
    by (intro preserves_rules preserves_modify m) (use assms in \<open>simp_all add: env64_ok_def x0_64_def\<close>)
qed

lemma run_step_end64:
  assumes "env64_ok env" "iss64_wf s"
  shows "iss64_wf (snd (run_step_end64 env s)) \<and> x0_64 (snd (run_step_end64 env s))"
proof -
  let ?s = "s\<lparr>i64_regs := (i64_regs s)[reg_zero := 0]\<rparr>"
  let ?t = "if i64_shall_exit ?s then ?s\<lparr>i64_status := Terminated\<rparr> else ?s"
  have t: "iss64_wf ?t" "x0_64 ?t" using assms(2) by (simp_all add: iss64_wf_def x0_64_def reg_zero_def)
  have "run_step_end64 env s = performance_and_sync_update64 env (i64_op ?t) ?t"
    by (simp add: run_step_end64_def comb_defs)
  then show ?thesis
    using t preserves_snd [OF performance64(1) [OF assms(1)]] preserves_snd [OF performance64(2) [OF assms(1)]] by metis
qed

lemma run_step64_wf:
  assumes "env64_ok env" "iss64_wf s"
  shows "iss64_wf (snd (run_step64 env s)) \<and> (fst (run_step64 env s) = Inr () \<longrightarrow> x0_64 (snd (run_step64 env s)))"
proof (cases "i64_regs s ! 0 = 0 \<and> \<not> (i64_debug_mode s \<and> i64_pc s \<in> i64_breakpoints s)")
  case True
  let ?t = "s\<lparr>i64_last_pc := i64_pc s\<rparr>"
  obtain r u where u: "run_try64 env ?t = (r, u)" by force
  have t: "iss64_wf ?t" using assms(2) by (simp add: iss64_wf_def)
  have wf: "iss64_wf u" using preservesD [OF wf64_run_try [OF assms(1)] t u] .
  have "run_step64 env s = (case r of Inl e \<Rightarrow> (Inl e, u) | Inr _ \<Rightarrow> run_step_end64 env u)"
    using True u by (cases "i64_debug_mode s") (auto simp: run_step64_def RegFile64_read_def comb_defs split: sum.splits)
  then show ?thesis using wf run_step_end64 [OF assms(1) wf] by (cases r) auto
next
  case False
  then show ?thesis
    using assms(2) by (auto simp: run_step64_def RegFile64_read_def comb_defs iss64_wf_def x0_64_def reg_zero_def assert_that_def)
qed

lemma run_loop64_wf:
  assumes "run_loop64 env s = Some y"
  shows "env64_ok env \<longrightarrow> iss64_wf s \<longrightarrow> iss64_wf (snd y)"
proof (rule run_loop64.raw_induct [OF _ assms])
  fix f :: "'a iss64_env \<Rightarrow> 'a iss64 \<Rightarrow> (unit res \<times> 'a iss64) option" and env s y
  assume IH: "\<And>env s y. f env s = Some y \<Longrightarrow> env64_ok env \<longrightarrow> iss64_wf s \<longrightarrow> iss64_wf (snd y)"
    and y: "(case run_step64 env s of (Inl e, s') \<Rightarrow> Some (Inl e, s')
       | (Inr _, s') \<Rightarrow> if i64_status s' = Runnable then f env s' else Some (e64_quantum_sync env s')) = Some y"
  show "env64_ok env \<longrightarrow> iss64_wf s \<longrightarrow> iss64_wf (snd y)"
  proof (intro impI)
    assume env: "env64_ok env" and s: "iss64_wf s"
    obtain r s' where r: "run_step64 env s = (r, s')" by force
    have s': "iss64_wf s'" using run_step64_wf [OF env s] r by simp
    have "iss64_wf (snd (e64_quantum_sync env s'))" using env s' by (simp add: env64_ok_def preserves_snd)
    then show "iss64_wf (snd y)"
      using y s' env IH unfolding r by (cases r) (auto split: if_splits)
  qed
qed

lemma ISS64_init_wf: "even entrypoint \<Longrightarrow> iss64_wf (ISS64_init entrypoint sp (ISS64_construct hart m))"
  using csr64_table_init_wf [of hart] by (simp add: iss64_wf_def ISS64_init_def ISS64_construct_def core_consts)

text \<open>
  C33: every step of the 64-bit simulator keeps its state well-formed, whatever the instruction, the
  trap or the interrupt it takes and whether or not it stops with an error: the register files keep 32
  registers, misa and the register widths in mstatus stay what the constructor makes them, satp only
  names a translation mode the unit implements, the interrupt and delegation registers have no bit
  outside their masks, the program counter and the exception program counters are even and the
  privilege level is one of the architecture. So the alignment assertion at the top of a step cannot
  fail; x0 is zero after each step that succeeds; and the state in which \<^verbatim>\<open>run\<close> stops is well-formed.
\<close>

theorem run_step64_keeps_state_well_formed:
  fixes s :: "'p iss64"
  assumes "env64_ok env" "iss64_wf s"
  shows "iss64_wf (snd (run_step64 env s)) \<and>
         (fst (run_step64 env s) = Inr () \<longrightarrow> i64_regs (snd (run_step64 env s)) ! 0 = 0) \<and>
         i64_pc s AND NOT (pc_alignment_mask64 s) = 0 \<and>
         (\<forall>r s'. iss64_run env s = Some (r, s') \<longrightarrow> iss64_wf s')"
  using run_step64_wf [OF assms] run_loop64_wf [of env s] assms pc64_aligned [OF assms(2)]
  by (auto simp: iss64_run_def x0_64_def reg_zero_def)

definition example_env64 :: "softfloat64 \<Rightarrow> unit iss64_env" where
  "example_env64 sf = \<lparr>e64_pt = no_peripherals, e64_update_and_get_mtime = ret_op 0, e64_execute_syscall = ret_op (),
     e64_wait_wfi = ret_op (), e64_quantum_inc = (\<lambda>_. ret_op True), e64_quantum_sync = ret_op (), e64_softfloat = sf\<rparr>"

lemma example_env64_ok: "env64_ok (example_env64 sf)"
  by (simp add: env64_ok_def example_env64_def preserves_rules)

theorem run_step64_keeps_state_well_formed_witness:
  "\<forall>sf. iss64_wf (snd (run_step64 (example_env64 sf) (ISS64_init 0x80000000 0x80000ff0 (ISS64_construct 0 example_cmi))))"
proof
  fix sf
  show "iss64_wf (snd (run_step64 (example_env64 sf) (ISS64_init 0x80000000 0x80000ff0 (ISS64_construct 0 example_cmi))))"
    using run_step64_keeps_state_well_formed [OF example_env64_ok ISS64_init_wf] by fastforce
qed

end
