(* ===== verification/RV64_Trap_Props.thy ===== *)
theory RV64_Trap_Props
  imports RV64_Inv VP_Trap_Props
begin

text \<open>
  Traps and interrupts of the RV64 simulator: the return from a handler undoes the entry into it; the
  level at which an interrupt or an exception is taken is the one the delegation registers name and
  never below the level that is interrupted.
\<close>

section \<open>Entry and return\<close>

text \<open>What the return from a handler of a level reads, and the interrupt enable bit of the level.\<close>

definition trap_frame64 :: "PrivilegeLevel \<Rightarrow> 'p iss64 \<Rightarrow> PrivilegeLevel \<times> u64 \<times> u64" where
  "trap_frame64 level s = (let t = i64_csrs s in (i64_prv s,
     if level = MachineMode then c64_mepc t else if level = SupervisorMode then c64_sepc t else c64_uepc t, c64_mstatus t))"

definition level_ie64 :: "PrivilegeLevel \<Rightarrow> 'p iss64 \<Rightarrow> bool" where
  "level_ie64 level s = (let ms = c64_mstatus (i64_csrs s) in
     (if level = MachineMode then mstatus64_mie ms else if level = SupervisorMode then mstatus64_sie ms else mstatus64_uie ms) \<noteq> 0)"

definition levels64 :: "PrivilegeLevel set" where
  "levels64 = {UserMode, SupervisorMode, MachineMode}"

lemma status_fields64:
  "mstatus64_mpp (set_mstatus64_mpp v w) = take_bit 2 v" "mstatus64_mpie (set_mstatus64_mpp v w) = mstatus64_mpie w"
  "mstatus64_mpie (set_mstatus64_mie v w) = mstatus64_mpie w" "mstatus64_mpie (set_mstatus64_mpie v w) = v mod 2"
  "mstatus64_mie (set_mstatus64_mie v w) = v mod 2" "mstatus64_mie (set_mstatus64_mpie v w) = mstatus64_mie w"
  "mstatus64_mie (set_mstatus64_mpp v w) = mstatus64_mie w"
  "mstatus64_spp (set_mstatus64_spp v w) = v mod 2" "mstatus64_spie (set_mstatus64_spp v w) = mstatus64_spie w"
  "mstatus64_spie (set_mstatus64_sie v w) = mstatus64_spie w" "mstatus64_spie (set_mstatus64_spie v w) = v mod 2"
  "mstatus64_sie (set_mstatus64_sie v w) = v mod 2" "mstatus64_sie (set_mstatus64_spie v w) = mstatus64_sie w"
  "mstatus64_sie (set_mstatus64_spp v w) = mstatus64_sie w"
  "mstatus64_upie (set_mstatus64_uie v w) = mstatus64_upie w" "mstatus64_upie (set_mstatus64_upie v w) = v mod 2"
  "mstatus64_uie (set_mstatus64_uie v w) = v mod 2" "mstatus64_uie (set_mstatus64_upie v w) = mstatus64_uie w"
  by (simp_all add: csr64_fields get_field_set_field_same get_field_set_field_other)

lemma take_bit_ie64:
  "mstatus64_mie w mod 2 = mstatus64_mie w" "mstatus64_sie w mod 2 = mstatus64_sie w"
  "mstatus64_uie w mod 2 = mstatus64_uie w" "even (mstatus64_mie w) \<longleftrightarrow> mstatus64_mie w = 0"
  "even (mstatus64_sie w) \<longleftrightarrow> mstatus64_sie w = 0" "even (mstatus64_uie w) \<longleftrightarrow> mstatus64_uie w = 0"
  by (simp_all add: csr64_fields get_field_1)

lemma level_code64: "p \<in> levels64 \<Longrightarrow> ucast (take_bit 2 (ucast p :: u64)) = p"
  "p = UserMode \<or> p = SupervisorMode \<Longrightarrow> ucast ((ucast p :: u64) mod 2) = p"
  by (auto simp: levels64_def core_consts)

text \<open>
  C35: for every level of the 64-bit simulator, the return from a handler undoes the entry into it: the
  entry disables the interrupts of the level and goes to it; when the handler has put back what the
  return reads (the level, the exception program counter of the level and mstatus), the return
  restores the program counter, the privilege level and the interrupt enable bit of the interrupted
  context, whatever else the handler has changed.
\<close>

theorem trap64_return_roundtrip:
  assumes "level \<in> levels64" "i64_prv s \<in> levels64" "i64_prv s \<le> level"
    "switch_to_trap_handler64 level s = (Inr (), s1)" "trap_frame64 level s2 = trap_frame64 level s1"
  shows "i64_prv s1 = level \<and> \<not> level_ie64 level s1 \<and>
    (\<exists>s3. return_from_trap_handler64 level s2 = (Inr (), s3) \<and> i64_pc s3 = i64_pc s \<and> i64_prv s3 = i64_prv s \<and>
       level_ie64 level s3 = level_ie64 level s)"
proof -
  consider "level = MachineMode" | "level = SupervisorMode" "i64_prv s = UserMode \<or> i64_prv s = SupervisorMode"
    | "level = UserMode" "i64_prv s = UserMode"
    using assms(1-3) by (auto simp: levels64_def core_consts word_le_nat_alt)
  then show ?thesis
  proof cases
    case 1
    show ?thesis using assms(2,4,5) unfolding 1
      by (auto simp: switch_to_trap_handler64_def return_from_trap_handler64_def release_lr_sc_reservation64_def mem64_op_def comb_defs
          trap_frame64_def level_ie64_def enter_m64_def return_m64_def Let_def status_fields64 take_bit_ie64 level_code64 split: prod.splits sum.splits)
  next
    case 2
    show ?thesis using assms(4,5) 2(2) unfolding 2
      by (auto simp: switch_to_trap_handler64_def return_from_trap_handler64_def release_lr_sc_reservation64_def mem64_op_def comb_defs
          trap_frame64_def level_ie64_def enter_s64_def return_s64_def Let_def status_fields64 take_bit_ie64 level_code64 core_consts assert_that_def split: prod.splits sum.splits)
  next
    case 3
    show ?thesis using assms(4,5) 3(2) unfolding 3
      by (auto simp: switch_to_trap_handler64_def return_from_trap_handler64_def release_lr_sc_reservation64_def mem64_op_def comb_defs
          trap_frame64_def level_ie64_def enter_u64_def return_u64_def Let_def status_fields64 take_bit_ie64 level_code64 core_consts assert_that_def split: prod.splits sum.splits)
  qed
qed

text \<open>An ecall-like trap from user mode into supervisor mode and back, on the initial state.\<close>

definition example_user64 :: "unit cmi \<Rightarrow> unit iss64" where
  "example_user64 m = (ISS64_init 0x80000100 0 (ISS64_construct 0 m))\<lparr>i64_prv := UserMode\<rparr>"

theorem trap64_return_roundtrip_witness:
  "\<exists>s1 s3. switch_to_trap_handler64 SupervisorMode (example_user64 example_cmi) = (Inr (), s1) \<and>
     return_from_trap_handler64 SupervisorMode s1 = (Inr (), s3) \<and> i64_pc s3 = 0x80000100 \<and> i64_prv s3 = UserMode"
proof -
  let ?s = "example_user64 example_cmi"
  have p: "i64_prv ?s = UserMode" "i64_pc ?s = 0x80000100"
    by (simp_all add: example_user64_def ISS64_init_def)
  obtain s1 where s1: "switch_to_trap_handler64 SupervisorMode ?s = (Inr (), s1)"
    by (auto simp: switch_to_trap_handler64_def release_lr_sc_reservation64_def mem64_op_def comb_defs assert_that_def core_consts p
        example_user64_def ISS64_init_def ISS64_construct_def atomic_unlock_def example_cmi_def split: prod.splits sum.splits)
  show ?thesis
    using trap64_return_roundtrip [OF _ _ _ s1 refl] p s1 by (auto simp: levels64_def core_consts)
qed

section \<open>Which interrupt is taken\<close>

text \<open>The level to which the delegation registers send an interrupt, and whether it may be taken.\<close>

definition irq_target64 :: "'p iss64 \<Rightarrow> nat \<Rightarrow> PrivilegeLevel" where
  "irq_target64 s n = (let t = i64_csrs s in
     if \<not> bit (c64_mideleg t) n then MachineMode else if \<not> bit (c64_sideleg t) n then SupervisorMode else UserMode)"

definition takeable64 :: "'p iss64 \<Rightarrow> nat \<Rightarrow> bool" where
  "takeable64 s n \<longleftrightarrow> bit (c64_mie (i64_csrs s)) n \<and> bit (c64_mip (i64_csrs s)) n \<and>
     (i64_prv s < irq_target64 s n \<or> i64_prv s = irq_target64 s n \<and> level_ie64 (irq_target64 s n) s)"

definition irq_order64 :: "nat list" where
  "irq_order64 = [11, 3, 7, 9, 1, 5, 8, 0, 4]"

lemma nonzero_word_iff: "w \<noteq> 0 \<longleftrightarrow> (\<exists>n. bit (w :: u64) n)"
  using bit_imp_le_length [of w] by (auto simp: bit_eq_iff)

lemma pending_by_target:
  fixes s :: "'p iss64"
  defines "t \<equiv> i64_csrs s"
  defines "p \<equiv> c64_mie t AND c64_mip t"
  shows "bit (p AND NOT (c64_mideleg t)) n \<longleftrightarrow> bit p n \<and> irq_target64 s n = MachineMode"
    "bit ((p AND c64_mideleg t) AND NOT (c64_sideleg t)) n \<longleftrightarrow> bit p n \<and> irq_target64 s n = SupervisorMode"
    "bit ((p AND c64_mideleg t) AND c64_sideleg t) n \<longleftrightarrow> bit p n \<and> irq_target64 s n = UserMode"
    "irq_target64 s n = MachineMode \<or> irq_target64 s n = SupervisorMode \<or> irq_target64 s n = UserMode"
  unfolding t_def p_def
  by (auto simp: irq_target64_def bit_simps core_consts Let_def dest: bit_imp_le_length)

definition can_take64 :: "'p iss64 \<Rightarrow> PrivilegeLevel \<Rightarrow> bool" where
  "can_take64 s level \<longleftrightarrow> i64_prv s < level \<or> i64_prv s = level \<and> level_ie64 level s"

lemma takeable64_iff:
  "takeable64 s n \<longleftrightarrow> bit (c64_mie (i64_csrs s) AND c64_mip (i64_csrs s)) n \<and> can_take64 s (irq_target64 s n)"
  by (auto simp: takeable64_def can_take64_def bit_simps)

lemma compute_pending_cases:
  fixes s :: "'p iss64"
  defines "t \<equiv> i64_csrs s"
  defines "p \<equiv> c64_mie t AND c64_mip t"
  defines "m \<equiv> p AND NOT (c64_mideleg t)" and "v \<equiv> (p AND c64_mideleg t) AND NOT (c64_sideleg t)" and "u \<equiv> (p AND c64_mideleg t) AND c64_sideleg t"
  shows "compute_pending_interrupts64 s =
    (if m \<noteq> 0 \<and> can_take64 s MachineMode then (MachineMode, m)
     else if v \<noteq> 0 \<and> can_take64 s SupervisorMode then (SupervisorMode, v)
     else if u \<noteq> 0 \<and> can_take64 s UserMode then (UserMode, u) else (NoneMode, 0))"
  unfolding m_def v_def u_def p_def t_def
  by (auto simp: compute_pending_interrupts64_def Let_def can_take64_def level_ie64_def core_consts)

lemma compute_pending_spec:
  assumes "compute_pending_interrupts64 s = (level, p)"
  shows "if level = NoneMode then \<forall>n. \<not> takeable64 s n
    else (\<exists>n. takeable64 s n \<and> irq_target64 s n = level) \<and> (\<forall>n. takeable64 s n \<longrightarrow> irq_target64 s n \<le> level) \<and>
      (\<forall>n. bit p n \<longleftrightarrow> takeable64 s n \<and> irq_target64 s n = level)"
proof -
  have g: "irq_target64 s n \<le> MachineMode" "irq_target64 s n \<noteq> MachineMode \<Longrightarrow> irq_target64 s n \<le> SupervisorMode"
    "irq_target64 s n \<noteq> MachineMode \<Longrightarrow> irq_target64 s n \<noteq> SupervisorMode \<Longrightarrow> irq_target64 s n = UserMode" for n
    using pending_by_target(4) [of s n] by (auto simp: core_consts)
  have o: "MachineMode \<noteq> NoneMode" "SupervisorMode \<noteq> NoneMode" "UserMode \<noteq> NoneMode"
    "MachineMode \<noteq> SupervisorMode" "MachineMode \<noteq> UserMode" "SupervisorMode \<noteq> UserMode"
    by (simp_all add: core_consts)
  let ?p = "c64_mie (i64_csrs s) AND c64_mip (i64_csrs s)" and ?d = "c64_mideleg (i64_csrs s)" and ?e = "c64_sideleg (i64_csrs s)"
  let ?P = "bit ?p" and ?T = "irq_target64 s" and ?C = "can_take64 s"
  have e: "(if (\<exists>n. ?P n \<and> ?T n = MachineMode) \<and> ?C MachineMode then (MachineMode, ?p AND NOT ?d)
     else if (\<exists>n. ?P n \<and> ?T n = SupervisorMode) \<and> ?C SupervisorMode then (SupervisorMode, (?p AND ?d) AND NOT ?e)
     else if (\<exists>n. ?P n \<and> ?T n = UserMode) \<and> ?C UserMode then (UserMode, (?p AND ?d) AND ?e) else (NoneMode, 0)) = (level, p)"
    using assms unfolding compute_pending_cases nonzero_word_iff pending_by_target(1-3) .
  note b = pending_by_target(1-3) [of s]
  show ?thesis
  proof (cases "(\<exists>n. ?P n \<and> ?T n = MachineMode) \<and> ?C MachineMode")
    case True
    then have "level = MachineMode" "p = ?p AND NOT ?d" using e by simp_all
    then show ?thesis using True g(1) o by (auto simp: takeable64_iff b)
  next
    case m: False
    show ?thesis
    proof (cases "(\<exists>n. ?P n \<and> ?T n = SupervisorMode) \<and> ?C SupervisorMode")
      case True
      then have "level = SupervisorMode" "p = (?p AND ?d) AND NOT ?e" using e m by auto
      moreover have "?T n \<le> SupervisorMode" if "?P n" "?C (?T n)" for n
        using m that g(2) [of n] by (cases "?T n = MachineMode") auto
      ultimately show ?thesis using True o by (auto simp: takeable64_iff b)
    next
      case v: False
      have u: "?T n = UserMode" if "?P n" "?C (?T n)" for n
        using m v that g(3) [of n] by (cases "?T n = MachineMode"; cases "?T n = SupervisorMode") auto
      show ?thesis
      proof (cases "(\<exists>n. ?P n \<and> ?T n = UserMode) \<and> ?C UserMode")
        case True
        then have "level = UserMode" "p = (?p AND ?d) AND ?e" using e m v by auto
        then show ?thesis using True eq_refl [OF u] o by (auto simp: takeable64_iff b)
      next
        case False
        then have "level = NoneMode" using e m v unfolding if_not_P [OF m] if_not_P [OF v] if_not_P [OF False] by simp
        moreover have "\<not> takeable64 s n" for n
          using False u [of n] by (auto simp: takeable64_iff dest: arg_cong [where f = ?C])
        ultimately show ?thesis by simp
      qed
    qed
  qed
qed

text \<open>With no reserved bit set, \<^verbatim>\<open>prepare_interrupt\<close> finds a cause, the first of the fixed order that is pending.\<close>

lemma mip64_bits:
  "mip64_meip w \<noteq> 0 \<longleftrightarrow> bit w 11" "mip64_msip w \<noteq> 0 \<longleftrightarrow> bit w 3" "mip64_mtip w \<noteq> 0 \<longleftrightarrow> bit w 7"
  "mip64_seip w \<noteq> 0 \<longleftrightarrow> bit w 9" "mip64_ssip w \<noteq> 0 \<longleftrightarrow> bit w 1" "mip64_stip w \<noteq> 0 \<longleftrightarrow> bit w 5"
  "mip64_ueip w \<noteq> 0 \<longleftrightarrow> bit w 8" "mip64_usip w \<noteq> 0 \<longleftrightarrow> bit w 0" "mip64_utip w \<noteq> 0 \<longleftrightarrow> bit w 4"
  by (simp_all add: csr64_fields get_field_1)

lemma highest_interrupt64_find:
  "highest_interrupt64 w = (case find (bit w) irq_order64 of Some n \<Rightarrow> Inr (of_nat n)
     | None \<Rightarrow> Inl (RuntimeError ''some pending interrupt must be available here''))"
  unfolding highest_interrupt64_def mip64_bits by (simp add: irq_order64_def core_consts)

lemma MIE_MASK64_bits: "bit MIE_MASK64 n \<Longrightarrow> n \<in> set irq_order64"
proof -
  have "list_all (\<lambda>n. bit MIE_MASK64 n \<longrightarrow> n \<in> set irq_order64) [0..<64]"
    by (simp add: upt_conv_Cons csr64_consts irq_order64_def)
  then have "n < 64 \<Longrightarrow> bit MIE_MASK64 n \<longrightarrow> n \<in> set irq_order64"
    by (simp only: list_all_iff set_upt) simp
  then show "bit MIE_MASK64 n \<Longrightarrow> n \<in> set irq_order64"
    using bit_imp_le_length [of MIE_MASK64 n] by simp
qed

text \<open>
  C36: the 64-bit simulator takes the interrupts the delegation registers allow, and no other: an
  interrupt that is pending and enabled goes to machine mode unless it is delegated in mideleg, then to
  supervisor mode unless it is delegated again in sideleg; it may be taken if that level is above the
  current one, or is the current one with its interrupts enabled. \<^verbatim>\<open>compute_pending_interrupts\<close> finds no
  level exactly if nothing may be taken, otherwise the highest level for which something may be taken,
  with exactly the interrupts that may be taken there; \<^verbatim>\<open>prepare_interrupt\<close> then always finds a cause,
  the first one pending in the order MEI, MSI, MTI, SEI, SSI, STI, UEI, USI, UTI. An exception is never
  taken below the current level.
\<close>

theorem interrupts64_follow_delegation:
  assumes "iss64_wf s" "compute_pending_interrupts64 s = (level, p)"
  shows "(if level = NoneMode then \<forall>n. \<not> takeable64 s n
    else i64_prv s \<le> level \<and> (\<exists>n. takeable64 s n \<and> irq_target64 s n = level) \<and> (\<forall>n. takeable64 s n \<longrightarrow> irq_target64 s n \<le> level) \<and>
      (\<exists>n. find (\<lambda>k. takeable64 s k \<and> irq_target64 s k = level) irq_order64 = Some n \<and> highest_interrupt64 p = Inr (of_nat n))) \<and>
    (\<forall>reason mtval l s'. prepare_trap64 reason mtval s = (Inr l, s') \<longrightarrow> i64_prv s \<in> levels64 \<longrightarrow> i64_prv s \<le> l)"
proof -
  have find: "find P irq_order64 = find Q irq_order64" if "\<And>k. P k \<longleftrightarrow> Q k" for P Q :: "nat \<Rightarrow> bool"
    using that by (metis ext)
  note spec = compute_pending_spec [OF assms(2)]
  have "if level = NoneMode then \<forall>n. \<not> takeable64 s n
    else i64_prv s \<le> level \<and> (\<exists>n. takeable64 s n \<and> irq_target64 s n = level) \<and> (\<forall>n. takeable64 s n \<longrightarrow> irq_target64 s n \<le> level) \<and>
      (\<exists>n. find (\<lambda>k. takeable64 s k \<and> irq_target64 s k = level) irq_order64 = Some n \<and> highest_interrupt64 p = Inr (of_nat n))"
  proof (cases "level = NoneMode")
    case False
    then have b: "bit p n \<longleftrightarrow> takeable64 s n \<and> irq_target64 s n = level" for n using spec by simp
    obtain k where k: "takeable64 s k" "irq_target64 s k = level" using spec False by auto
    have "bit MIE_MASK64 k"
      using assms(1) k(1) by (auto simp: iss64_wf_def csr64_wf_def takeable64_def within_iff)
    then have "k \<in> set irq_order64" "bit p k" using MIE_MASK64_bits k b by auto
    then obtain n where n: "find (bit p) irq_order64 = Some n"
      by (cases "find (bit p) irq_order64") (auto simp: find_None_iff)
    have "find (\<lambda>k. takeable64 s k \<and> irq_target64 s k = level) irq_order64 = Some n"
      using n find [of "bit p", OF b] by simp
    moreover have "i64_prv s \<le> level" using k by (auto simp: takeable64_def)
    ultimately show ?thesis
      using spec False n by (simp add: highest_interrupt64_find)
  qed (use spec in simp)
  moreover have "i64_prv s \<le> l" if "prepare_trap64 reason mtval s = (Inr l, s')" "i64_prv s \<in> levels64" for reason mtval l s'
    using that by (auto simp: prepare_trap64_def Let_def comb_defs csr64_op_def assert_that_def levels64_def core_consts split: if_splits)
  ultimately show ?thesis by blast
qed

text \<open>A machine timer interrupt and a delegated supervisor software interrupt, both enabled, in user mode.\<close>

definition example_irqs64 :: "unit cmi \<Rightarrow> unit iss64" where
  "example_irqs64 m = (let s = example_user64 m in
     s\<lparr>i64_csrs := (i64_csrs s)\<lparr>c64_mie := 0x82, c64_mip := 0x82, c64_mideleg := 2\<rparr>\<rparr>)"

theorem interrupts64_follow_delegation_witness:
  "\<forall>m. compute_pending_interrupts64 (example_irqs64 m) = (MachineMode, 0x80) \<and> i64_prv (example_irqs64 m) \<le> MachineMode \<and>
     find (\<lambda>k. takeable64 (example_irqs64 m) k \<and> irq_target64 (example_irqs64 m) k = MachineMode) irq_order64 = Some 7"
proof
  fix m
  have c: "i64_csrs (example_irqs64 m) = csr64_table_init\<lparr>c64_mhartid := 0, c64_mie := 0x82, c64_mip := 0x82, c64_mideleg := 2\<rparr>"
    by (simp add: example_irqs64_def example_user64_def ISS64_init_def ISS64_construct_def Let_def)
  have w: "within MIE_MASK64 0x82" "within MIDELEG_MASK64 2"
    by (simp_all add: within_def csr64_consts)
  have "csr64_wf (csr64_table_init\<lparr>c64_mhartid := 0\<rparr>)" by (rule csr64_table_init_wf)
  then have wf: "iss64_wf (example_irqs64 m)"
    using w by (simp add: iss64_wf_def csr64_wf_def c) (simp add: example_irqs64_def example_user64_def ISS64_init_def ISS64_construct_def Let_def core_consts)
  have e: "compute_pending_interrupts64 (example_irqs64 m) = (MachineMode, 0x80)"
    by (simp add: compute_pending_interrupts64_def c Let_def csr64_table_init_def) (simp add: example_irqs64_def example_user64_def core_consts Let_def)
  have n: "MachineMode \<noteq> NoneMode" by (simp add: core_consts)
  from interrupts64_follow_delegation [OF wf e] n obtain k where
    k: "find (\<lambda>k. takeable64 (example_irqs64 m) k \<and> irq_target64 (example_irqs64 m) k = MachineMode) irq_order64 = Some k"
    and h: "highest_interrupt64 0x80 = Inr (of_nat k)" and l: "i64_prv (example_irqs64 m) \<le> MachineMode" by auto
  have "k \<in> set irq_order64" using k by (auto simp: find_Some_iff)
  moreover have "of_nat k = (7 :: u32)" using h by (simp add: highest_interrupt64_find irq_order64_def)
  ultimately have "k = 7" by (auto simp: irq_order64_def)
  then show "compute_pending_interrupts64 (example_irqs64 m) = (MachineMode, 0x80) \<and> i64_prv (example_irqs64 m) \<le> MachineMode \<and>
     find (\<lambda>k. takeable64 (example_irqs64 m) k \<and> irq_target64 (example_irqs64 m) k = MachineMode) irq_order64 = Some 7"
    using e l k by simp
qed

section \<open>Deviations from the privileged architecture\<close>

text \<open>\<^verbatim>\<open>CSRRCI\<close> clears the upper half of the register: the inverted immediate has 32 bits.\<close>

lemma csrrci64_clears_upper_half: "drop_bit 32 (c AND ucast (NOT zimm :: u32) :: u64) = 0"
  by (rule bit_word_eqI) (auto simp: bit_simps)

text \<open>\<^verbatim>\<open>MRET\<close> is executed in every mode, \<^verbatim>\<open>SRET\<close> also in user mode.\<close>

lemma mret64_not_restricted: "exec64_priv env MRET s = (Inr (), return_m64 s)"
  by (simp add: exec64_priv_def return_from_trap_handler64_def comb_defs)

lemma sret64_in_user_mode:
  assumes "iss64_wf s" "i64_prv s = UserMode"
  shows "exec64_priv env SRET s = (Inr (), return_s64 s)"
  using assms misa64_extensions_init
  by (simp add: exec64_priv_def return_from_trap_handler64_def comb_defs illegal64_if_def s_mode64_def iss64_wf_def csr64_wf_def core_consts)

text \<open>The hypervisor instructions, which the decoder knows, end the simulation in place of a trap.\<close>

lemma hypervisor64_ends_simulation: "exec64_opcode env (HV x) s = (Inl (RuntimeError ''unknown opcode''), s)"
  by (simp add: exec64_opcode_def comb_defs)

end
