(* ===== verification/VP_Clint.thy ===== *)
theory VP_Clint
  imports VP_Regmap VP_Core_Defs
begin

text \<open>
  The core-local interrupters: the one on simulated time (\<^verbatim>\<open>core/common/clint.h\<close>) and the one on real time
  (\<^verbatim>\<open>core/common/real_clint.cpp\<close>). The harts are reached through \<^verbatim>\<open>clint_interrupt_target\<close>, whose functions are
  the argument \<open>clint_targets\<close> and act on the state \<open>'h\<close> of all harts. The simulated time stamp is a part of the
  state, in picoseconds; \<^verbatim>\<open>irq_event\<close> is the delay until its pending notification, of which, as
  SystemC documents, the earliest is kept. One turn of the thread is what follows its \<^verbatim>\<open>wait\<close>.
\<close>

record 'h clint_targets =
  ct_trigger_timer :: "nat \<Rightarrow> bool \<Rightarrow> PrivilegeLevel \<Rightarrow> ('h, unit) op"
  ct_xtimecmp :: "nat \<Rightarrow> PrivilegeLevel \<Rightarrow> 'h \<Rightarrow> u64 res"
  ct_level_exists :: "nat \<Rightarrow> PrivilegeLevel \<Rightarrow> 'h \<Rightarrow> bool res"
  ct_trigger_software :: "nat \<Rightarrow> bool \<Rightarrow> PrivilegeLevel \<Rightarrow> ('h, unit) op"

section \<open>The interrupter on simulated time\<close>

record 'h clint =
  cl_mtime :: "u8 list"
  cl_mtimecmp :: "u8 list"
  cl_msip :: "u8 list"
  cl_ssip :: "u8 list"
  cl_irq_event :: "u64 option"
  cl_time_stamp :: u64
  cl_harts :: 'h

definition clint_scaler :: u64 where "clint_scaler = 1000000"

definition clint_clock_cycle :: u64 where "clint_clock_cycle = 10000"

definition clint_init :: "nat \<Rightarrow> 'h \<Rightarrow> 'h clint" where
  "clint_init cores h = \<lparr>cl_mtime = replicate 8 0, cl_mtimecmp = replicate (8 * cores) 0, cl_msip = replicate (4 * cores) 0,
     cl_ssip = replicate (4 * cores) 0, cl_irq_event = None, cl_time_stamp = 0, cl_harts = h\<rparr>"

definition clint_notify :: "u64 \<Rightarrow> 'h clint \<Rightarrow> 'h clint" where
  "clint_notify delay s = s\<lparr>cl_irq_event := Some (case cl_irq_event s of None \<Rightarrow> delay | Some d \<Rightarrow> min d delay)\<rparr>"

definition clint_on_harts :: "('h, 'a) op \<Rightarrow> ('h clint, 'a) op" where
  "clint_on_harts f = (\<lambda>s. case f (cl_harts s) of (r, h) \<Rightarrow> (r, s\<lparr>cl_harts := h\<rparr>))"

definition clint_get_mtime :: "('h clint, u64) op" where
  "clint_get_mtime = get_op (\<lambda>s. load64 (cl_mtime s) 0) lift_op"

definition clint_set_mtime :: "u64 \<Rightarrow> ('h clint, unit) op" where
  "clint_set_mtime v = update_res (\<lambda>s. bind_res (store64 0 v (cl_mtime s)) (\<lambda>m. Inr (s\<lparr>cl_mtime := m\<rparr>)))"

definition clint_update_and_get_mtime :: "('h clint, u64) op" where
  "clint_update_and_get_mtime = get_op (\<lambda>s. cl_time_stamp s div clint_scaler) (\<lambda>now.
     bind_op clint_get_mtime (\<lambda>mtime. seq_op (when_op (now > mtime) (clint_set_mtime now)) clint_get_mtime))"

definition get_compare_level :: "'h clint_targets \<Rightarrow> PrivilegeLevel \<Rightarrow> nat \<Rightarrow> ('h clint, u64) op" where
  "get_compare_level ct level idx =
     seq_op (assert_op (level = MachineMode \<or> level = SupervisorMode \<or> level = VirtualSupervisorMode))
      (if level = MachineMode then get_op (\<lambda>s. view64 (cl_mtimecmp s) idx) lift_op
       else get_op (\<lambda>s. ct_xtimecmp ct idx level (cl_harts s)) lift_op)"

definition is_compare_level_exists :: "'h clint_targets \<Rightarrow> PrivilegeLevel \<Rightarrow> nat \<Rightarrow> ('h clint, bool) op" where
  "is_compare_level_exists ct level idx = get_op (\<lambda>s. ct_level_exists ct idx level (cl_harts s)) lift_op"

definition process_compare_level :: "'h clint_targets \<Rightarrow> PrivilegeLevel \<Rightarrow> nat \<Rightarrow> ('h clint, unit) op" where
  "process_compare_level ct level idx =
     bind_op (is_compare_level_exists ct level idx) (\<lambda>ex. when_op ex (
     bind_op (get_compare_level ct level idx) (\<lambda>cmp.
     bind_op clint_get_mtime (\<lambda>mtime.
       if cmp > 0 \<and> mtime \<ge> cmp then clint_on_harts (ct_trigger_timer ct idx True level)
       else seq_op (clint_on_harts (ct_trigger_timer ct idx False level))
         (when_op (cmp > 0 \<and> cmp < -1) (modify_op (clint_notify (cmp * clint_scaler - mtime * clint_scaler))))))))"

primrec clint_process_harts :: "'h clint_targets \<Rightarrow> nat list \<Rightarrow> ('h clint, unit) op" where
  "clint_process_harts ct [] = ret_op ()"
| "clint_process_harts ct (i # is) =
     seq_op (process_compare_level ct MachineMode i) (
     seq_op (process_compare_level ct SupervisorMode i) (
     seq_op (process_compare_level ct VirtualSupervisorMode i) (clint_process_harts ct is)))"

text \<open>When \<^verbatim>\<open>wait\<close> returns, the notification has been consumed.\<close>

definition clint_run :: "'h clint_targets \<Rightarrow> nat \<Rightarrow> ('h clint, unit) op" where
  "clint_run ct cores =
     seq_op (modify_op (\<lambda>s. s\<lparr>cl_irq_event := None\<rparr>)) (
     seq_op clint_update_and_get_mtime (clint_process_harts ct [0..<cores]))"

text \<open>The callbacks of the register ranges; \<open>delay\<close> is the local time of the transaction.\<close>

definition clint_pre_read_mtime :: "u64 \<Rightarrow> u64 \<Rightarrow> nat \<Rightarrow> ('h clint, bool) op" where
  "clint_pre_read_mtime delay a n = get_op (\<lambda>s. (cl_time_stamp s + delay) div clint_scaler) (\<lambda>now.
     seq_op (clint_set_mtime now) (ret_op True))"

definition clint_post_write_mtimecmp :: "u64 \<Rightarrow> u64 \<Rightarrow> nat \<Rightarrow> ('h clint, unit) op" where
  "clint_post_write_mtimecmp delay a n = modify_op (clint_notify delay)"

definition clint_post_write_msip :: "'h clint_targets \<Rightarrow> u64 \<Rightarrow> nat \<Rightarrow> ('h clint, unit) op" where
  "clint_post_write_msip ct a n = seq_op (assert_op (a mod 4 = 0)) (let idx = unat (ucast (a div 4) :: u32) in
     bind_op (get_op (\<lambda>s. view32 (cl_msip s) idx) lift_op) (\<lambda>v.
     seq_op (update_res (\<lambda>s. bind_res (set_view32 idx (v AND 1) (cl_msip s)) (\<lambda>m. Inr (s\<lparr>cl_msip := m\<rparr>))))
       (clint_on_harts (ct_trigger_software ct idx (v AND 1 \<noteq> 0) MachineMode))))"

definition clint_post_write_ssip :: "'h clint_targets \<Rightarrow> u64 \<Rightarrow> nat \<Rightarrow> ('h clint, unit) op" where
  "clint_post_write_ssip ct a n = seq_op (assert_op (a mod 4 = 0)) (let idx = unat (ucast (a div 4) :: u32) in
     bind_op (get_op (\<lambda>s. view32 (cl_ssip s) idx) lift_op) (\<lambda>v.
     seq_op (update_res (\<lambda>s. bind_res (set_view32 idx (v AND 1) (cl_ssip s)) (\<lambda>m. Inr (s\<lparr>cl_ssip := m\<rparr>))))
       (clint_on_harts (ct_trigger_software ct idx (v AND 1 \<noteq> 0) SupervisorMode))))"

definition word_range :: "u64 \<Rightarrow> u64 \<Rightarrow> ('s \<Rightarrow> u8 list) \<Rightarrow> (u8 list \<Rightarrow> 's \<Rightarrow> 's) \<Rightarrow> 's RegisterRange" where
  "word_range start sz get put = \<lparr>rr_start = start, rr_end = start + sz - 1, rr_get = get, rr_put = put,
     rr_readonly = False, rr_alignment = 4,
     rr_pre_write = \<lambda>_ _. ret_op True, rr_post_write = \<lambda>_ _. ret_op (),
     rr_pre_read = \<lambda>_ _. ret_op True, rr_post_read = \<lambda>_ _. ret_op ()\<rparr>"

definition clint_register_ranges :: "'h clint_targets \<Rightarrow> nat \<Rightarrow> u64 \<Rightarrow> 'h clint RegisterRange list" where
  "clint_register_ranges ct cores delay =
    [(word_range 0xBFF8 8 cl_mtime (\<lambda>m s. s\<lparr>cl_mtime := m\<rparr>))\<lparr>rr_pre_read := clint_pre_read_mtime delay\<rparr>,
     (word_range 0x4000 (of_nat (8 * cores)) cl_mtimecmp (\<lambda>m s. s\<lparr>cl_mtimecmp := m\<rparr>))\<lparr>rr_post_write := clint_post_write_mtimecmp delay\<rparr>,
     (word_range 0x0 (of_nat (4 * cores)) cl_msip (\<lambda>m s. s\<lparr>cl_msip := m\<rparr>))\<lparr>rr_post_write := clint_post_write_msip ct\<rparr>,
     (word_range 0xC000 (of_nat (4 * cores)) cl_ssip (\<lambda>m s. s\<lparr>cl_ssip := m\<rparr>))\<lparr>rr_post_write := clint_post_write_ssip ct\<rparr>]"

definition clint_transport :: "'h clint_targets \<Rightarrow> nat \<Rightarrow> u64 \<Rightarrow> payload \<Rightarrow> ('h clint, payload) op" where
  "clint_transport ct cores delay = route ''CLINT'' (clint_register_ranges ct cores (delay + 2 * clint_clock_cycle))"

definition post_write_xtimecmp :: "('h clint, unit) op" where
  "post_write_xtimecmp = modify_op (clint_notify 0)"

section \<open>The interrupter on real time\<close>

text \<open>
  \<open>rc_usecs\<close> is the time since \<^verbatim>\<open>first_mtime\<close> in microseconds; a timer of a hart that runs has the duration
  it was started with. A timer that expires notifies \<^verbatim>\<open>event\<close>, on which \<^verbatim>\<open>interrupt\<close> runs.
\<close>

record 'h real_clint =
  rc_msip :: "u8 list"
  rc_ssip :: "u8 list"
  rc_mtimecmp :: "u8 list"
  rc_mtime :: "u8 list"
  rc_timers :: "u64 option list"
  rc_usecs :: u64
  rc_harts :: 'h

definition real_clint_init :: "nat \<Rightarrow> 'h \<Rightarrow> 'h real_clint" where
  "real_clint_init harts h = \<lparr>rc_msip = replicate (4 * harts) 0, rc_ssip = replicate (4 * harts) 0,
     rc_mtimecmp = replicate (8 * harts) 0, rc_mtime = replicate 8 0, rc_timers = replicate harts None, rc_usecs = 0, rc_harts = h\<rparr>"

definition DIVIDEND :: u64 where "DIVIDEND = 15625 div 512"

definition usec_to_ticks :: "u64 \<Rightarrow> u64" where "usec_to_ticks microseconds = microseconds div DIVIDEND"

definition ticks_to_usec :: "u64 \<Rightarrow> u64" where "ticks_to_usec ticks = ticks * DIVIDEND"

definition rc_on_harts :: "('h, 'a) op \<Rightarrow> ('h real_clint, 'a) op" where
  "rc_on_harts f = (\<lambda>s. case f (rc_harts s) of (r, h) \<Rightarrow> (r, s\<lparr>rc_harts := h\<rparr>))"

definition rc_update_and_get_mtime :: "('h real_clint, u64) op" where
  "rc_update_and_get_mtime = get_op (\<lambda>s. usec_to_ticks (rc_usecs s)) (\<lambda>t.
     seq_op (update_res (\<lambda>s. bind_res (store64 0 t (rc_mtime s)) (\<lambda>m. Inr (s\<lparr>rc_mtime := m\<rparr>))))
       (get_op (\<lambda>s. load64 (rc_mtime s) 0) lift_op))"

text \<open>\<^verbatim>\<open>timers.at\<close> throws outside the vector; so does \<^verbatim>\<open>harts.at\<close>, for which the size of \<^verbatim>\<open>timers\<close> is the same.\<close>

definition rc_set_timer :: "nat \<Rightarrow> u64 option \<Rightarrow> ('h real_clint, unit) op" where
  "rc_set_timer hart t = update_res (\<lambda>s. if hart < length (rc_timers s)
     then Inr (s\<lparr>rc_timers := (rc_timers s)[hart := t]\<rparr>) else Inl out_of_range)"

definition rc_at_hart :: "nat \<Rightarrow> ('h, unit) op \<Rightarrow> ('h real_clint, unit) op" where
  "rc_at_hart hart f = get_op (\<lambda>s. hart < length (rc_timers s)) (\<lambda>ok. if ok then rc_on_harts f else fail_op out_of_range)"

definition rc_post_write_mtimecmp :: "'h clint_targets \<Rightarrow> u64 \<Rightarrow> nat \<Rightarrow> ('h real_clint, unit) op" where
  "rc_post_write_mtimecmp ct a n = seq_op (assert_op (a mod 4 = 0)) (let hart = unat (ucast (a div 8) :: u32) in
     bind_op (get_op (\<lambda>s. view_at64 (rc_mtimecmp s) hart) lift_op) (\<lambda>cmp.
     bind_op rc_update_and_get_mtime (\<lambda>time.
     seq_op (rc_set_timer hart None)
       (if time \<ge> cmp then rc_at_hart hart (ct_trigger_timer ct hart True MachineMode)
        else seq_op (rc_at_hart hart (ct_trigger_timer ct hart False MachineMode))
          (rc_set_timer hart (Some (ticks_to_usec (cmp - time))))))))"

definition rc_post_write_msip :: "'h clint_targets \<Rightarrow> u64 \<Rightarrow> nat \<Rightarrow> ('h real_clint, unit) op" where
  "rc_post_write_msip ct a n = seq_op (assert_op (a mod 4 = 0)) (let hart = unat (ucast (a div 4) :: u32) in
     bind_op (get_op (\<lambda>s. view_at32 (rc_msip s) hart) lift_op) (\<lambda>v.
     seq_op (update_res (\<lambda>s. bind_res (store32 (4 * hart) (v AND 1) (rc_msip s)) (\<lambda>m. Inr (s\<lparr>rc_msip := m\<rparr>))))
       (rc_at_hart hart (ct_trigger_software ct hart (v AND 1 \<noteq> 0) MachineMode))))"

definition rc_post_write_ssip :: "'h clint_targets \<Rightarrow> u64 \<Rightarrow> nat \<Rightarrow> ('h real_clint, unit) op" where
  "rc_post_write_ssip ct a n = seq_op (assert_op (a mod 4 = 0)) (let hart = unat (ucast (a div 4) :: u32) in
     bind_op (get_op (\<lambda>s. view_at32 (rc_ssip s) hart) lift_op) (\<lambda>v.
     seq_op (update_res (\<lambda>s. bind_res (store32 (4 * hart) (v AND 1) (rc_ssip s)) (\<lambda>m. Inr (s\<lparr>rc_ssip := m\<rparr>))))
       (rc_at_hart hart (ct_trigger_software ct hart (v AND 1 \<noteq> 0) SupervisorMode))))"

definition rc_post_write_mtime :: "u64 \<Rightarrow> nat \<Rightarrow> ('h real_clint, unit) op" where
  "rc_post_write_mtime a n = ret_op ()"

definition rc_pre_read_mtime :: "u64 \<Rightarrow> nat \<Rightarrow> ('h real_clint, bool) op" where
  "rc_pre_read_mtime a n = seq_op rc_update_and_get_mtime (ret_op True)"

primrec rc_interrupt_harts :: "'h clint_targets \<Rightarrow> nat list \<Rightarrow> ('h real_clint, unit) op" where
  "rc_interrupt_harts ct [] = ret_op ()"
| "rc_interrupt_harts ct (i # is) =
     seq_op (bind_op (get_op (\<lambda>s. view_at64 (rc_mtimecmp s) i) lift_op) (\<lambda>cmp.
       bind_op (get_op (\<lambda>s. load64 (rc_mtime s) 0) lift_op) (\<lambda>mtime.
         when_op (mtime \<ge> cmp) (rc_at_hart i (ct_trigger_timer ct i True MachineMode))))) (rc_interrupt_harts ct is)"

definition rc_interrupt :: "'h clint_targets \<Rightarrow> ('h real_clint, unit) op" where
  "rc_interrupt ct = seq_op rc_update_and_get_mtime (get_op (\<lambda>s. length (rc_timers s)) (\<lambda>n. rc_interrupt_harts ct [0..<n]))"

definition rc_register_ranges :: "'h clint_targets \<Rightarrow> nat \<Rightarrow> 'h real_clint RegisterRange list" where
  "rc_register_ranges ct harts =
    [(word_range 0x4000 (of_nat (8 * harts)) rc_mtimecmp (\<lambda>m s. s\<lparr>rc_mtimecmp := m\<rparr>))\<lparr>rr_post_write := rc_post_write_mtimecmp ct\<rparr>,
     (word_range 0x0 (of_nat (4 * harts)) rc_msip (\<lambda>m s. s\<lparr>rc_msip := m\<rparr>))\<lparr>rr_post_write := rc_post_write_msip ct\<rparr>,
     (word_range 0x1000 (of_nat (4 * harts)) rc_ssip (\<lambda>m s. s\<lparr>rc_ssip := m\<rparr>))\<lparr>rr_post_write := rc_post_write_ssip ct\<rparr>,
     (word_range 0xBFF8 8 rc_mtime (\<lambda>m s. s\<lparr>rc_mtime := m\<rparr>))\<lparr>rr_pre_read := rc_pre_read_mtime, rr_post_write := rc_post_write_mtime\<rparr>]"

definition rc_transport :: "'h clint_targets \<Rightarrow> nat \<Rightarrow> payload \<Rightarrow> ('h real_clint, payload) op" where
  "rc_transport ct harts = route ''RealCLINT'' (rc_register_ranges ct harts)"

end
