(* ===== verification/VP_Clint_Props.thy ===== *)
theory VP_Clint_Props
  imports VP_Clint VP_Imsic_Props
begin

text \<open>
  Properties of the core-local interrupters: their registers keep their size under every access; a turn of
  the thread sets the timer line of each hart to what its comparator says and leaves a notification
  for every comparator that lies ahead. The locale \<open>timer_targets\<close> is what the interrupter needs of the harts;
  it is interpreted on a list of RV32 simulators.
\<close>

section \<open>The registers\<close>

definition clint_wf :: "nat \<Rightarrow> 'h clint \<Rightarrow> bool" where
  "clint_wf cores s \<longleftrightarrow> length (cl_mtime s) = 8 \<and> length (cl_mtimecmp s) = 8 * cores \<and> length (cl_msip s) = 4 * cores \<and>
     length (cl_ssip s) = 4 * cores"

definition real_clint_wf :: "nat \<Rightarrow> 'h real_clint \<Rightarrow> bool" where
  "real_clint_wf harts s \<longleftrightarrow> length (rc_mtime s) = 8 \<and> length (rc_mtimecmp s) = 8 * harts \<and> length (rc_msip s) = 4 * harts \<and>
     length (rc_ssip s) = 4 * harts \<and> length (rc_timers s) = harts"

named_theorems clint_rules \<open>operations that keep the size of the registers\<close>

lemma clint_wf_on_harts [clint_rules]: "preserves (clint_wf n) (clint_on_harts f)" "preserves (real_clint_wf n) (rc_on_harts g)"
  by (auto simp: preserves_def clint_on_harts_def rc_on_harts_def clint_wf_def real_clint_wf_def split: prod.splits)

lemma clint_wf_set_mtime [clint_rules]: "preserves (clint_wf n) (clint_set_mtime v)"
  unfolding clint_set_mtime_def
  by (rule preserves_update_res) (auto simp: clint_wf_def dest: store64_length)

lemma clint_wf_notify [clint_rules]: "preserves (clint_wf n) (modify_op (clint_notify d))"
  by (rule preserves_modify) (simp add: clint_wf_def clint_notify_def)

lemma rc_wf_mtime [clint_rules]: "preserves (real_clint_wf n) rc_update_and_get_mtime"
  unfolding rc_update_and_get_mtime_def
  by (intro preserves_rules preserves_update_res) (auto simp: real_clint_wf_def dest: store64_length)

lemma rc_wf_set_timer [clint_rules]: "preserves (real_clint_wf n) (rc_set_timer i t)" "preserves (real_clint_wf n) (rc_at_hart i f)"
  unfolding rc_set_timer_def rc_at_hart_def
  by (intro preserves_rules clint_rules preserves_update_res; auto simp: real_clint_wf_def split: if_splits)+

lemma clint_wf_callbacks:
  "preserves (clint_wf n) (clint_pre_read_mtime d a k)" "preserves (clint_wf n) (clint_post_write_mtimecmp d a k)"
  "preserves (clint_wf n) (clint_post_write_msip ct a k)" "preserves (clint_wf n) (clint_post_write_ssip ct a k)"
  unfolding clint_pre_read_mtime_def clint_post_write_mtimecmp_def clint_post_write_msip_def clint_post_write_ssip_def Let_def
  by (intro preserves_rules clint_rules preserves_update_res; auto simp: clint_wf_def dest: set_view32_length)+

lemma rc_wf_callbacks:
  "preserves (real_clint_wf n) (rc_post_write_mtimecmp ct a k)" "preserves (real_clint_wf n) (rc_post_write_msip ct a k)"
  "preserves (real_clint_wf n) (rc_post_write_ssip ct a k)" "preserves (real_clint_wf n) (rc_pre_read_mtime a k)"
  "preserves (real_clint_wf n) (rc_post_write_mtime a k)"
  unfolding rc_post_write_mtimecmp_def rc_post_write_msip_def rc_post_write_ssip_def rc_pre_read_mtime_def rc_post_write_mtime_def Let_def
  by (intro preserves_rules clint_rules preserves_update_res; auto simp: real_clint_wf_def dest: store32_length)+

interpretation clint: register_ranges "''CLINT''" "clint_register_ranges ct n d :: 'h clint RegisterRange list" "clint_wf n"
  for ct :: "'h clint_targets" and n :: nat and d :: u64
  by unfold_locales
    (auto simp: clint_register_ranges_def word_range_def op_run clint_wf_def
      dest!: memcpy_to_length clint_wf_callbacks [THEN preservesD, rotated])

interpretation real_clint: register_ranges "''RealCLINT''" "rc_register_ranges ct n :: 'h real_clint RegisterRange list" "real_clint_wf n"
  for ct :: "'h clint_targets" and n :: nat
  by unfold_locales
    (auto simp: rc_register_ranges_def word_range_def op_run real_clint_wf_def
      dest!: memcpy_to_length rc_wf_callbacks [THEN preservesD, rotated])

section \<open>The timer lines\<close>

definition timer_levels :: "PrivilegeLevel set" where
  "timer_levels = {MachineMode, SupervisorMode, VirtualSupervisorMode}"

text \<open>The contract of the harts: raising or clearing a timer line changes this line and no other, and no comparator.\<close>

locale timer_targets =
  fixes ct :: "'h clint_targets" and line :: "nat \<Rightarrow> PrivilegeLevel \<Rightarrow> 'h \<Rightarrow> bool"
  assumes timer_line: "level \<in> timer_levels \<Longrightarrow> l \<in> timer_levels \<Longrightarrow> ct_trigger_timer ct i b level h = (Inr (), h') \<Longrightarrow>
      line j l h' = (if j = i \<and> l = level then b else line j l h)"
    and timer_comparators: "ct_trigger_timer ct i b level h = (Inr (), h') \<Longrightarrow>
      ct_level_exists ct j l h' = ct_level_exists ct j l h \<and> ct_xtimecmp ct j l h' = ct_xtimecmp ct j l h"

definition compare_value :: "'h clint_targets \<Rightarrow> PrivilegeLevel \<Rightarrow> nat \<Rightarrow> 'h clint \<Rightarrow> u64 res" where
  "compare_value ct level i s = (if level = MachineMode then view64 (cl_mtimecmp s) i else ct_xtimecmp ct i level (cl_harts s))"

text \<open>
  A comparator is settled if the line of its hart is what the comparison says and, when the moment is
  still to come, a notification is pending at that moment or before.
\<close>

definition settled :: "'h clint_targets \<Rightarrow> (nat \<Rightarrow> PrivilegeLevel \<Rightarrow> 'h \<Rightarrow> bool) \<Rightarrow> PrivilegeLevel \<Rightarrow> nat \<Rightarrow> 'h clint \<Rightarrow> bool" where
  "settled ct line level i s \<longleftrightarrow> (\<forall>cmp mtime. ct_level_exists ct i level (cl_harts s) = Inr True \<longrightarrow>
     compare_value ct level i s = Inr cmp \<longrightarrow> load64 (cl_mtime s) 0 = Inr mtime \<longrightarrow>
     line i level (cl_harts s) = (0 < cmp \<and> cmp \<le> mtime) \<and>
     (mtime < cmp \<and> cmp < -1 \<longrightarrow> (\<exists>d. cl_irq_event s = Some d \<and> d \<le> cmp * clint_scaler - mtime * clint_scaler)))"

text \<open>What processing one comparator leaves as it is; the notification can only move forward.\<close>

definition comparators_kept :: "'h clint_targets \<Rightarrow> 'h clint \<Rightarrow> 'h clint \<Rightarrow> bool" where
  "comparators_kept ct s s' \<longleftrightarrow> cl_mtime s' = cl_mtime s \<and> cl_mtimecmp s' = cl_mtimecmp s \<and> cl_time_stamp s' = cl_time_stamp s \<and>
     (\<forall>j l. ct_level_exists ct j l (cl_harts s') = ct_level_exists ct j l (cl_harts s) \<and>
            ct_xtimecmp ct j l (cl_harts s') = ct_xtimecmp ct j l (cl_harts s)) \<and>
     (\<forall>d. cl_irq_event s = Some d \<longrightarrow> (\<exists>d' \<le> d. cl_irq_event s' = Some d'))"

lemma comparators_kept_trans: "comparators_kept ct s t \<Longrightarrow> comparators_kept ct t u \<Longrightarrow> comparators_kept ct s u"
  by (simp add: comparators_kept_def) (meson order_trans)

lemma comparators_kept_refl: "comparators_kept ct s s"
  by (auto simp: comparators_kept_def)

lemma compare_value_kept: "comparators_kept ct s s' \<Longrightarrow> compare_value ct level i s' = compare_value ct level i s"
  by (simp add: compare_value_def comparators_kept_def)

lemma settled_kept:
  assumes "settled ct line level i s" "comparators_kept ct s s'" "line i level (cl_harts s') = line i level (cl_harts s)"
  shows "settled ct line level i s'"
proof -
  have k: "ct_level_exists ct i level (cl_harts s') = ct_level_exists ct i level (cl_harts s)" "cl_mtime s' = cl_mtime s"
    and e: "\<And>d. cl_irq_event s = Some d \<Longrightarrow> \<exists>d' \<le> d. cl_irq_event s' = Some d'"
    using assms(2) by (simp_all add: comparators_kept_def)
  have "\<exists>d. cl_irq_event s' = Some d \<and> d \<le> x" if "\<exists>d. cl_irq_event s = Some d \<and> d \<le> x" for x
    using that e order_trans by blast
  then show ?thesis
    using assms(1) by (auto simp: settled_def compare_value_kept [OF assms(2)] assms(3) k)
qed

lemma notify_kept: "comparators_kept ct s (clint_notify d s)" "\<exists>d' \<le> d. cl_irq_event (clint_notify d s) = Some d'"
  by (auto simp: comparators_kept_def clint_notify_def split: option.splits)

lemma load64_total: "off + 8 \<le> length m \<Longrightarrow> \<exists>v. load64 m off = Inr v"
  by (simp add: load64_def memcpy_from_def)

lemma store64_total: "off + 8 \<le> length m \<Longrightarrow> \<exists>m'. store64 off v m = Inr m'"
  by (simp add: store64_def memcpy_to_def)

lemma view64_total: "8 * idx + 8 \<le> length m \<Longrightarrow> \<exists>v. view64 m idx = Inr v"
  by (simp add: view64_def load64_total less_eq_div_iff_mult_less_eq Suc_le_eq [symmetric])

lemma view_at64_total: "8 * idx + 8 \<le> length m \<Longrightarrow> \<exists>v. view_at64 m idx = Inr v"
  using load64_total [of "8 * idx" m] by (auto simp: view_at64_def)

lemma load64_store64: "store64 off v m = Inr m' \<Longrightarrow> load64 m' off = Inr v"
  using memcpy_from_to_same [of m off "le_bytes 8 v" m'] of_le_bytes_le_bytes [of 8 v]
  by (simp add: store64_def load64_def take_bit_word_eq_self del: le_bytes_numeral)

lemma update_mtime:
  assumes "clint_update_and_get_mtime s = (Inr v, t)"
  shows "\<exists>mtime m. load64 (cl_mtime s) 0 = Inr mtime \<and> load64 m 0 = Inr (max mtime (cl_time_stamp s div clint_scaler)) \<and> t = s\<lparr>cl_mtime := m\<rparr>"
proof -
  obtain mtime where m: "load64 (cl_mtime s) 0 = Inr mtime"
    using assms by (auto simp: clint_update_and_get_mtime_def clint_get_mtime_def op_run)
  show ?thesis
  proof (cases "cl_time_stamp s div clint_scaler > mtime")
    case True
    then obtain x where "store64 0 (cl_time_stamp s div clint_scaler) (cl_mtime s) = Inr x" "t = s\<lparr>cl_mtime := x\<rparr>"
      using assms m by (auto simp: clint_update_and_get_mtime_def clint_get_mtime_def clint_set_mtime_def op_run split: if_splits)
    then show ?thesis using m True load64_store64 by (fastforce simp: max_def)
  next
    case False
    then have "t = s" using assms m
      by (auto simp: clint_update_and_get_mtime_def clint_get_mtime_def clint_set_mtime_def op_run split: if_splits)
    then show ?thesis using m False by (intro exI [of _ mtime] exI [of _ "cl_mtime s"]) (auto simp: max_def)
  qed
qed

context timer_targets
begin

lemma trigger_kept:
  assumes "clint_on_harts (ct_trigger_timer ct i b level) s = (Inr (), s')" "level \<in> timer_levels"
  shows "comparators_kept ct s s'" "cl_irq_event s' = cl_irq_event s"
    "l \<in> timer_levels \<Longrightarrow> line j l (cl_harts s') = (if j = i \<and> l = level then b else line j l (cl_harts s))"
proof -
  obtain h where h: "ct_trigger_timer ct i b level (cl_harts s) = (Inr (), h)" and s': "s' = s\<lparr>cl_harts := h\<rparr>"
    using assms(1) by (auto simp: clint_on_harts_def split: prod.splits)
  show "comparators_kept ct s s'" "cl_irq_event s' = cl_irq_event s"
    using timer_comparators [OF h] by (auto simp: s' comparators_kept_def)
  show "l \<in> timer_levels \<Longrightarrow> line j l (cl_harts s') = (if j = i \<and> l = level then b else line j l (cl_harts s))"
    using timer_line [OF assms(2) _ h] by (simp add: s')
qed

lemma process_level:
  assumes "process_compare_level ct level i s = (Inr (), s')" "level \<in> timer_levels"
  shows "comparators_kept ct s s'" "settled ct line level i s'"
    "l \<in> timer_levels \<Longrightarrow> (j, l) \<noteq> (i, level) \<Longrightarrow> line j l (cl_harts s') = line j l (cl_harts s)"
proof -
  obtain ex where ex: "ct_level_exists ct i level (cl_harts s) = Inr ex"
    using assms(1) by (auto simp: process_compare_level_def is_compare_level_exists_def op_run)
  have main: "comparators_kept ct s s' \<and> settled ct line level i s' \<and>
    (l \<in> timer_levels \<longrightarrow> (j, l) \<noteq> (i, level) \<longrightarrow> line j l (cl_harts s') = line j l (cl_harts s))" for j l
  proof (cases ex)
    case False
    then have "s' = s"
      using assms(1) ex by (auto simp: process_compare_level_def is_compare_level_exists_def op_run split: if_splits)
    then show ?thesis using ex False by (simp add: comparators_kept_refl settled_def)
  next
    case True
    obtain cmp mtime where c: "compare_value ct level i s = Inr cmp" and m: "load64 (cl_mtime s) 0 = Inr mtime"
      and r: "(if cmp > 0 \<and> mtime \<ge> cmp then clint_on_harts (ct_trigger_timer ct i True level)
        else seq_op (clint_on_harts (ct_trigger_timer ct i False level))
          (when_op (cmp > 0 \<and> cmp < -1) (modify_op (clint_notify (cmp * clint_scaler - mtime * clint_scaler))))) s = (Inr (), s')"
      using assms(1) True ex
      by (auto simp: process_compare_level_def is_compare_level_exists_def get_compare_level_def clint_get_mtime_def compare_value_def op_run
          split: if_splits)
    show ?thesis
    proof (cases "cmp > 0 \<and> mtime \<ge> cmp")
      case due: True
      then have t: "clint_on_harts (ct_trigger_timer ct i True level) s = (Inr (), s')" using r by simp
      note k = trigger_kept [OF t assms(2)]
      have m': "load64 (cl_mtime s') 0 = Inr mtime" using m k(1) by (simp add: comparators_kept_def)
      show ?thesis
        using k(1) k(3) [OF assms(2), of i] k(3) [of l j] due c m'
        by (auto simp: settled_def compare_value_kept [OF k(1)])
    next
      case early: False
      then obtain t where t: "clint_on_harts (ct_trigger_timer ct i False level) s = (Inr (), t)"
        and w: "when_op (cmp > 0 \<and> cmp < -1) (modify_op (clint_notify (cmp * clint_scaler - mtime * clint_scaler))) t = (Inr (), s')"
        using r unfolding if_not_P [OF early] op_run(2) by auto
      then have s': "s' = (if cmp > 0 \<and> cmp < -1 then clint_notify (cmp * clint_scaler - mtime * clint_scaler) t else t)"
        by (cases "cmp > 0 \<and> cmp < -1") (simp_all only: op_run simp_thms if_True if_False)
      note k = trigger_kept [OF t assms(2)]
      have kept: "comparators_kept ct s s'"
        using comparators_kept_trans [OF k(1) notify_kept(1)] k(1) by (simp add: s')
      have h: "cl_harts s' = cl_harts t" by (simp add: s' clint_notify_def)
      have m': "load64 (cl_mtime s') 0 = Inr mtime" using m kept by (simp add: comparators_kept_def)
      have "\<exists>d. cl_irq_event s' = Some d \<and> d \<le> cmp * clint_scaler - mtime * clint_scaler" if "mtime < cmp" "cmp < -1"
        using notify_kept(2) [of "cmp * clint_scaler - mtime * clint_scaler" t] that by (auto simp: s' word_gt_0)
      then show ?thesis
        using kept k(3) [OF assms(2), of i] k(3) [of l j] early c m'
        by (auto simp: settled_def compare_value_kept [OF kept] h)
    qed
  qed
  show "comparators_kept ct s s'" "settled ct line level i s'"
    using main [of undefined undefined] by simp_all
  show "l \<in> timer_levels \<Longrightarrow> (j, l) \<noteq> (i, level) \<Longrightarrow> line j l (cl_harts s') = line j l (cl_harts s)"
    using main [of l j] by simp
qed

lemma process_settled:
  assumes "process_compare_level ct level i s = (Inr (), s')" "level \<in> timer_levels" "l \<in> timer_levels"
    "settled ct line l j s \<or> (j, l) = (i, level)"
  shows "settled ct line l j s'"
  using process_level [OF assms(1,2)] settled_kept [of ct line l j s s'] assms(3,4) by (cases "(j, l) = (i, level)") auto

lemma process_harts:
  assumes "clint_process_harts ct is s = (Inr (), s')"
  shows "comparators_kept ct s s' \<and> (\<forall>l \<in> timer_levels. \<forall>j. j \<in> set is \<or> settled ct line l j s \<longrightarrow> settled ct line l j s')"
  using assms
proof (induction "is" arbitrary: s)
  case (Cons i "is")
  obtain t u v where t: "process_compare_level ct MachineMode i s = (Inr (), t)"
    and u: "process_compare_level ct SupervisorMode i t = (Inr (), u)"
    and v: "process_compare_level ct VirtualSupervisorMode i u = (Inr (), v)" and r: "clint_process_harts ct is v = (Inr (), s')"
    using Cons.prems by (auto simp: op_run)
  have L: "MachineMode \<in> timer_levels" "SupervisorMode \<in> timer_levels" "VirtualSupervisorMode \<in> timer_levels"
    by (simp_all add: timer_levels_def)
  have "comparators_kept ct s v"
    by (rule comparators_kept_trans [OF comparators_kept_trans [OF process_level(1) [OF t L(1)] process_level(1) [OF u L(2)]]
        process_level(1) [OF v L(3)]])
  moreover have "settled ct line l j v" if "l \<in> timer_levels" "j = i \<or> settled ct line l j s" for l j
    using process_settled [OF t L(1) that(1), of j] process_settled [OF u L(2) that(1), of j] process_settled [OF v L(3) that(1), of j] that
    by (auto simp: timer_levels_def)
  ultimately show ?case
    using Cons.IH [OF r] comparators_kept_trans [of ct s v s'] by auto
qed (simp add: op_run comparators_kept_refl)

lemma run_settles:
  assumes "clint_run ct n s = (Inr (), s')"
  shows "\<exists>mtime m. load64 (cl_mtime s) 0 = Inr mtime \<and> load64 m 0 = Inr (max mtime (cl_time_stamp s div clint_scaler)) \<and>
    comparators_kept ct (s\<lparr>cl_irq_event := None, cl_mtime := m\<rparr>) s' \<and> (\<forall>l \<in> timer_levels. \<forall>i < n. settled ct line l i s')"
proof -
  obtain v t where v: "clint_update_and_get_mtime (s\<lparr>cl_irq_event := None\<rparr>) = (Inr v, t)"
    and t: "clint_process_harts ct [0..<n] t = (Inr (), s')"
    using assms by (auto simp: clint_run_def op_run)
  from update_mtime [OF v] obtain mtime m where m: "load64 (cl_mtime s) 0 = Inr mtime"
    "load64 m 0 = Inr (max mtime (cl_time_stamp s div clint_scaler))" "t = s\<lparr>cl_irq_event := None, cl_mtime := m\<rparr>" by auto
  then show ?thesis using process_harts [OF t] by auto
qed

end

text \<open>A comparator of the interrupter on real time that \<^verbatim>\<open>mtime\<close> has reached.\<close>

definition due :: "'h real_clint \<Rightarrow> nat \<Rightarrow> bool" where
  "due s i \<longleftrightarrow> (\<exists>cmp t. view_at64 (rc_mtimecmp s) i = Inr cmp \<and> load64 (rc_mtime s) 0 = Inr t \<and> cmp \<le> t)"

text \<open>A hart on which a timer line can always be moved: with such harts a turn of the thread always ends.\<close>

locale live_timer_targets = timer_targets +
  fixes ok :: "nat \<Rightarrow> 'h \<Rightarrow> bool"
  assumes ok_trigger: "level \<in> timer_levels \<Longrightarrow> ok i h \<Longrightarrow>
      \<exists>h'. ct_trigger_timer ct i b level h = (Inr (), h') \<and> (\<forall>j. ok j h \<longrightarrow> ok j h')"
    and ok_reads: "level \<in> timer_levels \<Longrightarrow> ok i h \<Longrightarrow>
      (\<exists>e. ct_level_exists ct i level h = Inr e) \<and> (level \<noteq> MachineMode \<longrightarrow> (\<exists>c. ct_xtimecmp ct i level h = Inr c))"
begin

abbreviation ready :: "nat \<Rightarrow> 'h clint \<Rightarrow> bool" where
  "ready n s \<equiv> clint_wf n s \<and> (\<forall>i < n. ok i (cl_harts s))"

lemma on_harts_returns:
  assumes "ready n s" "i < n" "level \<in> timer_levels"
  shows "\<exists>s'. clint_on_harts (ct_trigger_timer ct i b level) s = (Inr (), s') \<and> ready n s'"
proof -
  obtain h where h: "ct_trigger_timer ct i b level (cl_harts s) = (Inr (), h)" "\<And>j. ok j (cl_harts s) \<Longrightarrow> ok j h"
    using ok_trigger [OF assms(3)] assms(1,2) by blast
  then show ?thesis using assms(1) by (auto simp: clint_on_harts_def clint_wf_def)
qed

lemma compare_value_returns: "ready n s \<Longrightarrow> i < n \<Longrightarrow> level \<in> timer_levels \<Longrightarrow> \<exists>c. compare_value ct level i s = Inr c"
  using ok_reads [of level i "cl_harts s"] by (auto simp: compare_value_def clint_wf_def view64_total)

lemma process_returns:
  assumes "ready n s" "i < n" "level \<in> timer_levels"
  shows "\<exists>s'. process_compare_level ct level i s = (Inr (), s') \<and> ready n s'"
proof -
  obtain ex where ex: "ct_level_exists ct i level (cl_harts s) = Inr ex"
    using ok_reads [OF assms(3)] assms(1,2) by blast
  obtain cmp where cmp: "compare_value ct level i s = Inr cmp"
    using compare_value_returns [OF assms] by blast
  obtain mtime where m: "load64 (cl_mtime s) 0 = Inr mtime"
    using load64_total [of 0 "cl_mtime s"] assms(1) by (auto simp: clint_wf_def)
  have notify: "ready n (clint_notify d t) = ready n t" for d t
    by (simp add: clint_notify_def clint_wf_def)
  obtain t u where "clint_on_harts (ct_trigger_timer ct i True level) s = (Inr (), t)" "ready n t"
    "clint_on_harts (ct_trigger_timer ct i False level) s = (Inr (), u)" "ready n u"
    using on_harts_returns [OF assms] by metis
  then show ?thesis
    using ex cmp m assms(1,3) notify [of _ u]
    by (cases ex; cases "level = MachineMode")
      (auto simp: process_compare_level_def is_compare_level_exists_def get_compare_level_def clint_get_mtime_def compare_value_def
        timer_levels_def comb_defs)
qed

lemma process_harts_returns:
  "ready n s \<Longrightarrow> \<forall>i \<in> set is. i < n \<Longrightarrow> \<exists>s'. clint_process_harts ct is s = (Inr (), s') \<and> ready n s'"
proof (induction "is" arbitrary: s)
  case (Cons i "is")
  have L: "MachineMode \<in> timer_levels" "SupervisorMode \<in> timer_levels" "VirtualSupervisorMode \<in> timer_levels"
    by (simp_all add: timer_levels_def)
  obtain t where t: "process_compare_level ct MachineMode i s = (Inr (), t)" "ready n t"
    using process_returns [OF Cons.prems(1) _ L(1), of i] Cons.prems(2) by auto
  obtain u where u: "process_compare_level ct SupervisorMode i t = (Inr (), u)" "ready n u"
    using process_returns [OF t(2) _ L(2), of i] Cons.prems(2) by auto
  obtain v where v: "process_compare_level ct VirtualSupervisorMode i u = (Inr (), v)" "ready n v"
    using process_returns [OF u(2) _ L(3), of i] Cons.prems(2) by auto
  show ?case using Cons.IH [OF v(2)] Cons.prems(2) t(1) u(1) v(1) by (auto simp: op_run)
qed (simp add: op_run)

lemma run_returns:
  assumes "ready n s"
  shows "\<exists>s'. clint_run ct n s = (Inr (), s') \<and> ready n s'"
proof -
  let ?s = "s\<lparr>cl_irq_event := None\<rparr>"
  obtain mtime where m: "load64 (cl_mtime s) 0 = Inr mtime"
    using load64_total [of 0 "cl_mtime s"] assms by (auto simp: clint_wf_def)
  obtain x where x: "store64 0 (cl_time_stamp s div clint_scaler) (cl_mtime s) = Inr x"
    using store64_total [of 0 "cl_mtime s"] assms by (auto simp: clint_wf_def)
  have "ready n (?s\<lparr>cl_mtime := x\<rparr>)" "ready n ?s" using assms store64_length [OF x] by (simp_all add: clint_wf_def)
  moreover have "\<exists>t. clint_update_and_get_mtime ?s = (Inr (max mtime (cl_time_stamp s div clint_scaler)), t) \<and> (t = ?s \<or> t = ?s\<lparr>cl_mtime := x\<rparr>)"
    using m x load64_store64 [OF x]
    by (cases "mtime < cl_time_stamp s div clint_scaler")
      (auto simp: clint_update_and_get_mtime_def clint_get_mtime_def clint_set_mtime_def op_run max_def)
  ultimately show ?thesis
    using process_harts_returns [of n _ "[0..<n]"] by (auto simp: clint_run_def op_run)
qed

text \<open>The interrupter on real time.\<close>

abbreviation rc_ready :: "nat \<Rightarrow> 'h real_clint \<Rightarrow> bool" where
  "rc_ready n s \<equiv> real_clint_wf n s \<and> (\<forall>i < n. ok i (rc_harts s))"

lemma rc_at_hart_returns:
  assumes "rc_ready n s" "i < n"
  shows "\<exists>h. rc_at_hart i (ct_trigger_timer ct i b MachineMode) s = (Inr (), s\<lparr>rc_harts := h\<rparr>) \<and> (\<forall>j < n. ok j h) \<and>
    (\<forall>j. line j MachineMode h = (if j = i then b else line j MachineMode (rc_harts s)))"
proof -
  have m: "MachineMode \<in> timer_levels" by (simp add: timer_levels_def)
  obtain h where h: "ct_trigger_timer ct i b MachineMode (rc_harts s) = (Inr (), h)" "\<And>j. ok j (rc_harts s) \<Longrightarrow> ok j h"
    using ok_trigger [OF m] assms by blast
  then show ?thesis
    using timer_line [OF m m h(1)] assms
    by (intro exI [of _ h]) (auto simp: rc_at_hart_def rc_on_harts_def op_run real_clint_wf_def)
qed

lemma rc_interrupt_harts_returns:
  "rc_ready n s \<Longrightarrow> \<forall>i \<in> set is. i < n \<Longrightarrow> \<exists>h. rc_interrupt_harts ct is s = (Inr (), s\<lparr>rc_harts := h\<rparr>) \<and>
     (\<forall>j. line j MachineMode h = (line j MachineMode (rc_harts s) \<or> j \<in> set is \<and> due s j))"
proof (induction "is" arbitrary: s)
  case (Cons i "is")
  obtain cmp t where v: "view_at64 (rc_mtimecmp s) i = Inr cmp" "load64 (rc_mtime s) 0 = Inr t"
    using Cons.prems view_at64_total [of i "rc_mtimecmp s"] load64_total [of 0 "rc_mtime s"] by (auto simp: real_clint_wf_def)
  obtain h where h: "when_op (cmp \<le> t) (rc_at_hart i (ct_trigger_timer ct i True MachineMode)) s = (Inr (), s\<lparr>rc_harts := h\<rparr>)"
    "\<forall>j < n. ok j h" "\<And>j. line j MachineMode h = (line j MachineMode (rc_harts s) \<or> j = i \<and> due s i)"
    using rc_at_hart_returns [OF Cons.prems(1), of i True] Cons.prems v
    by (cases "cmp \<le> t") (auto simp: op_run due_def intro: that [of "rc_harts s"])
  have "rc_ready n (s\<lparr>rc_harts := h\<rparr>)" using Cons.prems(1) h(2) by (simp add: real_clint_wf_def)
  then obtain h' where "rc_interrupt_harts ct is (s\<lparr>rc_harts := h\<rparr>) = (Inr (), s\<lparr>rc_harts := h'\<rparr>)"
    "\<And>j. line j MachineMode h' = (line j MachineMode h \<or> j \<in> set is \<and> due s j)"
    using Cons.IH [of "s\<lparr>rc_harts := h\<rparr>"] Cons.prems(2) by (auto simp: due_def)
  then show ?case using h v by (intro exI [of _ h']) (auto simp: op_run)
next
  case Nil
  show ?case by (intro exI [of _ "rc_harts s"]) (simp add: op_run)
qed

lemma rc_update_returns:
  assumes "rc_ready n s"
  shows "\<exists>m. rc_update_and_get_mtime s = (Inr (usec_to_ticks (rc_usecs s)), s\<lparr>rc_mtime := m\<rparr>) \<and> rc_ready n (s\<lparr>rc_mtime := m\<rparr>) \<and>
    load64 m 0 = Inr (usec_to_ticks (rc_usecs s))"
proof -
  obtain m where m: "store64 0 (usec_to_ticks (rc_usecs s)) (rc_mtime s) = Inr m"
    using store64_total [of 0 "rc_mtime s"] assms by (auto simp: real_clint_wf_def)
  then show ?thesis
    using load64_store64 [OF m] store64_length [OF m] assms
    by (intro exI [of _ m]) (simp add: rc_update_and_get_mtime_def op_run real_clint_wf_def)
qed

lemma rc_interrupt_returns:
  assumes "rc_ready n s"
  shows "\<exists>s'. rc_interrupt ct s = (Inr (), s') \<and> (\<forall>j < n. \<forall>cmp. view_at64 (rc_mtimecmp s) j = Inr cmp \<longrightarrow>
    line j MachineMode (rc_harts s') = (line j MachineMode (rc_harts s) \<or> cmp \<le> usec_to_ticks (rc_usecs s)))"
proof -
  from rc_update_returns [OF assms] obtain m where m: "rc_update_and_get_mtime s = (Inr (usec_to_ticks (rc_usecs s)), s\<lparr>rc_mtime := m\<rparr>)"
    "rc_ready n (s\<lparr>rc_mtime := m\<rparr>)" "load64 m 0 = Inr (usec_to_ticks (rc_usecs s))" by blast
  from rc_interrupt_harts_returns [OF m(2), of "[0..<n]"] obtain h where
    h: "rc_interrupt_harts ct [0..<n] (s\<lparr>rc_mtime := m\<rparr>) = (Inr (), s\<lparr>rc_mtime := m, rc_harts := h\<rparr>)"
    "\<And>j. line j MachineMode h = (line j MachineMode (rc_harts s) \<or> j < n \<and> due (s\<lparr>rc_mtime := m\<rparr>) j)" by auto
  show ?thesis using m(1,3) h assms by (intro exI [of _ "s\<lparr>rc_mtime := m, rc_harts := h\<rparr>"]) (auto simp: rc_interrupt_def op_run due_def real_clint_wf_def)
qed

lemma rc_compare_returns:
  assumes "rc_ready n s" "i < n" "unat (ucast (a div 8 :: u64) :: u32) = i" "a mod 4 = 0" "view_at64 (rc_mtimecmp s) i = Inr cmp"
  shows "\<exists>s'. rc_post_write_mtimecmp ct a k s = (Inr (), s') \<and> rc_ready n s' \<and>
    line i MachineMode (rc_harts s') = (cmp \<le> usec_to_ticks (rc_usecs s)) \<and> rc_mtimecmp s' = rc_mtimecmp s \<and>
    rc_timers s' ! i = (if cmp \<le> usec_to_ticks (rc_usecs s) then None else Some (ticks_to_usec (cmp - usec_to_ticks (rc_usecs s))))"
proof -
  let ?t = "usec_to_ticks (rc_usecs s)"
  from rc_update_returns [OF assms(1)] obtain m where m: "rc_update_and_get_mtime s = (Inr ?t, s\<lparr>rc_mtime := m\<rparr>)"
    "rc_ready n (s\<lparr>rc_mtime := m\<rparr>)" by blast
  let ?u = "s\<lparr>rc_mtime := m, rc_timers := (rc_timers s)[i := None]\<rparr>"
  have u: "rc_ready n ?u" using m(2) by (simp add: real_clint_wf_def)
  obtain h where h: "rc_at_hart i (ct_trigger_timer ct i (cmp \<le> ?t) MachineMode) ?u = (Inr (), ?u\<lparr>rc_harts := h\<rparr>)" "\<forall>j < n. ok j h"
    "line i MachineMode h = (cmp \<le> ?t)"
    using rc_at_hart_returns [OF u assms(2), of "cmp \<le> ?t"] by auto
  have l: "length (rc_timers s) = n" using assms(1) by (simp add: real_clint_wf_def)
  show ?thesis
    using m h assms l
    by (cases "cmp \<le> ?t") (auto simp: rc_post_write_mtimecmp_def Let_def comb_defs rc_set_timer_def real_clint_wf_def)
qed

end

section \<open>RV32 harts\<close>

definition at_hart :: "nat \<Rightarrow> ('p iss, unit) op \<Rightarrow> ('p iss list, unit) op" where
  "at_hart i f = (\<lambda>hs. if i < length hs then (case f (hs ! i) of (r, h) \<Rightarrow> (r, hs[i := h])) else (Inl UndefinedBehaviour, hs))"

definition of_hart :: "nat \<Rightarrow> (csr_table \<Rightarrow> 'a res) \<Rightarrow> 'p iss list \<Rightarrow> 'a res" where
  "of_hart i f hs = (if i < length hs then f (iss_csrs (hs ! i)) else Inl UndefinedBehaviour)"

definition rv32_targets :: "'p iss list clint_targets" where
  "rv32_targets = \<lparr>ct_trigger_timer = \<lambda>i b level. at_hart i (trigger_timer_interrupt b level),
     ct_xtimecmp = \<lambda>i level. of_hart i (get_xtimecmp_level_csr level),
     ct_level_exists = \<lambda>i level. of_hart i (is_timer_compare_level_exists level),
     ct_trigger_software = \<lambda>i b level. at_hart i (trigger_software_interrupt b level)\<rparr>"

definition timer_iid :: "PrivilegeLevel \<Rightarrow> u32" where
  "timer_iid level = (if level = MachineMode then EXC_M_TIMER_INTERRUPT else if level = SupervisorMode then EXC_S_TIMER_INTERRUPT
     else EXC_VS_TIMER_INTERRUPT)"

definition mip_bit :: "'p iss \<Rightarrow> nat \<Rightarrow> bool" where
  "mip_bit s n = bit (mip_reg (csr_clint (iss_csrs s))) n"

definition rv32_timer_line :: "nat \<Rightarrow> PrivilegeLevel \<Rightarrow> 'p iss list \<Rightarrow> bool" where
  "rv32_timer_line i level hs \<longleftrightarrow> i < length hs \<and> mip_bit (hs ! i) (unat (timer_iid level))"

text \<open>The timer lines are kept by every operation that only moves other lines.\<close>

definition timer_iids :: "u32 set" where "timer_iids = {EXC_M_TIMER_INTERRUPT, EXC_S_TIMER_INTERRUPT, EXC_VS_TIMER_INTERRUPT}"

interpretation timer_bits: imsic_lines "\<lambda>s. \<forall>i \<in> timer_iids. mip_bit s (unat i) = k i" "- timer_iids" for k
proof unfold_locales
  show "external_lines \<subseteq> - timer_iids"
    by (auto simp: external_lines_def timer_iids_def core_consts)
  fix iid :: u32 and s :: "'a iss" and st e c
  assume a: "iid \<in> - timer_iids" "\<forall>i \<in> timer_iids. mip_bit s (unat i) = k i" "hw_write_mip iid st (csr_clint (iss_csrs s)) = Inr (e, c)"
  have "bit (mip_reg c) (unat i) = mip_bit s (unat i)" if "i \<in> timer_iids" for i
  proof -
    have "unat i \<noteq> unat iid" using a(1) that by (auto dest: unsigned_word_eqI)
    then show ?thesis using hw_write_mip_effect(2) [OF a(3), of "unat i"] by (simp add: mip_bit_def)
  qed
  then show "\<forall>i \<in> timer_iids. mip_bit (s\<lparr>iss_csrs := (iss_csrs s)\<lparr>csr_clint := c\<rparr>\<rparr>) (unat i) = k i"
    using a(2) by (simp add: mip_bit_def)
qed (simp_all add: mip_bit_def)

interpretation comparators: imsic_frame "\<lambda>s. (csr_time_control (iss_csrs s), csr_menvcfgh (iss_csrs s), csr_henvcfgh (iss_csrs s)) = k" for k
  by unfold_locales auto

lemma timer_readable: "i \<in> timer_iids \<Longrightarrow> bit MIP_READ_MASK (unat i)"
  by (auto simp: timer_iids_def core_consts clint_mask_defs clint_bits)

lemma timer_route:
  assumes "clint_hw_irq_route iid b s = (Inr (), s')" "iid \<in> timer_iids" "i \<in> timer_iids"
  shows "mip_bit s' (unat i) = (if i = iid then b else mip_bit s (unat i))"
proof -
  obtain p t where t: "hw_line iid b s = (Inr (), t)"
    and d: "deliver_clint_change_to_imsics_with compute_imsic_pending_interrupts_vs p iid t = (Inr (), s')"
    using assms(1) by (auto simp: clint_hw_irq_route_def clint_hw_irq_route_with_def pendings_op_def op_run)
  obtain e c where c: "hw_write_mip iid b (csr_clint (iss_csrs s)) = Inr (e, c)" and tc: "t = s\<lparr>iss_csrs := (iss_csrs s)\<lparr>csr_clint := c\<rparr>\<rparr>"
    using t by (auto simp: hw_line_def csr_res_def op_run bind_res_def split: sum.splits)
  have "mip_bit t (unat i) = (if i = iid then b else mip_bit s (unat i))"
    using hw_write_mip_effect(2) [OF c, of "unat i"] timer_readable [OF assms(3)] by (auto simp: tc mip_bit_def dest: unsigned_word_eqI)
  moreover have k: "preserves (\<lambda>s. \<forall>i \<in> timer_iids. mip_bit s (unat i) = mip_bit t (unat i))
      (deliver_clint_change_to_imsics_with compute_imsic_pending_interrupts_vs p iid)"
    unfolding deliver_clint_change_to_imsics_with_def pendings_op_def
    by (intro preserves_rules timer_bits.deliver timer_bits.cascade timer_bits.compute_vs)
  ultimately show ?thesis
    using preservesD [OF k _ d] assms(3) by simp
qed

interpretation rv32: timer_targets "rv32_targets :: 'p iss list clint_targets" rv32_timer_line
proof unfold_locales
  fix level l :: PrivilegeLevel and i j :: nat and b and h h' :: "'p iss list"
  assume t: "ct_trigger_timer rv32_targets i b level h = (Inr (), h')"
  then obtain s where i: "i < length h" and s: "trigger_timer_interrupt b level (h ! i) = (Inr (), s)" and h': "h' = h[i := s]"
    by (auto simp: rv32_targets_def at_hart_def split: if_splits prod.splits)
  have "preserves (\<lambda>s. (csr_time_control (iss_csrs s), csr_menvcfgh (iss_csrs s), csr_henvcfgh (iss_csrs s)) = k)
      (trigger_timer_interrupt b level)" for k
    unfolding trigger_timer_interrupt_def by (intro preserves_rules comparators.every_route)
  from preservesD [OF this refl s]
  show "ct_level_exists rv32_targets j l h' = ct_level_exists rv32_targets j l h \<and> ct_xtimecmp rv32_targets j l h' = ct_xtimecmp rv32_targets j l h"
    by (cases "j = i") (use i in \<open>auto simp: h' rv32_targets_def of_hart_def is_timer_compare_level_exists_def get_xtimecmp_level_csr_def\<close>)
  assume levels: "level \<in> timer_levels" "l \<in> timer_levels"
  have "clint_hw_irq_route (timer_iid level) b (h ! i) = (Inr (), s)"
    using s levels(1) by (auto simp: trigger_timer_interrupt_def timer_levels_def timer_iid_def core_consts)
  moreover have "timer_iid level \<in> timer_iids" "timer_iid l \<in> timer_iids" "timer_iid l = timer_iid level \<longleftrightarrow> l = level"
    using levels by (auto simp: timer_iids_def timer_iid_def timer_levels_def core_consts)
  ultimately show "rv32_timer_line j l h' = (if j = i \<and> l = level then b else rv32_timer_line j l h)"
    using timer_route [of "timer_iid level" b "h ! i" s "timer_iid l"] i by (cases "j = i") (auto simp: rv32_timer_line_def h')
qed

text \<open>Harts whose trap vectors are not in the nested-vectored mode and that have no interrupt injected for the guest.\<close>

definition plain_irq_modes :: "'p iss \<Rightarrow> bool" where
  "plain_irq_modes s \<longleftrightarrow> (\<forall>l \<in> timer_levels. is_irq_mode_snps_nested_vectored l (iss_csrs s) = Inr False) \<and>
     \<not> is_local_injected (csr_hvictl (iss_csrs s))"

interpretation irq_modes: imsic_frame "\<lambda>s. (csr_mtvec (iss_csrs s), csr_stvec (iss_csrs s), csr_vstvec (iss_csrs s), csr_hvictl (iss_csrs s)) = k" for k
  by unfold_locales auto

lemma plain_irq_modes_cong:
  assumes "(csr_mtvec (iss_csrs s'), csr_stvec (iss_csrs s'), csr_vstvec (iss_csrs s'), csr_hvictl (iss_csrs s')) =
    (csr_mtvec (iss_csrs s), csr_stvec (iss_csrs s), csr_vstvec (iss_csrs s), csr_hvictl (iss_csrs s))"
  shows "plain_irq_modes s' = plain_irq_modes s"
proof -
  have "is_irq_mode_snps_nested_vectored l (iss_csrs s') = is_irq_mode_snps_nested_vectored l (iss_csrs s)" for l
    using assms by (simp add: is_irq_mode_snps_nested_vectored_def get_xtvec_def)
  then show ?thesis using assms by (simp add: plain_irq_modes_def)
qed

lemma plain_irq_modes_route: "clint_hw_irq_route iid b s = (r, s') \<Longrightarrow> plain_irq_modes s' = plain_irq_modes s"
  using preservesD [OF irq_modes.every_route refl] by (rule plain_irq_modes_cong)

lemma plain_deliver:
  assumes "plain_irq_modes s" "iid \<in> timer_iids"
  shows "deliver_pending_to_imsic_with cvs p p' iid s = (Inr (), s)"
proof (cases "pending_target p p' iid")
  case (Some le)
  then obtain l e where le: "pending_target p p' iid = Some (l, e)" and l: "l \<in> timer_levels"
    by (cases le) (auto simp: pending_target_def timer_levels_def split: if_splits)
  then show ?thesis using assms
    by (auto simp: deliver_pending_to_imsic_with_def plain_irq_modes_def timer_iids_def timer_levels_def comb_defs core_consts get_external_iid_def)
qed (simp add: deliver_pending_to_imsic_with_def comb_defs)

lemma no_change_delivers_nothing: "deliver_pending_to_imsic_with cvs p p iid s = (Inr (), s)"
proof -
  have "pending_target p p iid = None \<or> (\<exists>l. pending_target p p iid = Some (l, False))"
    by (simp add: pending_target_def pendings_edge_detected_def)
  then show ?thesis
    by (elim disjE exE) (simp_all add: deliver_pending_to_imsic_with_def ret_op_def)
qed

lemma plain_route:
  assumes "plain_irq_modes s" "iid \<in> timer_iids"
  shows "\<exists>s'. clint_hw_irq_route iid b s = (Inr (), s')"
proof -
  obtain e c where c: "hw_write_mip iid b (csr_clint (iss_csrs s)) = Inr (e, c)"
    using assms(2) by (auto simp: hw_write_mip_def Let_def timer_iids_def core_consts)
  let ?t = "s\<lparr>iss_csrs := (iss_csrs s)\<lparr>csr_clint := c\<rparr>\<rparr>"
  have line: "hw_line iid b s = (Inr (), ?t)"
    using c by (simp add: hw_line_def csr_res_def comb_defs)
  have t: "plain_irq_modes ?t"
    using assms(1) plain_irq_modes_cong [of ?t s] by simp
  have pend: "\<exists>p. compute_clint_pending_irq_bits_per_level (iss_csrs u) = Inr p" if "plain_irq_modes u" for u :: "'a iss"
    using that by (auto simp: plain_irq_modes_def compute_clint_pending_irq_bits_per_level_def Let_def)
  obtain p p' where p: "compute_clint_pending_irq_bits_per_level (iss_csrs s) = Inr p"
    "compute_clint_pending_irq_bits_per_level (iss_csrs ?t) = Inr p'"
    using pend [OF assms(1)] pend [OF t] by blast
  have "major_is_valid iid" using assms(2) by (auto simp: major_is_valid_def timer_iids_def core_consts)
  then have "clint_hw_irq_route iid b s = (Inr (), ?t)"
    using p by (simp add: clint_hw_irq_route_def clint_hw_irq_route_with_def deliver_clint_change_to_imsics_with_def
        cascade_pendings_to_imsics_with_def pendings_op_def op_run line plain_deliver [OF t assms(2)] no_change_delivers_nothing)
  then show ?thesis by blast
qed

interpretation live_rv32: live_timer_targets "rv32_targets :: 'p iss list clint_targets" rv32_timer_line
    "\<lambda>i hs. i < length hs \<and> plain_irq_modes (hs ! i)"
proof unfold_locales
  fix level :: PrivilegeLevel and i :: nat and h :: "'p iss list" and b
  assume l: "level \<in> timer_levels" and ok: "i < length h \<and> plain_irq_modes (h ! i)"
  have t: "trigger_timer_interrupt b level = clint_hw_irq_route (timer_iid level) b" "timer_iid level \<in> timer_iids"
    using l by (auto simp: trigger_timer_interrupt_def timer_levels_def timer_iid_def timer_iids_def core_consts)
  obtain s where s: "clint_hw_irq_route (timer_iid level) b (h ! i) = (Inr (), s)"
    using plain_route [OF _ t(2)] ok by blast
  have "ct_trigger_timer rv32_targets i b level h = (Inr (), h[i := s])"
    using ok s by (simp add: rv32_targets_def at_hart_def t(1))
  moreover have "plain_irq_modes (h[i := s] ! j)" if "j < length h" "plain_irq_modes (h ! j)" for j
    using that plain_irq_modes_route [OF s] by (cases "j = i") auto
  ultimately show "\<exists>h'. ct_trigger_timer rv32_targets i b level h = (Inr (), h') \<and>
      (\<forall>j. j < length h \<and> plain_irq_modes (h ! j) \<longrightarrow> j < length h' \<and> plain_irq_modes (h' ! j))"
    by auto
  show "(\<exists>e. ct_level_exists rv32_targets i level h = Inr e) \<and>
      (level \<noteq> MachineMode \<longrightarrow> (\<exists>c. ct_xtimecmp rv32_targets i level h = Inr c))"
    using l ok by (auto simp: rv32_targets_def of_hart_def is_timer_compare_level_exists_def get_xtimecmp_level_csr_def timer_levels_def
        is_irq_capable_level_def get_timecmp_level_adjusted_def)
qed

text \<open>A notification that does not come after a comparator wakes the thread in its tick at the latest.\<close>

lemma unat_minus_one_64: "unat (-1 :: u64) = 2 ^ 64 - 1"
  by (simp add: unsigned_minus_1_eq_mask mask_eq_exp_minus_1)

lemma wake_up_tick:
  assumes "d \<le> cmp * clint_scaler - mtime * clint_scaler" "ts div clint_scaler \<le> mtime" "mtime < cmp" "unat cmp * 10 ^ 6 < 2 ^ 64"
  shows "(unat (ts :: u64) + unat d) div 10 ^ 6 \<le> unat cmp"
proof -
  have sc: "unat clint_scaler = 10 ^ 6" by (simp add: clint_scaler_def)
  have lt: "unat mtime < unat cmp" using assms(3) by (simp add: word_less_nat_alt)
  then have "unat mtime * 10 ^ 6 < 2 ^ 64" by (intro le_less_trans [OF mult_le_mono1 assms(4)]) simp
  then have m: "unat (mtime * clint_scaler) = unat mtime * 10 ^ 6" "unat (cmp * clint_scaler) = unat cmp * 10 ^ 6"
    using assms(4) sc by (simp_all add: unat_mult_lem [THEN iffD1])
  then have "mtime * clint_scaler \<le> cmp * clint_scaler" using lt by (simp add: word_le_nat_alt)
  then have "unat d \<le> unat cmp * 10 ^ 6 - unat mtime * 10 ^ 6"
    using assms(1) m by (simp add: word_le_nat_alt unat_sub)
  moreover from assms(2) have "unat ts div 10 ^ 6 \<le> unat mtime"
    using sc by (simp add: word_le_nat_alt unat_div)
  then have "unat ts < (unat mtime + 1) * 10 ^ 6" by (simp add: less_mult_imp_div_less div_less_iff_less_mult less_Suc_eq_le [symmetric])
  ultimately have "unat ts + unat d < (unat cmp + 1) * 10 ^ 6" using lt by simp
  then show ?thesis by (simp add: less_mult_imp_div_less Suc_leI less_Suc_eq_le [symmetric])
qed


lemma plain_irq_modes_init: "plain_irq_modes (ISS_init i e m)"
  by (auto simp: plain_irq_modes_def timer_levels_def is_irq_mode_snps_nested_vectored_def get_xtvec_def is_irq_capable_level_def
      ISS_init_def csr_table_init_def csr_fields get_field_def core_consts is_local_injected_def is_vti_active_def)

definition example_clint :: "'p cmi \<Rightarrow> 'p iss list clint" where
  "example_clint m = (clint_init 1 [ISS_init 0 False m])\<lparr>cl_mtimecmp := [5, 0, 0, 0, 0, 0, 0, 0], cl_time_stamp := 3500000\<rparr>"


lemma expiry_tick:
  assumes "usec_to_ticks u < cmp" "unat u + unat cmp * 30 < 2 ^ 64"
  shows "usec_to_ticks (u + ticks_to_usec (cmp - usec_to_ticks u)) = cmp"
proof -
  let ?t = "usec_to_ticks u"
  have t: "unat ?t = unat u div 30" by (simp add: usec_to_ticks_def DIVIDEND_def unat_div)
  have lt: "unat ?t < unat cmp" using assms(1) by (simp add: word_less_nat_alt)
  have c: "unat (cmp - ?t) = unat cmp - unat ?t" using assms(1) by (simp add: unat_sub less_imp_le)
  have d: "unat (ticks_to_usec (cmp - ?t)) = (unat cmp - unat ?t) * 30"
    using assms(2) unfolding ticks_to_usec_def DIVIDEND_def
    by (subst unat_mult_lem [THEN iffD1]) (simp_all add: c)
  have "unat (u + ticks_to_usec (cmp - ?t)) = unat u + (unat cmp - unat ?t) * 30"
    using assms(2) by (subst unat_add_lem [THEN iffD1]) (simp_all add: d)
  then have "unat (usec_to_ticks (u + ticks_to_usec (cmp - ?t))) = (unat u + (unat cmp - unat ?t) * 30) div 30"
    by (simp add: usec_to_ticks_def [of "u + _"] DIVIDEND_def unat_div)
  also have "\<dots> = unat cmp" using lt by (simp add: t)
  finally show ?thesis by (rule unsigned_word_eqI)
qed


definition example_real_clint :: "'p cmi \<Rightarrow> 'p iss list real_clint" where
  "example_real_clint m = (real_clint_init 1 [ISS_init 0 False m])\<lparr>rc_mtimecmp := [5, 0, 0, 0, 0, 0, 0, 0], rc_usecs := 100\<rparr>"


end
