(* ===== verification/VP_Tlm_Map.thy ===== *)
theory VP_Tlm_Map
  imports VP_Regmap
begin

text \<open>
  The second layer for memory-mapped registers (\<^verbatim>\<open>util/tlm_map.h\<close>): a router with banks of 32-bit
  registers and ranges of addresses. A register is a part of the state of the device, which the
  mapping accesses with \<open>rm_get\<close> and \<open>rm_put\<close>; its address stands for the pointer \<^verbatim>\<open>vptr\<close> by which the
  sources identify it. The handler of a bank gets the access, the function \<^verbatim>\<open>fn\<close> that performs it and the
  bytes of the transaction, and returns the bytes it leaves there: those \<^verbatim>\<open>fn\<close> returned, or, if the
  handler does not call it, the bytes it got.

  The locale \<open>local_router\<close> is the contract of the handlers, as \<open>register_ranges\<close> is for the other layer.
\<close>

record access_mode =
  allow_read :: bool
  allow_write :: bool

definition make_writeonly :: access_mode where "make_writeonly = \<lparr>allow_read = False, allow_write = True\<rparr>"
definition make_readonly :: access_mode where "make_readonly = \<lparr>allow_read = True, allow_write = False\<rparr>"
definition can_read :: "access_mode \<Rightarrow> bool" where "can_read m = allow_read m"
definition can_write :: "access_mode \<Rightarrow> bool" where "can_write m = allow_write m"
definition is_readonly :: "access_mode \<Rightarrow> bool" where "is_readonly m \<longleftrightarrow> allow_read m \<and> \<not> allow_write m"
definition read_write :: access_mode where "read_write = \<lparr>allow_read = True, allow_write = True\<rparr>"
definition read_only :: access_mode where "read_only = \<lparr>allow_read = True, allow_write = False\<rparr>"
definition write_only :: access_mode where "write_only = \<lparr>allow_read = False, allow_write = True\<rparr>"

lemmas access_mode_defs = make_writeonly_def make_readonly_def can_read_def can_write_def read_write_def read_only_def write_only_def

section \<open>Ranges of addresses\<close>

definition execute_memory_access :: "payload \<Rightarrow> u8 list \<Rightarrow> (u8 list \<times> payload) res" where
  "execute_memory_access t m = (case tp_command t of
       TLM_WRITE_COMMAND \<Rightarrow> bind_res (memcpy_to m (unat (tp_address t)) (tp_data t)) (\<lambda>m'. Inr (m', t))
     | TLM_READ_COMMAND \<Rightarrow> bind_res (memcpy_from m (unat (tp_address t)) (length (tp_data t))) (\<lambda>bs. Inr (m, t\<lparr>tp_data := bs\<rparr>))
     | _ \<Rightarrow> Inl (RuntimeError ''unsupported TLM command detected''))"

record 's AddressMapping =
  am_start :: u64
  am_end :: u64
  am_mode :: access_mode
  am_handler :: "payload \<Rightarrow> ('s, payload) op"

definition mode_op :: "access_mode \<Rightarrow> tlm_command \<Rightarrow> ('s, unit) op" where
  "mode_op mode cmd = seq_op (assert_op (can_read mode \<or> cmd \<noteq> TLM_READ_COMMAND))
     (assert_op (can_write mode \<or> cmd \<noteq> TLM_WRITE_COMMAND))"

definition am_try_handle :: "'s AddressMapping \<Rightarrow> payload \<Rightarrow> ('s, payload option) op" where
  "am_try_handle m t = (let addr = tp_address t; len = length (tp_data t) in
     if addr \<ge> am_start m \<and> addr < am_end m then
       seq_op (assert_op (addr + of_nat len \<le> am_end m)) (
       seq_op (mode_op (am_mode m) (tp_command t)) (
       bind_op (am_handler m (t\<lparr>tp_address := addr - am_start m\<rparr>)) (\<lambda>t'. ret_op (Some t'))))
     else ret_op None)"

section \<open>Banks of registers\<close>

record 's reg_mapping =
  rm_addr :: u64
  rm_get :: "'s \<Rightarrow> u32"
  rm_put :: "u32 \<Rightarrow> 's \<Rightarrow> 's"
  rm_mode :: access_mode
  rm_mask :: u32

definition reg_at :: "u64 \<Rightarrow> ('s \<Rightarrow> u32) \<Rightarrow> (u32 \<Rightarrow> 's \<Rightarrow> 's) \<Rightarrow> 's reg_mapping" where
  "reg_at addr get put = \<lparr>rm_addr = addr, rm_get = get, rm_put = put, rm_mode = read_write, rm_mask = -1\<rparr>"

definition bus_write :: "'s reg_mapping \<Rightarrow> u32 \<Rightarrow> ('s, unit) op" where
  "bus_write r new_value = seq_op (assert_op (can_write (rm_mode r))) (modify_op (rm_put r (new_value AND rm_mask r)))"

definition bus_read :: "'s reg_mapping \<Rightarrow> ('s, u32) op" where
  "bus_read r = seq_op (assert_op (can_read (rm_mode r))) (get_op (rm_get r) ret_op)"

text \<open>\<open>ra_vptr\<close> is the address of the register, \<open>ra_addr\<close> the one of the access.\<close>

record register_access =
  ra_read :: bool
  ra_write :: bool
  ra_vptr :: u64
  ra_nv :: u32
  ra_addr :: u64

type_synonym 's reg_handler = "register_access \<Rightarrow> ('s, u8 list) op \<Rightarrow> u8 list \<Rightarrow> ('s, u8 list) op"

record 's RegisterMapping =
  rb_regs :: "'s reg_mapping list"
  rb_handler :: "'s reg_handler"

definition find_reg :: "'s reg_mapping list \<Rightarrow> u64 \<Rightarrow> 's reg_mapping option" where
  "find_reg regs addr = List.find (\<lambda>r. rm_addr r = addr) regs"

text \<open>\<^verbatim>\<open>insert\<close> of an \<^verbatim>\<open>unordered_map\<close> keeps an element that is already there.\<close>

definition add_register :: "'s reg_mapping \<Rightarrow> 's RegisterMapping \<Rightarrow> 's RegisterMapping" where
  "add_register r b = (if find_reg (rb_regs b) (rm_addr r) = None then b\<lparr>rb_regs := rb_regs b @ [r]\<rparr> else b)"

definition rm_fn :: "'s reg_mapping \<Rightarrow> payload \<Rightarrow> ('s, u8 list) op" where
  "rm_fn r t = (let off = unat (tp_address t mod 4) in
     case tp_command t of
       TLM_READ_COMMAND \<Rightarrow> bind_op (bus_read r) (\<lambda>n. lift_op (memcpy_from (le_bytes 4 (ucast n)) off (length (tp_data t))))
     | TLM_WRITE_COMMAND \<Rightarrow> get_op (rm_get r) (\<lambda>n.
         bind_op (lift_op (memcpy_to (le_bytes 4 (ucast n)) off (tp_data t))) (\<lambda>bs.
         seq_op (bus_write r (ucast (of_le_bytes bs))) (ret_op (tp_data t))))
     | _ \<Rightarrow> fail_op (RuntimeError ''unsupported TLM command detected''))"

text \<open>
  \<open>nv\<close> is read as four bytes, whatever the length of the transaction is. The sum of the 32-bit length and the
  offset is a 64-bit sum in the source, which does not wrap.
\<close>

definition rm_try_handle :: "'s RegisterMapping \<Rightarrow> payload \<Rightarrow> ('s, payload option) op" where
  "rm_try_handle b t = (let addr = tp_address t; len = length (tp_data t); cmd = tp_command t in
     case find_reg (rb_regs b) (addr - addr mod 4) of
       None \<Rightarrow> ret_op None
     | Some r \<Rightarrow>
         seq_op (assert_op (len + unat (addr mod 4) \<le> 4)) (
         seq_op (assert_op (cmd = TLM_READ_COMMAND \<or> cmd = TLM_WRITE_COMMAND)) (
         seq_op (mode_op (rm_mode r) cmd) (
         bind_op (if cmd = TLM_WRITE_COMMAND then lift_op (load32 (tp_data t) 0) else ret_op 0) (\<lambda>nv.
         bind_op (rb_handler b \<lparr>ra_read = (cmd = TLM_READ_COMMAND), ra_write = (cmd = TLM_WRITE_COMMAND),
             ra_vptr = rm_addr r, ra_nv = nv, ra_addr = addr\<rparr> (rm_fn r t) (tp_data t)) (\<lambda>bs.
           ret_op (Some (t\<lparr>tp_data := bs\<rparr>))))))))"

section \<open>LocalRouter\<close>

datatype 's AbstractMapping = MapRange "'s AddressMapping" | MapBank "'s RegisterMapping"

fun try_handle :: "'s AbstractMapping \<Rightarrow> payload \<Rightarrow> ('s, payload option) op" where
  "try_handle (MapRange m) t = am_try_handle m t"
| "try_handle (MapBank b) t = rm_try_handle b t"

fun router_transport :: "string \<Rightarrow> 's AbstractMapping list \<Rightarrow> payload \<Rightarrow> ('s, payload) op" where
  "router_transport name [] t = fail_op (RuntimeError (''access of unmapped address (local TLM router): name='' @ name))"
| "router_transport name (m # ms) t =
     bind_op (try_handle m t) (\<lambda>r. case r of Some t' \<Rightarrow> ret_op t' | None \<Rightarrow> router_transport name ms t)"

primrec insert_registers :: "'s reg_mapping list \<Rightarrow> 's RegisterMapping \<Rightarrow> 's RegisterMapping res" where
  "insert_registers [] p = Inr p"
| "insert_registers (m # regs) p =
     assert_that (find_reg (rb_regs p) (rm_addr m) = None) (insert_registers regs (add_register m p))"

definition add_register_bank :: "'s reg_mapping list \<Rightarrow> 's reg_handler \<Rightarrow> 's AbstractMapping list \<Rightarrow> 's AbstractMapping list res" where
  "add_register_bank regs handler maps =
     bind_res (insert_registers regs \<lparr>rb_regs = [], rb_handler = handler\<rparr>) (\<lambda>p. Inr (maps @ [MapBank p]))"

definition add_start_end_mapping ::
  "u64 \<Rightarrow> u64 \<Rightarrow> access_mode \<Rightarrow> (payload \<Rightarrow> ('s, payload) op) \<Rightarrow> 's AbstractMapping list \<Rightarrow> 's AbstractMapping list" where
  "add_start_end_mapping s e mode handler maps =
     maps @ [MapRange \<lparr>am_start = s, am_end = e, am_mode = mode, am_handler = handler\<rparr>]"

definition add_start_size_mapping ::
  "u64 \<Rightarrow> u32 \<Rightarrow> access_mode \<Rightarrow> (payload \<Rightarrow> ('s, payload) op) \<Rightarrow> 's AbstractMapping list \<Rightarrow> 's AbstractMapping list" where
  "add_start_size_mapping s sz mode handler maps = add_start_end_mapping s (s + ucast sz) mode handler maps"

text \<open>A bank whose addresses differ is built as it is written.\<close>

lemma insert_registers_distinct:
  "distinct (map rm_addr (rb_regs p @ regs)) \<Longrightarrow> insert_registers regs p = Inr (p\<lparr>rb_regs := rb_regs p @ regs\<rparr>)"
proof (induction regs arbitrary: p)
  case (Cons m regs)
  have "find_reg (rb_regs p) (rm_addr m) = None"
    using Cons.prems by (auto simp: find_reg_def find_None_iff image_iff)
  then show ?case using Cons by (simp add: add_register_def)
qed simp

lemma add_register_bank_distinct:
  "distinct (map rm_addr regs) \<Longrightarrow> add_register_bank regs handler maps = Inr (maps @ [MapBank \<lparr>rb_regs = regs, rb_handler = handler\<rparr>])"
  by (simp add: add_register_bank_def insert_registers_distinct)

text \<open>Accesses of a whole register.\<close>

definition word_access :: "payload \<Rightarrow> bool" where
  "word_access t \<longleftrightarrow> tp_address t mod 4 = 0 \<and> length (tp_data t) = 4"

definition data_word :: "payload \<Rightarrow> u32" where
  "data_word t = ucast (of_le_bytes (tp_data t))"

lemma rm_fn_word_read:
  assumes "word_access t" "tp_command t = TLM_READ_COMMAND" "can_read (rm_mode r)"
  shows "rm_fn r t s = (Inr (le_bytes 4 (ucast (rm_get r s))), s)"
  using assms by (simp add: word_access_def rm_fn_def bus_read_def comb_defs memcpy_from_def del: le_bytes_numeral)

lemma rm_fn_word_write:
  assumes "word_access t" "tp_command t = TLM_WRITE_COMMAND" "can_write (rm_mode r)"
  shows "rm_fn r t s = (Inr (tp_data t), rm_put r (data_word t AND rm_mask r) s)"
  using assms by (simp add: word_access_def data_word_def rm_fn_def bus_write_def comb_defs memcpy_to_def del: le_bytes_numeral)

lemma rm_fn_no_write: "tp_command t \<noteq> TLM_WRITE_COMMAND \<Longrightarrow> \<exists>q. rm_fn r t s = (q, s)"
  by (cases "tp_command t") (auto simp: rm_fn_def Let_def bus_read_def comb_defs assert_that_def split: sum.splits prod.splits)

lemma preserves_no_write: "tp_command t \<noteq> TLM_WRITE_COMMAND \<Longrightarrow> preserves P (rm_fn r t)"
  unfolding preserves_def using rm_fn_no_write by (metis snd_conv)

lemma data_word_le_bytes: "data_word (t\<lparr>tp_data := le_bytes 4 (ucast v)\<rparr>) = v"
  using ucast_of_le_bytes_32 [of v] by (simp add: data_word_def del: le_bytes_numeral)

lemma load32_data_word: "word_access t \<Longrightarrow> load32 (tp_data t) 0 = Inr (data_word t)"
  by (simp add: word_access_def load32_def memcpy_from_def data_word_def)

text \<open>An access of a whole register that ends normally is a run of the handler, with the value written as \<open>nv\<close>.\<close>

definition word_access_of :: "payload \<Rightarrow> register_access" where
  "word_access_of t = \<lparr>ra_read = (tp_command t = TLM_READ_COMMAND), ra_write = (tp_command t = TLM_WRITE_COMMAND), ra_vptr = tp_address t,
     ra_nv = (if tp_command t = TLM_WRITE_COMMAND then data_word t else 0), ra_addr = tp_address t\<rparr>"

lemma bank_word_run:
  assumes "word_access t" "\<forall>r \<in> set regs. rm_mode r = read_write"
    "router_transport nm [MapBank \<lparr>rb_regs = regs, rb_handler = h\<rparr>] t s = (Inr t', s')"
  obtains r bs where "find_reg regs (tp_address t) = Some r" "tp_command t = TLM_READ_COMMAND \<or> tp_command t = TLM_WRITE_COMMAND"
    "h (word_access_of t) (rm_fn r t) (tp_data t) s = (Inr bs, s')" "t' = t\<lparr>tp_data := bs\<rparr>"
proof -
  have al: "tp_address t - tp_address t mod 4 = tp_address t" using assms(1) by (simp add: word_access_def)
  obtain r where r: "find_reg regs (tp_address t) = Some r"
    using assms(3) by (cases "find_reg regs (tp_address t)") (auto simp: rm_try_handle_def Let_def al op_run)
  then have m: "rm_addr r = tp_address t" "rm_mode r = read_write"
    using assms(2) by (auto simp: find_reg_def find_Some_iff)
  from assms(3) show ?thesis
    using that [OF r] load32_data_word [OF assms(1)]
    by (auto simp: rm_try_handle_def mode_op_def Let_def al r m op_run word_access_of_def access_mode_defs)
qed

section \<open>The contract of the handlers\<close>

definition access_of :: "'s reg_mapping \<Rightarrow> payload \<Rightarrow> u32 \<Rightarrow> register_access" where
  "access_of r t nv = \<lparr>ra_read = (tp_command t = TLM_READ_COMMAND), ra_write = (tp_command t = TLM_WRITE_COMMAND), ra_vptr = rm_addr r,
     ra_nv = nv, ra_addr = tp_address t\<rparr>"

lemma rm_fn_length: "rm_fn r t s = (Inr bs, s') \<Longrightarrow> length bs = length (tp_data t)"
  by (auto simp: rm_fn_def Let_def op_run split: tlm_command.splits dest: memcpy_from_length)

text \<open>A write that ends normally is a write of a whole register: \<open>nv\<close> needs four bytes, which fit only at its start.\<close>

lemma write_is_word:
  assumes "length (tp_data t) + unat (tp_address t mod 4) \<le> 4" "load32 (tp_data t) 0 = Inr nv"
  shows "word_access t \<and> nv = data_word t"
proof -
  have "length (tp_data t) = 4" "tp_address t mod 4 = 0"
    using assms load32_length [OF assms(2)] by (auto simp flip: unat_eq_0)
  then show ?thesis using assms(2) load32_data_word [of t] by (simp add: word_access_def)
qed

locale mapped_device =
  fixes name :: string and maps :: "'s AbstractMapping list" and inv :: "'s \<Rightarrow> bool"
  assumes range_inv: "MapRange m \<in> set maps \<Longrightarrow> preserves inv (am_handler m t)"
    and range_shape: "MapRange m \<in> set maps \<Longrightarrow> am_handler m t s = (Inr t', s') \<Longrightarrow>
      tp_command t' = tp_command t \<and> length (tp_data t') = length (tp_data t)"
    and bank_inv: "MapBank b \<in> set maps \<Longrightarrow> r \<in> set (rb_regs b) \<Longrightarrow>
      (tp_command t = TLM_WRITE_COMMAND \<Longrightarrow> word_access t \<and> nv = data_word t) \<Longrightarrow>
      preserves inv (rb_handler b (access_of r t nv) (rm_fn r t) (tp_data t))"
    and bank_shape: "MapBank b \<in> set maps \<Longrightarrow> (\<And>u bs u'. fn u = (Inr bs, u') \<Longrightarrow> length bs = length ds) \<Longrightarrow>
      rb_handler b a fn ds s = (Inr bs, s') \<Longrightarrow> length bs = length ds"
begin

lemma try_bank_inv:
  assumes "MapBank b \<in> set maps"
  shows "preserves inv (rm_try_handle b t)"
  unfolding preserves_def
proof (intro allI impI)
  fix s assume s: "inv s"
  show "inv (snd (rm_try_handle b t s))"
  proof (cases "find_reg (rb_regs b) (tp_address t - tp_address t mod 4)")
    case None
    then show ?thesis using s by (simp add: rm_try_handle_def Let_def comb_defs)
  next
    case (Some r)
    have r: "r \<in> set (rb_regs b)" using Some by (auto simp: find_reg_def find_Some_iff)
    have h: "inv (snd (rb_handler b (access_of r t nv) (rm_fn r t) (tp_data t) s))"
      if "tp_command t = TLM_WRITE_COMMAND \<Longrightarrow> word_access t \<and> nv = data_word t" for nv
      by (rule preserves_snd [OF bank_inv [OF assms r] s]) (rule that)
    show ?thesis
    proof (cases "tp_command t = TLM_WRITE_COMMAND")
      case True
      then show ?thesis
        using s h write_is_word [of t]
        by (auto simp: rm_try_handle_def Let_def Some mode_op_def comb_defs access_of_def split: sum.splits prod.splits)
    next
      case False
      then show ?thesis
        using s h [of 0]
        by (auto simp: rm_try_handle_def Let_def Some mode_op_def comb_defs access_of_def split: sum.splits prod.splits)
    qed
  qed
qed

lemma try_handle_inv:
  assumes "m \<in> set maps"
  shows "preserves inv (try_handle m t)"
proof (cases m)
  case (MapRange am)
  then show ?thesis
    using assms range_inv by (auto simp: am_try_handle_def mode_op_def Let_def intro!: preserves_rules)
next
  case (MapBank b)
  then show ?thesis using assms try_bank_inv by simp
qed

lemma try_handle_shape:
  assumes "m \<in> set maps" "try_handle m t s = (Inr (Some t'), s')"
  shows "tp_command t' = tp_command t \<and> length (tp_data t') = length (tp_data t)"
proof (cases m)
  case (MapRange am)
  then show ?thesis
    using assms range_shape [of am "t\<lparr>tp_address := tp_address t - am_start am\<rparr>" s t' s']
    by (auto simp: am_try_handle_def mode_op_def Let_def op_run split: if_splits)
next
  case (MapBank b)
  with assms obtain r a bs where h: "rb_handler b a (rm_fn r t) (tp_data t) s = (Inr bs, s')" "t' = t\<lparr>tp_data := bs\<rparr>"
    by (auto simp: rm_try_handle_def mode_op_def Let_def op_run split: option.splits if_splits)
  then show ?thesis
    using bank_shape [of b "rm_fn r t" "tp_data t" a s bs s'] assms MapBank rm_fn_length [of r t] by auto
qed

lemma transport_inv: "set ms \<subseteq> set maps \<Longrightarrow> preserves inv (router_transport nm ms t)"
proof (induction ms)
  case Nil
  show ?case by (simp add: preserves_basic)
next
  case (Cons m ms)
  then show ?case
    using try_handle_inv [of m t] by (auto intro!: preserves_rules split: option.splits)
qed

lemma transport_shape:
  "set ms \<subseteq> set maps \<Longrightarrow> router_transport nm ms t s = (Inr t', s') \<Longrightarrow>
     tp_command t' = tp_command t \<and> length (tp_data t') = length (tp_data t)"
proof (induction ms arbitrary: s)
  case (Cons m ms)
  from Cons.prems(2) obtain r u where r: "try_handle m t s = (Inr r, u)"
    "(case r of Some t' \<Rightarrow> ret_op t' | None \<Rightarrow> router_transport nm ms t) u = (Inr t', s')"
    unfolding router_transport.simps op_run by blast
  show ?case
  proof (cases r)
    case None
    then show ?thesis using Cons.IH [of u] Cons.prems(1) r(2) by simp
  next
    case (Some t1)
    then have "t' = t1" using r(2) by (simp add: op_run)
    then show ?thesis using try_handle_shape [of m t s t1 u] r(1) Some Cons.prems(1) by simp
  qed
qed (simp add: op_run)

end

sublocale mapped_device \<subseteq> target: tlm_target "op_target (router_transport name maps)" inv
proof unfold_locales
  fix d t d' t'
  assume "op_target (router_transport name maps) d t = Inr (d', t')"
  then have r: "router_transport name maps t d = (Inr t', d')"
    by (auto simp: op_target_def split: prod.splits sum.splits)
  from transport_shape [OF subset_refl r]
  show "tp_command t' = tp_command t \<and> length (tp_data t') = length (tp_data t)" .
  show "inv d'" if "inv d"
    using preservesD [OF transport_inv [OF subset_refl] that r] .
qed

text \<open>The simple case: every register and every handler keeps the invariant, whatever is written.\<close>

locale local_router =
  fixes name :: string and maps :: "'s AbstractMapping list" and inv :: "'s \<Rightarrow> bool"
  assumes banks_only: "m \<in> set maps \<Longrightarrow> \<exists>b. m = MapBank b"
    and register_inv: "MapBank b \<in> set maps \<Longrightarrow> r \<in> set (rb_regs b) \<Longrightarrow> inv s \<Longrightarrow> inv (rm_put r v s)"
    and handler_inv: "MapBank b \<in> set maps \<Longrightarrow> preserves inv fn \<Longrightarrow> preserves inv (rb_handler b a fn ds)"
    and handler_shape: "MapBank b \<in> set maps \<Longrightarrow> (\<And>u bs u'. fn u = (Inr bs, u') \<Longrightarrow> length bs = length ds) \<Longrightarrow>
      rb_handler b a fn ds s = (Inr bs, s') \<Longrightarrow> length bs = length ds"
begin

lemma fn_inv:
  assumes "MapBank b \<in> set maps" "r \<in> set (rb_regs b)"
  shows "preserves inv (rm_fn r t)"
proof -
  have "preserves inv (bus_write r v)" for v
    using register_inv [OF assms] unfolding bus_write_def by (intro preserves_rules preserves_modify) auto
  moreover have "preserves inv (bus_read r)"
    unfolding bus_read_def by (intro preserves_rules)
  ultimately show ?thesis
    unfolding rm_fn_def Let_def by (cases "tp_command t") (auto intro!: preserves_rules)
qed

end

sublocale local_router \<subseteq> mapped_device
  by unfold_locales (auto dest: banks_only intro: handler_inv [OF _ fn_inv] handler_shape)

end
