(* ===== verification/VP_Uart.thy ===== *)
theory VP_Uart
  imports VP_Tlm_Map
begin

text \<open>
  The UART (\<^verbatim>\<open>platform/common/uart_if.cpp\<close>): its registers, its two queues and the two semaphores by which the host
  threads wait for room in the receive queue and for data in the transmit queue. A thread that waits for a
  semaphore that is zero is \<open>Blocked\<close>. The interrupt controller is the argument \<open>gateway\<close>, an operation on its
  state \<open>'g\<close>. The mutexes make the sections between their locks atomic, as the operations of the model are.
\<close>

record 'g uart =
  ua_irq :: u32
  ua_txdata :: u32
  ua_rxdata :: u32
  ua_txctrl :: u32
  ua_rxctrl :: u32
  ua_ie :: u32
  ua_ip :: u32
  ua_div :: u32
  ua_tx_fifo :: "u8 list"
  ua_txfull :: nat
  ua_rx_fifo :: "u8 list"
  ua_rxempty :: nat
  ua_async_event :: bool
  ua_plic :: 'g

definition UART_TXWM :: u32 where "UART_TXWM = 1"
definition UART_RXWM :: u32 where "UART_RXWM = 2"
definition UART_FULL :: u32 where "UART_FULL = 0x80000000"
definition UART_FIFO_DEPTH :: nat where "UART_FIFO_DEPTH = 8"
definition UART_CTRL_CNT :: "u32 \<Rightarrow> u32" where "UART_CTRL_CNT REG = drop_bit 16 REG"

definition TXDATA_REG_ADDR :: u64 where "TXDATA_REG_ADDR = 0x0"
definition RXDATA_REG_ADDR :: u64 where "RXDATA_REG_ADDR = 0x4"
definition TXCTRL_REG_ADDR :: u64 where "TXCTRL_REG_ADDR = 0x8"
definition RXCTRL_REG_ADDR :: u64 where "RXCTRL_REG_ADDR = 0xC"
definition IE_REG_ADDR :: u64 where "IE_REG_ADDR = 0x10"
definition IP_REG_ADDR :: u64 where "IP_REG_ADDR = 0x14"
definition DIV_REG_ADDR :: u64 where "DIV_REG_ADDR = 0x18"

lemmas uart_addresses = TXDATA_REG_ADDR_def RXDATA_REG_ADDR_def TXCTRL_REG_ADDR_def RXCTRL_REG_ADDR_def IE_REG_ADDR_def
  IP_REG_ADDR_def DIV_REG_ADDR_def

definition uart_init :: "u32 \<Rightarrow> 'g \<Rightarrow> 'g uart" where
  "uart_init irqsrc plic = \<lparr>ua_irq = irqsrc, ua_txdata = 0, ua_rxdata = 0, ua_txctrl = 0, ua_rxctrl = 0, ua_ie = 0, ua_ip = 0, ua_div = 0,
     ua_tx_fifo = [], ua_txfull = 0, ua_rx_fifo = [], ua_rxempty = UART_FIFO_DEPTH, ua_async_event = False, ua_plic = plic\<rparr>"

definition uart_registers :: "'g uart reg_mapping list" where
  "uart_registers =
     [reg_at TXDATA_REG_ADDR ua_txdata (\<lambda>v s. s\<lparr>ua_txdata := v\<rparr>), reg_at RXDATA_REG_ADDR ua_rxdata (\<lambda>v s. s\<lparr>ua_rxdata := v\<rparr>),
      reg_at TXCTRL_REG_ADDR ua_txctrl (\<lambda>v s. s\<lparr>ua_txctrl := v\<rparr>), reg_at RXCTRL_REG_ADDR ua_rxctrl (\<lambda>v s. s\<lparr>ua_rxctrl := v\<rparr>),
      reg_at IE_REG_ADDR ua_ie (\<lambda>v s. s\<lparr>ua_ie := v\<rparr>), reg_at IP_REG_ADDR ua_ip (\<lambda>v s. s\<lparr>ua_ip := v\<rparr>),
      reg_at DIV_REG_ADDR ua_div (\<lambda>v s. s\<lparr>ua_div := v\<rparr>)]"

definition uart_notify :: "'g uart \<Rightarrow> 'g uart" where
  "uart_notify s = s\<lparr>ua_async_event := True\<rparr>"

section \<open>The sides of the host\<close>

definition swait_rxempty :: "('g uart, unit) op" where
  "swait_rxempty = update_res (\<lambda>s. if ua_rxempty s = 0 then Inl Blocked else Inr (s\<lparr>ua_rxempty := ua_rxempty s - 1\<rparr>))"

definition swait_txfull :: "('g uart, unit) op" where
  "swait_txfull = update_res (\<lambda>s. if ua_txfull s = 0 then Inl Blocked else Inr (s\<lparr>ua_txfull := ua_txfull s - 1\<rparr>))"

definition rxpush_locked :: "u8 \<Rightarrow> ('g uart, unit) op" where
  "rxpush_locked data = modify_op (\<lambda>s. uart_notify (s\<lparr>ua_rx_fifo := ua_rx_fifo s @ [data]\<rparr>))"

definition rxpush :: "u8 \<Rightarrow> ('g uart, unit) op" where
  "rxpush data = seq_op swait_rxempty (rxpush_locked data)"

definition txpull_locked :: "('g uart, u8) op" where
  "txpull_locked = get_op ua_tx_fifo (\<lambda>fifo. case fifo of [] \<Rightarrow> ret_op 0
     | data # rest \<Rightarrow> seq_op (modify_op (\<lambda>s. s\<lparr>ua_tx_fifo := rest\<rparr>)) (ret_op data))"

definition txpull :: "('g uart, u8) op" where
  "txpull = seq_op swait_txfull txpull_locked"

section \<open>The side of the bus\<close>

definition tx_watermark :: "'g uart \<Rightarrow> bool" where
  "tx_watermark s \<longleftrightarrow> length (ua_tx_fifo s) < unat (UART_CTRL_CNT (ua_txctrl s))"

definition rx_watermark :: "'g uart \<Rightarrow> bool" where
  "rx_watermark s \<longleftrightarrow> length (ua_rx_fifo s) > unat (UART_CTRL_CNT (ua_rxctrl s))"

definition uart_before_read :: "u64 \<Rightarrow> 'g uart \<Rightarrow> 'g uart" where
  "uart_before_read vptr s =
     (if vptr = TXDATA_REG_ADDR then s\<lparr>ua_txdata := (if length (ua_tx_fifo s) \<ge> UART_FIFO_DEPTH then UART_FULL else 0)\<rparr>
      else if vptr = RXDATA_REG_ADDR then
        (case ua_rx_fifo s of
           [] \<Rightarrow> s\<lparr>ua_rxdata := 0x80000000\<rparr>
         | data # rest \<Rightarrow> s\<lparr>ua_rxdata := ucast data, ua_rx_fifo := rest, ua_rxempty := ua_rxempty s + 1\<rparr>)
      else if vptr = IP_REG_ADDR then
        s\<lparr>ua_ip := (if tx_watermark s then UART_TXWM else 0) OR (if rx_watermark s then UART_RXWM else 0)\<rparr>
      else s)"

definition uart_threshold_lowered :: "register_access \<Rightarrow> 'g uart \<Rightarrow> bool" where
  "uart_threshold_lowered r s \<longleftrightarrow> ra_write r \<and>
     (ra_vptr r = TXCTRL_REG_ADDR \<and> UART_CTRL_CNT (ra_nv r) < UART_CTRL_CNT (ua_txctrl s) \<or>
      ra_vptr r = RXCTRL_REG_ADDR \<and> UART_CTRL_CNT (ra_nv r) < UART_CTRL_CNT (ua_rxctrl s))"

definition uart_transmit :: "'g uart \<Rightarrow> 'g uart" where
  "uart_transmit s = (if length (ua_tx_fifo s) \<ge> UART_FIFO_DEPTH then s
     else s\<lparr>ua_tx_fifo := ua_tx_fifo s @ [ucast (ua_txdata s)], ua_txfull := ua_txfull s + 1\<rparr>)"

definition uart_register_access_callback :: "'g uart reg_handler" where
  "uart_register_access_callback r fn ds =
     seq_op (when_op (ra_read r) (modify_op (uart_before_read (ra_vptr r)))) (
     get_op (uart_threshold_lowered r) (\<lambda>notify.
     bind_op fn (\<lambda>bs.
     seq_op (when_op (notify \<or> ra_write r \<and> ra_vptr r = IE_REG_ADDR) (modify_op uart_notify)) (
     seq_op (when_op (ra_write r \<and> ra_vptr r = TXDATA_REG_ADDR) (modify_op uart_transmit)) (ret_op bs)))))"

definition uart_maps :: "'g uart AbstractMapping list" where
  "uart_maps = [MapBank \<lparr>rb_regs = uart_registers, rb_handler = uart_register_access_callback\<rparr>]"

definition uart_transport :: "payload \<Rightarrow> ('g uart, payload) op" where
  "uart_transport = router_transport ''UART'' uart_maps"

definition uart_interrupt :: "(u32 \<Rightarrow> ('g, unit) op) \<Rightarrow> ('g uart, unit) op" where
  "uart_interrupt gateway = get_op (\<lambda>s. ua_ie s AND UART_RXWM \<noteq> 0 \<and> rx_watermark s \<or> ua_ie s AND UART_TXWM \<noteq> 0 \<and> tx_watermark s) (\<lambda>trigger.
     when_op trigger (\<lambda>s. case gateway (ua_irq s) (ua_plic s) of (r, g) \<Rightarrow> (r, s\<lparr>ua_plic := g\<rparr>)))"

lemma uart_router_built: "add_register_bank uart_registers uart_register_access_callback [] = Inr uart_maps"
  by (simp add: add_register_bank_distinct uart_maps_def uart_registers_def reg_at_def uart_addresses)

section \<open>What no access of the bus changes\<close>

definition uart_queues_wf :: "nat \<Rightarrow> nat \<Rightarrow> 'g uart \<Rightarrow> bool" where
  "uart_queues_wf rx tx s \<longleftrightarrow> length (ua_rx_fifo s) + ua_rxempty s + rx = UART_FIFO_DEPTH \<and>
     ua_txfull s + tx = length (ua_tx_fifo s) \<and> length (ua_tx_fifo s) \<le> UART_FIFO_DEPTH"

lemma uart_queues_wf_updates:
  "uart_queues_wf rx tx (uart_before_read v s) = uart_queues_wf rx tx s"
  "uart_queues_wf rx tx (uart_notify s) = uart_queues_wf rx tx s"
  "uart_queues_wf rx tx (uart_transmit s) = uart_queues_wf rx tx s"
  by (auto simp: uart_queues_wf_def uart_before_read_def uart_notify_def uart_transmit_def split: list.splits)

interpretation uart: local_router "''UART''" "uart_maps :: 'g uart AbstractMapping list" "uart_queues_wf rx tx" for rx tx
proof unfold_locales
  fix b :: "'g uart RegisterMapping" and r v a ds bs s' and s :: "'g uart" and fn :: "('g uart, u8 list) op"
  assume b: "MapBank b \<in> set uart_maps"
  then have h: "rb_handler b = uart_register_access_callback" and regs: "rb_regs b = uart_registers" by (simp_all add: uart_maps_def)
  show "uart_queues_wf rx tx (rm_put r v s)" if "r \<in> set (rb_regs b)" "uart_queues_wf rx tx s"
    using that unfolding regs by (auto simp: uart_registers_def reg_at_def uart_queues_wf_def)
  show "preserves (uart_queues_wf rx tx) (rb_handler b a fn ds)" if "preserves (uart_queues_wf rx tx) fn"
    unfolding h uart_register_access_callback_def
    by (intro preserves_rules preserves_modify that) (simp_all add: uart_queues_wf_updates)
  show "length bs = length ds" if "\<And>u bs u'. fn u = (Inr bs, u') \<Longrightarrow> length bs = length ds" "rb_handler b a fn ds s = (Inr bs, s')"
    using that by (auto simp: h uart_register_access_callback_def op_run)
qed (simp_all add: uart_maps_def)

end
