(* ===== verification/VP_Uart_Props.thy ===== *)
theory VP_Uart_Props
  imports VP_Uart
begin

text \<open>
  The UART between software and host: the accesses of the bus, the two host threads (each first waits for its
  semaphore and then enters its locked section, so that the others may run in between) and the interrupt method
  interleave in any order. No byte is lost, duplicated or reordered in either direction, and the
  semaphores count exactly the room and the data there is.
\<close>

section \<open>The threads\<close>

record 'g uart_system =
  us_uart :: "'g uart"
  us_rx :: "u8 option"
  us_tx :: bool

datatype uart_event = RxIn u8 | SwRead u8 | SwWrite u8 | TxOut u8

definition bus_events :: "'g uart \<Rightarrow> payload \<Rightarrow> payload \<Rightarrow> uart_event list" where
  "bus_events u t t' =
     (if tp_command t = TLM_READ_COMMAND \<and> tp_address t = RXDATA_REG_ADDR \<and> \<not> bit (data_word t') 31 then [SwRead (ucast (data_word t'))]
      else if tp_command t = TLM_WRITE_COMMAND \<and> tp_address t = TXDATA_REG_ADDR \<and> length (ua_tx_fifo u) < UART_FIFO_DEPTH
      then [SwWrite (ucast (data_word t))] else [])"

inductive uart_step :: "(u32 \<Rightarrow> ('g, unit) op) \<Rightarrow> 'g uart_system \<Rightarrow> uart_event list \<Rightarrow> 'g uart_system \<Rightarrow> bool" for gateway where
  bus: "word_access t \<Longrightarrow> uart_transport t (us_uart s) = (Inr t', u) \<Longrightarrow>
      uart_step gateway s (bus_events (us_uart s) t t') (s\<lparr>us_uart := u\<rparr>)"
| rx_wait: "us_rx s = None \<Longrightarrow> swait_rxempty (us_uart s) = (Inr (), u) \<Longrightarrow>
      uart_step gateway s [] (s\<lparr>us_uart := u, us_rx := Some b\<rparr>)"
| rx_push: "us_rx s = Some b \<Longrightarrow> rxpush_locked b (us_uart s) = (Inr (), u) \<Longrightarrow>
      uart_step gateway s [RxIn b] (s\<lparr>us_uart := u, us_rx := None\<rparr>)"
| tx_wait: "\<not> us_tx s \<Longrightarrow> swait_txfull (us_uart s) = (Inr (), u) \<Longrightarrow>
      uart_step gateway s [] (s\<lparr>us_uart := u, us_tx := True\<rparr>)"
| tx_pull: "us_tx s \<Longrightarrow> txpull_locked (us_uart s) = (Inr b, u) \<Longrightarrow>
      uart_step gateway s [TxOut b] (s\<lparr>us_uart := u, us_tx := False\<rparr>)"
| interrupt: "ua_async_event (us_uart s) \<Longrightarrow> uart_interrupt gateway ((us_uart s)\<lparr>ua_async_event := False\<rparr>) = (Inr (), u) \<Longrightarrow>
      uart_step gateway s [] (s\<lparr>us_uart := u\<rparr>)"

inductive uart_run :: "(u32 \<Rightarrow> ('g, unit) op) \<Rightarrow> 'g uart_system \<Rightarrow> uart_event list \<Rightarrow> 'g uart_system \<Rightarrow> bool" for gateway s where
  start: "uart_run gateway s [] s"
| step: "uart_run gateway s tr s' \<Longrightarrow> uart_step gateway s' ev s'' \<Longrightarrow> uart_run gateway s (tr @ ev) s''"

definition uart_system_init :: "u32 \<Rightarrow> 'g \<Rightarrow> 'g uart_system" where
  "uart_system_init irq plic = \<lparr>us_uart = uart_init irq plic, us_rx = None, us_tx = False\<rparr>"

text \<open>What went in and out of the two queues.\<close>

definition rx_in :: "uart_event list \<Rightarrow> u8 list" where "rx_in tr = List.map_filter (\<lambda>e. case e of RxIn b \<Rightarrow> Some b | _ \<Rightarrow> None) tr"
definition sw_reads :: "uart_event list \<Rightarrow> u8 list" where "sw_reads tr = List.map_filter (\<lambda>e. case e of SwRead b \<Rightarrow> Some b | _ \<Rightarrow> None) tr"
definition sw_writes :: "uart_event list \<Rightarrow> u8 list" where "sw_writes tr = List.map_filter (\<lambda>e. case e of SwWrite b \<Rightarrow> Some b | _ \<Rightarrow> None) tr"
definition tx_out :: "uart_event list \<Rightarrow> u8 list" where "tx_out tr = List.map_filter (\<lambda>e. case e of TxOut b \<Rightarrow> Some b | _ \<Rightarrow> None) tr"

lemma map_filter_append: "List.map_filter f (xs @ ys) = List.map_filter f xs @ List.map_filter f ys"
  by (induction xs) (simp_all add: map_filter_def)

lemmas uart_traces = rx_in_def sw_reads_def sw_writes_def tx_out_def map_filter_append map_filter_simps

section \<open>Accesses of the bus\<close>

lemma uart_register:
  assumes "find_reg uart_registers a = Some r"
  shows "rm_mode r = read_write" "rm_addr r = a" "rm_mask r = -1"
    "a = TXDATA_REG_ADDR \<Longrightarrow> rm_put r v s = s\<lparr>ua_txdata := v\<rparr>"
    "a = RXDATA_REG_ADDR \<Longrightarrow> rm_get r s = ua_rxdata s"
    "ua_tx_fifo (rm_put r v s) = ua_tx_fifo s" "ua_rx_fifo (rm_put r v s) = ua_rx_fifo s"
  using assms by (auto simp: find_reg_def uart_registers_def reg_at_def uart_addresses split: if_splits)

lemma uart_before_read_fifos:
  "ua_tx_fifo (uart_before_read v u) = ua_tx_fifo u"
  "v \<noteq> RXDATA_REG_ADDR \<Longrightarrow> ua_rx_fifo (uart_before_read v u) = ua_rx_fifo u"
  by (auto simp: uart_before_read_def split: list.splits)

lemma rxdata_read:
  "ua_rx_fifo u = (if bit (ua_rxdata (uart_before_read RXDATA_REG_ADDR u)) 31 then [] else [ucast (ua_rxdata (uart_before_read RXDATA_REG_ADDR u))]) @
     ua_rx_fifo (uart_before_read RXDATA_REG_ADDR u)"
proof (cases "ua_rx_fifo u")
  case (Cons b bs)
  have "\<not> bit (ucast b :: u32) 31" "ucast (ucast b :: u32) = b" by (auto simp: bit_simps dest: bit_imp_le_length intro: bit_word_eqI)
  then show ?thesis using Cons by (simp add: uart_before_read_def uart_addresses)
qed (simp add: uart_before_read_def uart_addresses bit_numeral_rec)

lemma uart_bus_read:
  assumes "find_reg uart_registers (tp_address t) = Some r" "word_access t" "tp_command t = TLM_READ_COMMAND"
    "uart_register_access_callback (word_access_of t) (rm_fn r t) ds u = (Inr bs, u')"
  shows "u' = uart_before_read (tp_address t) u" "bs = le_bytes 4 (ucast (rm_get r u'))"
  using assms(4) rm_fn_word_read [OF assms(2,3), of r] uart_register(1) [OF assms(1)] assms(3)
  by (auto simp: uart_register_access_callback_def word_access_of_def uart_threshold_lowered_def op_run access_mode_defs simp del: le_bytes_numeral)

lemma uart_bus_write:
  assumes "find_reg uart_registers (tp_address t) = Some r" "word_access t" "tp_command t = TLM_WRITE_COMMAND"
    "uart_register_access_callback (word_access_of t) (rm_fn r t) ds u = (Inr bs, u')"
  shows "\<exists>v. v \<in> {rm_put r (data_word t) u, uart_notify (rm_put r (data_word t) u)} \<and>
    u' = (if tp_address t = TXDATA_REG_ADDR then uart_transmit v else v)"
  using assms(4) rm_fn_word_write [OF assms(2,3), of r] uart_register(1,3) [OF assms(1)] assms(3)
  by (auto simp: uart_register_access_callback_def word_access_of_def op_run access_mode_defs split: if_splits)

lemma uart_bus_fifos:
  assumes "word_access t" "uart_transport t u = (Inr t', u')"
  shows "ua_rx_fifo u = sw_reads (bus_events u t t') @ ua_rx_fifo u'" "ua_tx_fifo u' = ua_tx_fifo u @ sw_writes (bus_events u t t')"
proof -
  have modes: "\<forall>r \<in> set uart_registers. rm_mode r = read_write" by (simp add: uart_registers_def reg_at_def)
  from bank_word_run [OF assms(1) modes assms(2) [unfolded uart_transport_def uart_maps_def]]
  obtain r bs where r: "find_reg uart_registers (tp_address t) = Some r" and c: "tp_command t = TLM_READ_COMMAND \<or> tp_command t = TLM_WRITE_COMMAND"
    and h: "uart_register_access_callback (word_access_of t) (rm_fn r t) (tp_data t) u = (Inr bs, u')" and t': "t' = t\<lparr>tp_data := bs\<rparr>" .
  note reg = uart_register [OF r]
  have "ua_rx_fifo u = sw_reads (bus_events u t t') @ ua_rx_fifo u' \<and> ua_tx_fifo u' = ua_tx_fifo u @ sw_writes (bus_events u t t')"
    using c
  proof
    assume read: "tp_command t = TLM_READ_COMMAND"
    note b = uart_bus_read [OF r assms(1) read h]
    have "data_word t' = rm_get r u'" unfolding t' b(2) by (rule data_word_le_bytes)
    then show ?thesis
      using rxdata_read [of u] uart_before_read_fifos [of "tp_address t" u] reg(5) [of u'] read
      by (cases "tp_address t = RXDATA_REG_ADDR") (auto simp: bus_events_def b(1) uart_traces)
  next
    assume wr: "tp_command t = TLM_WRITE_COMMAND"
    from uart_bus_write [OF r assms(1) wr h] obtain v where
      v: "v \<in> {rm_put r (data_word t) u, uart_notify (rm_put r (data_word t) u)}" "u' = (if tp_address t = TXDATA_REG_ADDR then uart_transmit v else v)" by blast
    have "ua_rx_fifo v = ua_rx_fifo u" "ua_tx_fifo v = ua_tx_fifo u" "tp_address t = TXDATA_REG_ADDR \<Longrightarrow> ua_txdata v = data_word t"
      using v(1) reg(4,6,7) by (auto simp: uart_notify_def)
    then show ?thesis
      using v(2) wr by (auto simp: bus_events_def uart_traces uart_transmit_def)
  qed
  then show "ua_rx_fifo u = sw_reads (bus_events u t t') @ ua_rx_fifo u'" "ua_tx_fifo u' = ua_tx_fifo u @ sw_writes (bus_events u t t')"
    by simp_all
qed

section \<open>Every interleaving\<close>

definition uart_system_inv :: "uart_event list \<Rightarrow> 'g uart_system \<Rightarrow> bool" where
  "uart_system_inv tr s \<longleftrightarrow>
     uart_queues_wf (if us_rx s = None then 0 else 1) (if us_tx s then 1 else 0) (us_uart s) \<and>
     rx_in tr = sw_reads tr @ ua_rx_fifo (us_uart s) \<and> sw_writes tr = tx_out tr @ ua_tx_fifo (us_uart s)"

lemma bus_events_kinds: "rx_in (bus_events u t t') = []" "tx_out (bus_events u t t') = []"
  by (simp_all add: bus_events_def uart_traces)

lemma uart_step_inv: "uart_step gateway s ev s' \<Longrightarrow> uart_system_inv tr s \<Longrightarrow> uart_system_inv (tr @ ev) s'"
proof (induction rule: uart_step.induct)
  case (bus t s t' u)
  have "uart_queues_wf (if us_rx s = None then 0 else 1) (if us_tx s then 1 else 0) u"
    using preservesD [OF uart.transport_inv [OF subset_refl] _ bus(2) [unfolded uart_transport_def]] bus.prems
    by (simp add: uart_system_inv_def)
  then show ?case
    using bus.prems uart_bus_fifos [OF bus(1,2)] bus_events_kinds [of "us_uart s" t t']
    by (simp add: uart_system_inv_def rx_in_def sw_reads_def sw_writes_def tx_out_def map_filter_append)
next
  case (tx_pull s b u)
  then show ?case
    by (cases "ua_tx_fifo (us_uart s)")
      (auto simp: uart_system_inv_def uart_queues_wf_def txpull_locked_def op_run uart_traces)
next
  case (interrupt s u)
  then show ?case
    by (auto simp: uart_system_inv_def uart_queues_wf_def uart_interrupt_def op_run uart_traces split: if_splits prod.splits)
qed (auto simp: uart_system_inv_def uart_queues_wf_def swait_rxempty_def swait_txfull_def rxpush_locked_def uart_notify_def op_run uart_traces
    split: if_splits)

lemma uart_run_inv: "uart_run gateway (uart_system_init irq plic) tr s \<Longrightarrow> uart_system_inv tr s"
proof (induction rule: uart_run.induct)
  case start
  show ?case by (simp add: uart_system_inv_def uart_system_init_def uart_init_def uart_queues_wf_def uart_traces)
next
  case (step tr s' ev s'')
  then show ?case by (simp add: uart_step_inv)
qed


definition example_rxdata_read :: payload where
  "example_rxdata_read = \<lparr>tp_command = TLM_READ_COMMAND, tp_address = 4, tp_data = [0, 0, 0, 0], tp_response = TLM_OK_RESPONSE\<rparr>"

lemma example_uart_run:
  "\<exists>s. uart_run (\<lambda>_. ret_op ()) (uart_system_init 3 ()) [RxIn 65, SwRead 65] s"
proof -
  let ?g = "\<lambda>_ :: u32. ret_op () :: (unit, unit) op" and ?s0 = "uart_system_init 3 ()"
  let ?s1 = "?s0\<lparr>us_uart := (us_uart ?s0)\<lparr>ua_rxempty := 7\<rparr>, us_rx := Some 65\<rparr>"
  let ?s2 = "?s1\<lparr>us_uart := uart_notify ((us_uart ?s1)\<lparr>ua_rx_fifo := [65]\<rparr>), us_rx := None\<rparr>"
  let ?u = "uart_before_read 4 (us_uart ?s2)" and ?t = "example_rxdata_read\<lparr>tp_data := [65, 0, 0, 0]\<rparr>"
  have st1: "uart_step ?g ?s0 [] ?s1"
    by (rule uart_step.rx_wait) (simp_all add: uart_system_init_def uart_init_def swait_rxempty_def op_run UART_FIFO_DEPTH_def)
  have st2: "uart_step ?g ?s1 [RxIn 65] ?s2"
    by (rule uart_step.rx_push) (simp_all add: uart_system_init_def uart_init_def rxpush_locked_def op_run)
  have st3: "uart_step ?g ?s2 (bus_events (us_uart ?s2) example_rxdata_read ?t) (?s2\<lparr>us_uart := ?u\<rparr>)"
  proof (rule uart_step.bus)
    show "word_access example_rxdata_read" by (simp add: word_access_def example_rxdata_read_def)
    show "uart_transport example_rxdata_read (us_uart ?s2) = (Inr ?t, ?u)"
      by (simp add: uart_transport_def uart_maps_def rm_try_handle_def uart_registers_def reg_at_def find_reg_def uart_addresses
          example_rxdata_read_def Let_def mode_op_def access_mode_defs uart_register_access_callback_def uart_threshold_lowered_def
          rm_fn_def bus_read_def memcpy_from_def uart_before_read_def uart_system_init_def uart_init_def uart_notify_def comb_defs)
  qed
  have ev: "bus_events (us_uart ?s2) example_rxdata_read ?t = [SwRead 65]"
    by (simp add: bus_events_def example_rxdata_read_def uart_addresses data_word_def)
  have "uart_run ?g ?s0 ((([] @ []) @ [RxIn 65]) @ [SwRead 65]) (?s2\<lparr>us_uart := ?u\<rparr>)"
    by (rule uart_run.step [OF uart_run.step [OF uart_run.step [OF uart_run.start st1] st2] st3 [unfolded ev]])
  then show ?thesis unfolding append_Nil append_Cons by blast
qed


text \<open>The transmit watermark is not notified when it is reached by a higher threshold.\<close>

lemma raised_tx_threshold_not_notified:
  assumes "word_access t" "tp_command t = TLM_WRITE_COMMAND" "tp_address t = TXCTRL_REG_ADDR" "uart_transport t u = (Inr t', u')"
    "UART_CTRL_CNT (ua_txctrl u) \<le> UART_CTRL_CNT (data_word t)"
  shows "ua_txctrl u' = data_word t" "ua_async_event u' = ua_async_event u"
proof -
  have modes: "\<forall>r \<in> set uart_registers. rm_mode r = read_write" by (simp add: uart_registers_def reg_at_def)
  from bank_word_run [OF assms(1) modes assms(4) [unfolded uart_transport_def uart_maps_def]]
  obtain r bs where r: "find_reg uart_registers (tp_address t) = Some r"
    and h: "uart_register_access_callback (word_access_of t) (rm_fn r t) (tp_data t) u = (Inr bs, u')" .
  have "rm_put r v s = s\<lparr>ua_txctrl := v\<rparr>" for v s
    using r assms(3) by (auto simp: find_reg_def uart_registers_def reg_at_def uart_addresses split: if_splits)
  then have "u' = u\<lparr>ua_txctrl := data_word t\<rparr>"
    using h rm_fn_word_write [OF assms(1,2), of r] uart_register(1,3) [OF r] assms(2,3,5)
    by (auto simp: uart_register_access_callback_def uart_threshold_lowered_def word_access_of_def op_run access_mode_defs uart_addresses)
  then show "ua_txctrl u' = data_word t" "ua_async_event u' = ua_async_event u" by simp_all
qed

end
