(* ===== verification/VP_Devices.thy ===== *)
theory VP_Devices
  imports VP_Tlm_Map
begin

text \<open>
  Devices without host I/O built on the router: the always-on domain and the clock control of the HiFive board and of the
  Linux platforms (\<^verbatim>\<open>platform/hifive/aon.h\<close>, \<^verbatim>\<open>platform/hifive/prci.h\<close>, \<^verbatim>\<open>platform/linux/prci.h\<close>), the SPI controller
  (\<^verbatim>\<open>platform/hifive/spi.h\<close>), and the sensors of the basic platform (\<^verbatim>\<open>platform/basic/sensor.h\<close>, \<^verbatim>\<open>sensor2.h\<close>). The results
  of \<^verbatim>\<open>rand\<close> are an argument, the devices behind the SPI controller are operations on their state \<open>'d\<close>, the
  interrupt controller is an operation on its state \<open>'g\<close>.

  The locale \<open>plain_bank\<close> is the contract of registers that only store: what is written is read back, and the other
  registers keep their values.
\<close>

section \<open>Banks that only store\<close>

definition plain_callback :: "'s reg_handler" where
  "plain_callback r fn ds = fn"

locale plain_bank =
  fixes name :: string and regs :: "'s reg_mapping list"
  assumes distinct_addresses: "distinct (map rm_addr regs)"
    and plain: "r \<in> set regs \<Longrightarrow> rm_mode r = read_write \<and> rm_mask r = -1"
    and get_put: "r \<in> set regs \<Longrightarrow> rm_get r (rm_put r v s) = v"
    and get_put_other: "r \<in> set regs \<Longrightarrow> r' \<in> set regs \<Longrightarrow> rm_addr r' \<noteq> rm_addr r \<Longrightarrow> rm_get r' (rm_put r v s) = rm_get r' s"
begin

abbreviation plain_maps :: "'s AbstractMapping list" where
  "plain_maps \<equiv> [MapBank \<lparr>rb_regs = regs, rb_handler = plain_callback\<rparr>]"

lemma built: "add_register_bank regs plain_callback [] = Inr plain_maps"
  by (simp add: add_register_bank_distinct distinct_addresses)

lemma plain_transport:
  assumes "find_reg regs (tp_address t) = Some r" "word_access t"
  shows "tp_command t = TLM_READ_COMMAND \<Longrightarrow> router_transport name plain_maps t s = (Inr (t\<lparr>tp_data := le_bytes 4 (ucast (rm_get r s))\<rparr>), s)"
    "tp_command t = TLM_WRITE_COMMAND \<Longrightarrow> router_transport name plain_maps t s = (Inr t, rm_put r (data_word t) s)"
proof -
  have r: "r \<in> set regs" "rm_mode r = read_write" "rm_mask r = -1"
    using assms(1) plain [of r] by (auto simp: find_reg_def find_Some_iff)
  have al: "tp_address t - tp_address t mod 4 = tp_address t" "length (tp_data t) + unat (tp_address t mod 4) \<le> 4"
    using assms(2) by (simp_all add: word_access_def)
  show "router_transport name plain_maps t s = (Inr (t\<lparr>tp_data := le_bytes 4 (ucast (rm_get r s))\<rparr>), s)" if "tp_command t = TLM_READ_COMMAND"
    using that rm_fn_word_read [OF assms(2) that, of r] r al assms(1)
    by (simp add: rm_try_handle_def Let_def mode_op_def plain_callback_def comb_defs access_mode_defs del: le_bytes_numeral)
  show "router_transport name plain_maps t s = (Inr t, rm_put r (data_word t) s)" if "tp_command t = TLM_WRITE_COMMAND"
    using that rm_fn_word_write [OF assms(2) that, of r] r al assms(1) load32_data_word [OF assms(2)]
    by (simp add: rm_try_handle_def Let_def mode_op_def plain_callback_def comb_defs access_mode_defs)
qed

lemma write_read:
  assumes w: "find_reg regs (tp_address w) = Some r" "word_access w" "tp_command w = TLM_WRITE_COMMAND"
    and t: "find_reg regs (tp_address t) = Some r'" "word_access t" "tp_command t = TLM_READ_COMMAND"
  shows "\<exists>s' t'. router_transport name plain_maps w s = (Inr w, s') \<and> router_transport name plain_maps t s' = (Inr t', s') \<and>
    data_word t' = (if tp_address t = tp_address w then data_word w else rm_get r' s)"
proof -
  have r: "r \<in> set regs" "r' \<in> set regs" "rm_addr r = tp_address w" "rm_addr r' = tp_address t"
    using w(1) t(1) by (auto simp: find_reg_def find_Some_iff)
  have "rm_get r' (rm_put r (data_word w) s) = (if tp_address t = tp_address w then data_word w else rm_get r' s)"
    using r get_put get_put_other w(1) t(1) by auto
  then show ?thesis
    using plain_transport(2) [OF w] plain_transport(1) [OF t] by (auto simp: data_word_le_bytes simp del: le_bytes_numeral)
qed

end

section \<open>The always-on domain\<close>

text \<open>The registers \<^verbatim>\<open>backup0\<close> to \<^verbatim>\<open>backup31\<close> are a function of their number.\<close>

record aon =
  aon_wdogcfg :: u32
  aon_wdogcount :: u32
  aon_wdogfeed :: u32
  aon_wdogkey :: u32
  aon_wdogcmp0 :: u32
  aon_lfrosccfg :: u32
  aon_pmucause :: u32
  aon_rtccfg :: u32
  aon_rtccountlo :: u32
  aon_rtccounthi :: u32
  aon_rtcs :: u32
  aon_rtccmp0 :: u32
  aon_backup :: "nat \<Rightarrow> u32"

definition aon_init :: aon where
  "aon_init = \<lparr>aon_wdogcfg = 0, aon_wdogcount = 0, aon_wdogfeed = 0, aon_wdogkey = 0, aon_wdogcmp0 = 0, aon_lfrosccfg = 0,
     aon_pmucause = 0x100, aon_rtccfg = 0, aon_rtccountlo = 0, aon_rtccounthi = 0, aon_rtcs = 0, aon_rtccmp0 = 0, aon_backup = (\<lambda>_. 0)\<rparr>"

definition aon_backup_register :: "nat \<Rightarrow> aon reg_mapping" where
  "aon_backup_register i = reg_at (0x80 + 4 * of_nat i) (\<lambda>s. aon_backup s i) (\<lambda>v s. s\<lparr>aon_backup := (aon_backup s)(i := v)\<rparr>)"

definition aon_registers :: "aon reg_mapping list" where
  "aon_registers =
     [reg_at 0x000 aon_wdogcfg (\<lambda>v s. s\<lparr>aon_wdogcfg := v\<rparr>), reg_at 0x010 aon_wdogcount (\<lambda>v s. s\<lparr>aon_wdogcount := v\<rparr>),
      reg_at 0x018 aon_wdogfeed (\<lambda>v s. s\<lparr>aon_wdogfeed := v\<rparr>), reg_at 0x01C aon_wdogkey (\<lambda>v s. s\<lparr>aon_wdogkey := v\<rparr>),
      reg_at 0x020 aon_wdogcmp0 (\<lambda>v s. s\<lparr>aon_wdogcmp0 := v\<rparr>), reg_at 0x040 aon_rtccfg (\<lambda>v s. s\<lparr>aon_rtccfg := v\<rparr>),
      reg_at 0x048 aon_rtccountlo (\<lambda>v s. s\<lparr>aon_rtccountlo := v\<rparr>), reg_at 0x04C aon_rtccounthi (\<lambda>v s. s\<lparr>aon_rtccounthi := v\<rparr>),
      reg_at 0x050 aon_rtcs (\<lambda>v s. s\<lparr>aon_rtcs := v\<rparr>), reg_at 0x060 aon_rtccmp0 (\<lambda>v s. s\<lparr>aon_rtccmp0 := v\<rparr>),
      reg_at 0x070 aon_lfrosccfg (\<lambda>v s. s\<lparr>aon_lfrosccfg := v\<rparr>), reg_at 0x144 aon_pmucause (\<lambda>v s. s\<lparr>aon_pmucause := v\<rparr>)] @
     map aon_backup_register [0..<32]"

definition aon_transport :: "payload \<Rightarrow> (aon, payload) op" where
  "aon_transport = router_transport ''AON'' [MapBank \<lparr>rb_regs = aon_registers, rb_handler = plain_callback\<rparr>]"

interpretation aon: plain_bank "''AON''" aon_registers
proof unfold_locales
  show "distinct (map rm_addr aon_registers)"
    by (simp add: aon_registers_def reg_at_def upt_rec aon_backup_register_def)
  fix r r' v s assume r: "r \<in> set aon_registers"
  show "rm_mode r = read_write \<and> rm_mask r = -1" "rm_get r (rm_put r v s) = v"
    using r by (auto simp: aon_registers_def reg_at_def aon_backup_register_def)
  assume "r' \<in> set aon_registers" "rm_addr r' \<noteq> rm_addr r"
  then show "rm_get r' (rm_put r v s) = rm_get r' s"
    using r by (auto simp: aon_registers_def reg_at_def aon_backup_register_def)
qed

section \<open>The clock control of the Linux platforms\<close>

record prci_linux =
  pl_hfrosccfg :: u32
  pl_core_pllcfg0 :: u32
  pl_ddr_pllcfg0 :: u32
  pl_core_pllcfg1 :: u32
  pl_gemgxl_pllcfg0 :: u32
  pl_gemgxl_pllcfg1 :: u32
  pl_core_clksel :: u32
  pl_reset :: u32
  pl_clkmux_status :: u32

definition prci_linux_registers :: "prci_linux reg_mapping list" where
  "prci_linux_registers =
     [reg_at 0x0 pl_hfrosccfg (\<lambda>v s. s\<lparr>pl_hfrosccfg := v\<rparr>), reg_at 0x4 pl_core_pllcfg0 (\<lambda>v s. s\<lparr>pl_core_pllcfg0 := v\<rparr>),
      reg_at 0x8 pl_ddr_pllcfg0 (\<lambda>v s. s\<lparr>pl_ddr_pllcfg0 := v\<rparr>), reg_at 0x10 pl_core_pllcfg1 (\<lambda>v s. s\<lparr>pl_core_pllcfg1 := v\<rparr>),
      reg_at 0x1C pl_gemgxl_pllcfg0 (\<lambda>v s. s\<lparr>pl_gemgxl_pllcfg0 := v\<rparr>), reg_at 0x20 pl_gemgxl_pllcfg1 (\<lambda>v s. s\<lparr>pl_gemgxl_pllcfg1 := v\<rparr>),
      reg_at 0x24 pl_core_clksel (\<lambda>v s. s\<lparr>pl_core_clksel := v\<rparr>), reg_at 0x28 pl_reset (\<lambda>v s. s\<lparr>pl_reset := v\<rparr>),
      reg_at 0x2C pl_clkmux_status (\<lambda>v s. s\<lparr>pl_clkmux_status := v\<rparr>)]"

definition prci_linux_transport :: "payload \<Rightarrow> (prci_linux, payload) op" where
  "prci_linux_transport = router_transport ''PRCI'' [MapBank \<lparr>rb_regs = prci_linux_registers, rb_handler = plain_callback\<rparr>]"

interpretation prci_linux: plain_bank "''PRCI''" prci_linux_registers
  by unfold_locales (auto simp: prci_linux_registers_def reg_at_def)

section \<open>The clock control of the HiFive board\<close>

record prci =
  pr_hfrosccfg :: u32
  pr_hfxosccfg :: u32
  pr_pllcfg :: u32
  pr_plloutdiv :: u32

definition prci_init :: prci where
  "prci_init = \<lparr>pr_hfrosccfg = 0, pr_hfxosccfg = 0, pr_pllcfg = 0, pr_plloutdiv = 0\<rparr>"

definition HFROSCCFG_REG_ADDR :: u64 where "HFROSCCFG_REG_ADDR = 0x0"
definition HFXOSCCFG_REG_ADDR :: u64 where "HFXOSCCFG_REG_ADDR = 0x4"
definition PLLCFG_REG_ADDR :: u64 where "PLLCFG_REG_ADDR = 0x8"
definition PLLOUTDIV_REG_ADDR :: u64 where "PLLOUTDIV_REG_ADDR = 0xC"

lemmas prci_addresses = HFROSCCFG_REG_ADDR_def HFXOSCCFG_REG_ADDR_def PLLCFG_REG_ADDR_def PLLOUTDIV_REG_ADDR_def

definition prci_registers :: "prci reg_mapping list" where
  "prci_registers =
     [reg_at HFROSCCFG_REG_ADDR pr_hfrosccfg (\<lambda>v s. s\<lparr>pr_hfrosccfg := v\<rparr>), reg_at HFXOSCCFG_REG_ADDR pr_hfxosccfg (\<lambda>v s. s\<lparr>pr_hfxosccfg := v\<rparr>),
      reg_at PLLCFG_REG_ADDR pr_pllcfg (\<lambda>v s. s\<lparr>pr_pllcfg := v\<rparr>), reg_at PLLOUTDIV_REG_ADDR pr_plloutdiv (\<lambda>v s. s\<lparr>pr_plloutdiv := v\<rparr>)]"

definition prci_register_access_callback :: "prci reg_handler" where
  "prci_register_access_callback r fn ds =
     seq_op (when_op (ra_read r \<and> ra_vptr r = HFXOSCCFG_REG_ADDR) (modify_op (\<lambda>s. s\<lparr>pr_hfxosccfg := 0x80000000\<rparr>))) (
     bind_op fn (\<lambda>bs.
     seq_op (when_op (ra_vptr r = HFROSCCFG_REG_ADDR \<and> ra_nv r \<noteq> 0) (modify_op (\<lambda>s. s\<lparr>pr_hfrosccfg := pr_hfrosccfg s OR 0x80000000\<rparr>))) (
     seq_op (when_op (ra_vptr r = PLLCFG_REG_ADDR \<and> ra_nv r \<noteq> 0) (modify_op (\<lambda>s. s\<lparr>pr_pllcfg := pr_pllcfg s OR 0x80000000\<rparr>))) (ret_op bs))))"

definition prci_maps :: "prci AbstractMapping list" where
  "prci_maps = [MapBank \<lparr>rb_regs = prci_registers, rb_handler = prci_register_access_callback\<rparr>]"

definition prci_transport :: "payload \<Rightarrow> (prci, payload) op" where
  "prci_transport = router_transport ''PRCI'' prci_maps"

text \<open>A clock that has been configured is ready.\<close>

definition prci_ready :: "prci \<Rightarrow> bool" where
  "prci_ready s \<longleftrightarrow> (pr_hfrosccfg s = 0 \<or> bit (pr_hfrosccfg s) 31) \<and> (pr_pllcfg s = 0 \<or> bit (pr_pllcfg s) 31)"

lemma bit_or_ready: "bit (w OR 0x80000000 :: u32) 31"
  by (simp add: bit_or_iff bit_numeral_rec)

interpretation prci: mapped_device "''PRCI''" prci_maps prci_ready
proof unfold_locales
  fix b r t nv assume b: "MapBank b \<in> set prci_maps" "r \<in> set (rb_regs b)"
    "tp_command t = TLM_WRITE_COMMAND \<Longrightarrow> word_access t \<and> nv = data_word t"
  then have h: "rb_handler b = prci_register_access_callback" and r: "r \<in> set prci_registers" by (simp_all add: prci_maps_def)
  have m: "rm_mode r = read_write" "rm_mask r = -1" using r by (auto simp: prci_registers_def reg_at_def)
  show "preserves prci_ready (rb_handler b (access_of r t nv) (rm_fn r t) (tp_data t))"
  proof (cases "tp_command t = TLM_WRITE_COMMAND")
    case True
    then have "rm_fn r t u = (Inr (tp_data t), rm_put r nv u)" for u
      using b(3) rm_fn_word_write [of t r u] m by (simp add: access_mode_defs)
    then show ?thesis
      using True r bit_or_ready
      by (auto simp: h preserves_def prci_register_access_callback_def access_of_def comb_defs prci_registers_def reg_at_def prci_addresses
          prci_ready_def)
  next
    case False
    show ?thesis
      unfolding h prci_register_access_callback_def
      by (intro preserves_rules preserves_modify preserves_no_write [OF False]) (auto simp: prci_ready_def bit_or_ready)
  qed
qed (auto simp: prci_maps_def prci_register_access_callback_def op_run)

section \<open>The SPI controller\<close>

record 'd spi =
  sp_rxqueue :: "u8 list"
  sp_targets :: "u32 \<Rightarrow> (u8 \<Rightarrow> ('d, u8) op) option"
  sp_sckdiv :: u32
  sp_sckmode :: u32
  sp_csid :: u32
  sp_csdef :: u32
  sp_csmode :: u32
  sp_delay0 :: u32
  sp_delay1 :: u32
  sp_fmt :: u32
  sp_txdata :: u32
  sp_rxdata :: u32
  sp_txmark :: u32
  sp_rxmark :: u32
  sp_fctrl :: u32
  sp_ffmt :: u32
  sp_ie :: u32
  sp_ip :: u32
  sp_devices :: 'd

definition spi_queue_size :: nat where "spi_queue_size = 16"
definition SPI_IP_TXWM :: u32 where "SPI_IP_TXWM = 1"
definition SPI_TXDATA_ADDR :: u64 where "SPI_TXDATA_ADDR = 0x48"
definition SPI_RXDATA_ADDR :: u64 where "SPI_RXDATA_ADDR = 0x4C"

definition spi_init :: "'d \<Rightarrow> 'd spi" where
  "spi_init d = \<lparr>sp_rxqueue = [], sp_targets = (\<lambda>_. None), sp_sckdiv = 0, sp_sckmode = 0, sp_csid = 0, sp_csdef = 1, sp_csmode = 0,
     sp_delay0 = 0, sp_delay1 = 0, sp_fmt = 0, sp_txdata = 0, sp_rxdata = 0, sp_txmark = 0, sp_rxmark = 0, sp_fctrl = 1, sp_ffmt = 0,
     sp_ie = 0, sp_ip = 0, sp_devices = d\<rparr>"

definition spi_registers :: "'d spi reg_mapping list" where
  "spi_registers =
     [reg_at 0x00 sp_sckdiv (\<lambda>v s. s\<lparr>sp_sckdiv := v\<rparr>), reg_at 0x04 sp_sckmode (\<lambda>v s. s\<lparr>sp_sckmode := v\<rparr>),
      reg_at 0x10 sp_csid (\<lambda>v s. s\<lparr>sp_csid := v\<rparr>), reg_at 0x14 sp_csdef (\<lambda>v s. s\<lparr>sp_csdef := v\<rparr>),
      reg_at 0x18 sp_csmode (\<lambda>v s. s\<lparr>sp_csmode := v\<rparr>), reg_at 0x28 sp_delay0 (\<lambda>v s. s\<lparr>sp_delay0 := v\<rparr>),
      reg_at 0x2C sp_delay1 (\<lambda>v s. s\<lparr>sp_delay1 := v\<rparr>), reg_at 0x40 sp_fmt (\<lambda>v s. s\<lparr>sp_fmt := v\<rparr>),
      reg_at SPI_TXDATA_ADDR sp_txdata (\<lambda>v s. s\<lparr>sp_txdata := v\<rparr>), reg_at SPI_RXDATA_ADDR sp_rxdata (\<lambda>v s. s\<lparr>sp_rxdata := v\<rparr>),
      reg_at 0x50 sp_txmark (\<lambda>v s. s\<lparr>sp_txmark := v\<rparr>), reg_at 0x54 sp_rxmark (\<lambda>v s. s\<lparr>sp_rxmark := v\<rparr>),
      reg_at 0x60 sp_fctrl (\<lambda>v s. s\<lparr>sp_fctrl := v\<rparr>), reg_at 0x64 sp_ffmt (\<lambda>v s. s\<lparr>sp_ffmt := v\<rparr>),
      reg_at 0x70 sp_ie (\<lambda>v s. s\<lparr>sp_ie := v\<rparr>), reg_at 0x74 sp_ip (\<lambda>v s. s\<lparr>sp_ip := v\<rparr>)]"

definition spi_before_rxdata :: "'d spi \<Rightarrow> 'd spi" where
  "spi_before_rxdata s = (case sp_targets s (sp_csid s) of None \<Rightarrow> s
     | Some f \<Rightarrow> (case sp_rxqueue s of [] \<Rightarrow> s\<lparr>sp_rxdata := 0x80000000\<rparr>
         | b # bs \<Rightarrow> s\<lparr>sp_rxdata := ucast b, sp_rxqueue := bs\<rparr>))"

definition spi_push :: "u8 \<Rightarrow> 'd spi \<Rightarrow> 'd spi" where
  "spi_push b s = (let q = sp_rxqueue s @ [b] in s\<lparr>sp_rxqueue := if length q > spi_queue_size then tl q else q\<rparr>)"

definition spi_exchange :: "('d spi, unit) op" where
  "spi_exchange = get_op (\<lambda>s. sp_targets s (sp_csid s)) (\<lambda>target.
     seq_op (case target of None \<Rightarrow> ret_op ()
       | Some f \<Rightarrow>
           bind_op (\<lambda>s. case f (ucast (sp_txdata s)) (sp_devices s) of (r, d) \<Rightarrow> (r, s\<lparr>sp_devices := d\<rparr>)) (\<lambda>b.
           seq_op (modify_op (spi_push b))
             (modify_op (\<lambda>s. if sp_txmark s > 0 \<and> sp_ie s AND SPI_IP_TXWM \<noteq> 0 then s\<lparr>sp_ip := sp_ip s OR SPI_IP_TXWM\<rparr> else s))))
       (modify_op (\<lambda>s. s\<lparr>sp_txdata := 0\<rparr>)))"

definition spi_register_access_callback :: "'d spi reg_handler" where
  "spi_register_access_callback r fn ds =
     seq_op (when_op (ra_read r \<and> ra_vptr r = SPI_RXDATA_ADDR) (modify_op spi_before_rxdata)) (
     bind_op fn (\<lambda>bs.
     seq_op (when_op (ra_write r \<and> ra_vptr r = SPI_TXDATA_ADDR) spi_exchange) (ret_op bs)))"

definition spi_maps :: "'d spi AbstractMapping list" where
  "spi_maps = [MapBank \<lparr>rb_regs = spi_registers, rb_handler = spi_register_access_callback\<rparr>]"

definition spi_transport :: "payload \<Rightarrow> ('d spi, payload) op" where
  "spi_transport = router_transport ''SPI'' spi_maps"

definition spi_connect :: "u32 \<Rightarrow> (u8 \<Rightarrow> ('d, u8) op) \<Rightarrow> 'd spi \<Rightarrow> 'd spi" where
  "spi_connect cs interface s = (if cs = 1 \<or> cs > 3 then s
     else if sp_targets s cs = None then s\<lparr>sp_targets := (sp_targets s)(cs := Some interface)\<rparr> else s)"

definition spi_queue_bounded :: "'d spi \<Rightarrow> bool" where
  "spi_queue_bounded s \<longleftrightarrow> length (sp_rxqueue s) \<le> spi_queue_size"

lemma spi_exchange_bounded: "preserves spi_queue_bounded spi_exchange"
proof -
  have "preserves spi_queue_bounded (\<lambda>s. case f (ucast (sp_txdata s)) (sp_devices s) of (r, d) \<Rightarrow> (r, s\<lparr>sp_devices := d\<rparr>))"
    for f :: "u8 \<Rightarrow> ('d, u8) op"
    by (auto simp: preserves_def spi_queue_bounded_def split: prod.splits)
  then show ?thesis
    unfolding spi_exchange_def
    by (intro preserves_rules preserves_modify) (auto simp: spi_queue_bounded_def spi_push_def Let_def)
qed

interpretation spi: local_router "''SPI''" "spi_maps :: 'd spi AbstractMapping list" spi_queue_bounded
proof unfold_locales
  fix b :: "'d spi RegisterMapping" and r v a ds bs s' and s :: "'d spi" and fn :: "('d spi, u8 list) op"
  assume b: "MapBank b \<in> set spi_maps"
  then have h: "rb_handler b = spi_register_access_callback" and regs: "rb_regs b = spi_registers" by (simp_all add: spi_maps_def)
  show "spi_queue_bounded (rm_put r v s)" if "r \<in> set (rb_regs b)" "spi_queue_bounded s"
    using that unfolding regs by (auto simp: spi_registers_def reg_at_def spi_queue_bounded_def)
  show "preserves spi_queue_bounded (rb_handler b a fn ds)" if "preserves spi_queue_bounded fn"
    unfolding h spi_register_access_callback_def
    by (intro preserves_rules preserves_modify that spi_exchange_bounded)
      (auto simp: spi_queue_bounded_def spi_before_rxdata_def split: option.splits list.splits)
  show "length bs = length ds" if "\<And>u bs u'. fn u = (Inr bs, u') \<Longrightarrow> length bs = length ds" "rb_handler b a fn ds s = (Inr bs, s')"
    using that by (auto simp: h spi_register_access_callback_def op_run)
qed (simp_all add: spi_maps_def)

section \<open>The sensors\<close>

record 'g sensor =
  se_irq_number :: u32
  se_data_frame :: "u8 list"
  se_scaler :: u32
  se_filter :: u32
  se_run_event :: "u32 option"
  se_plic :: 'g

definition SCALER_REG_ADDR :: u64 where "SCALER_REG_ADDR = 0x80"
definition FILTER_REG_ADDR :: u64 where "FILTER_REG_ADDR = 0x84"

text \<open>The data frame is not initialised by the constructor; its first bytes are an argument.\<close>

definition sensor_init :: "u32 \<Rightarrow> u8 list \<Rightarrow> 'g \<Rightarrow> 'g sensor" where
  "sensor_init irq frame plic = \<lparr>se_irq_number = irq, se_data_frame = frame, se_scaler = 25, se_filter = 0, se_run_event = None, se_plic = plic\<rparr>"

definition sensor_registers :: "'g sensor reg_mapping list" where
  "sensor_registers =
     [reg_at SCALER_REG_ADDR se_scaler (\<lambda>v s. s\<lparr>se_scaler := v\<rparr>), reg_at FILTER_REG_ADDR se_filter (\<lambda>v s. s\<lparr>se_filter := v\<rparr>)]"

text \<open>\<^verbatim>\<open>SimpleSensor\<close>, with the access to its registers and its data frame written out.\<close>

definition sensor_register_access :: "payload \<Rightarrow> ('g sensor, payload) op" where
  "sensor_register_access t =
     seq_op (assert_op (length (tp_data t) = 4)) (
     case find_reg sensor_registers (tp_address t) of None \<Rightarrow> fail_op AssertFailed
     | Some r \<Rightarrow>
         if tp_command t = TLM_WRITE_COMMAND \<and> tp_address t = SCALER_REG_ADDR \<and> (data_word t < 1 \<or> data_word t > 100) then ret_op t
         else bind_op
           (case tp_command t of
              TLM_READ_COMMAND \<Rightarrow> get_op (rm_get r) (\<lambda>v. ret_op (t\<lparr>tp_data := le_bytes 4 (ucast v)\<rparr>))
            | TLM_WRITE_COMMAND \<Rightarrow> seq_op (modify_op (rm_put r (data_word t))) (ret_op t)
            | _ \<Rightarrow> fail_op AssertFailed) (\<lambda>t'.
           seq_op (when_op (tp_command t = TLM_WRITE_COMMAND \<and> tp_address t = SCALER_REG_ADDR)
             (modify_op (\<lambda>s. s\<lparr>se_run_event := Some (se_scaler s)\<rparr>))) (ret_op t')))"

definition sensor_transport :: "payload \<Rightarrow> ('g sensor, payload) op" where
  "sensor_transport t =
     (if tp_address t \<le> 63 then
        seq_op (assert_op (tp_command t = TLM_READ_COMMAND)) (
        seq_op (assert_op (unat (tp_address t) + length (tp_data t) \<le> 64)) (
        bind_op (get_op se_data_frame (\<lambda>m. lift_op (memcpy_from m (unat (tp_address t)) (length (tp_data t))))) (\<lambda>bs.
          ret_op (t\<lparr>tp_data := bs\<rparr>))))
      else sensor_register_access t)"

text \<open>\<^verbatim>\<open>SimpleSensor2\<close>, on the router.\<close>

definition data_frame_access_callback :: "payload \<Rightarrow> ('g sensor, payload) op" where
  "data_frame_access_callback t = (\<lambda>s. case execute_memory_access t (se_data_frame s) of
     Inl e \<Rightarrow> (Inl e, s) | Inr (m, t') \<Rightarrow> (Inr t', s\<lparr>se_data_frame := m\<rparr>))"

definition sensor2_register_access_callback :: "'g sensor reg_handler" where
  "sensor2_register_access_callback r fn ds =
     (if ra_write r \<and> ra_vptr r = SCALER_REG_ADDR \<and> (ra_nv r < 1 \<or> ra_nv r > 100) then ret_op ds
      else bind_op fn (\<lambda>bs.
        seq_op (when_op (ra_write r \<and> ra_vptr r = SCALER_REG_ADDR) (modify_op (\<lambda>s. s\<lparr>se_run_event := Some (se_scaler s)\<rparr>))) (ret_op bs)))"

definition sensor2_maps :: "'g sensor AbstractMapping list" where
  "sensor2_maps = add_start_size_mapping 0 64 read_only data_frame_access_callback
     [MapBank \<lparr>rb_regs = sensor_registers, rb_handler = sensor2_register_access_callback\<rparr>]"

definition sensor2_transport :: "payload \<Rightarrow> ('g sensor, payload) op" where
  "sensor2_transport = router_transport ''unamed'' sensor2_maps"

text \<open>
  One turn of the threads after their \<^verbatim>\<open>wait\<close>, up to the notification of the next: the frame is filled with the results \<open>rs\<close> of
  \<^verbatim>\<open>rand\<close>, one for each byte. The sensors differ in the values of the filter other than 1 and 2.
\<close>

definition sensor_byte :: "u32 \<Rightarrow> nat \<Rightarrow> u8" where
  "sensor_byte filt r = (if filt = 1 then of_nat (r mod 10 + 48) else if filt = 2 then of_nat (r mod 26 + 65) else of_nat (r mod 92 + 32))"

definition sensor2_byte :: "u32 \<Rightarrow> nat \<Rightarrow> u8" where
  "sensor2_byte filt r = (if filt = 1 then of_nat (r mod 10 + 48) else if filt = 2 then of_nat (r mod 26 + 65) else of_nat r)"

definition sensor_run :: "(u32 \<Rightarrow> nat \<Rightarrow> u8) \<Rightarrow> (u32 \<Rightarrow> ('g, unit) op) \<Rightarrow> (nat \<Rightarrow> nat) \<Rightarrow> ('g sensor, unit) op" where
  "sensor_run byte gateway rs =
     seq_op (modify_op (\<lambda>s. s\<lparr>se_run_event := None, se_data_frame := map (\<lambda>i. byte (se_filter s) (rs i)) [0..<64]\<rparr>)) (
     seq_op (\<lambda>s. case gateway (se_irq_number s) (se_plic s) of (r, g) \<Rightarrow> (r, s\<lparr>se_plic := g\<rparr>))
       (modify_op (\<lambda>s. s\<lparr>se_run_event := Some (case se_run_event s of None \<Rightarrow> se_scaler s | Some d \<Rightarrow> min d (se_scaler s))\<rparr>)))"

definition sensor_ok :: "'g sensor \<Rightarrow> bool" where
  "sensor_ok s \<longleftrightarrow> se_scaler s \<noteq> 0 \<and> se_scaler s \<le> 100 \<and> length (se_data_frame s) = 64"

lemma execute_memory_access_shape:
  assumes "execute_memory_access t m = Inr (m', t')"
  shows "length m' = length m" "tp_command t' = tp_command t" "length (tp_data t') = length (tp_data t)"
  using assms by (auto simp: execute_memory_access_def split: tlm_command.splits dest: memcpy_to_length memcpy_from_length)

interpretation sensor2: mapped_device "''unamed''" "sensor2_maps :: 'g sensor AbstractMapping list" sensor_ok
proof unfold_locales
  fix m :: "'g sensor AddressMapping" and t t' s s' assume "MapRange m \<in> set sensor2_maps"
  then have m: "am_handler m = data_frame_access_callback"
    by (simp add: sensor2_maps_def add_start_size_mapping_def add_start_end_mapping_def)
  show "preserves sensor_ok (am_handler m t)"
    by (auto simp: m preserves_def data_frame_access_callback_def sensor_ok_def split: sum.splits prod.splits
        dest: execute_memory_access_shape(1))
  show "tp_command t' = tp_command t \<and> length (tp_data t') = length (tp_data t)" if "am_handler m t s = (Inr t', s')"
    using that execute_memory_access_shape(2,3) by (auto simp: m data_frame_access_callback_def split: sum.splits prod.splits)
next
  fix b :: "'g sensor RegisterMapping" and r t nv
  assume b: "MapBank b \<in> set sensor2_maps" "r \<in> set (rb_regs b)" "tp_command t = TLM_WRITE_COMMAND \<Longrightarrow> word_access t \<and> nv = data_word t"
  then have h: "rb_handler b = sensor2_register_access_callback" and r: "r \<in> set sensor_registers"
    by (auto simp: sensor2_maps_def add_start_size_mapping_def add_start_end_mapping_def)
  have m: "rm_mode r = read_write" "rm_mask r = -1" using r by (auto simp: sensor_registers_def reg_at_def)
  show "preserves sensor_ok (rb_handler b (access_of r t nv) (rm_fn r t) (tp_data t))"
  proof (cases "tp_command t = TLM_WRITE_COMMAND")
    case True
    then have "rm_fn r t u = (Inr (tp_data t), rm_put r nv u)" for u
      using b(3) rm_fn_word_write [of t r u] m by (simp add: access_mode_defs)
    then show ?thesis
      using True r
      by (auto simp: h preserves_def sensor2_register_access_callback_def access_of_def comb_defs sensor_registers_def reg_at_def
          SCALER_REG_ADDR_def FILTER_REG_ADDR_def sensor_ok_def linorder_not_less)
  next
    case False
    show ?thesis
      unfolding h sensor2_register_access_callback_def
      by (intro preserves_rules preserves_modify preserves_no_write [OF False]) (auto simp: sensor_ok_def)
  qed
next
  fix b :: "'g sensor RegisterMapping" and fn a ds bs s s'
  assume "MapBank b \<in> set sensor2_maps" "\<And>u bs u'. fn u = (Inr bs, u') \<Longrightarrow> length bs = length ds" "rb_handler b a fn ds s = (Inr bs, s')"
  then show "length bs = length ds"
    by (auto simp: sensor2_maps_def add_start_size_mapping_def add_start_end_mapping_def sensor2_register_access_callback_def op_run
        split: if_splits)
qed

text \<open>
  The sensor on the router answers every transaction that the first sensor accepts as this does; it
  also reads parts of registers.
\<close>

theorem sensor2_simulates_sensor:
  fixes s :: "'g sensor"
  assumes "sensor_transport t s = (Inr t', s')"
  shows "sensor2_transport t s = (Inr t', s')"
proof (cases "tp_address t \<le> 63")
  case True
  have "tp_address t mod 4 \<le> tp_address t" by (simp add: word_le_nat_alt unat_mod)
  then have "unat (tp_address t - tp_address t mod 4) \<le> 63" using True by (simp add: unat_sub word_le_nat_alt)
  then have none: "find_reg sensor_registers (tp_address t - tp_address t mod 4) = None"
    by (auto simp: find_reg_def sensor_registers_def reg_at_def SCALER_REG_ADDR_def FILTER_REG_ADDR_def)
  have len: "unat (tp_address t) + length (tp_data t) \<le> 64" and c: "tp_command t = TLM_READ_COMMAND"
    using assms True by (auto simp: sensor_transport_def op_run)
  have fits: "tp_address t + of_nat (length (tp_data t)) \<le> 64" "tp_address t < 64"
    using len True by (auto simp: word_le_nat_alt word_less_nat_alt unat_word_ariths unat_of_nat)
  obtain bs where bs: "memcpy_from (se_data_frame s) (unat (tp_address t)) (length (tp_data t)) = Inr bs" "t' = t\<lparr>tp_data := bs\<rparr>" "s' = s"
    using assms True by (auto simp: sensor_transport_def op_run)
  have bank: "rm_try_handle \<lparr>rb_regs = sensor_registers, rb_handler = h\<rparr> t s = (Inr None, s)" for h
    by (simp add: rm_try_handle_def none ret_op_def)
  have range: "am_try_handle \<lparr>am_start = 0, am_end = 64, am_mode = read_only, am_handler = data_frame_access_callback\<rparr> t s = (Inr (Some t'), s)"
    using fits bs c
    by (simp add: am_try_handle_def mode_op_def access_mode_defs data_frame_access_callback_def execute_memory_access_def comb_defs)
  show ?thesis
    using bank range bs(3)
    by (simp add: sensor2_transport_def sensor2_maps_def add_start_size_mapping_def add_start_end_mapping_def op_run)
next
  case False
  then obtain r :: "'g sensor reg_mapping" where l: "length (tp_data t) = 4" and r: "find_reg sensor_registers (tp_address t) = Some r"
    using assms by (auto simp: sensor_transport_def sensor_register_access_def op_run split: option.splits)
  have "tp_address t mod 4 = 0" "rm_addr r = tp_address t" "rm_mode r = read_write" "rm_mask r = -1"
    using r by (auto simp: find_reg_def sensor_registers_def reg_at_def SCALER_REG_ADDR_def FILTER_REG_ADDR_def split: if_splits)
  note m = this
  with l have w: "word_access t" "tp_address t - tp_address t mod 4 = tp_address t" by (simp_all add: word_access_def)
  show ?thesis
    using assms False l r m w rm_fn_word_read [OF w(1), of r] rm_fn_word_write [OF w(1), of r] load32_data_word [OF w(1)]
    by (cases "tp_command t")
      (auto simp: sensor_transport_def sensor2_transport_def sensor2_maps_def add_start_size_mapping_def add_start_end_mapping_def
        sensor_register_access_def sensor2_register_access_callback_def rm_try_handle_def Let_def mode_op_def access_mode_defs op_run
        simp del: le_bytes_numeral split: if_splits)
qed

text \<open>With the filters the frame holds digits and capital letters.\<close>

lemma sensor_run_filters:
  assumes "sensor_run byte gateway rs s = (Inr (), s')" "byte = sensor_byte \<or> byte = sensor2_byte"
  shows "length (se_data_frame s') = 64"
    "se_filter s = 1 \<Longrightarrow> \<forall>b \<in> set (se_data_frame s'). 48 \<le> b \<and> b \<le> 57"
    "se_filter s = 2 \<Longrightarrow> \<forall>b \<in> set (se_data_frame s'). 65 \<le> b \<and> b \<le> 90"
proof -
  have f: "se_data_frame s' = map (\<lambda>i. byte (se_filter s) (rs i)) [0..<64]"
    using assms(1) by (auto simp: sensor_run_def op_run split: prod.splits)
  show "length (se_data_frame s') = 64" by (simp add: f)
  have "r mod k + c < 256 \<Longrightarrow> unat (of_nat (r mod k + c) :: u8) = r mod k + c" for r k c :: nat by (simp add: unat_of_nat del: of_nat_add)
  then have digit: "48 \<le> (of_nat (r mod 10 + 48) :: u8) \<and> of_nat (r mod 10 + 48) \<le> (57 :: u8)"
    and letter: "65 \<le> (of_nat (r mod 26 + 65) :: u8) \<and> of_nat (r mod 26 + 65) \<le> (90 :: u8)" for r
    using mod_less_divisor [of 10 r] mod_less_divisor [of 26 r] by (simp_all add: word_le_nat_alt del: of_nat_add)
  show "se_filter s = 1 \<Longrightarrow> \<forall>b \<in> set (se_data_frame s'). 48 \<le> b \<and> b \<le> 57"
    using assms(2) digit by (auto simp: f sensor_byte_def sensor2_byte_def simp del: of_nat_add)
  show "se_filter s = 2 \<Longrightarrow> \<forall>b \<in> set (se_data_frame s'). 65 \<le> b \<and> b \<le> 90"
    using assms(2) letter by (auto simp: f sensor_byte_def sensor2_byte_def simp del: of_nat_add)
qed

section \<open>The mask ROM\<close>

definition rom_base_addr :: u32 where "rom_base_addr = 0x1000"
definition rom_config_string_offs :: u32 where "rom_config_string_offs = 0x03b0"

definition rom_config_string :: "u8 list" where
  "rom_config_string = map (of_nat \<circ> of_char)
     ''/cs-v1/;/{model = \"SiFive,FE310G-0000-Z0\";compatible = \"sifive,fe300\";/include/ 0x20004;};''"

text \<open>The string ends with a zero byte; the number of bytes \<^verbatim>\<open>cut\<close> to copy is an 8-bit integer.\<close>

definition rom_read_string :: "nat \<Rightarrow> u8 list \<Rightarrow> u8 list res" where
  "rom_read_string offs data = (let len = length data; n = length rom_config_string;
       cut = unat (of_nat (if offs + len \<le> n then len else offs + len - n) :: u8) in
     bind_res (memcpy_from (rom_config_string @ [0]) offs cut) (\<lambda>bs.
     bind_res (memcpy_to data 0 bs) (\<lambda>data'.
     if cut \<noteq> len then memcpy_to data' cut (replicate (len - cut) 0) else Inr data')))"

definition rom_transport :: "payload \<Rightarrow> payload res" where
  "rom_transport t = (let addr = ucast (tp_address t) :: u32; data = tp_data t; len = of_nat (length data) :: u32 in
     if tp_command t \<noteq> TLM_READ_COMMAND then Inl (RuntimeError ''invalid write to MROM'')
     else if addr < 0xC then Inr (t\<lparr>tp_data := replicate (length data) 0\<rparr>)
     else if addr + len \<le> 0x10 then
       bind_res (memcpy_to data 0 (le_bytes 4 (ucast (rom_base_addr + rom_config_string_offs)))) (\<lambda>bs. Inr (t\<lparr>tp_data := bs\<rparr>))
     else if addr < rom_config_string_offs then Inl AssertFailed
     else if unat addr < unat rom_config_string_offs + length rom_config_string then
       bind_res (rom_read_string (unat (addr - rom_config_string_offs)) data) (\<lambda>bs. Inr (t\<lparr>tp_data := bs\<rparr>))
     else Inr (t\<lparr>tp_data := replicate (length data) 0\<rparr>))"

text \<open>
  Inside the configuration string the bytes of the string are read. An access that crosses its end gets as
  many bytes of it as the access has bytes beyond the end, not the ones that are left.
\<close>

lemma rom_reads_string:
  assumes "offs + length data \<le> length rom_config_string" "length data < 256"
  shows "rom_read_string offs data = Inr (take (length data) (drop offs rom_config_string))"
  using assms by (simp add: rom_read_string_def Let_def unat_of_nat memcpy_from_def memcpy_to_def)

lemma rom_string_length: "length rom_config_string = 90"
  by (simp add: rom_config_string_def)

lemma rom_end_of_string: "rom_read_string 89 [x, y, z, w] = Inl UndefinedBehaviour"
  by (simp add: rom_read_string_def rom_string_length memcpy_from_def)

end
