(* ===== verification/VP_Dma.thy ===== *)
theory VP_Dma
  imports VP_Regmap
begin

text \<open>
  The DMA controller of the basic platform (\<^verbatim>\<open>platform/basic/dma.h\<close>): its registers, and the thread that copies a block
  through a buffer of 64 bytes. The interconnect behind its initiator socket is the argument \<open>transport\<close>, on the state
  \<open>'b\<close> of all that is connected; the interrupt controller is the argument \<open>gateway\<close>, on its state \<open>'g\<close>.

  The locale \<open>byte_memory\<close> is what the controller needs of the interconnect. It is interpreted on a bus with a memory
  (\<^verbatim>\<open>platform/common/bus.h\<close>, \<^verbatim>\<open>memory.h\<close>), reached through \<^verbatim>\<open>PeripheralWriteConnector\<close> as the platform connects it.
\<close>

record ('b, 'g) dma =
  dm_irq_number :: u32
  dm_buffer :: "u8 list"
  dm_src :: u32
  dm_dst :: u32
  dm_len :: u32
  dm_op :: u32
  dm_stat :: u32
  dm_run_event :: bool
  dm_bus :: 'b
  dm_plic :: 'g

definition OP_NOP :: u32 where "OP_NOP = 0"
definition OP_MEMCPY :: u32 where "OP_MEMCPY = 1"

text \<open>The buffer is not initialised by the constructor; its first bytes are an argument.\<close>

definition dma_init :: "u32 \<Rightarrow> u8 list \<Rightarrow> 'b \<Rightarrow> 'g \<Rightarrow> ('b, 'g) dma" where
  "dma_init irq buf bus plic = \<lparr>dm_irq_number = irq, dm_buffer = buf, dm_src = 0, dm_dst = 0, dm_len = 0, dm_op = 0, dm_stat = 0,
     dm_run_event = False, dm_bus = bus, dm_plic = plic\<rparr>"

section \<open>Copying\<close>

definition dma_transaction ::
  "('b \<Rightarrow> payload \<Rightarrow> ('b \<times> payload) res) \<Rightarrow> tlm_command \<Rightarrow> u64 \<Rightarrow> u8 list \<Rightarrow> (('b, 'g) dma, u8 list) op" where
  "dma_transaction transport cmd addr data = (\<lambda>s.
     case transport (dm_bus s) \<lparr>tp_command = cmd, tp_address = addr, tp_data = data, tp_response = TLM_OK_RESPONSE\<rparr> of
       Inl e \<Rightarrow> (Inl e, s) | Inr (b, t) \<Rightarrow> (Inr (tp_data t), s\<lparr>dm_bus := b\<rparr>))"

definition copy_block :: "('b \<Rightarrow> payload \<Rightarrow> ('b \<times> payload) res) \<Rightarrow> u32 \<Rightarrow> u32 \<Rightarrow> (('b, 'g) dma, unit) op" where
  "copy_block transport off n =
     bind_op (get_op (\<lambda>s. (dm_src s, take (unat n) (dm_buffer s))) (\<lambda>(src, data).
       dma_transaction transport TLM_READ_COMMAND (ucast (src + off)) data)) (\<lambda>data.
     seq_op (modify_op (\<lambda>s. s\<lparr>dm_buffer := data @ drop (unat n) (dm_buffer s)\<rparr>)) (
     bind_op (get_op (\<lambda>s. (dm_dst s, take (unat n) (dm_buffer s))) (\<lambda>(dst, data).
       dma_transaction transport TLM_WRITE_COMMAND (ucast (dst + off)) data)) (\<lambda>data.
     modify_op (\<lambda>s. s\<lparr>dm_buffer := data @ drop (unat n) (dm_buffer s)\<rparr>))))"

function memcpy_loop :: "('b \<Rightarrow> payload \<Rightarrow> ('b \<times> payload) res) \<Rightarrow> u32 \<Rightarrow> u32 \<Rightarrow> (('b, 'g) dma, unit) op" where
  "memcpy_loop transport off n =
     (if n > 64 then seq_op (copy_block transport off 64) (memcpy_loop transport (off + 64) (n - 64))
      else copy_block transport off n)"
  by pat_completeness auto

termination
  by (relation "measure (\<lambda>(_, _, n). unat n)") (auto simp: word_less_nat_alt unat_sub word_le_nat_alt)

declare memcpy_loop.simps [simp del]

definition perform_memcpy :: "('b \<Rightarrow> payload \<Rightarrow> ('b \<times> payload) res) \<Rightarrow> (('b, 'g) dma, unit) op" where
  "perform_memcpy transport = get_op dm_len (\<lambda>n. memcpy_loop transport 0 n)"

text \<open>One turn of the thread after its \<^verbatim>\<open>wait\<close>; the operations that are not implemented fail.\<close>

definition dma_run :: "('b \<Rightarrow> payload \<Rightarrow> ('b \<times> payload) res) \<Rightarrow> (u32 \<Rightarrow> ('g, unit) op) \<Rightarrow> (('b, 'g) dma, unit) op" where
  "dma_run transport gateway =
     seq_op (modify_op (\<lambda>s. s\<lparr>dm_run_event := False\<rparr>)) (
     seq_op (get_op dm_op (\<lambda>opr. if opr = OP_NOP then ret_op () else if opr = OP_MEMCPY then perform_memcpy transport else fail_op AssertFailed))
       (\<lambda>s. case gateway (dm_irq_number s) (dm_plic s) of (r, g) \<Rightarrow> (r, s\<lparr>dm_plic := g\<rparr>)))"

section \<open>Registers\<close>

definition dma_get_reg :: "u64 \<Rightarrow> ('b, 'g) dma \<Rightarrow> u32 option" where
  "dma_get_reg addr s = (if addr = 0 then Some (dm_src s) else if addr = 4 then Some (dm_dst s) else if addr = 8 then Some (dm_len s)
     else if addr = 12 then Some (dm_op s) else None)"

definition dma_set_reg :: "u64 \<Rightarrow> u32 \<Rightarrow> ('b, 'g) dma \<Rightarrow> ('b, 'g) dma" where
  "dma_set_reg addr v s = (if addr = 0 then s\<lparr>dm_src := v\<rparr> else if addr = 4 then s\<lparr>dm_dst := v\<rparr> else if addr = 8 then s\<lparr>dm_len := v\<rparr>
     else s\<lparr>dm_op := v\<rparr>)"

definition dma_transport :: "payload \<Rightarrow> (('b, 'g) dma, payload) op" where
  "dma_transport t =
     seq_op (assert_op (length (tp_data t) = 4)) (
     get_op (dma_get_reg (tp_address t)) (\<lambda>reg. case reg of None \<Rightarrow> fail_op AssertFailed
     | Some v \<Rightarrow> (case tp_command t of
         TLM_READ_COMMAND \<Rightarrow> ret_op (t\<lparr>tp_data := le_bytes 4 (ucast v)\<rparr>)
       | TLM_WRITE_COMMAND \<Rightarrow>
           seq_op (modify_op (dma_set_reg (tp_address t) (ucast (of_le_bytes (tp_data t))))) (
           seq_op (when_op (tp_address t = 12) (modify_op (\<lambda>s. s\<lparr>dm_run_event := True\<rparr>))) (ret_op t))
       | _ \<Rightarrow> fail_op AssertFailed)))"

section \<open>The interconnect\<close>

definition write_bytes :: "nat \<Rightarrow> u8 list \<Rightarrow> u8 list \<Rightarrow> u8 list" where
  "write_bytes i ds m = take i m @ ds @ drop (i + length ds) m"

lemma length_write_bytes [simp]: "i + length ds \<le> length m \<Longrightarrow> length (write_bytes i ds m) = length m"
  by (simp add: write_bytes_def)

lemma nth_write_bytes:
  "i + length ds \<le> length m \<Longrightarrow> x < length m \<Longrightarrow>
     write_bytes i ds m ! x = (if i \<le> x \<and> x < i + length ds then ds ! (x - i) else m ! x)"
  by (auto simp: write_bytes_def nth_append)

lemma two_blocks:
  assumes "k \<le> n" "i + n \<le> length m" "j + n \<le> length m" "i + n \<le> j \<or> j + n \<le> i" "m' = write_bytes j (take k (drop i m)) m"
  shows "write_bytes (j + k) (take (n - k) (drop (i + k) m')) m' = write_bytes j (take n (drop i m)) m"
proof -
  have l: "length m' = length m" using assms by simp
  have m': "m' ! x = (if j \<le> x \<and> x < j + k then m ! (i + (x - j)) else m ! x)" if "x < length m" for x
    using assms(1-4) that unfolding assms(5) by (subst nth_write_bytes) auto
  have lb: "length (take (n - k) (drop (i + k) m')) = n - k" using l assms(1-4) by simp
  show ?thesis
  proof (rule nth_equalityI)
    show "length (write_bytes (j + k) (take (n - k) (drop (i + k) m')) m') = length (write_bytes j (take n (drop i m)) m)"
      using l lb assms(1-4) by (subst length_write_bytes) simp_all
    fix x assume "x < length (write_bytes (j + k) (take (n - k) (drop (i + k) m')) m')"
    then have x: "x < length m" using l lb assms(1-4) by (subst (asm) length_write_bytes) simp_all
    have "write_bytes (j + k) (take (n - k) (drop (i + k) m')) m' ! x = (if j + k \<le> x \<and> x < j + n then m' ! (i + k + (x - (j + k))) else m' ! x)"
      using l lb x assms(1-4) by (subst nth_write_bytes) auto
    also have "\<dots> = (if j \<le> x \<and> x < j + n then m ! (i + (x - j)) else m ! x)"
      using x assms(1-4) by (auto simp: m')
    also have "\<dots> = write_bytes j (take n (drop i m)) m ! x"
      using x assms(1-4) by (subst nth_write_bytes) auto
    finally show "write_bytes (j + k) (take (n - k) (drop (i + k) m')) m' ! x = write_bytes j (take n (drop i m)) m ! x" .
  qed
qed

locale byte_memory =
  fixes transport :: "'b \<Rightarrow> payload \<Rightarrow> ('b \<times> payload) res" and bytes :: "'b \<Rightarrow> u8 list" and base :: u32 and valid :: "'b \<Rightarrow> bool"
  assumes mem_read: "valid b \<Longrightarrow> i < length (bytes b) \<Longrightarrow> i + length ds \<le> length (bytes b) \<Longrightarrow>
      \<exists>t'. transport b \<lparr>tp_command = TLM_READ_COMMAND, tp_address = ucast (base + of_nat i), tp_data = ds, tp_response = TLM_OK_RESPONSE\<rparr> =
        Inr (b, t') \<and> tp_data t' = take (length ds) (drop i (bytes b))"
    and mem_write: "valid b \<Longrightarrow> i < length (bytes b) \<Longrightarrow> i + length ds \<le> length (bytes b) \<Longrightarrow>
      \<exists>b' t'. transport b \<lparr>tp_command = TLM_WRITE_COMMAND, tp_address = ucast (base + of_nat i), tp_data = ds, tp_response = TLM_OK_RESPONSE\<rparr> =
        Inr (b', t') \<and> tp_data t' = ds \<and> valid b' \<and> bytes b' = write_bytes i ds (bytes b)"
begin

lemma copy_block_copies:
  fixes s :: "('b, 'g) dma"
  assumes "valid (dm_bus s)" "length (dm_buffer s) = 64" "unat n \<le> 64" "dm_src s + off = base + of_nat i" "dm_dst s + off = base + of_nat j"
    "i < length (bytes (dm_bus s))" "i + unat n \<le> length (bytes (dm_bus s))" "j < length (bytes (dm_bus s))" "j + unat n \<le> length (bytes (dm_bus s))"
  shows "\<exists>b buf. copy_block transport off n s = (Inr (), s\<lparr>dm_bus := b, dm_buffer := buf\<rparr>) \<and> length buf = 64 \<and> valid b \<and>
    bytes b = write_bytes j (take (unat n) (drop i (bytes (dm_bus s)))) (bytes (dm_bus s))"
proof -
  let ?m = "bytes (dm_bus s)"
  let ?d = "take (unat n) (drop i ?m)"
  have l: "length (take (unat n) (dm_buffer s)) = unat n" "length ?d = unat n" using assms(2,3,7) by simp_all
  obtain t1 where r: "transport (dm_bus s) \<lparr>tp_command = TLM_READ_COMMAND, tp_address = ucast (base + of_nat i),
      tp_data = take (unat n) (dm_buffer s), tp_response = TLM_OK_RESPONSE\<rparr> = Inr (dm_bus s, t1)" "tp_data t1 = ?d"
    using mem_read [OF assms(1,6), of "take (unat n) (dm_buffer s)"] assms(7) unfolding l by blast
  obtain b t2 where w: "transport (dm_bus s) \<lparr>tp_command = TLM_WRITE_COMMAND, tp_address = ucast (base + of_nat j), tp_data = ?d,
      tp_response = TLM_OK_RESPONSE\<rparr> = Inr (b, t2)" "tp_data t2 = ?d" "valid b" "bytes b = write_bytes j ?d ?m"
    using mem_write [OF assms(1,8), of ?d] assms(9) unfolding l by blast
  have "copy_block transport off n s = (Inr (), s\<lparr>dm_bus := b, dm_buffer := ?d @ drop (unat n) (dm_buffer s)\<rparr>)"
    using r w l assms(4,5) by (simp add: copy_block_def dma_transaction_def comb_defs)
  then show ?thesis
    using w l assms(2,3) by (intro exI [of _ b] exI [of _ "?d @ drop (unat n) (dm_buffer s)"]) simp
qed

lemma loop_copies:
  fixes s :: "('b, 'g) dma"
  assumes "valid (dm_bus s)" "length (dm_buffer s) = 64" "dm_src s + off = base + of_nat i" "dm_dst s + off = base + of_nat j"
    "i < length (bytes (dm_bus s))" "i + unat n \<le> length (bytes (dm_bus s))" "j < length (bytes (dm_bus s))" "j + unat n \<le> length (bytes (dm_bus s))"
    "i + unat n \<le> j \<or> j + unat n \<le> i"
  shows "\<exists>b buf. memcpy_loop transport off n s = (Inr (), s\<lparr>dm_bus := b, dm_buffer := buf\<rparr>) \<and> length buf = 64 \<and> valid b \<and>
    bytes b = write_bytes j (take (unat n) (drop i (bytes (dm_bus s)))) (bytes (dm_bus s))"
  using assms
proof (induction "unat n" arbitrary: off n i j s rule: less_induct)
  case less
  let ?m = "bytes (dm_bus s)"
  show ?case
  proof (cases "n > 64")
    case False
    then have "unat n \<le> 64" by (simp add: word_less_nat_alt)
    from copy_block_copies [OF less.prems(1,2) this less.prems(3-8)] False show ?thesis
      by (simp add: memcpy_loop.simps [of transport off n])
  next
    case True
    then have n: "unat n > 64" "unat (n - 64) = unat n - 64" by (simp_all add: word_less_nat_alt unat_sub word_le_nat_alt)
    have n64: "unat (64 :: u32) = 64" by simp
    from copy_block_copies [OF less.prems(1,2), of 64 off i j] less.prems n(1) obtain b buf where
      c: "copy_block transport off 64 s = (Inr (), s\<lparr>dm_bus := b, dm_buffer := buf\<rparr>)" "length buf = 64" "valid b"
        "bytes b = write_bytes j (take 64 (drop i ?m)) ?m"
      by auto
    let ?s = "s\<lparr>dm_bus := b, dm_buffer := buf\<rparr>"
    have l: "length (bytes b) = length ?m" using less.prems n(1) by (simp add: c(4) write_bytes_def)
    obtain b' buf' where c': "memcpy_loop transport (off + 64) (n - 64) ?s = (Inr (), ?s\<lparr>dm_bus := b', dm_buffer := buf'\<rparr>)"
      "length buf' = 64" "valid b'" "bytes b' = write_bytes (j + 64) (take (unat n - 64) (drop (i + 64) (bytes b))) (bytes b)"
    proof -
      have "dm_src s + (off + 64) = base + of_nat (i + 64)" "dm_dst s + (off + 64) = base + of_nat (j + 64)"
        using less.prems(3,4) by (simp_all add: add.assoc [symmetric])
      then show ?thesis
        using less.hyps [of "n - 64" ?s "off + 64" "i + 64" "j + 64"] less.prems c n l that by auto
    qed
    have "write_bytes (j + 64) (take (unat n - 64) (drop (i + 64) (bytes b))) (bytes b) = write_bytes j (take (unat n) (drop i ?m)) ?m"
      unfolding c(4) using less.prems(6,8,9) n(1) by (intro two_blocks) auto
    then show ?thesis using c c' True by (auto simp: memcpy_loop.simps [of transport off n] op_run)
  qed
qed

end

section \<open>A memory behind the bus\<close>

text \<open>The memory at port \<open>k\<close> has the addresses from \<open>start\<close> on, and no earlier port has one of them.\<close>

definition memory_at :: "nat \<Rightarrow> u32 \<Rightarrow> SimpleMemory SimpleBus \<Rightarrow> bool" where
  "memory_at k start b \<longleftrightarrow> k < length (bus_targets b) \<and> pm_start (bus_ports b ! k) = ucast start \<and>
     sm_inv (bus_targets b ! k) \<and> unat start + length (sm_data (bus_targets b ! k)) < 2 ^ 32 \<and>
     (\<forall>i < length (sm_data (bus_targets b ! k)). bus_decode b (ucast (start + of_nat i)) = int k)"

definition port_memory :: "nat \<Rightarrow> SimpleMemory SimpleBus \<Rightarrow> u8 list" where
  "port_memory k b = sm_data (bus_targets b ! k)"

lemma local_address:
  assumes "unat (start :: u32) + i < 2 ^ 32"
  shows "(ucast (ucast (start + of_nat i) - ucast start :: u64) :: u32) = of_nat i" "unat (of_nat i :: u32) = i"
proof -
  show i: "unat (of_nat i :: u32) = i" using assms by (simp add: unat_of_nat)
  have "unat (start + of_nat i) = unat start + i" using assms i by (simp add: unat_word_ariths)
  moreover have up: "unat (ucast x :: u64) = unat x" for x :: u32
    by (simp add: unsigned_ucast_eq take_bit_nat_eq_self less_le_trans [OF unsigned_less])
  ultimately have "unat (ucast (start + of_nat i) - ucast start :: u64) = i"
    by (subst unat_sub) (simp_all add: word_le_nat_alt up)
  then have "(ucast (start + of_nat i) - ucast start :: u64) = of_nat i"
    by (metis of_nat_unat ucast_id)
  then show "(ucast (ucast (start + of_nat i) - ucast start :: u64) :: u32) = of_nat i"
    using assms by (simp add: unsigned_of_nat take_bit_nat_eq_self)
qed

interpretation bus_memory: byte_memory
  "peripheral_write_transport (bus_transport sm_transport) l" "port_memory k" start "\<lambda>b. memory_at k start b \<and> \<not> bl_locked l"
  for l k start
proof unfold_locales
  fix b :: "SimpleMemory SimpleBus" and i and ds :: "u8 list"
  assume v: "memory_at k start b \<and> \<not> bl_locked l" and i: "i < length (port_memory k b)" "i + length ds \<le> length (port_memory k b)"
  let ?m = "bus_targets b ! k"
  have m: "k < length (bus_targets b)" "length (sm_data ?m) = unat (sm_size ?m)" "unat start + unat (sm_size ?m) < 2 ^ 32"
    "bus_decode b (ucast (start + of_nat i)) = int k" "pm_start (bus_ports b ! k) = ucast start"
    using v i by (auto simp: memory_at_def sm_inv_def port_memory_def)
  have s: "unat start + i < 2 ^ 32" "unat start + (i + length ds) < 2 ^ 32" using i m(2,3) by (simp_all add: port_memory_def)
  note loc = local_address [OF s(1)] local_address(2) [OF s(2)]
  have in_range: "(of_nat i :: u32) < sm_size ?m" "of_nat i + of_nat (length ds) \<le> sm_size ?m"
    using i m(2) loc(2,3) by (simp_all add: word_less_nat_alt word_le_nat_alt port_memory_def flip: of_nat_add)
  have bus: "peripheral_write_transport (bus_transport sm_transport) l b
      \<lparr>tp_command = c, tp_address = ucast (start + of_nat i), tp_data = ds, tp_response = TLM_OK_RESPONSE\<rparr> =
      (case sm_transport ?m \<lparr>tp_command = c, tp_address = ucast (start + of_nat i) - ucast start, tp_data = ds, tp_response = TLM_OK_RESPONSE\<rparr> of
         Inl e \<Rightarrow> Inl e
       | Inr (d, t) \<Rightarrow> if tp_response t = TLM_ADDRESS_ERROR_RESPONSE then Inl (RuntimeError ''unable to find target port for address'')
           else Inr (b\<lparr>bus_targets := (bus_targets b)[k := d]\<rparr>, t))" for c
    using m v by (auto simp: peripheral_write_transport_def wait_until_unlocked_def bus_transport_def global_to_local_def split: sum.splits)
  show "\<exists>t'. peripheral_write_transport (bus_transport sm_transport) l b
      \<lparr>tp_command = TLM_READ_COMMAND, tp_address = ucast (start + of_nat i), tp_data = ds, tp_response = TLM_OK_RESPONSE\<rparr> = Inr (b, t') \<and>
      tp_data t' = take (length ds) (drop i (port_memory k b))"
    using in_range i loc
    by (simp add: bus sm_transport_def sm_transport_dbg_def read_data_def memcpy_from_def port_memory_def)
  have d: "memory_at k start (b\<lparr>bus_targets := (bus_targets b)[k := ?m\<lparr>sm_data := ds'\<rparr>]\<rparr>)" if "length ds' = length (sm_data ?m)" for ds'
    using v that by (simp add: memory_at_def sm_inv_def)
  show "\<exists>b' t'. peripheral_write_transport (bus_transport sm_transport) l b
      \<lparr>tp_command = TLM_WRITE_COMMAND, tp_address = ucast (start + of_nat i), tp_data = ds, tp_response = TLM_OK_RESPONSE\<rparr> = Inr (b', t') \<and>
      tp_data t' = ds \<and> (memory_at k start b' \<and> \<not> bl_locked l) \<and> port_memory k b' = write_bytes i ds (port_memory k b)"
    using in_range i loc v m(1) d [of "take i (sm_data ?m) @ ds @ drop (i + length ds) (sm_data ?m)"]
    by (simp add: bus sm_transport_def sm_transport_dbg_def write_data_def memcpy_to_def port_memory_def write_bytes_def)
qed

text \<open>
  C40: a transfer of the DMA controller between blocks of a memory that do not overlap always ends: it writes the
  source block to the destination, whatever its length, changes no other byte of the memory, and
  raises the interrupt of the controller.
\<close>

theorem dma_copies_block:
  fixes s :: "(SimpleMemory SimpleBus, 'g) dma"
  assumes "memory_at k start (dm_bus s)" "\<not> bl_locked l" "length (dm_buffer s) = 64" "dm_op s = OP_MEMCPY"
    "dm_src s = start + of_nat i" "dm_dst s = start + of_nat j" "i < sz" "j < sz" "i + unat (dm_len s) \<le> sz" "j + unat (dm_len s) \<le> sz"
    "sz = length (port_memory k (dm_bus s))" "i + unat (dm_len s) \<le> j \<or> j + unat (dm_len s) \<le> i"
    "gateway (dm_irq_number s) (dm_plic s) = (Inr (), g)"
  shows "\<exists>s'. dma_run (peripheral_write_transport (bus_transport sm_transport) l) gateway s = (Inr (), s') \<and> dm_plic s' = g \<and>
    memory_at k start (dm_bus s') \<and>
    port_memory k (dm_bus s') = write_bytes j (take (unat (dm_len s)) (drop i (port_memory k (dm_bus s)))) (port_memory k (dm_bus s))"
proof -
  let ?s = "s\<lparr>dm_run_event := False\<rparr>"
  from bus_memory.loop_copies [of k start ?s l 0 i j "dm_len s"] assms obtain b buf where
    b: "memcpy_loop (peripheral_write_transport (bus_transport sm_transport) l) 0 (dm_len s) ?s = (Inr (), ?s\<lparr>dm_bus := b, dm_buffer := buf\<rparr>)"
      "memory_at k start b"
      "port_memory k b = write_bytes j (take (unat (dm_len s)) (drop i (port_memory k (dm_bus s)))) (port_memory k (dm_bus s))"
    by auto
  then show ?thesis
    using assms(4,13) by (intro exI [of _ "?s\<lparr>dm_bus := b, dm_buffer := buf, dm_plic := g\<rparr>"])
      (simp add: dma_run_def perform_memcpy_def op_run OP_MEMCPY_def OP_NOP_def)
qed

definition example_dma_bus :: "SimpleMemory SimpleBus" where
  "example_dma_bus = \<lparr>bus_ports = [\<lparr>pm_start = 0x80000000, pm_end = 0x80000007\<rparr>],
     bus_targets = [\<lparr>sm_data = [1, 2, 3, 4, 5, 6, 7, 8], sm_size = 8, sm_read_only = False\<rparr>]\<rparr>"

definition example_dma :: "(SimpleMemory SimpleBus, u32 list) dma" where
  "example_dma = (dma_init 4 (replicate 64 0) example_dma_bus [])\<lparr>dm_src := 0x80000001, dm_dst := 0x80000005, dm_len := 2, dm_op := OP_MEMCPY\<rparr>"

theorem dma_copies_block_witness:
  "\<exists>s'. dma_run (peripheral_write_transport (bus_transport sm_transport) initial_BusLock) (\<lambda>irq. modify_op ((#) irq)) example_dma = (Inr (), s') \<and>
     dm_plic s' = [4] \<and> port_memory 0 (dm_bus s') = [1, 2, 3, 4, 5, 2, 3, 8]"
proof -
  have dec: "bus_decode example_dma_bus (ucast (0x80000000 + of_nat i :: u32)) = 0" if "i < 8" for i
  proof -
    have "i \<in> {0, 1, 2, 3, 4, 5, 6, 7}" using that by auto
    then show ?thesis by (auto simp: bus_decode_def example_dma_bus_def pm_contains_def)
  qed
  have m: "memory_at 0 0x80000000 (dm_bus example_dma)" "length (port_memory 0 (dm_bus example_dma)) = 8"
    using dec by (auto simp: memory_at_def port_memory_def example_dma_def dma_init_def example_dma_bus_def sm_inv_def)
  show ?thesis
    using dma_copies_block [OF m(1), of initial_BusLock 1 5 8 "\<lambda>irq. modify_op ((#) irq)" "[4]"] m(2)
    by (auto simp: example_dma_def dma_init_def initial_BusLock_def modify_op_def port_memory_def example_dma_bus_def write_bytes_def)
qed

end
